(* ===== verification/Prelude.thy ===== *)
theory Prelude
  imports Main "HOL-Library.AList" "HOL-Library.Char_ord" "HOL-Library.List_Lexorder"
    "HOL-Library.Product_Lexorder" "HOL-Library.Multiset"
begin

text \<open>
  Shared ground of the development: Go's fixed-width integers, nil-able byte slices, maps and
  sorting, the \<open>(value, error)\<close> results of effectful calls, and the lemma collections the
  component theories use.

  Integers of the source are values of type \<open>int\<close>; every addition, subtraction and
  multiplication the source performs on them goes through \<open>wrap64\<close> or \<open>wrap32\<close>, which is
  Go's two's complement wrap-around (Go's \<open>int\<close> is 64 bits wide on the supported platforms).

  A Go map is an association list. Its order is the order in which a \<open>range\<close> loop happens
  to visit the map, so a theorem about every association list is a theorem about every
  iteration order the runtime may choose.
\<close>

named_theorems quiet_intros
  \<open>an effect leaves an observation of the state unchanged\<close>
named_theorems safe_intros
  \<open>an effect does not panic\<close>
named_theorems eff_simps
  \<open>running the combinators of effectful calls\<close>

section \<open>Machine integers\<close>

type_synonym int16 = int
type_synonym int32 = int
type_synonym int64 = int

definition wrap64 :: "int \<Rightarrow> int64" where
  "wrap64 x = (x + 9223372036854775808) mod 18446744073709551616 - 9223372036854775808"

definition wrap32 :: "int \<Rightarrow> int32" where
  "wrap32 x = (x + 2147483648) mod 4294967296 - 2147483648"

definition in_int64 :: "int \<Rightarrow> bool" where
  "in_int64 x \<longleftrightarrow> - 9223372036854775808 \<le> x \<and> x < 9223372036854775808"

definition in_int32 :: "int \<Rightarrow> bool" where
  "in_int32 x \<longleftrightarrow> - 2147483648 \<le> x \<and> x < 2147483648"

lemma wrap64_id [simp]: "in_int64 x \<Longrightarrow> wrap64 x = x"
  by (simp add: wrap64_def in_int64_def)

lemma wrap32_id [simp]: "in_int32 x \<Longrightarrow> wrap32 x = x"
  by (simp add: wrap32_def in_int32_def)

lemma in_int64_wrap64 [simp]: "in_int64 (wrap64 x)"
proof -
  have "0 \<le> (x + 9223372036854775808) mod 18446744073709551616"
    and "(x + 9223372036854775808) mod 18446744073709551616 < 18446744073709551616"
    by simp_all
  then show ?thesis unfolding in_int64_def wrap64_def by linarith
qed

lemma wrap64_wrap64_add [simp]: "wrap64 (wrap64 x + y) = wrap64 (x + y)"
  unfolding wrap64_def by (simp add: mod_simps algebra_simps)

lemma wrap64_add_wrap64 [simp]: "wrap64 (y + wrap64 x) = wrap64 (y + x)"
  using wrap64_wrap64_add [of x y] by (simp add: add.commute)

text \<open>Accumulating a sum in a 64-bit variable wraps the sum once.\<close>

definition sum64 :: "int list \<Rightarrow> int64" where
  "sum64 xs = fold (\<lambda>x acc. wrap64 (acc + x)) xs 0"

lemma fold_wrap64:
  "wrap64 a = a \<Longrightarrow> fold (\<lambda>x acc. wrap64 (acc + x)) xs a = wrap64 (a + sum_list xs)"
proof (induction xs arbitrary: a)
  case (Cons x xs)
  have "wrap64 (wrap64 (a + x)) = wrap64 (a + x)" by simp
  from Cons.IH [OF this] show ?case by (simp add: add.assoc)
qed simp

lemma sum64_eq: "sum64 xs = wrap64 (sum_list xs)"
  unfolding sum64_def by (subst fold_wrap64) (simp_all add: wrap64_def)

section \<open>Results of calls\<close>

text \<open>
  The dynamically typed values of Go's \<open>any\<close> that the source puts into error details; a \<open>float64\<close> is
  its bit pattern.
\<close>

datatype any = ANil | ABool bool | AInt int | AFloat nat | AStr string | AList "any list"
  | AMap "(string \<times> any) list" | AIntMap "(int \<times> int) list" | AStruct string "(string \<times> any) list"

type_synonym bytes = string
type_synonym time = int \<comment> \<open>nanoseconds since the Unix epoch\<close>

text \<open>The zero \<open>time.Time\<close>: January 1 of year 1.\<close>

definition zeroTime :: time where
  "zeroTime = - 62135596800 * 1000000000"

definition UnixMilli :: "time \<Rightarrow> int64" where
  "UnixMilli t = wrap64 (t div 1000000)"

definition fromUnixMilli :: "int64 \<Rightarrow> time" where
  "fromUnixMilli ms = ms * 1000000"

text \<open>
  \<open>Time.Sub\<close> saturates at the range of \<open>time.Duration\<close>; \<open>Duration.Milliseconds\<close> truncates towards
  zero, as Go's integer division does.
\<close>

definition time_Sub :: "time \<Rightarrow> time \<Rightarrow> int64" where
  "time_Sub t u = max (- 9223372036854775808) (min 9223372036854775807 (t - u))"

definition go_div :: "int \<Rightarrow> int \<Rightarrow> int" where
  "go_div a b = sgn a * sgn b * (\<bar>a\<bar> div \<bar>b\<bar>)"

definition Milliseconds :: "int64 \<Rightarrow> int64" where
  "Milliseconds d = go_div d 1000000"

text \<open>
  A Go map read with a default (\<open>m[k]\<close> on a missing key is the zero value), written and
  deleted from.
\<close>

definition mget :: "('k \<times> 'v) list \<Rightarrow> 'v \<Rightarrow> 'k \<Rightarrow> 'v" where
  "mget m z k = (case map_of m k of None \<Rightarrow> z | Some v \<Rightarrow> v)"

definition mhas :: "('k \<times> 'v) list \<Rightarrow> 'k \<Rightarrow> bool" where
  "mhas m k \<longleftrightarrow> map_of m k \<noteq> None"

abbreviation mput :: "'k \<Rightarrow> 'v \<Rightarrow> ('k \<times> 'v) list \<Rightarrow> ('k \<times> 'v) list" where
  "mput \<equiv> AList.update"

abbreviation mdel :: "'k \<Rightarrow> ('k \<times> 'v) list \<Rightarrow> ('k \<times> 'v) list" where
  "mdel \<equiv> AList.delete"

definition mkeys :: "('k \<times> 'v) list \<Rightarrow> 'k list" where
  "mkeys m = map fst m"

definition wf_map :: "('k \<times> 'v) list \<Rightarrow> bool" where
  "wf_map m \<longleftrightarrow> distinct (map fst m)"

lemma mget_put [simp]: "mget (mput k v m) z k' = (if k = k' then v else mget m z k')"
  by (simp add: mget_def update_conv')

lemma mhas_put [simp]: "mhas (mput k v m) k' = (k = k' \<or> mhas m k')"
  by (simp add: mhas_def update_conv')

lemma map_of_mdel [simp]: "map_of (mdel k m) k' = (if k = k' then None else map_of m k')"
  by (simp add: delete_conv')

lemma wf_map_put [simp]: "wf_map m \<Longrightarrow> wf_map (mput k v m)"
  by (simp add: wf_map_def distinct_update)

lemma wf_map_del [simp]: "wf_map m \<Longrightarrow> wf_map (mdel k m)"
  by (simp add: wf_map_def distinct_delete)

lemma wf_map_Nil [simp]: "wf_map []"
  by (simp add: wf_map_def)

lemma mhas_in_keys: "mhas m k \<longleftrightarrow> k \<in> set (mkeys m)"
  by (simp add: mhas_def mkeys_def map_of_eq_None_iff)

lemma set_mkeys_eq: "map_of m = map_of m' \<Longrightarrow> set (mkeys m) = set (mkeys m')"
  by (metis mkeys_def dom_map_of_conv_image_fst list.set_map)

lemma distinct_mkeys: "wf_map m \<Longrightarrow> distinct (mkeys m)"
  by (simp add: mkeys_def wf_map_def)

section \<open>Sorting\<close>

text \<open>
  \<open>sort.Strings\<close> is \<open>sort\<close>; \<open>sort.Slice\<close> with a comparison of keys is \<open>sort_key\<close>. Go's
  \<open>sort.Slice\<close> does not promise stability: with equal keys the model takes the stable order.
  Where the keys are distinct the result is the only sorted one, whatever the input order.
\<close>

lemma sort_eq_of_set_eq:
  fixes xs ys :: "'a::linorder list"
  assumes "distinct xs" "distinct ys" "set xs = set ys"
  shows "sort xs = sort ys"
  by (metis assms mset_eq_setD set_eq_iff_mset_eq_distinct properties_for_sort mset_sort sorted_sort)

lemma sort_key_perm_distinct:
  fixes f :: "'a \<Rightarrow> 'k::linorder"
  assumes "mset xs = mset ys" "distinct (map f xs)"
  shows "sort_key f xs = sort_key f ys"
proof (rule properties_for_sort_key)
  show "mset (sort_key f ys) = mset xs" using assms(1) by simp
  have inj: "inj_on f (set xs)" using assms(2) by (simp add: distinct_map)
  show "\<And>k. k \<in> set (sort_key f ys) \<Longrightarrow>
      filter (\<lambda>x. f k = f x) (sort_key f ys) = filter (\<lambda>x. f k = f x) xs"
  proof -
    fix k assume "k \<in> set (sort_key f ys)"
    then have k: "k \<in> set xs" using assms(1) by (metis mset_eq_setD set_sort)
    have d: "distinct xs" using assms(2) by (simp add: distinct_map)
    have d': "distinct (sort_key f ys)"
      using d assms(1) by (metis distinct_sort mset_eq_imp_distinct_iff)
    have one: "filter (\<lambda>x. f k = f x) zs = [k]"
      if "distinct zs" "set zs = set xs" for zs
    proof -
      have "set (filter (\<lambda>x. f k = f x) zs) = {k}"
        using inj k that(2) by (auto dest: inj_onD)
      moreover have "distinct (filter (\<lambda>x. f k = f x) zs)" using that(1) by simp
      ultimately show ?thesis
        by (metis distinct_card card.insert card.empty empty_iff finite.emptyI length_0_conv
            length_Suc_conv list.set_intros(1) list.simps(15) One_nat_def singletonD)
    qed
    have "set (sort_key f ys) = set xs" using assms(1) by (metis mset_eq_setD set_sort)
    then show "filter (\<lambda>x. f k = f x) (sort_key f ys) = filter (\<lambda>x. f k = f x) xs"
      using one d d' by metis
  qed
  show "sorted (map f (sort_key f ys))" by simp
qed

end
