(* ===== verification/GoErrors.thy ===== *)
theory GoErrors
  imports Prelude
begin

text \<open>
  The error values of the gateway (\<^verbatim>\<open>internal/kafka/errors.go\<close>,
  \<^verbatim>\<open>internal/service/core/errors.go\<close>) and the effects that return them.

  Go's \<open>error\<close> is an open interface; the values the source makes are the port's
  \<open>*kafka.Error\<close>, the services' \<open>*core.PolicyError\<close>, an error wrapped by \<open>fmt.Errorf\<close> with
  \<open>%w\<close> behind a prefix, and plain messages. A call returns \<open>Ok v\<close> (nil error), \<open>Err e\<close>, or
  \<open>Panic\<close> (the Go runtime panic of an index out of range), which no \<open>if err != nil\<close> catches.
\<close>

section \<open>Formatting\<close>

fun digits :: "nat \<Rightarrow> string" where
  "digits n = (if n < 10 then [char_of (48 + n)] else digits (n div 10) @ [char_of (48 + n mod 10)])"

declare digits.simps [simp del]

text \<open>\<open>strconv.Itoa\<close>, \<open>strconv.FormatInt\<close> in base 10, and the verb \<open>%d\<close>.\<close>

definition itoa :: "int \<Rightarrow> string" where
  "itoa i = (if i < 0 then ''-'' @ digits (nat (- i)) else digits (nat i))"

definition hexdigit :: "nat \<Rightarrow> char" where
  "hexdigit n = ''0123456789abcdef'' ! (n mod 16)"

text \<open>
  The verb \<open>%q\<close>: a double-quoted string. Bytes from 128 up are kept as they are, which is
  what \<open>strconv.Quote\<close> does with printable non-ASCII text.
\<close>

definition quote_char :: "char \<Rightarrow> string" where
  "quote_char c = (let n = (of_char c :: nat) in
     if n = 34 then [char_of (92::nat), char_of (34::nat)]
     else if n = 92 then [char_of (92::nat), char_of (92::nat)]
     else if n = 7 then char_of (92::nat) # ''a'' else if n = 8 then char_of (92::nat) # ''b''
     else if n = 12 then char_of (92::nat) # ''f'' else if n = 10 then char_of (92::nat) # ''n''
     else if n = 13 then char_of (92::nat) # ''r'' else if n = 9 then char_of (92::nat) # ''t''
     else if n = 11 then char_of (92::nat) # ''v''
     else if n < 32 \<or> n = 127 then char_of (92::nat) # ''x'' @ [hexdigit (n div 16), hexdigit n]
     else [c])"

definition quoted :: "string \<Rightarrow> string" where
  "quoted s = [char_of (34::nat)] @ concat (map quote_char s) @ [char_of (34::nat)]"

section \<open>Kinds and codes\<close>

datatype kind = KindBroker | KindNotFound | KindAlreadyExists | KindGroupActive
  | KindReassignmentInProgress | KindTimeout | KindUnavailable | KindUnsupported

fun kind_String :: "kind \<Rightarrow> string" where
  "kind_String KindBroker = ''broker''"
| "kind_String KindNotFound = ''not_found''"
| "kind_String KindAlreadyExists = ''already_exists''"
| "kind_String KindGroupActive = ''group_active''"
| "kind_String KindReassignmentInProgress = ''reassignment_in_progress''"
| "kind_String KindTimeout = ''timeout''"
| "kind_String KindUnavailable = ''unavailable''"
| "kind_String KindUnsupported = ''unsupported''"

definition Kinds :: "kind list" where
  "Kinds = [KindBroker, KindNotFound, KindAlreadyExists, KindGroupActive,
     KindReassignmentInProgress, KindTimeout, KindUnavailable, KindUnsupported]"

datatype code = TierForbidden | ReadOnlyMode | OperationDisabled | DataPlaneLocked
  | ConfirmationMismatch | BoundExceeded | Validation | InvalidRegex | InvalidJSONPath
  | BulkValidationFailed | AuditUnavailable | PayloadTooLarge | PartitionMismatch | ReplayFailed

fun code_String :: "code \<Rightarrow> string" where
  "code_String TierForbidden = ''TIER_FORBIDDEN''"
| "code_String ReadOnlyMode = ''READ_ONLY_MODE''"
| "code_String OperationDisabled = ''OPERATION_DISABLED''"
| "code_String DataPlaneLocked = ''DATA_PLANE_LOCKED''"
| "code_String ConfirmationMismatch = ''CONFIRMATION_MISMATCH''"
| "code_String BoundExceeded = ''BOUND_EXCEEDED''"
| "code_String Validation = ''VALIDATION_FAILED''"
| "code_String InvalidRegex = ''INVALID_REGEX''"
| "code_String InvalidJSONPath = ''INVALID_JSONPATH''"
| "code_String BulkValidationFailed = ''BULK_VALIDATION_FAILED''"
| "code_String AuditUnavailable = ''AUDIT_UNAVAILABLE''"
| "code_String PayloadTooLarge = ''PAYLOAD_TOO_LARGE''"
| "code_String PartitionMismatch = ''PARTITION_MISMATCH''"
| "code_String ReplayFailed = ''KAFKA_ERROR''"

definition Codes :: "code list" where
  "Codes = [TierForbidden, ReadOnlyMode, OperationDisabled, DataPlaneLocked,
     ConfirmationMismatch, BoundExceeded, Validation, InvalidRegex, InvalidJSONPath,
     BulkValidationFailed, AuditUnavailable, PayloadTooLarge, PartitionMismatch, ReplayFailed]"

section \<open>Error values\<close>

record kafka_fields =
  ke_Kind :: kind
  ke_Resource :: string
  ke_KafkaCode :: int16
  ke_KafkaName :: string

record policy_fields =
  pe_Code :: code
  pe_Message :: string
  pe_Details :: "(string \<times> any) list"

datatype error =
    KafkaError kafka_fields "error option" \<comment> \<open>\<open>*kafka.Error\<close> with its \<open>Cause\<close>\<close>
  | PolicyError policy_fields \<comment> \<open>\<open>*core.PolicyError\<close>\<close>
  | WrapError string error \<comment> \<open>\<open>fmt.Errorf("prefix%w", err)\<close>\<close>
  | PlainError string \<comment> \<open>\<open>errors.New\<close>, \<open>fmt.Errorf\<close> without \<open>%w\<close>\<close>

definition kafkaErr :: "kind \<Rightarrow> string \<Rightarrow> error" where
  "kafkaErr k res = KafkaError \<lparr>ke_Kind = k, ke_Resource = res, ke_KafkaCode = 0, ke_KafkaName = []\<rparr> None"

definition policyErr :: "code \<Rightarrow> string \<Rightarrow> error" where
  "policyErr c msg = PolicyError \<lparr>pe_Code = c, pe_Message = msg, pe_Details = []\<rparr>"

definition policy_Error :: "policy_fields \<Rightarrow> string" where
  "policy_Error p =
     (if pe_Message p = [] then ''policy: '' @ code_String (pe_Code p)
      else ''policy: '' @ code_String (pe_Code p) @ '': '' @ pe_Message p)"

fun err_Error :: "error \<Rightarrow> string" where
  "err_Error (KafkaError k cause) =
     ''kafka: '' @ kind_String (ke_Kind k)
     @ (if ke_Resource k \<noteq> [] then '' ('' @ ke_Resource k @ '')'' else [])
     @ (if ke_KafkaName k \<noteq> [] then '' ['' @ ke_KafkaName k @ ''/'' @ itoa (ke_KafkaCode k) @ '']'' else [])
     @ (case cause of None \<Rightarrow> [] | Some c \<Rightarrow> '': '' @ err_Error c)"
| "err_Error (PolicyError p) = policy_Error p"
| "err_Error (WrapError prefix e) = prefix @ err_Error e"
| "err_Error (PlainError msg) = msg"

text \<open>\<open>errors.As\<close> on the two error types: the first match along the chain of \<open>Unwrap\<close>.\<close>

fun as_kafka :: "error \<Rightarrow> kafka_fields option" where
  "as_kafka (KafkaError k cause) = Some k"
| "as_kafka (PolicyError p) = None"
| "as_kafka (WrapError prefix e) = as_kafka e"
| "as_kafka (PlainError msg) = None"

fun as_policy :: "error \<Rightarrow> policy_fields option" where
  "as_policy (KafkaError k cause) = (case cause of None \<Rightarrow> None | Some c \<Rightarrow> as_policy c)"
| "as_policy (PolicyError p) = Some p"
| "as_policy (WrapError prefix e) = as_policy e"
| "as_policy (PlainError msg) = None"

definition KindOf :: "error \<Rightarrow> kind option" where
  "KindOf e = map_option ke_Kind (as_kafka e)"

definition IsKind :: "error \<Rightarrow> kind \<Rightarrow> bool" where
  "IsKind e k \<longleftrightarrow> KindOf e = Some k"

definition CodeOf :: "error \<Rightarrow> code option" where
  "CodeOf e = map_option pe_Code (as_policy e)"

definition IsCode :: "error \<Rightarrow> code \<Rightarrow> bool" where
  "IsCode e c \<longleftrightarrow> CodeOf e = Some c"

lemma KindOf_kafkaErr [simp]: "KindOf (kafkaErr k res) = Some k"
  by (simp add: KindOf_def kafkaErr_def)

lemma IsKind_kafkaErr [simp]: "IsKind (kafkaErr k res) k' \<longleftrightarrow> k = k'"
  by (simp add: IsKind_def)

lemma CodeOf_kafkaErr [simp]: "CodeOf (kafkaErr k res) = None"
  by (simp add: CodeOf_def kafkaErr_def)

lemma CodeOf_policyErr [simp]: "CodeOf (policyErr c msg) = Some c"
  by (simp add: CodeOf_def policyErr_def)

lemma KindOf_policyErr [simp]: "KindOf (policyErr c msg) = None"
  by (simp add: KindOf_def policyErr_def)

lemma IsCode_policyErr [simp]: "IsCode (policyErr c msg) c' \<longleftrightarrow> c = c'"
  by (simp add: IsCode_def)

lemma Kinds_complete: "k \<in> set Kinds"
  by (cases k) (simp_all add: Kinds_def)

lemma Codes_complete: "c \<in> set Codes"
  by (cases c) (simp_all add: Codes_def)

section \<open>Effects\<close>

datatype 'a res = Ok 'a | Err error | Panic

type_synonym ('s, 'a) eff = "'s \<Rightarrow> 'a res \<times> 's"

definition ret :: "'a \<Rightarrow> ('s, 'a) eff" where
  "ret a s = (Ok a, s)"

definition fail :: "error \<Rightarrow> ('s, 'a) eff" where
  "fail e s = (Err e, s)"

definition panic :: "('s, 'a) eff" where
  "panic s = (Panic, s)"

text \<open>A call that cannot fail, such as reading the clock.\<close>

definition act :: "('s \<Rightarrow> 'a \<times> 's) \<Rightarrow> ('s, 'a) eff" where
  "act f s = (case f s of (a, s') \<Rightarrow> (Ok a, s'))"

text \<open>\<open>x, err := m(); if err != nil { return zero, err }\<close> and then the rest of the function.\<close>

definition onOk :: "('s, 'a) eff \<Rightarrow> ('a \<Rightarrow> ('s, 'b) eff) \<Rightarrow> ('s, 'b) eff" where
  "onOk m k s = (case m s of (Ok a, s') \<Rightarrow> k a s' | (Err e, s') \<Rightarrow> (Err e, s') | (Panic, s') \<Rightarrow> (Panic, s'))"

text \<open>A call whose error the caller handles itself: only a panic passes through.\<close>

definition attempt :: "('s, 'a) eff \<Rightarrow> (error + 'a \<Rightarrow> ('s, 'b) eff) \<Rightarrow> ('s, 'b) eff" where
  "attempt m k s = (case m s of (Ok a, s') \<Rightarrow> k (Inr a) s' | (Err e, s') \<Rightarrow> k (Inl e) s' | (Panic, s') \<Rightarrow> (Panic, s'))"

text \<open>\<open>xs[0]\<close>, which panics on an empty slice.\<close>

definition first_of :: "'a list \<Rightarrow> ('s, 'a) eff" where
  "first_of xs = (case xs of [] \<Rightarrow> panic | x # _ \<Rightarrow> ret x)"

text \<open>A \<open>for\<close> loop over a slice that accumulates and returns on the first error.\<close>

fun forEach :: "'a list \<Rightarrow> ('a \<Rightarrow> 'b \<Rightarrow> ('s, 'b) eff) \<Rightarrow> 'b \<Rightarrow> ('s, 'b) eff" where
  "forEach [] body acc = ret acc"
| "forEach (x # xs) body acc = onOk (body x acc) (\<lambda>acc'. forEach xs body acc')"

lemma ret_run [eff_simps]: "ret a s = (Ok a, s)"
  by (simp add: ret_def)

lemma fail_run [eff_simps]: "fail e s = (Err e, s)"
  by (simp add: fail_def)

lemma panic_run [eff_simps]: "panic s = (Panic, s)"
  by (simp add: panic_def)

lemma act_run [eff_simps]: "act f s = (Ok (fst (f s)), snd (f s))"
  by (simp add: act_def split: prod.splits)

lemma onOk_Ok [eff_simps]: "m s = (Ok a, s') \<Longrightarrow> onOk m k s = k a s'"
  by (simp add: onOk_def)

lemma onOk_Err [eff_simps]: "m s = (Err e, s') \<Longrightarrow> onOk m k s = (Err e, s')"
  by (simp add: onOk_def)

lemma onOk_Panic [eff_simps]: "m s = (Panic, s') \<Longrightarrow> onOk m k s = (Panic, s')"
  by (simp add: onOk_def)

lemma attempt_Ok [eff_simps]: "m s = (Ok a, s') \<Longrightarrow> attempt m k s = k (Inr a) s'"
  by (simp add: attempt_def)

lemma attempt_Err [eff_simps]: "m s = (Err e, s') \<Longrightarrow> attempt m k s = k (Inl e) s'"
  by (simp add: attempt_def)

lemma attempt_Panic [eff_simps]: "m s = (Panic, s') \<Longrightarrow> attempt m k s = (Panic, s')"
  by (simp add: attempt_def)

lemma onOk_eq_Ok:
  "onOk m k s = (Ok b, t) \<longleftrightarrow> (\<exists>a s'. m s = (Ok a, s') \<and> k a s' = (Ok b, t))"
  by (auto simp: onOk_def split: prod.splits res.splits)

lemma onOk_ret [simp]: "onOk (ret a) k = k a"
  by (simp add: onOk_def ret_def fun_eq_iff)

lemma onOk_fail [simp]: "onOk (fail e) k = fail e"
  by (simp add: onOk_def fail_def fun_eq_iff)

lemma onOk_panic [simp]: "onOk panic k = panic"
  by (simp add: onOk_def panic_def fun_eq_iff)

lemma first_of_simps [simp]: "first_of [] = panic" "first_of (x # xs) = ret x"
  by (simp_all add: first_of_def)

subsection \<open>Quiet effects\<close>

text \<open>An effect is quiet for an observation of the state when running it does not change it.\<close>

definition quiet :: "('s \<Rightarrow> 'v) \<Rightarrow> ('s, 'a) eff \<Rightarrow> bool" where
  "quiet view m \<longleftrightarrow> (\<forall>s. view (snd (m s)) = view s)"

lemma quietD: "quiet view m \<Longrightarrow> m s = (r, s') \<Longrightarrow> view s' = view s"
  by (metis quiet_def snd_conv)

lemma quiet_ret [quiet_intros]: "quiet view (ret a)"
  by (simp add: quiet_def ret_def)

lemma quiet_fail [quiet_intros]: "quiet view (fail e)"
  by (simp add: quiet_def fail_def)

lemma quiet_panic [quiet_intros]: "quiet view panic"
  by (simp add: quiet_def panic_def)

lemma quiet_act [quiet_intros]: "(\<And>s. view (snd (f s)) = view s) \<Longrightarrow> quiet view (act f)"
  by (simp add: quiet_def act_run)

lemma quiet_onOk [quiet_intros]:
  assumes "quiet view m" "\<And>a. quiet view (k a)"
  shows "quiet view (onOk m k)"
proof -
  have "view (snd (onOk m k s)) = view s" for s
  proof (cases "m s")
    case (Pair r s')
    with assms show ?thesis
      by (cases r) (auto simp: onOk_def quiet_def dest: quietD [OF assms(1)])
  qed
  then show ?thesis by (simp add: quiet_def)
qed

lemma quiet_attempt [quiet_intros]:
  assumes "quiet view m" "\<And>r. quiet view (k r)"
  shows "quiet view (attempt m k)"
proof -
  have "view (snd (attempt m k s)) = view s" for s
  proof (cases "m s")
    case (Pair r s')
    with assms show ?thesis
      by (cases r) (auto simp: attempt_def quiet_def dest: quietD [OF assms(1)])
  qed
  then show ?thesis by (simp add: quiet_def)
qed

lemma quiet_first_of [quiet_intros]: "quiet view (first_of xs)"
  by (cases xs) (auto intro: quiet_intros)

lemma quiet_forEach [quiet_intros]:
  "(\<And>x acc. quiet view (body x acc)) \<Longrightarrow> quiet view (forEach xs body acc)"
  by (induction xs arbitrary: acc) (auto intro: quiet_intros)

lemma quiet_if [quiet_intros]:
  "(c \<Longrightarrow> quiet view m) \<Longrightarrow> (\<not> c \<Longrightarrow> quiet view m') \<Longrightarrow> quiet view (if c then m else m')"
  by simp

lemma quiet_case_option [quiet_intros]:
  "quiet view m \<Longrightarrow> (\<And>a. quiet view (k a)) \<Longrightarrow> quiet view (case x of None \<Rightarrow> m | Some a \<Rightarrow> k a)"
  by (cases x) simp_all

lemma quiet_case_sum [quiet_intros]:
  "(\<And>e. quiet view (h e)) \<Longrightarrow> (\<And>a. quiet view (k a)) \<Longrightarrow> quiet view (case x of Inl e \<Rightarrow> h e | Inr a \<Rightarrow> k a)"
  by (cases x) simp_all

lemma quiet_case_prod [quiet_intros]:
  "(\<And>a b. quiet view (k a b)) \<Longrightarrow> quiet view (case x of (a, b) \<Rightarrow> k a b)"
  by (cases x) simp

lemma quiet_case_list [quiet_intros]:
  "quiet view m \<Longrightarrow> (\<And>a b. quiet view (k a b)) \<Longrightarrow> quiet view (case x of [] \<Rightarrow> m | a # b \<Rightarrow> k a b)"
  by (cases x) simp_all

subsection \<open>Effects that do not panic\<close>

definition safe :: "('s, 'a) eff \<Rightarrow> bool" where
  "safe m \<longleftrightarrow> (\<forall>s. fst (m s) \<noteq> Panic)"

lemma safeD: "safe m \<Longrightarrow> m s = (r, s') \<Longrightarrow> r \<noteq> Panic"
  by (metis safe_def fst_conv)

lemma safe_ret [safe_intros]: "safe (ret a)"
  by (simp add: safe_def ret_def)

lemma safe_fail [safe_intros]: "safe (fail e)"
  by (simp add: safe_def fail_def)

lemma safe_act [safe_intros]: "safe (act f)"
  by (simp add: safe_def act_run)

lemma safe_onOk [safe_intros]:
  assumes "safe m" "\<And>a. safe (k a)"
  shows "safe (onOk m k)"
  using assms unfolding safe_def onOk_def
  by (auto split: prod.splits res.splits) (metis fst_conv)+

text \<open>As \<open>safe_onOk\<close>, when the continuation needs what the first effect returned.\<close>

lemma safe_onOk_res:
  assumes "safe m" "\<And>s a s'. m s = (Ok a, s') \<Longrightarrow> safe (k a)"
  shows "safe (onOk m k)"
  unfolding safe_def
proof
  fix s
  obtain r t where "m s = (r, t)" by fastforce
  with assms show "fst (onOk m k s) \<noteq> Panic"
    by (cases r) (auto simp: onOk_def safe_def dest: safeD [OF assms(1)])
qed

lemma safe_attempt [safe_intros]:
  assumes "safe m" "\<And>r. safe (k r)"
  shows "safe (attempt m k)"
  using assms unfolding safe_def attempt_def
  by (auto split: prod.splits res.splits) (metis fst_conv)+

lemma safe_first_of [safe_intros]: "xs \<noteq> [] \<Longrightarrow> safe (first_of xs)"
  by (cases xs) (simp_all add: safe_ret)

lemma safe_forEach [safe_intros]:
  "(\<And>x acc. safe (body x acc)) \<Longrightarrow> safe (forEach xs body acc)"
  by (induction xs arbitrary: acc) (auto intro: safe_intros)

lemma safe_if [safe_intros]:
  "(c \<Longrightarrow> safe m) \<Longrightarrow> (\<not> c \<Longrightarrow> safe m') \<Longrightarrow> safe (if c then m else m')"
  by simp

lemma safe_case_option [safe_intros]:
  "(x = None \<Longrightarrow> safe m) \<Longrightarrow> (\<And>a. x = Some a \<Longrightarrow> safe (k a)) \<Longrightarrow> safe (case x of None \<Rightarrow> m | Some a \<Rightarrow> k a)"
  by (cases x) simp_all

lemma safe_case_sum [safe_intros]:
  "(\<And>e. x = Inl e \<Longrightarrow> safe (h e)) \<Longrightarrow> (\<And>a. x = Inr a \<Longrightarrow> safe (k a)) \<Longrightarrow> safe (case x of Inl e \<Rightarrow> h e | Inr a \<Rightarrow> k a)"
  by (cases x) simp_all

lemma safe_case_prod [safe_intros]:
  "(\<And>a b. safe (k a b)) \<Longrightarrow> safe (case x of (a, b) \<Rightarrow> k a b)"
  by (cases x) simp

end
