(* ===== verification/TextParse.thy ===== *)
theory TextParse
  imports GoErrors
begin

text \<open>
  The functions of Go's \<open>strings\<close> and \<open>strconv\<close> that parse configuration values, headers and query
  parameters: prefixes and suffixes, \<open>Split\<close>, \<open>TrimSpace\<close> with the Unicode white space of
  \<open>unicode.IsSpace\<close>, and \<open>ParseInt\<close> in base 10 with the 64-bit range check. \<open>strings.ToLower\<close> and
  \<open>strings.ToUpper\<close> are exact on ASCII text; a text with other bytes is left as it is.
\<close>

section \<open>Prefixes, suffixes and splitting\<close>

definition HasPrefix :: "string \<Rightarrow> string \<Rightarrow> bool" where
  "HasPrefix s p \<longleftrightarrow> take (length p) s = p"

definition TrimPrefix :: "string \<Rightarrow> string \<Rightarrow> string" where
  "TrimPrefix s p = (if HasPrefix s p then drop (length p) s else s)"

definition CutPrefix :: "string \<Rightarrow> string \<Rightarrow> string option" where
  "CutPrefix s p = (if HasPrefix s p then Some (drop (length p) s) else None)"

definition HasSuffix :: "string \<Rightarrow> string \<Rightarrow> bool" where
  "HasSuffix s p \<longleftrightarrow> length p \<le> length s \<and> drop (length s - length p) s = p"

definition TrimSuffix :: "string \<Rightarrow> string \<Rightarrow> string" where
  "TrimSuffix s p = (if HasSuffix s p then take (length s - length p) s else s)"

lemma HasPrefix_append [simp]: "HasPrefix (p @ s) p"
  by (simp add: HasPrefix_def)

lemma TrimPrefix_append [simp]: "TrimPrefix (p @ s) p = s"
  by (simp add: TrimPrefix_def)

lemma HasSuffix_append [simp]: "HasSuffix (s @ p) p"
  by (simp add: HasSuffix_def)

lemma TrimSuffix_append [simp]: "TrimSuffix (s @ p) p = s"
  by (simp add: TrimSuffix_def)

text \<open>\<open>strings.Split\<close> at a single byte.\<close>

fun Split :: "char \<Rightarrow> string \<Rightarrow> string list" where
  "Split sep [] = [[]]"
| "Split sep (c # cs) =
    (if c = sep then [] # Split sep cs
     else (case Split sep cs of [] \<Rightarrow> [[c]] | w # ws \<Rightarrow> (c # w) # ws))"

lemma Split_nonempty [simp]: "Split sep s \<noteq> []"
  by (induction sep s rule: Split.induct) (auto split: list.split)

lemma Split_plain: "sep \<notin> set s \<Longrightarrow> Split sep s = [s]"
  by (induction sep s rule: Split.induct) auto

lemma Split_append: "sep \<notin> set s \<Longrightarrow> Split sep (s @ sep # t) = s # Split sep t"
  by (induction s) auto

section \<open>Letter case\<close>

definition is_ascii :: "string \<Rightarrow> bool" where
  "is_ascii s \<longleftrightarrow> list_all (\<lambda>c. (of_char c :: nat) < 128) s"

definition lower_char :: "char \<Rightarrow> char" where
  "lower_char c = (let n = (of_char c :: nat) in if 65 \<le> n \<and> n \<le> 90 then char_of (n + 32) else c)"

definition upper_char :: "char \<Rightarrow> char" where
  "upper_char c = (let n = (of_char c :: nat) in if 97 \<le> n \<and> n \<le> 122 then char_of (n - 32) else c)"

definition ToLower :: "string \<Rightarrow> string" where
  "ToLower s = (if is_ascii s then map lower_char s else s)"

definition ToUpper :: "string \<Rightarrow> string" where
  "ToUpper s = (if is_ascii s then map upper_char s else s)"

section \<open>White space\<close>

definition byte_str :: "nat list \<Rightarrow> string" where
  "byte_str = map char_of"

text \<open>The UTF-8 encodings of the code points with \<open>unicode.IsSpace\<close>.\<close>

definition unicode_spaces :: "string list" where
  "unicode_spaces = map byte_str
    ([[9], [10], [11], [12], [13], [32], [194, 133], [194, 160], [225, 154, 128]]
     @ map (\<lambda>b. [226, 128, b]) [128..<139] @ [[226, 128, 168], [226, 128, 169], [226, 128, 175],
       [226, 129, 159], [227, 128, 128]])"

function trim_prefixes :: "string list \<Rightarrow> string \<Rightarrow> string" where
  "trim_prefixes ws s =
    (case find (\<lambda>w. w \<noteq> [] \<and> take (length w) s = w) ws of
       None \<Rightarrow> s
     | Some w \<Rightarrow> trim_prefixes ws (drop (length w) s))"
  by pat_completeness auto

termination
proof (relation "measure (\<lambda>(ws, s). length s)")
  fix ws s and w :: string
  assume "find (\<lambda>w. w \<noteq> [] \<and> take (length w) s = w) ws = Some w"
  then have "w \<noteq> []" "take (length w) s = w" by (auto simp: find_Some_iff)
  moreover have "length (take (length w) s) \<le> length s" by simp
  ultimately have "0 < length w" "length w \<le> length s" by simp_all
  then show "((ws, drop (length w) s), ws, s) \<in> measure (\<lambda>(ws, s). length s)"
    by (cases w) simp_all
qed simp

declare trim_prefixes.simps [simp del]

definition TrimSpace :: "string \<Rightarrow> string" where
  "TrimSpace s = rev (trim_prefixes (map rev unicode_spaces) (rev (trim_prefixes unicode_spaces s)))"

lemma trim_prefixes_stop: "\<forall>w \<in> set ws. w = [] \<or> take (length w) s \<noteq> w \<Longrightarrow> trim_prefixes ws s = s"
  by (subst trim_prefixes.simps) (auto simp: find_Some_iff split: option.split)

lemma TrimSpace_Nil [simp]: "TrimSpace [] = []"
proof -
  have "trim_prefixes ws [] = []" for ws by (rule trim_prefixes_stop) auto
  then show ?thesis by (simp add: TrimSpace_def)
qed

section \<open>Decimal integers\<close>

definition is_digit :: "char \<Rightarrow> bool" where
  "is_digit c \<longleftrightarrow> 48 \<le> (of_char c :: nat) \<and> (of_char c :: nat) \<le> 57"

definition decimal :: "string \<Rightarrow> nat" where
  "decimal s = fold (\<lambda>c n. 10 * n + (of_char c - 48)) s 0"

text \<open>\<open>strconv.ParseInt(s, 10, 64)\<close>; \<open>None\<close> is a syntax or a range error.\<close>

definition ParseInt :: "string \<Rightarrow> int64 option" where
  "ParseInt s =
    (let (neg, ds) = (case s of
         c # cs \<Rightarrow> if c = CHR ''-'' then (True, cs) else if c = CHR ''+'' then (False, cs) else (False, s)
       | [] \<Rightarrow> (False, []));
         v = (if neg then - int (decimal ds) else int (decimal ds))
     in if ds \<noteq> [] \<and> list_all is_digit ds \<and> in_int64 v then Some v else None)"

lemma decimal_snoc: "decimal (s @ [c]) = 10 * decimal s + (of_char c - 48)"
  by (simp add: decimal_def)

lemma digits_decimal: "decimal (digits n) = n \<and> list_all is_digit (digits n) \<and> digits n \<noteq> []"
proof (induction n rule: digits.induct)
  case (1 n)
  have c: "of_char (char_of (48 + k) :: char) = (48 + k :: nat)" if "k < 10" for k :: nat
    using that by simp
  show ?case
  proof (cases "n < 10")
    case True
    then show ?thesis
      by (subst (1 2 3) digits.simps) (simp add: decimal_def is_digit_def c)
  next
    case False
    have m: "n mod 10 < 10" by simp
    have d: "is_digit (char_of (48 + n mod 10))" using c [OF m] m by (simp add: is_digit_def)
    from False 1 [OF False] show ?thesis
      by (subst (1 2 3) digits.simps) (simp add: decimal_snoc d c [OF m])
  qed
qed

lemma ParseInt_unsigned:
  assumes "s \<noteq> []" "list_all is_digit s" "in_int64 (int (decimal s))"
  shows "ParseInt s = Some (int (decimal s))"
proof -
  obtain c cs where s: "s = c # cs" using assms(1) by (cases s) auto
  then have "c \<noteq> CHR ''-''" "c \<noteq> CHR ''+''" using assms(2) by (auto simp: is_digit_def)
  with s assms show ?thesis by (simp add: ParseInt_def Let_def)
qed

lemma ParseInt_minus:
  assumes "s \<noteq> []" "list_all is_digit s" "in_int64 (- int (decimal s))"
  shows "ParseInt (CHR ''-'' # s) = Some (- int (decimal s))"
  using assms by (simp add: ParseInt_def Let_def)

lemma ParseInt_itoa:
  assumes "in_int64 i"
  shows "ParseInt (itoa i) = Some i"
proof (cases "i < 0")
  case True
  then show ?thesis
    using ParseInt_minus [of "digits (nat (- i))"] digits_decimal [of "nat (- i)"] assms by (simp add: itoa_def)
next
  case False
  then show ?thesis
    using ParseInt_unsigned [of "digits (nat i)"] digits_decimal [of "nat i"] assms by (simp add: itoa_def)
qed

section \<open>White space around plain text\<close>

definition plain_char :: "char \<Rightarrow> bool" where
  "plain_char c \<longleftrightarrow> (let n = (of_char c :: nat) in 33 \<le> n \<and> n < 128)"

lemma unicode_spaces_ends:
  "list_all (\<lambda>w. w \<noteq> [] \<and> \<not> plain_char (hd w) \<and> \<not> plain_char (last w)) unicode_spaces"
  by (simp add: unicode_spaces_def byte_str_def plain_char_def upt_rec_numeral)

lemma TrimSpace_plain:
  assumes "s \<noteq> []" "plain_char (hd s)" "plain_char (last s)"
  shows "TrimSpace s = s"
proof -
  have hd: "take (length w) t = w \<Longrightarrow> w \<noteq> [] \<Longrightarrow> t \<noteq> [] \<Longrightarrow> hd t = hd w" for w t :: string
    by (metis hd_take length_greater_0_conv)
  have pre: "trim_prefixes unicode_spaces s = s"
    using unicode_spaces_ends assms hd by (intro trim_prefixes_stop) (metis list_all_iff)
  have "trim_prefixes (map rev unicode_spaces) (rev s) = rev s"
  proof (rule trim_prefixes_stop, intro ballI disjI2 notI)
    fix w assume w: "w \<in> set (map rev unicode_spaces)" "take (length w) (rev s) = w"
    then obtain v where v: "w = rev v" "v \<in> set unicode_spaces" by auto
    then have n: "v \<noteq> []" "\<not> plain_char (last v)" using unicode_spaces_ends by (auto simp: list_all_iff)
    have "hd (rev s) = hd w" using w(2) v(1) n(1) assms(1) by (intro hd) auto
    then have "last s = last v" using v(1) n(1) assms(1) by (simp add: hd_rev)
    with n assms(3) show False by simp
  qed
  then show ?thesis by (simp add: TrimSpace_def pre)
qed

end
