(* ===== verification/PlanToken.thy ===== *)
theory PlanToken
  imports GoErrors
begin

text \<open>
  The plan token (\<^verbatim>\<open>internal/service/core/plantoken.go\<close>): the SHA-256 of the command and the sorted,
  de-duplicated targets. The lemmas show that the loop removes exactly the duplicates, that the text
  that is hashed depends on the target set alone, and that it determines the command and the set when
  no target is empty and none holds a line feed.
\<close>

section \<open>SHA-256\<close>

unbundle bit_operations_syntax

text \<open>
  \<open>crypto/sha256.Sum256\<close> and \<open>encoding/hex.EncodeToString\<close>, as the plan token, the key generator
  and the API-key middleware use them: FIPS 180-4.
  A 32-bit word is an integer below \<open>2 ^ 32\<close>; sums are reduced.
\<close>

type_synonym u32 = int

definition sha_K :: "u32 list" where
  "sha_K = [
   1116352408, 1899447441, 3049323471, 3921009573, 961987163, 1508970993, 2453635748, 2870763221,
   3624381080, 310598401, 607225278, 1426881987, 1925078388, 2162078206, 2614888103, 3248222580,
   3835390401, 4022224774, 264347078, 604807628, 770255983, 1249150122, 1555081692, 1996064986,
   2554220882, 2821834349, 2952996808, 3210313671, 3336571891, 3584528711, 113926993, 338241895,
   666307205, 773529912, 1294757372, 1396182291, 1695183700, 1986661051, 2177026350, 2456956037,
   2730485921, 2820302411, 3259730800, 3345764771, 3516065817, 3600352804, 4094571909, 275423344,
   430227734, 506948616, 659060556, 883997877, 958139571, 1322822218, 1537002063, 1747873779,
   1955562222, 2024104815, 2227730452, 2361852424, 2428436474, 2756734187, 3204031479, 3329325298]"

datatype sha_state = SHA u32 u32 u32 u32 u32 u32 u32 u32

definition sha_init :: sha_state where
  "sha_init = SHA 1779033703 3144134277 1013904242 2773480762 1359893119 2600822924 528734635 1541459225"

definition u32_of :: "int \<Rightarrow> u32" where
  "u32_of x = x mod 4294967296"

definition rotr :: "nat \<Rightarrow> u32 \<Rightarrow> u32" where
  "rotr n x = x div 2 ^ n + (x mod 2 ^ n) * 2 ^ (32 - n)"

definition Sig0 :: "u32 \<Rightarrow> u32" where
  "Sig0 x = rotr 2 x XOR rotr 13 x XOR rotr 22 x"

definition Sig1 :: "u32 \<Rightarrow> u32" where
  "Sig1 x = rotr 6 x XOR rotr 11 x XOR rotr 25 x"

definition sig0 :: "u32 \<Rightarrow> u32" where
  "sig0 x = rotr 7 x XOR rotr 18 x XOR (x div 2 ^ 3)"

definition sig1 :: "u32 \<Rightarrow> u32" where
  "sig1 x = rotr 17 x XOR rotr 19 x XOR (x div 2 ^ 10)"

definition Ch :: "u32 \<Rightarrow> u32 \<Rightarrow> u32 \<Rightarrow> u32" where
  "Ch x y z = (x AND y) XOR ((4294967295 - x) AND z)"

definition Maj :: "u32 \<Rightarrow> u32 \<Rightarrow> u32 \<Rightarrow> u32" where
  "Maj x y z = (x AND y) XOR (x AND z) XOR (y AND z)"

text \<open>Rounds: the message schedule is a sliding window of sixteen words.\<close>

fun sha_round :: "sha_state \<Rightarrow> u32 \<Rightarrow> u32 \<Rightarrow> sha_state" where
  "sha_round (SHA a b c d e f g h) k w =
    (let t1 = h + Sig1 e + Ch e f g + k + w; t2 = Sig0 a + Maj a b c
     in SHA (u32_of (t1 + t2)) a b c (u32_of (d + t1)) e f g)"

fun sha_next :: "u32 list \<Rightarrow> u32 list" where
  "sha_next [w0, w1, w2, w3, w4, w5, w6, w7, w8, w9, w10, w11, w12, w13, w14, w15] =
     [w1, w2, w3, w4, w5, w6, w7, w8, w9, w10, w11, w12, w13, w14, w15,
      u32_of (sig1 w14 + w9 + sig0 w1 + w0)]"
| "sha_next ws = ws"

fun sha_rounds :: "sha_state \<Rightarrow> u32 list \<Rightarrow> u32 list \<Rightarrow> sha_state" where
  "sha_rounds s ws [] = s"
| "sha_rounds s ws (k # ks) = sha_rounds (sha_round s k (hd ws)) (sha_next ws) ks"

fun sha_add :: "sha_state \<Rightarrow> sha_state \<Rightarrow> sha_state" where
  "sha_add (SHA a b c d e f g h) (SHA a' b' c' d' e' f' g' h') =
     SHA (u32_of (a + a')) (u32_of (b + b')) (u32_of (c + c')) (u32_of (d + d'))
       (u32_of (e + e')) (u32_of (f + f')) (u32_of (g + g')) (u32_of (h + h'))"

fun be_words :: "int list \<Rightarrow> u32 list" where
  "be_words (a # b # c # d # rest) = (((a * 256 + b) * 256 + c) * 256 + d) # be_words rest"
| "be_words _ = []"

fun sha_blocks :: "nat \<Rightarrow> sha_state \<Rightarrow> int list \<Rightarrow> sha_state" where
  "sha_blocks 0 s bs = s"
| "sha_blocks (Suc n) s bs =
     sha_blocks n (sha_add s (sha_rounds s (be_words (take 64 bs)) sha_K)) (drop 64 bs)"

fun be_bytes :: "nat \<Rightarrow> int \<Rightarrow> int list" where
  "be_bytes 0 n = []"
| "be_bytes (Suc k) n = be_bytes k (n div 256) @ [n mod 256]"

definition sha_pad :: "int list \<Rightarrow> int list" where
  "sha_pad bs = (let l = length bs in
     bs @ [128] @ replicate ((119 - l mod 64) mod 64) 0
     @ be_bytes 8 (8 * int l mod 18446744073709551616))"

fun sha_bytes :: "sha_state \<Rightarrow> int list" where
  "sha_bytes (SHA a b c d e f g h) = concat (map (be_bytes 4) [a, b, c, d, e, f, g, h])"

definition byte_codes :: "bytes \<Rightarrow> int list" where
  "byte_codes s = map of_char s"

definition Sum256 :: "bytes \<Rightarrow> bytes" where
  "Sum256 msg = (let p = sha_pad (byte_codes msg) in
     map char_of (sha_bytes (sha_blocks (length p div 64) sha_init p)))"

definition hex_encode :: "bytes \<Rightarrow> string" where
  "hex_encode bs = concat (map (\<lambda>c. [hexdigit ((of_char c :: nat) div 16), hexdigit (of_char c)]) bs)"

lemma length_be_bytes [simp]: "length (be_bytes k n) = k"
  by (induction k n rule: be_bytes.induct) simp_all

lemma length_sha_bytes [simp]: "length (sha_bytes s) = 32"
  by (cases s) simp

lemma length_Sum256 [simp]: "length (Sum256 msg) = 32"
  by (simp add: Sum256_def Let_def)

lemma length_hex_encode [simp]: "length (hex_encode bs) = 2 * length bs"
  by (induction bs) (simp_all add: hex_encode_def)

lemma sha_pad_blocks: "length (sha_pad bs) mod 64 = 0"
proof -
  have "(119 - r) mod 64 + r + 9 = 64 \<or> (119 - r) mod 64 + r + 9 = 128" if "r < 64" for r :: nat
    using that by (cases "r \<le> 55") (auto simp: le_mod_geq mod_if)
  from this [of "length bs mod 64"]
  have "((119 - length bs mod 64) mod 64 + length bs mod 64 + 9) mod 64 = 0" by auto
  moreover have "(q + l mod 64 + 9) mod 64 = (q + l + 9) mod 64" for q l :: nat
    by (metis mod_add_left_eq mod_add_right_eq)
  ultimately have "((119 - length bs mod 64) mod 64 + length bs + 9) mod 64 = 0"
    by metis
  then show ?thesis by (simp add: sha_pad_def Let_def add_ac)
qed

section \<open>The token\<close>

definition newline :: string where
  "newline = [char_of (10::nat)]"

lemma newline_char: "char_of (10::nat) = CHR 0x0A"
  by (simp add: char_of_def bit_0)

text \<open>The de-duplicating loop, with \<open>i == 0\<close> told apart from a previous element.\<close>

fun dedup_loop :: "string option \<Rightarrow> string list \<Rightarrow> string list" where
  "dedup_loop prev [] = []"
| "dedup_loop prev (t # ts) =
    (if prev = None \<or> t \<noteq> the prev then t # dedup_loop (Some t) ts else dedup_loop (Some t) ts)"

fun strings_Join :: "string list \<Rightarrow> string \<Rightarrow> string" where
  "strings_Join [] sep = []"
| "strings_Join [x] sep = x"
| "strings_Join (x # y # ys) sep = x @ sep @ strings_Join (y # ys) sep"

definition token_targets :: "string list \<Rightarrow> string list" where
  "token_targets targets = dedup_loop None (sort targets)"

definition token_canonical :: "string \<Rightarrow> string list \<Rightarrow> string" where
  "token_canonical commandID targets =
     commandID @ newline @ strings_Join (token_targets targets) newline"

definition Token :: "string \<Rightarrow> string list \<Rightarrow> string" where
  "Token commandID targets = hex_encode (Sum256 (token_canonical commandID targets))"

section \<open>Canonical targets\<close>

lemma dedup_loop_props:
  "sorted xs \<Longrightarrow> (\<forall>p. prev = Some p \<longrightarrow> (\<forall>x \<in> set xs. p \<le> x)) \<Longrightarrow>
     sorted (dedup_loop prev xs) \<and> distinct (dedup_loop prev xs)
     \<and> set (dedup_loop prev xs) = set xs - (case prev of None \<Rightarrow> {} | Some p \<Rightarrow> {p})"
proof (induction prev xs rule: dedup_loop.induct)
  case (2 prev t ts)
  then have IH: "sorted (dedup_loop (Some t) ts) \<and> distinct (dedup_loop (Some t) ts)
     \<and> set (dedup_loop (Some t) ts) = set ts - {t}"
    by (cases "prev = None \<or> t \<noteq> the prev") auto
  have "p < x" if "prev = Some p" "t \<noteq> p" "x \<in> set ts" for p x
    using 2(3,4) that by (fastforce simp: less_le)
  with IH 2(3,4) show ?case by (cases prev) auto
qed simp

lemma token_targets_eq: "token_targets xs = sorted_list_of_set (set xs)"
proof -
  have "sorted (token_targets xs) \<and> distinct (token_targets xs) \<and> set (token_targets xs) = set xs"
    unfolding token_targets_def using dedup_loop_props [of "sort xs" None] by simp
  then show ?thesis by (metis sorted_list_of_set.idem_if_sorted_distinct)
qed

lemma Token_set_eq: "set xs = set ys \<Longrightarrow> Token c xs = Token c ys"
  by (simp add: Token_def token_canonical_def token_targets_eq)

lemma length_Token [simp]: "length (Token c xs) = 64"
  by (simp add: Token_def)

section \<open>The canonical text is unambiguous\<close>

lemma split_at_newline:
  assumes "a @ newline @ r = b @ newline @ r'" "char_of (10::nat) \<notin> set a" "char_of (10::nat) \<notin> set b"
  shows "a = b \<and> r = r'"
proof -
  have split: "takeWhile (\<lambda>c. c \<noteq> char_of (10::nat)) (x @ newline @ y) = x"
    if "char_of (10::nat) \<notin> set x" for x y
    using that by (induction x) (auto simp: newline_def)
  from split [OF assms(2), of r] split [OF assms(3), of r'] assms(1) show ?thesis by simp
qed

definition plain_target :: "string \<Rightarrow> bool" where
  "plain_target t \<longleftrightarrow> t \<noteq> [] \<and> char_of (10::nat) \<notin> set t"

lemma Join_inj:
  "strings_Join xs newline = strings_Join ys newline \<Longrightarrow> list_all plain_target xs \<Longrightarrow>
     list_all plain_target ys \<Longrightarrow> xs = ys"
proof (induction xs arbitrary: ys rule: induct_list012)
  case 1
  then show ?case by (cases ys rule: remdups_adj.cases) (auto simp: plain_target_def)
next
  case (2 x)
  then show ?case
    by (cases ys rule: remdups_adj.cases) (auto simp: plain_target_def newline_def)
next
  case (3 x y zs)
  then show ?case
  proof (cases ys rule: remdups_adj.cases)
    case (3 a b cs)
    from "3.prems"(1) have "x @ newline @ strings_Join (y # zs) newline
        = a @ newline @ strings_Join (b # cs) newline"
      by (simp add: 3)
    then have "x = a \<and> strings_Join (y # zs) newline = strings_Join (b # cs) newline"
      using "3.prems"(2,3) by (intro split_at_newline) (auto simp: 3 plain_target_def)
    with "3.IH"(2) [of "b # cs"] "3.prems"(2,3) show ?thesis by (simp add: 3)
  qed (auto simp: plain_target_def newline_def)
qed

lemma token_canonical_inj:
  assumes "token_canonical c xs = token_canonical c' ys"
    and "char_of (10::nat) \<notin> set c" "char_of (10::nat) \<notin> set c'"
    and "list_all plain_target xs" "list_all plain_target ys"
  shows "c = c' \<and> set xs = set ys"
proof -
  have "c = c' \<and> strings_Join (token_targets xs) newline = strings_Join (token_targets ys) newline"
    using assms(1-3) unfolding token_canonical_def by (rule split_at_newline)
  moreover from this have "token_targets xs = token_targets ys"
    using assms(4,5) by (intro Join_inj) (auto simp: token_targets_eq list_all_iff)
  ultimately show ?thesis by (metis token_targets_eq set_sorted_list_of_set List.finite_set)
qed

end
