(* ===== verification/NetAddr.thy ===== *)
theory NetAddr
  imports TextParse
begin

text \<open>
  The functions of Go's \<open>net\<close> and \<open>net/netip\<close> the gateway uses on addresses: \<open>netip.ParseAddr\<close> and
  \<open>netip.ParsePrefix\<close>, \<open>net.ParseIP\<close>, \<open>net.ParseCIDR\<close>, \<open>IPNet.Contains\<close> and \<open>net.SplitHostPort\<close>. An address is a list of bytes,
  of length 4 or 16; every error value of the parsers of addresses is \<open>None\<close>, since no caller looks at it.

  The lemmas show that a text \<open>ParsePrefix\<close> accepts is accepted by \<open>ParseCIDR\<close>, though the two read it
  with different code.
\<close>

section \<open>Addresses\<close>

text \<open>\<open>parseIPv4Fields\<close>: the state is the octets read, the current value and its number of digits.\<close>

fun parseIPv4_loop :: "nat list \<Rightarrow> nat \<Rightarrow> nat \<Rightarrow> string \<Rightarrow> nat list option" where
  "parseIPv4_loop octets val digLen [] =
     (if length octets < 3 then None else Some (octets @ [val]))"
| "parseIPv4_loop octets val digLen (c # cs) =
     (if is_digit c then
        (if digLen = 1 \<and> val = 0 then None
         else if val * 10 + (of_char c - 48) > 255 then None
         else parseIPv4_loop octets (val * 10 + (of_char c - 48)) (digLen + 1) cs)
      else if c = CHR ''.'' then
        (if digLen = 0 \<or> cs = [] then None
         else if length octets = 3 then None
         else parseIPv4_loop (octets @ [val]) 0 0 cs)
      else None)"

definition parseIPv4Fields :: "string \<Rightarrow> nat list option" where
  "parseIPv4Fields s = parseIPv4_loop [] 0 0 s"

definition hex_value :: "char \<Rightarrow> nat option" where
  "hex_value c =
    (let n = (of_char c :: nat) in
     if 48 \<le> n \<and> n \<le> 57 then Some (n - 48)
     else if 97 \<le> n \<and> n \<le> 102 then Some (n - 87)
     else if 65 \<le> n \<and> n \<le> 70 then Some (n - 55) else None)"

text \<open>The hexadecimal digits at the front of a text.\<close>

definition hex_run :: "string \<Rightarrow> string" where
  "hex_run s = takeWhile (\<lambda>c. hex_value c \<noteq> None) s"

definition hex_number :: "string \<Rightarrow> nat" where
  "hex_number ds = fold (\<lambda>c n. 16 * n + the (hex_value c)) ds 0"

text \<open>
  The loop of \<open>parseIPv6\<close>: the bytes read, where the ellipsis stands among them, and the rest of the
  text. It returns the bytes, the ellipsis and what it has left unread.
\<close>

function (sequential) parseIPv6_loop ::
  "nat list \<Rightarrow> nat option \<Rightarrow> string \<Rightarrow> (nat list \<times> nat option \<times> string) option" where
  "parseIPv6_loop ip ellipsis s =
    (if length ip \<ge> 16 then Some (ip, ellipsis, s)
     else (let ds = hex_run s; r = drop (length ds) s; acc = hex_number ds in
       if length ds > 4 \<or> ds = [] then None
       else if r \<noteq> [] \<and> hd r = CHR ''.'' then
         (if ellipsis = None \<and> length ip \<noteq> 12 then None
          else if length ip + 4 > 16 then None
          else map_option (\<lambda>v4. (ip @ v4, ellipsis, [])) (parseIPv4Fields s))
       else (let ip' = ip @ [acc div 256, acc mod 256] in
         if r = [] then Some (ip', ellipsis, [])
         else if hd r \<noteq> CHR '':'' \<or> length r = 1 then None
         else if r ! 1 = CHR '':'' then
           (if ellipsis \<noteq> None then None
            else if drop 2 r = [] then Some (ip', Some (length ip'), [])
            else parseIPv6_loop ip' (Some (length ip')) (drop 2 r))
         else parseIPv6_loop ip' ellipsis (drop 1 r))))"
  by pat_completeness auto

termination
  by (relation "measure (\<lambda>(ip, ellipsis, s). 16 - length ip)") auto

declare parseIPv6_loop.simps [simp del]

definition expand_ellipsis :: "nat list \<Rightarrow> nat option \<Rightarrow> nat list option" where
  "expand_ellipsis ip ellipsis =
    (if length ip < 16 then
       (case ellipsis of None \<Rightarrow> None
        | Some e \<Rightarrow> Some (take e ip @ replicate (16 - length ip) 0 @ drop e ip))
     else if ellipsis \<noteq> None then None else Some ip)"

text \<open>\<open>parseIPv6\<close>, with the zone after a percent sign.\<close>

definition parseIPv6 :: "string \<Rightarrow> (nat list \<times> string) option" where
  "parseIPv6 text =
    (let s = takeWhile (\<lambda>c. c \<noteq> CHR ''%'') text; zone = drop (length s + 1) text in
     if CHR ''%'' \<in> set text \<and> zone = [] then None
     else if HasPrefix s ''::'' then
       (if drop 2 s = [] then Some (replicate 16 0, zone)
        else (case parseIPv6_loop [] (Some 0) (drop 2 s) of
          Some (ip, e, []) \<Rightarrow> map_option (\<lambda>a. (a, zone)) (expand_ellipsis ip e)
        | _ \<Rightarrow> None))
     else (case parseIPv6_loop [] None s of
         Some (ip, e, []) \<Rightarrow> map_option (\<lambda>a. (a, zone)) (expand_ellipsis ip e)
       | _ \<Rightarrow> None))"

text \<open>\<open>netip.ParseAddr\<close>: the first dot, colon or percent sign decides; the bytes and the zone.\<close>

definition ParseAddr :: "string \<Rightarrow> (nat list \<times> string) option" where
  "ParseAddr s =
    (case find (\<lambda>c. c \<in> {CHR ''.'', CHR '':'', CHR ''%''}) s of
       Some c \<Rightarrow>
         if c = CHR ''.'' then map_option (\<lambda>a. (a, [])) (parseIPv4Fields s)
         else if c = CHR '':'' then parseIPv6 s else None
     | None \<Rightarrow> None)"

text \<open>\<open>Atoi\<close> on the number of bits: a sign and leading zeros are ruled out first.\<close>

definition prefix_bits :: "string \<Rightarrow> int64 option" where
  "prefix_bits b =
    (if length b > 1 \<and> \<not> (49 \<le> (of_char (hd b) :: nat) \<and> (of_char (hd b) :: nat) \<le> 57)
     then None else ParseInt b)"

definition last_slash :: "string \<Rightarrow> (string \<times> string) option" where
  "last_slash s =
    (if CHR ''/'' \<notin> set s then None
     else (let b = rev (takeWhile (\<lambda>c. c \<noteq> CHR ''/'') (rev s)) in
       Some (take (length s - length b - 1) s, b)))"

definition ParsePrefix :: "string \<Rightarrow> (nat list \<times> nat) option" where
  "ParsePrefix s =
    (case last_slash s of None \<Rightarrow> None
     | Some (addr, bitsStr) \<Rightarrow>
       (case ParseAddr addr of None \<Rightarrow> None
        | Some (ip, zone) \<Rightarrow>
          if zone \<noteq> [] then None
          else (case prefix_bits bitsStr of None \<Rightarrow> None
            | Some bits \<Rightarrow>
              if bits < 0 \<or> bits > 8 * int (length ip) then None else Some (ip, nat bits))))"

section \<open>\<open>net.IP\<close> and \<open>net.IPNet\<close>\<close>

definition v4InV6Prefix :: "nat list" where
  "v4InV6Prefix = replicate 10 0 @ [255, 255]"

text \<open>\<open>As16\<close>, and \<open>To4\<close>: the last four bytes of a mapped address.\<close>

definition As16 :: "nat list \<Rightarrow> nat list" where
  "As16 ip = (if length ip = 4 then v4InV6Prefix @ ip else ip)"

definition To4 :: "nat list \<Rightarrow> nat list option" where
  "To4 ip =
    (if length ip = 4 then Some ip
     else if length ip = 16 \<and> take 12 ip = v4InV6Prefix then Some (drop 12 ip) else None)"

definition net_ParseIP :: "string \<Rightarrow> nat list option" where
  "net_ParseIP s =
    (case ParseAddr s of
       Some (ip, zone) \<Rightarrow> if zone \<noteq> [] then None else Some (As16 ip)
     | None \<Rightarrow> None)"

text \<open>\<open>net.CIDRMask\<close>: the byte at position \<open>k\<close> holds the top \<open>ones - 8 k\<close> bits.\<close>

definition mask_byte :: "nat \<Rightarrow> nat" where
  "mask_byte n = (if n \<ge> 8 then 255 else 256 - 2 ^ (8 - n))"

definition CIDRMask :: "nat \<Rightarrow> nat \<Rightarrow> nat list" where
  "CIDRMask ones len = map (\<lambda>k. mask_byte (ones - 8 * k)) [0..<len]"

record IPNet =
  IPNet_IP :: "nat list"
  IPNet_Mask :: "nat list"

definition and_bytes :: "nat list \<Rightarrow> nat list \<Rightarrow> nat list" where
  "and_bytes = map2 (\<lambda>a b. Bit_Operations.and a b)"

definition IP_Mask :: "nat list \<Rightarrow> nat list \<Rightarrow> nat list" where
  "IP_Mask ip mk =
    (let mk' = (if length mk = 16 \<and> length ip = 4 \<and> take 12 mk = replicate 12 255 then drop 12 mk else mk);
         ip' = (if length mk' = 4 \<and> length ip = 16 \<and> take 12 ip = v4InV6Prefix then drop 12 ip else ip)
     in if length ip' \<noteq> length mk' then [] else and_bytes ip' mk')"

text \<open>\<open>dtoi\<close> over the whole text: digits only, below \<open>0xFFFFFF\<close>.\<close>

definition dtoi :: "string \<Rightarrow> nat option" where
  "dtoi s = (if s = [] \<or> \<not> list_all is_digit s \<or> decimal s \<ge> 16777215 then None else Some (decimal s))"

definition ParseCIDR :: "string \<Rightarrow> IPNet option" where
  "ParseCIDR s =
    (if CHR ''/'' \<notin> set s then None
     else (let addr = takeWhile (\<lambda>c. c \<noteq> CHR ''/'') s; mk = drop (length addr + 1) s in
       case ParseAddr addr of None \<Rightarrow> None
       | Some (ip, zone) \<Rightarrow>
         if zone \<noteq> [] then None
         else (case dtoi mk of None \<Rightarrow> None
           | Some n \<Rightarrow>
             if n > 8 * length ip then None
             else (let m = CIDRMask n (length ip) in
               Some \<lparr>IPNet_IP = IP_Mask (As16 ip) m, IPNet_Mask = m\<rparr>))))"

definition networkNumberAndMask :: "IPNet \<Rightarrow> (nat list \<times> nat list) option" where
  "networkNumberAndMask n =
    (case To4 (IPNet_IP n) of
       Some ip \<Rightarrow>
         if length (IPNet_Mask n) = 4 then Some (ip, IPNet_Mask n)
         else if length (IPNet_Mask n) = 16 then Some (ip, drop 12 (IPNet_Mask n)) else None
     | None \<Rightarrow>
         if length (IPNet_IP n) \<noteq> 16 then None
         else if length (IPNet_Mask n) = 16 then Some (IPNet_IP n, IPNet_Mask n) else None)"

definition Contains :: "IPNet \<Rightarrow> nat list \<Rightarrow> bool" where
  "Contains n ip =
    (let ip' = (case To4 ip of Some x \<Rightarrow> x | None \<Rightarrow> ip) in
     case networkNumberAndMask n of
       None \<Rightarrow> ip' = []
     | Some (nn, m) \<Rightarrow> length ip' = length nn \<and> and_bytes nn m = and_bytes ip' m)"

section \<open>\<open>net.SplitHostPort\<close>\<close>

text \<open>
  The host and the port, or the error: the last colon separates them, a host in brackets may hold colons,
  and no other bracket may occur.
\<close>

definition SplitHostPort :: "string \<Rightarrow> string + string \<times> string" where
  "SplitHostPort s =
    (if CHR '':'' \<notin> set s then Inl ''missing port in address''
     else (let port = rev (takeWhile (\<lambda>c. c \<noteq> CHR '':'') (rev s));
               before = take (length s - length port - 1) s in
       if hd s = CHR ''['' then
         (if CHR '']'' \<notin> set s then Inl ''missing ']' in address''
          else (let inside = takeWhile (\<lambda>c. c \<noteq> CHR '']'') (tl s); past = length inside + 2 in
            if past = length s then Inl ''missing port in address''
            else if past = length before then
              (if CHR ''['' \<in> set (tl s) then Inl ''unexpected '[' in address''
               else if CHR '']'' \<in> set (drop past s) then Inl ''unexpected ']' in address''
               else Inr (inside, port))
            else if s ! past = CHR '':'' then Inl ''too many colons in address''
            else Inl ''missing port in address''))
       else if CHR '':'' \<in> set before then Inl ''too many colons in address''
       else if CHR ''['' \<in> set s then Inl ''unexpected '[' in address''
       else if CHR '']'' \<in> set s then Inl ''unexpected ']' in address''
       else Inr (before, port)))"

section \<open>What \<open>ParsePrefix\<close> accepts, \<open>ParseCIDR\<close> accepts\<close>

lemma parseIPv4_loop_chars: "parseIPv4_loop octets v d s = Some ip \<Longrightarrow> CHR ''/'' \<notin> set s \<and> CHR ''%'' \<notin> set s"
  by (induction octets v d s rule: parseIPv4_loop.induct) (auto simp: is_digit_def split: if_splits)

lemma hex_run_chars: "c \<in> set (hex_run s) \<Longrightarrow> hex_value c \<noteq> None"
  by (auto simp: hex_run_def dest: set_takeWhileD)

lemma hex_run_slash: "CHR ''/'' \<notin> set (hex_run s)"
  using hex_run_chars [of "CHR ''/''" s] by (auto simp: hex_value_def)

lemma drop2: "r \<noteq> [] \<Longrightarrow> length r \<noteq> 1 \<Longrightarrow> r = hd r # r ! 1 # drop 2 r"
  by (cases r; cases "tl r") auto

lemma parseIPv6_loop_chars:
  "parseIPv6_loop ip e s = Some (ip', e', []) \<Longrightarrow> CHR ''/'' \<notin> set s"
proof (induction ip e s rule: parseIPv6_loop.induct)
  case (1 ip e s)
  let ?ds = "hex_run s" and ?r = "drop (length (hex_run s)) s"
  show ?case
  proof (cases "length ip \<ge> 16")
    case True
    with "1.prems" show ?thesis by (simp add: parseIPv6_loop.simps)
  next
    case False
    have s: "s = ?ds @ ?r" by (metis append_take_drop_id hex_run_def takeWhile_eq_take)
    have rs: "CHR ''/'' \<notin> set ?r"
    proof (cases "?r \<noteq> [] \<and> hd ?r = CHR ''.''")
      case True
      with "1.prems" False obtain v4 where "parseIPv4Fields s = Some v4"
        by (subst (asm) parseIPv6_loop.simps) (auto simp: Let_def split: if_splits)
      then have "CHR ''/'' \<notin> set s" unfolding parseIPv4Fields_def by (blast dest: parseIPv4_loop_chars)
      then show ?thesis by (metis in_set_dropD)
    next
      case nodot: False
      show ?thesis
      proof (cases "?r = []")
        case True
        then show ?thesis by (metis empty_iff list.set(1))
      next
        case ne: False
        have ds: "\<not> (length ?ds > 4 \<or> ?ds = [])"
          using "1.prems" False by (subst (asm) parseIPv6_loop.simps) (auto simp: Let_def split: if_splits)
        have colon: "hd ?r = CHR '':''" "length ?r \<noteq> 1"
          using "1.prems" False ne nodot
          by (subst (asm) parseIPv6_loop.simps; auto simp: Let_def split: if_splits)+
        from drop2 [OF ne colon(2)] have r: "?r = hd ?r # ?r ! 1 # drop 2 ?r" .
        have one: "drop 1 ?r = ?r ! 1 # drop 2 ?r" using r by (metis One_nat_def drop0 drop_Suc_Cons)
        show ?thesis
        proof (cases "?r ! 1 = CHR '':''")
          case True
          have e: "e = None" using "1.prems" False ne nodot colon True
            by (subst (asm) parseIPv6_loop.simps) (auto simp: Let_def split: if_splits)
          have "CHR ''/'' \<notin> set (drop 2 ?r)"
          proof (cases "drop 2 ?r = []")
            case False
            have "parseIPv6_loop (ip @ [hex_number ?ds div 256, hex_number ?ds mod 256])
               (Some (length (ip @ [hex_number ?ds div 256, hex_number ?ds mod 256]))) (drop 2 ?r) = Some (ip', e', [])"
              using "1.prems" \<open>\<not> 16 \<le> length ip\<close> ds nodot ne colon True e False
              by (subst (asm) parseIPv6_loop.simps) (simp add: Let_def)
            with "1.IH"(1) [OF \<open>\<not> 16 \<le> length ip\<close> refl refl refl ds nodot refl ne _ True] colon e False
            show ?thesis by simp
          qed simp
          then have "CHR ''/'' \<notin> set (hd ?r # ?r ! 1 # drop 2 ?r)" using colon True by simp
          then show ?thesis using r by metis
        next
          case noc: False
          have "parseIPv6_loop (ip @ [hex_number ?ds div 256, hex_number ?ds mod 256]) e (drop 1 ?r) = Some (ip', e', [])"
            using "1.prems" \<open>\<not> 16 \<le> length ip\<close> ds nodot ne colon noc
            by (subst (asm) parseIPv6_loop.simps) (simp add: Let_def)
          with "1.IH"(2) [OF \<open>\<not> 16 \<le> length ip\<close> refl refl refl ds nodot refl ne _ noc] colon
          have "CHR ''/'' \<notin> set (drop 1 ?r)" by simp
          then have "CHR ''/'' \<notin> set (hd ?r # ?r ! 1 # drop 2 ?r)" using colon one by simp
          then show ?thesis using r by metis
        qed
      qed
    qed
    with s hex_run_slash [of s] show ?thesis by (metis Un_iff set_append)
  qed
qed

lemma parseIPv6_chars:
  assumes "parseIPv6 s = Some (ip, [])"
  shows "CHR ''/'' \<notin> set s"
proof -
  have "CHR ''%'' \<notin> set s"
  proof
    assume p: "CHR ''%'' \<in> set s"
    then have "drop (length (takeWhile (\<lambda>c. c \<noteq> CHR ''%'') s) + 1) s \<noteq> []"
      using assms by (auto simp: parseIPv6_def Let_def)
    then show False using assms p
      by (auto simp: parseIPv6_def Let_def split: if_splits option.splits list.splits)
  qed
  then have t: "takeWhile (\<lambda>c. c \<noteq> CHR ''%'') s = s" by (auto intro: takeWhile_eq_all_conv [THEN iffD2])
  have c2: "CHR ''/'' \<notin> set s" if "HasPrefix s ''::''" "CHR ''/'' \<notin> set (drop 2 s)"
    using that by (cases s; cases "tl s") (auto simp: HasPrefix_def)
  have l2: "CHR ''/'' \<notin> set (drop 2 s)" if "parseIPv6_loop [] (Some 0) (drop 2 s) = Some (a, e, [])" for a e
    using parseIPv6_loop_chars [OF that] .
  have "length s \<le> 2 \<Longrightarrow> CHR ''/'' \<notin> set (drop 2 s)" by simp
  with c2 l2 show ?thesis
    using assms unfolding parseIPv6_def t
    by (auto simp: Let_def split: if_splits option.splits list.splits dest: parseIPv6_loop_chars)
qed

lemma ParseAddr_chars: "ParseAddr s = Some (ip, []) \<Longrightarrow> CHR ''/'' \<notin> set s"
  by (auto simp: ParseAddr_def parseIPv4Fields_def split: option.splits if_splits
      dest: parseIPv4_loop_chars parseIPv6_chars)

lemma prefix_bits_dtoi:
  assumes "prefix_bits b = Some n" "0 \<le> n" "n \<le> 128"
  shows "dtoi b = Some (nat n)"
proof -
  from assms(1) have p: "ParseInt b = Some n"
    and h: "length b > 1 \<Longrightarrow> 49 \<le> (of_char (hd b) :: nat)"
    by (auto simp: prefix_bits_def split: if_splits)
  obtain c cs where b: "b = c # cs" using p by (cases b) (auto simp: ParseInt_def)
  have "c \<noteq> CHR ''-''" "c \<noteq> CHR ''+''"
    using h p by (cases cs; auto simp: b ParseInt_def)+
  with p have "list_all is_digit b" "n = int (decimal b)"
    by (auto simp: b ParseInt_def Let_def split: if_splits)
  with assms(2,3) b show ?thesis by (simp add: dtoi_def)
qed

lemma last_slash_split: "last_slash s = Some (a, b) \<Longrightarrow> s = a @ CHR ''/'' # b \<and> CHR ''/'' \<notin> set b"
proof -
  assume a: "last_slash s = Some (a, b)"
  let ?t = "takeWhile (\<lambda>c. c \<noteq> CHR ''/'') (rev s)" and ?d = "dropWhile (\<lambda>c. c \<noteq> CHR ''/'') (rev s)"
  from a have m: "CHR ''/'' \<in> set (rev s)" and b: "b = rev ?t" and a: "a = take (length s - length b - 1) s"
    by (auto simp: last_slash_def Let_def split: if_splits)
  from m have "?d \<noteq> []" by (auto simp: dropWhile_eq_Nil_conv)
  then obtain r where d: "?d = CHR ''/'' # r" using hd_dropWhile [of "\<lambda>c. c \<noteq> CHR ''/''" "rev s"] by (cases ?d) auto
  have "rev s = ?t @ ?d" by simp
  then have s: "s = rev r @ CHR ''/'' # b" using d b
    by (metis append.assoc append_Cons append_Nil rev.simps(2) rev_append rev_rev_ident)
  then have "a = rev r" using a by simp
  moreover have "CHR ''/'' \<notin> set b" using b by (auto dest: set_takeWhileD)
  ultimately show ?thesis using s by simp
qed

lemma parseIPv4_loop_length:
  "parseIPv4_loop octets v d s = Some ip \<Longrightarrow> length octets \<le> 3 \<Longrightarrow> length ip = 4"
  by (induction octets v d s rule: parseIPv4_loop.induct) (auto split: if_splits)

lemma parseIPv6_loop_step:
  assumes "parseIPv6_loop ip e s = Some x" "length ip < 16"
  shows "(\<exists>v4. fst x = ip @ v4 \<and> parseIPv4Fields s = Some v4 \<and> length ip + 4 \<le> 16)
    \<or> (\<exists>hi lo. fst x = ip @ [hi, lo]) \<or> (\<exists>hi lo e' n. parseIPv6_loop (ip @ [hi, lo]) e' (drop n s) = Some x)"
proof -
  let ?r = "drop (length (hex_run s)) s"
  have "(\<exists>hi lo e' n. parseIPv6_loop (ip @ [hi, lo]) e' (drop n ?r) = Some x)
    \<Longrightarrow> (\<exists>hi lo e' n. parseIPv6_loop (ip @ [hi, lo]) e' (drop n s) = Some x)"
    by (metis drop_drop)
  then show ?thesis
    using assms by (subst (asm) parseIPv6_loop.simps)
      (force simp: Let_def simp del: drop_drop split: if_splits)
qed

lemma parseIPv6_loop_length:
  "parseIPv6_loop ip e s = Some x \<Longrightarrow> even (length ip) \<Longrightarrow> length ip \<le> 16 \<Longrightarrow> length (fst x) \<le> 16"
proof (induction "16 - length ip" arbitrary: ip e s rule: less_induct)
  case less
  show ?case
  proof (cases "length ip = 16")
    case True
    with less.prems(1) show ?thesis by (auto simp: parseIPv6_loop.simps)
  next
    case False
    with less.prems have l: "length ip + 2 \<le> 16" by presburger
    then have lt: "length ip < 16" by simp
    from parseIPv6_loop_step [OF less.prems(1) lt] l show ?thesis
    proof (elim disjE exE conjE)
      fix hi lo e' n
      assume "parseIPv6_loop (ip @ [hi, lo]) e' (drop n s) = Some x"
      from less.hyps [OF _ this] l less.prems(2) show ?thesis by simp
    qed (auto simp: parseIPv4Fields_def dest: parseIPv4_loop_length)
  qed
qed

lemma expand_length: "expand_ellipsis ip e = Some a \<Longrightarrow> length ip \<le> 16 \<Longrightarrow> length a = 16"
  by (auto simp: expand_ellipsis_def split: if_splits option.splits)

lemma ParseAddr_length: "ParseAddr s = Some (ip, z) \<Longrightarrow> length ip = 4 \<or> length ip = 16"
proof -
  have six: "length a = 16" if "parseIPv6_loop [] e0 u = Some (ip', e', [])" "expand_ellipsis ip' e' = Some a" for e0 u ip' e' a
    using expand_length [OF that(2)] parseIPv6_loop_length [OF that(1)] by simp
  have v6: "parseIPv6 s = Some (ip, z) \<Longrightarrow> length ip = 16"
    unfolding parseIPv6_def Let_def
    by (auto split: if_splits option.splits prod.splits list.splits dest: six)
  have v4: "parseIPv4Fields s = Some ip \<Longrightarrow> length ip = 4"
    unfolding parseIPv4Fields_def by (erule parseIPv4_loop_length) simp
  assume "ParseAddr s = Some (ip, z)"
  then show ?thesis using v4 v6 by (auto simp: ParseAddr_def split: option.splits if_splits)
qed

lemma ParsePrefix_ParseCIDR:
  assumes "ParsePrefix s = Some (ip, n)"
  shows "\<exists>net. ParseCIDR s = Some net \<and> IPNet_Mask net = CIDRMask n (length ip)"
proof -
  from assms obtain addr b bits where sp: "last_slash s = Some (addr, b)" and pa: "ParseAddr addr = Some (ip, [])"
    and pb: "prefix_bits b = Some bits" and r: "0 \<le> bits" "bits \<le> 8 * int (length ip)" and n: "n = nat bits"
    by (auto simp: ParsePrefix_def split: option.splits if_splits)
  from last_slash_split [OF sp] have s: "s = addr @ CHR ''/'' # b" by simp
  have tw: "takeWhile (\<lambda>c. c \<noteq> CHR ''/'') s = addr"
    using ParseAddr_chars [OF pa] unfolding s by (subst takeWhile_append2) auto
  have "dtoi b = Some (nat bits)"
    by (rule prefix_bits_dtoi [OF pb r(1)]) (use r ParseAddr_length [OF pa] in auto)
  then show ?thesis using r n pa unfolding ParseCIDR_def Let_def tw by (simp add: s nat_le_iff)
qed

end
