(* ===== verification/ConfigModel.thy ===== *)
theory ConfigModel
  imports TextParse PlanToken NetAddr
begin

text \<open>
  The start-up configuration (\<^verbatim>\<open>internal/config\<close>): the tree of settings with its defaults, byte sizes
  and redaction (\<^verbatim>\<open>config.go\<close>, \<^verbatim>\<open>redact.go\<close>).

  \<open>fmt.Errorf\<close> messages are kept as the format and its arguments. Durations are in
  nanoseconds.
\<close>

section \<open>The tree\<close>

record KafkaTLS =
  ktls_Enabled :: bool
  ktls_CAFile :: string
  ktls_CertFile :: string
  ktls_KeyFile :: string

record SASL =
  sasl_Mechanism :: string
  sasl_Username :: string
  sasl_Password :: string

record ProducerConfig =
  prod_Acks :: string
  prod_Idempotent :: bool

record ConsumerConfig =
  cons_IsolationLevel :: string

record KafkaConfig =
  kafka_Bootstrap :: "string list"
  kafka_RequestTimeout :: int64
  kafka_TLS :: KafkaTLS
  kafka_SASL :: SASL
  kafka_Producer :: ProducerConfig
  kafka_Consumer :: ConsumerConfig

record ListenerTLS =
  ltls_CertFile :: string
  ltls_KeyFile :: string

record CORSConfig =
  cors_Origins :: "string list"

record DocsConfig =
  docs_Enabled :: bool

type_synonym ByteSize = int64

record HTTPConfig =
  http_Addr :: string
  http_TLS :: ListenerTLS
  http_ReadHeaderTimeout :: int64
  http_IdleTimeout :: int64
  http_WriteTimeout :: int64
  http_BodyLimit :: ByteSize
  http_TrustedProxies :: "string list"
  http_CORS :: CORSConfig
  http_Docs :: DocsConfig

record ConfigKey =
  key_ID :: string
  key_Tier :: string
  key_SHA256 :: string

record AuthConfig =
  auth_Enabled :: bool
  auth_Keys :: "ConfigKey list"

definition config_TierReader :: string where "config_TierReader = ''reader''"
definition config_TierOperator :: string where "config_TierOperator = ''operator''"

record PolicyConfig =
  policy_ReadOnlyMode :: bool
  policy_DataPlaneLock :: bool
  policy_DisabledOperations :: "string list"

record ConfigRange =
  range_Default :: int64
  range_Ceiling :: int64

record ReadBounds =
  read_Limit :: ConfigRange

record ScanBounds =
  scan_MaxScan :: ConfigRange
  scan_MaxMatches :: ConfigRange
  scan_MaxBytes :: ConfigRange
  scan_MaxTime :: ConfigRange
  scan_RegexTimeout :: int64

record ReplayBounds =
  replay_Limit :: ConfigRange

record ThroughputBounds =
  throughput_Seconds :: ConfigRange

record PageBoundsConfig =
  page_Size :: ConfigRange

record BoundsConfig =
  bounds_Read :: ReadBounds
  bounds_Scan :: ScanBounds
  bounds_Replay :: ReplayBounds
  bounds_BulkProduceBody :: ByteSize
  bounds_Throughput :: ThroughputBounds
  bounds_Page :: PageBoundsConfig

record AuditConfig =
  audit_Sink :: string
  audit_Topic :: string

definition AuditSinkStdout :: string where "AuditSinkStdout = ''stdout''"
definition AuditSinkKafka :: string where "AuditSinkKafka = ''kafka''"

record OTLP =
  otlp_Endpoint :: string
  otlp_Protocol :: string

record Telemetry =
  telemetry_OTLP :: OTLP
  telemetry_ServiceName :: string
  telemetry_LogLevel :: string

record Config =
  Config_Kafka :: KafkaConfig
  Config_HTTP :: HTTPConfig
  Config_Auth :: AuthConfig
  Config_Policy :: PolicyConfig
  Config_Bounds :: BoundsConfig
  Config_Audit :: AuditConfig
  Config_Telemetry :: Telemetry

section \<open>Byte sizes\<close>

definition KiB :: ByteSize where "KiB = 1024"
definition MiB :: ByteSize where "MiB = 1048576"
definition GiB :: ByteSize where "GiB = 1073741824"

definition size_units :: "(string \<times> ByteSize) list" where
  "size_units = [(''GiB'', GiB), (''MiB'', MiB), (''KiB'', KiB), (''GB'', GiB), (''MB'', MiB), (''KB'', KiB), (''B'', 1)]"

text \<open>The error is \<open>fmt.Errorf("invalid byte size %q", text)\<close>; \<open>ByteSize(n) * mult\<close> wraps.\<close>

definition ByteSize_UnmarshalText :: "string \<Rightarrow> string + ByteSize" where
  "ByteSize_UnmarshalText txt =
    (let s0 = TrimSpace txt;
         (s, mult) = (case find (\<lambda>(suffix, m). HasSuffix s0 suffix) size_units of
            Some (suffix, m) \<Rightarrow> (TrimSpace (TrimSuffix s0 suffix), m)
          | None \<Rightarrow> (s0, 1))
     in case ParseInt s of
          None \<Rightarrow> Inl (''invalid byte size '' @ quoted txt)
        | Some n \<Rightarrow> if n < 0 then Inl (''invalid byte size '' @ quoted txt) else Inr (wrap64 (n * mult)))"

definition ByteSize_String :: "ByteSize \<Rightarrow> string" where
  "ByteSize_String b =
    (if b \<ge> GiB \<and> b mod GiB = 0 then itoa (b div GiB) @ ''GiB''
     else if b \<ge> MiB \<and> b mod MiB = 0 then itoa (b div MiB) @ ''MiB''
     else if b \<ge> KiB \<and> b mod KiB = 0 then itoa (b div KiB) @ ''KiB''
     else itoa b @ ''B'')"

section \<open>Defaults\<close>

definition seconds :: "int \<Rightarrow> int64" where "seconds n = n * 1000000000"
definition milliseconds :: "int \<Rightarrow> int64" where "milliseconds n = n * 1000000"

definition range :: "int64 \<Rightarrow> int64 \<Rightarrow> ConfigRange" where
  "range d c = \<lparr>range_Default = d, range_Ceiling = c\<rparr>"

definition Default :: Config where
  "Default = \<lparr>
     Config_Kafka = \<lparr>kafka_Bootstrap = [], kafka_RequestTimeout = seconds 30,
       kafka_TLS = \<lparr>ktls_Enabled = False, ktls_CAFile = [], ktls_CertFile = [], ktls_KeyFile = []\<rparr>,
       kafka_SASL = \<lparr>sasl_Mechanism = [], sasl_Username = [], sasl_Password = []\<rparr>,
       kafka_Producer = \<lparr>prod_Acks = ''all'', prod_Idempotent = True\<rparr>,
       kafka_Consumer = \<lparr>cons_IsolationLevel = ''read_committed''\<rparr>\<rparr>,
     Config_HTTP = \<lparr>http_Addr = '':8080'', http_TLS = \<lparr>ltls_CertFile = [], ltls_KeyFile = []\<rparr>,
       http_ReadHeaderTimeout = seconds 10, http_IdleTimeout = seconds 60, http_WriteTimeout = 0,
       http_BodyLimit = MiB, http_TrustedProxies = [], http_CORS = \<lparr>cors_Origins = []\<rparr>,
       http_Docs = \<lparr>docs_Enabled = True\<rparr>\<rparr>,
     Config_Auth = \<lparr>auth_Enabled = True, auth_Keys = []\<rparr>,
     Config_Policy = \<lparr>policy_ReadOnlyMode = False, policy_DataPlaneLock = False, policy_DisabledOperations = []\<rparr>,
     Config_Bounds = \<lparr>bounds_Read = \<lparr>read_Limit = range 100 1000\<rparr>,
       bounds_Scan = \<lparr>scan_MaxScan = range 10000 100000, scan_MaxMatches = range 100 1000,
         scan_MaxBytes = range (10 * MiB) (100 * MiB), scan_MaxTime = range (seconds 10) (seconds 60),
         scan_RegexTimeout = milliseconds 100\<rparr>,
       bounds_Replay = \<lparr>replay_Limit = range 1000 10000\<rparr>, bounds_BulkProduceBody = 10 * MiB,
       bounds_Throughput = \<lparr>throughput_Seconds = range 5 60\<rparr>, bounds_Page = \<lparr>page_Size = range 50 500\<rparr>\<rparr>,
     Config_Audit = \<lparr>audit_Sink = AuditSinkStdout, audit_Topic = []\<rparr>,
     Config_Telemetry = \<lparr>telemetry_OTLP = \<lparr>otlp_Endpoint = [], otlp_Protocol = ''grpc''\<rparr>,
       telemetry_ServiceName = ''kafka3o-gateway'', telemetry_LogLevel = ''info''\<rparr>\<rparr>"

section \<open>Redaction\<close>

definition masked :: string where "masked = ''***''"

definition mask_set :: "string \<Rightarrow> string" where
  "mask_set s = (if s \<noteq> [] then masked else s)"

definition Redacted :: "Config \<Rightarrow> Config" where
  "Redacted c = c\<lparr>
     Config_Kafka := (Config_Kafka c)\<lparr>
       kafka_SASL := (kafka_SASL (Config_Kafka c))\<lparr>sasl_Password := mask_set (sasl_Password (kafka_SASL (Config_Kafka c)))\<rparr>,
       kafka_TLS := (kafka_TLS (Config_Kafka c))\<lparr>ktls_KeyFile := mask_set (ktls_KeyFile (kafka_TLS (Config_Kafka c)))\<rparr>\<rparr>,
     Config_HTTP := (Config_HTTP c)\<lparr>
       http_TLS := (http_TLS (Config_HTTP c))\<lparr>ltls_KeyFile := mask_set (ltls_KeyFile (http_TLS (Config_HTTP c)))\<rparr>\<rparr>,
     Config_Auth := (Config_Auth c)\<lparr>auth_Keys := map (\<lambda>k. k\<lparr>key_SHA256 := masked\<rparr>) (auth_Keys (Config_Auth c))\<rparr>\<rparr>"

section \<open>Validation\<close>

text \<open>
  Validation of the configuration (\<^verbatim>\<open>internal/config/validate.go\<close>). Every rule reports its own message;
  \<open>Validate\<close> collects them all, derives the write timeout and normalises the key digests.

  A message is the format with its arguments.
\<close>

type_synonym message = "string \<times> any list"

definition writeTimeoutSlack :: int64 where "writeTimeoutSlack = 5000000000"

section \<open>The two patterns\<close>

text \<open>\<open>^[0-9a-f]{64}$\<close> and \<open>^[A-Z][0-9]{1,2}$\<close>\<close>

definition is_lower_hex :: "char \<Rightarrow> bool" where
  "is_lower_hex c \<longleftrightarrow> is_digit c \<or> 97 \<le> (of_char c :: nat) \<and> (of_char c :: nat) \<le> 102"

definition digestRE :: "string \<Rightarrow> bool" where
  "digestRE s \<longleftrightarrow> length s = 64 \<and> list_all is_lower_hex s"

definition operationIDRE :: "string \<Rightarrow> bool" where
  "operationIDRE s \<longleftrightarrow> (case s of
     [] \<Rightarrow> False
   | c # ds \<Rightarrow> 65 \<le> (of_char c :: nat) \<and> (of_char c :: nat) \<le> 90
       \<and> 1 \<le> length ds \<and> length ds \<le> 2 \<and> list_all is_digit ds)"

section \<open>The rules\<close>

definition add :: "string \<Rightarrow> any list \<Rightarrow> message list" where
  "add format args = [(format, args)]"

definition validateKafka :: "KafkaConfig \<Rightarrow> message list" where
  "validateKafka k =
     (if kafka_Bootstrap k = [] then add ''kafka.bootstrap: at least one host:port is required'' [] else [])
     @ concat (map (\<lambda>b. case SplitHostPort b of
           Inl _ \<Rightarrow> add ''kafka.bootstrap: %q is not host:port'' [AStr b] | Inr _ \<Rightarrow> []) (kafka_Bootstrap k))
     @ (if kafka_RequestTimeout k \<le> 0 then add ''kafka.request_timeout: must be > 0'' [] else [])
     @ (if ktls_Enabled (kafka_TLS k) \<and> (ktls_CertFile (kafka_TLS k) \<noteq> []) \<noteq> (ktls_KeyFile (kafka_TLS k) \<noteq> [])
        then add ''kafka.tls: cert_file and key_file must be set together'' [] else [])
     @ (let m = sasl_Mechanism (kafka_SASL k) in
        if m = [] then []
        else if m = ''PLAIN'' \<or> m = ''SCRAM-SHA-256'' \<or> m = ''SCRAM-SHA-512'' then
          (if sasl_Username (kafka_SASL k) = [] \<or> sasl_Password (kafka_SASL k) = []
           then add ''kafka.sasl: username and password are required for %s'' [AStr m] else [])
        else if m = ''OAUTHBEARER'' then []
        else add ''kafka.sasl.mechanism: %q is not one of PLAIN, SCRAM-SHA-256, SCRAM-SHA-512, OAUTHBEARER'' [AStr m])
     @ (if prod_Acks (kafka_Producer k) \<in> {''all'', ''1'', ''0''} then []
        else add ''kafka.producer.acks: %q is not one of all, 1, 0'' [AStr (prod_Acks (kafka_Producer k))])
     @ (if cons_IsolationLevel (kafka_Consumer k) \<in> {''read_committed'', ''read_uncommitted''} then []
        else add ''kafka.consumer.isolation_level: %q is not read_committed or read_uncommitted''
          [AStr (cons_IsolationLevel (kafka_Consumer k))])"

definition derived_timeout :: "int64 \<Rightarrow> int64" where
  "derived_timeout maxTimeCeiling = wrap64 (maxTimeCeiling + writeTimeoutSlack)"

definition validateHTTP ::
  "HTTPConfig \<Rightarrow> bool \<Rightarrow> int64 \<Rightarrow> message list \<times> HTTPConfig" where
  "validateHTTP h authEnabled maxTimeCeiling =
    (let derived = derived_timeout maxTimeCeiling in
     ((if http_Addr h = [] then add ''http.addr: must not be empty'' [] else [])
      @ (if (ltls_CertFile (http_TLS h) \<noteq> []) \<noteq> (ltls_KeyFile (http_TLS h) \<noteq> [])
         then add ''http.tls: cert_file and key_file must be set together'' [] else [])
      @ (if http_ReadHeaderTimeout h \<le> 0 then add ''http.read_header_timeout: must be > 0'' [] else [])
      @ (if http_IdleTimeout h \<le> 0 then add ''http.idle_timeout: must be > 0'' [] else [])
      @ (if http_BodyLimit h \<le> 0 then add ''http.body_limit: must be > 0'' [] else [])
      @ (if http_WriteTimeout h = 0 then []
         else if http_WriteTimeout h < derived
         then add ''http.write_timeout: %s is below the derived minimum %s (scan max_time ceiling + %s)''
           [AInt (http_WriteTimeout h), AInt derived, AInt writeTimeoutSlack] else [])
      @ concat (map (\<lambda>p. if ParsePrefix p \<noteq> None then [] else add ''http.trusted_proxies: %q is not a CIDR'' [AStr p])
          (http_TrustedProxies h))
      @ concat (map (\<lambda>o'. if o' = ''*'' \<and> authEnabled
          then add ''http.cors.origins: wildcard is not allowed while auth is enabled'' [] else [])
          (cors_Origins (http_CORS h))),
      if http_WriteTimeout h = 0 then h\<lparr>http_WriteTimeout := derived\<rparr> else h))"

fun validateKeys :: "int \<Rightarrow> string list \<Rightarrow> ConfigKey list \<Rightarrow> message list \<times> ConfigKey list" where
  "validateKeys i seen [] = ([], [])"
| "validateKeys i seen (k # ks) =
    (let k' = k\<lparr>key_SHA256 := ToLower (TrimSpace (key_SHA256 k))\<rparr>;
         msgs = (if key_ID k = [] then add ''auth.keys[%d].id: must not be empty'' [AInt i]
                 else if key_ID k \<in> set seen then add ''auth.keys[%d].id: duplicate id %q'' [AInt i, AStr (key_ID k)]
                 else [])
           @ (if key_Tier k \<noteq> config_TierReader \<and> key_Tier k \<noteq> config_TierOperator
              then add ''auth.keys[%d].tier: %q is not reader or operator'' [AInt i, AStr (key_Tier k)] else [])
           @ (if digestRE (key_SHA256 k') then []
              else add ''auth.keys[%d].sha256: must be 64 hex characters'' [AInt i]);
         rest = validateKeys (i + 1) (key_ID k # seen) ks
     in (msgs @ fst rest, k' # snd rest))"

definition validateAuth :: "AuthConfig \<Rightarrow> message list \<times> AuthConfig" where
  "validateAuth a =
    (let r = validateKeys 0 [] (auth_Keys a) in
     ((if auth_Enabled a \<and> auth_Keys a = []
       then add ''auth.keys: at least one key is required while auth is enabled'' [] else []) @ fst r,
      a\<lparr>auth_Keys := snd r\<rparr>))"

fun validateOperations :: "string list \<Rightarrow> string list \<Rightarrow> message list" where
  "validateOperations seen [] = []"
| "validateOperations seen (i # is) =
     (if operationIDRE i then [] else add ''policy.disabled_operations: %q is not a command id'' [AStr i])
     @ (if i \<in> set seen then add ''policy.disabled_operations: duplicate %q'' [AStr i] else [])
     @ validateOperations (i # seen) is"

definition validatePolicy :: "PolicyConfig \<Rightarrow> message list" where
  "validatePolicy p = validateOperations [] (policy_DisabledOperations p)"

definition checkRange :: "string \<Rightarrow> ConfigRange \<Rightarrow> message list" where
  "checkRange path r =
     (if range_Default r \<le> 0 then add ''%s.default: must be > 0'' [AStr path] else [])
     @ (if range_Ceiling r < range_Default r
        then add ''%s.ceiling: %v is below the default %v'' [AStr path, AInt (range_Ceiling r), AInt (range_Default r)]
        else [])"

definition validateBounds :: "BoundsConfig \<Rightarrow> message list" where
  "validateBounds b =
     checkRange ''bounds.read.limit'' (read_Limit (bounds_Read b))
     @ checkRange ''bounds.scan.max_scan'' (scan_MaxScan (bounds_Scan b))
     @ checkRange ''bounds.scan.max_matches'' (scan_MaxMatches (bounds_Scan b))
     @ checkRange ''bounds.scan.max_bytes'' (scan_MaxBytes (bounds_Scan b))
     @ checkRange ''bounds.scan.max_time'' (scan_MaxTime (bounds_Scan b))
     @ (if scan_RegexTimeout (bounds_Scan b) \<le> 0 then add ''bounds.scan.regex_timeout: must be > 0'' [] else [])
     @ checkRange ''bounds.replay.limit'' (replay_Limit (bounds_Replay b))
     @ (if bounds_BulkProduceBody b \<le> 0 then add ''bounds.bulk_produce_body: must be > 0'' [] else [])
     @ checkRange ''bounds.throughput.seconds'' (throughput_Seconds (bounds_Throughput b))
     @ checkRange ''bounds.page.size'' (page_Size (bounds_Page b))"

definition validateAudit :: "AuditConfig \<Rightarrow> message list" where
  "validateAudit a =
    (if audit_Sink a = AuditSinkStdout then []
     else if audit_Sink a = AuditSinkKafka then
       (if audit_Topic a = [] then add ''audit.topic: required when audit.sink is kafka'' [] else [])
     else add ''audit.sink: %q is not stdout or kafka'' [AStr (audit_Sink a)])"

definition validateTelemetry :: "Telemetry \<Rightarrow> message list" where
  "validateTelemetry t =
     (if otlp_Protocol (telemetry_OTLP t) \<in> {''grpc'', ''http''} then []
      else add ''telemetry.otlp.protocol: %q is not grpc or http'' [AStr (otlp_Protocol (telemetry_OTLP t))])
     @ (if telemetry_LogLevel t \<in> {''debug'', ''info'', ''warn'', ''error''} then []
        else add ''telemetry.log_level: %q is not debug, info, warn, or error'' [AStr (telemetry_LogLevel t)])
     @ (if telemetry_ServiceName t = [] then add ''telemetry.service_name: must not be empty'' [] else [])"

definition Validate :: "Config \<Rightarrow> message list + Config" where
  "Validate c =
    (let http = validateHTTP (Config_HTTP c) (auth_Enabled (Config_Auth c))
           (range_Ceiling (scan_MaxTime (bounds_Scan (Config_Bounds c))));
         auth = validateAuth (Config_Auth c);
         errs = validateKafka (Config_Kafka c) @ fst http @ fst auth @ validatePolicy (Config_Policy c)
           @ validateBounds (Config_Bounds c) @ validateAudit (Config_Audit c) @ validateTelemetry (Config_Telemetry c)
     in if errs = [] then Inr (c\<lparr>Config_HTTP := snd http, Config_Auth := snd auth\<rparr>) else Inl errs)"

end
