(* ===== verification/ConfigLoad.thy ===== *)
theory ConfigLoad
  imports ConfigModel
begin

text \<open>
  Loading the configuration (\<^verbatim>\<open>internal/config/load.go\<close>): the leaf paths derived from the struct, the
  environment variables that override them, and \<open>Load\<close>.

  The struct's type is a value of \<open>gotype\<close>, with the \<open>koanf\<close> tag of every field, which \<open>walk\<close> traverses as
  the code does by reflection. Parameters are koanf and the functions it brings: reading a YAML file into a
  map from paths to values, the pairs the environment provider passes on, and decoding the merged map over
  the defaults; and \<open>json.Unmarshal\<close> into a list of objects.
\<close>

section \<open>The schema\<close>

datatype gotype = TScalar | TSlice gotype | TStruct "(string \<times> gotype) list"

datatype leafKind = leafScalar | leafList | leafJSON

definition range_type :: gotype where
  "range_type = TStruct [(''default'', TScalar), (''ceiling'', TScalar)]"

definition key_type :: gotype where
  "key_type = TStruct [(''id'', TScalar), (''tier'', TScalar), (''sha256'', TScalar)]"

definition config_type :: "(string \<times> gotype) list" where
  "config_type =
    [(''kafka'', TStruct [(''bootstrap'', TSlice TScalar), (''request_timeout'', TScalar),
        (''tls'', TStruct [(''enabled'', TScalar), (''ca_file'', TScalar), (''cert_file'', TScalar), (''key_file'', TScalar)]),
        (''sasl'', TStruct [(''mechanism'', TScalar), (''username'', TScalar), (''password'', TScalar)]),
        (''producer'', TStruct [(''acks'', TScalar), (''idempotent'', TScalar)]),
        (''consumer'', TStruct [(''isolation_level'', TScalar)])]),
     (''http'', TStruct [(''addr'', TScalar), (''tls'', TStruct [(''cert_file'', TScalar), (''key_file'', TScalar)]),
        (''read_header_timeout'', TScalar), (''idle_timeout'', TScalar), (''write_timeout'', TScalar),
        (''body_limit'', TScalar), (''trusted_proxies'', TSlice TScalar),
        (''cors'', TStruct [(''origins'', TSlice TScalar)]), (''docs'', TStruct [(''enabled'', TScalar)])]),
     (''auth'', TStruct [(''enabled'', TScalar), (''keys'', TSlice key_type)]),
     (''policy'', TStruct [(''read_only_mode'', TScalar), (''data_plane_lock'', TScalar),
        (''disabled_operations'', TSlice TScalar)]),
     (''bounds'', TStruct [(''read'', TStruct [(''limit'', range_type)]),
        (''scan'', TStruct [(''max_scan'', range_type), (''max_matches'', range_type), (''max_bytes'', range_type),
           (''max_time'', range_type), (''regex_timeout'', TScalar)]),
        (''replay'', TStruct [(''limit'', range_type)]), (''bulk_produce_body'', TScalar),
        (''throughput'', TStruct [(''seconds'', range_type)]), (''page'', TStruct [(''size'', range_type)])]),
     (''audit'', TStruct [(''sink'', TScalar), (''topic'', TScalar)]),
     (''telemetry'', TStruct [(''otlp'', TStruct [(''endpoint'', TScalar), (''protocol'', TScalar)]),
        (''service_name'', TScalar), (''log_level'', TScalar)])]"

definition EnvPrefix :: string where "EnvPrefix = ''KGW_''"
definition delim :: string where "delim = ''.''"

fun walk :: "(string \<times> gotype) list \<Rightarrow> string \<Rightarrow> (string \<times> leafKind) list"
  and walk_field :: "gotype \<Rightarrow> string \<Rightarrow> (string \<times> leafKind) list" where
  "walk [] prefix = []"
| "walk ((tag, t) # flds) prefix =
    (if tag = [] then walk flds prefix
     else walk_field t (if prefix \<noteq> [] then prefix @ delim @ tag else tag) @ walk flds prefix)"
| "walk_field (TStruct flds) path = walk flds path"
| "walk_field (TSlice (TStruct flds)) path = [(path, leafJSON)]"
| "walk_field (TSlice t) path = [(path, leafList)]"
| "walk_field TScalar path = [(path, leafScalar)]"

definition EnvName :: "string \<Rightarrow> string" where
  "EnvName path = EnvPrefix @ ToUpper (map (\<lambda>c. if c = CHR ''.'' then CHR ''_'' else c) path)"

definition reservedEnv :: "string list" where
  "reservedEnv = [EnvPrefix @ ''CONFIG'', EnvPrefix @ ''PROBE_API_KEY'']"

definition envAliases :: "(string \<times> string) list" where
  "envAliases =
    [(EnvPrefix @ ''API_KEYS'', ''auth.keys''),
     (EnvPrefix @ ''CORS_ORIGINS'', ''http.cors.origins''),
     (EnvPrefix @ ''DOCS_ENABLED'', ''http.docs.enabled''),
     (EnvPrefix @ ''HTTP_TLS_CERT'', ''http.tls.cert_file''),
     (EnvPrefix @ ''HTTP_TLS_KEY'', ''http.tls.key_file''),
     (EnvPrefix @ ''KAFKA_ISOLATION_LEVEL'', ''kafka.consumer.isolation_level'')]"

record configSchema =
  sch_leaves :: "(string \<times> leafKind) list"
  sch_byEnv :: "(string \<times> string) list"

definition schema :: configSchema where
  "schema = (let leaves = walk config_type [] in
     \<lparr>sch_leaves = leaves,
      sch_byEnv = fold (\<lambda>(name, path). mput name path) envAliases
        (fold (\<lambda>(path, k). mput (EnvName path) path) leaves [])\<rparr>)"

definition Paths :: "string list" where
  "Paths = sort (mkeys (sch_leaves schema))"

section \<open>Environment variables\<close>

definition splitList :: "string \<Rightarrow> string list" where
  "splitList val =
    (if TrimSpace val = [] then []
     else filter (\<lambda>p. p \<noteq> []) (map TrimSpace (Split (CHR '','') val)))"

text \<open>\<open>fromEnv\<close>: \<open>None\<close> is an unknown variable; a reserved one gives the empty path.\<close>

definition fromEnv :: "(string \<Rightarrow> any option) \<Rightarrow> configSchema \<Rightarrow> string \<Rightarrow> string \<Rightarrow> (string \<times> any) option" where
  "fromEnv parseItems s name val =
    (if name \<in> set reservedEnv then Some ([], ANil)
     else (case map_of (sch_byEnv s) name of
         None \<Rightarrow> None
       | Some path \<Rightarrow>
         Some (path,
           (case mget (sch_leaves s) leafScalar path of
              leafList \<Rightarrow> AList (map AStr (splitList val))
            | leafJSON \<Rightarrow> (case parseItems val of None \<Rightarrow> AStr val | Some items \<Rightarrow> items)
            | leafScalar \<Rightarrow> AStr val))))"

definition unknownKeys :: "string list \<Rightarrow> configSchema \<Rightarrow> string list" where
  "unknownKeys keys s = sort (filter (\<lambda>k. \<not> mhas (sch_leaves s) k) keys)"

text \<open>\<open>PathFromArgs\<close>: the arguments first, then \<open>KGW_CONFIG\<close>.\<close>

fun path_from_args :: "string list \<Rightarrow> string option" where
  "path_from_args [] = None"
| "path_from_args (a # as) =
    (if a = ''--config'' \<and> as \<noteq> [] then Some (hd as)
     else (case CutPrefix a ''--config='' of Some p \<Rightarrow> Some p | None \<Rightarrow> path_from_args as))"

fun path_from_environ :: "string list \<Rightarrow> string" where
  "path_from_environ [] = []"
| "path_from_environ (e # es) =
    (case CutPrefix e (EnvPrefix @ ''CONFIG='') of Some p \<Rightarrow> p | None \<Rightarrow> path_from_environ es)"

definition PathFromArgs :: "string list \<Rightarrow> string list \<Rightarrow> string" where
  "PathFromArgs args environ =
    (case path_from_args args of Some p \<Rightarrow> p | None \<Rightarrow> path_from_environ environ)"

section \<open>\<open>Load\<close>\<close>

record Koanf =
  k_readYAML :: "string \<Rightarrow> string + (string \<times> any) list"
  k_envPairs :: "string list \<Rightarrow> (string \<times> string) list"
  k_unmarshal :: "(string \<times> any) list \<Rightarrow> Config \<Rightarrow> string + Config"
  k_parseItems :: "string \<Rightarrow> any option"

text \<open>
  The environment's map over the file's: a blank path is left out, an unknown variable is remembered. The
  kinds of failure are the wrapped errors of \<open>Load\<close>.
\<close>

datatype load_error = ReadError string string | UnknownKeys string "string list" | UnknownEnv "string list"
  | DecodeError string | InvalidConfig "message list"

definition env_values :: "Koanf \<Rightarrow> string list \<Rightarrow> (string \<times> any) list" where
  "env_values k environ =
    concat (map (\<lambda>(name, val). case fromEnv (k_parseItems k) schema name val of
        Some (path, v) \<Rightarrow> if path = [] then [] else [(path, v)]
      | None \<Rightarrow> []) (k_envPairs k environ))"

definition unknown_env :: "Koanf \<Rightarrow> string list \<Rightarrow> string list" where
  "unknown_env k environ =
    map fst (filter (\<lambda>(name, val). fromEnv (k_parseItems k) schema name val = None) (k_envPairs k environ))"

definition Load :: "Koanf \<Rightarrow> string \<Rightarrow> string list \<Rightarrow> load_error + Config" where
  "Load k path environ =
    (case (if path = [] then Inr []
           else (case k_readYAML k path of
               Inl e \<Rightarrow> Inl (ReadError path e)
             | Inr vals \<Rightarrow>
               if unknownKeys (mkeys vals) schema \<noteq> [] then Inl (UnknownKeys path (unknownKeys (mkeys vals) schema))
               else Inr vals)) of
       Inl e \<Rightarrow> Inl e
     | Inr vals \<Rightarrow>
       if unknown_env k environ \<noteq> [] then Inl (UnknownEnv (sort (unknown_env k environ)))
       else (case k_unmarshal k (fold (\<lambda>(p, v). mput p v) (env_values k environ) vals) Default of
           Inl e \<Rightarrow> Inl (DecodeError e)
         | Inr cfg \<Rightarrow> (case Validate cfg of Inl errs \<Rightarrow> Inl (InvalidConfig errs) | Inr c \<Rightarrow> Inr c)))"

end
