(* ===== verification/ConfigEnv.thy ===== *)
theory ConfigEnv
  imports ConfigLoad
begin

text \<open>
  The environment variables of the configuration: the leaf paths and the variables spelled out, and that every
  setting can be set from the environment under its own name, over the file's value.
\<close>

section \<open>The leaf paths and their variables\<close>

lemma char_of_eqI: "of_char c = (n :: nat) \<Longrightarrow> char_of n = c"
  using char_of_char by blast

lemma upper_letters:
  "char_of (65::nat) = CHR ''A''" "char_of (66::nat) = CHR ''B''" "char_of (67::nat) = CHR ''C''"
  "char_of (68::nat) = CHR ''D''" "char_of (69::nat) = CHR ''E''" "char_of (70::nat) = CHR ''F''"
  "char_of (71::nat) = CHR ''G''" "char_of (72::nat) = CHR ''H''" "char_of (73::nat) = CHR ''I''"
  "char_of (74::nat) = CHR ''J''" "char_of (75::nat) = CHR ''K''" "char_of (76::nat) = CHR ''L''"
  "char_of (77::nat) = CHR ''M''" "char_of (78::nat) = CHR ''N''" "char_of (79::nat) = CHR ''O''"
  "char_of (80::nat) = CHR ''P''" "char_of (81::nat) = CHR ''Q''" "char_of (82::nat) = CHR ''R''"
  "char_of (83::nat) = CHR ''S''" "char_of (84::nat) = CHR ''T''" "char_of (85::nat) = CHR ''U''"
  "char_of (86::nat) = CHR ''V''" "char_of (87::nat) = CHR ''W''" "char_of (88::nat) = CHR ''X''"
  "char_of (89::nat) = CHR ''Y''" "char_of (90::nat) = CHR ''Z''"
  by (rule char_of_eqI; simp)+

lemma leaves_eq: "sch_leaves schema =
    [(''kafka.bootstrap'', leafList),
     (''kafka.request_timeout'', leafScalar),
     (''kafka.tls.enabled'', leafScalar),
     (''kafka.tls.ca_file'', leafScalar),
     (''kafka.tls.cert_file'', leafScalar),
     (''kafka.tls.key_file'', leafScalar),
     (''kafka.sasl.mechanism'', leafScalar),
     (''kafka.sasl.username'', leafScalar),
     (''kafka.sasl.password'', leafScalar),
     (''kafka.producer.acks'', leafScalar),
     (''kafka.producer.idempotent'', leafScalar),
     (''kafka.consumer.isolation_level'', leafScalar),
     (''http.addr'', leafScalar),
     (''http.tls.cert_file'', leafScalar),
     (''http.tls.key_file'', leafScalar),
     (''http.read_header_timeout'', leafScalar),
     (''http.idle_timeout'', leafScalar),
     (''http.write_timeout'', leafScalar),
     (''http.body_limit'', leafScalar),
     (''http.trusted_proxies'', leafList),
     (''http.cors.origins'', leafList),
     (''http.docs.enabled'', leafScalar),
     (''auth.enabled'', leafScalar),
     (''auth.keys'', leafJSON),
     (''policy.read_only_mode'', leafScalar),
     (''policy.data_plane_lock'', leafScalar),
     (''policy.disabled_operations'', leafList),
     (''bounds.read.limit.default'', leafScalar),
     (''bounds.read.limit.ceiling'', leafScalar),
     (''bounds.scan.max_scan.default'', leafScalar),
     (''bounds.scan.max_scan.ceiling'', leafScalar),
     (''bounds.scan.max_matches.default'', leafScalar),
     (''bounds.scan.max_matches.ceiling'', leafScalar),
     (''bounds.scan.max_bytes.default'', leafScalar),
     (''bounds.scan.max_bytes.ceiling'', leafScalar),
     (''bounds.scan.max_time.default'', leafScalar),
     (''bounds.scan.max_time.ceiling'', leafScalar),
     (''bounds.scan.regex_timeout'', leafScalar),
     (''bounds.replay.limit.default'', leafScalar),
     (''bounds.replay.limit.ceiling'', leafScalar),
     (''bounds.bulk_produce_body'', leafScalar),
     (''bounds.throughput.seconds.default'', leafScalar),
     (''bounds.throughput.seconds.ceiling'', leafScalar),
     (''bounds.page.size.default'', leafScalar),
     (''bounds.page.size.ceiling'', leafScalar),
     (''audit.sink'', leafScalar),
     (''audit.topic'', leafScalar),
     (''telemetry.otlp.endpoint'', leafScalar),
     (''telemetry.otlp.protocol'', leafScalar),
     (''telemetry.service_name'', leafScalar),
     (''telemetry.log_level'', leafScalar)]"
  by (simp add: schema_def Let_def config_type_def range_type_def key_type_def delim_def)

lemma names_eq: "map (EnvName \<circ> fst) (sch_leaves schema) =
    [''KGW_KAFKA_BOOTSTRAP'',
     ''KGW_KAFKA_REQUEST_TIMEOUT'',
     ''KGW_KAFKA_TLS_ENABLED'',
     ''KGW_KAFKA_TLS_CA_FILE'',
     ''KGW_KAFKA_TLS_CERT_FILE'',
     ''KGW_KAFKA_TLS_KEY_FILE'',
     ''KGW_KAFKA_SASL_MECHANISM'',
     ''KGW_KAFKA_SASL_USERNAME'',
     ''KGW_KAFKA_SASL_PASSWORD'',
     ''KGW_KAFKA_PRODUCER_ACKS'',
     ''KGW_KAFKA_PRODUCER_IDEMPOTENT'',
     ''KGW_KAFKA_CONSUMER_ISOLATION_LEVEL'',
     ''KGW_HTTP_ADDR'',
     ''KGW_HTTP_TLS_CERT_FILE'',
     ''KGW_HTTP_TLS_KEY_FILE'',
     ''KGW_HTTP_READ_HEADER_TIMEOUT'',
     ''KGW_HTTP_IDLE_TIMEOUT'',
     ''KGW_HTTP_WRITE_TIMEOUT'',
     ''KGW_HTTP_BODY_LIMIT'',
     ''KGW_HTTP_TRUSTED_PROXIES'',
     ''KGW_HTTP_CORS_ORIGINS'',
     ''KGW_HTTP_DOCS_ENABLED'',
     ''KGW_AUTH_ENABLED'',
     ''KGW_AUTH_KEYS'',
     ''KGW_POLICY_READ_ONLY_MODE'',
     ''KGW_POLICY_DATA_PLANE_LOCK'',
     ''KGW_POLICY_DISABLED_OPERATIONS'',
     ''KGW_BOUNDS_READ_LIMIT_DEFAULT'',
     ''KGW_BOUNDS_READ_LIMIT_CEILING'',
     ''KGW_BOUNDS_SCAN_MAX_SCAN_DEFAULT'',
     ''KGW_BOUNDS_SCAN_MAX_SCAN_CEILING'',
     ''KGW_BOUNDS_SCAN_MAX_MATCHES_DEFAULT'',
     ''KGW_BOUNDS_SCAN_MAX_MATCHES_CEILING'',
     ''KGW_BOUNDS_SCAN_MAX_BYTES_DEFAULT'',
     ''KGW_BOUNDS_SCAN_MAX_BYTES_CEILING'',
     ''KGW_BOUNDS_SCAN_MAX_TIME_DEFAULT'',
     ''KGW_BOUNDS_SCAN_MAX_TIME_CEILING'',
     ''KGW_BOUNDS_SCAN_REGEX_TIMEOUT'',
     ''KGW_BOUNDS_REPLAY_LIMIT_DEFAULT'',
     ''KGW_BOUNDS_REPLAY_LIMIT_CEILING'',
     ''KGW_BOUNDS_BULK_PRODUCE_BODY'',
     ''KGW_BOUNDS_THROUGHPUT_SECONDS_DEFAULT'',
     ''KGW_BOUNDS_THROUGHPUT_SECONDS_CEILING'',
     ''KGW_BOUNDS_PAGE_SIZE_DEFAULT'',
     ''KGW_BOUNDS_PAGE_SIZE_CEILING'',
     ''KGW_AUDIT_SINK'',
     ''KGW_AUDIT_TOPIC'',
     ''KGW_TELEMETRY_OTLP_ENDPOINT'',
     ''KGW_TELEMETRY_OTLP_PROTOCOL'',
     ''KGW_TELEMETRY_SERVICE_NAME'',
     ''KGW_TELEMETRY_LOG_LEVEL'']"
  unfolding leaves_eq EnvName_def EnvPrefix_def
  by (simp add: ToUpper_def is_ascii_def upper_char_def Let_def upper_letters)

lemma names_distinct: "distinct (map (EnvName \<circ> fst) (sch_leaves schema))"
  unfolding names_eq by simp

lemma names_apart: "set (map (EnvName \<circ> fst) (sch_leaves schema)) \<inter> (set reservedEnv \<union> fst ` set envAliases) = {}"
  unfolding names_eq reservedEnv_def envAliases_def EnvPrefix_def by simp

section \<open>Every setting has its variable\<close>

lemma fold_mput_other: "k \<notin> fst ` set kvs \<Longrightarrow> map_of (fold (\<lambda>(k, v). mput k v) kvs m) k = map_of m k"
  by (induction kvs arbitrary: m) (auto simp: update_conv')

lemma fold_mput_names:
  "distinct (map (EnvName \<circ> fst) ls) \<Longrightarrow> (p, k) \<in> set ls \<Longrightarrow>
     map_of (fold (\<lambda>(p, k). mput (EnvName p) p) ls m) (EnvName p) = Some p"
proof (induction ls arbitrary: m)
  case (Cons l ls)
  have other: "EnvName p \<notin> (EnvName \<circ> fst) ` set xs \<Longrightarrow>
      map_of (fold (\<lambda>(p, k). mput (EnvName p) p) xs m') (EnvName p) = map_of m' (EnvName p)" for xs m'
    by (induction xs arbitrary: m') (auto simp: update_conv')
  show ?case
  proof (cases "l = (p, k)")
    case True
    with Cons.prems(1) show ?thesis by (simp add: other update_conv')
  next
    case False
    with Cons show ?thesis by simp
  qed
qed simp

lemma leaf_variable:
  assumes "(p, k) \<in> set (sch_leaves schema)"
  shows "map_of (sch_byEnv schema) (EnvName p) = Some p" "EnvName p \<notin> set reservedEnv"
    "map_of (sch_leaves schema) p = Some k"
proof -
  have n: "EnvName p \<in> set (map (EnvName \<circ> fst) (sch_leaves schema))"
    using imageI [OF assms, of "EnvName \<circ> fst"] by (simp only: comp_apply fst_conv set_map)
  then have a: "EnvName p \<notin> fst ` set envAliases" "EnvName p \<notin> set reservedEnv"
    using names_apart by blast+
  show "EnvName p \<notin> set reservedEnv" by (rule a(2))
  have l: "sch_leaves schema = walk config_type []" by (simp add: schema_def Let_def)
  show "map_of (sch_byEnv schema) (EnvName p) = Some p"
    using fold_mput_names [OF names_distinct assms, of "[]"] a(1)
    by (simp add: schema_def Let_def fold_mput_other)
  have "distinct (map fst (sch_leaves schema))"
    using names_distinct by (metis distinct_map map_map)
  then show "map_of (sch_leaves schema) p = Some k" using assms by simp
qed

text \<open>The variables of the settings as the operator knows them: name, path and shape of the value.\<close>

definition settings :: "(string \<times> string \<times> leafKind) list" where
  "settings =
    [(''KGW_KAFKA_BOOTSTRAP'', ''kafka.bootstrap'', leafList),
     (''KGW_KAFKA_REQUEST_TIMEOUT'', ''kafka.request_timeout'', leafScalar),
     (''KGW_KAFKA_TLS_ENABLED'', ''kafka.tls.enabled'', leafScalar),
     (''KGW_KAFKA_TLS_CA_FILE'', ''kafka.tls.ca_file'', leafScalar),
     (''KGW_KAFKA_TLS_CERT_FILE'', ''kafka.tls.cert_file'', leafScalar),
     (''KGW_KAFKA_TLS_KEY_FILE'', ''kafka.tls.key_file'', leafScalar),
     (''KGW_KAFKA_SASL_MECHANISM'', ''kafka.sasl.mechanism'', leafScalar),
     (''KGW_KAFKA_SASL_USERNAME'', ''kafka.sasl.username'', leafScalar),
     (''KGW_KAFKA_SASL_PASSWORD'', ''kafka.sasl.password'', leafScalar),
     (''KGW_KAFKA_PRODUCER_ACKS'', ''kafka.producer.acks'', leafScalar),
     (''KGW_KAFKA_PRODUCER_IDEMPOTENT'', ''kafka.producer.idempotent'', leafScalar),
     (''KGW_KAFKA_CONSUMER_ISOLATION_LEVEL'', ''kafka.consumer.isolation_level'', leafScalar),
     (''KGW_HTTP_ADDR'', ''http.addr'', leafScalar),
     (''KGW_HTTP_TLS_CERT_FILE'', ''http.tls.cert_file'', leafScalar),
     (''KGW_HTTP_TLS_KEY_FILE'', ''http.tls.key_file'', leafScalar),
     (''KGW_HTTP_READ_HEADER_TIMEOUT'', ''http.read_header_timeout'', leafScalar),
     (''KGW_HTTP_IDLE_TIMEOUT'', ''http.idle_timeout'', leafScalar),
     (''KGW_HTTP_WRITE_TIMEOUT'', ''http.write_timeout'', leafScalar),
     (''KGW_HTTP_BODY_LIMIT'', ''http.body_limit'', leafScalar),
     (''KGW_HTTP_TRUSTED_PROXIES'', ''http.trusted_proxies'', leafList),
     (''KGW_HTTP_CORS_ORIGINS'', ''http.cors.origins'', leafList),
     (''KGW_HTTP_DOCS_ENABLED'', ''http.docs.enabled'', leafScalar),
     (''KGW_AUTH_ENABLED'', ''auth.enabled'', leafScalar),
     (''KGW_AUTH_KEYS'', ''auth.keys'', leafJSON),
     (''KGW_POLICY_READ_ONLY_MODE'', ''policy.read_only_mode'', leafScalar),
     (''KGW_POLICY_DATA_PLANE_LOCK'', ''policy.data_plane_lock'', leafScalar),
     (''KGW_POLICY_DISABLED_OPERATIONS'', ''policy.disabled_operations'', leafList),
     (''KGW_BOUNDS_READ_LIMIT_DEFAULT'', ''bounds.read.limit.default'', leafScalar),
     (''KGW_BOUNDS_READ_LIMIT_CEILING'', ''bounds.read.limit.ceiling'', leafScalar),
     (''KGW_BOUNDS_SCAN_MAX_SCAN_DEFAULT'', ''bounds.scan.max_scan.default'', leafScalar),
     (''KGW_BOUNDS_SCAN_MAX_SCAN_CEILING'', ''bounds.scan.max_scan.ceiling'', leafScalar),
     (''KGW_BOUNDS_SCAN_MAX_MATCHES_DEFAULT'', ''bounds.scan.max_matches.default'', leafScalar),
     (''KGW_BOUNDS_SCAN_MAX_MATCHES_CEILING'', ''bounds.scan.max_matches.ceiling'', leafScalar),
     (''KGW_BOUNDS_SCAN_MAX_BYTES_DEFAULT'', ''bounds.scan.max_bytes.default'', leafScalar),
     (''KGW_BOUNDS_SCAN_MAX_BYTES_CEILING'', ''bounds.scan.max_bytes.ceiling'', leafScalar),
     (''KGW_BOUNDS_SCAN_MAX_TIME_DEFAULT'', ''bounds.scan.max_time.default'', leafScalar),
     (''KGW_BOUNDS_SCAN_MAX_TIME_CEILING'', ''bounds.scan.max_time.ceiling'', leafScalar),
     (''KGW_BOUNDS_SCAN_REGEX_TIMEOUT'', ''bounds.scan.regex_timeout'', leafScalar),
     (''KGW_BOUNDS_REPLAY_LIMIT_DEFAULT'', ''bounds.replay.limit.default'', leafScalar),
     (''KGW_BOUNDS_REPLAY_LIMIT_CEILING'', ''bounds.replay.limit.ceiling'', leafScalar),
     (''KGW_BOUNDS_BULK_PRODUCE_BODY'', ''bounds.bulk_produce_body'', leafScalar),
     (''KGW_BOUNDS_THROUGHPUT_SECONDS_DEFAULT'', ''bounds.throughput.seconds.default'', leafScalar),
     (''KGW_BOUNDS_THROUGHPUT_SECONDS_CEILING'', ''bounds.throughput.seconds.ceiling'', leafScalar),
     (''KGW_BOUNDS_PAGE_SIZE_DEFAULT'', ''bounds.page.size.default'', leafScalar),
     (''KGW_BOUNDS_PAGE_SIZE_CEILING'', ''bounds.page.size.ceiling'', leafScalar),
     (''KGW_AUDIT_SINK'', ''audit.sink'', leafScalar),
     (''KGW_AUDIT_TOPIC'', ''audit.topic'', leafScalar),
     (''KGW_TELEMETRY_OTLP_ENDPOINT'', ''telemetry.otlp.endpoint'', leafScalar),
     (''KGW_TELEMETRY_OTLP_PROTOCOL'', ''telemetry.otlp.protocol'', leafScalar),
     (''KGW_TELEMETRY_SERVICE_NAME'', ''telemetry.service_name'', leafScalar),
     (''KGW_TELEMETRY_LOG_LEVEL'', ''telemetry.log_level'', leafScalar)]"

definition short_names :: "(string \<times> string \<times> leafKind) list" where
  "short_names =
    [(''KGW_API_KEYS'', ''auth.keys'', leafJSON),
     (''KGW_CORS_ORIGINS'', ''http.cors.origins'', leafList),
     (''KGW_DOCS_ENABLED'', ''http.docs.enabled'', leafScalar),
     (''KGW_HTTP_TLS_CERT'', ''http.tls.cert_file'', leafScalar),
     (''KGW_HTTP_TLS_KEY'', ''http.tls.key_file'', leafScalar),
     (''KGW_KAFKA_ISOLATION_LEVEL'', ''kafka.consumer.isolation_level'', leafScalar)]"

definition setting_value :: "(string \<Rightarrow> any option) \<Rightarrow> leafKind \<Rightarrow> string \<Rightarrow> any" where
  "setting_value parseItems kind val =
    (case kind of leafList \<Rightarrow> AList (map AStr (splitList val))
     | leafJSON \<Rightarrow> (case parseItems val of None \<Rightarrow> AStr val | Some items \<Rightarrow> items)
     | leafScalar \<Rightarrow> AStr val)"

lemma settings_leaves: "settings = map (\<lambda>(p, k). (EnvName p, p, k)) (sch_leaves schema)"
proof -
  have "map (\<lambda>(p, k). (EnvName p, p, k)) ls = zip (map (EnvName \<circ> fst) ls) ls" for ls :: "(string \<times> leafKind) list"
    by (induction ls) auto
  then have "map (\<lambda>(p, k). (EnvName p, p, k)) (sch_leaves schema) = zip (map (EnvName \<circ> fst) (sch_leaves schema)) (sch_leaves schema)"
    by blast
  also have "\<dots> = settings" unfolding names_eq unfolding leaves_eq settings_def by simp
  finally show ?thesis by simp
qed

lemma short_names_aliases: "map (\<lambda>(n, p, k). (n, p)) short_names = envAliases"
  by (simp add: short_names_def envAliases_def EnvPrefix_def)

lemma short_names_leaves: "(n, p, k) \<in> set short_names \<Longrightarrow> (p, k) \<in> set (sch_leaves schema)"
  unfolding leaves_eq short_names_def by auto

lemma fold_mput_alias:
  "distinct (map fst kvs) \<Longrightarrow> (n, p) \<in> set kvs \<Longrightarrow> map_of (fold (\<lambda>(k, v). mput k v) kvs m) n = Some p"
proof (induction kvs arbitrary: m)
  case (Cons kv kvs)
  then show ?case by (cases "kv = (n, p)") (auto simp: fold_mput_other update_conv')
qed simp

lemma alias_variable:
  assumes "(n, p) \<in> set envAliases"
  shows "map_of (sch_byEnv schema) n = Some p" "n \<notin> set reservedEnv"
proof -
  have "distinct (map fst envAliases)" by (simp add: envAliases_def)
  from fold_mput_alias [OF this assms] show "map_of (sch_byEnv schema) n = Some p"
    by (simp add: schema_def Let_def)
  show "n \<notin> set reservedEnv" using assms by (auto simp: envAliases_def reservedEnv_def EnvPrefix_def)
qed

lemma variable_value:
  assumes "(name, path, kind) \<in> set (settings @ short_names)"
  shows "fromEnv P schema name val = Some (path, setting_value P kind val)" "path \<noteq> []"
proof -
  have leaf: "(path, kind) \<in> set (sch_leaves schema)"
    using assms short_names_leaves by (auto simp: settings_leaves)
  have "map_of (sch_byEnv schema) name = Some path \<and> name \<notin> set reservedEnv"
  proof (cases "(name, path, kind) \<in> set settings")
    case True
    then have "name = EnvName path" by (auto simp: settings_leaves)
    with leaf_variable [OF leaf] show ?thesis by simp
  next
    case False
    with assms have "(name, path) \<in> set (map (\<lambda>(n, p, k). (n, p)) short_names)" by force
    with alias_variable show ?thesis unfolding short_names_aliases by blast
  qed
  with leaf_variable(3) [OF leaf] show "fromEnv P schema name val = Some (path, setting_value P kind val)"
    by (simp add: fromEnv_def setting_value_def mget_def)
  show "path \<noteq> []" using leaf unfolding leaves_eq by auto
qed

lemma fold_mput_unique:
  "(q, v) \<in> set kvs \<Longrightarrow> (\<And>v'. (q, v') \<in> set kvs \<Longrightarrow> v' = v) \<Longrightarrow> map_of (fold (\<lambda>(k, v). mput k v) kvs m) q = Some v"
proof (induction kvs arbitrary: m rule: rev_induct)
  case (snoc kv kvs)
  obtain k u where kv: "kv = (k, u)" by (cases kv)
  show ?case
  proof (cases "k = q")
    case True
    with snoc.prems(2) [of u] kv show ?thesis by (simp add: update_conv')
  next
    case False
    have "map_of (fold (\<lambda>(k, v). mput k v) kvs m) q = Some v"
    proof (rule snoc.IH)
      show "(q, v) \<in> set kvs" using snoc.prems(1) kv False by simp
      show "v' = v" if "(q, v') \<in> set kvs" for v' using snoc.prems(2) [of v'] that by simp
    qed
    with False kv show ?thesis by (simp add: update_conv')
  qed
qed simp

text \<open>A variable that \<open>Load\<close> knows: one of a setting, by its long or its short name, or one that is read elsewhere.\<close>

definition known_variable :: "string \<Rightarrow> bool" where
  "known_variable name \<longleftrightarrow> name \<in> {''KGW_CONFIG'', ''KGW_PROBE_API_KEY''} \<or> name \<in> fst ` set (settings @ short_names)"

lemma known_fromEnv:
  assumes "known_variable name"
  shows "(\<exists>v. fromEnv P schema name val = Some ([], v)) \<or>
    (\<exists>path kind. (name, path, kind) \<in> set (settings @ short_names)
       \<and> fromEnv P schema name val = Some (path, setting_value P kind val) \<and> path \<noteq> [])"
proof (cases "name \<in> {''KGW_CONFIG'', ''KGW_PROBE_API_KEY''}")
  case True
  then show ?thesis by (auto simp: fromEnv_def reservedEnv_def EnvPrefix_def)
next
  case False
  with assms have "name \<in> fst ` set (settings @ short_names)" unfolding known_variable_def by blast
  then obtain path kind where "(name, path, kind) \<in> set (settings @ short_names)" by (metis imageE prod.collapse)
  with variable_value show ?thesis by blast
qed

lemma env_values_mem:
  "(q, v) \<in> set (env_values k environ) \<longleftrightarrow>
     (\<exists>(name, val) \<in> set (k_envPairs k environ). fromEnv (k_parseItems k) schema name val = Some (q, v) \<and> q \<noteq> [])"
proof -
  have "(q, v) \<in> set (case x of Some (path, v) \<Rightarrow> if path = [] then [] else [(path, v)] | None \<Rightarrow> []) \<longleftrightarrow> x = Some (q, v) \<and> q \<noteq> []"
    for x :: "(string \<times> any) option" by (cases x) auto
  then show ?thesis unfolding env_values_def set_concat set_map by (simp add: case_prod_beta')
qed

text \<open>
  C39. Every setting can be set from the environment, which overrides the file. When the file, if there is one, names
  settings only and every variable is a known one, \<open>Load\<close> decodes over the defaults, and then validates, a map in which
  every setting with a variable (of its long or its short name, \<open>settings\<close> and \<open>short_names\<close>) has that variable's value,
  in the shape of the setting, and every other setting the value of the file.
\<close>

theorem every_setting_has_its_variable:
  assumes "if file = [] then vals = [] else k_readYAML k file = Inr vals"
    and "\<forall>q \<in> set (mkeys vals). q \<in> (fst \<circ> snd) ` set settings"
    and "\<forall>(name, val) \<in> set (k_envPairs k environ). known_variable name"
  shows "\<exists>merged.
      Load k file environ = (case k_unmarshal k merged Default of Inl e \<Rightarrow> Inl (DecodeError e)
        | Inr cfg \<Rightarrow> (case Validate cfg of Inl errs \<Rightarrow> Inl (InvalidConfig errs) | Inr c \<Rightarrow> Inr c))
    \<and> (\<forall>(name, path, kind) \<in> set (settings @ short_names). \<forall>val. (name, val) \<in> set (k_envPairs k environ)
        \<and> (\<forall>(name', val') \<in> set (k_envPairs k environ).
             name' \<in> fst ` {x \<in> set (settings @ short_names). fst (snd x) = path} \<longrightarrow> (name', val') = (name, val))
        \<longrightarrow> map_of merged path = Some (setting_value (k_parseItems k) kind val))
    \<and> (\<forall>path. (\<forall>(name, val) \<in> set (k_envPairs k environ).
             name \<notin> fst ` {x \<in> set (settings @ short_names). fst (snd x) = path})
        \<longrightarrow> map_of merged path = map_of vals path)"
proof -
  let ?pairs = "k_envPairs k environ" and ?merged = "fold (\<lambda>(p, v). mput p v) (env_values k environ) vals"
  let ?names = "\<lambda>path. fst ` {x \<in> set (settings @ short_names). fst (snd x) = path}"
  have leaf: "mhas (sch_leaves schema) q" if "q \<in> (fst \<circ> snd) ` set settings" for q
    using that leaf_variable(3) by (fastforce simp: settings_leaves mhas_def)
  then have keys: "unknownKeys (mkeys vals) schema = []"
    using assms(2) by (auto simp: unknownKeys_def filter_empty_conv)
  have known: "unknown_env k environ = []"
    using assms(3) known_fromEnv [of _ "k_parseItems k"] by (fastforce simp: unknown_env_def filter_empty_conv)
  have load: "Load k file environ = (case k_unmarshal k ?merged Default of Inl e \<Rightarrow> Inl (DecodeError e)
        | Inr cfg \<Rightarrow> (case Validate cfg of Inl errs \<Rightarrow> Inl (InvalidConfig errs) | Inr c \<Rightarrow> Inr c))"
    using assms(1) keys known by (auto simp: Load_def split: if_splits)
  have named: "name \<in> ?names q" if "(name, val) \<in> set ?pairs" "fromEnv (k_parseItems k) schema name val = Some (q, v)" "q \<noteq> []"
    for name val q v
    using assms(3) that known_fromEnv [of name "k_parseItems k" val] by force
  have "map_of ?merged path = Some (setting_value (k_parseItems k) kind val)"
    if var: "(name, path, kind) \<in> set (settings @ short_names)" and pair: "(name, val) \<in> set ?pairs"
      and only: "\<forall>(name', val') \<in> set ?pairs. name' \<in> ?names path \<longrightarrow> (name', val') = (name, val)" for name path kind val
  proof (rule fold_mput_unique)
    note var_value = variable_value(1) [OF var, of "k_parseItems k" val] variable_value(2) [OF var]
    with pair show "(path, setting_value (k_parseItems k) kind val) \<in> set (env_values k environ)"
      unfolding env_values_mem by blast
    fix v' assume "(path, v') \<in> set (env_values k environ)"
    then obtain n u where "(n, u) \<in> set ?pairs" "fromEnv (k_parseItems k) schema n u = Some (path, v')"
      unfolding env_values_mem by blast
    moreover from this have "(n, u) = (name, val)" using named var_value(2) only by blast
    ultimately show "v' = setting_value (k_parseItems k) kind val" using var_value(1) by simp
  qed
  moreover have "map_of ?merged path = map_of vals path" if "\<forall>(name, val) \<in> set ?pairs. name \<notin> ?names path" for path
  proof (rule fold_mput_other)
    show "path \<notin> fst ` set (env_values k environ)"
    proof
      assume "path \<in> fst ` set (env_values k environ)"
      then obtain v where "(path, v) \<in> set (env_values k environ)" by auto
      then show False unfolding env_values_mem using named that by blast
    qed
  qed
  ultimately show ?thesis using load by (intro exI [of _ ?merged]) blast
qed

text \<open>A file that sets the topic of the audit trail and the proxies, and an environment that overrides the proxies.\<close>

definition demo_koanf :: Koanf where
  "demo_koanf = \<lparr>k_readYAML = (\<lambda>_. Inr [(''http.trusted_proxies'', AList []), (''audit.topic'', AStr ''a'')]),
     k_envPairs = (\<lambda>_. [(''KGW_HTTP_TRUSTED_PROXIES'', ''10.0.0.0/8''), (''KGW_CONFIG'', ''c'')]),
     k_unmarshal = (\<lambda>m c. Inr c), k_parseItems = (\<lambda>_. None)\<rparr>"

lemma demo_settings:
  "(''KGW_HTTP_TRUSTED_PROXIES'', ''http.trusted_proxies'', leafList) \<in> set settings"
  "(''KGW_AUDIT_TOPIC'', ''audit.topic'', leafScalar) \<in> set settings"
  by (simp_all add: settings_def)

theorem every_setting_has_its_variable_witness:
  "\<exists>merged.
      Load demo_koanf ''c'' [] = (case k_unmarshal demo_koanf merged Default of Inl e \<Rightarrow> Inl (DecodeError e)
        | Inr cfg \<Rightarrow> (case Validate cfg of Inl errs \<Rightarrow> Inl (InvalidConfig errs) | Inr c \<Rightarrow> Inr c))
    \<and> map_of merged ''http.trusted_proxies'' = Some (AList (map AStr (splitList ''10.0.0.0/8'')))"
proof -
  let ?vals = "[(''http.trusted_proxies'', AList []), (''audit.topic'', AStr ''a'')]"
  have pairs: "k_envPairs demo_koanf [] = [(''KGW_HTTP_TRUSTED_PROXIES'', ''10.0.0.0/8''), (''KGW_CONFIG'', ''c'')]"
    by (simp add: demo_koanf_def)
  have "if ''c'' = [] then ?vals = [] else k_readYAML demo_koanf ''c'' = Inr ?vals" by (simp add: demo_koanf_def)
  moreover have "\<forall>q \<in> set (mkeys ?vals). q \<in> (fst \<circ> snd) ` set settings"
    using demo_settings by (force simp: mkeys_def)
  moreover have "known_variable ''KGW_HTTP_TRUSTED_PROXIES''"
    using imageI [OF demo_settings(1), of fst] unfolding known_variable_def set_append image_Un fst_conv by blast
  then have "\<forall>(name, val) \<in> set (k_envPairs demo_koanf []). known_variable name"
    unfolding pairs by (simp add: known_variable_def [of "''KGW_CONFIG''"])
  ultimately obtain merged where
    "Load demo_koanf ''c'' [] = (case k_unmarshal demo_koanf merged Default of Inl e \<Rightarrow> Inl (DecodeError e)
        | Inr cfg \<Rightarrow> (case Validate cfg of Inl errs \<Rightarrow> Inl (InvalidConfig errs) | Inr c \<Rightarrow> Inr c))" and
    set_by: "\<forall>(name, path, kind) \<in> set (settings @ short_names). \<forall>val. (name, val) \<in> set (k_envPairs demo_koanf [])
        \<and> (\<forall>(name', val') \<in> set (k_envPairs demo_koanf []).
             name' \<in> fst ` {x \<in> set (settings @ short_names). fst (snd x) = path} \<longrightarrow> (name', val') = (name, val))
        \<longrightarrow> map_of merged path = Some (setting_value (k_parseItems demo_koanf) kind val)"
    using every_setting_has_its_variable [of "''c''" ?vals demo_koanf "[]"] by blast
  have "''KGW_CONFIG'' \<notin> fst ` set (settings @ short_names)"
    by (simp add: settings_def short_names_def)
  moreover define S where "S = fst ` {x \<in> set (settings @ short_names). fst (snd x) = ''http.trusted_proxies''}"
  ultimately have "''KGW_CONFIG'' \<notin> S" by blast
  then have only: "(''KGW_HTTP_TRUSTED_PROXIES'', ''10.0.0.0/8'') \<in> set (k_envPairs demo_koanf [])
      \<and> (\<forall>(name', val') \<in> set (k_envPairs demo_koanf []). name' \<in> S \<longrightarrow>
           (name', val') = (''KGW_HTTP_TRUSTED_PROXIES'', ''10.0.0.0/8''))"
    unfolding pairs by simp
  have "(''KGW_HTTP_TRUSTED_PROXIES'', ''http.trusted_proxies'', leafList) \<in> set (settings @ short_names)"
    using demo_settings(1) by (simp only: set_append Un_iff simp_thms)
  from bspec [OF set_by this, unfolded prod.case, THEN spec, THEN mp, OF only [unfolded S_def]]
  have "map_of merged ''http.trusted_proxies'' = Some (setting_value (k_parseItems demo_koanf) leafList ''10.0.0.0/8'')" .
  with \<open>Load demo_koanf ''c'' [] = _\<close> show ?thesis unfolding setting_value_def leafKind.case by blast
qed

end
