(* ===== verification/KafkaTypes.thy ===== *)
theory KafkaTypes
  imports GoErrors
begin

text \<open>
  The domain types of the Kafka port (\<^verbatim>\<open>internal/kafka/types.go\<close>), struct by struct. A Go slice
  is a list; a \<open>[]byte\<close> the code tests against \<open>nil\<close> is an option (a nil \<open>Value\<close> is a tombstone);
  a pointer is an option; a map is an association list. The enclosing struct's name prefixes each
  field. A \<open>float64\<close> is only copied by the modelled code, so it is its 64-bit pattern.
\<close>

type_synonym float64 = nat \<comment> \<open>IEEE 754 bit pattern\<close>

text \<open>An \<open>error\<close> field: \<open>nil\<close> or an error.\<close>

type_synonym Err = "error option"

section \<open>Cluster, topics and records\<close>

record Broker =
  Broker_ID :: int32
  Broker_Host :: string
  Broker_Port :: int32
  Broker_Rack :: string

record ClusterInfo =
  ClusterInfo_ClusterID :: string
  ClusterInfo_ControllerID :: int32
  ClusterInfo_Brokers :: "Broker list"

record Partition =
  Partition_ID :: int32
  Partition_Leader :: int32
  Partition_Replicas :: "int32 list"
  Partition_ISR :: "int32 list"
  Partition_BeginOffset :: int64
  Partition_EndOffset :: int64

record Topic =
  Topic_Name :: string
  Topic_Internal :: bool
  Topic_ReplicationFactor :: int64
  Topic_Partitions :: "Partition list"

text \<open>
  \<open>TopicPartition\<close> is a comparable struct and a map key; the pair orders it by topic, then by
  partition, which is the order of every \<open>sort.Slice\<close> over it.
\<close>

type_synonym TopicPartition = "string \<times> int32"

record Header =
  Header_Key :: string
  Header_Value :: bytes

record Record =
  Record_Topic :: string
  Record_Partition :: int32
  Record_Offset :: int64
  Record_Timestamp :: time
  Record_Key :: "bytes option"
  Record_Value :: "bytes option"
  Record_Headers :: "Header list"

record GroupMember =
  GroupMember_MemberID :: string
  GroupMember_ClientID :: string
  GroupMember_Host :: string
  GroupMember_Assignments :: "TopicPartition list"

record Group =
  Group_ID :: string
  Group_State :: string
  Group_ProtocolType :: string
  Group_CoordinatorID :: int32
  Group_Members :: "GroupMember list"

record GroupSummary =
  GroupSummary_ID :: string
  GroupSummary_State :: string
  GroupSummary_ProtocolType :: string
  GroupSummary_MemberCount :: int64

section \<open>Configuration\<close>

datatype ConfigSource = SourceDefault | SourceStatic | SourceDynamic

fun ConfigSource_string :: "ConfigSource \<Rightarrow> string" where
  "ConfigSource_string SourceDefault = ''default''"
| "ConfigSource_string SourceStatic = ''static''"
| "ConfigSource_string SourceDynamic = ''dynamic''"

text \<open>
  \<open>ConfigSource\<close> is a string type whose zero value is the empty string; \<open>None\<close> stands for it.
\<close>

record ConfigEntry =
  ConfigEntry_Name :: string
  ConfigEntry_Value :: string
  ConfigEntry_Source :: "ConfigSource option"
  ConfigEntry_IsSensitive :: bool
  ConfigEntry_IsReadOnly :: bool

definition zero_ConfigEntry :: ConfigEntry where
  "zero_ConfigEntry = \<lparr>ConfigEntry_Name = [], ConfigEntry_Value = [], ConfigEntry_Source = None,
     ConfigEntry_IsSensitive = False, ConfigEntry_IsReadOnly = False\<rparr>"

record ConfigChange =
  ConfigChange_Name :: string
  ConfigChange_Value :: "string option"

record TopicSummary =
  TopicSummary_Name :: string
  TopicSummary_Internal :: bool
  TopicSummary_PartitionCount :: int64
  TopicSummary_ReplicationFactor :: int64

record LogDirReplica =
  LogDirReplica_Partition :: int32
  LogDirReplica_BrokerID :: int32
  LogDirReplica_LogDir :: string
  LogDirReplica_Bytes :: int64

record ClusterMetadata =
  ClusterMetadata_Brokers :: "Broker list"
  ClusterMetadata_Topics :: "Topic list"

section \<open>Requests and per-item results\<close>

record ProduceRequest =
  ProduceRequest_Key :: "bytes option"
  ProduceRequest_Value :: "bytes option"
  ProduceRequest_Headers :: "Header list"
  ProduceRequest_Partition :: "int32 option"
  ProduceRequest_Timestamp :: time

record ProduceResult =
  ProduceResult_Partition :: int32
  ProduceResult_Offset :: int64
  ProduceResult_Timestamp :: time
  ProduceResult_Err :: Err

record TopicSpec =
  TopicSpec_Name :: string
  TopicSpec_Partitions :: int32
  TopicSpec_ReplicationFactor :: int16
  TopicSpec_Configs :: "(string \<times> string) list"

record TopicCreateResult =
  TopicCreateResult_Name :: string
  TopicCreateResult_Partitions :: int32
  TopicCreateResult_ReplicationFactor :: int16
  TopicCreateResult_Configs :: "ConfigEntry list"
  TopicCreateResult_Err :: Err

record TopicDeleteResult =
  TopicDeleteResult_Name :: string
  TopicDeleteResult_Err :: Err

record PartitionLowWatermark =
  PartitionLowWatermark_Partition :: int32
  PartitionLowWatermark_LowWatermark :: int64

record GroupDeleteResult =
  GroupDeleteResult_ID :: string
  GroupDeleteResult_Err :: Err

record LeaveGroupResult =
  LeaveGroupResult_MemberID :: string
  LeaveGroupResult_Err :: Err

section \<open>Quorum, reassignments and log directories\<close>

record QuorumReplicaState =
  QuorumReplicaState_ID :: int32
  QuorumReplicaState_LogEndOffset :: int64
  QuorumReplicaState_LagMs :: int64

record QuorumStatus =
  QuorumStatus_LeaderID :: int32
  QuorumStatus_Epoch :: int32
  QuorumStatus_Voters :: "QuorumReplicaState list"
  QuorumStatus_Observers :: "QuorumReplicaState list"

record PartitionReassignment =
  PartitionReassignment_Topic :: string
  PartitionReassignment_Partition :: int32
  PartitionReassignment_Replicas :: "int32 list"
  PartitionReassignment_AddingReplicas :: "int32 list"
  PartitionReassignment_RemovingReplicas :: "int32 list"

record ReassignResult =
  ReassignResult_Topic :: string
  ReassignResult_Partition :: int32
  ReassignResult_Err :: Err

record ElectLeaderResult =
  ElectLeaderResult_Topic :: string
  ElectLeaderResult_Partition :: int32
  ElectLeaderResult_Err :: Err

record BrokerLogDir =
  BrokerLogDir_BrokerID :: int32
  BrokerLogDir_LogDir :: string
  BrokerLogDir_TotalBytes :: int64
  BrokerLogDir_PartitionCount :: int64

section \<open>Credentials and quotas\<close>

type_synonym ScramMechanism = string

definition ScramSha256 :: ScramMechanism where
  "ScramSha256 = ''SCRAM-SHA-256''"

definition ScramSha512 :: ScramMechanism where
  "ScramSha512 = ''SCRAM-SHA-512''"

record ScramCredential =
  ScramCredential_Mechanism :: ScramMechanism
  ScramCredential_Iterations :: int32

record ScramUser =
  ScramUser_Name :: string
  ScramUser_Credentials :: "ScramCredential list"

record ScramUpsert =
  ScramUpsert_User :: string
  ScramUpsert_Mechanism :: ScramMechanism
  ScramUpsert_Iterations :: int32
  ScramUpsert_Password :: string

record ScramDelete =
  ScramDelete_User :: string
  ScramDelete_Mechanism :: ScramMechanism

record ScramAlterResult =
  ScramAlterResult_User :: string
  ScramAlterResult_Err :: Err

record QuotaEntityComponent =
  QuotaEntityComponent_Type :: string
  QuotaEntityComponent_Name :: "string option"

type_synonym QuotaEntity = "QuotaEntityComponent list"

record QuotaValue =
  QuotaValue_Key :: string
  QuotaValue_Value :: float64

record DescribedQuota =
  DescribedQuota_Entity :: QuotaEntity
  DescribedQuota_Values :: "QuotaValue list"

record QuotaOp =
  QuotaOp_Key :: string
  QuotaOp_Value :: float64
  QuotaOp_Remove :: bool

record QuotaAlterEntry =
  QuotaAlterEntry_Entity :: QuotaEntity
  QuotaAlterEntry_Ops :: "QuotaOp list"

record QuotaAlterResult =
  QuotaAlterResult_Entity :: QuotaEntity
  QuotaAlterResult_Err :: Err

end
