(* ===== verification/ApiErrors.thy ===== *)
theory ApiErrors
  imports KafkaTypes
begin

text \<open>
  The error envelope of the HTTP interface (\<^verbatim>\<open>internal/api/errors/envelope.go\<close>,
  \<^verbatim>\<open>internal/api/errors/tables.go\<close>): the two tables that give every kind and every code a status and a wire
  code, and the functions that turn a service's error into an envelope.

  The lemmas show that both tables are total, so that the fall-backs of \<open>Map\<close> are unreachable, and that
  the wire code of a policy error is the string of its code.
\<close>

record KafkaErrorInfo =
  kei_Code :: int16
  kei_Name :: string

record FieldError =
  fe_Field :: string
  fe_Message :: string

record Body =
  Body_Code :: string
  Body_Message :: string
  Body_Status :: int
  Body_RequestID :: string
  Body_KafkaError :: "KafkaErrorInfo option"
  Body_Details :: "(string \<times> any) list" \<comment> \<open>\<open>omitempty\<close>: nil and empty are the same\<close>

record Envelope =
  ErrorBody :: Body

definition Envelope_Error :: "Envelope \<Rightarrow> string" where
  "Envelope_Error e = Body_Message (ErrorBody e)"

definition GetStatus :: "Envelope \<Rightarrow> int" where
  "GetStatus e = Body_Status (ErrorBody e)"

section \<open>The tables\<close>

record httpMapping =
  hm_Status :: int
  hm_Code :: string

definition mapping :: "int \<Rightarrow> string \<Rightarrow> httpMapping" where
  "mapping s c = \<lparr>hm_Status = s, hm_Code = c\<rparr>"

definition kindTable :: "(kind \<times> httpMapping) list" where
  "kindTable =
    [(KindNotFound, mapping 404 ''NOT_FOUND''),
     (KindAlreadyExists, mapping 409 ''ALREADY_EXISTS''),
     (KindGroupActive, mapping 409 ''GROUP_ACTIVE''),
     (KindReassignmentInProgress, mapping 409 ''REASSIGNMENT_IN_PROGRESS''),
     (KindTimeout, mapping 504 ''KAFKA_TIMEOUT''),
     (KindUnavailable, mapping 503 ''CLUSTER_UNAVAILABLE''),
     (KindUnsupported, mapping 502 ''KAFKA_ERROR''),
     (KindBroker, mapping 502 ''KAFKA_ERROR'')]"

definition codeTable :: "(code \<times> httpMapping) list" where
  "codeTable =
    [(TierForbidden, mapping 403 ''TIER_FORBIDDEN''),
     (ReadOnlyMode, mapping 403 ''READ_ONLY_MODE''),
     (OperationDisabled, mapping 403 ''OPERATION_DISABLED''),
     (DataPlaneLocked, mapping 403 ''DATA_PLANE_LOCKED''),
     (ConfirmationMismatch, mapping 400 ''CONFIRMATION_MISMATCH''),
     (BoundExceeded, mapping 400 ''BOUND_EXCEEDED''),
     (Validation, mapping 400 ''VALIDATION_FAILED''),
     (InvalidRegex, mapping 400 ''INVALID_REGEX''),
     (InvalidJSONPath, mapping 400 ''INVALID_JSONPATH''),
     (BulkValidationFailed, mapping 400 ''BULK_VALIDATION_FAILED''),
     (AuditUnavailable, mapping 503 ''AUDIT_UNAVAILABLE''),
     (PayloadTooLarge, mapping 413 ''PAYLOAD_TOO_LARGE''),
     (PartitionMismatch, mapping 400 ''PARTITION_MISMATCH''),
     (ReplayFailed, mapping 502 ''KAFKA_ERROR'')]"

definition kindMapping :: "kind \<Rightarrow> httpMapping option" where
  "kindMapping k = map_of kindTable k"

definition codeMapping :: "code \<Rightarrow> httpMapping option" where
  "codeMapping c = map_of codeTable c"

definition unauthenticatedMapping :: httpMapping where
  "unauthenticatedMapping = mapping 401 ''UNAUTHENTICATED''"

section \<open>Envelopes\<close>

definition envelope :: "string \<Rightarrow> string \<Rightarrow> int \<Rightarrow> string \<Rightarrow> KafkaErrorInfo option \<Rightarrow> (string \<times> any) list \<Rightarrow> Envelope" where
  "envelope c msg status requestID kerr details = \<lparr>ErrorBody = \<lparr>Body_Code = c, Body_Message = msg,
     Body_Status = status, Body_RequestID = requestID, Body_KafkaError = kerr, Body_Details = details\<rparr>\<rparr>"

definition Unauthenticated :: "string \<Rightarrow> Envelope" where
  "Unauthenticated requestID = envelope (hm_Code unauthenticatedMapping) ''missing or unknown API key''
     (hm_Status unauthenticatedMapping) requestID None []"

text \<open>\<open>FromInternal\<close>: the cause is \<open>None\<close> where Go's is nil.\<close>

definition FromInternal :: "string \<Rightarrow> Err \<Rightarrow> Envelope" where
  "FromInternal requestID cause = envelope ''INTERNAL''
     (case cause of None \<Rightarrow> ''an unexpected error occurred'' | Some e \<Rightarrow> err_Error e) 500 requestID None []"

text \<open>
  \<open>errors.As(err, &ke)\<close> binds the first \<open>*kafka.Error\<close> of the chain; its own \<open>Error()\<close> is the message, so
  the error value itself is needed, not its fields alone.
\<close>

fun kafka_error :: "error \<Rightarrow> error option" where
  "kafka_error (KafkaError k cause) = Some (KafkaError k cause)"
| "kafka_error (WrapError prefix e) = kafka_error e"
| "kafka_error _ = None"

definition Map :: "error \<Rightarrow> string \<Rightarrow> Envelope" where
  "Map err requestID =
    (case (as_kafka err, kafka_error err) of
       (Some ke, Some e) \<Rightarrow>
         (let m = (case kindMapping (ke_Kind ke) of Some m \<Rightarrow> m | None \<Rightarrow> mapping 502 ''KAFKA_ERROR'') in
          envelope (hm_Code m) (err_Error e) (hm_Status m) requestID
            (if ke_KafkaName ke \<noteq> [] then Some \<lparr>kei_Code = ke_KafkaCode ke, kei_Name = ke_KafkaName ke\<rparr> else None)
            (if ke_Resource ke \<noteq> [] then [(''resource'', AStr (ke_Resource ke))] else []))
     | _ \<Rightarrow>
       (case as_policy err of
          Some pe \<Rightarrow>
            (let m = (case codeMapping (pe_Code pe) of Some m \<Rightarrow> m | None \<Rightarrow> mapping 500 ''INTERNAL'') in
             envelope (hm_Code m) (policy_Error pe) (hm_Status m) requestID None (pe_Details pe))
        | None \<Rightarrow> FromInternal requestID (Some err)))"

text \<open>
  \<open>MapDestructive\<close>: \<open>unbox\<close> is the type assertion \<open>.(P)\<close> on the boxed plan. A missing \<open>"plan"\<close> is the nil
  interface, on which the assertion fails.
\<close>

definition MapDestructive :: "(any \<Rightarrow> 'p option) \<Rightarrow> error \<Rightarrow> ('p \<Rightarrow> any) \<Rightarrow> string \<Rightarrow> Envelope" where
  "MapDestructive unbox err toDTO requestID =
    (case as_policy err of
       Some pe \<Rightarrow>
         if pe_Code pe = ConfirmationMismatch then
           (case unbox (mget (pe_Details pe) ANil ''plan'') of
              Some plan \<Rightarrow> Map (PolicyError (pe\<lparr>pe_Details := [(''plan'', toDTO plan)]\<rparr>)) requestID
            | None \<Rightarrow> Map err requestID)
         else Map err requestID
     | None \<Rightarrow> Map err requestID)"

definition FieldError_any :: "FieldError \<Rightarrow> any" where
  "FieldError_any f = AStruct ''FieldError'' [(''field'', AStr (fe_Field f)), (''message'', AStr (fe_Message f))]"

definition FromValidation :: "string \<Rightarrow> FieldError list \<Rightarrow> Envelope" where
  "FromValidation requestID flds = envelope ''VALIDATION_FAILED'' ''validation failed'' 400 requestID None
     (if flds = [] then [] else [(''fields'', AList (map FieldError_any flds))])"

definition UnsupportedMediaType :: "string \<Rightarrow> string \<Rightarrow> Envelope" where
  "UnsupportedMediaType requestID contentType = envelope ''UNSUPPORTED_MEDIA_TYPE''
     (''unsupported content type: '' @ contentType) 415 requestID None []"

section \<open>The tables are total\<close>

lemma kindMapping_total: "\<exists>m. kindMapping k = Some m"
  by (cases k) (simp_all add: kindMapping_def kindTable_def)

lemma codeMapping_code: "\<exists>m. codeMapping c = Some m \<and> hm_Code m = code_String c"
  by (cases c) (simp_all add: codeMapping_def codeTable_def mapping_def)

lemma kafka_error_as: "kafka_error e = None \<longleftrightarrow> as_kafka e = None"
  by (induction e) simp_all

lemma as_kafka_error: "as_kafka e = Some k \<Longrightarrow> \<exists>c. kafka_error e = Some (KafkaError k c)"
  by (induction e) auto

lemma Map_policy:
  assumes "as_kafka err = None" "as_policy err = Some pe"
  shows "Body_Code (ErrorBody (Map err rid)) = code_String (pe_Code pe)"
    "Body_Details (ErrorBody (Map err rid)) = pe_Details pe"
  using codeMapping_code [of "pe_Code pe"] assms by (auto simp: Map_def envelope_def)

lemma Map_kafka:
  assumes "as_kafka err = Some ke" "kindMapping (ke_Kind ke) = Some m"
  shows "Body_Code (ErrorBody (Map err rid)) = hm_Code m" "GetStatus (Map err rid) = hm_Status m"
  using as_kafka_error [OF assms(1)] assms by (auto simp: Map_def envelope_def GetStatus_def)

end
