(* ===== verification/ScanCodec.thy ===== *)
theory ScanCodec
  imports KafkaTypes
begin

text \<open>
  Decoding a record for the wire and encoding it back (\<^verbatim>\<open>internal/scan/decode.go\<close>,
  \<^verbatim>\<open>internal/scan/encode.go\<close>), with the functions of the standard library they use:
  \<open>encoding/json.Valid\<close> as the scanner automaton, \<open>unicode/utf8.Valid\<close>, and
  \<open>encoding/base64.StdEncoding\<close>. Whatever bytes a record holds and whatever format is asked for, the
  text and encoding on the wire determine the bytes.
\<close>

section \<open>UTF-8\<close>

definition is_cont :: "char \<Rightarrow> bool" where
  "is_cont c \<longleftrightarrow> (128::nat) \<le> of_char c \<and> of_char c < (192::nat)"

fun utf8_Valid :: "bytes \<Rightarrow> bool" where
  "utf8_Valid [] = True"
| "utf8_Valid (c # cs) = (let n = (of_char c :: nat) in
    if n < 128 then utf8_Valid cs
    else if 194 \<le> n \<and> n < 224 then
      (case cs of c1 # r \<Rightarrow> is_cont c1 \<and> utf8_Valid r | _ \<Rightarrow> False)
    else if 224 \<le> n \<and> n < 240 then
      (case cs of c1 # c2 # r \<Rightarrow> is_cont c1 \<and> is_cont c2
          \<and> (n = 224 \<longrightarrow> (160::nat) \<le> of_char c1) \<and> (n = 237 \<longrightarrow> of_char c1 < (160::nat)) \<and> utf8_Valid r
       | _ \<Rightarrow> False)
    else if 240 \<le> n \<and> n < 245 then
      (case cs of c1 # c2 # c3 # r \<Rightarrow> is_cont c1 \<and> is_cont c2 \<and> is_cont c3
          \<and> (n = 240 \<longrightarrow> (144::nat) \<le> of_char c1) \<and> (n = 244 \<longrightarrow> of_char c1 < (144::nat)) \<and> utf8_Valid r
       | _ \<Rightarrow> False)
    else False)"

section \<open>JSON syntax\<close>

text \<open>
  The scanner of \<open>encoding/json\<close>: a state per position in the grammar, and a stack that says whether a
  finished value is an object key, an object value or an array element. \<open>maxNestingDepth\<close> is 10000.
\<close>

datatype jstate = BeginValue | BeginValueOrEmpty | BeginString | BeginStringOrEmpty | EndValue | EndTop
  | InString | InStringEsc | InStringEscU nat | NumNeg | Num1 | Num0 | NumDot | NumDot0 | NumE | NumESign
  | NumE0 | InLit string | JError

datatype jframe = ObjectKey | ObjectValue | ArrayValue

definition is_space :: "char \<Rightarrow> bool" where
  "is_space c \<longleftrightarrow> c \<in> {CHR '' '', CHR 0x09, CHR 0x0A, CHR 0x0D}"

definition is_digit :: "char \<Rightarrow> bool" where
  "is_digit c \<longleftrightarrow> (48::nat) \<le> of_char c \<and> of_char c \<le> (57::nat)"

definition is_hex :: "char \<Rightarrow> bool" where
  "is_hex c \<longleftrightarrow> is_digit c \<or> c \<in> set ''abcdefABCDEF''"

definition push_frame :: "jframe \<Rightarrow> jstate \<Rightarrow> jframe list \<Rightarrow> jstate \<times> jframe list" where
  "push_frame f s stk = (if length stk < 10000 then (s, f # stk) else (JError, stk))"

definition pop_frame :: "jframe list \<Rightarrow> jstate \<times> jframe list" where
  "pop_frame stk = (if tl stk = [] then (EndTop, []) else (EndValue, tl stk))"

definition end_top :: "char \<Rightarrow> jframe list \<Rightarrow> jstate \<times> jframe list" where
  "end_top c stk = (if is_space c then EndTop else JError, stk)"

text \<open>A character after a complete value.\<close>

definition end_value :: "char \<Rightarrow> jframe list \<Rightarrow> jstate \<times> jframe list" where
  "end_value c stk =
    (case stk of
       [] \<Rightarrow> end_top c stk
     | f # fs \<Rightarrow>
         if is_space c then (EndValue, stk)
         else (case f of
             ObjectKey \<Rightarrow> if c = CHR '':'' then (BeginValue, ObjectValue # fs) else (JError, stk)
           | ObjectValue \<Rightarrow>
               if c = CHR '','' then (BeginString, ObjectKey # fs)
               else if c = CHR ''}'' then pop_frame stk else (JError, stk)
           | ArrayValue \<Rightarrow>
               if c = CHR '','' then (BeginValue, stk)
               else if c = CHR '']'' then pop_frame stk else (JError, stk)))"

definition begin_value :: "char \<Rightarrow> jframe list \<Rightarrow> jstate \<times> jframe list" where
  "begin_value c stk =
    (if is_space c then (BeginValue, stk)
     else if c = CHR ''{'' then push_frame ObjectKey BeginStringOrEmpty stk
     else if c = CHR ''['' then push_frame ArrayValue BeginValueOrEmpty stk
     else if c = CHR 0x22 then (InString, stk)
     else if c = CHR ''-'' then (NumNeg, stk)
     else if c = CHR ''0'' then (Num0, stk)
     else if c = CHR ''t'' then (InLit ''rue'', stk)
     else if c = CHR ''f'' then (InLit ''alse'', stk)
     else if c = CHR ''n'' then (InLit ''ull'', stk)
     else if is_digit c then (Num1, stk)
     else (JError, stk))"

definition begin_string :: "char \<Rightarrow> jframe list \<Rightarrow> jstate \<times> jframe list" where
  "begin_string c stk =
    (if is_space c then (BeginString, stk) else if c = CHR 0x22 then (InString, stk) else (JError, stk))"

definition after_num0 :: "char \<Rightarrow> jframe list \<Rightarrow> jstate \<times> jframe list" where
  "after_num0 c stk =
    (if c = CHR ''.'' then (NumDot, stk)
     else if c = CHR ''e'' \<or> c = CHR ''E'' then (NumE, stk) else end_value c stk)"

definition num_esign :: "char \<Rightarrow> jframe list \<Rightarrow> jstate \<times> jframe list" where
  "num_esign c stk = (if is_digit c then NumE0 else JError, stk)"

fun json_step :: "jstate \<Rightarrow> char \<Rightarrow> jframe list \<Rightarrow> jstate \<times> jframe list" where
  "json_step BeginValue c stk = begin_value c stk"
| "json_step BeginValueOrEmpty c stk =
    (if is_space c then (BeginValueOrEmpty, stk)
     else if c = CHR '']'' then end_value c stk else begin_value c stk)"
| "json_step BeginString c stk = begin_string c stk"
| "json_step BeginStringOrEmpty c stk =
    (if is_space c then (BeginStringOrEmpty, stk)
     else if c = CHR ''}'' then end_value c (ObjectValue # tl stk) else begin_string c stk)"
| "json_step EndValue c stk = end_value c stk"
| "json_step EndTop c stk = end_top c stk"
| "json_step InString c stk =
    (if c = CHR 0x22 then (EndValue, stk) else if c = CHR 0x5C then (InStringEsc, stk)
     else if of_char c < (32::nat) then (JError, stk) else (InString, stk))"
| "json_step InStringEsc c stk =
    (if c \<in> set (CHR 0x5C # CHR 0x22 # ''bfnrt/'') then (InString, stk)
     else if c = CHR ''u'' then (InStringEscU 0, stk) else (JError, stk))"
| "json_step (InStringEscU k) c stk =
    (if is_hex c then (if k = 3 then InString else InStringEscU (k + 1), stk) else (JError, stk))"
| "json_step NumNeg c stk =
    (if c = CHR ''0'' then (Num0, stk) else if is_digit c then (Num1, stk) else (JError, stk))"
| "json_step Num1 c stk = (if is_digit c then (Num1, stk) else after_num0 c stk)"
| "json_step Num0 c stk = after_num0 c stk"
| "json_step NumDot c stk = (if is_digit c then NumDot0 else JError, stk)"
| "json_step NumDot0 c stk =
    (if is_digit c then (NumDot0, stk)
     else if c = CHR ''e'' \<or> c = CHR ''E'' then (NumE, stk) else end_value c stk)"
| "json_step NumE c stk = (if c = CHR ''+'' \<or> c = CHR ''-'' then (NumESign, stk) else num_esign c stk)"
| "json_step NumESign c stk = num_esign c stk"
| "json_step NumE0 c stk = (if is_digit c then (NumE0, stk) else end_value c stk)"
| "json_step (InLit lit) c stk =
    (case lit of [] \<Rightarrow> (JError, stk)
     | l # ls \<Rightarrow> if c = l then (if ls = [] then EndValue else InLit ls, stk) else (JError, stk))"
| "json_step JError c stk = (JError, stk)"

fun json_scan :: "jstate \<Rightarrow> jframe list \<Rightarrow> string \<Rightarrow> jstate \<times> jframe list" where
  "json_scan s stk [] = (s, stk)"
| "json_scan s stk (c # cs) =
    (case json_step s c stk of (s', stk') \<Rightarrow> if s' = JError then (JError, stk') else json_scan s' stk' cs)"

text \<open>At the end of the input the scanner reads one more blank: only a complete top value accepts it.\<close>

definition json_Valid :: "bytes \<Rightarrow> bool" where
  "json_Valid b = (case json_scan BeginValue [] b of
     (s, stk) \<Rightarrow> fst (json_step s (CHR '' '') stk) = EndTop)"

section \<open>Base64\<close>

text \<open>The character of a 6-bit value: \<open>A\<close> to \<open>Z\<close>, \<open>a\<close> to \<open>z\<close>, \<open>0\<close> to \<open>9\<close>, \<open>+\<close>, \<open>/\<close>.\<close>

definition b64_char :: "nat \<Rightarrow> char" where
  "b64_char v =
    (if v < 26 then char_of (v + 65) else if v < 52 then char_of (v + 71)
     else if v < 62 then char_of (v - 4) else if v = 62 then CHR ''+'' else CHR ''/'')"

definition b64_index :: "char \<Rightarrow> nat option" where
  "b64_index c =
    (let n = (of_char c :: nat) in
     if 65 \<le> n \<and> n \<le> 90 then Some (n - 65)
     else if 97 \<le> n \<and> n \<le> 122 then Some (n - 71)
     else if 48 \<le> n \<and> n \<le> 57 then Some (n + 4)
     else if n = 43 then Some 62 else if n = 47 then Some 63 else None)"

fun base64_EncodeToString :: "bytes \<Rightarrow> string" where
  "base64_EncodeToString (a # b # c # r) =
    (let x = (of_char a :: nat); y = of_char b; z = of_char c
     in [b64_char (x div 4), b64_char (x mod 4 * 16 + y div 16), b64_char (y mod 16 * 4 + z div 64),
         b64_char (z mod 64)] @ base64_EncodeToString r)"
| "base64_EncodeToString [a, b] =
    (let x = (of_char a :: nat); y = of_char b
     in [b64_char (x div 4), b64_char (x mod 4 * 16 + y div 16), b64_char (y mod 16 * 4), CHR ''=''])"
| "base64_EncodeToString [a] =
    (let x = (of_char a :: nat) in [b64_char (x div 4), b64_char (x mod 4 * 16), CHR ''='', CHR ''=''])"
| "base64_EncodeToString [] = []"

text \<open>The bytes of a quantum of two, three or four 6-bit values.\<close>

fun b64_bytes :: "nat list \<Rightarrow> bytes" where
  "b64_bytes [a, b, c, d] = [char_of (a * 4 + b div 16), char_of (b mod 16 * 16 + c div 4), char_of (c mod 4 * 64 + d)]"
| "b64_bytes [a, b, c] = [char_of (a * 4 + b div 16), char_of (b mod 16 * 16 + c div 4)]"
| "b64_bytes [a, b] = [char_of (a * 4 + b div 16)]"
| "b64_bytes _ = []"

definition corrupt_input :: "nat \<Rightarrow> error" where
  "corrupt_input k = PlainError (''illegal base64 data at input byte '' @ itoa (int k))"

definition is_newline :: "char \<Rightarrow> bool" where
  "is_newline c \<longleftrightarrow> c = CHR 0x0A \<or> c = CHR 0x0D"

text \<open>
  \<open>decodeQuantum\<close> over the rest of the input, at position \<open>si\<close> with the values \<open>buf\<close> of the current
  quantum. The first padding character ends the input: a second one after two values, then only line ends.
\<close>

definition b64_padding :: "nat \<Rightarrow> nat list \<Rightarrow> string \<Rightarrow> error + bytes" where
  "b64_padding si buf cs =
    (let skip = dropWhile is_newline cs; si' = si + (length cs - length skip)
     in if length buf < 2 then Inl (corrupt_input (si - 1))
        else if length buf = 2 \<and> skip = [] then Inl (corrupt_input si')
        else if length buf = 2 \<and> hd skip \<noteq> CHR ''='' then Inl (corrupt_input (si' - 1))
        else (let rest = (if length buf = 2 then tl skip else cs);
                  si2 = (if length buf = 2 then si' + 1 else si);
                  tail = dropWhile is_newline rest
              in if tail \<noteq> [] then Inl (corrupt_input (si2 + (length rest - length tail)))
                 else Inr (b64_bytes buf)))"

fun b64_decode :: "nat \<Rightarrow> nat list \<Rightarrow> string \<Rightarrow> error + bytes" where
  "b64_decode si buf [] = (if buf = [] then Inr [] else Inl (corrupt_input (si - length buf)))"
| "b64_decode si buf (c # cs) =
    (case b64_index c of
       Some v \<Rightarrow>
         if length buf = 3
         then map_sum id (\<lambda>bs. b64_bytes (buf @ [v]) @ bs) (b64_decode (si + 1) [] cs)
         else b64_decode (si + 1) (buf @ [v]) cs
     | None \<Rightarrow>
         if is_newline c then b64_decode (si + 1) buf cs
         else if c \<noteq> CHR ''='' then Inl (corrupt_input si)
         else b64_padding (si + 1) buf cs)"

definition base64_DecodeString :: "string \<Rightarrow> error + bytes" where
  "base64_DecodeString s = b64_decode 0 [] s"

section \<open>Decoding records\<close>

definition EncodingJSON :: string where "EncodingJSON = ''json''"
definition EncodingString :: string where "EncodingString = ''string''"
definition EncodingBase64 :: string where "EncodingBase64 = ''base64''"

record scan_Header =
  SH_Key :: string
  SH_Value :: string
  SH_ValueEncoding :: string

record scan_Record =
  SR_Topic :: string
  SR_Partition :: int32
  SR_Offset :: int64
  SR_Timestamp :: time
  SR_Key :: string
  SR_KeyEncoding :: string
  SR_Value :: string
  SR_ValueEncoding :: string
  SR_Headers :: "scan_Header list"
  SR_SizeBytes :: int64

definition autoDecode :: "bytes \<Rightarrow> string \<times> string" where
  "autoDecode b =
    (if json_Valid b then (b, EncodingJSON)
     else if utf8_Valid b then (b, EncodingString)
     else (base64_EncodeToString b, EncodingBase64))"

definition decodeBytes :: "bytes \<Rightarrow> string \<Rightarrow> string \<times> string" where
  "decodeBytes b format =
    (if format = EncodingBase64 then (base64_EncodeToString b, EncodingBase64)
     else if format = EncodingJSON \<and> json_Valid b then (b, EncodingJSON)
     else if format = EncodingString \<and> utf8_Valid b then (b, EncodingString)
     else autoDecode b)"

definition decodeHeaderValue :: "bytes \<Rightarrow> string \<times> string" where
  "decodeHeaderValue b =
    (if utf8_Valid b then (b, EncodingString) else (base64_EncodeToString b, EncodingBase64))"

text \<open>A nil slice reads as an empty one.\<close>

definition slice :: "bytes option \<Rightarrow> bytes" where
  "slice b = (case b of None \<Rightarrow> [] | Some x \<Rightarrow> x)"

definition Decode :: "Record \<Rightarrow> string \<Rightarrow> scan_Record" where
  "Decode r format =
    (case decodeBytes (slice (Record_Key r)) format of (key, keyEncoding) \<Rightarrow>
     (case decodeBytes (slice (Record_Value r)) format of (val, valueEncoding) \<Rightarrow>
      \<lparr>SR_Topic = Record_Topic r, SR_Partition = Record_Partition r, SR_Offset = Record_Offset r,
       SR_Timestamp = Record_Timestamp r, SR_Key = key, SR_KeyEncoding = keyEncoding,
       SR_Value = val, SR_ValueEncoding = valueEncoding,
       SR_Headers = map (\<lambda>h. case decodeHeaderValue (Header_Value h) of (v, enc) \<Rightarrow>
          \<lparr>SH_Key = Header_Key h, SH_Value = v, SH_ValueEncoding = enc\<rparr>) (Record_Headers r),
       SR_SizeBytes = int (length (slice (Record_Key r)) + length (slice (Record_Value r)))\<rparr>))"

definition EncodeValue :: "string \<Rightarrow> string \<Rightarrow> error + bytes" where
  "EncodeValue val encoding =
    (if encoding \<in> {[], EncodingString, EncodingJSON} then Inr val
     else if encoding = EncodingBase64 then
       (case base64_DecodeString val of
          Inl err \<Rightarrow> Inl (WrapError ''invalid base64 value: '' err)
        | Inr b \<Rightarrow> Inr b)
     else Inl (PlainError (''invalid encoding '' @ quoted encoding @ '': want json, string, or base64'')))"

section \<open>Decoding loses nothing but nil\<close>

lemma b64_index_char [simp]: "v < 64 \<Longrightarrow> b64_index (b64_char v) = Some v"
proof -
  assume v: "v < 64"
  consider "v < 26" | "26 \<le> v" "v < 52" | "52 \<le> v" "v < 62" | "v = 62" | "v = 63" using v by linarith
  then show ?thesis
    by cases (simp_all add: b64_char_def b64_index_def Let_def, linarith)
qed

lemma b64_index_pad [simp]: "b64_index (CHR ''='') = None"
  by (simp add: b64_index_def)

lemma is_newline_pad [simp]: "\<not> is_newline (CHR ''='')"
  by (simp add: is_newline_def)

lemma of_char_less [simp]: "(of_char c :: nat) < 256"
  by (metis of_char_mod_256 mod_less_divisor zero_less_numeral)

text \<open>Splitting bytes into 6-bit values and putting them together again.\<close>

lemma div_parts:
  fixes n :: nat
  assumes "n < 256"
  shows "n div 4 < 64" "n mod 4 < 4" "n div 16 < 16" "n mod 16 < 16" "n div 64 < 4" "n mod 64 < 64"
  using assms by (simp_all add: less_mult_imp_div_less)

lemma join_div:
  fixes q k m :: nat
  assumes "q < m"
  shows "(k * m + q) div m = k" "(k * m + q) mod m = q"
  using assms by simp_all

lemma b64_bytes_4:
  assumes "q1 < 16" "q2 < 4"
  shows "b64_bytes [a, r * 16 + q1, s * 4 + q2, d] = [char_of (a * 4 + r), char_of (q1 * 16 + s), char_of (q2 * 64 + d)]"
  using assms join_div [of q1 16 r] join_div [of q2 4 s] by simp

lemma b64_bytes_3: "q1 < 16 \<Longrightarrow> b64_bytes [a, r * 16 + q1, s * 4] = [char_of (a * 4 + r), char_of (q1 * 16 + s)]"
  using join_div [of q1 16 r] by simp

lemma b64_bytes_2: "b64_bytes [a, r * 16] = [char_of (a * 4 + r)]"
  by simp

lemma join_less: "(r :: nat) < 4 \<Longrightarrow> q < 16 \<Longrightarrow> r * 16 + q < 64" "(r :: nat) < 16 \<Longrightarrow> q < 4 \<Longrightarrow> r * 4 + q < 64"
  by linarith+

lemma char_of_join:
  "char_of (of_char c div 4 * 4 + of_char c mod 4 :: nat) = c"
  "char_of (of_char c div 16 * 16 + of_char c mod 16 :: nat) = c"
  "char_of (of_char c div 64 * 64 + of_char c mod 64 :: nat) = c"
  by (simp_all only: div_mult_mod_eq char_of_char)

lemma b64_decode_encode: "b64_decode si [] (base64_EncodeToString b) = Inr b"
proof (induction b arbitrary: si rule: base64_EncodeToString.induct)
  case (1 a b c r)
  note p = div_parts [OF of_char_less [of a]] div_parts [OF of_char_less [of b]] div_parts [OF of_char_less [of c]]
  show ?case
    using 1 p by (simp add: Let_def join_less b64_bytes_4 char_of_join del: b64_bytes.simps)
next
  case (2 a b)
  note p = div_parts [OF of_char_less [of a]] div_parts [OF of_char_less [of b]]
  have "of_char b mod 16 * 4 + 0 < (64 :: nat)" using p by (intro join_less) simp_all
  then show ?case
    using p by (simp add: Let_def join_less b64_padding_def b64_bytes_3 char_of_join del: b64_bytes.simps)
next
  case (3 a)
  note p = div_parts [OF of_char_less [of a]]
  have "of_char a mod 4 * 16 + 0 < (64 :: nat)" using p by (intro join_less) simp_all
  then show ?case
    using p by (simp add: Let_def b64_padding_def b64_bytes_2 char_of_join del: b64_bytes.simps)
qed simp

lemma EncodeValue_decodeBytes:
  "EncodeValue (fst (decodeBytes b format)) (snd (decodeBytes b format)) = Inr b"
  by (simp add: decodeBytes_def autoDecode_def EncodeValue_def base64_DecodeString_def b64_decode_encode
      EncodingJSON_def EncodingString_def EncodingBase64_def)

lemma EncodeValue_decodeHeader:
  "EncodeValue (fst (decodeHeaderValue b)) (snd (decodeHeaderValue b)) = Inr b"
  by (simp add: decodeHeaderValue_def EncodeValue_def base64_DecodeString_def b64_decode_encode
      EncodingJSON_def EncodingString_def EncodingBase64_def)

end
