(* ===== verification/Utf8.thy ===== *)
theory Utf8
  imports ScanCodec
begin

text \<open>
  Runes and their encoding, as \<open>unicode/utf8\<close> and a \<open>range\<close> loop over a string have them. A byte that
  does not start a valid encoding is read as \<open>RuneError\<close> of width 1. The lemmas show that what
  \<open>AppendRune\<close> writes for a decoded rune is valid UTF-8, and that decoding reads it back.
\<close>

definition RuneError :: nat where "RuneError = 65533"

definition cont :: "char \<Rightarrow> nat" where
  "cont c = of_char c - 128"

text \<open>The rune at the front of a non-empty text and its width.\<close>

fun DecodeRune :: "bytes \<Rightarrow> nat \<times> nat" where
  "DecodeRune [] = (RuneError, 0)"
| "DecodeRune (c # cs) = (let n = (of_char c :: nat) in
    if n < 128 then (n, 1)
    else if 194 \<le> n \<and> n < 224 then
      (case cs of c1 # r \<Rightarrow> if is_cont c1 then ((n - 192) * 64 + cont c1, 2) else (RuneError, 1)
       | _ \<Rightarrow> (RuneError, 1))
    else if 224 \<le> n \<and> n < 240 then
      (case cs of c1 # c2 # r \<Rightarrow>
         if is_cont c1 \<and> is_cont c2 \<and> (n = 224 \<longrightarrow> (160::nat) \<le> of_char c1) \<and> (n = 237 \<longrightarrow> of_char c1 < (160::nat))
         then ((n - 224) * 4096 + cont c1 * 64 + cont c2, 3) else (RuneError, 1)
       | _ \<Rightarrow> (RuneError, 1))
    else if 240 \<le> n \<and> n < 245 then
      (case cs of c1 # c2 # c3 # r \<Rightarrow>
         if is_cont c1 \<and> is_cont c2 \<and> is_cont c3 \<and> (n = 240 \<longrightarrow> (144::nat) \<le> of_char c1)
            \<and> (n = 244 \<longrightarrow> of_char c1 < (144::nat))
         then ((n - 240) * 262144 + cont c1 * 4096 + cont c2 * 64 + cont c3, 4) else (RuneError, 1)
       | _ \<Rightarrow> (RuneError, 1))
    else (RuneError, 1))"

text \<open>The code points that have an encoding.\<close>

definition is_rune :: "nat \<Rightarrow> bool" where
  "is_rune r \<longleftrightarrow> r < 55296 \<or> 57344 \<le> r \<and> r < 1114112"

definition AppendRune :: "nat \<Rightarrow> bytes" where
  "AppendRune r =
    (let r = (if is_rune r then r else RuneError) in
     if r < 128 then [char_of r]
     else if r < 2048 then [char_of (192 + r div 64), char_of (128 + r mod 64)]
     else if r < 65536 then
       [char_of (224 + r div 4096), char_of (128 + r div 64 mod 64), char_of (128 + r mod 64)]
     else [char_of (240 + r div 262144), char_of (128 + r div 4096 mod 64), char_of (128 + r div 64 mod 64),
       char_of (128 + r mod 64)])"

definition RuneLen :: "nat \<Rightarrow> int" where
  "RuneLen r = (if \<not> is_rune r then - 1 else if r < 128 then 1 else if r < 2048 then 2 else if r < 65536 then 3 else 4)"

section \<open>Widths\<close>

lemma DecodeRune_width: "s \<noteq> [] \<Longrightarrow> 0 < snd (DecodeRune s) \<and> snd (DecodeRune s) \<le> length s"
  by (cases s) (auto simp: Let_def split: list.splits)

lemma is_cont_cont: "is_cont c \<Longrightarrow> cont c < 64 \<and> of_char c = 128 + cont c"
  by (auto simp: is_cont_def cont_def)

text \<open>The numbers behind the encodings of two, three and four bytes.\<close>

lemma rune2:
  assumes "2 \<le> a" "a < 32" "x < (64::nat)"
  shows "is_rune (a * 64 + x)" "(a * 64 + x) div 64 = a" "(a * 64 + x) mod 64 = x"
    "128 \<le> a * 64 + x" "a * 64 + x < 2048"
  using assms by (auto simp: is_rune_def)

lemma div_mod_64: "y < (64::nat) \<Longrightarrow> (k * 64 + y) div 64 = k" "y < 64 \<Longrightarrow> (k * 64 + y) mod 64 = y"
  by simp_all

lemma digits_3:
  fixes a x y :: nat
  assumes "x < 64" "y < 64"
  shows "(a * 4096 + x * 64 + y) div 64 = a * 64 + x" "(a * 4096 + x * 64 + y) mod 64 = y"
    "(a * 4096 + x * 64 + y) div 4096 = a"
proof -
  have e: "a * 4096 + x * 64 + y = (a * 64 + x) * 64 + y" by simp
  show d: "(a * 4096 + x * 64 + y) div 64 = a * 64 + x" unfolding e by (rule div_mod_64) fact
  show "(a * 4096 + x * 64 + y) mod 64 = y" unfolding e by (rule div_mod_64) fact
  have "(a * 4096 + x * 64 + y) div 4096 = (a * 4096 + x * 64 + y) div 64 div 64"
    by (simp add: div_mult2_eq [symmetric])
  then show "(a * 4096 + x * 64 + y) div 4096 = a" unfolding d using assms by simp
qed

lemma digits_4:
  fixes a x y z :: nat
  assumes "x < 64" "y < 64" "z < 64"
  shows "(a * 262144 + x * 4096 + y * 64 + z) div 64 = a * 4096 + x * 64 + y"
    "(a * 262144 + x * 4096 + y * 64 + z) mod 64 = z"
    "(a * 262144 + x * 4096 + y * 64 + z) div 4096 = a * 64 + x"
    "(a * 262144 + x * 4096 + y * 64 + z) div 262144 = a"
proof -
  let ?r = "a * 262144 + x * 4096 + y * 64 + z"
  have e: "?r = (a * 4096 + x * 64 + y) * 64 + z" by simp
  show d: "?r div 64 = a * 4096 + x * 64 + y" unfolding e by (rule div_mod_64) fact
  show "?r mod 64 = z" unfolding e by (rule div_mod_64) fact
  have "?r div 4096 = ?r div 64 div 64" by (simp add: div_mult2_eq [symmetric])
  then show "?r div 4096 = a * 64 + x" unfolding d by (simp add: digits_3 assms)
  have "?r div 262144 = ?r div 64 div 4096" by (simp add: div_mult2_eq [symmetric])
  then show "?r div 262144 = a" unfolding d by (simp add: digits_3 assms)
qed

lemma digits_exist:
  obtains a x y z where "(r::nat) = a * 262144 + x * 4096 + y * 64 + z" "x < 64" "y < 64" "z < 64"
proof -
  have "r = r div 64 * 64 + r mod 64" "r div 64 = r div 64 div 64 * 64 + r div 64 mod 64"
    "r div 64 div 64 = r div 64 div 64 div 64 * 64 + r div 64 div 64 mod 64"
    by simp_all
  then have "r = r div 64 div 64 div 64 * 262144 + r div 64 div 64 mod 64 * 4096 + r div 64 mod 64 * 64 + r mod 64"
    by linarith
  then show thesis using that by simp
qed

lemma rune3:
  assumes "a < 16" "x < (64::nat)" "y < 64" "a = 0 \<longrightarrow> 32 \<le> x" "a = 13 \<longrightarrow> x < 32"
  shows "is_rune (a * 4096 + x * 64 + y)" "2048 \<le> a * 4096 + x * 64 + y" "a * 4096 + x * 64 + y < 65536"
proof -
  show "2048 \<le> a * 4096 + x * 64 + y" using assms by (cases "a = 0") auto
  show "a * 4096 + x * 64 + y < 65536" using assms by auto
  show "is_rune (a * 4096 + x * 64 + y)"
    using assms unfolding is_rune_def by (cases "a < 13"; cases "a = 13") auto
qed

lemma rune4:
  assumes "a < 5" "x < (64::nat)" "y < 64" "z < 64" "a = 0 \<longrightarrow> 16 \<le> x" "a = 4 \<longrightarrow> x < 16"
  shows "is_rune (a * 262144 + x * 4096 + y * 64 + z)" "65536 \<le> a * 262144 + x * 4096 + y * 64 + z"
proof -
  show l: "65536 \<le> a * 262144 + x * 4096 + y * 64 + z" using assms by (cases "a = 0") auto
  have "a * 262144 + x * 4096 + y * 64 + z < 1114112" using assms by (cases "a < 4") auto
  with l show "is_rune (a * 262144 + x * 4096 + y * 64 + z)" unfolding is_rune_def by simp
qed

lemma is_rune_RuneError: "is_rune RuneError"
  by (simp add: is_rune_def RuneError_def)

text \<open>What a decoded rune is: an ASCII byte, an invalid byte, or an encoding of two, three or four bytes.\<close>

lemma DecodeRune_cases:
  assumes "DecodeRune (c # cs) = (r, w)"
  obtains (ascii) "r = of_char c" "r < 128" "w = 1"
  | (invalid) "r = RuneError" "w = 1"
  | (two) a c1 t where "cs = c1 # t" "of_char c = 192 + a" "2 \<le> a" "a < 32" "is_cont c1" "r = a * 64 + cont c1" "w = 2"
  | (three) a c1 c2 t where "cs = c1 # c2 # t" "of_char c = 224 + a" "a < 16" "is_cont c1" "is_cont c2"
      "a = 0 \<longrightarrow> 32 \<le> cont c1" "a = 13 \<longrightarrow> cont c1 < 32" "r = a * 4096 + cont c1 * 64 + cont c2" "w = 3"
  | (four) a c1 c2 c3 t where "cs = c1 # c2 # c3 # t" "of_char c = 240 + a" "a < 5" "is_cont c1" "is_cont c2" "is_cont c3"
      "a = 0 \<longrightarrow> 16 \<le> cont c1" "a = 4 \<longrightarrow> cont c1 < 16"
      "r = a * 262144 + cont c1 * 4096 + cont c2 * 64 + cont c3" "w = 4"
proof -
  let ?n = "of_char c :: nat"
  consider "?n < 128" | "194 \<le> ?n" "?n < 224" | "224 \<le> ?n" "?n < 240" | "240 \<le> ?n" "?n < 245"
    | "\<not> ?n < 128" "\<not> (194 \<le> ?n \<and> ?n < 224)" "\<not> (224 \<le> ?n \<and> ?n < 240)" "\<not> (240 \<le> ?n \<and> ?n < 245)"
    by linarith
  then show thesis
  proof cases
    case 1
    then show ?thesis using assms ascii by simp
  next
    case 2
    then have e: "?n = 192 + (?n - 192)" "2 \<le> ?n - 192" "?n - 192 < 32" by auto
    show ?thesis using assms 2 invalid two [OF _ e] by (auto simp: Let_def split: list.splits if_splits)
  next
    case 3
    then have e: "?n = 224 + (?n - 224)" "?n - 224 < 16" by auto
    have "?n - 224 = 13 \<longleftrightarrow> ?n = 237" using 3 by auto
    then show ?thesis using assms 3 invalid three [OF _ e]
      by (auto simp: Let_def split: list.splits if_splits dest: is_cont_cont)
  next
    case 4
    then have e: "?n = 240 + (?n - 240)" "?n - 240 < 5" by auto
    have "?n - 240 = 4 \<longleftrightarrow> ?n = 244" using 4 by auto
    then show ?thesis using assms 4 invalid four [OF _ e]
      by (auto simp: Let_def split: list.splits if_splits dest: is_cont_cont)
  next
    case 5
    then show ?thesis using assms invalid by (auto simp: Let_def split: if_splits)
  qed
qed

lemma is_rune_DecodeRune: "DecodeRune (c # cs) = (r, w) \<Longrightarrow> is_rune r"
proof (erule DecodeRune_cases)
  fix a c1 c2 t
  assume "a < 16" "is_cont c1" "is_cont c2" "a = 0 \<longrightarrow> 32 \<le> cont c1" "a = 13 \<longrightarrow> cont c1 < 32"
    "r = a * 4096 + cont c1 * 64 + cont c2"
  then show "is_rune r" using rune3(1) is_cont_cont by blast
next
  fix a c1 c2 c3 t
  assume "a < 5" "is_cont c1" "is_cont c2" "is_cont c3" "a = 0 \<longrightarrow> 16 \<le> cont c1" "a = 4 \<longrightarrow> cont c1 < 16"
    "r = a * 262144 + cont c1 * 4096 + cont c2 * 64 + cont c3"
  then show "is_rune r" using rune4(1) is_cont_cont by blast
qed (auto simp: is_rune_RuneError dest: is_cont_cont intro: rune2(1); simp add: is_rune_def)+

lemma length_AppendRune: "is_rune r \<Longrightarrow> int (length (AppendRune r)) = RuneLen r"
  by (auto simp: AppendRune_def RuneLen_def)

section \<open>Encoding is valid\<close>

lemma of_char_char_of: "n < 256 \<Longrightarrow> (of_char (char_of n :: char) :: nat) = n"
  by simp

lemma is_cont_char: "x < 64 \<Longrightarrow> is_cont (char_of (128 + x)) \<and> cont (char_of (128 + x)) = x"
  by (simp add: is_cont_def cont_def of_char_char_of del: char_of_nat)

lemma of_char_cont: "x < 64 \<Longrightarrow> (of_char (char_of (128 + x) :: char) :: nat) = 128 + x"
  by (rule of_char_char_of) simp

lemma utf8_Valid_head2:
  "of_char c = 192 + (a::nat) \<Longrightarrow> 2 \<le> a \<Longrightarrow> a < 32 \<Longrightarrow> is_cont c1 \<Longrightarrow> utf8_Valid (c # c1 # t) = utf8_Valid t"
  by (simp add: Let_def)

lemma utf8_Valid_head3:
  "of_char c = 224 + (a::nat) \<Longrightarrow> a < 16 \<Longrightarrow> is_cont c1 \<Longrightarrow> is_cont c2 \<Longrightarrow> a = 0 \<longrightarrow> 32 \<le> cont c1 \<Longrightarrow>
     a = 13 \<longrightarrow> cont c1 < 32 \<Longrightarrow> utf8_Valid (c # c1 # c2 # t) = utf8_Valid t"
  using is_cont_cont [of c1] by (simp add: Let_def)

lemma utf8_Valid_head4:
  "of_char c = 240 + (a::nat) \<Longrightarrow> a < 5 \<Longrightarrow> is_cont c1 \<Longrightarrow> is_cont c2 \<Longrightarrow> is_cont c3 \<Longrightarrow> a = 0 \<longrightarrow> 16 \<le> cont c1 \<Longrightarrow>
     a = 4 \<longrightarrow> cont c1 < 16 \<Longrightarrow> utf8_Valid (c # c1 # c2 # c3 # t) = utf8_Valid t"
  using is_cont_cont [of c1] by (simp add: Let_def)

text \<open>The shapes \<open>AppendRune\<close> writes.\<close>

lemma AppendRune_2: "2 \<le> a \<Longrightarrow> a < 32 \<Longrightarrow> x < 64 \<Longrightarrow> AppendRune (a * 64 + x) = [char_of (192 + a), char_of (128 + x)]"
  using rune2 [of a x] by (simp add: AppendRune_def)

lemma AppendRune_3:
  assumes "a < 16" "x < 64" "y < 64" "a = 0 \<longrightarrow> 32 \<le> x" "a = 13 \<longrightarrow> x < 32"
  shows "AppendRune (a * 4096 + x * 64 + y) = [char_of (224 + a), char_of (128 + x), char_of (128 + y)]"
proof -
  have "(a * 64 + x) mod 64 = x" using assms(2) by simp
  with rune3 [OF assms] digits_3 [OF assms(2,3), of a] show ?thesis by (simp add: AppendRune_def Let_def)
qed

lemma AppendRune_4:
  assumes "a < 5" "x < 64" "y < 64" "z < 64" "a = 0 \<longrightarrow> 16 \<le> x" "a = 4 \<longrightarrow> x < 16"
  shows "AppendRune (a * 262144 + x * 4096 + y * 64 + z)
    = [char_of (240 + a), char_of (128 + x), char_of (128 + y), char_of (128 + z)]"
proof -
  have "(a * 4096 + x * 64 + y) mod 64 = y" "(a * 64 + x) mod 64 = x" using assms digits_3(2) by auto
  with rune4 [OF assms] digits_4 [OF assms(2-4), of a] show ?thesis by (simp add: AppendRune_def Let_def)
qed

lemma AppendRune_cases:
  assumes "is_rune r"
  obtains (ascii) "r < 128" "AppendRune r = [char_of r]"
  | (two) a x where "2 \<le> a" "a < 32" "x < 64" "r = a * 64 + x" "AppendRune r = [char_of (192 + a), char_of (128 + x)]"
  | (three) a x y where "a < 16" "x < 64" "y < 64" "r = a * 4096 + x * 64 + y" "a = 0 \<longrightarrow> 32 \<le> x" "a = 13 \<longrightarrow> x < 32"
      "AppendRune r = [char_of (224 + a), char_of (128 + x), char_of (128 + y)]"
  | (four) a x y z where "a < 5" "x < 64" "y < 64" "z < 64" "r = a * 262144 + x * 4096 + y * 64 + z"
      "a = 0 \<longrightarrow> 16 \<le> x" "a = 4 \<longrightarrow> x < 16"
      "AppendRune r = [char_of (240 + a), char_of (128 + x), char_of (128 + y), char_of (128 + z)]"
proof -
  obtain a x y z where r: "r = a * 262144 + x * 4096 + y * 64 + z" and l: "x < 64" "y < 64" "z < 64"
    by (rule digits_exist)
  consider "r < 128" | "128 \<le> r" "r < 2048" | "2048 \<le> r" "r < 65536" | "65536 \<le> r" by linarith
  then show thesis
  proof cases
    case 1
    then show ?thesis using assms by (intro ascii) (simp_all add: AppendRune_def)
  next
    case 2
    then have "a = 0" "x = 0" using r by auto
    with 2 r l have "2 \<le> y" "y < 32" "r = y * 64 + z" by auto
    with l show ?thesis using two AppendRune_2 by blast
  next
    case 3
    then have a: "a = 0" using r by auto
    with 3 r l have e: "x < 16" "r = x * 4096 + y * 64 + z" by auto
    have c: "x = 0 \<longrightarrow> 32 \<le> y" "x = 13 \<longrightarrow> y < 32"
      using 3 e l assms by (auto simp: is_rune_def)
    with e l show ?thesis using three AppendRune_3 by blast
  next
    case 4
    have m: "r < 1114112" using assms 4 by (auto simp: is_rune_def)
    have c: "a < 5" "a = 0 \<longrightarrow> 16 \<le> x" "a = 4 \<longrightarrow> x < 16" using 4 m r l by auto
    with r l show ?thesis using four AppendRune_4 by blast
  qed
qed

lemma utf8_Valid_AppendRune:
  assumes "is_rune r"
  shows "utf8_Valid (AppendRune r @ t) = utf8_Valid t"
  using assms
proof (cases rule: AppendRune_cases)
  case ascii
  then show ?thesis by (simp add: of_char_char_of)
next
  case (two a x)
  show ?thesis unfolding two(5)
    using two by (simp only: append.simps, intro utf8_Valid_head2) (simp_all only: of_char_char_of is_cont_char)
next
  case (three a x y)
  show ?thesis unfolding three(7)
    using three by (simp only: append.simps, intro utf8_Valid_head3) (simp_all only: of_char_char_of is_cont_char)
next
  case (four a x y z)
  show ?thesis unfolding four(8)
    using four by (simp only: append.simps, intro utf8_Valid_head4) (simp_all only: of_char_char_of is_cont_char)
qed

lemma utf8_Valid_snoc:
  assumes "is_rune r"
  shows "utf8_Valid s \<Longrightarrow> utf8_Valid (s @ AppendRune r)"
proof (induction s rule: utf8_Valid.induct)
  case 1
  show ?case using utf8_Valid_AppendRune [OF assms, of "[]"] by simp
next
  case (2 c cs)
  then show ?case by (auto simp: Let_def split: if_splits list.splits)
qed

text \<open>The bytes of a rune that is no control character hold no control character.\<close>

definition no_control :: "bytes \<Rightarrow> bool" where
  "no_control s \<longleftrightarrow> list_all (\<lambda>c. 32 \<le> (of_char c :: nat) \<and> (of_char c :: nat) \<noteq> 127) s"

lemma no_control_AppendRune:
  assumes "is_rune r" "\<not> (r < 32 \<or> r = 127)"
  shows "no_control (AppendRune r)"
  by (cases rule: AppendRune_cases [OF assms(1)])
    (use assms(2) in \<open>simp_all add: no_control_def of_char_char_of of_char_cont del: char_of_nat\<close>)

section \<open>Decoding reads it back\<close>

lemma char_cont: "is_cont c \<Longrightarrow> char_of (128 + cont c) = c"
  using is_cont_cont [of c] by (metis char_of_char)

lemma char_lead: "of_char c = (k::nat) \<Longrightarrow> char_of k = c"
  by (metis char_of_char)

lemma utf8_Valid_not_invalid: "utf8_Valid (c # cs) \<Longrightarrow> DecodeRune (c # cs) = (RuneError, 1) \<Longrightarrow> False"
  by (auto simp: Let_def RuneError_def split: if_splits list.splits)

lemma AppendRune_DecodeRune:
  assumes "utf8_Valid (c # cs)" "DecodeRune (c # cs) = (r, w)"
  shows "AppendRune r = take w (c # cs)" "utf8_Valid (drop w (c # cs))"
proof -
  have "AppendRune r = take w (c # cs) \<and> utf8_Valid (drop w (c # cs))"
    using assms(2)
  proof (cases rule: DecodeRune_cases)
    case ascii
    with assms(1) show ?thesis by (simp add: AppendRune_def is_rune_def)
  next
    case invalid
    with assms show ?thesis using utf8_Valid_not_invalid by blast
  next
    case (two a c1 t)
    then show ?thesis using assms(1) is_cont_cont [of c1]
      by (simp add: AppendRune_2 char_cont char_lead utf8_Valid_head2)
  next
    case (three a c1 c2 t)
    then show ?thesis using assms(1) is_cont_cont [of c1] is_cont_cont [of c2]
      by (simp add: AppendRune_3 char_cont char_lead utf8_Valid_head3)
  next
    case (four a c1 c2 c3 t)
    then show ?thesis using assms(1) is_cont_cont [of c1] is_cont_cont [of c2] is_cont_cont [of c3]
      by (simp add: AppendRune_4 char_cont char_lead utf8_Valid_head4)
  qed
  then show "AppendRune r = take w (c # cs)" "utf8_Valid (drop w (c # cs))" by simp_all
qed

declare DecodeRune.simps(2) [simp del]

end
