(* ===== verification/Command.thy ===== *)
theory Command
  imports GoErrors
begin

text \<open>
  The declarative command table (\<^verbatim>\<open>internal/command/table.go\<close>): one descriptor per catalog command.
  The gate, the audit events and the services read a command's tier, its destructive flag and its
  data-plane flag from here. The lemmas show that the catalog identifiers are unique, that
  \<open>Lookup\<close> finds exactly the rows of the table, and that no destructive command is open to readers.
\<close>

datatype Access = R | W

record Descriptor =
  Desc_ID :: string
  Desc_Name :: string
  Desc_Access :: Access
  Desc_Destructive :: bool
  Desc_DataPlane :: bool

text \<open>The four shapes of table rows: the fields a composite literal omits are zero.\<close>

definition row :: "string \<Rightarrow> string \<Rightarrow> Access \<Rightarrow> bool \<Rightarrow> bool \<Rightarrow> Descriptor" where
  "row i n a d p = \<lparr>Desc_ID = i, Desc_Name = n, Desc_Access = a, Desc_Destructive = d, Desc_DataPlane = p\<rparr>"

definition Table :: "Descriptor list" where
  "Table =
    [row ''C1'' ''Describe cluster'' R False False,
     row ''C2'' ''Describe broker configuration'' R False False,
     row ''C3'' ''Gateway health & connectivity'' R False False,
     row ''C4'' ''Cluster health summary'' R False False,
     row ''T1'' ''List topics'' R False False,
     row ''T2'' ''Describe topic'' R False False,
     row ''T3'' ''Partition / topic on-disk size'' R False False,
     row ''T4'' ''Message count in a time window'' R False False,
     row ''M1'' ''Read messages'' R False True,
     row ''M2'' ''Fetch single message'' R False True,
     row ''M3'' ''Search messages by regex'' R False True,
     row ''M4'' ''Search messages by JSONPath filter'' R False True,
     row ''M5'' ''Produce message(s)'' W False True,
     row ''M6'' ''Bulk produce from upload'' W False True,
     row ''M7'' ''Send tombstone for a key'' W False True,
     row ''G1'' ''List consumer groups'' R False False,
     row ''G2'' ''Describe consumer group'' R False False,
     row ''G3'' ''Groups consuming a topic'' R False False,
     row ''T5'' ''Create topic'' W False False,
     row ''T6'' ''Bulk create topics'' W False False,
     row ''T7'' ''Delete topic'' W True False,
     row ''T8'' ''Bulk delete topics'' W True False,
     row ''T9'' ''Alter topic configuration'' W True False,
     row ''T10'' ''Add partitions'' W True False,
     row ''T11'' ''Delete records'' W True False,
     row ''T12'' ''Purge topic'' W True False,
     row ''G4'' ''Reset consumer group offsets'' W True False,
     row ''G5'' ''Delete consumer group'' W True False,
     row ''G6'' ''Remove members from consumer group'' W True False,
     row ''G7'' ''Clone consumer group offsets'' W True False,
     row ''M8'' ''Replay / copy message range'' W True True,
     row ''C5'' ''Alter broker dynamic configuration'' W True False,
     row ''C6'' ''KRaft quorum status'' R False False,
     row ''C7'' ''In-progress partition reassignments'' R False False,
     row ''C8'' ''Broker disk usage per log directory'' R False False,
     row ''C9'' ''Partition reassignment & leader election'' W True False,
     row ''C10'' ''Throughput sample'' R False False,
     row ''C11'' ''Export topic / cluster definitions'' R False False,
     row ''C12'' ''Import / apply topic definitions'' W True False,
     row ''S1'' ''Manage SCRAM credentials'' W True False,
     row ''S2'' ''Manage client quotas'' W True False]"

definition zero_Descriptor :: Descriptor where
  "zero_Descriptor = row [] [] R False False"

text \<open>
  \<open>Lookup\<close> returns the descriptor and whether it was found. The zero descriptor's \<open>Access\<close> is the
  empty string in Go, which like \<open>R\<close> is not \<open>W\<close>, the only value the code compares with.
\<close>

fun lookup_in :: "string \<Rightarrow> Descriptor list \<Rightarrow> Descriptor \<times> bool" where
  "lookup_in i [] = (zero_Descriptor, False)"
| "lookup_in i (d # ds) = (if Desc_ID d = i then (d, True) else lookup_in i ds)"

definition Lookup :: "string \<Rightarrow> Descriptor \<times> bool" where
  "Lookup i = lookup_in i Table"

text \<open>\<open>desc, _ := command.Lookup(id)\<close>\<close>

definition desc_of :: "string \<Rightarrow> Descriptor" where
  "desc_of i = fst (Lookup i)"

lemma row_simps [simp]:
  "Desc_ID (row i n a d p) = i" "Desc_Name (row i n a d p) = n" "Desc_Access (row i n a d p) = a"
  "Desc_Destructive (row i n a d p) = d" "Desc_DataPlane (row i n a d p) = p"
  by (simp_all add: row_def)

lemma lookup_in_found:
  "lookup_in i ds = (d, True) \<Longrightarrow> d \<in> set ds \<and> Desc_ID d = i"
  by (induction ds) (auto split: if_splits)

lemma lookup_in_complete:
  "distinct (map Desc_ID ds) \<Longrightarrow> d \<in> set ds \<Longrightarrow> lookup_in (Desc_ID d) ds = (d, True)"
  by (induction ds) (auto simp: image_iff)

lemma lookup_in_missing:
  "i \<notin> set (map Desc_ID ds) \<Longrightarrow> lookup_in i ds = (zero_Descriptor, False)"
  by (induction ds) auto

lemma Table_ids:
  "map Desc_ID Table = [''C1'', ''C2'', ''C3'', ''C4'', ''T1'', ''T2'', ''T3'', ''T4'', ''M1'', ''M2'',
     ''M3'', ''M4'', ''M5'', ''M6'', ''M7'', ''G1'', ''G2'', ''G3'', ''T5'', ''T6'', ''T7'', ''T8'',
     ''T9'', ''T10'', ''T11'', ''T12'', ''G4'', ''G5'', ''G6'', ''G7'', ''M8'', ''C5'', ''C6'', ''C7'',
     ''C8'', ''C9'', ''C10'', ''C11'', ''C12'', ''S1'', ''S2'']"
  by (simp add: Table_def)

lemma distinct_Table_ids: "distinct (map Desc_ID Table)"
  by (simp add: Table_ids)

lemma Lookup_Table: "d \<in> set Table \<Longrightarrow> Lookup (Desc_ID d) = (d, True)"
  by (simp add: Lookup_def lookup_in_complete distinct_Table_ids)

lemma Lookup_found: "Lookup i = (d, True) \<Longrightarrow> d \<in> set Table \<and> Desc_ID d = i"
  by (simp add: Lookup_def lookup_in_found)

lemma Lookup_missing: "i \<notin> set (map Desc_ID Table) \<Longrightarrow> Lookup i = (zero_Descriptor, False)"
  unfolding Lookup_def by (rule lookup_in_missing)

text \<open>The facts the services' proofs use about the commands they look up.\<close>

lemma desc_of_row: "d \<in> set Table \<Longrightarrow> desc_of (Desc_ID d) = d"
  by (simp add: desc_of_def Lookup_Table)

lemma desc_of_ID: "i \<in> set (map Desc_ID Table) \<Longrightarrow> Desc_ID (desc_of i) = i"
  by (auto simp: desc_of_row)

lemma desc_of_ids [simp]:
  "Desc_ID (desc_of ''T5'') = ''T5''" "Desc_ID (desc_of ''T6'') = ''T6''"
  "Desc_ID (desc_of ''T7'') = ''T7''" "Desc_ID (desc_of ''T8'') = ''T8''"
  "Desc_ID (desc_of ''T9'') = ''T9''" "Desc_ID (desc_of ''T10'') = ''T10''"
  "Desc_ID (desc_of ''T11'') = ''T11''" "Desc_ID (desc_of ''T12'') = ''T12''"
  "Desc_ID (desc_of ''G4'') = ''G4''" "Desc_ID (desc_of ''G5'') = ''G5''"
  "Desc_ID (desc_of ''G6'') = ''G6''" "Desc_ID (desc_of ''G7'') = ''G7''"
  "Desc_ID (desc_of ''M5'') = ''M5''" "Desc_ID (desc_of ''M6'') = ''M6''"
  "Desc_ID (desc_of ''M7'') = ''M7''" "Desc_ID (desc_of ''M8'') = ''M8''"
  "Desc_ID (desc_of ''M1'') = ''M1''" "Desc_ID (desc_of ''M2'') = ''M2''"
  "Desc_ID (desc_of ''M3'') = ''M3''" "Desc_ID (desc_of ''M4'') = ''M4''"
  "Desc_ID (desc_of ''C5'') = ''C5''" "Desc_ID (desc_of ''C9'') = ''C9''"
  "Desc_ID (desc_of ''C12'') = ''C12''" "Desc_ID (desc_of ''S1'') = ''S1''"
  "Desc_ID (desc_of ''S2'') = ''S2''"
  by (rule desc_of_ID; simp add: Table_ids)+

lemma desc_of_access:
  assumes "(i, a) \<in> set (map (\<lambda>d. (Desc_ID d, Desc_Access d)) Table)"
  shows "Desc_Access (desc_of i) = a"
  using assms by (auto simp: desc_of_row)

lemma desc_of_writes [simp]:
  "Desc_Access (desc_of ''T5'') = W" "Desc_Access (desc_of ''T6'') = W"
  "Desc_Access (desc_of ''T7'') = W" "Desc_Access (desc_of ''T8'') = W"
  "Desc_Access (desc_of ''T9'') = W" "Desc_Access (desc_of ''T10'') = W"
  "Desc_Access (desc_of ''T11'') = W" "Desc_Access (desc_of ''T12'') = W"
  "Desc_Access (desc_of ''G4'') = W" "Desc_Access (desc_of ''G5'') = W"
  "Desc_Access (desc_of ''G6'') = W" "Desc_Access (desc_of ''G7'') = W"
  "Desc_Access (desc_of ''M5'') = W" "Desc_Access (desc_of ''M6'') = W"
  "Desc_Access (desc_of ''M7'') = W" "Desc_Access (desc_of ''M8'') = W"
  "Desc_Access (desc_of ''C5'') = W" "Desc_Access (desc_of ''C9'') = W"
  "Desc_Access (desc_of ''C12'') = W" "Desc_Access (desc_of ''S1'') = W"
  "Desc_Access (desc_of ''S2'') = W" "Desc_Access (desc_of ''M1'') = R"
  "Desc_Access (desc_of ''M2'') = R" "Desc_Access (desc_of ''M3'') = R"
  "Desc_Access (desc_of ''M4'') = R"
  by (rule desc_of_access; simp add: Table_def)+

lemma destructive_is_W: "d \<in> set Table \<Longrightarrow> Desc_Destructive d \<Longrightarrow> Desc_Access d = W"
  by (auto simp: Table_def)

end
