(* ===== verification/Gates.thy ===== *)
theory Gates
  imports Command
begin

text \<open>
  Who calls, what is configured, and the request gate (\<^verbatim>\<open>internal/service/core/caller.go\<close>,
  \<^verbatim>\<open>internal/service/core/policy.go\<close>, \<^verbatim>\<open>internal/service/gates/check.go\<close>).

  The lemmas characterise \<open>Check\<close> completely: when it passes, and with which code it rejects.
\<close>

definition TierReader :: string where
  "TierReader = ''reader''"

definition TierOperator :: string where
  "TierOperator = ''operator''"

record Caller =
  Caller_KeyID :: "string option"
  Caller_Tier :: string
  Caller_BreakGlassReason :: string
  Caller_RequestID :: string
  Caller_ClientIP :: string
  Caller_Client :: string

record Policy =
  Policy_AuthEnabled :: bool
  Policy_ReadOnly :: bool
  Policy_DataPlaneLock :: bool
  Policy_Disabled :: "(string \<times> bool) list"

definition Check :: "Caller \<Rightarrow> Descriptor \<Rightarrow> Policy \<Rightarrow> error option" where
  "Check caller descriptor policy =
    (if Desc_Access descriptor = W \<and> Caller_Tier caller \<noteq> TierOperator
     then Some (policyErr TierForbidden [])
     else if Desc_Access descriptor = W \<and> Policy_ReadOnly policy
     then Some (policyErr ReadOnlyMode [])
     else if Desc_Access descriptor = W \<and> mget (Policy_Disabled policy) False (Desc_ID descriptor)
     then Some (policyErr OperationDisabled [])
     else if Desc_DataPlane descriptor \<and> Policy_DataPlaneLock policy
       \<and> (Caller_BreakGlassReason caller = [] \<or> Caller_Tier caller \<noteq> TierOperator)
     then Some (policyErr DataPlaneLocked [])
     else None)"

lemma Check_pass_iff:
  "Check caller d pol = None \<longleftrightarrow>
     (Desc_Access d = W \<longrightarrow> Caller_Tier caller = TierOperator \<and> \<not> Policy_ReadOnly pol
        \<and> \<not> mget (Policy_Disabled pol) False (Desc_ID d))
     \<and> (Desc_DataPlane d \<and> Policy_DataPlaneLock pol \<longrightarrow>
          Caller_Tier caller = TierOperator \<and> Caller_BreakGlassReason caller \<noteq> [])"
  by (auto simp: Check_def)

lemma Check_is_policy_error:
  "Check caller d pol = Some e \<Longrightarrow>
     e \<in> {policyErr TierForbidden [], policyErr ReadOnlyMode [], policyErr OperationDisabled [],
          policyErr DataPlaneLocked []}"
  by (auto simp: Check_def split: if_splits)

lemma Check_codes:
  "Check caller d pol = Some e \<Longrightarrow>
     CodeOf e \<in> {Some TierForbidden, Some ReadOnlyMode, Some OperationDisabled, Some DataPlaneLocked}"
  by (auto dest: Check_is_policy_error)

lemma Check_break_glass_indep:
  assumes "Desc_Access d = W"
    "Caller_Tier caller \<noteq> TierOperator \<or> Policy_ReadOnly pol
      \<or> mget (Policy_Disabled pol) False (Desc_ID d)"
  shows "Check (caller\<lparr>Caller_BreakGlassReason := r\<rparr>) d pol = Check caller d pol"
    and "Check caller d pol \<noteq> None"
  using assms by (auto simp: Check_def)

end
