(* ===== verification/AuditTrail.thy ===== *)
theory AuditTrail
  imports Gates
begin

text \<open>
  The audit events and the two-phase auditor (\<^verbatim>\<open>internal/audit/event.go\<close>,
  \<^verbatim>\<open>internal/audit/auditor.go\<close>) and the recording sink the test suite plugs in
  (\<^verbatim>\<open>internal/audit/audittest/recording.go\<close>).

  A sink is a function from events to effects. The locale \<open>audit_sinks\<close> states what the pipeline
  relies on (a sink leaves the cluster alone and does not panic), \<open>audit_log\<close> that a sink appends what
  it accepts to a trail; both are interpreted on the recording sink.
\<close>

section \<open>Events\<close>

text \<open>The empty string, the zero value of each of the three string types, is the last constructor.\<close>

datatype Phase = PhaseAttempt | PhaseResult | PhaseUnset
datatype Severity = SeverityInfo | SeverityWarn | SeverityHigh | SeverityUnset
datatype Outcome = OutcomeSucceeded | OutcomeFailed | OutcomeRejected | OutcomeUnset

fun Phase_string :: "Phase \<Rightarrow> string" where
  "Phase_string PhaseAttempt = ''ATTEMPT''"
| "Phase_string PhaseResult = ''RESULT''"
| "Phase_string PhaseUnset = []"

fun Outcome_string :: "Outcome \<Rightarrow> string" where
  "Outcome_string OutcomeSucceeded = ''SUCCEEDED''"
| "Outcome_string OutcomeFailed = ''FAILED''"
| "Outcome_string OutcomeRejected = ''REJECTED''"
| "Outcome_string OutcomeUnset = []"

record Target =
  Target_Type :: string
  Target_Name :: string
  Target_Partitions :: "int32 list"

record AuditCaller =
  AuditCaller_KeyID :: "string option"
  AuditCaller_Tier :: string
  AuditCaller_ClientIP :: string

record Event =
  Event_EventID :: string
  Event_Timestamp :: time
  Event_RequestID :: string
  Event_Phase :: Phase
  Event_Severity :: Severity
  Event_CommandID :: string
  Event_CommandName :: string
  Event_Target :: Target
  Event_Caller :: AuditCaller
  Event_DryRun :: bool
  Event_BreakGlass :: "string option" \<comment> \<open>\<open>*BreakGlass\<close>: its \<open>Reason\<close>\<close>
  Event_Outcome :: Outcome
  Event_Error :: "string option" \<comment> \<open>\<open>*EventError\<close>: its \<open>Code\<close>\<close>
  Event_DurationMs :: "int64 option"

definition highSeverityCommands :: "(string \<times> bool) list" where
  "highSeverityCommands = [(''T7'', True), (''T8'', True), (''T11'', True), (''T12'', True), (''G5'', True)]"

definition SeverityFor :: "string \<Rightarrow> Outcome \<Rightarrow> bool \<Rightarrow> Severity" where
  "SeverityFor commandID outcome breakGlass =
    (if breakGlass then SeverityHigh
     else if outcome = OutcomeRejected \<or> outcome = OutcomeFailed then SeverityWarn
     else if outcome = OutcomeSucceeded \<and> mget highSeverityCommands False commandID then SeverityHigh
     else SeverityInfo)"

lemma highSeverity_iff:
  "mget highSeverityCommands False c \<longleftrightarrow> c \<in> {''T7'', ''T8'', ''T11'', ''T12'', ''G5''}"
  by (auto simp: mget_def highSeverityCommands_def)

lemma SeverityFor_break_glass [simp]: "SeverityFor c oc True = SeverityHigh"
  by (simp add: SeverityFor_def)

lemma SeverityFor_failure [simp]:
  "SeverityFor c OutcomeFailed False = SeverityWarn" "SeverityFor c OutcomeRejected False = SeverityWarn"
  by (simp_all add: SeverityFor_def)

lemma SeverityFor_success:
  "SeverityFor c OutcomeSucceeded False =
     (if c \<in> {''T7'', ''T8'', ''T11'', ''T12'', ''G5''} then SeverityHigh else SeverityInfo)"
  by (simp add: SeverityFor_def highSeverity_iff)

section \<open>The auditor\<close>

type_synonym 's Sink = "Event \<Rightarrow> ('s, unit) eff"
type_synonym 's Auditor = "'s Sink list"

fun write_all :: "'s Sink list \<Rightarrow> Event \<Rightarrow> ('s, unit) eff" where
  "write_all [] ev = ret ()"
| "write_all (sink # sinks) ev =
     attempt (sink ev) (\<lambda>r. case r of
       Inl err \<Rightarrow> fail (WrapError ''audit: attempt: '' err)
     | Inr _ \<Rightarrow> write_all sinks ev)"

definition Attempt :: "'s Auditor \<Rightarrow> Event \<Rightarrow> ('s, unit) eff" where
  "Attempt sinks ev = write_all sinks (ev\<lparr>Event_Phase := PhaseAttempt\<rparr>)"

fun write_each :: "'s Sink list \<Rightarrow> Event \<Rightarrow> ('s, unit) eff" where
  "write_each [] ev = ret ()"
| "write_each (sink # sinks) ev = attempt (sink ev) (\<lambda>_. write_each sinks ev)"

definition Result :: "'s Auditor \<Rightarrow> Event \<Rightarrow> ('s, unit) eff" where
  "Result sinks ev = write_each sinks (ev\<lparr>Event_Phase := PhaseResult\<rparr>)"

section \<open>What the pipeline relies on\<close>

locale audit_sinks =
  fixes sinks :: "'s Sink list" and view :: "'s \<Rightarrow> 'v"
  assumes sink_quiet: "\<And>sink ev. sink \<in> set sinks \<Longrightarrow> quiet view (sink ev)"
    and sink_no_panic: "\<And>sink ev s. sink \<in> set sinks \<Longrightarrow> fst (sink ev s) \<noteq> Panic"
begin

lemma quiet_write_all: "set ss \<subseteq> set sinks \<Longrightarrow> quiet view (write_all ss ev)"
proof (induction ss)
  case (Cons sink ss)
  then have "quiet view (sink ev)" by (intro sink_quiet) simp
  with Cons show ?case by (auto intro!: quiet_intros)
qed (simp add: quiet_ret)

lemma quiet_write_each: "set ss \<subseteq> set sinks \<Longrightarrow> quiet view (write_each ss ev)"
proof (induction ss)
  case (Cons sink ss)
  then have "quiet view (sink ev)" by (intro sink_quiet) simp
  with Cons show ?case by (auto intro!: quiet_intros)
qed (simp add: quiet_ret)

lemma quiet_Attempt: "quiet view (Attempt sinks ev)"
  unfolding Attempt_def by (rule quiet_write_all) simp

lemma quiet_Result: "quiet view (Result sinks ev)"
  unfolding Result_def by (rule quiet_write_each) simp

lemma write_all_no_panic: "set ss \<subseteq> set sinks \<Longrightarrow> fst (write_all ss ev s) \<noteq> Panic"
proof (induction ss arbitrary: s)
  case (Cons sink ss)
  then have "fst (sink ev s) \<noteq> Panic" by (intro sink_no_panic) simp
  with Cons show ?case
    by (cases "sink ev s"; cases "fst (sink ev s)") (auto simp: attempt_def eff_simps)
qed (simp add: ret_run)

lemma write_each_Ok: "set ss \<subseteq> set sinks \<Longrightarrow> fst (write_each ss ev s) = Ok ()"
proof (induction ss arbitrary: s)
  case (Cons sink ss)
  then have "fst (sink ev s) \<noteq> Panic" by (intro sink_no_panic) simp
  with Cons show ?case
    by (cases "sink ev s"; cases "fst (sink ev s)") (auto simp: attempt_def eff_simps)
qed (simp add: ret_run)

lemma Attempt_no_panic: "fst (Attempt sinks ev s) \<noteq> Panic"
  unfolding Attempt_def by (rule write_all_no_panic) simp

lemma Result_Ok: "fst (Result sinks ev s) = Ok ()"
  unfolding Result_def by (rule write_each_Ok) simp

end

locale audit_log =
  fixes sink :: "'s Sink" and view :: "'s \<Rightarrow> 'v" and trail :: "'s \<Rightarrow> Event list"
  assumes log_quiet: "\<And>ev. quiet view (sink ev)"
    and log_no_panic: "\<And>ev s. fst (sink ev s) \<noteq> Panic"
    and log_accepts: "\<And>ev s s'. sink ev s = (Ok (), s') \<Longrightarrow> trail s' = trail s @ [ev]"
    and log_rejects: "\<And>ev s s' e. sink ev s = (Err e, s') \<Longrightarrow> trail s' = trail s"

sublocale audit_log \<subseteq> audit_sinks "[sink]" view
  by unfold_locales (auto intro: log_quiet simp: log_no_panic)

context audit_log
begin

lemma Attempt_trail:
  "Attempt [sink] ev s = (Ok (), s') \<Longrightarrow> trail s' = trail s @ [ev\<lparr>Event_Phase := PhaseAttempt\<rparr>]"
  by (auto simp: Attempt_def attempt_def ret_run fail_run log_accepts split: prod.splits res.splits)

lemma Attempt_trail_Err: "Attempt [sink] ev s = (Err e, s') \<Longrightarrow> trail s' = trail s"
  by (auto simp: Attempt_def attempt_def ret_run fail_run split: prod.splits res.splits
      dest: log_rejects)

lemma Result_trail:
  "Result [sink] ev s = (r, s') \<Longrightarrow>
     trail s' = trail s \<or> trail s' = trail s @ [ev\<lparr>Event_Phase := PhaseResult\<rparr>]"
  using log_no_panic [of "ev\<lparr>Event_Phase := PhaseResult\<rparr>" s]
  by (auto simp: Result_def attempt_def ret_run split: prod.splits res.splits
      dest: log_rejects log_accepts)

end

section \<open>The recording sink\<close>

record RecordingSink =
  rs_events :: "Event list"
  rs_failNext :: "(Phase \<times> bool) list"
  rs_failAlways :: "(Phase \<times> bool) list"

definition RecordingSink_New :: RecordingSink where
  "RecordingSink_New = \<lparr>rs_events = [], rs_failNext = [], rs_failAlways = []\<rparr>"

definition injected :: "Phase \<Rightarrow> error" where
  "injected p = PlainError (''audittest: injected '' @ Phase_string p @ '' failure'')"

definition RecordingSink_Write :: "RecordingSink Sink" where
  "RecordingSink_Write ev s =
    (if mget (rs_failNext s) False (Event_Phase ev) then
       (Err (injected (Event_Phase ev)), s\<lparr>rs_failNext := mdel (Event_Phase ev) (rs_failNext s)\<rparr>)
     else if mget (rs_failAlways s) False (Event_Phase ev) then (Err (injected (Event_Phase ev)), s)
     else (Ok (), s\<lparr>rs_events := rs_events s @ [ev]\<rparr>))"

definition RecordingSink_Events :: "RecordingSink \<Rightarrow> Event list" where
  "RecordingSink_Events s = rs_events s"

definition RecordingSink_FailNext :: "Phase \<Rightarrow> RecordingSink \<Rightarrow> RecordingSink" where
  "RecordingSink_FailNext p s = s\<lparr>rs_failNext := mput p True (rs_failNext s)\<rparr>"

definition RecordingSink_FailAlways :: "Phase \<Rightarrow> RecordingSink \<Rightarrow> RecordingSink" where
  "RecordingSink_FailAlways p s = s\<lparr>rs_failAlways := mput p True (rs_failAlways s)\<rparr>"

interpretation recording: audit_log RecordingSink_Write "\<lambda>s. rs_failAlways s" RecordingSink_Events
  by unfold_locales
    (auto simp: quiet_def RecordingSink_Write_def RecordingSink_Events_def split: if_splits)

lemma RecordingSink_Write_cases:
  obtains (accept) "RecordingSink_Write ev s = (Ok (), s\<lparr>rs_events := rs_events s @ [ev]\<rparr>)"
  | (fault) s' where "RecordingSink_Write ev s = (Err (injected (Event_Phase ev)), s')"
      "rs_events s' = rs_events s"
proof -
  have "RecordingSink_Write ev s = (Ok (), s\<lparr>rs_events := rs_events s @ [ev]\<rparr>)
    \<or> (\<exists>s'. RecordingSink_Write ev s = (Err (injected (Event_Phase ev)), s') \<and> rs_events s' = rs_events s)"
    by (auto simp: RecordingSink_Write_def)
  with that show thesis by blast
qed

end
