(* ===== verification/CoreRun.thy ===== *)
theory CoreRun
  imports AuditTrail KafkaTypes
begin

text \<open>
  The pipeline every command runs through: the gate with its audited rejection
  (\<^verbatim>\<open>internal/service/core/run.go\<close>) and the sequencing of destructive commands
  (\<^verbatim>\<open>internal/service/core/destructive.go\<close>).

  A destructive command returns its \<open>Result\<close> together with its error, as the Go function does: after a
  failed apply the result still carries the plan. \<open>None\<close> for \<open>Plan\<close> or \<open>Value\<close> is Go's zero value. The
  context is applied to the effects when a service is built, so it is no argument here.
\<close>

section \<open>The gate\<close>

record Runner =
  Runner_Policy :: Policy
  Runner_Check :: "Caller \<Rightarrow> Descriptor \<Rightarrow> Policy \<Rightarrow> error option"

definition gates_runner :: "Policy \<Rightarrow> Runner" where
  "gates_runner pol = \<lparr>Runner_Policy = pol, Runner_Check = Check\<rparr>"

definition gate :: "Runner \<Rightarrow> Caller \<Rightarrow> Descriptor \<Rightarrow> error option" where
  "gate r caller descriptor = Runner_Check r caller descriptor (Runner_Policy r)"

lemma gate_gates_runner [simp]: "gate (gates_runner pol) caller d = Check caller d pol"
  by (simp add: gate_def gates_runner_def)

definition run :: "Runner \<Rightarrow> Caller \<Rightarrow> Descriptor \<Rightarrow> ('s, 'a) eff \<Rightarrow> ('s, 'a) eff" where
  "run r caller descriptor fn =
    (case Runner_Check r caller descriptor (Runner_Policy r) of
       Some err \<Rightarrow> fail err
     | None \<Rightarrow> fn)"

text \<open>\<open>code, _ := CodeOf(err)\<close>: without a policy error the code is the zero \<open>Code\<close>, \<open>TierForbidden\<close>.\<close>

definition code_or_zero :: "error \<Rightarrow> code" where
  "code_or_zero err = (case CodeOf err of Some c \<Rightarrow> c | None \<Rightarrow> TierForbidden)"

definition rejected_event :: "Caller \<Rightarrow> Descriptor \<Rightarrow> Event \<Rightarrow> error \<Rightarrow> Event" where
  "rejected_event caller descriptor att err = att
     \<lparr>Event_Outcome := OutcomeRejected,
      Event_Severity := SeverityFor (Desc_ID descriptor) OutcomeRejected (Caller_BreakGlassReason caller \<noteq> []),
      Event_Error := Some (code_String (code_or_zero err))\<rparr>"

definition CheckAudited ::
  "Runner \<Rightarrow> 's Auditor \<Rightarrow> Caller \<Rightarrow> Descriptor \<Rightarrow> Event \<Rightarrow> ('s, unit) eff" where
  "CheckAudited r auditor caller descriptor att =
    (case Runner_Check r caller descriptor (Runner_Policy r) of
       None \<Rightarrow> ret ()
     | Some err \<Rightarrow> onOk (Result auditor (rejected_event caller descriptor att err)) (\<lambda>_. fail err))"

section \<open>Destructive commands\<close>

text \<open>The \<open>Plan\<close> interface: the confirmation target, and the plan boxed into an error's details.\<close>

record 'p PlanOps =
  ConfirmTarget :: "'p \<Rightarrow> string"
  plan_any :: "'p \<Rightarrow> any"

record ('p, 't) DResult =
  Result_DryRun :: bool
  Result_Plan :: "'p option"
  Result_Value :: "'t option"

definition zero_Result :: "('p, 't) DResult" where
  "zero_Result = \<lparr>Result_DryRun = False, Result_Plan = None, Result_Value = None\<rparr>"

definition dryrun_Result :: "'p \<Rightarrow> ('p, 't) DResult" where
  "dryrun_Result p = \<lparr>Result_DryRun = True, Result_Plan = Some p, Result_Value = None\<rparr>"

definition destructiveErrCode :: "error \<Rightarrow> string" where
  "destructiveErrCode err =
    (case CodeOf err of
       Some c \<Rightarrow> code_String c
     | None \<Rightarrow> (case as_kafka err of
         Some ke \<Rightarrow> kind_String (ke_Kind ke)
       | None \<Rightarrow> ''INTERNAL''))"

text \<open>The result event of an attempt, given the reading of the wall clock.\<close>

definition resultEventAt :: "time \<Rightarrow> Event \<Rightarrow> Outcome \<Rightarrow> string \<Rightarrow> Event" where
  "resultEventAt t att outcome errCode =
    (let ev = att\<lparr>Event_Timestamp := t,
        Event_Outcome := outcome,
        Event_Severity := SeverityFor (Event_CommandID att) outcome (Event_BreakGlass att \<noteq> None),
        Event_DurationMs := Some (Milliseconds (time_Sub t (Event_Timestamp att)))\<rparr>
     in if errCode \<noteq> [] then ev\<lparr>Event_Error := Some errCode\<rparr> else ev)"

definition resultEvent :: "('s \<Rightarrow> time \<times> 's) \<Rightarrow> Event \<Rightarrow> Outcome \<Rightarrow> string \<Rightarrow> ('s, Event) eff" where
  "resultEvent timeNow att outcome errCode =
    onOk (act timeNow) (\<lambda>t. ret (resultEventAt t att outcome errCode))"

text \<open>
  \<open>Destructive\<close>: gate, plan, dry-run short-circuit, confirmation, \<open>ATTEMPT\<close>, apply, \<open>RESULT\<close>. It
  never fails itself: it returns the pair of a result and an error.
\<close>

definition audit_result ::
  "('s \<Rightarrow> time \<times> 's) \<Rightarrow> 's Auditor \<Rightarrow> Event \<Rightarrow> Outcome \<Rightarrow> string \<Rightarrow> ('s, unit) eff" where
  "audit_result timeNow auditor att outcome errCode =
    onOk (resultEvent timeNow att outcome errCode) (Result auditor)"

definition Destructive ::
  "('s \<Rightarrow> time \<times> 's) \<Rightarrow> 'p PlanOps \<Rightarrow> Runner \<Rightarrow> 's Auditor \<Rightarrow> Caller \<Rightarrow> Descriptor \<Rightarrow> Event
   \<Rightarrow> string \<Rightarrow> bool \<Rightarrow> ('s, 'p) eff \<Rightarrow> ('p \<Rightarrow> ('s, 't) eff) \<Rightarrow> ('s, ('p, 't) DResult \<times> Err) eff" where
  "Destructive timeNow ops r auditor caller descriptor att confirm dryRun plan apply =
    attempt (CheckAudited r auditor caller descriptor att) (\<lambda>g. case g of
      Inl err \<Rightarrow> ret (zero_Result, Some err)
    | Inr _ \<Rightarrow>
    attempt plan (\<lambda>pr. case pr of
      Inl err \<Rightarrow> ret (zero_Result, Some err)
    | Inr p \<Rightarrow>
      (let att' = att\<lparr>Event_DryRun := dryRun\<rparr> in
       if dryRun then
         onOk (audit_result timeNow auditor att' OutcomeSucceeded [])
           (\<lambda>_. ret (dryrun_Result p, None))
       else if confirm \<noteq> ConfirmTarget ops p then
         ret (zero_Result, Some (PolicyError
           \<lparr>pe_Code = ConfirmationMismatch, pe_Message = [], pe_Details = [(''plan'', plan_any ops p)]\<rparr>))
       else
    attempt (Attempt auditor att') (\<lambda>ar. case ar of
      Inl err \<Rightarrow> ret (zero_Result, Some (policyErr AuditUnavailable (err_Error err)))
    | Inr _ \<Rightarrow>
    attempt (apply p) (\<lambda>vr. case vr of
      Inl err \<Rightarrow> onOk (audit_result timeNow auditor att' OutcomeFailed (destructiveErrCode err))
        (\<lambda>_. ret (zero_Result\<lparr>Result_Plan := Some p\<rparr>, Some err))
    | Inr v \<Rightarrow> onOk (audit_result timeNow auditor att' OutcomeSucceeded [])
        (\<lambda>_. ret (\<lparr>Result_DryRun = False, Result_Plan = Some p, Result_Value = Some v\<rparr>, None)))))))"

section \<open>The pipeline step by step\<close>

lemma CheckAudited_pass: "gate r caller d = None \<Longrightarrow> CheckAudited r auditor caller d att = ret ()"
  by (simp add: CheckAudited_def gate_def)

lemma CheckAudited_reject:
  "gate r caller d = Some err \<Longrightarrow>
     CheckAudited r auditor caller d att
       = onOk (Result auditor (rejected_event caller d att err)) (\<lambda>_. fail err)"
  by (simp add: CheckAudited_def gate_def)

lemma attempt_ret [simp]: "attempt (ret a) k = k (Inr a)"
  by (simp add: attempt_def ret_def fun_eq_iff)

lemma attempt_fail [simp]: "attempt (fail e) k = k (Inl e)"
  by (simp add: attempt_def fail_def fun_eq_iff)

lemma attempt_onOk_fail:
  "attempt (onOk m (\<lambda>_. fail e)) k s =
    (case m s of (Ok _, s') \<Rightarrow> k (Inl e) s' | (Err e', s') \<Rightarrow> k (Inl e') s' | (Panic, s') \<Rightarrow> (Panic, s'))"
  by (auto simp: attempt_def onOk_def fail_def split: prod.splits res.splits)

lemma attempt_cong:
  assumes "\<And>a s'. m s = (Ok a, s') \<Longrightarrow> k (Inr a) s' = k' (Inr a) s'"
    and "\<And>e s'. m s = (Err e, s') \<Longrightarrow> k (Inl e) s' = k' (Inl e) s'"
  shows "attempt m k s = attempt m k' s"
  using assms by (auto simp: attempt_def split: prod.splits res.splits)

lemma run_reject: "gate r caller d = Some err \<Longrightarrow> run r caller d fn = fail err"
  by (simp add: run_def gate_def)

lemma run_pass: "gate r caller d = None \<Longrightarrow> run r caller d fn = fn"
  by (simp add: run_def gate_def)

text \<open>
  The guards of the mutating step: unless the gate passes, the call is no dry run, the plan is made,
  the confirmation matches it and every sink has accepted the \<open>ATTEMPT\<close>, apply is never run.
\<close>

definition apply_guards ::
  "'p PlanOps \<Rightarrow> Runner \<Rightarrow> 's Auditor \<Rightarrow> Caller \<Rightarrow> Descriptor \<Rightarrow> Event \<Rightarrow> string \<Rightarrow> bool
   \<Rightarrow> ('s, 'p) eff \<Rightarrow> 's \<Rightarrow> bool" where
  "apply_guards ops r auditor caller descriptor att confirm dryRun plan s \<longleftrightarrow>
     gate r caller descriptor = None \<and> \<not> dryRun \<and>
     (case plan s of (Ok p, s') \<Rightarrow> confirm = ConfirmTarget ops p
          \<and> fst (Attempt auditor (att\<lparr>Event_DryRun := False\<rparr>) s') = Ok ()
        | _ \<Rightarrow> False)"

lemma Destructive_rejected:
  assumes "gate r caller d = Some err"
  shows "Destructive timeNow ops r auditor caller d att confirm dryRun plan apply
    = Destructive timeNow ops r auditor caller d att confirm dryRun plan' apply'"
  using assms
  by (simp add: Destructive_def CheckAudited_reject fun_eq_iff attempt_onOk_fail
      split: prod.splits res.splits)

lemma Destructive_passed:
  assumes "gate r caller d = None"
  shows "Destructive timeNow ops r auditor caller d att confirm dryRun plan apply =
    attempt plan (\<lambda>pr. case pr of
      Inl err \<Rightarrow> ret (zero_Result, Some err)
    | Inr p \<Rightarrow>
      (let att' = att\<lparr>Event_DryRun := dryRun\<rparr> in
       if dryRun then
         onOk (audit_result timeNow auditor att' OutcomeSucceeded [])
           (\<lambda>_. ret (dryrun_Result p, None))
       else if confirm \<noteq> ConfirmTarget ops p then
         ret (zero_Result, Some (PolicyError
           \<lparr>pe_Code = ConfirmationMismatch, pe_Message = [], pe_Details = [(''plan'', plan_any ops p)]\<rparr>))
       else
    attempt (Attempt auditor att') (\<lambda>ar. case ar of
      Inl err \<Rightarrow> ret (zero_Result, Some (policyErr AuditUnavailable (err_Error err)))
    | Inr _ \<Rightarrow>
    attempt (apply p) (\<lambda>vr. case vr of
      Inl err \<Rightarrow> onOk (audit_result timeNow auditor att' OutcomeFailed (destructiveErrCode err))
        (\<lambda>_. ret (zero_Result\<lparr>Result_Plan := Some p\<rparr>, Some err))
    | Inr v \<Rightarrow> onOk (audit_result timeNow auditor att' OutcomeSucceeded [])
        (\<lambda>_. ret (\<lparr>Result_DryRun = False, Result_Plan = Some p, Result_Value = Some v\<rparr>, None))))))"
  using assms by (simp add: Destructive_def CheckAudited_pass)

lemma Destructive_dry:
  assumes "gate r caller d = None"
  shows "Destructive timeNow ops r auditor caller d att confirm True plan apply =
    attempt plan (\<lambda>pr. case pr of
      Inl err \<Rightarrow> ret (zero_Result, Some err)
    | Inr p \<Rightarrow> onOk (audit_result timeNow auditor (att\<lparr>Event_DryRun := True\<rparr>) OutcomeSucceeded [])
           (\<lambda>_. ret (dryrun_Result p, None)))"
  by (simp add: Destructive_passed [OF assms] cong: sum.case_cong)

lemma Destructive_ignores_apply:
  assumes "\<not> apply_guards ops r auditor caller d att confirm dryRun plan s"
  shows "Destructive timeNow ops r auditor caller d att confirm dryRun plan apply s
    = Destructive timeNow ops r auditor caller d att confirm dryRun plan apply' s"
proof (cases "gate r caller d")
  case (Some err)
  then show ?thesis by (metis Destructive_rejected)
next
  case None
  show ?thesis
    unfolding Destructive_passed [OF None]
    using assms None
    by (auto simp: apply_guards_def Let_def attempt_def split: prod.splits res.splits intro!: ext)
qed

section \<open>What a destructive call leaves alone\<close>

context audit_sinks
begin

lemma quiet_audit_result:
  assumes "\<And>s. view (snd (timeNow s)) = view s"
  shows "quiet view (audit_result timeNow sinks att oc code)"
  unfolding audit_result_def resultEvent_def
  using assms by (auto intro!: quiet_intros quiet_Result)

lemma quiet_CheckAudited: "quiet view (CheckAudited r sinks caller d att)"
  unfolding CheckAudited_def by (auto intro!: quiet_intros quiet_Result)

text \<open>A dry run does what its plan step does, and nothing else.\<close>

lemma quiet_Destructive_dry:
  assumes time: "\<And>s. view (snd (timeNow s)) = view s" and plan: "quiet view plan"
  shows "quiet view (Destructive timeNow ops r sinks caller d att confirm True plan apply)"
proof (cases "gate r caller d")
  case (Some err)
  then show ?thesis
    by (auto simp: Destructive_def CheckAudited_reject
        intro!: quiet_intros quiet_Result plan quiet_audit_result time)
next
  case None
  then show ?thesis
    by (auto simp: Destructive_dry intro!: quiet_intros plan quiet_audit_result time)
qed

text \<open>A rejected call changes nothing, whatever its plan and apply steps would do.\<close>

lemma quiet_Destructive_rejected:
  assumes time: "\<And>s. view (snd (timeNow s)) = view s" and rej: "gate r caller d = Some err"
  shows "quiet view (Destructive timeNow ops r sinks caller d att confirm dryRun plan apply
    :: ('s, ('b, 'c) DResult \<times> Err) eff)"
proof -
  have "quiet view (Destructive timeNow ops r sinks caller d att confirm dryRun panic (\<lambda>p. fail err)
      :: ('s, ('b, 'c) DResult \<times> Err) eff)"
    unfolding Destructive_def Let_def
    by (intro quiet_intros quiet_CheckAudited quiet_audit_result time quiet_Attempt)
  with Destructive_rejected [OF rej] show ?thesis by metis
qed

text \<open>A call whose guards fail changes what its plan step changes, and nothing else.\<close>

lemma Destructive_guarded:
  assumes time: "\<And>s. view (snd (timeNow s)) = view s" and plan: "quiet view plan"
    and guard: "\<not> apply_guards ops r sinks caller d att confirm dryRun plan s"
  shows "view (snd ((Destructive timeNow ops r sinks caller d att confirm dryRun plan apply
    :: ('s, ('b, 'c) DResult \<times> Err) eff) s)) = view s"
proof -
  have "quiet view (Destructive timeNow ops r sinks caller d att confirm dryRun plan (\<lambda>_. panic)
      :: ('s, ('b, 'c) DResult \<times> Err) eff)"
    unfolding Destructive_def Let_def
    by (intro quiet_intros quiet_CheckAudited plan quiet_audit_result time quiet_Attempt)
  then show ?thesis
    using Destructive_ignores_apply [OF guard, of timeNow "apply" "\<lambda>_. panic"]
    by (simp add: quiet_def)
qed

end

end
