(* ===== verification/Middleware.thy ===== *)
theory Middleware
  imports ApiErrors Utf8 NetAddr CoreRun PlanToken
begin

text \<open>
  The middleware chain in front of every operation (\<^verbatim>\<open>internal/api/middleware\<close>) and its composition
  (\<^verbatim>\<open>internal/api/api.go\<close>, \<open>New\<close>): request id, client address, API key, CORS, telemetry, mux.

  A handler runs on the state of the process and the response being written. The three values the
  request context carries (request id, caller, client address) are fields of the request. What a handler
  writes is a list of the values it JSON-encodes. The mux with the operations behind it, OpenTelemetry's
  handler and its span are parameters.
\<close>

section \<open>Requests and responses\<close>

record ReqCtx =
  rc_RequestID :: "string option"
  rc_ClientIP :: "string option"
  rc_Caller :: "Caller option"

record Request =
  req_Method :: string
  req_Path :: string
  req_RemoteAddr :: string
  req_Header :: "(string \<times> string list) list"
  req_Ctx :: ReqCtx

text \<open>The header that was sent is the one at the time of \<open>WriteHeader\<close>, whose first call wins.\<close>

record Writer =
  rw_Header :: "(string \<times> string list) list"
  rw_Sent :: "(int \<times> (string \<times> string list) list) option"
  rw_Body :: "any list"

type_synonym 's handler = "Request \<Rightarrow> ('s \<times> Writer, unit) eff"
type_synonym 's middleware = "'s handler \<Rightarrow> 's handler"

definition fresh_writer :: Writer where
  "fresh_writer = \<lparr>rw_Header = [], rw_Sent = None, rw_Body = []\<rparr>"

definition header_Get :: "(string \<times> string list) list \<Rightarrow> string \<Rightarrow> string" where
  "header_Get h k = (case mget h [] k of [] \<Rightarrow> [] | v # _ \<Rightarrow> v)"

definition header_Set :: "string \<Rightarrow> string \<Rightarrow> (string \<times> string list) list \<Rightarrow> (string \<times> string list) list" where
  "header_Set k v h = mput k [v] h"

definition header_Add :: "string \<Rightarrow> string \<Rightarrow> (string \<times> string list) list \<Rightarrow> (string \<times> string list) list" where
  "header_Add k v h = mput k (mget h [] k @ [v]) h"

definition on_state :: "('s, 'a) eff \<Rightarrow> ('s \<times> Writer, 'a) eff" where
  "on_state m sw = (case m (fst sw) of (r, s') \<Rightarrow> (r, s', snd sw))"

definition on_writer :: "(Writer \<Rightarrow> Writer) \<Rightarrow> ('s \<times> Writer, unit) eff" where
  "on_writer f sw = (Ok (), fst sw, f (snd sw))"

definition set_header :: "string \<Rightarrow> string \<Rightarrow> Writer \<Rightarrow> Writer" where
  "set_header k v w = w\<lparr>rw_Header := header_Set k v (rw_Header w)\<rparr>"

definition add_header :: "string \<Rightarrow> string \<Rightarrow> Writer \<Rightarrow> Writer" where
  "add_header k v w = w\<lparr>rw_Header := header_Add k v (rw_Header w)\<rparr>"

definition WriteHeader :: "int \<Rightarrow> Writer \<Rightarrow> Writer" where
  "WriteHeader status w = (if rw_Sent w = None then w\<lparr>rw_Sent := Some (status, rw_Header w)\<rparr> else w)"

definition write_body :: "any \<Rightarrow> Writer \<Rightarrow> Writer" where
  "write_body v w = (WriteHeader 200 w)\<lparr>rw_Body := rw_Body w @ [v]\<rparr>"

section \<open>Context values (\<^verbatim>\<open>context.go\<close>, \<^verbatim>\<open>errors/envelope.go\<close>)\<close>

definition SetRequestID :: "string \<Rightarrow> Request \<Rightarrow> Request" where
  "SetRequestID i r = r\<lparr>req_Ctx := (req_Ctx r)\<lparr>rc_RequestID := Some i\<rparr>\<rparr>"

definition RequestIDFrom :: "Request \<Rightarrow> string" where
  "RequestIDFrom r = (case rc_RequestID (req_Ctx r) of Some i \<Rightarrow> i | None \<Rightarrow> [])"

definition withCaller :: "Caller \<Rightarrow> Request \<Rightarrow> Request" where
  "withCaller c r = r\<lparr>req_Ctx := (req_Ctx r)\<lparr>rc_Caller := Some c\<rparr>\<rparr>"

definition zero_Caller :: Caller where
  "zero_Caller = \<lparr>Caller_KeyID = None, Caller_Tier = [], Caller_BreakGlassReason = [], Caller_RequestID = [],
     Caller_ClientIP = [], Caller_Client = []\<rparr>"

definition CallerFrom :: "Request \<Rightarrow> Caller \<times> bool" where
  "CallerFrom r = (case rc_Caller (req_Ctx r) of Some c \<Rightarrow> (c, True) | None \<Rightarrow> (zero_Caller, False))"

definition withClientIP :: "string \<Rightarrow> Request \<Rightarrow> Request" where
  "withClientIP ip r = r\<lparr>req_Ctx := (req_Ctx r)\<lparr>rc_ClientIP := Some ip\<rparr>\<rparr>"

definition clientIPFrom :: "Request \<Rightarrow> string" where
  "clientIPFrom r = (case rc_ClientIP (req_Ctx r) of Some ip \<Rightarrow> ip | None \<Rightarrow> [])"

section \<open>Request id (\<^verbatim>\<open>requestid.go\<close>, \<^verbatim>\<open>requestid_gen.go\<close>)\<close>

definition HeaderRequestID :: string where "HeaderRequestID = ''X-Request-Id''"
definition HeaderAPIKey :: string where "HeaderAPIKey = ''X-Api-Key''"
definition HeaderBreakGlass :: string where "HeaderBreakGlass = ''X-Break-Glass-Reason''"
definition HeaderContentType :: string where "HeaderContentType = ''Content-Type''"

text \<open>\<open>^[A-Za-z0-9._-]{1,128}$\<close>\<close>

definition id_char :: "char \<Rightarrow> bool" where
  "id_char c \<longleftrightarrow> (let n = (of_char c :: nat) in
     65 \<le> n \<and> n \<le> 90 \<or> 97 \<le> n \<and> n \<le> 122 \<or> 48 \<le> n \<and> n \<le> 57 \<or> c = CHR ''.'' \<or> c = CHR ''_'' \<or> c = CHR ''-'')"

definition requestIDPattern :: "string \<Rightarrow> bool" where
  "requestIDPattern s \<longleftrightarrow> 1 \<le> length s \<and> length s \<le> 128 \<and> list_all id_char s"

text \<open>\<open>rand.Read\<close> is the entropy source; its failure is a panic.\<close>

definition randomRequestID :: "(nat \<Rightarrow> ('s, bytes) eff) \<Rightarrow> ('s, string) eff" where
  "randomRequestID randRead =
    attempt (randRead 16) (\<lambda>r. case r of Inl e \<Rightarrow> panic | Inr b \<Rightarrow> ret (hex_encode b))"

definition RequestID :: "(nat \<Rightarrow> ('s, bytes) eff) \<Rightarrow> 's middleware" where
  "RequestID randRead next r =
    (let i = header_Get (req_Header r) HeaderRequestID in
     onOk (if requestIDPattern i then ret i else on_state (randomRequestID randRead)) (\<lambda>i.
     onOk (on_writer (set_header HeaderRequestID i)) (\<lambda>_. next (SetRequestID i r))))"

section \<open>Client address (\<^verbatim>\<open>clientip.go\<close>)\<close>

definition peerIP :: "string \<Rightarrow> string" where
  "peerIP remoteAddr = (case SplitHostPort remoteAddr of Inl _ \<Rightarrow> remoteAddr | Inr (host, _) \<Rightarrow> host)"

definition isTrusted :: "string \<Rightarrow> IPNet list \<Rightarrow> bool" where
  "isTrusted ip trustedProxies =
    (case net_ParseIP ip of None \<Rightarrow> False | Some parsed \<Rightarrow> list_ex (\<lambda>n. Contains n parsed) trustedProxies)"

text \<open>The scan of the entries from the right; \<open>None\<close> where none is left.\<close>

fun rightmost_untrusted :: "IPNet list \<Rightarrow> string list \<Rightarrow> string option" where
  "rightmost_untrusted trustedProxies [] = None"
| "rightmost_untrusted trustedProxies (e # es) =
    (let candidate = TrimSpace e in
     if candidate = [] then rightmost_untrusted trustedProxies es
     else if \<not> isTrusted candidate trustedProxies then Some candidate
     else rightmost_untrusted trustedProxies es)"

definition resolveClientIP :: "Request \<Rightarrow> IPNet list \<Rightarrow> string" where
  "resolveClientIP r trustedProxies =
    (let peer = peerIP (req_RemoteAddr r) in
     if \<not> isTrusted peer trustedProxies then peer
     else (case rightmost_untrusted trustedProxies
         (rev (Split (CHR '','') (header_Get (req_Header r) ''X-Forwarded-For''))) of
       Some ip \<Rightarrow> ip | None \<Rightarrow> peer))"

definition ClientIP :: "IPNet list \<Rightarrow> 's middleware" where
  "ClientIP trustedProxies next r = next (withClientIP (resolveClientIP r trustedProxies) r)"

section \<open>API key (\<^verbatim>\<open>apikey.go\<close>)\<close>

record RouteCommand =
  route_CommandID :: string
  route_CommandName :: string
  route_IsWrite :: bool

type_synonym RouteLookup = "Request \<Rightarrow> RouteCommand option"

record Key =
  Key_ID :: string
  Key_Tier :: string
  Key_SHA256 :: bytes

definition breakGlassMaxBytes :: int where "breakGlassMaxBytes = 512"

text \<open>The loop of \<open>sanitizeBreakGlass\<close> over the runes of \<open>raw\<close>.\<close>

function (sequential) sanitize_loop :: "bytes \<Rightarrow> bytes \<Rightarrow> bytes" where
  "sanitize_loop buf [] = buf"
| "sanitize_loop buf (c # cs) =
    (let (r, w) = DecodeRune (c # cs) in
     if r < 32 \<or> r = 127 then sanitize_loop buf (drop w (c # cs))
     else if int (length buf) + RuneLen r > breakGlassMaxBytes then buf
     else sanitize_loop (buf @ AppendRune r) (drop w (c # cs)))"
  by pat_completeness auto

termination
proof (relation "measure (\<lambda>(buf, s). length s)")
  fix buf c and cs :: bytes and x r w
  assume "x = DecodeRune (c # cs)" "(r, w) = x"
  then have "0 < w" using DecodeRune_width [of "c # cs"] by (metis list.distinct(1) snd_conv)
  then show "((buf, drop w (c # cs)), buf, c # cs) \<in> measure (\<lambda>(buf, s). length s)"
    and "((buf @ AppendRune r, drop w (c # cs)), buf, c # cs) \<in> measure (\<lambda>(buf, s). length s)"
    by (cases w; simp)+
qed simp

declare sanitize_loop.simps(2) [simp del]

definition sanitizeBreakGlass :: "string \<Rightarrow> string" where
  "sanitizeBreakGlass raw = (if raw = [] then [] else sanitize_loop [] raw)"

fun match_digest :: "bytes \<Rightarrow> Key list \<Rightarrow> Key option" where
  "match_digest digest [] = None"
| "match_digest digest (k # ks) = (if digest = Key_SHA256 k then Some k else match_digest digest ks)"

definition matchKey :: "string \<Rightarrow> Key list \<Rightarrow> Key option" where
  "matchKey presented keys = (if presented = [] then None else match_digest (Sum256 presented) keys)"

text \<open>The envelope as \<open>encoding/json\<close> sees it.\<close>

definition Envelope_any :: "Envelope \<Rightarrow> any" where
  "Envelope_any e = (let b = ErrorBody e in AStruct ''Envelope'' [(''error'', AStruct ''Body''
     ([(''code'', AStr (Body_Code b)), (''message'', AStr (Body_Message b)), (''status'', AInt (Body_Status b)),
       (''requestId'', AStr (Body_RequestID b))]
      @ (case Body_KafkaError b of None \<Rightarrow> []
         | Some k \<Rightarrow> [(''kafkaError'', AStruct ''KafkaErrorInfo'' [(''code'', AInt (kei_Code k)), (''name'', AStr (kei_Name k))])])
      @ (if Body_Details b = [] then [] else [(''details'', AMap (Body_Details b))])))])"

definition writeUnauthenticated :: "Request \<Rightarrow> Writer \<Rightarrow> Writer" where
  "writeUnauthenticated r w =
    (let env = Unauthenticated (RequestIDFrom r) in
     write_body (Envelope_any env)
       (WriteHeader (GetStatus env) (set_header HeaderContentType ''application/json'' w)))"

text \<open>The auditor's surroundings: event ids and the wall clock.\<close>

record 's HttpEnv =
  env_NewEventID :: "'s \<Rightarrow> string \<times> 's"
  env_timeNow :: "'s \<Rightarrow> time \<times> 's"
  env_randRead :: "nat \<Rightarrow> ('s, bytes) eff"

definition unauthenticated_event :: "string \<Rightarrow> time \<Rightarrow> Request \<Rightarrow> RouteCommand \<Rightarrow> string \<Rightarrow> Event" where
  "unauthenticated_event eventID t r rc breakGlass =
    (let bg = (if breakGlass \<noteq> [] then Some breakGlass else None) in
     \<lparr>Event_EventID = eventID, Event_Timestamp = t, Event_RequestID = RequestIDFrom r,
      Event_Phase = PhaseUnset,
      Event_Severity = SeverityFor (route_CommandID rc) OutcomeRejected (bg \<noteq> None),
      Event_CommandID = route_CommandID rc, Event_CommandName = route_CommandName rc,
      Event_Target = \<lparr>Target_Type = ''route'', Target_Name = req_Path r, Target_Partitions = []\<rparr>,
      Event_Caller = \<lparr>AuditCaller_KeyID = None, AuditCaller_Tier = [], AuditCaller_ClientIP = clientIPFrom r\<rparr>,
      Event_DryRun = False, Event_BreakGlass = bg, Event_Outcome = OutcomeRejected,
      Event_Error = None, Event_DurationMs = None\<rparr>)"

definition auditUnauthenticatedRejection ::
  "'s HttpEnv \<Rightarrow> Request \<Rightarrow> RouteLookup option \<Rightarrow> 's Auditor option \<Rightarrow> string \<Rightarrow> ('s, unit) eff" where
  "auditUnauthenticatedRejection env r lookup auditor breakGlass =
    (case (lookup, auditor) of
       (Some look, Some aud) \<Rightarrow>
         (case look r of
            None \<Rightarrow> ret ()
          | Some rc \<Rightarrow>
            if \<not> route_IsWrite rc then ret ()
            else onOk (act (env_NewEventID env)) (\<lambda>i.
                 onOk (act (env_timeNow env)) (\<lambda>t.
                   Result aud (unauthenticated_event i t r rc breakGlass))))
     | _ \<Rightarrow> ret ())"

definition request_caller :: "string option \<Rightarrow> string \<Rightarrow> string \<Rightarrow> Request \<Rightarrow> Caller" where
  "request_caller keyID tier breakGlass r =
    \<lparr>Caller_KeyID = keyID, Caller_Tier = tier, Caller_BreakGlassReason = breakGlass,
     Caller_RequestID = RequestIDFrom r, Caller_ClientIP = clientIPFrom r, Caller_Client = ''http''\<rparr>"

definition APIKey ::
  "'s HttpEnv \<Rightarrow> Key list \<Rightarrow> bool \<Rightarrow> RouteLookup option \<Rightarrow> 's Auditor option \<Rightarrow> 's middleware" where
  "APIKey env keys authEnabled lookup auditor next r =
    (if req_Method r = ''OPTIONS'' then next r
     else (let breakGlass = sanitizeBreakGlass (header_Get (req_Header r) HeaderBreakGlass) in
       if \<not> authEnabled then next (withCaller (request_caller None TierOperator breakGlass r) r)
       else (case matchKey (header_Get (req_Header r) HeaderAPIKey) keys of
           None \<Rightarrow> onOk (on_state (auditUnauthenticatedRejection env r lookup auditor breakGlass)) (\<lambda>_.
             on_writer (writeUnauthenticated r))
         | Some key \<Rightarrow> next (withCaller (request_caller (Some (Key_ID key)) (Key_Tier key) breakGlass r) r))))"

section \<open>CORS (\<^verbatim>\<open>cors.go\<close>)\<close>

definition corsAllowedHeaders :: string where
  "corsAllowedHeaders =
     HeaderAPIKey @ '', '' @ HeaderBreakGlass @ '', '' @ HeaderRequestID @ '', '' @ HeaderContentType"

definition CORS :: "string list \<Rightarrow> bool \<Rightarrow> 's middleware" where
  "CORS origins authEnabled next r =
    (let wildcard = \<not> authEnabled \<and> ''*'' \<in> set origins; origin = header_Get (req_Header r) ''Origin'' in
     if origin = [] \<or> \<not> wildcard \<and> origin \<notin> set origins then
       (if req_Method r = ''OPTIONS'' then on_writer (WriteHeader 204) else next r)
     else
       onOk (on_writer (\<lambda>w. set_header ''Access-Control-Expose-Headers'' HeaderRequestID
           (add_header ''Vary'' ''Origin'' (set_header ''Access-Control-Allow-Origin'' origin w)))) (\<lambda>_.
       if req_Method r = ''OPTIONS'' then
         on_writer (\<lambda>w. WriteHeader 204 (set_header ''Access-Control-Allow-Headers'' corsAllowedHeaders
           (set_header ''Access-Control-Allow-Methods'' ''GET, POST, PATCH, DELETE, OPTIONS'' w)))
       else next r))"

section \<open>Telemetry (\<^verbatim>\<open>internal/telemetry/http.go\<close>) and the chain\<close>

text \<open>\<open>annotate\<close> sets the span attribute, \<open>otel\<close> is \<open>otelhttp.NewHandler\<close> with the operation's name.\<close>

definition HTTPMiddleware ::
  "('s middleware) \<Rightarrow> (string \<Rightarrow> ('s \<times> Writer, unit) eff) \<Rightarrow> (Request \<Rightarrow> string) \<Rightarrow> 's middleware" where
  "HTTPMiddleware otel annotate requestID next =
     otel (\<lambda>r. onOk (if requestID r \<noteq> [] then annotate (requestID r) else ret ()) (\<lambda>_. next r))"

record 's Deps =
  dep_Auditor :: "'s Auditor option"
  dep_Keys :: "Key list"
  dep_AuthEnabled :: bool
  dep_CORSOrigins :: "string list"
  dep_TrustedProxies :: "IPNet list"

definition api_New ::
  "'s HttpEnv \<Rightarrow> 's Deps \<Rightarrow> RouteLookup \<Rightarrow> 's middleware \<Rightarrow> (string \<Rightarrow> ('s \<times> Writer, unit) eff)
   \<Rightarrow> 's handler \<Rightarrow> 's handler" where
  "api_New env deps routeLookup otel annotate mux =
    RequestID (env_randRead env)
     (ClientIP (dep_TrustedProxies deps)
      (APIKey env (dep_Keys deps) (dep_AuthEnabled deps) (Some routeLookup) (dep_Auditor deps)
       (CORS (dep_CORSOrigins deps) (dep_AuthEnabled deps)
        (HTTPMiddleware otel annotate RequestIDFrom mux))))"

end
