(* ===== verification/AppSetup.thy ===== *)
theory AppSetup
  imports ConfigModel Middleware
begin

text \<open>
  From the validated configuration to the running gateway (\<^verbatim>\<open>internal/app/mapping.go\<close>) and the generator
  of API keys (\<^verbatim>\<open>cmd/gateway/keygen.go\<close>), with \<open>hex.DecodeString\<close> and \<open>base64.RawURLEncoding\<close>.

  The lemmas show that decoding inverts encoding, that a digest the validation accepts decodes to 32 bytes,
  and that a proxy it accepts parses.
\<close>

section \<open>Hexadecimal and URL-safe base64\<close>

fun hex_DecodeString :: "string \<Rightarrow> bytes option" where
  "hex_DecodeString [] = Some []"
| "hex_DecodeString [c] = None"
| "hex_DecodeString (a # b # cs) =
    (case (hex_value a, hex_value b, hex_DecodeString cs) of
       (Some x, Some y, Some bs) \<Rightarrow> Some (char_of (16 * x + y) # bs)
     | _ \<Rightarrow> None)"

text \<open>The 6-bit alphabet ends in \<open>-\<close> and \<open>_\<close>; there is no padding.\<close>

definition b64url_char :: "nat \<Rightarrow> char" where
  "b64url_char v = (if v = 62 then CHR ''-'' else if v = 63 then CHR ''_'' else b64_char v)"

fun RawURL_EncodeToString :: "bytes \<Rightarrow> string" where
  "RawURL_EncodeToString (a # b # c # r) =
    (let x = (of_char a :: nat); y = of_char b; z = of_char c
     in [b64url_char (x div 4), b64url_char (x mod 4 * 16 + y div 16), b64url_char (y mod 16 * 4 + z div 64),
         b64url_char (z mod 64)] @ RawURL_EncodeToString r)"
| "RawURL_EncodeToString [a, b] =
    (let x = (of_char a :: nat); y = of_char b
     in [b64url_char (x div 4), b64url_char (x mod 4 * 16 + y div 16), b64url_char (y mod 16 * 4)])"
| "RawURL_EncodeToString [a] =
    (let x = (of_char a :: nat) in [b64url_char (x div 4), b64url_char (x mod 4 * 16)])"
| "RawURL_EncodeToString [] = []"

lemma hexdigit_table: "list_all (\<lambda>n. hex_value (hexdigit n) = Some n \<and> is_lower_hex (hexdigit n)) [0..<16]"
  by (simp add: upt_conv_Cons hexdigit_def hex_value_def is_lower_hex_def TextParse.is_digit_def)

lemma hex_value_hexdigit [simp]: "n < 16 \<Longrightarrow> hex_value (hexdigit n) = Some n \<and> is_lower_hex (hexdigit n)"
  using hexdigit_table by (simp only: list_all_iff set_upt) simp

lemma hexdigit_mod: "hexdigit n = hexdigit (n mod 16)"
  by (simp add: hexdigit_def)

lemma hex_decode_encode [simp]: "hex_DecodeString (hex_encode bs) = Some bs"
proof (induction bs)
  case (Cons c bs)
  have l: "(of_char c :: nat) < 256" by simp
  then have "(of_char c :: nat) div 16 < 16" by (simp only: less_mult_imp_div_less)
  then have "hex_value (hexdigit (of_char c div 16)) = Some ((of_char c :: nat) div 16)" by simp
  moreover have "hex_value (hexdigit (of_char c)) = Some ((of_char c :: nat) mod 16)"
    by (subst hexdigit_mod) simp
  ultimately show ?case using Cons by (simp add: hex_encode_def mult.commute)
qed (simp add: hex_encode_def)

lemma is_lower_hex_value: "is_lower_hex c \<Longrightarrow> \<exists>v. hex_value c = Some v"
  by (auto simp: is_lower_hex_def TextParse.is_digit_def hex_value_def Let_def)

lemma hex_decode_lower: "list_all is_lower_hex s \<Longrightarrow> length s = 2 * n \<Longrightarrow>
    \<exists>bs. hex_DecodeString s = Some bs \<and> length bs = n"
proof (induction s arbitrary: n rule: hex_DecodeString.induct)
  case (3 a b cs)
  then obtain m where n: "n = Suc m" by (cases n) auto
  with 3(2,3) have "list_all is_lower_hex cs" "length cs = 2 * m" "is_lower_hex a" "is_lower_hex b" by simp_all
  with 3(1) obtain bs where "hex_DecodeString cs = Some bs" "length bs = m" by blast
  with \<open>is_lower_hex a\<close> \<open>is_lower_hex b\<close> show ?case
    using is_lower_hex_value [of a] is_lower_hex_value [of b] by (auto simp: n)
next
  case (2 c)
  then show ?case by simp
qed simp

lemma hex_encode_lower: "list_all is_lower_hex (hex_encode bs)"
proof -
  have "is_lower_hex (hexdigit n)" for n
    using hex_value_hexdigit [of "n mod 16"] by (subst hexdigit_mod) simp
  then show ?thesis by (induction bs) (simp_all add: hex_encode_def)
qed

section \<open>\<^verbatim>\<open>mapping.go\<close>\<close>

fun mapKeys_from :: "int \<Rightarrow> ConfigKey list \<Rightarrow> message + Key list" where
  "mapKeys_from i [] = Inr []"
| "mapKeys_from i (k # ks) =
    (case hex_DecodeString (key_SHA256 k) of
       Some digest \<Rightarrow>
         if length digest \<noteq> 32
         then Inl (''app: auth.keys[%d].sha256: %q is not a 64-character hex digest'', [AInt i, AStr (key_SHA256 k)])
         else map_sum id (\<lambda>out. \<lparr>Key_ID = key_ID k, Key_Tier = key_Tier k, Key_SHA256 = digest\<rparr> # out)
           (mapKeys_from (i + 1) ks)
     | None \<Rightarrow> Inl (''app: auth.keys[%d].sha256: %q is not a 64-character hex digest'', [AInt i, AStr (key_SHA256 k)]))"

definition mapKeys :: "ConfigKey list \<Rightarrow> message + Key list" where
  "mapKeys keys = mapKeys_from 0 keys"

fun parseCIDRs_from :: "int \<Rightarrow> string list \<Rightarrow> message + IPNet list" where
  "parseCIDRs_from i [] = Inr []"
| "parseCIDRs_from i (c # cs) =
    (case ParseCIDR c of
       None \<Rightarrow> Inl (''app: http.trusted_proxies[%d]: %w'', [AInt i])
     | Some n \<Rightarrow> map_sum id ((#) n) (parseCIDRs_from (i + 1) cs))"

definition parseCIDRs :: "string list \<Rightarrow> message + IPNet list" where
  "parseCIDRs cidrs = parseCIDRs_from 0 cidrs"

definition mapPolicy :: "bool \<Rightarrow> PolicyConfig \<Rightarrow> Policy" where
  "mapPolicy authEnabled p = \<lparr>Policy_AuthEnabled = authEnabled, Policy_ReadOnly = policy_ReadOnlyMode p,
     Policy_DataPlaneLock = policy_DataPlaneLock p,
     Policy_Disabled = fold (\<lambda>i. mput i True) (policy_DisabledOperations p) []\<rparr>"

datatype slog_Level = LevelDebug | LevelInfo | LevelWarn | LevelError

definition parseLevel :: "string \<Rightarrow> slog_Level" where
  "parseLevel level =
    (let l = ToLower level in
     if l = ''debug'' then LevelDebug else if l = ''warn'' then LevelWarn
     else if l = ''error'' then LevelError else LevelInfo)"

section \<open>\<^verbatim>\<open>keygen.go\<close>\<close>

text \<open>\<open>generateKey\<close> on the 32 bytes the random source gives; its failure is the error.\<close>

definition generateKey :: "(nat \<Rightarrow> ('s, bytes) eff) \<Rightarrow> ('s, string \<times> string) eff" where
  "generateKey randRead =
    attempt (randRead 32) (\<lambda>r. case r of
      Inl err \<Rightarrow> fail (WrapError ''keygen: '' err)
    | Inr buf \<Rightarrow> ret (RawURL_EncodeToString buf, hex_encode (Sum256 buf)))"

text \<open>\<open>runKeygen\<close> after the flags are parsed: the exit code and the lines on standard output.\<close>

definition runKeygen :: "(nat \<Rightarrow> ('s, bytes) eff) \<Rightarrow> string \<Rightarrow> ('s, int \<times> string list) eff" where
  "runKeygen randRead tier =
    (if tier \<noteq> ''reader'' \<and> tier \<noteq> ''operator'' then ret (2, [])
     else attempt (generateKey randRead) (\<lambda>r. case r of
         Inl err \<Rightarrow> ret (1, [])
       | Inr (key, digest) \<Rightarrow> ret (0, [''tier='' @ tier, ''key='' @ key, ''sha256='' @ digest])))"

section \<open>Validated settings map\<close>

lemma mapKeys_from_validated:
  "\<forall>k \<in> set ks. digestRE (key_SHA256 k) \<Longrightarrow>
    \<exists>out. mapKeys_from i ks = Inr out \<and> map Key_ID out = map key_ID ks \<and> map Key_Tier out = map key_Tier ks
      \<and> map (Some \<circ> Key_SHA256) out = map (hex_DecodeString \<circ> key_SHA256) ks"
proof (induction ks arbitrary: i)
  case (Cons k ks)
  then have "list_all is_lower_hex (key_SHA256 k)" "length (key_SHA256 k) = 2 * 32" by (simp_all add: digestRE_def)
  from hex_decode_lower [OF this] obtain bs where d: "hex_DecodeString (key_SHA256 k) = Some bs" "length bs = 32" by blast
  from Cons obtain out where "mapKeys_from (i + 1) ks = Inr out" "map Key_ID out = map key_ID ks"
    "map Key_Tier out = map key_Tier ks" "map (Some \<circ> Key_SHA256) out = map (hex_DecodeString \<circ> key_SHA256) ks"
    by fastforce
  with d show ?case by (simp add: comp_def)
qed simp

lemma parseCIDRs_from_validated:
  "\<forall>c \<in> set cs. ParsePrefix c \<noteq> None \<Longrightarrow> \<exists>out. parseCIDRs_from i cs = Inr out \<and> map ParseCIDR cs = map Some out"
proof (induction cs arbitrary: i)
  case (Cons c cs)
  then obtain ip n where "ParsePrefix c = Some (ip, n)" by force
  from ParsePrefix_ParseCIDR [OF this] obtain net where "ParseCIDR c = Some net" by blast
  moreover from Cons obtain out where "parseCIDRs_from (i + 1) cs = Inr out" "map ParseCIDR cs = map Some out" by fastforce
  ultimately show ?case by simp
qed simp

lemma RawURL_length: "length (RawURL_EncodeToString bs) = (4 * length bs + 2) div 3"
  by (induction bs rule: RawURL_EncodeToString.induct) (simp_all add: Let_def)

end
