(* ===== verification/ConfigProps.thy ===== *)
theory ConfigProps
  imports ConfigLoad AppSetup
begin

text \<open>
  What the configuration guarantees once \<open>Load\<close> has returned it: every bound has a positive default below
  its ceiling, every key can be mapped and every proxy parsed. A generated key needs a collision to be
  accepted. Byte sizes round-trip, and secrets do not show in the redacted form.
\<close>

section \<open>Plain characters\<close>

lemma digit_plain: "TextParse.is_digit c \<Longrightarrow> plain_char c"
  by (simp add: TextParse.is_digit_def plain_char_def)

lemma hex_plain: "is_lower_hex c \<Longrightarrow> plain_char c"
  by (auto simp: is_lower_hex_def TextParse.is_digit_def plain_char_def Let_def)

section \<open>Byte sizes\<close>

lemma itoa_nonneg:
  assumes "0 \<le> n"
  shows "itoa n \<noteq> []" "list_all TextParse.is_digit (itoa n)"
  using digits_decimal [of "nat n"] assms by (auto simp: itoa_def)

lemma TrimSpace_itoa: "0 \<le> n \<Longrightarrow> TrimSpace (itoa n) = itoa n"
  using itoa_nonneg [of n] by (intro TrimSpace_plain) (auto simp: list_all_iff intro!: digit_plain)

lemma digits_no_suffix:
  assumes "list_all TextParse.is_digit ds" "ds \<noteq> []" "\<not> TextParse.is_digit x"
  shows "\<not> HasSuffix (ds @ [CHR ''B'']) [x, CHR ''B'']"
proof
  assume "HasSuffix (ds @ [CHR ''B'']) [x, CHR ''B'']"
  then have "drop (length ds - 1) (ds @ [CHR ''B'']) = [x, CHR ''B'']" by (simp add: HasSuffix_def)
  moreover have "drop (length ds - 1) (ds @ [CHR ''B'']) = [last ds, CHR ''B'']"
    using assms(2) by (cases ds rule: rev_cases) simp_all
  ultimately have "x = last ds" by simp
  then show False using assms by (auto simp: list_all_iff)
qed

lemma HasSuffix_shorter: "HasSuffix s (a # t) \<Longrightarrow> HasSuffix s t"
  by (auto simp: HasSuffix_def) (metis Suc_diff_Suc drop_Suc_Cons drop_drop less_eq_Suc_le plus_1_eq_Suc drop0 One_nat_def)

lemma parse_unit:
  assumes "0 \<le> n" "in_int64 n"
    and "find (\<lambda>(suffix, m). HasSuffix (itoa n @ u) suffix) size_units = Some (u, m)"
    and "u \<noteq> []" "plain_char (last u)"
  shows "ByteSize_UnmarshalText (itoa n @ u) = Inr (wrap64 (n * m))"
proof -
  have "TrimSpace (itoa n @ u) = itoa n @ u"
    using itoa_nonneg [OF assms(1)] assms(4,5)
    by (intro TrimSpace_plain) (auto simp: list_all_iff intro!: digit_plain)
  then show ?thesis
    using assms ParseInt_itoa [OF assms(2)]
    by (simp add: ByteSize_UnmarshalText_def TrimSpace_itoa Let_def)
qed

lemma units_found:
  assumes "list_all TextParse.is_digit ds" "ds \<noteq> []"
  shows "find (\<lambda>(suffix, m). HasSuffix (ds @ ''GiB'') suffix) size_units = Some (''GiB'', GiB)"
    "find (\<lambda>(suffix, m). HasSuffix (ds @ ''MiB'') suffix) size_units = Some (''MiB'', MiB)"
    "find (\<lambda>(suffix, m). HasSuffix (ds @ ''KiB'') suffix) size_units = Some (''KiB'', KiB)"
    "find (\<lambda>(suffix, m). HasSuffix (ds @ ''B'') suffix) size_units = Some (''B'', 1)"
  using digits_no_suffix [OF assms, of "CHR ''i''"] digits_no_suffix [OF assms, of "CHR ''G''"]
    digits_no_suffix [OF assms, of "CHR ''M''"] digits_no_suffix [OF assms, of "CHR ''K''"]
    HasSuffix_shorter [of "ds @ ''B''" "CHR ''G''" "''iB''"] HasSuffix_shorter [of "ds @ ''B''" "CHR ''M''" "''iB''"]
    HasSuffix_shorter [of "ds @ ''B''" "CHR ''K''" "''iB''"]
  by (auto simp: size_units_def TextParse.is_digit_def) (simp_all add: HasSuffix_def)

text \<open>
  A byte size prints to a text that parses back to it, over the whole range of non-negative 64-bit
  sizes: printing picks a unit that divides the size, and parsing multiplies by it again.
\<close>

theorem byte_size_round_trip:
  assumes "0 \<le> b" "in_int64 b"
  shows "ByteSize_UnmarshalText (ByteSize_String b) = Inr b"
proof -
  have unit: "ByteSize_UnmarshalText (itoa (b div m) @ u) = Inr b"
    if "0 < m" "b mod m = 0" "u \<noteq> []" "plain_char (last u)"
      "\<And>ds. list_all TextParse.is_digit ds \<Longrightarrow> ds \<noteq> [] \<Longrightarrow> find (\<lambda>(suffix, m). HasSuffix (ds @ u) suffix) size_units = Some (u, m)"
    for m u
  proof -
    have n: "0 \<le> b div m" "b div m * m = b" using that(1,2) assms(1)
      by (auto simp: pos_imp_zdiv_nonneg_iff mod_eq_0_iff_dvd)
    moreover have "b div m * 1 \<le> b div m * m" using n(1) that(1) by (intro mult_left_mono) auto
    ultimately have le: "b div m \<le> b" by simp
    have "ByteSize_UnmarshalText (itoa (b div m) @ u) = Inr (wrap64 (b div m * m))"
      by (rule parse_unit) (use n le that assms itoa_nonneg [OF n(1)] in \<open>auto simp: in_int64_def\<close>)
    then show ?thesis using n(2) assms(2) by simp
  qed
  have "plain_char (CHR ''B'')" by (simp add: plain_char_def)
  then show ?thesis
    using unit [of GiB "''GiB''"] unit [of MiB "''MiB''"] unit [of KiB "''KiB''"] unit [of 1 "''B''"] units_found
    by (auto simp: ByteSize_String_def GiB_def MiB_def KiB_def)
qed

theorem byte_size_round_trip_witness:
  "ByteSize_UnmarshalText (ByteSize_String 10485760) = Inr 10485760"
  by (rule byte_size_round_trip) (simp_all add: in_int64_def)

text \<open>A size whose multiplication wraps is accepted as the wrapped value: 17179869185 GiB is read as 1 GiB.\<close>

lemma byte_size_wraps: "ByteSize_UnmarshalText (itoa 17179869185 @ ''GiB'') = Inr GiB"
proof -
  have "plain_char (CHR ''B'')" by (simp add: plain_char_def)
  moreover have "wrap64 (17179869185 * GiB) = GiB" by (simp add: wrap64_def GiB_def)
  ultimately show ?thesis
    using parse_unit [of 17179869185 "''GiB''" GiB] units_found(1) itoa_nonneg [of 17179869185]
    by (simp add: in_int64_def)
qed

section \<open>Validated configurations\<close>

definition range_ok :: "ConfigRange \<Rightarrow> bool" where
  "range_ok r \<longleftrightarrow> 0 < range_Default r \<and> range_Default r \<le> range_Ceiling r"

definition bounds_ok :: "BoundsConfig \<Rightarrow> bool" where
  "bounds_ok b \<longleftrightarrow> list_all range_ok
     [read_Limit (bounds_Read b), scan_MaxScan (bounds_Scan b), scan_MaxMatches (bounds_Scan b),
      scan_MaxBytes (bounds_Scan b), scan_MaxTime (bounds_Scan b), replay_Limit (bounds_Replay b),
      throughput_Seconds (bounds_Throughput b), page_Size (bounds_Page b)]
     \<and> 0 < scan_RegexTimeout (bounds_Scan b) \<and> 0 < bounds_BulkProduceBody b"

definition keys_ok :: "ConfigKey list \<Rightarrow> bool" where
  "keys_ok ks \<longleftrightarrow> distinct (map key_ID ks)
     \<and> list_all (\<lambda>k. key_ID k \<noteq> [] \<and> key_Tier k \<in> {config_TierReader, config_TierOperator} \<and> digestRE (key_SHA256 k)) ks"

definition config_ok :: "Config \<Rightarrow> bool" where
  "config_ok c \<longleftrightarrow> bounds_ok (Config_Bounds c) \<and> keys_ok (auth_Keys (Config_Auth c))
     \<and> (auth_Enabled (Config_Auth c) \<longrightarrow> auth_Keys (Config_Auth c) \<noteq> [] \<and> ''*'' \<notin> set (cors_Origins (http_CORS (Config_HTTP c))))
     \<and> derived_timeout (range_Ceiling (scan_MaxTime (bounds_Scan (Config_Bounds c)))) \<le> http_WriteTimeout (Config_HTTP c)
     \<and> list_all (\<lambda>p. ParsePrefix p \<noteq> None) (http_TrustedProxies (Config_HTTP c))
     \<and> distinct (policy_DisabledOperations (Config_Policy c))
     \<and> kafka_Bootstrap (Config_Kafka c) \<noteq> []"

lemma add_not_Nil [simp]: "add f a \<noteq> []"
  by (simp add: add_def)

lemma checkRange_ok: "checkRange p r = [] \<longleftrightarrow> range_ok r"
  by (auto simp: checkRange_def range_ok_def)

lemma validateBounds_ok: "validateBounds b = [] \<longleftrightarrow> bounds_ok b"
  by (auto simp: validateBounds_def checkRange_ok bounds_ok_def)

lemma validateOperations_ok:
  "validateOperations seen is = [] \<Longrightarrow> distinct is \<and> set is \<inter> set seen = {}"
  by (induction seen "is" rule: validateOperations.induct) (auto split: if_splits)

text \<open>The normalised keys of a successful pass, and that a second pass leaves them alone.\<close>

lemma digest_normal:
  assumes "digestRE s"
  shows "ToLower (TrimSpace s) = s"
proof -
  have h: "list_all is_lower_hex s" "s \<noteq> []" using assms by (auto simp: digestRE_def)
  then have "plain_char (hd s)" "plain_char (last s)" by (auto simp: list_all_iff hex_plain)
  then have t: "TrimSpace s = s" using h(2) by (rule TrimSpace_plain [rotated])
  have l: "lower_char c = c" "(of_char c :: nat) < 128" if "is_lower_hex c" for c
    using that by (auto simp: is_lower_hex_def TextParse.is_digit_def lower_char_def Let_def)
  show ?thesis using h l unfolding t ToLower_def is_ascii_def by (auto simp: list_all_iff intro: map_idI)
qed

lemma validateKeys_ok:
  "fst (validateKeys i seen ks) = [] \<Longrightarrow>
     keys_ok (snd (validateKeys i seen ks)) \<and> map key_ID (snd (validateKeys i seen ks)) = map key_ID ks
     \<and> set (map key_ID ks) \<inter> set seen = {}
     \<and> validateKeys j seen (snd (validateKeys i seen ks)) = ([], snd (validateKeys i seen ks))"
proof (induction i seen ks arbitrary: j rule: validateKeys.induct)
  case (2 i seen k ks)
  define k' where "k' = k\<lparr>key_SHA256 := ToLower (TrimSpace (key_SHA256 k))\<rparr>"
  from 2(2) have m: "key_ID k \<noteq> []" "key_ID k \<notin> set seen"
    "key_Tier k \<in> {config_TierReader, config_TierOperator}" "digestRE (key_SHA256 k')"
    and rest: "fst (validateKeys (i + 1) (key_ID k # seen) ks) = []"
    by (auto simp: Let_def k'_def split: if_splits)
  note IH = 2(1) [OF k'_def refl rest]
  have sn: "snd (validateKeys i seen (k # ks)) = k' # snd (validateKeys (i + 1) (key_ID k # seen) ks)"
    by (simp add: Let_def k'_def)
  have n: "k'\<lparr>key_SHA256 := ToLower (TrimSpace (key_SHA256 k'))\<rparr> = k'"
    using digest_normal [OF m(4)] by simp
  have f: "key_ID k' = key_ID k" "key_Tier k' = key_Tier k" by (simp_all add: k'_def)
  have d: "distinct (map key_ID ks)" using IH [of 0] by (metis keys_ok_def)
  have "key_ID k \<notin> set (map key_ID ks)" using IH [of 0] by auto
  then have "keys_ok (k' # snd (validateKeys (i + 1) (key_ID k # seen) ks))"
    using IH [of 0] m d by (simp add: keys_ok_def f)
  moreover have "validateKeys j seen (k' # snd (validateKeys (i + 1) (key_ID k # seen) ks))
      = ([], k' # snd (validateKeys (i + 1) (key_ID k # seen) ks))"
    using IH [of "j + 1"] m by (simp add: n f Let_def)
  ultimately show ?case unfolding sn using IH m by (auto simp: f)
qed (simp add: keys_ok_def)

lemma validateAuth_snd:
  "snd (validateAuth a) = a\<lparr>auth_Keys := snd (validateKeys 0 [] (auth_Keys a))\<rparr>"
  "fst (validateAuth a) = [] \<longleftrightarrow> \<not> (auth_Enabled a \<and> auth_Keys a = []) \<and> fst (validateKeys 0 [] (auth_Keys a)) = []"
  by (auto simp: validateAuth_def Let_def)

lemma validateAuth_ok:
  assumes "fst (validateAuth a) = []"
  shows "keys_ok (auth_Keys (snd (validateAuth a)))"
    "auth_Enabled a \<Longrightarrow> auth_Keys (snd (validateAuth a)) \<noteq> []"
    "validateAuth (snd (validateAuth a)) = ([], snd (validateAuth a))"
    "auth_Enabled (snd (validateAuth a)) = auth_Enabled a"
proof -
  let ?ks = "snd (validateKeys 0 [] (auth_Keys a))"
  from assms have e: "auth_Enabled a \<Longrightarrow> auth_Keys a \<noteq> []" and f: "fst (validateKeys 0 [] (auth_Keys a)) = []"
    unfolding validateAuth_snd by blast+
  note k = validateKeys_ok [OF f, of 0]
  show "keys_ok (auth_Keys (snd (validateAuth a)))" using k by (simp add: validateAuth_snd)
  have ne: "auth_Enabled a \<Longrightarrow> ?ks \<noteq> []" using e k by (metis list.map_disc_iff)
  then show "auth_Enabled a \<Longrightarrow> auth_Keys (snd (validateAuth a)) \<noteq> []" by (simp add: validateAuth_snd)
  show "auth_Enabled (snd (validateAuth a)) = auth_Enabled a" by (simp add: validateAuth_snd)
  have kk: "validateKeys 0 [] ?ks = ([], ?ks)" using k by blast
  have "fst (validateAuth (snd (validateAuth a))) = []" "snd (validateAuth (snd (validateAuth a))) = snd (validateAuth a)"
    unfolding validateAuth_snd using ne kk by (simp_all add: validateAuth_snd)
  then show "validateAuth (snd (validateAuth a)) = ([], snd (validateAuth a))" by (metis prod.collapse)
qed

lemma rule_Nil [simp]:
  "((if P then add f a else []) = []) \<longleftrightarrow> \<not> P" "((if P then [] else add f a) = []) \<longleftrightarrow> P"
  by simp_all

lemma concat_rules: "concat (map (\<lambda>x. if P x then add (f x) (a x) else []) xs) = [] \<longleftrightarrow> (\<forall>x \<in> set xs. \<not> P x)"
  "concat (map (\<lambda>x. if P x then [] else add (f x) (a x)) xs) = [] \<longleftrightarrow> (\<forall>x \<in> set xs. P x)"
  by (induction xs) auto

lemma rule_else_Nil: "((if P then [] else if Q then add f a else []) = []) \<longleftrightarrow> (P \<or> \<not> Q)"
  by simp

lemma validateHTTP_Nil:
  "fst (validateHTTP h auth ceiling) = [] \<longleftrightarrow>
     http_Addr h \<noteq> [] \<and> (ltls_CertFile (http_TLS h) \<noteq> []) = (ltls_KeyFile (http_TLS h) \<noteq> [])
     \<and> 0 < http_ReadHeaderTimeout h \<and> 0 < http_IdleTimeout h \<and> 0 < http_BodyLimit h
     \<and> (http_WriteTimeout h = 0 \<or> derived_timeout ceiling \<le> http_WriteTimeout h)
     \<and> (\<forall>p \<in> set (http_TrustedProxies h). ParsePrefix p \<noteq> None)
     \<and> (auth \<longrightarrow> ''*'' \<notin> set (cors_Origins (http_CORS h)))"
  unfolding validateHTTP_def Let_def fst_conv append_is_Nil_conv concat_rules rule_Nil rule_else_Nil
  by (auto simp del: not_None_eq)

lemma validateHTTP_ok:
  assumes "fst (validateHTTP h auth ceiling) = []"
  shows "derived_timeout ceiling \<le> http_WriteTimeout (snd (validateHTTP h auth ceiling))"
    "list_all (\<lambda>p. ParsePrefix p \<noteq> None) (http_TrustedProxies (snd (validateHTTP h auth ceiling)))"
    "auth \<Longrightarrow> ''*'' \<notin> set (cors_Origins (http_CORS (snd (validateHTTP h auth ceiling))))"
    "validateHTTP (snd (validateHTTP h auth ceiling)) auth ceiling = ([], snd (validateHTTP h auth ceiling))"
proof -
  let ?d = "derived_timeout ceiling"
  let ?h = "if http_WriteTimeout h = 0 then h\<lparr>http_WriteTimeout := ?d\<rparr> else h"
  have s: "snd (validateHTTP h auth ceiling) = ?h" by (simp add: validateHTTP_def Let_def)
  note n = assms [unfolded validateHTTP_Nil]
  have f: "http_TrustedProxies ?h = http_TrustedProxies h" "http_CORS ?h = http_CORS h" "http_TLS ?h = http_TLS h"
    "http_Addr ?h = http_Addr h" "http_ReadHeaderTimeout ?h = http_ReadHeaderTimeout h"
    "http_IdleTimeout ?h = http_IdleTimeout h" "http_BodyLimit ?h = http_BodyLimit h" by simp_all
  have wt: "?d \<le> http_WriteTimeout ?h" using n by (auto simp del: not_None_eq)
  show "?d \<le> http_WriteTimeout (snd (validateHTTP h auth ceiling))" unfolding s by (rule wt)
  show "list_all (\<lambda>p. ParsePrefix p \<noteq> None) (http_TrustedProxies (snd (validateHTTP h auth ceiling)))"
    unfolding s f list_all_iff using n by blast
  show "auth \<Longrightarrow> ''*'' \<notin> set (cors_Origins (http_CORS (snd (validateHTTP h auth ceiling))))"
    unfolding s f using n by blast
  have "fst (validateHTTP ?h auth ceiling) = []"
    unfolding validateHTTP_Nil f using n wt by (elim conjE, intro conjI) (assumption | rule disjI2)+
  moreover have "snd (validateHTTP ?h auth ceiling) = ?h" by (simp add: validateHTTP_def Let_def)
  ultimately show "validateHTTP (snd (validateHTTP h auth ceiling)) auth ceiling = ([], snd (validateHTTP h auth ceiling))"
    unfolding s prod_eq_iff fst_conv snd_conv by (rule conjI)
qed

lemma Validate_ok:
  assumes "Validate c = Inr c'"
  shows "config_ok c'" "Validate c' = Inr c'"
proof -
  let ?ceil = "range_Ceiling (scan_MaxTime (bounds_Scan (Config_Bounds c)))"
  let ?http = "validateHTTP (Config_HTTP c) (auth_Enabled (Config_Auth c)) ?ceil"
  let ?auth = "validateAuth (Config_Auth c)"
  from assms have e: "validateKafka (Config_Kafka c) = []" "fst ?http = []" "fst ?auth = []"
    "validatePolicy (Config_Policy c) = []" "validateBounds (Config_Bounds c) = []"
    "validateAudit (Config_Audit c) = []" "validateTelemetry (Config_Telemetry c) = []"
    and c': "c' = c\<lparr>Config_HTTP := snd ?http, Config_Auth := snd ?auth\<rparr>"
    by (auto simp: Validate_def Let_def split: if_splits)
  note h = validateHTTP_ok [OF e(2)] and a = validateAuth_ok [OF e(3)]
  have b: "bounds_ok (Config_Bounds c)" using e(5) by (simp add: validateBounds_ok)
  have p: "distinct (policy_DisabledOperations (Config_Policy c))"
    using e(4) validateOperations_ok by (auto simp: validatePolicy_def)
  have k: "kafka_Bootstrap (Config_Kafka c) \<noteq> []" using e(1) by (auto simp: validateKafka_def)
  show "config_ok c'" unfolding config_ok_def c' using h(1-3) a(1,2,4) b p k by simp
  show "Validate c' = Inr c'" unfolding c' using e h(4) a(3,4) by (simp add: Validate_def Let_def)
qed

text \<open>
  C38. What \<open>Load\<close> returns can be run: every bound has a positive default not above its ceiling, the write
  timeout covers the longest scan, key ids are distinct and their digests well formed; the mappings of the
  composition root succeed on it and keep ids and tiers; and validating it again changes nothing.
\<close>

theorem loaded_configuration_is_runnable:
  assumes "Load k path environ = Inr c"
  shows "config_ok c \<and> Validate c = Inr c
    \<and> (\<exists>keys nets. mapKeys (auth_Keys (Config_Auth c)) = Inr keys
        \<and> parseCIDRs (http_TrustedProxies (Config_HTTP c)) = Inr nets
        \<and> map Key_ID keys = map key_ID (auth_Keys (Config_Auth c))
        \<and> map Key_Tier keys = map key_Tier (auth_Keys (Config_Auth c)))"
proof -
  from assms obtain cfg where "Validate cfg = Inr c"
    by (auto simp: Load_def split: if_splits sum.splits)
  note v = Validate_ok [OF this]
  then have "\<forall>k \<in> set (auth_Keys (Config_Auth c)). digestRE (key_SHA256 k)"
    "\<forall>p \<in> set (http_TrustedProxies (Config_HTTP c)). ParsePrefix p \<noteq> None"
    by (auto simp: config_ok_def keys_ok_def list_all_iff)
  with mapKeys_from_validated [of _ 0] parseCIDRs_from_validated [of _ 0] v show ?thesis
    unfolding mapKeys_def parseCIDRs_def by blast
qed

text \<open>A loader whose file and environment are empty, and whose decoder fills in a broker and a key.\<close>

definition demo_config :: Config where
  "demo_config = Default\<lparr>Config_Kafka := (Config_Kafka Default)\<lparr>kafka_Bootstrap := [''kafka:9092'']\<rparr>,
     Config_Auth := \<lparr>auth_Enabled = True,
       auth_Keys = [\<lparr>key_ID = ''ops'', key_Tier = ''operator'', key_SHA256 = replicate 64 (CHR ''a'')\<rparr>]\<rparr>\<rparr>"

definition demo_koanf :: Koanf where
  "demo_koanf = \<lparr>k_readYAML = (\<lambda>p. Inr []), k_envPairs = (\<lambda>e. []), k_unmarshal = (\<lambda>v d. Inr demo_config),
     k_parseItems = (\<lambda>s. None)\<rparr>"

definition demo_loaded :: Config where
  "demo_loaded = demo_config\<lparr>Config_HTTP := (Config_HTTP demo_config)\<lparr>http_WriteTimeout := 65000000000\<rparr>\<rparr>"

lemma demo_Load: "Load demo_koanf [] [] = Inr demo_loaded"
proof -
  have dg: "digestRE (replicate 64 (CHR ''a''))" by code_simp
  have sp: "SplitHostPort ''kafka:9092'' = Inr (''kafka'', ''9092'')" by code_simp
  have "Validate demo_config = Inr demo_loaded"
    by (simp add: Validate_def demo_loaded_def demo_config_def Default_def Let_def validateKafka_def validateHTTP_def
        validateAuth_def validatePolicy_def validateBounds_def validateAudit_def validateTelemetry_def
        checkRange_def range_def seconds_def milliseconds_def MiB_def derived_timeout_def writeTimeoutSlack_def
        AuditSinkStdout_def config_TierReader_def config_TierOperator_def digest_normal [OF dg] dg sp in_int64_def)
  then show ?thesis by (simp add: Load_def demo_koanf_def env_values_def unknown_env_def)
qed

theorem loaded_configuration_is_runnable_witness:
  "config_ok demo_loaded \<and> Validate demo_loaded = Inr demo_loaded
    \<and> (\<exists>keys nets. mapKeys (auth_Keys (Config_Auth demo_loaded)) = Inr keys
        \<and> parseCIDRs (http_TrustedProxies (Config_HTTP demo_loaded)) = Inr nets
        \<and> map Key_ID keys = map key_ID (auth_Keys (Config_Auth demo_loaded))
        \<and> map Key_Tier keys = map key_Tier (auth_Keys (Config_Auth demo_loaded)))"
  by (rule loaded_configuration_is_runnable [OF demo_Load])

section \<open>Secrets\<close>

definition with_secrets ::
  "string \<Rightarrow> string \<Rightarrow> string \<Rightarrow> string list \<Rightarrow> Config \<Rightarrow> Config" where
  "with_secrets password keyFile listenerKeyFile digests c = c\<lparr>
     Config_Kafka := (Config_Kafka c)\<lparr>
       kafka_SASL := (kafka_SASL (Config_Kafka c))\<lparr>sasl_Password := password\<rparr>,
       kafka_TLS := (kafka_TLS (Config_Kafka c))\<lparr>ktls_KeyFile := keyFile\<rparr>\<rparr>,
     Config_HTTP := (Config_HTTP c)\<lparr>http_TLS := (http_TLS (Config_HTTP c))\<lparr>ltls_KeyFile := listenerKeyFile\<rparr>\<rparr>,
     Config_Auth := (Config_Auth c)\<lparr>auth_Keys := map2 (\<lambda>k d. k\<lparr>key_SHA256 := d\<rparr>) (auth_Keys (Config_Auth c)) digests\<rparr>\<rparr>"

text \<open>What is printed of a configuration says of a secret only whether it is set.\<close>

lemma redacted_hides_secrets:
  assumes "(p = []) = (p' = [])" "(kf = []) = (kf' = [])" "(lf = []) = (lf' = [])" "length ds = length ds'"
  shows "Redacted (with_secrets p kf lf ds c) = Redacted (with_secrets p' kf' lf' ds' c)"
proof -
  have "map ((\<lambda>k. k\<lparr>key_SHA256 := masked\<rparr>) \<circ> (\<lambda>(k, d). k\<lparr>key_SHA256 := d\<rparr>)) (zip ks xs)
      = map (\<lambda>k. k\<lparr>key_SHA256 := masked\<rparr>) (take (length xs) ks)" for ks :: "ConfigKey list" and xs
    by (induction ks xs rule: list_induct2') auto
  with assms show ?thesis by (simp add: Redacted_def with_secrets_def mask_set_def)
qed

section \<open>Generated keys\<close>

lemma match_single: "matchKey s [k] \<noteq> None \<longleftrightarrow> s \<noteq> [] \<and> Sum256 s = Key_SHA256 k"
  by (auto simp: matchKey_def)

text \<open>
  The key \<open>keygen\<close> prints, put into the configuration with the digest it prints beside it, is accepted by
  the key check only if SHA-256 collides on the key's text and the random bytes behind it, which are
  different: the digest is taken of the bytes, the check hashes the text.
\<close>

theorem generated_key_needs_a_collision:
  assumes "randRead 32 s = (Ok buf, s1)" "length buf = 32"
    and "generateKey randRead s = (Ok (key, digest), s')"
  shows "\<exists>k. mapKeys [\<lparr>key_ID = kid, key_Tier = tier, key_SHA256 = digest\<rparr>] = Inr [k]
    \<and> key \<noteq> buf \<and> (matchKey key [k] \<noteq> None \<longleftrightarrow> Sum256 key = Sum256 buf)"
proof -
  from assms(1,3) have key: "key = RawURL_EncodeToString buf" and digest: "digest = hex_encode (Sum256 buf)"
    by (auto simp: generateKey_def attempt_def ret_run)
  have l: "length key = 43" using assms(2) by (simp add: key RawURL_length)
  have "mapKeys [\<lparr>key_ID = kid, key_Tier = tier, key_SHA256 = digest\<rparr>]
      = Inr [\<lparr>Key_ID = kid, Key_Tier = tier, Key_SHA256 = Sum256 buf\<rparr>]"
    by (simp add: mapKeys_def digest)
  moreover have "key \<noteq> buf" "key \<noteq> []" using l assms(2) by auto
  ultimately show ?thesis by (simp add: match_single del: not_None_eq)
qed

theorem generated_key_needs_a_collision_witness:
  "\<exists>k. mapKeys [\<lparr>key_ID = ''ops'', key_Tier = ''operator'',
        key_SHA256 = hex_encode (Sum256 (replicate 32 (CHR ''x'')))\<rparr>] = Inr [k]
    \<and> RawURL_EncodeToString (replicate 32 (CHR ''x'')) \<noteq> replicate 32 (CHR ''x'')
    \<and> (matchKey (RawURL_EncodeToString (replicate 32 (CHR ''x''))) [k] \<noteq> None
       \<longleftrightarrow> Sum256 (RawURL_EncodeToString (replicate 32 (CHR ''x''))) = Sum256 (replicate 32 (CHR ''x'')))"
  by (rule generated_key_needs_a_collision [of "\<lambda>n s. (Ok (replicate n (CHR ''x'')), s)" "()" _ "()" _ _ "()"])
    (simp_all add: generateKey_def attempt_def ret_run)

end
