(* ===== verification/GoTime.thy ===== *)
theory GoTime
  imports TextParse "HOL-Library.Monad_Syntax"
begin

text \<open>
  The two uses of Go's \<open>time\<close> package on the wire: \<open>time.Parse\<close> with the layout \<open>time.RFC3339\<close>, for the
  timestamps of requests, and \<open>Format\<close> with \<open>time.RFC3339\<close> and \<open>time.RFC3339Nano\<close> of a UTC time, for
  those of responses. A time is its nanoseconds since the Unix epoch.

  The parser is the general one of the package: an hour of one digit and a comma before the fraction
  are accepted, as Go accepts them. The lemmas show that the calendar conversions are inverse and that
  a formatted time is parsed back.
\<close>

section \<open>The calendar\<close>

definition leap :: "int \<Rightarrow> bool" where
  "leap y \<longleftrightarrow> y mod 4 = 0 \<and> (y mod 100 \<noteq> 0 \<or> y mod 400 = 0)"

definition month_lengths :: "int \<Rightarrow> int list" where
  "month_lengths y = [31, if leap y then 29 else 28, 31, 30, 31, 30, 31, 31, 30, 31, 30, 31]"

definition daysIn :: "int \<Rightarrow> int \<Rightarrow> int" where
  "daysIn m y = month_lengths y ! nat (m - 1)"

text \<open>Days from January 1 of year 0.\<close>

definition days_before_year :: "int \<Rightarrow> int" where
  "days_before_year y = 365 * y + (y + 3) div 4 - (y + 99) div 100 + (y + 399) div 400"

definition day_number :: "int \<Rightarrow> int \<Rightarrow> int \<Rightarrow> int" where
  "day_number y m d = days_before_year y + sum_list (take (nat (m - 1)) (month_lengths y)) + (d - 1)"

definition epoch_day :: int where "epoch_day = 719528"

fun month_day :: "int list \<Rightarrow> int \<Rightarrow> int \<Rightarrow> int \<times> int" where
  "month_day [] m k = (m, k + 1)"
| "month_day (l # ls) m k = (if k < l then (m, k + 1) else month_day ls (m + 1) (k - l))"

definition year_of_day :: "int \<Rightarrow> int" where
  "year_of_day n = (let y = 400 * n div 146097
     in if n < days_before_year y then y - 1 else if days_before_year (y + 1) \<le> n then y + 1 else y)"

definition civil :: "int \<Rightarrow> int \<times> int \<times> int" where
  "civil n = (let y = year_of_day n in (y, month_day (month_lengths y) 1 (n - days_before_year y)))"

definition valid_date :: "int \<Rightarrow> int \<Rightarrow> int \<Rightarrow> bool" where
  "valid_date y m d \<longleftrightarrow> 1 \<le> m \<and> m \<le> 12 \<and> 1 \<le> d \<and> d \<le> daysIn m y"

lemma div_up:
  fixes y k :: int
  assumes "0 < k"
  shows "(y + (k - 1)) div k = y div k + (if y mod k = 0 then 0 else 1)"
proof -
  have y: "y + (k - 1) = y mod k + (k - 1) + k * (y div k)" by simp
  have "(y + (k - 1)) div k = y div k + (y mod k + (k - 1)) div k"
    unfolding y using assms by (subst div_mult_self2) auto
  moreover have "(y mod k + (k - 1)) div k = (if y mod k = 0 then 0 else 1)"
  proof (cases "y mod k = 0")
    case False
    moreover have "0 \<le> y mod k" "y mod k < k" using assms by simp_all
    ultimately have "0 \<le> y mod k - 1" "y mod k - 1 < k" by linarith+
    then have "(y mod k - 1 + k) div k = 1"
      using assms by (subst div_add_self2) (auto simp: div_pos_pos_trivial)
    then show ?thesis using False by (simp add: algebra_simps)
  qed (use assms in \<open>simp add: div_pos_pos_trivial\<close>)
  ultimately show ?thesis by simp
qed

lemma div_up_Suc:
  fixes y k :: int
  assumes "0 < k"
  shows "(y + 1 + (k - 1)) div k = (y + (k - 1)) div k + (if y mod k = 0 then 1 else 0)"
proof -
  have "y + 1 + (k - 1) = y + k" by simp
  moreover have "(y + k) div k = y div k + 1" using assms by (subst div_add_self2) simp_all
  ultimately show ?thesis using assms by (simp only: div_up) simp
qed

lemma days_before_Suc: "days_before_year (y + 1) = days_before_year y + (if leap y then 366 else 365)"
proof -
  have 4: "(y + 1 + 3) div 4 = (y + 3) div 4 + (if y mod 4 = 0 then 1 else 0)"
    using div_up_Suc [of 4 y] by simp
  have 100: "(y + 1 + 99) div 100 = (y + 99) div 100 + (if y mod 100 = 0 then 1 else 0)"
    using div_up_Suc [of 100 y] by simp
  have 400: "(y + 1 + 399) div 400 = (y + 399) div 400 + (if y mod 400 = 0 then 1 else 0)"
    using div_up_Suc [of 400 y] by simp
  have i: "y mod 400 = 0 \<Longrightarrow> y mod 100 = 0" "y mod 100 = 0 \<Longrightarrow> y mod 4 = 0"
    using dvd_trans [of 100 400 y] dvd_trans [of 4 100 y] by (simp_all add: mod_eq_0_iff_dvd)
  have d: "days_before_year (y + 1) = 365 * (y + 1) + (y + 1 + 3) div 4 - (y + 1 + 99) div 100 + (y + 1 + 399) div 400"
    "days_before_year y = 365 * y + (y + 3) div 4 - (y + 99) div 100 + (y + 399) div 400"
    unfolding days_before_year_def by (rule refl)+
  define A B C where "A \<longleftrightarrow> y mod 4 = 0" and "B \<longleftrightarrow> y mod 100 = 0" and "C \<longleftrightarrow> y mod 400 = 0"
  have "C \<Longrightarrow> B" "B \<Longrightarrow> A" using i by (simp_all only: A_def B_def C_def)
  then show ?thesis
    unfolding d leap_def 4 100 400 A_def [symmetric] B_def [symmetric] C_def [symmetric]
    by (cases A; cases B; cases C; simp)
qed

lemma div_between:
  fixes x k :: int
  assumes "0 < k"
  shows "k * (x div k) \<le> x \<and> x < k * (x div k) + k"
proof -
  have "x = k * (x div k) + x mod k" "0 \<le> x mod k" "x mod k < k" using assms by simp_all
  then show ?thesis by linarith
qed

lemma days_before_bounds:
  "400 * days_before_year y \<le> 146097 * y + 1000" "146097 * y - 400 \<le> 400 * days_before_year y"
  unfolding days_before_year_def
  using div_between [of 4 "y + 3"] div_between [of 100 "y + 99"] div_between [of 400 "y + 399"] by auto

lemma year_of_day_bounds:
  "days_before_year (year_of_day n) \<le> n" "n < days_before_year (year_of_day n + 1)"
proof -
  define y where "y = 400 * n div 146097"
  have lo: "146097 * y \<le> 400 * n" and hi: "400 * n < 146097 * (y + 1)"
    using div_between [of 146097 "400 * n"] by (auto simp: y_def)
  have a: "n < days_before_year (y + 1 + 1)"
    using days_before_bounds(2) [of "y + 1 + 1"] hi by (simp add: distrib_left)
  have b: "days_before_year (y - 1) \<le> n"
    using days_before_bounds(1) [of "y - 1"] lo by (simp add: right_diff_distrib)
  have yr: "year_of_day n = (if n < days_before_year y then y - 1
      else if days_before_year (y + 1) \<le> n then y + 1 else y)"
    unfolding year_of_day_def Let_def y_def by (rule refl)
  show "days_before_year (year_of_day n) \<le> n" "n < days_before_year (year_of_day n + 1)"
    unfolding yr using a b by auto
qed

lemma days_before_mono: "x \<le> y \<Longrightarrow> days_before_year x \<le> days_before_year y"
proof (induction y rule: int_ge_induct)
  case (step i)
  then show ?case using days_before_Suc [of i] by simp
qed simp

lemma year_of_day_unique:
  assumes "days_before_year y \<le> n" "n < days_before_year (y + 1)"
  shows "year_of_day n = y"
proof (rule ccontr)
  assume "year_of_day n \<noteq> y"
  then consider "year_of_day n + 1 \<le> y" | "y + 1 \<le> year_of_day n" by linarith
  then show False
  proof cases
    case 1
    with days_before_mono [OF 1] year_of_day_bounds(2) [of n] assms(1) show ?thesis by linarith
  next
    case 2
    with days_before_mono [OF 2] year_of_day_bounds(1) [of n] assms(2) show ?thesis by linarith
  qed
qed

lemma month_lengths_pos: "\<forall>l \<in> set (month_lengths y). 0 < l"
  by (auto simp: month_lengths_def)

lemma month_day_take:
  "\<forall>l \<in> set ls. 0 < l \<Longrightarrow> i < length ls \<Longrightarrow> 1 \<le> d \<Longrightarrow> d \<le> ls ! i \<Longrightarrow>
     month_day ls m (sum_list (take i ls) + (d - 1)) = (m + int i, d)"
proof (induction ls arbitrary: m i)
  case (Cons l ls)
  show ?case
  proof (cases i)
    case (Suc j)
    have nn: "0 \<le> sum_list (take j ls)"
      using Cons.prems(1) by (intro sum_list_nonneg) (auto dest!: in_set_takeD)
    with Cons.prems Suc have "\<not> sum_list (take i (l # ls)) + (d - 1) < l" by simp
    with Cons.prems Suc Cons.IH [of j "m + 1"] show ?thesis by (simp add: algebra_simps)
  qed (use Cons.prems in simp)
qed simp

lemma month_total: "sum_list (month_lengths y) = (if leap y then 366 else 365)"
  by (simp add: month_lengths_def)

theorem civil_day_number:
  assumes "valid_date y m d"
  shows "civil (day_number y m d) = (y, m, d)"
proof -
  let ?ls = "month_lengths y" and ?i = "nat (m - 1)"
  have v: "1 \<le> m" "m \<le> 12" "1 \<le> d" "d \<le> ?ls ! ?i" using assms by (auto simp: valid_date_def daysIn_def)
  have len: "?i < length ?ls" using v by (simp add: month_lengths_def)
  have split: "sum_list ?ls = sum_list (take ?i ?ls) + ?ls ! ?i + sum_list (drop (Suc ?i) ?ls)"
    by (metis add.assoc append_take_drop_id Cons_nth_drop_Suc len sum_list.Cons sum_list_append)
  have nn: "0 \<le> sum_list (take ?i ?ls)" "0 \<le> sum_list (drop (Suc ?i) ?ls)"
    using month_lengths_pos [of y]
    by (auto intro!: sum_list_nonneg dest!: in_set_takeD in_set_dropD less_imp_le)
  have n: "day_number y m d - days_before_year y = sum_list (take ?i ?ls) + (d - 1)"
    by (simp add: day_number_def)
  have yr: "year_of_day (day_number y m d) = y"
  proof (rule year_of_day_unique)
    show "days_before_year y \<le> day_number y m d" using n nn v by linarith
    show "day_number y m d < days_before_year (y + 1)"
      using n nn v split month_total [of y] days_before_Suc [of y] by linarith
  qed
  show ?thesis
    unfolding civil_def Let_def yr n using month_day_take [OF month_lengths_pos len v(3,4)] v(1) by simp
qed

lemma month_day_valid:
  "\<forall>l \<in> set ls. 0 < l \<Longrightarrow> 0 \<le> k \<Longrightarrow> k < sum_list ls \<Longrightarrow>
     \<exists>i < length ls. month_day ls m k = (m + int i, k - sum_list (take i ls) + 1)
       \<and> 1 \<le> k - sum_list (take i ls) + 1 \<and> k - sum_list (take i ls) + 1 \<le> ls ! i"
proof (induction ls arbitrary: m k)
  case (Cons l ls)
  show ?case
  proof (cases "k < l")
    case False
    with Cons.prems Cons.IH [of "k - l" "m + 1"] obtain i where
      "i < length ls" "month_day ls (m + 1) (k - l) = (m + 1 + int i, k - l - sum_list (take i ls) + 1)"
      "1 \<le> k - l - sum_list (take i ls) + 1" "k - l - sum_list (take i ls) + 1 \<le> ls ! i" by auto
    with False show ?thesis by (intro exI [of _ "Suc i"]) (simp add: algebra_simps)
  qed (use Cons.prems in \<open>auto intro: exI [of _ 0]\<close>)
qed simp

theorem day_number_civil:
  assumes "civil n = (y, m, d)"
  shows "valid_date y m d \<and> day_number y m d = n"
proof -
  let ?k = "n - days_before_year y"
  have y: "y = year_of_day n" and md: "month_day (month_lengths y) 1 ?k = (m, d)"
    using assms by (auto simp: civil_def Let_def)
  have "0 \<le> ?k" "?k < sum_list (month_lengths y)"
    using year_of_day_bounds [of n] days_before_Suc [of y] month_total [of y] by (auto simp: y)
  from month_day_valid [OF month_lengths_pos this, of 1] md obtain i where
    i: "i < length (month_lengths y)" "m = 1 + int i" "d = ?k - sum_list (take i (month_lengths y)) + 1"
      "1 \<le> d" "d \<le> month_lengths y ! i" by auto
  then have "nat (m - 1) = i" "m \<le> 12" by (simp_all add: month_lengths_def)
  with i show ?thesis by (simp add: valid_date_def daysIn_def day_number_def)
qed

section \<open>Formatting\<close>

text \<open>\<open>appendInt\<close>: the decimal digits, padded with zeros to a width.\<close>

definition appendInt :: "nat \<Rightarrow> int \<Rightarrow> string" where
  "appendInt width x = (let u = digits (nat \<bar>x\<bar>)
     in (if x < 0 then ''-'' else []) @ replicate (width - length u) CHR ''0'' @ u)"

text \<open>\<open>appendNano\<close> for \<open>.999999999\<close>: nine digits without the trailing zeros, nothing for zero.\<close>

definition appendNano :: "int \<Rightarrow> string" where
  "appendNano nanosec =
    (case rev (dropWhile (\<lambda>c. c = CHR ''0'') (rev (appendInt 9 nanosec))) of [] \<Rightarrow> [] | ds \<Rightarrow> CHR ''.'' # ds)"

definition second_ns :: int where "second_ns = 1000000000"

definition formatWith :: "(int \<Rightarrow> string) \<Rightarrow> time \<Rightarrow> string" where
  "formatWith frac t =
    (let secs = t div second_ns; sod = secs mod 86400 in
     case civil (secs div 86400 + epoch_day) of (year, month, day) \<Rightarrow>
       appendInt 4 year @ ''-'' @ appendInt 2 month @ ''-'' @ appendInt 2 day @ ''T''
       @ appendInt 2 (sod div 3600) @ '':'' @ appendInt 2 (sod mod 3600 div 60) @ '':'' @ appendInt 2 (sod mod 60)
       @ frac (t mod second_ns) @ ''Z'')"

definition format_RFC3339 :: "time \<Rightarrow> string" where
  "format_RFC3339 = formatWith (\<lambda>_. [])"

definition format_RFC3339Nano :: "time \<Rightarrow> string" where
  "format_RFC3339Nano = formatWith appendNano"

section \<open>Parsing\<close>

text \<open>A step takes the rest of the text and gives its value with what follows.\<close>

definition lit :: "char \<Rightarrow> string \<Rightarrow> string option" where
  "lit c s = (case s of [] \<Rightarrow> None | x # xs \<Rightarrow> if x = c then Some xs else None)"

definition digit_val :: "char \<Rightarrow> int" where
  "digit_val c = int (of_char c - 48)"

definition getnum :: "bool \<Rightarrow> string \<Rightarrow> (int \<times> string) option" where
  "getnum fixed s =
    (case s of
       [] \<Rightarrow> None
     | c # s1 \<Rightarrow>
       if \<not> TextParse.is_digit c then None
       else (case s1 of
           d # s2 \<Rightarrow> if TextParse.is_digit d then Some (digit_val c * 10 + digit_val d, s2)
             else if fixed then None else Some (digit_val c, s1)
         | [] \<Rightarrow> if fixed then None else Some (digit_val c, s1)))"

definition getyear :: "string \<Rightarrow> (int \<times> string) option" where
  "getyear s = (if length s < 4 \<or> \<not> list_all TextParse.is_digit (take 4 s) then None
     else Some (int (decimal (take 4 s)), drop 4 s))"

definition between :: "int \<Rightarrow> int \<Rightarrow> int \<Rightarrow> unit option" where
  "between a b x = (if a \<le> x \<and> x \<le> b then Some () else None)"

text \<open>The fraction that may follow the seconds: digits beyond the ninth are dropped.\<close>

definition getfrac :: "string \<Rightarrow> int \<times> string" where
  "getfrac s =
    (case s of
       c # d # _ \<Rightarrow>
         if (c = CHR ''.'' \<or> c = CHR '','') \<and> TextParse.is_digit d
         then (let ds = takeWhile TextParse.is_digit (tl s); us = take 9 ds
               in (int (decimal us) * 10 ^ (9 - length us), dropWhile TextParse.is_digit (tl s)))
         else (0, s)
     | _ \<Rightarrow> (0, s))"

text \<open>The offset \<open>Z07:00\<close>, in seconds.\<close>

definition getzone :: "string \<Rightarrow> (int \<times> string) option" where
  "getzone s =
    (case s of
       [] \<Rightarrow> None
     | c # rest \<Rightarrow>
       if c = CHR ''Z'' then Some (0, rest)
       else if length s < 6 \<or> s ! 3 \<noteq> CHR '':'' then None
       else do {
         (hr, _) \<leftarrow> getnum True (take 2 rest);
         (mm, _) \<leftarrow> getnum True (take 2 (drop 4 s));
         between 0 24 hr;
         between 0 60 mm;
         (if c = CHR ''+'' then Some ((hr * 60 + mm) * 60, drop 6 s)
          else if c = CHR ''-'' then Some (- ((hr * 60 + mm) * 60), drop 6 s) else None)
       })"

definition parse_RFC3339 :: "string \<Rightarrow> time option" where
  "parse_RFC3339 s = do {
     (year, s) \<leftarrow> getyear s;
     s \<leftarrow> lit CHR ''-'' s;
     (month, s) \<leftarrow> getnum True s;
     between 1 12 month;
     s \<leftarrow> lit CHR ''-'' s;
     (day, s) \<leftarrow> getnum True s;
     s \<leftarrow> lit CHR ''T'' s;
     (hour, s) \<leftarrow> getnum False s;
     between 0 23 hour;
     s \<leftarrow> lit CHR '':'' s;
     (minute, s) \<leftarrow> getnum True s;
     between 0 59 minute;
     s \<leftarrow> lit CHR '':'' s;
     (sec, s) \<leftarrow> getnum True s;
     between 0 59 sec;
     (nsec, s) \<leftarrow> Some (getfrac s);
     (offset, s) \<leftarrow> getzone s;
     (if s = [] then Some () else None);
     between 1 (daysIn month year) day;
     Some (((day_number year month day - epoch_day) * 86400 + hour * 3600 + minute * 60 + sec - offset)
       * second_ns + nsec)
   }"

section \<open>A formatted time is parsed back\<close>

lemma length_digits: "n < 10 ^ w \<Longrightarrow> 0 < w \<Longrightarrow> length (digits n) \<le> w"
proof (induction w arbitrary: n)
  case (Suc w)
  show ?case
  proof (cases "n < 10")
    case True
    then show ?thesis by (subst digits.simps) simp
  next
    case False
    with Suc.prems have "n div 10 < 10 ^ w" "0 < w" by (cases w; simp add: less_mult_imp_div_less)+
    then have "length (digits (n div 10)) \<le> w" using Suc.IH by blast
    with False show ?thesis by (subst digits.simps) simp
  qed
qed simp

lemma decimal_zeros: "decimal (replicate k CHR ''0'' @ u) = decimal u"
proof -
  have "fold (\<lambda>c n. 10 * n + (of_char c - 48)) (replicate k CHR ''0'') (0::nat) = 0"
    by (induction k) simp_all
  then show ?thesis by (simp add: decimal_def)
qed

lemma appendInt_fixed:
  assumes "0 \<le> x" "x < 10 ^ w" "0 < w"
  shows "length (appendInt w x) = w" "list_all TextParse.is_digit (appendInt w x)"
    "int (decimal (appendInt w x)) = x"
proof -
  have "nat x < 10 ^ w" using assms(1,2) by (simp add: nat_less_iff)
  then have "length (digits (nat x)) \<le> w" using length_digits assms(3) by blast
  moreover have "appendInt w x = replicate (w - length (digits (nat x))) CHR ''0'' @ digits (nat x)"
    using assms(1) by (simp add: appendInt_def Let_def)
  moreover have "TextParse.is_digit CHR ''0''" by (simp add: TextParse.is_digit_def)
  ultimately show "length (appendInt w x) = w" "list_all TextParse.is_digit (appendInt w x)"
    "int (decimal (appendInt w x)) = x"
    using digits_decimal [of "nat x"] assms(1) by (auto simp: decimal_zeros list_all_iff)
qed

lemma getnum_appendInt:
  assumes "0 \<le> x" "x < 100"
  shows "getnum fixed (appendInt 2 x @ rest) = Some (x, rest)"
proof -
  from assms appendInt_fixed [of x 2] have f: "length (appendInt 2 x) = 2"
    "list_all TextParse.is_digit (appendInt 2 x)" "int (decimal (appendInt 2 x)) = x" by simp_all
  then obtain c d where cd: "appendInt 2 x = [c, d]"
    by (metis length_0_conv length_Suc_conv numeral_2_eq_2)
  have "int (decimal [c, d]) = digit_val c * 10 + digit_val d"
    using f(2) by (simp add: cd decimal_def digit_val_def TextParse.is_digit_def)
  then show ?thesis using f by (simp add: cd getnum_def)
qed

lemma getyear_appendInt:
  assumes "0 \<le> x" "x < 10000"
  shows "getyear (appendInt 4 x @ rest) = Some (x, rest)"
  using assms appendInt_fixed [of x 4] by (simp add: getyear_def)

lemma decimal_strip:
  "int (decimal (rev (dropWhile (\<lambda>c. c = CHR ''0'') s))) * 10 ^ (n - length (dropWhile (\<lambda>c. c = CHR ''0'') s))
     = int (decimal (rev s)) * 10 ^ (n - length s)" if "length s \<le> n"
  using that
proof (induction s)
  case (Cons c s)
  show ?case
  proof (cases "c = CHR ''0''")
    case True
    have "n - length s = Suc (n - length (c # s))" using Cons.prems by simp
    with True Cons show ?thesis by (simp add: decimal_snoc)
  qed simp
qed simp

lemma while_append:
  "\<forall>x \<in> set xs. P x \<Longrightarrow> \<not> P y \<Longrightarrow> takeWhile P (xs @ y # ys) = xs \<and> dropWhile P (xs @ y # ys) = y # ys"
  by (induction xs) auto

lemma getfrac_appendNano:
  assumes "0 \<le> n" "n < second_ns"
  shows "getfrac (appendNano n @ CHR ''Z'' # rest) = (n, CHR ''Z'' # rest)"
proof -
  have nz: "\<not> TextParse.is_digit CHR ''Z''" by (simp add: TextParse.is_digit_def)
  let ?s = "appendInt 9 n" and ?z = "\<lambda>c. c = CHR ''0''"
  let ?ds = "rev (dropWhile ?z (rev ?s))"
  have f: "length ?s = 9" "list_all TextParse.is_digit ?s" "int (decimal ?s) = n"
    using appendInt_fixed [of n 9] assms by (simp_all add: second_ns_def)
  have len: "length ?ds \<le> 9" using f(1) length_dropWhile_le [of ?z "rev ?s"] by simp
  have dg: "\<forall>c \<in> set ?ds. TextParse.is_digit c"
    using f(2) by (auto simp: list_all_iff dest: set_dropWhileD)
  have v: "int (decimal ?ds) * 10 ^ (9 - length ?ds) = n"
    using decimal_strip [of "rev ?s" 9] f by simp
  show ?thesis
  proof (cases ?ds)
    case Nil
    have "n = 0" using v unfolding Nil by (simp add: decimal_def)
    moreover have "appendNano n = []" by (simp only: appendNano_def Nil list.case)
    ultimately show ?thesis by (cases rest) (simp_all add: getfrac_def nz)
  next
    case (Cons d us)
    have tw: "takeWhile TextParse.is_digit (?ds @ CHR ''Z'' # rest) = ?ds"
      "dropWhile TextParse.is_digit (?ds @ CHR ''Z'' # rest) = CHR ''Z'' # rest"
      using while_append [OF dg nz] by blast+
    have "appendNano n = CHR ''.'' # ?ds" using Cons by (simp add: appendNano_def)
    with Cons dg have "getfrac (appendNano n @ CHR ''Z'' # rest)
        = (int (decimal (take 9 ?ds)) * 10 ^ (9 - length (take 9 ?ds)), CHR ''Z'' # rest)"
      using tw by (simp add: getfrac_def Let_def)
    then show ?thesis using len v by simp
  qed
qed

lemma split_clock:
  fixes x :: int
  shows "x div 3600 * 3600 + x mod 3600 div 60 * 60 + x mod 60 = x"
proof -
  have "x mod 60 = x mod 3600 mod 60" by (simp add: mod_mod_cancel)
  then show ?thesis using div_mult_mod_eq [of x 3600] div_mult_mod_eq [of "x mod 3600" 60] by linarith
qed

lemma parse_fields:
  assumes "0 \<le> year" "year < 10000" "valid_date year month day"
    and "0 \<le> h" "h \<le> 23" "0 \<le> mi" "mi \<le> 59" "0 \<le> sec" "sec \<le> 59" "0 \<le> n" "n < second_ns"
  shows "parse_RFC3339 (appendInt 4 year @ ''-'' @ appendInt 2 month @ ''-'' @ appendInt 2 day @ ''T''
       @ appendInt 2 h @ '':'' @ appendInt 2 mi @ '':'' @ appendInt 2 sec @ appendNano n @ ''Z'')
     = Some (((day_number year month day - epoch_day) * 86400 + h * 3600 + mi * 60 + sec) * second_ns + n)"
proof -
  have vd: "1 \<le> month" "month \<le> 12" "1 \<le> day" "day \<le> daysIn month year"
    using assms(3) by (auto simp: valid_date_def)
  have "nat (month - 1) < length (month_lengths year)" using vd by (simp add: month_lengths_def)
  then have "daysIn month year \<in> set (month_lengths year)" by (simp add: daysIn_def)
  then have "daysIn month year \<le> 31" by (auto simp: month_lengths_def split: if_splits)
  with vd have "day < 100" by linarith
  then show ?thesis
    using vd assms
    by (simp add: parse_RFC3339_def getyear_appendInt getnum_appendInt lit_def between_def
        getfrac_appendNano getzone_def)
qed

theorem parse_format_nano:
  assumes "civil (t div second_ns div 86400 + epoch_day) = (year, month, day)" "0 \<le> year" "year < 10000"
  shows "parse_RFC3339 (format_RFC3339Nano t) = Some t"
proof -
  define sod n d where "sod = t div second_ns mod 86400" and "n = t mod second_ns"
    and "d = t div second_ns div 86400"
  from day_number_civil [OF assms(1)] have v: "valid_date year month day"
    and dn: "day_number year month day = d + epoch_day" by (simp_all add: d_def)
  have "0 \<le> sod" "sod < 86400" by (simp_all add: sod_def)
  then have h: "0 \<le> sod div 3600" "sod div 3600 \<le> 23" "0 \<le> sod mod 3600 div 60" "sod mod 3600 div 60 \<le> 59"
    by auto
  have s: "0 \<le> sod mod 60" "sod mod 60 \<le> 59" by simp_all
  have n: "0 \<le> n" "n < second_ns" by (simp_all add: n_def second_ns_def)
  have "t div second_ns = d * 86400 + sod" by (simp add: d_def sod_def)
  then have t: "((day_number year month day - epoch_day) * 86400 + sod div 3600 * 3600 + sod mod 3600 div 60 * 60
      + sod mod 60) * second_ns + n = t"
    using split_clock [of sod] div_mult_mod_eq [of t second_ns] by (simp add: dn n_def add.assoc)
  have "format_RFC3339Nano t = appendInt 4 year @ ''-'' @ appendInt 2 month @ ''-'' @ appendInt 2 day @ ''T''
       @ appendInt 2 (sod div 3600) @ '':'' @ appendInt 2 (sod mod 3600 div 60) @ '':'' @ appendInt 2 (sod mod 60)
       @ appendNano n @ ''Z''"
    by (simp only: format_RFC3339Nano_def formatWith_def assms(1) Let_def prod.case sod_def n_def)
  then show ?thesis using parse_fields [OF assms(2,3) v h s n] t by simp
qed

end
