(* ===== verification/Bulk.thy ===== *)
theory Bulk
  imports CoreRun
begin

text \<open>
  The bulk primitive (\<^verbatim>\<open>internal/service/core/bulk.go\<close>): validate every item first, then execute the
  items one by one, each with its own outcome. The lemmas show that the summary counts the items, that
  an invalid item stops everything before the first audit write, and that one failing item does not
  stop the next.
\<close>

record BulkItemResult =
  BulkItem_Index :: int64
  BulkItem_Outcome :: Outcome
  BulkItem_Error :: string

record BulkSummary =
  BulkSummary_Total :: int64
  BulkSummary_Succeeded :: int64
  BulkSummary_Failed :: int64

record BulkResult =
  BulkResult_Items :: "BulkItemResult list"
  BulkResult_Summary :: BulkSummary

definition zero_BulkResult :: BulkResult where
  "zero_BulkResult = \<lparr>BulkResult_Items = [], BulkResult_Summary =
     \<lparr>BulkSummary_Total = 0, BulkSummary_Succeeded = 0, BulkSummary_Failed = 0\<rparr>\<rparr>"

definition failed_item :: "int64 \<Rightarrow> error \<Rightarrow> BulkItemResult" where
  "failed_item i err = \<lparr>BulkItem_Index = i, BulkItem_Outcome = OutcomeFailed, BulkItem_Error = err_Error err\<rparr>"

definition succeeded_item :: "int64 \<Rightarrow> BulkItemResult" where
  "succeeded_item i = \<lparr>BulkItem_Index = i, BulkItem_Outcome = OutcomeSucceeded, BulkItem_Error = []\<rparr>"

section \<open>Validation\<close>

fun validate_from :: "int64 \<Rightarrow> 'a list \<Rightarrow> ('a \<Rightarrow> error option) \<Rightarrow> BulkItemResult list" where
  "validate_from i [] validate = []"
| "validate_from i (item # items) validate =
    (case validate item of
       Some err \<Rightarrow> failed_item i err # validate_from (i + 1) items validate
     | None \<Rightarrow> validate_from (i + 1) items validate)"

definition BulkValidate :: "'a list \<Rightarrow> ('a \<Rightarrow> error option) \<Rightarrow> BulkItemResult list \<times> bool" where
  "BulkValidate items validate =
    (let failed = validate_from 0 items validate in
     if failed \<noteq> [] then (failed, False) else ([], True))"

section \<open>Execution\<close>

definition count_failed :: "BulkSummary \<Rightarrow> BulkSummary" where
  "count_failed sm = sm\<lparr>BulkSummary_Failed := wrap64 (BulkSummary_Failed sm + 1)\<rparr>"

definition count_succeeded :: "BulkSummary \<Rightarrow> BulkSummary" where
  "count_succeeded sm = sm\<lparr>BulkSummary_Succeeded := wrap64 (BulkSummary_Succeeded sm + 1)\<rparr>"

fun execute_from ::
  "int64 \<Rightarrow> 'a list \<Rightarrow> ('a \<Rightarrow> ('s, unit) eff) \<Rightarrow> BulkItemResult list \<times> BulkSummary
   \<Rightarrow> ('s, BulkItemResult list \<times> BulkSummary) eff" where
  "execute_from i [] execute acc = ret acc"
| "execute_from i (item # items) execute acc =
    attempt (execute item) (\<lambda>r. case r of
      Inl err \<Rightarrow> execute_from (i + 1) items execute
        (fst acc @ [failed_item i err], count_failed (snd acc))
    | Inr _ \<Rightarrow> execute_from (i + 1) items execute
        (fst acc @ [succeeded_item i], count_succeeded (snd acc)))"

definition BulkExecute :: "'a list \<Rightarrow> ('a \<Rightarrow> ('s, unit) eff) \<Rightarrow> ('s, BulkResult) eff" where
  "BulkExecute items execute =
    onOk (execute_from 0 items execute
        ([], \<lparr>BulkSummary_Total = int (length items), BulkSummary_Succeeded = 0, BulkSummary_Failed = 0\<rparr>))
      (\<lambda>acc. ret \<lparr>BulkResult_Items = fst acc, BulkResult_Summary = snd acc\<rparr>)"

section \<open>The audited sequence\<close>

definition bulkValidationMessage :: "BulkItemResult list \<Rightarrow> string" where
  "bulkValidationMessage failed =
    itoa (int (length failed)) @ '' item(s) failed validation''
    @ (case failed of [] \<Rightarrow> []
       | f # _ \<Rightarrow> ''; first: index '' @ itoa (BulkItem_Index f) @ '': '' @ BulkItem_Error f)"

definition BulkItemResult_any :: "BulkItemResult \<Rightarrow> any" where
  "BulkItemResult_any b = AStruct ''BulkItemResult''
     [(''Index'', AInt (BulkItem_Index b)), (''Outcome'', AStr (Outcome_string (BulkItem_Outcome b))),
      (''Error'', AStr (BulkItem_Error b))]"

definition bulkValidationError :: "BulkItemResult list \<Rightarrow> error" where
  "bulkValidationError failed = PolicyError
     \<lparr>pe_Code = BulkValidationFailed, pe_Message = bulkValidationMessage failed,
      pe_Details = [(''items'', AList (map BulkItemResult_any failed))]\<rparr>"

definition BulkRun ::
  "'s Auditor \<Rightarrow> Event \<Rightarrow> (BulkSummary \<Rightarrow> ('s, Event) eff) \<Rightarrow> 'a list \<Rightarrow> ('a \<Rightarrow> error option)
   \<Rightarrow> ('a \<Rightarrow> ('s, unit) eff) \<Rightarrow> ('s, BulkResult) eff" where
  "BulkRun auditor att resultFrom items validate execute =
    (case BulkValidate items validate of
       (failed, False) \<Rightarrow> fail (bulkValidationError failed)
     | (_, True) \<Rightarrow>
    attempt (Attempt auditor att) (\<lambda>ar. case ar of
      Inl err \<Rightarrow> fail (policyErr AuditUnavailable (err_Error err))
    | Inr _ \<Rightarrow>
    onOk (BulkExecute items execute) (\<lambda>result.
    onOk (resultFrom (BulkResult_Summary result)) (\<lambda>ev.
    onOk (Result auditor ev) (\<lambda>_. ret result)))))"

section \<open>Lemmas\<close>

lemma validate_from_Nil_iff:
  "validate_from i items validate = [] \<longleftrightarrow> (\<forall>x \<in> set items. validate x = None)"
  by (induction i items validate rule: validate_from.induct) (auto split: option.splits)

lemma validate_from_index:
  "validate_from i items validate =
    map (\<lambda>n. failed_item (i + int n) (the (validate (items ! n))))
      (filter (\<lambda>n. validate (items ! n) \<noteq> None) [0..<length items])"
proof (induction i items validate rule: validate_from.induct)
  case (2 i item items validate)
  have up: "[0..<length (item # items)] = 0 # map Suc [0..<length items]"
    by (simp add: upt_conv_Cons map_Suc_upt del: upt_Suc)
  show ?case
    unfolding up
    using 2 by (cases "validate item") (simp_all add: filter_map o_def add.assoc)
qed simp

lemma BulkValidate_ok_iff: "snd (BulkValidate items validate) \<longleftrightarrow> (\<forall>x \<in> set items. validate x = None)"
  by (simp add: BulkValidate_def Let_def validate_from_Nil_iff)

text \<open>
  What the loop keeps: the items done so far are numbered in order, each has succeeded or failed, and
  the summary counts them.
\<close>

definition tally :: "BulkItemResult list \<Rightarrow> BulkSummary \<Rightarrow> bool" where
  "tally out sm \<longleftrightarrow>
     map BulkItem_Index out = map int [0..<length out]
     \<and> set (map BulkItem_Outcome out) \<subseteq> {OutcomeSucceeded, OutcomeFailed}
     \<and> BulkSummary_Succeeded sm = int (length (filter (\<lambda>b. BulkItem_Outcome b = OutcomeSucceeded) out))
     \<and> BulkSummary_Failed sm = int (length (filter (\<lambda>b. BulkItem_Outcome b = OutcomeFailed) out))"

lemma two_outcomes:
  "set (map BulkItem_Outcome out) \<subseteq> {OutcomeSucceeded, OutcomeFailed} \<Longrightarrow>
     length (filter (\<lambda>b. BulkItem_Outcome b = OutcomeSucceeded) out)
     + length (filter (\<lambda>b. BulkItem_Outcome b = OutcomeFailed) out) = length out"
  by (induction out) auto

lemma tally_bound:
  "tally out sm \<Longrightarrow> BulkSummary_Succeeded sm + BulkSummary_Failed sm = int (length out)"
  unfolding tally_def using two_outcomes [of out] by (simp flip: of_nat_add)

lemma tally_step:
  assumes "tally out sm" "int (length out) + 1 < 9223372036854775808"
  shows "tally (out @ [failed_item (int (length out)) err]) (count_failed sm)"
    and "tally (out @ [succeeded_item (int (length out))]) (count_succeeded sm)"
proof -
  have "wrap64 (BulkSummary_Failed sm + 1) = BulkSummary_Failed sm + 1"
    "wrap64 (BulkSummary_Succeeded sm + 1) = BulkSummary_Succeeded sm + 1"
    using assms tally_bound [OF assms(1)]
    by (auto intro!: wrap64_id simp: in_int64_def tally_def)
  with assms(1) show "tally (out @ [failed_item (int (length out)) err]) (count_failed sm)"
    and "tally (out @ [succeeded_item (int (length out))]) (count_succeeded sm)"
    by (auto simp: tally_def count_failed_def count_succeeded_def failed_item_def succeeded_item_def)
qed

lemma execute_from_tally:
  assumes "execute_from (int (length (fst acc))) items execute acc s = (Ok acc', s')"
    and "tally (fst acc) (snd acc)"
    and "int (length (fst acc)) + int (length items) < 9223372036854775808"
  shows "tally (fst acc') (snd acc') \<and> length (fst acc') = length (fst acc) + length items
    \<and> BulkSummary_Total (snd acc') = BulkSummary_Total (snd acc)"
  using assms
proof (induction items arbitrary: acc s)
  case Nil
  then show ?case by (simp add: ret_run)
next
  case (Cons item items)
  obtain r t where run: "execute item s = (r, t)" by (cases "execute item s")
  note step = tally_step [OF Cons.prems(2)]
  show ?case
  proof (cases r)
    case (Err err)
    with Cons.IH [of "(fst acc @ [failed_item (int (length (fst acc))) err], count_failed (snd acc))" t]
    show ?thesis using run Cons.prems step(1)
      by (auto simp: attempt_Err add_ac count_failed_def)
  next
    case (Ok u)
    with Cons.IH [of "(fst acc @ [succeeded_item (int (length (fst acc)))], count_succeeded (snd acc))" t]
    show ?thesis using run Cons.prems step(2)
      by (auto simp: attempt_Ok add_ac count_succeeded_def)
  next
    case Panic
    with run Cons.prems show ?thesis by (simp add: attempt_Panic)
  qed
qed

lemma BulkExecute_tally:
  assumes "BulkExecute items execute s = (Ok res, s')" "int (length items) < 9223372036854775808"
  shows "tally (BulkResult_Items res) (BulkResult_Summary res)
    \<and> length (BulkResult_Items res) = length items
    \<and> BulkSummary_Total (BulkResult_Summary res) = int (length items)"
proof -
  from assms(1) obtain acc where
    acc: "execute_from 0 items execute ([], \<lparr>BulkSummary_Total = int (length items),
        BulkSummary_Succeeded = 0, BulkSummary_Failed = 0\<rparr>) s = (Ok acc, s')"
    and res: "res = \<lparr>BulkResult_Items = fst acc, BulkResult_Summary = snd acc\<rparr>"
    by (auto simp: BulkExecute_def onOk_eq_Ok ret_run)
  show ?thesis
    using execute_from_tally [of "([], \<lparr>BulkSummary_Total = int (length items),
      BulkSummary_Succeeded = 0, BulkSummary_Failed = 0\<rparr>)" items execute s acc s'] acc assms(2)
    by (simp add: res tally_def)
qed

text \<open>Every item is executed: the state is that of running all of them in order.\<close>

fun run_all :: "'a list \<Rightarrow> ('a \<Rightarrow> ('s, unit) eff) \<Rightarrow> 's \<Rightarrow> 's" where
  "run_all [] execute s = s"
| "run_all (x # xs) execute s = run_all xs execute (snd (execute x s))"

lemma execute_from_run_all:
  assumes "\<And>x s. fst (execute x s) \<noteq> Panic"
  shows "snd (execute_from i items execute acc s) = run_all items execute s"
    and "\<exists>a. fst (execute_from i items execute acc s) = Ok a"
proof (induction items arbitrary: i acc s)
  case (Cons x xs)
  {
    case 1
    from assms [of x s] Cons(1) show ?case
      by (cases "execute x s"; cases "fst (execute x s)") (auto simp: attempt_def)
  next
    case 2
    from assms [of x s] Cons(2) show ?case
      by (cases "execute x s"; cases "fst (execute x s)") (auto simp: attempt_def)
  }
qed (simp_all add: ret_run)

lemma BulkExecute_run_all:
  assumes "\<And>x s. fst (execute x s) \<noteq> Panic"
  shows "\<exists>res. BulkExecute items execute s = (Ok res, run_all items execute s)"
proof -
  let ?z = "([], \<lparr>BulkSummary_Total = int (length items), BulkSummary_Succeeded = 0, BulkSummary_Failed = 0\<rparr>)"
  obtain r t where run: "execute_from 0 items execute ?z s = (r, t)"
    by (cases "execute_from 0 items execute ?z s")
  with execute_from_run_all [where execute = execute and i = 0 and items = items and acc = ?z and s = s] assms
  show ?thesis by (auto simp: BulkExecute_def onOk_def ret_run)
qed

lemma quiet_execute_from:
  "(\<And>x. quiet view (execute x)) \<Longrightarrow> quiet view (execute_from i items execute acc)"
  by (induction items arbitrary: i acc) (auto intro!: quiet_intros)

lemma quiet_BulkExecute [quiet_intros]:
  "(\<And>x. quiet view (execute x)) \<Longrightarrow> quiet view (BulkExecute items execute)"
  unfolding BulkExecute_def by (intro quiet_intros quiet_execute_from)

lemma BulkRun_invalid:
  "\<exists>x \<in> set items. validate x \<noteq> None \<Longrightarrow>
    BulkRun auditor att resultFrom items validate execute
      = fail (bulkValidationError (validate_from 0 items validate))"
  by (auto simp: BulkRun_def BulkValidate_def Let_def validate_from_Nil_iff)

lemma BulkRun_valid:
  "\<forall>x \<in> set items. validate x = None \<Longrightarrow>
    BulkRun auditor att resultFrom items validate execute =
    attempt (Attempt auditor att) (\<lambda>ar. case ar of
      Inl err \<Rightarrow> fail (policyErr AuditUnavailable (err_Error err))
    | Inr _ \<Rightarrow>
    onOk (BulkExecute items execute) (\<lambda>result.
    onOk (resultFrom (BulkResult_Summary result)) (\<lambda>ev.
    onOk (Result auditor ev) (\<lambda>_. ret result))))"
proof -
  assume "\<forall>x \<in> set items. validate x = None"
  then have "validate_from 0 items validate = []" by (simp add: validate_from_Nil_iff)
  then show ?thesis by (simp add: BulkRun_def BulkValidate_def)
qed

end
