(* ===== verification/KafkaPort.thy ===== *)
theory KafkaPort
  imports CoreRun
begin

text \<open>
  The port to the managed cluster (\<^verbatim>\<open>internal/kafka/port.go\<close>): the \<open>Admin\<close>, \<open>Consumer\<close> and
  \<open>Producer\<close> interfaces as records of effects over an arbitrary state, with the request's context
  applied.

  What the services rely on is stated as locales. \<open>admin_reads\<close>: an observation of the state that no
  read operation changes; an operation that is asked to validate only changes it neither.
  \<open>admin_results\<close>: the batch operations answer with one result per item.
\<close>

record 's Admin =
  DescribeCluster :: "('s, ClusterInfo) eff"
  DescribeBrokerConfigs :: "int32 \<Rightarrow> ('s, ConfigEntry list) eff"
  Metadata :: "('s, ClusterMetadata) eff"
  ListTopics :: "('s, TopicSummary list) eff"
  DescribeTopics :: "string \<Rightarrow> ('s, Topic) eff"
  DescribeTopicConfigs :: "string \<Rightarrow> ('s, ConfigEntry list) eff"
  ListStartOffsets :: "string \<Rightarrow> ('s, (int32 \<times> int64) list) eff"
  ListEndOffsets :: "string \<Rightarrow> ('s, (int32 \<times> int64) list) eff"
  ListOffsetsAfterMilli :: "string \<Rightarrow> int64 \<Rightarrow> ('s, (int32 \<times> int64) list) eff"
  DescribeLogDirs :: "string \<Rightarrow> ('s, LogDirReplica list) eff"
  ListGroups :: "string list \<Rightarrow> ('s, GroupSummary list) eff"
  DescribeGroups :: "string list \<Rightarrow> ('s, Group list) eff"
  FetchGroupOffsets :: "string \<Rightarrow> ('s, (TopicPartition \<times> int64) list) eff"
  CreateTopics :: "TopicSpec list \<Rightarrow> bool \<Rightarrow> ('s, TopicCreateResult list) eff"
  IncrementalAlterTopicConfigs :: "string \<Rightarrow> ConfigChange list \<Rightarrow> ('s, unit) eff"
  CreatePartitions :: "string \<Rightarrow> int32 \<Rightarrow> ('s, unit) eff"
  DeleteTopics :: "string list \<Rightarrow> ('s, TopicDeleteResult list) eff"
  DeleteRecords :: "string \<Rightarrow> (int32 \<times> int64) list \<Rightarrow> ('s, PartitionLowWatermark list) eff"
  CommitGroupOffsets :: "string \<Rightarrow> (TopicPartition \<times> int64) list \<Rightarrow> ('s, unit) eff"
  DeleteGroups :: "string list \<Rightarrow> ('s, GroupDeleteResult list) eff"
  LeaveGroup :: "string \<Rightarrow> string list \<Rightarrow> ('s, LeaveGroupResult list) eff"
  DescribeQuorum :: "('s, QuorumStatus) eff"
  ListReassignments :: "('s, PartitionReassignment list) eff"
  AlterPartitionAssignments :: "(TopicPartition \<times> int32 list option) list \<Rightarrow> ('s, ReassignResult list) eff"
  ElectLeaders :: "bool \<Rightarrow> TopicPartition list \<Rightarrow> ('s, ElectLeaderResult list) eff"
  IncrementalAlterBrokerConfigs :: "int32 \<Rightarrow> ConfigChange list \<Rightarrow> ('s, unit) eff"
  DescribeAllLogDirs :: "('s, BrokerLogDir list) eff"
  DescribeUserSCRAMs :: "string list \<Rightarrow> ('s, ScramUser list) eff"
  AlterUserSCRAMs :: "ScramUpsert list \<Rightarrow> ScramDelete list \<Rightarrow> ('s, ScramAlterResult list) eff"
  DescribeClientQuotas :: "string \<Rightarrow> ('s, DescribedQuota list) eff"
  AlterClientQuotas :: "QuotaAlterEntry list \<Rightarrow> ('s, QuotaAlterResult list) eff"

record 's Consumer =
  Assign :: "string \<Rightarrow> int32 list \<Rightarrow> (int32 \<times> int64) list \<Rightarrow> ('s, unit) eff"
  Poll :: "('s, Record list) eff"
  Close :: "('s, unit) eff"

record 's Producer =
  Produce :: "string \<Rightarrow> ProduceRequest list \<Rightarrow> ('s, ProduceResult list) eff"

section \<open>Contracts\<close>

locale admin_reads =
  fixes adm :: "'s Admin" and view :: "'s \<Rightarrow> 'v"
  assumes read_DescribeCluster: "quiet view (DescribeCluster adm)"
    and read_DescribeBrokerConfigs: "quiet view (DescribeBrokerConfigs adm b)"
    and read_Metadata: "quiet view (Metadata adm)"
    and read_ListTopics: "quiet view (ListTopics adm)"
    and read_DescribeTopics: "quiet view (DescribeTopics adm t)"
    and read_DescribeTopicConfigs: "quiet view (DescribeTopicConfigs adm t)"
    and read_ListStartOffsets: "quiet view (ListStartOffsets adm t)"
    and read_ListEndOffsets: "quiet view (ListEndOffsets adm t)"
    and read_ListOffsetsAfterMilli: "quiet view (ListOffsetsAfterMilli adm t ms)"
    and read_DescribeLogDirs: "quiet view (DescribeLogDirs adm t)"
    and read_ListGroups: "quiet view (ListGroups adm states)"
    and read_DescribeGroups: "quiet view (DescribeGroups adm ids)"
    and read_FetchGroupOffsets: "quiet view (FetchGroupOffsets adm g)"
    and read_CreateTopics: "quiet view (CreateTopics adm specs True)"
    and read_DescribeQuorum: "quiet view (DescribeQuorum adm)"
    and read_ListReassignments: "quiet view (ListReassignments adm)"
    and read_DescribeAllLogDirs: "quiet view (DescribeAllLogDirs adm)"
    and read_DescribeUserSCRAMs: "quiet view (DescribeUserSCRAMs adm users)"
    and read_DescribeClientQuotas: "quiet view (DescribeClientQuotas adm et)"
begin

lemmas reads =
  read_DescribeCluster read_DescribeBrokerConfigs read_Metadata read_ListTopics read_DescribeTopics
  read_DescribeTopicConfigs read_ListStartOffsets read_ListEndOffsets read_ListOffsetsAfterMilli
  read_DescribeLogDirs read_ListGroups read_DescribeGroups read_FetchGroupOffsets read_CreateTopics
  read_DescribeQuorum read_ListReassignments read_DescribeAllLogDirs read_DescribeUserSCRAMs
  read_DescribeClientQuotas

end

locale admin_results =
  fixes adm :: "'s Admin"
  assumes one_DeleteTopics:
      "\<And>ts s rs s'. DeleteTopics adm ts s = (Ok rs, s') \<Longrightarrow> length rs = length ts"
    and one_CreateTopics:
      "\<And>specs v s rs s'. CreateTopics adm specs v s = (Ok rs, s') \<Longrightarrow> length rs = length specs"
    and one_DeleteGroups:
      "\<And>gs s rs s'. DeleteGroups adm gs s = (Ok rs, s') \<Longrightarrow> length rs = length gs"
    and one_DescribeGroups:
      "\<And>gs s rs s'. gs \<noteq> [] \<Longrightarrow> DescribeGroups adm gs s = (Ok rs, s') \<Longrightarrow> length rs = length gs"
    and one_DescribeUserSCRAMs:
      "\<And>us s rs s'. us \<noteq> [] \<Longrightarrow> DescribeUserSCRAMs adm us s = (Ok rs, s') \<Longrightarrow> length rs = length us"
    and one_AlterClientQuotas:
      "\<And>es s rs s'. AlterClientQuotas adm es s = (Ok rs, s') \<Longrightarrow> length rs = length es"

end
