(* ===== verification/ServiceBase.thy ===== *)
theory ServiceBase
  imports Bulk KafkaPort PlanToken
begin

text \<open>
  What the topic, group, cluster and security services have in common: the fields of their \<open>Service\<close>
  structs, the construction of audit events (\<^verbatim>\<open>events.go\<close> of each service), and the locale
  \<open>service_env\<close> of their environment, in which the services' own lemmas are proved.

  \<open>svc_timeNow\<close> is the wall clock \<open>time.Now\<close>, which \<open>core.Destructive\<close> reads directly; \<open>svc_now\<close> is
  the injected clock of the service.
\<close>

record 's Service =
  svc_admin :: "'s Admin"
  svc_auditor :: "'s Auditor"
  svc_newEventID :: "'s \<Rightarrow> string \<times> 's"
  svc_now :: "'s \<Rightarrow> time \<times> 's"
  svc_timeNow :: "'s \<Rightarrow> time \<times> 's"
  svc_runner :: Runner

definition event_at :: "string \<Rightarrow> Descriptor \<Rightarrow> Caller \<Rightarrow> string \<Rightarrow> string \<Rightarrow> time \<Rightarrow> Event" where
  "event_at ttype desc caller name i t =
    \<lparr>Event_EventID = i, Event_Timestamp = t, Event_RequestID = Caller_RequestID caller,
     Event_Phase = PhaseUnset, Event_Severity = SeverityUnset,
     Event_CommandID = Desc_ID desc, Event_CommandName = Desc_Name desc,
     Event_Target = \<lparr>Target_Type = ttype, Target_Name = name, Target_Partitions = []\<rparr>,
     Event_Caller = \<lparr>AuditCaller_KeyID = Caller_KeyID caller, AuditCaller_Tier = Caller_Tier caller,
        AuditCaller_ClientIP = Caller_ClientIP caller\<rparr>,
     Event_DryRun = False,
     Event_BreakGlass = (if Caller_BreakGlassReason caller \<noteq> [] then Some (Caller_BreakGlassReason caller) else None),
     Event_Outcome = OutcomeUnset, Event_Error = None, Event_DurationMs = None\<rparr>"

definition new_event :: "'s Service \<Rightarrow> string \<Rightarrow> Caller \<Rightarrow> string \<Rightarrow> string \<Rightarrow> ('s, Event) eff" where
  "new_event svc ttype caller commandID name =
    onOk (act (svc_newEventID svc)) (\<lambda>i.
    onOk (act (svc_now svc)) (\<lambda>t. ret (event_at ttype (desc_of commandID) caller name i t)))"

text \<open>The body that every destructive command of a service has: look up, build the event, sequence.\<close>

definition destructive_cmd ::
  "'s Service \<Rightarrow> string \<Rightarrow> string \<Rightarrow> Caller \<Rightarrow> string \<Rightarrow> 'p PlanOps \<Rightarrow> string \<Rightarrow> bool \<Rightarrow> ('s, 'p) eff
   \<Rightarrow> ('p \<Rightarrow> ('s, 't) eff) \<Rightarrow> ('s, ('p, 't) DResult \<times> Err) eff" where
  "destructive_cmd svc ttype commandID caller name ops confirm dryRun plan apply =
    onOk (new_event svc ttype caller commandID name) (\<lambda>att.
      Destructive (svc_timeNow svc) ops (svc_runner svc) (svc_auditor svc) caller (desc_of commandID)
        att confirm dryRun plan apply)"

lemma new_event_run:
  "new_event svc ttype caller c name s =
    (Ok (event_at ttype (desc_of c) caller name (fst (svc_newEventID svc s))
        (fst (svc_now svc (snd (svc_newEventID svc s))))),
     snd (svc_now svc (snd (svc_newEventID svc s))))"
  by (simp add: new_event_def onOk_def act_run ret_run)

section \<open>The environment of a service\<close>

locale service_env =
  admin_reads "svc_admin svc" view + audit_sinks "svc_auditor svc" view
  for svc :: "'s Service" and view :: "'s \<Rightarrow> 'v" +
  assumes id_quiet: "\<And>s. view (snd (svc_newEventID svc s)) = view s"
    and now_quiet: "\<And>s. view (snd (svc_now svc s)) = view s"
    and wall_quiet: "\<And>s. view (snd (svc_timeNow svc s)) = view s"
begin

lemma quiet_new_event: "quiet view (new_event svc ttype caller c name)"
  unfolding new_event_def by (intro quiet_intros id_quiet now_quiet)

text \<open>The two ways a destructive command cannot change what the view observes.\<close>

lemma quiet_destructive_dry:
  "quiet view plan \<Longrightarrow> quiet view (destructive_cmd svc ttype c caller name ops confirm True plan apply)"
  unfolding destructive_cmd_def
  by (intro quiet_onOk quiet_new_event quiet_Destructive_dry wall_quiet)

lemma quiet_destructive_rejected:
  "gate (svc_runner svc) caller (desc_of c) = Some err \<Longrightarrow>
     quiet view (destructive_cmd svc ttype c caller name ops confirm dryRun plan apply)"
  unfolding destructive_cmd_def
  by (intro quiet_onOk quiet_new_event quiet_Destructive_rejected wall_quiet)

lemma quiet_destructive_mismatch:
  assumes plan: "quiet view plan"
    and target: "\<And>p s s'. plan s = (Ok p, s') \<Longrightarrow> ConfirmTarget ops p \<noteq> confirm"
  shows "quiet view (destructive_cmd svc ttype c caller name ops confirm dryRun plan apply)"
  unfolding destructive_cmd_def
proof (intro quiet_onOk quiet_new_event)
  fix att
  show "quiet view (Destructive (svc_timeNow svc) ops (svc_runner svc) (svc_auditor svc) caller (desc_of c)
      att confirm dryRun plan apply)"
    unfolding quiet_def
    by (intro allI Destructive_guarded wall_quiet plan)
      (auto simp: apply_guards_def split: prod.splits res.splits dest: target)
qed

end

end
