(* ===== verification/TopicService.thy ===== *)
theory TopicService
  imports ServiceBase
begin

text \<open>
  The topic commands T1 to T12 (\<^verbatim>\<open>internal/service/topic\<close>): listing with pagination, description,
  sizes, counts, creation, and the destructive commands with their plan and apply steps.

  \<open>regexp.Compile\<close> is the parameter \<open>compile\<close>: a matcher, or the compile error's text.
\<close>

type_synonym regexp = "string \<Rightarrow> bool"

section \<open>Events\<close>

definition errCodeOf :: "error \<Rightarrow> string" where
  "errCodeOf err =
    (case CodeOf err of
       Some c \<Rightarrow> code_String c
     | None \<Rightarrow> (case as_kafka err of Some ke \<Rightarrow> kind_String (ke_Kind ke) | None \<Rightarrow> ''INTERNAL''))"

definition topic_newEvent :: "'s Service \<Rightarrow> Caller \<Rightarrow> string \<Rightarrow> string \<Rightarrow> ('s, Event) eff" where
  "topic_newEvent svc caller commandID topic = new_event svc ''topic'' caller commandID topic"

definition resultEventOutcome :: "'s Service \<Rightarrow> Event \<Rightarrow> Outcome \<Rightarrow> string \<Rightarrow> ('s, Event) eff" where
  "resultEventOutcome svc att outcome errCode =
    onOk (act (svc_now svc)) (\<lambda>t. ret (resultEventAt t att outcome errCode))"

definition summary_outcome :: "BulkSummary \<Rightarrow> Outcome" where
  "summary_outcome sm = (if BulkSummary_Failed sm > 0 then OutcomeFailed else OutcomeSucceeded)"

definition bulk_resultEvent :: "'s Service \<Rightarrow> Event \<Rightarrow> BulkSummary \<Rightarrow> ('s, Event) eff" where
  "bulk_resultEvent svc att sm = resultEventOutcome svc att (summary_outcome sm) []"

definition topic_checkGate :: "'s Service \<Rightarrow> Caller \<Rightarrow> string \<Rightarrow> string \<Rightarrow> ('s, unit) eff" where
  "topic_checkGate svc caller commandID topic =
    onOk (topic_newEvent svc caller commandID topic) (\<lambda>ev.
      CheckAudited (svc_runner svc) (svc_auditor svc) caller (desc_of commandID) ev)"

section \<open>T1: listing\<close>

record TopicListParams =
  TLP_Pattern :: string
  TLP_IncludeInternal :: bool
  TLP_Page :: int64
  TLP_PageSize :: int64

record ListPage =
  LP_Page :: int64
  LP_PageSize :: int64
  LP_Total :: int64

text \<open>
  One page of a list: \<open>start < 0\<close> or \<open>start >= total\<close> is empty; \<open>make([]T, end-start)\<close> panics when a
  negative page size puts the end before the start. The arithmetic is that of \<open>int\<close>.
\<close>

definition page_slice :: "int64 \<Rightarrow> int64 \<Rightarrow> 'a list \<Rightarrow> 'a list option" where
  "page_slice page pageSize xs =
    (let tot = int (length xs);
         start = wrap64 ((page - 1) * pageSize)
     in if start < 0 \<or> start \<ge> tot then Some []
        else (let stop = min (wrap64 (start + pageSize)) tot
              in if stop < start then None
                 else Some (take (nat (stop - start)) (drop (nat start) xs))))"

definition topic_matches :: "regexp option \<Rightarrow> TopicListParams \<Rightarrow> TopicSummary \<Rightarrow> bool" where
  "topic_matches pattern params t \<longleftrightarrow>
     \<not> (\<not> TLP_IncludeInternal params \<and> TopicSummary_Internal t)
     \<and> (case pattern of None \<Rightarrow> True | Some re \<Rightarrow> re (TopicSummary_Name t))"

definition topic_List ::
  "(string \<Rightarrow> string + regexp) \<Rightarrow> 's Service \<Rightarrow> TopicListParams \<Rightarrow> ('s, TopicSummary list \<times> ListPage) eff"
where
  "topic_List compile svc params =
    (case (if TLP_Pattern params \<noteq> [] then map_sum id Some (compile (TLP_Pattern params)) else Inr None) of
       Inl msg \<Rightarrow> fail (policyErr InvalidRegex msg)
     | Inr pattern \<Rightarrow>
       onOk (ListTopics (svc_admin svc)) (\<lambda>topics.
         let matched = sort_key TopicSummary_Name (filter (topic_matches pattern params) topics);
             page = \<lparr>LP_Page = TLP_Page params, LP_PageSize = TLP_PageSize params,
                     LP_Total = int (length matched)\<rparr>
         in case page_slice (TLP_Page params) (TLP_PageSize params) matched of
              None \<Rightarrow> panic
            | Some items \<Rightarrow> ret (items, page)))"

section \<open>T2: description\<close>

record PartitionDetail =
  PD_ID :: int32
  PD_Leader :: int32
  PD_Replicas :: "int32 list"
  PD_ISR :: "int32 list"
  PD_BeginOffset :: int64
  PD_EndOffset :: int64
  PD_ApproxCount :: int64

record TopicDescribe =
  TD_Name :: string
  TD_Internal :: bool
  TD_ReplicationFactor :: int64
  TD_ApproxMessageCount :: int64
  TD_Partitions :: "PartitionDetail list"
  TD_Configs :: "ConfigEntry list"

definition partition_detail ::
  "(int32 \<times> int64) list \<Rightarrow> (int32 \<times> int64) list \<Rightarrow> Partition \<Rightarrow> PartitionDetail" where
  "partition_detail begs ends p =
    (let b = mget begs 0 (Partition_ID p); e = mget ends 0 (Partition_ID p)
     in \<lparr>PD_ID = Partition_ID p, PD_Leader = Partition_Leader p, PD_Replicas = Partition_Replicas p,
         PD_ISR = Partition_ISR p, PD_BeginOffset = b, PD_EndOffset = e, PD_ApproxCount = wrap64 (e - b)\<rparr>)"

definition topic_Describe :: "'s Service \<Rightarrow> string \<Rightarrow> ('s, TopicDescribe) eff" where
  "topic_Describe svc name =
    onOk (DescribeTopics (svc_admin svc) name) (\<lambda>t.
    onOk (ListStartOffsets (svc_admin svc) name) (\<lambda>begs.
    onOk (ListEndOffsets (svc_admin svc) name) (\<lambda>ends.
    onOk (DescribeTopicConfigs (svc_admin svc) name) (\<lambda>configs.
      let details = map (partition_detail begs ends) (Topic_Partitions t)
      in ret \<lparr>TD_Name = Topic_Name t, TD_Internal = Topic_Internal t,
           TD_ReplicationFactor = Topic_ReplicationFactor t,
           TD_ApproxMessageCount = sum64 (map PD_ApproxCount details),
           TD_Partitions = sort_key PD_ID details, TD_Configs = configs\<rparr>))))"

section \<open>T3 and T4: sizes and counts\<close>

record ReplicaSize =
  RS_BrokerID :: int32
  RS_LogDir :: string
  RS_Bytes :: int64

record PartitionSize =
  PS_ID :: int32
  PS_Bytes :: int64
  PS_Replicas :: "ReplicaSize list"

record TopicSize =
  TS_Topic :: string
  TS_TotalBytes :: int64
  TS_Partitions :: "PartitionSize list"

definition add_replica :: "LogDirReplica \<Rightarrow> (int32 \<times> ReplicaSize list) list \<Rightarrow> (int32 \<times> ReplicaSize list) list" where
  "add_replica e m = mput (LogDirReplica_Partition e)
     (mget m [] (LogDirReplica_Partition e) @
        [\<lparr>RS_BrokerID = LogDirReplica_BrokerID e, RS_LogDir = LogDirReplica_LogDir e,
          RS_Bytes = LogDirReplica_Bytes e\<rparr>]) m"

definition partition_size :: "int32 \<times> ReplicaSize list \<Rightarrow> PartitionSize" where
  "partition_size ir = (case ir of (i, replicas) \<Rightarrow>
     let srt = sort_key RS_BrokerID replicas
     in \<lparr>PS_ID = i, PS_Bytes = sum64 (map RS_Bytes srt), PS_Replicas = srt\<rparr>)"

definition topic_Size :: "'s Service \<Rightarrow> string \<Rightarrow> ('s, TopicSize) eff" where
  "topic_Size svc name =
    onOk (DescribeLogDirs (svc_admin svc) name) (\<lambda>entries.
      let partitions = map partition_size (fold add_replica entries [])
      in ret \<lparr>TS_Topic = name, TS_TotalBytes = sum64 (map PS_Bytes partitions),
           TS_Partitions = sort_key PS_ID partitions\<rparr>)"

record PartitionCount =
  PC_ID :: int32
  PC_FromOffset :: int64
  PC_ToOffset :: int64
  PC_Count :: int64

record TopicCount =
  TC_Topic :: string
  TC_FromMilli :: int64
  TC_ToMilli :: int64
  TC_Total :: int64
  TC_Partitions :: "PartitionCount list"

definition window_count ::
  "(int32 \<times> int64) list \<Rightarrow> (int32 \<times> int64) list \<Rightarrow> (int32 \<times> int64) list \<Rightarrow> int32 \<Rightarrow> PartitionCount" where
  "window_count fromOffsets toOffsets endOffsets i =
    (let fr = mget fromOffsets 0 i;
         to1 = mget toOffsets 0 i;
         to2 = (case map_of endOffsets i of Some e \<Rightarrow> if to1 > e then e else to1 | None \<Rightarrow> to1);
         til = (if to2 < fr then fr else to2)
     in \<lparr>PC_ID = i, PC_FromOffset = fr, PC_ToOffset = til, PC_Count = wrap64 (til - fr)\<rparr>)"

definition topic_CountInWindow :: "'s Service \<Rightarrow> string \<Rightarrow> int64 \<Rightarrow> int64 \<Rightarrow> ('s, TopicCount) eff" where
  "topic_CountInWindow svc name fromMilli toMilli =
    onOk (ListOffsetsAfterMilli (svc_admin svc) name fromMilli) (\<lambda>fromOffsets.
    onOk (ListOffsetsAfterMilli (svc_admin svc) name toMilli) (\<lambda>toOffsets.
    onOk (ListEndOffsets (svc_admin svc) name) (\<lambda>endOffsets.
      let parts = map (window_count fromOffsets toOffsets endOffsets) (sort (mkeys fromOffsets))
      in ret \<lparr>TC_Topic = name, TC_FromMilli = fromMilli, TC_ToMilli = toMilli,
           TC_Total = sum64 (map PC_Count parts), TC_Partitions = parts\<rparr>)))"

section \<open>T5 and T6: creation\<close>

record CreateResult =
  CR_Name :: string
  CR_Partitions :: int32
  CR_ReplicationFactor :: int16
  CR_Configs :: "ConfigEntry list"

definition toCreateResult :: "TopicCreateResult \<Rightarrow> CreateResult" where
  "toCreateResult r = \<lparr>CR_Name = TopicCreateResult_Name r, CR_Partitions = TopicCreateResult_Partitions r,
     CR_ReplicationFactor = TopicCreateResult_ReplicationFactor r, CR_Configs = TopicCreateResult_Configs r\<rparr>"

definition createOne :: "'s Service \<Rightarrow> TopicSpec \<Rightarrow> bool \<Rightarrow> ('s, CreateResult) eff" where
  "createOne svc spec validateOnly =
    onOk (CreateTopics (svc_admin svc) [spec] validateOnly) (\<lambda>results.
    onOk (first_of results) (\<lambda>r.
      case TopicCreateResult_Err r of
        Some err \<Rightarrow> fail err
      | None \<Rightarrow> ret (toCreateResult r)))"

definition service_result :: "'s Service \<Rightarrow> Event \<Rightarrow> Outcome \<Rightarrow> string \<Rightarrow> ('s, unit) eff" where
  "service_result svc att outcome errCode =
    onOk (resultEventOutcome svc att outcome errCode) (Result (svc_auditor svc))"

definition topic_Create :: "'s Service \<Rightarrow> Caller \<Rightarrow> TopicSpec \<Rightarrow> bool \<Rightarrow> ('s, CreateResult \<times> bool) eff" where
  "topic_Create svc caller params dryRun =
    onOk (topic_checkGate svc caller ''T5'' (TopicSpec_Name params)) (\<lambda>_.
    if dryRun then
      onOk (createOne svc params True) (\<lambda>created.
      onOk (topic_newEvent svc caller ''T5'' (TopicSpec_Name params)) (\<lambda>att.
      onOk (service_result svc (att\<lparr>Event_DryRun := True\<rparr>) OutcomeSucceeded []) (\<lambda>_.
        ret (created, True))))
    else
      onOk (topic_newEvent svc caller ''T5'' (TopicSpec_Name params)) (\<lambda>att.
      attempt (Attempt (svc_auditor svc) att) (\<lambda>ar. case ar of
        Inl err \<Rightarrow> fail (policyErr AuditUnavailable (err_Error err))
      | Inr _ \<Rightarrow>
      attempt (createOne svc params False) (\<lambda>cr. case cr of
        Inl err \<Rightarrow> onOk (service_result svc att OutcomeFailed (errCodeOf err)) (\<lambda>_. fail err)
      | Inr created \<Rightarrow> onOk (service_result svc att OutcomeSucceeded []) (\<lambda>_. ret (created, False))))))"

definition createExec :: "'s Service \<Rightarrow> TopicSpec \<Rightarrow> ('s, unit) eff" where
  "createExec svc spec =
    onOk (CreateTopics (svc_admin svc) [spec] False) (\<lambda>results.
    onOk (first_of results) (\<lambda>r.
      case TopicCreateResult_Err r of Some err \<Rightarrow> fail err | None \<Rightarrow> ret ()))"

definition must_not_exist :: "TopicSummary list \<Rightarrow> TopicSpec \<Rightarrow> Err" where
  "must_not_exist existing p =
    (if TopicSpec_Name p \<in> set (map TopicSummary_Name existing)
     then Some (PlainError (''topic '' @ quoted (TopicSpec_Name p) @ '' already exists'')) else None)"

definition topic_CreateBulk :: "'s Service \<Rightarrow> Caller \<Rightarrow> TopicSpec list \<Rightarrow> ('s, BulkResult) eff" where
  "topic_CreateBulk svc caller params =
    onOk (topic_checkGate svc caller ''T6'' []) (\<lambda>_.
    onOk (ListTopics (svc_admin svc)) (\<lambda>existing.
    onOk (topic_newEvent svc caller ''T6'' []) (\<lambda>att.
      BulkRun (svc_auditor svc) att (bulk_resultEvent svc att) params
        (must_not_exist existing) (createExec svc))))"

section \<open>T9: altering the configuration\<close>

record ConfigChangeDetail =
  CCD_Name :: string
  CCD_From :: string
  CCD_To :: string

record AlterConfigPlan =
  ACP_Topic :: string
  ACP_Changes :: "ConfigChangeDetail list"

definition ConfigChangeDetail_any :: "ConfigChangeDetail \<Rightarrow> any" where
  "ConfigChangeDetail_any c = AStruct ''ConfigChangeDetail''
     [(''Name'', AStr (CCD_Name c)), (''From'', AStr (CCD_From c)), (''To'', AStr (CCD_To c))]"

definition AlterConfigPlan_ops :: "AlterConfigPlan PlanOps" where
  "AlterConfigPlan_ops = \<lparr>ConfirmTarget = ACP_Topic,
     plan_any = (\<lambda>p. AStruct ''AlterConfigPlan'' [(''Topic'', AStr (ACP_Topic p)),
        (''Changes'', AList (map ConfigChangeDetail_any (ACP_Changes p)))])\<rparr>"

record AlterConfigResult =
  ACR_Name :: string
  ACR_Configs :: "ConfigEntry list"

definition by_name :: "ConfigEntry list \<Rightarrow> (string \<times> ConfigEntry) list" where
  "by_name current = fold (\<lambda>c. mput (ConfigEntry_Name c) c) current []"

definition config_changes ::
  "ConfigEntry list \<Rightarrow> (string \<times> string) list \<Rightarrow> string list \<Rightarrow> ConfigChangeDetail list" where
  "config_changes current sets resets =
    (let old = (\<lambda>name. ConfigEntry_Value (mget (by_name current) zero_ConfigEntry name))
     in sort_key CCD_Name
       (map (\<lambda>(name, val). \<lparr>CCD_Name = name, CCD_From = old name, CCD_To = val\<rparr>) sets
        @ map (\<lambda>name. \<lparr>CCD_Name = name, CCD_From = old name, CCD_To = []\<rparr>) resets))"

definition PlanAlterConfig ::
  "'s Service \<Rightarrow> string \<Rightarrow> (string \<times> string) list \<Rightarrow> string list \<Rightarrow> ('s, AlterConfigPlan) eff" where
  "PlanAlterConfig svc topicName sets resets =
    onOk (DescribeTopicConfigs (svc_admin svc) topicName) (\<lambda>current.
      ret \<lparr>ACP_Topic = topicName, ACP_Changes = config_changes current sets resets\<rparr>)"

definition change_requests :: "(string \<times> string) list \<Rightarrow> string list \<Rightarrow> ConfigChange list" where
  "change_requests sets resets =
     map (\<lambda>(name, val). \<lparr>ConfigChange_Name = name, ConfigChange_Value = Some val\<rparr>) sets
     @ map (\<lambda>name. \<lparr>ConfigChange_Name = name, ConfigChange_Value = None\<rparr>) resets"

definition ApplyAlterConfig ::
  "'s Service \<Rightarrow> (string \<times> string) list \<Rightarrow> string list \<Rightarrow> AlterConfigPlan \<Rightarrow> ('s, AlterConfigResult) eff" where
  "ApplyAlterConfig svc sets resets plan =
    onOk (IncrementalAlterTopicConfigs (svc_admin svc) (ACP_Topic plan) (change_requests sets resets)) (\<lambda>_.
    onOk (DescribeTopicConfigs (svc_admin svc) (ACP_Topic plan)) (\<lambda>configs.
      ret \<lparr>ACR_Name = ACP_Topic plan, ACR_Configs = configs\<rparr>))"

definition AlterConfig ::
  "'s Service \<Rightarrow> Caller \<Rightarrow> string \<Rightarrow> (string \<times> string) list \<Rightarrow> string list \<Rightarrow> string \<Rightarrow> bool
   \<Rightarrow> ('s, (AlterConfigPlan, AlterConfigResult) DResult \<times> Err) eff" where
  "AlterConfig svc caller topicName sets resets confirm dryRun =
    destructive_cmd svc ''topic'' ''T9'' caller topicName AlterConfigPlan_ops confirm dryRun
      (PlanAlterConfig svc topicName sets resets) (ApplyAlterConfig svc sets resets)"

section \<open>T10: adding partitions\<close>

record AddPartitionsPlan =
  APP_Topic :: string
  APP_From :: int32
  APP_To :: int32
  APP_Warning :: string

definition AddPartitionsPlan_ops :: "AddPartitionsPlan PlanOps" where
  "AddPartitionsPlan_ops = \<lparr>ConfirmTarget = APP_Topic,
     plan_any = (\<lambda>p. AStruct ''AddPartitionsPlan'' [(''Topic'', AStr (APP_Topic p)),
        (''From'', AInt (APP_From p)), (''To'', AInt (APP_To p)), (''Warning'', AStr (APP_Warning p))])\<rparr>"

record AddPartitionsResult =
  APR_Name :: string
  APR_PartitionCount :: int32

definition PlanAddPartitions :: "'s Service \<Rightarrow> string \<Rightarrow> int32 \<Rightarrow> ('s, AddPartitionsPlan) eff" where
  "PlanAddPartitions svc topicName til =
    onOk (DescribeTopics (svc_admin svc) topicName) (\<lambda>t.
      let fr = wrap32 (int (length (Topic_Partitions t)))
      in if til \<le> fr then fail (policyErr PartitionMismatch ''partitions must be greater than the current count'')
         else ret \<lparr>APP_Topic = topicName, APP_From = fr, APP_To = til,
                APP_Warning = ''key-to-partition mapping changes''\<rparr>)"

definition ApplyAddPartitions :: "'s Service \<Rightarrow> AddPartitionsPlan \<Rightarrow> ('s, AddPartitionsResult) eff" where
  "ApplyAddPartitions svc plan =
    onOk (CreatePartitions (svc_admin svc) (APP_Topic plan) (APP_To plan)) (\<lambda>_.
      ret \<lparr>APR_Name = APP_Topic plan, APR_PartitionCount = APP_To plan\<rparr>)"

definition AddPartitions ::
  "'s Service \<Rightarrow> Caller \<Rightarrow> string \<Rightarrow> int32 \<Rightarrow> string \<Rightarrow> bool
   \<Rightarrow> ('s, (AddPartitionsPlan, AddPartitionsResult) DResult \<times> Err) eff" where
  "AddPartitions svc caller topicName til confirm dryRun =
    destructive_cmd svc ''topic'' ''T10'' caller topicName AddPartitionsPlan_ops confirm dryRun
      (PlanAddPartitions svc topicName til) (ApplyAddPartitions svc)"

section \<open>T7: deleting a topic\<close>

record DeleteTopicPlan =
  DTP_Topic :: string
  DTP_Partitions :: int32
  DTP_ApproxMessages :: int64

definition DeleteTopicPlan_ops :: "DeleteTopicPlan PlanOps" where
  "DeleteTopicPlan_ops = \<lparr>ConfirmTarget = DTP_Topic,
     plan_any = (\<lambda>p. AStruct ''DeleteTopicPlan'' [(''Topic'', AStr (DTP_Topic p)),
        (''Partitions'', AInt (DTP_Partitions p)), (''ApproxMessages'', AInt (DTP_ApproxMessages p))])\<rparr>"

definition PlanDelete :: "'s Service \<Rightarrow> string \<Rightarrow> ('s, DeleteTopicPlan) eff" where
  "PlanDelete svc topicName =
    onOk (topic_Describe svc topicName) (\<lambda>d.
      ret \<lparr>DTP_Topic = TD_Name d, DTP_Partitions = wrap32 (int (length (TD_Partitions d))),
           DTP_ApproxMessages = TD_ApproxMessageCount d\<rparr>)"

definition ApplyDelete :: "'s Service \<Rightarrow> DeleteTopicPlan \<Rightarrow> ('s, string) eff" where
  "ApplyDelete svc plan =
    onOk (DeleteTopics (svc_admin svc) [DTP_Topic plan]) (\<lambda>results.
    onOk (first_of results) (\<lambda>r.
      case TopicDeleteResult_Err r of Some err \<Rightarrow> fail err | None \<Rightarrow> ret (DTP_Topic plan)))"

definition topic_Delete ::
  "'s Service \<Rightarrow> Caller \<Rightarrow> string \<Rightarrow> string \<Rightarrow> bool \<Rightarrow> ('s, (DeleteTopicPlan, string) DResult \<times> Err) eff" where
  "topic_Delete svc caller topicName confirm dryRun =
    destructive_cmd svc ''topic'' ''T7'' caller topicName DeleteTopicPlan_ops confirm dryRun
      (PlanDelete svc topicName) (ApplyDelete svc)"

section \<open>T8: deleting many topics\<close>

record BulkDeletePlan =
  BDP_Topics :: "string list"
  BDP_PlanToken :: string

definition BulkDeletePlan_ops :: "BulkDeletePlan PlanOps" where
  "BulkDeletePlan_ops = \<lparr>ConfirmTarget = BDP_PlanToken,
     plan_any = (\<lambda>p. AStruct ''BulkDeletePlan'' [(''Topics'', AList (map AStr (BDP_Topics p))),
        (''PlanToken'', AStr (BDP_PlanToken p))])\<rparr>"

fun unique_seen :: "string list \<Rightarrow> string list \<Rightarrow> string list" where
  "unique_seen seen [] = []"
| "unique_seen seen (t # ts) = (if t \<in> set seen then unique_seen seen ts else t # unique_seen (t # seen) ts)"

definition resolveBulkDeleteTargets ::
  "(string \<Rightarrow> string + regexp) \<Rightarrow> 's Service \<Rightarrow> string list \<Rightarrow> string \<Rightarrow> ('s, string list) eff" where
  "resolveBulkDeleteTargets compile svc topics pattern =
    (if pattern \<noteq> [] then
       (case compile pattern of
          Inl msg \<Rightarrow> fail (policyErr InvalidRegex msg)
        | Inr re \<Rightarrow> onOk (ListTopics (svc_admin svc)) (\<lambda>all.
            ret (sort (filter re (map TopicSummary_Name all)))))
     else if topics = [] then fail (policyErr Validation ''topics or pattern is required'')
     else ret (sort (unique_seen [] topics)))"

definition PlanBulkDelete ::
  "(string \<Rightarrow> string + regexp) \<Rightarrow> 's Service \<Rightarrow> string list \<Rightarrow> string \<Rightarrow> ('s, BulkDeletePlan) eff" where
  "PlanBulkDelete compile svc topics pattern =
    onOk (resolveBulkDeleteTargets compile svc topics pattern) (\<lambda>resolved.
      ret \<lparr>BDP_Topics = resolved, BDP_PlanToken = Token ''T8'' resolved\<rparr>)"

fun bulk_items :: "int64 \<Rightarrow> TopicDeleteResult list \<Rightarrow> BulkItemResult list \<times> BulkSummary
    \<Rightarrow> BulkItemResult list \<times> BulkSummary" where
  "bulk_items i [] acc = acc"
| "bulk_items i (r # rs) acc =
    (case TopicDeleteResult_Err r of
       Some err \<Rightarrow> bulk_items (i + 1) rs (fst acc @ [failed_item i err], count_failed (snd acc))
     | None \<Rightarrow> bulk_items (i + 1) rs (fst acc @ [succeeded_item i], count_succeeded (snd acc)))"

definition ApplyBulkDelete :: "'s Service \<Rightarrow> BulkDeletePlan \<Rightarrow> ('s, BulkResult) eff" where
  "ApplyBulkDelete svc plan =
    onOk (DeleteTopics (svc_admin svc) (BDP_Topics plan)) (\<lambda>results.
      let acc = bulk_items 0 results ([], \<lparr>BulkSummary_Total = int (length results),
            BulkSummary_Succeeded = 0, BulkSummary_Failed = 0\<rparr>)
      in ret \<lparr>BulkResult_Items = fst acc, BulkResult_Summary = snd acc\<rparr>)"

definition BulkDelete ::
  "(string \<Rightarrow> string + regexp) \<Rightarrow> 's Service \<Rightarrow> Caller \<Rightarrow> string list \<Rightarrow> string \<Rightarrow> string \<Rightarrow> bool
   \<Rightarrow> ('s, (BulkDeletePlan, BulkResult) DResult \<times> Err) eff" where
  "BulkDelete compile svc caller topics pattern confirm dryRun =
    destructive_cmd svc ''topic'' ''T8'' caller [] BulkDeletePlan_ops confirm dryRun
      (PlanBulkDelete compile svc topics pattern) (ApplyBulkDelete svc)"

section \<open>T11 and T12: deleting records\<close>

record PartitionWatermark =
  PW_ID :: int32
  PW_LowWatermark :: int64

record PartitionDeleteRecordsDetail =
  PDR_Partition :: int32
  PDR_BeginOffset :: int64
  PDR_TruncateTo :: int64
  PDR_ApproxRecordsAffected :: int64

record DeleteRecordsPlan =
  DRP_Topic :: string
  DRP_Partitions :: "PartitionDeleteRecordsDetail list"

definition PartitionDeleteRecordsDetail_any :: "PartitionDeleteRecordsDetail \<Rightarrow> any" where
  "PartitionDeleteRecordsDetail_any d = AStruct ''PartitionDeleteRecordsDetail''
     [(''Partition'', AInt (PDR_Partition d)), (''BeginOffset'', AInt (PDR_BeginOffset d)),
      (''TruncateTo'', AInt (PDR_TruncateTo d)), (''ApproxRecordsAffected'', AInt (PDR_ApproxRecordsAffected d))]"

definition DeleteRecordsPlan_ops :: "DeleteRecordsPlan PlanOps" where
  "DeleteRecordsPlan_ops = \<lparr>ConfirmTarget = DRP_Topic,
     plan_any = (\<lambda>p. AStruct ''DeleteRecordsPlan'' [(''Topic'', AStr (DRP_Topic p)),
        (''Partitions'', AList (map PartitionDeleteRecordsDetail_any (DRP_Partitions p)))])\<rparr>"

text \<open>The loop over the requested partitions, in the order the range statement visits them.\<close>

fun truncate_details ::
  "int32 set \<Rightarrow> (int32 \<times> int64) list \<Rightarrow> (int32 \<times> int64) list \<Rightarrow> (int32 \<times> int64) list
   \<Rightarrow> error + PartitionDeleteRecordsDetail list" where
  "truncate_details ex begs ends [] = Inr []"
| "truncate_details ex begs ends ((p, truncateTo) # rest) =
    (if p \<notin> ex then Inl (policyErr Validation ''unknown partition'')
     else if truncateTo > mget ends 0 p
       then Inl (policyErr Validation (''truncateTo exceeds the partition'' @ [char_of (39::nat)] @ ''s end offset''))
     else (case truncate_details ex begs ends rest of
         Inl err \<Rightarrow> Inl err
       | Inr ds \<Rightarrow> Inr (\<lparr>PDR_Partition = p, PDR_BeginOffset = mget begs 0 p, PDR_TruncateTo = truncateTo,
            PDR_ApproxRecordsAffected = max 0 (wrap64 (truncateTo - mget begs 0 p))\<rparr> # ds)))"

definition PlanDeleteRecords :: "'s Service \<Rightarrow> string \<Rightarrow> (int32 \<times> int64) list \<Rightarrow> ('s, DeleteRecordsPlan) eff" where
  "PlanDeleteRecords svc topicName offsets =
    onOk (DescribeTopics (svc_admin svc) topicName) (\<lambda>t.
    onOk (ListStartOffsets (svc_admin svc) topicName) (\<lambda>begs.
    onOk (ListEndOffsets (svc_admin svc) topicName) (\<lambda>ends.
      case truncate_details (set (map Partition_ID (Topic_Partitions t))) begs ends offsets of
        Inl err \<Rightarrow> fail err
      | Inr ds \<Rightarrow> ret \<lparr>DRP_Topic = topicName, DRP_Partitions = sort_key PDR_Partition ds\<rparr>)))"

definition PlanPurge :: "'s Service \<Rightarrow> string \<Rightarrow> ('s, DeleteRecordsPlan) eff" where
  "PlanPurge svc topicName =
    onOk (DescribeTopics (svc_admin svc) topicName) (\<lambda>t.
    onOk (ListEndOffsets (svc_admin svc) topicName) (\<lambda>ends.
      PlanDeleteRecords svc topicName
        (fold (\<lambda>p. mput (Partition_ID p) (mget ends 0 (Partition_ID p))) (Topic_Partitions t) [])))"

definition ApplyDeleteRecords :: "'s Service \<Rightarrow> DeleteRecordsPlan \<Rightarrow> ('s, PartitionWatermark list) eff" where
  "ApplyDeleteRecords svc plan =
    (let truncateTo = fold (\<lambda>p. mput (PDR_Partition p) (PDR_TruncateTo p)) (DRP_Partitions plan) []
     in onOk (DeleteRecords (svc_admin svc) (DRP_Topic plan) truncateTo) (\<lambda>results.
          ret (sort_key PW_ID (map (\<lambda>r. \<lparr>PW_ID = PartitionLowWatermark_Partition r,
            PW_LowWatermark = PartitionLowWatermark_LowWatermark r\<rparr>) results))))"

definition topic_DeleteRecords ::
  "'s Service \<Rightarrow> Caller \<Rightarrow> string \<Rightarrow> (int32 \<times> int64) list \<Rightarrow> string \<Rightarrow> bool
   \<Rightarrow> ('s, (DeleteRecordsPlan, PartitionWatermark list) DResult \<times> Err) eff" where
  "topic_DeleteRecords svc caller topicName offsets confirm dryRun =
    destructive_cmd svc ''topic'' ''T11'' caller topicName DeleteRecordsPlan_ops confirm dryRun
      (PlanDeleteRecords svc topicName offsets) (ApplyDeleteRecords svc)"

definition topic_Purge ::
  "'s Service \<Rightarrow> Caller \<Rightarrow> string \<Rightarrow> string \<Rightarrow> bool
   \<Rightarrow> ('s, (DeleteRecordsPlan, PartitionWatermark list) DResult \<times> Err) eff" where
  "topic_Purge svc caller topicName confirm dryRun =
    destructive_cmd svc ''topic'' ''T12'' caller topicName DeleteRecordsPlan_ops confirm dryRun
      (PlanPurge svc topicName) (ApplyDeleteRecords svc)"

section \<open>Planning and reading change nothing\<close>

context service_env
begin

lemma quiet_topic_List: "quiet view (topic_List compile svc params)"
  unfolding topic_List_def Let_def
  by (intro quiet_intros read_ListTopics)

lemma quiet_topic_Describe: "quiet view (topic_Describe svc name)"
  unfolding topic_Describe_def Let_def by (intro quiet_intros reads)

lemma quiet_topic_Size: "quiet view (topic_Size svc name)"
  unfolding topic_Size_def Let_def by (intro quiet_intros reads)

lemma quiet_topic_CountInWindow: "quiet view (topic_CountInWindow svc name fm tm)"
  unfolding topic_CountInWindow_def Let_def by (intro quiet_intros reads)

lemma quiet_PlanAlterConfig: "quiet view (PlanAlterConfig svc t sets resets)"
  unfolding PlanAlterConfig_def by (intro quiet_intros reads)

lemma quiet_PlanAddPartitions: "quiet view (PlanAddPartitions svc t n)"
  unfolding PlanAddPartitions_def Let_def by (intro quiet_intros reads)

lemma quiet_PlanDelete: "quiet view (PlanDelete svc t)"
  unfolding PlanDelete_def by (intro quiet_intros quiet_topic_Describe)

lemma quiet_PlanBulkDelete: "quiet view (PlanBulkDelete compile svc ts pat)"
  unfolding PlanBulkDelete_def resolveBulkDeleteTargets_def by (intro quiet_intros reads)

lemma quiet_PlanDeleteRecords: "quiet view (PlanDeleteRecords svc t offsets)"
  unfolding PlanDeleteRecords_def by (intro quiet_intros reads)

lemma quiet_PlanPurge: "quiet view (PlanPurge svc t)"
  unfolding PlanPurge_def by (intro quiet_intros reads quiet_PlanDeleteRecords)

lemmas quiet_topic_plans =
  quiet_PlanAlterConfig quiet_PlanAddPartitions quiet_PlanDelete quiet_PlanBulkDelete
  quiet_PlanDeleteRecords quiet_PlanPurge

lemma quiet_createOne: "quiet view (createOne svc spec True)"
  unfolding createOne_def by (intro quiet_intros reads)

lemma quiet_service_result: "quiet view (service_result svc att oc code)"
  unfolding service_result_def resultEventOutcome_def
  by (intro quiet_intros quiet_Result now_quiet)

lemma quiet_topic_checkGate: "quiet view (topic_checkGate svc caller c topic)"
  unfolding topic_checkGate_def topic_newEvent_def
  by (intro quiet_intros quiet_new_event quiet_CheckAudited)

lemma quiet_topic_Create_dry: "quiet view (topic_Create svc caller spec True)"
  unfolding topic_Create_def topic_newEvent_def
  by (simp, intro quiet_intros quiet_topic_checkGate quiet_createOne quiet_new_event quiet_service_result)

text \<open>A rejected creation stops at the gate.\<close>

lemma rejected_checkGate:
  assumes "gate (svc_runner svc) caller (desc_of c) = Some err"
  shows "\<exists>t. topic_checkGate svc caller c topic s = (Err err, t) \<and> view t = view s"
proof -
  have q: "quiet view (topic_checkGate svc caller c topic)" by (rule quiet_topic_checkGate)
  let ?ev = "event_at ''topic'' (desc_of c) caller topic (fst (svc_newEventID svc s))
      (fst (svc_now svc (snd (svc_newEventID svc s))))"
  let ?s = "snd (svc_now svc (snd (svc_newEventID svc s)))"
  have "fst (Result (svc_auditor svc) (rejected_event caller (desc_of c) ?ev err) ?s) = Ok ()"
    by (rule Result_Ok)
  then have "fst (topic_checkGate svc caller c topic s) = Err err"
    by (auto simp: topic_checkGate_def topic_newEvent_def onOk_def new_event_run CheckAudited_reject [OF assms]
        fail_run split: prod.splits res.splits)
  with q show ?thesis by (metis prod.collapse quiet_def)
qed

lemma quiet_topic_CreateBulk_rejected:
  assumes "gate (svc_runner svc) caller (desc_of ''T6'') = Some err"
  shows "quiet view (topic_CreateBulk svc caller params)"
  unfolding quiet_def
proof
  fix s
  obtain t where "topic_checkGate svc caller ''T6'' [] s = (Err err, t)" "view t = view s"
    using rejected_checkGate [OF assms] by blast
  then show "view (snd (topic_CreateBulk svc caller params s)) = view s"
    by (simp add: topic_CreateBulk_def onOk_def)
qed

lemma quiet_topic_Create_rejected:
  assumes "gate (svc_runner svc) caller (desc_of ''T5'') = Some err"
  shows "quiet view (topic_Create svc caller spec dryRun)"
  unfolding quiet_def
proof
  fix s
  obtain t where "topic_checkGate svc caller ''T5'' (TopicSpec_Name spec) s = (Err err, t)" "view t = view s"
    using rejected_checkGate [OF assms] by blast
  then show "view (snd (topic_Create svc caller spec dryRun s)) = view s"
    by (simp add: topic_Create_def onOk_def)
qed

end

section \<open>Pagination\<close>

lemma page_slice_in_range:
  assumes "0 < k" "0 < n" "n * k < 4611686018427387904" "int (length xs) < 4611686018427387904"
  shows "page_slice n k xs = Some (take (nat k) (drop (nat ((n - 1) * k)) xs))"
proof -
  have nn: "0 \<le> (n - 1) * k" using assms(1,2) by simp
  have le: "(n - 1) * k + k = n * k" by (simp add: algebra_simps)
  have w: "wrap64 ((n - 1) * k) = (n - 1) * k" "wrap64 ((n - 1) * k + k) = (n - 1) * k + k"
    by (intro wrap64_id; unfold in_int64_def; use nn le assms in linarith)+
  show ?thesis
  proof (cases "(n - 1) * k \<ge> int (length xs)")
    case True
    then show ?thesis using nn by (simp add: page_slice_def w Let_def)
  next
    case False
    let ?s = "(n - 1) * k"
    have "page_slice n k xs = Some (take (nat (min (?s + k) (int (length xs)) - ?s)) (drop (nat ?s) xs))"
      using False nn assms(1) by (simp add: page_slice_def w Let_def min_def)
    also have "take (nat (min (?s + k) (int (length xs)) - ?s)) (drop (nat ?s) xs) = take (nat k) (drop (nat ?s) xs)"
    proof (cases "?s + k \<le> int (length xs)")
      case True
      then show ?thesis by (simp add: min_def)
    next
      case gt: False
      then have "length (drop (nat ?s) xs) \<le> nat k"
        "length (drop (nat ?s) xs) \<le> nat (int (length xs) - ?s)"
        using False nn by auto
      with gt show ?thesis by (simp add: min_def)
    qed
    finally show ?thesis .
  qed
qed

lemma concat_pages:
  "concat (map (\<lambda>i. take k (drop (i * k) xs)) [0..<m]) = take (m * k) xs"
proof (induction m)
  case (Suc m)
  have "take (m * k) xs @ take k (drop (m * k) xs) = take (Suc m * k) xs"
    by (metis add.commute mult_Suc take_add)
  with Suc show ?case by simp
qed simp

section \<open>Truncation plans\<close>

definition detail_for :: "(int32 \<times> int64) list \<Rightarrow> int32 \<times> int64 \<Rightarrow> PartitionDeleteRecordsDetail" where
  "detail_for begs pt = \<lparr>PDR_Partition = fst pt, PDR_BeginOffset = mget begs 0 (fst pt),
     PDR_TruncateTo = snd pt, PDR_ApproxRecordsAffected = max 0 (wrap64 (snd pt - mget begs 0 (fst pt)))\<rparr>"

lemma truncate_details_valid:
  "\<forall>pt \<in> set offsets. fst pt \<in> ex \<and> snd pt \<le> mget ends 0 (fst pt) \<Longrightarrow>
     truncate_details ex begs ends offsets = Inr (map (detail_for begs) offsets)"
  by (induction ex begs ends offsets rule: truncate_details.induct) (auto simp: detail_for_def)

lemma truncate_details_InrD:
  "truncate_details ex begs ends offsets = Inr ds \<Longrightarrow>
     \<forall>pt \<in> set offsets. fst pt \<in> ex \<and> snd pt \<le> mget ends 0 (fst pt)"
  by (induction ex begs ends offsets arbitrary: ds rule: truncate_details.induct)
    (auto split: sum.splits if_splits)

lemma truncate_details_Inr:
  "truncate_details ex begs ends offsets = Inr ds \<longleftrightarrow>
     (\<forall>pt \<in> set offsets. fst pt \<in> ex \<and> snd pt \<le> mget ends 0 (fst pt)) \<and> ds = map (detail_for begs) offsets"
  using truncate_details_valid [of offsets ex ends begs] truncate_details_InrD [of ex begs ends offsets ds]
  by auto

lemma truncate_details_Inl:
  "truncate_details ex begs ends offsets = Inl err \<Longrightarrow> CodeOf err = Some Validation"
  by (induction offsets) (auto split: sum.splits prod.splits if_splits)

section \<open>Sizes\<close>

lemma sum_list_put:
  fixes m :: "('k \<times> 'v list) list" and g :: "'v \<Rightarrow> int"
  assumes "wf_map m"
  shows "(\<Sum>(i, rs) \<leftarrow> mput k (mget m [] k @ [r]) m. \<Sum>x \<leftarrow> rs. g x)
     = (\<Sum>(i, rs) \<leftarrow> m. \<Sum>x \<leftarrow> rs. g x) + g r"
  using assms
proof (induction m)
  case (Cons p m)
  obtain i rs where p: "p = (i, rs)" by fastforce
  show ?case
  proof (cases "i = k")
    case True
    then show ?thesis by (simp add: p mget_def)
  next
    case False
    with Cons p show ?thesis by (simp add: mget_def wf_map_def)
  qed
qed (simp add: mget_def)

lemma wf_add_replica: "wf_map m \<Longrightarrow> wf_map (add_replica e m)"
  by (simp add: add_replica_def)

lemma add_replicas_sum:
  "wf_map m \<Longrightarrow>
     (\<Sum>(i, rs) \<leftarrow> fold add_replica es m. \<Sum>x \<leftarrow> rs. RS_Bytes x)
       = (\<Sum>(i, rs) \<leftarrow> m. \<Sum>x \<leftarrow> rs. RS_Bytes x) + (\<Sum>e \<leftarrow> es. LogDirReplica_Bytes e)"
proof (induction es arbitrary: m)
  case (Cons e es)
  from Cons.IH [OF wf_add_replica [OF Cons.prems]] show ?case
    by (simp add: add_replica_def sum_list_put [OF Cons.prems])
qed simp

lemma sum_list_sort_key: "(\<Sum>x \<leftarrow> sort_key f xs. g x) = (\<Sum>x \<leftarrow> xs. g x :: int)"
  by (metis mset_map mset_sort sum_mset_sum_list)

lemma wrap64_sum_list_map: "wrap64 (\<Sum>x \<leftarrow> xs. wrap64 (g x)) = wrap64 (\<Sum>x \<leftarrow> xs. g x)"
proof (induction xs)
  case (Cons x xs)
  have "wrap64 (wrap64 (g x) + (\<Sum>x \<leftarrow> xs. wrap64 (g x))) = wrap64 (g x + wrap64 (\<Sum>x \<leftarrow> xs. wrap64 (g x)))"
    by simp
  then show ?case by (simp add: Cons)
qed simp

end
