(* ===== verification/GroupService.thy ===== *)
theory GroupService
  imports ServiceBase
begin

text \<open>
  The consumer-group commands G1 to G7 (\<^verbatim>\<open>internal/service/group\<close>): listing, description with lag, the
  reverse lookup from a topic, and the destructive commands that reset, delete, evict and clone.
\<close>

section \<open>G1: listing\<close>

record GroupListItem =
  GLI_ID :: string
  GLI_State :: string
  GLI_ProtocolType :: string
  GLI_MemberCount :: int64

record GroupListParams =
  GLP_State :: string
  GLP_Page :: int64
  GLP_PageSize :: int64

record GroupListPage =
  GP_Page :: int64
  GP_PageSize :: int64
  GP_Total :: int64

definition group_list_item :: "GroupSummary \<Rightarrow> GroupListItem" where
  "group_list_item g = \<lparr>GLI_ID = GroupSummary_ID g, GLI_State = GroupSummary_State g,
     GLI_ProtocolType = GroupSummary_ProtocolType g, GLI_MemberCount = GroupSummary_MemberCount g\<rparr>"

text \<open>The arithmetic is that of \<open>int\<close>; \<open>make([]ListItem, end-start)\<close> panics when \<open>end < start\<close>.\<close>

definition group_List :: "'s Service \<Rightarrow> GroupListParams \<Rightarrow> ('s, GroupListItem list \<times> GroupListPage) eff" where
  "group_List svc params =
    (let states = (if GLP_State params \<noteq> [] then [GLP_State params] else [])
     in onOk (ListGroups (svc_admin svc) states) (\<lambda>listed.
       let groups = sort_key GroupSummary_ID listed;
           tot = int (length groups);
           page = \<lparr>GP_Page = GLP_Page params, GP_PageSize = GLP_PageSize params, GP_Total = tot\<rparr>;
           start = wrap64 ((GLP_Page params - 1) * GLP_PageSize params)
       in if start < 0 \<or> start \<ge> tot then ret ([], page)
          else (let stop = min (wrap64 (start + GLP_PageSize params)) tot
                in if stop < start then panic
                   else ret (map group_list_item (take (nat (stop - start)) (drop (nat start) groups)), page))))"

section \<open>G2: description\<close>

record MemberDetail =
  MD_MemberID :: string
  MD_ClientID :: string
  MD_Host :: string
  MD_Assignments :: "TopicPartition list"

record OffsetDetail =
  OD_Topic :: string
  OD_Partition :: int32
  OD_Committed :: int64
  OD_End :: int64
  OD_Lag :: int64

record GroupDescribe =
  GD_ID :: string
  GD_State :: string
  GD_ProtocolType :: string
  GD_CoordinatorID :: int32
  GD_Members :: "MemberDetail list"
  GD_Offsets :: "OffsetDetail list"
  GD_TotalLag :: int64

definition lag :: "int64 \<Rightarrow> int64 \<Rightarrow> int64" where
  "lag endOffset committed = max (wrap64 (endOffset - committed)) 0"

definition offset_detail ::
  "(string \<times> (int32 \<times> int64) list) list \<Rightarrow> (TopicPartition \<times> int64) list \<Rightarrow> TopicPartition \<Rightarrow> OffsetDetail" where
  "offset_detail endByTopic committed tp =
    (let e = mget (mget endByTopic [] (fst tp)) 0 (snd tp); c = mget committed 0 tp
     in \<lparr>OD_Topic = fst tp, OD_Partition = snd tp, OD_Committed = c, OD_End = e, OD_Lag = lag e c\<rparr>)"

text \<open>One \<open>ListEndOffsets\<close> call per distinct topic of the committed offsets.\<close>

definition fetch_ends ::
  "'s Service \<Rightarrow> TopicPartition list \<Rightarrow> ('s, (string \<times> (int32 \<times> int64) list) list) eff" where
  "fetch_ends svc tps = forEach tps (\<lambda>tp endByTopic.
     if mhas endByTopic (fst tp) then ret endByTopic
     else onOk (ListEndOffsets (svc_admin svc) (fst tp)) (\<lambda>e. ret (mput (fst tp) e endByTopic))) []"

definition resolveOffsetDetails ::
  "'s Service \<Rightarrow> (TopicPartition \<times> int64) list \<Rightarrow> ('s, OffsetDetail list \<times> int64) eff" where
  "resolveOffsetDetails svc committed =
    onOk (fetch_ends svc (mkeys committed)) (\<lambda>endByTopic.
      let out = map (offset_detail endByTopic committed) (sort (mkeys committed))
      in ret (out, sum64 (map OD_Lag out)))"

definition member_detail :: "GroupMember \<Rightarrow> MemberDetail" where
  "member_detail m = \<lparr>MD_MemberID = GroupMember_MemberID m, MD_ClientID = GroupMember_ClientID m,
     MD_Host = GroupMember_Host m, MD_Assignments = GroupMember_Assignments m\<rparr>"

definition group_Describe :: "'s Service \<Rightarrow> string \<Rightarrow> ('s, GroupDescribe) eff" where
  "group_Describe svc groupID =
    onOk (DescribeGroups (svc_admin svc) [groupID]) (\<lambda>groups.
    onOk (first_of groups) (\<lambda>g.
    onOk (FetchGroupOffsets (svc_admin svc) groupID) (\<lambda>committed.
    onOk (resolveOffsetDetails svc committed) (\<lambda>(offsets, totalLag).
      ret \<lparr>GD_ID = Group_ID g, GD_State = Group_State g, GD_ProtocolType = Group_ProtocolType g,
           GD_CoordinatorID = Group_CoordinatorID g, GD_Members = map member_detail (Group_Members g),
           GD_Offsets = offsets, GD_TotalLag = totalLag\<rparr>))))"

section \<open>G3: the consumers of a topic\<close>

record TopicGroupPartition =
  TGP_Partition :: int32
  TGP_Committed :: int64
  TGP_End :: int64
  TGP_Lag :: int64

record TopicGroup =
  TG_GroupID :: string
  TG_State :: string
  TG_TotalLag :: int64
  TG_Partitions :: "TopicGroupPartition list"

fun consumed_partitions ::
  "string \<Rightarrow> (TopicPartition \<times> int64) list \<Rightarrow> (int32 \<times> int64) list \<Rightarrow> TopicGroupPartition list" where
  "consumed_partitions topic committed [] = []"
| "consumed_partitions topic committed ((p, e) # rest) =
    (case map_of committed (topic, p) of
       None \<Rightarrow> consumed_partitions topic committed rest
     | Some c \<Rightarrow> \<lparr>TGP_Partition = p, TGP_Committed = c, TGP_End = e, TGP_Lag = lag e c\<rparr>
         # consumed_partitions topic committed rest)"

definition ConsumersOfTopic :: "'s Service \<Rightarrow> string \<Rightarrow> ('s, TopicGroup list) eff" where
  "ConsumersOfTopic svc topic =
    onOk (ListEndOffsets (svc_admin svc) topic) (\<lambda>ends.
    onOk (DescribeGroups (svc_admin svc) []) (\<lambda>groups.
    onOk (forEach groups (\<lambda>g out.
      onOk (FetchGroupOffsets (svc_admin svc) (Group_ID g)) (\<lambda>committed.
        let ps = consumed_partitions topic committed ends
        in ret (if ps = [] then out
                else out @ [\<lparr>TG_GroupID = Group_ID g, TG_State = Group_State g,
                  TG_TotalLag = sum64 (map TGP_Lag ps), TG_Partitions = sort_key TGP_Partition ps\<rparr>]))) [])
      (\<lambda>out. ret (sort_key TG_GroupID out))))"

text \<open>Whether the group exists, and how many members it has: a missing group is not an error.\<close>

definition groupState :: "'s Service \<Rightarrow> string \<Rightarrow> ('s, bool \<times> int64) eff" where
  "groupState svc groupID =
    attempt (DescribeGroups (svc_admin svc) [groupID]) (\<lambda>r. case r of
      Inl err \<Rightarrow> if IsKind err KindNotFound then ret (False, 0) else fail err
    | Inr groups \<Rightarrow> onOk (first_of groups) (\<lambda>g. ret (True, int (length (Group_Members g)))))"

definition group_newEvent :: "'s Service \<Rightarrow> Caller \<Rightarrow> string \<Rightarrow> string \<Rightarrow> ('s, Event) eff" where
  "group_newEvent svc caller commandID groupID = new_event svc ''group'' caller commandID groupID"

definition groupActive :: error where
  "groupActive = kafkaErr KindGroupActive ''group''"

section \<open>G4: resetting offsets\<close>

record ResetTarget =
  RT_Mode :: string
  RT_Offset :: int64
  RT_TimestampMs :: int64
  RT_Offsets :: "(TopicPartition \<times> int64) list"

record ResetOffsetDetail =
  ROD_Topic :: string
  ROD_Partition :: int32
  ROD_Before :: int64
  ROD_After :: int64

record ResetPlan =
  RP_GroupID :: string
  RP_Offsets :: "ResetOffsetDetail list"

definition ResetOffsetDetail_any :: "ResetOffsetDetail \<Rightarrow> any" where
  "ResetOffsetDetail_any d = AStruct ''ResetOffsetDetail''
     [(''Topic'', AStr (ROD_Topic d)), (''Partition'', AInt (ROD_Partition d)),
      (''Before'', AInt (ROD_Before d)), (''After'', AInt (ROD_After d))]"

definition ResetPlan_ops :: "ResetPlan PlanOps" where
  "ResetPlan_ops = \<lparr>ConfirmTarget = RP_GroupID,
     plan_any = (\<lambda>p. AStruct ''ResetPlan'' [(''GroupID'', AStr (RP_GroupID p)),
        (''Offsets'', AList (map ResetOffsetDetail_any (RP_Offsets p)))])\<rparr>"

definition resolveScopeFromTopics :: "'s Service \<Rightarrow> string list \<Rightarrow> ('s, TopicPartition list) eff" where
  "resolveScopeFromTopics svc topics =
    forEach topics (\<lambda>topic tps.
      onOk (ListEndOffsets (svc_admin svc) topic) (\<lambda>e. ret (tps @ map (Pair topic) (mkeys e)))) []"

definition resolveResetScope ::
  "'s Service \<Rightarrow> ResetTarget \<Rightarrow> string list \<Rightarrow> (TopicPartition \<times> int64) list \<Rightarrow> ('s, TopicPartition list) eff" where
  "resolveResetScope svc tgt topics committed =
    (if RT_Offsets tgt \<noteq> [] then ret (mkeys (RT_Offsets tgt))
     else if topics \<noteq> [] then resolveScopeFromTopics svc topics
     else if committed \<noteq> [] then ret (mkeys committed)
     else fail (policyErr Validation
       ''topics or an explicit offsets map is required to reset a group with no committed offsets''))"

definition resolveResetTargetsForTopic ::
  "'s Service \<Rightarrow> string \<Rightarrow> ResetTarget \<Rightarrow> ('s, (int32 \<times> int64) list) eff" where
  "resolveResetTargetsForTopic svc topic tgt =
    (if RT_Offsets tgt \<noteq> [] then ret []
     else if RT_Mode tgt = ''earliest'' then ListStartOffsets (svc_admin svc) topic
     else if RT_Mode tgt = ''latest'' then ListEndOffsets (svc_admin svc) topic
     else if RT_Mode tgt = ''offset'' then
       onOk (ListEndOffsets (svc_admin svc) topic) (\<lambda>e. ret (map (\<lambda>p. (p, RT_Offset tgt)) (mkeys e)))
     else if RT_Mode tgt = ''timestamp'' then ListOffsetsAfterMilli (svc_admin svc) topic (RT_TimestampMs tgt)
     else fail (policyErr Validation ''target.mode must be one of earliest, latest, offset, timestamp''))"

text \<open>
  The keys of \<open>byTopic\<close>, in the order of their first partition; and the new value of every partition
  of every named topic.
\<close>

definition byTopic_keys :: "TopicPartition list \<Rightarrow> string list" where
  "byTopic_keys tps = mkeys (fold (\<lambda>tp m. mput (fst tp) (mget m [] (fst tp) @ [snd tp]) m) tps [])"

definition resolve_after ::
  "'s Service \<Rightarrow> ResetTarget \<Rightarrow> string list \<Rightarrow> ('s, (TopicPartition \<times> int64) list) eff" where
  "resolve_after svc tgt topics =
    forEach topics (\<lambda>topic aft.
      onOk (resolveResetTargetsForTopic svc topic tgt) (\<lambda>resolved.
        ret (fold (\<lambda>(p, v). mput (topic, p) v) resolved aft))) []"

definition reset_detail ::
  "(TopicPartition \<times> int64) list \<Rightarrow> (TopicPartition \<times> int64) list \<Rightarrow> (TopicPartition \<times> int64) list
   \<Rightarrow> TopicPartition \<Rightarrow> ResetOffsetDetail" where
  "reset_detail aft explicit committed tp =
    \<lparr>ROD_Topic = fst tp, ROD_Partition = snd tp, ROD_Before = mget committed 0 tp,
     ROD_After = (case map_of aft tp of Some v \<Rightarrow> v | None \<Rightarrow> mget explicit 0 tp)\<rparr>"

definition PlanReset :: "'s Service \<Rightarrow> string \<Rightarrow> ResetTarget \<Rightarrow> string list \<Rightarrow> ('s, ResetPlan) eff" where
  "PlanReset svc groupID tgt topics =
    onOk (groupState svc groupID) (\<lambda>(ex, memberCount).
    if memberCount > 0 then fail groupActive else
    onOk (if ex then FetchGroupOffsets (svc_admin svc) groupID else ret []) (\<lambda>committed.
    onOk (resolveResetScope svc tgt topics committed) (\<lambda>tps.
    onOk (resolve_after svc tgt (byTopic_keys tps)) (\<lambda>aft.
      ret \<lparr>RP_GroupID = groupID,
        RP_Offsets = sort_key (\<lambda>d. (ROD_Topic d, ROD_Partition d))
          (map (reset_detail aft (RT_Offsets tgt) committed) tps)\<rparr>))))"

record ResetResult =
  RR_GroupID :: string
  RR_Offsets :: "ResetOffsetDetail list"

definition ApplyReset :: "'s Service \<Rightarrow> ResetPlan \<Rightarrow> ('s, ResetResult) eff" where
  "ApplyReset svc plan =
    (let offsets = fold (\<lambda>d. mput (ROD_Topic d, ROD_Partition d) (ROD_After d)) (RP_Offsets plan) []
     in onOk (CommitGroupOffsets (svc_admin svc) (RP_GroupID plan) offsets) (\<lambda>_.
          ret \<lparr>RR_GroupID = RP_GroupID plan, RR_Offsets = RP_Offsets plan\<rparr>))"

definition group_Reset ::
  "'s Service \<Rightarrow> Caller \<Rightarrow> string \<Rightarrow> ResetTarget \<Rightarrow> string list \<Rightarrow> string \<Rightarrow> bool
   \<Rightarrow> ('s, (ResetPlan, ResetResult) DResult \<times> Err) eff" where
  "group_Reset svc caller groupID tgt topics confirm dryRun =
    destructive_cmd svc ''group'' ''G4'' caller groupID ResetPlan_ops confirm dryRun
      (PlanReset svc groupID tgt topics) (ApplyReset svc)"

section \<open>G5: deleting a group\<close>

record DeleteGroupPlan =
  DGP_GroupID :: string
  DGP_CommittedOffsets :: int64

definition DeleteGroupPlan_ops :: "DeleteGroupPlan PlanOps" where
  "DeleteGroupPlan_ops = \<lparr>ConfirmTarget = DGP_GroupID,
     plan_any = (\<lambda>p. AStruct ''DeleteGroupPlan'' [(''GroupID'', AStr (DGP_GroupID p)),
        (''CommittedOffsets'', AInt (DGP_CommittedOffsets p))])\<rparr>"

definition PlanDeleteGroup :: "'s Service \<Rightarrow> string \<Rightarrow> ('s, DeleteGroupPlan) eff" where
  "PlanDeleteGroup svc groupID =
    onOk (groupState svc groupID) (\<lambda>(ex, memberCount).
    if \<not> ex then fail (kafkaErr KindNotFound ''group'')
    else if memberCount > 0 then fail groupActive else
    onOk (FetchGroupOffsets (svc_admin svc) groupID) (\<lambda>committed.
      ret \<lparr>DGP_GroupID = groupID, DGP_CommittedOffsets = int (length committed)\<rparr>))"

definition ApplyDeleteGroup :: "'s Service \<Rightarrow> DeleteGroupPlan \<Rightarrow> ('s, string) eff" where
  "ApplyDeleteGroup svc plan =
    onOk (DeleteGroups (svc_admin svc) [DGP_GroupID plan]) (\<lambda>results.
    onOk (first_of results) (\<lambda>r.
      case GroupDeleteResult_Err r of Some err \<Rightarrow> fail err | None \<Rightarrow> ret (DGP_GroupID plan)))"

definition group_Delete ::
  "'s Service \<Rightarrow> Caller \<Rightarrow> string \<Rightarrow> string \<Rightarrow> bool \<Rightarrow> ('s, (DeleteGroupPlan, string) DResult \<times> Err) eff" where
  "group_Delete svc caller groupID confirm dryRun =
    destructive_cmd svc ''group'' ''G5'' caller groupID DeleteGroupPlan_ops confirm dryRun
      (PlanDeleteGroup svc groupID) (ApplyDeleteGroup svc)"

section \<open>G6: removing members\<close>

record RemoveMembersPlan =
  RMP_GroupID :: string
  RMP_Members :: "string list"

definition RemoveMembersPlan_ops :: "RemoveMembersPlan PlanOps" where
  "RemoveMembersPlan_ops = \<lparr>ConfirmTarget = RMP_GroupID,
     plan_any = (\<lambda>p. AStruct ''RemoveMembersPlan'' [(''GroupID'', AStr (RMP_GroupID p)),
        (''Members'', AList (map AStr (RMP_Members p)))])\<rparr>"

definition PlanRemoveMembers :: "'s Service \<Rightarrow> string \<Rightarrow> string list \<Rightarrow> ('s, RemoveMembersPlan) eff" where
  "PlanRemoveMembers svc groupID members =
    (if members \<noteq> [] then ret \<lparr>RMP_GroupID = groupID, RMP_Members = members\<rparr>
     else onOk (DescribeGroups (svc_admin svc) [groupID]) (\<lambda>groups.
          onOk (first_of groups) (\<lambda>g.
            ret \<lparr>RMP_GroupID = groupID, RMP_Members = sort (map GroupMember_MemberID (Group_Members g))\<rparr>)))"

definition ApplyRemoveMembers :: "'s Service \<Rightarrow> RemoveMembersPlan \<Rightarrow> ('s, string list) eff" where
  "ApplyRemoveMembers svc plan =
    onOk (LeaveGroup (svc_admin svc) (RMP_GroupID plan) (RMP_Members plan)) (\<lambda>results.
      ret (map LeaveGroupResult_MemberID (filter (\<lambda>r. LeaveGroupResult_Err r = None) results)))"

definition RemoveMembers ::
  "'s Service \<Rightarrow> Caller \<Rightarrow> string \<Rightarrow> string list \<Rightarrow> string \<Rightarrow> bool
   \<Rightarrow> ('s, (RemoveMembersPlan, string list) DResult \<times> Err) eff" where
  "RemoveMembers svc caller groupID members confirm dryRun =
    destructive_cmd svc ''group'' ''G6'' caller groupID RemoveMembersPlan_ops confirm dryRun
      (PlanRemoveMembers svc groupID members) (ApplyRemoveMembers svc)"

section \<open>G7: cloning offsets\<close>

record CloneOffsetDetail =
  COD_Topic :: string
  COD_Partition :: int32
  COD_TargetCurrent :: int64
  COD_NewValue :: int64

record CloneOffsetsPlan =
  COP_Target :: string
  COP_Offsets :: "CloneOffsetDetail list"

definition CloneOffsetDetail_any :: "CloneOffsetDetail \<Rightarrow> any" where
  "CloneOffsetDetail_any d = AStruct ''CloneOffsetDetail''
     [(''Topic'', AStr (COD_Topic d)), (''Partition'', AInt (COD_Partition d)),
      (''TargetCurrent'', AInt (COD_TargetCurrent d)), (''NewValue'', AInt (COD_NewValue d))]"

definition CloneOffsetsPlan_ops :: "CloneOffsetsPlan PlanOps" where
  "CloneOffsetsPlan_ops = \<lparr>ConfirmTarget = COP_Target,
     plan_any = (\<lambda>p. AStruct ''CloneOffsetsPlan'' [(''Target'', AStr (COP_Target p)),
        (''Offsets'', AList (map CloneOffsetDetail_any (COP_Offsets p)))])\<rparr>"

text \<open>The topics that a clone is limited to: with none named, all of them.\<close>

definition in_topics :: "string list \<Rightarrow> TopicPartition \<Rightarrow> bool" where
  "in_topics topics tp \<longleftrightarrow> topics = [] \<or> fst tp \<in> set topics"

definition clone_detail ::
  "(TopicPartition \<times> int64) list \<Rightarrow> (TopicPartition \<times> int64) list \<Rightarrow> TopicPartition \<Rightarrow> CloneOffsetDetail" where
  "clone_detail targetCommitted sourceCommitted tp =
    \<lparr>COD_Topic = fst tp, COD_Partition = snd tp, COD_TargetCurrent = mget targetCommitted 0 tp,
     COD_NewValue = mget sourceCommitted 0 tp\<rparr>"

definition PlanCloneOffsets ::
  "'s Service \<Rightarrow> string \<Rightarrow> string \<Rightarrow> string list \<Rightarrow> ('s, CloneOffsetsPlan) eff" where
  "PlanCloneOffsets svc tgt source topics =
    onOk (groupState svc tgt) (\<lambda>(ex, memberCount).
    if memberCount > 0 then fail groupActive else
    onOk (if ex then FetchGroupOffsets (svc_admin svc) tgt else ret []) (\<lambda>targetCommitted.
    onOk (FetchGroupOffsets (svc_admin svc) source) (\<lambda>sourceCommitted.
      ret \<lparr>COP_Target = tgt, COP_Offsets = map (clone_detail targetCommitted sourceCommitted)
        (sort (filter (in_topics topics) (mkeys sourceCommitted)))\<rparr>)))"

record CloneOffsetsResult =
  COR_Target :: string
  COR_Offsets :: "CloneOffsetDetail list"

definition ApplyCloneOffsets :: "'s Service \<Rightarrow> CloneOffsetsPlan \<Rightarrow> ('s, CloneOffsetsResult) eff" where
  "ApplyCloneOffsets svc plan =
    (let offsets = fold (\<lambda>d. mput (COD_Topic d, COD_Partition d) (COD_NewValue d)) (COP_Offsets plan) []
     in onOk (CommitGroupOffsets (svc_admin svc) (COP_Target plan) offsets) (\<lambda>_.
          ret \<lparr>COR_Target = COP_Target plan, COR_Offsets = COP_Offsets plan\<rparr>))"

definition CloneOffsets ::
  "'s Service \<Rightarrow> Caller \<Rightarrow> string \<Rightarrow> string \<Rightarrow> string list \<Rightarrow> string \<Rightarrow> bool
   \<Rightarrow> ('s, (CloneOffsetsPlan, CloneOffsetsResult) DResult \<times> Err) eff" where
  "CloneOffsets svc caller tgt source topics confirm dryRun =
    destructive_cmd svc ''group'' ''G7'' caller tgt CloneOffsetsPlan_ops confirm dryRun
      (PlanCloneOffsets svc tgt source topics) (ApplyCloneOffsets svc)"

section \<open>Planning and reading change nothing\<close>

context service_env
begin

lemma quiet_groupState: "quiet view (groupState svc g)"
  unfolding groupState_def by (intro quiet_intros reads)

lemma quiet_fetch_ends: "quiet view (fetch_ends svc tps)"
  unfolding fetch_ends_def by (intro quiet_intros reads)

lemma quiet_group_List: "quiet view (group_List svc params)"
  unfolding group_List_def Let_def by (intro quiet_intros reads)

lemma quiet_group_Describe: "quiet view (group_Describe svc g)"
  unfolding group_Describe_def resolveOffsetDetails_def Let_def by (intro quiet_intros reads quiet_fetch_ends)

lemma quiet_ConsumersOfTopic: "quiet view (ConsumersOfTopic svc t)"
  unfolding ConsumersOfTopic_def Let_def by (intro quiet_intros reads)

lemma quiet_PlanReset: "quiet view (PlanReset svc g tgt topics)"
  unfolding PlanReset_def resolveResetScope_def resolveScopeFromTopics_def resolve_after_def
    resolveResetTargetsForTopic_def
  by (intro quiet_intros reads quiet_groupState)

lemma quiet_PlanDeleteGroup: "quiet view (PlanDeleteGroup svc g)"
  unfolding PlanDeleteGroup_def by (intro quiet_intros reads quiet_groupState)

lemma quiet_PlanRemoveMembers: "quiet view (PlanRemoveMembers svc g ms)"
  unfolding PlanRemoveMembers_def by (intro quiet_intros reads)

lemma quiet_PlanCloneOffsets: "quiet view (PlanCloneOffsets svc tgt source topics)"
  unfolding PlanCloneOffsets_def by (intro quiet_intros reads quiet_groupState)

lemmas quiet_group_plans =
  quiet_PlanReset quiet_PlanDeleteGroup quiet_PlanRemoveMembers quiet_PlanCloneOffsets

end

section \<open>Lag\<close>

lemma lag_nonneg [simp]: "0 \<le> lag e c"
  by (simp add: lag_def)

lemma lag_exact: "in_int64 (e - c) \<Longrightarrow> lag e c = max (e - c) 0"
  by (simp add: lag_def)

lemma fetch_ends_keys:
  assumes "forEach tps (\<lambda>tp m. if mhas m (fst tp) then ret m
      else onOk (f (fst tp)) (\<lambda>e. ret (mput (fst tp) e m))) m s = (Ok m', s')"
  shows "set (mkeys m') = set (mkeys m) \<union> fst ` set tps"
  using assms
proof (induction tps arbitrary: m s)
  case (Cons tp tps)
  show ?case
  proof (cases "mhas m (fst tp)")
    case True
    with Cons.prems have "set (mkeys m') = set (mkeys m) \<union> fst ` set tps"
      by (intro Cons.IH [of m s]) simp
    with True show ?thesis by (auto simp: mhas_in_keys)
  next
    case False
    with Cons.prems obtain e s1 where "forEach tps (\<lambda>tp m. if mhas m (fst tp) then ret m
        else onOk (f (fst tp)) (\<lambda>e. ret (mput (fst tp) e m))) (mput (fst tp) e m) s1 = (Ok m', s')"
      by (auto simp: onOk_eq_Ok ret_run)
    from Cons.IH [OF this] show ?thesis by (auto simp: mkeys_def dom_update)
  qed
qed (simp add: ret_run)

text \<open>A description lists every committed offset once, in the order of topic and partition.\<close>

lemma resolveOffsetDetails_Ok:
  assumes "resolveOffsetDetails svc committed s = (Ok (out, totalLag), s')"
  shows "map (\<lambda>d. (OD_Topic d, OD_Partition d)) out = sort (mkeys committed)"
    and "\<forall>d \<in> set out. OD_Committed d = mget committed 0 (OD_Topic d, OD_Partition d)
           \<and> OD_Lag d = lag (OD_End d) (OD_Committed d)"
    and "totalLag = wrap64 (\<Sum>d \<leftarrow> out. OD_Lag d)"
  using assms
  by (auto simp: resolveOffsetDetails_def onOk_eq_Ok ret_run offset_detail_def Let_def sum64_eq
      o_def intro: map_idI)

end
