(* ===== verification/Handlers.thy ===== *)
theory Handlers
  imports TextParse Middleware ServiceBase "HOL-Library.Monad_Syntax"
begin

text \<open>
  What the handlers of every package under \<^verbatim>\<open>internal/api\<close> have in common: the operations a
  \<open>Register\<close> function declares, a reply that is an error envelope or an output, and the two ways an error of a
  service becomes an envelope (\<open>apierrors.Map\<close>, \<open>apierrors.MapDestructive\<close>).

  A plan inside an error's details is a dynamically typed value; the type assertion \<open>.(P)\<close> of
  \<open>MapDestructive\<close> is one \<open>unbox_\<close> function per plan type, written with the readers below.
\<close>

section \<open>Registered operations\<close>

record HumaOperation =
  Op_OperationID :: string
  Op_Method :: string
  Op_Path :: string
  Op_Extensions :: "(string \<times> any) list"

definition commandIDExtension :: string where
  "commandIDExtension = ''x-command-id''"

definition commandExtension :: "string \<Rightarrow> (string \<times> any) list" where
  "commandExtension i = [(commandIDExtension, AStr i)]"

definition operation :: "string \<Rightarrow> string \<Rightarrow> string \<Rightarrow> string \<Rightarrow> HumaOperation" where
  "operation oid meth path commandID = \<lparr>Op_OperationID = oid, Op_Method = meth, Op_Path = path,
     Op_Extensions = commandExtension commandID\<rparr>"

section \<open>Type assertions\<close>

definition field_of :: "string \<Rightarrow> string \<Rightarrow> any \<Rightarrow> any option" where
  "field_of tname k a = (case a of AStruct n fs \<Rightarrow> if n = tname then map_of fs k else None | _ \<Rightarrow> None)"

definition as_str :: "any \<Rightarrow> string option" where
  "as_str a = (case a of AStr s \<Rightarrow> Some s | _ \<Rightarrow> None)"

definition as_int :: "any \<Rightarrow> int option" where
  "as_int a = (case a of AInt i \<Rightarrow> Some i | _ \<Rightarrow> None)"

definition as_bool :: "any \<Rightarrow> bool option" where
  "as_bool a = (case a of ABool b \<Rightarrow> Some b | _ \<Rightarrow> None)"

definition as_float :: "any \<Rightarrow> nat option" where
  "as_float a = (case a of AFloat b \<Rightarrow> Some b | _ \<Rightarrow> None)"

definition as_list :: "(any \<Rightarrow> 'a option) \<Rightarrow> any \<Rightarrow> 'a list option" where
  "as_list f a = (case a of AList xs \<Rightarrow> those (map f xs) | _ \<Rightarrow> None)"

definition as_opt :: "(any \<Rightarrow> 'a option) \<Rightarrow> any \<Rightarrow> 'a option option" where
  "as_opt f a = (case a of ANil \<Rightarrow> Some None | _ \<Rightarrow> map_option Some (f a))"

definition as_map :: "(any \<Rightarrow> 'a option) \<Rightarrow> any \<Rightarrow> (string \<times> 'a) list option" where
  "as_map f a = (case a of AMap kvs \<Rightarrow> those (map (\<lambda>(k, v). map_option (Pair k) (f v)) kvs) | _ \<Rightarrow> None)"

definition get_as :: "string \<Rightarrow> string \<Rightarrow> (any \<Rightarrow> 'a option) \<Rightarrow> any \<Rightarrow> 'a option" where
  "get_as tname k f a = Option.bind (field_of tname k a) f"

named_theorems unbox_simps \<open>reading a boxed value back\<close>

lemma those_map_Some: "(\<And>x. x \<in> set xs \<Longrightarrow> f (g x) = Some (h x)) \<Longrightarrow> those (map f (map g xs)) = Some (map h xs)"
  by (induction xs) auto

lemma get_as_struct [unbox_simps]: "get_as n k f (AStruct n fs) = Option.bind (map_of fs k) f"
  by (simp add: get_as_def field_of_def)

lemma as_basic [unbox_simps]:
  "as_str (AStr s) = Some s" "as_int (AInt i) = Some i" "as_bool (ABool b) = Some b" "as_float (AFloat x) = Some x"
  by (simp_all add: as_str_def as_int_def as_bool_def as_float_def)

lemma as_list_map: "(\<And>x. f (g x) = Some x) \<Longrightarrow> as_list f (AList (map g xs)) = Some xs"
  using those_map_Some [of xs f g id] by (simp add: as_list_def)

lemma as_list_basic [unbox_simps]:
  "as_list as_str (AList (map AStr ss)) = Some ss" "as_list as_int (AList (map AInt is)) = Some is"
  by (rule as_list_map, simp add: unbox_simps)+

lemma as_map_AStr [unbox_simps]: "as_map as_str (AMap (map (\<lambda>(k, v). (k, AStr v)) m)) = Some m"
proof -
  have "those (map (\<lambda>(k, v). map_option (Pair k) (as_str v)) (map (\<lambda>(k, v). (k, AStr v)) m)) = Some (map id m)"
    by (rule those_map_Some) (auto simp: unbox_simps)
  then show ?thesis by (simp add: as_map_def)
qed

section \<open>Replies\<close>

type_synonym ('s, 'o) reply = "('s, Envelope + 'o) eff"

definition reply :: "'o \<Rightarrow> ('s, 'o) reply" where
  "reply out = ret (Inr out)"

definition replyErr :: "Request \<Rightarrow> error \<Rightarrow> ('s, 'o) reply" where
  "replyErr r err = ret (Inl (Map err (RequestIDFrom r)))"

text \<open>\<open>if err != nil { return nil, apierrors.Map(err, requestID) }\<close>\<close>

definition orMap :: "Request \<Rightarrow> ('s, 'a) eff \<Rightarrow> ('a \<Rightarrow> ('s, 'o) reply) \<Rightarrow> ('s, 'o) reply" where
  "orMap r m k = attempt m (\<lambda>x. case x of Inl err \<Rightarrow> replyErr r err | Inr a \<Rightarrow> k a)"

text \<open>
  The same with \<open>MapDestructive\<close>, for a call that returns its result and its error as a pair. The
  reply is then the dry-run envelope around the plan, or what the executed command returned; the two
  options of a result are the zero values of a failed call, which \<open>err\<close> excludes here.
\<close>

definition destructive_reply ::
  "('p \<Rightarrow> 'o) \<Rightarrow> ('p \<Rightarrow> 't \<Rightarrow> 'o) \<Rightarrow> ('p, 't) DResult \<Rightarrow> ('s, 'o) reply" where
  "destructive_reply dry executed result =
    (case (Result_DryRun result, Result_Plan result, Result_Value result) of
       (True, Some p, _) \<Rightarrow> reply (dry p)
     | (False, Some p, Some v) \<Rightarrow> reply (executed p v)
     | _ \<Rightarrow> panic)"

definition orMapDestructive ::
  "Request \<Rightarrow> (any \<Rightarrow> 'p option) \<Rightarrow> ('p \<Rightarrow> any) \<Rightarrow> ('s, ('p, 't) DResult \<times> Err) eff
   \<Rightarrow> (('p, 't) DResult \<Rightarrow> ('s, 'o) reply) \<Rightarrow> ('s, 'o) reply" where
  "orMapDestructive r unbox toDTO m k =
    attempt m (\<lambda>x. case x of
      Inl err \<Rightarrow> ret (Inl (MapDestructive unbox err toDTO (RequestIDFrom r)))
    | Inr (result, Some err) \<Rightarrow> ret (Inl (MapDestructive unbox err toDTO (RequestIDFrom r)))
    | Inr (result, None) \<Rightarrow> k result)"

definition caller_of :: "Request \<Rightarrow> Caller" where
  "caller_of r = fst (CallerFrom r)"

text \<open>\<open>strconv.ParseInt(key, 10, 32)\<close>.\<close>

definition ParseInt32 :: "string \<Rightarrow> int32 option" where
  "ParseInt32 s = (case ParseInt s of Some i \<Rightarrow> if in_int32 i then Some i else None | None \<Rightarrow> None)"

text \<open>The statuses.\<close>

definition StatusOK :: int where "StatusOK = 200"
definition StatusCreated :: int where "StatusCreated = 201"
definition StatusMultiStatus :: int where "StatusMultiStatus = 207"
definition StatusServiceUnavailable :: int where "StatusServiceUnavailable = 503"

lemma quiet_orMap [quiet_intros]:
  assumes "quiet view m" "\<And>a. quiet view (k a)"
  shows "quiet view (orMap r m k)"
  unfolding orMap_def replyErr_def using assms by (intro quiet_intros) (auto split: sum.split intro: quiet_intros)

lemma quiet_orMapDestructive:
  assumes "quiet view m" "\<And>result. quiet view (k result)"
  shows "quiet view (orMapDestructive r unbox toDTO m k)"
  unfolding orMapDestructive_def
  using assms by (intro quiet_intros) (auto split: sum.split option.split intro: quiet_intros)

lemma quiet_destructive_reply: "quiet view (destructive_reply dry executed result)"
  unfolding destructive_reply_def reply_def by (auto split: bool.split option.split intro: quiet_intros)

lemma quiet_reply [quiet_intros]: "quiet view (reply out)"
  by (simp add: reply_def quiet_def ret_run)

lemma quiet_replyErr [quiet_intros]: "quiet view (replyErr r err)"
  by (simp add: replyErr_def quiet_def ret_run)

end
