(* ===== verification/TopicDTO.thy ===== *)
theory TopicDTO
  imports TopicService GroupService Handlers GoTime
begin

text \<open>
  The request and response types of the topic operations (\<^verbatim>\<open>internal/api/topic/dto.go\<close>): one record per
  Go struct. \<open>json_\<close> functions are the encoding that the struct tags give a response, with \<open>omitempty\<close>
  fields left out when empty; \<open>wire_\<close> functions give the status and the body of a reply. The decoding of a
  request, with the schema validation behind it, is Huma's.
\<close>

section \<open>Types\<close>

record PageBounds =
  PageBounds_Default :: int64
  PageBounds_Ceiling :: int64

record TopicConfigEntryDTO =
  TopicConfigEntryDTO_Name :: string
  TopicConfigEntryDTO_Value :: "string option"
  TopicConfigEntryDTO_Source :: string
  TopicConfigEntryDTO_IsSensitive :: bool
  TopicConfigEntryDTO_IsReadOnly :: bool

record ListTopicsInput =
  ListTopicsInput_Pattern :: string
  ListTopicsInput_IncludeInternal :: bool
  ListTopicsInput_Page :: int64
  ListTopicsInput_PageSize :: int64

record TopicSummaryDTO =
  TopicSummaryDTO_Name :: string
  TopicSummaryDTO_Partitions :: int64
  TopicSummaryDTO_ReplicationFactor :: int64
  TopicSummaryDTO_Internal :: bool

record PageDTO =
  PageDTO_Page :: int64
  PageDTO_PageSize :: int64
  PageDTO_Total :: int64

record ListTopicsBody =
  ListTopicsBody_Items :: "TopicSummaryDTO list"
  ListTopicsBody_Page :: PageDTO

record ListTopicsOutput =
  ListTopicsOutput_Body :: ListTopicsBody

record DescribeTopicInput =
  DescribeTopicInput_Name :: string

record PartitionDetailDTO =
  PartitionDetailDTO_ID :: int32
  PartitionDetailDTO_Leader :: int32
  PartitionDetailDTO_Replicas :: "int32 list"
  PartitionDetailDTO_ISR :: "int32 list"
  PartitionDetailDTO_BeginOffset :: int64
  PartitionDetailDTO_EndOffset :: int64
  PartitionDetailDTO_ApproxCount :: int64

record DescribeTopicBody =
  DescribeTopicBody_Name :: string
  DescribeTopicBody_Internal :: bool
  DescribeTopicBody_PartitionCount :: int64
  DescribeTopicBody_ReplicationFactor :: int64
  DescribeTopicBody_ApproxMessageCount :: int64
  DescribeTopicBody_Partitions :: "PartitionDetailDTO list"
  DescribeTopicBody_Configs :: "TopicConfigEntryDTO list"

record DescribeTopicOutput =
  DescribeTopicOutput_Body :: DescribeTopicBody

record TopicSizeInput =
  TopicSizeInput_Name :: string

record ReplicaSizeDTO =
  ReplicaSizeDTO_BrokerID :: int32
  ReplicaSizeDTO_LogDir :: string
  ReplicaSizeDTO_Bytes :: int64

record PartitionSizeDTO =
  PartitionSizeDTO_ID :: int32
  PartitionSizeDTO_Bytes :: int64
  PartitionSizeDTO_Replicas :: "ReplicaSizeDTO list"

record TopicSizeBody =
  TopicSizeBody_Topic :: string
  TopicSizeBody_TotalBytes :: int64
  TopicSizeBody_Partitions :: "PartitionSizeDTO list"

record TopicSizeOutput =
  TopicSizeOutput_Body :: TopicSizeBody

record TopicCountInput =
  TopicCountInput_Name :: string
  TopicCountInput_From :: string
  TopicCountInput_To :: string

record PartitionCountDTO =
  PartitionCountDTO_ID :: int32
  PartitionCountDTO_FromOffset :: int64
  PartitionCountDTO_ToOffset :: int64
  PartitionCountDTO_Count :: int64

record TopicCountBody =
  TopicCountBody_Topic :: string
  TopicCountBody_From :: string
  TopicCountBody_To :: string
  TopicCountBody_Total :: int64
  TopicCountBody_Partitions :: "PartitionCountDTO list"

record TopicCountOutput =
  TopicCountOutput_Body :: TopicCountBody

record TopicConsumerGroupsInput =
  TopicConsumerGroupsInput_Name :: string

record GroupPartitionLagDTO =
  GroupPartitionLagDTO_Partition :: int32
  GroupPartitionLagDTO_Committed :: int64
  GroupPartitionLagDTO_End :: int64
  GroupPartitionLagDTO_Lag :: int64

record TopicConsumerGroupDTO =
  TopicConsumerGroupDTO_GroupID :: string
  TopicConsumerGroupDTO_State :: string
  TopicConsumerGroupDTO_TotalLag :: int64
  TopicConsumerGroupDTO_Partitions :: "GroupPartitionLagDTO list"

record TopicConsumerGroupsBody =
  TopicConsumerGroupsBody_Topic :: string
  TopicConsumerGroupsBody_Groups :: "TopicConsumerGroupDTO list"

record TopicConsumerGroupsOutput =
  TopicConsumerGroupsOutput_Body :: TopicConsumerGroupsBody

record CreateTopicRequestBody =
  CreateTopicRequestBody_Name :: string
  CreateTopicRequestBody_Partitions :: int32
  CreateTopicRequestBody_ReplicationFactor :: int16
  CreateTopicRequestBody_Configs :: "(string \<times> string) list"

record CreateTopicInput =
  CreateTopicInput_DryRun :: bool
  CreateTopicInput_Body :: CreateTopicRequestBody

record CreateTopicPlanDTO =
  CreateTopicPlanDTO_Name :: string
  CreateTopicPlanDTO_Partitions :: int32
  CreateTopicPlanDTO_ReplicationFactor :: int16
  CreateTopicPlanDTO_Configs :: "TopicConfigEntryDTO list"

record CreateTopicBody =
  CreateTopicBody_DryRun :: bool
  CreateTopicBody_Plan :: "CreateTopicPlanDTO option"
  CreateTopicBody_Name :: string
  CreateTopicBody_Partitions :: int32
  CreateTopicBody_ReplicationFactor :: int16
  CreateTopicBody_Configs :: "TopicConfigEntryDTO list"

record CreateTopicOutput =
  CreateTopicOutput_Status :: int64
  CreateTopicOutput_Body :: CreateTopicBody

record CreateTopicsBulkRequestBody =
  CreateTopicsBulkRequestBody_Topics :: "CreateTopicRequestBody list"

record CreateTopicsBulkInput =
  CreateTopicsBulkInput_Body :: CreateTopicsBulkRequestBody

record CreateBulkItemResultDTO =
  CreateBulkItemResultDTO_Index :: int64
  CreateBulkItemResultDTO_Status :: string
  CreateBulkItemResultDTO_Name :: string
  CreateBulkItemResultDTO_Error :: string

record TopicBulkSummaryDTO =
  TopicBulkSummaryDTO_Total :: int64
  TopicBulkSummaryDTO_OK :: int64
  TopicBulkSummaryDTO_Failed :: int64

record CreateTopicsBulkBody =
  CreateTopicsBulkBody_Items :: "CreateBulkItemResultDTO list"
  CreateTopicsBulkBody_Summary :: TopicBulkSummaryDTO

record CreateTopicsBulkOutput =
  CreateTopicsBulkOutput_Status :: int64
  CreateTopicsBulkOutput_Body :: CreateTopicsBulkBody

record AlterConfigRequestBody =
  AlterConfigRequestBody_Confirm :: string
  AlterConfigRequestBody_Set :: "(string \<times> string) list"
  AlterConfigRequestBody_Reset :: "string list"

record AlterConfigInput =
  AlterConfigInput_Name :: string
  AlterConfigInput_DryRun :: bool
  AlterConfigInput_Body :: AlterConfigRequestBody

record ConfigChangeDetailDTO =
  ConfigChangeDetailDTO_Name :: string
  ConfigChangeDetailDTO_From :: string
  ConfigChangeDetailDTO_To :: string

record AlterConfigPlanDTO =
  AlterConfigPlanDTO_Topic :: string
  AlterConfigPlanDTO_Changes :: "ConfigChangeDetailDTO list"

record AlterConfigBody =
  AlterConfigBody_DryRun :: bool
  AlterConfigBody_Plan :: "AlterConfigPlanDTO option"
  AlterConfigBody_Name :: string
  AlterConfigBody_Configs :: "TopicConfigEntryDTO list"

record AlterConfigOutput =
  AlterConfigOutput_Body :: AlterConfigBody

record AddPartitionsRequestBody =
  AddPartitionsRequestBody_Confirm :: string
  AddPartitionsRequestBody_Partitions :: int32

record AddPartitionsInput =
  AddPartitionsInput_Name :: string
  AddPartitionsInput_DryRun :: bool
  AddPartitionsInput_Body :: AddPartitionsRequestBody

record AddPartitionsPlanDTO =
  AddPartitionsPlanDTO_Topic :: string
  AddPartitionsPlanDTO_From :: int32
  AddPartitionsPlanDTO_To :: int32
  AddPartitionsPlanDTO_Warning :: string

record AddPartitionsBody =
  AddPartitionsBody_DryRun :: bool
  AddPartitionsBody_Plan :: "AddPartitionsPlanDTO option"
  AddPartitionsBody_Name :: string
  AddPartitionsBody_PartitionCount :: int32

record AddPartitionsOutput =
  AddPartitionsOutput_Body :: AddPartitionsBody

record DeleteTopicRequestBody =
  DeleteTopicRequestBody_Confirm :: string

record DeleteTopicInput =
  DeleteTopicInput_Name :: string
  DeleteTopicInput_DryRun :: bool
  DeleteTopicInput_Body :: DeleteTopicRequestBody

record DeleteTopicPlanDTO =
  DeleteTopicPlanDTO_Topic :: string
  DeleteTopicPlanDTO_Partitions :: int32
  DeleteTopicPlanDTO_ApproxMessages :: int64

record DeleteTopicBody =
  DeleteTopicBody_DryRun :: bool
  DeleteTopicBody_Plan :: "DeleteTopicPlanDTO option"
  DeleteTopicBody_Deleted :: string

record DeleteTopicOutput =
  DeleteTopicOutput_Body :: DeleteTopicBody

record BulkDeleteRequestBody =
  BulkDeleteRequestBody_Confirm :: string
  BulkDeleteRequestBody_Topics :: "string list"
  BulkDeleteRequestBody_Pattern :: string

record BulkDeleteInput =
  BulkDeleteInput_DryRun :: bool
  BulkDeleteInput_Body :: BulkDeleteRequestBody

record BulkDeletePlanDTO =
  BulkDeletePlanDTO_Topics :: "string list"
  BulkDeletePlanDTO_PlanToken :: string

record BulkDeleteBody =
  BulkDeleteBody_DryRun :: bool
  BulkDeleteBody_Plan :: "BulkDeletePlanDTO option"
  BulkDeleteBody_Items :: "CreateBulkItemResultDTO list"
  BulkDeleteBody_Summary :: "TopicBulkSummaryDTO option"

record BulkDeleteOutput =
  BulkDeleteOutput_Status :: int64
  BulkDeleteOutput_Body :: BulkDeleteBody

record PartitionDeleteRecordsDetailDTO =
  PartitionDeleteRecordsDetailDTO_Partition :: int32
  PartitionDeleteRecordsDetailDTO_BeginOffset :: int64
  PartitionDeleteRecordsDetailDTO_TruncateTo :: int64
  PartitionDeleteRecordsDetailDTO_ApproxRecordsAffected :: int64

record DeleteRecordsPlanDTO =
  DeleteRecordsPlanDTO_Topic :: string
  DeleteRecordsPlanDTO_Partitions :: "PartitionDeleteRecordsDetailDTO list"

record PartitionWatermarkDTO =
  PartitionWatermarkDTO_ID :: int32
  PartitionWatermarkDTO_LowWatermark :: int64

record DeleteRecordsRequestBody =
  DeleteRecordsRequestBody_Confirm :: string
  DeleteRecordsRequestBody_Offsets :: "(string \<times> int64) list"

record DeleteRecordsInput =
  DeleteRecordsInput_Name :: string
  DeleteRecordsInput_DryRun :: bool
  DeleteRecordsInput_Body :: DeleteRecordsRequestBody

record DeleteRecordsBody =
  DeleteRecordsBody_DryRun :: bool
  DeleteRecordsBody_Plan :: "DeleteRecordsPlanDTO option"
  DeleteRecordsBody_Partitions :: "PartitionWatermarkDTO list"

record DeleteRecordsOutput =
  DeleteRecordsOutput_Body :: DeleteRecordsBody

record PurgeRequestBody =
  PurgeRequestBody_Confirm :: string

record PurgeInput =
  PurgeInput_Name :: string
  PurgeInput_DryRun :: bool
  PurgeInput_Body :: PurgeRequestBody

record PurgeBody =
  PurgeBody_DryRun :: bool
  PurgeBody_Plan :: "DeleteRecordsPlanDTO option"
  PurgeBody_Partitions :: "PartitionWatermarkDTO list"

record PurgeOutput =
  PurgeOutput_Body :: PurgeBody

text \<open>The zero values that the composite literals of the handlers start from.\<close>

definition zero_CreateTopicBody :: CreateTopicBody where
  "zero_CreateTopicBody = \<lparr>CreateTopicBody_DryRun = False, CreateTopicBody_Plan = None,
     CreateTopicBody_Name = [], CreateTopicBody_Partitions = 0, CreateTopicBody_ReplicationFactor = 0,
     CreateTopicBody_Configs = []\<rparr>"

definition zero_AlterConfigBody :: AlterConfigBody where
  "zero_AlterConfigBody = \<lparr>AlterConfigBody_DryRun = False, AlterConfigBody_Plan = None,
     AlterConfigBody_Name = [], AlterConfigBody_Configs = []\<rparr>"

definition zero_AddPartitionsBody :: AddPartitionsBody where
  "zero_AddPartitionsBody = \<lparr>AddPartitionsBody_DryRun = False, AddPartitionsBody_Plan = None,
     AddPartitionsBody_Name = [], AddPartitionsBody_PartitionCount = 0\<rparr>"

definition zero_DeleteTopicBody :: DeleteTopicBody where
  "zero_DeleteTopicBody = \<lparr>DeleteTopicBody_DryRun = False, DeleteTopicBody_Plan = None,
     DeleteTopicBody_Deleted = []\<rparr>"

definition zero_BulkDeleteBody :: BulkDeleteBody where
  "zero_BulkDeleteBody = \<lparr>BulkDeleteBody_DryRun = False, BulkDeleteBody_Plan = None,
     BulkDeleteBody_Items = [], BulkDeleteBody_Summary = None\<rparr>"

definition zero_DeleteRecordsBody :: DeleteRecordsBody where
  "zero_DeleteRecordsBody = \<lparr>DeleteRecordsBody_DryRun = False, DeleteRecordsBody_Plan = None,
     DeleteRecordsBody_Partitions = []\<rparr>"

definition zero_PurgeBody :: PurgeBody where
  "zero_PurgeBody = \<lparr>PurgeBody_DryRun = False, PurgeBody_Plan = None, PurgeBody_Partitions = []\<rparr>"

section \<open>Encoding\<close>

definition json_TopicConfigEntryDTO :: "TopicConfigEntryDTO \<Rightarrow> any" where
  "json_TopicConfigEntryDTO d = AMap [(''name'', AStr (TopicConfigEntryDTO_Name d)),
      (''value'', (case TopicConfigEntryDTO_Value d of None \<Rightarrow> ANil | Some v \<Rightarrow> AStr v)),
      (''source'', AStr (TopicConfigEntryDTO_Source d)),
      (''isSensitive'', ABool (TopicConfigEntryDTO_IsSensitive d)),
      (''isReadOnly'', ABool (TopicConfigEntryDTO_IsReadOnly d))]"

definition json_TopicSummaryDTO :: "TopicSummaryDTO \<Rightarrow> any" where
  "json_TopicSummaryDTO d = AMap [(''name'', AStr (TopicSummaryDTO_Name d)),
      (''partitions'', AInt (TopicSummaryDTO_Partitions d)),
      (''replicationFactor'', AInt (TopicSummaryDTO_ReplicationFactor d)),
      (''internal'', ABool (TopicSummaryDTO_Internal d))]"

definition json_PageDTO :: "PageDTO \<Rightarrow> any" where
  "json_PageDTO d = AMap [(''page'', AInt (PageDTO_Page d)),
      (''pageSize'', AInt (PageDTO_PageSize d)),
      (''total'', AInt (PageDTO_Total d))]"

definition json_ListTopicsBody :: "ListTopicsBody \<Rightarrow> any" where
  "json_ListTopicsBody d = AMap [(''items'', AList (map json_TopicSummaryDTO (ListTopicsBody_Items d))),
      (''page'', json_PageDTO (ListTopicsBody_Page d))]"

definition json_PartitionDetailDTO :: "PartitionDetailDTO \<Rightarrow> any" where
  "json_PartitionDetailDTO d = AMap [(''id'', AInt (PartitionDetailDTO_ID d)),
      (''leader'', AInt (PartitionDetailDTO_Leader d)),
      (''replicas'', AList (map AInt (PartitionDetailDTO_Replicas d))),
      (''isr'', AList (map AInt (PartitionDetailDTO_ISR d))),
      (''beginOffset'', AInt (PartitionDetailDTO_BeginOffset d)),
      (''endOffset'', AInt (PartitionDetailDTO_EndOffset d)),
      (''approxCount'', AInt (PartitionDetailDTO_ApproxCount d))]"

definition json_DescribeTopicBody :: "DescribeTopicBody \<Rightarrow> any" where
  "json_DescribeTopicBody d = AMap [(''name'', AStr (DescribeTopicBody_Name d)),
      (''internal'', ABool (DescribeTopicBody_Internal d)),
      (''partitionCount'', AInt (DescribeTopicBody_PartitionCount d)),
      (''replicationFactor'', AInt (DescribeTopicBody_ReplicationFactor d)),
      (''approxMessageCount'', AInt (DescribeTopicBody_ApproxMessageCount d)),
      (''partitions'', AList (map json_PartitionDetailDTO (DescribeTopicBody_Partitions d))),
      (''configs'', AList (map json_TopicConfigEntryDTO (DescribeTopicBody_Configs d)))]"

definition json_ReplicaSizeDTO :: "ReplicaSizeDTO \<Rightarrow> any" where
  "json_ReplicaSizeDTO d = AMap [(''brokerId'', AInt (ReplicaSizeDTO_BrokerID d)),
      (''logDir'', AStr (ReplicaSizeDTO_LogDir d)),
      (''bytes'', AInt (ReplicaSizeDTO_Bytes d))]"

definition json_PartitionSizeDTO :: "PartitionSizeDTO \<Rightarrow> any" where
  "json_PartitionSizeDTO d = AMap [(''id'', AInt (PartitionSizeDTO_ID d)),
      (''bytes'', AInt (PartitionSizeDTO_Bytes d)),
      (''replicas'', AList (map json_ReplicaSizeDTO (PartitionSizeDTO_Replicas d)))]"

definition json_TopicSizeBody :: "TopicSizeBody \<Rightarrow> any" where
  "json_TopicSizeBody d = AMap [(''topic'', AStr (TopicSizeBody_Topic d)),
      (''totalBytes'', AInt (TopicSizeBody_TotalBytes d)),
      (''partitions'', AList (map json_PartitionSizeDTO (TopicSizeBody_Partitions d)))]"

definition json_PartitionCountDTO :: "PartitionCountDTO \<Rightarrow> any" where
  "json_PartitionCountDTO d = AMap [(''id'', AInt (PartitionCountDTO_ID d)),
      (''fromOffset'', AInt (PartitionCountDTO_FromOffset d)),
      (''toOffset'', AInt (PartitionCountDTO_ToOffset d)),
      (''count'', AInt (PartitionCountDTO_Count d))]"

definition json_TopicCountBody :: "TopicCountBody \<Rightarrow> any" where
  "json_TopicCountBody d = AMap [(''topic'', AStr (TopicCountBody_Topic d)),
      (''from'', AStr (TopicCountBody_From d)),
      (''to'', AStr (TopicCountBody_To d)),
      (''total'', AInt (TopicCountBody_Total d)),
      (''partitions'', AList (map json_PartitionCountDTO (TopicCountBody_Partitions d)))]"

definition json_GroupPartitionLagDTO :: "GroupPartitionLagDTO \<Rightarrow> any" where
  "json_GroupPartitionLagDTO d = AMap [(''partition'', AInt (GroupPartitionLagDTO_Partition d)),
      (''committed'', AInt (GroupPartitionLagDTO_Committed d)),
      (''end'', AInt (GroupPartitionLagDTO_End d)),
      (''lag'', AInt (GroupPartitionLagDTO_Lag d))]"

definition json_TopicConsumerGroupDTO :: "TopicConsumerGroupDTO \<Rightarrow> any" where
  "json_TopicConsumerGroupDTO d = AMap [(''groupId'', AStr (TopicConsumerGroupDTO_GroupID d)),
      (''state'', AStr (TopicConsumerGroupDTO_State d)),
      (''totalLag'', AInt (TopicConsumerGroupDTO_TotalLag d)),
      (''partitions'', AList (map json_GroupPartitionLagDTO (TopicConsumerGroupDTO_Partitions d)))]"

definition json_TopicConsumerGroupsBody :: "TopicConsumerGroupsBody \<Rightarrow> any" where
  "json_TopicConsumerGroupsBody d = AMap [(''topic'', AStr (TopicConsumerGroupsBody_Topic d)),
      (''groups'', AList (map json_TopicConsumerGroupDTO (TopicConsumerGroupsBody_Groups d)))]"

definition json_CreateTopicPlanDTO :: "CreateTopicPlanDTO \<Rightarrow> any" where
  "json_CreateTopicPlanDTO d = AMap [(''name'', AStr (CreateTopicPlanDTO_Name d)),
      (''partitions'', AInt (CreateTopicPlanDTO_Partitions d)),
      (''replicationFactor'', AInt (CreateTopicPlanDTO_ReplicationFactor d)),
      (''configs'', AList (map json_TopicConfigEntryDTO (CreateTopicPlanDTO_Configs d)))]"

definition json_CreateTopicBody :: "CreateTopicBody \<Rightarrow> any" where
  "json_CreateTopicBody d = AMap ((if \<not> CreateTopicBody_DryRun d then [] else [(''dryRun'', ABool (CreateTopicBody_DryRun d))])
     @ (if CreateTopicBody_Plan d = None then [] else [(''plan'', (case CreateTopicBody_Plan d of None \<Rightarrow> ANil | Some v \<Rightarrow> json_CreateTopicPlanDTO v))])
     @ (if CreateTopicBody_Name d = [] then [] else [(''name'', AStr (CreateTopicBody_Name d))])
     @ (if CreateTopicBody_Partitions d = 0 then [] else [(''partitions'', AInt (CreateTopicBody_Partitions d))])
     @ (if CreateTopicBody_ReplicationFactor d = 0 then [] else [(''replicationFactor'', AInt (CreateTopicBody_ReplicationFactor d))])
     @ (if CreateTopicBody_Configs d = [] then [] else [(''configs'', AList (map json_TopicConfigEntryDTO (CreateTopicBody_Configs d)))]))"

definition json_CreateBulkItemResultDTO :: "CreateBulkItemResultDTO \<Rightarrow> any" where
  "json_CreateBulkItemResultDTO d = AMap ([(''index'', AInt (CreateBulkItemResultDTO_Index d)),
      (''status'', AStr (CreateBulkItemResultDTO_Status d))]
     @ (if CreateBulkItemResultDTO_Name d = [] then [] else [(''name'', AStr (CreateBulkItemResultDTO_Name d))])
     @ (if CreateBulkItemResultDTO_Error d = [] then [] else [(''error'', AStr (CreateBulkItemResultDTO_Error d))]))"

definition json_TopicBulkSummaryDTO :: "TopicBulkSummaryDTO \<Rightarrow> any" where
  "json_TopicBulkSummaryDTO d = AMap [(''total'', AInt (TopicBulkSummaryDTO_Total d)),
      (''ok'', AInt (TopicBulkSummaryDTO_OK d)),
      (''failed'', AInt (TopicBulkSummaryDTO_Failed d))]"

definition json_CreateTopicsBulkBody :: "CreateTopicsBulkBody \<Rightarrow> any" where
  "json_CreateTopicsBulkBody d = AMap [(''items'', AList (map json_CreateBulkItemResultDTO (CreateTopicsBulkBody_Items d))),
      (''summary'', json_TopicBulkSummaryDTO (CreateTopicsBulkBody_Summary d))]"

definition json_ConfigChangeDetailDTO :: "ConfigChangeDetailDTO \<Rightarrow> any" where
  "json_ConfigChangeDetailDTO d = AMap [(''name'', AStr (ConfigChangeDetailDTO_Name d)),
      (''from'', AStr (ConfigChangeDetailDTO_From d)),
      (''to'', AStr (ConfigChangeDetailDTO_To d))]"

definition json_AlterConfigPlanDTO :: "AlterConfigPlanDTO \<Rightarrow> any" where
  "json_AlterConfigPlanDTO d = AMap [(''topic'', AStr (AlterConfigPlanDTO_Topic d)),
      (''changes'', AList (map json_ConfigChangeDetailDTO (AlterConfigPlanDTO_Changes d)))]"

definition json_AlterConfigBody :: "AlterConfigBody \<Rightarrow> any" where
  "json_AlterConfigBody d = AMap ((if \<not> AlterConfigBody_DryRun d then [] else [(''dryRun'', ABool (AlterConfigBody_DryRun d))])
     @ (if AlterConfigBody_Plan d = None then [] else [(''plan'', (case AlterConfigBody_Plan d of None \<Rightarrow> ANil | Some v \<Rightarrow> json_AlterConfigPlanDTO v))])
     @ (if AlterConfigBody_Name d = [] then [] else [(''name'', AStr (AlterConfigBody_Name d))])
     @ (if AlterConfigBody_Configs d = [] then [] else [(''configs'', AList (map json_TopicConfigEntryDTO (AlterConfigBody_Configs d)))]))"

definition json_AddPartitionsPlanDTO :: "AddPartitionsPlanDTO \<Rightarrow> any" where
  "json_AddPartitionsPlanDTO d = AMap [(''topic'', AStr (AddPartitionsPlanDTO_Topic d)),
      (''from'', AInt (AddPartitionsPlanDTO_From d)),
      (''to'', AInt (AddPartitionsPlanDTO_To d)),
      (''warning'', AStr (AddPartitionsPlanDTO_Warning d))]"

definition json_AddPartitionsBody :: "AddPartitionsBody \<Rightarrow> any" where
  "json_AddPartitionsBody d = AMap ((if \<not> AddPartitionsBody_DryRun d then [] else [(''dryRun'', ABool (AddPartitionsBody_DryRun d))])
     @ (if AddPartitionsBody_Plan d = None then [] else [(''plan'', (case AddPartitionsBody_Plan d of None \<Rightarrow> ANil | Some v \<Rightarrow> json_AddPartitionsPlanDTO v))])
     @ (if AddPartitionsBody_Name d = [] then [] else [(''name'', AStr (AddPartitionsBody_Name d))])
     @ (if AddPartitionsBody_PartitionCount d = 0 then [] else [(''partitionCount'', AInt (AddPartitionsBody_PartitionCount d))]))"

definition json_DeleteTopicPlanDTO :: "DeleteTopicPlanDTO \<Rightarrow> any" where
  "json_DeleteTopicPlanDTO d = AMap [(''topic'', AStr (DeleteTopicPlanDTO_Topic d)),
      (''partitions'', AInt (DeleteTopicPlanDTO_Partitions d)),
      (''approxMessages'', AInt (DeleteTopicPlanDTO_ApproxMessages d))]"

definition json_DeleteTopicBody :: "DeleteTopicBody \<Rightarrow> any" where
  "json_DeleteTopicBody d = AMap ((if \<not> DeleteTopicBody_DryRun d then [] else [(''dryRun'', ABool (DeleteTopicBody_DryRun d))])
     @ (if DeleteTopicBody_Plan d = None then [] else [(''plan'', (case DeleteTopicBody_Plan d of None \<Rightarrow> ANil | Some v \<Rightarrow> json_DeleteTopicPlanDTO v))])
     @ (if DeleteTopicBody_Deleted d = [] then [] else [(''deleted'', AStr (DeleteTopicBody_Deleted d))]))"

definition json_BulkDeletePlanDTO :: "BulkDeletePlanDTO \<Rightarrow> any" where
  "json_BulkDeletePlanDTO d = AMap [(''topics'', AList (map AStr (BulkDeletePlanDTO_Topics d))),
      (''planToken'', AStr (BulkDeletePlanDTO_PlanToken d))]"

definition json_BulkDeleteBody :: "BulkDeleteBody \<Rightarrow> any" where
  "json_BulkDeleteBody d = AMap ((if \<not> BulkDeleteBody_DryRun d then [] else [(''dryRun'', ABool (BulkDeleteBody_DryRun d))])
     @ (if BulkDeleteBody_Plan d = None then [] else [(''plan'', (case BulkDeleteBody_Plan d of None \<Rightarrow> ANil | Some v \<Rightarrow> json_BulkDeletePlanDTO v))])
     @ (if BulkDeleteBody_Items d = [] then [] else [(''items'', AList (map json_CreateBulkItemResultDTO (BulkDeleteBody_Items d)))])
     @ (if BulkDeleteBody_Summary d = None then [] else [(''summary'', (case BulkDeleteBody_Summary d of None \<Rightarrow> ANil | Some v \<Rightarrow> json_TopicBulkSummaryDTO v))]))"

definition json_PartitionDeleteRecordsDetailDTO :: "PartitionDeleteRecordsDetailDTO \<Rightarrow> any" where
  "json_PartitionDeleteRecordsDetailDTO d = AMap [(''partition'', AInt (PartitionDeleteRecordsDetailDTO_Partition d)),
      (''beginOffset'', AInt (PartitionDeleteRecordsDetailDTO_BeginOffset d)),
      (''truncateTo'', AInt (PartitionDeleteRecordsDetailDTO_TruncateTo d)),
      (''approxRecordsAffected'', AInt (PartitionDeleteRecordsDetailDTO_ApproxRecordsAffected d))]"

definition json_DeleteRecordsPlanDTO :: "DeleteRecordsPlanDTO \<Rightarrow> any" where
  "json_DeleteRecordsPlanDTO d = AMap [(''topic'', AStr (DeleteRecordsPlanDTO_Topic d)),
      (''partitions'', AList (map json_PartitionDeleteRecordsDetailDTO (DeleteRecordsPlanDTO_Partitions d)))]"

definition json_PartitionWatermarkDTO :: "PartitionWatermarkDTO \<Rightarrow> any" where
  "json_PartitionWatermarkDTO d = AMap [(''id'', AInt (PartitionWatermarkDTO_ID d)),
      (''lowWatermark'', AInt (PartitionWatermarkDTO_LowWatermark d))]"

definition json_DeleteRecordsBody :: "DeleteRecordsBody \<Rightarrow> any" where
  "json_DeleteRecordsBody d = AMap ((if \<not> DeleteRecordsBody_DryRun d then [] else [(''dryRun'', ABool (DeleteRecordsBody_DryRun d))])
     @ (if DeleteRecordsBody_Plan d = None then [] else [(''plan'', (case DeleteRecordsBody_Plan d of None \<Rightarrow> ANil | Some v \<Rightarrow> json_DeleteRecordsPlanDTO v))])
     @ (if DeleteRecordsBody_Partitions d = [] then [] else [(''partitions'', AList (map json_PartitionWatermarkDTO (DeleteRecordsBody_Partitions d)))]))"

definition json_PurgeBody :: "PurgeBody \<Rightarrow> any" where
  "json_PurgeBody d = AMap ((if \<not> PurgeBody_DryRun d then [] else [(''dryRun'', ABool (PurgeBody_DryRun d))])
     @ (if PurgeBody_Plan d = None then [] else [(''plan'', (case PurgeBody_Plan d of None \<Rightarrow> ANil | Some v \<Rightarrow> json_DeleteRecordsPlanDTO v))])
     @ (if PurgeBody_Partitions d = [] then [] else [(''partitions'', AList (map json_PartitionWatermarkDTO (PurgeBody_Partitions d)))]))"

definition wire_ListTopicsOutput :: "ListTopicsOutput \<Rightarrow> int \<times> any" where
  "wire_ListTopicsOutput d = (StatusOK, json_ListTopicsBody (ListTopicsOutput_Body d))"

definition wire_DescribeTopicOutput :: "DescribeTopicOutput \<Rightarrow> int \<times> any" where
  "wire_DescribeTopicOutput d = (StatusOK, json_DescribeTopicBody (DescribeTopicOutput_Body d))"

definition wire_TopicSizeOutput :: "TopicSizeOutput \<Rightarrow> int \<times> any" where
  "wire_TopicSizeOutput d = (StatusOK, json_TopicSizeBody (TopicSizeOutput_Body d))"

definition wire_TopicCountOutput :: "TopicCountOutput \<Rightarrow> int \<times> any" where
  "wire_TopicCountOutput d = (StatusOK, json_TopicCountBody (TopicCountOutput_Body d))"

definition wire_TopicConsumerGroupsOutput :: "TopicConsumerGroupsOutput \<Rightarrow> int \<times> any" where
  "wire_TopicConsumerGroupsOutput d = (StatusOK, json_TopicConsumerGroupsBody (TopicConsumerGroupsOutput_Body d))"

definition wire_CreateTopicOutput :: "CreateTopicOutput \<Rightarrow> int \<times> any" where
  "wire_CreateTopicOutput d = (CreateTopicOutput_Status d, json_CreateTopicBody (CreateTopicOutput_Body d))"

definition wire_CreateTopicsBulkOutput :: "CreateTopicsBulkOutput \<Rightarrow> int \<times> any" where
  "wire_CreateTopicsBulkOutput d = (CreateTopicsBulkOutput_Status d, json_CreateTopicsBulkBody (CreateTopicsBulkOutput_Body d))"

definition wire_AlterConfigOutput :: "AlterConfigOutput \<Rightarrow> int \<times> any" where
  "wire_AlterConfigOutput d = (StatusOK, json_AlterConfigBody (AlterConfigOutput_Body d))"

definition wire_AddPartitionsOutput :: "AddPartitionsOutput \<Rightarrow> int \<times> any" where
  "wire_AddPartitionsOutput d = (StatusOK, json_AddPartitionsBody (AddPartitionsOutput_Body d))"

definition wire_DeleteTopicOutput :: "DeleteTopicOutput \<Rightarrow> int \<times> any" where
  "wire_DeleteTopicOutput d = (StatusOK, json_DeleteTopicBody (DeleteTopicOutput_Body d))"

definition wire_BulkDeleteOutput :: "BulkDeleteOutput \<Rightarrow> int \<times> any" where
  "wire_BulkDeleteOutput d = (BulkDeleteOutput_Status d, json_BulkDeleteBody (BulkDeleteOutput_Body d))"

definition wire_DeleteRecordsOutput :: "DeleteRecordsOutput \<Rightarrow> int \<times> any" where
  "wire_DeleteRecordsOutput d = (StatusOK, json_DeleteRecordsBody (DeleteRecordsOutput_Body d))"

definition wire_PurgeOutput :: "PurgeOutput \<Rightarrow> int \<times> any" where
  "wire_PurgeOutput d = (StatusOK, json_PurgeBody (PurgeOutput_Body d))"

end
