(* ===== verification/TopicRoutes.thy ===== *)
theory TopicRoutes
  imports TopicDTO
begin

text \<open>
  The topic operations of the HTTP interface (\<^verbatim>\<open>internal/api/topic/routes.go\<close>,
  \<^verbatim>\<open>internal/api/topic/mapping.go\<close>): what \<open>Register\<close> declares, the mapping between DTOs and the values of
  the services, and one handler per operation.

  The last section shows that a handler of a read changes nothing, that the envelope of a confirmation
  mismatch carries the plan of the command, and that a sensitive configuration value is never encoded.
\<close>

definition topic_Register :: "HumaOperation list" where
  "topic_Register =
    [operation ''topic-list'' ''GET'' ''/v1/topics'' ''T1'',
     operation ''topic-describe'' ''GET'' ''/v1/topics/{name}'' ''T2'',
     operation ''topic-size'' ''GET'' ''/v1/topics/{name}/size'' ''T3'',
     operation ''topic-count'' ''GET'' ''/v1/topics/{name}/count'' ''T4'',
     operation ''topic-consumer-groups'' ''GET'' ''/v1/topics/{name}/consumer-groups'' ''G3'',
     operation ''topic-create'' ''POST'' ''/v1/topics'' ''T5'',
     operation ''topic-create-bulk'' ''POST'' ''/v1/batch/topics'' ''T6'',
     operation ''topic-alter-config'' ''PATCH'' ''/v1/topics/{name}/config'' ''T9'',
     operation ''topic-add-partitions'' ''POST'' ''/v1/topics/{name}/partitions'' ''T10'',
     operation ''topic-delete'' ''DELETE'' ''/v1/topics/{name}'' ''T7'',
     operation ''topic-delete-bulk'' ''POST'' ''/v1/batch/topics/delete'' ''T8'',
     operation ''topic-delete-records'' ''POST'' ''/v1/topics/{name}/delete-records'' ''T11'',
     operation ''topic-purge'' ''POST'' ''/v1/topics/{name}/purge'' ''T12'']"

section \<open>Mapping\<close>

definition source_string :: "ConfigSource option \<Rightarrow> string" where
  "source_string s = (case s of None \<Rightarrow> [] | Some src \<Rightarrow> ConfigSource_string src)"

definition toTopicConfigEntryDTOs :: "ConfigEntry list \<Rightarrow> TopicConfigEntryDTO list" where
  "toTopicConfigEntryDTOs configs = map (\<lambda>c.
     \<lparr>TopicConfigEntryDTO_Name = ConfigEntry_Name c,
      TopicConfigEntryDTO_Value = (if ConfigEntry_IsSensitive c then None else Some (ConfigEntry_Value c)),
      TopicConfigEntryDTO_Source = source_string (ConfigEntry_Source c),
      TopicConfigEntryDTO_IsSensitive = ConfigEntry_IsSensitive c,
      TopicConfigEntryDTO_IsReadOnly = ConfigEntry_IsReadOnly c\<rparr>) configs"

definition toListItems :: "TopicSummary list \<Rightarrow> TopicSummaryDTO list" where
  "toListItems items = map (\<lambda>it.
     \<lparr>TopicSummaryDTO_Name = TopicSummary_Name it, TopicSummaryDTO_Partitions = TopicSummary_PartitionCount it,
      TopicSummaryDTO_ReplicationFactor = TopicSummary_ReplicationFactor it,
      TopicSummaryDTO_Internal = TopicSummary_Internal it\<rparr>) items"

definition toDescribeBody :: "TopicDescribe \<Rightarrow> DescribeTopicBody" where
  "toDescribeBody d =
    \<lparr>DescribeTopicBody_Name = TD_Name d, DescribeTopicBody_Internal = TD_Internal d,
     DescribeTopicBody_PartitionCount = int (length (TD_Partitions d)),
     DescribeTopicBody_ReplicationFactor = TD_ReplicationFactor d,
     DescribeTopicBody_ApproxMessageCount = TD_ApproxMessageCount d,
     DescribeTopicBody_Partitions = map (\<lambda>p.
       \<lparr>PartitionDetailDTO_ID = PD_ID p, PartitionDetailDTO_Leader = PD_Leader p,
        PartitionDetailDTO_Replicas = PD_Replicas p, PartitionDetailDTO_ISR = PD_ISR p,
        PartitionDetailDTO_BeginOffset = PD_BeginOffset p, PartitionDetailDTO_EndOffset = PD_EndOffset p,
        PartitionDetailDTO_ApproxCount = PD_ApproxCount p\<rparr>) (TD_Partitions d),
     DescribeTopicBody_Configs = toTopicConfigEntryDTOs (TD_Configs d)\<rparr>"

definition toSizeBody :: "TopicSize \<Rightarrow> TopicSizeBody" where
  "toSizeBody s =
    \<lparr>TopicSizeBody_Topic = TS_Topic s, TopicSizeBody_TotalBytes = TS_TotalBytes s,
     TopicSizeBody_Partitions = map (\<lambda>p.
       \<lparr>PartitionSizeDTO_ID = PS_ID p, PartitionSizeDTO_Bytes = PS_Bytes p,
        PartitionSizeDTO_Replicas = map (\<lambda>r.
          \<lparr>ReplicaSizeDTO_BrokerID = RS_BrokerID r, ReplicaSizeDTO_LogDir = RS_LogDir r,
           ReplicaSizeDTO_Bytes = RS_Bytes r\<rparr>) (PS_Replicas p)\<rparr>) (TS_Partitions s)\<rparr>"

definition toCountBody :: "TopicCount \<Rightarrow> string \<Rightarrow> string \<Rightarrow> TopicCountBody" where
  "toCountBody c frm to =
    \<lparr>TopicCountBody_Topic = TC_Topic c, TopicCountBody_From = frm, TopicCountBody_To = to,
     TopicCountBody_Total = TC_Total c,
     TopicCountBody_Partitions = map (\<lambda>p.
       \<lparr>PartitionCountDTO_ID = PC_ID p, PartitionCountDTO_FromOffset = PC_FromOffset p,
        PartitionCountDTO_ToOffset = PC_ToOffset p, PartitionCountDTO_Count = PC_Count p\<rparr>) (TC_Partitions c)\<rparr>"

definition toTopicConsumerGroupsBody :: "string \<Rightarrow> TopicGroup list \<Rightarrow> TopicConsumerGroupsBody" where
  "toTopicConsumerGroupsBody topicName groups =
    \<lparr>TopicConsumerGroupsBody_Topic = topicName,
     TopicConsumerGroupsBody_Groups = map (\<lambda>g.
       \<lparr>TopicConsumerGroupDTO_GroupID = TG_GroupID g, TopicConsumerGroupDTO_State = TG_State g,
        TopicConsumerGroupDTO_TotalLag = TG_TotalLag g,
        TopicConsumerGroupDTO_Partitions = map (\<lambda>p.
          \<lparr>GroupPartitionLagDTO_Partition = TGP_Partition p, GroupPartitionLagDTO_Committed = TGP_Committed p,
           GroupPartitionLagDTO_End = TGP_End p, GroupPartitionLagDTO_Lag = TGP_Lag p\<rparr>) (TG_Partitions g)\<rparr>) groups\<rparr>"

definition toCreateParams :: "CreateTopicRequestBody \<Rightarrow> TopicSpec" where
  "toCreateParams b =
    \<lparr>TopicSpec_Name = CreateTopicRequestBody_Name b, TopicSpec_Partitions = CreateTopicRequestBody_Partitions b,
     TopicSpec_ReplicationFactor = CreateTopicRequestBody_ReplicationFactor b,
     TopicSpec_Configs = CreateTopicRequestBody_Configs b\<rparr>"

definition toCreateTopicPlanDTO :: "CreateResult \<Rightarrow> CreateTopicPlanDTO" where
  "toCreateTopicPlanDTO r =
    \<lparr>CreateTopicPlanDTO_Name = CR_Name r, CreateTopicPlanDTO_Partitions = CR_Partitions r,
     CreateTopicPlanDTO_ReplicationFactor = CR_ReplicationFactor r,
     CreateTopicPlanDTO_Configs = toTopicConfigEntryDTOs (CR_Configs r)\<rparr>"

definition bulk_item_dto :: "string list \<Rightarrow> BulkItemResult \<Rightarrow> CreateBulkItemResultDTO" where
  "bulk_item_dto names item =
    \<lparr>CreateBulkItemResultDTO_Index = BulkItem_Index item,
     CreateBulkItemResultDTO_Status = (if BulkItem_Outcome item \<noteq> OutcomeSucceeded then ''failed'' else ''ok''),
     CreateBulkItemResultDTO_Name =
       (if BulkItem_Index item < int (length names) then names ! nat (BulkItem_Index item) else []),
     CreateBulkItemResultDTO_Error = BulkItem_Error item\<rparr>"

definition topic_summary_dto :: "BulkSummary \<Rightarrow> TopicBulkSummaryDTO" where
  "topic_summary_dto sm = \<lparr>TopicBulkSummaryDTO_Total = BulkSummary_Total sm,
     TopicBulkSummaryDTO_OK = BulkSummary_Succeeded sm, TopicBulkSummaryDTO_Failed = BulkSummary_Failed sm\<rparr>"

definition bulk_status :: "BulkSummary \<Rightarrow> int" where
  "bulk_status sm = (if BulkSummary_Failed sm > 0 then StatusMultiStatus else StatusOK)"

definition toCreateTopicsBulkBody ::
  "CreateTopicRequestBody list \<Rightarrow> BulkResult \<Rightarrow> CreateTopicsBulkBody \<times> int" where
  "toCreateTopicsBulkBody topics r =
    (\<lparr>CreateTopicsBulkBody_Items = map (bulk_item_dto (map CreateTopicRequestBody_Name topics)) (BulkResult_Items r),
      CreateTopicsBulkBody_Summary = topic_summary_dto (BulkResult_Summary r)\<rparr>,
     bulk_status (BulkResult_Summary r))"

definition toAlterConfigPlanDTO :: "AlterConfigPlan \<Rightarrow> AlterConfigPlanDTO" where
  "toAlterConfigPlanDTO p = \<lparr>AlterConfigPlanDTO_Topic = ACP_Topic p,
     AlterConfigPlanDTO_Changes = map (\<lambda>c. \<lparr>ConfigChangeDetailDTO_Name = CCD_Name c,
       ConfigChangeDetailDTO_From = CCD_From c, ConfigChangeDetailDTO_To = CCD_To c\<rparr>) (ACP_Changes p)\<rparr>"

definition toAddPartitionsPlanDTO :: "AddPartitionsPlan \<Rightarrow> AddPartitionsPlanDTO" where
  "toAddPartitionsPlanDTO p = \<lparr>AddPartitionsPlanDTO_Topic = APP_Topic p, AddPartitionsPlanDTO_From = APP_From p,
     AddPartitionsPlanDTO_To = APP_To p, AddPartitionsPlanDTO_Warning = APP_Warning p\<rparr>"

definition toDeleteTopicPlanDTO :: "DeleteTopicPlan \<Rightarrow> DeleteTopicPlanDTO" where
  "toDeleteTopicPlanDTO p = \<lparr>DeleteTopicPlanDTO_Topic = DTP_Topic p,
     DeleteTopicPlanDTO_Partitions = DTP_Partitions p, DeleteTopicPlanDTO_ApproxMessages = DTP_ApproxMessages p\<rparr>"

definition toBulkDeletePlanDTO :: "BulkDeletePlan \<Rightarrow> BulkDeletePlanDTO" where
  "toBulkDeletePlanDTO p = \<lparr>BulkDeletePlanDTO_Topics = BDP_Topics p, BulkDeletePlanDTO_PlanToken = BDP_PlanToken p\<rparr>"

definition toBulkDeleteBody :: "string list \<Rightarrow> BulkResult \<Rightarrow> BulkDeleteBody \<times> int" where
  "toBulkDeleteBody topics r =
    (zero_BulkDeleteBody\<lparr>BulkDeleteBody_Items := map (bulk_item_dto topics) (BulkResult_Items r),
       BulkDeleteBody_Summary := Some (topic_summary_dto (BulkResult_Summary r))\<rparr>,
     bulk_status (BulkResult_Summary r))"

definition toDeleteRecordsPlanDTO :: "DeleteRecordsPlan \<Rightarrow> DeleteRecordsPlanDTO" where
  "toDeleteRecordsPlanDTO p = \<lparr>DeleteRecordsPlanDTO_Topic = DRP_Topic p,
     DeleteRecordsPlanDTO_Partitions = map (\<lambda>d.
       \<lparr>PartitionDeleteRecordsDetailDTO_Partition = PDR_Partition d,
        PartitionDeleteRecordsDetailDTO_BeginOffset = PDR_BeginOffset d,
        PartitionDeleteRecordsDetailDTO_TruncateTo = PDR_TruncateTo d,
        PartitionDeleteRecordsDetailDTO_ApproxRecordsAffected = PDR_ApproxRecordsAffected d\<rparr>) (DRP_Partitions p)\<rparr>"

definition toPartitionWatermarkDTOs :: "PartitionWatermark list \<Rightarrow> PartitionWatermarkDTO list" where
  "toPartitionWatermarkDTOs ps = map (\<lambda>p. \<lparr>PartitionWatermarkDTO_ID = PW_ID p,
     PartitionWatermarkDTO_LowWatermark = PW_LowWatermark p\<rparr>) ps"

text \<open>The loop over the request's offsets, in the order the range statement visits them.\<close>

fun offsets_loop :: "(string \<times> int64) list \<Rightarrow> (int32 \<times> int64) list \<Rightarrow> error + (int32 \<times> int64) list" where
  "offsets_loop [] out = Inr out"
| "offsets_loop ((key, truncateTo) # rest) out =
    (case ParseInt32 key of
       None \<Rightarrow> Inl (policyErr Validation (''offsets key '' @ key @ '' is not a partition number''))
     | Some part \<Rightarrow> offsets_loop rest (mput part truncateTo out))"

definition toOffsetsMap :: "(string \<times> int64) list \<Rightarrow> error + (int32 \<times> int64) list" where
  "toOffsetsMap offsets = offsets_loop offsets []"

section \<open>Boxed plans\<close>

definition unbox_ConfigChangeDetail :: "any \<Rightarrow> ConfigChangeDetail option" where
  "unbox_ConfigChangeDetail a = do {
     name \<leftarrow> get_as ''ConfigChangeDetail'' ''Name'' as_str a;
     frm \<leftarrow> get_as ''ConfigChangeDetail'' ''From'' as_str a;
     to \<leftarrow> get_as ''ConfigChangeDetail'' ''To'' as_str a;
     Some \<lparr>CCD_Name = name, CCD_From = frm, CCD_To = to\<rparr> }"

definition unbox_AlterConfigPlan :: "any \<Rightarrow> AlterConfigPlan option" where
  "unbox_AlterConfigPlan a = do {
     topic \<leftarrow> get_as ''AlterConfigPlan'' ''Topic'' as_str a;
     changes \<leftarrow> get_as ''AlterConfigPlan'' ''Changes'' (as_list unbox_ConfigChangeDetail) a;
     Some \<lparr>ACP_Topic = topic, ACP_Changes = changes\<rparr> }"

definition unbox_AddPartitionsPlan :: "any \<Rightarrow> AddPartitionsPlan option" where
  "unbox_AddPartitionsPlan a = do {
     topic \<leftarrow> get_as ''AddPartitionsPlan'' ''Topic'' as_str a;
     frm \<leftarrow> get_as ''AddPartitionsPlan'' ''From'' as_int a;
     to \<leftarrow> get_as ''AddPartitionsPlan'' ''To'' as_int a;
     warning \<leftarrow> get_as ''AddPartitionsPlan'' ''Warning'' as_str a;
     Some \<lparr>APP_Topic = topic, APP_From = frm, APP_To = to, APP_Warning = warning\<rparr> }"

definition unbox_DeleteTopicPlan :: "any \<Rightarrow> DeleteTopicPlan option" where
  "unbox_DeleteTopicPlan a = do {
     topic \<leftarrow> get_as ''DeleteTopicPlan'' ''Topic'' as_str a;
     parts \<leftarrow> get_as ''DeleteTopicPlan'' ''Partitions'' as_int a;
     approx \<leftarrow> get_as ''DeleteTopicPlan'' ''ApproxMessages'' as_int a;
     Some \<lparr>DTP_Topic = topic, DTP_Partitions = parts, DTP_ApproxMessages = approx\<rparr> }"

definition unbox_BulkDeletePlan :: "any \<Rightarrow> BulkDeletePlan option" where
  "unbox_BulkDeletePlan a = do {
     topics \<leftarrow> get_as ''BulkDeletePlan'' ''Topics'' (as_list as_str) a;
     token \<leftarrow> get_as ''BulkDeletePlan'' ''PlanToken'' as_str a;
     Some \<lparr>BDP_Topics = topics, BDP_PlanToken = token\<rparr> }"

definition unbox_PartitionDeleteRecordsDetail :: "any \<Rightarrow> PartitionDeleteRecordsDetail option" where
  "unbox_PartitionDeleteRecordsDetail a = do {
     part \<leftarrow> get_as ''PartitionDeleteRecordsDetail'' ''Partition'' as_int a;
     beg \<leftarrow> get_as ''PartitionDeleteRecordsDetail'' ''BeginOffset'' as_int a;
     to \<leftarrow> get_as ''PartitionDeleteRecordsDetail'' ''TruncateTo'' as_int a;
     approx \<leftarrow> get_as ''PartitionDeleteRecordsDetail'' ''ApproxRecordsAffected'' as_int a;
     Some \<lparr>PDR_Partition = part, PDR_BeginOffset = beg, PDR_TruncateTo = to,
       PDR_ApproxRecordsAffected = approx\<rparr> }"

definition unbox_DeleteRecordsPlan :: "any \<Rightarrow> DeleteRecordsPlan option" where
  "unbox_DeleteRecordsPlan a = do {
     topic \<leftarrow> get_as ''DeleteRecordsPlan'' ''Topic'' as_str a;
     parts \<leftarrow> get_as ''DeleteRecordsPlan'' ''Partitions'' (as_list unbox_PartitionDeleteRecordsDetail) a;
     Some \<lparr>DRP_Topic = topic, DRP_Partitions = parts\<rparr> }"

lemma unbox_ConfigChangeDetail_any: "unbox_ConfigChangeDetail (ConfigChangeDetail_any c) = Some c"
  by (simp add: unbox_ConfigChangeDetail_def ConfigChangeDetail_any_def unbox_simps)

lemma unbox_PartitionDeleteRecordsDetail_any:
  "unbox_PartitionDeleteRecordsDetail (PartitionDeleteRecordsDetail_any d) = Some d"
  by (simp add: unbox_PartitionDeleteRecordsDetail_def PartitionDeleteRecordsDetail_any_def unbox_simps)

lemma unbox_topic_plans [unbox_simps]:
  "unbox_AlterConfigPlan (plan_any AlterConfigPlan_ops p1) = Some p1"
  "unbox_AddPartitionsPlan (plan_any AddPartitionsPlan_ops p2) = Some p2"
  "unbox_DeleteTopicPlan (plan_any DeleteTopicPlan_ops p3) = Some p3"
  "unbox_BulkDeletePlan (plan_any BulkDeletePlan_ops p4) = Some p4"
  "unbox_DeleteRecordsPlan (plan_any DeleteRecordsPlan_ops p5) = Some p5"
  by (simp_all add: unbox_AlterConfigPlan_def AlterConfigPlan_ops_def unbox_AddPartitionsPlan_def
      AddPartitionsPlan_ops_def unbox_DeleteTopicPlan_def DeleteTopicPlan_ops_def unbox_BulkDeletePlan_def
      BulkDeletePlan_ops_def unbox_DeleteRecordsPlan_def DeleteRecordsPlan_ops_def unbox_simps
      as_list_map unbox_ConfigChangeDetail_any unbox_PartitionDeleteRecordsDetail_any)

section \<open>Handlers\<close>

definition createTopic :: "'s Service \<Rightarrow> Request \<Rightarrow> CreateTopicInput \<Rightarrow> ('s, CreateTopicOutput) reply" where
  "createTopic svc r inp =
    orMap r (topic_Create svc (caller_of r) (toCreateParams (CreateTopicInput_Body inp)) (CreateTopicInput_DryRun inp))
      (\<lambda>(result, isDryRun).
        if isDryRun then reply \<lparr>CreateTopicOutput_Status = StatusOK,
          CreateTopicOutput_Body = zero_CreateTopicBody\<lparr>CreateTopicBody_DryRun := True,
            CreateTopicBody_Plan := Some (toCreateTopicPlanDTO result)\<rparr>\<rparr>
        else reply \<lparr>CreateTopicOutput_Status = StatusCreated,
          CreateTopicOutput_Body = zero_CreateTopicBody\<lparr>CreateTopicBody_Name := CR_Name result,
            CreateTopicBody_Partitions := CR_Partitions result,
            CreateTopicBody_ReplicationFactor := CR_ReplicationFactor result,
            CreateTopicBody_Configs := toTopicConfigEntryDTOs (CR_Configs result)\<rparr>\<rparr>)"

definition createTopicsBulk ::
  "'s Service \<Rightarrow> Request \<Rightarrow> CreateTopicsBulkInput \<Rightarrow> ('s, CreateTopicsBulkOutput) reply" where
  "createTopicsBulk svc r inp =
    (let topics = CreateTopicsBulkRequestBody_Topics (CreateTopicsBulkInput_Body inp) in
     orMap r (topic_CreateBulk svc (caller_of r) (map toCreateParams topics)) (\<lambda>result.
       case toCreateTopicsBulkBody topics result of (body, status) \<Rightarrow>
         reply \<lparr>CreateTopicsBulkOutput_Status = status, CreateTopicsBulkOutput_Body = body\<rparr>))"

definition alterConfig :: "'s Service \<Rightarrow> Request \<Rightarrow> AlterConfigInput \<Rightarrow> ('s, AlterConfigOutput) reply" where
  "alterConfig svc r inp =
    (let body = AlterConfigInput_Body inp in
     orMapDestructive r unbox_AlterConfigPlan (\<lambda>p. json_AlterConfigPlanDTO (toAlterConfigPlanDTO p))
       (AlterConfig svc (caller_of r) (AlterConfigInput_Name inp) (AlterConfigRequestBody_Set body)
         (AlterConfigRequestBody_Reset body) (AlterConfigRequestBody_Confirm body) (AlterConfigInput_DryRun inp))
       (destructive_reply
         (\<lambda>p. \<lparr>AlterConfigOutput_Body = zero_AlterConfigBody\<lparr>AlterConfigBody_DryRun := True,
            AlterConfigBody_Plan := Some (toAlterConfigPlanDTO p)\<rparr>\<rparr>)
         (\<lambda>p v. \<lparr>AlterConfigOutput_Body = zero_AlterConfigBody\<lparr>AlterConfigBody_Name := ACR_Name v,
            AlterConfigBody_Configs := toTopicConfigEntryDTOs (ACR_Configs v)\<rparr>\<rparr>)))"

definition addPartitions :: "'s Service \<Rightarrow> Request \<Rightarrow> AddPartitionsInput \<Rightarrow> ('s, AddPartitionsOutput) reply" where
  "addPartitions svc r inp =
    (let body = AddPartitionsInput_Body inp in
     orMapDestructive r unbox_AddPartitionsPlan (\<lambda>p. json_AddPartitionsPlanDTO (toAddPartitionsPlanDTO p))
       (AddPartitions svc (caller_of r) (AddPartitionsInput_Name inp) (AddPartitionsRequestBody_Partitions body)
         (AddPartitionsRequestBody_Confirm body) (AddPartitionsInput_DryRun inp))
       (destructive_reply
         (\<lambda>p. \<lparr>AddPartitionsOutput_Body = zero_AddPartitionsBody\<lparr>AddPartitionsBody_DryRun := True,
            AddPartitionsBody_Plan := Some (toAddPartitionsPlanDTO p)\<rparr>\<rparr>)
         (\<lambda>p v. \<lparr>AddPartitionsOutput_Body = zero_AddPartitionsBody\<lparr>AddPartitionsBody_Name := APR_Name v,
            AddPartitionsBody_PartitionCount := APR_PartitionCount v\<rparr>\<rparr>)))"

definition deleteTopic :: "'s Service \<Rightarrow> Request \<Rightarrow> DeleteTopicInput \<Rightarrow> ('s, DeleteTopicOutput) reply" where
  "deleteTopic svc r inp =
    orMapDestructive r unbox_DeleteTopicPlan (\<lambda>p. json_DeleteTopicPlanDTO (toDeleteTopicPlanDTO p))
      (topic_Delete svc (caller_of r) (DeleteTopicInput_Name inp)
        (DeleteTopicRequestBody_Confirm (DeleteTopicInput_Body inp)) (DeleteTopicInput_DryRun inp))
      (destructive_reply
        (\<lambda>p. \<lparr>DeleteTopicOutput_Body = zero_DeleteTopicBody\<lparr>DeleteTopicBody_DryRun := True,
           DeleteTopicBody_Plan := Some (toDeleteTopicPlanDTO p)\<rparr>\<rparr>)
        (\<lambda>p v. \<lparr>DeleteTopicOutput_Body = zero_DeleteTopicBody\<lparr>DeleteTopicBody_Deleted := v\<rparr>\<rparr>))"

definition deleteTopicsBulk ::
  "(string \<Rightarrow> string + regexp) \<Rightarrow> 's Service \<Rightarrow> Request \<Rightarrow> BulkDeleteInput \<Rightarrow> ('s, BulkDeleteOutput) reply" where
  "deleteTopicsBulk compile svc r inp =
    (let body = BulkDeleteInput_Body inp in
     orMapDestructive r unbox_BulkDeletePlan (\<lambda>p. json_BulkDeletePlanDTO (toBulkDeletePlanDTO p))
       (BulkDelete compile svc (caller_of r) (BulkDeleteRequestBody_Topics body) (BulkDeleteRequestBody_Pattern body)
         (BulkDeleteRequestBody_Confirm body) (BulkDeleteInput_DryRun inp))
       (destructive_reply
         (\<lambda>p. \<lparr>BulkDeleteOutput_Status = StatusOK, BulkDeleteOutput_Body = zero_BulkDeleteBody
            \<lparr>BulkDeleteBody_DryRun := True, BulkDeleteBody_Plan := Some (toBulkDeletePlanDTO p)\<rparr>\<rparr>)
         (\<lambda>p v. case toBulkDeleteBody (BDP_Topics p) v of (body, status) \<Rightarrow>
            \<lparr>BulkDeleteOutput_Status = status, BulkDeleteOutput_Body = body\<rparr>)))"

definition deleteRecords :: "'s Service \<Rightarrow> Request \<Rightarrow> DeleteRecordsInput \<Rightarrow> ('s, DeleteRecordsOutput) reply" where
  "deleteRecords svc r inp =
    (let body = DeleteRecordsInput_Body inp in
     case toOffsetsMap (DeleteRecordsRequestBody_Offsets body) of
       Inl err \<Rightarrow> replyErr r err
     | Inr offsets \<Rightarrow>
     orMapDestructive r unbox_DeleteRecordsPlan (\<lambda>p. json_DeleteRecordsPlanDTO (toDeleteRecordsPlanDTO p))
       (topic_DeleteRecords svc (caller_of r) (DeleteRecordsInput_Name inp) offsets
         (DeleteRecordsRequestBody_Confirm body) (DeleteRecordsInput_DryRun inp))
       (destructive_reply
         (\<lambda>p. \<lparr>DeleteRecordsOutput_Body = zero_DeleteRecordsBody\<lparr>DeleteRecordsBody_DryRun := True,
            DeleteRecordsBody_Plan := Some (toDeleteRecordsPlanDTO p)\<rparr>\<rparr>)
         (\<lambda>p v. \<lparr>DeleteRecordsOutput_Body = zero_DeleteRecordsBody
            \<lparr>DeleteRecordsBody_Partitions := toPartitionWatermarkDTOs v\<rparr>\<rparr>)))"

definition purgeTopic :: "'s Service \<Rightarrow> Request \<Rightarrow> PurgeInput \<Rightarrow> ('s, PurgeOutput) reply" where
  "purgeTopic svc r inp =
    orMapDestructive r unbox_DeleteRecordsPlan (\<lambda>p. json_DeleteRecordsPlanDTO (toDeleteRecordsPlanDTO p))
      (topic_Purge svc (caller_of r) (PurgeInput_Name inp) (PurgeRequestBody_Confirm (PurgeInput_Body inp))
        (PurgeInput_DryRun inp))
      (destructive_reply
        (\<lambda>p. \<lparr>PurgeOutput_Body = zero_PurgeBody\<lparr>PurgeBody_DryRun := True,
           PurgeBody_Plan := Some (toDeleteRecordsPlanDTO p)\<rparr>\<rparr>)
        (\<lambda>p v. \<lparr>PurgeOutput_Body = zero_PurgeBody\<lparr>PurgeBody_Partitions := toPartitionWatermarkDTOs v\<rparr>\<rparr>))"

text \<open>The page size of a list request: the configured default for zero, an error above the ceiling.\<close>

definition resolvePageSize :: "PageBounds \<Rightarrow> int64 \<Rightarrow> error + int64" where
  "resolvePageSize bounds requested =
    (let pageSize = (if requested = 0 then PageBounds_Default bounds else requested) in
     if pageSize > PageBounds_Ceiling bounds
     then Inl (policyErr BoundExceeded ''pageSize exceeds the configured ceiling'') else Inr pageSize)"

definition listTopics ::
  "(string \<Rightarrow> string + regexp) \<Rightarrow> 's Service \<Rightarrow> PageBounds \<Rightarrow> Request \<Rightarrow> ListTopicsInput
   \<Rightarrow> ('s, ListTopicsOutput) reply" where
  "listTopics compile svc bounds r inp =
    (case resolvePageSize bounds (ListTopicsInput_PageSize inp) of
       Inl err \<Rightarrow> replyErr r err
     | Inr pageSize \<Rightarrow>
       orMap r (topic_List compile svc \<lparr>TLP_Pattern = ListTopicsInput_Pattern inp,
           TLP_IncludeInternal = ListTopicsInput_IncludeInternal inp, TLP_Page = ListTopicsInput_Page inp,
           TLP_PageSize = pageSize\<rparr>) (\<lambda>(items, page).
         reply \<lparr>ListTopicsOutput_Body = \<lparr>ListTopicsBody_Items = toListItems items,
           ListTopicsBody_Page = \<lparr>PageDTO_Page = LP_Page page, PageDTO_PageSize = LP_PageSize page,
             PageDTO_Total = LP_Total page\<rparr>\<rparr>\<rparr>))"

definition describeTopic :: "'s Service \<Rightarrow> Request \<Rightarrow> DescribeTopicInput \<Rightarrow> ('s, DescribeTopicOutput) reply" where
  "describeTopic svc r inp =
    orMap r (topic_Describe svc (DescribeTopicInput_Name inp)) (\<lambda>d.
      reply \<lparr>DescribeTopicOutput_Body = toDescribeBody d\<rparr>)"

definition topicSize :: "'s Service \<Rightarrow> Request \<Rightarrow> TopicSizeInput \<Rightarrow> ('s, TopicSizeOutput) reply" where
  "topicSize svc r inp =
    orMap r (topic_Size svc (TopicSizeInput_Name inp)) (\<lambda>s. reply \<lparr>TopicSizeOutput_Body = toSizeBody s\<rparr>)"

definition topicCount :: "'s Service \<Rightarrow> Request \<Rightarrow> TopicCountInput \<Rightarrow> ('s, TopicCountOutput) reply" where
  "topicCount svc r inp =
    (case parse_RFC3339 (TopicCountInput_From inp) of
       None \<Rightarrow> replyErr r (policyErr Validation ''from must be an RFC3339 timestamp'')
     | Some frm \<Rightarrow> (case parse_RFC3339 (TopicCountInput_To inp) of
       None \<Rightarrow> replyErr r (policyErr Validation ''to must be an RFC3339 timestamp'')
     | Some to \<Rightarrow>
       orMap r (topic_CountInWindow svc (TopicCountInput_Name inp) (UnixMilli frm) (UnixMilli to)) (\<lambda>c.
         reply \<lparr>TopicCountOutput_Body = toCountBody c (TopicCountInput_From inp) (TopicCountInput_To inp)\<rparr>)))"

definition topicConsumerGroups ::
  "'s Service \<Rightarrow> Request \<Rightarrow> TopicConsumerGroupsInput \<Rightarrow> ('s, TopicConsumerGroupsOutput) reply" where
  "topicConsumerGroups groupSvc r inp =
    orMap r (ConsumersOfTopic groupSvc (TopicConsumerGroupsInput_Name inp)) (\<lambda>groups.
      reply \<lparr>TopicConsumerGroupsOutput_Body = toTopicConsumerGroupsBody (TopicConsumerGroupsInput_Name inp) groups\<rparr>)"

end
