(* ===== verification/ScanRun.thy ===== *)
theory ScanRun
  imports ScanCodec KafkaPort
begin

text \<open>
  The bounded scan (\<^verbatim>\<open>internal/scan/spec.go\<close>, \<^verbatim>\<open>stats.go\<close>, \<^verbatim>\<open>matcher.go\<close>, \<^verbatim>\<open>runner.go\<close>): resolve the
  windows, assign, poll, evaluate, and stop at a bound or when every window is exhausted.

  The poll loop of the source need not end, so it runs on fuel: \<open>None\<close> means that it is still polling
  after that many rounds. The consumer and the context's \<open>Err()\<close> are parameters; \<open>emit\<close> appends to a
  list, as it does in every caller.
\<close>

section \<open>Specification and state\<close>

record PartitionSpec =
  PSpec_Start :: int64
  PSpec_End :: int64

record Spec =
  Spec_Topic :: string
  Spec_Partitions :: "(int32 \<times> PartitionSpec) list"
  Spec_Latest :: bool
  Spec_MaxMessages :: int64
  Spec_MaxScanned :: int64
  Spec_MaxBytes :: int64
  Spec_MaxTime :: int64
  Spec_Format :: string

definition StoppedByMaxMessages :: string where
  "StoppedByMaxMessages = ''maxMessages''"

definition StoppedByMaxBytes :: string where
  "StoppedByMaxBytes = ''maxBytes''"

definition StoppedByMaxTime :: string where
  "StoppedByMaxTime = ''maxTime''"

record Stats =
  Stats_Scanned :: int64
  Stats_Matched :: int64
  Stats_Skipped :: int64
  Stats_Bytes :: int64
  Stats_ElapsedMs :: int64
  Stats_ReachedEnd :: bool
  Stats_StoppedBy :: string
  Stats_Continuation :: "(int32 \<times> int64) list"

record MatchResult =
  MR_Match :: bool
  MR_Skipped :: bool

type_synonym Matcher = "scan_Record \<Rightarrow> MatchResult"

definition MatchAll :: Matcher where
  "MatchAll r = \<lparr>MR_Match = True, MR_Skipped = False\<rparr>"

text \<open>The accumulator, the cursor of every partition, and what has been collected.\<close>

record scan_state =
  sc_scanned :: int64
  sc_matched :: int64
  sc_skipped :: int64
  sc_bytes :: int64
  sc_cursor :: "(int32 \<times> int64) list"
  sc_collected :: "scan_Record list"

definition scan_start :: "Spec \<Rightarrow> scan_state" where
  "scan_start spec = \<lparr>sc_scanned = 0, sc_matched = 0, sc_skipped = 0, sc_bytes = 0,
     sc_cursor = map (\<lambda>(p, ps). (p, PSpec_Start ps)) (Spec_Partitions spec), sc_collected = []\<rparr>"

section \<open>Evaluating a record\<close>

definition hitBound :: "scan_state \<Rightarrow> Spec \<Rightarrow> string" where
  "hitBound acc spec =
    (if \<not> Spec_Latest spec \<and> Spec_MaxMessages spec > 0 \<and> sc_matched acc \<ge> Spec_MaxMessages spec
     then StoppedByMaxMessages
     else if Spec_MaxScanned spec > 0 \<and> sc_scanned acc \<ge> Spec_MaxScanned spec then StoppedByMaxMessages
     else if Spec_MaxBytes spec > 0 \<and> sc_bytes acc \<ge> Spec_MaxBytes spec then StoppedByMaxBytes
     else [])"

text \<open>Records outside \<open>[cursor, End)\<close> are ignored.\<close>

definition in_window :: "Spec \<Rightarrow> (int32 \<times> int64) list \<Rightarrow> Record \<Rightarrow> bool" where
  "in_window spec cursor r \<longleftrightarrow>
    (case map_of (Spec_Partitions spec) (Record_Partition r) of
       None \<Rightarrow> False
     | Some w \<Rightarrow> \<not> (Record_Offset r < mget cursor 0 (Record_Partition r) \<or> Record_Offset r \<ge> PSpec_End w))"

definition count_record :: "Record \<Rightarrow> Spec \<Rightarrow> Matcher \<Rightarrow> scan_state \<Rightarrow> scan_state" where
  "count_record r spec matcher acc =
    (let acc1 = acc\<lparr>sc_cursor := mput (Record_Partition r) (wrap64 (Record_Offset r + 1)) (sc_cursor acc),
           sc_scanned := wrap64 (sc_scanned acc + 1),
           sc_bytes := wrap64 (sc_bytes acc + int (length (slice (Record_Key r)) + length (slice (Record_Value r))))\<rparr>;
         decoded = Decode r (Spec_Format spec);
         res = matcher decoded
     in if MR_Skipped res then acc1\<lparr>sc_skipped := wrap64 (sc_skipped acc1 + 1)\<rparr>
        else if MR_Match res then acc1\<lparr>sc_matched := wrap64 (sc_matched acc1 + 1),
            sc_collected := sc_collected acc1 @ [decoded]\<rparr>
        else acc1)"

definition evaluate :: "Record \<Rightarrow> Spec \<Rightarrow> Matcher \<Rightarrow> scan_state \<Rightarrow> (bool \<times> string) \<times> scan_state" where
  "evaluate r spec matcher acc =
    (if \<not> in_window spec (sc_cursor acc) r then ((False, []), acc)
     else (let acc' = count_record r spec matcher acc in ((True, hitBound acc' spec), acc')))"

definition windowsExhausted :: "Spec \<Rightarrow> (int32 \<times> int64) list \<Rightarrow> bool" where
  "windowsExhausted spec cursor \<longleftrightarrow>
    list_all (\<lambda>(p, ps). \<not> mget cursor 0 p < PSpec_End ps) (Spec_Partitions spec)"

text \<open>The records of one poll, up to the bound that stops the scan.\<close>

fun eval_batch :: "Record list \<Rightarrow> Spec \<Rightarrow> Matcher \<Rightarrow> scan_state \<Rightarrow> string \<times> scan_state" where
  "eval_batch [] spec matcher acc = ([], acc)"
| "eval_batch (r # rs) spec matcher acc =
    (case evaluate r spec matcher acc of
       ((counted, bound), acc') \<Rightarrow>
         if counted \<and> bound \<noteq> [] then (bound, acc') else eval_batch rs spec matcher acc')"

section \<open>Polling\<close>

text \<open>
  One round of the loop: the loop's result, or \<open>None\<close> to go on. \<open>ended\<close> is \<open>pollCtx.Err() != nil\<close>.
\<close>

type_synonym loop_result = "(bool \<times> string) res"

definition poll_round ::
  "('s, Record list) eff \<Rightarrow> ('s \<Rightarrow> bool) \<Rightarrow> Spec \<Rightarrow> Matcher \<Rightarrow> scan_state \<Rightarrow> 's
   \<Rightarrow> loop_result option \<times> scan_state \<times> 's" where
  "poll_round poll ended spec matcher acc s =
    (if windowsExhausted spec (sc_cursor acc) then (Some (Ok (True, [])), acc, s)
     else (case poll s of
         (Panic, s') \<Rightarrow> (Some Panic, acc, s')
       | (Err err, s') \<Rightarrow>
           (Some (if ended s' then Ok (False, StoppedByMaxTime) else Err err), acc, s')
       | (Ok records, s') \<Rightarrow>
           (case eval_batch records spec matcher acc of (bound, acc') \<Rightarrow>
              if bound \<noteq> [] then (Some (Ok (False, bound)), acc', s')
              else if records = [] \<and> ended s' then (Some (Ok (False, StoppedByMaxTime)), acc', s')
              else (None, acc', s'))))"

fun pollLoop ::
  "nat \<Rightarrow> ('s, Record list) eff \<Rightarrow> ('s \<Rightarrow> bool) \<Rightarrow> Spec \<Rightarrow> Matcher \<Rightarrow> scan_state \<Rightarrow> 's
   \<Rightarrow> (loop_result \<times> scan_state \<times> 's) option" where
  "pollLoop 0 poll ended spec matcher acc s = None"
| "pollLoop (Suc n) poll ended spec matcher acc s =
    (case poll_round poll ended spec matcher acc s of
       (Some res, acc', s') \<Rightarrow> Some (res, acc', s')
     | (None, acc', s') \<Rightarrow> pollLoop n poll ended spec matcher acc' s')"

section \<open>The scan\<close>

text \<open>A latest scan: newest first, and no more than the limit.\<close>

definition drain :: "Spec \<Rightarrow> scan_state \<Rightarrow> scan_state" where
  "drain spec acc =
    (if \<not> Spec_Latest spec then acc
     else (let buffer = sort_key (\<lambda>r. - SR_Timestamp r) (sc_collected acc);
               kept = (if Spec_MaxMessages spec > 0 \<and> int (length buffer) > Spec_MaxMessages spec
                       then take (nat (Spec_MaxMessages spec)) buffer else buffer)
           in acc\<lparr>sc_matched := int (length kept), sc_collected := kept\<rparr>))"

definition finalStats :: "Spec \<Rightarrow> (int32 \<times> int64) list \<Rightarrow> bool \<Rightarrow> string \<Rightarrow> int64 \<Rightarrow> scan_state \<Rightarrow> Stats" where
  "finalStats spec cursor reachedEnd stoppedBy elapsedMs acc =
    \<lparr>Stats_Scanned = sc_scanned acc, Stats_Matched = sc_matched acc, Stats_Skipped = sc_skipped acc,
     Stats_Bytes = sc_bytes acc, Stats_ElapsedMs = elapsedMs,
     Stats_ReachedEnd = (if Spec_Latest spec then True else reachedEnd),
     Stats_StoppedBy = (if Spec_Latest spec then [] else stoppedBy),
     Stats_Continuation = map (\<lambda>(p, ps).
        (p, if Spec_Latest spec then PSpec_Start ps else mget cursor 0 p)) (Spec_Partitions spec)\<rparr>"

text \<open>
  What a scan runs in: a consumer per context, \<open>ctx.Err() != nil\<close>, \<open>context.WithTimeout\<close> at a point
  of the run, and the injected clock.
\<close>

record ('s, 'c) ScanEnv =
  env_consumer :: "'c \<Rightarrow> 's Consumer"
  env_ended :: "'c \<Rightarrow> 's \<Rightarrow> bool"
  env_timeout :: "'c \<Rightarrow> int64 \<Rightarrow> 's \<Rightarrow> 'c"
  env_now :: "'s \<Rightarrow> time \<times> 's"

definition poll_ctx :: "('s, 'c) ScanEnv \<Rightarrow> 'c \<Rightarrow> Spec \<Rightarrow> 's \<Rightarrow> 'c" where
  "poll_ctx env ctx spec s =
    (if Spec_MaxTime spec > 0 then env_timeout env ctx (Spec_MaxTime spec) s else ctx)"

text \<open>
  The consumer is closed on every path on which it was assigned. The partitions that \<open>Assign\<close> gets are the keys of
  a map in the source, in any order; a consumer puts them into a map of its own, whose order at each poll is the
  consumer's (for the in-memory one \<open>fake_Poll\<close>, which draws a fresh order from \<open>fk_ranges\<close>).
\<close>

definition Run ::
  "nat \<Rightarrow> ('s, 'c) ScanEnv \<Rightarrow> 'c \<Rightarrow> Spec \<Rightarrow> Matcher \<Rightarrow> 's \<Rightarrow> ((scan_Record list \<times> Stats) res \<times> 's) option" where
  "Run fuel env ctx spec matcher s =
    (case env_now env s of (start, s1) \<Rightarrow>
     if Spec_Partitions spec = [] then Some (Ok ([], finalStats spec [] True [] 0 (scan_start spec)), s1)
     else (case Assign (env_consumer env ctx) (Spec_Topic spec) (mkeys (Spec_Partitions spec))
                 (sc_cursor (scan_start spec)) s1 of
         (Panic, s2) \<Rightarrow> Some (Panic, s2)
       | (Err err, s2) \<Rightarrow> Some (Err err, s2)
       | (Ok _, s2) \<Rightarrow>
           (let pollCtx = poll_ctx env ctx spec s2; close = Close (env_consumer env ctx)
            in case pollLoop fuel (Poll (env_consumer env pollCtx)) (env_ended env pollCtx) spec matcher
                   (scan_start spec) s2 of
              None \<Rightarrow> None
            | Some (Panic, acc, s3) \<Rightarrow> Some (Panic, snd (close s3))
            | Some (Err err, acc, s3) \<Rightarrow> Some (Err err, snd (close s3))
            | Some (Ok (reachedEnd, stoppedBy), acc, s3) \<Rightarrow>
                (let acc' = drain spec acc
                 in case env_now env s3 of (t, s4) \<Rightarrow>
                    Some (Ok (sc_collected acc', finalStats spec (sc_cursor acc) reachedEnd stoppedBy
                            (Milliseconds (time_Sub t start)) acc'), snd (close s4))))))"

section \<open>What a scan counts\<close>

text \<open>The records that were counted, each inside its window when it was.\<close>

definition advance :: "Record \<Rightarrow> (int32 \<times> int64) list \<Rightarrow> (int32 \<times> int64) list" where
  "advance r cursor = mput (Record_Partition r) (wrap64 (Record_Offset r + 1)) cursor"

inductive windowed :: "Spec \<Rightarrow> (int32 \<times> int64) list \<Rightarrow> Record list \<Rightarrow> bool" where
  windowed_Nil: "windowed spec cursor []"
| windowed_Cons: "in_window spec cursor r \<Longrightarrow> windowed spec (advance r cursor) rs \<Longrightarrow> windowed spec cursor (r # rs)"

inductive_simps windowed_simps [simp]: "windowed spec cursor []" "windowed spec cursor (r # rs)"

definition count_all :: "Record list \<Rightarrow> Spec \<Rightarrow> Matcher \<Rightarrow> scan_state \<Rightarrow> scan_state" where
  "count_all ts spec matcher acc = fold (\<lambda>r. count_record r spec matcher) ts acc"

lemma count_all_simps [simp]:
  "count_all [] spec matcher acc = acc"
  "count_all (r # ts) spec matcher acc = count_all ts spec matcher (count_record r spec matcher acc)"
  by (simp_all add: count_all_def)

lemma count_all_append: "count_all (ts @ us) spec matcher acc = count_all us spec matcher (count_all ts spec matcher acc)"
  by (simp add: count_all_def)

lemma count_record_cursor [simp]: "sc_cursor (count_record r spec matcher acc) = advance r (sc_cursor acc)"
  by (simp add: count_record_def advance_def Let_def)

lemma count_all_cursor [simp]: "sc_cursor (count_all ts spec matcher acc) = fold advance ts (sc_cursor acc)"
  by (induction ts arbitrary: acc) simp_all

lemma windowed_append:
  "windowed spec c (ts @ us) \<longleftrightarrow> windowed spec c ts \<and> windowed spec (fold advance ts c) us"
  by (induction ts arbitrary: c)
    simp_all

text \<open>No bound was reached before the last counted record.\<close>

definition stops_last :: "Spec \<Rightarrow> Matcher \<Rightarrow> scan_state \<Rightarrow> Record list \<Rightarrow> bool" where
  "stops_last spec matcher acc ts \<longleftrightarrow>
    (\<forall>k. 0 < k \<and> k < length ts \<longrightarrow> hitBound (count_all (take k ts) spec matcher acc) spec = [])"

lemma stops_last_Nil [simp]: "stops_last spec matcher acc []"
  by (simp add: stops_last_def)

lemma stops_last_append:
  assumes "stops_last spec matcher acc ts" "ts \<noteq> [] \<Longrightarrow> hitBound (count_all ts spec matcher acc) spec = []"
    and "stops_last spec matcher (count_all ts spec matcher acc) us"
  shows "stops_last spec matcher acc (ts @ us)"
  unfolding stops_last_def
proof (intro allI impI, elim conjE)
  fix k assume k: "0 < k" "k < length (ts @ us)"
  show "hitBound (count_all (take k (ts @ us)) spec matcher acc) spec = []"
  proof (cases "k < length ts")
    case True
    then show ?thesis using assms(1) k by (simp add: stops_last_def)
  next
    case False
    show ?thesis
    proof (cases "k = length ts")
      case True
      then show ?thesis using assms(2) k by auto
    next
      case neq: False
      then have "hitBound (count_all (take (k - length ts) us) spec matcher (count_all ts spec matcher acc)) spec = []"
        using assms(3) False k by (simp add: stops_last_def)
      then show ?thesis using False by (simp add: count_all_append)
    qed
  qed
qed

definition counts ::
  "Spec \<Rightarrow> Matcher \<Rightarrow> scan_state \<Rightarrow> Record list \<Rightarrow> scan_state \<Rightarrow> bool" where
  "counts spec matcher acc ts acc' \<longleftrightarrow>
     acc' = count_all ts spec matcher acc \<and> windowed spec (sc_cursor acc) ts \<and> stops_last spec matcher acc ts"

lemma counts_Nil: "counts spec matcher acc [] acc"
  by (simp add: counts_def)

lemma counts_one:
  "in_window spec (sc_cursor acc) r \<Longrightarrow> counts spec matcher acc [r] (count_record r spec matcher acc)"
  by (simp add: counts_def stops_last_def)

lemma counts_append:
  assumes "counts spec matcher acc ts acc1" "ts \<noteq> [] \<Longrightarrow> hitBound acc1 spec = []" "counts spec matcher acc1 us acc2"
  shows "counts spec matcher acc (ts @ us) acc2"
  using assms unfolding counts_def
  by (auto simp: count_all_append windowed_append intro: stops_last_append)

text \<open>A batch counts some of its records; only the last one can have reached the bound.\<close>

lemma eval_batch_counts:
  assumes "eval_batch rs spec matcher acc = (bound, acc')"
  shows "\<exists>ts. counts spec matcher acc ts acc' \<and> set ts \<subseteq> set rs
    \<and> bound = (if ts = [] then [] else hitBound acc' spec)"
  using assms
proof (induction rs arbitrary: acc)
  case Nil
  then show ?case using counts_Nil by fastforce
next
  case (Cons r rs)
  let ?acc1 = "count_record r spec matcher acc"
  consider (out) "\<not> in_window spec (sc_cursor acc) r"
    | (stop) "in_window spec (sc_cursor acc) r" "hitBound ?acc1 spec \<noteq> []"
    | (go) "in_window spec (sc_cursor acc) r" "hitBound ?acc1 spec = []"
    by blast
  then show ?case
  proof cases
    case out
    with Cons.prems have "eval_batch rs spec matcher acc = (bound, acc')" by (simp add: evaluate_def)
    from Cons.IH [OF this] obtain ts where ts: "counts spec matcher acc ts acc'" "set ts \<subseteq> set rs"
      "bound = (if ts = [] then [] else hitBound acc' spec)" by blast
    from ts(2) have "set ts \<subseteq> set (r # rs)" by auto
    with ts(1,3) show ?thesis by blast
  next
    case stop
    with Cons.prems have "bound = hitBound ?acc1 spec" "acc' = ?acc1" by (auto simp: evaluate_def Let_def)
    with counts_one [OF stop(1), of matcher] show ?thesis by (intro exI [of _ "[r]"]) simp
  next
    case go
    with Cons.prems have "eval_batch rs spec matcher ?acc1 = (bound, acc')" by (auto simp: evaluate_def Let_def)
    from Cons.IH [OF this] obtain ts where ts: "counts spec matcher ?acc1 ts acc'" "set ts \<subseteq> set rs"
      "bound = (if ts = [] then [] else hitBound acc' spec)" by blast
    from counts_append [OF counts_one [OF go(1)] _ ts(1)] go(2) have "counts spec matcher acc (r # ts) acc'"
      by simp
    moreover have "bound = hitBound acc' spec" using ts(1,3) go(2) by (auto simp: counts_def split: if_splits)
    ultimately show ?thesis using ts(2) by (intro exI [of _ "r # ts"]) auto
  qed
qed

text \<open>
  The loop: it ends in one of four ways, exhausted, at a bound, out of time, or with the poll's error,
  and the records it counted have the same shape.
\<close>

definition ends_well :: "Spec \<Rightarrow> scan_state \<Rightarrow> Record list \<Rightarrow> loop_result \<Rightarrow> bool" where
  "ends_well spec acc' ts res \<longleftrightarrow>
    (case res of
       Ok (reachedEnd, stoppedBy) \<Rightarrow>
         (reachedEnd \<longrightarrow> stoppedBy = [] \<and> windowsExhausted spec (sc_cursor acc'))
         \<and> (\<not> reachedEnd \<longrightarrow> stoppedBy = StoppedByMaxTime \<or> (stoppedBy \<noteq> [] \<and> ts \<noteq> [] \<and> stoppedBy = hitBound acc' spec))
     | _ \<Rightarrow> True)"

lemma poll_round_counts:
  assumes "poll_round poll ended spec matcher acc s = (res, acc', s')"
  shows "\<exists>ts. counts spec matcher acc ts acc' \<and> (res = None \<longrightarrow> ts \<noteq> [] \<longrightarrow> hitBound acc' spec = [])
    \<and> (\<forall>r. res = Some r \<longrightarrow> ends_well spec acc' ts r)"
proof (cases "windowsExhausted spec (sc_cursor acc)")
  case True
  with assms have "res = Some (Ok (True, []))" "acc' = acc" by (auto simp: poll_round_def)
  with True counts_Nil show ?thesis by (intro exI [of _ "[]"]) (simp add: ends_well_def)
next
  case False
  show ?thesis
  proof (cases "fst (poll s)")
    case (Ok records)
    obtain bound acc1 where ev: "eval_batch records spec matcher acc = (bound, acc1)" by fastforce
    from eval_batch_counts [OF ev] obtain ts where ts: "counts spec matcher acc ts acc1"
      "bound = (if ts = [] then [] else hitBound acc1 spec)" by blast
    from assms False Ok ev have "acc' = acc1"
      "res = (if bound \<noteq> [] then Some (res.Ok (False, bound))
        else if records = [] \<and> ended (snd (poll s)) then Some (res.Ok (False, StoppedByMaxTime)) else None)"
      by (cases "poll s", simp add: poll_round_def split: if_splits)+
    with ts show ?thesis
      by (intro exI [of _ ts]) (auto simp: ends_well_def split: if_splits)
  next
    case (Err err)
    with assms False have "acc' = acc" "res = Some (if ended (snd (poll s)) then Ok (False, StoppedByMaxTime) else res.Err err)"
      by (cases "poll s", simp add: poll_round_def)+
    with counts_Nil show ?thesis by (intro exI [of _ "[]"]) (simp add: ends_well_def)
  next
    case Panic
    with assms False have "acc' = acc" "res = Some res.Panic"
      by (cases "poll s", simp add: poll_round_def)+
    with counts_Nil show ?thesis by (intro exI [of _ "[]"]) (simp add: ends_well_def)
  qed
qed

lemma pollLoop_counts:
  assumes "pollLoop n poll ended spec matcher acc s = Some (res, acc', s')"
  shows "\<exists>ts. counts spec matcher acc ts acc' \<and> ends_well spec acc' ts res"
  using assms
proof (induction n arbitrary: acc s)
  case (Suc n)
  obtain res1 acc1 s1 where pr: "poll_round poll ended spec matcher acc s = (res1, acc1, s1)"
    by (metis prod_cases3)
  from poll_round_counts [OF pr] obtain ts where ts: "counts spec matcher acc ts acc1"
    "res1 = None \<longrightarrow> ts \<noteq> [] \<longrightarrow> hitBound acc1 spec = []" "\<forall>r. res1 = Some r \<longrightarrow> ends_well spec acc1 ts r"
    by blast
  show ?case
  proof (cases res1)
    case None
    with Suc.prems pr have "pollLoop n poll ended spec matcher acc1 s1 = Some (res, acc', s')" by simp
    from Suc.IH [OF this] obtain us where us: "counts spec matcher acc1 us acc'" "ends_well spec acc' us res"
      by blast
    have "counts spec matcher acc (ts @ us) acc'"
      by (rule counts_append [OF ts(1) _ us(1)]) (use ts(2) None in auto)
    moreover have "ends_well spec acc' (ts @ us) res"
      using us(2) by (auto simp: ends_well_def split: res.splits)
    ultimately show ?thesis by blast
  next
    case (Some r)
    with Suc.prems pr have "r = res" "acc1 = acc'" by simp_all
    with Some ts show ?thesis by blast
  qed
qed simp

section \<open>What the polls deliver\<close>

text \<open>
  The records that the polls from one state to another deliver, in order, and which of them a scan accepts:
  those inside their window and not behind the cursor, which each accepted record moves past it.
\<close>

inductive polls :: "('s, Record list) eff \<Rightarrow> 's \<Rightarrow> Record list \<Rightarrow> 's \<Rightarrow> bool" for poll where
  polls_none: "polls poll s [] s"
| polls_more: "poll s = (Ok batch, s1) \<Longrightarrow> polls poll s1 rs s2 \<Longrightarrow> polls poll s (batch @ rs) s2"

fun accepted :: "Spec \<Rightarrow> (int32 \<times> int64) list \<Rightarrow> Record list \<Rightarrow> Record list" where
  "accepted spec c [] = []"
| "accepted spec c (r # rs) =
    (if in_window spec c r then r # accepted spec (advance r c) rs else accepted spec c rs)"

lemma accepted_append:
  "accepted spec c (xs @ ys) = accepted spec c xs @ accepted spec (fold advance (accepted spec c xs) c) ys"
  by (induction xs arbitrary: c) simp_all

lemma eval_batch_accepts:
  assumes "eval_batch rs spec matcher acc = (bound, acc')"
  shows "\<exists>ts rest. counts spec matcher acc ts acc' \<and> accepted spec (sc_cursor acc) rs = ts @ rest
    \<and> bound = (if ts = [] then [] else hitBound acc' spec) \<and> (bound = [] \<longrightarrow> rest = [])"
  using assms
proof (induction rs arbitrary: acc)
  case Nil
  then show ?case using counts_Nil by fastforce
next
  case (Cons r rs)
  let ?acc1 = "count_record r spec matcher acc"
  show ?case
  proof (cases "in_window spec (sc_cursor acc) r")
    case False
    with Cons.prems have "eval_batch rs spec matcher acc = (bound, acc')" by (simp add: evaluate_def)
    from Cons.IH [OF this] False show ?thesis by simp
  next
    case w: True
    show ?thesis
    proof (cases "hitBound ?acc1 spec = []")
      case False
      with w Cons.prems have "bound = hitBound ?acc1 spec" "acc' = ?acc1" by (auto simp: evaluate_def Let_def)
      with counts_one [OF w, of matcher] w False show ?thesis
        by (intro exI [of _ "[r]"] exI [of _ "accepted spec (advance r (sc_cursor acc)) rs"]) simp
    next
      case True
      with w Cons.prems have "eval_batch rs spec matcher ?acc1 = (bound, acc')" by (auto simp: evaluate_def Let_def)
      from Cons.IH [OF this] obtain ts rest where ts: "counts spec matcher ?acc1 ts acc'"
        "accepted spec (advance r (sc_cursor acc)) rs = ts @ rest"
        "bound = (if ts = [] then [] else hitBound acc' spec)" "bound = [] \<longrightarrow> rest = []" by auto
      from counts_append [OF counts_one [OF w] _ ts(1)] True have "counts spec matcher acc (r # ts) acc'" by simp
      moreover have "bound = hitBound acc' spec" using ts(1,3) True by (auto simp: counts_def split: if_splits)
      ultimately show ?thesis using ts(2,4) w by (intro exI [of _ "r # ts"] exI [of _ rest]) simp
    qed
  qed
qed

lemma pollLoop_delivers:
  assumes "pollLoop n poll ended spec matcher acc s = Some (Ok (re, sb), acc', s')"
  shows "\<exists>rs s2 ts rest. polls poll s rs s2 \<and> (s' = s2 \<or> (\<exists>err. poll s2 = (Err err, s')))
    \<and> accepted spec (sc_cursor acc) rs = ts @ rest \<and> counts spec matcher acc ts acc'
    \<and> ends_well spec acc' ts (Ok (re, sb)) \<and> (rest \<noteq> [] \<longrightarrow> sb \<noteq> [] \<and> sb = hitBound acc' spec)"
  using assms
proof (induction n arbitrary: acc s)
  case (Suc n)
  show ?case
  proof (cases "windowsExhausted spec (sc_cursor acc)")
    case True
    with Suc.prems have "re" "sb = []" "acc' = acc" "s' = s" by (auto simp: poll_round_def)
    with True polls_none [of poll s] counts_Nil show ?thesis
      by (intro exI [of _ "[]"] exI [of _ s]) (simp add: ends_well_def)
  next
    case busy: False
    obtain out s1 where poll: "poll s = (out, s1)" by fastforce
    show ?thesis
    proof (cases out)
      case (Ok batch)
      obtain bound acc1 where ev: "eval_batch batch spec matcher acc = (bound, acc1)" by fastforce
      from eval_batch_accepts [OF ev] obtain ts rest where ts: "counts spec matcher acc ts acc1"
        "accepted spec (sc_cursor acc) batch = ts @ rest"
        "bound = (if ts = [] then [] else hitBound acc1 spec)" "bound = [] \<longrightarrow> rest = []" by blast
      have one: "polls poll s batch s1" using polls_more [OF _ polls_none, of poll s batch s1] poll Ok by simp
      show ?thesis
      proof (cases "bound \<noteq> [] \<or> batch = [] \<and> ended s1")
        case True
        with Suc.prems busy poll Ok ev have r: "\<not> re" "sb = (if bound \<noteq> [] then bound else StoppedByMaxTime)" "acc' = acc1" "s' = s1"
          by (auto simp: poll_round_def split: if_splits)
        with ts one show ?thesis
          by (intro exI [of _ batch] exI [of _ s1] exI [of _ ts] exI [of _ rest])
            (auto simp: ends_well_def split: if_splits)
      next
        case False
        with Suc.prems busy poll Ok ev have "pollLoop n poll ended spec matcher acc1 s1 = Some (res.Ok (re, sb), acc', s')"
          by (auto simp: poll_round_def)
        from Suc.IH [OF this] obtain rs s2 us rest' where us: "polls poll s1 rs s2"
          "s' = s2 \<or> (\<exists>err. poll s2 = (Err err, s'))" "accepted spec (sc_cursor acc1) rs = us @ rest'"
          "counts spec matcher acc1 us acc'" "ends_well spec acc' us (res.Ok (re, sb))"
          "rest' \<noteq> [] \<longrightarrow> sb \<noteq> [] \<and> sb = hitBound acc' spec" by blast
        have "rest = []" "ts \<noteq> [] \<Longrightarrow> hitBound acc1 spec = []" using False ts(3,4) by (auto split: if_splits)
        then have "accepted spec (sc_cursor acc) (batch @ rs) = (ts @ us) @ rest'"
          and "counts spec matcher acc (ts @ us) acc'"
          using ts(1,2) us(3) by (auto simp: accepted_append counts_def intro: counts_append [OF ts(1) _ us(4), unfolded counts_def])
            (use counts_append [OF ts(1) _ us(4)] in \<open>auto simp: counts_def\<close>)
        moreover have "ends_well spec acc' (ts @ us) (res.Ok (re, sb))" using us(5) by (auto simp: ends_well_def)
        moreover have "polls poll s (batch @ rs) s2" using polls_more [OF _ us(1)] poll Ok by simp
        ultimately show ?thesis using us(2,6) by blast
      qed
    next
      case (Err err)
      with Suc.prems busy poll have r: "\<not> re" "sb = StoppedByMaxTime" "acc' = acc" "s' = s1"
        by (auto simp: poll_round_def split: if_splits)
      then show ?thesis using poll Err polls_none [of poll s] counts_Nil
        by (intro exI [of _ "[]"] exI [of _ s]) (auto simp: ends_well_def)
    next
      case Panic
      with Suc.prems busy poll show ?thesis by (simp add: poll_round_def)
    qed
  qed
qed simp

section \<open>Windows\<close>

text \<open>Windows whose ends are values of \<open>int64\<close>, and cursors that are.\<close>

definition int64_spec :: "Spec \<Rightarrow> bool" where
  "int64_spec spec \<longleftrightarrow> (\<forall>(p, ps) \<in> set (Spec_Partitions spec). in_int64 (PSpec_Start ps) \<and> in_int64 (PSpec_End ps))"

definition int64_cursor :: "(int32 \<times> int64) list \<Rightarrow> bool" where
  "int64_cursor c \<longleftrightarrow> (\<forall>p. in_int64 (mget c 0 p))"

lemma int64_cursor_start: "int64_spec spec \<Longrightarrow> int64_cursor (sc_cursor (scan_start spec))"
proof -
  assume "int64_spec spec"
  moreover have "map_of (map (\<lambda>(p, ps). (p, PSpec_Start ps)) m) p = map_option PSpec_Start (map_of m p)" for m p
    by (induction m) auto
  ultimately show ?thesis
    by (auto simp: int64_cursor_def int64_spec_def scan_start_def mget_def in_int64_def split: option.split dest!: map_of_SomeD)
qed

lemma int64_advance: "int64_cursor c \<Longrightarrow> int64_cursor (advance r c)"
  by (simp add: int64_cursor_def advance_def)

lemma int64_fold_advance: "int64_cursor c \<Longrightarrow> int64_cursor (fold advance ts c)"
  by (induction ts arbitrary: c) (simp_all add: int64_advance)

lemma in_windowD:
  assumes "in_window spec c r"
  obtains w where "map_of (Spec_Partitions spec) (Record_Partition r) = Some w"
    "mget c 0 (Record_Partition r) \<le> Record_Offset r" "Record_Offset r < PSpec_End w"
  using assms by (auto simp: in_window_def split: option.splits)

text \<open>Counting a record moves its partition's cursor just past it, and no other.\<close>

lemma advance_in_window:
  assumes "in_window spec c r" "int64_spec spec" "int64_cursor c"
  shows "mget (advance r c) 0 p = (if p = Record_Partition r then Record_Offset r + 1 else mget c 0 p)"
proof -
  obtain w where w: "map_of (Spec_Partitions spec) (Record_Partition r) = Some w"
    "mget c 0 (Record_Partition r) \<le> Record_Offset r" "Record_Offset r < PSpec_End w"
    using assms(1) by (rule in_windowD)
  have "in_int64 (PSpec_End w)" using assms(2) map_of_SomeD [OF w(1)] by (auto simp: int64_spec_def)
  moreover have "in_int64 (mget c 0 (Record_Partition r))" using assms(3) by (simp add: int64_cursor_def)
  ultimately have "in_int64 (Record_Offset r + 1)" using w(2,3) by (simp add: in_int64_def)
  then show ?thesis by (simp add: advance_def)
qed

definition increasing :: "Record list \<Rightarrow> bool" where
  "increasing rs \<longleftrightarrow>
     sorted_wrt (\<lambda>r r'. Record_Partition r = Record_Partition r' \<longrightarrow> Record_Offset r < Record_Offset r') rs"

lemma increasing_Cons:
  "increasing (r # rs) \<longleftrightarrow>
    (\<forall>r' \<in> set rs. Record_Partition r = Record_Partition r' \<longrightarrow> Record_Offset r < Record_Offset r') \<and> increasing rs"
  by (simp add: increasing_def)

lemma windowed_facts:
  assumes "windowed spec c ts" "int64_spec spec" "int64_cursor c"
  shows "increasing ts
    \<and> (\<forall>p. mget c 0 p \<le> mget (fold advance ts c) 0 p)
    \<and> (\<forall>r \<in> set ts. in_window spec c r \<and> Record_Offset r < mget (fold advance ts c) 0 (Record_Partition r))"
  using assms
proof (induction ts arbitrary: c rule: list.induct)
  case (Cons r ts)
  let ?c = "advance r c"
  from Cons.prems have w: "in_window spec c r" "windowed spec ?c ts" by simp_all
  note adv = advance_in_window [OF w(1) Cons.prems(2,3)]
  from Cons.IH [OF w(2) Cons.prems(2) int64_advance [OF Cons.prems(3)]]
  have IH: "increasing ts" "\<And>p. mget ?c 0 p \<le> mget (fold advance ts ?c) 0 p"
    "\<And>r. r \<in> set ts \<Longrightarrow> in_window spec ?c r"
    "\<And>r. r \<in> set ts \<Longrightarrow> Record_Offset r < mget (fold advance ts ?c) 0 (Record_Partition r)"
    by blast+
  have le: "mget c 0 p \<le> mget ?c 0 p" for p
    using w(1) by (auto simp: adv elim: in_windowD)
  have later: "in_window spec c r' \<and> (Record_Partition r = Record_Partition r' \<longrightarrow> Record_Offset r < Record_Offset r')"
    if "r' \<in> set ts" for r'
  proof -
    from IH(3) [OF that] obtain w' where w': "map_of (Spec_Partitions spec) (Record_Partition r') = Some w'"
      "mget ?c 0 (Record_Partition r') \<le> Record_Offset r'" "Record_Offset r' < PSpec_End w'"
      by (rule in_windowD)
    from w'(2) le [of "Record_Partition r'"] have "mget c 0 (Record_Partition r') \<le> Record_Offset r'" by linarith
    with w' show ?thesis by (auto simp: in_window_def adv split: if_splits)
  qed
  have "Record_Offset r < mget ?c 0 (Record_Partition r)" by (simp add: adv)
  with IH(2) [of "Record_Partition r"] have "Record_Offset r < mget (fold advance ts ?c) 0 (Record_Partition r)"
    by linarith
  moreover have "mget c 0 p \<le> mget (fold advance ts ?c) 0 p" for p
    using le [of p] IH(2) [of p] by linarith
  ultimately show ?case using IH(1,4) later w(1) by (simp add: increasing_Cons)
qed (simp add: increasing_def)

section \<open>Resuming\<close>

text \<open>
  On records whose offsets increase in every partition, a batch counts a prefix of those in the window,
  and what is in the window of the new cursor is the rest.
\<close>

lemma in_window_advance:
  assumes "in_window spec c r" "int64_spec spec" "int64_cursor c"
    and "Record_Partition r = Record_Partition x \<longrightarrow> Record_Offset r < Record_Offset x"
  shows "in_window spec (advance r c) x = in_window spec c x"
  using assms(1,4) advance_in_window [OF assms(1-3), of "Record_Partition x"]
  by (auto simp: in_window_def split: option.splits)

lemma eval_batch_resume:
  assumes "increasing rs" "int64_spec spec" "int64_cursor (sc_cursor acc)"
    and "eval_batch rs spec matcher acc = (bound, acc')"
  shows "\<exists>ts. counts spec matcher acc ts acc'
    \<and> filter (in_window spec (sc_cursor acc)) rs = ts @ filter (in_window spec (sc_cursor acc')) rs
    \<and> (bound = [] \<longrightarrow> filter (in_window spec (sc_cursor acc')) rs = [])
    \<and> bound = (if ts = [] then [] else hitBound acc' spec)"
  using assms
proof (induction rs arbitrary: acc)
  case Nil
  then show ?case using counts_Nil by fastforce
next
  case (Cons r rs)
  let ?c = "sc_cursor acc" and ?acc1 = "count_record r spec matcher acc"
  from Cons.prems(1) have inc: "increasing rs"
    "\<forall>x \<in> set rs. Record_Partition r = Record_Partition x \<longrightarrow> Record_Offset r < Record_Offset x"
    by (simp_all add: increasing_Cons)
  show ?case
  proof (cases "in_window spec ?c r")
    case False
    with Cons.prems have ev: "eval_batch rs spec matcher acc = (bound, acc')" by (simp add: evaluate_def)
    from Cons.IH [OF inc(1) Cons.prems(2,3) ev] obtain ts where ts: "counts spec matcher acc ts acc'"
      "filter (in_window spec ?c) rs = ts @ filter (in_window spec (sc_cursor acc')) rs"
      "bound = [] \<longrightarrow> filter (in_window spec (sc_cursor acc')) rs = []"
      "bound = (if ts = [] then [] else hitBound acc' spec)" by blast
    have "mget ?c 0 (Record_Partition r) \<le> mget (sc_cursor acc') 0 (Record_Partition r)"
      using ts(1) windowed_facts [OF _ Cons.prems(2,3)] by (auto simp: counts_def)
    with False have "\<not> in_window spec (sc_cursor acc') r" by (auto simp: in_window_def split: option.splits)
    with False ts show ?thesis by auto
  next
    case True
    note adv = in_window_advance [OF True Cons.prems(2,3)]
    have own: "\<not> in_window spec c' r"
      if "mget (advance r ?c) 0 (Record_Partition r) \<le> mget c' 0 (Record_Partition r)" for c'
      using that advance_in_window [OF True Cons.prems(2,3)] by (auto simp: in_window_def split: option.splits)
    have rest: "filter (in_window spec (advance r ?c)) rs = filter (in_window spec ?c) rs"
      using adv inc(2) by (intro filter_cong) auto
    show ?thesis
    proof (cases "hitBound ?acc1 spec = []")
      case False
      with True Cons.prems(4) have "bound = hitBound ?acc1 spec" "acc' = ?acc1" by (auto simp: evaluate_def Let_def)
      with True False own rest counts_one [OF True, of matcher] show ?thesis
        by (intro exI [of _ "[r]"]) simp
    next
      case nb: True
      with True Cons.prems(4) have ev: "eval_batch rs spec matcher ?acc1 = (bound, acc')"
        by (auto simp: evaluate_def Let_def)
      have c1: "int64_cursor (sc_cursor ?acc1)" using Cons.prems(3) by (simp add: int64_advance)
      from Cons.IH [OF inc(1) Cons.prems(2) c1 ev] obtain ts where ts: "counts spec matcher ?acc1 ts acc'"
        "filter (in_window spec (advance r ?c)) rs = ts @ filter (in_window spec (sc_cursor acc')) rs"
        "bound = [] \<longrightarrow> filter (in_window spec (sc_cursor acc')) rs = []"
        "bound = (if ts = [] then [] else hitBound acc' spec)" by auto
      have "mget (advance r ?c) 0 (Record_Partition r) \<le> mget (sc_cursor acc') 0 (Record_Partition r)"
        using ts(1) windowed_facts [OF _ Cons.prems(2) c1] by (auto simp: counts_def)
      from own [OF this] True rest ts(2)
      have "filter (in_window spec ?c) (r # rs) = (r # ts) @ filter (in_window spec (sc_cursor acc')) (r # rs)"
        by simp
      moreover have "counts spec matcher acc (r # ts) acc'"
        using counts_append [OF counts_one [OF True] _ ts(1)] nb by simp
      moreover have "bound = hitBound acc' spec" using ts(1,4) nb by (auto simp: counts_def split: if_splits)
      moreover have "filter (in_window spec (sc_cursor acc')) (r # rs) = filter (in_window spec (sc_cursor acc')) rs"
        using own [OF \<open>mget (advance r ?c) 0 (Record_Partition r) \<le> mget (sc_cursor acc') 0 (Record_Partition r)\<close>]
        by simp
      ultimately show ?thesis using ts(3) by (intro exI [of _ "r # ts"]) auto
    qed
  qed
qed

section \<open>Counters\<close>

definition matches :: "Spec \<Rightarrow> Matcher \<Rightarrow> Record \<Rightarrow> bool" where
  "matches spec matcher r \<longleftrightarrow>
     \<not> MR_Skipped (matcher (Decode r (Spec_Format spec))) \<and> MR_Match (matcher (Decode r (Spec_Format spec)))"

lemma count_record_collected:
  "sc_collected (count_record r spec matcher acc)
    = sc_collected acc @ (if matches spec matcher r then [Decode r (Spec_Format spec)] else [])"
  by (simp add: count_record_def matches_def Let_def)

lemma count_all_collected:
  "sc_collected (count_all ts spec matcher acc)
    = sc_collected acc @ map (\<lambda>r. Decode r (Spec_Format spec)) (filter (matches spec matcher) ts)"
  by (induction ts arbitrary: acc) (simp_all add: count_record_collected)

lemma count_record_counters:
  "sc_scanned (count_record r spec matcher acc) = wrap64 (sc_scanned acc + 1)"
  "sc_matched (count_record r spec matcher acc)
    = (if matches spec matcher r then wrap64 (sc_matched acc + 1) else sc_matched acc)"
  by (simp_all add: count_record_def matches_def Let_def)

text \<open>The counters count: modulo the width of \<open>int\<close>, and exactly while they are below a bound.\<close>

lemma count_all_counters:
  "sc_scanned (count_all ts spec matcher (scan_start spec)) = wrap64 (int (length ts))"
  "sc_matched (count_all ts spec matcher (scan_start spec))
    = wrap64 (int (length (sc_collected (count_all ts spec matcher (scan_start spec)))))"
proof -
  have "sc_scanned (count_all ts spec matcher acc) = wrap64 (k + int (length ts))"
    if "sc_scanned acc = wrap64 k" for k acc
    using that
  proof (induction ts arbitrary: acc k)
    case (Cons r ts)
    then have "sc_scanned (count_record r spec matcher acc) = wrap64 (k + 1)"
      by (simp add: count_record_counters)
    from Cons.IH [OF this] show ?case by (simp add: algebra_simps)
  qed simp
  from this [of "scan_start spec" 0] show "sc_scanned (count_all ts spec matcher (scan_start spec)) = wrap64 (int (length ts))"
    by (simp add: scan_start_def wrap64_def)
  have "sc_matched (count_all ts spec matcher acc)
      = wrap64 (int (length (sc_collected (count_all ts spec matcher acc))))"
    if "sc_matched acc = wrap64 (int (length (sc_collected acc)))" for acc
    using that
    by (induction ts arbitrary: acc) (simp_all add: count_record_counters count_record_collected algebra_simps)
  from this [of "scan_start spec"] show "sc_matched (count_all ts spec matcher (scan_start spec))
    = wrap64 (int (length (sc_collected (count_all ts spec matcher (scan_start spec)))))"
    by (simp add: scan_start_def wrap64_def)
qed

text \<open>A counter that grows by at most one per step and stays below the bound before the last step.\<close>

lemma below_bound:
  fixes f :: "nat \<Rightarrow> nat"
  assumes "f 0 = 0" "\<And>k. f (Suc k) \<le> Suc (f k)" "in_int64 b" "0 < b"
    and "\<And>k. 0 < k \<Longrightarrow> k < n \<Longrightarrow> wrap64 (int (f k)) < b"
  shows "int (f n) \<le> b"
proof (cases n)
  case (Suc m)
  have "k \<le> m \<Longrightarrow> int (f k) < b" for k
  proof (induction k)
    case (Suc k)
    then have "int (f (Suc k)) \<le> b" using assms(2) [of k] by simp
    then have "wrap64 (int (f (Suc k))) = int (f (Suc k))"
      using assms(3) by (intro wrap64_id) (simp add: in_int64_def)
    with assms(5) [of "Suc k"] Suc.prems \<open>n = Suc m\<close> show ?case by simp
  qed (use assms in simp)
  from this [of m] assms(2) [of m] Suc show ?thesis by simp
qed (use assms in simp)

lemma scan_counts_bounds:
  assumes "counts spec matcher (scan_start spec) ts acc"
  shows "\<not> Spec_Latest spec \<Longrightarrow> 0 < Spec_MaxMessages spec \<Longrightarrow> in_int64 (Spec_MaxMessages spec) \<Longrightarrow>
      int (length (sc_collected acc)) \<le> Spec_MaxMessages spec"
    and "0 < Spec_MaxScanned spec \<Longrightarrow> in_int64 (Spec_MaxScanned spec) \<Longrightarrow>
      int (length ts) \<le> Spec_MaxScanned spec"
proof -
  let ?f = "\<lambda>k. length (filter (matches spec matcher) (take k ts))"
  have none: "hitBound (count_all (take k ts) spec matcher (scan_start spec)) spec = []" if "0 < k" "k < length ts" for k
    using assms that by (simp add: counts_def stops_last_def)
  have grow: "?f (Suc k) \<le> Suc (?f k)" for k
    by (cases "k < length ts") (simp_all add: take_Suc_conv_app_nth)
  have col: "length (sc_collected (count_all us spec matcher (scan_start spec))) = length (filter (matches spec matcher) us)" for us
    by (simp add: count_all_collected) (simp add: scan_start_def)
  show "int (length (sc_collected acc)) \<le> Spec_MaxMessages spec"
    if "\<not> Spec_Latest spec" "0 < Spec_MaxMessages spec" "in_int64 (Spec_MaxMessages spec)"
  proof -
    have "int (?f (length ts)) \<le> Spec_MaxMessages spec"
    proof (rule below_bound [where f = ?f and n = "length ts"])
      fix k assume "0 < k" "k < length ts"
      from none [OF this] that show "wrap64 (int (?f k)) < Spec_MaxMessages spec"
        by (auto simp: hitBound_def count_all_counters col StoppedByMaxMessages_def split: if_splits)
    qed (use that grow in simp_all)
    then show ?thesis using assms col [of ts] by (simp add: counts_def)
  qed
  show "int (length ts) \<le> Spec_MaxScanned spec" if "0 < Spec_MaxScanned spec" "in_int64 (Spec_MaxScanned spec)"
  proof -
    have "int (length (take (length ts) ts)) \<le> Spec_MaxScanned spec"
    proof (rule below_bound [where f = "\<lambda>k. length (take k ts)" and n = "length ts"])
      fix k assume k: "0 < k" "k < length ts"
      from none [OF this] that k show "wrap64 (int (length (take k ts))) < Spec_MaxScanned spec"
        by (auto simp: hitBound_def count_all_counters StoppedByMaxMessages_def split: if_splits)
    qed (use that in simp_all)
    then show ?thesis by simp
  qed
qed

section \<open>Fuel\<close>

lemma pollLoop_mono:
  "pollLoop n poll ended spec matcher acc s = Some x \<Longrightarrow> pollLoop (n + k) poll ended spec matcher acc s = Some x"
  by (induction n arbitrary: acc s) (auto split: prod.splits option.splits)

text \<open>A poll that keeps returning nothing, under a context that does not end, polls for ever.\<close>

lemma pollLoop_stuck:
  assumes "\<And>s. I s \<Longrightarrow> \<exists>s'. poll s = (Ok [], s') \<and> I s' \<and> \<not> ended s'"
    and "\<not> windowsExhausted spec (sc_cursor acc)" "I s"
  shows "pollLoop n poll ended spec matcher acc s = None"
  using assms(3)
proof (induction n arbitrary: s)
  case (Suc n)
  from assms(1) [OF Suc.prems] obtain s' where "poll s = (Ok [], s')" "I s'" "\<not> ended s'" by blast
  with Suc.IH [of s'] assms(2) show ?case by (simp add: poll_round_def)
qed simp

text \<open>
  A poll that delivers the last record of every window ends the scan: at a bound, or in the next round.
\<close>

lemma exhausted_after:
  assumes "counts spec matcher (scan_start spec) ts acc" "int64_spec spec"
    and "\<And>p ps. (p, ps) \<in> set (Spec_Partitions spec) \<Longrightarrow> mget (sc_cursor (scan_start spec)) 0 p < PSpec_End ps
        \<Longrightarrow> \<exists>r \<in> set ts. Record_Partition r = p \<and> Record_Offset r = PSpec_End ps - 1"
  shows "windowsExhausted spec (sc_cursor acc)"
  unfolding windowsExhausted_def list_all_iff
proof (clarify, goal_cases)
  case (1 p ps)
  let ?c = "sc_cursor (scan_start spec)"
  have "windowed spec ?c ts" and acc: "sc_cursor acc = fold advance ts ?c"
    using assms(1) by (simp_all add: counts_def)
  note facts = windowed_facts [OF this(1) assms(2) int64_cursor_start [OF assms(2)]]
  show False
  proof (cases "mget ?c 0 p < PSpec_End ps")
    case True
    from assms(3) [OF 1(1) this] obtain r where r: "r \<in> set ts" "Record_Partition r = p"
      "Record_Offset r = PSpec_End ps - 1"
      by blast
    with facts have "Record_Offset r < mget (sc_cursor acc) 0 p" by (auto simp: acc)
    with r 1 show False by simp
  next
    case False
    moreover have "mget ?c 0 p \<le> mget (sc_cursor acc) 0 p" using facts by (simp add: acc)
    ultimately show False using 1 by simp
  qed
qed

lemma exhausted_window_empty:
  "windowsExhausted spec c \<Longrightarrow> filter (in_window spec c) rs = []"
  by (auto simp: windowsExhausted_def list_all_iff filter_empty_conv elim!: in_windowD dest!: map_of_SomeD)

lemma pollLoop_completes:
  assumes "poll s = (Ok rs, s1)" "increasing rs" "int64_spec spec" "\<not> ended s1"
    and "\<And>p ps. (p, ps) \<in> set (Spec_Partitions spec) \<Longrightarrow> mget (sc_cursor (scan_start spec)) 0 p < PSpec_End ps
        \<Longrightarrow> \<exists>r \<in> set rs. in_window spec (sc_cursor (scan_start spec)) r \<and> Record_Partition r = p
              \<and> Record_Offset r = PSpec_End ps - 1"
  shows "\<exists>ts rest re sb s'. pollLoop (Suc (Suc n)) poll ended spec matcher (scan_start spec) s
      = Some (Ok (re, sb), count_all ts spec matcher (scan_start spec), s') \<and> s' \<in> {s, s1}
    \<and> filter (in_window spec (sc_cursor (scan_start spec))) rs = ts @ rest
    \<and> (sb = [] \<longrightarrow> rest = [] \<and> re) \<and> (sb \<noteq> [] \<longrightarrow> sb = hitBound (count_all ts spec matcher (scan_start spec)) spec)"
proof (cases "windowsExhausted spec (sc_cursor (scan_start spec))")
  case True
  then have "pollLoop (Suc (Suc n)) poll ended spec matcher (scan_start spec) s
      = Some (Ok (True, []), count_all [] spec matcher (scan_start spec), s)"
    by (simp add: poll_round_def)
  with exhausted_window_empty [OF True, of rs] show ?thesis by (metis append_Nil insertI1)
next
  case False
  let ?c = "sc_cursor (scan_start spec)"
  obtain bound acc where ev: "eval_batch rs spec matcher (scan_start spec) = (bound, acc)" by fastforce
  from eval_batch_resume [OF assms(2,3) int64_cursor_start [OF assms(3)] ev] obtain ts where ts:
    "counts spec matcher (scan_start spec) ts acc"
    "filter (in_window spec ?c) rs = ts @ filter (in_window spec (sc_cursor acc)) rs"
    "bound = [] \<longrightarrow> filter (in_window spec (sc_cursor acc)) rs = []"
    "bound = (if ts = [] then [] else hitBound acc spec)" by blast
  from ts(1) have acc: "acc = count_all ts spec matcher (scan_start spec)" by (simp add: counts_def)
  show ?thesis
  proof (cases "bound = []")
    case True
    with ts(2,3) have all: "ts = filter (in_window spec ?c) rs" by simp
    have "windowsExhausted spec (sc_cursor acc)"
      by (rule exhausted_after [OF ts(1) assms(3)]) (use assms(5) in \<open>auto simp: all\<close>)
    then have "poll_round poll ended spec matcher acc s1 = (Some (Ok (True, [])), acc, s1)"
      by (simp add: poll_round_def)
    moreover have "poll_round poll ended spec matcher (scan_start spec) s = (None, acc, s1)"
      using False assms(1,4) ev True by (simp add: poll_round_def)
    ultimately have "pollLoop (Suc (Suc n)) poll ended spec matcher (scan_start spec) s
        = Some (Ok (True, []), count_all ts spec matcher (scan_start spec), s1)"
      by (simp add: acc [symmetric])
    with all show ?thesis by blast
  next
    case nb: False
    then have "poll_round poll ended spec matcher (scan_start spec) s = (Some (Ok (False, bound)), acc, s1)"
      using False assms(1) ev by (simp add: poll_round_def)
    then have "pollLoop (Suc (Suc n)) poll ended spec matcher (scan_start spec) s
        = Some (Ok (False, bound), count_all ts spec matcher (scan_start spec), s1)"
      by (simp add: acc [symmetric])
    moreover have "bound = hitBound (count_all ts spec matcher (scan_start spec)) spec"
      using ts(4) nb by (simp add: acc [symmetric] split: if_splits)
    ultimately show ?thesis using ts(2) nb by blast
  qed
qed

end
