(* ===== verification/ScanMatch.thy ===== *)
theory ScanMatch
  imports ScanRun
begin

text \<open>
  The matchers of searches and filters (\<^verbatim>\<open>internal/scan/regex.go\<close>, \<^verbatim>\<open>internal/scan/jsonpath.go\<close>).

  Parameters: \<open>compile\<close> is \<open>regexp.Compile\<close> (the error text, or what the pattern matches); \<open>parse\<close> is
  \<open>jsonpath.Parse\<close> of the package theory/jsonpath, whose result selects nodes of a value; \<open>unmarshal\<close> is
  \<open>json.Unmarshal\<close> into an \<open>any\<close>. The race of a match against its timer is the oracle \<open>late\<close>: whether the
  k-th match call made for a record is still running when the timer fires.
\<close>

type_synonym regexp = "string \<Rightarrow> bool"

section \<open>Regular expressions\<close>

text \<open>\<open>RegexField\<close> is a string type.\<close>

definition FieldValue :: string where "FieldValue = ''value''"
definition FieldKey :: string where "FieldKey = ''key''"
definition FieldHeaders :: string where "FieldHeaders = ''headers''"

definition regexFieldStrings :: "scan_Record \<Rightarrow> string \<Rightarrow> string list" where
  "regexFieldStrings r field =
    (if field = FieldValue then [SR_Value r]
     else if field = FieldKey then [SR_Key r]
     else if field = FieldHeaders then map SH_Value (SR_Headers r)
     else [])"

text \<open>\<open>runWithTimeout\<close>: the result, and whether it timed out.\<close>

definition runWithTimeout :: "int64 \<Rightarrow> bool \<Rightarrow> bool \<Rightarrow> bool \<times> bool" where
  "runWithTimeout timeout late work =
    (if timeout \<le> 0 then (work, False) else if late then (False, True) else (work, False))"

definition regexMatch :: "regexp \<Rightarrow> string \<Rightarrow> int64 \<Rightarrow> bool \<Rightarrow> bool \<times> bool" where
  "regexMatch re s timeout late = runWithTimeout timeout late (re s)"

text \<open>The strings of all fields, tried in order; \<open>k\<close> numbers the match calls made so far.\<close>

fun regex_scan :: "regexp \<Rightarrow> int64 \<Rightarrow> (nat \<Rightarrow> bool) \<Rightarrow> nat \<Rightarrow> string list \<Rightarrow> MatchResult" where
  "regex_scan re timeout late k [] = \<lparr>MR_Match = False, MR_Skipped = False\<rparr>"
| "regex_scan re timeout late k (s # ss) =
    (case regexMatch re s timeout (late k) of (matched, timedOut) \<Rightarrow>
       if timedOut then \<lparr>MR_Match = False, MR_Skipped = True\<rparr>
       else if matched then \<lparr>MR_Match = True, MR_Skipped = False\<rparr>
       else regex_scan re timeout late (Suc k) ss)"

definition case_insensitive_prefix :: string where
  "case_insensitive_prefix = ''(?i)''"

definition NewRegexMatcher ::
  "(string \<Rightarrow> string + regexp) \<Rightarrow> (scan_Record \<Rightarrow> nat \<Rightarrow> bool) \<Rightarrow> string \<Rightarrow> string list \<Rightarrow> bool \<Rightarrow> int64
   \<Rightarrow> string + Matcher" where
  "NewRegexMatcher compile late pattern flds caseInsensitive timeout =
    (let pattern' = (if caseInsensitive \<and> take 4 pattern \<noteq> case_insensitive_prefix
                     then case_insensitive_prefix @ pattern else pattern);
         flds' = (if flds = [] then [FieldValue] else flds)
     in case compile pattern' of
          Inl msg \<Rightarrow> Inl msg
        | Inr re \<Rightarrow> Inr (\<lambda>r. regex_scan re timeout (late r) 0
                      (concat (map (regexFieldStrings r) flds'))))"

section \<open>JSON values\<close>

text \<open>
  What \<open>json.Unmarshal\<close> puts into an \<open>any\<close>. A number is a \<open>float64\<close>, kept as its 64 bits; the
  comparisons are those of IEEE 754: \<open>NaN\<close> compares with nothing, and the two zeros are equal.
\<close>

datatype json = JNull | JBool bool | JNum nat | JStr string | JArr "json list" | JObj "(string \<times> json) list"

definition f64_isNaN :: "nat \<Rightarrow> bool" where
  "f64_isNaN b \<longleftrightarrow> b mod 2 ^ 63 > 0x7FF0000000000000"

definition f64_order :: "nat \<Rightarrow> int" where
  "f64_order b = (if b \<ge> 2 ^ 63 then - int (b mod 2 ^ 63) else int (b mod 2 ^ 63))"

definition f64_less :: "nat \<Rightarrow> nat \<Rightarrow> bool" where
  "f64_less a b \<longleftrightarrow> \<not> f64_isNaN a \<and> \<not> f64_isNaN b \<and> f64_order a < f64_order b"

definition f64_leq :: "nat \<Rightarrow> nat \<Rightarrow> bool" where
  "f64_leq a b \<longleftrightarrow> \<not> f64_isNaN a \<and> \<not> f64_isNaN b \<and> f64_order a \<le> f64_order b"

definition f64_eq :: "nat \<Rightarrow> nat \<Rightarrow> bool" where
  "f64_eq a b \<longleftrightarrow> \<not> f64_isNaN a \<and> \<not> f64_isNaN b \<and> f64_order a = f64_order b"

fun bothFloat64 :: "json \<Rightarrow> json \<Rightarrow> (nat \<times> nat) option" where
  "bothFloat64 (JNum a) (JNum b) = Some (a, b)"
| "bothFloat64 _ _ = None"

definition jsonEqual :: "json \<Rightarrow> json \<Rightarrow> bool" where
  "jsonEqual a b =
    (case bothFloat64 a b of
       Some (af, bf) \<Rightarrow> f64_eq af bf
     | None \<Rightarrow> (case a of
         JStr s \<Rightarrow> (case b of JStr t \<Rightarrow> s = t | _ \<Rightarrow> False)
       | JBool s \<Rightarrow> (case b of JBool t \<Rightarrow> s = t | _ \<Rightarrow> False)
       | _ \<Rightarrow> a = JNull \<and> b = JNull))"

text \<open>\<open>strings.Contains\<close>.\<close>

fun strings_Contains :: "string \<Rightarrow> string \<Rightarrow> bool" where
  "strings_Contains [] sub = (sub = [])"
| "strings_Contains (c # cs) sub = (take (length sub) (c # cs) = sub \<or> strings_Contains cs sub)"

definition jsonContains :: "json \<Rightarrow> json \<Rightarrow> bool" where
  "jsonContains node val =
    (case node of
       JStr n \<Rightarrow> (case val of JStr s \<Rightarrow> strings_Contains n s | _ \<Rightarrow> False)
     | JArr elems \<Rightarrow> list_ex (\<lambda>e. jsonEqual e val) elems
     | _ \<Rightarrow> False)"

section \<open>JSONPath filters\<close>

text \<open>\<open>FilterOp\<close> is a string type.\<close>

definition OpEq :: string where "OpEq = ''eq''"
definition OpNeq :: string where "OpNeq = ''neq''"
definition OpContains :: string where "OpContains = ''contains''"
definition OpRegex :: string where "OpRegex = ''regex''"
definition OpExists :: string where "OpExists = ''exists''"
definition OpGt :: string where "OpGt = ''gt''"
definition OpLt :: string where "OpLt = ''lt''"
definition OpGte :: string where "OpGte = ''gte''"
definition OpLte :: string where "OpLte = ''lte''"

lemmas filter_ops = OpEq_def OpNeq_def OpContains_def OpRegex_def OpExists_def OpGt_def OpLt_def
  OpGte_def OpLte_def

definition both_numbers :: "(nat \<Rightarrow> nat \<Rightarrow> bool) \<Rightarrow> json \<Rightarrow> json \<Rightarrow> bool" where
  "both_numbers rel node val = (case bothFloat64 node val of None \<Rightarrow> False | Some (nf, vf) \<Rightarrow> rel nf vf)"

definition evalOp :: "string \<Rightarrow> json \<Rightarrow> json \<Rightarrow> regexp option \<Rightarrow> bool" where
  "evalOp filter_op node val valueRegex =
    (if filter_op = OpEq then jsonEqual node val
     else if filter_op = OpNeq then \<not> jsonEqual node val
     else if filter_op = OpContains then jsonContains node val
     else if filter_op = OpRegex then
       (case node of JStr s \<Rightarrow> (case valueRegex of Some re \<Rightarrow> re s | None \<Rightarrow> False) | _ \<Rightarrow> False)
     else if filter_op = OpGt then both_numbers (\<lambda>n v. f64_less v n) node val
     else if filter_op = OpLt then both_numbers f64_less node val
     else if filter_op = OpGte then both_numbers (\<lambda>n v. f64_leq v n) node val
     else if filter_op = OpLte then both_numbers f64_leq node val
     else filter_op = OpExists)"

definition value_regex ::
  "(string \<Rightarrow> string + regexp) \<Rightarrow> string \<Rightarrow> json \<Rightarrow> string + regexp option" where
  "value_regex compile filter_op val =
    (if filter_op \<noteq> OpRegex then Inr None
     else (case val of
         JStr pattern \<Rightarrow> (case compile pattern of Inl msg \<Rightarrow> Inl msg | Inr re \<Rightarrow> Inr (Some re))
       | _ \<Rightarrow> Inl (''scan: op '' @ quoted filter_op @ '' requires a string value'')))"

definition jsonpath_match ::
  "(string \<Rightarrow> json option) \<Rightarrow> (json \<Rightarrow> json list) \<Rightarrow> string \<Rightarrow> json \<Rightarrow> regexp option \<Rightarrow> Matcher" where
  "jsonpath_match unmarshal select filter_op val valueRegex r =
    (case unmarshal (SR_Value r) of
       None \<Rightarrow> \<lparr>MR_Match = False, MR_Skipped = True\<rparr>
     | Some parsed \<Rightarrow>
         \<lparr>MR_Match = (if filter_op = OpExists then select parsed \<noteq> []
                      else list_ex (\<lambda>node. evalOp filter_op node val valueRegex) (select parsed)),
          MR_Skipped = False\<rparr>)"

definition NewJSONPathMatcher ::
  "(string \<Rightarrow> string + (json \<Rightarrow> json list)) \<Rightarrow> (string \<Rightarrow> string + regexp) \<Rightarrow> (string \<Rightarrow> json option)
   \<Rightarrow> string \<Rightarrow> string \<Rightarrow> json \<Rightarrow> string + Matcher" where
  "NewJSONPathMatcher parse compile unmarshal path filter_op val =
    (case parse path of
       Inl msg \<Rightarrow> Inl msg
     | Inr select \<Rightarrow> (case value_regex compile filter_op val of
         Inl msg \<Rightarrow> Inl msg
       | Inr valueRegex \<Rightarrow> Inr (jsonpath_match unmarshal select filter_op val valueRegex)))"

section \<open>What the matchers decide\<close>

lemma f64_trichotomy:
  "\<not> f64_isNaN a \<Longrightarrow> \<not> f64_isNaN b \<Longrightarrow> f64_less a b \<or> f64_eq a b \<or> f64_less b a"
  by (auto simp: f64_less_def f64_eq_def)

lemma f64_leq_iff: "f64_leq a b \<longleftrightarrow> f64_less a b \<or> f64_eq a b"
  by (auto simp: f64_leq_def f64_less_def f64_eq_def)

lemma strings_Contains_iff: "strings_Contains s sub \<longleftrightarrow> (\<exists>us vs. s = us @ sub @ vs)"
proof (induction s)
  case (Cons c cs)
  show ?case
  proof
    assume "strings_Contains (c # cs) sub"
    then consider "take (length sub) (c # cs) = sub" | "strings_Contains cs sub" by auto
    then show "\<exists>us vs. c # cs = us @ sub @ vs"
    proof cases
      case 1
      then have "c # cs = [] @ sub @ drop (length sub) (c # cs)" by (metis append_Nil append_take_drop_id)
      then show ?thesis by blast
    next
      case 2
      with Cons.IH obtain us vs where "c # cs = (c # us) @ sub @ vs" by auto
      then show ?thesis by blast
    qed
  next
    assume "\<exists>us vs. c # cs = us @ sub @ vs"
    then obtain us vs where eq: "c # cs = us @ sub @ vs" by blast
    show "strings_Contains (c # cs) sub"
    proof (cases us)
      case Nil
      with eq have "take (length sub) (c # cs) = sub" by simp
      then show ?thesis by simp
    next
      case (Cons u us')
      with eq have "cs = us' @ sub @ vs" by simp
      with Cons.IH show ?thesis by auto
    qed
  qed
qed auto

text \<open>Without a timer a record is never skipped, and it matches when one of its strings does.\<close>

lemma regex_scan_untimed:
  "timeout \<le> 0 \<Longrightarrow> regex_scan re timeout late k ss = \<lparr>MR_Match = list_ex re ss, MR_Skipped = False\<rparr>"
  by (induction ss arbitrary: k) (auto simp: regexMatch_def runWithTimeout_def)

text \<open>With one, a reported match is real, and only a late call makes the result differ.\<close>

lemma regex_scan_match: "MR_Match (regex_scan re timeout late k ss) \<Longrightarrow> list_ex re ss"
  by (induction ss arbitrary: k) (auto simp: regexMatch_def runWithTimeout_def split: if_splits)

lemma regex_scan_in_time:
  "\<forall>i < length ss. \<not> late (k + i) \<Longrightarrow>
     regex_scan re timeout late k ss = \<lparr>MR_Match = list_ex re ss, MR_Skipped = False\<rparr>"
proof (induction ss arbitrary: k)
  case (Cons s ss)
  from Cons.prems have "\<not> late k" "\<forall>i < length ss. \<not> late (Suc k + i)"
    by (force, metis Suc_less_eq add_Suc_shift length_Cons)
  with Cons.IH show ?case by (simp add: regexMatch_def runWithTimeout_def)
qed simp

lemma regex_scan_skips:
  "MR_Skipped (regex_scan re timeout late k ss) \<Longrightarrow> 0 < timeout \<and> (\<exists>i < length ss. late (k + i))"
proof (induction ss arbitrary: k)
  case (Cons s ss)
  show ?case
  proof (cases "late k \<and> 0 < timeout")
    case True
    then show ?thesis by force
  next
    case False
    with Cons.prems have "MR_Skipped (regex_scan re timeout late (Suc k) ss)"
      by (auto simp: regexMatch_def runWithTimeout_def split: if_splits)
    from Cons.IH [OF this] show ?thesis by auto
  qed
qed simp

end
