(* ===== verification/MessageReads.thy ===== *)
theory MessageReads
  imports ScanMatch TopicService
begin

text \<open>
  The message service's struct, bounds and windows, and its read commands M1 to M4
  (\<^verbatim>\<open>internal/service/message/service.go\<close>, \<^verbatim>\<open>bounds.go\<close>, \<^verbatim>\<open>events.go\<close>, \<^verbatim>\<open>window.go\<close>, \<^verbatim>\<open>read.go\<close>,
  \<^verbatim>\<open>get.go\<close>, \<^verbatim>\<open>search.go\<close>, \<^verbatim>\<open>filter.go\<close>).

  A command that runs a scan is a \<open>run\<close>: \<open>None\<close> when the scan's poll loop has not ended within the fuel.
\<close>

section \<open>The service\<close>

record Range =
  Range_Default :: int64
  Range_Ceiling :: int64

type_synonym RangeBytes = Range
type_synonym RangeDuration = Range \<comment> \<open>nanoseconds\<close>

record Bounds =
  Bounds_Limit :: Range
  Bounds_MaxScan :: Range
  Bounds_MaxMatches :: Range
  Bounds_MaxBytes :: RangeBytes
  Bounds_MaxTime :: RangeDuration
  Bounds_RegexTimeout :: int64
  Bounds_MaxBulkBodyBytes :: int64
  Bounds_Replay :: Range

text \<open>
  \<open>ms_svc\<close> holds the fields the services share. \<open>ms_newConsumer\<close> is the factory's error; the consumer it
  hands out is \<open>env_consumer\<close> of \<open>ms_scan\<close>, and \<open>ms_ctx\<close> is the request's context.
\<close>

record ('s, 'c) MessageService =
  ms_svc :: "'s Service"
  ms_producer :: "'s Producer"
  ms_newConsumer :: "('s, unit) eff"
  ms_scan :: "('s, 'c) ScanEnv"
  ms_ctx :: 'c
  ms_bounds :: Bounds

section \<open>Events\<close>

definition message_errCodeOf :: "error \<Rightarrow> string" where
  "message_errCodeOf err = (case as_kafka err of Some ke \<Rightarrow> kind_String (ke_Kind ke) | None \<Rightarrow> ''INTERNAL'')"

definition message_newEvent :: "'s Service \<Rightarrow> Caller \<Rightarrow> string \<Rightarrow> string \<Rightarrow> ('s, Event) eff" where
  "message_newEvent svc caller commandID topic = new_event svc ''topic'' caller commandID topic"

definition message_resultEventOutcome :: "'s Service \<Rightarrow> Event \<Rightarrow> Outcome \<Rightarrow> string \<Rightarrow> ('s, Event) eff" where
  "message_resultEventOutcome svc att outcome errCode =
    onOk (act (svc_now svc)) (\<lambda>t. ret (resultEventAt t att outcome errCode))"

definition message_checkGate :: "'s Service \<Rightarrow> Caller \<Rightarrow> string \<Rightarrow> string \<Rightarrow> ('s, unit) eff" where
  "message_checkGate svc caller commandID topic =
    onOk (message_newEvent svc caller commandID topic) (\<lambda>ev.
      CheckAudited (svc_runner svc) (svc_auditor svc) caller (desc_of commandID) ev)"

definition auditBreakGlassRead :: "'s Service \<Rightarrow> Caller \<Rightarrow> string \<Rightarrow> string \<Rightarrow> ('s, unit) eff" where
  "auditBreakGlassRead svc caller commandID topic =
    (if Caller_BreakGlassReason caller = [] then ret ()
     else onOk (message_newEvent svc caller commandID topic) (\<lambda>att.
          onOk (message_resultEventOutcome svc att OutcomeSucceeded []) (Result (svc_auditor svc))))"

definition message_resultEvent :: "'s Service \<Rightarrow> Event \<Rightarrow> BulkSummary \<Rightarrow> ('s, Event) eff" where
  "message_resultEvent svc att sm =
    message_resultEventOutcome svc att (if BulkSummary_Failed sm > 0 then OutcomeFailed else OutcomeSucceeded) []"

section \<open>Bounds\<close>

definition boundExceeded :: "string \<Rightarrow> error" where
  "boundExceeded name = policyErr BoundExceeded (name @ '' exceeds the configured ceiling'')"

text \<open>\<open>resolveIntBound\<close> and \<open>resolveBytesBound\<close> differ in their integer types only, 64 bits wide both.\<close>

definition resolveIntBound :: "string \<Rightarrow> int64 \<Rightarrow> Range \<Rightarrow> ('s, int64) eff" where
  "resolveIntBound name v r =
    (if v = 0 then ret (Range_Default r)
     else if v > Range_Ceiling r then fail (boundExceeded name)
     else ret v)"

definition resolveBytesBound :: "string \<Rightarrow> int64 \<Rightarrow> RangeBytes \<Rightarrow> ('s, int64) eff" where
  "resolveBytesBound name v r =
    (if v = 0 then ret (Range_Default r)
     else if v > Range_Ceiling r then fail (boundExceeded name)
     else ret v)"

definition resolveMaxTime :: "int64 \<Rightarrow> RangeDuration \<Rightarrow> ('s, int64) eff" where
  "resolveMaxTime maxTimeMs r =
    (if maxTimeMs = 0 then ret (Range_Default r)
     else (let d = wrap64 (maxTimeMs * 1000000)
           in if d > Range_Ceiling r then fail (boundExceeded ''maxTimeMs'') else ret d))"

section \<open>Windows\<close>

datatype FromKind = FromBeginning | FromLatest | FromOffset | FromTimestamp

record From =
  From_Kind :: FromKind
  From_Offset :: int64
  From_TimeMilli :: int64

record windowParams =
  wp_Topic :: string
  wp_Partitions :: "int32 list"
  wp_From :: From
  wp_To :: "From option"

definition maybeListStart :: "'s Service \<Rightarrow> string \<Rightarrow> FromKind \<Rightarrow> ('s, (int32 \<times> int64) list) eff" where
  "maybeListStart svc topic kind =
    (if kind \<noteq> FromBeginning \<and> kind \<noteq> FromLatest then ret [] else ListStartOffsets (svc_admin svc) topic)"

definition maybeListAfterMilli :: "'s Service \<Rightarrow> string \<Rightarrow> From \<Rightarrow> ('s, (int32 \<times> int64) list) eff" where
  "maybeListAfterMilli svc topic frm =
    (if From_Kind frm \<noteq> FromTimestamp then ret []
     else ListOffsetsAfterMilli (svc_admin svc) topic (From_TimeMilli frm))"

definition resolveFromOffset ::
  "From \<Rightarrow> int32 \<Rightarrow> (int32 \<times> int64) list \<Rightarrow> (int32 \<times> int64) list \<Rightarrow> int64 \<Rightarrow> int64 \<Rightarrow> int64" where
  "resolveFromOffset frm part begs timestampOffsets e limit =
    (case From_Kind frm of
       FromBeginning \<Rightarrow> mget begs 0 part
     | FromLatest \<Rightarrow>
         (let start = wrap64 (e - limit); b = mget begs 0 part in if start < b then b else start)
     | FromOffset \<Rightarrow> From_Offset frm
     | FromTimestamp \<Rightarrow> mget timestampOffsets 0 part)"

definition resolveToOffset :: "From \<Rightarrow> int32 \<Rightarrow> (int32 \<times> int64) list \<Rightarrow> int64 \<Rightarrow> int64" where
  "resolveToOffset to part timestampOffsets e =
    (case From_Kind to of
       FromOffset \<Rightarrow> From_Offset to
     | FromTimestamp \<Rightarrow> mget timestampOffsets 0 part
     | _ \<Rightarrow> e)"

definition partition_window ::
  "windowParams \<Rightarrow> (int32 \<times> int64) list \<Rightarrow> (int32 \<times> int64) list \<Rightarrow> (int32 \<times> int64) list \<Rightarrow> (int32 \<times> int64) list
   \<Rightarrow> int64 \<Rightarrow> int32 \<Rightarrow> PartitionSpec" where
  "partition_window wp ends begs fromTs toTs limit part =
    (let e = mget ends 0 part
     in \<lparr>PSpec_Start = resolveFromOffset (wp_From wp) part begs fromTs e limit,
         PSpec_End = (case wp_To wp of
             None \<Rightarrow> e
           | Some to \<Rightarrow> (let t = resolveToOffset to part toTs e in if t < e then t else e))\<rparr>)"

text \<open>
  Without an explicit selection, the partitions are the keys of the end offsets. The loop over that map fills
  another one, so the order in which the runtime visits it does not show: the association list returned stands for
  a map, and what depends on an order, the polling of the assigned partitions, takes its own (\<open>fake_Poll\<close>).
\<close>

definition resolveWindows ::
  "'s Service \<Rightarrow> windowParams \<Rightarrow> int64 \<Rightarrow> ('s, (int32 \<times> PartitionSpec) list) eff" where
  "resolveWindows svc wp limitForLatest =
    onOk (ListEndOffsets (svc_admin svc) (wp_Topic wp)) (\<lambda>ends.
    onOk (maybeListStart svc (wp_Topic wp) (From_Kind (wp_From wp))) (\<lambda>begs.
    onOk (maybeListAfterMilli svc (wp_Topic wp) (wp_From wp)) (\<lambda>fromTs.
    onOk (case wp_To wp of None \<Rightarrow> ret [] | Some to \<Rightarrow> maybeListAfterMilli svc (wp_Topic wp) to) (\<lambda>toTs.
      let parts = (if wp_Partitions wp = [] then mkeys ends else wp_Partitions wp)
      in ret (fold (\<lambda>part. mput part (partition_window wp ends begs fromTs toTs limitForLatest part))
                parts [])))))"

section \<open>Running scans\<close>

type_synonym ('s, 'a) run = "'s \<Rightarrow> ('a res \<times> 's) option"

definition ended :: "('s, 'a) eff \<Rightarrow> ('s, 'a) run" where
  "ended m s = Some (m s)"

text \<open>\<open>x, err := m(); if err != nil { return zero, err }\<close> before a step that may not end, and after one.\<close>

definition before_run :: "('s, 'a) eff \<Rightarrow> ('a \<Rightarrow> ('s, 'b) run) \<Rightarrow> ('s, 'b) run" where
  "before_run m k s = (case m s of (Ok a, s') \<Rightarrow> k a s' | (Err e, s') \<Rightarrow> Some (Err e, s') | (Panic, s') \<Rightarrow> Some (Panic, s'))"

definition after_run :: "('s, 'a) run \<Rightarrow> ('a \<Rightarrow> ('s, 'b) eff) \<Rightarrow> ('s, 'b) run" where
  "after_run m k s = (case m s of None \<Rightarrow> None | Some r \<Rightarrow> Some (onOk (\<lambda>_. r) k s))"

record ReadResult =
  ReadResult_Items :: "scan_Record list"
  ReadResult_Stats :: Stats

definition runScan :: "nat \<Rightarrow> ('s, 'c) MessageService \<Rightarrow> Spec \<Rightarrow> Matcher \<Rightarrow> ('s, ReadResult) run" where
  "runScan fuel ms spec matcher =
    before_run (ms_newConsumer ms) (\<lambda>_.
    after_run (Run fuel ((ms_scan ms)\<lparr>env_now := svc_now (ms_svc ms)\<rparr>) (ms_ctx ms) spec matcher)
      (\<lambda>(items, stats). ret \<lparr>ReadResult_Items = items, ReadResult_Stats = stats\<rparr>))"

section \<open>M1: read\<close>

record ReadParams =
  RP_Topic :: string
  RP_Partitions :: "int32 list"
  RP_From :: From
  RP_To :: "From option"
  RP_Limit :: int64
  RP_MaxBytes :: int64
  RP_MaxTimeMs :: int64
  RP_Format :: string

definition message_Read ::
  "nat \<Rightarrow> ('s, 'c) MessageService \<Rightarrow> Caller \<Rightarrow> ReadParams \<Rightarrow> ('s, ReadResult) run" where
  "message_Read fuel ms caller p =
    (let svc = ms_svc ms; b = ms_bounds ms in
    before_run (message_checkGate svc caller ''M1'' (RP_Topic p)) (\<lambda>_.
    before_run (resolveIntBound ''limit'' (RP_Limit p) (Bounds_Limit b)) (\<lambda>limit.
    before_run (resolveBytesBound ''maxBytes'' (RP_MaxBytes p) (Bounds_MaxBytes b)) (\<lambda>maxBytes.
    before_run (resolveMaxTime (RP_MaxTimeMs p) (Bounds_MaxTime b)) (\<lambda>maxTime.
    before_run (resolveWindows svc
        \<lparr>wp_Topic = RP_Topic p, wp_Partitions = RP_Partitions p, wp_From = RP_From p, wp_To = RP_To p\<rparr>
        limit) (\<lambda>partitionSpecs.
    after_run (runScan fuel ms
        \<lparr>Spec_Topic = RP_Topic p, Spec_Partitions = partitionSpecs,
         Spec_Latest = (From_Kind (RP_From p) = FromLatest), Spec_MaxMessages = limit, Spec_MaxScanned = 0,
         Spec_MaxBytes = maxBytes, Spec_MaxTime = maxTime, Spec_Format = RP_Format p\<rparr> MatchAll) (\<lambda>result.
    onOk (auditBreakGlassRead svc caller ''M1'' (RP_Topic p)) (\<lambda>_. ret result))))))))"

section \<open>M2: get\<close>

text \<open>\<open>defer consumer.Close()\<close>: run whatever way the function is left.\<close>

definition deferred :: "('s, unit) eff \<Rightarrow> ('s, 'a) eff \<Rightarrow> ('s, 'a) eff" where
  "deferred close m s = (case m s of (r, s') \<Rightarrow> (r, snd (close s')))"

definition message_Get ::
  "('s, 'c) MessageService \<Rightarrow> Caller \<Rightarrow> string \<Rightarrow> int32 \<Rightarrow> int64 \<Rightarrow> ('s, scan_Record) eff" where
  "message_Get ms caller topic part offset =
    onOk (message_checkGate (ms_svc ms) caller ''M2'' topic) (\<lambda>_.
    onOk (ms_newConsumer ms) (\<lambda>_.
    let consumer = env_consumer (ms_scan ms) (ms_ctx ms) in
    deferred (Close consumer)
      (onOk (Assign consumer topic [part] [(part, offset)]) (\<lambda>_.
       onOk (Poll consumer) (\<lambda>records.
       case records of
         [] \<Rightarrow> fail (kafkaErr KindNotFound ''message'')
       | r # _ \<Rightarrow>
           if Record_Offset r > offset then fail (kafkaErr KindNotFound ''message'')
           else onOk (auditBreakGlassRead (ms_svc ms) caller ''M2'' topic) (\<lambda>_. ret (Decode r [])))))))"

section \<open>M3 and M4: search and filter\<close>

definition resolveScanBounds ::
  "Bounds \<Rightarrow> int64 \<Rightarrow> int64 \<Rightarrow> int64 \<Rightarrow> int64 \<Rightarrow> ('s, int64 \<times> int64 \<times> int64 \<times> int64) eff" where
  "resolveScanBounds b maxScan maxMatches maxBytesIn maxTimeMsIn =
    onOk (resolveIntBound ''maxScan'' maxScan (Bounds_MaxScan b)) (\<lambda>scanBound.
    onOk (resolveIntBound ''maxMatches'' maxMatches (Bounds_MaxMatches b)) (\<lambda>matchBound.
    onOk (resolveBytesBound ''maxBytes'' maxBytesIn (Bounds_MaxBytes b)) (\<lambda>maxBytes.
    onOk (resolveMaxTime maxTimeMsIn (Bounds_MaxTime b)) (\<lambda>maxTime.
      ret (scanBound, matchBound, maxBytes, maxTime)))))"

record SearchParams =
  SP_Topic :: string
  SP_Partitions :: "int32 list"
  SP_From :: From
  SP_To :: "From option"
  SP_Regex :: string
  SP_Fields :: "string list"
  SP_CaseInsensitive :: bool
  SP_MaxScan :: int64
  SP_MaxMatches :: int64
  SP_MaxBytes :: int64
  SP_MaxTimeMs :: int64
  SP_Format :: string

definition matcher_or :: "code \<Rightarrow> string + Matcher \<Rightarrow> ('s, Matcher) eff" where
  "matcher_or c m = (case m of Inl msg \<Rightarrow> fail (policyErr c msg) | Inr matcher \<Rightarrow> ret matcher)"

definition message_Search ::
  "(string \<Rightarrow> string + regexp) \<Rightarrow> (scan_Record \<Rightarrow> nat \<Rightarrow> bool) \<Rightarrow> nat \<Rightarrow> ('s, 'c) MessageService
   \<Rightarrow> Caller \<Rightarrow> SearchParams \<Rightarrow> ('s, ReadResult) run" where
  "message_Search compile late fuel ms caller p =
    (let svc = ms_svc ms; b = ms_bounds ms in
    before_run (message_checkGate svc caller ''M3'' (SP_Topic p)) (\<lambda>_.
    before_run (resolveScanBounds b (SP_MaxScan p) (SP_MaxMatches p) (SP_MaxBytes p) (SP_MaxTimeMs p))
      (\<lambda>(maxScan, maxMatches, maxBytes, maxTime).
    before_run (matcher_or InvalidRegex
        (NewRegexMatcher compile late (SP_Regex p) (SP_Fields p) (SP_CaseInsensitive p) (Bounds_RegexTimeout b)))
      (\<lambda>matcher.
    before_run (resolveWindows svc
        \<lparr>wp_Topic = SP_Topic p, wp_Partitions = SP_Partitions p, wp_From = SP_From p, wp_To = SP_To p\<rparr>
        maxMatches) (\<lambda>partitionSpecs.
    after_run (runScan fuel ms
        \<lparr>Spec_Topic = SP_Topic p, Spec_Partitions = partitionSpecs,
         Spec_Latest = (From_Kind (SP_From p) = FromLatest), Spec_MaxMessages = maxMatches,
         Spec_MaxScanned = maxScan, Spec_MaxBytes = maxBytes, Spec_MaxTime = maxTime,
         Spec_Format = SP_Format p\<rparr> matcher) (\<lambda>result.
    onOk (auditBreakGlassRead svc caller ''M3'' (SP_Topic p)) (\<lambda>_. ret result)))))))"

record FilterParams =
  FP_Topic :: string
  FP_Partitions :: "int32 list"
  FP_From :: From
  FP_To :: "From option"
  FP_Path :: string
  FP_Op :: string
  FP_Value :: json
  FP_MaxScan :: int64
  FP_MaxMatches :: int64
  FP_MaxBytes :: int64
  FP_MaxTimeMs :: int64
  FP_Format :: string

definition message_Filter ::
  "(string \<Rightarrow> string + (json \<Rightarrow> json list)) \<Rightarrow> (string \<Rightarrow> string + regexp) \<Rightarrow> (string \<Rightarrow> json option)
   \<Rightarrow> nat \<Rightarrow> ('s, 'c) MessageService \<Rightarrow> Caller \<Rightarrow> FilterParams \<Rightarrow> ('s, ReadResult) run" where
  "message_Filter parse compile unmarshal fuel ms caller p =
    (let svc = ms_svc ms; b = ms_bounds ms in
    before_run (message_checkGate svc caller ''M4'' (FP_Topic p)) (\<lambda>_.
    before_run (resolveScanBounds b (FP_MaxScan p) (FP_MaxMatches p) (FP_MaxBytes p) (FP_MaxTimeMs p))
      (\<lambda>(maxScan, maxMatches, maxBytes, maxTime).
    before_run (matcher_or InvalidJSONPath
        (NewJSONPathMatcher parse compile unmarshal (FP_Path p) (FP_Op p) (FP_Value p))) (\<lambda>matcher.
    before_run (resolveWindows svc
        \<lparr>wp_Topic = FP_Topic p, wp_Partitions = FP_Partitions p, wp_From = FP_From p, wp_To = FP_To p\<rparr>
        maxMatches) (\<lambda>partitionSpecs.
    after_run (runScan fuel ms
        \<lparr>Spec_Topic = FP_Topic p, Spec_Partitions = partitionSpecs,
         Spec_Latest = (From_Kind (FP_From p) = FromLatest), Spec_MaxMessages = maxMatches,
         Spec_MaxScanned = maxScan, Spec_MaxBytes = maxBytes, Spec_MaxTime = maxTime,
         Spec_Format = FP_Format p\<rparr> matcher) (\<lambda>result.
    onOk (auditBreakGlassRead svc caller ''M4'' (FP_Topic p)) (\<lambda>_. ret result)))))))"

end
