(* ===== verification/MessageWrites.thy ===== *)
theory MessageWrites
  imports MessageReads TextParse
begin

text \<open>
  The message commands that write: M5 to M8 (\<^verbatim>\<open>internal/service/message/produce.go\<close>,
  \<^verbatim>\<open>producebulk.go\<close>, \<^verbatim>\<open>tombstone.go\<close>, \<^verbatim>\<open>replay.go\<close>).

  Variables captured by a closure, and the scan of a replay that need not end, are an extra component
  of the state in which the closures run (\<open>lift_eff\<close>). \<open>json.Unmarshal\<close> into the request types is a
  parameter: the error's text, or the value.
\<close>

section \<open>Local state\<close>

definition lift_eff :: "('s, 'a) eff \<Rightarrow> ('s \<times> 'x, 'a) eff" where
  "lift_eff m sx = (case m (fst sx) of (r, s') \<Rightarrow> (r, (s', snd sx)))"

definition lift_clock :: "('s \<Rightarrow> 'a \<times> 's) \<Rightarrow> 's \<times> 'x \<Rightarrow> 'a \<times> ('s \<times> 'x)" where
  "lift_clock f sx = (case f (fst sx) of (a, s') \<Rightarrow> (a, (s', snd sx)))"

definition lift_auditor :: "'s Auditor \<Rightarrow> ('s \<times> 'x) Auditor" where
  "lift_auditor sinks = map (\<lambda>sink ev. lift_eff (sink ev)) sinks"

definition with_local :: "'x \<Rightarrow> ('s \<times> 'x, 'a) eff \<Rightarrow> ('s, 'a \<times> 'x) eff" where
  "with_local x m s =
    (case m (s, x) of (Ok a, (s', x')) \<Rightarrow> (Ok (a, x'), s') | (Err e, (s', _)) \<Rightarrow> (Err e, s')
       | (Panic, (s', _)) \<Rightarrow> (Panic, s'))"

text \<open>A step that may not end sets a flag, which makes the whole call one that does not end.\<close>

definition hang :: "('s, 'a) run \<Rightarrow> ('s \<times> bool, 'a) eff" where
  "hang m sx = (case m (fst sx) of None \<Rightarrow> (Panic, (fst sx, True)) | Some (r, s') \<Rightarrow> (r, (s', snd sx)))"

definition unhang :: "('s \<times> bool, 'a) eff \<Rightarrow> ('s, 'a) run" where
  "unhang m s = (case m (s, False) of (r, (s', hung)) \<Rightarrow> if hung then None else Some (r, s'))"

section \<open>M5: produce\<close>

record ProduceHeader =
  PH_Key :: string
  PH_Value :: string
  PH_ValueEncoding :: string

record ProduceItem =
  PItem_Key :: string
  PItem_KeyEncoding :: string
  PItem_Value :: string
  PItem_ValueEncoding :: string
  PItem_Headers :: "ProduceHeader list"
  PItem_Partition :: "int32 option"
  PItem_TimestampMs :: "int64 option"

record ProduceItemResult =
  PIR_Index :: int64
  PIR_Outcome :: Outcome
  PIR_Partition :: int32
  PIR_Offset :: int64
  PIR_TimestampMs :: int64
  PIR_Error :: string

record message_ProduceResult =
  MPR_Items :: "ProduceItemResult list"
  MPR_Summary :: BulkSummary

definition partitionCount :: "'s Service \<Rightarrow> string \<Rightarrow> ('s, int32) eff" where
  "partitionCount svc topic =
    onOk (DescribeTopics (svc_admin svc) topic) (\<lambda>t. ret (wrap32 (int (length (Topic_Partitions t)))))"

definition check_encoding :: "string \<Rightarrow> string \<Rightarrow> string \<Rightarrow> error option" where
  "check_encoding prefix val encoding =
    (case EncodeValue val encoding of Inl err \<Rightarrow> Some (WrapError prefix err) | Inr _ \<Rightarrow> None)"

fun check_headers :: "ProduceHeader list \<Rightarrow> error option" where
  "check_headers [] = None"
| "check_headers (h # hs) =
    (case check_encoding (''invalid header '' @ quoted (PH_Key h) @ '': '') (PH_Value h) (PH_ValueEncoding h) of
       Some err \<Rightarrow> Some err
     | None \<Rightarrow> check_headers hs)"

definition check_partition :: "int32 option \<Rightarrow> int32 \<Rightarrow> error option" where
  "check_partition part pcount =
    (case part of
       None \<Rightarrow> None
     | Some p \<Rightarrow>
         if p < 0 \<or> p \<ge> pcount
         then Some (PlainError (''partition '' @ itoa p @ '' out of range [0,'' @ itoa pcount @ '')''))
         else None)"

definition validateProduceItem :: "ProduceItem \<Rightarrow> int32 \<Rightarrow> error option" where
  "validateProduceItem item pcount =
    (case check_encoding ''invalid key: '' (PItem_Key item) (PItem_KeyEncoding item) of
       Some err \<Rightarrow> Some err
     | None \<Rightarrow> (case check_encoding ''invalid value: '' (PItem_Value item) (PItem_ValueEncoding item) of
       Some err \<Rightarrow> Some err
     | None \<Rightarrow> (case check_headers (PItem_Headers item) of
       Some err \<Rightarrow> Some err
     | None \<Rightarrow> check_partition (PItem_Partition item) pcount)))"

text \<open>\<open>v, _ := scan.EncodeValue(...)\<close>: nil after an error.\<close>

definition encoded :: "string \<Rightarrow> string \<Rightarrow> bytes option" where
  "encoded val encoding = (case EncodeValue val encoding of Inl _ \<Rightarrow> None | Inr b \<Rightarrow> Some b)"

definition to_headers :: "ProduceHeader list \<Rightarrow> Header list" where
  "to_headers hs = map (\<lambda>h. \<lparr>Header_Key = PH_Key h,
     Header_Value = slice (encoded (PH_Value h) (PH_ValueEncoding h))\<rparr>) hs"

definition toProduceRequest :: "ProduceItem \<Rightarrow> ProduceRequest" where
  "toProduceRequest item =
    \<lparr>ProduceRequest_Key = encoded (PItem_Key item) (PItem_KeyEncoding item),
     ProduceRequest_Value = encoded (PItem_Value item) (PItem_ValueEncoding item),
     ProduceRequest_Headers = to_headers (PItem_Headers item),
     ProduceRequest_Partition = PItem_Partition item,
     ProduceRequest_Timestamp =
       (case PItem_TimestampMs item of None \<Rightarrow> zeroTime | Some ms \<Rightarrow> fromUnixMilli ms)\<rparr>"

definition zero_produced :: ProduceResult where
  "zero_produced = \<lparr>ProduceResult_Partition = 0, ProduceResult_Offset = 0, ProduceResult_Timestamp = zeroTime,
     ProduceResult_Err = None\<rparr>"

text \<open>The closure \<open>execute\<close> with its captured \<open>produced\<close> and \<open>next\<close>.\<close>

type_synonym produced = "ProduceResult list \<times> nat"

definition put_produced :: "nat \<Rightarrow> ProduceResult \<Rightarrow> ('s \<times> produced, unit) eff" where
  "put_produced i r sx =
    (case sx of (s, (out, nxt)) \<Rightarrow> if i < length out then (Ok (), (s, (out[i := r], nxt))) else (Panic, sx))"

definition produce_execute ::
  "'s Producer \<Rightarrow> string \<Rightarrow> ProduceItem \<Rightarrow> ('s \<times> produced, unit) eff" where
  "produce_execute producer topic item =
    onOk (act (\<lambda>(s, (out, nxt)). (nxt, (s, (out, Suc nxt))))) (\<lambda>i.
    onOk (lift_eff (Produce producer topic [toProduceRequest item])) (\<lambda>results.
    onOk (first_of results) (\<lambda>r.
    onOk (put_produced i r) (\<lambda>_.
    case ProduceResult_Err r of None \<Rightarrow> ret () | Some err \<Rightarrow> fail err))))"

definition toProduceResult :: "ProduceResult list \<Rightarrow> BulkResult \<Rightarrow> message_ProduceResult" where
  "toProduceResult out br =
    \<lparr>MPR_Items = map (\<lambda>i. let r = BulkResult_Items br ! i;
          base = \<lparr>PIR_Index = BulkItem_Index r, PIR_Outcome = BulkItem_Outcome r, PIR_Partition = 0,
            PIR_Offset = 0, PIR_TimestampMs = 0, PIR_Error = BulkItem_Error r\<rparr>
        in if BulkItem_Outcome r \<noteq> OutcomeSucceeded then base
           else base\<lparr>PIR_Partition := ProduceResult_Partition (out ! i),
             PIR_Offset := ProduceResult_Offset (out ! i),
             PIR_TimestampMs := UnixMilli (ProduceResult_Timestamp (out ! i))\<rparr>)
        [0..<length (BulkResult_Items br)],
     MPR_Summary = BulkResult_Summary br\<rparr>"

definition produce_items ::
  "('s, 'c) MessageService \<Rightarrow> Caller \<Rightarrow> string \<Rightarrow> string \<Rightarrow> ProduceItem list
   \<Rightarrow> ('s, message_ProduceResult) eff" where
  "produce_items ms caller commandID topic items =
    (let svc = ms_svc ms in
    onOk (partitionCount svc topic) (\<lambda>pcount.
    onOk (message_newEvent svc caller commandID topic) (\<lambda>att.
    onOk (with_local (replicate (length items) zero_produced, 0)
        (BulkRun (lift_auditor (svc_auditor svc)) att (\<lambda>sm. lift_eff (message_resultEvent svc att sm)) items
          (\<lambda>item. validateProduceItem item pcount)
          (produce_execute (ms_producer ms) topic)))
      (\<lambda>(br, (out, _)). ret (toProduceResult out br)))))"

definition message_Produce ::
  "('s, 'c) MessageService \<Rightarrow> Caller \<Rightarrow> string \<Rightarrow> ProduceItem list \<Rightarrow> ('s, message_ProduceResult) eff" where
  "message_Produce ms caller topic items =
    onOk (message_checkGate (ms_svc ms) caller ''M5'' topic) (\<lambda>_. produce_items ms caller ''M5'' topic items)"

section \<open>M6: produce from an upload\<close>

text \<open>
  A body is the bytes it delivers and how it ends: \<open>None\<close> at EOF, or a read error after those bytes.
  The limited reader reports EOF once it has delivered its limit, and does not read on.
\<close>

type_synonym body = "bytes \<times> Err"

definition ReadAll_limited :: "int64 \<Rightarrow> body \<Rightarrow> error + bytes" where
  "ReadAll_limited n body =
    (let k = nat (max 0 n)
     in if k \<le> length (fst body) then Inr (take k (fst body))
        else (case snd body of Some err \<Rightarrow> Inl err | None \<Rightarrow> Inr (fst body)))"

text \<open>
  \<open>bufio.ScanLines\<close>. The scanner's buffer may grow to one byte more than the whole input, so no line is
  too long for it and \<open>scanner.Err()\<close> is nil.
\<close>

definition newline :: char where "newline = char_of (10::nat)"

definition dropCR :: "string \<Rightarrow> string" where
  "dropCR s = (if s \<noteq> [] \<and> last s = char_of (13::nat) then butlast s else s)"

fun scan_lines :: "string \<Rightarrow> bytes \<Rightarrow> string list" where
  "scan_lines cur [] = (if cur = [] then [] else [dropCR cur])"
| "scan_lines cur (c # cs) =
    (if c = newline then dropCR cur # scan_lines [] cs else scan_lines (cur @ [c]) cs)"

fun parse_lines ::
  "(string \<Rightarrow> string + ProduceItem) \<Rightarrow> nat \<Rightarrow> string list \<Rightarrow> ProduceItem list \<Rightarrow> ('s, ProduceItem list) eff" where
  "parse_lines unmarshal line [] items = ret items"
| "parse_lines unmarshal line (l # ls) items =
    (let txt = TrimSpace l in
     if txt = [] then parse_lines unmarshal (Suc line) ls items
     else (case unmarshal txt of
         Inl msg \<Rightarrow> fail (policyErr Validation (''line '' @ itoa (int line) @ '': invalid JSON: '' @ msg))
       | Inr item \<Rightarrow> parse_lines unmarshal (Suc line) ls (items @ [item])))"

definition parseNDJSON :: "(string \<Rightarrow> string + ProduceItem) \<Rightarrow> bytes \<Rightarrow> ('s, ProduceItem list) eff" where
  "parseNDJSON unmarshal b = parse_lines unmarshal 1 (scan_lines [] b) []"

definition parseJSONArray :: "(bytes \<Rightarrow> string + ProduceItem list) \<Rightarrow> bytes \<Rightarrow> ('s, ProduceItem list) eff" where
  "parseJSONArray unmarshalAll b =
    (case unmarshalAll b of
       Inl msg \<Rightarrow> fail (policyErr Validation (''invalid JSON array body: '' @ msg))
     | Inr items \<Rightarrow> ret items)"

definition parseBulkBody ::
  "(string \<Rightarrow> string + ProduceItem) \<Rightarrow> (bytes \<Rightarrow> string + ProduceItem list) \<Rightarrow> int64 \<Rightarrow> body \<Rightarrow> bool
   \<Rightarrow> ('s, ProduceItem list) eff" where
  "parseBulkBody unmarshal unmarshalAll limit body ndjson =
    (case ReadAll_limited (wrap64 (limit + 1)) body of
       Inl err \<Rightarrow> fail (WrapError ''message: read bulk body: '' err)
     | Inr b \<Rightarrow>
         if int (length b) > limit
         then fail (policyErr PayloadTooLarge (''request body exceeds the '' @ itoa limit @ '' byte limit''))
         else if ndjson then parseNDJSON unmarshal b
         else parseJSONArray unmarshalAll b)"

definition message_ProduceBulk ::
  "(string \<Rightarrow> string + ProduceItem) \<Rightarrow> (bytes \<Rightarrow> string + ProduceItem list) \<Rightarrow> ('s, 'c) MessageService
   \<Rightarrow> Caller \<Rightarrow> string \<Rightarrow> body \<Rightarrow> bool \<Rightarrow> ('s, message_ProduceResult) eff" where
  "message_ProduceBulk unmarshal unmarshalAll ms caller topic body ndjson =
    onOk (message_checkGate (ms_svc ms) caller ''M6'' topic) (\<lambda>_.
    onOk (parseBulkBody unmarshal unmarshalAll (Bounds_MaxBulkBodyBytes (ms_bounds ms)) body ndjson) (\<lambda>items.
    produce_items ms caller ''M6'' topic items))"

section \<open>M7: tombstone\<close>

record TombstoneItem =
  TI_Key :: string
  TI_KeyEncoding :: string
  TI_Partition :: "int32 option"
  TI_Headers :: "ProduceHeader list"

record TombstoneResult =
  TR_Partition :: int32
  TR_Offset :: int64

definition validateTombstoneItem :: "TombstoneItem \<Rightarrow> int32 \<Rightarrow> error option" where
  "validateTombstoneItem item pcount =
    (case check_encoding ''invalid key: '' (TI_Key item) (TI_KeyEncoding item) of
       Some err \<Rightarrow> Some err
     | None \<Rightarrow> (case check_headers (TI_Headers item) of
       Some err \<Rightarrow> Some err
     | None \<Rightarrow> check_partition (TI_Partition item) pcount))"

definition tombstone_request :: "TombstoneItem \<Rightarrow> ProduceRequest" where
  "tombstone_request item =
    \<lparr>ProduceRequest_Key = encoded (TI_Key item) (TI_KeyEncoding item), ProduceRequest_Value = None,
     ProduceRequest_Headers = to_headers (TI_Headers item), ProduceRequest_Partition = TI_Partition item,
     ProduceRequest_Timestamp = zeroTime\<rparr>"

definition produceTombstone :: "'s Producer \<Rightarrow> string \<Rightarrow> TombstoneItem \<Rightarrow> ('s, TombstoneResult) eff" where
  "produceTombstone producer topic item =
    onOk (Produce producer topic [tombstone_request item]) (\<lambda>results.
    onOk (first_of results) (\<lambda>r.
    case ProduceResult_Err r of
      Some err \<Rightarrow> fail err
    | None \<Rightarrow> ret \<lparr>TR_Partition = ProduceResult_Partition r, TR_Offset = ProduceResult_Offset r\<rparr>))"

definition message_Tombstone ::
  "('s, 'c) MessageService \<Rightarrow> Caller \<Rightarrow> string \<Rightarrow> TombstoneItem \<Rightarrow> ('s, TombstoneResult) eff" where
  "message_Tombstone ms caller topic item =
    (let svc = ms_svc ms in
    onOk (message_checkGate svc caller ''M7'' topic) (\<lambda>_.
    onOk (partitionCount svc topic) (\<lambda>pcount.
    case validateTombstoneItem item pcount of
      Some err \<Rightarrow> fail (policyErr Validation (err_Error err))
    | None \<Rightarrow>
    onOk (message_newEvent svc caller ''M7'' topic) (\<lambda>att.
    attempt (Attempt (svc_auditor svc) att) (\<lambda>ar. case ar of
      Inl err \<Rightarrow> fail (policyErr AuditUnavailable (err_Error err))
    | Inr _ \<Rightarrow>
    attempt (produceTombstone (ms_producer ms) topic item) (\<lambda>pr. case pr of
      Inl err \<Rightarrow>
        onOk (message_resultEventOutcome svc att OutcomeFailed (message_errCodeOf err)) (\<lambda>ev.
        onOk (Result (svc_auditor svc) ev) (\<lambda>_. fail err))
    | Inr result \<Rightarrow>
        onOk (message_resultEventOutcome svc att OutcomeSucceeded []) (\<lambda>ev.
        onOk (Result (svc_auditor svc) ev) (\<lambda>_. ret result))))))))"

section \<open>M8: replay\<close>

record ReplaySource =
  RS_Topic :: string
  RS_Partitions :: "int32 list"
  RS_From :: From
  RS_To :: "From option"

record ReplayTarget =
  RT_Topic :: string
  RT_PreservePartition :: bool

record ReplayPlan =
  RPlan_Source :: ReplaySource
  RPlan_Target :: ReplayTarget
  RPlan_Limit :: int64
  RPlan_EstimatedRecords :: int64
  RPlan_SourcePartitions :: int64
  RPlan_TargetPartitions :: int64
  RPlan_windows :: "(int32 \<times> PartitionSpec) list"

record ReplayResult =
  RR_Copied :: int64
  RR_Cursor :: "(int32 \<times> int64) list"
  RR_ReachedEnd :: bool

fun kind_any :: "FromKind \<Rightarrow> any" where
  "kind_any FromBeginning = AInt 0"
| "kind_any FromLatest = AInt 1"
| "kind_any FromOffset = AInt 2"
| "kind_any FromTimestamp = AInt 3"

definition From_any :: "From \<Rightarrow> any" where
  "From_any f = AStruct ''From''
     [(''Kind'', kind_any (From_Kind f)), (''Offset'', AInt (From_Offset f)),
      (''TimeMilli'', AInt (From_TimeMilli f))]"

definition ReplaySource_any :: "ReplaySource \<Rightarrow> any" where
  "ReplaySource_any s = AStruct ''ReplaySource''
     [(''Topic'', AStr (RS_Topic s)), (''Partitions'', AList (map AInt (RS_Partitions s))),
      (''From'', From_any (RS_From s)), (''To'', case RS_To s of None \<Rightarrow> ANil | Some f \<Rightarrow> From_any f)]"

definition ReplayTarget_any :: "ReplayTarget \<Rightarrow> any" where
  "ReplayTarget_any t = AStruct ''ReplayTarget''
     [(''Topic'', AStr (RT_Topic t)), (''PreservePartition'', ABool (RT_PreservePartition t))]"

text \<open>One entry of the unexported map of windows.\<close>

definition window_any :: "int32 \<times> PartitionSpec \<Rightarrow> any" where
  "window_any pw = AIntMap [(fst pw, PSpec_Start (snd pw)), (fst pw, PSpec_End (snd pw))]"

definition ReplayPlan_ops :: "ReplayPlan PlanOps" where
  "ReplayPlan_ops = \<lparr>ConfirmTarget = (\<lambda>p. RT_Topic (RPlan_Target p)),
     plan_any = (\<lambda>p. AStruct ''ReplayPlan''
       [(''Source'', ReplaySource_any (RPlan_Source p)), (''Target'', ReplayTarget_any (RPlan_Target p)),
        (''Limit'', AInt (RPlan_Limit p)), (''EstimatedRecords'', AInt (RPlan_EstimatedRecords p)),
        (''SourcePartitions'', AInt (RPlan_SourcePartitions p)),
        (''TargetPartitions'', AInt (RPlan_TargetPartitions p)),
        (''windows'', AList (map window_any (RPlan_windows p)))])\<rparr>"

text \<open>The estimate, and the highest partition number in scope.\<close>

definition estimate_window :: "int32 \<times> PartitionSpec \<Rightarrow> int64 \<times> int32 \<Rightarrow> int64 \<times> int32" where
  "estimate_window pw acc =
    (case pw of (p, w) \<Rightarrow>
      (wrap64 (fst acc + wrap64 (PSpec_End w - PSpec_Start w)), if p > snd acc then p else snd acc))"

definition PlanReplay ::
  "('s, 'c) MessageService \<Rightarrow> ReplaySource \<Rightarrow> ReplayTarget \<Rightarrow> int64 \<Rightarrow> ('s, ReplayPlan) eff" where
  "PlanReplay ms source target limit0 =
    onOk (resolveIntBound ''limit'' limit0 (Bounds_Replay (ms_bounds ms))) (\<lambda>limit.
    onOk (resolveWindows (ms_svc ms)
        \<lparr>wp_Topic = RS_Topic source, wp_Partitions = RS_Partitions source, wp_From = RS_From source,
         wp_To = RS_To source\<rparr> limit) (\<lambda>windows.
    onOk (DescribeTopics (svc_admin (ms_svc ms)) (RT_Topic target)) (\<lambda>t.
    let est = fold estimate_window windows (0, - 1); targetPartitions = int (length (Topic_Partitions t)) in
    if RT_PreservePartition target \<and> wrap32 targetPartitions \<le> snd est
    then fail (policyErr PartitionMismatch
      ''target does not have enough partitions to preserve the source's partition numbers'')
    else ret \<lparr>RPlan_Source = source, RPlan_Target = target, RPlan_Limit = limit,
      RPlan_EstimatedRecords = fst est, RPlan_SourcePartitions = int (length windows),
      RPlan_TargetPartitions = targetPartitions, RPlan_windows = windows\<rparr>)))"

fun encode_headers :: "scan_Header list \<Rightarrow> error + Header list" where
  "encode_headers [] = Inr []"
| "encode_headers (h # hs) =
    (case EncodeValue (SH_Value h) (SH_ValueEncoding h) of
       Inl err \<Rightarrow> Inl err
     | Inr v \<Rightarrow> (case encode_headers hs of
         Inl err \<Rightarrow> Inl err
       | Inr rest \<Rightarrow> Inr (\<lparr>Header_Key = SH_Key h, Header_Value = v\<rparr> # rest)))"

definition replayProduceRequest :: "scan_Record \<Rightarrow> bool \<Rightarrow> error + ProduceRequest" where
  "replayProduceRequest item preservePartition =
    (case EncodeValue (SR_Key item) (SR_KeyEncoding item) of
       Inl err \<Rightarrow> Inl err
     | Inr key \<Rightarrow> (case EncodeValue (SR_Value item) (SR_ValueEncoding item) of
       Inl err \<Rightarrow> Inl err
     | Inr val \<Rightarrow> (case encode_headers (SR_Headers item) of
       Inl err \<Rightarrow> Inl err
     | Inr headers \<Rightarrow> Inr
         \<lparr>ProduceRequest_Key = Some key, ProduceRequest_Value = Some val, ProduceRequest_Headers = headers,
          ProduceRequest_Partition = (if preservePartition then Some (SR_Partition item) else None),
          ProduceRequest_Timestamp = SR_Timestamp item\<rparr>)))"

fun replay_requests :: "bool \<Rightarrow> scan_Record list \<Rightarrow> error + ProduceRequest list" where
  "replay_requests pres [] = Inr []"
| "replay_requests pres (item # items) =
    (case replayProduceRequest item pres of
       Inl err \<Rightarrow> Inl err
     | Inr req \<Rightarrow> (case replay_requests pres items of Inl err \<Rightarrow> Inl err | Inr rest \<Rightarrow> Inr (req # rest)))"

definition wrapReplayFailure :: "error \<Rightarrow> int64 \<Rightarrow> (int32 \<times> int64) list \<Rightarrow> error" where
  "wrapReplayFailure cause copied cursor = PolicyError
     \<lparr>pe_Code = ReplayFailed, pe_Message = err_Error cause,
      pe_Details = [(''progress'', AMap [(''copied'', AInt copied), (''cursor'', AIntMap cursor)])]\<rparr>"

text \<open>The accounting stops at the first failure; \<open>items[i]\<close> panics when there are more results than items.\<close>

fun replay_account ::
  "ProduceResult list \<Rightarrow> scan_Record list \<Rightarrow> int64 \<Rightarrow> (int32 \<times> int64) list
   \<Rightarrow> ('s, int64 \<times> (int32 \<times> int64) list) eff" where
  "replay_account [] items copied cursor = ret (copied, cursor)"
| "replay_account (r # rs) items copied cursor =
    (case ProduceResult_Err r of
       Some err \<Rightarrow> fail (wrapReplayFailure err copied cursor)
     | None \<Rightarrow> (case items of
         [] \<Rightarrow> panic
       | item # rest \<Rightarrow> replay_account rs rest (copied + 1)
           (mput (SR_Partition item) (wrap64 (SR_Offset item + 1)) cursor)))"

definition replay_cursor :: "ReplayPlan \<Rightarrow> (int32 \<times> int64) list" where
  "replay_cursor plan = map (\<lambda>(p, w). (p, PSpec_Start w)) (RPlan_windows plan)"

definition replay_spec :: "ReplayPlan \<Rightarrow> Spec" where
  "replay_spec plan = \<lparr>Spec_Topic = RS_Topic (RPlan_Source plan), Spec_Partitions = RPlan_windows plan,
     Spec_Latest = (From_Kind (RS_From (RPlan_Source plan)) = FromLatest),
     Spec_MaxMessages = RPlan_Limit plan, Spec_MaxScanned = 0, Spec_MaxBytes = 0, Spec_MaxTime = 0,
     Spec_Format = []\<rparr>"

definition replay_copy ::
  "'s Producer \<Rightarrow> ReplayPlan \<Rightarrow> scan_Record list \<Rightarrow> Stats \<Rightarrow> ('s, ReplayResult) eff" where
  "replay_copy producer plan items stats =
    (let cursor = replay_cursor plan in
     if items = [] then ret \<lparr>RR_Copied = 0, RR_Cursor = cursor, RR_ReachedEnd = Stats_ReachedEnd stats\<rparr>
     else (case replay_requests (RT_PreservePartition (RPlan_Target plan)) items of
         Inl err \<Rightarrow> fail (wrapReplayFailure err 0 cursor)
       | Inr requests \<Rightarrow>
         attempt (Produce producer (RT_Topic (RPlan_Target plan)) requests) (\<lambda>pr. case pr of
           Inl err \<Rightarrow> fail (wrapReplayFailure err 0 cursor)
         | Inr results \<Rightarrow>
             onOk (replay_account results items 0 cursor) (\<lambda>(copied, cursor').
             ret \<lparr>RR_Copied = copied, RR_Cursor = cursor', RR_ReachedEnd = Stats_ReachedEnd stats\<rparr>))))"

definition ApplyReplay ::
  "nat \<Rightarrow> ('s, 'c) MessageService \<Rightarrow> ReplayPlan \<Rightarrow> ('s, ReplayResult) run" where
  "ApplyReplay fuel ms plan =
    before_run (ms_newConsumer ms) (\<lambda>_.
    after_run (Run fuel ((ms_scan ms)\<lparr>env_now := svc_now (ms_svc ms)\<rparr>) (ms_ctx ms) (replay_spec plan) MatchAll)
      (\<lambda>(items, stats). replay_copy (ms_producer ms) plan items stats))"

definition message_Replay ::
  "nat \<Rightarrow> ('s, 'c) MessageService \<Rightarrow> Caller \<Rightarrow> ReplaySource \<Rightarrow> ReplayTarget \<Rightarrow> int64 \<Rightarrow> string \<Rightarrow> bool
   \<Rightarrow> ('s, (ReplayPlan, ReplayResult) DResult \<times> Err) run" where
  "message_Replay fuel ms caller source target limit confirm dryRun =
    (let svc = ms_svc ms in
    before_run (message_newEvent svc caller ''M8'' (RT_Topic target)) (\<lambda>att.
    unhang (Destructive (lift_clock (svc_timeNow svc)) ReplayPlan_ops (svc_runner svc)
      (lift_auditor (svc_auditor svc)) caller (desc_of ''M8'') att confirm dryRun
      (lift_eff (PlanReplay ms source target limit)) (\<lambda>plan. hang (ApplyReplay fuel ms plan)))))"

end
