(* ===== verification/MessageDTO.thy ===== *)
theory MessageDTO
  imports MessageWrites Handlers GoTime
begin

text \<open>
  The request and response types of the message operations (\<^verbatim>\<open>internal/api/message/dto.go\<close>), as in
  \<open>TopicDTO\<close>. \<open>ProduceBody\<close> has an \<open>UnmarshalJSON\<close> of its own; \<open>json.Unmarshal\<close> into the two shapes it tries is
  a parameter.
\<close>

section \<open>Types\<close>

record HeaderDTO =
  HeaderDTO_Key :: string
  HeaderDTO_Value :: string
  HeaderDTO_ValueEncoding :: string

record RecordDTO =
  RecordDTO_Topic :: string
  RecordDTO_Partition :: int32
  RecordDTO_Offset :: int64
  RecordDTO_Timestamp :: string
  RecordDTO_TimestampMs :: int64
  RecordDTO_Key :: string
  RecordDTO_KeyEncoding :: string
  RecordDTO_Value :: string
  RecordDTO_ValueEncoding :: string
  RecordDTO_Headers :: "HeaderDTO list"
  RecordDTO_SizeBytes :: int64

record ScanStatsDTO =
  ScanStatsDTO_Scanned :: int64
  ScanStatsDTO_Matched :: int64
  ScanStatsDTO_Skipped :: int64
  ScanStatsDTO_Bytes :: int64
  ScanStatsDTO_ElapsedMs :: int64
  ScanStatsDTO_ReachedEnd :: bool
  ScanStatsDTO_StoppedBy :: "string option"
  ScanStatsDTO_Continuation :: "(string \<times> int64) list"

record ReadMessagesInput =
  ReadMessagesInput_Name :: string
  ReadMessagesInput_Partition :: int32
  ReadMessagesInput_From :: string
  ReadMessagesInput_To :: string
  ReadMessagesInput_Limit :: int64
  ReadMessagesInput_MaxBytes :: int64
  ReadMessagesInput_MaxTimeMs :: int64
  ReadMessagesInput_Format :: string

record ReadMessagesBody =
  ReadMessagesBody_Items :: "RecordDTO list"
  ReadMessagesBody_Scan :: ScanStatsDTO

record ReadMessagesOutput =
  ReadMessagesOutput_Body :: ReadMessagesBody

record GetMessageInput =
  GetMessageInput_Name :: string
  GetMessageInput_Partition :: int32
  GetMessageInput_Offset :: int64

record GetMessageOutput =
  GetMessageOutput_Body :: RecordDTO

record SearchBody =
  SearchBody_Partition :: "int32 option"
  SearchBody_From :: string
  SearchBody_To :: string
  SearchBody_Regex :: string
  SearchBody_Fields :: "string list"
  SearchBody_CaseInsensitive :: bool
  SearchBody_MaxScan :: int64
  SearchBody_MaxMatches :: int64
  SearchBody_MaxBytes :: int64
  SearchBody_MaxTimeMs :: int64
  SearchBody_Format :: string
  SearchBody_Limit :: "int64 option"

record SearchInput =
  SearchInput_Name :: string
  SearchInput_Body :: SearchBody

record FilterCriteria =
  FilterCriteria_Path :: string
  FilterCriteria_Op :: string
  FilterCriteria_Value :: json

record FilterBody =
  FilterBody_Partition :: "int32 option"
  FilterBody_From :: string
  FilterBody_To :: string
  FilterBody_Filter :: FilterCriteria
  FilterBody_MaxScan :: int64
  FilterBody_MaxMatches :: int64
  FilterBody_MaxBytes :: int64
  FilterBody_MaxTimeMs :: int64
  FilterBody_Format :: string
  FilterBody_Limit :: "int64 option"

record FilterInput =
  FilterInput_Name :: string
  FilterInput_Body :: FilterBody

record ProduceBody =
  ProduceBody_Records :: "ProduceItem list"

record ProduceInput =
  ProduceInput_Name :: string
  ProduceInput_Body :: ProduceBody

record ProduceItemResultDTO =
  ProduceItemResultDTO_Index :: int64
  ProduceItemResultDTO_Status :: string
  ProduceItemResultDTO_Partition :: int32
  ProduceItemResultDTO_Offset :: int64
  ProduceItemResultDTO_TimestampMs :: int64
  ProduceItemResultDTO_Error :: string

record BulkSummaryDTO =
  BulkSummaryDTO_Total :: int64
  BulkSummaryDTO_OK :: int64
  BulkSummaryDTO_Failed :: int64

record ProduceResponseBody =
  ProduceResponseBody_Items :: "ProduceItemResultDTO list"
  ProduceResponseBody_Summary :: BulkSummaryDTO

record ProduceOutput =
  ProduceOutput_Status :: int64
  ProduceOutput_Body :: ProduceResponseBody

record ProduceBulkInput =
  ProduceBulkInput_Name :: string
  ProduceBulkInput_ContentType :: string
  ProduceBulkInput_RawBody :: bytes

record TombstoneInput =
  TombstoneInput_Name :: string
  TombstoneInput_Body :: TombstoneItem

record TombstoneResponseBody =
  TombstoneResponseBody_Partition :: int32
  TombstoneResponseBody_Offset :: int64

record TombstoneOutput =
  TombstoneOutput_Body :: TombstoneResponseBody

record ReplaySourceDTO =
  ReplaySourceDTO_Topic :: string
  ReplaySourceDTO_Partitions :: "int32 list"
  ReplaySourceDTO_From :: string
  ReplaySourceDTO_To :: string

record ReplayTargetDTO =
  ReplayTargetDTO_Topic :: string
  ReplayTargetDTO_PreservePartition :: bool

record ReplayRequestBody =
  ReplayRequestBody_Confirm :: string
  ReplayRequestBody_Source :: ReplaySourceDTO
  ReplayRequestBody_Target :: ReplayTargetDTO
  ReplayRequestBody_Limit :: int64

record ReplayInput =
  ReplayInput_DryRun :: bool
  ReplayInput_Body :: ReplayRequestBody

record ReplayPlanDTO =
  ReplayPlanDTO_EstimatedRecords :: int64
  ReplayPlanDTO_SourcePartitions :: int64
  ReplayPlanDTO_TargetPartitions :: int64

record ReplayResponseBody =
  ReplayResponseBody_DryRun :: bool
  ReplayResponseBody_Plan :: "ReplayPlanDTO option"
  ReplayResponseBody_Copied :: "int64 option"
  ReplayResponseBody_Cursor :: "(string \<times> int64) list"
  ReplayResponseBody_ReachedEnd :: "bool option"

record ReplayOutput =
  ReplayOutput_Body :: ReplayResponseBody

text \<open>The zero values that the composite literals of the handlers start from.\<close>

definition zero_ReplayResponseBody :: ReplayResponseBody where
  "zero_ReplayResponseBody = \<lparr>ReplayResponseBody_DryRun = False, ReplayResponseBody_Plan = None,
     ReplayResponseBody_Copied = None, ReplayResponseBody_Cursor = [],
     ReplayResponseBody_ReachedEnd = None\<rparr>"

section \<open>Encoding\<close>

definition json_HeaderDTO :: "HeaderDTO \<Rightarrow> any" where
  "json_HeaderDTO d = AMap [(''key'', AStr (HeaderDTO_Key d)),
      (''value'', AStr (HeaderDTO_Value d)),
      (''valueEncoding'', AStr (HeaderDTO_ValueEncoding d))]"

definition json_RecordDTO :: "RecordDTO \<Rightarrow> any" where
  "json_RecordDTO d = AMap [(''topic'', AStr (RecordDTO_Topic d)),
      (''partition'', AInt (RecordDTO_Partition d)),
      (''offset'', AInt (RecordDTO_Offset d)),
      (''timestamp'', AStr (RecordDTO_Timestamp d)),
      (''timestampMs'', AInt (RecordDTO_TimestampMs d)),
      (''key'', AStr (RecordDTO_Key d)),
      (''keyEncoding'', AStr (RecordDTO_KeyEncoding d)),
      (''value'', AStr (RecordDTO_Value d)),
      (''valueEncoding'', AStr (RecordDTO_ValueEncoding d)),
      (''headers'', AList (map json_HeaderDTO (RecordDTO_Headers d))),
      (''sizeBytes'', AInt (RecordDTO_SizeBytes d))]"

definition json_ScanStatsDTO :: "ScanStatsDTO \<Rightarrow> any" where
  "json_ScanStatsDTO d = AMap [(''scanned'', AInt (ScanStatsDTO_Scanned d)),
      (''matched'', AInt (ScanStatsDTO_Matched d)),
      (''skipped'', AInt (ScanStatsDTO_Skipped d)),
      (''bytes'', AInt (ScanStatsDTO_Bytes d)),
      (''elapsedMs'', AInt (ScanStatsDTO_ElapsedMs d)),
      (''reachedEnd'', ABool (ScanStatsDTO_ReachedEnd d)),
      (''stoppedBy'', (case ScanStatsDTO_StoppedBy d of None \<Rightarrow> ANil | Some v \<Rightarrow> AStr v)),
      (''continuation'', AMap (map (\<lambda>(k, v). (k, AInt v)) (ScanStatsDTO_Continuation d)))]"

definition json_ReadMessagesBody :: "ReadMessagesBody \<Rightarrow> any" where
  "json_ReadMessagesBody d = AMap [(''items'', AList (map json_RecordDTO (ReadMessagesBody_Items d))),
      (''scan'', json_ScanStatsDTO (ReadMessagesBody_Scan d))]"

definition json_ProduceItemResultDTO :: "ProduceItemResultDTO \<Rightarrow> any" where
  "json_ProduceItemResultDTO d = AMap ([(''index'', AInt (ProduceItemResultDTO_Index d)),
      (''status'', AStr (ProduceItemResultDTO_Status d)),
      (''partition'', AInt (ProduceItemResultDTO_Partition d)),
      (''offset'', AInt (ProduceItemResultDTO_Offset d)),
      (''timestampMs'', AInt (ProduceItemResultDTO_TimestampMs d))]
     @ (if ProduceItemResultDTO_Error d = [] then [] else [(''error'', AStr (ProduceItemResultDTO_Error d))]))"

definition json_BulkSummaryDTO :: "BulkSummaryDTO \<Rightarrow> any" where
  "json_BulkSummaryDTO d = AMap [(''total'', AInt (BulkSummaryDTO_Total d)),
      (''ok'', AInt (BulkSummaryDTO_OK d)),
      (''failed'', AInt (BulkSummaryDTO_Failed d))]"

definition json_ProduceResponseBody :: "ProduceResponseBody \<Rightarrow> any" where
  "json_ProduceResponseBody d = AMap [(''items'', AList (map json_ProduceItemResultDTO (ProduceResponseBody_Items d))),
      (''summary'', json_BulkSummaryDTO (ProduceResponseBody_Summary d))]"

definition json_TombstoneResponseBody :: "TombstoneResponseBody \<Rightarrow> any" where
  "json_TombstoneResponseBody d = AMap [(''partition'', AInt (TombstoneResponseBody_Partition d)),
      (''offset'', AInt (TombstoneResponseBody_Offset d))]"

definition json_ReplayPlanDTO :: "ReplayPlanDTO \<Rightarrow> any" where
  "json_ReplayPlanDTO d = AMap [(''estimatedRecords'', AInt (ReplayPlanDTO_EstimatedRecords d)),
      (''sourcePartitions'', AInt (ReplayPlanDTO_SourcePartitions d)),
      (''targetPartitions'', AInt (ReplayPlanDTO_TargetPartitions d))]"

definition json_ReplayResponseBody :: "ReplayResponseBody \<Rightarrow> any" where
  "json_ReplayResponseBody d = AMap ((if \<not> ReplayResponseBody_DryRun d then [] else [(''dryRun'', ABool (ReplayResponseBody_DryRun d))])
     @ (if ReplayResponseBody_Plan d = None then [] else [(''plan'', (case ReplayResponseBody_Plan d of None \<Rightarrow> ANil | Some v \<Rightarrow> json_ReplayPlanDTO v))])
     @ (if ReplayResponseBody_Copied d = None then [] else [(''copied'', (case ReplayResponseBody_Copied d of None \<Rightarrow> ANil | Some v \<Rightarrow> AInt v))])
     @ (if ReplayResponseBody_Cursor d = [] then [] else [(''cursor'', AMap (map (\<lambda>(k, v). (k, AInt v)) (ReplayResponseBody_Cursor d)))])
     @ (if ReplayResponseBody_ReachedEnd d = None then [] else [(''reachedEnd'', (case ReplayResponseBody_ReachedEnd d of None \<Rightarrow> ANil | Some v \<Rightarrow> ABool v))]))"

definition wire_ReadMessagesOutput :: "ReadMessagesOutput \<Rightarrow> int \<times> any" where
  "wire_ReadMessagesOutput d = (StatusOK, json_ReadMessagesBody (ReadMessagesOutput_Body d))"

definition wire_GetMessageOutput :: "GetMessageOutput \<Rightarrow> int \<times> any" where
  "wire_GetMessageOutput d = (StatusOK, json_RecordDTO (GetMessageOutput_Body d))"

definition wire_ProduceOutput :: "ProduceOutput \<Rightarrow> int \<times> any" where
  "wire_ProduceOutput d = (ProduceOutput_Status d, json_ProduceResponseBody (ProduceOutput_Body d))"

definition wire_TombstoneOutput :: "TombstoneOutput \<Rightarrow> int \<times> any" where
  "wire_TombstoneOutput d = (StatusOK, json_TombstoneResponseBody (TombstoneOutput_Body d))"

definition wire_ReplayOutput :: "ReplayOutput \<Rightarrow> int \<times> any" where
  "wire_ReplayOutput d = (StatusOK, json_ReplayResponseBody (ReplayOutput_Body d))"

section \<open>Decoding a produce request\<close>

text \<open>
  \<open>unmarshalWrapped\<close> is \<open>json.Unmarshal\<close> into the struct with a \<open>records\<close> field, whose nil slice is
  \<open>None\<close>; \<open>unmarshalSingle\<close> the one into a record.
\<close>

definition ProduceBody_UnmarshalJSON ::
  "(bytes \<Rightarrow> string + ProduceItem list option) \<Rightarrow> (bytes \<Rightarrow> string + ProduceItem) \<Rightarrow> bytes \<Rightarrow> string + ProduceBody" where
  "ProduceBody_UnmarshalJSON unmarshalWrapped unmarshalSingle data =
    (case unmarshalWrapped data of
       Inr (Some records) \<Rightarrow> Inr \<lparr>ProduceBody_Records = records\<rparr>
     | _ \<Rightarrow> (case unmarshalSingle data of
         Inl err \<Rightarrow> Inl err
       | Inr single \<Rightarrow> Inr \<lparr>ProduceBody_Records = [single]\<rparr>))"

end
