(* ===== verification/MessageRoutes.thy ===== *)
theory MessageRoutes
  imports MessageDTO
begin

text \<open>
  The message operations of the HTTP interface (\<^verbatim>\<open>internal/api/message/routes.go\<close>,
  \<^verbatim>\<open>internal/api/message/mapping.go\<close>, \<^verbatim>\<open>internal/api/message/parse.go\<close>). A handler that scans is a run:
  it returns, or does not end. \<open>mime.ParseMediaType\<close> is a parameter.
\<close>

definition message_Register :: "HumaOperation list" where
  "message_Register =
    [operation ''message-read'' ''GET'' ''/v1/topics/{name}/messages'' ''M1'',
     operation ''message-get'' ''GET'' ''/v1/topics/{name}/partitions/{partition}/messages/{offset}'' ''M2'',
     operation ''message-search'' ''POST'' ''/v1/topics/{name}/messages/search'' ''M3'',
     operation ''message-filter'' ''POST'' ''/v1/topics/{name}/messages/filter'' ''M4'',
     operation ''message-produce'' ''POST'' ''/v1/topics/{name}/messages'' ''M5'',
     operation ''message-produce-bulk'' ''POST'' ''/v1/topics/{name}/messages/bulk'' ''M6'',
     operation ''message-tombstone'' ''POST'' ''/v1/topics/{name}/tombstones'' ''M7'',
     operation ''replay'' ''POST'' ''/v1/replays'' ''M8'']"

section \<open>Mapping\<close>

definition toRecordDTOs :: "scan_Record list \<Rightarrow> RecordDTO list" where
  "toRecordDTOs records = map (\<lambda>r.
     \<lparr>RecordDTO_Topic = SR_Topic r, RecordDTO_Partition = SR_Partition r, RecordDTO_Offset = SR_Offset r,
      RecordDTO_Timestamp = format_RFC3339Nano (SR_Timestamp r), RecordDTO_TimestampMs = UnixMilli (SR_Timestamp r),
      RecordDTO_Key = SR_Key r, RecordDTO_KeyEncoding = SR_KeyEncoding r,
      RecordDTO_Value = SR_Value r, RecordDTO_ValueEncoding = SR_ValueEncoding r,
      RecordDTO_Headers = map (\<lambda>h. \<lparr>HeaderDTO_Key = SH_Key h, HeaderDTO_Value = SH_Value h,
        HeaderDTO_ValueEncoding = SH_ValueEncoding h\<rparr>) (SR_Headers r),
      RecordDTO_SizeBytes = SR_SizeBytes r\<rparr>) records"

definition toProduceResponseBody :: "message_ProduceResult \<Rightarrow> ProduceResponseBody \<times> int" where
  "toProduceResponseBody r =
    (\<lparr>ProduceResponseBody_Items = map (\<lambda>item.
        \<lparr>ProduceItemResultDTO_Index = PIR_Index item,
         ProduceItemResultDTO_Status = (if PIR_Outcome item \<noteq> OutcomeSucceeded then ''failed'' else ''ok''),
         ProduceItemResultDTO_Partition = PIR_Partition item, ProduceItemResultDTO_Offset = PIR_Offset item,
         ProduceItemResultDTO_TimestampMs = PIR_TimestampMs item,
         ProduceItemResultDTO_Error = PIR_Error item\<rparr>) (MPR_Items r),
      ProduceResponseBody_Summary = \<lparr>BulkSummaryDTO_Total = BulkSummary_Total (MPR_Summary r),
        BulkSummaryDTO_OK = BulkSummary_Succeeded (MPR_Summary r),
        BulkSummaryDTO_Failed = BulkSummary_Failed (MPR_Summary r)\<rparr>\<rparr>,
     if BulkSummary_Failed (MPR_Summary r) > 0 then StatusMultiStatus else StatusOK)"

text \<open>A map keyed by partition, with the numbers as decimal strings.\<close>

definition toCursorDTO :: "(int32 \<times> int64) list \<Rightarrow> (string \<times> int64) list" where
  "toCursorDTO cursor = fold (\<lambda>(p, offset). mput (itoa p) offset) cursor []"

definition toScanStatsDTO :: "Stats \<Rightarrow> ScanStatsDTO" where
  "toScanStatsDTO s =
    \<lparr>ScanStatsDTO_Scanned = Stats_Scanned s, ScanStatsDTO_Matched = Stats_Matched s,
     ScanStatsDTO_Skipped = Stats_Skipped s, ScanStatsDTO_Bytes = Stats_Bytes s,
     ScanStatsDTO_ElapsedMs = Stats_ElapsedMs s, ScanStatsDTO_ReachedEnd = Stats_ReachedEnd s,
     ScanStatsDTO_StoppedBy = (if Stats_StoppedBy s \<noteq> [] then Some (Stats_StoppedBy s) else None),
     ScanStatsDTO_Continuation = fold (\<lambda>(p, offset). mput (itoa p) offset) (Stats_Continuation s) []\<rparr>"

definition toReplayPlanDTO :: "ReplayPlan \<Rightarrow> ReplayPlanDTO" where
  "toReplayPlanDTO p = \<lparr>ReplayPlanDTO_EstimatedRecords = RPlan_EstimatedRecords p,
     ReplayPlanDTO_SourcePartitions = RPlan_SourcePartitions p,
     ReplayPlanDTO_TargetPartitions = RPlan_TargetPartitions p\<rparr>"

section \<open>Parsing request values\<close>

text \<open>The text of the error, or the value.\<close>

definition parseTimestamp :: "string \<Rightarrow> string + int64" where
  "parseTimestamp raw =
    (case ParseInt raw of
       Some ms \<Rightarrow> Inr ms
     | None \<Rightarrow> (case parse_RFC3339 raw of
         Some t \<Rightarrow> Inr (UnixMilli t)
       | None \<Rightarrow> Inl (''invalid timestamp '' @ quoted raw @ '': neither epoch milliseconds nor RFC3339'')))"

definition from_kind :: "FromKind \<Rightarrow> From" where
  "from_kind k = \<lparr>From_Kind = k, From_Offset = 0, From_TimeMilli = 0\<rparr>"

definition ParseFrom :: "string \<Rightarrow> string + From" where
  "ParseFrom s =
    (if s = ''beginning'' then Inr (from_kind FromBeginning)
     else if s = ''latest'' then Inr (from_kind FromLatest)
     else if HasPrefix s ''offset:'' then
       (case ParseInt (TrimPrefix s ''offset:'') of
          None \<Rightarrow> Inl (''invalid from=offset:'' @ TrimPrefix s ''offset:'')
        | Some n \<Rightarrow> Inr ((from_kind FromOffset)\<lparr>From_Offset := n\<rparr>))
     else if HasPrefix s ''timestamp:'' then
       (case parseTimestamp (TrimPrefix s ''timestamp:'') of
          Inl _ \<Rightarrow> Inl (''invalid from=timestamp:'' @ TrimPrefix s ''timestamp:'')
        | Inr ms \<Rightarrow> Inr ((from_kind FromTimestamp)\<lparr>From_TimeMilli := ms\<rparr>))
     else Inl (''invalid from: '' @ quoted s))"

fun parse_fields_loop :: "string list \<Rightarrow> string + string list" where
  "parse_fields_loop [] = Inr []"
| "parse_fields_loop (s # ss) =
    (case (if s = ''value'' then Some FieldValue else if s = ''key'' then Some FieldKey
           else if s = ''headers'' then Some FieldHeaders else None) of
       None \<Rightarrow> Inl (''invalid fields entry '' @ quoted s @ '': want value, key, or headers'')
     | Some f \<Rightarrow> map_sum id (Cons f) (parse_fields_loop ss))"

definition parseRegexFields :: "string list \<Rightarrow> string + string list" where
  "parseRegexFields raw = (if raw = [] then Inr [] else parse_fields_loop raw)"

definition filterOps :: "(string \<times> string) list" where
  "filterOps = [(''eq'', OpEq), (''neq'', OpNeq), (''contains'', OpContains), (''regex'', OpRegex),
     (''exists'', OpExists), (''gt'', OpGt), (''lt'', OpLt), (''gte'', OpGte), (''lte'', OpLte)]"

definition parseFilterOp :: "string \<Rightarrow> string + string" where
  "parseFilterOp s =
    (case map_of filterOps s of
       Some filter_op \<Rightarrow> Inr filter_op
     | None \<Rightarrow> Inl (''invalid op '' @ quoted s @ '': want one of eq, neq, contains, regex, exists, gt, lt, gte, lte''))"

text \<open>
  \<open>parseBulkContentType\<close> with \<open>mime.ParseMediaType\<close> as \<open>parseMediaType\<close>: the media type, or \<open>None\<close> for its
  error. The result is whether the body is NDJSON.
\<close>

definition parseBulkContentType :: "(string \<Rightarrow> string option) \<Rightarrow> string \<Rightarrow> string + bool" where
  "parseBulkContentType parseMediaType contentType =
    (let mt = (case parseMediaType contentType of Some parsed \<Rightarrow> parsed | None \<Rightarrow> contentType) in
     if mt = ''application/x-ndjson'' then Inr True
     else if mt = ''application/json'' \<or> mt = [] then Inr False
     else Inl (''unsupported content type '' @ quoted contentType))"

section \<open>Boxed plans\<close>

definition unbox_kind :: "any \<Rightarrow> FromKind option" where
  "unbox_kind a = Option.bind (as_int a)
     (\<lambda>i. map_of [(0, FromBeginning), (1, FromLatest), (2, FromOffset), (3, FromTimestamp)] i)"

definition unbox_From :: "any \<Rightarrow> From option" where
  "unbox_From a = do {
     k \<leftarrow> get_as ''From'' ''Kind'' unbox_kind a;
     offset \<leftarrow> get_as ''From'' ''Offset'' as_int a;
     ms \<leftarrow> get_as ''From'' ''TimeMilli'' as_int a;
     Some \<lparr>From_Kind = k, From_Offset = offset, From_TimeMilli = ms\<rparr> }"

definition unbox_ReplaySource :: "any \<Rightarrow> ReplaySource option" where
  "unbox_ReplaySource a = do {
     topic \<leftarrow> get_as ''ReplaySource'' ''Topic'' as_str a;
     parts \<leftarrow> get_as ''ReplaySource'' ''Partitions'' (as_list as_int) a;
     frm \<leftarrow> get_as ''ReplaySource'' ''From'' unbox_From a;
     to \<leftarrow> get_as ''ReplaySource'' ''To'' (as_opt unbox_From) a;
     Some \<lparr>RS_Topic = topic, RS_Partitions = parts, RS_From = frm, RS_To = to\<rparr> }"

definition unbox_ReplayTarget :: "any \<Rightarrow> ReplayTarget option" where
  "unbox_ReplayTarget a = do {
     topic \<leftarrow> get_as ''ReplayTarget'' ''Topic'' as_str a;
     preserve \<leftarrow> get_as ''ReplayTarget'' ''PreservePartition'' as_bool a;
     Some \<lparr>RT_Topic = topic, RT_PreservePartition = preserve\<rparr> }"

definition unbox_window :: "any \<Rightarrow> (int32 \<times> PartitionSpec) option" where
  "unbox_window a = (case a of
     AIntMap [(p, beg), (_, stop)] \<Rightarrow> Some (p, \<lparr>PSpec_Start = beg, PSpec_End = stop\<rparr>) | _ \<Rightarrow> None)"

definition unbox_ReplayPlan :: "any \<Rightarrow> ReplayPlan option" where
  "unbox_ReplayPlan a = do {
     source \<leftarrow> get_as ''ReplayPlan'' ''Source'' unbox_ReplaySource a;
     target \<leftarrow> get_as ''ReplayPlan'' ''Target'' unbox_ReplayTarget a;
     limit \<leftarrow> get_as ''ReplayPlan'' ''Limit'' as_int a;
     est \<leftarrow> get_as ''ReplayPlan'' ''EstimatedRecords'' as_int a;
     srcs \<leftarrow> get_as ''ReplayPlan'' ''SourcePartitions'' as_int a;
     tgts \<leftarrow> get_as ''ReplayPlan'' ''TargetPartitions'' as_int a;
     windows \<leftarrow> get_as ''ReplayPlan'' ''windows'' (as_list unbox_window) a;
     Some \<lparr>RPlan_Source = source, RPlan_Target = target, RPlan_Limit = limit, RPlan_EstimatedRecords = est,
       RPlan_SourcePartitions = srcs, RPlan_TargetPartitions = tgts, RPlan_windows = windows\<rparr> }"

lemma unbox_kind_any [unbox_simps]: "unbox_kind (kind_any k) = Some k"
  by (cases k) (simp_all add: unbox_kind_def unbox_simps)

lemma unbox_From_any [unbox_simps]: "unbox_From (From_any f) = Some f"
  by (simp add: unbox_From_def From_any_def unbox_simps)

lemma as_opt_From [unbox_simps]:
  "as_opt unbox_From (case t of None \<Rightarrow> ANil | Some f \<Rightarrow> From_any f) = Some t"
  using unbox_From_any by (cases t) (simp_all add: as_opt_def From_any_def)

lemma unbox_window_any: "unbox_window (window_any pw) = Some pw"
  by (cases pw) (simp add: unbox_window_def window_any_def)

lemma unbox_Replay_parts [unbox_simps]:
  "unbox_ReplaySource (ReplaySource_any s) = Some s" "unbox_ReplayTarget (ReplayTarget_any t) = Some t"
  by (simp_all add: unbox_ReplaySource_def ReplaySource_any_def unbox_ReplayTarget_def ReplayTarget_any_def unbox_simps)

lemma unbox_ReplayPlan_any [unbox_simps]: "unbox_ReplayPlan (plan_any ReplayPlan_ops p) = Some p"
  by (simp add: unbox_ReplayPlan_def ReplayPlan_ops_def unbox_simps as_list_map unbox_window_any)

section \<open>Handlers\<close>

text \<open>The reply to the outcome of a call that may not end.\<close>

definition reply_run :: "('s, 'a) run \<Rightarrow> (('s, 'a) eff \<Rightarrow> ('s, 'o) reply) \<Rightarrow> ('s, Envelope + 'o) run" where
  "reply_run m k s = (case m s of None \<Rightarrow> None | Some res \<Rightarrow> Some (k (\<lambda>_. res) s))"

text \<open>\<open>parseFromTo\<close>: an envelope, or the two positions.\<close>

definition parseFromTo :: "string \<Rightarrow> string \<Rightarrow> string \<Rightarrow> Envelope + From \<times> From option" where
  "parseFromTo fromRaw toRaw requestID =
    (case ParseFrom fromRaw of
       Inl msg \<Rightarrow> Inl (Map (policyErr Validation msg) requestID)
     | Inr frm \<Rightarrow>
       if toRaw \<noteq> [] then
         (case ParseFrom toRaw of
            Inl msg \<Rightarrow> Inl (Map (policyErr Validation msg) requestID)
          | Inr t \<Rightarrow> Inr (frm, Some t))
       else Inr (frm, None))"

definition read_reply :: "ReadResult \<Rightarrow> ReadMessagesOutput" where
  "read_reply result = \<lparr>ReadMessagesOutput_Body = \<lparr>
     ReadMessagesBody_Items = toRecordDTOs (ReadResult_Items result),
     ReadMessagesBody_Scan = toScanStatsDTO (ReadResult_Stats result)\<rparr>\<rparr>"

definition replay ::
  "nat \<Rightarrow> ('s, 'c) MessageService \<Rightarrow> Request \<Rightarrow> ReplayInput \<Rightarrow> ('s, Envelope + ReplayOutput) run" where
  "replay fuel ms r inp =
    (let body = ReplayInput_Body inp; src = ReplayRequestBody_Source body; tgt = ReplayRequestBody_Target body in
     case parseFromTo (ReplaySourceDTO_From src) (ReplaySourceDTO_To src) (RequestIDFrom r) of
       Inl env \<Rightarrow> ended (ret (Inl env))
     | Inr (frm, to) \<Rightarrow>
     reply_run
       (message_Replay fuel ms (caller_of r)
         \<lparr>RS_Topic = ReplaySourceDTO_Topic src, RS_Partitions = ReplaySourceDTO_Partitions src,
          RS_From = frm, RS_To = to\<rparr>
         \<lparr>RT_Topic = ReplayTargetDTO_Topic tgt, RT_PreservePartition = ReplayTargetDTO_PreservePartition tgt\<rparr>
         (ReplayRequestBody_Limit body) (ReplayRequestBody_Confirm body) (ReplayInput_DryRun inp))
       (\<lambda>m. orMapDestructive r unbox_ReplayPlan (\<lambda>p. json_ReplayPlanDTO (toReplayPlanDTO p)) m
         (destructive_reply
           (\<lambda>p. \<lparr>ReplayOutput_Body = zero_ReplayResponseBody\<lparr>ReplayResponseBody_DryRun := True,
              ReplayResponseBody_Plan := Some (toReplayPlanDTO p)\<rparr>\<rparr>)
           (\<lambda>p v. \<lparr>ReplayOutput_Body = zero_ReplayResponseBody\<lparr>ReplayResponseBody_Copied := Some (RR_Copied v),
              ReplayResponseBody_Cursor := toCursorDTO (RR_Cursor v),
              ReplayResponseBody_ReachedEnd := Some (RR_ReachedEnd v)\<rparr>\<rparr>))))"

definition produce_reply :: "message_ProduceResult \<Rightarrow> ('s, ProduceOutput) reply" where
  "produce_reply result = (case toProduceResponseBody result of (body, status) \<Rightarrow>
     reply \<lparr>ProduceOutput_Status = status, ProduceOutput_Body = body\<rparr>)"

definition produceMessages ::
  "('s, 'c) MessageService \<Rightarrow> Request \<Rightarrow> ProduceInput \<Rightarrow> ('s, ProduceOutput) reply" where
  "produceMessages ms r inp =
    orMap r (message_Produce ms (caller_of r) (ProduceInput_Name inp) (ProduceBody_Records (ProduceInput_Body inp)))
      produce_reply"

definition produceBulk ::
  "(string \<Rightarrow> string option) \<Rightarrow> (string \<Rightarrow> string + ProduceItem) \<Rightarrow> (bytes \<Rightarrow> string + ProduceItem list)
   \<Rightarrow> ('s, 'c) MessageService \<Rightarrow> Request \<Rightarrow> ProduceBulkInput \<Rightarrow> ('s, ProduceOutput) reply" where
  "produceBulk parseMediaType unmarshal unmarshalAll ms r inp =
    (case parseBulkContentType parseMediaType (ProduceBulkInput_ContentType inp) of
       Inl _ \<Rightarrow> ret (Inl (UnsupportedMediaType (RequestIDFrom r) (ProduceBulkInput_ContentType inp)))
     | Inr ndjson \<Rightarrow>
       orMap r (message_ProduceBulk unmarshal unmarshalAll ms (caller_of r) (ProduceBulkInput_Name inp)
           (ProduceBulkInput_RawBody inp, None) ndjson) produce_reply)"

definition sendTombstone ::
  "('s, 'c) MessageService \<Rightarrow> Request \<Rightarrow> TombstoneInput \<Rightarrow> ('s, TombstoneOutput) reply" where
  "sendTombstone ms r inp =
    orMap r (message_Tombstone ms (caller_of r) (TombstoneInput_Name inp) (TombstoneInput_Body inp)) (\<lambda>result.
      reply \<lparr>TombstoneOutput_Body = \<lparr>TombstoneResponseBody_Partition = TR_Partition result,
        TombstoneResponseBody_Offset = TR_Offset result\<rparr>\<rparr>)"

definition one_partition :: "int32 option \<Rightarrow> int32 list" where
  "one_partition p = (case p of None \<Rightarrow> [] | Some i \<Rightarrow> [i])"

definition limitNotAccepted :: error where
  "limitNotAccepted = policyErr Validation ''limit is not accepted on this endpoint''"

definition searchMessages ::
  "(string \<Rightarrow> string + regexp) \<Rightarrow> (scan_Record \<Rightarrow> nat \<Rightarrow> bool) \<Rightarrow> nat \<Rightarrow> ('s, 'c) MessageService \<Rightarrow> Request
   \<Rightarrow> SearchInput \<Rightarrow> ('s, Envelope + ReadMessagesOutput) run" where
  "searchMessages compile late fuel ms r inp =
    (let body = SearchInput_Body inp in
     if SearchBody_Limit body \<noteq> None then ended (replyErr r limitNotAccepted) else
     case parseFromTo (SearchBody_From body) (SearchBody_To body) (RequestIDFrom r) of
       Inl env \<Rightarrow> ended (ret (Inl env))
     | Inr (frm, to) \<Rightarrow> (case parseRegexFields (SearchBody_Fields body) of
       Inl msg \<Rightarrow> ended (replyErr r (policyErr Validation msg))
     | Inr flds \<Rightarrow>
     reply_run
       (message_Search compile late fuel ms (caller_of r)
         \<lparr>SP_Topic = SearchInput_Name inp, SP_Partitions = one_partition (SearchBody_Partition body),
          SP_From = frm, SP_To = to, SP_Regex = SearchBody_Regex body, SP_Fields = flds,
          SP_CaseInsensitive = SearchBody_CaseInsensitive body, SP_MaxScan = SearchBody_MaxScan body,
          SP_MaxMatches = SearchBody_MaxMatches body, SP_MaxBytes = SearchBody_MaxBytes body,
          SP_MaxTimeMs = SearchBody_MaxTimeMs body, SP_Format = SearchBody_Format body\<rparr>)
       (\<lambda>m. orMap r m (\<lambda>result. reply (read_reply result)))))"

definition filterMessages ::
  "(string \<Rightarrow> string + (json \<Rightarrow> json list)) \<Rightarrow> (string \<Rightarrow> string + regexp) \<Rightarrow> (string \<Rightarrow> json option) \<Rightarrow> nat
   \<Rightarrow> ('s, 'c) MessageService \<Rightarrow> Request \<Rightarrow> FilterInput \<Rightarrow> ('s, Envelope + ReadMessagesOutput) run" where
  "filterMessages parse compile unmarshal fuel ms r inp =
    (let body = FilterInput_Body inp; crit = FilterBody_Filter body in
     if FilterBody_Limit body \<noteq> None then ended (replyErr r limitNotAccepted) else
     case parseFromTo (FilterBody_From body) (FilterBody_To body) (RequestIDFrom r) of
       Inl env \<Rightarrow> ended (ret (Inl env))
     | Inr (frm, to) \<Rightarrow> (case parseFilterOp (FilterCriteria_Op crit) of
       Inl msg \<Rightarrow> ended (replyErr r (policyErr Validation msg))
     | Inr filter_op \<Rightarrow>
     reply_run
       (message_Filter parse compile unmarshal fuel ms (caller_of r)
         \<lparr>FP_Topic = FilterInput_Name inp, FP_Partitions = one_partition (FilterBody_Partition body),
          FP_From = frm, FP_To = to, FP_Path = FilterCriteria_Path crit, FP_Op = filter_op,
          FP_Value = FilterCriteria_Value crit, FP_MaxScan = FilterBody_MaxScan body,
          FP_MaxMatches = FilterBody_MaxMatches body, FP_MaxBytes = FilterBody_MaxBytes body,
          FP_MaxTimeMs = FilterBody_MaxTimeMs body, FP_Format = FilterBody_Format body\<rparr>)
       (\<lambda>m. orMap r m (\<lambda>result. reply (read_reply result)))))"

definition readMessages ::
  "nat \<Rightarrow> ('s, 'c) MessageService \<Rightarrow> Request \<Rightarrow> ReadMessagesInput \<Rightarrow> ('s, Envelope + ReadMessagesOutput) run" where
  "readMessages fuel ms r inp =
    (case parseFromTo (ReadMessagesInput_From inp) (ReadMessagesInput_To inp) (RequestIDFrom r) of
       Inl env \<Rightarrow> ended (ret (Inl env))
     | Inr (frm, to) \<Rightarrow>
     reply_run
       (message_Read fuel ms (caller_of r)
         \<lparr>RP_Topic = ReadMessagesInput_Name inp,
          RP_Partitions = (if ReadMessagesInput_Partition inp \<ge> 0 then [ReadMessagesInput_Partition inp] else []),
          RP_From = frm, RP_To = to, RP_Limit = ReadMessagesInput_Limit inp,
          RP_MaxBytes = ReadMessagesInput_MaxBytes inp, RP_MaxTimeMs = ReadMessagesInput_MaxTimeMs inp,
          RP_Format = ReadMessagesInput_Format inp\<rparr>)
       (\<lambda>m. orMap r m (\<lambda>result. reply (read_reply result))))"

definition getMessage :: "('s, 'c) MessageService \<Rightarrow> Request \<Rightarrow> GetMessageInput \<Rightarrow> ('s, GetMessageOutput) reply" where
  "getMessage ms r inp =
    orMap r (message_Get ms (caller_of r) (GetMessageInput_Name inp) (GetMessageInput_Partition inp)
        (GetMessageInput_Offset inp)) (\<lambda>rec. reply \<lparr>GetMessageOutput_Body = toRecordDTOs [rec] ! 0\<rparr>)"

end
