(* ===== verification/GroupDTO.thy ===== *)
theory GroupDTO
  imports GroupService Handlers
begin

text \<open>
  The request and response types of the consumer-group operations (\<^verbatim>\<open>internal/api/group/dto.go\<close>), as in
  \<open>TopicDTO\<close>. The package's own \<open>PageBounds\<close> is \<open>GroupPageBounds\<close>.
\<close>

section \<open>Types\<close>

record GroupPageBounds =
  GroupPageBounds_Default :: int64
  GroupPageBounds_Ceiling :: int64

record GroupSummaryDTO =
  GroupSummaryDTO_GroupID :: string
  GroupSummaryDTO_State :: string
  GroupSummaryDTO_ProtocolType :: string
  GroupSummaryDTO_MemberCount :: int64

record GroupPageDTO =
  GroupPageDTO_Page :: int64
  GroupPageDTO_PageSize :: int64
  GroupPageDTO_Total :: int64

record ListGroupsInput =
  ListGroupsInput_State :: string
  ListGroupsInput_Page :: int64
  ListGroupsInput_PageSize :: int64

record ListGroupsBody =
  ListGroupsBody_Items :: "GroupSummaryDTO list"
  ListGroupsBody_Page :: GroupPageDTO

record ListGroupsOutput =
  ListGroupsOutput_Body :: ListGroupsBody

record DescribeGroupInput =
  DescribeGroupInput_GroupID :: string

record MemberAssignmentDTO =
  MemberAssignmentDTO_Topic :: string
  MemberAssignmentDTO_Partition :: int32

record GroupMemberDTO =
  GroupMemberDTO_MemberID :: string
  GroupMemberDTO_ClientID :: string
  GroupMemberDTO_Host :: string
  GroupMemberDTO_Assignments :: "MemberAssignmentDTO list"

record GroupOffsetDTO =
  GroupOffsetDTO_Topic :: string
  GroupOffsetDTO_Partition :: int32
  GroupOffsetDTO_Committed :: int64
  GroupOffsetDTO_End :: int64
  GroupOffsetDTO_Lag :: int64

record DescribeGroupBody =
  DescribeGroupBody_GroupID :: string
  DescribeGroupBody_State :: string
  DescribeGroupBody_CoordinatorID :: int32
  DescribeGroupBody_Members :: "GroupMemberDTO list"
  DescribeGroupBody_Offsets :: "GroupOffsetDTO list"
  DescribeGroupBody_TotalLag :: int64

record DescribeGroupOutput =
  DescribeGroupOutput_Body :: DescribeGroupBody

record ResetOffsetsTargetDTO =
  ResetOffsetsTargetDTO_Mode :: string
  ResetOffsetsTargetDTO_Offset :: int64
  ResetOffsetsTargetDTO_TimestampMs :: int64
  ResetOffsetsTargetDTO_Offsets :: "(string \<times> int64) list"

record ResetOffsetsRequestBody =
  ResetOffsetsRequestBody_Confirm :: string
  ResetOffsetsRequestBody_Target :: ResetOffsetsTargetDTO
  ResetOffsetsRequestBody_Topics :: "string list"

record ResetOffsetsInput =
  ResetOffsetsInput_GroupID :: string
  ResetOffsetsInput_DryRun :: bool
  ResetOffsetsInput_Body :: ResetOffsetsRequestBody

record ResetOffsetPlanDetailDTO =
  ResetOffsetPlanDetailDTO_Topic :: string
  ResetOffsetPlanDetailDTO_Partition :: int32
  ResetOffsetPlanDetailDTO_Current :: int64
  ResetOffsetPlanDetailDTO_Target :: int64

record ResetOffsetsPlanDTO =
  ResetOffsetsPlanDTO_Offsets :: "ResetOffsetPlanDetailDTO list"

record ResetOffsetResultDetailDTO =
  ResetOffsetResultDetailDTO_Topic :: string
  ResetOffsetResultDetailDTO_Partition :: int32
  ResetOffsetResultDetailDTO_Before :: int64
  ResetOffsetResultDetailDTO_After :: int64

record ResetOffsetsBody =
  ResetOffsetsBody_DryRun :: bool
  ResetOffsetsBody_Plan :: "ResetOffsetsPlanDTO option"
  ResetOffsetsBody_GroupID :: string
  ResetOffsetsBody_Offsets :: "ResetOffsetResultDetailDTO list"

record ResetOffsetsOutput =
  ResetOffsetsOutput_Body :: ResetOffsetsBody

record DeleteGroupRequestBody =
  DeleteGroupRequestBody_Confirm :: string

record DeleteGroupInput =
  DeleteGroupInput_GroupID :: string
  DeleteGroupInput_DryRun :: bool
  DeleteGroupInput_Body :: DeleteGroupRequestBody

record DeleteGroupPlanDTO =
  DeleteGroupPlanDTO_GroupID :: string
  DeleteGroupPlanDTO_CommittedOffsets :: int64

record DeleteGroupBody =
  DeleteGroupBody_DryRun :: bool
  DeleteGroupBody_Plan :: "DeleteGroupPlanDTO option"
  DeleteGroupBody_Deleted :: string

record DeleteGroupOutput =
  DeleteGroupOutput_Body :: DeleteGroupBody

record RemoveMembersRequestBody =
  RemoveMembersRequestBody_Confirm :: string
  RemoveMembersRequestBody_Members :: "string list"

record RemoveMembersInput =
  RemoveMembersInput_GroupID :: string
  RemoveMembersInput_DryRun :: bool
  RemoveMembersInput_Body :: RemoveMembersRequestBody

record RemoveMembersPlanDTO =
  RemoveMembersPlanDTO_Members :: "string list"

record RemoveMembersBody =
  RemoveMembersBody_DryRun :: bool
  RemoveMembersBody_Plan :: "RemoveMembersPlanDTO option"
  RemoveMembersBody_Removed :: "string list"

record RemoveMembersOutput =
  RemoveMembersOutput_Body :: RemoveMembersBody

record CloneOffsetsRequestBody =
  CloneOffsetsRequestBody_Confirm :: string
  CloneOffsetsRequestBody_Source :: string
  CloneOffsetsRequestBody_Topics :: "string list"

record CloneOffsetsInput =
  CloneOffsetsInput_Target :: string
  CloneOffsetsInput_DryRun :: bool
  CloneOffsetsInput_Body :: CloneOffsetsRequestBody

record CloneOffsetPlanDetailDTO =
  CloneOffsetPlanDetailDTO_Topic :: string
  CloneOffsetPlanDetailDTO_Partition :: int32
  CloneOffsetPlanDetailDTO_TargetCurrent :: int64
  CloneOffsetPlanDetailDTO_NewValue :: int64

record CloneOffsetsPlanDTO =
  CloneOffsetsPlanDTO_Offsets :: "CloneOffsetPlanDetailDTO list"

record CloneOffsetResultDetailDTO =
  CloneOffsetResultDetailDTO_Topic :: string
  CloneOffsetResultDetailDTO_Partition :: int32
  CloneOffsetResultDetailDTO_Offset :: int64

record CloneOffsetsBody =
  CloneOffsetsBody_DryRun :: bool
  CloneOffsetsBody_Plan :: "CloneOffsetsPlanDTO option"
  CloneOffsetsBody_Target :: string
  CloneOffsetsBody_Offsets :: "CloneOffsetResultDetailDTO list"

record CloneOffsetsOutput =
  CloneOffsetsOutput_Body :: CloneOffsetsBody

text \<open>The zero values that the composite literals of the handlers start from.\<close>

definition zero_ResetOffsetsBody :: ResetOffsetsBody where
  "zero_ResetOffsetsBody = \<lparr>ResetOffsetsBody_DryRun = False, ResetOffsetsBody_Plan = None,
     ResetOffsetsBody_GroupID = [], ResetOffsetsBody_Offsets = []\<rparr>"

definition zero_DeleteGroupBody :: DeleteGroupBody where
  "zero_DeleteGroupBody = \<lparr>DeleteGroupBody_DryRun = False, DeleteGroupBody_Plan = None,
     DeleteGroupBody_Deleted = []\<rparr>"

definition zero_RemoveMembersBody :: RemoveMembersBody where
  "zero_RemoveMembersBody = \<lparr>RemoveMembersBody_DryRun = False, RemoveMembersBody_Plan = None,
     RemoveMembersBody_Removed = []\<rparr>"

definition zero_CloneOffsetsBody :: CloneOffsetsBody where
  "zero_CloneOffsetsBody = \<lparr>CloneOffsetsBody_DryRun = False, CloneOffsetsBody_Plan = None,
     CloneOffsetsBody_Target = [], CloneOffsetsBody_Offsets = []\<rparr>"

section \<open>Encoding\<close>

definition json_GroupSummaryDTO :: "GroupSummaryDTO \<Rightarrow> any" where
  "json_GroupSummaryDTO d = AMap [(''groupId'', AStr (GroupSummaryDTO_GroupID d)),
      (''state'', AStr (GroupSummaryDTO_State d)),
      (''protocolType'', AStr (GroupSummaryDTO_ProtocolType d)),
      (''memberCount'', AInt (GroupSummaryDTO_MemberCount d))]"

definition json_GroupPageDTO :: "GroupPageDTO \<Rightarrow> any" where
  "json_GroupPageDTO d = AMap [(''page'', AInt (GroupPageDTO_Page d)),
      (''pageSize'', AInt (GroupPageDTO_PageSize d)),
      (''total'', AInt (GroupPageDTO_Total d))]"

definition json_ListGroupsBody :: "ListGroupsBody \<Rightarrow> any" where
  "json_ListGroupsBody d = AMap [(''items'', AList (map json_GroupSummaryDTO (ListGroupsBody_Items d))),
      (''page'', json_GroupPageDTO (ListGroupsBody_Page d))]"

definition json_MemberAssignmentDTO :: "MemberAssignmentDTO \<Rightarrow> any" where
  "json_MemberAssignmentDTO d = AMap [(''topic'', AStr (MemberAssignmentDTO_Topic d)),
      (''partition'', AInt (MemberAssignmentDTO_Partition d))]"

definition json_GroupMemberDTO :: "GroupMemberDTO \<Rightarrow> any" where
  "json_GroupMemberDTO d = AMap [(''memberId'', AStr (GroupMemberDTO_MemberID d)),
      (''clientId'', AStr (GroupMemberDTO_ClientID d)),
      (''host'', AStr (GroupMemberDTO_Host d)),
      (''assignments'', AList (map json_MemberAssignmentDTO (GroupMemberDTO_Assignments d)))]"

definition json_GroupOffsetDTO :: "GroupOffsetDTO \<Rightarrow> any" where
  "json_GroupOffsetDTO d = AMap [(''topic'', AStr (GroupOffsetDTO_Topic d)),
      (''partition'', AInt (GroupOffsetDTO_Partition d)),
      (''committed'', AInt (GroupOffsetDTO_Committed d)),
      (''end'', AInt (GroupOffsetDTO_End d)),
      (''lag'', AInt (GroupOffsetDTO_Lag d))]"

definition json_DescribeGroupBody :: "DescribeGroupBody \<Rightarrow> any" where
  "json_DescribeGroupBody d = AMap [(''groupId'', AStr (DescribeGroupBody_GroupID d)),
      (''state'', AStr (DescribeGroupBody_State d)),
      (''coordinatorId'', AInt (DescribeGroupBody_CoordinatorID d)),
      (''members'', AList (map json_GroupMemberDTO (DescribeGroupBody_Members d))),
      (''offsets'', AList (map json_GroupOffsetDTO (DescribeGroupBody_Offsets d))),
      (''totalLag'', AInt (DescribeGroupBody_TotalLag d))]"

definition json_ResetOffsetPlanDetailDTO :: "ResetOffsetPlanDetailDTO \<Rightarrow> any" where
  "json_ResetOffsetPlanDetailDTO d = AMap [(''topic'', AStr (ResetOffsetPlanDetailDTO_Topic d)),
      (''partition'', AInt (ResetOffsetPlanDetailDTO_Partition d)),
      (''current'', AInt (ResetOffsetPlanDetailDTO_Current d)),
      (''target'', AInt (ResetOffsetPlanDetailDTO_Target d))]"

definition json_ResetOffsetsPlanDTO :: "ResetOffsetsPlanDTO \<Rightarrow> any" where
  "json_ResetOffsetsPlanDTO d = AMap [(''offsets'', AList (map json_ResetOffsetPlanDetailDTO (ResetOffsetsPlanDTO_Offsets d)))]"

definition json_ResetOffsetResultDetailDTO :: "ResetOffsetResultDetailDTO \<Rightarrow> any" where
  "json_ResetOffsetResultDetailDTO d = AMap [(''topic'', AStr (ResetOffsetResultDetailDTO_Topic d)),
      (''partition'', AInt (ResetOffsetResultDetailDTO_Partition d)),
      (''before'', AInt (ResetOffsetResultDetailDTO_Before d)),
      (''after'', AInt (ResetOffsetResultDetailDTO_After d))]"

definition json_ResetOffsetsBody :: "ResetOffsetsBody \<Rightarrow> any" where
  "json_ResetOffsetsBody d = AMap ((if \<not> ResetOffsetsBody_DryRun d then [] else [(''dryRun'', ABool (ResetOffsetsBody_DryRun d))])
     @ (if ResetOffsetsBody_Plan d = None then [] else [(''plan'', (case ResetOffsetsBody_Plan d of None \<Rightarrow> ANil | Some v \<Rightarrow> json_ResetOffsetsPlanDTO v))])
     @ (if ResetOffsetsBody_GroupID d = [] then [] else [(''groupId'', AStr (ResetOffsetsBody_GroupID d))])
     @ (if ResetOffsetsBody_Offsets d = [] then [] else [(''offsets'', AList (map json_ResetOffsetResultDetailDTO (ResetOffsetsBody_Offsets d)))]))"

definition json_DeleteGroupPlanDTO :: "DeleteGroupPlanDTO \<Rightarrow> any" where
  "json_DeleteGroupPlanDTO d = AMap [(''groupId'', AStr (DeleteGroupPlanDTO_GroupID d)),
      (''committedOffsets'', AInt (DeleteGroupPlanDTO_CommittedOffsets d))]"

definition json_DeleteGroupBody :: "DeleteGroupBody \<Rightarrow> any" where
  "json_DeleteGroupBody d = AMap ((if \<not> DeleteGroupBody_DryRun d then [] else [(''dryRun'', ABool (DeleteGroupBody_DryRun d))])
     @ (if DeleteGroupBody_Plan d = None then [] else [(''plan'', (case DeleteGroupBody_Plan d of None \<Rightarrow> ANil | Some v \<Rightarrow> json_DeleteGroupPlanDTO v))])
     @ (if DeleteGroupBody_Deleted d = [] then [] else [(''deleted'', AStr (DeleteGroupBody_Deleted d))]))"

definition json_RemoveMembersPlanDTO :: "RemoveMembersPlanDTO \<Rightarrow> any" where
  "json_RemoveMembersPlanDTO d = AMap [(''members'', AList (map AStr (RemoveMembersPlanDTO_Members d)))]"

definition json_RemoveMembersBody :: "RemoveMembersBody \<Rightarrow> any" where
  "json_RemoveMembersBody d = AMap ((if \<not> RemoveMembersBody_DryRun d then [] else [(''dryRun'', ABool (RemoveMembersBody_DryRun d))])
     @ (if RemoveMembersBody_Plan d = None then [] else [(''plan'', (case RemoveMembersBody_Plan d of None \<Rightarrow> ANil | Some v \<Rightarrow> json_RemoveMembersPlanDTO v))])
     @ (if RemoveMembersBody_Removed d = [] then [] else [(''removed'', AList (map AStr (RemoveMembersBody_Removed d)))]))"

definition json_CloneOffsetPlanDetailDTO :: "CloneOffsetPlanDetailDTO \<Rightarrow> any" where
  "json_CloneOffsetPlanDetailDTO d = AMap [(''topic'', AStr (CloneOffsetPlanDetailDTO_Topic d)),
      (''partition'', AInt (CloneOffsetPlanDetailDTO_Partition d)),
      (''targetCurrent'', AInt (CloneOffsetPlanDetailDTO_TargetCurrent d)),
      (''newValue'', AInt (CloneOffsetPlanDetailDTO_NewValue d))]"

definition json_CloneOffsetsPlanDTO :: "CloneOffsetsPlanDTO \<Rightarrow> any" where
  "json_CloneOffsetsPlanDTO d = AMap [(''offsets'', AList (map json_CloneOffsetPlanDetailDTO (CloneOffsetsPlanDTO_Offsets d)))]"

definition json_CloneOffsetResultDetailDTO :: "CloneOffsetResultDetailDTO \<Rightarrow> any" where
  "json_CloneOffsetResultDetailDTO d = AMap [(''topic'', AStr (CloneOffsetResultDetailDTO_Topic d)),
      (''partition'', AInt (CloneOffsetResultDetailDTO_Partition d)),
      (''offset'', AInt (CloneOffsetResultDetailDTO_Offset d))]"

definition json_CloneOffsetsBody :: "CloneOffsetsBody \<Rightarrow> any" where
  "json_CloneOffsetsBody d = AMap ((if \<not> CloneOffsetsBody_DryRun d then [] else [(''dryRun'', ABool (CloneOffsetsBody_DryRun d))])
     @ (if CloneOffsetsBody_Plan d = None then [] else [(''plan'', (case CloneOffsetsBody_Plan d of None \<Rightarrow> ANil | Some v \<Rightarrow> json_CloneOffsetsPlanDTO v))])
     @ (if CloneOffsetsBody_Target d = [] then [] else [(''target'', AStr (CloneOffsetsBody_Target d))])
     @ (if CloneOffsetsBody_Offsets d = [] then [] else [(''offsets'', AList (map json_CloneOffsetResultDetailDTO (CloneOffsetsBody_Offsets d)))]))"

definition wire_ListGroupsOutput :: "ListGroupsOutput \<Rightarrow> int \<times> any" where
  "wire_ListGroupsOutput d = (StatusOK, json_ListGroupsBody (ListGroupsOutput_Body d))"

definition wire_DescribeGroupOutput :: "DescribeGroupOutput \<Rightarrow> int \<times> any" where
  "wire_DescribeGroupOutput d = (StatusOK, json_DescribeGroupBody (DescribeGroupOutput_Body d))"

definition wire_ResetOffsetsOutput :: "ResetOffsetsOutput \<Rightarrow> int \<times> any" where
  "wire_ResetOffsetsOutput d = (StatusOK, json_ResetOffsetsBody (ResetOffsetsOutput_Body d))"

definition wire_DeleteGroupOutput :: "DeleteGroupOutput \<Rightarrow> int \<times> any" where
  "wire_DeleteGroupOutput d = (StatusOK, json_DeleteGroupBody (DeleteGroupOutput_Body d))"

definition wire_RemoveMembersOutput :: "RemoveMembersOutput \<Rightarrow> int \<times> any" where
  "wire_RemoveMembersOutput d = (StatusOK, json_RemoveMembersBody (RemoveMembersOutput_Body d))"

definition wire_CloneOffsetsOutput :: "CloneOffsetsOutput \<Rightarrow> int \<times> any" where
  "wire_CloneOffsetsOutput d = (StatusOK, json_CloneOffsetsBody (CloneOffsetsOutput_Body d))"

end
