(* ===== verification/GroupRoutes.thy ===== *)
theory GroupRoutes
  imports GroupDTO
begin

text \<open>
  The consumer-group operations of the HTTP interface (\<^verbatim>\<open>internal/api/group/routes.go\<close>,
  \<^verbatim>\<open>internal/api/group/mapping.go\<close>).
\<close>

definition group_Register :: "HumaOperation list" where
  "group_Register =
    [operation ''group-list'' ''GET'' ''/v1/consumer-groups'' ''G1'',
     operation ''group-describe'' ''GET'' ''/v1/consumer-groups/{groupId}'' ''G2'',
     operation ''group-reset-offsets'' ''POST'' ''/v1/consumer-groups/{groupId}/reset-offsets'' ''G4'',
     operation ''group-delete'' ''DELETE'' ''/v1/consumer-groups/{groupId}'' ''G5'',
     operation ''group-remove-members'' ''POST'' ''/v1/consumer-groups/{groupId}/remove-members'' ''G6'',
     operation ''group-clone-offsets'' ''POST'' ''/v1/consumer-groups/{target}/clone-offsets'' ''G7'']"

section \<open>Mapping\<close>

definition toGroupSummaryDTOs :: "GroupListItem list \<Rightarrow> GroupSummaryDTO list" where
  "toGroupSummaryDTOs items = map (\<lambda>it.
     \<lparr>GroupSummaryDTO_GroupID = GLI_ID it, GroupSummaryDTO_State = GLI_State it,
      GroupSummaryDTO_ProtocolType = GLI_ProtocolType it, GroupSummaryDTO_MemberCount = GLI_MemberCount it\<rparr>) items"

definition toDescribeGroupBody :: "GroupDescribe \<Rightarrow> DescribeGroupBody" where
  "toDescribeGroupBody d =
    \<lparr>DescribeGroupBody_GroupID = GD_ID d, DescribeGroupBody_State = GD_State d,
     DescribeGroupBody_CoordinatorID = GD_CoordinatorID d,
     DescribeGroupBody_Members = map (\<lambda>m.
       \<lparr>GroupMemberDTO_MemberID = MD_MemberID m, GroupMemberDTO_ClientID = MD_ClientID m, GroupMemberDTO_Host = MD_Host m,
        GroupMemberDTO_Assignments = map (\<lambda>a. \<lparr>MemberAssignmentDTO_Topic = fst a,
          MemberAssignmentDTO_Partition = snd a\<rparr>) (MD_Assignments m)\<rparr>) (GD_Members d),
     DescribeGroupBody_Offsets = map (\<lambda>x.
       \<lparr>GroupOffsetDTO_Topic = OD_Topic x, GroupOffsetDTO_Partition = OD_Partition x,
        GroupOffsetDTO_Committed = OD_Committed x, GroupOffsetDTO_End = OD_End x, GroupOffsetDTO_Lag = OD_Lag x\<rparr>)
       (GD_Offsets d),
     DescribeGroupBody_TotalLag = GD_TotalLag d\<rparr>"

text \<open>
  \<open>strings.LastIndex(key, ":")\<close> splits a key into what is before and after its last colon; \<open>None\<close> where
  there is none.
\<close>

definition split_last_colon :: "string \<Rightarrow> (string \<times> string) option" where
  "split_last_colon key =
    (if CHR '':'' \<in> set key
     then Some (rev (tl (dropWhile (\<lambda>c. c \<noteq> CHR '':'') (rev key))), rev (takeWhile (\<lambda>c. c \<noteq> CHR '':'') (rev key)))
     else None)"

definition bad_offsets_key :: "string \<Rightarrow> error" where
  "bad_offsets_key key = policyErr Validation
     (''target.offsets key '' @ key @ '' must be '' @ [char_of (34::nat)] @ ''<topic>:<partition>'' @ [char_of (34::nat)])"

text \<open>The loop over the request's offsets, in the order the range statement visits them.\<close>

fun reset_offsets_loop ::
  "(string \<times> int64) list \<Rightarrow> (TopicPartition \<times> int64) list \<Rightarrow> error + (TopicPartition \<times> int64) list" where
  "reset_offsets_loop [] out = Inr out"
| "reset_offsets_loop ((key, at) # rest) out =
    (case split_last_colon key of
       None \<Rightarrow> Inl (bad_offsets_key key)
     | Some (topic, digs) \<Rightarrow> (case ParseInt32 digs of
         None \<Rightarrow> Inl (bad_offsets_key key)
       | Some part \<Rightarrow> reset_offsets_loop rest (mput (topic, part) at out)))"

definition toResetTarget :: "ResetOffsetsTargetDTO \<Rightarrow> error + ResetTarget" where
  "toResetTarget b =
    (let tgt = \<lparr>RT_Mode = ResetOffsetsTargetDTO_Mode b, RT_Offset = ResetOffsetsTargetDTO_Offset b,
         RT_TimestampMs = ResetOffsetsTargetDTO_TimestampMs b, RT_Offsets = []\<rparr> in
     if ResetOffsetsTargetDTO_Offsets b = [] then Inr tgt
     else map_sum id (\<lambda>offsets. tgt\<lparr>RT_Offsets := offsets\<rparr>)
       (reset_offsets_loop (ResetOffsetsTargetDTO_Offsets b) []))"

definition toResetOffsetsPlanDTO :: "ResetPlan \<Rightarrow> ResetOffsetsPlanDTO" where
  "toResetOffsetsPlanDTO p = \<lparr>ResetOffsetsPlanDTO_Offsets = map (\<lambda>d.
     \<lparr>ResetOffsetPlanDetailDTO_Topic = ROD_Topic d, ResetOffsetPlanDetailDTO_Partition = ROD_Partition d,
      ResetOffsetPlanDetailDTO_Current = ROD_Before d, ResetOffsetPlanDetailDTO_Target = ROD_After d\<rparr>)
     (RP_Offsets p)\<rparr>"

definition toResetOffsetResultDTOs :: "ResetOffsetDetail list \<Rightarrow> ResetOffsetResultDetailDTO list" where
  "toResetOffsetResultDTOs details = map (\<lambda>d.
     \<lparr>ResetOffsetResultDetailDTO_Topic = ROD_Topic d, ResetOffsetResultDetailDTO_Partition = ROD_Partition d,
      ResetOffsetResultDetailDTO_Before = ROD_Before d, ResetOffsetResultDetailDTO_After = ROD_After d\<rparr>) details"

definition toDeleteGroupPlanDTO :: "DeleteGroupPlan \<Rightarrow> DeleteGroupPlanDTO" where
  "toDeleteGroupPlanDTO p = \<lparr>DeleteGroupPlanDTO_GroupID = DGP_GroupID p,
     DeleteGroupPlanDTO_CommittedOffsets = DGP_CommittedOffsets p\<rparr>"

definition toRemoveMembersPlanDTO :: "RemoveMembersPlan \<Rightarrow> RemoveMembersPlanDTO" where
  "toRemoveMembersPlanDTO p = \<lparr>RemoveMembersPlanDTO_Members = RMP_Members p\<rparr>"

definition toCloneOffsetsPlanDTO :: "CloneOffsetsPlan \<Rightarrow> CloneOffsetsPlanDTO" where
  "toCloneOffsetsPlanDTO p = \<lparr>CloneOffsetsPlanDTO_Offsets = map (\<lambda>d.
     \<lparr>CloneOffsetPlanDetailDTO_Topic = COD_Topic d, CloneOffsetPlanDetailDTO_Partition = COD_Partition d,
      CloneOffsetPlanDetailDTO_TargetCurrent = COD_TargetCurrent d,
      CloneOffsetPlanDetailDTO_NewValue = COD_NewValue d\<rparr>) (COP_Offsets p)\<rparr>"

definition toCloneOffsetResultDTOs :: "CloneOffsetDetail list \<Rightarrow> CloneOffsetResultDetailDTO list" where
  "toCloneOffsetResultDTOs details = map (\<lambda>d.
     \<lparr>CloneOffsetResultDetailDTO_Topic = COD_Topic d, CloneOffsetResultDetailDTO_Partition = COD_Partition d,
      CloneOffsetResultDetailDTO_Offset = COD_NewValue d\<rparr>) details"

section \<open>Boxed plans\<close>

definition unbox_ResetOffsetDetail :: "any \<Rightarrow> ResetOffsetDetail option" where
  "unbox_ResetOffsetDetail a = do {
     topic \<leftarrow> get_as ''ResetOffsetDetail'' ''Topic'' as_str a;
     part \<leftarrow> get_as ''ResetOffsetDetail'' ''Partition'' as_int a;
     before \<leftarrow> get_as ''ResetOffsetDetail'' ''Before'' as_int a;
     after \<leftarrow> get_as ''ResetOffsetDetail'' ''After'' as_int a;
     Some \<lparr>ROD_Topic = topic, ROD_Partition = part, ROD_Before = before, ROD_After = after\<rparr> }"

definition unbox_ResetPlan :: "any \<Rightarrow> ResetPlan option" where
  "unbox_ResetPlan a = do {
     g \<leftarrow> get_as ''ResetPlan'' ''GroupID'' as_str a;
     offsets \<leftarrow> get_as ''ResetPlan'' ''Offsets'' (as_list unbox_ResetOffsetDetail) a;
     Some \<lparr>RP_GroupID = g, RP_Offsets = offsets\<rparr> }"

definition unbox_DeleteGroupPlan :: "any \<Rightarrow> DeleteGroupPlan option" where
  "unbox_DeleteGroupPlan a = do {
     g \<leftarrow> get_as ''DeleteGroupPlan'' ''GroupID'' as_str a;
     n \<leftarrow> get_as ''DeleteGroupPlan'' ''CommittedOffsets'' as_int a;
     Some \<lparr>DGP_GroupID = g, DGP_CommittedOffsets = n\<rparr> }"

definition unbox_RemoveMembersPlan :: "any \<Rightarrow> RemoveMembersPlan option" where
  "unbox_RemoveMembersPlan a = do {
     g \<leftarrow> get_as ''RemoveMembersPlan'' ''GroupID'' as_str a;
     members \<leftarrow> get_as ''RemoveMembersPlan'' ''Members'' (as_list as_str) a;
     Some \<lparr>RMP_GroupID = g, RMP_Members = members\<rparr> }"

definition unbox_CloneOffsetDetail :: "any \<Rightarrow> CloneOffsetDetail option" where
  "unbox_CloneOffsetDetail a = do {
     topic \<leftarrow> get_as ''CloneOffsetDetail'' ''Topic'' as_str a;
     part \<leftarrow> get_as ''CloneOffsetDetail'' ''Partition'' as_int a;
     current \<leftarrow> get_as ''CloneOffsetDetail'' ''TargetCurrent'' as_int a;
     new \<leftarrow> get_as ''CloneOffsetDetail'' ''NewValue'' as_int a;
     Some \<lparr>COD_Topic = topic, COD_Partition = part, COD_TargetCurrent = current, COD_NewValue = new\<rparr> }"

definition unbox_CloneOffsetsPlan :: "any \<Rightarrow> CloneOffsetsPlan option" where
  "unbox_CloneOffsetsPlan a = do {
     target \<leftarrow> get_as ''CloneOffsetsPlan'' ''Target'' as_str a;
     offsets \<leftarrow> get_as ''CloneOffsetsPlan'' ''Offsets'' (as_list unbox_CloneOffsetDetail) a;
     Some \<lparr>COP_Target = target, COP_Offsets = offsets\<rparr> }"

lemma unbox_group_details:
  "unbox_ResetOffsetDetail (ResetOffsetDetail_any d) = Some d"
  "unbox_CloneOffsetDetail (CloneOffsetDetail_any c) = Some c"
  by (simp_all add: unbox_ResetOffsetDetail_def ResetOffsetDetail_any_def unbox_CloneOffsetDetail_def
      CloneOffsetDetail_any_def unbox_simps)

lemma unbox_group_plans [unbox_simps]:
  "unbox_ResetPlan (plan_any ResetPlan_ops p1) = Some p1"
  "unbox_DeleteGroupPlan (plan_any DeleteGroupPlan_ops p2) = Some p2"
  "unbox_RemoveMembersPlan (plan_any RemoveMembersPlan_ops p3) = Some p3"
  "unbox_CloneOffsetsPlan (plan_any CloneOffsetsPlan_ops p4) = Some p4"
  by (simp_all add: unbox_ResetPlan_def ResetPlan_ops_def unbox_DeleteGroupPlan_def DeleteGroupPlan_ops_def
      unbox_RemoveMembersPlan_def RemoveMembersPlan_ops_def unbox_CloneOffsetsPlan_def CloneOffsetsPlan_ops_def
      unbox_simps as_list_map unbox_group_details)

section \<open>Handlers\<close>

definition resetOffsets :: "'s Service \<Rightarrow> Request \<Rightarrow> ResetOffsetsInput \<Rightarrow> ('s, ResetOffsetsOutput) reply" where
  "resetOffsets svc r inp =
    (let body = ResetOffsetsInput_Body inp in
     case toResetTarget (ResetOffsetsRequestBody_Target body) of
       Inl err \<Rightarrow> replyErr r err
     | Inr tgt \<Rightarrow>
     orMapDestructive r unbox_ResetPlan (\<lambda>p. json_ResetOffsetsPlanDTO (toResetOffsetsPlanDTO p))
       (group_Reset svc (caller_of r) (ResetOffsetsInput_GroupID inp) tgt (ResetOffsetsRequestBody_Topics body)
         (ResetOffsetsRequestBody_Confirm body) (ResetOffsetsInput_DryRun inp))
       (destructive_reply
         (\<lambda>p. \<lparr>ResetOffsetsOutput_Body = zero_ResetOffsetsBody\<lparr>ResetOffsetsBody_DryRun := True,
            ResetOffsetsBody_Plan := Some (toResetOffsetsPlanDTO p)\<rparr>\<rparr>)
         (\<lambda>p v. \<lparr>ResetOffsetsOutput_Body = zero_ResetOffsetsBody\<lparr>ResetOffsetsBody_GroupID := RR_GroupID v,
            ResetOffsetsBody_Offsets := toResetOffsetResultDTOs (RR_Offsets v)\<rparr>\<rparr>)))"

definition deleteGroup :: "'s Service \<Rightarrow> Request \<Rightarrow> DeleteGroupInput \<Rightarrow> ('s, DeleteGroupOutput) reply" where
  "deleteGroup svc r inp =
    orMapDestructive r unbox_DeleteGroupPlan (\<lambda>p. json_DeleteGroupPlanDTO (toDeleteGroupPlanDTO p))
      (group_Delete svc (caller_of r) (DeleteGroupInput_GroupID inp)
        (DeleteGroupRequestBody_Confirm (DeleteGroupInput_Body inp)) (DeleteGroupInput_DryRun inp))
      (destructive_reply
        (\<lambda>p. \<lparr>DeleteGroupOutput_Body = zero_DeleteGroupBody\<lparr>DeleteGroupBody_DryRun := True,
           DeleteGroupBody_Plan := Some (toDeleteGroupPlanDTO p)\<rparr>\<rparr>)
        (\<lambda>p v. \<lparr>DeleteGroupOutput_Body = zero_DeleteGroupBody\<lparr>DeleteGroupBody_Deleted := v\<rparr>\<rparr>))"

definition removeMembers :: "'s Service \<Rightarrow> Request \<Rightarrow> RemoveMembersInput \<Rightarrow> ('s, RemoveMembersOutput) reply" where
  "removeMembers svc r inp =
    (let body = RemoveMembersInput_Body inp in
     orMapDestructive r unbox_RemoveMembersPlan (\<lambda>p. json_RemoveMembersPlanDTO (toRemoveMembersPlanDTO p))
       (RemoveMembers svc (caller_of r) (RemoveMembersInput_GroupID inp) (RemoveMembersRequestBody_Members body)
         (RemoveMembersRequestBody_Confirm body) (RemoveMembersInput_DryRun inp))
       (destructive_reply
         (\<lambda>p. \<lparr>RemoveMembersOutput_Body = zero_RemoveMembersBody\<lparr>RemoveMembersBody_DryRun := True,
            RemoveMembersBody_Plan := Some (toRemoveMembersPlanDTO p)\<rparr>\<rparr>)
         (\<lambda>p v. \<lparr>RemoveMembersOutput_Body = zero_RemoveMembersBody\<lparr>RemoveMembersBody_Removed := v\<rparr>\<rparr>)))"

definition cloneOffsets :: "'s Service \<Rightarrow> Request \<Rightarrow> CloneOffsetsInput \<Rightarrow> ('s, CloneOffsetsOutput) reply" where
  "cloneOffsets svc r inp =
    (let body = CloneOffsetsInput_Body inp in
     orMapDestructive r unbox_CloneOffsetsPlan (\<lambda>p. json_CloneOffsetsPlanDTO (toCloneOffsetsPlanDTO p))
       (CloneOffsets svc (caller_of r) (CloneOffsetsInput_Target inp) (CloneOffsetsRequestBody_Source body)
         (CloneOffsetsRequestBody_Topics body) (CloneOffsetsRequestBody_Confirm body) (CloneOffsetsInput_DryRun inp))
       (destructive_reply
         (\<lambda>p. \<lparr>CloneOffsetsOutput_Body = zero_CloneOffsetsBody\<lparr>CloneOffsetsBody_DryRun := True,
            CloneOffsetsBody_Plan := Some (toCloneOffsetsPlanDTO p)\<rparr>\<rparr>)
         (\<lambda>p v. \<lparr>CloneOffsetsOutput_Body = zero_CloneOffsetsBody\<lparr>CloneOffsetsBody_Target := COR_Target v,
            CloneOffsetsBody_Offsets := toCloneOffsetResultDTOs (COR_Offsets v)\<rparr>\<rparr>)))"

definition listGroups ::
  "'s Service \<Rightarrow> GroupPageBounds \<Rightarrow> Request \<Rightarrow> ListGroupsInput \<Rightarrow> ('s, ListGroupsOutput) reply" where
  "listGroups svc bounds r inp =
    (let pageSize = (if ListGroupsInput_PageSize inp = 0 then GroupPageBounds_Default bounds
                     else ListGroupsInput_PageSize inp) in
     if pageSize > GroupPageBounds_Ceiling bounds
     then replyErr r (policyErr BoundExceeded ''pageSize exceeds the configured ceiling'')
     else orMap r (group_List svc \<lparr>GLP_State = ListGroupsInput_State inp, GLP_Page = ListGroupsInput_Page inp,
         GLP_PageSize = pageSize\<rparr>) (\<lambda>(items, page).
       reply \<lparr>ListGroupsOutput_Body = \<lparr>ListGroupsBody_Items = toGroupSummaryDTOs items,
         ListGroupsBody_Page = \<lparr>GroupPageDTO_Page = GP_Page page, GroupPageDTO_PageSize = GP_PageSize page,
           GroupPageDTO_Total = GP_Total page\<rparr>\<rparr>\<rparr>))"

definition describeGroup :: "'s Service \<Rightarrow> Request \<Rightarrow> DescribeGroupInput \<Rightarrow> ('s, DescribeGroupOutput) reply" where
  "describeGroup svc r inp =
    orMap r (group_Describe svc (DescribeGroupInput_GroupID inp)) (\<lambda>d.
      reply \<lparr>DescribeGroupOutput_Body = toDescribeGroupBody d\<rparr>)"

end
