(* ===== verification/SecurityService.thy ===== *)
theory SecurityService
  imports ServiceBase
begin

text \<open>
  The credential and quota commands S1 and S2 (\<^verbatim>\<open>internal/service/security\<close>).
\<close>

section \<open>Events\<close>

definition security_errCodeOf :: "error \<Rightarrow> string" where
  "security_errCodeOf err =
    (case CodeOf err of
       Some c \<Rightarrow> code_String c
     | None \<Rightarrow> (case as_kafka err of Some ke \<Rightarrow> kind_String (ke_Kind ke) | None \<Rightarrow> ''INTERNAL''))"

definition security_target_type :: "string \<Rightarrow> string" where
  "security_target_type commandID = (if commandID = ''S2'' then ''quota'' else ''user'')"

definition security_newEvent :: "'s Service \<Rightarrow> Caller \<Rightarrow> string \<Rightarrow> string \<Rightarrow> ('s, Event) eff" where
  "security_newEvent svc caller commandID target =
    new_event svc (security_target_type commandID) caller commandID target"

definition security_resultEventOutcome :: "'s Service \<Rightarrow> Event \<Rightarrow> Outcome \<Rightarrow> string \<Rightarrow> ('s, Event) eff" where
  "security_resultEventOutcome svc att outcome errCode =
    onOk (act (svc_now svc)) (\<lambda>t. ret (resultEventAt t att outcome errCode))"

definition security_checkGate :: "'s Service \<Rightarrow> Caller \<Rightarrow> string \<Rightarrow> string \<Rightarrow> ('s, unit) eff" where
  "security_checkGate svc caller commandID target =
    onOk (security_newEvent svc caller commandID target) (\<lambda>ev.
      CheckAudited (svc_runner svc) (svc_auditor svc) caller (desc_of commandID) ev)"

definition security_result :: "'s Service \<Rightarrow> Event \<Rightarrow> Outcome \<Rightarrow> string \<Rightarrow> ('s, unit) eff" where
  "security_result svc att outcome errCode =
    onOk (security_resultEventOutcome svc att outcome errCode) (Result (svc_auditor svc))"

section \<open>S1: users\<close>

definition DefaultIterations :: int32 where "DefaultIterations = 4096"

record UserItem =
  UI_Name :: string
  UI_Credentials :: "ScramCredential list"

definition ListUsers :: "'s Service \<Rightarrow> ('s, UserItem list) eff" where
  "ListUsers svc =
    onOk (DescribeUserSCRAMs (svc_admin svc) []) (\<lambda>users.
      ret (map (\<lambda>u. \<lparr>UI_Name = ScramUser_Name u, UI_Credentials = ScramUser_Credentials u\<rparr>)
        (sort_key ScramUser_Name users)))"

record CreateUserParams =
  CUP_Name :: string
  CUP_Mechanism :: ScramMechanism
  CUP_Password :: string
  CUP_Iterations :: int32

record CreateUserResult =
  CUR_Name :: string
  CUR_Mechanism :: ScramMechanism

definition has_mechanism :: "ScramMechanism \<Rightarrow> ScramCredential list \<Rightarrow> bool" where
  "has_mechanism mechanism creds \<longleftrightarrow> (\<exists>c \<in> set creds. ScramCredential_Mechanism c = mechanism)"

definition userHasMechanism :: "'s Service \<Rightarrow> string \<Rightarrow> ScramMechanism \<Rightarrow> ('s, bool) eff" where
  "userHasMechanism svc name mechanism =
    attempt (DescribeUserSCRAMs (svc_admin svc) [name]) (\<lambda>answer. case answer of
      Inl err \<Rightarrow> if IsKind err KindNotFound then ret False else fail err
    | Inr users \<Rightarrow> onOk (first_of users) (\<lambda>u. ret (has_mechanism mechanism (ScramUser_Credentials u))))"

definition createUser ::
  "'s Service \<Rightarrow> string \<Rightarrow> ScramMechanism \<Rightarrow> string \<Rightarrow> int32 \<Rightarrow> ('s, CreateUserResult) eff" where
  "createUser svc name mechanism password iterations =
    onOk (userHasMechanism svc name mechanism) (\<lambda>exists.
    if exists then fail (kafkaErr KindAlreadyExists ''user'')
    else onOk (AlterUserSCRAMs (svc_admin svc)
        [\<lparr>ScramUpsert_User = name, ScramUpsert_Mechanism = mechanism,
          ScramUpsert_Iterations = iterations, ScramUpsert_Password = password\<rparr>] []) (\<lambda>results.
      onOk (first_of results) (\<lambda>r.
        case ScramAlterResult_Err r of
          Some err \<Rightarrow> fail err
        | None \<Rightarrow> ret \<lparr>CUR_Name = name, CUR_Mechanism = mechanism\<rparr>)))"

definition user_iterations :: "CreateUserParams \<Rightarrow> int32" where
  "user_iterations params = (if CUP_Iterations params = 0 then DefaultIterations else CUP_Iterations params)"

definition security_Create :: "'s Service \<Rightarrow> Caller \<Rightarrow> CreateUserParams \<Rightarrow> ('s, CreateUserResult) eff" where
  "security_Create svc caller params =
    onOk (security_checkGate svc caller ''S1'' (CUP_Name params)) (\<lambda>_.
    onOk (security_newEvent svc caller ''S1'' (CUP_Name params)) (\<lambda>att.
    attempt (Attempt (svc_auditor svc) att) (\<lambda>ar. case ar of
      Inl err \<Rightarrow> fail (policyErr AuditUnavailable (err_Error err))
    | Inr _ \<Rightarrow>
    attempt (createUser svc (CUP_Name params) (CUP_Mechanism params) (CUP_Password params)
        (user_iterations params)) (\<lambda>cr. case cr of
      Inl err \<Rightarrow> onOk (security_result svc att OutcomeFailed (security_errCodeOf err)) (\<lambda>_. fail err)
    | Inr created \<Rightarrow> onOk (security_result svc att OutcomeSucceeded []) (\<lambda>_. ret created)))))"

record DeleteUserPlan =
  DUP_User :: string
  DUP_Mechanisms :: "ScramMechanism list"

definition DeleteUserPlan_ops :: "DeleteUserPlan PlanOps" where
  "DeleteUserPlan_ops = \<lparr>ConfirmTarget = DUP_User,
     plan_any = (\<lambda>p. AStruct ''DeletePlan'' [(''User'', AStr (DUP_User p)),
       (''Mechanisms'', AList (map AStr (DUP_Mechanisms p)))])\<rparr>"

definition PlanDeleteUser :: "'s Service \<Rightarrow> string \<Rightarrow> ScramMechanism \<Rightarrow> ('s, DeleteUserPlan) eff" where
  "PlanDeleteUser svc user mechanism =
    onOk (DescribeUserSCRAMs (svc_admin svc) [user]) (\<lambda>users.
    onOk (first_of users) (\<lambda>u.
    if mechanism \<noteq> [] then
      (if \<not> has_mechanism mechanism (ScramUser_Credentials u) then fail (kafkaErr KindNotFound ''user'')
       else ret \<lparr>DUP_User = user, DUP_Mechanisms = [mechanism]\<rparr>)
    else ret \<lparr>DUP_User = user,
           DUP_Mechanisms = sort (map ScramCredential_Mechanism (ScramUser_Credentials u))\<rparr>))"

definition ApplyDeleteUser :: "'s Service \<Rightarrow> DeleteUserPlan \<Rightarrow> ('s, string) eff" where
  "ApplyDeleteUser svc plan =
    onOk (AlterUserSCRAMs (svc_admin svc) []
        (map (\<lambda>m. \<lparr>ScramDelete_User = DUP_User plan, ScramDelete_Mechanism = m\<rparr>) (DUP_Mechanisms plan))) (\<lambda>results.
    onOk (forEach results (\<lambda>r _. case ScramAlterResult_Err r of Some err \<Rightarrow> fail err | None \<Rightarrow> ret ()) ()) (\<lambda>_.
      ret (DUP_User plan)))"

definition security_Delete ::
  "'s Service \<Rightarrow> Caller \<Rightarrow> string \<Rightarrow> ScramMechanism \<Rightarrow> string \<Rightarrow> bool \<Rightarrow> ('s, (DeleteUserPlan, string) DResult \<times> Err) eff" where
  "security_Delete svc caller user mechanism confirm dryRun =
    destructive_cmd svc ''user'' ''S1'' caller user DeleteUserPlan_ops confirm dryRun
      (PlanDeleteUser svc user mechanism) (ApplyDeleteUser svc)"

section \<open>S2: quotas\<close>

definition component_text :: "QuotaEntityComponent \<Rightarrow> string" where
  "component_text c = QuotaEntityComponent_Type c @ '':''
     @ (case QuotaEntityComponent_Name c of None \<Rightarrow> [] | Some name \<Rightarrow> name)"

definition entityDescriptor :: "QuotaEntity \<Rightarrow> string" where
  "entityDescriptor entity = strings_Join (sort (map component_text entity)) '',''"

record QuotaItem =
  QI_Entity :: QuotaEntity
  QI_Values :: "QuotaValue list"

definition ListQuotas :: "'s Service \<Rightarrow> string \<Rightarrow> ('s, QuotaItem list) eff" where
  "ListQuotas svc entityType =
    onOk (DescribeClientQuotas (svc_admin svc) entityType) (\<lambda>described.
      ret (map (\<lambda>d. \<lparr>QI_Entity = DescribedQuota_Entity d, QI_Values = DescribedQuota_Values d\<rparr>)
        (sort_key (\<lambda>d. entityDescriptor (DescribedQuota_Entity d)) described)))"

record QuotaChangeDetail =
  QC_Key :: string
  QC_From :: "float64 option"
  QC_To :: "float64 option"

record AlterQuotaPlan =
  AQP_Entity :: QuotaEntity
  AQP_Changes :: "QuotaChangeDetail list"

definition opt_float_any :: "float64 option \<Rightarrow> any" where
  "opt_float_any f = (case f of None \<Rightarrow> ANil | Some x \<Rightarrow> AFloat x)"

definition AlterQuotaPlan_ops :: "AlterQuotaPlan PlanOps" where
  "AlterQuotaPlan_ops = \<lparr>ConfirmTarget = (\<lambda>p. entityDescriptor (AQP_Entity p)),
     plan_any = (\<lambda>p. AStruct ''AlterQuotaPlan''
       [(''Entity'', AList (map (\<lambda>c. AStruct ''QuotaEntityComponent''
            [(''Type'', AStr (QuotaEntityComponent_Type c)),
             (''Name'', case QuotaEntityComponent_Name c of None \<Rightarrow> ANil | Some n \<Rightarrow> AStr n)]) (AQP_Entity p))),
        (''Changes'', AList (map (\<lambda>c. AStruct ''QuotaChangeDetail'' [(''Key'', AStr (QC_Key c)),
            (''From'', opt_float_any (QC_From c)), (''To'', opt_float_any (QC_To c))]) (AQP_Changes p)))])\<rparr>"

record AlterQuotaResult =
  AQR_Entity :: QuotaEntity
  AQR_Values :: "QuotaValue list"

text \<open>The one type that all components have, else the empty string, which selects every entity.\<close>

definition quota_entityType :: "QuotaEntity \<Rightarrow> string" where
  "quota_entityType entity =
    (case remdups (map QuotaEntityComponent_Type entity) of [t] \<Rightarrow> t | _ \<Rightarrow> [])"

fun quota_lookup :: "string \<Rightarrow> DescribedQuota list \<Rightarrow> (string \<times> float64) list" where
  "quota_lookup key [] = []"
| "quota_lookup key (d # ds) =
    (if entityDescriptor (DescribedQuota_Entity d) \<noteq> key then quota_lookup key ds
     else fold (\<lambda>v. mput (QuotaValue_Key v) (QuotaValue_Value v)) (DescribedQuota_Values d) [])"

definition currentQuotaValues :: "'s Service \<Rightarrow> QuotaEntity \<Rightarrow> ('s, (string \<times> float64) list) eff" where
  "currentQuotaValues svc entity =
    onOk (DescribeClientQuotas (svc_admin svc) (quota_entityType entity)) (\<lambda>described.
      ret (quota_lookup (entityDescriptor entity) described))"

definition quota_changes ::
  "(string \<times> float64) list \<Rightarrow> (string \<times> float64) list \<Rightarrow> string list \<Rightarrow> QuotaChangeDetail list" where
  "quota_changes current sets removes = sort_key QC_Key
     (map (\<lambda>(key, v). \<lparr>QC_Key = key, QC_From = map_of current key, QC_To = Some v\<rparr>) sets
      @ map (\<lambda>key. \<lparr>QC_Key = key, QC_From = map_of current key, QC_To = None\<rparr>) removes)"

definition PlanAlterQuota ::
  "'s Service \<Rightarrow> QuotaEntity \<Rightarrow> (string \<times> float64) list \<Rightarrow> string list \<Rightarrow> ('s, AlterQuotaPlan) eff" where
  "PlanAlterQuota svc entity sets removes =
    onOk (currentQuotaValues svc entity) (\<lambda>current.
      ret \<lparr>AQP_Entity = entity, AQP_Changes = quota_changes current sets removes\<rparr>)"

definition quota_ops :: "(string \<times> float64) list \<Rightarrow> string list \<Rightarrow> QuotaOp list" where
  "quota_ops sets removes =
     map (\<lambda>(key, v). \<lparr>QuotaOp_Key = key, QuotaOp_Value = v, QuotaOp_Remove = False\<rparr>) sets
     @ map (\<lambda>key. \<lparr>QuotaOp_Key = key, QuotaOp_Value = 0, QuotaOp_Remove = True\<rparr>) removes"

definition sorted_quota_values :: "(string \<times> float64) list \<Rightarrow> QuotaValue list" where
  "sorted_quota_values vals =
     map (\<lambda>k. \<lparr>QuotaValue_Key = k, QuotaValue_Value = mget vals 0 k\<rparr>) (sort (mkeys vals))"

definition ApplyAlterQuota ::
  "'s Service \<Rightarrow> QuotaEntity \<Rightarrow> (string \<times> float64) list \<Rightarrow> string list \<Rightarrow> ('s, AlterQuotaResult) eff" where
  "ApplyAlterQuota svc entity sets removes =
    onOk (AlterClientQuotas (svc_admin svc)
        [\<lparr>QuotaAlterEntry_Entity = entity, QuotaAlterEntry_Ops = quota_ops sets removes\<rparr>]) (\<lambda>results.
    onOk (first_of results) (\<lambda>r.
      case QuotaAlterResult_Err r of
        Some err \<Rightarrow> fail err
      | None \<Rightarrow> onOk (currentQuotaValues svc entity) (\<lambda>vals.
          ret \<lparr>AQR_Entity = entity, AQR_Values = sorted_quota_values vals\<rparr>)))"

definition AlterQuota ::
  "'s Service \<Rightarrow> Caller \<Rightarrow> QuotaEntity \<Rightarrow> (string \<times> float64) list \<Rightarrow> string list \<Rightarrow> string \<Rightarrow> bool
   \<Rightarrow> ('s, (AlterQuotaPlan, AlterQuotaResult) DResult \<times> Err) eff" where
  "AlterQuota svc caller entity sets removes confirm dryRun =
    destructive_cmd svc ''quota'' ''S2'' caller (entityDescriptor entity) AlterQuotaPlan_ops confirm dryRun
      (PlanAlterQuota svc entity sets removes) (\<lambda>_. ApplyAlterQuota svc entity sets removes)"

end
