(* ===== verification/SecurityDTO.thy ===== *)
theory SecurityDTO
  imports SecurityService Handlers
begin

text \<open>
  The request and response types of the credential and quota operations (\<^verbatim>\<open>internal/api/security/dto.go\<close>),
  as in \<open>TopicDTO\<close>.
\<close>

section \<open>Types\<close>

record ScramCredentialDTO =
  ScramCredentialDTO_Mechanism :: string
  ScramCredentialDTO_Iterations :: int32

record ScramUserDTO =
  ScramUserDTO_Name :: string
  ScramUserDTO_Mechanisms :: "ScramCredentialDTO list"

type_synonym ListUsersInput = unit

record ListUsersBody =
  ListUsersBody_Users :: "ScramUserDTO list"

record ListUsersOutput =
  ListUsersOutput_Body :: ListUsersBody

record CreateUserRequestBody =
  CreateUserRequestBody_Name :: string
  CreateUserRequestBody_Mechanism :: string
  CreateUserRequestBody_Password :: string
  CreateUserRequestBody_Iterations :: int32

record CreateUserInput =
  CreateUserInput_Body :: CreateUserRequestBody

record CreateUserBody =
  CreateUserBody_Name :: string
  CreateUserBody_Mechanism :: string

record CreateUserOutput =
  CreateUserOutput_Status :: int64
  CreateUserOutput_Body :: CreateUserBody

record DeleteUserRequestBody =
  DeleteUserRequestBody_Confirm :: string
  DeleteUserRequestBody_Mechanism :: string

record DeleteUserInput =
  DeleteUserInput_Name :: string
  DeleteUserInput_DryRun :: bool
  DeleteUserInput_Body :: DeleteUserRequestBody

record DeleteUserPlanDTO =
  DeleteUserPlanDTO_User :: string
  DeleteUserPlanDTO_Mechanisms :: "string list"

record DeleteUserBody =
  DeleteUserBody_DryRun :: bool
  DeleteUserBody_Plan :: "DeleteUserPlanDTO option"
  DeleteUserBody_Deleted :: string

record DeleteUserOutput =
  DeleteUserOutput_Body :: DeleteUserBody

record QuotaEntityDTO =
  QuotaEntityDTO_User :: "string option"
  QuotaEntityDTO_ClientID :: "string option"
  QuotaEntityDTO_IP :: "string option"

record QuotaValuesDTO =
  QuotaValuesDTO_ProducerByteRate :: "float64 option"
  QuotaValuesDTO_ConsumerByteRate :: "float64 option"
  QuotaValuesDTO_RequestPercentage :: "float64 option"

record QuotaItemDTO =
  QuotaItemDTO_Entity :: QuotaEntityDTO
  QuotaItemDTO_Quotas :: QuotaValuesDTO

record ListQuotasInput =
  ListQuotasInput_EntityType :: string

record ListQuotasBody =
  ListQuotasBody_Items :: "QuotaItemDTO list"

record ListQuotasOutput =
  ListQuotasOutput_Body :: ListQuotasBody

record AlterQuotaRequestBody =
  AlterQuotaRequestBody_Confirm :: string
  AlterQuotaRequestBody_Entity :: QuotaEntityDTO
  AlterQuotaRequestBody_Set :: QuotaValuesDTO
  AlterQuotaRequestBody_Remove :: "string list"

record AlterQuotaInput =
  AlterQuotaInput_DryRun :: bool
  AlterQuotaInput_Body :: AlterQuotaRequestBody

record QuotaChangeDetailDTO =
  QuotaChangeDetailDTO_Key :: string
  QuotaChangeDetailDTO_From :: "float64 option"
  QuotaChangeDetailDTO_To :: "float64 option"

record AlterQuotaPlanDTO =
  AlterQuotaPlanDTO_Changes :: "QuotaChangeDetailDTO list"

record AlterQuotaBody =
  AlterQuotaBody_DryRun :: bool
  AlterQuotaBody_Plan :: "AlterQuotaPlanDTO option"
  AlterQuotaBody_Entity :: "QuotaEntityDTO option"
  AlterQuotaBody_Quotas :: "QuotaValuesDTO option"

record AlterQuotaOutput =
  AlterQuotaOutput_Body :: AlterQuotaBody

text \<open>The zero values that the composite literals of the handlers start from.\<close>

definition zero_DeleteUserBody :: DeleteUserBody where
  "zero_DeleteUserBody = \<lparr>DeleteUserBody_DryRun = False, DeleteUserBody_Plan = None,
     DeleteUserBody_Deleted = []\<rparr>"

definition zero_QuotaEntityDTO :: QuotaEntityDTO where
  "zero_QuotaEntityDTO = \<lparr>QuotaEntityDTO_User = None, QuotaEntityDTO_ClientID = None,
     QuotaEntityDTO_IP = None\<rparr>"

definition zero_QuotaValuesDTO :: QuotaValuesDTO where
  "zero_QuotaValuesDTO = \<lparr>QuotaValuesDTO_ProducerByteRate = None, QuotaValuesDTO_ConsumerByteRate = None,
     QuotaValuesDTO_RequestPercentage = None\<rparr>"

definition zero_AlterQuotaBody :: AlterQuotaBody where
  "zero_AlterQuotaBody = \<lparr>AlterQuotaBody_DryRun = False, AlterQuotaBody_Plan = None,
     AlterQuotaBody_Entity = None, AlterQuotaBody_Quotas = None\<rparr>"

section \<open>Encoding\<close>

definition json_ScramCredentialDTO :: "ScramCredentialDTO \<Rightarrow> any" where
  "json_ScramCredentialDTO d = AMap [(''mechanism'', AStr (ScramCredentialDTO_Mechanism d)),
      (''iterations'', AInt (ScramCredentialDTO_Iterations d))]"

definition json_ScramUserDTO :: "ScramUserDTO \<Rightarrow> any" where
  "json_ScramUserDTO d = AMap [(''name'', AStr (ScramUserDTO_Name d)),
      (''mechanisms'', AList (map json_ScramCredentialDTO (ScramUserDTO_Mechanisms d)))]"

definition json_ListUsersBody :: "ListUsersBody \<Rightarrow> any" where
  "json_ListUsersBody d = AMap [(''users'', AList (map json_ScramUserDTO (ListUsersBody_Users d)))]"

definition json_CreateUserBody :: "CreateUserBody \<Rightarrow> any" where
  "json_CreateUserBody d = AMap [(''name'', AStr (CreateUserBody_Name d)),
      (''mechanism'', AStr (CreateUserBody_Mechanism d))]"

definition json_DeleteUserPlanDTO :: "DeleteUserPlanDTO \<Rightarrow> any" where
  "json_DeleteUserPlanDTO d = AMap [(''user'', AStr (DeleteUserPlanDTO_User d)),
      (''mechanisms'', AList (map AStr (DeleteUserPlanDTO_Mechanisms d)))]"

definition json_DeleteUserBody :: "DeleteUserBody \<Rightarrow> any" where
  "json_DeleteUserBody d = AMap ((if \<not> DeleteUserBody_DryRun d then [] else [(''dryRun'', ABool (DeleteUserBody_DryRun d))])
     @ (if DeleteUserBody_Plan d = None then [] else [(''plan'', (case DeleteUserBody_Plan d of None \<Rightarrow> ANil | Some v \<Rightarrow> json_DeleteUserPlanDTO v))])
     @ (if DeleteUserBody_Deleted d = [] then [] else [(''deleted'', AStr (DeleteUserBody_Deleted d))]))"

definition json_QuotaEntityDTO :: "QuotaEntityDTO \<Rightarrow> any" where
  "json_QuotaEntityDTO d = AMap ((if QuotaEntityDTO_User d = None then [] else [(''user'', (case QuotaEntityDTO_User d of None \<Rightarrow> ANil | Some v \<Rightarrow> AStr v))])
     @ (if QuotaEntityDTO_ClientID d = None then [] else [(''clientId'', (case QuotaEntityDTO_ClientID d of None \<Rightarrow> ANil | Some v \<Rightarrow> AStr v))])
     @ (if QuotaEntityDTO_IP d = None then [] else [(''ip'', (case QuotaEntityDTO_IP d of None \<Rightarrow> ANil | Some v \<Rightarrow> AStr v))]))"

definition json_QuotaValuesDTO :: "QuotaValuesDTO \<Rightarrow> any" where
  "json_QuotaValuesDTO d = AMap ((if QuotaValuesDTO_ProducerByteRate d = None then [] else [(''producerByteRate'', (case QuotaValuesDTO_ProducerByteRate d of None \<Rightarrow> ANil | Some v \<Rightarrow> AFloat v))])
     @ (if QuotaValuesDTO_ConsumerByteRate d = None then [] else [(''consumerByteRate'', (case QuotaValuesDTO_ConsumerByteRate d of None \<Rightarrow> ANil | Some v \<Rightarrow> AFloat v))])
     @ (if QuotaValuesDTO_RequestPercentage d = None then [] else [(''requestPercentage'', (case QuotaValuesDTO_RequestPercentage d of None \<Rightarrow> ANil | Some v \<Rightarrow> AFloat v))]))"

definition json_QuotaItemDTO :: "QuotaItemDTO \<Rightarrow> any" where
  "json_QuotaItemDTO d = AMap [(''entity'', json_QuotaEntityDTO (QuotaItemDTO_Entity d)),
      (''quotas'', json_QuotaValuesDTO (QuotaItemDTO_Quotas d))]"

definition json_ListQuotasBody :: "ListQuotasBody \<Rightarrow> any" where
  "json_ListQuotasBody d = AMap [(''items'', AList (map json_QuotaItemDTO (ListQuotasBody_Items d)))]"

definition json_QuotaChangeDetailDTO :: "QuotaChangeDetailDTO \<Rightarrow> any" where
  "json_QuotaChangeDetailDTO d = AMap ([(''key'', AStr (QuotaChangeDetailDTO_Key d))]
     @ (if QuotaChangeDetailDTO_From d = None then [] else [(''from'', (case QuotaChangeDetailDTO_From d of None \<Rightarrow> ANil | Some v \<Rightarrow> AFloat v))])
     @ (if QuotaChangeDetailDTO_To d = None then [] else [(''to'', (case QuotaChangeDetailDTO_To d of None \<Rightarrow> ANil | Some v \<Rightarrow> AFloat v))]))"

definition json_AlterQuotaPlanDTO :: "AlterQuotaPlanDTO \<Rightarrow> any" where
  "json_AlterQuotaPlanDTO d = AMap [(''changes'', AList (map json_QuotaChangeDetailDTO (AlterQuotaPlanDTO_Changes d)))]"

definition json_AlterQuotaBody :: "AlterQuotaBody \<Rightarrow> any" where
  "json_AlterQuotaBody d = AMap ((if \<not> AlterQuotaBody_DryRun d then [] else [(''dryRun'', ABool (AlterQuotaBody_DryRun d))])
     @ (if AlterQuotaBody_Plan d = None then [] else [(''plan'', (case AlterQuotaBody_Plan d of None \<Rightarrow> ANil | Some v \<Rightarrow> json_AlterQuotaPlanDTO v))])
     @ (if AlterQuotaBody_Entity d = None then [] else [(''entity'', (case AlterQuotaBody_Entity d of None \<Rightarrow> ANil | Some v \<Rightarrow> json_QuotaEntityDTO v))])
     @ (if AlterQuotaBody_Quotas d = None then [] else [(''quotas'', (case AlterQuotaBody_Quotas d of None \<Rightarrow> ANil | Some v \<Rightarrow> json_QuotaValuesDTO v))]))"

definition wire_ListUsersOutput :: "ListUsersOutput \<Rightarrow> int \<times> any" where
  "wire_ListUsersOutput d = (StatusOK, json_ListUsersBody (ListUsersOutput_Body d))"

definition wire_CreateUserOutput :: "CreateUserOutput \<Rightarrow> int \<times> any" where
  "wire_CreateUserOutput d = (CreateUserOutput_Status d, json_CreateUserBody (CreateUserOutput_Body d))"

definition wire_DeleteUserOutput :: "DeleteUserOutput \<Rightarrow> int \<times> any" where
  "wire_DeleteUserOutput d = (StatusOK, json_DeleteUserBody (DeleteUserOutput_Body d))"

definition wire_ListQuotasOutput :: "ListQuotasOutput \<Rightarrow> int \<times> any" where
  "wire_ListQuotasOutput d = (StatusOK, json_ListQuotasBody (ListQuotasOutput_Body d))"

definition wire_AlterQuotaOutput :: "AlterQuotaOutput \<Rightarrow> int \<times> any" where
  "wire_AlterQuotaOutput d = (StatusOK, json_AlterQuotaBody (AlterQuotaOutput_Body d))"

end
