(* ===== verification/SecurityRoutes.thy ===== *)
theory SecurityRoutes
  imports SecurityDTO
begin

text \<open>
  The credential and quota operations of the HTTP interface (\<^verbatim>\<open>internal/api/security/routes.go\<close>,
  \<^verbatim>\<open>internal/api/security/mapping.go\<close>).
\<close>

definition security_Register :: "HumaOperation list" where
  "security_Register =
    [operation ''security-users-list'' ''GET'' ''/v1/scram-users'' ''S1'',
     operation ''security-users-create'' ''POST'' ''/v1/scram-users'' ''S1'',
     operation ''security-users-delete'' ''DELETE'' ''/v1/scram-users/{name}'' ''S1'',
     operation ''security-quotas-list'' ''GET'' ''/v1/quotas'' ''S2'',
     operation ''security-quotas-alter'' ''PATCH'' ''/v1/quotas'' ''S2'']"

section \<open>Mapping\<close>

definition quotaWireKeys :: "(string \<times> string) list" where
  "quotaWireKeys = [(''producerByteRate'', ''producer_byte_rate''), (''consumerByteRate'', ''consumer_byte_rate''),
     (''requestPercentage'', ''request_percentage'')]"

definition quotaAPIKeys :: "(string \<times> string) list" where
  "quotaAPIKeys = fold (\<lambda>(api, wire). mput wire api) quotaWireKeys []"

definition toWireQuotaKey :: "string \<Rightarrow> string" where
  "toWireQuotaKey apiKey = mget quotaWireKeys apiKey apiKey"

definition toAPIQuotaKey :: "string \<Rightarrow> string" where
  "toAPIQuotaKey wireKey = mget quotaAPIKeys wireKey wireKey"

definition toScramUserDTO :: "UserItem \<Rightarrow> ScramUserDTO" where
  "toScramUserDTO u = \<lparr>ScramUserDTO_Name = UI_Name u,
     ScramUserDTO_Mechanisms = map (\<lambda>c. \<lparr>ScramCredentialDTO_Mechanism = ScramCredential_Mechanism c,
       ScramCredentialDTO_Iterations = ScramCredential_Iterations c\<rparr>) (UI_Credentials u)\<rparr>"

definition toScramUserDTOs :: "UserItem list \<Rightarrow> ScramUserDTO list" where
  "toScramUserDTOs users = map toScramUserDTO users"

definition toDeleteUserPlanDTO :: "DeleteUserPlan \<Rightarrow> DeleteUserPlanDTO" where
  "toDeleteUserPlanDTO p = \<lparr>DeleteUserPlanDTO_User = DUP_User p, DeleteUserPlanDTO_Mechanisms = DUP_Mechanisms p\<rparr>"

definition entity_component :: "string \<Rightarrow> string option \<Rightarrow> QuotaEntity" where
  "entity_component t name =
    (if name \<noteq> None then [\<lparr>QuotaEntityComponent_Type = t, QuotaEntityComponent_Name = name\<rparr>] else [])"

definition toQuotaEntity :: "QuotaEntityDTO \<Rightarrow> QuotaEntity" where
  "toQuotaEntity dto =
    entity_component ''user'' (QuotaEntityDTO_User dto) @ entity_component ''client-id'' (QuotaEntityDTO_ClientID dto)
    @ entity_component ''ip'' (QuotaEntityDTO_IP dto)"

definition set_component :: "QuotaEntityComponent \<Rightarrow> QuotaEntityDTO \<Rightarrow> QuotaEntityDTO" where
  "set_component c dto =
    (if QuotaEntityComponent_Type c = ''user'' then dto\<lparr>QuotaEntityDTO_User := QuotaEntityComponent_Name c\<rparr>
     else if QuotaEntityComponent_Type c = ''client-id'' then dto\<lparr>QuotaEntityDTO_ClientID := QuotaEntityComponent_Name c\<rparr>
     else if QuotaEntityComponent_Type c = ''ip'' then dto\<lparr>QuotaEntityDTO_IP := QuotaEntityComponent_Name c\<rparr>
     else dto)"

definition toQuotaEntityDTO :: "QuotaEntity \<Rightarrow> QuotaEntityDTO" where
  "toQuotaEntityDTO entity = fold set_component entity zero_QuotaEntityDTO"

definition set_value :: "QuotaValue \<Rightarrow> QuotaValuesDTO \<Rightarrow> QuotaValuesDTO" where
  "set_value v dto =
    (let k = toAPIQuotaKey (QuotaValue_Key v) in
     if k = ''producerByteRate'' then dto\<lparr>QuotaValuesDTO_ProducerByteRate := Some (QuotaValue_Value v)\<rparr>
     else if k = ''consumerByteRate'' then dto\<lparr>QuotaValuesDTO_ConsumerByteRate := Some (QuotaValue_Value v)\<rparr>
     else if k = ''requestPercentage'' then dto\<lparr>QuotaValuesDTO_RequestPercentage := Some (QuotaValue_Value v)\<rparr>
     else dto)"

definition toQuotaValuesDTO :: "QuotaValue list \<Rightarrow> QuotaValuesDTO" where
  "toQuotaValuesDTO vs = fold set_value vs zero_QuotaValuesDTO"

definition toQuotaItemDTO :: "QuotaItem \<Rightarrow> QuotaItemDTO" where
  "toQuotaItemDTO item = \<lparr>QuotaItemDTO_Entity = toQuotaEntityDTO (QI_Entity item),
     QuotaItemDTO_Quotas = toQuotaValuesDTO (QI_Values item)\<rparr>"

definition toQuotaItemDTOs :: "QuotaItem list \<Rightarrow> QuotaItemDTO list" where
  "toQuotaItemDTOs items = map toQuotaItemDTO items"

definition put_quota :: "string \<Rightarrow> float64 option \<Rightarrow> (string \<times> float64) list \<Rightarrow> (string \<times> float64) list" where
  "put_quota api v m = (case v of None \<Rightarrow> m | Some x \<Rightarrow> mput (toWireQuotaKey api) x m)"

definition toQuotaSet :: "QuotaValuesDTO \<Rightarrow> (string \<times> float64) list" where
  "toQuotaSet dto =
    put_quota ''requestPercentage'' (QuotaValuesDTO_RequestPercentage dto)
      (put_quota ''consumerByteRate'' (QuotaValuesDTO_ConsumerByteRate dto)
        (put_quota ''producerByteRate'' (QuotaValuesDTO_ProducerByteRate dto) []))"

definition toQuotaRemove :: "string list \<Rightarrow> string list" where
  "toQuotaRemove remove = map toWireQuotaKey remove"

definition toAlterQuotaPlanDTO :: "AlterQuotaPlan \<Rightarrow> AlterQuotaPlanDTO" where
  "toAlterQuotaPlanDTO p = \<lparr>AlterQuotaPlanDTO_Changes = map (\<lambda>c.
     \<lparr>QuotaChangeDetailDTO_Key = toAPIQuotaKey (QC_Key c), QuotaChangeDetailDTO_From = QC_From c,
      QuotaChangeDetailDTO_To = QC_To c\<rparr>) (AQP_Changes p)\<rparr>"

section \<open>Boxed plans\<close>

definition unbox_DeleteUserPlan :: "any \<Rightarrow> DeleteUserPlan option" where
  "unbox_DeleteUserPlan a = do {
     user \<leftarrow> get_as ''DeletePlan'' ''User'' as_str a;
     mechs \<leftarrow> get_as ''DeletePlan'' ''Mechanisms'' (as_list as_str) a;
     Some \<lparr>DUP_User = user, DUP_Mechanisms = mechs\<rparr> }"

definition unbox_component :: "any \<Rightarrow> QuotaEntityComponent option" where
  "unbox_component a = do {
     t \<leftarrow> get_as ''QuotaEntityComponent'' ''Type'' as_str a;
     name \<leftarrow> get_as ''QuotaEntityComponent'' ''Name'' (as_opt as_str) a;
     Some \<lparr>QuotaEntityComponent_Type = t, QuotaEntityComponent_Name = name\<rparr> }"

definition unbox_QuotaChangeDetail :: "any \<Rightarrow> QuotaChangeDetail option" where
  "unbox_QuotaChangeDetail a = do {
     key \<leftarrow> get_as ''QuotaChangeDetail'' ''Key'' as_str a;
     frm \<leftarrow> get_as ''QuotaChangeDetail'' ''From'' (as_opt as_float) a;
     to \<leftarrow> get_as ''QuotaChangeDetail'' ''To'' (as_opt as_float) a;
     Some \<lparr>QC_Key = key, QC_From = frm, QC_To = to\<rparr> }"

definition unbox_AlterQuotaPlan :: "any \<Rightarrow> AlterQuotaPlan option" where
  "unbox_AlterQuotaPlan a = do {
     entity \<leftarrow> get_as ''AlterQuotaPlan'' ''Entity'' (as_list unbox_component) a;
     changes \<leftarrow> get_as ''AlterQuotaPlan'' ''Changes'' (as_list unbox_QuotaChangeDetail) a;
     Some \<lparr>AQP_Entity = entity, AQP_Changes = changes\<rparr> }"

lemma as_opt_float [unbox_simps]: "as_opt as_float (opt_float_any f) = Some f"
  by (cases f) (simp_all add: opt_float_any_def as_opt_def unbox_simps)

lemma as_opt_str [unbox_simps]: "as_opt as_str (case n of None \<Rightarrow> ANil | Some s \<Rightarrow> AStr s) = Some n"
  by (cases n) (simp_all add: as_opt_def unbox_simps)

lemma unbox_security_plans [unbox_simps]:
  "unbox_DeleteUserPlan (plan_any DeleteUserPlan_ops p1) = Some p1"
  "unbox_AlterQuotaPlan (plan_any AlterQuotaPlan_ops p2) = Some p2"
  by (simp_all add: unbox_DeleteUserPlan_def DeleteUserPlan_ops_def unbox_AlterQuotaPlan_def AlterQuotaPlan_ops_def
      unbox_component_def unbox_QuotaChangeDetail_def unbox_simps as_list_map)

section \<open>Handlers\<close>

definition listUsers :: "'s Service \<Rightarrow> Request \<Rightarrow> ListUsersInput \<Rightarrow> ('s, ListUsersOutput) reply" where
  "listUsers svc r _ =
    orMap r (ListUsers svc) (\<lambda>users.
      reply \<lparr>ListUsersOutput_Body = \<lparr>ListUsersBody_Users = toScramUserDTOs users\<rparr>\<rparr>)"

definition api_createUser :: "'s Service \<Rightarrow> Request \<Rightarrow> CreateUserInput \<Rightarrow> ('s, CreateUserOutput) reply" where
  "api_createUser svc r inp =
    (let body = CreateUserInput_Body inp in
     orMap r (security_Create svc (caller_of r)
         \<lparr>CUP_Name = CreateUserRequestBody_Name body, CUP_Mechanism = CreateUserRequestBody_Mechanism body,
          CUP_Password = CreateUserRequestBody_Password body, CUP_Iterations = CreateUserRequestBody_Iterations body\<rparr>)
       (\<lambda>result. reply \<lparr>CreateUserOutput_Status = StatusCreated, CreateUserOutput_Body =
          \<lparr>CreateUserBody_Name = CUR_Name result, CreateUserBody_Mechanism = CUR_Mechanism result\<rparr>\<rparr>))"

definition deleteUser :: "'s Service \<Rightarrow> Request \<Rightarrow> DeleteUserInput \<Rightarrow> ('s, DeleteUserOutput) reply" where
  "deleteUser svc r inp =
    (let body = DeleteUserInput_Body inp in
     orMapDestructive r unbox_DeleteUserPlan (\<lambda>p. json_DeleteUserPlanDTO (toDeleteUserPlanDTO p))
       (security_Delete svc (caller_of r) (DeleteUserInput_Name inp) (DeleteUserRequestBody_Mechanism body)
         (DeleteUserRequestBody_Confirm body) (DeleteUserInput_DryRun inp))
       (destructive_reply
         (\<lambda>p. \<lparr>DeleteUserOutput_Body = zero_DeleteUserBody\<lparr>DeleteUserBody_DryRun := True,
            DeleteUserBody_Plan := Some (toDeleteUserPlanDTO p)\<rparr>\<rparr>)
         (\<lambda>p v. \<lparr>DeleteUserOutput_Body = zero_DeleteUserBody\<lparr>DeleteUserBody_Deleted := v\<rparr>\<rparr>)))"

definition listQuotas :: "'s Service \<Rightarrow> Request \<Rightarrow> ListQuotasInput \<Rightarrow> ('s, ListQuotasOutput) reply" where
  "listQuotas svc r inp =
    orMap r (ListQuotas svc (ListQuotasInput_EntityType inp)) (\<lambda>items.
      reply \<lparr>ListQuotasOutput_Body = \<lparr>ListQuotasBody_Items = toQuotaItemDTOs items\<rparr>\<rparr>)"

definition alterQuota :: "'s Service \<Rightarrow> Request \<Rightarrow> AlterQuotaInput \<Rightarrow> ('s, AlterQuotaOutput) reply" where
  "alterQuota svc r inp =
    (let body = AlterQuotaInput_Body inp in
     orMapDestructive r unbox_AlterQuotaPlan (\<lambda>p. json_AlterQuotaPlanDTO (toAlterQuotaPlanDTO p))
       (AlterQuota svc (caller_of r) (toQuotaEntity (AlterQuotaRequestBody_Entity body))
         (toQuotaSet (AlterQuotaRequestBody_Set body)) (toQuotaRemove (AlterQuotaRequestBody_Remove body))
         (AlterQuotaRequestBody_Confirm body) (AlterQuotaInput_DryRun inp))
       (destructive_reply
         (\<lambda>p. \<lparr>AlterQuotaOutput_Body = zero_AlterQuotaBody\<lparr>AlterQuotaBody_DryRun := True,
            AlterQuotaBody_Plan := Some (toAlterQuotaPlanDTO p)\<rparr>\<rparr>)
         (\<lambda>p v. \<lparr>AlterQuotaOutput_Body = zero_AlterQuotaBody\<lparr>
            AlterQuotaBody_Entity := Some (toQuotaEntityDTO (AQR_Entity v)),
            AlterQuotaBody_Quotas := Some (toQuotaValuesDTO (AQR_Values v))\<rparr>\<rparr>)))"

section \<open>Round trips\<close>

lemma wire_keys [simp]:
  "toWireQuotaKey ''producerByteRate'' = ''producer_byte_rate''"
  "toWireQuotaKey ''consumerByteRate'' = ''consumer_byte_rate''"
  "toWireQuotaKey ''requestPercentage'' = ''request_percentage''"
  "toAPIQuotaKey ''producer_byte_rate'' = ''producerByteRate''"
  "toAPIQuotaKey ''consumer_byte_rate'' = ''consumerByteRate''"
  "toAPIQuotaKey ''request_percentage'' = ''requestPercentage''"
  by (simp_all add: toWireQuotaKey_def toAPIQuotaKey_def quotaWireKeys_def quotaAPIKeys_def mget_def)

lemma entity_round_trip: "toQuotaEntityDTO (toQuotaEntity dto) = dto"
  by (cases dto) (simp add: toQuotaEntityDTO_def toQuotaEntity_def entity_component_def set_component_def
      zero_QuotaEntityDTO_def)

lemma values_round_trip:
  "toQuotaValuesDTO (map (\<lambda>(k, v). \<lparr>QuotaValue_Key = k, QuotaValue_Value = v\<rparr>) (toQuotaSet dto)) = dto"
  by (cases dto) (auto simp: toQuotaValuesDTO_def toQuotaSet_def put_quota_def set_value_def zero_QuotaValuesDTO_def
      split: option.splits)

end
