(* ===== verification/ClusterService.thy ===== *)
theory ClusterService
  imports ServiceBase
begin

text \<open>
  The cluster commands C1, C2 and C4 to C12 (\<^verbatim>\<open>internal/service/cluster\<close>): description, health,
  inspection and sampling, export and import of topic definitions, and the destructive commands on
  broker configuration and partition assignment.

  \<open>regexp.Compile\<close> and \<open>time.Sleep\<close> are parameters.
\<close>

definition wrap16 :: "int \<Rightarrow> int16" where
  "wrap16 x = (x + 32768) mod 65536 - 32768"

definition cluster_newEvent :: "'s Service \<Rightarrow> Caller \<Rightarrow> string \<Rightarrow> string \<Rightarrow> ('s, Event) eff" where
  "cluster_newEvent svc caller commandID target =
    new_event svc (if commandID = ''C5'' then ''broker'' else ''cluster'') caller commandID target"

section \<open>C1 and C2: description\<close>

definition cluster_DescribeCluster :: "'s Service \<Rightarrow> ('s, ClusterInfo) eff" where
  "cluster_DescribeCluster svc = DescribeCluster (svc_admin svc)"

definition maskSensitive :: "ConfigEntry list \<Rightarrow> ConfigEntry list" where
  "maskSensitive configs =
    map (\<lambda>c. if ConfigEntry_IsSensitive c then c\<lparr>ConfigEntry_Value := []\<rparr> else c) configs"

definition DescribeBrokerConfig :: "'s Service \<Rightarrow> int32 \<Rightarrow> ('s, ConfigEntry list) eff" where
  "DescribeBrokerConfig svc brokerID =
    onOk (DescribeBrokerConfigs (svc_admin svc) brokerID) (\<lambda>configs. ret (maskSensitive configs))"

section \<open>C4: health\<close>

definition maxAffected :: int where "maxAffected = 1000"

definition IssueOffline :: string where "IssueOffline = ''offline''"
definition IssueUnderReplicated :: string where "IssueUnderReplicated = ''under_replicated''"
definition IssueNonPreferredLeader :: string where "IssueNonPreferredLeader = ''non_preferred_leader''"

record AffectedPartition =
  AP_Topic :: string
  AP_Partition :: int32
  AP_Issue :: string

record HealthSummary =
  HS_BrokersOnline :: int64
  HS_TopicsTotal :: int64
  HS_PartitionsTotal :: int64
  HS_PartitionsOffline :: int64
  HS_PartitionsUnderReplicated :: int64
  HS_PartitionsNonPreferredLeader :: int64
  HS_Affected :: "AffectedPartition list"
  HS_Truncated :: bool

definition addAffected :: "string \<Rightarrow> int32 \<Rightarrow> string \<Rightarrow> HealthSummary \<Rightarrow> HealthSummary" where
  "addAffected topic part issue h =
    (if int (length (HS_Affected h)) \<ge> maxAffected then h\<lparr>HS_Truncated := True\<rparr>
     else h\<lparr>HS_Affected := HS_Affected h @ [\<lparr>AP_Topic = topic, AP_Partition = part, AP_Issue = issue\<rparr>]\<rparr>)"

definition is_offline :: "Partition \<Rightarrow> bool" where
  "is_offline p \<longleftrightarrow> Partition_Leader p = - 1"

definition is_under_replicated :: "Partition \<Rightarrow> bool" where
  "is_under_replicated p \<longleftrightarrow> length (Partition_ISR p) < length (Partition_Replicas p)"

definition is_non_preferred :: "Partition \<Rightarrow> bool" where
  "is_non_preferred p \<longleftrightarrow> \<not> is_offline p \<and> (case Partition_Replicas p of [] \<Rightarrow> False | r # _ \<Rightarrow> Partition_Leader p \<noteq> r)"

definition health_count :: "string \<Rightarrow> Partition \<Rightarrow> HealthSummary \<Rightarrow> HealthSummary" where
  "health_count topic p h0 =
    (let h1 = h0\<lparr>HS_PartitionsTotal := wrap64 (HS_PartitionsTotal h0 + 1)\<rparr>;
         h2 = (if is_offline p
               then addAffected topic (Partition_ID p) IssueOffline
                 (h1\<lparr>HS_PartitionsOffline := wrap64 (HS_PartitionsOffline h1 + 1)\<rparr>) else h1);
         h3 = (if is_under_replicated p
               then addAffected topic (Partition_ID p) IssueUnderReplicated
                 (h2\<lparr>HS_PartitionsUnderReplicated := wrap64 (HS_PartitionsUnderReplicated h2 + 1)\<rparr>) else h2)
     in if is_non_preferred p
        then addAffected topic (Partition_ID p) IssueNonPreferredLeader
          (h3\<lparr>HS_PartitionsNonPreferredLeader := wrap64 (HS_PartitionsNonPreferredLeader h3 + 1)\<rparr>) else h3)"

definition sorted_partitions :: "Topic list \<Rightarrow> (string \<times> Partition) list" where
  "sorted_partitions topics =
    concat (map (\<lambda>t. map (Pair (Topic_Name t)) (sort_key Partition_ID (Topic_Partitions t)))
      (sort_key Topic_Name topics))"

definition health_start :: "ClusterMetadata \<Rightarrow> HealthSummary" where
  "health_start md =
    \<lparr>HS_BrokersOnline = int (length (ClusterMetadata_Brokers md)),
     HS_TopicsTotal = int (length (ClusterMetadata_Topics md)), HS_PartitionsTotal = 0,
     HS_PartitionsOffline = 0, HS_PartitionsUnderReplicated = 0, HS_PartitionsNonPreferredLeader = 0,
     HS_Affected = [], HS_Truncated = False\<rparr>"

definition health_of :: "ClusterMetadata \<Rightarrow> HealthSummary" where
  "health_of md = fold (\<lambda>(topic, p). health_count topic p) (sorted_partitions (ClusterMetadata_Topics md)) (health_start md)"

definition cluster_HealthSummary :: "'s Service \<Rightarrow> ('s, HealthSummary) eff" where
  "cluster_HealthSummary svc = onOk (Metadata (svc_admin svc)) (\<lambda>md. ret (health_of md))"

section \<open>C6 to C8: inspection\<close>

definition cluster_Quorum :: "'s Service \<Rightarrow> ('s, QuorumStatus) eff" where
  "cluster_Quorum svc = DescribeQuorum (svc_admin svc)"

definition cluster_Reassignments :: "'s Service \<Rightarrow> ('s, PartitionReassignment list) eff" where
  "cluster_Reassignments svc = ListReassignments (svc_admin svc)"

definition cluster_LogDirs :: "'s Service \<Rightarrow> int32 \<Rightarrow> ('s, BrokerLogDir list) eff" where
  "cluster_LogDirs svc brokerID =
    onOk (DescribeAllLogDirs (svc_admin svc)) (\<lambda>all.
      ret (if brokerID < 0 then all else filter (\<lambda>d. BrokerLogDir_BrokerID d = brokerID) all))"

section \<open>C10: throughput\<close>

definition cluster_resolveIntBound :: "string \<Rightarrow> int64 \<Rightarrow> int64 \<Rightarrow> int64 \<Rightarrow> ('s, int64) eff" where
  "cluster_resolveIntBound name v def ceil =
    (if v = 0 then ret def
     else if v > ceil then fail (policyErr BoundExceeded (name @ '' exceeds the configured ceiling''))
     else ret v)"

text \<open>
  \<open>float64(total) / float64(seconds)\<close> in IEEE 754 double precision, rounding to the nearest and ties to
  even: \<open>f64_ratio n d\<close> rounds the positive ratio \<open>n / d\<close> to 53 significant bits. Every ratio of two
  64-bit integers lies in the range of normal numbers.
\<close>

fun bit_length :: "nat \<Rightarrow> nat" where
  "bit_length n = (if n = 0 then 0 else Suc (bit_length (n div 2)))"

declare bit_length.simps [simp del]

definition scaled :: "nat \<Rightarrow> nat \<Rightarrow> int \<Rightarrow> nat \<times> nat" where
  "scaled n d e = (if e \<ge> 0 then (n, d * 2 ^ nat e) else (n * 2 ^ nat (- e), d))"

definition round_even :: "nat \<times> nat \<Rightarrow> nat" where
  "round_even nd = (case nd of (n, d) \<Rightarrow>
    (let q = n div d; r = n mod d
     in if 2 * r > d \<or> (2 * r = d \<and> odd q) then Suc q else q))"

definition f64_ratio :: "nat \<Rightarrow> nat \<Rightarrow> float64" where
  "f64_ratio n d =
    (if n = 0 then 0
     else (let e0 = int (bit_length n) - int (bit_length d) - 53;
               e1 = (if fst (scaled n d e0) \<ge> 2 ^ 53 * snd (scaled n d e0) then e0 + 1 else e0);
               m = round_even (scaled n d e1);
               (m', e) = (if m = 2 ^ 53 then (2 ^ 52, e1 + 1) else (m, e1))
           in nat (e + 52 + 1023) * 2 ^ 52 + (m' - 2 ^ 52)))"

definition f64_of_int :: "int64 \<Rightarrow> float64" where
  "f64_of_int i = (if i < 0 then 2 ^ 63 else 0) + f64_ratio (nat \<bar>i\<bar>) 1"

text \<open>The integer that \<open>float64(i)\<close> is, which differs from \<open>i\<close> only from \<open>2 ^ 53\<close> on.\<close>

definition int_to_53 :: "nat \<Rightarrow> nat" where
  "int_to_53 n = (let e = int (bit_length n) - 53 in if e \<le> 0 then n else round_even (n, 2 ^ nat e) * 2 ^ nat e)"

definition rate :: "int64 \<Rightarrow> int64 \<Rightarrow> float64" where
  "rate total_count seconds =
    (if (total_count < 0) \<noteq> (seconds < 0) then 2 ^ 63 else 0)
      + f64_ratio (int_to_53 (nat \<bar>total_count\<bar>)) (int_to_53 (nat \<bar>seconds\<bar>))"

record ThroughputItem =
  TI_Topic :: string
  TI_MessagesPerSecond :: float64
  TI_StartEndOffsets :: "(int32 \<times> int64) list"
  TI_FinishEndOffsets :: "(int32 \<times> int64) list"

definition throughputTopics :: "'s Service \<Rightarrow> string \<Rightarrow> ('s, string list) eff" where
  "throughputTopics svc topic =
    (if topic \<noteq> [] then ret [topic]
     else onOk (ListTopics (svc_admin svc)) (\<lambda>all.
        ret (sort (map TopicSummary_Name (filter (\<lambda>t. \<not> TopicSummary_Internal t) all)))))"

definition snapshotEndOffsets ::
  "'s Service \<Rightarrow> string list \<Rightarrow> ('s, (string \<times> (int32 \<times> int64) list) list) eff" where
  "snapshotEndOffsets svc topics =
    forEach topics (\<lambda>name out. onOk (ListEndOffsets (svc_admin svc) name) (\<lambda>e. ret (mput name e out))) []"

definition offset_growth :: "(int32 \<times> int64) list \<Rightarrow> (int32 \<times> int64) list \<Rightarrow> int64" where
  "offset_growth start finish =
    fold (\<lambda>(p, e) acc. wrap64 (acc + wrap64 (e - mget start 0 p))) finish 0"

definition defaultThroughputSeconds :: int where "defaultThroughputSeconds = 5"
definition maxThroughputSeconds :: int where "maxThroughputSeconds = 60"

definition cluster_Throughput ::
  "(int64 \<Rightarrow> ('s, unit) eff) \<Rightarrow> 's Service \<Rightarrow> string \<Rightarrow> int64 \<Rightarrow> ('s, ThroughputItem list \<times> int64) eff" where
  "cluster_Throughput sleep svc topic seconds0 =
    onOk (cluster_resolveIntBound ''seconds'' seconds0 defaultThroughputSeconds maxThroughputSeconds) (\<lambda>seconds.
    onOk (throughputTopics svc topic) (\<lambda>topics.
    onOk (snapshotEndOffsets svc topics) (\<lambda>start.
    onOk (sleep (wrap64 (seconds * 1000000000))) (\<lambda>_.
    onOk (snapshotEndOffsets svc topics) (\<lambda>finish.
      ret (map (\<lambda>name. let s = mget start [] name; f = mget finish [] name in
             \<lparr>TI_Topic = name, TI_MessagesPerSecond = rate (offset_growth s f) seconds,
              TI_StartEndOffsets = s, TI_FinishEndOffsets = f\<rparr>) topics, seconds))))))"

section \<open>C11: export\<close>

record ExportTopic =
  ET_Name :: string
  ET_Partitions :: int32
  ET_ReplicationFactor :: int16
  ET_Configs :: "(string \<times> string) list"

record Export =
  Export_ExportedAt :: time
  Export_Topics :: "ExportTopic list"

definition overrides :: "ConfigEntry list \<Rightarrow> (string \<times> string) list" where
  "overrides configs =
    fold (\<lambda>c. mput (ConfigEntry_Name c) (ConfigEntry_Value c))
      (filter (\<lambda>c. ConfigEntry_Source c = Some SourceDynamic) configs) []"

definition export_matches :: "(string \<Rightarrow> bool) option \<Rightarrow> TopicSummary \<Rightarrow> bool" where
  "export_matches re t \<longleftrightarrow> \<not> TopicSummary_Internal t
     \<and> (case re of None \<Rightarrow> True | Some m \<Rightarrow> m (TopicSummary_Name t))"

definition export_topics :: "'s Service \<Rightarrow> TopicSummary list \<Rightarrow> ('s, ExportTopic list) eff" where
  "export_topics svc matched =
    forEach matched (\<lambda>t out.
      onOk (DescribeTopicConfigs (svc_admin svc) (TopicSummary_Name t)) (\<lambda>configs.
        ret (out @ [\<lparr>ET_Name = TopicSummary_Name t, ET_Partitions = wrap32 (TopicSummary_PartitionCount t),
          ET_ReplicationFactor = wrap16 (TopicSummary_ReplicationFactor t), ET_Configs = overrides configs\<rparr>]))) []"

definition cluster_Export ::
  "(string \<Rightarrow> string + (string \<Rightarrow> bool)) \<Rightarrow> 's Service \<Rightarrow> string \<Rightarrow> ('s, Export) eff" where
  "cluster_Export compile svc pattern =
    (case (if pattern \<noteq> [] then map_sum id Some (compile pattern) else Inr None) of
       Inl msg \<Rightarrow> fail (policyErr InvalidRegex msg)
     | Inr re \<Rightarrow>
       onOk (ListTopics (svc_admin svc)) (\<lambda>all.
       onOk (export_topics svc (sort_key TopicSummary_Name (filter (export_matches re) all))) (\<lambda>topics.
       onOk (act (svc_now svc)) (\<lambda>t.
         ret \<lparr>Export_ExportedAt = t, Export_Topics = topics\<rparr>))))"

section \<open>C5: broker configuration\<close>

record cluster_ConfigChangeDetail =
  CC_Name :: string
  CC_From :: string
  CC_To :: string

record AlterBrokerConfigPlan =
  ABP_BrokerID :: string
  ABP_Changes :: "cluster_ConfigChangeDetail list"

definition change_any :: "cluster_ConfigChangeDetail \<Rightarrow> any" where
  "change_any c = AStruct ''ConfigChangeDetail''
     [(''Name'', AStr (CC_Name c)), (''From'', AStr (CC_From c)), (''To'', AStr (CC_To c))]"

definition AlterBrokerConfigPlan_ops :: "AlterBrokerConfigPlan PlanOps" where
  "AlterBrokerConfigPlan_ops = \<lparr>ConfirmTarget = ABP_BrokerID,
     plan_any = (\<lambda>p. AStruct ''AlterBrokerConfigPlan'' [(''BrokerID'', AStr (ABP_BrokerID p)),
        (''Changes'', AList (map change_any (ABP_Changes p)))])\<rparr>"

record AlterBrokerConfigResult =
  ABR_BrokerID :: int32
  ABR_Configs :: "ConfigEntry list"

definition entries_by_name :: "ConfigEntry list \<Rightarrow> (string \<times> ConfigEntry) list" where
  "entries_by_name current = fold (\<lambda>c. mput (ConfigEntry_Name c) c) current []"

definition current_value :: "ConfigEntry list \<Rightarrow> string \<Rightarrow> string" where
  "current_value current name = ConfigEntry_Value (mget (entries_by_name current) zero_ConfigEntry name)"

definition PlanAlterBrokerConfig ::
  "'s Service \<Rightarrow> int32 \<Rightarrow> (string \<times> string) list \<Rightarrow> string list \<Rightarrow> ('s, AlterBrokerConfigPlan) eff" where
  "PlanAlterBrokerConfig svc brokerID sets resets =
    onOk (DescribeBrokerConfigs (svc_admin svc) brokerID) (\<lambda>current.
      ret \<lparr>ABP_BrokerID = itoa brokerID, ABP_Changes = sort_key CC_Name
        (map (\<lambda>(name, val). \<lparr>CC_Name = name, CC_From = current_value current name, CC_To = val\<rparr>) sets
         @ map (\<lambda>name. \<lparr>CC_Name = name, CC_From = current_value current name, CC_To = []\<rparr>) resets)\<rparr>)"

definition broker_changes :: "(string \<times> string) list \<Rightarrow> string list \<Rightarrow> ConfigChange list" where
  "broker_changes sets resets =
     map (\<lambda>(name, val). \<lparr>ConfigChange_Name = name, ConfigChange_Value = Some val\<rparr>) sets
     @ map (\<lambda>name. \<lparr>ConfigChange_Name = name, ConfigChange_Value = None\<rparr>) resets"

definition ApplyAlterBrokerConfig ::
  "'s Service \<Rightarrow> int32 \<Rightarrow> (string \<times> string) list \<Rightarrow> string list \<Rightarrow> ('s, AlterBrokerConfigResult) eff" where
  "ApplyAlterBrokerConfig svc brokerID sets resets =
    onOk (IncrementalAlterBrokerConfigs (svc_admin svc) brokerID (broker_changes sets resets)) (\<lambda>_.
    onOk (DescribeBrokerConfigs (svc_admin svc) brokerID) (\<lambda>configs.
      ret \<lparr>ABR_BrokerID = brokerID, ABR_Configs = configs\<rparr>))"

definition cluster_destructive ::
  "'s Service \<Rightarrow> string \<Rightarrow> Caller \<Rightarrow> string \<Rightarrow> 'p PlanOps \<Rightarrow> string \<Rightarrow> bool \<Rightarrow> ('s, 'p) eff
   \<Rightarrow> ('p \<Rightarrow> ('s, 't) eff) \<Rightarrow> ('s, ('p, 't) DResult \<times> Err) eff" where
  "cluster_destructive svc commandID caller target ops confirm dryRun plan apply =
    destructive_cmd svc (if commandID = ''C5'' then ''broker'' else ''cluster'') commandID caller target ops
      confirm dryRun plan apply"

definition AlterBrokerConfig ::
  "'s Service \<Rightarrow> Caller \<Rightarrow> int32 \<Rightarrow> (string \<times> string) list \<Rightarrow> string list \<Rightarrow> string \<Rightarrow> bool
   \<Rightarrow> ('s, (AlterBrokerConfigPlan, AlterBrokerConfigResult) DResult \<times> Err) eff" where
  "AlterBrokerConfig svc caller brokerID sets resets confirm dryRun =
    cluster_destructive svc ''C5'' caller (itoa brokerID) AlterBrokerConfigPlan_ops confirm dryRun
      (PlanAlterBrokerConfig svc brokerID sets resets)
      (\<lambda>_. ApplyAlterBrokerConfig svc brokerID sets resets)"

section \<open>C9: reassignment and election\<close>

definition reassignTarget :: "TopicPartition \<Rightarrow> string" where
  "reassignTarget tp = fst tp @ ''/'' @ itoa (snd tp)"

text \<open>\<open>None\<close> is the nil replica list, which cancels.\<close>

record ReassignMove =
  RM_Topic :: string
  RM_Partition :: int32
  RM_Replicas :: "int32 list option"

definition move_target :: "ReassignMove \<Rightarrow> TopicPartition" where
  "move_target m = (RM_Topic m, RM_Partition m)"

record ReassignPlan =
  RePlan_Moves :: "ReassignMove list"
  RePlan_PlanToken :: string

definition ReassignPlan_ops :: "ReassignPlan PlanOps" where
  "ReassignPlan_ops = \<lparr>ConfirmTarget = RePlan_PlanToken,
     plan_any = (\<lambda>p. AStruct ''ReassignPlan''
       [(''Moves'', AList (map (\<lambda>m. AStruct ''ReassignMove'' [(''Topic'', AStr (RM_Topic m)),
           (''Partition'', AInt (RM_Partition m)),
           (''Replicas'', case RM_Replicas m of None \<Rightarrow> ANil | Some rs \<Rightarrow> AList (map AInt rs))]) (RePlan_Moves p))),
        (''PlanToken'', AStr (RePlan_PlanToken p))])\<rparr>"

definition PlanReassign :: "ReassignMove list \<Rightarrow> ('s, ReassignPlan) eff" where
  "PlanReassign moves =
    (let srt = sort_key move_target moves
     in ret \<lparr>RePlan_Moves = srt, RePlan_PlanToken = Token ''C9'' (map (\<lambda>m. reassignTarget (move_target m)) srt)\<rparr>)"

definition PlanCancelReassignments :: "TopicPartition list \<Rightarrow> ('s, ReassignPlan) eff" where
  "PlanCancelReassignments targets =
    (let srt = sort targets
     in ret \<lparr>RePlan_Moves = map (\<lambda>tp. \<lparr>RM_Topic = fst tp, RM_Partition = snd tp, RM_Replicas = None\<rparr>) srt,
         RePlan_PlanToken = Token ''C9'' (map reassignTarget srt)\<rparr>)"

text \<open>Per-item errors as a bulk result.\<close>

fun tally_errors :: "int64 \<Rightarrow> Err list \<Rightarrow> BulkItemResult list \<times> BulkSummary \<Rightarrow> BulkItemResult list \<times> BulkSummary" where
  "tally_errors i [] acc = acc"
| "tally_errors i (e # es) acc =
    (case e of
       Some err \<Rightarrow> tally_errors (i + 1) es (fst acc @ [failed_item i err], count_failed (snd acc))
     | None \<Rightarrow> tally_errors (i + 1) es (fst acc @ [succeeded_item i], count_succeeded (snd acc)))"

definition bulk_of_errors :: "Err list \<Rightarrow> BulkResult" where
  "bulk_of_errors es =
    (case tally_errors 0 es ([], \<lparr>BulkSummary_Total = int (length es), BulkSummary_Succeeded = 0, BulkSummary_Failed = 0\<rparr>) of
       (items, sm) \<Rightarrow> \<lparr>BulkResult_Items = items, BulkResult_Summary = sm\<rparr>)"

definition toReassignBulkResult :: "ReassignResult list \<Rightarrow> BulkResult" where
  "toReassignBulkResult results = bulk_of_errors (map ReassignResult_Err results)"

definition ApplyReassign :: "'s Service \<Rightarrow> ReassignPlan \<Rightarrow> ('s, BulkResult) eff" where
  "ApplyReassign svc plan =
    onOk (AlterPartitionAssignments (svc_admin svc)
        (fold (\<lambda>m. mput (move_target m) (RM_Replicas m)) (RePlan_Moves plan) [])) (\<lambda>results.
      ret (toReassignBulkResult results))"

definition Reassign ::
  "'s Service \<Rightarrow> Caller \<Rightarrow> ReassignMove list \<Rightarrow> string \<Rightarrow> bool \<Rightarrow> ('s, (ReassignPlan, BulkResult) DResult \<times> Err) eff" where
  "Reassign svc caller moves confirm dryRun =
    cluster_destructive svc ''C9'' caller [] ReassignPlan_ops confirm dryRun (PlanReassign moves) (ApplyReassign svc)"

definition CancelReassignments ::
  "'s Service \<Rightarrow> Caller \<Rightarrow> TopicPartition list \<Rightarrow> string \<Rightarrow> bool \<Rightarrow> ('s, (ReassignPlan, BulkResult) DResult \<times> Err) eff" where
  "CancelReassignments svc caller targets confirm dryRun =
    cluster_destructive svc ''C9'' caller [] ReassignPlan_ops confirm dryRun
      (PlanCancelReassignments targets) (ApplyReassign svc)"

record ElectPlan =
  EP_Preferred :: bool
  EP_Partitions :: "TopicPartition list"
  EP_PlanToken :: string

definition TopicPartition_any :: "TopicPartition \<Rightarrow> any" where
  "TopicPartition_any tp = AStruct ''TopicPartition'' [(''Topic'', AStr (fst tp)), (''Partition'', AInt (snd tp))]"

definition ElectPlan_ops :: "ElectPlan PlanOps" where
  "ElectPlan_ops = \<lparr>ConfirmTarget = EP_PlanToken,
     plan_any = (\<lambda>p. AStruct ''ElectPlan'' [(''Preferred'', ABool (EP_Preferred p)),
       (''Partitions'', AList (map TopicPartition_any (EP_Partitions p))),
       (''PlanToken'', AStr (EP_PlanToken p))])\<rparr>"

definition PlanElect :: "bool \<Rightarrow> TopicPartition list \<Rightarrow> ('s, ElectPlan) eff" where
  "PlanElect preferred partitions =
    (let srt = sort partitions
     in ret \<lparr>EP_Preferred = preferred, EP_Partitions = srt, EP_PlanToken = Token ''C9'' (map reassignTarget srt)\<rparr>)"

definition ApplyElect :: "'s Service \<Rightarrow> ElectPlan \<Rightarrow> ('s, BulkResult) eff" where
  "ApplyElect svc plan =
    onOk (ElectLeaders (svc_admin svc) (EP_Preferred plan) (EP_Partitions plan)) (\<lambda>results.
      ret (bulk_of_errors (map ElectLeaderResult_Err results)))"

definition Elect ::
  "'s Service \<Rightarrow> Caller \<Rightarrow> bool \<Rightarrow> TopicPartition list \<Rightarrow> string \<Rightarrow> bool \<Rightarrow> ('s, (ElectPlan, BulkResult) DResult \<times> Err) eff" where
  "Elect svc caller preferred partitions confirm dryRun =
    cluster_destructive svc ''C9'' caller [] ElectPlan_ops confirm dryRun
      (PlanElect preferred partitions) (ApplyElect svc)"

section \<open>C12: import\<close>

record ImportTopic =
  IT_Name :: string
  IT_Partitions :: int32
  IT_ReplicationFactor :: int16
  IT_Configs :: "(string \<times> string) list"

record ImportAlterAction =
  IA_Name :: string
  IA_Changes :: "cluster_ConfigChangeDetail list"

record ImportPlan =
  IP_Create :: "ImportTopic list"
  IP_Alter :: "ImportAlterAction list"
  IP_Delete :: "string list"
  IP_Unchanged :: "string list"
  IP_AllowDelete :: bool
  IP_PlanToken :: string

definition ImportTopic_any :: "ImportTopic \<Rightarrow> any" where
  "ImportTopic_any t = AStruct ''ImportTopic''
     [(''Name'', AStr (IT_Name t)), (''Partitions'', AInt (IT_Partitions t)),
      (''ReplicationFactor'', AInt (IT_ReplicationFactor t)),
      (''Configs'', AMap (map (\<lambda>(k, v). (k, AStr v)) (IT_Configs t)))]"

definition ImportPlan_ops :: "ImportPlan PlanOps" where
  "ImportPlan_ops = \<lparr>ConfirmTarget = IP_PlanToken,
     plan_any = (\<lambda>p. AStruct ''ImportPlan''
       [(''Create'', AList (map ImportTopic_any (IP_Create p))),
        (''Alter'', AList (map (\<lambda>a. AStruct ''ImportAlterAction'' [(''Name'', AStr (IA_Name a)),
           (''Changes'', AList (map change_any (IA_Changes a)))]) (IP_Alter p))),
        (''Delete'', AList (map AStr (IP_Delete p))), (''Unchanged'', AList (map AStr (IP_Unchanged p))),
        (''AllowDelete'', ABool (IP_AllowDelete p)), (''PlanToken'', AStr (IP_PlanToken p))])\<rparr>"

definition nl :: string where
  "nl = [char_of (10::nat)]"

definition definition_text :: "ImportTopic \<Rightarrow> string" where
  "definition_text t =
    itoa (IT_Partitions t) @ nl @ itoa (IT_ReplicationFactor t) @ nl
    @ concat (map (\<lambda>k. k @ ''='' @ mget (IT_Configs t) [] k @ nl) (sort (mkeys (IT_Configs t))))"

definition hashDefinition :: "ImportTopic \<Rightarrow> string" where
  "hashDefinition t = hex_encode (Sum256 (definition_text t))"

definition import_target :: "ImportTopic \<Rightarrow> string" where
  "import_target t = IT_Name t @ ''='' @ hashDefinition t"

text \<open>The three lists a desired topic may go to.\<close>

definition reconcile ::
  "'s Service \<Rightarrow> (string \<times> bool) list \<Rightarrow> ImportTopic
   \<Rightarrow> ImportTopic list \<times> ImportAlterAction list \<times> string list
   \<Rightarrow> ('s, ImportTopic list \<times> ImportAlterAction list \<times> string list) eff" where
  "reconcile svc existing dt acc = (case acc of (create, alt, unchanged) \<Rightarrow>
     if \<not> mget existing False (IT_Name dt) then ret (create @ [dt], alt, unchanged)
     else onOk (DescribeTopicConfigs (svc_admin svc) (IT_Name dt)) (\<lambda>configs.
       let changes = map (\<lambda>(k, v). \<lparr>CC_Name = k, CC_From = current_value configs k, CC_To = v\<rparr>)
             (filter (\<lambda>(k, v). current_value configs k \<noteq> v) (IT_Configs dt))
       in if changes = [] then ret (create, alt, unchanged @ [IT_Name dt])
          else ret (create, alt @ [\<lparr>IA_Name = IT_Name dt, IA_Changes = sort_key CC_Name changes\<rparr>], unchanged)))"

definition name_set :: "string list \<Rightarrow> (string \<times> bool) list" where
  "name_set names = fold (\<lambda>n. mput n True) names []"

definition PlanImport :: "'s Service \<Rightarrow> ImportTopic list \<Rightarrow> bool \<Rightarrow> ('s, ImportPlan) eff" where
  "PlanImport svc desired allowDelete =
    onOk (ListTopics (svc_admin svc)) (\<lambda>existing.
    let existingByName = name_set (map TopicSummary_Name (filter (\<lambda>t. \<not> TopicSummary_Internal t) existing));
        desiredByName = name_set (map IT_Name desired) in
    onOk (forEach desired (reconcile svc existingByName) ([], [], [])) (\<lambda>(create, alt, unchanged).
      ret \<lparr>IP_Create = sort_key IT_Name create, IP_Alter = sort_key IA_Name alt,
           IP_Delete = sort (filter (\<lambda>n. \<not> mget desiredByName False n) (mkeys existingByName)),
           IP_Unchanged = sort unchanged, IP_AllowDelete = allowDelete,
           IP_PlanToken = Token ''C12'' (map import_target desired)\<rparr>))"

record ImportItemResult =
  IIR_Name :: string
  IIR_Action :: string
  IIR_Outcome :: Outcome
  IIR_Error :: string

record ImportResult =
  IR_Items :: "ImportItemResult list"
  IR_Summary :: BulkSummary

definition import_item :: "string \<Rightarrow> string \<Rightarrow> Err \<Rightarrow> ImportResult \<Rightarrow> ImportResult" where
  "import_item action name itemErr r =
    (let sm = (IR_Summary r)\<lparr>BulkSummary_Total := wrap64 (BulkSummary_Total (IR_Summary r) + 1)\<rparr>
     in case itemErr of
          Some err \<Rightarrow> r\<lparr>IR_Items := IR_Items r @ [\<lparr>IIR_Name = name, IIR_Action = action,
              IIR_Outcome = OutcomeFailed, IIR_Error = err_Error err\<rparr>], IR_Summary := count_failed sm\<rparr>
        | None \<Rightarrow> r\<lparr>IR_Items := IR_Items r @ [\<lparr>IIR_Name = name, IIR_Action = action,
              IIR_Outcome = OutcomeSucceeded, IIR_Error = []\<rparr>], IR_Summary := count_succeeded sm\<rparr>)"

text \<open>\<open>firstErr\<close> and \<open>firstDeleteErr\<close>, over the answer of the call.\<close>

definition first_Err :: "('r \<Rightarrow> Err) \<Rightarrow> error + 'r list \<Rightarrow> Err" where
  "first_Err err_field answer =
    (case answer of Inl callErr \<Rightarrow> Some callErr
     | Inr [] \<Rightarrow> None | Inr (r # _) \<Rightarrow> err_field r)"

definition import_create :: "'s Service \<Rightarrow> ImportTopic \<Rightarrow> ImportResult \<Rightarrow> ('s, ImportResult) eff" where
  "import_create svc t r =
    attempt (CreateTopics (svc_admin svc)
        [\<lparr>TopicSpec_Name = IT_Name t, TopicSpec_Partitions = IT_Partitions t,
          TopicSpec_ReplicationFactor = IT_ReplicationFactor t, TopicSpec_Configs = IT_Configs t\<rparr>] False)
      (\<lambda>answer. ret (import_item ''create'' (IT_Name t) (first_Err TopicCreateResult_Err answer) r))"

definition import_alter :: "'s Service \<Rightarrow> ImportAlterAction \<Rightarrow> ImportResult \<Rightarrow> ('s, ImportResult) eff" where
  "import_alter svc a r =
    attempt (IncrementalAlterTopicConfigs (svc_admin svc) (IA_Name a)
        (map (\<lambda>c. \<lparr>ConfigChange_Name = CC_Name c, ConfigChange_Value = Some (CC_To c)\<rparr>) (IA_Changes a)))
      (\<lambda>answer. ret (import_item ''alter'' (IA_Name a)
         (case answer of Inl err \<Rightarrow> Some err | Inr _ \<Rightarrow> None) r))"

definition import_delete :: "'s Service \<Rightarrow> bool \<Rightarrow> string \<Rightarrow> ImportResult \<Rightarrow> ('s, ImportResult) eff" where
  "import_delete svc allowDelete name r =
    (if \<not> allowDelete then ret (r\<lparr>IR_Items := IR_Items r @ [\<lparr>IIR_Name = name, IIR_Action = ''skipped'',
        IIR_Outcome = OutcomeUnset, IIR_Error = []\<rparr>]\<rparr>)
     else attempt (DeleteTopics (svc_admin svc) [name])
       (\<lambda>answer. ret (import_item ''delete'' name (first_Err TopicDeleteResult_Err answer) r)))"

definition zero_ImportResult :: ImportResult where
  "zero_ImportResult = \<lparr>IR_Items = [],
     IR_Summary = \<lparr>BulkSummary_Total = 0, BulkSummary_Succeeded = 0, BulkSummary_Failed = 0\<rparr>\<rparr>"

definition ApplyImport :: "'s Service \<Rightarrow> ImportPlan \<Rightarrow> ('s, ImportResult) eff" where
  "ApplyImport svc plan =
    onOk (forEach (IP_Create plan) (import_create svc) zero_ImportResult) (\<lambda>r1.
    onOk (forEach (IP_Alter plan) (import_alter svc) r1) (\<lambda>r2.
      forEach (IP_Delete plan) (import_delete svc (IP_AllowDelete plan)) r2))"

definition Import ::
  "'s Service \<Rightarrow> Caller \<Rightarrow> ImportTopic list \<Rightarrow> bool \<Rightarrow> string \<Rightarrow> bool
   \<Rightarrow> ('s, (ImportPlan, ImportResult) DResult \<times> Err) eff" where
  "Import svc caller desired allowDelete confirm dryRun =
    cluster_destructive svc ''C12'' caller [] ImportPlan_ops confirm dryRun
      (PlanImport svc desired allowDelete) (ApplyImport svc)"

end
