(* ===== verification/ClusterDTO.thy ===== *)
theory ClusterDTO
  imports ClusterService Handlers GoTime
begin

text \<open>
  The request and response types of the cluster operations (\<^verbatim>\<open>internal/api/cluster/dto.go\<close>), as in
  \<open>TopicDTO\<close>. The replicas of a move are an option: the nil slice is not the empty one, it cancels.
\<close>

section \<open>Types\<close>

record BrokerDTO =
  BrokerDTO_ID :: int32
  BrokerDTO_Host :: string
  BrokerDTO_Port :: int32
  BrokerDTO_Rack :: string

type_synonym DescribeClusterInput = unit

record DescribeClusterBody =
  DescribeClusterBody_ClusterID :: string
  DescribeClusterBody_ControllerID :: int32
  DescribeClusterBody_Brokers :: "BrokerDTO list"

record DescribeClusterOutput =
  DescribeClusterOutput_Body :: DescribeClusterBody

record BrokerConfigEntryDTO =
  BrokerConfigEntryDTO_Name :: string
  BrokerConfigEntryDTO_Value :: "string option"
  BrokerConfigEntryDTO_Source :: string
  BrokerConfigEntryDTO_IsSensitive :: bool
  BrokerConfigEntryDTO_IsReadOnly :: bool

record DescribeBrokerConfigInput =
  DescribeBrokerConfigInput_BrokerID :: int32

record DescribeBrokerConfigBody =
  DescribeBrokerConfigBody_BrokerID :: int32
  DescribeBrokerConfigBody_Configs :: "BrokerConfigEntryDTO list"

record DescribeBrokerConfigOutput =
  DescribeBrokerConfigOutput_Body :: DescribeBrokerConfigBody

type_synonym ClusterHealthInput = unit

record BrokersHealthDTO =
  BrokersHealthDTO_Online :: int64

record TopicsHealthDTO =
  TopicsHealthDTO_Total :: int64

record PartitionsHealthDTO =
  PartitionsHealthDTO_Total :: int64
  PartitionsHealthDTO_UnderReplicated :: int64
  PartitionsHealthDTO_Offline :: int64
  PartitionsHealthDTO_NonPreferredLeader :: int64

record AffectedDTO =
  AffectedDTO_Topic :: string
  AffectedDTO_Partition :: int32
  AffectedDTO_Issue :: string

record ClusterHealthBody =
  ClusterHealthBody_Brokers :: BrokersHealthDTO
  ClusterHealthBody_Topics :: TopicsHealthDTO
  ClusterHealthBody_Partitions :: PartitionsHealthDTO
  ClusterHealthBody_Affected :: "AffectedDTO list"
  ClusterHealthBody_Truncated :: bool

record ClusterHealthOutput =
  ClusterHealthOutput_Body :: ClusterHealthBody

record QuorumReplicaStateDTO =
  QuorumReplicaStateDTO_ID :: int32
  QuorumReplicaStateDTO_LogEndOffset :: int64
  QuorumReplicaStateDTO_LagMs :: int64

type_synonym QuorumInput = unit

record QuorumBody =
  QuorumBody_LeaderID :: int32
  QuorumBody_Epoch :: int32
  QuorumBody_Voters :: "QuorumReplicaStateDTO list"
  QuorumBody_Observers :: "QuorumReplicaStateDTO list"

record QuorumOutput =
  QuorumOutput_Body :: QuorumBody

record ReassignmentDTO =
  ReassignmentDTO_Topic :: string
  ReassignmentDTO_Partition :: int32
  ReassignmentDTO_Replicas :: "int32 list"
  ReassignmentDTO_AddingReplicas :: "int32 list"
  ReassignmentDTO_RemovingReplicas :: "int32 list"

type_synonym ListReassignmentsInput = unit

record ListReassignmentsBody =
  ListReassignmentsBody_Items :: "ReassignmentDTO list"

record ListReassignmentsOutput =
  ListReassignmentsOutput_Body :: ListReassignmentsBody

record BrokerLogDirDTO =
  BrokerLogDirDTO_BrokerID :: int32
  BrokerLogDirDTO_LogDir :: string
  BrokerLogDirDTO_TotalBytes :: int64
  BrokerLogDirDTO_Partitions :: int64

record LogDirsInput =
  LogDirsInput_BrokerID :: int32

record LogDirsBody =
  LogDirsBody_Items :: "BrokerLogDirDTO list"

record LogDirsOutput =
  LogDirsOutput_Body :: LogDirsBody

record ThroughputInput =
  ThroughputInput_Topic :: string
  ThroughputInput_Seconds :: int64

record ThroughputItemDTO =
  ThroughputItemDTO_Topic :: string
  ThroughputItemDTO_MessagesPerSecond :: float64
  ThroughputItemDTO_StartEndOffsets :: "(string \<times> int64) list"
  ThroughputItemDTO_FinishEndOffsets :: "(string \<times> int64) list"

record ThroughputBody =
  ThroughputBody_Seconds :: int64
  ThroughputBody_Items :: "ThroughputItemDTO list"

record ThroughputOutput =
  ThroughputOutput_Body :: ThroughputBody

record ExportTopicDTO =
  ExportTopicDTO_Name :: string
  ExportTopicDTO_Partitions :: int32
  ExportTopicDTO_ReplicationFactor :: int16
  ExportTopicDTO_Configs :: "(string \<times> string) list"

record ExportInput =
  ExportInput_Pattern :: string

record ExportBody =
  ExportBody_ExportedAt :: string
  ExportBody_Topics :: "ExportTopicDTO list"

record ExportOutput =
  ExportOutput_Body :: ExportBody

record AlterBrokerConfigRequestBody =
  AlterBrokerConfigRequestBody_Confirm :: string
  AlterBrokerConfigRequestBody_Set :: "(string \<times> string) list"
  AlterBrokerConfigRequestBody_Reset :: "string list"

record AlterBrokerConfigInput =
  AlterBrokerConfigInput_BrokerID :: int32
  AlterBrokerConfigInput_DryRun :: bool
  AlterBrokerConfigInput_Body :: AlterBrokerConfigRequestBody

record ClusterConfigChangeDetailDTO =
  ClusterConfigChangeDetailDTO_Name :: string
  ClusterConfigChangeDetailDTO_From :: string
  ClusterConfigChangeDetailDTO_To :: string

record AlterBrokerConfigPlanDTO =
  AlterBrokerConfigPlanDTO_BrokerID :: string
  AlterBrokerConfigPlanDTO_Changes :: "ClusterConfigChangeDetailDTO list"

record AlterBrokerConfigBody =
  AlterBrokerConfigBody_DryRun :: bool
  AlterBrokerConfigBody_Plan :: "AlterBrokerConfigPlanDTO option"
  AlterBrokerConfigBody_BrokerID :: int32
  AlterBrokerConfigBody_Configs :: "BrokerConfigEntryDTO list"

record AlterBrokerConfigOutput =
  AlterBrokerConfigOutput_Body :: AlterBrokerConfigBody

record BulkItemResultDTO =
  BulkItemResultDTO_Index :: int64
  BulkItemResultDTO_Status :: string
  BulkItemResultDTO_Error :: string

record ClusterBulkSummaryDTO =
  ClusterBulkSummaryDTO_Total :: int64
  ClusterBulkSummaryDTO_OK :: int64
  ClusterBulkSummaryDTO_Failed :: int64

record ReassignMoveDTO =
  ReassignMoveDTO_Topic :: string
  ReassignMoveDTO_Partition :: int32
  ReassignMoveDTO_Replicas :: "int32 list option"

record ReassignRequestBody =
  ReassignRequestBody_Confirm :: string
  ReassignRequestBody_Reassignments :: "ReassignMoveDTO list"

record ReassignInput =
  ReassignInput_DryRun :: bool
  ReassignInput_Body :: ReassignRequestBody

record ReassignPlanDTO =
  ReassignPlanDTO_Moves :: "ReassignMoveDTO list"
  ReassignPlanDTO_PlanToken :: string

record ReassignBody =
  ReassignBody_DryRun :: bool
  ReassignBody_Plan :: "ReassignPlanDTO option"
  ReassignBody_Items :: "BulkItemResultDTO list"
  ReassignBody_Summary :: "ClusterBulkSummaryDTO option"

record ReassignOutput =
  ReassignOutput_Status :: int64
  ReassignOutput_Body :: ReassignBody

record CancelReassignmentTargetDTO =
  CancelReassignmentTargetDTO_Topic :: string
  CancelReassignmentTargetDTO_Partition :: int32

record CancelReassignmentsRequestBody =
  CancelReassignmentsRequestBody_Confirm :: string
  CancelReassignmentsRequestBody_Cancel :: "CancelReassignmentTargetDTO list"

record CancelReassignmentsInput =
  CancelReassignmentsInput_DryRun :: bool
  CancelReassignmentsInput_Body :: CancelReassignmentsRequestBody

record ElectTargetDTO =
  ElectTargetDTO_Topic :: string
  ElectTargetDTO_Partition :: int32

record ElectSpecDTO =
  ElectSpecDTO_Type :: string
  ElectSpecDTO_Partitions :: "ElectTargetDTO list"

record ElectionsRequestBody =
  ElectionsRequestBody_Confirm :: string
  ElectionsRequestBody_Elect :: ElectSpecDTO

record ElectionsInput =
  ElectionsInput_DryRun :: bool
  ElectionsInput_Body :: ElectionsRequestBody

record ElectPlanDTO =
  ElectPlanDTO_Elections :: "ElectTargetDTO list"
  ElectPlanDTO_PlanToken :: string

record ElectionsBody =
  ElectionsBody_DryRun :: bool
  ElectionsBody_Plan :: "ElectPlanDTO option"
  ElectionsBody_Items :: "BulkItemResultDTO list"
  ElectionsBody_Summary :: "ClusterBulkSummaryDTO option"

record ElectionsOutput =
  ElectionsOutput_Status :: int64
  ElectionsOutput_Body :: ElectionsBody

record ApplyTopicsRequestBody =
  ApplyTopicsRequestBody_Confirm :: string
  ApplyTopicsRequestBody_AllowDelete :: bool
  ApplyTopicsRequestBody_Topics :: "ExportTopicDTO list"

record ApplyTopicsInput =
  ApplyTopicsInput_DryRun :: bool
  ApplyTopicsInput_Body :: ApplyTopicsRequestBody

record ImportAlterActionDTO =
  ImportAlterActionDTO_Name :: string
  ImportAlterActionDTO_Changes :: "ClusterConfigChangeDetailDTO list"

record ApplyTopicsPlanDTO =
  ApplyTopicsPlanDTO_Create :: "ExportTopicDTO list"
  ApplyTopicsPlanDTO_Alter :: "ImportAlterActionDTO list"
  ApplyTopicsPlanDTO_Delete :: "string list"
  ApplyTopicsPlanDTO_Unchanged :: "string list"
  ApplyTopicsPlanDTO_PlanToken :: string

record ApplyTopicsItemResultDTO =
  ApplyTopicsItemResultDTO_Name :: string
  ApplyTopicsItemResultDTO_Action :: string
  ApplyTopicsItemResultDTO_Status :: string
  ApplyTopicsItemResultDTO_Error :: string

record ApplyTopicsBody =
  ApplyTopicsBody_DryRun :: bool
  ApplyTopicsBody_Plan :: "ApplyTopicsPlanDTO option"
  ApplyTopicsBody_Items :: "ApplyTopicsItemResultDTO list"
  ApplyTopicsBody_Summary :: "ClusterBulkSummaryDTO option"

record ApplyTopicsOutput =
  ApplyTopicsOutput_Status :: int64
  ApplyTopicsOutput_Body :: ApplyTopicsBody

text \<open>The zero values that the composite literals of the handlers start from.\<close>

definition zero_AlterBrokerConfigBody :: AlterBrokerConfigBody where
  "zero_AlterBrokerConfigBody = \<lparr>AlterBrokerConfigBody_DryRun = False, AlterBrokerConfigBody_Plan = None,
     AlterBrokerConfigBody_BrokerID = 0, AlterBrokerConfigBody_Configs = []\<rparr>"

definition zero_ReassignBody :: ReassignBody where
  "zero_ReassignBody = \<lparr>ReassignBody_DryRun = False, ReassignBody_Plan = None, ReassignBody_Items = [],
     ReassignBody_Summary = None\<rparr>"

definition zero_ElectionsBody :: ElectionsBody where
  "zero_ElectionsBody = \<lparr>ElectionsBody_DryRun = False, ElectionsBody_Plan = None,
     ElectionsBody_Items = [], ElectionsBody_Summary = None\<rparr>"

definition zero_ApplyTopicsBody :: ApplyTopicsBody where
  "zero_ApplyTopicsBody = \<lparr>ApplyTopicsBody_DryRun = False, ApplyTopicsBody_Plan = None,
     ApplyTopicsBody_Items = [], ApplyTopicsBody_Summary = None\<rparr>"

section \<open>Encoding\<close>

definition json_BrokerDTO :: "BrokerDTO \<Rightarrow> any" where
  "json_BrokerDTO d = AMap [(''id'', AInt (BrokerDTO_ID d)),
      (''host'', AStr (BrokerDTO_Host d)),
      (''port'', AInt (BrokerDTO_Port d)),
      (''rack'', AStr (BrokerDTO_Rack d))]"

definition json_DescribeClusterBody :: "DescribeClusterBody \<Rightarrow> any" where
  "json_DescribeClusterBody d = AMap [(''clusterId'', AStr (DescribeClusterBody_ClusterID d)),
      (''controllerId'', AInt (DescribeClusterBody_ControllerID d)),
      (''brokers'', AList (map json_BrokerDTO (DescribeClusterBody_Brokers d)))]"

definition json_BrokerConfigEntryDTO :: "BrokerConfigEntryDTO \<Rightarrow> any" where
  "json_BrokerConfigEntryDTO d = AMap [(''name'', AStr (BrokerConfigEntryDTO_Name d)),
      (''value'', (case BrokerConfigEntryDTO_Value d of None \<Rightarrow> ANil | Some v \<Rightarrow> AStr v)),
      (''source'', AStr (BrokerConfigEntryDTO_Source d)),
      (''isSensitive'', ABool (BrokerConfigEntryDTO_IsSensitive d)),
      (''isReadOnly'', ABool (BrokerConfigEntryDTO_IsReadOnly d))]"

definition json_DescribeBrokerConfigBody :: "DescribeBrokerConfigBody \<Rightarrow> any" where
  "json_DescribeBrokerConfigBody d = AMap [(''brokerId'', AInt (DescribeBrokerConfigBody_BrokerID d)),
      (''configs'', AList (map json_BrokerConfigEntryDTO (DescribeBrokerConfigBody_Configs d)))]"

definition json_BrokersHealthDTO :: "BrokersHealthDTO \<Rightarrow> any" where
  "json_BrokersHealthDTO d = AMap [(''online'', AInt (BrokersHealthDTO_Online d))]"

definition json_TopicsHealthDTO :: "TopicsHealthDTO \<Rightarrow> any" where
  "json_TopicsHealthDTO d = AMap [(''total'', AInt (TopicsHealthDTO_Total d))]"

definition json_PartitionsHealthDTO :: "PartitionsHealthDTO \<Rightarrow> any" where
  "json_PartitionsHealthDTO d = AMap [(''total'', AInt (PartitionsHealthDTO_Total d)),
      (''underReplicated'', AInt (PartitionsHealthDTO_UnderReplicated d)),
      (''offline'', AInt (PartitionsHealthDTO_Offline d)),
      (''nonPreferredLeader'', AInt (PartitionsHealthDTO_NonPreferredLeader d))]"

definition json_AffectedDTO :: "AffectedDTO \<Rightarrow> any" where
  "json_AffectedDTO d = AMap [(''topic'', AStr (AffectedDTO_Topic d)),
      (''partition'', AInt (AffectedDTO_Partition d)),
      (''issue'', AStr (AffectedDTO_Issue d))]"

definition json_ClusterHealthBody :: "ClusterHealthBody \<Rightarrow> any" where
  "json_ClusterHealthBody d = AMap [(''brokers'', json_BrokersHealthDTO (ClusterHealthBody_Brokers d)),
      (''topics'', json_TopicsHealthDTO (ClusterHealthBody_Topics d)),
      (''partitions'', json_PartitionsHealthDTO (ClusterHealthBody_Partitions d)),
      (''affected'', AList (map json_AffectedDTO (ClusterHealthBody_Affected d))),
      (''truncated'', ABool (ClusterHealthBody_Truncated d))]"

definition json_QuorumReplicaStateDTO :: "QuorumReplicaStateDTO \<Rightarrow> any" where
  "json_QuorumReplicaStateDTO d = AMap [(''id'', AInt (QuorumReplicaStateDTO_ID d)),
      (''logEndOffset'', AInt (QuorumReplicaStateDTO_LogEndOffset d)),
      (''lagMs'', AInt (QuorumReplicaStateDTO_LagMs d))]"

definition json_QuorumBody :: "QuorumBody \<Rightarrow> any" where
  "json_QuorumBody d = AMap [(''leaderId'', AInt (QuorumBody_LeaderID d)),
      (''epoch'', AInt (QuorumBody_Epoch d)),
      (''voters'', AList (map json_QuorumReplicaStateDTO (QuorumBody_Voters d))),
      (''observers'', AList (map json_QuorumReplicaStateDTO (QuorumBody_Observers d)))]"

definition json_ReassignmentDTO :: "ReassignmentDTO \<Rightarrow> any" where
  "json_ReassignmentDTO d = AMap [(''topic'', AStr (ReassignmentDTO_Topic d)),
      (''partition'', AInt (ReassignmentDTO_Partition d)),
      (''replicas'', AList (map AInt (ReassignmentDTO_Replicas d))),
      (''addingReplicas'', AList (map AInt (ReassignmentDTO_AddingReplicas d))),
      (''removingReplicas'', AList (map AInt (ReassignmentDTO_RemovingReplicas d)))]"

definition json_ListReassignmentsBody :: "ListReassignmentsBody \<Rightarrow> any" where
  "json_ListReassignmentsBody d = AMap [(''items'', AList (map json_ReassignmentDTO (ListReassignmentsBody_Items d)))]"

definition json_BrokerLogDirDTO :: "BrokerLogDirDTO \<Rightarrow> any" where
  "json_BrokerLogDirDTO d = AMap [(''brokerId'', AInt (BrokerLogDirDTO_BrokerID d)),
      (''logDir'', AStr (BrokerLogDirDTO_LogDir d)),
      (''totalBytes'', AInt (BrokerLogDirDTO_TotalBytes d)),
      (''partitions'', AInt (BrokerLogDirDTO_Partitions d))]"

definition json_LogDirsBody :: "LogDirsBody \<Rightarrow> any" where
  "json_LogDirsBody d = AMap [(''items'', AList (map json_BrokerLogDirDTO (LogDirsBody_Items d)))]"

definition json_ThroughputItemDTO :: "ThroughputItemDTO \<Rightarrow> any" where
  "json_ThroughputItemDTO d = AMap [(''topic'', AStr (ThroughputItemDTO_Topic d)),
      (''messagesPerSecond'', AFloat (ThroughputItemDTO_MessagesPerSecond d)),
      (''startEndOffsets'', AMap (map (\<lambda>(k, v). (k, AInt v)) (ThroughputItemDTO_StartEndOffsets d))),
      (''finishEndOffsets'', AMap (map (\<lambda>(k, v). (k, AInt v)) (ThroughputItemDTO_FinishEndOffsets d)))]"

definition json_ThroughputBody :: "ThroughputBody \<Rightarrow> any" where
  "json_ThroughputBody d = AMap [(''seconds'', AInt (ThroughputBody_Seconds d)),
      (''items'', AList (map json_ThroughputItemDTO (ThroughputBody_Items d)))]"

definition json_ExportTopicDTO :: "ExportTopicDTO \<Rightarrow> any" where
  "json_ExportTopicDTO d = AMap ([(''name'', AStr (ExportTopicDTO_Name d)),
      (''partitions'', AInt (ExportTopicDTO_Partitions d)),
      (''replicationFactor'', AInt (ExportTopicDTO_ReplicationFactor d))]
     @ (if ExportTopicDTO_Configs d = [] then [] else [(''configs'', AMap (map (\<lambda>(k, v). (k, AStr v)) (ExportTopicDTO_Configs d)))]))"

definition json_ExportBody :: "ExportBody \<Rightarrow> any" where
  "json_ExportBody d = AMap [(''exportedAt'', AStr (ExportBody_ExportedAt d)),
      (''topics'', AList (map json_ExportTopicDTO (ExportBody_Topics d)))]"

definition json_ClusterConfigChangeDetailDTO :: "ClusterConfigChangeDetailDTO \<Rightarrow> any" where
  "json_ClusterConfigChangeDetailDTO d = AMap [(''name'', AStr (ClusterConfigChangeDetailDTO_Name d)),
      (''from'', AStr (ClusterConfigChangeDetailDTO_From d)),
      (''to'', AStr (ClusterConfigChangeDetailDTO_To d))]"

definition json_AlterBrokerConfigPlanDTO :: "AlterBrokerConfigPlanDTO \<Rightarrow> any" where
  "json_AlterBrokerConfigPlanDTO d = AMap [(''brokerId'', AStr (AlterBrokerConfigPlanDTO_BrokerID d)),
      (''changes'', AList (map json_ClusterConfigChangeDetailDTO (AlterBrokerConfigPlanDTO_Changes d)))]"

definition json_AlterBrokerConfigBody :: "AlterBrokerConfigBody \<Rightarrow> any" where
  "json_AlterBrokerConfigBody d = AMap ((if \<not> AlterBrokerConfigBody_DryRun d then [] else [(''dryRun'', ABool (AlterBrokerConfigBody_DryRun d))])
     @ (if AlterBrokerConfigBody_Plan d = None then [] else [(''plan'', (case AlterBrokerConfigBody_Plan d of None \<Rightarrow> ANil | Some v \<Rightarrow> json_AlterBrokerConfigPlanDTO v))])
     @ (if AlterBrokerConfigBody_BrokerID d = 0 then [] else [(''brokerId'', AInt (AlterBrokerConfigBody_BrokerID d))])
     @ (if AlterBrokerConfigBody_Configs d = [] then [] else [(''configs'', AList (map json_BrokerConfigEntryDTO (AlterBrokerConfigBody_Configs d)))]))"

definition json_BulkItemResultDTO :: "BulkItemResultDTO \<Rightarrow> any" where
  "json_BulkItemResultDTO d = AMap ([(''index'', AInt (BulkItemResultDTO_Index d)),
      (''status'', AStr (BulkItemResultDTO_Status d))]
     @ (if BulkItemResultDTO_Error d = [] then [] else [(''error'', AStr (BulkItemResultDTO_Error d))]))"

definition json_ClusterBulkSummaryDTO :: "ClusterBulkSummaryDTO \<Rightarrow> any" where
  "json_ClusterBulkSummaryDTO d = AMap [(''total'', AInt (ClusterBulkSummaryDTO_Total d)),
      (''ok'', AInt (ClusterBulkSummaryDTO_OK d)),
      (''failed'', AInt (ClusterBulkSummaryDTO_Failed d))]"

definition json_ReassignMoveDTO :: "ReassignMoveDTO \<Rightarrow> any" where
  "json_ReassignMoveDTO d = AMap [(''topic'', AStr (ReassignMoveDTO_Topic d)),
      (''partition'', AInt (ReassignMoveDTO_Partition d)),
      (''replicas'', (case ReassignMoveDTO_Replicas d of None \<Rightarrow> ANil | Some v \<Rightarrow> AList (map AInt (v))))]"

definition json_ReassignPlanDTO :: "ReassignPlanDTO \<Rightarrow> any" where
  "json_ReassignPlanDTO d = AMap [(''moves'', AList (map json_ReassignMoveDTO (ReassignPlanDTO_Moves d))),
      (''planToken'', AStr (ReassignPlanDTO_PlanToken d))]"

definition json_ReassignBody :: "ReassignBody \<Rightarrow> any" where
  "json_ReassignBody d = AMap ((if \<not> ReassignBody_DryRun d then [] else [(''dryRun'', ABool (ReassignBody_DryRun d))])
     @ (if ReassignBody_Plan d = None then [] else [(''plan'', (case ReassignBody_Plan d of None \<Rightarrow> ANil | Some v \<Rightarrow> json_ReassignPlanDTO v))])
     @ (if ReassignBody_Items d = [] then [] else [(''items'', AList (map json_BulkItemResultDTO (ReassignBody_Items d)))])
     @ (if ReassignBody_Summary d = None then [] else [(''summary'', (case ReassignBody_Summary d of None \<Rightarrow> ANil | Some v \<Rightarrow> json_ClusterBulkSummaryDTO v))]))"

definition json_ElectTargetDTO :: "ElectTargetDTO \<Rightarrow> any" where
  "json_ElectTargetDTO d = AMap [(''topic'', AStr (ElectTargetDTO_Topic d)),
      (''partition'', AInt (ElectTargetDTO_Partition d))]"

definition json_ElectPlanDTO :: "ElectPlanDTO \<Rightarrow> any" where
  "json_ElectPlanDTO d = AMap [(''elections'', AList (map json_ElectTargetDTO (ElectPlanDTO_Elections d))),
      (''planToken'', AStr (ElectPlanDTO_PlanToken d))]"

definition json_ElectionsBody :: "ElectionsBody \<Rightarrow> any" where
  "json_ElectionsBody d = AMap ((if \<not> ElectionsBody_DryRun d then [] else [(''dryRun'', ABool (ElectionsBody_DryRun d))])
     @ (if ElectionsBody_Plan d = None then [] else [(''plan'', (case ElectionsBody_Plan d of None \<Rightarrow> ANil | Some v \<Rightarrow> json_ElectPlanDTO v))])
     @ (if ElectionsBody_Items d = [] then [] else [(''items'', AList (map json_BulkItemResultDTO (ElectionsBody_Items d)))])
     @ (if ElectionsBody_Summary d = None then [] else [(''summary'', (case ElectionsBody_Summary d of None \<Rightarrow> ANil | Some v \<Rightarrow> json_ClusterBulkSummaryDTO v))]))"

definition json_ImportAlterActionDTO :: "ImportAlterActionDTO \<Rightarrow> any" where
  "json_ImportAlterActionDTO d = AMap [(''name'', AStr (ImportAlterActionDTO_Name d)),
      (''changes'', AList (map json_ClusterConfigChangeDetailDTO (ImportAlterActionDTO_Changes d)))]"

definition json_ApplyTopicsPlanDTO :: "ApplyTopicsPlanDTO \<Rightarrow> any" where
  "json_ApplyTopicsPlanDTO d = AMap [(''create'', AList (map json_ExportTopicDTO (ApplyTopicsPlanDTO_Create d))),
      (''alter'', AList (map json_ImportAlterActionDTO (ApplyTopicsPlanDTO_Alter d))),
      (''delete'', AList (map AStr (ApplyTopicsPlanDTO_Delete d))),
      (''unchanged'', AList (map AStr (ApplyTopicsPlanDTO_Unchanged d))),
      (''planToken'', AStr (ApplyTopicsPlanDTO_PlanToken d))]"

definition json_ApplyTopicsItemResultDTO :: "ApplyTopicsItemResultDTO \<Rightarrow> any" where
  "json_ApplyTopicsItemResultDTO d = AMap ([(''name'', AStr (ApplyTopicsItemResultDTO_Name d)),
      (''action'', AStr (ApplyTopicsItemResultDTO_Action d)),
      (''status'', AStr (ApplyTopicsItemResultDTO_Status d))]
     @ (if ApplyTopicsItemResultDTO_Error d = [] then [] else [(''error'', AStr (ApplyTopicsItemResultDTO_Error d))]))"

definition json_ApplyTopicsBody :: "ApplyTopicsBody \<Rightarrow> any" where
  "json_ApplyTopicsBody d = AMap ((if \<not> ApplyTopicsBody_DryRun d then [] else [(''dryRun'', ABool (ApplyTopicsBody_DryRun d))])
     @ (if ApplyTopicsBody_Plan d = None then [] else [(''plan'', (case ApplyTopicsBody_Plan d of None \<Rightarrow> ANil | Some v \<Rightarrow> json_ApplyTopicsPlanDTO v))])
     @ (if ApplyTopicsBody_Items d = [] then [] else [(''items'', AList (map json_ApplyTopicsItemResultDTO (ApplyTopicsBody_Items d)))])
     @ (if ApplyTopicsBody_Summary d = None then [] else [(''summary'', (case ApplyTopicsBody_Summary d of None \<Rightarrow> ANil | Some v \<Rightarrow> json_ClusterBulkSummaryDTO v))]))"

definition wire_DescribeClusterOutput :: "DescribeClusterOutput \<Rightarrow> int \<times> any" where
  "wire_DescribeClusterOutput d = (StatusOK, json_DescribeClusterBody (DescribeClusterOutput_Body d))"

definition wire_DescribeBrokerConfigOutput :: "DescribeBrokerConfigOutput \<Rightarrow> int \<times> any" where
  "wire_DescribeBrokerConfigOutput d = (StatusOK, json_DescribeBrokerConfigBody (DescribeBrokerConfigOutput_Body d))"

definition wire_ClusterHealthOutput :: "ClusterHealthOutput \<Rightarrow> int \<times> any" where
  "wire_ClusterHealthOutput d = (StatusOK, json_ClusterHealthBody (ClusterHealthOutput_Body d))"

definition wire_QuorumOutput :: "QuorumOutput \<Rightarrow> int \<times> any" where
  "wire_QuorumOutput d = (StatusOK, json_QuorumBody (QuorumOutput_Body d))"

definition wire_ListReassignmentsOutput :: "ListReassignmentsOutput \<Rightarrow> int \<times> any" where
  "wire_ListReassignmentsOutput d = (StatusOK, json_ListReassignmentsBody (ListReassignmentsOutput_Body d))"

definition wire_LogDirsOutput :: "LogDirsOutput \<Rightarrow> int \<times> any" where
  "wire_LogDirsOutput d = (StatusOK, json_LogDirsBody (LogDirsOutput_Body d))"

definition wire_ThroughputOutput :: "ThroughputOutput \<Rightarrow> int \<times> any" where
  "wire_ThroughputOutput d = (StatusOK, json_ThroughputBody (ThroughputOutput_Body d))"

definition wire_ExportOutput :: "ExportOutput \<Rightarrow> int \<times> any" where
  "wire_ExportOutput d = (StatusOK, json_ExportBody (ExportOutput_Body d))"

definition wire_AlterBrokerConfigOutput :: "AlterBrokerConfigOutput \<Rightarrow> int \<times> any" where
  "wire_AlterBrokerConfigOutput d = (StatusOK, json_AlterBrokerConfigBody (AlterBrokerConfigOutput_Body d))"

definition wire_ReassignOutput :: "ReassignOutput \<Rightarrow> int \<times> any" where
  "wire_ReassignOutput d = (ReassignOutput_Status d, json_ReassignBody (ReassignOutput_Body d))"

definition wire_ElectionsOutput :: "ElectionsOutput \<Rightarrow> int \<times> any" where
  "wire_ElectionsOutput d = (ElectionsOutput_Status d, json_ElectionsBody (ElectionsOutput_Body d))"

definition wire_ApplyTopicsOutput :: "ApplyTopicsOutput \<Rightarrow> int \<times> any" where
  "wire_ApplyTopicsOutput d = (ApplyTopicsOutput_Status d, json_ApplyTopicsBody (ApplyTopicsOutput_Body d))"

end
