(* ===== verification/ClusterRoutes.thy ===== *)
theory ClusterRoutes
  imports ClusterDTO
begin

text \<open>
  The cluster operations of the HTTP interface (\<^verbatim>\<open>internal/api/cluster/routes.go\<close>,
  \<^verbatim>\<open>internal/api/cluster/mapping.go\<close>).
\<close>

definition cluster_Register :: "HumaOperation list" where
  "cluster_Register =
    [operation ''cluster-describe'' ''GET'' ''/v1/cluster'' ''C1'',
     operation ''cluster-broker-config'' ''GET'' ''/v1/cluster/brokers/{brokerId}/config'' ''C2'',
     operation ''cluster-health'' ''GET'' ''/v1/cluster/health'' ''C4'',
     operation ''cluster-quorum'' ''GET'' ''/v1/cluster/quorum'' ''C6'',
     operation ''cluster-reassignments-list'' ''GET'' ''/v1/cluster/reassignments'' ''C7'',
     operation ''cluster-log-dirs'' ''GET'' ''/v1/cluster/log-dirs'' ''C8'',
     operation ''cluster-throughput'' ''GET'' ''/v1/cluster/throughput'' ''C10'',
     operation ''cluster-export'' ''GET'' ''/v1/cluster/export'' ''C11'',
     operation ''cluster-alter-broker-config'' ''PATCH'' ''/v1/cluster/brokers/{brokerId}/config'' ''C5'',
     operation ''cluster-reassign'' ''POST'' ''/v1/cluster/reassignments'' ''C9'',
     operation ''cluster-cancel-reassignments'' ''POST'' ''/v1/cluster/reassignments/cancel'' ''C9'',
     operation ''cluster-elections'' ''POST'' ''/v1/cluster/elections'' ''C9'',
     operation ''topics-apply'' ''POST'' ''/v1/batch/topics/apply'' ''C12'']"

section \<open>Mapping\<close>

definition toBrokerDTOs :: "Broker list \<Rightarrow> BrokerDTO list" where
  "toBrokerDTOs brokers = map (\<lambda>b. \<lparr>BrokerDTO_ID = Broker_ID b, BrokerDTO_Host = Broker_Host b,
     BrokerDTO_Port = Broker_Port b, BrokerDTO_Rack = Broker_Rack b\<rparr>) brokers"

definition config_source :: "ConfigSource option \<Rightarrow> string" where
  "config_source s = (case s of None \<Rightarrow> [] | Some src \<Rightarrow> ConfigSource_string src)"

definition toBrokerConfigEntryDTOs :: "ConfigEntry list \<Rightarrow> BrokerConfigEntryDTO list" where
  "toBrokerConfigEntryDTOs configs = map (\<lambda>c.
     \<lparr>BrokerConfigEntryDTO_Name = ConfigEntry_Name c,
      BrokerConfigEntryDTO_Value = (if ConfigEntry_IsSensitive c then None else Some (ConfigEntry_Value c)),
      BrokerConfigEntryDTO_Source = config_source (ConfigEntry_Source c),
      BrokerConfigEntryDTO_IsSensitive = ConfigEntry_IsSensitive c,
      BrokerConfigEntryDTO_IsReadOnly = ConfigEntry_IsReadOnly c\<rparr>) configs"

definition toHealthSummaryBody :: "HealthSummary \<Rightarrow> ClusterHealthBody" where
  "toHealthSummaryBody h =
    \<lparr>ClusterHealthBody_Brokers = \<lparr>BrokersHealthDTO_Online = HS_BrokersOnline h\<rparr>,
     ClusterHealthBody_Topics = \<lparr>TopicsHealthDTO_Total = HS_TopicsTotal h\<rparr>,
     ClusterHealthBody_Partitions = \<lparr>PartitionsHealthDTO_Total = HS_PartitionsTotal h,
       PartitionsHealthDTO_UnderReplicated = HS_PartitionsUnderReplicated h,
       PartitionsHealthDTO_Offline = HS_PartitionsOffline h,
       PartitionsHealthDTO_NonPreferredLeader = HS_PartitionsNonPreferredLeader h\<rparr>,
     ClusterHealthBody_Affected = map (\<lambda>a. \<lparr>AffectedDTO_Topic = AP_Topic a, AffectedDTO_Partition = AP_Partition a,
       AffectedDTO_Issue = AP_Issue a\<rparr>) (HS_Affected h),
     ClusterHealthBody_Truncated = HS_Truncated h\<rparr>"

definition toQuorumReplicaStateDTOs :: "QuorumReplicaState list \<Rightarrow> QuorumReplicaStateDTO list" where
  "toQuorumReplicaStateDTOs states = map (\<lambda>s. \<lparr>QuorumReplicaStateDTO_ID = QuorumReplicaState_ID s,
     QuorumReplicaStateDTO_LogEndOffset = QuorumReplicaState_LogEndOffset s,
     QuorumReplicaStateDTO_LagMs = QuorumReplicaState_LagMs s\<rparr>) states"

definition toQuorumBody :: "QuorumStatus \<Rightarrow> QuorumBody" where
  "toQuorumBody q = \<lparr>QuorumBody_LeaderID = QuorumStatus_LeaderID q, QuorumBody_Epoch = QuorumStatus_Epoch q,
     QuorumBody_Voters = toQuorumReplicaStateDTOs (QuorumStatus_Voters q),
     QuorumBody_Observers = toQuorumReplicaStateDTOs (QuorumStatus_Observers q)\<rparr>"

definition toReassignmentDTOs :: "PartitionReassignment list \<Rightarrow> ReassignmentDTO list" where
  "toReassignmentDTOs reassignments = map (\<lambda>r.
     \<lparr>ReassignmentDTO_Topic = PartitionReassignment_Topic r, ReassignmentDTO_Partition = PartitionReassignment_Partition r,
      ReassignmentDTO_Replicas = PartitionReassignment_Replicas r,
      ReassignmentDTO_AddingReplicas = PartitionReassignment_AddingReplicas r,
      ReassignmentDTO_RemovingReplicas = PartitionReassignment_RemovingReplicas r\<rparr>) reassignments"

definition toBrokerLogDirDTOs :: "BrokerLogDir list \<Rightarrow> BrokerLogDirDTO list" where
  "toBrokerLogDirDTOs dirs = map (\<lambda>d. \<lparr>BrokerLogDirDTO_BrokerID = BrokerLogDir_BrokerID d,
     BrokerLogDirDTO_LogDir = BrokerLogDir_LogDir d, BrokerLogDirDTO_TotalBytes = BrokerLogDir_TotalBytes d,
     BrokerLogDirDTO_Partitions = BrokerLogDir_PartitionCount d\<rparr>) dirs"

definition toOffsetsDTO :: "(int32 \<times> int64) list \<Rightarrow> (string \<times> int64) list" where
  "toOffsetsDTO offsets = fold (\<lambda>(p, offset). mput (itoa p) offset) offsets []"

definition toThroughputBody :: "ThroughputItem list \<Rightarrow> int64 \<Rightarrow> ThroughputBody" where
  "toThroughputBody items seconds = \<lparr>ThroughputBody_Seconds = seconds,
     ThroughputBody_Items = map (\<lambda>it. \<lparr>ThroughputItemDTO_Topic = TI_Topic it,
       ThroughputItemDTO_MessagesPerSecond = TI_MessagesPerSecond it,
       ThroughputItemDTO_StartEndOffsets = toOffsetsDTO (TI_StartEndOffsets it),
       ThroughputItemDTO_FinishEndOffsets = toOffsetsDTO (TI_FinishEndOffsets it)\<rparr>) items\<rparr>"

definition toExportTopicDTOs :: "ExportTopic list \<Rightarrow> ExportTopicDTO list" where
  "toExportTopicDTOs topics = map (\<lambda>t. \<lparr>ExportTopicDTO_Name = ET_Name t, ExportTopicDTO_Partitions = ET_Partitions t,
     ExportTopicDTO_ReplicationFactor = ET_ReplicationFactor t, ExportTopicDTO_Configs = ET_Configs t\<rparr>) topics"

definition toExportBody :: "Export \<Rightarrow> ExportBody" where
  "toExportBody e = \<lparr>ExportBody_ExportedAt = format_RFC3339Nano (Export_ExportedAt e),
     ExportBody_Topics = toExportTopicDTOs (Export_Topics e)\<rparr>"

definition toImportTopics :: "ExportTopicDTO list \<Rightarrow> ImportTopic list" where
  "toImportTopics topics = map (\<lambda>t. \<lparr>IT_Name = ExportTopicDTO_Name t, IT_Partitions = ExportTopicDTO_Partitions t,
     IT_ReplicationFactor = ExportTopicDTO_ReplicationFactor t, IT_Configs = ExportTopicDTO_Configs t\<rparr>) topics"

definition toConfigChangeDetailDTOs :: "cluster_ConfigChangeDetail list \<Rightarrow> ClusterConfigChangeDetailDTO list" where
  "toConfigChangeDetailDTOs changes = map (\<lambda>c. \<lparr>ClusterConfigChangeDetailDTO_Name = CC_Name c,
     ClusterConfigChangeDetailDTO_From = CC_From c, ClusterConfigChangeDetailDTO_To = CC_To c\<rparr>) changes"

definition toAlterBrokerConfigPlanDTO :: "AlterBrokerConfigPlan \<Rightarrow> AlterBrokerConfigPlanDTO" where
  "toAlterBrokerConfigPlanDTO p = \<lparr>AlterBrokerConfigPlanDTO_BrokerID = ABP_BrokerID p,
     AlterBrokerConfigPlanDTO_Changes = toConfigChangeDetailDTOs (ABP_Changes p)\<rparr>"

definition toBulkItemResultDTOs :: "BulkItemResult list \<Rightarrow> BulkItemResultDTO list" where
  "toBulkItemResultDTOs items = map (\<lambda>item. \<lparr>BulkItemResultDTO_Index = BulkItem_Index item,
     BulkItemResultDTO_Status = (if BulkItem_Outcome item \<noteq> OutcomeSucceeded then ''failed'' else ''ok''),
     BulkItemResultDTO_Error = BulkItem_Error item\<rparr>) items"

definition bulkStatus :: "int64 \<Rightarrow> int" where
  "bulkStatus failed = (if failed > 0 then StatusMultiStatus else StatusOK)"

definition toBulkSummaryDTO :: "BulkSummary \<Rightarrow> ClusterBulkSummaryDTO" where
  "toBulkSummaryDTO s = \<lparr>ClusterBulkSummaryDTO_Total = BulkSummary_Total s,
     ClusterBulkSummaryDTO_OK = BulkSummary_Succeeded s, ClusterBulkSummaryDTO_Failed = BulkSummary_Failed s\<rparr>"

definition toReassignMoveDTOs :: "ReassignMove list \<Rightarrow> ReassignMoveDTO list" where
  "toReassignMoveDTOs moves = map (\<lambda>m. \<lparr>ReassignMoveDTO_Topic = RM_Topic m, ReassignMoveDTO_Partition = RM_Partition m,
     ReassignMoveDTO_Replicas = RM_Replicas m\<rparr>) moves"

definition toReassignMoves :: "ReassignMoveDTO list \<Rightarrow> ReassignMove list" where
  "toReassignMoves moves = map (\<lambda>m. \<lparr>RM_Topic = ReassignMoveDTO_Topic m, RM_Partition = ReassignMoveDTO_Partition m,
     RM_Replicas = ReassignMoveDTO_Replicas m\<rparr>) moves"

definition toReassignPlanDTO :: "ReassignPlan \<Rightarrow> ReassignPlanDTO" where
  "toReassignPlanDTO p = \<lparr>ReassignPlanDTO_Moves = toReassignMoveDTOs (RePlan_Moves p),
     ReassignPlanDTO_PlanToken = RePlan_PlanToken p\<rparr>"

definition toCancelTargets :: "CancelReassignmentTargetDTO list \<Rightarrow> TopicPartition list" where
  "toCancelTargets targets =
    map (\<lambda>t. (CancelReassignmentTargetDTO_Topic t, CancelReassignmentTargetDTO_Partition t)) targets"

definition toElectTargets :: "ElectTargetDTO list \<Rightarrow> TopicPartition list" where
  "toElectTargets targets = map (\<lambda>t. (ElectTargetDTO_Topic t, ElectTargetDTO_Partition t)) targets"

definition toElectPlanDTO :: "ElectPlan \<Rightarrow> ElectPlanDTO" where
  "toElectPlanDTO p = \<lparr>ElectPlanDTO_Elections = map (\<lambda>tp. \<lparr>ElectTargetDTO_Topic = fst tp,
     ElectTargetDTO_Partition = snd tp\<rparr>) (EP_Partitions p), ElectPlanDTO_PlanToken = EP_PlanToken p\<rparr>"

definition toImportAlterActionDTOs :: "ImportAlterAction list \<Rightarrow> ImportAlterActionDTO list" where
  "toImportAlterActionDTOs actions = map (\<lambda>a. \<lparr>ImportAlterActionDTO_Name = IA_Name a,
     ImportAlterActionDTO_Changes = toConfigChangeDetailDTOs (IA_Changes a)\<rparr>) actions"

definition toImportTopicDTOs :: "ImportTopic list \<Rightarrow> ExportTopicDTO list" where
  "toImportTopicDTOs topics = map (\<lambda>t. \<lparr>ExportTopicDTO_Name = IT_Name t, ExportTopicDTO_Partitions = IT_Partitions t,
     ExportTopicDTO_ReplicationFactor = IT_ReplicationFactor t, ExportTopicDTO_Configs = IT_Configs t\<rparr>) topics"

definition toImportPlanDTO :: "ImportPlan \<Rightarrow> ApplyTopicsPlanDTO" where
  "toImportPlanDTO p = \<lparr>ApplyTopicsPlanDTO_Create = toImportTopicDTOs (IP_Create p),
     ApplyTopicsPlanDTO_Alter = toImportAlterActionDTOs (IP_Alter p), ApplyTopicsPlanDTO_Delete = IP_Delete p,
     ApplyTopicsPlanDTO_Unchanged = IP_Unchanged p, ApplyTopicsPlanDTO_PlanToken = IP_PlanToken p\<rparr>"

definition toImportResultBody :: "ImportResult \<Rightarrow> ApplyTopicsBody \<times> int" where
  "toImportResultBody r =
    (zero_ApplyTopicsBody\<lparr>
       ApplyTopicsBody_Items := map (\<lambda>item. \<lparr>ApplyTopicsItemResultDTO_Name = IIR_Name item,
         ApplyTopicsItemResultDTO_Action = IIR_Action item,
         ApplyTopicsItemResultDTO_Status = (if IIR_Action item = ''skipped'' then ''skipped''
           else if IIR_Outcome item \<noteq> OutcomeSucceeded then ''failed'' else ''ok''),
         ApplyTopicsItemResultDTO_Error = IIR_Error item\<rparr>) (IR_Items r),
       ApplyTopicsBody_Summary := Some (toBulkSummaryDTO (IR_Summary r))\<rparr>,
     bulkStatus (BulkSummary_Failed (IR_Summary r)))"

section \<open>Boxed plans\<close>

definition unbox_change :: "any \<Rightarrow> cluster_ConfigChangeDetail option" where
  "unbox_change a = do {
     name \<leftarrow> get_as ''ConfigChangeDetail'' ''Name'' as_str a;
     frm \<leftarrow> get_as ''ConfigChangeDetail'' ''From'' as_str a;
     to \<leftarrow> get_as ''ConfigChangeDetail'' ''To'' as_str a;
     Some \<lparr>CC_Name = name, CC_From = frm, CC_To = to\<rparr> }"

definition unbox_AlterBrokerConfigPlan :: "any \<Rightarrow> AlterBrokerConfigPlan option" where
  "unbox_AlterBrokerConfigPlan a = do {
     broker \<leftarrow> get_as ''AlterBrokerConfigPlan'' ''BrokerID'' as_str a;
     changes \<leftarrow> get_as ''AlterBrokerConfigPlan'' ''Changes'' (as_list unbox_change) a;
     Some \<lparr>ABP_BrokerID = broker, ABP_Changes = changes\<rparr> }"

definition unbox_ReassignMove :: "any \<Rightarrow> ReassignMove option" where
  "unbox_ReassignMove a = do {
     topic \<leftarrow> get_as ''ReassignMove'' ''Topic'' as_str a;
     part \<leftarrow> get_as ''ReassignMove'' ''Partition'' as_int a;
     replicas \<leftarrow> get_as ''ReassignMove'' ''Replicas'' (as_opt (as_list as_int)) a;
     Some \<lparr>RM_Topic = topic, RM_Partition = part, RM_Replicas = replicas\<rparr> }"

definition unbox_ReassignPlan :: "any \<Rightarrow> ReassignPlan option" where
  "unbox_ReassignPlan a = do {
     moves \<leftarrow> get_as ''ReassignPlan'' ''Moves'' (as_list unbox_ReassignMove) a;
     token \<leftarrow> get_as ''ReassignPlan'' ''PlanToken'' as_str a;
     Some \<lparr>RePlan_Moves = moves, RePlan_PlanToken = token\<rparr> }"

definition unbox_TopicPartition :: "any \<Rightarrow> TopicPartition option" where
  "unbox_TopicPartition a = do {
     topic \<leftarrow> get_as ''TopicPartition'' ''Topic'' as_str a;
     part \<leftarrow> get_as ''TopicPartition'' ''Partition'' as_int a;
     Some (topic, part) }"

definition unbox_ElectPlan :: "any \<Rightarrow> ElectPlan option" where
  "unbox_ElectPlan a = do {
     preferred \<leftarrow> get_as ''ElectPlan'' ''Preferred'' as_bool a;
     parts \<leftarrow> get_as ''ElectPlan'' ''Partitions'' (as_list unbox_TopicPartition) a;
     token \<leftarrow> get_as ''ElectPlan'' ''PlanToken'' as_str a;
     Some \<lparr>EP_Preferred = preferred, EP_Partitions = parts, EP_PlanToken = token\<rparr> }"

definition unbox_ImportTopic :: "any \<Rightarrow> ImportTopic option" where
  "unbox_ImportTopic a = do {
     name \<leftarrow> get_as ''ImportTopic'' ''Name'' as_str a;
     parts \<leftarrow> get_as ''ImportTopic'' ''Partitions'' as_int a;
     rf \<leftarrow> get_as ''ImportTopic'' ''ReplicationFactor'' as_int a;
     configs \<leftarrow> get_as ''ImportTopic'' ''Configs'' (as_map as_str) a;
     Some \<lparr>IT_Name = name, IT_Partitions = parts, IT_ReplicationFactor = rf, IT_Configs = configs\<rparr> }"

definition unbox_ImportAlterAction :: "any \<Rightarrow> ImportAlterAction option" where
  "unbox_ImportAlterAction a = do {
     name \<leftarrow> get_as ''ImportAlterAction'' ''Name'' as_str a;
     changes \<leftarrow> get_as ''ImportAlterAction'' ''Changes'' (as_list unbox_change) a;
     Some \<lparr>IA_Name = name, IA_Changes = changes\<rparr> }"

definition unbox_ImportPlan :: "any \<Rightarrow> ImportPlan option" where
  "unbox_ImportPlan a = do {
     creates \<leftarrow> get_as ''ImportPlan'' ''Create'' (as_list unbox_ImportTopic) a;
     alters \<leftarrow> get_as ''ImportPlan'' ''Alter'' (as_list unbox_ImportAlterAction) a;
     deletes \<leftarrow> get_as ''ImportPlan'' ''Delete'' (as_list as_str) a;
     unchanged \<leftarrow> get_as ''ImportPlan'' ''Unchanged'' (as_list as_str) a;
     allow \<leftarrow> get_as ''ImportPlan'' ''AllowDelete'' as_bool a;
     token \<leftarrow> get_as ''ImportPlan'' ''PlanToken'' as_str a;
     Some \<lparr>IP_Create = creates, IP_Alter = alters, IP_Delete = deletes, IP_Unchanged = unchanged,
       IP_AllowDelete = allow, IP_PlanToken = token\<rparr> }"

lemma unbox_change_any: "unbox_change (change_any c) = Some c"
  by (simp add: unbox_change_def change_any_def unbox_simps)

lemma as_opt_replicas [unbox_simps]:
  "as_opt (as_list as_int) (case rs of None \<Rightarrow> ANil | Some is \<Rightarrow> AList (map AInt is)) = Some rs"
  by (cases rs) (simp_all add: as_opt_def unbox_simps)

lemma unbox_cluster_parts:
  "unbox_TopicPartition (TopicPartition_any tp) = Some tp"
  "unbox_ImportTopic (ImportTopic_any t) = Some t"
  by (simp_all add: unbox_TopicPartition_def TopicPartition_any_def unbox_ImportTopic_def ImportTopic_any_def unbox_simps)

lemma unbox_cluster_plans [unbox_simps]:
  "unbox_AlterBrokerConfigPlan (plan_any AlterBrokerConfigPlan_ops p1) = Some p1"
  "unbox_ReassignPlan (plan_any ReassignPlan_ops p2) = Some p2"
  "unbox_ElectPlan (plan_any ElectPlan_ops p3) = Some p3"
  "unbox_ImportPlan (plan_any ImportPlan_ops p4) = Some p4"
  by (simp_all add: unbox_AlterBrokerConfigPlan_def AlterBrokerConfigPlan_ops_def unbox_ReassignPlan_def
      ReassignPlan_ops_def unbox_ReassignMove_def unbox_ElectPlan_def ElectPlan_ops_def unbox_ImportPlan_def
      ImportPlan_ops_def unbox_ImportAlterAction_def unbox_simps as_list_map unbox_change_any unbox_cluster_parts)

section \<open>Handlers\<close>

definition quorum :: "'s Service \<Rightarrow> Request \<Rightarrow> QuorumInput \<Rightarrow> ('s, QuorumOutput) reply" where
  "quorum svc r _ = orMap r (cluster_Quorum svc) (\<lambda>status. reply \<lparr>QuorumOutput_Body = toQuorumBody status\<rparr>)"

definition listReassignments :: "'s Service \<Rightarrow> Request \<Rightarrow> ListReassignmentsInput \<Rightarrow> ('s, ListReassignmentsOutput) reply" where
  "listReassignments svc r _ =
    orMap r (cluster_Reassignments svc) (\<lambda>rs.
      reply \<lparr>ListReassignmentsOutput_Body = \<lparr>ListReassignmentsBody_Items = toReassignmentDTOs rs\<rparr>\<rparr>)"

definition logDirs :: "'s Service \<Rightarrow> Request \<Rightarrow> LogDirsInput \<Rightarrow> ('s, LogDirsOutput) reply" where
  "logDirs svc r inp =
    orMap r (cluster_LogDirs svc (LogDirsInput_BrokerID inp)) (\<lambda>dirs.
      reply \<lparr>LogDirsOutput_Body = \<lparr>LogDirsBody_Items = toBrokerLogDirDTOs dirs\<rparr>\<rparr>)"

definition throughput ::
  "(int64 \<Rightarrow> ('s, unit) eff) \<Rightarrow> 's Service \<Rightarrow> Request \<Rightarrow> ThroughputInput \<Rightarrow> ('s, ThroughputOutput) reply" where
  "throughput sleep svc r inp =
    orMap r (cluster_Throughput sleep svc (ThroughputInput_Topic inp) (ThroughputInput_Seconds inp))
      (\<lambda>(items, seconds). reply \<lparr>ThroughputOutput_Body = toThroughputBody items seconds\<rparr>)"

definition export ::
  "(string \<Rightarrow> string + (string \<Rightarrow> bool)) \<Rightarrow> 's Service \<Rightarrow> Request \<Rightarrow> ExportInput \<Rightarrow> ('s, ExportOutput) reply" where
  "export compile svc r inp =
    orMap r (cluster_Export compile svc (ExportInput_Pattern inp)) (\<lambda>e.
      reply \<lparr>ExportOutput_Body = toExportBody e\<rparr>)"

definition alterBrokerConfig ::
  "'s Service \<Rightarrow> Request \<Rightarrow> AlterBrokerConfigInput \<Rightarrow> ('s, AlterBrokerConfigOutput) reply" where
  "alterBrokerConfig svc r inp =
    (let body = AlterBrokerConfigInput_Body inp in
     orMapDestructive r unbox_AlterBrokerConfigPlan (\<lambda>p. json_AlterBrokerConfigPlanDTO (toAlterBrokerConfigPlanDTO p))
       (AlterBrokerConfig svc (caller_of r) (AlterBrokerConfigInput_BrokerID inp)
         (AlterBrokerConfigRequestBody_Set body) (AlterBrokerConfigRequestBody_Reset body)
         (AlterBrokerConfigRequestBody_Confirm body) (AlterBrokerConfigInput_DryRun inp))
       (destructive_reply
         (\<lambda>p. \<lparr>AlterBrokerConfigOutput_Body = zero_AlterBrokerConfigBody\<lparr>AlterBrokerConfigBody_DryRun := True,
            AlterBrokerConfigBody_Plan := Some (toAlterBrokerConfigPlanDTO p)\<rparr>\<rparr>)
         (\<lambda>p v. \<lparr>AlterBrokerConfigOutput_Body = zero_AlterBrokerConfigBody\<lparr>
            AlterBrokerConfigBody_BrokerID := ABR_BrokerID v,
            AlterBrokerConfigBody_Configs := toBrokerConfigEntryDTOs (ABR_Configs v)\<rparr>\<rparr>)))"

text \<open>What reassignment and cancellation both answer.\<close>

definition reassign_reply :: "(ReassignPlan, BulkResult) DResult \<Rightarrow> ('s, ReassignOutput) reply" where
  "reassign_reply =
    destructive_reply
      (\<lambda>p. \<lparr>ReassignOutput_Status = StatusOK, ReassignOutput_Body = zero_ReassignBody\<lparr>ReassignBody_DryRun := True,
         ReassignBody_Plan := Some (toReassignPlanDTO p)\<rparr>\<rparr>)
      (\<lambda>p v. \<lparr>ReassignOutput_Status = bulkStatus (BulkSummary_Failed (BulkResult_Summary v)),
         ReassignOutput_Body = zero_ReassignBody\<lparr>ReassignBody_Items := toBulkItemResultDTOs (BulkResult_Items v),
           ReassignBody_Summary := Some (toBulkSummaryDTO (BulkResult_Summary v))\<rparr>\<rparr>)"

definition reassign :: "'s Service \<Rightarrow> Request \<Rightarrow> ReassignInput \<Rightarrow> ('s, ReassignOutput) reply" where
  "reassign svc r inp =
    (let body = ReassignInput_Body inp in
     orMapDestructive r unbox_ReassignPlan (\<lambda>p. json_ReassignPlanDTO (toReassignPlanDTO p))
       (Reassign svc (caller_of r) (toReassignMoves (ReassignRequestBody_Reassignments body))
         (ReassignRequestBody_Confirm body) (ReassignInput_DryRun inp))
       reassign_reply)"

definition cancelReassignments ::
  "'s Service \<Rightarrow> Request \<Rightarrow> CancelReassignmentsInput \<Rightarrow> ('s, ReassignOutput) reply" where
  "cancelReassignments svc r inp =
    (let body = CancelReassignmentsInput_Body inp in
     orMapDestructive r unbox_ReassignPlan (\<lambda>p. json_ReassignPlanDTO (toReassignPlanDTO p))
       (CancelReassignments svc (caller_of r) (toCancelTargets (CancelReassignmentsRequestBody_Cancel body))
         (CancelReassignmentsRequestBody_Confirm body) (CancelReassignmentsInput_DryRun inp))
       reassign_reply)"

definition elections :: "'s Service \<Rightarrow> Request \<Rightarrow> ElectionsInput \<Rightarrow> ('s, ElectionsOutput) reply" where
  "elections svc r inp =
    (let body = ElectionsInput_Body inp; elect = ElectionsRequestBody_Elect body;
         preferred = (ElectSpecDTO_Type elect \<noteq> ''UNCLEAN'') in
     orMapDestructive r unbox_ElectPlan (\<lambda>p. json_ElectPlanDTO (toElectPlanDTO p))
       (Elect svc (caller_of r) preferred (toElectTargets (ElectSpecDTO_Partitions elect))
         (ElectionsRequestBody_Confirm body) (ElectionsInput_DryRun inp))
       (destructive_reply
         (\<lambda>p. \<lparr>ElectionsOutput_Status = StatusOK, ElectionsOutput_Body = zero_ElectionsBody\<lparr>
            ElectionsBody_DryRun := True, ElectionsBody_Plan := Some (toElectPlanDTO p)\<rparr>\<rparr>)
         (\<lambda>p v. \<lparr>ElectionsOutput_Status = bulkStatus (BulkSummary_Failed (BulkResult_Summary v)),
            ElectionsOutput_Body = zero_ElectionsBody\<lparr>
              ElectionsBody_Items := toBulkItemResultDTOs (BulkResult_Items v),
              ElectionsBody_Summary := Some (toBulkSummaryDTO (BulkResult_Summary v))\<rparr>\<rparr>)))"

definition applyTopics :: "'s Service \<Rightarrow> Request \<Rightarrow> ApplyTopicsInput \<Rightarrow> ('s, ApplyTopicsOutput) reply" where
  "applyTopics svc r inp =
    (let body = ApplyTopicsInput_Body inp in
     orMapDestructive r unbox_ImportPlan (\<lambda>p. json_ApplyTopicsPlanDTO (toImportPlanDTO p))
       (Import svc (caller_of r) (toImportTopics (ApplyTopicsRequestBody_Topics body))
         (ApplyTopicsRequestBody_AllowDelete body) (ApplyTopicsRequestBody_Confirm body) (ApplyTopicsInput_DryRun inp))
       (destructive_reply
         (\<lambda>p. \<lparr>ApplyTopicsOutput_Status = StatusOK, ApplyTopicsOutput_Body = zero_ApplyTopicsBody\<lparr>
            ApplyTopicsBody_DryRun := True, ApplyTopicsBody_Plan := Some (toImportPlanDTO p)\<rparr>\<rparr>)
         (\<lambda>p v. case toImportResultBody v of (body, status) \<Rightarrow>
            \<lparr>ApplyTopicsOutput_Status = status, ApplyTopicsOutput_Body = body\<rparr>)))"

definition describeCluster :: "'s Service \<Rightarrow> Request \<Rightarrow> DescribeClusterInput \<Rightarrow> ('s, DescribeClusterOutput) reply" where
  "describeCluster svc r _ =
    orMap r (cluster_DescribeCluster svc) (\<lambda>info. reply \<lparr>DescribeClusterOutput_Body =
      \<lparr>DescribeClusterBody_ClusterID = ClusterInfo_ClusterID info,
       DescribeClusterBody_ControllerID = ClusterInfo_ControllerID info,
       DescribeClusterBody_Brokers = toBrokerDTOs (ClusterInfo_Brokers info)\<rparr>\<rparr>)"

definition describeBrokerConfig ::
  "'s Service \<Rightarrow> Request \<Rightarrow> DescribeBrokerConfigInput \<Rightarrow> ('s, DescribeBrokerConfigOutput) reply" where
  "describeBrokerConfig svc r inp =
    orMap r (DescribeBrokerConfig svc (DescribeBrokerConfigInput_BrokerID inp)) (\<lambda>configs.
      reply \<lparr>DescribeBrokerConfigOutput_Body =
        \<lparr>DescribeBrokerConfigBody_BrokerID = DescribeBrokerConfigInput_BrokerID inp,
         DescribeBrokerConfigBody_Configs = toBrokerConfigEntryDTOs configs\<rparr>\<rparr>)"

definition clusterHealth :: "'s Service \<Rightarrow> Request \<Rightarrow> ClusterHealthInput \<Rightarrow> ('s, ClusterHealthOutput) reply" where
  "clusterHealth svc r _ =
    orMap r (cluster_HealthSummary svc) (\<lambda>summary.
      reply \<lparr>ClusterHealthOutput_Body = toHealthSummaryBody summary\<rparr>)"

end
