(* ===== verification/HealthRoutes.thy ===== *)
theory HealthRoutes
  imports Handlers
begin

text \<open>
  The liveness and readiness probes (\<^verbatim>\<open>internal/api/health\<close>): their response types with the JSON they
  encode to, the two handlers, and \<open>registerHealth\<close> of \<^verbatim>\<open>internal/api/api.go\<close>.

  The clock \<open>time.Now\<close>, the cluster probe and the audit sink's status are arguments, as they are in the
  source. A failed probe is not an error of the handler: it is the DOWN reply.
\<close>

section \<open>Types\<close>

record LiveBody =
  LiveBody_Status :: string

type_synonym LiveInput = unit

record LiveOutput =
  LiveOutput_Body :: LiveBody

record ReadyCluster =
  ReadyCluster_Reachable :: bool
  ReadyCluster_BrokersSeen :: int64
  ReadyCluster_LatencyMs :: int64

record ReadyAudit =
  ReadyAudit_Sink :: string
  ReadyAudit_Healthy :: bool

record ReadyBody =
  ReadyBody_Status :: string
  ReadyBody_Cluster :: ReadyCluster
  ReadyBody_Audit :: ReadyAudit

type_synonym ReadyInput = unit

record ReadyOutput =
  ReadyOutput_Status :: int
  ReadyOutput_Body :: ReadyBody

definition json_LiveBody :: "LiveBody \<Rightarrow> any" where
  "json_LiveBody b = AStruct ''LiveBody'' [(''status'', AStr (LiveBody_Status b))]"

definition json_ReadyCluster :: "ReadyCluster \<Rightarrow> any" where
  "json_ReadyCluster c = AStruct ''ReadyCluster'' [(''reachable'', ABool (ReadyCluster_Reachable c)),
     (''brokersSeen'', AInt (ReadyCluster_BrokersSeen c)), (''latencyMs'', AInt (ReadyCluster_LatencyMs c))]"

definition json_ReadyAudit :: "ReadyAudit \<Rightarrow> any" where
  "json_ReadyAudit a = AStruct ''ReadyAudit'' [(''sink'', AStr (ReadyAudit_Sink a)), (''healthy'', ABool (ReadyAudit_Healthy a))]"

definition json_ReadyBody :: "ReadyBody \<Rightarrow> any" where
  "json_ReadyBody b = AStruct ''ReadyBody'' [(''status'', AStr (ReadyBody_Status b)),
     (''cluster'', json_ReadyCluster (ReadyBody_Cluster b)), (''audit'', json_ReadyAudit (ReadyBody_Audit b))]"

definition wire_LiveOutput :: "LiveOutput \<Rightarrow> int \<times> any" where
  "wire_LiveOutput d = (StatusOK, json_LiveBody (LiveOutput_Body d))"

definition wire_ReadyOutput :: "ReadyOutput \<Rightarrow> int \<times> any" where
  "wire_ReadyOutput d = (ReadyOutput_Status d, json_ReadyBody (ReadyOutput_Body d))"

section \<open>Handlers\<close>

definition Live :: "Request \<Rightarrow> LiveInput \<Rightarrow> ('s, LiveOutput) reply" where
  "Live r _ = reply \<lparr>LiveOutput_Body = \<lparr>LiveBody_Status = ''UP''\<rparr>\<rparr>"

definition ready_output :: "error + ClusterInfo \<Rightarrow> int64 \<Rightarrow> string \<times> bool \<Rightarrow> ReadyOutput" where
  "ready_output probed latencyMs aud =
    \<lparr>ReadyOutput_Status = (case probed of Inl _ \<Rightarrow> StatusServiceUnavailable | Inr _ \<Rightarrow> StatusOK),
     ReadyOutput_Body = \<lparr>ReadyBody_Status = (case probed of Inl _ \<Rightarrow> ''DOWN'' | Inr _ \<Rightarrow> ''UP''),
       ReadyBody_Cluster = \<lparr>ReadyCluster_Reachable = (case probed of Inl _ \<Rightarrow> False | Inr _ \<Rightarrow> True),
         ReadyCluster_BrokersSeen = (case probed of Inl _ \<Rightarrow> 0 | Inr info \<Rightarrow> int (length (ClusterInfo_Brokers info))),
         ReadyCluster_LatencyMs = latencyMs\<rparr>,
       ReadyBody_Audit = \<lparr>ReadyAudit_Sink = fst aud, ReadyAudit_Healthy = snd aud\<rparr>\<rparr>\<rparr>"

definition Ready ::
  "('s \<Rightarrow> time \<times> 's) \<Rightarrow> ('s, ClusterInfo) eff \<Rightarrow> ('s, string \<times> bool) eff \<Rightarrow> Request \<Rightarrow> ReadyInput
   \<Rightarrow> ('s, ReadyOutput) reply" where
  "Ready timeNow probe auditStatus r _ =
    onOk (act timeNow) (\<lambda>start.
    attempt probe (\<lambda>probed.
    onOk (act timeNow) (\<lambda>end.
    onOk auditStatus (\<lambda>aud.
      reply (ready_output probed (Milliseconds (time_Sub end start)) aud)))))"

definition registerHealth :: "HumaOperation list" where
  "registerHealth =
    [operation ''health-live'' ''GET'' ''/v1/health/live'' ''C3'',
     operation ''health-ready'' ''GET'' ''/v1/health/ready'' ''C3'']"

section \<open>What the probes promise\<close>

text \<open>Readiness answers 200 exactly when the cluster was described, whatever the audit sink reports.\<close>

lemma ready_status:
  "ReadyOutput_Status (ready_output probed ms aud) = 200 \<longleftrightarrow> (\<exists>info. probed = Inr info)"
  "ReadyCluster_Reachable (ReadyBody_Cluster (ReadyOutput_Body (ready_output probed ms aud)))
    \<longleftrightarrow> ReadyOutput_Status (ready_output probed ms aud) = 200"
  by (cases probed; simp add: ready_output_def StatusOK_def StatusServiceUnavailable_def)+

lemma quiet_Live [quiet_intros]: "quiet view (Live r i)"
  unfolding Live_def by (rule quiet_reply)

lemma quiet_Ready:
  assumes "\<And>s. view (snd (timeNow s)) = view s" "quiet view probe" "quiet view auditStatus"
  shows "quiet view (Ready timeNow probe auditStatus r i)"
  unfolding Ready_def by (intro quiet_intros assms)

end
