(* ===== verification/FakeModel.thy ===== *)
theory FakeModel
  imports KafkaPort
begin

text \<open>
  The in-memory cluster behind the test suite (\<^verbatim>\<open>internal/kafka/fake/model.go\<close>,
  \<^verbatim>\<open>internal/kafka/fake/fake.go\<close>, \<^verbatim>\<open>internal/kafka/fake/faults.go\<close>,
  \<^verbatim>\<open>internal/kafka/fake/seed.go\<close>): its state, the path every port call runs through, fault injection
  and seeding. The mutex serialises the calls, so a call is one step.

  A context is known by the moment it is done and the error it then reports. Waiting out an injected
  latency advances the wall clock \<open>fk_wall\<close>; the clock injected with \<open>WithClock\<close> is \<open>fk_now\<close>.
\<close>

section \<open>The model\<close>

record fakeLogDirEntry =
  fld_dir :: string
  fld_bytes :: int64

record fakePartition =
  fp_beginOffset :: int64
  fp_records :: "Record list"
  fp_leader :: int32
  fp_replicas :: "int32 list"
  fp_isr :: "int32 list"
  fp_logDir :: "(int32 \<times> fakeLogDirEntry) list"
  fp_addingReplicas :: "int32 list"
  fp_removingReplicas :: "int32 list"

record fakeTopic =
  ft_name :: string
  ft_internal :: bool
  ft_replicationFactor :: int64
  ft_partitions :: "fakePartition list"
  ft_configs :: "ConfigEntry list"

record fakeGroup =
  fg_id :: string
  fg_state :: string
  fg_protocolType :: string
  fg_coordinatorID :: int32
  fg_offsets :: "(TopicPartition \<times> int64) list"
  fg_members :: "GroupMember list"

record fakeQuorum =
  fq_leaderID :: int32
  fq_epoch :: int32
  fq_voters :: "QuorumReplicaState list"
  fq_observers :: "QuorumReplicaState list"

record fakeScramUser =
  fs_name :: string
  fs_credentials :: "(ScramMechanism \<times> int32) list"

record fakeQuota =
  fqt_entity :: QuotaEntity
  fqt_values :: "(string \<times> float64) list"

text \<open>
  A nil map behaves as an empty one except when it is written. The code guards every write with a nil
  check but the one to \<open>brokerConfigs\<close>, so only there the model tells nil (\<open>None\<close>) from empty.
\<close>

record model =
  m_clusterID :: string
  m_controllerID :: int32
  m_controllerSet :: bool
  m_brokers :: "Broker list"
  m_brokerConfigs :: "(int32 \<times> ConfigEntry list) list option"
  m_topics :: "(string \<times> fakeTopic) list"
  m_groups :: "(string \<times> fakeGroup) list"
  m_quorum :: fakeQuorum
  m_scramUsers :: "(string \<times> fakeScramUser) list"
  m_quotas :: "(string \<times> fakeQuota) list"

definition zero_partition :: fakePartition where
  "zero_partition = \<lparr>fp_beginOffset = 0, fp_records = [], fp_leader = 0, fp_replicas = [], fp_isr = [],
     fp_logDir = [], fp_addingReplicas = [], fp_removingReplicas = []\<rparr>"

text \<open>\<open>beginOffset + int64(len(records))\<close>\<close>

definition fp_end :: "fakePartition \<Rightarrow> int64" where
  "fp_end p = wrap64 (fp_beginOffset p + int (length (fp_records p)))"

section \<open>The double\<close>

record CallRecord =
  Call_Method :: string
  Call_Mutating :: bool
  Call_Err :: Err

record consumerSession =
  cs_topic :: string
  cs_cursor :: "(int32 \<times> int64) list"

record Fake =
  fk_now :: time
  fk_wall :: time
  fk_model :: model
  fk_calls :: "CallRecord list"
  fk_failNext :: "(string \<times> kind) list"
  fk_failAlways :: "(string \<times> kind) list"
  fk_latency :: "(string \<times> int64) list"
  fk_unreachable :: bool
  fk_session :: "consumerSession option"
  fk_ranges :: "nat list list"

definition Fake_New :: "time \<Rightarrow> Fake" where
  "Fake_New t = \<lparr>fk_now = t, fk_wall = t,
     fk_model = \<lparr>m_clusterID = ''fake-cluster'', m_controllerID = 0, m_controllerSet = False,
       m_brokers = [], m_brokerConfigs = None, m_topics = [], m_groups = [],
       m_quorum = \<lparr>fq_leaderID = 0, fq_epoch = 0, fq_voters = [], fq_observers = []\<rparr>,
       m_scramUsers = [], m_quotas = []\<rparr>,
     fk_calls = [], fk_failNext = [], fk_failAlways = [], fk_latency = [], fk_unreachable = False,
     fk_session = None, fk_ranges = []\<rparr>"

record Ctx =
  ctx_Done :: "time option"
  ctx_Cause :: error

definition Background :: Ctx where
  "Background = \<lparr>ctx_Done = None, ctx_Cause = PlainError ''context canceled''\<rparr>"

definition ctx_Err :: "Ctx \<Rightarrow> time \<Rightarrow> Err" where
  "ctx_Err ctx t = (case ctx_Done ctx of None \<Rightarrow> None | Some d \<Rightarrow> if d \<le> t then Some (ctx_Cause ctx) else None)"

definition err_of :: "'a res \<Rightarrow> Err" where
  "err_of r = (case r of Err e \<Rightarrow> Some e | _ \<Rightarrow> None)"

definition record_call :: "string \<Rightarrow> bool \<Rightarrow> Err \<Rightarrow> Fake \<Rightarrow> Fake" where
  "record_call meth mutating err f =
     f\<lparr>fk_calls := fk_calls f @ [\<lparr>Call_Method = meth, Call_Mutating = mutating, Call_Err = err\<rparr>]\<rparr>"

definition port_error :: "kind \<Rightarrow> error \<Rightarrow> error" where
  "port_error k cause =
     KafkaError \<lparr>ke_Kind = k, ke_Resource = [], ke_KafkaCode = 0, ke_KafkaName = []\<rparr> (Some cause)"

text \<open>Recording a failure and returning it.\<close>

definition refuse :: "string \<Rightarrow> bool \<Rightarrow> error \<Rightarrow> (Fake, 'a) eff" where
  "refuse meth mutating err f = (Err err, record_call meth mutating (Some err) f)"

text \<open>Waiting out the latency: the state after it, and the context's error if the context ends first.\<close>

definition wait_latency :: "Ctx \<Rightarrow> int64 \<Rightarrow> Fake \<Rightarrow> Fake \<times> Err" where
  "wait_latency ctx lat f =
    (if lat > 0 then
       (case ctx_Done ctx of
          Some d \<Rightarrow> if d < fk_wall f + lat then (f\<lparr>fk_wall := max d (fk_wall f)\<rparr>, Some (ctx_Cause ctx))
            else (f\<lparr>fk_wall := fk_wall f + lat\<rparr>, None)
        | None \<Rightarrow> (f\<lparr>fk_wall := fk_wall f + lat\<rparr>, None))
     else (f, None))"

definition invoke :: "Ctx \<Rightarrow> string \<Rightarrow> bool \<Rightarrow> (Fake, 'a) eff \<Rightarrow> (Fake, 'a) eff" where
  "invoke ctx meth mutating fn f0 =
    (let unreachable = fk_unreachable f0;
         lat = mget (fk_latency f0) 0 meth;
         fault = (case map_of (fk_failNext f0) meth of
                    Some k \<Rightarrow> Some k | None \<Rightarrow> map_of (fk_failAlways f0) meth);
         f1 = (case map_of (fk_failNext f0) meth of
                    Some k \<Rightarrow> f0\<lparr>fk_failNext := mdel meth (fk_failNext f0)\<rparr> | None \<Rightarrow> f0)
     in if unreachable then
          refuse meth mutating (port_error KindUnavailable (PlainError ''fake: unreachable'')) f1
        else
          (case wait_latency ctx lat f1 of
             (f2, Some err) \<Rightarrow> refuse meth mutating (port_error KindTimeout err) f2
           | (f2, None) \<Rightarrow>
               (case ctx_Err ctx (fk_wall f2) of
                  Some err \<Rightarrow> refuse meth mutating (port_error KindTimeout err) f2
                | None \<Rightarrow>
                    (case fault of
                       Some k \<Rightarrow> refuse meth mutating
                         (port_error k (PlainError (''fake: injected '' @ meth @ '' failure''))) f2
                     | None \<Rightarrow>
                         (case fn f2 of
                            (Panic, f3) \<Rightarrow> (Panic, f3)
                          | (r, f3) \<Rightarrow> (r, record_call meth mutating (err_of r) f3))))))"

section \<open>Fault injection\<close>

definition FailNext :: "string \<Rightarrow> kind \<Rightarrow> Fake \<Rightarrow> Fake" where
  "FailNext meth k f = f\<lparr>fk_failNext := mput meth k (fk_failNext f)\<rparr>"

definition FailAlways :: "string \<Rightarrow> kind \<Rightarrow> Fake \<Rightarrow> Fake" where
  "FailAlways meth k f = f\<lparr>fk_failAlways := mput meth k (fk_failAlways f)\<rparr>"

definition Latency :: "string \<Rightarrow> int64 \<Rightarrow> Fake \<Rightarrow> Fake" where
  "Latency meth d f = f\<lparr>fk_latency := mput meth d (fk_latency f)\<rparr>"

definition Unreachable :: "bool \<Rightarrow> Fake \<Rightarrow> Fake" where
  "Unreachable v f = f\<lparr>fk_unreachable := v\<rparr>"

definition MutatingCalls :: "Fake \<Rightarrow> CallRecord list" where
  "MutatingCalls f = filter Call_Mutating (fk_calls f)"

definition AssertCalled :: "Fake \<Rightarrow> string \<Rightarrow> bool" where
  "AssertCalled f meth \<longleftrightarrow> (\<exists>c \<in> set (fk_calls f). Call_Method c = meth)"

definition AssertNoCommits :: "Fake \<Rightarrow> bool" where
  "AssertNoCommits f \<longleftrightarrow> (\<forall>c \<in> set (fk_calls f). Call_Method c \<noteq> ''CommitGroupOffsets'')"

definition AssertNoGroupJoin :: "Fake \<Rightarrow> bool" where
  "AssertNoGroupJoin f \<longleftrightarrow> (\<forall>c \<in> set (fk_calls f). Call_Method c \<noteq> ''JoinGroup'' \<and> Call_Method c \<noteq> ''SyncGroup'')"

section \<open>Seeding\<close>

definition upd_model :: "(model \<Rightarrow> model) \<Rightarrow> Fake \<Rightarrow> Fake" where
  "upd_model g f = f\<lparr>fk_model := g (fk_model f)\<rparr>"

definition SeedBroker :: "int32 \<Rightarrow> string \<Rightarrow> int32 \<Rightarrow> string \<Rightarrow> Fake \<Rightarrow> Fake" where
  "SeedBroker i host port rack = upd_model (\<lambda>m.
     (let m' = m\<lparr>m_brokers := m_brokers m
         @ [\<lparr>Broker_ID = i, Broker_Host = host, Broker_Port = port, Broker_Rack = rack\<rparr>]\<rparr>
      in if \<not> m_controllerSet m' then m'\<lparr>m_controllerID := i, m_controllerSet := True\<rparr> else m'))"

definition append_record :: "time \<Rightarrow> string \<Rightarrow> int32 \<Rightarrow> Record \<Rightarrow> fakePartition \<Rightarrow> fakePartition" where
  "append_record now name p r part = part\<lparr>fp_records := fp_records part @
     [r\<lparr>Record_Topic := name, Record_Partition := p, Record_Offset := fp_end part,
        Record_Timestamp := (if Record_Timestamp r = zeroTime then now else Record_Timestamp r)\<rparr>]\<rparr>"

text \<open>
  Seeding indexes \<open>partitions[0]\<close> for a record whose partition is out of range, which panics for a
  topic without partitions, as does \<open>make\<close> with a negative count: then there is no result.
\<close>

fun seed_records :: "time \<Rightarrow> string \<Rightarrow> Record list \<Rightarrow> fakePartition list \<Rightarrow> fakePartition list option" where
  "seed_records now name [] ps = Some ps"
| "seed_records now name (r # rs) ps =
    (let p = (if Record_Partition r < 0 \<or> Record_Partition r \<ge> int (length ps) then 0 else Record_Partition r)
     in if nat p < length ps
        then seed_records now name rs (ps[nat p := append_record now name p r (ps ! nat p)])
        else None)"

definition SeedTopic :: "string \<Rightarrow> int64 \<Rightarrow> Record list \<Rightarrow> Fake \<Rightarrow> Fake option" where
  "SeedTopic name partitions records f =
    (if partitions < 0 then None
     else map_option (\<lambda>ps. upd_model (\<lambda>m. m\<lparr>m_topics := mput name
         \<lparr>ft_name = name, ft_internal = False, ft_replicationFactor = 0, ft_partitions = ps, ft_configs = []\<rparr>
         (m_topics m)\<rparr>) f)
       (seed_records (fk_now f) name records (replicate (nat partitions) zero_partition)))"

definition SeedBrokerConfigs :: "int32 \<Rightarrow> ConfigEntry list \<Rightarrow> Fake \<Rightarrow> Fake" where
  "SeedBrokerConfigs b configs = upd_model (\<lambda>m.
     m\<lparr>m_brokerConfigs := Some (mput b configs (case m_brokerConfigs m of None \<Rightarrow> [] | Some c \<Rightarrow> c))\<rparr>)"

text \<open>Updating a topic, when it is there; updating one of its partitions, when it is in range.\<close>

definition upd_topic :: "string \<Rightarrow> (fakeTopic \<Rightarrow> fakeTopic) \<Rightarrow> model \<Rightarrow> model" where
  "upd_topic name g m = (case map_of (m_topics m) name of
     None \<Rightarrow> m | Some t \<Rightarrow> m\<lparr>m_topics := mput name (g t) (m_topics m)\<rparr>)"

definition upd_partition :: "string \<Rightarrow> int32 \<Rightarrow> (fakePartition \<Rightarrow> fakePartition) \<Rightarrow> model \<Rightarrow> model" where
  "upd_partition name p g m = (case map_of (m_topics m) name of
     None \<Rightarrow> m
   | Some t \<Rightarrow> if p < 0 \<or> p \<ge> int (length (ft_partitions t)) then m
       else m\<lparr>m_topics := mput name
         (t\<lparr>ft_partitions := (ft_partitions t)[nat p := g (ft_partitions t ! nat p)]\<rparr>) (m_topics m)\<rparr>)"

definition SeedTopicMeta :: "string \<Rightarrow> bool \<Rightarrow> int64 \<Rightarrow> Fake \<Rightarrow> Fake" where
  "SeedTopicMeta name internal rf = upd_model
     (upd_topic name (\<lambda>t. t\<lparr>ft_internal := internal, ft_replicationFactor := rf\<rparr>))"

definition SeedTopicConfigs :: "string \<Rightarrow> ConfigEntry list \<Rightarrow> Fake \<Rightarrow> Fake" where
  "SeedTopicConfigs name configs = upd_model (upd_topic name (\<lambda>t. t\<lparr>ft_configs := configs\<rparr>))"

definition SeedPartitionMeta :: "string \<Rightarrow> int32 \<Rightarrow> int32 \<Rightarrow> int32 list \<Rightarrow> int32 list \<Rightarrow> Fake \<Rightarrow> Fake" where
  "SeedPartitionMeta topic p leader replicas isr = upd_model (upd_partition topic p
     (\<lambda>part. part\<lparr>fp_leader := leader, fp_replicas := replicas, fp_isr := isr\<rparr>))"

definition SeedLogDir :: "string \<Rightarrow> int32 \<Rightarrow> int32 \<Rightarrow> string \<Rightarrow> int64 \<Rightarrow> Fake \<Rightarrow> Fake" where
  "SeedLogDir topic p b dir bts = upd_model (upd_partition topic p
     (\<lambda>part. part\<lparr>fp_logDir := mput b \<lparr>fld_dir = dir, fld_bytes = bts\<rparr> (fp_logDir part)\<rparr>))"

text \<open>Dropping the records below an offset, which becomes the begin offset.\<close>

definition truncate_at :: "int64 \<Rightarrow> fakePartition \<Rightarrow> fakePartition" where
  "truncate_at off p = p\<lparr>fp_records := filter (\<lambda>r. Record_Offset r \<ge> off) (fp_records p),
     fp_beginOffset := off\<rparr>"

definition SeedCompactAway :: "string \<Rightarrow> int32 \<Rightarrow> int64 \<Rightarrow> Fake \<Rightarrow> Fake" where
  "SeedCompactAway topic p before = upd_model (upd_partition topic p (truncate_at before))"

definition SeedGroup :: "string \<Rightarrow> (TopicPartition \<times> int64) list \<Rightarrow> Fake \<Rightarrow> Fake" where
  "SeedGroup i offsets = upd_model (\<lambda>m. m\<lparr>m_groups := mput i
     \<lparr>fg_id = i, fg_state = ''Empty'', fg_protocolType = ''consumer'', fg_coordinatorID = 0,
      fg_offsets = fold (\<lambda>(tp, off). mput tp off) offsets [], fg_members = []\<rparr> (m_groups m)\<rparr>)"

definition upd_group :: "string \<Rightarrow> (fakeGroup \<Rightarrow> fakeGroup) \<Rightarrow> model \<Rightarrow> model" where
  "upd_group i g m = (case map_of (m_groups m) i of
     None \<Rightarrow> m | Some gr \<Rightarrow> m\<lparr>m_groups := mput i (g gr) (m_groups m)\<rparr>)"

definition SeedGroupMeta :: "string \<Rightarrow> string \<Rightarrow> string \<Rightarrow> int32 \<Rightarrow> Fake \<Rightarrow> Fake" where
  "SeedGroupMeta i state pt coord = upd_model (upd_group i
     (\<lambda>g. g\<lparr>fg_state := state, fg_protocolType := pt, fg_coordinatorID := coord\<rparr>))"

definition SeedGroupMember :: "string \<Rightarrow> GroupMember \<Rightarrow> Fake \<Rightarrow> Fake" where
  "SeedGroupMember i member = upd_model (upd_group i (\<lambda>g. g\<lparr>fg_members := fg_members g @ [member]\<rparr>))"

definition SeedQuorum ::
  "int32 \<Rightarrow> int32 \<Rightarrow> QuorumReplicaState list \<Rightarrow> QuorumReplicaState list \<Rightarrow> Fake \<Rightarrow> Fake" where
  "SeedQuorum leader epoch voters observers = upd_model (\<lambda>m.
     m\<lparr>m_quorum := \<lparr>fq_leaderID = leader, fq_epoch = epoch, fq_voters = voters, fq_observers = observers\<rparr>\<rparr>)"

section \<open>What a call does to the double\<close>

text \<open>The part of the state a read must leave alone: the model and the log of mutating calls.\<close>

definition cluster_view :: "Fake \<Rightarrow> model \<times> CallRecord list" where
  "cluster_view f = (fk_model f, MutatingCalls f)"

lemma record_call_view [simp]:
  "cluster_view (record_call meth False err f) = cluster_view f"
  by (simp add: cluster_view_def record_call_def MutatingCalls_def)

lemma record_call_model [simp]: "fk_model (record_call meth mutating err f) = fk_model f"
  by (simp add: record_call_def)

lemma wait_latency_view [simp]:
  "cluster_view (fst (wait_latency ctx lat f)) = cluster_view f"
  "fk_model (fst (wait_latency ctx lat f)) = fk_model f"
  by (auto simp: wait_latency_def cluster_view_def MutatingCalls_def split: option.splits)

text \<open>
  The outcomes of \<open>invoke\<close>: refused before the operation ran, with the model untouched, or run from a
  state that differs from the first one in the clock and the pending fault only.
\<close>

lemma invoke_cases:
  obtains (refused) f1 err where "invoke ctx meth mutating fn f = refuse meth mutating err f1"
      "fk_model f1 = fk_model f" "fk_calls f1 = fk_calls f" "fk_session f1 = fk_session f"
      "fk_now f1 = fk_now f"
  | (ran) f1 where "invoke ctx meth mutating fn f =
        (case fn f1 of (Panic, f3) \<Rightarrow> (Panic, f3) | (r, f3) \<Rightarrow> (r, record_call meth mutating (err_of r) f3))"
      "fk_model f1 = fk_model f" "fk_calls f1 = fk_calls f" "fk_session f1 = fk_session f"
      "fk_now f1 = fk_now f"
proof -
  define f0 where "f0 = (case map_of (fk_failNext f) meth of
      Some k \<Rightarrow> f\<lparr>fk_failNext := mdel meth (fk_failNext f)\<rparr> | None \<Rightarrow> f)"
  define lat where "lat = mget (fk_latency f) 0 meth"
  obtain f2 w where wt: "wait_latency ctx lat f0 = (f2, w)" by fastforce
  have same: "fk_model f0 = fk_model f \<and> fk_calls f0 = fk_calls f \<and> fk_session f0 = fk_session f
      \<and> fk_now f0 = fk_now f"
    by (simp add: f0_def split: option.split)
  then have same2: "fk_model f2 = fk_model f \<and> fk_calls f2 = fk_calls f \<and> fk_session f2 = fk_session f
      \<and> fk_now f2 = fk_now f"
    using wt by (auto simp: wait_latency_def split: if_splits option.splits)
  note unfold = invoke_def [of ctx meth mutating fn f, folded f0_def lat_def, unfolded Let_def]
  consider "fk_unreachable f" | err where "\<not> fk_unreachable f" "w = Some err"
    | "\<not> fk_unreachable f" "w = None"
    by (cases w) auto
  then show thesis
  proof cases
    case 1
    then show ?thesis using same by (intro refused [where ?f1.0 = f0]) (simp_all add: unfold)
  next
    case (2 err)
    then show ?thesis using same2 wt by (intro refused [where ?f1.0 = f2]) (simp_all add: unfold)
  next
    case 3
    then have "invoke ctx meth mutating fn f = (case ctx_Err ctx (fk_wall f2) of
        Some err \<Rightarrow> refuse meth mutating (port_error KindTimeout err) f2
      | None \<Rightarrow> (case (case map_of (fk_failNext f) meth of
             Some k \<Rightarrow> Some k | None \<Rightarrow> map_of (fk_failAlways f) meth) of
           Some k \<Rightarrow> refuse meth mutating
             (port_error k (PlainError (''fake: injected '' @ meth @ '' failure''))) f2
         | None \<Rightarrow> (case fn f2 of (Panic, f3) \<Rightarrow> (Panic, f3)
             | (r, f3) \<Rightarrow> (r, record_call meth mutating (err_of r) f3))))"
      using wt by (simp add: unfold)
    then show ?thesis
      using refused [of _ f2] ran [of f2] same2
      by (cases "ctx_Err ctx (fk_wall f2)"; cases "case map_of (fk_failNext f) meth of
             Some k \<Rightarrow> Some k | None \<Rightarrow> map_of (fk_failAlways f) meth") simp_all
  qed
qed

lemma quiet_invoke_read [quiet_intros]:
  assumes "\<And>f. cluster_view (snd (fn f)) = cluster_view f"
  shows "quiet cluster_view (invoke ctx meth False fn)"
  unfolding quiet_def
proof
  fix f
  show "cluster_view (snd (invoke ctx meth False fn f)) = cluster_view f"
  proof (rule invoke_cases [of ctx meth False fn f])
    fix f1 err
    assume "invoke ctx meth False fn f = refuse meth False err f1"
      "fk_model f1 = fk_model f" "fk_calls f1 = fk_calls f"
    then show ?thesis by (simp add: refuse_def) (simp add: cluster_view_def MutatingCalls_def)
  next
    fix f1
    assume "invoke ctx meth False fn f =
        (case fn f1 of (Panic, f3) \<Rightarrow> (Panic, f3) | (r, f3) \<Rightarrow> (r, record_call meth False (err_of r) f3))"
      and "fk_model f1 = fk_model f" "fk_calls f1 = fk_calls f"
    moreover from this have "cluster_view f1 = cluster_view f" by (simp add: cluster_view_def MutatingCalls_def)
    ultimately show ?thesis
      using assms [of f1] by (auto split: prod.splits res.splits)
  qed
qed

lemma invoke_Ok:
  assumes "invoke ctx meth mutating fn f = (Ok a, f')"
  obtains f1 f3 where "fn f1 = (Ok a, f3)" "f' = record_call meth mutating None f3"
    "fk_model f1 = fk_model f" "fk_session f1 = fk_session f" "fk_now f1 = fk_now f" "fk_calls f1 = fk_calls f"
  using assms
  by (rule_tac invoke_cases [of ctx meth mutating fn f])
    (auto simp: refuse_def err_of_def split: prod.splits res.splits)

text \<open>A failing or panicking call may change the model only by running its operation.\<close>

lemma invoke_refused_model:
  "invoke ctx meth mutating fn f = (r, f') \<Longrightarrow>
     fk_model f' = fk_model f \<or> (\<exists>f1 f3. fk_model f1 = fk_model f \<and> fn f1 = (r, f3) \<and> fk_model f' = fk_model f3)"
  by (rule_tac invoke_cases [of ctx meth mutating fn f])
    (auto simp: refuse_def split: prod.splits res.splits)

end
