(* ===== verification/FakeAdmin.thy ===== *)
theory FakeAdmin
  imports FakeModel
begin

text \<open>
  The admin surface of the in-memory cluster (\<^verbatim>\<open>internal/kafka/fake/admin.go\<close>), operation by
  operation, as functions of the model run by \<open>invoke\<close>; then the record \<open>fake_admin\<close>, and the proofs
  that it meets the contracts \<open>admin_reads\<close> and \<open>admin_results\<close>.
\<close>

definition peek :: "(model \<Rightarrow> 'a res) \<Rightarrow> (Fake, 'a) eff" where
  "peek g f = (g (fk_model f), f)"

definition alter :: "(model \<Rightarrow> 'a res \<times> model) \<Rightarrow> (Fake, 'a) eff" where
  "alter g f = (case g (fk_model f) of (r, m) \<Rightarrow> (r, f\<lparr>fk_model := m\<rparr>))"

definition notFound :: "string \<Rightarrow> error" where
  "notFound res = kafkaErr KindNotFound res"

section \<open>Conversions\<close>

definition toDomainPartition :: "int \<Rightarrow> fakePartition \<Rightarrow> Partition" where
  "toDomainPartition i p = \<lparr>Partition_ID = wrap32 i, Partition_Leader = fp_leader p,
     Partition_Replicas = fp_replicas p, Partition_ISR = fp_isr p,
     Partition_BeginOffset = 0, Partition_EndOffset = 0\<rparr>"

definition indexed :: "'a list \<Rightarrow> (int \<times> 'a) list" where
  "indexed xs = zip (map int [0..<length xs]) xs"

definition toDomainTopic :: "string \<Rightarrow> fakeTopic \<Rightarrow> Topic" where
  "toDomainTopic name t = \<lparr>Topic_Name = name, Topic_Internal = ft_internal t,
     Topic_ReplicationFactor = ft_replicationFactor t,
     Topic_Partitions = map (\<lambda>(i, p). toDomainPartition i p) (indexed (ft_partitions t))\<rparr>"

definition toDomainGroup :: "fakeGroup \<Rightarrow> Group" where
  "toDomainGroup g = \<lparr>Group_ID = fg_id g, Group_State = fg_state g, Group_ProtocolType = fg_protocolType g,
     Group_CoordinatorID = fg_coordinatorID g, Group_Members = fg_members g\<rparr>"

definition sortedGroups :: "model \<Rightarrow> fakeGroup list" where
  "sortedGroups m = map (\<lambda>i. the (map_of (m_groups m) i)) (sort (mkeys (m_groups m)))"

definition hasBroker :: "model \<Rightarrow> int32 \<Rightarrow> bool" where
  "hasBroker m b \<longleftrightarrow> (\<exists>x \<in> set (m_brokers m). Broker_ID x = b)"

definition brokerConfigsOf :: "model \<Rightarrow> int32 \<Rightarrow> ConfigEntry list" where
  "brokerConfigsOf m b = (case m_brokerConfigs m of None \<Rightarrow> [] | Some c \<Rightarrow> mget c [] b)"

definition toDomainScramUser :: "fakeScramUser \<Rightarrow> ScramUser" where
  "toDomainScramUser u = \<lparr>ScramUser_Name = fs_name u,
     ScramUser_Credentials = map (\<lambda>mech. \<lparr>ScramCredential_Mechanism = mech,
         ScramCredential_Iterations = mget (fs_credentials u) 0 mech\<rparr>)
       (sort (mkeys (fs_credentials u)))\<rparr>"

definition toDomainDescribedQuota :: "fakeQuota \<Rightarrow> DescribedQuota" where
  "toDomainDescribedQuota q = \<lparr>DescribedQuota_Entity = fqt_entity q,
     DescribedQuota_Values = map (\<lambda>k. \<lparr>QuotaValue_Key = k, QuotaValue_Value = mget (fqt_values q) 0 k\<rparr>)
       (sort (mkeys (fqt_values q)))\<rparr>"

fun join_commas :: "string list \<Rightarrow> string" where
  "join_commas [] = []"
| "join_commas [x] = x"
| "join_commas (x # y # ys) = x @ '','' @ join_commas (y # ys)"

definition entityKey :: "QuotaEntity \<Rightarrow> string" where
  "entityKey e = join_commas (sort (map (\<lambda>c. QuotaEntityComponent_Type c @ ''=''
     @ (case QuotaEntityComponent_Name c of None \<Rightarrow> ''<default>'' | Some n \<Rightarrow> n)) e))"

definition entityHasType :: "QuotaEntity \<Rightarrow> string \<Rightarrow> bool" where
  "entityHasType e t \<longleftrightarrow> (\<exists>c \<in> set e. QuotaEntityComponent_Type c = t)"

section \<open>Reads\<close>

definition fake_DescribeCluster :: "Ctx \<Rightarrow> (Fake, ClusterInfo) eff" where
  "fake_DescribeCluster ctx = invoke ctx ''DescribeCluster'' False (peek (\<lambda>m.
     Ok \<lparr>ClusterInfo_ClusterID = m_clusterID m, ClusterInfo_ControllerID = m_controllerID m,
         ClusterInfo_Brokers = m_brokers m\<rparr>))"

definition fake_DescribeBrokerConfigs :: "Ctx \<Rightarrow> int32 \<Rightarrow> (Fake, ConfigEntry list) eff" where
  "fake_DescribeBrokerConfigs ctx b = invoke ctx ''DescribeBrokerConfigs'' False (peek (\<lambda>m.
     if \<not> hasBroker m b then Err (notFound ''broker'') else Ok (brokerConfigsOf m b)))"

definition fake_Metadata :: "Ctx \<Rightarrow> (Fake, ClusterMetadata) eff" where
  "fake_Metadata ctx = invoke ctx ''Metadata'' False (peek (\<lambda>m.
     Ok \<lparr>ClusterMetadata_Brokers = m_brokers m,
         ClusterMetadata_Topics =
           sort_key Topic_Name (map (\<lambda>(name, t). toDomainTopic name t) (m_topics m))\<rparr>))"

definition topicSummary :: "string \<Rightarrow> fakeTopic \<Rightarrow> TopicSummary" where
  "topicSummary name t = \<lparr>TopicSummary_Name = name, TopicSummary_Internal = ft_internal t,
     TopicSummary_PartitionCount = int (length (ft_partitions t)),
     TopicSummary_ReplicationFactor = ft_replicationFactor t\<rparr>"

definition fake_ListTopics :: "Ctx \<Rightarrow> (Fake, TopicSummary list) eff" where
  "fake_ListTopics ctx = invoke ctx ''ListTopics'' False (peek (\<lambda>m.
     Ok (sort_key TopicSummary_Name (map (\<lambda>(name, t). topicSummary name t) (m_topics m)))))"

text \<open>\<open>t := f.model.topics[topic]; if t == nil { return NotFound }\<close>\<close>

definition with_topic :: "string \<Rightarrow> (fakeTopic \<Rightarrow> 'a) \<Rightarrow> (Fake, 'a) eff" where
  "with_topic topic g = peek (\<lambda>m. case map_of (m_topics m) topic of
     None \<Rightarrow> Err (notFound ''topic'') | Some t \<Rightarrow> Ok (g t))"

definition fake_DescribeTopics :: "Ctx \<Rightarrow> string \<Rightarrow> (Fake, Topic) eff" where
  "fake_DescribeTopics ctx topic =
     invoke ctx ''DescribeTopics'' False (with_topic topic (toDomainTopic topic))"

definition fake_DescribeTopicConfigs :: "Ctx \<Rightarrow> string \<Rightarrow> (Fake, ConfigEntry list) eff" where
  "fake_DescribeTopicConfigs ctx topic =
     invoke ctx ''DescribeTopicConfigs'' False (with_topic topic ft_configs)"

definition per_partition :: "(fakePartition \<Rightarrow> int64) \<Rightarrow> fakeTopic \<Rightarrow> (int32 \<times> int64) list" where
  "per_partition g t = map (\<lambda>(i, p). (wrap32 i, g p)) (indexed (ft_partitions t))"

definition fake_ListStartOffsets :: "Ctx \<Rightarrow> string \<Rightarrow> (Fake, (int32 \<times> int64) list) eff" where
  "fake_ListStartOffsets ctx topic =
     invoke ctx ''ListStartOffsets'' False (with_topic topic (per_partition fp_beginOffset))"

definition fake_ListEndOffsets :: "Ctx \<Rightarrow> string \<Rightarrow> (Fake, (int32 \<times> int64) list) eff" where
  "fake_ListEndOffsets ctx topic =
     invoke ctx ''ListEndOffsets'' False (with_topic topic (per_partition fp_end))"

fun first_at_or_after :: "time \<Rightarrow> int64 \<Rightarrow> Record list \<Rightarrow> int64" where
  "first_at_or_after target off [] = off"
| "first_at_or_after target off (r # rs) =
     (if \<not> Record_Timestamp r < target then Record_Offset r else first_at_or_after target off rs)"

definition fake_ListOffsetsAfterMilli :: "Ctx \<Rightarrow> string \<Rightarrow> int64 \<Rightarrow> (Fake, (int32 \<times> int64) list) eff" where
  "fake_ListOffsetsAfterMilli ctx topic ms =
     invoke ctx ''ListOffsetsAfterMilli'' False (with_topic topic (per_partition
       (\<lambda>p. first_at_or_after (fromUnixMilli ms) (fp_end p) (fp_records p))))"

definition logDirReplicas :: "fakeTopic \<Rightarrow> LogDirReplica list" where
  "logDirReplicas t = sort_key (\<lambda>l. (LogDirReplica_Partition l, LogDirReplica_BrokerID l))
     (concat (map (\<lambda>(i, p). map (\<lambda>(b, e). \<lparr>LogDirReplica_Partition = wrap32 i, LogDirReplica_BrokerID = b,
         LogDirReplica_LogDir = fld_dir e, LogDirReplica_Bytes = fld_bytes e\<rparr>) (fp_logDir p))
       (indexed (ft_partitions t))))"

definition fake_DescribeLogDirs :: "Ctx \<Rightarrow> string \<Rightarrow> (Fake, LogDirReplica list) eff" where
  "fake_DescribeLogDirs ctx topic = invoke ctx ''DescribeLogDirs'' False (with_topic topic logDirReplicas)"

definition groupSummary :: "fakeGroup \<Rightarrow> GroupSummary" where
  "groupSummary g = \<lparr>GroupSummary_ID = fg_id g, GroupSummary_State = fg_state g,
     GroupSummary_ProtocolType = fg_protocolType g,
     GroupSummary_MemberCount = int (length (fg_members g))\<rparr>"

definition fake_ListGroups :: "Ctx \<Rightarrow> string list \<Rightarrow> (Fake, GroupSummary list) eff" where
  "fake_ListGroups ctx states = invoke ctx ''ListGroups'' False (peek (\<lambda>m.
     Ok (map groupSummary (filter (\<lambda>g. states = [] \<or> fg_state g \<in> set states) (sortedGroups m)))))"

text \<open>One result per name, or the first missing name's error.\<close>

fun lookup_all :: "error \<Rightarrow> (string \<times> 'a) list \<Rightarrow> ('a \<Rightarrow> 'b) \<Rightarrow> string list \<Rightarrow> 'b list res" where
  "lookup_all err m g [] = Ok []"
| "lookup_all err m g (i # is) = (case map_of m i of
     None \<Rightarrow> Err err
   | Some x \<Rightarrow> (case lookup_all err m g is of Ok ys \<Rightarrow> Ok (g x # ys) | r \<Rightarrow> r))"

definition fake_DescribeGroups :: "Ctx \<Rightarrow> string list \<Rightarrow> (Fake, Group list) eff" where
  "fake_DescribeGroups ctx ids = invoke ctx ''DescribeGroups'' False (peek (\<lambda>m.
     if ids \<noteq> [] then lookup_all (notFound ''group'') (m_groups m) toDomainGroup ids
     else Ok (map toDomainGroup (sortedGroups m))))"

definition fake_FetchGroupOffsets :: "Ctx \<Rightarrow> string \<Rightarrow> (Fake, (TopicPartition \<times> int64) list) eff" where
  "fake_FetchGroupOffsets ctx g = invoke ctx ''FetchGroupOffsets'' False (peek (\<lambda>m.
     case map_of (m_groups m) g of None \<Rightarrow> Err (notFound ''group'') | Some gr \<Rightarrow> Ok (fg_offsets gr)))"

definition fake_DescribeQuorum :: "Ctx \<Rightarrow> (Fake, QuorumStatus) eff" where
  "fake_DescribeQuorum ctx = invoke ctx ''DescribeQuorum'' False (peek (\<lambda>m.
     Ok \<lparr>QuorumStatus_LeaderID = fq_leaderID (m_quorum m), QuorumStatus_Epoch = fq_epoch (m_quorum m),
         QuorumStatus_Voters = fq_voters (m_quorum m), QuorumStatus_Observers = fq_observers (m_quorum m)\<rparr>))"

definition reassignmentsOf :: "string \<Rightarrow> fakeTopic \<Rightarrow> PartitionReassignment list" where
  "reassignmentsOf name t = map (\<lambda>(i, p). \<lparr>PartitionReassignment_Topic = name,
       PartitionReassignment_Partition = wrap32 i, PartitionReassignment_Replicas = fp_replicas p,
       PartitionReassignment_AddingReplicas = fp_addingReplicas p,
       PartitionReassignment_RemovingReplicas = fp_removingReplicas p\<rparr>)
     (filter (\<lambda>(i, p). \<not> (fp_addingReplicas p = [] \<and> fp_removingReplicas p = []))
       (indexed (ft_partitions t)))"

definition fake_ListReassignments :: "Ctx \<Rightarrow> (Fake, PartitionReassignment list) eff" where
  "fake_ListReassignments ctx = invoke ctx ''ListReassignments'' False (peek (\<lambda>m.
     Ok (sort_key (\<lambda>r. (PartitionReassignment_Topic r, PartitionReassignment_Partition r))
       (concat (map (\<lambda>(name, t). reassignmentsOf name t) (m_topics m))))))"

definition add_logdir ::
  "int32 \<times> fakeLogDirEntry \<Rightarrow> ((int32 \<times> string) \<times> BrokerLogDir) list \<Rightarrow> ((int32 \<times> string) \<times> BrokerLogDir) list"
where
  "add_logdir be agg = (case be of (b, e) \<Rightarrow>
     let d = (case map_of agg (b, fld_dir e) of
          None \<Rightarrow> \<lparr>BrokerLogDir_BrokerID = b, BrokerLogDir_LogDir = fld_dir e,
             BrokerLogDir_TotalBytes = 0, BrokerLogDir_PartitionCount = 0\<rparr>
        | Some d \<Rightarrow> d)
     in mput (b, fld_dir e)
       (d\<lparr>BrokerLogDir_TotalBytes := wrap64 (BrokerLogDir_TotalBytes d + fld_bytes e),
          BrokerLogDir_PartitionCount := wrap64 (BrokerLogDir_PartitionCount d + 1)\<rparr>) agg)"

definition fake_DescribeAllLogDirs :: "Ctx \<Rightarrow> (Fake, BrokerLogDir list) eff" where
  "fake_DescribeAllLogDirs ctx = invoke ctx ''DescribeAllLogDirs'' False (peek (\<lambda>m.
     Ok (sort_key (\<lambda>d. (BrokerLogDir_BrokerID d, BrokerLogDir_LogDir d))
       (map snd (fold add_logdir
         (concat (map (\<lambda>(name, t). concat (map fp_logDir (ft_partitions t))) (m_topics m))) [])))))"

definition fake_DescribeUserSCRAMs :: "Ctx \<Rightarrow> string list \<Rightarrow> (Fake, ScramUser list) eff" where
  "fake_DescribeUserSCRAMs ctx users = invoke ctx ''DescribeUserSCRAMs'' False (peek (\<lambda>m.
     if users \<noteq> [] then lookup_all (notFound ''user'') (m_scramUsers m) toDomainScramUser users
     else Ok (map (\<lambda>n. toDomainScramUser (the (map_of (m_scramUsers m) n))) (sort (mkeys (m_scramUsers m))))))"

definition fake_DescribeClientQuotas :: "Ctx \<Rightarrow> string \<Rightarrow> (Fake, DescribedQuota list) eff" where
  "fake_DescribeClientQuotas ctx entityType = invoke ctx ''DescribeClientQuotas'' False (peek (\<lambda>m.
     Ok (map (\<lambda>k. toDomainDescribedQuota (the (map_of (m_quotas m) k)))
       (sort (map fst (filter (\<lambda>(k, q). entityType = [] \<or> entityHasType (fqt_entity q) entityType)
         (m_quotas m)))))))"

section \<open>Topic writes\<close>

definition dynamic_entry :: "string \<Rightarrow> string \<Rightarrow> ConfigEntry" where
  "dynamic_entry name val = zero_ConfigEntry\<lparr>ConfigEntry_Name := name, ConfigEntry_Value := val,
     ConfigEntry_Source := Some SourceDynamic\<rparr>"

text \<open>\<open>make([]fakePartition, spec.Partitions)\<close> panics for a negative count.\<close>

fun create_topics :: "bool \<Rightarrow> TopicSpec list \<Rightarrow> model \<Rightarrow> TopicCreateResult list res \<times> model" where
  "create_topics validateOnly [] m = (Ok [], m)"
| "create_topics validateOnly (spec # specs) m =
    (if map_of (m_topics m) (TopicSpec_Name spec) \<noteq> None then
       (case create_topics validateOnly specs m of
          (Ok out, m') \<Rightarrow> (Ok (\<lparr>TopicCreateResult_Name = TopicSpec_Name spec, TopicCreateResult_Partitions = 0,
             TopicCreateResult_ReplicationFactor = 0, TopicCreateResult_Configs = [],
             TopicCreateResult_Err = Some (kafkaErr KindAlreadyExists ''topic'')\<rparr> # out), m')
        | r \<Rightarrow> r)
     else
       (let configs = map (\<lambda>(name, val). dynamic_entry name val) (TopicSpec_Configs spec);
            res = \<lparr>TopicCreateResult_Name = TopicSpec_Name spec,
              TopicCreateResult_Partitions = TopicSpec_Partitions spec,
              TopicCreateResult_ReplicationFactor = TopicSpec_ReplicationFactor spec,
              TopicCreateResult_Configs = configs, TopicCreateResult_Err = None\<rparr>
        in if \<not> validateOnly \<and> TopicSpec_Partitions spec < 0 then (Panic, m)
           else (case create_topics validateOnly specs (if validateOnly then m
                 else m\<lparr>m_topics := mput (TopicSpec_Name spec) \<lparr>ft_name = TopicSpec_Name spec,
                   ft_internal = False, ft_replicationFactor = TopicSpec_ReplicationFactor spec,
                   ft_partitions = replicate (nat (TopicSpec_Partitions spec)) zero_partition,
                   ft_configs = configs\<rparr> (m_topics m)\<rparr>) of
             (Ok out, m') \<Rightarrow> (Ok (res # out), m')
           | r \<Rightarrow> r)))"

definition fake_CreateTopics :: "Ctx \<Rightarrow> TopicSpec list \<Rightarrow> bool \<Rightarrow> (Fake, TopicCreateResult list) eff" where
  "fake_CreateTopics ctx specs validateOnly =
     invoke ctx ''CreateTopics'' (\<not> validateOnly) (alter (create_topics validateOnly specs))"

text \<open>Setting or resetting one key: the first entry with that name, if there is one.\<close>

fun config_index :: "string \<Rightarrow> ConfigEntry list \<Rightarrow> nat option" where
  "config_index name [] = None"
| "config_index name (c # cs) = (if ConfigEntry_Name c = name then Some 0 else map_option Suc (config_index name cs))"

definition alter_config :: "ConfigChange \<Rightarrow> ConfigEntry list \<Rightarrow> ConfigEntry list" where
  "alter_config ch cs =
    (case ConfigChange_Value ch of
       Some v \<Rightarrow> (case config_index (ConfigChange_Name ch) cs of
           Some i \<Rightarrow> cs[i := dynamic_entry (ConfigChange_Name ch) v]
         | None \<Rightarrow> cs @ [dynamic_entry (ConfigChange_Name ch) v])
     | None \<Rightarrow> (case config_index (ConfigChange_Name ch) cs of
           Some i \<Rightarrow> cs[i := (cs ! i)\<lparr>ConfigEntry_Source := Some SourceDefault\<rparr>]
         | None \<Rightarrow> cs))"

definition fake_IncrementalAlterTopicConfigs :: "Ctx \<Rightarrow> string \<Rightarrow> ConfigChange list \<Rightarrow> (Fake, unit) eff" where
  "fake_IncrementalAlterTopicConfigs ctx topic changes =
     invoke ctx ''IncrementalAlterTopicConfigs'' True (alter (\<lambda>m.
       case map_of (m_topics m) topic of
         None \<Rightarrow> (Err (notFound ''topic''), m)
       | Some t \<Rightarrow> (Ok (), m\<lparr>m_topics := mput topic
           (t\<lparr>ft_configs := fold alter_config changes (ft_configs t)\<rparr>) (m_topics m)\<rparr>)))"

definition fake_CreatePartitions :: "Ctx \<Rightarrow> string \<Rightarrow> int32 \<Rightarrow> (Fake, unit) eff" where
  "fake_CreatePartitions ctx topic newTotal =
     invoke ctx ''CreatePartitions'' True (alter (\<lambda>m.
       case map_of (m_topics m) topic of
         None \<Rightarrow> (Err (notFound ''topic''), m)
       | Some t \<Rightarrow>
           if newTotal \<le> int (length (ft_partitions t)) then (Err (kafkaErr KindBroker ''topic''), m)
           else (Ok (), m\<lparr>m_topics := mput topic
             (t\<lparr>ft_partitions := ft_partitions t
                @ replicate (nat (newTotal - int (length (ft_partitions t)))) zero_partition\<rparr>) (m_topics m)\<rparr>)))"

fun delete_topics :: "string list \<Rightarrow> model \<Rightarrow> TopicDeleteResult list \<times> model" where
  "delete_topics [] m = ([], m)"
| "delete_topics (name # names) m =
    (case map_of (m_topics m) name of
       None \<Rightarrow> (case delete_topics names m of (out, m') \<Rightarrow>
         (\<lparr>TopicDeleteResult_Name = name, TopicDeleteResult_Err = Some (notFound ''topic'')\<rparr> # out, m'))
     | Some t \<Rightarrow> (case delete_topics names (m\<lparr>m_topics := mdel name (m_topics m)\<rparr>) of (out, m') \<Rightarrow>
         (\<lparr>TopicDeleteResult_Name = name, TopicDeleteResult_Err = None\<rparr> # out, m')))"

definition fake_DeleteTopics :: "Ctx \<Rightarrow> string list \<Rightarrow> (Fake, TopicDeleteResult list) eff" where
  "fake_DeleteTopics ctx topics = invoke ctx ''DeleteTopics'' True (alter (\<lambda>m.
     case delete_topics topics m of (out, m') \<Rightarrow> (Ok out, m')))"

text \<open>The first offending entry, in the order the range loop visits the map.\<close>

fun check_truncate :: "fakePartition list \<Rightarrow> (int32 \<times> int64) list \<Rightarrow> Err" where
  "check_truncate ps [] = None"
| "check_truncate ps ((p, off) # rest) =
    (if p < 0 \<or> p \<ge> int (length ps) then Some (notFound ''partition'')
     else if off > fp_end (ps ! nat p) then Some (kafkaErr KindBroker ''topic'')
     else check_truncate ps rest)"

definition delete_records ::
  "string \<Rightarrow> (int32 \<times> int64) list \<Rightarrow> model \<Rightarrow> PartitionLowWatermark list res \<times> model" where
  "delete_records topic truncateTo m =
    (case map_of (m_topics m) topic of
       None \<Rightarrow> (Err (notFound ''topic''), m)
     | Some t \<Rightarrow> (case check_truncate (ft_partitions t) truncateTo of
         Some err \<Rightarrow> (Err err, m)
       | None \<Rightarrow>
           (let parts = sort (mkeys truncateTo);
                ps = fold (\<lambda>p ps. ps[nat p := truncate_at (mget truncateTo 0 p) (ps ! nat p)])
                  parts (ft_partitions t)
            in (Ok (map (\<lambda>p. \<lparr>PartitionLowWatermark_Partition = p,
                  PartitionLowWatermark_LowWatermark = mget truncateTo 0 p\<rparr>) parts),
                m\<lparr>m_topics := mput topic (t\<lparr>ft_partitions := ps\<rparr>) (m_topics m)\<rparr>))))"

definition fake_DeleteRecords ::
  "Ctx \<Rightarrow> string \<Rightarrow> (int32 \<times> int64) list \<Rightarrow> (Fake, PartitionLowWatermark list) eff" where
  "fake_DeleteRecords ctx topic truncateTo =
     invoke ctx ''DeleteRecords'' True (alter (delete_records topic truncateTo))"

section \<open>Group writes\<close>

definition commit_offsets ::
  "string \<Rightarrow> (TopicPartition \<times> int64) list \<Rightarrow> model \<Rightarrow> unit res \<times> model" where
  "commit_offsets gid offsets m =
    (let g = (case map_of (m_groups m) gid of
           Some g \<Rightarrow> g
         | None \<Rightarrow> \<lparr>fg_id = gid, fg_state = ''Empty'', fg_protocolType = [], fg_coordinatorID = 0,
             fg_offsets = [], fg_members = []\<rparr>)
     in if fg_members g \<noteq> [] then (Err (kafkaErr KindGroupActive ''group''), m)
        else (Ok (), m\<lparr>m_groups := mput gid
          (g\<lparr>fg_offsets := fold (\<lambda>(tp, off). mput tp off) offsets (fg_offsets g)\<rparr>) (m_groups m)\<rparr>))"

definition fake_CommitGroupOffsets :: "Ctx \<Rightarrow> string \<Rightarrow> (TopicPartition \<times> int64) list \<Rightarrow> (Fake, unit) eff" where
  "fake_CommitGroupOffsets ctx gid offsets =
     invoke ctx ''CommitGroupOffsets'' True (alter (commit_offsets gid offsets))"

fun delete_groups :: "string list \<Rightarrow> model \<Rightarrow> GroupDeleteResult list \<times> model" where
  "delete_groups [] m = ([], m)"
| "delete_groups (i # is) m =
    (case map_of (m_groups m) i of
       None \<Rightarrow> (case delete_groups is m of (out, m') \<Rightarrow>
         (\<lparr>GroupDeleteResult_ID = i, GroupDeleteResult_Err = Some (notFound ''group'')\<rparr> # out, m'))
     | Some g \<Rightarrow>
         if fg_members g \<noteq> [] then (case delete_groups is m of (out, m') \<Rightarrow>
           (\<lparr>GroupDeleteResult_ID = i, GroupDeleteResult_Err = Some (kafkaErr KindGroupActive ''group'')\<rparr> # out, m'))
         else (case delete_groups is (m\<lparr>m_groups := mdel i (m_groups m)\<rparr>) of (out, m') \<Rightarrow>
           (\<lparr>GroupDeleteResult_ID = i, GroupDeleteResult_Err = None\<rparr> # out, m')))"

definition fake_DeleteGroups :: "Ctx \<Rightarrow> string list \<Rightarrow> (Fake, GroupDeleteResult list) eff" where
  "fake_DeleteGroups ctx groups = invoke ctx ''DeleteGroups'' True (alter (\<lambda>m.
     case delete_groups groups m of (out, m') \<Rightarrow> (Ok out, m')))"

text \<open>Removing the first member with an id.\<close>

fun drop_member :: "string \<Rightarrow> GroupMember list \<Rightarrow> GroupMember list option" where
  "drop_member i [] = None"
| "drop_member i (x # xs) = (if GroupMember_MemberID x = i then Some xs
     else map_option ((#) x) (drop_member i xs))"

fun leave_group :: "string list \<Rightarrow> GroupMember list \<Rightarrow> LeaveGroupResult list \<times> GroupMember list" where
  "leave_group [] ms = ([], ms)"
| "leave_group (i # is) ms =
    (case drop_member i ms of
       None \<Rightarrow> (case leave_group is ms of (out, ms') \<Rightarrow>
         (\<lparr>LeaveGroupResult_MemberID = i, LeaveGroupResult_Err = Some (notFound ''member'')\<rparr> # out, ms'))
     | Some ms1 \<Rightarrow> (case leave_group is ms1 of (out, ms') \<Rightarrow>
         (\<lparr>LeaveGroupResult_MemberID = i, LeaveGroupResult_Err = None\<rparr> # out, ms')))"

definition fake_LeaveGroup :: "Ctx \<Rightarrow> string \<Rightarrow> string list \<Rightarrow> (Fake, LeaveGroupResult list) eff" where
  "fake_LeaveGroup ctx gid members = invoke ctx ''LeaveGroup'' True (alter (\<lambda>m.
     case map_of (m_groups m) gid of
       None \<Rightarrow> (Err (notFound ''group''), m)
     | Some g \<Rightarrow> (case leave_group members (fg_members g) of (out, ms) \<Rightarrow>
         (Ok out, m\<lparr>m_groups := mput gid (g\<lparr>fg_members := ms\<rparr>) (m_groups m)\<rparr>))))"

section \<open>Cluster writes\<close>

definition replicasOnlyIn :: "int32 list \<Rightarrow> int32 list \<Rightarrow> int32 list" where
  "replicasOnlyIn a b = filter (\<lambda>r. r \<notin> set b) a"

definition reassign :: "int32 list option \<Rightarrow> fakePartition \<Rightarrow> fakePartition" where
  "reassign newReplicas p = (case newReplicas of
     None \<Rightarrow> p\<lparr>fp_addingReplicas := [], fp_removingReplicas := []\<rparr>
   | Some rs \<Rightarrow> p\<lparr>fp_addingReplicas := replicasOnlyIn rs (fp_replicas p),
       fp_removingReplicas := replicasOnlyIn (fp_replicas p) rs, fp_replicas := rs\<rparr>)"

definition has_partition :: "model \<Rightarrow> TopicPartition \<Rightarrow> bool" where
  "has_partition m tp \<longleftrightarrow> (case map_of (m_topics m) (fst tp) of
     None \<Rightarrow> False | Some t \<Rightarrow> 0 \<le> snd tp \<and> snd tp < int (length (ft_partitions t)))"

definition reassign_step ::
  "(TopicPartition \<times> int32 list option) list \<Rightarrow> TopicPartition \<Rightarrow> ReassignResult list \<times> model
   \<Rightarrow> ReassignResult list \<times> model" where
  "reassign_step moves tp acc = (case acc of (out, m) \<Rightarrow>
     if \<not> has_partition m tp then
       (out @ [\<lparr>ReassignResult_Topic = fst tp, ReassignResult_Partition = snd tp,
          ReassignResult_Err = Some (notFound ''partition'')\<rparr>], m)
     else
       (out @ [\<lparr>ReassignResult_Topic = fst tp, ReassignResult_Partition = snd tp, ReassignResult_Err = None\<rparr>],
        upd_partition (fst tp) (snd tp) (reassign (mget moves None tp)) m))"

definition fake_AlterPartitionAssignments ::
  "Ctx \<Rightarrow> (TopicPartition \<times> int32 list option) list \<Rightarrow> (Fake, ReassignResult list) eff" where
  "fake_AlterPartitionAssignments ctx moves = invoke ctx ''AlterPartitionAssignments'' True (alter (\<lambda>m.
     case fold (reassign_step moves) (sort (mkeys moves)) ([], m) of (out, m') \<Rightarrow> (Ok out, m')))"

definition elect :: "fakePartition \<Rightarrow> fakePartition" where
  "elect p = (case fp_replicas p of [] \<Rightarrow> p | r # _ \<Rightarrow> p\<lparr>fp_leader := r\<rparr>)"

definition elect_step ::
  "TopicPartition \<Rightarrow> ElectLeaderResult list \<times> model \<Rightarrow> ElectLeaderResult list \<times> model" where
  "elect_step tp acc = (case acc of (out, m) \<Rightarrow>
     if \<not> has_partition m tp then
       (out @ [\<lparr>ElectLeaderResult_Topic = fst tp, ElectLeaderResult_Partition = snd tp,
          ElectLeaderResult_Err = Some (notFound ''partition'')\<rparr>], m)
     else
       (out @ [\<lparr>ElectLeaderResult_Topic = fst tp, ElectLeaderResult_Partition = snd tp,
          ElectLeaderResult_Err = None\<rparr>],
        upd_partition (fst tp) (snd tp) elect m))"

definition fake_ElectLeaders :: "Ctx \<Rightarrow> bool \<Rightarrow> TopicPartition list \<Rightarrow> (Fake, ElectLeaderResult list) eff" where
  "fake_ElectLeaders ctx preferred partitions = invoke ctx ''ElectLeaders'' True (alter (\<lambda>m.
     case fold elect_step partitions ([], m) of (out, m') \<Rightarrow> (Ok out, m')))"

text \<open>
  The index \<open>byName\<close> is built once, before the loop: a later entry overwrites an earlier one with the
  same name, and an entry the loop appends is not in it.
\<close>

definition last_index :: "ConfigEntry list \<Rightarrow> (string \<times> nat) list" where
  "last_index cs = fold (\<lambda>(i, c). mput (ConfigEntry_Name c) i) (zip [0..<length cs] cs) []"

definition alter_broker_config :: "(string \<times> nat) list \<Rightarrow> ConfigChange \<Rightarrow> ConfigEntry list \<Rightarrow> ConfigEntry list" where
  "alter_broker_config byName ch cs =
    (case map_of byName (ConfigChange_Name ch) of
       Some i \<Rightarrow> (case ConfigChange_Value ch of
           Some v \<Rightarrow> cs[i := (cs ! i)\<lparr>ConfigEntry_Value := v, ConfigEntry_Source := Some SourceDynamic\<rparr>]
         | None \<Rightarrow> cs[i := (cs ! i)\<lparr>ConfigEntry_Source := Some SourceDefault\<rparr>])
     | None \<Rightarrow> (case ConfigChange_Value ch of
           Some v \<Rightarrow> cs @ [dynamic_entry (ConfigChange_Name ch) v]
         | None \<Rightarrow> cs))"

text \<open>The write to a nil \<open>brokerConfigs\<close> panics.\<close>

definition fake_IncrementalAlterBrokerConfigs :: "Ctx \<Rightarrow> int32 \<Rightarrow> ConfigChange list \<Rightarrow> (Fake, unit) eff" where
  "fake_IncrementalAlterBrokerConfigs ctx b changes =
     invoke ctx ''IncrementalAlterBrokerConfigs'' True (alter (\<lambda>m.
       if \<not> hasBroker m b then (Err (notFound ''broker''), m)
       else (let configs = brokerConfigsOf m b;
                 configs' = fold (alter_broker_config (last_index configs)) changes configs
             in case m_brokerConfigs m of
                  None \<Rightarrow> (Panic, m)
                | Some c \<Rightarrow> (Ok (), m\<lparr>m_brokerConfigs := Some (mput b configs' c)\<rparr>))))"

section \<open>Security writes\<close>

definition mark :: "string \<Rightarrow> string list \<Rightarrow> string list" where
  "mark user order = (if user \<in> set order then order else order @ [user])"

definition scram_upsert :: "ScramUpsert \<Rightarrow> (string \<times> fakeScramUser) list \<Rightarrow> (string \<times> fakeScramUser) list" where
  "scram_upsert u users =
    (let target = (case map_of users (ScramUpsert_User u) of
          Some t \<Rightarrow> t | None \<Rightarrow> \<lparr>fs_name = ScramUpsert_User u, fs_credentials = []\<rparr>)
     in mput (ScramUpsert_User u)
       (target\<lparr>fs_credentials := mput (ScramUpsert_Mechanism u) (ScramUpsert_Iterations u) (fs_credentials target)\<rparr>)
       users)"

definition scram_delete ::
  "ScramDelete \<Rightarrow> (string \<times> fakeScramUser) list \<times> (string \<times> error) list
   \<Rightarrow> (string \<times> fakeScramUser) list \<times> (string \<times> error) list" where
  "scram_delete d acc = (case acc of (users, errs) \<Rightarrow>
     (case map_of users (ScramDelete_User d) of
        None \<Rightarrow> (users, mput (ScramDelete_User d) (notFound ''user'') errs)
      | Some t \<Rightarrow>
          if \<not> mhas (fs_credentials t) (ScramDelete_Mechanism d)
          then (users, mput (ScramDelete_User d) (notFound ''user'') errs)
          else (let creds = mdel (ScramDelete_Mechanism d) (fs_credentials t)
                in if creds = [] then (mdel (ScramDelete_User d) users, errs)
                   else (mput (ScramDelete_User d) (t\<lparr>fs_credentials := creds\<rparr>) users, errs))))"

definition fake_AlterUserSCRAMs ::
  "Ctx \<Rightarrow> ScramUpsert list \<Rightarrow> ScramDelete list \<Rightarrow> (Fake, ScramAlterResult list) eff" where
  "fake_AlterUserSCRAMs ctx upserts deletes = invoke ctx ''AlterUserSCRAMs'' True (alter (\<lambda>m.
     let order = fold mark (map ScramUpsert_User upserts @ map ScramDelete_User deletes) [];
         (users, errs) = fold scram_delete deletes (fold scram_upsert upserts (m_scramUsers m), [])
     in (Ok (map (\<lambda>u. \<lparr>ScramAlterResult_User = u, ScramAlterResult_Err = map_of errs u\<rparr>) order),
         m\<lparr>m_scramUsers := users\<rparr>)))"

definition quota_op :: "QuotaOp \<Rightarrow> (string \<times> float64) list \<Rightarrow> (string \<times> float64) list" where
  "quota_op op vals = (if QuotaOp_Remove op then mdel (QuotaOp_Key op) vals
     else mput (QuotaOp_Key op) (QuotaOp_Value op) vals)"

definition alter_quota :: "QuotaAlterEntry \<Rightarrow> (string \<times> fakeQuota) list \<Rightarrow> (string \<times> fakeQuota) list" where
  "alter_quota e quotas =
    (let key = entityKey (QuotaAlterEntry_Entity e);
         q = (case map_of quotas key of
            Some q \<Rightarrow> q | None \<Rightarrow> \<lparr>fqt_entity = QuotaAlterEntry_Entity e, fqt_values = []\<rparr>);
         vals = fold quota_op (QuotaAlterEntry_Ops e) (fqt_values q)
     in if vals = [] then mdel key quotas else mput key (q\<lparr>fqt_values := vals\<rparr>) quotas)"

definition fake_AlterClientQuotas :: "Ctx \<Rightarrow> QuotaAlterEntry list \<Rightarrow> (Fake, QuotaAlterResult list) eff" where
  "fake_AlterClientQuotas ctx entries = invoke ctx ''AlterClientQuotas'' True (alter (\<lambda>m.
     (Ok (map (\<lambda>e. \<lparr>QuotaAlterResult_Entity = QuotaAlterEntry_Entity e, QuotaAlterResult_Err = None\<rparr>) entries),
      m\<lparr>m_quotas := fold alter_quota entries (m_quotas m)\<rparr>)))"

section \<open>The admin surface\<close>

definition fake_admin :: "Ctx \<Rightarrow> Fake Admin" where
  "fake_admin ctx = \<lparr>
     DescribeCluster = fake_DescribeCluster ctx,
     DescribeBrokerConfigs = fake_DescribeBrokerConfigs ctx,
     Metadata = fake_Metadata ctx,
     ListTopics = fake_ListTopics ctx,
     DescribeTopics = fake_DescribeTopics ctx,
     DescribeTopicConfigs = fake_DescribeTopicConfigs ctx,
     ListStartOffsets = fake_ListStartOffsets ctx,
     ListEndOffsets = fake_ListEndOffsets ctx,
     ListOffsetsAfterMilli = fake_ListOffsetsAfterMilli ctx,
     DescribeLogDirs = fake_DescribeLogDirs ctx,
     ListGroups = fake_ListGroups ctx,
     DescribeGroups = fake_DescribeGroups ctx,
     FetchGroupOffsets = fake_FetchGroupOffsets ctx,
     CreateTopics = fake_CreateTopics ctx,
     IncrementalAlterTopicConfigs = fake_IncrementalAlterTopicConfigs ctx,
     CreatePartitions = fake_CreatePartitions ctx,
     DeleteTopics = fake_DeleteTopics ctx,
     DeleteRecords = fake_DeleteRecords ctx,
     CommitGroupOffsets = fake_CommitGroupOffsets ctx,
     DeleteGroups = fake_DeleteGroups ctx,
     LeaveGroup = fake_LeaveGroup ctx,
     DescribeQuorum = fake_DescribeQuorum ctx,
     ListReassignments = fake_ListReassignments ctx,
     AlterPartitionAssignments = fake_AlterPartitionAssignments ctx,
     ElectLeaders = fake_ElectLeaders ctx,
     IncrementalAlterBrokerConfigs = fake_IncrementalAlterBrokerConfigs ctx,
     DescribeAllLogDirs = fake_DescribeAllLogDirs ctx,
     DescribeUserSCRAMs = fake_DescribeUserSCRAMs ctx,
     AlterUserSCRAMs = fake_AlterUserSCRAMs ctx,
     DescribeClientQuotas = fake_DescribeClientQuotas ctx,
     AlterClientQuotas = fake_AlterClientQuotas ctx\<rparr>"

section \<open>Reads leave the cluster alone\<close>

lemma peek_view [simp]: "cluster_view (snd (peek g f)) = cluster_view f"
  by (simp add: peek_def)

lemma with_topic_view [simp]: "cluster_view (snd (with_topic t g f)) = cluster_view f"
  by (simp add: with_topic_def)

lemma create_topics_validate: "snd (create_topics True specs m) = m"
  by (induction "True" specs m rule: create_topics.induct)
    (auto simp: Let_def split: prod.splits res.splits)

lemma cluster_view_alter:
  "snd (g (fk_model f)) = fk_model f \<Longrightarrow> cluster_view (snd (alter g f)) = cluster_view f"
  by (auto simp: alter_def cluster_view_def MutatingCalls_def split: prod.splits)

lemmas fake_read_defs =
  fake_DescribeCluster_def fake_DescribeBrokerConfigs_def fake_Metadata_def fake_ListTopics_def
  fake_DescribeTopics_def fake_DescribeTopicConfigs_def fake_ListStartOffsets_def
  fake_ListEndOffsets_def fake_ListOffsetsAfterMilli_def fake_DescribeLogDirs_def fake_ListGroups_def
  fake_DescribeGroups_def fake_FetchGroupOffsets_def fake_DescribeQuorum_def
  fake_ListReassignments_def fake_DescribeAllLogDirs_def fake_DescribeUserSCRAMs_def
  fake_DescribeClientQuotas_def

lemma quiet_fake_CreateTopics: "quiet cluster_view (fake_CreateTopics ctx specs True)"
  unfolding fake_CreateTopics_def
  by (simp, rule quiet_invoke_read, rule cluster_view_alter, rule create_topics_validate)

interpretation fake_reads: admin_reads "fake_admin ctx" cluster_view
  by unfold_locales
    (simp_all add: fake_admin_def quiet_fake_CreateTopics, simp_all add: fake_read_defs quiet_invoke_read)

section \<open>One result per item\<close>

lemma length_delete_topics: "length (fst (delete_topics ts m)) = length ts"
  by (induction ts m rule: delete_topics.induct) (auto split: option.splits prod.splits)

lemma length_delete_groups: "length (fst (delete_groups gs m)) = length gs"
  by (induction gs m rule: delete_groups.induct) (auto split: option.splits prod.splits)

lemma length_create_topics: "fst (create_topics v specs m) = Ok out \<Longrightarrow> length out = length specs"
  by (induction v specs m arbitrary: out rule: create_topics.induct)
    (auto simp: Let_def split: prod.splits res.splits if_splits)

lemma length_lookup_all: "lookup_all err m g is = Ok out \<Longrightarrow> length out = length is"
  by (induction "is" arbitrary: out) (auto split: option.splits res.splits)

interpretation fake_results: admin_results "fake_admin ctx"
proof unfold_locales
  show "DeleteTopics (fake_admin ctx) ts s = (Ok rs, s') \<Longrightarrow> length rs = length ts" for ts s rs s'
    by (auto simp: fake_admin_def fake_DeleteTopics_def alter_def elim!: invoke_Ok split: prod.splits)
      (metis fst_conv length_delete_topics)
  show "CreateTopics (fake_admin ctx) specs v s = (Ok rs, s') \<Longrightarrow> length rs = length specs" for specs v s rs s'
    by (auto simp: fake_admin_def fake_CreateTopics_def alter_def elim!: invoke_Ok split: prod.splits)
      (metis fst_conv length_create_topics)
  show "DeleteGroups (fake_admin ctx) gs s = (Ok rs, s') \<Longrightarrow> length rs = length gs" for gs s rs s'
    by (auto simp: fake_admin_def fake_DeleteGroups_def alter_def elim!: invoke_Ok split: prod.splits)
      (metis fst_conv length_delete_groups)
  show "gs \<noteq> [] \<Longrightarrow> DescribeGroups (fake_admin ctx) gs s = (Ok rs, s') \<Longrightarrow> length rs = length gs" for gs s rs s'
    by (auto simp: fake_admin_def fake_DescribeGroups_def peek_def length_lookup_all elim!: invoke_Ok)
  show "us \<noteq> [] \<Longrightarrow> DescribeUserSCRAMs (fake_admin ctx) us s = (Ok rs, s') \<Longrightarrow> length rs = length us" for us s rs s'
    by (auto simp: fake_admin_def fake_DescribeUserSCRAMs_def peek_def length_lookup_all elim!: invoke_Ok)
  show "AlterClientQuotas (fake_admin ctx) es s = (Ok rs, s') \<Longrightarrow> length rs = length es" for es s rs s'
    by (auto simp: fake_admin_def fake_AlterClientQuotas_def alter_def elim!: invoke_Ok)
qed

end
