(* ===== verification/FakeClient.thy ===== *)
theory FakeClient
  imports FakeAdmin
begin

unbundle bit_operations_syntax

text \<open>
  The consumer and producer surfaces of the in-memory cluster
  (\<^verbatim>\<open>internal/kafka/fake/consumer.go\<close>, \<^verbatim>\<open>internal/kafka/fake/producer.go\<close>), and the invariant of its
  partition logs: the offsets of a log are consecutive from its begin offset. Every operation keeps
  it; truncation does when it is asked to advance the begin offset.
\<close>

section \<open>The consumer\<close>

definition fake_Assign :: "Ctx \<Rightarrow> string \<Rightarrow> int32 list \<Rightarrow> (int32 \<times> int64) list \<Rightarrow> (Fake, unit) eff" where
  "fake_Assign ctx topic partitions startOffsets = invoke ctx ''Assign'' False (\<lambda>f.
     (Ok (), f\<lparr>fk_session := Some \<lparr>cs_topic = topic,
        cs_cursor = fold (\<lambda>p. mput p (mget startOffsets 0 p)) partitions []\<rparr>\<rparr>))"

text \<open>One assigned partition: the records from the cursor on, and the new cursor.\<close>

definition poll_partition ::
  "fakePartition list \<Rightarrow> int32 \<times> int64 \<Rightarrow> Record list \<times> (int32 \<times> int64)" where
  "poll_partition ps pc = (case pc of (p, cursor) \<Rightarrow>
     if p < 0 \<or> p \<ge> int (length ps) then ([], pc)
     else (let part = ps ! nat p;
               start = max 0 (wrap64 (cursor - fp_beginOffset part))
           in if start \<ge> int (length (fp_records part)) then ([], pc)
              else (drop (nat start) (fp_records part), (p, fp_end part))))"

text \<open>
  A \<open>range\<close> over the cursor map visits its entries in an order the runtime chooses, anew for every poll. The
  choices are part of the state: \<open>fk_ranges\<close> holds the orders of the polls to come, as lists of positions, so a
  theorem about every state is about every choice. A list that is no permutation of the positions, or
  none, stands for the order of the list.
\<close>

definition range_order :: "nat list \<Rightarrow> 'a list \<Rightarrow> 'a list" where
  "range_order pi xs = (if sort pi = [0..<length xs] then map (nth xs) pi else xs)"

definition next_order :: "Fake \<Rightarrow> nat list" where
  "next_order f = (case fk_ranges f of [] \<Rightarrow> [] | pi # _ \<Rightarrow> pi)"

lemma mset_range_order [simp]: "mset (range_order pi xs) = mset xs"
proof (cases "sort pi = [0..<length xs]")
  case True
  then have "mset pi = mset [0..<length xs]" by (metis mset_sort)
  then have "mset (map (nth xs) pi) = mset (map (nth xs) [0..<length xs])" by (simp only: mset_map)
  with True show ?thesis by (simp add: range_order_def map_nth)
qed (simp add: range_order_def)

lemma range_order_single [simp]: "range_order pi [x] = [x]"
  using mset_range_order [of pi "[x]"] by (metis mset_single_iff_right mset.simps(1,2) add_mset_add_single)

text \<open>Every order of the entries is one the runtime may choose.\<close>

lemma positions_of:
  "mset ys = mset xs \<Longrightarrow> \<exists>pi. distinct pi \<and> set pi = {..<length xs} \<and> map (nth xs) pi = ys"
proof (induction ys arbitrary: xs)
  case (Cons y ys)
  then have "y \<in> set xs" by (metis list.set_intros(1) mset_eq_setD)
  then obtain us vs where xs: "xs = us @ y # vs" by (auto simp: in_set_conv_decomp)
  with Cons.prems have "mset ys = mset (us @ vs)" by simp
  from Cons.IH [OF this] obtain pi where pi: "distinct pi" "set pi = {..<length (us @ vs)}" "map (nth (us @ vs)) pi = ys"
    by blast
  define up where "up i = (if i < length us then i else Suc i)" for i
  have "inj up" by (auto simp: up_def inj_on_def split: if_splits)
  moreover have "length us \<notin> up ` A" for A by (auto simp: up_def)
  moreover have "insert (length us) (up ` {..<length (us @ vs)}) = {..<length xs}"
  proof (intro set_eqI iffI)
    fix i assume i: "i \<in> {..<length xs}"
    show "i \<in> insert (length us) (up ` {..<length (us @ vs)})"
    proof (cases i "length us" rule: linorder_cases)
      case less
      then have "up i = i" "i < length (us @ vs)" by (simp_all add: up_def)
      then show ?thesis by (metis imageI insertCI lessThan_iff)
    next
      case greater
      then have "up (i - 1) = i" "i - 1 < length (us @ vs)" using i by (auto simp: up_def xs)
      then show ?thesis by (metis imageI insertCI lessThan_iff)
    qed simp
  qed (auto simp: up_def xs split: if_splits)
  moreover have "map (nth xs) (map up pi) = ys"
  proof -
    have "xs ! up i = (us @ vs) ! i" for i by (simp add: up_def xs nth_append Suc_diff_le)
    then have "map (nth xs) (map up pi) = map (nth (us @ vs)) pi" by simp
    then show ?thesis by (simp only: pi(3))
  qed
  ultimately show ?case
    using pi(1,2) by (intro exI [of _ "length us # map up pi"]) (simp add: distinct_map inj_on_def inj_def xs)
qed simp

lemma range_order_any:
  assumes "mset ys = mset xs"
  shows "\<exists>pi. range_order pi xs = ys"
proof -
  from positions_of [OF assms] obtain pi where pi: "distinct pi" "set pi = {..<length xs}" "map (nth xs) pi = ys" by blast
  then have "set pi = set [0..<length xs]" by (simp only: set_upt atLeast0LessThan)
  then have "mset [0..<length xs] = mset pi"
    using set_eq_iff_mset_eq_distinct [OF pi(1) distinct_upt] by metis
  then have "sort pi = [0..<length xs]" by (intro properties_for_sort sorted_upt)
  with pi(3) show ?thesis by (auto simp: range_order_def)
qed

definition fake_Poll :: "Ctx \<Rightarrow> (Fake, Record list) eff" where
  "fake_Poll ctx = invoke ctx ''Poll'' False (\<lambda>f.
     case fk_session f of
       None \<Rightarrow> (Ok [], f)
     | Some ses \<Rightarrow>
         (case map_of (m_topics (fk_model f)) (cs_topic ses) of
            None \<Rightarrow> (Ok [], f)
          | Some t \<Rightarrow>
              (let polled = map (poll_partition (ft_partitions t)) (range_order (next_order f) (cs_cursor ses))
               in (Ok (concat (map fst polled)),
                   f\<lparr>fk_session := Some (ses\<lparr>cs_cursor := map snd polled\<rparr>), fk_ranges := tl (fk_ranges f)\<rparr>))))"

definition fake_Close :: "(Fake, unit) eff" where
  "fake_Close f = (Ok (), f\<lparr>fk_session := None\<rparr>)"

definition fake_consumer :: "Ctx \<Rightarrow> Fake Consumer" where
  "fake_consumer ctx = \<lparr>Assign = fake_Assign ctx, Poll = fake_Poll ctx, Close = fake_Close\<rparr>"

section \<open>The producer\<close>

text \<open>\<open>fnv.New32a\<close>: FNV-1a on 32 bits.\<close>

definition fnv1a :: "bytes \<Rightarrow> int" where
  "fnv1a key = fold (\<lambda>c h. ((h XOR of_char c) * 16777619) mod 4294967296) key 2166136261"

definition resolveProducePartition :: "fakeTopic \<Rightarrow> int32 option \<Rightarrow> bytes option \<Rightarrow> int32" where
  "resolveProducePartition t explicit key =
    (case explicit of
       Some p \<Rightarrow> p
     | None \<Rightarrow>
         if ft_partitions t = [] \<or> key = None \<or> key = Some [] then 0
         else wrap32 (fnv1a (the key) mod int (length (ft_partitions t))))"

definition produced_record :: "time \<Rightarrow> string \<Rightarrow> int32 \<Rightarrow> ProduceRequest \<Rightarrow> fakePartition \<Rightarrow> Record" where
  "produced_record now topic p r part = \<lparr>Record_Topic = topic, Record_Partition = p,
     Record_Offset = fp_end part,
     Record_Timestamp = (if ProduceRequest_Timestamp r = zeroTime then now else ProduceRequest_Timestamp r),
     Record_Key = ProduceRequest_Key r, Record_Value = ProduceRequest_Value r,
     Record_Headers = ProduceRequest_Headers r\<rparr>"

definition produce_one ::
  "time \<Rightarrow> string \<Rightarrow> ProduceRequest \<Rightarrow> fakeTopic \<Rightarrow> ProduceResult \<times> fakeTopic" where
  "produce_one now topic r t =
    (let p = resolveProducePartition t (ProduceRequest_Partition r) (ProduceRequest_Key r)
     in if p < 0 \<or> p \<ge> int (length (ft_partitions t)) then
          (\<lparr>ProduceResult_Partition = 0, ProduceResult_Offset = 0, ProduceResult_Timestamp = zeroTime,
            ProduceResult_Err = Some (notFound ''partition'')\<rparr>, t)
        else
          (let part = ft_partitions t ! nat p; rc = produced_record now topic p r part
           in (\<lparr>ProduceResult_Partition = p, ProduceResult_Offset = Record_Offset rc,
                 ProduceResult_Timestamp = Record_Timestamp rc, ProduceResult_Err = None\<rparr>,
               t\<lparr>ft_partitions := (ft_partitions t)[nat p := part\<lparr>fp_records := fp_records part @ [rc]\<rparr>]\<rparr>)))"

fun produce_all ::
  "time \<Rightarrow> string \<Rightarrow> ProduceRequest list \<Rightarrow> fakeTopic \<Rightarrow> ProduceResult list \<times> fakeTopic" where
  "produce_all now topic [] t = ([], t)"
| "produce_all now topic (r # rs) t =
    (case produce_one now topic r t of (res, t1) \<Rightarrow>
     (case produce_all now topic rs t1 of (out, t2) \<Rightarrow> (res # out, t2)))"

definition fake_Produce :: "Ctx \<Rightarrow> string \<Rightarrow> ProduceRequest list \<Rightarrow> (Fake, ProduceResult list) eff" where
  "fake_Produce ctx topic records = invoke ctx ''Produce'' True (\<lambda>f.
     alter (\<lambda>m. case map_of (m_topics m) topic of
         None \<Rightarrow> (Err (notFound ''topic''), m)
       | Some t \<Rightarrow> (case produce_all (fk_now f) topic records t of (out, t') \<Rightarrow>
           (Ok out, m\<lparr>m_topics := mput topic t' (m_topics m)\<rparr>))) f)"

definition fake_producer :: "Ctx \<Rightarrow> Fake Producer" where
  "fake_producer ctx = \<lparr>Produce = fake_Produce ctx\<rparr>"

section \<open>The log invariant\<close>

definition wf_log :: "fakePartition \<Rightarrow> bool" where
  "wf_log p \<longleftrightarrow> map Record_Offset (fp_records p)
     = map (\<lambda>i. wrap64 (fp_beginOffset p + int i)) [0..<length (fp_records p)]"

definition wf_topic :: "fakeTopic \<Rightarrow> bool" where
  "wf_topic t \<longleftrightarrow> list_all wf_log (ft_partitions t)"

definition wf_model :: "model \<Rightarrow> bool" where
  "wf_model m \<longleftrightarrow> (\<forall>name t. map_of (m_topics m) name = Some t \<longrightarrow> wf_topic t)"

lemma wf_modelD: "wf_model m \<Longrightarrow> map_of (m_topics m) name = Some t \<Longrightarrow> wf_topic t"
  by (auto simp: wf_model_def)

lemma wf_zero_partition [simp]: "wf_log zero_partition"
  by (simp add: wf_log_def zero_partition_def)

lemma wf_log_append:
  "wf_log p \<Longrightarrow> Record_Offset r = fp_end p \<Longrightarrow> wf_log (p\<lparr>fp_records := fp_records p @ [r]\<rparr>)"
  by (simp add: wf_log_def fp_end_def)

lemma wf_log_other [simp]:
  "wf_log (p\<lparr>fp_leader := x\<rparr>) = wf_log p" "wf_log (p\<lparr>fp_replicas := xs\<rparr>) = wf_log p"
  "wf_log (p\<lparr>fp_isr := xs\<rparr>) = wf_log p" "wf_log (p\<lparr>fp_logDir := ld\<rparr>) = wf_log p"
  "wf_log (p\<lparr>fp_addingReplicas := xs\<rparr>) = wf_log p" "wf_log (p\<lparr>fp_removingReplicas := xs\<rparr>) = wf_log p"
  by (simp_all add: wf_log_def)

lemma wf_log_nth: "wf_topic t \<Longrightarrow> i < length (ft_partitions t) \<Longrightarrow> wf_log (ft_partitions t ! i)"
  by (simp add: wf_topic_def list_all_length)

lemma list_all_update: "list_all P xs \<Longrightarrow> P x \<Longrightarrow> list_all P (xs[i := x])"
  unfolding list_all_iff using set_update_subset_insert [of xs i x] by blast

lemma wf_topic_update:
  "wf_topic t \<Longrightarrow> wf_log p \<Longrightarrow> wf_topic (t\<lparr>ft_partitions := (ft_partitions t)[i := p]\<rparr>)"
  by (simp add: wf_topic_def list_all_update)

lemma wf_topic_other [simp]:
  "wf_topic (t\<lparr>ft_configs := cs\<rparr>) = wf_topic t" "wf_topic (t\<lparr>ft_internal := b\<rparr>) = wf_topic t"
  "wf_topic (t\<lparr>ft_replicationFactor := rf\<rparr>) = wf_topic t"
  by (simp_all add: wf_topic_def)

lemma wf_model_put [intro]:
  "wf_model m \<Longrightarrow> wf_topic t \<Longrightarrow> wf_model (m\<lparr>m_topics := mput name t (m_topics m)\<rparr>)"
  by (auto simp: wf_model_def update_conv' split: if_splits)

lemma wf_model_del [simp, intro]: "wf_model m \<Longrightarrow> wf_model (m\<lparr>m_topics := mdel name (m_topics m)\<rparr>)"
  by (auto simp: wf_model_def split: if_splits)

lemma wf_model_other [simp]:
  "wf_model (m\<lparr>m_brokers := bs\<rparr>) = wf_model m" "wf_model (m\<lparr>m_brokerConfigs := bc\<rparr>) = wf_model m"
  "wf_model (m\<lparr>m_groups := gs\<rparr>) = wf_model m" "wf_model (m\<lparr>m_quorum := q\<rparr>) = wf_model m"
  "wf_model (m\<lparr>m_scramUsers := us\<rparr>) = wf_model m" "wf_model (m\<lparr>m_quotas := qs\<rparr>) = wf_model m"
  by (simp_all add: wf_model_def)

text \<open>Truncation keeps the invariant when it advances the begin offset within the log.\<close>

definition advances :: "int64 \<Rightarrow> fakePartition \<Rightarrow> bool" where
  "advances off p \<longleftrightarrow> fp_beginOffset p \<le> off \<and> off \<le> fp_beginOffset p + int (length (fp_records p))
     \<and> in_int64 (fp_beginOffset p) \<and> in_int64 (fp_beginOffset p + int (length (fp_records p)))"

lemma wf_log_offsets:
  assumes "wf_log p" "in_int64 (fp_beginOffset p)" "in_int64 (fp_beginOffset p + int (length (fp_records p)))"
    "i < length (fp_records p)"
  shows "Record_Offset (fp_records p ! i) = fp_beginOffset p + int i"
proof -
  have "map Record_Offset (fp_records p) ! i
      = map (\<lambda>i. wrap64 (fp_beginOffset p + int i)) [0..<length (fp_records p)] ! i"
    using assms(1) by (simp add: wf_log_def)
  then show ?thesis using assms(2-4) by (simp add: in_int64_def)
qed

lemma filter_drop_nth:
  assumes "\<And>i. i < length xs \<Longrightarrow> P (xs ! i) \<longleftrightarrow> k \<le> i"
  shows "filter P xs = drop k xs"
  using assms
proof (induction xs arbitrary: k)
  case (Cons x xs)
  show ?case
  proof (cases k)
    case 0
    then have "\<forall>y \<in> set (x # xs). P y" using Cons.prems by (metis in_set_conv_nth le0)
    then show ?thesis using 0 by (simp only: drop0 filter_True)
  next
    case (Suc k')
    have "filter P xs = drop k' xs"
      by (rule Cons.IH) (use Cons.prems [of "Suc _"] Suc in auto)
    then show ?thesis using Cons.prems [of 0] Suc by simp
  qed
qed simp

lemma wf_truncate:
  assumes "wf_log p" "advances off p"
  shows "wf_log (truncate_at off p)" and "fp_end (truncate_at off p) = fp_end p"
    and "fp_records (truncate_at off p) = drop (nat (off - fp_beginOffset p)) (fp_records p)"
proof -
  let ?k = "nat (off - fp_beginOffset p)"
  note adv = assms(2) [unfolded advances_def]
  have "filter (\<lambda>r. Record_Offset r \<ge> off) (fp_records p) = drop ?k (fp_records p)"
    by (rule filter_drop_nth) (use adv wf_log_offsets [OF assms(1)] in auto)
  then show recs: "fp_records (truncate_at off p) = drop ?k (fp_records p)"
    by (simp add: truncate_at_def)
  have "fp_beginOffset (truncate_at off p) = off" by (simp add: truncate_at_def)
  with recs show "fp_end (truncate_at off p) = fp_end p"
    using adv by (simp add: fp_end_def of_nat_diff nat_le_iff add.commute)
  show "wf_log (truncate_at off p)"
    unfolding wf_log_def recs \<open>fp_beginOffset (truncate_at off p) = off\<close>
    using adv by (intro nth_equalityI) (auto simp: wf_log_offsets [OF assms(1)] in_int64_def)
qed

text \<open>Producing appends at the end.\<close>

lemma wf_produce_one: "wf_topic t \<Longrightarrow> wf_topic (snd (produce_one now topic r t))"
  by (auto simp: produce_one_def Let_def produced_record_def
      intro!: wf_topic_update wf_log_append wf_log_nth)

lemma wf_produce_all: "wf_topic t \<Longrightarrow> wf_topic (snd (produce_all now topic rs t))"
  by (induction now topic rs t rule: produce_all.induct)
    (auto split: prod.splits, metis snd_conv wf_produce_one)

lemma length_produce_all: "length (fst (produce_all now topic rs t)) = length rs"
  by (induction now topic rs t rule: produce_all.induct) (auto split: prod.splits)

lemma wf_seed_records:
  "seed_records now name rs ps = Some ps' \<Longrightarrow> list_all wf_log ps \<Longrightarrow> list_all wf_log ps'"
proof (induction now name rs ps rule: seed_records.induct)
  case (2 now name r rs ps)
  have "list_all wf_log (ps[i := append_record now name p r (ps ! i)])" if "i < length ps" for i p
    using that 2(3) by (intro list_all_update)
      (auto simp: append_record_def list_all_length intro!: wf_log_append)
  with 2 show ?case by (auto simp: Let_def split: if_splits)
qed simp

section \<open>Every operation keeps the invariant\<close>

lemma wf_create_topics: "wf_model m \<Longrightarrow> wf_model (snd (create_topics v specs m))"
proof (induction v specs m rule: create_topics.induct)
  case (2 v spec specs m)
  let ?t = "\<lparr>ft_name = TopicSpec_Name spec, ft_internal = False,
      ft_replicationFactor = TopicSpec_ReplicationFactor spec,
      ft_partitions = replicate (nat (TopicSpec_Partitions spec)) zero_partition,
      ft_configs = map (\<lambda>(name, val). dynamic_entry name val) (TopicSpec_Configs spec)\<rparr>"
  have "wf_topic ?t" by (simp add: wf_topic_def list_all_iff)
  with 2(3) have new: "wf_model (m\<lparr>m_topics := mput (TopicSpec_Name spec) ?t (m_topics m)\<rparr>)"
    by (rule wf_model_put)
  show ?case
  proof (cases "map_of (m_topics m) (TopicSpec_Name spec) = None")
    case False
    have "snd (create_topics v (spec # specs) m) = snd (create_topics v specs m)"
      using False by (auto simp del: create_topics.simps simp: create_topics.simps(2)
          split: prod.splits res.splits)
    with "2.IH"(1) 2(3) False show ?thesis by simp
  next
    case True
    let ?m = "if v then m else m\<lparr>m_topics := mput (TopicSpec_Name spec) ?t (m_topics m)\<rparr>"
    have "snd (create_topics v (spec # specs) m)
        = (if \<not> v \<and> TopicSpec_Partitions spec < 0 then m else snd (create_topics v specs ?m))"
      using True by (auto simp: Let_def split: prod.splits res.splits)
    then show ?thesis
      using "2.IH"(2) [OF _ refl refl] True 2(3) new by (auto split: if_splits)
  qed
qed simp

lemma wf_delete_topics: "wf_model m \<Longrightarrow> wf_model (snd (delete_topics ts m))"
  by (induction ts m rule: delete_topics.induct) (auto split: option.splits prod.splits)

lemma wf_delete_groups: "wf_model m \<Longrightarrow> wf_model (snd (delete_groups gs m))"
  by (induction gs m rule: delete_groups.induct) (auto split: option.splits prod.splits)

lemma wf_upd_partition:
  "wf_model m \<Longrightarrow> (\<And>p. wf_log p \<Longrightarrow> wf_log (g p)) \<Longrightarrow> wf_model (upd_partition name p g m)"
proof -
  assume wf: "wf_model m" and g: "\<And>p. wf_log p \<Longrightarrow> wf_log (g p)"
  have "wf_topic (t\<lparr>ft_partitions := (ft_partitions t)[nat p := g (ft_partitions t ! nat p)]\<rparr>)"
    if "map_of (m_topics m) name = Some t" "0 \<le> p" "p < int (length (ft_partitions t))" for t
    using that wf_modelD [OF wf that(1)] by (intro wf_topic_update g wf_log_nth) auto
  with wf show ?thesis by (auto simp: upd_partition_def split: option.split)
qed

lemma wf_fold_reassign: "wf_model m \<Longrightarrow> wf_model (snd (fold (reassign_step moves) tps (out, m)))"
proof (induction tps arbitrary: out m)
  case (Cons tp tps)
  have "wf_model (upd_partition (fst tp) (snd tp) (reassign (mget moves None tp)) m)"
    using Cons.prems by (rule wf_upd_partition) (simp add: reassign_def split: option.split)
  then show ?case using Cons by (auto simp: reassign_step_def)
qed simp

lemma wf_fold_elect: "wf_model m \<Longrightarrow> wf_model (snd (fold elect_step tps (out, m)))"
proof (induction tps arbitrary: out m)
  case (Cons tp tps)
  have "wf_model (upd_partition (fst tp) (snd tp) elect m)"
    using Cons.prems by (rule wf_upd_partition) (simp add: elect_def split: list.split)
  then show ?case using Cons by (auto simp: elect_step_def)
qed simp

text \<open>The truncations of one call, each of its own partition.\<close>

lemma wf_truncate_fold:
  assumes "list_all wf_log ps" "distinct parts" "\<forall>p \<in> set parts. 0 \<le> p \<and> p < int (length ps)"
    "\<forall>p \<in> set parts. advances (g p) (ps ! nat p)"
  shows "list_all wf_log (fold (\<lambda>p ps. ps[nat p := truncate_at (g p) (ps ! nat p)]) parts ps)"
  using assms
proof (induction parts arbitrary: ps)
  case (Cons p parts)
  have "wf_log (truncate_at (g p) (ps ! nat p))"
    using Cons.prems by (intro wf_truncate) (auto simp: list_all_length nat_less_iff)
  then have "list_all wf_log (ps[nat p := truncate_at (g p) (ps ! nat p)])"
    using Cons.prems by (intro list_all_update)
  moreover have "nat p \<noteq> nat q" if "q \<in> set parts" for q
    using that Cons.prems by (metis distinct.simps(2) eq_nat_nat_iff list.set_intros)
  ultimately have "list_all wf_log (fold (\<lambda>p ps. ps[nat p := truncate_at (g p) (ps ! nat p)]) parts
      (ps[nat p := truncate_at (g p) (ps ! nat p)]))"
    using Cons.prems by (intro Cons.IH) auto
  then show ?case by simp
qed simp

end
