(* ===== verification/World.thy ===== *)
theory World
  imports FakeClient ServiceBase
begin

text \<open>
  The gateway as its test suite assembles it: the services over the in-memory cluster, one recording
  audit sink, the wall clock and the entropy source of event identifiers
  (\<^verbatim>\<open>internal/audit/eventid.go\<close>). Every contract of the development is discharged here for these
  providers, so a theorem proved under a contract holds of the assembled program.
\<close>

record world =
  w_fake :: Fake
  w_sink :: RecordingSink
  w_entropy :: "nat \<Rightarrow> char"
  w_drawn :: nat

definition on_fake :: "(Fake, 'a) eff \<Rightarrow> (world, 'a) eff" where
  "on_fake m w = (case m (w_fake w) of (r, f) \<Rightarrow> (r, w\<lparr>w_fake := f\<rparr>))"

definition on_sink :: "(RecordingSink, 'a) eff \<Rightarrow> (world, 'a) eff" where
  "on_sink m w = (case m (w_sink w) of (r, k) \<Rightarrow> (r, w\<lparr>w_sink := k\<rparr>))"

definition world_sink :: "world Sink" where
  "world_sink ev = on_sink (RecordingSink_Write ev)"

definition NewEventID :: "world \<Rightarrow> string \<times> world" where
  "NewEventID w =
    (hex_encode (map (w_entropy w) [w_drawn w..<w_drawn w + 16]), w\<lparr>w_drawn := w_drawn w + 16\<rparr>)"

definition world_now :: "world \<Rightarrow> time \<times> world" where
  "world_now w = (fk_now (w_fake w), w)"

definition world_timeNow :: "world \<Rightarrow> time \<times> world" where
  "world_timeNow w = (fk_wall (w_fake w), w)"

definition lift_admin :: "Fake Admin \<Rightarrow> world Admin" where
  "lift_admin a = \<lparr>
     DescribeCluster = on_fake (DescribeCluster a),
     DescribeBrokerConfigs = (\<lambda>x. on_fake (DescribeBrokerConfigs a x)),
     Metadata = on_fake (Metadata a),
     ListTopics = on_fake (ListTopics a),
     DescribeTopics = (\<lambda>x. on_fake (DescribeTopics a x)),
     DescribeTopicConfigs = (\<lambda>x. on_fake (DescribeTopicConfigs a x)),
     ListStartOffsets = (\<lambda>x. on_fake (ListStartOffsets a x)),
     ListEndOffsets = (\<lambda>x. on_fake (ListEndOffsets a x)),
     ListOffsetsAfterMilli = (\<lambda>x y. on_fake (ListOffsetsAfterMilli a x y)),
     DescribeLogDirs = (\<lambda>x. on_fake (DescribeLogDirs a x)),
     ListGroups = (\<lambda>x. on_fake (ListGroups a x)),
     DescribeGroups = (\<lambda>x. on_fake (DescribeGroups a x)),
     FetchGroupOffsets = (\<lambda>x. on_fake (FetchGroupOffsets a x)),
     CreateTopics = (\<lambda>x y. on_fake (CreateTopics a x y)),
     IncrementalAlterTopicConfigs = (\<lambda>x y. on_fake (IncrementalAlterTopicConfigs a x y)),
     CreatePartitions = (\<lambda>x y. on_fake (CreatePartitions a x y)),
     DeleteTopics = (\<lambda>x. on_fake (DeleteTopics a x)),
     DeleteRecords = (\<lambda>x y. on_fake (DeleteRecords a x y)),
     CommitGroupOffsets = (\<lambda>x y. on_fake (CommitGroupOffsets a x y)),
     DeleteGroups = (\<lambda>x. on_fake (DeleteGroups a x)),
     LeaveGroup = (\<lambda>x y. on_fake (LeaveGroup a x y)),
     DescribeQuorum = on_fake (DescribeQuorum a),
     ListReassignments = on_fake (ListReassignments a),
     AlterPartitionAssignments = (\<lambda>x. on_fake (AlterPartitionAssignments a x)),
     ElectLeaders = (\<lambda>x y. on_fake (ElectLeaders a x y)),
     IncrementalAlterBrokerConfigs = (\<lambda>x y. on_fake (IncrementalAlterBrokerConfigs a x y)),
     DescribeAllLogDirs = on_fake (DescribeAllLogDirs a),
     DescribeUserSCRAMs = (\<lambda>x. on_fake (DescribeUserSCRAMs a x)),
     AlterUserSCRAMs = (\<lambda>x y. on_fake (AlterUserSCRAMs a x y)),
     DescribeClientQuotas = (\<lambda>x. on_fake (DescribeClientQuotas a x)),
     AlterClientQuotas = (\<lambda>x. on_fake (AlterClientQuotas a x))\<rparr>"

definition world_admin :: "Ctx \<Rightarrow> world Admin" where
  "world_admin ctx = lift_admin (fake_admin ctx)"

definition world_service :: "Ctx \<Rightarrow> Policy \<Rightarrow> world Service" where
  "world_service ctx pol = \<lparr>svc_admin = world_admin ctx, svc_auditor = [world_sink],
     svc_newEventID = NewEventID, svc_now = world_now, svc_timeNow = world_timeNow,
     svc_runner = gates_runner pol\<rparr>"

lemma world_service_simps [simp]:
  "svc_admin (world_service ctx pol) = world_admin ctx"
  "svc_auditor (world_service ctx pol) = [world_sink]"
  "svc_newEventID (world_service ctx pol) = NewEventID"
  "svc_now (world_service ctx pol) = world_now"
  "svc_timeNow (world_service ctx pol) = world_timeNow"
  "svc_runner (world_service ctx pol) = gates_runner pol"
  by (simp_all add: world_service_def)

text \<open>What outsiders see of the cluster: its model and the log of its mutating calls.\<close>

definition cluster :: "world \<Rightarrow> model \<times> CallRecord list" where
  "cluster w = cluster_view (w_fake w)"

definition audit_trail :: "world \<Rightarrow> Event list" where
  "audit_trail w = RecordingSink_Events (w_sink w)"

section \<open>The contracts hold\<close>

lemma quiet_on_fake:
  assumes "quiet cluster_view m"
  shows "quiet cluster (on_fake m)"
  using assms by (simp add: quiet_def on_fake_def cluster_def split: prod.split) (metis snd_conv)

lemma on_fake_Ok: "on_fake m w = (Ok a, w') \<Longrightarrow> \<exists>f. m (w_fake w) = (Ok a, f) \<and> w' = w\<lparr>w_fake := f\<rparr>"
  by (auto simp: on_fake_def split: prod.splits)

lemma on_fake_trail: "quiet audit_trail (on_fake m)"
  by (simp add: quiet_def on_fake_def audit_trail_def split: prod.split)

interpretation world_reads: admin_reads "world_admin ctx" cluster
  by unfold_locales
    (simp_all add: world_admin_def lift_admin_def quiet_on_fake fake_reads.reads)

interpretation world_results: admin_results "world_admin ctx"
  by unfold_locales
    (auto simp: world_admin_def lift_admin_def dest!: on_fake_Ok
      dest: fake_results.one_DeleteTopics fake_results.one_CreateTopics fake_results.one_DeleteGroups
        fake_results.one_DescribeGroups fake_results.one_DescribeUserSCRAMs
        fake_results.one_AlterClientQuotas)

lemma world_sink_run:
  "world_sink ev w = (case RecordingSink_Write ev (w_sink w) of (r, k) \<Rightarrow> (r, w\<lparr>w_sink := k\<rparr>))"
  by (simp add: world_sink_def on_sink_def)

interpretation world_log: audit_log world_sink cluster audit_trail
proof unfold_locales
  show "quiet cluster (world_sink ev)" for ev
    by (simp add: quiet_def world_sink_run cluster_def split: prod.split)
  show "fst (world_sink ev w) \<noteq> Panic" for ev w
    using recording.log_no_panic [of ev "w_sink w"] by (auto simp: world_sink_run split: prod.splits)
  show "world_sink ev w = (Ok (), w') \<Longrightarrow> audit_trail w' = audit_trail w @ [ev]" for ev w w'
    by (auto simp: world_sink_run audit_trail_def dest: recording.log_accepts split: prod.splits)
  show "world_sink ev w = (Err e, w') \<Longrightarrow> audit_trail w' = audit_trail w" for ev w w' e
    by (auto simp: world_sink_run audit_trail_def dest: recording.log_rejects split: prod.splits)
qed

lemma clocks_quiet [simp]:
  "cluster (snd (NewEventID w)) = cluster w" "cluster (snd (world_now w)) = cluster w"
  "cluster (snd (world_timeNow w)) = cluster w"
  by (simp_all add: NewEventID_def world_now_def world_timeNow_def cluster_def)

interpretation world_env: service_env "world_service ctx pol" cluster
  by (rule service_env.intro)
    (auto simp: world_reads.admin_reads_axioms world_log.audit_sinks_axioms intro!: service_env_axioms.intro)

section \<open>Running without injected faults\<close>

text \<open>The operations of the assembled port are those of the fake.\<close>

lemma world_admin_ops [simp]:
  "DescribeCluster (world_admin ctx) = (on_fake (fake_DescribeCluster ctx))"
  "DescribeBrokerConfigs (world_admin ctx) = (\<lambda>x. on_fake (fake_DescribeBrokerConfigs ctx x))"
  "Metadata (world_admin ctx) = (on_fake (fake_Metadata ctx))"
  "ListTopics (world_admin ctx) = (on_fake (fake_ListTopics ctx))"
  "DescribeTopics (world_admin ctx) = (\<lambda>x. on_fake (fake_DescribeTopics ctx x))"
  "DescribeTopicConfigs (world_admin ctx) = (\<lambda>x. on_fake (fake_DescribeTopicConfigs ctx x))"
  "ListStartOffsets (world_admin ctx) = (\<lambda>x. on_fake (fake_ListStartOffsets ctx x))"
  "ListEndOffsets (world_admin ctx) = (\<lambda>x. on_fake (fake_ListEndOffsets ctx x))"
  "ListOffsetsAfterMilli (world_admin ctx) = (\<lambda>x y. on_fake (fake_ListOffsetsAfterMilli ctx x y))"
  "DescribeLogDirs (world_admin ctx) = (\<lambda>x. on_fake (fake_DescribeLogDirs ctx x))"
  "ListGroups (world_admin ctx) = (\<lambda>x. on_fake (fake_ListGroups ctx x))"
  "DescribeGroups (world_admin ctx) = (\<lambda>x. on_fake (fake_DescribeGroups ctx x))"
  "FetchGroupOffsets (world_admin ctx) = (\<lambda>x. on_fake (fake_FetchGroupOffsets ctx x))"
  "CreateTopics (world_admin ctx) = (\<lambda>x y. on_fake (fake_CreateTopics ctx x y))"
  "IncrementalAlterTopicConfigs (world_admin ctx) = (\<lambda>x y. on_fake (fake_IncrementalAlterTopicConfigs ctx x y))"
  "CreatePartitions (world_admin ctx) = (\<lambda>x y. on_fake (fake_CreatePartitions ctx x y))"
  "DeleteTopics (world_admin ctx) = (\<lambda>x. on_fake (fake_DeleteTopics ctx x))"
  "DeleteRecords (world_admin ctx) = (\<lambda>x y. on_fake (fake_DeleteRecords ctx x y))"
  "CommitGroupOffsets (world_admin ctx) = (\<lambda>x y. on_fake (fake_CommitGroupOffsets ctx x y))"
  "DeleteGroups (world_admin ctx) = (\<lambda>x. on_fake (fake_DeleteGroups ctx x))"
  "LeaveGroup (world_admin ctx) = (\<lambda>x y. on_fake (fake_LeaveGroup ctx x y))"
  "DescribeQuorum (world_admin ctx) = (on_fake (fake_DescribeQuorum ctx))"
  "ListReassignments (world_admin ctx) = (on_fake (fake_ListReassignments ctx))"
  "AlterPartitionAssignments (world_admin ctx) = (\<lambda>x. on_fake (fake_AlterPartitionAssignments ctx x))"
  "ElectLeaders (world_admin ctx) = (\<lambda>x y. on_fake (fake_ElectLeaders ctx x y))"
  "IncrementalAlterBrokerConfigs (world_admin ctx) = (\<lambda>x y. on_fake (fake_IncrementalAlterBrokerConfigs ctx x y))"
  "DescribeAllLogDirs (world_admin ctx) = (on_fake (fake_DescribeAllLogDirs ctx))"
  "DescribeUserSCRAMs (world_admin ctx) = (\<lambda>x. on_fake (fake_DescribeUserSCRAMs ctx x))"
  "AlterUserSCRAMs (world_admin ctx) = (\<lambda>x y. on_fake (fake_AlterUserSCRAMs ctx x y))"
  "DescribeClientQuotas (world_admin ctx) = (\<lambda>x. on_fake (fake_DescribeClientQuotas ctx x))"
  "AlterClientQuotas (world_admin ctx) = (\<lambda>x. on_fake (fake_AlterClientQuotas ctx x))"
  by (simp_all add: world_admin_def lift_admin_def fake_admin_def)


text \<open>A world without pending faults or latency, whose sink accepts every event.\<close>

definition live :: "world \<Rightarrow> bool" where
  "live w \<longleftrightarrow> \<not> fk_unreachable (w_fake w) \<and> fk_failNext (w_fake w) = [] \<and> fk_failAlways (w_fake w) = []
     \<and> fk_latency (w_fake w) = [] \<and> rs_failNext (w_sink w) = [] \<and> rs_failAlways (w_sink w) = []"

definition model_of :: "world \<Rightarrow> model" where
  "model_of w = fk_model (w_fake w)"

definition log_call :: "string \<Rightarrow> bool \<Rightarrow> Err \<Rightarrow> world \<Rightarrow> world" where
  "log_call meth mutating err w = w\<lparr>w_fake := record_call meth mutating err (w_fake w)\<rparr>"

definition set_model :: "model \<Rightarrow> world \<Rightarrow> world" where
  "set_model m w = w\<lparr>w_fake := (w_fake w)\<lparr>fk_model := m\<rparr>\<rparr>"

definition add_event :: "Event \<Rightarrow> world \<Rightarrow> world" where
  "add_event ev w = w\<lparr>w_sink := (w_sink w)\<lparr>rs_events := rs_events (w_sink w) @ [ev]\<rparr>\<rparr>"

definition draw_id :: "world \<Rightarrow> world" where
  "draw_id w = w\<lparr>w_drawn := w_drawn w + 16\<rparr>"

lemma live_steps [simp]:
  "live (log_call me mu e w) = live w" "live (set_model m w) = live w" "live (add_event ev w) = live w"
  "live (draw_id w) = live w"
  by (simp_all add: live_def log_call_def set_model_def add_event_def draw_id_def record_call_def)

lemma model_of_steps [simp]:
  "model_of (log_call me mu e w) = model_of w" "model_of (set_model m w) = m"
  "model_of (add_event ev w) = model_of w" "model_of (draw_id w) = model_of w"
  by (simp_all add: model_of_def log_call_def set_model_def add_event_def draw_id_def record_call_def)

lemma trail_steps [simp]:
  "audit_trail (log_call me mu e w) = audit_trail w" "audit_trail (set_model m w) = audit_trail w"
  "audit_trail (add_event ev w) = audit_trail w @ [ev]" "audit_trail (draw_id w) = audit_trail w"
  by (simp_all add: audit_trail_def RecordingSink_Events_def log_call_def set_model_def add_event_def draw_id_def)

lemma invoke_live:
  "live w \<Longrightarrow> invoke Background meth mutating fn (w_fake w) =
     (case fn (w_fake w) of (Panic, f3) \<Rightarrow> (Panic, f3) | (r, f3) \<Rightarrow> (r, record_call meth mutating (err_of r) f3))"
  by (simp add: invoke_def live_def mget_def wait_latency_def ctx_Err_def Background_def)

lemma live_peek:
  assumes "live w" "g (model_of w) \<noteq> Panic"
  shows "on_fake (invoke Background meth mutating (peek g)) w
    = (g (model_of w), log_call meth mutating (err_of (g (model_of w))) w)"
  using assms
  by (cases "g (model_of w)") (auto simp: on_fake_def invoke_live peek_def model_of_def log_call_def)

lemma live_alter:
  assumes "live w" "g (model_of w) = (r, m)" "r \<noteq> Panic"
  shows "on_fake (invoke Background meth mutating (alter g)) w
    = (r, log_call meth mutating (err_of r) (set_model m w))"
  using assms
  by (cases r) (auto simp: on_fake_def invoke_live alter_def model_of_def log_call_def set_model_def)

lemma live_with_topic:
  assumes "live w" "map_of (m_topics (model_of w)) topic = Some t"
  shows "on_fake (invoke Background meth mutating (with_topic topic g)) w
    = (Ok (g t), log_call meth mutating None w)"
  unfolding with_topic_def using assms by (subst live_peek) (simp_all add: err_of_def)

lemma live_sink: "live w \<Longrightarrow> world_sink ev w = (Ok (), add_event ev w)"
  by (simp add: world_sink_run live_def RecordingSink_Write_def mget_def add_event_def)

lemma live_Attempt: "live w \<Longrightarrow> Attempt [world_sink] ev w = (Ok (), add_event (ev\<lparr>Event_Phase := PhaseAttempt\<rparr>) w)"
  by (simp add: Attempt_def attempt_Ok live_sink ret_run)

lemma live_Result: "live w \<Longrightarrow> Result [world_sink] ev w = (Ok (), add_event (ev\<lparr>Event_Phase := PhaseResult\<rparr>) w)"
  by (simp add: Result_def attempt_Ok live_sink ret_run)

lemma world_new_event:
  "new_event (world_service ctx pol) ttype caller c name w =
    (Ok (event_at ttype (desc_of c) caller name
       (hex_encode (map (w_entropy w) [w_drawn w..<w_drawn w + 16])) (fk_now (w_fake w))), draw_id w)"
  by (simp add: new_event_run NewEventID_def world_now_def draw_id_def)

lemma live_audit_result:
  "live w \<Longrightarrow> audit_result world_timeNow [world_sink] att oc code w =
     (Ok (), add_event ((resultEventAt (fk_wall (w_fake w)) att oc code)\<lparr>Event_Phase := PhaseResult\<rparr>) w)"
  by (simp add: audit_result_def resultEvent_def onOk_def act_run world_timeNow_def ret_run live_Result)

text \<open>
  A destructive command that passes the gate, executed without faults: the two events of its audit
  record, and their order around the apply step.
\<close>

definition audited_pair :: "string \<Rightarrow> Caller \<Rightarrow> Event \<Rightarrow> Event \<Rightarrow> bool" where
  "audited_pair c caller ev ev2 \<longleftrightarrow>
     Event_Phase ev = PhaseAttempt \<and> Event_Phase ev2 = PhaseResult
     \<and> Event_CommandID ev = Desc_ID (desc_of c) \<and> Event_CommandID ev2 = Desc_ID (desc_of c)
     \<and> Event_EventID ev2 = Event_EventID ev \<and> Event_Outcome ev2 = OutcomeSucceeded
     \<and> Event_RequestID ev = Caller_RequestID caller \<and> Event_RequestID ev2 = Caller_RequestID caller
     \<and> AuditCaller_KeyID (Event_Caller ev) = Caller_KeyID caller
     \<and> AuditCaller_KeyID (Event_Caller ev2) = Caller_KeyID caller
     \<and> Event_Severity ev2 = SeverityFor (Desc_ID (desc_of c)) OutcomeSucceeded (Caller_BreakGlassReason caller \<noteq> [])"

lemma destructive_executes:
  assumes live: "live w" and gate: "Check caller (desc_of c) pol = None"
    and plan: "plan (draw_id w) = (Ok p, w1)" "live w1"
    and confirm: "confirm = ConfirmTarget ops p"
    and exec: "\<And>ev. app p (add_event ev w1) = (Ok v, step ev)" "\<And>ev. live (step ev)"
  shows "\<exists>ev ev2. destructive_cmd (world_service ctx pol) ttype c caller name ops confirm False plan app w
       = (Ok (\<lparr>Result_DryRun = False, Result_Plan = Some p, Result_Value = Some v\<rparr>, None),
          add_event ev2 (step ev))
     \<and> audited_pair c caller ev ev2"
proof -
  have g: "gate (gates_runner pol) caller (desc_of c) = None" using gate by simp
  define att where "att = event_at ttype (desc_of c) caller name
       (hex_encode (map (w_entropy w) [w_drawn w..<w_drawn w + 16])) (fk_now (w_fake w))"
  define ev where "ev = att\<lparr>Event_DryRun := False, Event_Phase := PhaseAttempt\<rparr>"
  define ev2 where "ev2 = (resultEventAt (fk_wall (w_fake (step ev))) (att\<lparr>Event_DryRun := False\<rparr>)
      OutcomeSucceeded [])\<lparr>Event_Phase := PhaseResult\<rparr>"
  have "destructive_cmd (world_service ctx pol) ttype c caller name ops confirm False plan app w
      = (Ok (\<lparr>Result_DryRun = False, Result_Plan = Some p, Result_Value = Some v\<rparr>, None),
         add_event ev2 (step ev))"
    unfolding destructive_cmd_def onOk_def
    by (simp add: world_new_event Destructive_passed [OF g] attempt_def plan confirm Let_def live_Attempt
        exec live_audit_result onOk_def ret_run att_def [symmetric] ev_def ev2_def)
  moreover have "Event_CommandID att = Desc_ID (desc_of c)" "Event_EventID ev = Event_EventID att"
    "Event_BreakGlass att \<noteq> None \<longleftrightarrow> Caller_BreakGlassReason caller \<noteq> []"
    "Event_RequestID att = Caller_RequestID caller" "AuditCaller_KeyID (Event_Caller att) = Caller_KeyID caller"
    by (simp_all add: att_def ev_def event_at_def)
  then have "audited_pair c caller ev ev2"
    by (simp add: audited_pair_def ev_def ev2_def resultEventAt_def Let_def)
  ultimately show ?thesis by blast
qed

text \<open>A plan that fails is the command's error.\<close>

lemma destructive_plan_fails:
  assumes "Check caller (desc_of c) pol = None" "plan (draw_id w) = (Err e, w1)"
  shows "destructive_cmd (world_service ctx pol) ttype c caller name ops confirm dryRun plan app w
     = (Ok (zero_Result, Some e), w1)"
proof -
  have g: "gate (gates_runner pol) caller (desc_of c) = None" using assms(1) by simp
  show ?thesis
    unfolding destructive_cmd_def onOk_def
    by (simp add: world_new_event Destructive_passed [OF g] attempt_def assms(2) ret_run)
qed

text \<open>A step that only reads: the model and the audit trail stay, and no fault appears.\<close>

definition reads_only :: "world \<Rightarrow> world \<Rightarrow> bool" where
  "reads_only w w' \<longleftrightarrow> live w' = live w \<and> model_of w' = model_of w \<and> audit_trail w' = audit_trail w"

lemma reads_only_refl [simp]: "reads_only w w"
  by (simp add: reads_only_def)

lemma reads_only_trans: "reads_only w w1 \<Longrightarrow> reads_only w1 w2 \<Longrightarrow> reads_only w w2"
  by (simp add: reads_only_def)

lemma reads_only_log [simp]: "reads_only w (log_call me mu e w') = reads_only w w'"
  by (simp add: reads_only_def)

lemma reads_onlyD:
  assumes "reads_only w w'"
  shows "live w' = live w" "model_of w' = model_of w" "audit_trail w' = audit_trail w"
  using assms by (simp_all add: reads_only_def)

text \<open>A loop of reads over a slice computes the fold of what each step adds.\<close>

lemma forEach_reads:
  assumes "\<And>x acc w1. x \<in> set xs \<Longrightarrow> reads_only w w1 \<Longrightarrow> \<exists>w2. body x acc w1 = (Ok (f x acc), w2) \<and> reads_only w w2"
    and "reads_only w w1"
  shows "\<exists>w2. forEach xs body acc w1 = (Ok (fold f xs acc), w2) \<and> reads_only w w2"
  using assms
proof (induction xs arbitrary: acc w1)
  case (Cons x xs)
  from Cons.prems(1) [of x w1 acc] Cons.prems(2) obtain w2
    where "body x acc w1 = (Ok (f x acc), w2)" "reads_only w w2"
    by auto
  with Cons.IH [of w2 "f x acc"] Cons.prems(1) show ?case
    by (simp add: onOk_Ok)
qed (simp add: ret_run)

section \<open>A concrete world\<close>

text \<open>
  Concrete inputs for the witnesses: two callers, policies, and a world whose cluster has one broker,
  the topic \<open>orders\<close> with two partitions and three records, and an inactive group.
\<close>

definition demo_op :: Caller where
  "demo_op = \<lparr>Caller_KeyID = Some ''ops'', Caller_Tier = ''operator'', Caller_BreakGlassReason = [],
     Caller_RequestID = ''r1'', Caller_ClientIP = ''10.0.0.1'', Caller_Client = ''http''\<rparr>"

definition demo_reader :: Caller where
  "demo_reader = demo_op\<lparr>Caller_Tier := ''reader''\<rparr>"

definition demo_policy :: Policy where
  "demo_policy = \<lparr>Policy_AuthEnabled = True, Policy_ReadOnly = False, Policy_DataPlaneLock = False,
     Policy_Disabled = [(''C5'', True)]\<rparr>"

definition demo_record :: "int32 \<Rightarrow> time \<Rightarrow> string \<Rightarrow> Record" where
  "demo_record p t v = \<lparr>Record_Topic = [], Record_Partition = p, Record_Offset = 0, Record_Timestamp = t,
     Record_Key = None, Record_Value = Some v, Record_Headers = []\<rparr>"

definition demo_fake :: Fake where
  "demo_fake = the (SeedTopic ''orders'' 2
     [demo_record 0 1000000 ''a'', demo_record 1 2000000 ''b'', demo_record 0 3000000 ''c'']
     (SeedGroup ''g'' [((''orders'', 0), 1)] (SeedBroker 1 ''localhost'' 9092 [] (Fake_New 5000000))))"

definition demo_world :: world where
  "demo_world = \<lparr>w_fake = demo_fake, w_sink = RecordingSink_New, w_entropy = (\<lambda>_. CHR ''x''), w_drawn = 0\<rparr>"

definition demo_orders :: fakeTopic where
  "demo_orders = \<lparr>ft_name = ''orders'', ft_internal = False, ft_replicationFactor = 0,
     ft_partitions =
      [zero_partition\<lparr>fp_records := [(demo_record 0 1000000 ''a'')\<lparr>Record_Topic := ''orders''\<rparr>,
          (demo_record 0 3000000 ''c'')\<lparr>Record_Topic := ''orders'', Record_Offset := 1\<rparr>]\<rparr>,
       zero_partition\<lparr>fp_records := [(demo_record 1 2000000 ''b'')\<lparr>Record_Topic := ''orders''\<rparr>]\<rparr>],
     ft_configs = []\<rparr>"

lemma demo_topics: "m_topics (fk_model demo_fake) = [(''orders'', demo_orders)]"
  by (simp add: demo_fake_def demo_orders_def SeedTopic_def SeedGroup_def SeedBroker_def Fake_New_def
      upd_model_def demo_record_def zero_partition_def append_record_def fp_end_def Let_def
      numeral_2_eq_2 zeroTime_def wrap64_def)

lemma demo_live [simp]: "live demo_world"
  by (simp add: live_def demo_world_def demo_fake_def SeedTopic_def SeedGroup_def SeedBroker_def
      Fake_New_def upd_model_def RecordingSink_New_def demo_record_def append_record_def fp_end_def
      zero_partition_def Let_def numeral_2_eq_2)

lemma demo_model [simp]: "map_of (m_topics (model_of demo_world)) ''orders'' = Some demo_orders"
  by (simp add: model_of_def demo_world_def demo_topics)

lemma demo_op_simps [simp]:
  "Caller_Tier demo_op = TierOperator" "Caller_BreakGlassReason demo_op = []"
  "Caller_Tier demo_reader \<noteq> TierOperator" "Caller_BreakGlassReason demo_reader = []"
  by (simp_all add: demo_op_def demo_reader_def TierOperator_def)

lemma demo_passes [simp]:
  "Check demo_op (desc_of ''T7'') demo_policy = None" "Check demo_op (desc_of ''T12'') demo_policy = None"
  "Check demo_op (desc_of ''T11'') demo_policy = None"
  by (simp_all add: Check_pass_iff demo_policy_def mget_def)

end
