(* ===== verification/LiveReads.thy ===== *)
theory LiveReads
  imports World
begin

text \<open>
  The answers of the in-memory cluster when no fault is injected: one lemma per read the services
  make, shared by the properties of every service.
\<close>

section \<open>Reading the fake without faults\<close>

lemma live_DescribeTopics:
  "live w \<Longrightarrow> map_of (m_topics (model_of w)) t = Some ft \<Longrightarrow>
     on_fake (fake_DescribeTopics Background t) w
       = (Ok (toDomainTopic t ft), log_call ''DescribeTopics'' False None w)"
  by (simp add: fake_DescribeTopics_def live_with_topic)

lemma live_ListStartOffsets:
  "live w \<Longrightarrow> map_of (m_topics (model_of w)) t = Some ft \<Longrightarrow>
     on_fake (fake_ListStartOffsets Background t) w
       = (Ok (per_partition fp_beginOffset ft), log_call ''ListStartOffsets'' False None w)"
  by (simp add: fake_ListStartOffsets_def live_with_topic)

lemma live_ListEndOffsets:
  "live w \<Longrightarrow> map_of (m_topics (model_of w)) t = Some ft \<Longrightarrow>
     on_fake (fake_ListEndOffsets Background t) w
       = (Ok (per_partition fp_end ft), log_call ''ListEndOffsets'' False None w)"
  by (simp add: fake_ListEndOffsets_def live_with_topic)

lemma live_DescribeTopicConfigs:
  "live w \<Longrightarrow> map_of (m_topics (model_of w)) t = Some ft \<Longrightarrow>
     on_fake (fake_DescribeTopicConfigs Background t) w
       = (Ok (ft_configs ft), log_call ''DescribeTopicConfigs'' False None w)"
  by (simp add: fake_DescribeTopicConfigs_def live_with_topic)

lemmas live_topic_reads =
  live_DescribeTopics live_ListStartOffsets live_ListEndOffsets live_DescribeTopicConfigs

text \<open>Each partition number of a topic with fewer than \<open>2 ^ 31\<close> partitions reads its own partition.\<close>

lemma map_of_per_partition:
  assumes "length (ft_partitions t) < 2147483648"
  shows "map_of (per_partition g t) p =
    (if 0 \<le> p \<and> p < int (length (ft_partitions t)) then Some (g (ft_partitions t ! nat p)) else None)"
proof -
  have w: "i < length (ft_partitions t) \<Longrightarrow> wrap32 (int i) = int i" for i
    using assms by (intro wrap32_id) (simp add: in_int32_def)
  have eq: "per_partition g t = map (\<lambda>i. (int i, g (ft_partitions t ! i))) [0..<length (ft_partitions t)]"
    by (intro nth_equalityI) (simp_all add: per_partition_def indexed_def w)
  have "map_of (map (\<lambda>i. (int i, h i)) [0..<n]) p = (if 0 \<le> p \<and> p < int n then Some (h (nat p)) else None)"
    for h :: "nat \<Rightarrow> int" and n
    by (induction n) (auto simp: nat_less_iff map_add_def)
  then show ?thesis unfolding eq by simp
qed

lemma mget_per_partition:
  "length (ft_partitions t) < 2147483648 \<Longrightarrow> 0 \<le> p \<Longrightarrow> p < int (length (ft_partitions t)) \<Longrightarrow>
     mget (per_partition g t) 0 p = g (ft_partitions t ! nat p)"
  by (simp add: mget_def map_of_per_partition)

lemma domain_partition_ids:
  assumes "length (ft_partitions t) < 2147483648"
  shows "map Partition_ID (Topic_Partitions (toDomainTopic n t)) = map int [0..<length (ft_partitions t)]"
proof -
  have w: "i < length (ft_partitions t) \<Longrightarrow> wrap32 (int i) = int i" for i
    using assms by (intro wrap32_id) (simp add: in_int32_def)
  show ?thesis
    by (intro nth_equalityI) (simp_all add: toDomainTopic_def indexed_def toDomainPartition_def w)
qed


section \<open>Groups\<close>

lemma live_DescribeGroup:
  "live w \<Longrightarrow> map_of (m_groups (model_of w)) g = Some gr \<Longrightarrow>
     on_fake (fake_DescribeGroups Background [g]) w
       = (Ok [toDomainGroup gr], log_call ''DescribeGroups'' False None w)"
  by (simp add: fake_DescribeGroups_def live_peek err_of_def)

lemma live_DescribeGroup_missing:
  "live w \<Longrightarrow> map_of (m_groups (model_of w)) g = None \<Longrightarrow>
     on_fake (fake_DescribeGroups Background [g]) w
       = (Err (notFound ''group''), log_call ''DescribeGroups'' False (Some (notFound ''group'')) w)"
  by (simp add: fake_DescribeGroups_def live_peek err_of_def)

lemma live_FetchGroupOffsets:
  "live w \<Longrightarrow> map_of (m_groups (model_of w)) g = Some gr \<Longrightarrow>
     on_fake (fake_FetchGroupOffsets Background g) w
       = (Ok (fg_offsets gr), log_call ''FetchGroupOffsets'' False None w)"
  by (simp add: fake_FetchGroupOffsets_def live_peek err_of_def)

lemmas live_group_reads = live_DescribeGroup live_DescribeGroup_missing live_FetchGroupOffsets

text \<open>Writing a list of bindings into a map: the last binding of a key counts.\<close>

lemma map_of_fold_mput:
  "map_of (fold (\<lambda>d. mput (f d) (g d)) ds m) = map_of m ++ map_of (rev (map (\<lambda>d. (f d, g d)) ds))"
  by (induction ds arbitrary: m) (simp_all add: update_conv' map_add_def fun_eq_iff split: option.split)

lemma map_of_fold_mput_pairs:
  "map_of (fold (\<lambda>(k, v). mput k v) ps m) = map_of m ++ map_of (rev ps)"
  using map_of_fold_mput [of fst snd ps m] by (simp add: case_prod_beta' cong: map_cong)

lemma map_of_fun_graph:
  "map_of (map (\<lambda>k. (k, f k)) ks) k = (if k \<in> set ks then Some (f k) else None)"
  by (induction ks) auto

text \<open>Bindings computed from their keys alone do not depend on their order.\<close>

lemma map_of_fold_graph:
  assumes "\<And>d. d \<in> set ds \<Longrightarrow> g d = h (f d)"
  shows "map_of (fold (\<lambda>d. mput (f d) (g d)) ds m) k
    = (if k \<in> f ` set ds then Some (h k) else map_of m k)"
proof -
  have "rev (map (\<lambda>d. (f d, g d)) ds) = map (\<lambda>k. (k, h k)) (rev (map f ds))"
    using assms by (induction ds) auto
  then show ?thesis
    by (simp add: map_of_fold_mput map_add_def map_of_fun_graph split: option.split)
qed

lemma wf_map_fold_mput: "wf_map m \<Longrightarrow> wf_map (fold (\<lambda>d. mput (f d) (g d)) ds m)"
  by (induction ds arbitrary: m) simp_all

lemma map_of_rev_wf: "wf_map m \<Longrightarrow> map_of (rev m) = map_of m"
  unfolding wf_map_def by (intro map_of_inject_set [THEN iffD2]) (simp_all add: rev_map [symmetric])

lemma mget_Nil [simp]: "mget [] z k = z"
  by (simp add: mget_def)

lemma map_of_mget: "map_of m k = (if k \<in> set (mkeys m) then Some (mget m z k) else None)"
  by (auto simp: mget_def mkeys_def map_of_eq_None_iff split: option.split)

text \<open>Distinct keys are appended in order.\<close>

lemma fold_mput_distinct:
  "distinct (map f xs) \<Longrightarrow> (\<forall>x \<in> set xs. f x \<notin> set (map fst acc)) \<Longrightarrow>
     fold (\<lambda>x. mput (f x) (g x)) xs acc = acc @ map (\<lambda>x. (f x, g x)) xs"
proof (induction xs arbitrary: acc)
  case (Cons x xs)
  have "mput (f x) (g x) acc = acc @ [(f x, g x)]"
    using Cons.prems(2) by (induction acc) auto
  moreover have "fold (\<lambda>x. mput (f x) (g x)) xs (acc @ [(f x, g x)])
      = (acc @ [(f x, g x)]) @ map (\<lambda>x. (f x, g x)) xs"
    using Cons.prems by (intro Cons.IH) (auto simp: image_iff)
  ultimately show ?case by simp
qed simp

end
