(* ===== verification/ScanWorld.thy ===== *)
theory ScanWorld
  imports ScanRun LiveReads
begin

text \<open>
  Scans over the in-memory cluster: its consumer, the contexts of the requests, and what one poll
  delivers when no fault is injected.
\<close>

definition world_consumer :: "Ctx \<Rightarrow> world Consumer" where
  "world_consumer ctx = \<lparr>Assign = (\<lambda>t ps offs. on_fake (fake_Assign ctx t ps offs)),
     Poll = on_fake (fake_Poll ctx), Close = on_fake fake_Close\<rparr>"

definition world_producer :: "Ctx \<Rightarrow> world Producer" where
  "world_producer ctx = \<lparr>Produce = (\<lambda>t rs. on_fake (fake_Produce ctx t rs))\<rparr>"

definition deadlineExceeded :: error where
  "deadlineExceeded = PlainError ''context deadline exceeded''"

text \<open>\<open>context.WithTimeout\<close>: the earlier of the parent's end and the new deadline.\<close>

definition WithTimeout :: "Ctx \<Rightarrow> int64 \<Rightarrow> time \<Rightarrow> Ctx" where
  "WithTimeout ctx d t =
    (case ctx_Done ctx of
       Some t0 \<Rightarrow> if t0 \<le> t + d then ctx else \<lparr>ctx_Done = Some (t + d), ctx_Cause = deadlineExceeded\<rparr>
     | None \<Rightarrow> \<lparr>ctx_Done = Some (t + d), ctx_Cause = deadlineExceeded\<rparr>)"

definition world_scan_env :: "(world, Ctx) ScanEnv" where
  "world_scan_env = \<lparr>env_consumer = world_consumer,
     env_ended = (\<lambda>ctx w. ctx_Err ctx (fk_wall (w_fake w)) \<noteq> None),
     env_timeout = (\<lambda>ctx d w. WithTimeout ctx d (fk_wall (w_fake w))),
     env_now = world_timeNow\<rparr>"

lemma world_consumer_simps [simp]:
  "Assign (world_consumer ctx) = (\<lambda>t ps offs. on_fake (fake_Assign ctx t ps offs))"
  "Poll (world_consumer ctx) = on_fake (fake_Poll ctx)"
  "Close (world_consumer ctx) = on_fake fake_Close"
  by (simp_all add: world_consumer_def)

lemma world_scan_env_simps [simp]:
  "env_consumer world_scan_env = world_consumer" "env_now world_scan_env = world_timeNow"
  "env_ended world_scan_env Background w = False"
  by (simp_all add: world_scan_env_def Background_def ctx_Err_def)

section \<open>Polling without faults\<close>

definition with_session :: "string \<Rightarrow> (int32 \<times> int64) list \<Rightarrow> world \<Rightarrow> world" where
  "with_session t cursor w = w\<lparr>w_fake := (w_fake w)\<lparr>fk_session := Some \<lparr>cs_topic = t, cs_cursor = cursor\<rparr>\<rparr>\<rparr>"

definition session :: "world \<Rightarrow> consumerSession option" where
  "session w = fk_session (w_fake w)"

lemma session_steps [simp]:
  "session (with_session t c w) = Some \<lparr>cs_topic = t, cs_cursor = c\<rparr>"
  "session (log_call me mu e w) = session w"
  "live (with_session t c w) = live w" "model_of (with_session t c w) = model_of w"
  by (simp_all add: with_session_def session_def log_call_def record_call_def live_def model_of_def)

definition next_range :: "world \<Rightarrow> world" where
  "next_range w = w\<lparr>w_fake := (w_fake w)\<lparr>fk_ranges := tl (fk_ranges (w_fake w))\<rparr>\<rparr>"

definition visited :: "world \<Rightarrow> 'a list \<Rightarrow> 'a list" where
  "visited w = range_order (next_order (w_fake w))"

lemma visited_simps [simp]: "mset (visited w xs) = mset xs" "set (visited w xs) = set xs" "visited w [x] = [x]"
  using mset_eq_setD [of "visited w xs" xs] by (simp_all add: visited_def)

lemma next_range_steps [simp]:
  "session (next_range w) = session w" "live (next_range w) = live w" "model_of (next_range w) = model_of w"
  by (simp_all add: next_range_def session_def live_def model_of_def)

lemma live_Assign:
  "live w \<Longrightarrow> on_fake (fake_Assign Background t ps offs) w
     = (Ok (), log_call ''Assign'' False None (with_session t (fold (\<lambda>p. mput p (mget offs 0 p)) ps []) w))"
  by (simp add: on_fake_def fake_Assign_def invoke_live err_of_def log_call_def with_session_def)

definition polled :: "fakeTopic \<Rightarrow> (int32 \<times> int64) list \<Rightarrow> Record list" where
  "polled t cursor = concat (map (\<lambda>pc. fst (poll_partition (ft_partitions t) pc)) cursor)"

definition polled_cursor :: "fakeTopic \<Rightarrow> (int32 \<times> int64) list \<Rightarrow> (int32 \<times> int64) list" where
  "polled_cursor t cursor = map (\<lambda>pc. snd (poll_partition (ft_partitions t) pc)) cursor"

text \<open>A context that has not ended by the wall clock; in a live world no call makes time pass.\<close>

definition alive :: "Ctx \<Rightarrow> world \<Rightarrow> bool" where
  "alive ctx w \<longleftrightarrow> ctx_Err ctx (fk_wall (w_fake w)) = None"

lemma alive_Background [simp]: "alive Background w"
  by (simp add: alive_def Background_def ctx_Err_def)

lemma invoke_alive:
  "live w \<Longrightarrow> alive ctx w \<Longrightarrow> invoke ctx meth mutating fn (w_fake w) =
     (case fn (w_fake w) of (Panic, f3) \<Rightarrow> (Panic, f3) | (r, f3) \<Rightarrow> (r, record_call meth mutating (err_of r) f3))"
  by (simp add: invoke_def live_def alive_def mget_def wait_latency_def)

definition wall :: "world \<Rightarrow> time" where
  "wall w = fk_wall (w_fake w)"

lemma wall_steps [simp]:
  "wall (log_call me mu e w) = wall w" "wall (with_session t c w) = wall w"
  "wall (snd (on_fake fake_Close w)) = wall w"
  by (simp_all add: wall_def log_call_def record_call_def with_session_def on_fake_def fake_Close_def)

lemma alive_wall: "wall w = wall w' \<Longrightarrow> alive ctx w = alive ctx w'"
  by (simp add: wall_def alive_def)

lemma next_range_wall [simp]: "wall (next_range w) = wall w" "reads_only w (next_range w') = reads_only w w'"
  "audit_trail (next_range w) = audit_trail w"
  by (simp_all add: wall_def next_range_def reads_only_def live_def model_of_def audit_trail_def RecordingSink_Events_def)

lemma close_reads [simp]: "reads_only w (snd (on_fake fake_Close w')) = reads_only w w'"
  by (simp add: reads_only_def live_def model_of_def audit_trail_def RecordingSink_Events_def on_fake_def fake_Close_def)

lemma session_reads [simp]: "reads_only w (with_session t c w') = reads_only w w'"
  by (simp add: reads_only_def live_def model_of_def audit_trail_def RecordingSink_Events_def with_session_def)

lemma live_Poll:
  assumes "live w" "alive ctx w" "session w = Some \<lparr>cs_topic = t, cs_cursor = c\<rparr>"
    and "map_of (m_topics (model_of w)) t = Some ft"
  shows "on_fake (fake_Poll ctx) w
    = (Ok (polled ft (visited w c)),
       log_call ''Poll'' False None (next_range (with_session t (polled_cursor ft (visited w c)) w)))"
  using assms
  by (simp add: on_fake_def fake_Poll_def invoke_alive model_of_def session_def err_of_def log_call_def
      with_session_def polled_def polled_cursor_def Let_def o_def next_range_def visited_def)

section \<open>Scanning a stored log\<close>

text \<open>
  A topic whose records carry the number of their partition and consecutive offsets within \<open>int64\<close>.
\<close>

definition placed :: "fakeTopic \<Rightarrow> bool" where
  "placed ft \<longleftrightarrow> (\<forall>i < length (ft_partitions ft). let p = ft_partitions ft ! i in
     wf_log p \<and> in_int64 (fp_beginOffset p) \<and> in_int64 (fp_beginOffset p + int (length (fp_records p)))
     \<and> (\<forall>r \<in> set (fp_records p). Record_Partition r = int i))"

lemma placed_nth:
  assumes "placed ft" "i < length (ft_partitions ft)" "k < length (fp_records (ft_partitions ft ! i))"
  shows "Record_Partition (fp_records (ft_partitions ft ! i) ! k) = int i"
    and "Record_Offset (fp_records (ft_partitions ft ! i) ! k) = fp_beginOffset (ft_partitions ft ! i) + int k"
  using assms by (auto simp: placed_def Let_def intro!: wf_log_offsets)

lemma increasing_drop:
  assumes "placed ft" "i < length (ft_partitions ft)"
  shows "increasing (drop k (fp_records (ft_partitions ft ! i)))"
  unfolding increasing_def sorted_wrt_iff_nth_less
  using assms by (auto simp: placed_nth(2))

lemma increasing_append:
  "increasing xs \<Longrightarrow> increasing ys \<Longrightarrow> (\<forall>x \<in> set xs. \<forall>y \<in> set ys. Record_Partition x \<noteq> Record_Partition y) \<Longrightarrow>
     increasing (xs @ ys)"
  by (auto simp: increasing_def sorted_wrt_append)

text \<open>What is polled of a partition belongs to it, whatever the cursor.\<close>

lemma poll_partition_cases:
  obtains (none) "fst (poll_partition ps pc) = []"
  | (some) k where "fst (poll_partition ps pc) = drop k (fp_records (ps ! nat (fst pc)))"
      "0 \<le> fst pc" "nat (fst pc) < length ps"
proof -
  let ?part = "ps ! nat (fst pc)"
  let ?start = "max 0 (wrap64 (snd pc - fp_beginOffset ?part))"
  show thesis
  proof (cases "fst pc < 0 \<or> fst pc \<ge> int (length ps) \<or> ?start \<ge> int (length (fp_records ?part))")
    case True
    then have "fst (poll_partition ps pc) = []" by (cases pc) (auto simp: poll_partition_def Let_def)
    then show thesis by (rule none)
  next
    case False
    then have "fst (poll_partition ps pc) = drop (nat ?start) (fp_records ?part)"
      by (cases pc) (simp add: poll_partition_def Let_def)
    then show thesis by (rule some) (use False in \<open>auto simp: nat_less_iff\<close>)
  qed
qed

lemma poll_partition_records:
  assumes "placed ft"
  shows "increasing (fst (poll_partition (ft_partitions ft) pc))"
    and "r \<in> set (fst (poll_partition (ft_partitions ft) pc)) \<Longrightarrow> Record_Partition r = fst pc"
proof -
  show "increasing (fst (poll_partition (ft_partitions ft) pc))"
    by (cases "ft_partitions ft" pc rule: poll_partition_cases)
      (simp_all add: increasing_drop [OF assms] increasing_def [of "[]"])
  show "Record_Partition r = fst pc" if "r \<in> set (fst (poll_partition (ft_partitions ft) pc))"
    using that
  proof (cases "ft_partitions ft" pc rule: poll_partition_cases)
    case (some k)
    with that have "r \<in> set (fp_records (ft_partitions ft ! nat (fst pc)))" by (auto dest: in_set_dropD)
    with some(2,3) assms have "Record_Partition r = int (nat (fst pc))" by (auto simp: placed_def Let_def)
    with some(2) show ?thesis by simp
  qed simp
qed

lemma increasing_polled:
  assumes "placed ft" "distinct (map fst c)"
  shows "increasing (polled ft c) \<and> Record_Partition ` set (polled ft c) \<subseteq> fst ` set c"
  using assms(2)
proof (induction c)
  case (Cons pc c)
  let ?xs = "fst (poll_partition (ft_partitions ft) pc)"
  note own = poll_partition_records [OF assms(1), where pc = pc]
  from Cons have IH: "increasing (polled ft c)" "Record_Partition ` set (polled ft c) \<subseteq> fst ` set c"
    and new: "fst pc \<notin> fst ` set c" by simp_all
  have eq: "polled ft (pc # c) = ?xs @ polled ft c" by (simp add: polled_def)
  have "Record_Partition x \<noteq> Record_Partition y" if "x \<in> set ?xs" "y \<in> set (polled ft c)" for x y
    using own(2) [OF that(1)] IH(2) that(2) new by auto
  then have "increasing (polled ft (pc # c))"
    unfolding eq by (intro increasing_append own(1) IH(1)) blast
  moreover have "Record_Partition ` set ?xs \<subseteq> {fst pc}" using own(2) by blast
  ultimately show ?case using IH(2) unfolding eq by auto
qed (simp add: polled_def increasing_def)

lemma set_polled: "set c = set c' \<Longrightarrow> set (polled ft c) = set (polled ft c')"
  by (simp add: polled_def)

text \<open>A window over existing records: its last record is stored, and polled.\<close>

definition stored_window :: "fakeTopic \<Rightarrow> int32 \<Rightarrow> PartitionSpec \<Rightarrow> bool" where
  "stored_window ft p w \<longleftrightarrow> 0 \<le> p \<and> p < int (length (ft_partitions ft))
     \<and> (let part = ft_partitions ft ! nat p in in_int64 (PSpec_Start w - fp_beginOffset part)
        \<and> (PSpec_Start w < PSpec_End w \<longrightarrow> fp_beginOffset part < PSpec_End w
            \<and> PSpec_End w \<le> fp_beginOffset part + int (length (fp_records part))))"

lemma poll_partition_window:
  assumes "placed ft" "stored_window ft p w" "PSpec_Start w < PSpec_End w"
  shows "\<exists>r \<in> set (fst (poll_partition (ft_partitions ft) (p, PSpec_Start w))). Record_Partition r = p
    \<and> Record_Offset r = PSpec_End w - 1"
proof -
  let ?part = "ft_partitions ft ! nat p"
  let ?k = "nat (PSpec_End w - 1 - fp_beginOffset ?part)"
  let ?start = "max 0 (PSpec_Start w - fp_beginOffset ?part)"
  from assms(2,3) have p: "0 \<le> p" "nat p < length (ft_partitions ft)"
    and w: "in_int64 (PSpec_Start w - fp_beginOffset ?part)" "fp_beginOffset ?part < PSpec_End w"
      "PSpec_End w \<le> fp_beginOffset ?part + int (length (fp_records ?part))"
    by (auto simp: stored_window_def Let_def nat_less_iff)
  have k: "?k < length (fp_records ?part)" "nat ?start \<le> ?k" using w assms(3) by auto
  let ?r = "fp_records ?part ! ?k"
  have "?r \<in> set (drop (nat ?start) (fp_records ?part))"
  proof -
    have "drop (nat ?start) (fp_records ?part) ! (?k - nat ?start) = ?r" using k by simp
    moreover have "?k - nat ?start < length (drop (nat ?start) (fp_records ?part))"
      using k by (simp only: length_drop diff_less_mono)
    ultimately show ?thesis by (metis nth_mem)
  qed
  moreover have "fst (poll_partition (ft_partitions ft) (p, PSpec_Start w)) = drop (nat ?start) (fp_records ?part)"
  proof -
    have "?start < int (length (fp_records ?part))" using k by linarith
    then show ?thesis using p w(1) by (simp add: poll_partition_def Let_def nat_less_iff)
  qed
  moreover have "Record_Partition ?r = p" "Record_Offset ?r = PSpec_End w - 1"
    using placed_nth [OF assms(1) p(2) k(1)] p(1) w by simp_all
  ultimately show ?thesis by metis
qed

definition stored_windows :: "fakeTopic \<Rightarrow> Spec \<Rightarrow> bool" where
  "stored_windows ft spec \<longleftrightarrow> (\<forall>(p, w) \<in> set (Spec_Partitions spec). stored_window ft p w)"

lemma polled_last:
  assumes "placed ft" "stored_windows ft spec" "wf_map (Spec_Partitions spec)"
    and "(p, w) \<in> set (Spec_Partitions spec)" "PSpec_Start w < PSpec_End w"
  shows "\<exists>r \<in> set (polled ft (sc_cursor (scan_start spec))). in_window spec (sc_cursor (scan_start spec)) r
    \<and> Record_Partition r = p \<and> Record_Offset r = PSpec_End w - 1"
proof -
  have w: "stored_window ft p w" using assms(2,4) by (auto simp: stored_windows_def)
  from poll_partition_window [OF assms(1) w assms(5)] obtain r
    where r: "r \<in> set (fst (poll_partition (ft_partitions ft) (p, PSpec_Start w)))" "Record_Partition r = p"
      "Record_Offset r = PSpec_End w - 1" by blast
  have m: "map_of (Spec_Partitions spec) p = Some w"
    using assms(3,4) by (simp add: wf_map_def)
  have "(p, PSpec_Start w) \<in> set (sc_cursor (scan_start spec))"
    using assms(4) by (force simp: scan_start_def)
  with r(1) have "r \<in> set (polled ft (sc_cursor (scan_start spec)))" by (auto simp: polled_def)
  moreover have "in_window spec (sc_cursor (scan_start spec)) r"
    using r m assms(5) by (simp add: in_window_def scan_start_def mget_def map_of_map)
  ultimately show ?thesis using r by blast
qed

end
