(* ===== verification/ScanProps.thy ===== *)
theory ScanProps
  imports ScanWorld
begin

text \<open>
  What a bounded scan promises: the codec loses nothing, the items lie in their windows in order and
  within the bounds, a resumed scan continues without gap or overlap, and over the in-memory cluster a
  scan of existing records completes, while one of records that are gone polls for ever unless a
  time bound is set.
\<close>

section \<open>The codec\<close>

text \<open>
  Decoding a record for the wire loses no byte: encoding the decoded key, value and header values
  with the encodings they are labelled with gives the original bytes back, whatever format was asked
  for. A nil key or value reads as an empty one.
\<close>

theorem decode_then_encode:
  "EncodeValue (SR_Key (Decode r format)) (SR_KeyEncoding (Decode r format)) = Inr (slice (Record_Key r))
   \<and> EncodeValue (SR_Value (Decode r format)) (SR_ValueEncoding (Decode r format)) = Inr (slice (Record_Value r))
   \<and> map (\<lambda>h. EncodeValue (SH_Value h) (SH_ValueEncoding h)) (SR_Headers (Decode r format))
       = map (\<lambda>h. Inr (Header_Value h)) (Record_Headers r)"
  using EncodeValue_decodeBytes [of "slice (Record_Key r)" format]
    EncodeValue_decodeBytes [of "slice (Record_Value r)" format] EncodeValue_decodeHeader
  by (simp add: Decode_def split_beta)

section \<open>A completed scan\<close>

lemma Run_Ok:
  assumes "Run fuel env ctx spec matcher s = Some (Ok (items, stats), s')" "Spec_Partitions spec \<noteq> []"
  shows "\<exists>ts acc elapsed reachedEnd stoppedBy. counts spec matcher (scan_start spec) ts acc
    \<and> ends_well spec acc ts (Ok (reachedEnd, stoppedBy))
    \<and> items = sc_collected (drain spec acc)
    \<and> stats = finalStats spec (sc_cursor acc) reachedEnd stoppedBy elapsed (drain spec acc)"
  using assms
  by (auto simp: Run_def Let_def split: prod.splits res.splits option.splits dest!: pollLoop_counts)
    (intro exI conjI, assumption, assumption, rule refl, rule refl)

lemma map_of_map_key: "map_of (map (\<lambda>(k, v). (k, f k)) m) k = map_option (\<lambda>_. f k) (map_of m k)"
  by (induction m) auto

lemma fold_advance_max:
  assumes "windowed spec c ts" "int64_spec spec" "int64_cursor c"
  shows "mget (fold advance ts c) 0 p
    = fold max (map (\<lambda>r. Record_Offset r + 1) (filter (\<lambda>r. Record_Partition r = p) ts)) (mget c 0 p)"
  using assms
proof (induction ts arbitrary: c rule: list.induct)
  case (Cons r ts)
  from Cons.prems have w: "in_window spec c r" "windowed spec (advance r c) ts" by simp_all
  have "mget (advance r c) 0 p = (if p = Record_Partition r then max (Record_Offset r + 1) (mget c 0 p) else mget c 0 p)"
    using advance_in_window [OF w(1) Cons.prems(2,3), of p] w(1) by (auto elim: in_windowD)
  with Cons.IH [OF w(2) Cons.prems(2) int64_advance [OF Cons.prems(3)]] show ?case by auto
qed simp

text \<open>
  One scan at its consumer: it assigns every partition of its windows at the window's start, polls as long as
  it runs (a last poll may fail when its time is over), reads the clock and closes the consumer.
\<close>

definition scan_polls :: "('s, 'c) ScanEnv \<Rightarrow> 'c \<Rightarrow> Spec \<Rightarrow> 's \<Rightarrow> Record list \<Rightarrow> 's \<Rightarrow> bool" where
  "scan_polls env ctx spec s delivered s' \<longleftrightarrow>
    (\<exists>s1 s2 s3. Assign (env_consumer env ctx) (Spec_Topic spec) (mkeys (Spec_Partitions spec))
        (sc_cursor (scan_start spec)) (snd (env_now env s)) = (Ok (), s1)
     \<and> polls (Poll (env_consumer env (poll_ctx env ctx spec s1))) s1 delivered s2
     \<and> (s3 = s2 \<or> (\<exists>err. Poll (env_consumer env (poll_ctx env ctx spec s1)) s2 = (Err err, s3)))
     \<and> s' = snd (Close (env_consumer env ctx) (snd (env_now env s3))))"

lemma Run_delivers:
  assumes "Run fuel env ctx spec matcher s = Some (Ok (items, stats), s')" "Spec_Partitions spec \<noteq> []"
  shows "\<exists>delivered ts rest acc elapsed reachedEnd stoppedBy. scan_polls env ctx spec s delivered s'
    \<and> accepted spec (sc_cursor (scan_start spec)) delivered = ts @ rest
    \<and> counts spec matcher (scan_start spec) ts acc \<and> ends_well spec acc ts (Ok (reachedEnd, stoppedBy))
    \<and> (rest \<noteq> [] \<longrightarrow> stoppedBy \<noteq> [] \<and> stoppedBy = hitBound acc spec)
    \<and> items = sc_collected (drain spec acc)
    \<and> stats = finalStats spec (sc_cursor acc) reachedEnd stoppedBy elapsed (drain spec acc)"
proof -
  let ?c = "sc_cursor (scan_start spec)"
  obtain start s0 where now: "env_now env s = (start, s0)" by fastforce
  obtain s1 where asg: "Assign (env_consumer env ctx) (Spec_Topic spec) (mkeys (Spec_Partitions spec)) ?c s0 = (Ok (), s1)"
    using assms by (auto simp: Run_def now Let_def split: prod.splits res.splits)
  let ?poll = "Poll (env_consumer env (poll_ctx env ctx spec s1))"
  obtain re sb acc s3 where loop: "pollLoop fuel ?poll (env_ended env (poll_ctx env ctx spec s1)) spec matcher
      (scan_start spec) s1 = Some (Ok (re, sb), acc, s3)"
    and out: "items = sc_collected (drain spec acc)"
      "stats = finalStats spec (sc_cursor acc) re sb (Milliseconds (time_Sub (fst (env_now env s3)) start)) (drain spec acc)"
      "s' = snd (Close (env_consumer env ctx) (snd (env_now env s3)))"
    using assms by (auto simp: Run_def now asg Let_def split: prod.splits res.splits option.splits)
  from pollLoop_delivers [OF loop] obtain rs s2 ts rest where
    "polls ?poll s1 rs s2" "s3 = s2 \<or> (\<exists>err. ?poll s2 = (Err err, s3))" and d: "accepted spec ?c rs = ts @ rest"
    "counts spec matcher (scan_start spec) ts acc" "ends_well spec acc ts (Ok (re, sb))"
    "rest \<noteq> [] \<longrightarrow> sb \<noteq> [] \<and> sb = hitBound acc spec" by blast
  then have "scan_polls env ctx spec s rs s'" unfolding scan_polls_def using asg out(3) by (auto simp: now)
  with d out(1,2) show ?thesis by blast
qed

text \<open>
  C20. A scan that is not a latest one, over any consumer, returns the decoded matching records among those of
  its polls that it accepts: the polls of this very run deliver a list of records, and of those that lie in
  their window and not behind the cursor the scan counts a prefix, which is all of them unless it stopped at a
  bound, and then that bound was reached. The statistics count exactly these records, offsets increase within a
  partition so none is counted twice, the continuation of every partition is its start moved past them, and a
  scan that reports the end has passed the end of every window.
\<close>

theorem scan_reads_windows:
  assumes "Run fuel env ctx spec matcher s = Some (Ok (items, stats), s')"
    and "Spec_Partitions spec \<noteq> []" "\<not> Spec_Latest spec" "int64_spec spec" "wf_map (Spec_Partitions spec)"
  shows "\<exists>delivered ts rest. scan_polls env ctx spec s delivered s'
    \<and> accepted spec (sc_cursor (scan_start spec)) delivered = ts @ rest
    \<and> (rest \<noteq> [] \<longrightarrow> Stats_StoppedBy stats \<noteq> []
         \<and> Stats_StoppedBy stats = hitBound (count_all ts spec matcher (scan_start spec)) spec)
    \<and> items = map (\<lambda>r. Decode r (Spec_Format spec)) (filter (matches spec matcher) ts)
    \<and> Stats_Scanned stats = wrap64 (int (length ts)) \<and> Stats_Matched stats = wrap64 (int (length items))
    \<and> increasing ts
    \<and> (\<forall>r \<in> set ts. \<exists>w. map_of (Spec_Partitions spec) (Record_Partition r) = Some w
          \<and> PSpec_Start w \<le> Record_Offset r \<and> Record_Offset r < PSpec_End w)
    \<and> (\<forall>p w. map_of (Spec_Partitions spec) p = Some w \<longrightarrow>
          mget (Stats_Continuation stats) 0 p = fold max (map (\<lambda>r. Record_Offset r + 1)
            (filter (\<lambda>r. Record_Partition r = p) ts)) (PSpec_Start w))
    \<and> (Stats_ReachedEnd stats \<longrightarrow> (\<forall>p w. map_of (Spec_Partitions spec) p = Some w
          \<longrightarrow> PSpec_End w \<le> mget (Stats_Continuation stats) 0 p))"
proof -
  from Run_delivers [OF assms(1,2)] obtain delivered ts rest acc elapsed reachedEnd stoppedBy
    where pol: "scan_polls env ctx spec s delivered s'"
      "accepted spec (sc_cursor (scan_start spec)) delivered = ts @ rest"
      "rest \<noteq> [] \<longrightarrow> stoppedBy \<noteq> [] \<and> stoppedBy = hitBound acc spec"
      and ts: "counts spec matcher (scan_start spec) ts acc" "ends_well spec acc ts (Ok (reachedEnd, stoppedBy))"
      and items: "items = sc_collected (drain spec acc)"
      and stats: "stats = finalStats spec (sc_cursor acc) reachedEnd stoppedBy elapsed (drain spec acc)"
    by blast
  let ?c = "sc_cursor (scan_start spec)"
  have c: "int64_cursor ?c" by (rule int64_cursor_start [OF assms(4)])
  from ts(1) have acc: "acc = count_all ts spec matcher (scan_start spec)" "windowed spec ?c ts"
    by (simp_all add: counts_def)
  note facts = windowed_facts [OF acc(2) assms(4) c]
  have start: "mget ?c 0 p = PSpec_Start w" if "map_of (Spec_Partitions spec) p = Some w" for p w
    using that by (simp add: scan_start_def mget_def map_of_map)
  have cont: "mget (Stats_Continuation stats) 0 p = mget (sc_cursor acc) 0 p"
    if "map_of (Spec_Partitions spec) p = Some w" for p w
    using that assms(3) map_of_map_key [of "mget (sc_cursor acc) 0" "Spec_Partitions spec" p]
    by (simp add: stats finalStats_def mget_def [of "map _ _"])
  have d: "drain spec acc = acc" using assms(3) by (simp add: drain_def)
  have it: "items = map (\<lambda>r. Decode r (Spec_Format spec)) (filter (matches spec matcher) ts)"
    using assms(3) by (simp add: items drain_def acc(1) count_all_collected) (simp add: scan_start_def)
  moreover have "Stats_Scanned stats = wrap64 (int (length ts))" "Stats_Matched stats = wrap64 (int (length items))"
    using count_all_counters [of ts spec matcher, folded acc(1)] by (simp_all add: stats d finalStats_def items)
  moreover have "\<exists>w. map_of (Spec_Partitions spec) (Record_Partition r) = Some w
      \<and> PSpec_Start w \<le> Record_Offset r \<and> Record_Offset r < PSpec_End w" if "r \<in> set ts" for r
  proof -
    from facts that have "in_window spec ?c r" by blast
    then show ?thesis by (elim in_windowD) (auto simp: start)
  qed
  moreover have "mget (Stats_Continuation stats) 0 p = fold max (map (\<lambda>r. Record_Offset r + 1)
      (filter (\<lambda>r. Record_Partition r = p) ts)) (PSpec_Start w)" if "map_of (Spec_Partitions spec) p = Some w" for p w
    using fold_advance_max [OF acc(2) assms(4) c, of p] start [OF that] cont [OF that] by (simp add: acc(1))
  moreover have "PSpec_End w \<le> mget (Stats_Continuation stats) 0 p"
    if "Stats_ReachedEnd stats" "map_of (Spec_Partitions spec) p = Some w" for p w
  proof -
    from that(1) assms(3) have reachedEnd by (simp add: stats finalStats_def)
    with ts(2) have "windowsExhausted spec (sc_cursor acc)" by (simp add: ends_well_def)
    then show ?thesis
      using map_of_SomeD [OF that(2)] cont [OF that(2)] by (auto simp: windowsExhausted_def list_all_iff not_less)
  qed
  moreover have "Stats_StoppedBy stats = stoppedBy" using assms(3) by (simp add: stats finalStats_def)
  ultimately show ?thesis
    using facts pol acc(1) by (intro exI [of _ delivered] exI [of _ ts] exI [of _ rest]) auto
qed

text \<open>
  C22. A scan respects its bounds: at most \<open>MaxMessages\<close> items, at most \<open>MaxScanned\<close> records evaluated
  by a scan, and a bound named in the answer was reached.
\<close>

theorem scan_respects_bounds:
  assumes "Run fuel env ctx spec matcher s = Some (Ok (items, stats), s')"
    and "Spec_Partitions spec \<noteq> []" "in_int64 (Spec_MaxMessages spec)" "in_int64 (Spec_MaxScanned spec)"
  shows "(0 < Spec_MaxMessages spec \<longrightarrow> int (length items) \<le> Spec_MaxMessages spec)
    \<and> (0 < Spec_MaxScanned spec \<longrightarrow> Stats_Scanned stats \<le> Spec_MaxScanned spec)
    \<and> (Stats_StoppedBy stats = StoppedByMaxBytes \<longrightarrow> Spec_MaxBytes spec \<le> Stats_Bytes stats)"
proof -
  from Run_Ok [OF assms(1,2)] obtain ts acc elapsed reachedEnd stoppedBy
    where ts: "counts spec matcher (scan_start spec) ts acc" "ends_well spec acc ts (Ok (reachedEnd, stoppedBy))"
      and items: "items = sc_collected (drain spec acc)"
      and stats: "stats = finalStats spec (sc_cursor acc) reachedEnd stoppedBy elapsed (drain spec acc)"
    by blast
  note bounds = scan_counts_bounds [OF ts(1)]
  have "int (length items) \<le> Spec_MaxMessages spec" if "0 < Spec_MaxMessages spec"
    using bounds(1) that assms(3) by (auto simp: items drain_def Let_def)
  moreover have "Stats_Scanned stats \<le> Spec_MaxScanned spec" if "0 < Spec_MaxScanned spec"
  proof -
    from bounds(2) [OF that assms(4)] assms(4) have "in_int64 (int (length ts))" by (simp add: in_int64_def)
    then have "sc_scanned acc = int (length ts)" using ts(1) by (simp add: counts_def count_all_counters)
    with bounds(2) [OF that assms(4)] show ?thesis by (simp add: stats finalStats_def drain_def Let_def)
  qed
  moreover have "Spec_MaxBytes spec \<le> Stats_Bytes stats" if "Stats_StoppedBy stats = StoppedByMaxBytes"
    using that ts(2)
    by (auto simp: stats finalStats_def ends_well_def hitBound_def drain_def Let_def StoppedByMaxBytes_def
        StoppedByMaxMessages_def StoppedByMaxTime_def split: if_splits)
  ultimately show ?thesis by blast
qed

section \<open>Scanning the in-memory cluster\<close>

definition demo_scan :: "int64 \<Rightarrow> int64 \<Rightarrow> Spec" where
  "demo_scan limit maxScan = \<lparr>Spec_Topic = ''orders'',
     Spec_Partitions = [(0, \<lparr>PSpec_Start = 0, PSpec_End = 2\<rparr>), (1, \<lparr>PSpec_Start = 0, PSpec_End = 1\<rparr>)],
     Spec_Latest = False, Spec_MaxMessages = limit, Spec_MaxScanned = maxScan, Spec_MaxBytes = 0,
     Spec_MaxTime = 0, Spec_Format = []\<rparr>"

lemma fold_mput_start:
  fixes ps :: "(int32 \<times> PartitionSpec) list"
  assumes "wf_map ps"
  shows "fold (\<lambda>p. mput p (mget (map (\<lambda>(p, w). (p, f w)) ps) 0 p)) (mkeys ps) [] = map (\<lambda>(p, w). (p, f w)) ps"
  using assms
  by (subst fold_mput_distinct [where f = "\<lambda>p. p"])
    (auto simp: mkeys_def wf_map_def mget_def map_of_map)

text \<open>The context of the polls, which the scan's time bound derives from the request's.\<close>

lemma poll_ctx_alive: "alive (poll_ctx world_scan_env Background spec w) w"
  by (simp add: poll_ctx_def world_scan_env_def WithTimeout_def alive_def Background_def ctx_Err_def)

lemma env_ended_alive: "env_ended world_scan_env ctx w = (\<not> alive ctx w)"
  by (simp add: world_scan_env_def alive_def)

lemma Run_world:
  assumes "live w" "Spec_Partitions spec \<noteq> []" "wf_map (Spec_Partitions spec)"
  shows "\<exists>w1 ctx. reads_only w w1 \<and> wall w1 = wall w \<and> alive ctx w1
    \<and> ctx = poll_ctx world_scan_env Background spec w1
    \<and> session w1 = Some \<lparr>cs_topic = Spec_Topic spec, cs_cursor = sc_cursor (scan_start spec)\<rparr>
    \<and> Run fuel world_scan_env Background spec matcher w =
      (case pollLoop fuel (on_fake (fake_Poll ctx)) (\<lambda>v. \<not> alive ctx v) spec matcher (scan_start spec) w1 of
         None \<Rightarrow> None
       | Some (Panic, acc, s3) \<Rightarrow> Some (Panic, snd (on_fake fake_Close s3))
       | Some (Err err, acc, s3) \<Rightarrow> Some (Err err, snd (on_fake fake_Close s3))
       | Some (Ok (reachedEnd, stoppedBy), acc, s3) \<Rightarrow>
           Some (Ok (sc_collected (drain spec acc), finalStats spec (sc_cursor acc) reachedEnd stoppedBy
              (Milliseconds (time_Sub (wall s3) (wall w))) (drain spec acc)), snd (on_fake fake_Close s3)))"
proof -
  let ?w1 = "log_call ''Assign'' False None (with_session (Spec_Topic spec) (sc_cursor (scan_start spec)) w)"
  have asg: "on_fake (fake_Assign Background (Spec_Topic spec) (mkeys (Spec_Partitions spec)) (sc_cursor (scan_start spec))) w
      = (Ok (), ?w1)"
    using fold_mput_start [OF assms(3), of PSpec_Start]
    by (simp add: live_Assign [OF assms(1)] scan_start_def)
  have e: "env_ended world_scan_env ctx = (\<lambda>v. \<not> alive ctx v)" for ctx by (simp add: fun_eq_iff env_ended_alive)
  show ?thesis
    using assms(1,2)
    by (intro exI [of _ ?w1] exI [of _ "poll_ctx world_scan_env Background spec ?w1"])
      (simp add: Run_def world_timeNow_def asg Let_def e poll_ctx_alive wall_def [symmetric]
        split: option.split prod.split res.split)
qed

text \<open>What a scan over stored records returns, with the records it counted and the bound it stopped at.\<close>

definition scanned ::
  "fakeTopic \<Rightarrow> Spec \<Rightarrow> Matcher \<Rightarrow> (int32 \<times> int64) list \<Rightarrow> Record list \<Rightarrow> Record list \<Rightarrow> scan_Record list \<Rightarrow> Stats
   \<Rightarrow> bool"
where
  "scanned ft spec matcher order ts rest items stats \<longleftrightarrow>
    (let c = sc_cursor (scan_start spec); acc = count_all ts spec matcher (scan_start spec) in
     \<exists>reachedEnd stoppedBy elapsed.
       mset order = mset c \<and> filter (in_window spec c) (polled ft order) = ts @ rest
     \<and> items = map (\<lambda>r. Decode r (Spec_Format spec)) (filter (matches spec matcher) ts)
     \<and> stats = finalStats spec (sc_cursor acc) reachedEnd stoppedBy elapsed acc
     \<and> (stoppedBy = [] \<longrightarrow> rest = [] \<and> reachedEnd)
     \<and> (stoppedBy \<noteq> [] \<longrightarrow> stoppedBy = hitBound acc spec))"

lemma Run_stored:
  assumes "live w" "map_of (m_topics (model_of w)) (Spec_Topic spec) = Some ft" "placed ft"
    and "Spec_Partitions spec \<noteq> []" "wf_map (Spec_Partitions spec)" "int64_spec spec"
    and "stored_windows ft spec" "\<not> Spec_Latest spec"
  shows "\<exists>items stats w' order ts rest.
      Run (Suc (Suc n)) world_scan_env Background spec matcher w = Some (Ok (items, stats), w')
    \<and> reads_only w w' \<and> wall w' = wall w \<and> scanned ft spec matcher order ts rest items stats"
proof -
  let ?c = "sc_cursor (scan_start spec)"
  from Run_world [OF assms(1,4,5), of "Suc (Suc n)" matcher] obtain w1 ctx
    where w1: "reads_only w w1" "wall w1 = wall w" "alive ctx w1" "session w1 = Some \<lparr>cs_topic = Spec_Topic spec, cs_cursor = ?c\<rparr>"
      and run: "Run (Suc (Suc n)) world_scan_env Background spec matcher w =
      (case pollLoop (Suc (Suc n)) (on_fake (fake_Poll ctx)) (\<lambda>v. \<not> alive ctx v) spec matcher (scan_start spec) w1 of
         None \<Rightarrow> None
       | Some (Panic, acc, s3) \<Rightarrow> Some (Panic, snd (on_fake fake_Close s3))
       | Some (Err err, acc, s3) \<Rightarrow> Some (Err err, snd (on_fake fake_Close s3))
       | Some (Ok (reachedEnd, stoppedBy), acc, s3) \<Rightarrow>
           Some (Ok (sc_collected (drain spec acc), finalStats spec (sc_cursor acc) reachedEnd stoppedBy
              (Milliseconds (time_Sub (wall s3) (wall w))) (drain spec acc)), snd (on_fake fake_Close s3)))"
    by blast
  let ?poll = "on_fake (fake_Poll ctx)" and ?o = "visited w1 ?c"
  let ?w2 = "log_call ''Poll'' False None (next_range (with_session (Spec_Topic spec) (polled_cursor ft ?o) w1))"
  have poll: "?poll w1 = (Ok (polled ft ?o), ?w2)"
    by (rule live_Poll) (use w1 assms(1,2) in \<open>simp_all add: reads_onlyD [OF w1(1)]\<close>)
  have "distinct (map fst ?c)" using assms(5) by (simp add: scan_start_def wf_map_def o_def case_prod_beta')
  then have "distinct (map fst ?o)" by (metis mset_map mset_eq_imp_distinct_iff visited_simps(1))
  then have inc: "increasing (polled ft ?o)" using increasing_polled [OF assms(3)] by blast
  have start: "mget ?c 0 p = PSpec_Start ps" if "(p, ps) \<in> set (Spec_Partitions spec)" for p ps
    using that assms(5) by (simp add: scan_start_def mget_def map_of_map wf_map_def)
  have last: "\<exists>r \<in> set (polled ft ?o). in_window spec ?c r \<and> Record_Partition r = p \<and> Record_Offset r = PSpec_End ps - 1"
    if "(p, ps) \<in> set (Spec_Partitions spec)" "mget ?c 0 p < PSpec_End ps" for p ps
    using polled_last [OF assms(3,7,5) that(1)] that start set_polled [of ?o ?c ft] by simp
  have going: "\<not> \<not> alive ctx ?w2" using w1(3) alive_wall [of ?w2 w1 ctx] by simp
  have "\<exists>ts rest re sb s'. pollLoop (Suc (Suc n)) ?poll (\<lambda>v. \<not> alive ctx v) spec matcher (scan_start spec) w1
      = Some (Ok (re, sb), count_all ts spec matcher (scan_start spec), s') \<and> s' \<in> {w1, ?w2}
    \<and> filter (in_window spec ?c) (polled ft ?o) = ts @ rest \<and> (sb = [] \<longrightarrow> rest = [] \<and> re)
    \<and> (sb \<noteq> [] \<longrightarrow> sb = hitBound (count_all ts spec matcher (scan_start spec)) spec)"
    by (rule pollLoop_completes [where poll = ?poll and s = w1 and ended = "\<lambda>v. \<not> alive ctx v", OF poll inc assms(6) going last])
  then obtain ts rest re sb s' where loop:
    "pollLoop (Suc (Suc n)) ?poll (\<lambda>v. \<not> alive ctx v) spec matcher (scan_start spec) w1
      = Some (Ok (re, sb), count_all ts spec matcher (scan_start spec), s')"
    "filter (in_window spec ?c) (polled ft ?o) = ts @ rest" "sb = [] \<longrightarrow> rest = [] \<and> re"
    "sb \<noteq> [] \<longrightarrow> sb = hitBound (count_all ts spec matcher (scan_start spec)) spec" "s' \<in> {w1, ?w2}"
    by blast
  have items: "sc_collected (count_all ts spec matcher (scan_start spec))
      = map (\<lambda>r. Decode r (Spec_Format spec)) (filter (matches spec matcher) ts)"
    by (simp add: count_all_collected) (simp add: scan_start_def)
  have d: "drain spec acc = acc" for acc using assms(8) by (simp add: drain_def)
  from loop(5) w1(1,2) have "reads_only w (snd (on_fake fake_Close s'))" "wall (snd (on_fake fake_Close s')) = wall w"
    by auto
  moreover from loop(2-4) have "scanned ft spec matcher ?o ts rest
      (sc_collected (count_all ts spec matcher (scan_start spec)))
      (finalStats spec (sc_cursor (count_all ts spec matcher (scan_start spec))) re sb
        (Milliseconds (time_Sub (wall s') (wall w))) (count_all ts spec matcher (scan_start spec)))"
    unfolding scanned_def Let_def items visited_simps(1) by blast
  ultimately show ?thesis
    unfolding run loop(1) by (simp add: d) blast
qed

lemma scanned_items:
  assumes "scanned ft spec matcher order ts rest items stats" "\<not> Spec_Latest spec"
  shows "mset order = mset (sc_cursor (scan_start spec))
    \<and> filter (in_window spec (sc_cursor (scan_start spec))) (polled ft order) = ts @ rest
    \<and> items = map (\<lambda>r. Decode r (Spec_Format spec)) (filter (matches spec matcher) ts)
    \<and> (Stats_StoppedBy stats = [] \<longrightarrow> rest = [] \<and> Stats_ReachedEnd stats)"
  using assms by (auto simp: scanned_def Let_def finalStats_def)

text \<open>
  C23. Liveness: over the in-memory cluster without faults, a scan whose windows cover stored records
  returns after at most two polls, whatever its bounds. The records it counts are a prefix of the stored
  records in the windows, partition by partition in some order (the one in which the runtime visits them), and
  all of them when no bound stopped it.
\<close>

theorem scan_of_stored_records_returns:
  assumes "live w" "map_of (m_topics (model_of w)) (Spec_Topic spec) = Some ft" "placed ft"
    and "Spec_Partitions spec \<noteq> []" "wf_map (Spec_Partitions spec)" "int64_spec spec"
    and "stored_windows ft spec" "\<not> Spec_Latest spec"
  shows "\<exists>items stats w' order ts rest.
      Run (Suc (Suc n)) world_scan_env Background spec matcher w = Some (Ok (items, stats), w')
    \<and> mset order = mset (sc_cursor (scan_start spec))
    \<and> filter (in_window spec (sc_cursor (scan_start spec))) (polled ft order) = ts @ rest
    \<and> items = map (\<lambda>r. Decode r (Spec_Format spec)) (filter (matches spec matcher) ts)
    \<and> (Stats_StoppedBy stats = [] \<longrightarrow> rest = [] \<and> Stats_ReachedEnd stats)"
  using Run_stored [OF assms, of n matcher] scanned_items [OF _ assms(8)] by blast

lemma demo_placed: "placed demo_orders"
  by (simp add: placed_def demo_orders_def less_Suc_eq all_conj_distrib numeral_2_eq_2 wf_log_def zero_partition_def
      demo_record_def in_int64_def wrap64_def upt_rec)

lemma demo_scan_ok:
  "Spec_Partitions (demo_scan l m) \<noteq> []" "wf_map (Spec_Partitions (demo_scan l m))" "int64_spec (demo_scan l m)"
  "Spec_MaxTime (demo_scan l m) \<le> 0" "\<not> Spec_Latest (demo_scan l m)" "stored_windows demo_orders (demo_scan l m)"
  "map_of (m_topics (model_of demo_world)) (Spec_Topic (demo_scan l m)) = Some demo_orders"
  by (simp_all add: demo_scan_def wf_map_def int64_spec_def in_int64_def stored_windows_def stored_window_def)
    (simp add: demo_orders_def zero_partition_def)

theorem scan_of_stored_records_returns_witness:
  "\<exists>items stats w'. Run 2 world_scan_env Background (demo_scan 2 0) MatchAll demo_world = Some (Ok (items, stats), w')"
  using scan_of_stored_records_returns [OF demo_live demo_scan_ok(7) demo_placed demo_scan_ok(1-3,6,5), of 0 2 0 MatchAll]
  by (auto simp: numeral_2_eq_2)

lemma demo_run:
  "\<exists>items stats w'. Run 2 world_scan_env Background (demo_scan l m) MatchAll demo_world = Some (Ok (items, stats), w')"
  using Run_stored [OF demo_live demo_scan_ok(7) demo_placed demo_scan_ok(1-3,6,5), of 0 l m MatchAll]
  by (auto simp: numeral_2_eq_2)

theorem scan_reads_windows_witness:
  "\<exists>items stats w' ts. Run 2 world_scan_env Background (demo_scan 2 0) MatchAll demo_world = Some (Ok (items, stats), w')
     \<and> items = map (\<lambda>r. Decode r []) (filter (matches (demo_scan 2 0) MatchAll) ts) \<and> increasing ts"
proof -
  obtain items stats w' where run:
    "Run 2 world_scan_env Background (demo_scan 2 0) MatchAll demo_world = Some (Ok (items, stats), w')"
    using demo_run by blast
  have "Spec_Format (demo_scan 2 0) = []" by (simp add: demo_scan_def)
  with scan_reads_windows [OF run demo_scan_ok(1,5,3,2)] run show ?thesis by auto
qed

theorem scan_respects_bounds_witness:
  "\<exists>items stats w'. Run 2 world_scan_env Background (demo_scan 2 1) MatchAll demo_world = Some (Ok (items, stats), w')
     \<and> int (length items) \<le> 2 \<and> Stats_Scanned stats \<le> 1"
proof -
  obtain items stats w' where run:
    "Run 2 world_scan_env Background (demo_scan 2 1) MatchAll demo_world = Some (Ok (items, stats), w')"
    using demo_run by blast
  have "Spec_MaxMessages (demo_scan 2 1) = 2" "Spec_MaxScanned (demo_scan 2 1) = 1" by (simp_all add: demo_scan_def)
  with scan_respects_bounds [OF run demo_scan_ok(1)] run show ?thesis by (auto simp: in_int64_def)
qed

section \<open>Resuming a scan\<close>

definition window_records :: "fakeTopic \<Rightarrow> int32 \<Rightarrow> PartitionSpec \<Rightarrow> Record list" where
  "window_records ft p win = filter (\<lambda>r. PSpec_Start win \<le> Record_Offset r \<and> Record_Offset r < PSpec_End win)
     (fp_records (ft_partitions ft ! nat p))"

definition of_partition :: "int32 \<Rightarrow> scan_Record list \<Rightarrow> scan_Record list" where
  "of_partition p = filter (\<lambda>item. SR_Partition item = p)"

definition resumed :: "Spec \<Rightarrow> Stats \<Rightarrow> Spec" where
  "resumed spec stats = spec\<lparr>Spec_Partitions :=
     map (\<lambda>(p, win). (p, win\<lparr>PSpec_Start := mget (Stats_Continuation stats) 0 p\<rparr>)) (Spec_Partitions spec)\<rparr>"

lemma filter_drop_below:
  assumes "\<And>i. i < k \<Longrightarrow> i < length xs \<Longrightarrow> \<not> P (xs ! i)"
  shows "filter P (drop k xs) = filter P xs"
proof -
  have "filter P (take k xs) = []" using assms by (auto simp: filter_empty_conv in_set_conv_nth)
  then have "filter P (take k xs @ drop k xs) = filter P (drop k xs)" by (simp only: filter_append append_Nil)
  then show ?thesis by simp
qed

lemma polled_one_partition:
  assumes "placed ft" "distinct (map fst order)" "(p, off) \<in> set order"
  shows "filter (\<lambda>r. Record_Partition r = p) (polled ft order) = fst (poll_partition (ft_partitions ft) (p, off))"
  using assms(2,3)
proof (induction order)
  case (Cons pc order)
  let ?own = "\<lambda>pc. fst (poll_partition (ft_partitions ft) pc)"
  have eq: "polled ft (pc # order) = ?own pc @ polled ft order" by (simp add: polled_def)
  show ?case
  proof (cases "pc = (p, off)")
    case True
    with Cons.prems have "p \<notin> fst ` set order" by auto
    with increasing_polled [OF assms(1), of order] Cons.prems have "filter (\<lambda>r. Record_Partition r = p) (polled ft order) = []"
      by (auto simp: filter_empty_conv)
    moreover have "filter (\<lambda>r. Record_Partition r = p) (?own pc) = ?own pc"
      using poll_partition_records(2) [OF assms(1), of _ pc] True by (auto simp: filter_id_conv)
    ultimately show ?thesis by (simp add: eq [unfolded True] True)
  next
    case False
    with Cons.prems have "fst pc \<noteq> p" by (cases pc) (auto simp: rev_image_eqI)
    then have "filter (\<lambda>r. Record_Partition r = p) (?own pc) = []"
      using poll_partition_records(2) [OF assms(1), of _ pc] by (auto simp: filter_empty_conv)
    with Cons False show ?thesis by (simp add: eq)
  qed
qed simp

lemma poll_partition_in_window:
  assumes "placed ft" "stored_window ft p win"
  shows "filter (\<lambda>r. PSpec_Start win \<le> Record_Offset r \<and> Record_Offset r < PSpec_End win)
      (fst (poll_partition (ft_partitions ft) (p, PSpec_Start win))) = window_records ft p win"
proof -
  let ?part = "ft_partitions ft ! nat p" and ?k = "nat (max 0 (PSpec_Start win - fp_beginOffset (ft_partitions ft ! nat p)))"
  from assms(2) have p: "0 \<le> p" "nat p < length (ft_partitions ft)" and i: "in_int64 (PSpec_Start win - fp_beginOffset ?part)"
    by (auto simp: stored_window_def Let_def nat_less_iff)
  have "fst (poll_partition (ft_partitions ft) (p, PSpec_Start win)) = drop ?k (fp_records ?part)"
    using p i by (auto simp: poll_partition_def Let_def nat_less_iff)
  moreover have "\<not> (PSpec_Start win \<le> Record_Offset (fp_records ?part ! i))"
    if "i < ?k" "i < length (fp_records ?part)" for i
    using placed_nth(2) [OF assms(1) p(2) that(2)] that(1) by simp
  ultimately show ?thesis
    unfolding window_records_def by (simp only:) (rule filter_drop_below, blast)
qed

lemma scanned_windows:
  assumes "placed ft" "stored_windows ft spec" "wf_map (Spec_Partitions spec)" "(p, win) \<in> set (Spec_Partitions spec)"
    and "mset order = mset (sc_cursor (scan_start spec))"
    and "filter (in_window spec (sc_cursor (scan_start spec))) (polled ft order) = ts @ rest"
  shows "filter (\<lambda>r. Record_Partition r = p) ts @ filter (\<lambda>r. Record_Partition r = p) rest = window_records ft p win"
proof -
  let ?c = "sc_cursor (scan_start spec)"
  have d: "distinct (map fst order)"
  proof -
    have "distinct (map fst ?c)" using assms(3) by (simp add: scan_start_def wf_map_def o_def case_prod_beta')
    then show ?thesis by (metis assms(5) mset_map mset_eq_imp_distinct_iff)
  qed
  have "(p, PSpec_Start win) \<in> set ?c" using assms(4) by (force simp: scan_start_def)
  then have m: "(p, PSpec_Start win) \<in> set order" using mset_eq_setD [OF assms(5)] by simp
  have w: "map_of (Spec_Partitions spec) p = Some win" "mget ?c 0 p = PSpec_Start win"
    using assms(3,4) by (simp_all add: wf_map_def scan_start_def mget_def map_of_map)
  have inw: "in_window spec ?c r \<longleftrightarrow> PSpec_Start win \<le> Record_Offset r \<and> Record_Offset r < PSpec_End win"
    if "Record_Partition r = p" for r
    using that w by (auto simp: in_window_def)
  have "filter (\<lambda>r. Record_Partition r = p) (ts @ rest)
      = filter (\<lambda>r. Record_Partition r = p \<and> in_window spec ?c r) (polled ft order)"
    by (simp add: assms(6) [symmetric] conj_commute)
  also have "\<dots> = filter (\<lambda>r. PSpec_Start win \<le> Record_Offset r \<and> Record_Offset r < PSpec_End win)
      (filter (\<lambda>r. Record_Partition r = p) (polled ft order))"
    unfolding filter_filter using inw by (intro filter_cong) auto
  also have "\<dots> = window_records ft p win"
    using polled_one_partition [OF assms(1) d m] poll_partition_in_window [OF assms(1)] assms(2,4)
    by (auto simp: stored_windows_def)
  finally show ?thesis by simp
qed


lemma of_partition_decoded:
  "of_partition p (map (\<lambda>r. Decode r fmt) (filter P ts))
     = map (\<lambda>r. Decode r fmt) (filter P (filter (\<lambda>r. Record_Partition r = p) ts))"
proof -
  have "SR_Partition (Decode r fmt) = Record_Partition r" for r by (simp add: Decode_def split_beta)
  then show ?thesis by (simp add: of_partition_def filter_map o_def conj_commute)
qed

text \<open>The continuation of a partition lies between its accepted records and the others of the window.\<close>

lemma continuation_splits:
  assumes "increasing (us @ vs)" "\<forall>r \<in> set (us @ vs). lo \<le> Record_Offset r \<and> Record_Partition r = p"
  shows "filter (\<lambda>r. fold max (map (\<lambda>r. Record_Offset r + 1) us) lo \<le> Record_Offset r) (us @ vs) = vs"
proof -
  have fm: "k \<le> x \<longleftrightarrow> lo \<le> x \<and> (\<forall>r \<in> set us. Record_Offset r + 1 \<le> x)"
    if "k = fold max (map (\<lambda>r. Record_Offset r + 1) us) lo" for k x :: int and us lo
    using that by (induction us arbitrary: lo) auto
  have "\<not> fold max (map (\<lambda>r. Record_Offset r + 1) us) lo \<le> Record_Offset r" if "r \<in> set us" for r
    using fm [OF refl, of us lo "Record_Offset r"] that by force
  moreover have "fold max (map (\<lambda>r. Record_Offset r + 1) us) lo \<le> Record_Offset r" if "r \<in> set vs" for r
    using fm [OF refl, of us lo "Record_Offset r"] that assms
    by (fastforce simp: increasing_def sorted_wrt_append)
  ultimately show ?thesis by (simp add: filter_empty_conv filter_id_conv)
qed


lemma windowed_increasing:
  assumes "increasing ts" "\<forall>r \<in> set ts. in_window spec c r" "int64_spec spec" "int64_cursor c"
  shows "windowed spec c ts"
  using assms
proof (induction ts arbitrary: c)
  case (Cons r ts)
  then have "\<forall>x \<in> set ts. in_window spec (advance r c) x"
    using in_window_advance [of spec c r] by (auto simp: increasing_Cons)
  with Cons show ?case by (auto simp: increasing_Cons int64_advance)
qed simp

lemma increasing_filter: "increasing rs \<Longrightarrow> increasing (filter P rs)"
  by (simp add: increasing_def sorted_wrt_filter)

lemma increasing_appendD: "increasing (us @ vs) \<Longrightarrow> increasing us"
  by (simp add: increasing_def sorted_wrt_append)

lemma increasing_log: "placed ft \<Longrightarrow> nat p < length (ft_partitions ft) \<Longrightarrow> increasing (window_records ft p win)"
  using increasing_drop [of ft "nat p" 0] by (simp add: window_records_def increasing_filter)

text \<open>What is left of a window behind the continuation, and that it is again a window over stored records.\<close>

lemma resumed_window:
  assumes "placed ft" "stored_windows ft spec" "wf_map (Spec_Partitions spec)" "int64_spec spec"
    and "(p, win) \<in> set (Spec_Partitions spec)" "0 \<le> fp_beginOffset (ft_partitions ft ! nat p)"
    and "mset order = mset (sc_cursor (scan_start spec))"
    and "filter (in_window spec (sc_cursor (scan_start spec))) (polled ft order) = ts @ rest"
    and "k = mget (fold advance ts (sc_cursor (scan_start spec))) 0 p"
  shows "window_records ft p (win\<lparr>PSpec_Start := k\<rparr>) = filter (\<lambda>r. Record_Partition r = p) rest"
    and "stored_window ft p (win\<lparr>PSpec_Start := k\<rparr>)" "in_int64 k"
proof -
  let ?c = "sc_cursor (scan_start spec)"
  let ?us = "filter (\<lambda>r. Record_Partition r = p) ts" and ?vs = "filter (\<lambda>r. Record_Partition r = p) rest"
  have c: "int64_cursor ?c" by (rule int64_cursor_start [OF assms(4)])
  note all = scanned_windows [OF assms(1-3,5,7,8)]
  have st: "stored_window ft p win" using assms(2,5) by (auto simp: stored_windows_def)
  then have p: "0 \<le> p" "nat p < length (ft_partitions ft)" by (auto simp: stored_window_def nat_less_iff)
  have "distinct (map fst ?c)" using assms(3) by (simp add: scan_start_def wf_map_def o_def case_prod_beta')
  then have "distinct (map fst order)" by (metis assms(7) mset_map mset_eq_imp_distinct_iff)
  then have "increasing (ts @ rest)"
    using increasing_polled [OF assms(1), of order] increasing_filter unfolding assms(8) [symmetric] by blast
  then have "windowed spec ?c ts"
    using assms(8) by (intro windowed_increasing [OF increasing_appendD _ assms(4) c])
      (auto dest!: arg_cong [of _ _ set])
  note w = fold_advance_max [OF this assms(4) c, of p]
  have start: "mget ?c 0 p = PSpec_Start win"
    using assms(3,5) by (simp add: wf_map_def scan_start_def mget_def map_of_map)
  have k: "k = fold max (map (\<lambda>r. Record_Offset r + 1) ?us) (PSpec_Start win)" using w by (simp add: assms(9) start)
  have own: "\<forall>r \<in> set (?us @ ?vs). PSpec_Start win \<le> Record_Offset r \<and> Record_Partition r = p"
    unfolding all using assms(1) p by (auto simp: window_records_def placed_def Let_def)
  have inc: "increasing (?us @ ?vs)" unfolding all by (rule increasing_log [OF assms(1) p(2)])
  have ge: "PSpec_Start win \<le> k" unfolding k
    by (rule fold_invariant [where P = "\<lambda>x. PSpec_Start win \<le> x" and Q = "\<lambda>_. True"]) auto
  have "window_records ft p (win\<lparr>PSpec_Start := k\<rparr>) = filter (\<lambda>r. k \<le> Record_Offset r) (window_records ft p win)"
    using ge by (auto simp: window_records_def intro!: filter_cong)
  also have "\<dots> = ?vs" using continuation_splits [OF inc own] by (simp only: all k)
  finally show "window_records ft p (win\<lparr>PSpec_Start := k\<rparr>) = ?vs" .
  have "in_int64 k" using int64_fold_advance [OF c, of ts] by (simp add: assms(9) int64_cursor_def)
  then show "in_int64 k" .
  with st ge assms(6) show "stored_window ft p (win\<lparr>PSpec_Start := k\<rparr>)"
    by (auto simp: stored_window_def Let_def in_int64_def)
qed


text \<open>
  C21. A scan resumed from its continuation leaves no gap and no overlap, over the in-memory cluster with stored
  records: the scan whose windows start at the continuation of a first one returns, and in every partition the
  items of the first scan followed by those of the second are a prefix of the decoded matching records of the
  original window, in the order of the log - all of them when no bound stopped the second scan.
\<close>

theorem scan_resumes_exactly:
  assumes "live w" "map_of (m_topics (model_of w)) (Spec_Topic spec) = Some ft" "placed ft"
    and "Spec_Partitions spec \<noteq> []" "wf_map (Spec_Partitions spec)" "int64_spec spec"
    and "stored_windows ft spec" "\<not> Spec_Latest spec" "\<forall>part \<in> set (ft_partitions ft). 0 \<le> fp_beginOffset part"
    and "Run (Suc (Suc n)) world_scan_env Background spec matcher w = Some (Ok (items, stats), w1)"
  shows "\<exists>items2 stats2 w2.
      Run (Suc (Suc n)) world_scan_env Background (resumed spec stats) matcher w1 = Some (Ok (items2, stats2), w2)
    \<and> (\<forall>(p, win) \<in> set (Spec_Partitions spec). \<exists>rest.
          of_partition p items @ of_partition p items2 @ rest
            = map (\<lambda>r. Decode r (Spec_Format spec)) (filter (matches spec matcher) (window_records ft p win))
        \<and> (Stats_StoppedBy stats2 = [] \<longrightarrow> rest = []))"
proof -
  let ?c = "sc_cursor (scan_start spec)" and ?spec = "resumed spec stats"
  let ?of = "\<lambda>p. filter (\<lambda>r. Record_Partition r = p)"
  let ?dec = "\<lambda>rs. map (\<lambda>r. Decode r (Spec_Format spec)) (filter (matches spec matcher) rs)"
  from Run_stored [OF assms(1-8), of n matcher] assms(10) obtain order ts rest
    where r: "reads_only w w1" and sc: "scanned ft spec matcher order ts rest items stats" by auto
  from sc have one: "mset order = mset ?c" "filter (in_window spec ?c) (polled ft order) = ts @ rest" "items = ?dec ts"
    by (auto simp: scanned_def Let_def)
  have cont: "mget (Stats_Continuation stats) 0 p = mget (fold advance ts ?c) 0 p" if "(p, win) \<in> set (Spec_Partitions spec)" for p win
    using sc that assms(5,8) map_of_map_key [of "mget (fold advance ts ?c) 0" "Spec_Partitions spec" p]
    by (auto simp: scanned_def Let_def finalStats_def mget_def [of "map _ _"] wf_map_def)
  have win: "window_records ft p (win\<lparr>PSpec_Start := mget (Stats_Continuation stats) 0 p\<rparr>) = ?of p rest"
    "stored_window ft p (win\<lparr>PSpec_Start := mget (Stats_Continuation stats) 0 p\<rparr>)"
    "in_int64 (mget (Stats_Continuation stats) 0 p)" if "(p, win) \<in> set (Spec_Partitions spec)" for p win
  proof -
    have "nat p < length (ft_partitions ft)"
      using assms(7) that by (auto simp: stored_windows_def stored_window_def nat_less_iff)
    then have "0 \<le> fp_beginOffset (ft_partitions ft ! nat p)" using assms(9) by simp
    note facts = resumed_window [OF assms(3,7,5,6) that this one(1,2) cont [OF that]]
    from facts show "window_records ft p (win\<lparr>PSpec_Start := mget (Stats_Continuation stats) 0 p\<rparr>) = ?of p rest"
      "stored_window ft p (win\<lparr>PSpec_Start := mget (Stats_Continuation stats) 0 p\<rparr>)"
      "in_int64 (mget (Stats_Continuation stats) 0 p)" by blast+
  qed
  have sp: "Spec_Partitions ?spec \<noteq> []" "wf_map (Spec_Partitions ?spec)" "int64_spec ?spec" "stored_windows ft ?spec"
    "\<not> Spec_Latest ?spec" "Spec_Topic ?spec = Spec_Topic spec" "Spec_Format ?spec = Spec_Format spec"
    using assms(4-6,8) win(2,3)
    by (auto simp: resumed_def wf_map_def o_def case_prod_beta' int64_spec_def stored_windows_def)
  have w1: "live w1" "map_of (m_topics (model_of w1)) (Spec_Topic ?spec) = Some ft"
    using r assms(1,2) by (simp_all add: reads_only_def sp(6))
  from Run_stored [OF w1 assms(3) sp(1-5), of n matcher] obtain items2 stats2 w2 order2 ts2 rest2 where
    run2: "Run (Suc (Suc n)) world_scan_env Background ?spec matcher w1 = Some (Ok (items2, stats2), w2)"
    and sc2: "scanned ft ?spec matcher order2 ts2 rest2 items2 stats2" by blast
  have m: "matches ?spec matcher = matches spec matcher" by (simp add: matches_def fun_eq_iff sp(7))
  note two = scanned_items [OF sc2 sp(5), unfolded m sp(7)]
  have "\<exists>rest. of_partition p items @ of_partition p items2 @ rest = ?dec (window_records ft p win)
      \<and> (Stats_StoppedBy stats2 = [] \<longrightarrow> rest = [])" if pw: "(p, win) \<in> set (Spec_Partitions spec)" for p win
  proof (intro exI conjI)
    have "(p, win\<lparr>PSpec_Start := mget (Stats_Continuation stats) 0 p\<rparr>) \<in> set (Spec_Partitions ?spec)"
      using pw by (force simp: resumed_def)
    from scanned_windows [OF assms(3) sp(4,2) this two [THEN conjunct1] two [THEN conjunct2, THEN conjunct1]]
    have "?of p ts2 @ ?of p rest2 = ?of p rest" using win(1) [OF pw] by simp
    then have "?of p ts @ ?of p ts2 @ ?of p rest2 = window_records ft p win"
      using scanned_windows [OF assms(3,7,5) pw one(1,2)] by simp
    then show "of_partition p items @ of_partition p items2 @ ?dec (?of p rest2) = ?dec (window_records ft p win)"
      using two by (simp only: one(3) of_partition_decoded flip: map_append filter_append)
    show "Stats_StoppedBy stats2 = [] \<longrightarrow> ?dec (?of p rest2) = []" using two by simp
  qed
  with run2 show ?thesis by blast
qed

theorem scan_resumes_exactly_witness:
  "\<exists>items stats w1 items2 stats2 w2.
      Run 2 world_scan_env Background (demo_scan 1 0) MatchAll demo_world = Some (Ok (items, stats), w1)
    \<and> Run 2 world_scan_env Background (resumed (demo_scan 1 0) stats) MatchAll w1 = Some (Ok (items2, stats2), w2)"
proof -
  obtain items stats w1 where run: "Run 2 world_scan_env Background (demo_scan 1 0) MatchAll demo_world = Some (Ok (items, stats), w1)"
    using demo_run by blast
  have "\<forall>part \<in> set (ft_partitions demo_orders). 0 \<le> fp_beginOffset part"
    by (simp add: demo_orders_def zero_partition_def)
  from scan_resumes_exactly [OF demo_live demo_scan_ok(7) demo_placed demo_scan_ok(1-3,6,5) this
      run [unfolded numeral_2_eq_2]] run
  show ?thesis unfolding numeral_2_eq_2 by blast
qed


section \<open>A scan over purged records\<close>

text \<open>
  C24. A window over records that the log no longer holds, as after a purge, is never exhausted: without
  a time bound such a scan polls for ever, whatever its other bounds. \<open>ApplyReplay\<close> runs its scan
  without a time bound.
\<close>

theorem scan_of_purged_records_never_returns:
  assumes "live w" "map_of (m_topics (model_of w)) (Spec_Topic spec) = Some ft"
    and "list_all (\<lambda>p. fp_records p = []) (ft_partitions ft)" "wf_map (Spec_Partitions spec)"
    and "(p, win) \<in> set (Spec_Partitions spec)" "PSpec_Start win < PSpec_End win" "Spec_MaxTime spec \<le> 0"
  shows "Run n world_scan_env Background spec matcher w = None"
proof -
  let ?c = "sc_cursor (scan_start spec)"
  have ne: "Spec_Partitions spec \<noteq> []" using assms(5) by auto
  have empty: "poll_partition (ft_partitions ft) pc = ([], pc)" for pc
    using assms(3) by (cases pc) (auto simp: poll_partition_def Let_def list_all_length nat_less_iff)
  then have polled: "polled ft c = []" for c by (simp add: polled_def)
  have "mget ?c 0 p = PSpec_Start win"
    using assms(4,5) by (simp add: scan_start_def mget_def map_of_map wf_map_def)
  then have busy: "\<not> windowsExhausted spec ?c"
    using assms(5,6) by (force simp: windowsExhausted_def list_all_iff)
  let ?I = "\<lambda>w1. live w1 \<and> model_of w1 = model_of w
    \<and> (\<exists>c. session w1 = Some \<lparr>cs_topic = Spec_Topic spec, cs_cursor = c\<rparr>)"
  have bg: "poll_ctx world_scan_env Background spec w1 = Background" for w1
    using assms(7) by (simp add: poll_ctx_def)
  have step: "\<exists>s'. on_fake (fake_Poll Background) s = (Ok [], s') \<and> ?I s' \<and> \<not> False" if "?I s" for s
    using live_Poll [of s Background "Spec_Topic spec" _ ft] that assms(2) by (auto simp: polled)
  obtain w1 where "?I w1" "Run n world_scan_env Background spec matcher w =
      (case pollLoop n (on_fake (fake_Poll Background)) (\<lambda>_. False) spec matcher (scan_start spec) w1 of
         None \<Rightarrow> None
       | Some (Panic, acc, s3) \<Rightarrow> Some (Panic, snd (on_fake fake_Close s3))
       | Some (Err err, acc, s3) \<Rightarrow> Some (Err err, snd (on_fake fake_Close s3))
       | Some (Ok (reachedEnd, stoppedBy), acc, s3) \<Rightarrow>
           Some (Ok (sc_collected (drain spec acc), finalStats spec (sc_cursor acc) reachedEnd stoppedBy
              (Milliseconds (time_Sub (wall s3) (wall w))) (drain spec acc)), snd (on_fake fake_Close s3)))"
    using Run_world [OF assms(1) ne assms(4), of n matcher] assms(1) by (auto simp: bg reads_only_def)
  with pollLoop_stuck [where I = ?I and ended = "\<lambda>_. False", OF step busy] show ?thesis by simp
qed

definition purged_orders :: fakeTopic where
  "purged_orders = demo_orders\<lparr>ft_partitions := [zero_partition\<lparr>fp_beginOffset := 2\<rparr>,
     zero_partition\<lparr>fp_beginOffset := 1\<rparr>]\<rparr>"

definition purged_world :: world where
  "purged_world = set_model ((model_of demo_world)\<lparr>m_topics := [(''orders'', purged_orders)]\<rparr>) demo_world"

theorem scan_of_purged_records_never_returns_witness:
  "\<forall>n. Run n world_scan_env Background (demo_scan 2 0) MatchAll purged_world = None"
proof
  fix n
  have w: "live purged_world" "map_of (m_topics (model_of purged_world)) (Spec_Topic (demo_scan 2 0)) = Some purged_orders"
    by (simp_all add: purged_world_def demo_scan_def)
  have e: "list_all (\<lambda>p. fp_records p = []) (ft_partitions purged_orders)"
    by (simp add: purged_orders_def zero_partition_def)
  show "Run n world_scan_env Background (demo_scan 2 0) MatchAll purged_world = None"
    by (rule scan_of_purged_records_never_returns [OF w e demo_scan_ok(2), of 0 "\<lparr>PSpec_Start = 0, PSpec_End = 2\<rparr>"])
      (simp_all add: demo_scan_def)
qed

end
