(* ===== verification/MessageProps.thy ===== *)
theory MessageProps
  imports MessageWrites ScanProps
begin

text \<open>
  What the message commands promise: reads return the stored records of their windows, and audit a
  break-glass caller. \<open>ProduceProps\<close> and \<open>ReplayProps\<close> hold what the writing commands promise.
\<close>

section \<open>The message service over the in-memory cluster\<close>

definition world_message :: "Policy \<Rightarrow> Bounds \<Rightarrow> (world, Ctx) MessageService" where
  "world_message pol b = \<lparr>ms_svc = (world_service Background pol)\<lparr>svc_now := world_timeNow\<rparr>,
     ms_producer = world_producer Background, ms_newConsumer = ret (), ms_scan = world_scan_env,
     ms_ctx = Background, ms_bounds = b\<rparr>"

lemma world_message_simps [simp]:
  "ms_svc (world_message pol b) = (world_service Background pol)\<lparr>svc_now := world_timeNow\<rparr>"
  "ms_producer (world_message pol b) = world_producer Background"
  "ms_newConsumer (world_message pol b) = ret ()" "ms_scan (world_message pol b) = world_scan_env"
  "ms_ctx (world_message pol b) = Background" "ms_bounds (world_message pol b) = b"
  "world_scan_env\<lparr>env_now := world_timeNow\<rparr> = world_scan_env"
  by (simp_all add: world_message_def world_scan_env_def)

definition message_event :: "Caller \<Rightarrow> string \<Rightarrow> string \<Rightarrow> world \<Rightarrow> Event" where
  "message_event caller c topic w = event_at ''topic'' (desc_of c) caller topic
     (hex_encode (map (w_entropy w) [w_drawn w..<w_drawn w + 16])) (wall w)"

lemma wall_world_steps [simp]:
  "wall (draw_id w) = wall w" "wall (add_event ev w) = wall w" "wall (set_model m w) = wall w"
  by (simp_all add: wall_def draw_id_def add_event_def set_model_def)

lemma reads_only_draw [simp]: "reads_only w (draw_id w') = reads_only w w'"
  by (simp add: reads_only_def)

lemma message_newEvent_world:
  "message_newEvent ((world_service Background pol)\<lparr>svc_now := world_timeNow\<rparr>) caller c topic w
    = (Ok (message_event caller c topic w), draw_id w)"
  by (simp add: message_newEvent_def new_event_run NewEventID_def world_timeNow_def draw_id_def message_event_def wall_def)

lemma message_gate_passes:
  "Check caller (desc_of c) pol = None \<Longrightarrow>
    message_checkGate ((world_service Background pol)\<lparr>svc_now := world_timeNow\<rparr>) caller c topic w = (Ok (), draw_id w)"
  by (simp add: message_checkGate_def onOk_def message_newEvent_world CheckAudited_pass ret_run)

text \<open>The audit record of a successful read: none, or one \<open>HIGH\<close> result under a break-glass reason.\<close>

definition read_audit :: "Caller \<Rightarrow> string \<Rightarrow> string \<Rightarrow> world \<Rightarrow> Event list" where
  "read_audit caller c topic w =
    (if Caller_BreakGlassReason caller = [] then []
     else [(message_event caller c topic w)\<lparr>Event_Phase := PhaseResult, Event_Outcome := OutcomeSucceeded,
       Event_Severity := SeverityHigh, Event_DurationMs := Some 0\<rparr>])"

lemma auditBreakGlassRead_world:
  assumes "live w"
  shows "\<exists>w'. auditBreakGlassRead ((world_service Background pol)\<lparr>svc_now := world_timeNow\<rparr>) caller c topic w = (Ok (), w')
    \<and> live w' \<and> model_of w' = model_of w \<and> wall w' = wall w
    \<and> audit_trail w' = audit_trail w @ read_audit caller c topic w"
proof (cases "Caller_BreakGlassReason caller = []")
  case True
  then show ?thesis using assms by (simp add: auditBreakGlassRead_def ret_run read_audit_def)
next
  case False
  let ?att = "message_event caller c topic w"
  let ?ev = "(resultEventAt (wall w) ?att OutcomeSucceeded [])\<lparr>Event_Phase := PhaseResult\<rparr>"
  have t: "fk_wall (w_fake (draw_id w)) = wall w" by (simp add: draw_id_def wall_def)
  have "auditBreakGlassRead ((world_service Background pol)\<lparr>svc_now := world_timeNow\<rparr>) caller c topic w
      = (Ok (), add_event ?ev (draw_id w))"
    using False assms
    by (simp add: auditBreakGlassRead_def message_resultEventOutcome_def onOk_def message_newEvent_world act_run
        ret_run world_timeNow_def live_Result t)
  moreover have "read_audit caller c topic w = [?ev]"
    using False by (simp add: read_audit_def resultEventAt_def message_event_def event_at_def time_Sub_def
        Milliseconds_def go_div_def)
  ultimately show ?thesis using assms by simp
qed

section \<open>Windows over a whole log\<close>

definition log_windows :: "fakeTopic \<Rightarrow> (int32 \<times> PartitionSpec) list" where
  "log_windows ft = map (\<lambda>i. (int i, \<lparr>PSpec_Start = fp_beginOffset (ft_partitions ft ! i),
     PSpec_End = fp_end (ft_partitions ft ! i)\<rparr>)) [0..<length (ft_partitions ft)]"

text \<open>The records of a topic, its partitions in the order given.\<close>

definition log_in :: "nat list \<Rightarrow> fakeTopic \<Rightarrow> Record list" where
  "log_in ord ft = concat (map (\<lambda>i. fp_records (ft_partitions ft ! i)) ord)"

lemma per_partition_eq:
  "length (ft_partitions t) < 2147483648 \<Longrightarrow>
    per_partition g t = map (\<lambda>i. (int i, g (ft_partitions t ! i))) [0..<length (ft_partitions t)]"
  by (intro nth_equalityI) (auto simp: per_partition_def indexed_def in_int32_def)

lemma wf_log_windows [simp]: "wf_map (log_windows ft)"
  by (simp add: log_windows_def wf_map_def o_def distinct_map inj_on_def)

lemma mkeys_log_windows: "mkeys (log_windows ft) = map int [0..<length (ft_partitions ft)]"
  by (simp add: mkeys_def log_windows_def)

definition whole_log :: "string \<Rightarrow> windowParams" where
  "whole_log topic = \<lparr>wp_Topic = topic, wp_Partitions = [],
     wp_From = \<lparr>From_Kind = FromBeginning, From_Offset = 0, From_TimeMilli = 0\<rparr>, wp_To = None\<rparr>"

lemma resolveWindows_whole:
  assumes "live w" "map_of (m_topics (model_of w)) topic = Some ft" "length (ft_partitions ft) < 2147483648"
    and "From_Kind frm = FromBeginning"
  shows "\<exists>w'. resolveWindows ((world_service Background pol)\<lparr>svc_now := world_timeNow\<rparr>)
      \<lparr>wp_Topic = topic, wp_Partitions = [], wp_From = frm, wp_To = None\<rparr> limit w = (Ok (log_windows ft), w')
    \<and> reads_only w w' \<and> wall w' = wall w"
proof -
  let ?n = "length (ft_partitions ft)"
  let ?wp = "\<lparr>wp_Topic = topic, wp_Partitions = [], wp_From = frm, wp_To = None\<rparr>"
  let ?f = "partition_window ?wp (per_partition fp_end ft) (per_partition fp_beginOffset ft) [] [] limit"
  have keys: "mkeys (per_partition fp_end ft) = map int [0..<?n]"
    using assms(3) by (simp add: per_partition_eq mkeys_def)
  have "fold (\<lambda>part. mput part (?f part)) (map int [0..<?n]) [] = map (\<lambda>p. (p, ?f p)) (map int [0..<?n])"
    by (subst fold_mput_distinct [where f = "\<lambda>p. p"]) (simp_all add: distinct_map inj_on_def)
  also have "\<dots> = log_windows ft"
    using assms(3,4)
    by (auto simp: log_windows_def partition_window_def resolveFromOffset_def mget_per_partition Let_def)
  finally have eq: "fold (\<lambda>part. mput part (?f part)) (map int [0..<?n]) [] = log_windows ft" .
  let ?w1 = "log_call ''ListEndOffsets'' False None w"
  have "resolveWindows ((world_service Background pol)\<lparr>svc_now := world_timeNow\<rparr>) ?wp limit w
      = (Ok (log_windows ft), log_call ''ListStartOffsets'' False None ?w1)"
    using assms(1,2,4) keys eq
    by (simp add: resolveWindows_def onOk_def maybeListStart_def maybeListAfterMilli_def live_topic_reads ret_run Let_def)
  then show ?thesis by simp
qed

lemma log_windows_spec:
  assumes "placed ft" "Spec_Partitions spec = log_windows ft"
  shows "int64_spec spec" "stored_windows ft spec"
proof -
  have e: "fp_end p = fp_beginOffset p + int (length (fp_records p))" "in_int64 (fp_beginOffset p)"
    "in_int64 (fp_end p)" if "p \<in> set (ft_partitions ft)" for p
    using assms(1) that by (auto simp: placed_def Let_def in_set_conv_nth fp_end_def)
  then show "int64_spec spec" by (auto simp: int64_spec_def assms(2) log_windows_def)
  show "stored_windows ft spec"
    using e by (auto simp: stored_windows_def stored_window_def assms(2) log_windows_def Let_def in_int64_def)
qed

text \<open>
  A scan of the whole log polls every stored record once, partition by partition, in whichever order the
  consumer's map of assigned partitions is visited.
\<close>

lemma polled_whole:
  assumes "placed ft" "Spec_Partitions spec = log_windows ft"
    and "mset order = mset (sc_cursor (scan_start spec))"
  shows "\<exists>ord. mset ord = mset [0..<length (ft_partitions ft)]
    \<and> filter (in_window spec (sc_cursor (scan_start spec))) (polled ft order) = log_in ord ft"
proof -
  let ?c = "sc_cursor (scan_start spec)" and ?ps = "ft_partitions ft"
  let ?f = "\<lambda>i. (int i, fp_beginOffset (?ps ! i))" and ?ord = "map (\<lambda>(p, off). nat p) order"
  have c: "?c = map ?f [0..<length ?ps]" by (simp add: scan_start_def assms(2) log_windows_def)
  have mem: "set order = set ?c" using assms(3) by (metis set_mset_mset)
  have "mset ?ord = image_mset (\<lambda>(p, off). nat p) (mset order)" by simp
  also have "\<dots> = mset (map (\<lambda>(p, off). nat p) ?c)" by (simp only: assms(3) mset_map)
  also have "map (\<lambda>(p, off). nat p) ?c = [0..<length ?ps]" by (simp add: c o_def)
  finally have ms: "mset ?ord = mset [0..<length ?ps]" .
  then have bound: "\<And>i. i \<in> set ?ord \<Longrightarrow> i < length ?ps"
    by (metis atLeastLessThan_iff set_mset_mset set_upt)
  have "map ?f ?ord = order" using mem by (auto simp: c intro!: map_idI)
  have "polled ft (map ?f is) = log_in is ft" if "\<And>i. i \<in> set is \<Longrightarrow> i < length ?ps" for "is"
    unfolding polled_def log_in_def map_map
    by (intro arg_cong [where f = concat] map_cong [OF refl], drule that)
      (simp add: poll_partition_def Let_def wrap64_def)
  from this [of ?ord] bound have "polled ft (map ?f ?ord) = log_in ?ord ft" by blast
  then have pol: "polled ft order = log_in ?ord ft" by (simp only: \<open>map ?f ?ord = order\<close>)
  have "in_window spec ?c r" if "r \<in> set (log_in ?ord ft)" for r
  proof -
    from that obtain i where "i \<in> set ?ord" and rec: "r \<in> set (fp_records (?ps ! i))" by (auto simp: log_in_def)
    then have i: "i < length ?ps" using bound by blast
    from rec obtain k where k: "k < length (fp_records (?ps ! i))" "r = fp_records (?ps ! i) ! k"
      by (auto simp: in_set_conv_nth)
    note r = placed_nth [OF assms(1) i k(1)]
    have m: "map_of (map (\<lambda>j. (int j, g j)) [0..<n]) (int i) = (if i < n then Some (g i) else None)"
      for g :: "nat \<Rightarrow> 'b" and n
      by (induction n) (auto simp: map_add_def dest: less_antisym)
    have "fp_end (?ps ! i) = fp_beginOffset (?ps ! i) + int (length (fp_records (?ps ! i)))"
      using assms(1) i by (auto simp: placed_def Let_def fp_end_def)
    with r k i show ?thesis
      by (simp add: in_window_def assms(2) log_windows_def m c mget_def)
  qed
  then show ?thesis using ms by (intro exI [of _ ?ord]) (simp add: pol filter_id_conv)
qed

section \<open>M1: reading\<close>

text \<open>A scan of the whole log without a filter: what it counts, as the service runs it.\<close>

lemma matches_MatchAll [simp]: "matches spec MatchAll r"
  by (simp add: matches_def MatchAll_def)

lemma runScan_whole:
  assumes "live w" "map_of (m_topics (model_of w)) (Spec_Topic spec) = Some ft" "placed ft" "ft_partitions ft \<noteq> []"
    and "Spec_Partitions spec = log_windows ft" "\<not> Spec_Latest spec"
  shows "\<exists>items stats w' ord ts rest.
      Run (Suc (Suc n)) world_scan_env Background spec MatchAll w = Some (Ok (items, stats), w')
    \<and> reads_only w w' \<and> wall w' = wall w
    \<and> mset ord = mset [0..<length (ft_partitions ft)] \<and> log_in ord ft = ts @ rest
    \<and> items = map (\<lambda>r. Decode r (Spec_Format spec)) ts
    \<and> (Stats_StoppedBy stats = [] \<longrightarrow> rest = [] \<and> Stats_ReachedEnd stats)
    \<and> (0 < Spec_MaxMessages spec \<and> in_int64 (Spec_MaxMessages spec) \<longrightarrow> int (length ts) \<le> Spec_MaxMessages spec)
    \<and> (rest \<noteq> [] \<longrightarrow> hitBound (count_all ts spec MatchAll (scan_start spec)) spec \<noteq> [])"
proof -
  have ne: "Spec_Partitions spec \<noteq> []" using assms(4,5) by (simp add: log_windows_def)
  have wf: "wf_map (Spec_Partitions spec)" using assms(5) by simp
  from Run_stored [OF assms(1-3) ne wf log_windows_spec [OF assms(3,5)] assms(6), of n MatchAll]
  obtain items stats w' order ts rest where
    run: "Run (Suc (Suc n)) world_scan_env Background spec MatchAll w = Some (Ok (items, stats), w')"
      "reads_only w w'" "wall w' = wall w" "scanned ft spec MatchAll order ts rest items stats" by blast
  note it = scanned_items [OF run(4) assms(6)]
  from polled_whole [OF assms(3,5) it [THEN conjunct1]] obtain ord where
    ord: "mset ord = mset [0..<length (ft_partitions ft)]" "log_in ord ft = ts @ rest" using it by auto
  have "int (length ts) \<le> Spec_MaxMessages spec" if "0 < Spec_MaxMessages spec" "in_int64 (Spec_MaxMessages spec)"
  proof -
    from Run_Ok [OF run(1) ne] obtain us acc where "counts spec MatchAll (scan_start spec) us acc"
      "items = sc_collected (drain spec acc)" by blast
    with scan_counts_bounds(1) [of spec MatchAll us acc] that assms(6) it show ?thesis
      by (auto simp: drain_def)
  qed
  moreover have "rest \<noteq> [] \<longrightarrow> hitBound (count_all ts spec MatchAll (scan_start spec)) spec \<noteq> []"
    using run(4) by (auto simp: scanned_def Let_def)
  ultimately show ?thesis using run(1-3) it ord by (auto simp: filter_id_conv)
qed

definition within :: "int64 \<Rightarrow> Range \<Rightarrow> bool" where
  "within v r \<longleftrightarrow> v = 0 \<or> v \<le> Range_Ceiling r"

definition resolved :: "int64 \<Rightarrow> Range \<Rightarrow> int64" where
  "resolved v r = (if v = 0 then Range_Default r else v)"

lemma resolve_within:
  "within v r \<Longrightarrow> resolveIntBound name v r = ret (resolved v r)"
  "within v r \<Longrightarrow> resolveBytesBound name v r = ret (resolved v r)"
  by (auto simp: within_def resolved_def resolveIntBound_def resolveBytesBound_def)

definition time_bound :: "int64 \<Rightarrow> RangeDuration \<Rightarrow> int64 option" where
  "time_bound ms r = (if ms = 0 then Some (Range_Default r)
     else if wrap64 (ms * 1000000) > Range_Ceiling r then None else Some (wrap64 (ms * 1000000)))"

lemma resolve_time: "time_bound ms r = Some d \<Longrightarrow> resolveMaxTime ms r = ret d"
  by (auto simp: time_bound_def resolveMaxTime_def Let_def split: if_splits)

lemma before_run_ret [simp]: "before_run (ret a) k = k a"
  by (simp add: before_run_def ret_def fun_eq_iff)

lemma before_run_Ok: "m s = (Ok a, s') \<Longrightarrow> before_run m k s = k a s'"
  by (simp add: before_run_def)

lemma after_run_Ok: "m s = Some (Ok a, s') \<Longrightarrow> after_run m k s = Some (k a s')"
  by (simp add: after_run_def onOk_def)

text \<open>
  C26. M1 from the beginning, over a live cluster and within the configured ceilings: the read returns
  the stored records of the topic in offset order, partition by partition in the order in which the runtime
  visits the consumer's map of partitions, up to a bound that it names: no more than the limit, and every record
  when no bound stopped it; nothing in the cluster changes, and the audit trail grows by one \<open>HIGH\<close> result
  exactly when the caller gave a break-glass reason.
\<close>

theorem read_returns_stored_records:
  assumes "live w" "Check caller (desc_of ''M1'') pol = None"
    and "map_of (m_topics (model_of w)) (RP_Topic p) = Some ft" "placed ft" "ft_partitions ft \<noteq> []"
    and "length (ft_partitions ft) < 2147483648"
    and "RP_Partitions p = []" "From_Kind (RP_From p) = FromBeginning" "RP_To p = None"
    and "within (RP_Limit p) (Bounds_Limit b)" "within (RP_MaxBytes p) (Bounds_MaxBytes b)"
    and "time_bound (RP_MaxTimeMs p) (Bounds_MaxTime b) = Some d"
    and "0 < resolved (RP_Limit p) (Bounds_Limit b)" "in_int64 (resolved (RP_Limit p) (Bounds_Limit b))"
  shows "\<exists>res w' ord ts rest. message_Read (Suc (Suc n)) (world_message pol b) caller p w = Some (Ok res, w')
    \<and> mset ord = mset [0..<length (ft_partitions ft)] \<and> log_in ord ft = ts @ rest
    \<and> ReadResult_Items res = map (\<lambda>r. Decode r (RP_Format p)) ts
    \<and> int (length ts) \<le> resolved (RP_Limit p) (Bounds_Limit b)
    \<and> (Stats_StoppedBy (ReadResult_Stats res) = [] \<longrightarrow> rest = [] \<and> Stats_ReachedEnd (ReadResult_Stats res))
    \<and> live w' \<and> model_of w' = model_of w
    \<and> (\<exists>w1. audit_trail w' = audit_trail w @ read_audit caller ''M1'' (RP_Topic p) w1)"
proof -
  let ?svc = "(world_service Background pol)\<lparr>svc_now := world_timeNow\<rparr>"
  let ?limit = "resolved (RP_Limit p) (Bounds_Limit b)"
  have w0: "live (draw_id w)" "map_of (m_topics (model_of (draw_id w))) (RP_Topic p) = Some ft"
    using assms(1,3) by simp_all
  from resolveWindows_whole [OF w0 assms(6,8), of pol ?limit] obtain w1 where
    win: "resolveWindows ?svc \<lparr>wp_Topic = RP_Topic p, wp_Partitions = [], wp_From = RP_From p, wp_To = None\<rparr>
        ?limit (draw_id w) = (Ok (log_windows ft), w1)" "reads_only (draw_id w) w1" "wall w1 = wall (draw_id w)"
    by blast
  let ?spec = "\<lparr>Spec_Topic = RP_Topic p, Spec_Partitions = log_windows ft,
      Spec_Latest = (From_Kind (RP_From p) = FromLatest), Spec_MaxMessages = ?limit, Spec_MaxScanned = 0,
      Spec_MaxBytes = resolved (RP_MaxBytes p) (Bounds_MaxBytes b), Spec_MaxTime = d, Spec_Format = RP_Format p\<rparr>"
  have w1: "live w1" "map_of (m_topics (model_of w1)) (Spec_Topic ?spec) = Some ft"
    using win(2) w0 by (simp_all add: reads_only_def)
  have sp: "Spec_Partitions ?spec = log_windows ft" "\<not> Spec_Latest ?spec" using assms(8) by simp_all
  from runScan_whole [OF w1 assms(4,5) sp, of n] obtain items stats w2 ord ts rest where
    run: "Run (Suc (Suc n)) world_scan_env Background ?spec MatchAll w1 = Some (Ok (items, stats), w2)"
      "reads_only w1 w2" "mset ord = mset [0..<length (ft_partitions ft)] \<and> log_in ord ft = ts @ rest" "items = map (\<lambda>r. Decode r (Spec_Format ?spec)) ts"
      "Stats_StoppedBy stats = [] \<longrightarrow> rest = [] \<and> Stats_ReachedEnd stats"
      "0 < Spec_MaxMessages ?spec \<and> in_int64 (Spec_MaxMessages ?spec) \<longrightarrow> int (length ts) \<le> Spec_MaxMessages ?spec"
    by blast
  have "live w2" using w1(1) run(2) by (simp add: reads_only_def)
  from auditBreakGlassRead_world [OF this, of pol caller "''M1''" "RP_Topic p"] obtain w3 where
    aud: "auditBreakGlassRead ?svc caller ''M1'' (RP_Topic p) w2 = (Ok (), w3)" "live w3" "model_of w3 = model_of w2"
      "audit_trail w3 = audit_trail w2 @ read_audit caller ''M1'' (RP_Topic p) w2" by blast
  have scan: "runScan (Suc (Suc n)) (world_message pol b) ?spec MatchAll w1
      = Some (Ok \<lparr>ReadResult_Items = items, ReadResult_Stats = stats\<rparr>, w2)"
    by (simp add: runScan_def after_run_def run(1) onOk_def ret_run)
  have "message_Read (Suc (Suc n)) (world_message pol b) caller p w
      = Some (Ok \<lparr>ReadResult_Items = items, ReadResult_Stats = stats\<rparr>, w3)"
    using scan win(1) aud(1)
    by (simp add: message_Read_def Let_def before_run_def after_run_def onOk_def ret_run
        message_gate_passes [OF assms(2)] assms(7,9) resolve_within [OF assms(10)] resolve_within [OF assms(11)]
        resolve_time [OF assms(12)])
  moreover have "model_of w3 = model_of w" "audit_trail w2 = audit_trail w"
    using aud(3) run(2) win(2) by (simp_all add: reads_only_def)
  ultimately show ?thesis using run(3-6) aud(2,4) assms(13,14) by (intro exI conjI) auto
qed


definition demo_range :: Range where
  "demo_range = \<lparr>Range_Default = 10, Range_Ceiling = 100\<rparr>"

definition demo_bounds :: Bounds where
  "demo_bounds = \<lparr>Bounds_Limit = demo_range, Bounds_MaxScan = demo_range, Bounds_MaxMatches = demo_range,
     Bounds_MaxBytes = demo_range, Bounds_MaxTime = demo_range, Bounds_RegexTimeout = 0,
     Bounds_MaxBulkBodyBytes = 3, Bounds_Replay = demo_range\<rparr>"

definition demo_from :: From where
  "demo_from = \<lparr>From_Kind = FromBeginning, From_Offset = 0, From_TimeMilli = 0\<rparr>"

definition demo_read :: ReadParams where
  "demo_read = \<lparr>RP_Topic = ''orders'', RP_Partitions = [], RP_From = demo_from, RP_To = None, RP_Limit = 2,
     RP_MaxBytes = 0, RP_MaxTimeMs = 0, RP_Format = []\<rparr>"

lemma demo_message_passes [simp]:
  "Check demo_op (desc_of ''M1'') demo_policy = None" "Check demo_op (desc_of ''M2'') demo_policy = None"
  "Check demo_op (desc_of ''M5'') demo_policy = None" "Check demo_op (desc_of ''M6'') demo_policy = None"
  "Check demo_op (desc_of ''M8'') demo_policy = None"
  by (simp_all add: Check_pass_iff demo_policy_def mget_def)

lemma demo_orders_partitions: "ft_partitions demo_orders \<noteq> []" "length (ft_partitions demo_orders) = 2"
  by (simp_all add: demo_orders_def)

theorem read_returns_stored_records_witness:
  "\<exists>res w' ord ts rest. message_Read 2 (world_message demo_policy demo_bounds) demo_op demo_read demo_world = Some (Ok res, w')
     \<and> mset ord = mset [0..<2] \<and> log_in ord demo_orders = ts @ rest \<and> ReadResult_Items res = map (\<lambda>r. Decode r []) ts \<and> int (length ts) \<le> 2"
proof -
  have p: "RP_Topic demo_read = ''orders''" "RP_Partitions demo_read = []" "From_Kind (RP_From demo_read) = FromBeginning"
    "RP_To demo_read = None" "RP_Format demo_read = []" "within (RP_Limit demo_read) (Bounds_Limit demo_bounds)"
    "within (RP_MaxBytes demo_read) (Bounds_MaxBytes demo_bounds)"
    "time_bound (RP_MaxTimeMs demo_read) (Bounds_MaxTime demo_bounds) = Some 10"
    "resolved (RP_Limit demo_read) (Bounds_Limit demo_bounds) = 2" "in_int64 (2::int)"
    by (simp_all add: demo_read_def demo_from_def demo_bounds_def demo_range_def within_def resolved_def time_bound_def
        in_int64_def)
  have two: "Suc (Suc 0) = 2" by simp
  show ?thesis
    using read_returns_stored_records [of demo_world demo_op demo_policy demo_read demo_orders demo_bounds 10 0]
      demo_orders_partitions demo_placed p(6,7,10)
    unfolding p(1-5,8,9) two by auto
qed

section \<open>M2: one message\<close>

text \<open>The record a topic holds at an offset of a partition.\<close>

definition record_at :: "fakeTopic \<Rightarrow> int32 \<Rightarrow> int64 \<Rightarrow> Record option" where
  "record_at ft part offset =
    (if 0 \<le> part \<and> part < int (length (ft_partitions ft)) then
       (let p = ft_partitions ft ! nat part in
        if fp_beginOffset p \<le> offset \<and> offset < fp_beginOffset p + int (length (fp_records p))
        then Some (fp_records p ! nat (offset - fp_beginOffset p)) else None)
     else None)"

lemma polled_at:
  assumes "placed ft"
    and "0 \<le> part \<Longrightarrow> part < int (length (ft_partitions ft)) \<Longrightarrow> in_int64 (offset - fp_beginOffset (ft_partitions ft ! nat part))"
  shows "record_at ft part offset = Some r \<Longrightarrow> \<exists>rs. polled ft [(part, offset)] = r # rs \<and> Record_Offset r = offset"
    and "record_at ft part offset = None \<Longrightarrow>
      polled ft [(part, offset)] = [] \<or> offset < Record_Offset (hd (polled ft [(part, offset)]))"
proof -
  let ?p = "ft_partitions ft ! nat part"
  let ?k = "nat (offset - fp_beginOffset ?p)"
  {
    assume at: "record_at ft part offset = Some r"
    then have part: "0 \<le> part" "nat part < length (ft_partitions ft)"
      and k: "fp_beginOffset ?p \<le> offset" "?k < length (fp_records ?p)" "r = fp_records ?p ! ?k"
      by (auto simp: record_at_def Let_def split: if_splits)
    have "part < int (length (ft_partitions ft))" "\<not> int (length (fp_records ?p)) \<le> offset - fp_beginOffset ?p"
      using part k by linarith+
    then have "polled ft [(part, offset)] = drop ?k (fp_records ?p)"
      using part k assms(2) by (simp add: polled_def poll_partition_def Let_def)
    moreover have "Record_Offset r = offset" using placed_nth(2) [OF assms(1) part(2) k(2)] k(1,3) by simp
    ultimately show "\<exists>rs. polled ft [(part, offset)] = r # rs \<and> Record_Offset r = offset"
      using k(2,3) by (simp add: Cons_nth_drop_Suc [symmetric])
  next
    assume at: "record_at ft part offset = None"
    show "polled ft [(part, offset)] = [] \<or> offset < Record_Offset (hd (polled ft [(part, offset)]))"
    proof (cases "0 \<le> part \<and> part < int (length (ft_partitions ft)) \<and> offset < fp_beginOffset ?p \<and> fp_records ?p \<noteq> []")
      case True
      then have "polled ft [(part, offset)] = fp_records ?p"
        using assms(2) by (simp add: polled_def poll_partition_def Let_def)
      moreover have "Record_Offset (fp_records ?p ! 0) = fp_beginOffset ?p"
        using placed_nth(2) [OF assms(1), of "nat part" 0] True by (simp add: nat_less_iff)
      ultimately show ?thesis using True by (simp add: hd_conv_nth)
    next
      case False
      then have "polled ft [(part, offset)] = []"
        using at assms(2) by (auto simp: record_at_def polled_def poll_partition_def Let_def split: if_splits)
      then show ?thesis by simp
    qed
  }
qed

text \<open>
  C27. M2 returns the stored record with exactly the offset asked for, decoded; an offset outside the
  log, before its begin or from its end on, and a partition that does not exist answer \<open>not_found\<close>. The
  cluster is left as it was; only a successful read of a break-glass caller is audited.
\<close>

theorem get_returns_the_record:
  assumes "live w" "Check caller (desc_of ''M2'') pol = None"
    and "map_of (m_topics (model_of w)) topic = Some ft" "placed ft"
    and "0 \<le> part \<Longrightarrow> part < int (length (ft_partitions ft)) \<Longrightarrow> in_int64 (offset - fp_beginOffset (ft_partitions ft ! nat part))"
  shows "\<exists>w' w1. message_Get (world_message pol b) caller topic part offset w
      = (case record_at ft part offset of Some r \<Rightarrow> Ok (Decode r [])
           | None \<Rightarrow> Err (kafkaErr KindNotFound ''message''), w')
    \<and> live w' \<and> model_of w' = model_of w
    \<and> audit_trail w' = audit_trail w @ (if record_at ft part offset = None then [] else read_audit caller ''M2'' topic w1)"
proof -
  let ?svc = "(world_service Background pol)\<lparr>svc_now := world_timeNow\<rparr>"
  let ?c = "[(part, offset)]"
  let ?w1 = "log_call ''Assign'' False None (with_session topic ?c (draw_id w))"
  let ?w2 = "log_call ''Poll'' False None (next_range (with_session topic (polled_cursor ft ?c) ?w1))"
  have asg: "on_fake (fake_Assign Background topic [part] ?c) (draw_id w) = (Ok (), ?w1)"
    using assms(1) by (simp add: live_Assign mget_def)
  have "live ?w1" "alive Background ?w1" "session ?w1 = Some \<lparr>cs_topic = topic, cs_cursor = ?c\<rparr>"
    "map_of (m_topics (model_of ?w1)) topic = Some ft" using assms(1,3) by simp_all
  from live_Poll [OF this] have poll: "on_fake (fake_Poll Background) ?w1 = (Ok (polled ft ?c), ?w2)"
    by (simp only: visited_simps)
  note run = message_Get_def onOk_def message_gate_passes [OF assms(2)] ret_run deferred_def Let_def asg poll fail_run
  have close: "live (snd (on_fake fake_Close v)) = live v" "model_of (snd (on_fake fake_Close v)) = model_of v"
    "audit_trail (snd (on_fake fake_Close v)) = audit_trail v" for v
    using close_reads [of v v] by (simp_all add: reads_only_def)
  have w2: "live ?w2" "model_of ?w2 = model_of w" "audit_trail ?w2 = audit_trail w"
    using assms(1) session_reads [of "draw_id w" topic ?c "draw_id w"]
      session_reads [of ?w1 topic "polled_cursor ft ?c" ?w1] by (simp_all add: reads_only_def)
  show ?thesis
  proof (cases "record_at ft part offset")
    case None
    with polled_at(2) [OF assms(4,5)] have "polled ft ?c = [] \<or> offset < Record_Offset (hd (polled ft ?c))" by blast
    then have "message_Get (world_message pol b) caller topic part offset w
        = (Err (kafkaErr KindNotFound ''message''), snd (on_fake fake_Close ?w2))"
      by (cases "polled ft ?c") (auto simp: run)
    with None w2 show ?thesis by (simp add: close)
  next
    case (Some r)
    from polled_at(1) [OF assms(4,5) Some] obtain rs where rs: "polled ft ?c = r # rs" "Record_Offset r = offset" by blast
    from auditBreakGlassRead_world [OF w2(1), of pol caller "''M2''" topic] obtain w3 where
      aud: "auditBreakGlassRead ?svc caller ''M2'' topic ?w2 = (Ok (), w3)" "live w3" "model_of w3 = model_of ?w2"
        "audit_trail w3 = audit_trail ?w2 @ read_audit caller ''M2'' topic ?w2" by blast
    have "message_Get (world_message pol b) caller topic part offset w
        = (Ok (Decode r []), snd (on_fake fake_Close w3))"
      using rs aud(1) by (simp add: run)
    with Some w2 aud(2-4) show ?thesis by (auto simp: close)
  qed
qed


theorem get_returns_the_record_witness:
  "\<exists>r. record_at demo_orders 0 1 = Some r
     \<and> fst (message_Get (world_message demo_policy demo_bounds) demo_op ''orders'' 0 1 demo_world) = Ok (Decode r [])"
proof -
  have at: "\<exists>r. record_at demo_orders 0 1 = Some r"
    by (simp add: record_at_def demo_orders_def zero_partition_def)
  have "in_int64 (1 - fp_beginOffset (ft_partitions demo_orders ! nat 0))"
    by (simp add: demo_orders_def zero_partition_def in_int64_def)
  with get_returns_the_record [of demo_world demo_op demo_policy "''orders''" demo_orders 0 1 demo_bounds] demo_placed at
  show ?thesis by (auto split: option.splits)
qed

end
