(* ===== verification/SafetyProps.thy ===== *)
theory SafetyProps
  imports MessageProps ClusterService SecurityService TopicService GroupService
begin

text \<open>
  The safety of the destructive commands as one step relation: every destructive entry of the command
  table is a rule, whichever service implements it, and a sequence of dry runs and rejected calls, by
  any callers and in any order, leaves the cluster as it was.
\<close>

section \<open>Planning only reads\<close>

context service_env
begin

lemma quiet_PlanAlterBrokerConfig: "quiet view (PlanAlterBrokerConfig svc b sets resets)"
  unfolding PlanAlterBrokerConfig_def by (intro quiet_intros reads)

lemma quiet_PlanReassign: "quiet view (PlanReassign moves :: ('s, ReassignPlan) eff)"
  unfolding PlanReassign_def Let_def by (intro quiet_intros)

lemma quiet_PlanCancelReassignments: "quiet view (PlanCancelReassignments ts :: ('s, ReassignPlan) eff)"
  unfolding PlanCancelReassignments_def Let_def by (intro quiet_intros)

lemma quiet_PlanElect: "quiet view (PlanElect preferred ts :: ('s, ElectPlan) eff)"
  unfolding PlanElect_def Let_def by (intro quiet_intros)

lemma quiet_reconcile: "quiet view (reconcile svc existing dt acc)"
  by (cases acc) (auto simp: reconcile_def Let_def intro!: quiet_intros reads)

lemma quiet_PlanImport: "quiet view (PlanImport svc desired allowDelete)"
  unfolding PlanImport_def Let_def case_prod_unfold by (intro quiet_intros reads quiet_reconcile)

lemma quiet_PlanDeleteUser: "quiet view (PlanDeleteUser svc user mech)"
  unfolding PlanDeleteUser_def by (intro quiet_intros reads)

lemma quiet_PlanAlterQuota: "quiet view (PlanAlterQuota svc entity sets removes)"
  unfolding PlanAlterQuota_def currentQuotaValues_def by (intro quiet_intros reads)

lemmas quiet_cluster_plans =
  quiet_PlanAlterBrokerConfig quiet_PlanReassign quiet_PlanCancelReassignments quiet_PlanElect
  quiet_PlanImport quiet_PlanDeleteUser quiet_PlanAlterQuota

lemma quiet_maybeListStart: "quiet view (maybeListStart svc t k)"
  unfolding maybeListStart_def by (intro quiet_intros reads)

lemma quiet_maybeListAfterMilli: "quiet view (maybeListAfterMilli svc t frm)"
  unfolding maybeListAfterMilli_def by (intro quiet_intros reads)

lemma quiet_resolveWindows: "quiet view (resolveWindows svc wp limit)"
  unfolding resolveWindows_def Let_def
  by (intro quiet_intros reads quiet_maybeListStart quiet_maybeListAfterMilli)

lemma quiet_resolveIntBound: "quiet view (resolveIntBound name v r)"
  unfolding resolveIntBound_def by (intro quiet_intros)

lemma quiet_PlanReplay: "ms_svc ms = svc \<Longrightarrow> quiet view (PlanReplay ms source target limit)"
  unfolding PlanReplay_def Let_def
  by simp (intro quiet_intros reads quiet_resolveIntBound quiet_resolveWindows)

end

section \<open>Replay\<close>

lemma quiet_lift_eff: "quiet view m \<Longrightarrow> quiet (view \<circ> fst) (lift_eff m)"
  by (simp add: quiet_def lift_eff_def split: prod.split) (metis snd_conv)

interpretation message_env: service_env "(world_service ctx pol)\<lparr>svc_now := world_timeNow\<rparr>" cluster
  by (rule service_env.intro)
    (auto simp: world_reads.admin_reads_axioms world_log.audit_sinks_axioms intro!: service_env_axioms.intro)

interpretation lifted_sinks: audit_sinks "lift_auditor [world_sink] :: (world \<times> 'x) Auditor" "cluster \<circ> fst"
proof
  fix sink :: "(world \<times> 'x) Sink" and ev and s :: "world \<times> 'x"
  assume s: "sink \<in> set (lift_auditor [world_sink])"
  then show "quiet (cluster \<circ> fst) (sink ev)"
    by (auto simp: lift_auditor_def intro: quiet_lift_eff world_log.log_quiet)
  from s show "fst (sink ev s) \<noteq> Panic"
    using world_log.log_no_panic [of ev "fst s"] by (auto simp: lift_auditor_def lift_eff_def split: prod.splits)
qed

lemma message_Replay_refused:
  assumes "message_Replay fuel (world_message pol b) caller source target limit confirm dryRun w = Some (r, w')"
    and "dryRun \<or> Check caller (desc_of ''M8'') pol \<noteq> None"
  shows "cluster w' = cluster w"
proof -
  let ?plan = "PlanReplay (world_message pol b) source target limit"
  let ?D = "\<lambda>att. Destructive (lift_clock world_timeNow) ReplayPlan_ops (gates_runner pol) (lift_auditor [world_sink])
      caller (desc_of ''M8'') att confirm dryRun (lift_eff ?plan)
      (\<lambda>plan. hang (ApplyReplay fuel (world_message pol b) plan))"
  have plan: "quiet (cluster \<circ> fst) (lift_eff ?plan :: (world \<times> bool, ReplayPlan) eff)"
    by (intro quiet_lift_eff message_env.quiet_PlanReplay [where ctx = Background]) simp
  have clock: "(cluster \<circ> fst) (snd (lift_clock world_timeNow s)) = (cluster \<circ> fst) s" for s :: "world \<times> bool"
    by (simp add: lift_clock_def world_timeNow_def)
  have quiet: "quiet (cluster \<circ> fst) (?D att)" for att
  proof (cases dryRun)
    case True
    then show ?thesis using lifted_sinks.quiet_Destructive_dry [OF clock plan] by simp
  next
    case False
    with assms(2) obtain err where "gate (gates_runner pol) caller (desc_of ''M8'') = Some err" by auto
    then show ?thesis by (rule lifted_sinks.quiet_Destructive_rejected [OF clock])
  qed
  obtain r s hung where run: "?D (message_event caller ''M8'' (RT_Topic target) w) (draw_id w, False) = (r, (s, hung))"
    by (metis prod.collapse)
  then have "s = w'"
    using assms(1) by (simp add: message_Replay_def before_run_def message_newEvent_world unhang_def split: if_splits)
  have "(cluster \<circ> fst) (snd (?D (message_event caller ''M8'' (RT_Topic target) w) (draw_id w, False)))
      = (cluster \<circ> fst) (draw_id w, False)"
    using quiet by (simp only: quiet_def)
  then show ?thesis by (simp only: run) (simp add: \<open>s = w'\<close> draw_id_def cluster_def)
qed

section \<open>The destructive commands as a step relation\<close>

text \<open>
  \<open>destructive_step pol caller dryRun c w w'\<close>: some call of the destructive command \<open>c\<close> takes the gateway
  from \<open>w\<close> to \<open>w'\<close> - with any arguments, any confirmation and any state of the request's context.
\<close>

inductive destructive_step :: "Policy \<Rightarrow> Caller \<Rightarrow> bool \<Rightarrow> string \<Rightarrow> world \<Rightarrow> world \<Rightarrow> bool"
  for pol :: Policy and caller :: Caller and dryRun :: bool where
  T7: "topic_Delete (world_service ctx pol) caller t confirm dryRun w = (r, w') \<Longrightarrow> destructive_step pol caller dryRun ''T7'' w w'"
| T8: "BulkDelete compile (world_service ctx pol) caller ts pat confirm dryRun w = (r, w') \<Longrightarrow> destructive_step pol caller dryRun ''T8'' w w'"
| T9: "AlterConfig (world_service ctx pol) caller t sets resets confirm dryRun w = (r, w') \<Longrightarrow> destructive_step pol caller dryRun ''T9'' w w'"
| T10: "AddPartitions (world_service ctx pol) caller t n confirm dryRun w = (r, w') \<Longrightarrow> destructive_step pol caller dryRun ''T10'' w w'"
| T11: "topic_DeleteRecords (world_service ctx pol) caller t offsets confirm dryRun w = (r, w') \<Longrightarrow> destructive_step pol caller dryRun ''T11'' w w'"
| T12: "topic_Purge (world_service ctx pol) caller t confirm dryRun w = (r, w') \<Longrightarrow> destructive_step pol caller dryRun ''T12'' w w'"
| G4: "group_Reset (world_service ctx pol) caller g tgt topics confirm dryRun w = (r, w') \<Longrightarrow> destructive_step pol caller dryRun ''G4'' w w'"
| G5: "group_Delete (world_service ctx pol) caller g confirm dryRun w = (r, w') \<Longrightarrow> destructive_step pol caller dryRun ''G5'' w w'"
| G6: "RemoveMembers (world_service ctx pol) caller g ms confirm dryRun w = (r, w') \<Longrightarrow> destructive_step pol caller dryRun ''G6'' w w'"
| G7: "CloneOffsets (world_service ctx pol) caller g src topics confirm dryRun w = (r, w') \<Longrightarrow> destructive_step pol caller dryRun ''G7'' w w'"
| M8: "message_Replay fuel (world_message pol b) caller source target limit confirm dryRun w = Some (r, w') \<Longrightarrow> destructive_step pol caller dryRun ''M8'' w w'"
| C5: "AlterBrokerConfig (world_service ctx pol) caller brk sets resets confirm dryRun w = (r, w') \<Longrightarrow> destructive_step pol caller dryRun ''C5'' w w'"
| C9_reassign: "Reassign (world_service ctx pol) caller moves confirm dryRun w = (r, w') \<Longrightarrow> destructive_step pol caller dryRun ''C9'' w w'"
| C9_cancel: "CancelReassignments (world_service ctx pol) caller tps confirm dryRun w = (r, w') \<Longrightarrow> destructive_step pol caller dryRun ''C9'' w w'"
| C9_elect: "Elect (world_service ctx pol) caller preferred tps confirm dryRun w = (r, w') \<Longrightarrow> destructive_step pol caller dryRun ''C9'' w w'"
| C12: "Import (world_service ctx pol) caller desired allowDelete confirm dryRun w = (r, w') \<Longrightarrow> destructive_step pol caller dryRun ''C12'' w w'"
| S1_delete: "security_Delete (world_service ctx pol) caller u mech confirm dryRun w = (r, w') \<Longrightarrow> destructive_step pol caller dryRun ''S1'' w w'"
| S2: "AlterQuota (world_service ctx pol) caller entity sets removes confirm dryRun w = (r, w') \<Longrightarrow> destructive_step pol caller dryRun ''S2'' w w'"

lemmas destructive_command_defs =
  topic_Delete_def BulkDelete_def AlterConfig_def AddPartitions_def topic_DeleteRecords_def topic_Purge_def
  group_Reset_def group_Delete_def RemoveMembers_def CloneOffsets_def AlterBrokerConfig_def Reassign_def
  CancelReassignments_def Elect_def Import_def cluster_destructive_def security_Delete_def AlterQuota_def

lemma refused_command:
  assumes "destructive_cmd (world_service ctx pol) ttype c caller name ops confirm dryRun plan app w = (r, w')"
    and "dryRun \<or> Check caller (desc_of c) pol \<noteq> None" and "quiet cluster plan"
  shows "cluster w' = cluster w"
proof -
  have "quiet cluster (destructive_cmd (world_service ctx pol) ttype c caller name ops confirm dryRun plan app)"
  proof (cases dryRun)
    case True
    then show ?thesis using world_env.quiet_destructive_dry [OF assms(3)] by simp
  next
    case False
    with assms(2) obtain err where "gate (svc_runner (world_service ctx pol)) caller (desc_of c) = Some err" by auto
    then show ?thesis by (rule world_env.quiet_destructive_rejected)
  qed
  with assms(1) show ?thesis by (metis quiet_def snd_conv)
qed

lemmas world_plans =
  service_env.quiet_topic_plans [OF world_env.service_env_axioms]
  service_env.quiet_group_plans [OF world_env.service_env_axioms]
  service_env.quiet_cluster_plans [OF world_env.service_env_axioms]

lemma refused_step:
  assumes "destructive_step pol caller dryRun c w w'" "dryRun \<or> Check caller (desc_of c) pol \<noteq> None"
  shows "cluster w' = cluster w"
  using assms
  by (induction rule: destructive_step.induct)
    (unfold destructive_command_defs, (erule (1) refused_command, rule world_plans | erule (1) message_Replay_refused)+)

text \<open>Every destructive row of the table is a command of the relation, and no other row is.\<close>

lemma destructive_rows:
  "map Desc_ID (filter Desc_Destructive Table) =
    [''T7'', ''T8'', ''T9'', ''T10'', ''T11'', ''T12'', ''G4'', ''G5'', ''G6'', ''G7'', ''M8'', ''C5'', ''C9'',
     ''C12'', ''S1'', ''S2'']"
  by (simp add: Table_def)

lemma step_in_rows:
  "destructive_step pol caller dryRun c w w' \<Longrightarrow> c \<in> set (map Desc_ID (filter Desc_Destructive Table))"
  unfolding destructive_rows by (induction rule: destructive_step.induct) simp_all

lemma step_is_write:
  assumes "destructive_step pol caller dryRun c w w'"
  shows "Desc_Access (desc_of c) = W"
proof -
  from step_in_rows [OF assms] obtain d where "d \<in> set Table" "Desc_Destructive d" "c = Desc_ID d" by auto
  then show ?thesis using destructive_is_W by (simp add: desc_of_row)
qed

interpretation lifted_flag: audit_sinks "lift_auditor [world_sink] :: (world \<times> 'x) Auditor" snd
proof
  fix sink :: "(world \<times> 'x) Sink" and ev and s :: "world \<times> 'x"
  assume s: "sink \<in> set (lift_auditor [world_sink])"
  then show "quiet snd (sink ev)" "fst (sink ev s) \<noteq> Panic"
    using lifted_sinks.sink_no_panic [OF s]
    by (auto simp: lift_auditor_def quiet_def lift_eff_def split: prod.split)
qed

text \<open>A dry run of a replay never scans, so it returns.\<close>

lemma dry_replay_returns:
  "\<exists>r w'. message_Replay fuel (world_message pol b) caller source target limit confirm True w = Some (r, w')"
proof -
  let ?D = "Destructive (lift_clock world_timeNow) ReplayPlan_ops (gates_runner pol) (lift_auditor [world_sink])
      caller (desc_of ''M8'') (message_event caller ''M8'' (RT_Topic target) w) confirm True
      (lift_eff (PlanReplay (world_message pol b) source target limit))
      (\<lambda>plan. hang (ApplyReplay fuel (world_message pol b) plan))"
  have "quiet snd ?D"
    by (rule lifted_flag.quiet_Destructive_dry)
      (simp_all add: quiet_def lift_eff_def lift_clock_def split: prod.split)
  then have "\<not> snd (snd (?D (draw_id w, False)))" by (simp add: quiet_def)
  moreover obtain r s h where "?D (draw_id w, False) = (r, (s, h))" by (metis prod.collapse)
  ultimately show ?thesis
    by (simp add: message_Replay_def before_run_def message_newEvent_world unhang_def)
qed

lemma dry_step_exists:
  assumes "c \<in> set (map Desc_ID (filter Desc_Destructive Table))"
  shows "\<exists>w'. destructive_step pol caller True c w w'"
proof -
  note run = prod.collapse [symmetric]
  obtain r w' where "message_Replay 0 (world_message pol undefined) caller undefined undefined 0 [] True w = Some (r, w')"
    using dry_replay_returns by blast
  then have "destructive_step pol caller True ''M8'' w w'" by (rule destructive_step.M8)
  moreover have "\<exists>w'. destructive_step pol caller True ''T7'' w w'" by (rule exI, rule destructive_step.T7, rule run)
  moreover have "\<exists>w'. destructive_step pol caller True ''T8'' w w'" by (rule exI, rule destructive_step.T8, rule run)
  moreover have "\<exists>w'. destructive_step pol caller True ''T9'' w w'" by (rule exI, rule destructive_step.T9, rule run)
  moreover have "\<exists>w'. destructive_step pol caller True ''T10'' w w'" by (rule exI, rule destructive_step.T10, rule run)
  moreover have "\<exists>w'. destructive_step pol caller True ''T11'' w w'" by (rule exI, rule destructive_step.T11, rule run)
  moreover have "\<exists>w'. destructive_step pol caller True ''T12'' w w'" by (rule exI, rule destructive_step.T12, rule run)
  moreover have "\<exists>w'. destructive_step pol caller True ''G4'' w w'" by (rule exI, rule destructive_step.G4, rule run)
  moreover have "\<exists>w'. destructive_step pol caller True ''G5'' w w'" by (rule exI, rule destructive_step.G5, rule run)
  moreover have "\<exists>w'. destructive_step pol caller True ''G6'' w w'" by (rule exI, rule destructive_step.G6, rule run)
  moreover have "\<exists>w'. destructive_step pol caller True ''G7'' w w'" by (rule exI, rule destructive_step.G7, rule run)
  moreover have "\<exists>w'. destructive_step pol caller True ''C5'' w w'" by (rule exI, rule destructive_step.C5, rule run)
  moreover have "\<exists>w'. destructive_step pol caller True ''C9'' w w'" by (rule exI, rule destructive_step.C9_elect, rule run)
  moreover have "\<exists>w'. destructive_step pol caller True ''C12'' w w'" by (rule exI, rule destructive_step.C12, rule run)
  moreover have "\<exists>w'. destructive_step pol caller True ''S1'' w w'" by (rule exI, rule destructive_step.S1_delete, rule run)
  moreover have "\<exists>w'. destructive_step pol caller True ''S2'' w w'" by (rule exI, rule destructive_step.S2, rule run)
  ultimately show ?thesis
    using assms unfolding destructive_rows list.set insert_iff empty_iff by (elim disjE) blast+
qed

text \<open>
  The services route exactly the destructive rows of the command table through the confirmed,
  audited pipeline: a command has a destructive call precisely when its row in the table is marked
  destructive.
\<close>

theorem destructive_commands_are_the_rows:
  "{c. \<exists>w'. destructive_step pol caller True c w w'} = {Desc_ID d |d. d \<in> set Table \<and> Desc_Destructive d}"
proof (intro set_eqI iffI)
  fix c assume "c \<in> {c. \<exists>w'. destructive_step pol caller True c w w'}"
  then show "c \<in> {Desc_ID d |d. d \<in> set Table \<and> Desc_Destructive d}"
    using step_in_rows by fastforce
next
  fix c assume "c \<in> {Desc_ID d |d. d \<in> set Table \<and> Desc_Destructive d}"
  then have "c \<in> set (map Desc_ID (filter Desc_Destructive Table))" by auto
  then show "c \<in> {c. \<exists>w'. destructive_step pol caller True c w w'}"
    using dry_step_exists by blast
qed

section \<open>Sequences of calls\<close>

text \<open>Any number of calls, each of which is a dry run or one that the gate rejects.\<close>

inductive refused_calls :: "Policy \<Rightarrow> world \<Rightarrow> world \<Rightarrow> bool" for pol :: Policy where
  refused_none: "refused_calls pol w w"
| refused_call: "refused_calls pol w w1 \<Longrightarrow> destructive_step pol caller dryRun c w1 w2 \<Longrightarrow>
    dryRun \<or> Check caller (desc_of c) pol \<noteq> None \<Longrightarrow> refused_calls pol w w2"

text \<open>
  However many destructive calls arrive, by whichever callers, on whichever services and in whatever
  order: as long as each is a dry run or is rejected by the gate, the cluster - its topics, records,
  groups, configurations, credentials and quotas - and the list of mutating calls it received are those
  at the start.
\<close>

theorem refused_calls_change_nothing:
  assumes "refused_calls pol w w'"
  shows "cluster w' = cluster w"
  using assms by (induction rule: refused_calls.induct) (simp_all add: refused_step)

theorem refused_calls_change_nothing_witness:
  "\<exists>r w'. topic_Delete (world_service Background demo_policy) demo_op ''orders'' [] True demo_world = (r, w')
     \<and> cluster w' = cluster demo_world"
proof -
  obtain r w1 where d: "topic_Delete (world_service Background demo_policy) demo_op ''orders'' [] True demo_world = (r, w1)"
    by fastforce
  have s: "refused_calls demo_policy demo_world w1"
    by (rule refused_call [OF refused_none destructive_step.T7 [OF d]]) simp
  from d refused_calls_change_nothing [OF s] show ?thesis by blast
qed

text \<open>Any number of destructive calls, executed or not.\<close>

inductive destructive_calls :: "Policy \<Rightarrow> world \<Rightarrow> world \<Rightarrow> bool" for pol :: Policy where
  no_calls: "destructive_calls pol w w"
| one_more: "destructive_calls pol w w1 \<Longrightarrow> destructive_step pol caller dryRun c w1 w2 \<Longrightarrow> destructive_calls pol w w2"

text \<open>
  Read-only mode: no sequence of destructive calls, executed or not, by whatever callers and with
  whatever break-glass reasons, changes the cluster.
\<close>

theorem read_only_mode_protects:
  assumes "Policy_ReadOnly pol" "destructive_calls pol w w'"
  shows "cluster w' = cluster w"
  using assms(2,1)
proof (induction rule: destructive_calls.induct)
  case (one_more w w1 caller dryRun c w2)
  have "Check caller (desc_of c) pol \<noteq> None"
    using step_is_write [OF one_more.hyps(2)] one_more.prems by (simp add: Check_pass_iff)
  with one_more show ?case by (simp add: refused_step)
qed simp

theorem read_only_mode_protects_witness:
  "\<exists>w'. destructive_calls (demo_policy\<lparr>Policy_ReadOnly := True\<rparr>) demo_world w' \<and> cluster w' = cluster demo_world"
proof -
  let ?pol = "demo_policy\<lparr>Policy_ReadOnly := True\<rparr>"
  obtain r w1 where d: "topic_Delete (world_service Background ?pol) demo_op ''orders'' ''orders'' False demo_world = (r, w1)"
    by fastforce
  have s: "destructive_calls ?pol demo_world w1"
    by (rule one_more [OF no_calls destructive_step.T7 [OF d]])
  show ?thesis using read_only_mode_protects [OF _ s] s by auto
qed

end
