(* ===== verification/ReadSafety.thy ===== *)
theory ReadSafety
  imports SafetyProps MessageRoutes
begin

text \<open>
  The commands that only read leave the cluster alone, and so does every command the gate rejects: the
  lemmas of each service that the gateway's own safety rests on. \<open>message_env\<close> is the contract of the
  consumer and the environment a message command runs in.
\<close>

section \<open>Calls that may not end\<close>

definition quiet_run :: "('s \<Rightarrow> 'v) \<Rightarrow> ('s, 'a) run \<Rightarrow> bool" where
  "quiet_run view m \<longleftrightarrow> (\<forall>s r s'. m s = Some (r, s') \<longrightarrow> view s' = view s)"

lemma quiet_ended [quiet_intros]: "quiet view m \<Longrightarrow> quiet_run view (ended m)"
  by (auto simp: quiet_run_def ended_def quiet_def) (metis snd_conv)

lemma quiet_before_run [quiet_intros]:
  assumes "quiet view m" "\<And>a. quiet_run view (k a)"
  shows "quiet_run view (before_run m k)"
  using assms(2) quietD [OF assms(1)]
  by (auto simp: quiet_run_def before_run_def split: prod.splits res.splits)

lemma quiet_after_run [quiet_intros]:
  assumes "quiet_run view m" "\<And>a. quiet view (k a)"
  shows "quiet_run view (after_run m k)"
  unfolding quiet_run_def
proof (intro allI impI)
  fix s r s'
  assume "after_run m k s = Some (r, s')"
  then obtain r1 s1 where m: "m s = Some (r1, s1)" and k: "onOk (\<lambda>_. (r1, s1)) k s = (r, s')"
    by (auto simp: after_run_def split: option.splits)
  have "view s1 = view s" using assms(1) m by (auto simp: quiet_run_def)
  then show "view s' = view s"
    using k quietD [OF assms(2)] by (cases r1) (auto simp: onOk_def)
qed

lemma quiet_run_if [quiet_intros]:
  "(c \<Longrightarrow> quiet_run view m) \<Longrightarrow> (\<not> c \<Longrightarrow> quiet_run view m') \<Longrightarrow> quiet_run view (if c then m else m')"
  by simp

lemma quiet_run_case_sum [quiet_intros]:
  "(\<And>e. quiet_run view (h e)) \<Longrightarrow> (\<And>a. quiet_run view (k a)) \<Longrightarrow> quiet_run view (case x of Inl e \<Rightarrow> h e | Inr a \<Rightarrow> k a)"
  by (cases x) simp_all

lemma quiet_run_case_prod [quiet_intros]:
  "(\<And>a b. quiet_run view (k a b)) \<Longrightarrow> quiet_run view (case x of (a, b) \<Rightarrow> k a b)"
  by (cases x) simp

text \<open>The reply to such a call: what \<open>attempt\<close> does with its outcome.\<close>

lemma quiet_reply_run:
  assumes "quiet_run view m" "\<And>x. quiet view (k x)"
  shows "quiet_run view (reply_run m (\<lambda>m. attempt m k))"
  unfolding quiet_run_def
proof (intro allI impI)
  fix s r s'
  assume "reply_run m (\<lambda>m. attempt m k) s = Some (r, s')"
  then obtain r1 s1 where m: "m s = Some (r1, s1)" and k: "attempt (\<lambda>_. (r1, s1)) k s = (r, s')"
    by (auto simp: reply_run_def split: option.splits)
  have "view s1 = view s" using assms(1) m by (auto simp: quiet_run_def)
  then show "view s' = view s"
    using k quietD [OF assms(2)] by (cases r1) (auto simp: attempt_def)
qed

lemma quiet_reply_orMap:
  assumes "quiet_run view m" "\<And>a. quiet view (k a)"
  shows "quiet_run view (reply_run m (\<lambda>m. orMap r m k))"
  unfolding orMap_def replyErr_def
  using assms(2) by (intro quiet_reply_run assms(1)) (auto split: sum.split intro: quiet_intros)

lemma quiet_reply_orMapDestructive:
  assumes "quiet_run view m" "\<And>result. quiet view (k result)"
  shows "quiet_run view (reply_run m (\<lambda>m. orMapDestructive r unbox toDTO m k))"
  unfolding orMapDestructive_def
  using assms(2) by (intro quiet_reply_run assms(1)) (auto split: sum.split option.split intro: quiet_intros)

lemma quiet_unhang: "quiet (view \<circ> fst) m \<Longrightarrow> quiet_run view (unhang m)"
  by (auto simp: quiet_run_def unhang_def quiet_def split: prod.splits if_splits) (metis fst_conv snd_conv)

text \<open>The sinks of an auditor keep their contract beside any further state.\<close>

lemma audit_sinks_lifted: "audit_sinks sinks view \<Longrightarrow> audit_sinks (lift_auditor sinks) (view \<circ> fst)"
proof (rule audit_sinks.intro)
  fix sink :: "('a \<times> 'c) Sink" and ev
  assume a: "audit_sinks sinks view" and s: "sink \<in> set (lift_auditor sinks)"
  then show "quiet (view \<circ> fst) (sink ev)"
    by (auto simp: lift_auditor_def intro: quiet_lift_eff audit_sinks.sink_quiet)
  fix sx
  from s obtain sink0 where k: "sink0 \<in> set sinks" "sink = (\<lambda>ev. lift_eff (sink0 ev))"
    by (auto simp: lift_auditor_def)
  then show "fst (sink ev sx) \<noteq> Panic"
    using audit_sinks.sink_no_panic [OF a k(1), of ev "fst sx"] by (auto simp: lift_eff_def split: prod.splits)
qed

section \<open>The cluster and security commands\<close>

context service_env
begin

lemma quiet_cluster_reads:
  "quiet view (cluster_DescribeCluster svc)" "quiet view (DescribeBrokerConfig svc b)"
  "quiet view (cluster_HealthSummary svc)" "quiet view (cluster_Quorum svc)"
  "quiet view (cluster_Reassignments svc)" "quiet view (cluster_LogDirs svc b)"
  unfolding cluster_DescribeCluster_def DescribeBrokerConfig_def cluster_HealthSummary_def cluster_Quorum_def
    cluster_Reassignments_def cluster_LogDirs_def
  by (intro quiet_intros reads)+

lemma quiet_snapshotEndOffsets: "quiet view (snapshotEndOffsets svc topics)"
  unfolding snapshotEndOffsets_def by (intro quiet_intros reads)

lemma quiet_cluster_Throughput:
  assumes "\<And>d. quiet view (sleep d)"
  shows "quiet view (cluster_Throughput sleep svc topic seconds)"
  unfolding cluster_Throughput_def cluster_resolveIntBound_def throughputTopics_def Let_def
  by (intro quiet_intros reads quiet_snapshotEndOffsets assms)

lemma quiet_cluster_Export: "quiet view (cluster_Export compile svc pattern)"
  unfolding cluster_Export_def export_topics_def by (intro quiet_intros reads now_quiet)

lemma quiet_security_reads: "quiet view (ListUsers svc)" "quiet view (ListQuotas svc entityType)"
  unfolding ListUsers_def ListQuotas_def by (intro quiet_intros reads)+

text \<open>A rejected creation of a user stops at the gate.\<close>

lemma quiet_security_Create_rejected:
  assumes "gate (svc_runner svc) caller (desc_of ''S1'') = Some err"
  shows "quiet view (security_Create svc caller params)"
proof -
  let ?g = "security_checkGate svc caller ''S1'' (CUP_Name params)"
  have q: "quiet view ?g"
    unfolding security_checkGate_def security_newEvent_def
    by (intro quiet_intros quiet_new_event quiet_CheckAudited)
  have rejected: "\<exists>t. ?g s = (Err err, t)" for s
  proof -
    let ?s = "snd (svc_now svc (snd (svc_newEventID svc s)))"
    let ?ev = "event_at ''user'' (desc_of ''S1'') caller (CUP_Name params) (fst (svc_newEventID svc s))
      (fst (svc_now svc (snd (svc_newEventID svc s))))"
    have "fst (Result (svc_auditor svc) (rejected_event caller (desc_of ''S1'') ?ev err) ?s) = Ok ()"
      by (rule Result_Ok)
    then show ?thesis
      by (auto simp: security_checkGate_def security_newEvent_def security_target_type_def onOk_def new_event_run
          CheckAudited_reject [OF assms] fail_run split: prod.splits res.splits)
  qed
  have "snd (security_Create svc caller params s) = snd (?g s)" for s
  proof -
    obtain t where "?g s = (Err err, t)" using rejected by blast
    then show ?thesis by (simp add: security_Create_def onOk_def)
  qed
  with q show ?thesis by (simp add: quiet_def)
qed

text \<open>A destructive command that is a dry run or rejected.\<close>

lemma quiet_refused:
  assumes "dryRun \<or> gate (svc_runner svc) caller (desc_of c) \<noteq> None" "quiet view plan"
  shows "quiet view (destructive_cmd svc ttype c caller name ops confirm dryRun plan app)"
proof (cases dryRun)
  case True
  then show ?thesis using quiet_destructive_dry [OF assms(2)] by simp
next
  case False
  with assms(1) obtain err where "gate (svc_runner svc) caller (desc_of c) = Some err" by auto
  then show ?thesis by (rule quiet_destructive_rejected)
qed

end

section \<open>The message commands\<close>

lemma poll_round_quiet:
  assumes "quiet view poll" "poll_round poll fin spec matcher acc s = (res, acc', s')"
  shows "view s' = view s"
  using assms(2) quietD [OF assms(1)]
  by (auto simp: poll_round_def split: prod.splits res.splits if_splits)

lemma pollLoop_quiet:
  assumes "quiet view poll"
  shows "pollLoop n poll fin spec matcher acc s = Some (res, acc', s') \<Longrightarrow> view s' = view s"
proof (induction n arbitrary: acc s)
  case (Suc n)
  obtain res1 acc1 s1 where p: "poll_round poll fin spec matcher acc s = (res1, acc1, s1)" by (metis prod_cases3)
  from poll_round_quiet [OF assms p] Suc p show ?case by (cases res1) auto
qed simp

locale message_env = service_env "ms_svc ms" view
  for ms :: "('s, 'c) MessageService" and view :: "'s \<Rightarrow> 'v" +
  assumes new_quiet: "quiet view (ms_newConsumer ms)"
    and assign_quiet: "quiet view (Assign (env_consumer (ms_scan ms) ctx) t ps offs)"
    and poll_quiet: "quiet view (Poll (env_consumer (ms_scan ms) ctx))"
    and close_quiet: "quiet view (Close (env_consumer (ms_scan ms) ctx))"
begin

lemma quiet_Run: "quiet_run view (Run fuel ((ms_scan ms)\<lparr>env_now := svc_now (ms_svc ms)\<rparr>) ctx spec matcher)"
  unfolding quiet_run_def
proof (intro allI impI)
  fix s r s'
  assume run: "Run fuel ((ms_scan ms)\<lparr>env_now := svc_now (ms_svc ms)\<rparr>) ctx spec matcher s = Some (r, s')"
  have now: "svc_now (ms_svc ms) s = (t, s1) \<Longrightarrow> view s1 = view s" for s s1 t
    using now_quiet [of s] by simp
  have close: "view (snd (Close (env_consumer (ms_scan ms) ctx) s)) = view s" for s ctx
    using close_quiet by (simp add: quiet_def)
  note assign = quietD [OF assign_quiet]
  note loop = pollLoop_quiet [OF poll_quiet]
  show "view s' = view s"
    using run
    by (auto simp: Run_def Let_def close split: prod.splits if_splits res.splits option.splits
        dest!: now assign loop)
qed

lemma quiet_message_checkGate: "quiet view (message_checkGate (ms_svc ms) caller c topic)"
  unfolding message_checkGate_def message_newEvent_def
  by (intro quiet_intros quiet_new_event quiet_CheckAudited)

lemma quiet_auditBreakGlassRead: "quiet view (auditBreakGlassRead (ms_svc ms) caller c topic)"
  unfolding auditBreakGlassRead_def message_newEvent_def message_resultEventOutcome_def
  by (intro quiet_intros quiet_new_event now_quiet quiet_Result)

lemma quiet_resolve:
  "quiet view (resolveIntBound nm v r)" "quiet view (resolveBytesBound nm v r)" "quiet view (resolveMaxTime v r)"
  unfolding resolveIntBound_def resolveBytesBound_def resolveMaxTime_def Let_def by (intro quiet_intros)+

lemma quiet_resolveScanBounds: "quiet view (resolveScanBounds b i j k l)"
  unfolding resolveScanBounds_def by (intro quiet_intros quiet_resolve)

lemma quiet_matcher_or: "quiet view (matcher_or c m)"
  unfolding matcher_or_def by (intro quiet_intros)

lemma quiet_runScan: "quiet_run view (runScan fuel ms spec matcher)"
  unfolding runScan_def by (intro quiet_intros new_quiet quiet_Run)

lemmas quiet_scan_steps =
  quiet_message_checkGate quiet_auditBreakGlassRead quiet_resolve quiet_resolveScanBounds quiet_matcher_or
  quiet_runScan quiet_resolveWindows

lemma quiet_message_Read: "quiet_run view (message_Read fuel ms caller p)"
  unfolding message_Read_def Let_def by (intro quiet_intros quiet_scan_steps)

lemma quiet_message_Search: "quiet_run view (message_Search compile late fuel ms caller p)"
  unfolding message_Search_def Let_def by (intro quiet_intros quiet_scan_steps)

lemma quiet_message_Filter: "quiet_run view (message_Filter parse compile unmarshal fuel ms caller p)"
  unfolding message_Filter_def Let_def by (intro quiet_intros quiet_scan_steps)

lemma quiet_message_Get: "quiet view (message_Get ms caller t p off)"
proof -
  have deferred: "quiet view (deferred (Close (env_consumer (ms_scan ms) ctx)) m)" if "quiet view m" for ctx and m :: "('s, scan_Record) eff"
    using that close_quiet [of ctx] by (simp add: quiet_def deferred_def split: prod.split) (metis snd_conv)
  show ?thesis
    unfolding message_Get_def Let_def
    by (intro quiet_intros quiet_message_checkGate new_quiet deferred assign_quiet poll_quiet quiet_auditBreakGlassRead)
qed

text \<open>A rejected write stops at the gate.\<close>

lemma rejected_message:
  assumes "gate (svc_runner (ms_svc ms)) caller (desc_of c) = Some err"
  shows "quiet view (onOk (message_checkGate (ms_svc ms) caller c topic) k)"
  unfolding quiet_def
proof
  fix s
  have "message_checkGate (ms_svc ms) caller c topic = topic_checkGate (ms_svc ms) caller c topic"
    by (simp add: message_checkGate_def topic_checkGate_def message_newEvent_def topic_newEvent_def)
  then obtain t where "message_checkGate (ms_svc ms) caller c topic s = (Err err, t)" "view t = view s"
    using rejected_checkGate [OF assms] by metis
  then show "view (snd (onOk (message_checkGate (ms_svc ms) caller c topic) k s)) = view s"
    by (simp add: onOk_def)
qed

lemma quiet_message_writes_rejected:
  "gate (svc_runner (ms_svc ms)) caller (desc_of ''M5'') = Some err \<Longrightarrow> quiet view (message_Produce ms caller t items)"
  "gate (svc_runner (ms_svc ms)) caller (desc_of ''M6'') = Some err \<Longrightarrow>
     quiet view (message_ProduceBulk unmarshal unmarshalAll ms caller t body ndjson)"
  "gate (svc_runner (ms_svc ms)) caller (desc_of ''M7'') = Some err \<Longrightarrow> quiet view (message_Tombstone ms caller t item)"
  by (simp_all add: message_Produce_def message_ProduceBulk_def message_Tombstone_def Let_def rejected_message)

text \<open>A replay that is a dry run or rejected.\<close>

lemma quiet_message_Replay_refused:
  assumes "dryRun \<or> gate (svc_runner (ms_svc ms)) caller (desc_of ''M8'') \<noteq> None"
  shows "quiet_run view (message_Replay fuel ms caller source target limit confirm dryRun)"
proof -
  let ?sinks = "lift_auditor (svc_auditor (ms_svc ms)) :: ('s \<times> bool) Auditor"
  have sinks: "audit_sinks ?sinks (view \<circ> fst)" by (rule audit_sinks_lifted [OF audit_sinks_axioms])
  have clock: "(view \<circ> fst) (snd (lift_clock (svc_timeNow (ms_svc ms)) s)) = (view \<circ> fst) s" for s :: "'s \<times> bool"
    using wall_quiet by (simp add: lift_clock_def split: prod.split) (metis snd_conv)
  have plan: "quiet (view \<circ> fst) (lift_eff (PlanReplay ms source target limit) :: ('s \<times> bool, ReplayPlan) eff)"
    by (intro quiet_lift_eff quiet_PlanReplay) simp
  have "quiet (view \<circ> fst) (Destructive (lift_clock (svc_timeNow (ms_svc ms))) ReplayPlan_ops (svc_runner (ms_svc ms))
      ?sinks caller (desc_of ''M8'') att confirm dryRun (lift_eff (PlanReplay ms source target limit))
      (\<lambda>plan. hang (ApplyReplay fuel ms plan)))" for att
  proof (cases dryRun)
    case True
    then show ?thesis using audit_sinks.quiet_Destructive_dry [OF sinks clock plan] by simp
  next
    case False
    with assms obtain err where "gate (svc_runner (ms_svc ms)) caller (desc_of ''M8'') = Some err" by auto
    then show ?thesis by (rule audit_sinks.quiet_Destructive_rejected [OF sinks clock])
  qed
  then show ?thesis
    unfolding message_Replay_def Let_def message_newEvent_def
    by (intro quiet_before_run quiet_unhang quiet_new_event)
qed

end

end
