(* ===== verification/Operations.thy ===== *)
theory Operations
  imports TopicRoutes MessageRoutes GroupRoutes SecurityRoutes ClusterRoutes HealthRoutes ReadSafety
begin

text \<open>
  The operations of the gateway as data: one constructor per handler, with the input the HTTP framework
  binds for it, the row of its package's \<open>Register\<close> that it is registered under, whether its input asks
  for a dry run, and how it is served - the handler run on the services and its output encoded.

  The lemmas show that a package's operations change nothing unless they write, pass the gate for
  the command they are registered with, and are no dry run.
\<close>

section \<open>What the operations run on\<close>

text \<open>
  The services as built for one request's context, the configured page sizes, and the functions of other
  packages the handlers and services call: \<open>regexp.Compile\<close> (as a matcher of records and of names),
  \<open>jsonpath.Parse\<close>, the JSON decoders, \<open>mime.ParseMediaType\<close>, \<open>time.Sleep\<close>.
\<close>

record ('s, 'c) Backend =
  be_svc :: "'s Service"
  be_ms :: "('s, 'c) MessageService"
  be_pages :: PageBounds
  be_groupPages :: GroupPageBounds
  be_fuel :: nat
  be_compile :: "string \<Rightarrow> string + regexp"
  be_compileMatch :: "string \<Rightarrow> string + (string \<Rightarrow> bool)"
  be_late :: "scan_Record \<Rightarrow> nat \<Rightarrow> bool"
  be_jsonpath :: "string \<Rightarrow> string + (json \<Rightarrow> json list)"
  be_unmarshalValue :: "string \<Rightarrow> json option"
  be_unmarshalItem :: "string \<Rightarrow> string + ProduceItem"
  be_unmarshalItems :: "bytes \<Rightarrow> string + ProduceItem list"
  be_mediaType :: "string \<Rightarrow> string option"
  be_sleep :: "int64 \<Rightarrow> ('s, unit) eff"
  be_timeNow :: "'s \<Rightarrow> time \<times> 's"
  be_probe :: "('s, ClusterInfo) eff"
  be_auditStatus :: "('s, string \<times> bool) eff"

definition encoded :: "('o \<Rightarrow> int \<times> any) \<Rightarrow> ('s, 'o) reply \<Rightarrow> ('s, int \<times> any) reply" where
  "encoded wire m = onOk m (\<lambda>x. ret (map_sum id wire x))"

definition encoded_run :: "('o \<Rightarrow> int \<times> any) \<Rightarrow> ('s, Envelope + 'o) run \<Rightarrow> ('s, Envelope + int \<times> any) run" where
  "encoded_run wire m = after_run m (\<lambda>x. ret (map_sum id wire x))"

section \<open>The operations of each package\<close>

datatype topic_op =
    Op_listTopics ListTopicsInput
  | Op_describeTopic DescribeTopicInput
  | Op_topicSize TopicSizeInput
  | Op_topicCount TopicCountInput
  | Op_topicConsumerGroups TopicConsumerGroupsInput
  | Op_createTopic CreateTopicInput
  | Op_createTopicsBulk CreateTopicsBulkInput
  | Op_alterConfig AlterConfigInput
  | Op_addPartitions AddPartitionsInput
  | Op_deleteTopic DeleteTopicInput
  | Op_deleteTopicsBulk BulkDeleteInput
  | Op_deleteRecords DeleteRecordsInput
  | Op_purgeTopic PurgeInput

primrec topic_route :: "topic_op \<Rightarrow> HumaOperation" where
    "topic_route (Op_listTopics inp) = topic_Register ! 0"
  | "topic_route (Op_describeTopic inp) = topic_Register ! 1"
  | "topic_route (Op_topicSize inp) = topic_Register ! 2"
  | "topic_route (Op_topicCount inp) = topic_Register ! 3"
  | "topic_route (Op_topicConsumerGroups inp) = topic_Register ! 4"
  | "topic_route (Op_createTopic inp) = topic_Register ! 5"
  | "topic_route (Op_createTopicsBulk inp) = topic_Register ! 6"
  | "topic_route (Op_alterConfig inp) = topic_Register ! 7"
  | "topic_route (Op_addPartitions inp) = topic_Register ! 8"
  | "topic_route (Op_deleteTopic inp) = topic_Register ! 9"
  | "topic_route (Op_deleteTopicsBulk inp) = topic_Register ! 10"
  | "topic_route (Op_deleteRecords inp) = topic_Register ! 11"
  | "topic_route (Op_purgeTopic inp) = topic_Register ! 12"

primrec topic_dryRun :: "topic_op \<Rightarrow> bool" where
    "topic_dryRun (Op_listTopics inp) = False"
  | "topic_dryRun (Op_describeTopic inp) = False"
  | "topic_dryRun (Op_topicSize inp) = False"
  | "topic_dryRun (Op_topicCount inp) = False"
  | "topic_dryRun (Op_topicConsumerGroups inp) = False"
  | "topic_dryRun (Op_createTopic inp) = CreateTopicInput_DryRun inp"
  | "topic_dryRun (Op_createTopicsBulk inp) = False"
  | "topic_dryRun (Op_alterConfig inp) = AlterConfigInput_DryRun inp"
  | "topic_dryRun (Op_addPartitions inp) = AddPartitionsInput_DryRun inp"
  | "topic_dryRun (Op_deleteTopic inp) = DeleteTopicInput_DryRun inp"
  | "topic_dryRun (Op_deleteTopicsBulk inp) = BulkDeleteInput_DryRun inp"
  | "topic_dryRun (Op_deleteRecords inp) = DeleteRecordsInput_DryRun inp"
  | "topic_dryRun (Op_purgeTopic inp) = PurgeInput_DryRun inp"

primrec topic_serve :: "('s, 'c) Backend \<Rightarrow> Request \<Rightarrow> topic_op \<Rightarrow> ('s, int \<times> any) reply" where
    "topic_serve be r (Op_listTopics inp) = encoded wire_ListTopicsOutput (listTopics (be_compile be) (be_svc be) (be_pages be) r inp)"
  | "topic_serve be r (Op_describeTopic inp) = encoded wire_DescribeTopicOutput (describeTopic (be_svc be) r inp)"
  | "topic_serve be r (Op_topicSize inp) = encoded wire_TopicSizeOutput (topicSize (be_svc be) r inp)"
  | "topic_serve be r (Op_topicCount inp) = encoded wire_TopicCountOutput (topicCount (be_svc be) r inp)"
  | "topic_serve be r (Op_topicConsumerGroups inp) = encoded wire_TopicConsumerGroupsOutput (topicConsumerGroups (be_svc be) r inp)"
  | "topic_serve be r (Op_createTopic inp) = encoded wire_CreateTopicOutput (createTopic (be_svc be) r inp)"
  | "topic_serve be r (Op_createTopicsBulk inp) = encoded wire_CreateTopicsBulkOutput (createTopicsBulk (be_svc be) r inp)"
  | "topic_serve be r (Op_alterConfig inp) = encoded wire_AlterConfigOutput (alterConfig (be_svc be) r inp)"
  | "topic_serve be r (Op_addPartitions inp) = encoded wire_AddPartitionsOutput (addPartitions (be_svc be) r inp)"
  | "topic_serve be r (Op_deleteTopic inp) = encoded wire_DeleteTopicOutput (deleteTopic (be_svc be) r inp)"
  | "topic_serve be r (Op_deleteTopicsBulk inp) = encoded wire_BulkDeleteOutput (deleteTopicsBulk (be_compile be) (be_svc be) r inp)"
  | "topic_serve be r (Op_deleteRecords inp) = encoded wire_DeleteRecordsOutput (deleteRecords (be_svc be) r inp)"
  | "topic_serve be r (Op_purgeTopic inp) = encoded wire_PurgeOutput (purgeTopic (be_svc be) r inp)"

datatype group_op =
    Op_listGroups ListGroupsInput
  | Op_describeGroup DescribeGroupInput
  | Op_resetOffsets ResetOffsetsInput
  | Op_deleteGroup DeleteGroupInput
  | Op_removeMembers RemoveMembersInput
  | Op_cloneOffsets CloneOffsetsInput

primrec group_route :: "group_op \<Rightarrow> HumaOperation" where
    "group_route (Op_listGroups inp) = group_Register ! 0"
  | "group_route (Op_describeGroup inp) = group_Register ! 1"
  | "group_route (Op_resetOffsets inp) = group_Register ! 2"
  | "group_route (Op_deleteGroup inp) = group_Register ! 3"
  | "group_route (Op_removeMembers inp) = group_Register ! 4"
  | "group_route (Op_cloneOffsets inp) = group_Register ! 5"

primrec group_dryRun :: "group_op \<Rightarrow> bool" where
    "group_dryRun (Op_listGroups inp) = False"
  | "group_dryRun (Op_describeGroup inp) = False"
  | "group_dryRun (Op_resetOffsets inp) = ResetOffsetsInput_DryRun inp"
  | "group_dryRun (Op_deleteGroup inp) = DeleteGroupInput_DryRun inp"
  | "group_dryRun (Op_removeMembers inp) = RemoveMembersInput_DryRun inp"
  | "group_dryRun (Op_cloneOffsets inp) = CloneOffsetsInput_DryRun inp"

primrec group_serve :: "('s, 'c) Backend \<Rightarrow> Request \<Rightarrow> group_op \<Rightarrow> ('s, int \<times> any) reply" where
    "group_serve be r (Op_listGroups inp) = encoded wire_ListGroupsOutput (listGroups (be_svc be) (be_groupPages be) r inp)"
  | "group_serve be r (Op_describeGroup inp) = encoded wire_DescribeGroupOutput (describeGroup (be_svc be) r inp)"
  | "group_serve be r (Op_resetOffsets inp) = encoded wire_ResetOffsetsOutput (resetOffsets (be_svc be) r inp)"
  | "group_serve be r (Op_deleteGroup inp) = encoded wire_DeleteGroupOutput (deleteGroup (be_svc be) r inp)"
  | "group_serve be r (Op_removeMembers inp) = encoded wire_RemoveMembersOutput (removeMembers (be_svc be) r inp)"
  | "group_serve be r (Op_cloneOffsets inp) = encoded wire_CloneOffsetsOutput (cloneOffsets (be_svc be) r inp)"

datatype security_op =
    Op_listUsers ListUsersInput
  | Op_api_createUser CreateUserInput
  | Op_deleteUser DeleteUserInput
  | Op_listQuotas ListQuotasInput
  | Op_alterQuota AlterQuotaInput

primrec security_route :: "security_op \<Rightarrow> HumaOperation" where
    "security_route (Op_listUsers inp) = security_Register ! 0"
  | "security_route (Op_api_createUser inp) = security_Register ! 1"
  | "security_route (Op_deleteUser inp) = security_Register ! 2"
  | "security_route (Op_listQuotas inp) = security_Register ! 3"
  | "security_route (Op_alterQuota inp) = security_Register ! 4"

primrec security_dryRun :: "security_op \<Rightarrow> bool" where
    "security_dryRun (Op_listUsers inp) = False"
  | "security_dryRun (Op_api_createUser inp) = False"
  | "security_dryRun (Op_deleteUser inp) = DeleteUserInput_DryRun inp"
  | "security_dryRun (Op_listQuotas inp) = False"
  | "security_dryRun (Op_alterQuota inp) = AlterQuotaInput_DryRun inp"

primrec security_serve :: "('s, 'c) Backend \<Rightarrow> Request \<Rightarrow> security_op \<Rightarrow> ('s, int \<times> any) reply" where
    "security_serve be r (Op_listUsers inp) = encoded wire_ListUsersOutput (listUsers (be_svc be) r inp)"
  | "security_serve be r (Op_api_createUser inp) = encoded wire_CreateUserOutput (api_createUser (be_svc be) r inp)"
  | "security_serve be r (Op_deleteUser inp) = encoded wire_DeleteUserOutput (deleteUser (be_svc be) r inp)"
  | "security_serve be r (Op_listQuotas inp) = encoded wire_ListQuotasOutput (listQuotas (be_svc be) r inp)"
  | "security_serve be r (Op_alterQuota inp) = encoded wire_AlterQuotaOutput (alterQuota (be_svc be) r inp)"

datatype cluster_op =
    Op_describeCluster DescribeClusterInput
  | Op_describeBrokerConfig DescribeBrokerConfigInput
  | Op_clusterHealth ClusterHealthInput
  | Op_quorum QuorumInput
  | Op_listReassignments ListReassignmentsInput
  | Op_logDirs LogDirsInput
  | Op_throughput ThroughputInput
  | Op_export ExportInput
  | Op_alterBrokerConfig AlterBrokerConfigInput
  | Op_reassign ReassignInput
  | Op_cancelReassignments CancelReassignmentsInput
  | Op_elections ElectionsInput
  | Op_applyTopics ApplyTopicsInput

primrec cluster_route :: "cluster_op \<Rightarrow> HumaOperation" where
    "cluster_route (Op_describeCluster inp) = cluster_Register ! 0"
  | "cluster_route (Op_describeBrokerConfig inp) = cluster_Register ! 1"
  | "cluster_route (Op_clusterHealth inp) = cluster_Register ! 2"
  | "cluster_route (Op_quorum inp) = cluster_Register ! 3"
  | "cluster_route (Op_listReassignments inp) = cluster_Register ! 4"
  | "cluster_route (Op_logDirs inp) = cluster_Register ! 5"
  | "cluster_route (Op_throughput inp) = cluster_Register ! 6"
  | "cluster_route (Op_export inp) = cluster_Register ! 7"
  | "cluster_route (Op_alterBrokerConfig inp) = cluster_Register ! 8"
  | "cluster_route (Op_reassign inp) = cluster_Register ! 9"
  | "cluster_route (Op_cancelReassignments inp) = cluster_Register ! 10"
  | "cluster_route (Op_elections inp) = cluster_Register ! 11"
  | "cluster_route (Op_applyTopics inp) = cluster_Register ! 12"

primrec cluster_dryRun :: "cluster_op \<Rightarrow> bool" where
    "cluster_dryRun (Op_describeCluster inp) = False"
  | "cluster_dryRun (Op_describeBrokerConfig inp) = False"
  | "cluster_dryRun (Op_clusterHealth inp) = False"
  | "cluster_dryRun (Op_quorum inp) = False"
  | "cluster_dryRun (Op_listReassignments inp) = False"
  | "cluster_dryRun (Op_logDirs inp) = False"
  | "cluster_dryRun (Op_throughput inp) = False"
  | "cluster_dryRun (Op_export inp) = False"
  | "cluster_dryRun (Op_alterBrokerConfig inp) = AlterBrokerConfigInput_DryRun inp"
  | "cluster_dryRun (Op_reassign inp) = ReassignInput_DryRun inp"
  | "cluster_dryRun (Op_cancelReassignments inp) = CancelReassignmentsInput_DryRun inp"
  | "cluster_dryRun (Op_elections inp) = ElectionsInput_DryRun inp"
  | "cluster_dryRun (Op_applyTopics inp) = ApplyTopicsInput_DryRun inp"

primrec cluster_serve :: "('s, 'c) Backend \<Rightarrow> Request \<Rightarrow> cluster_op \<Rightarrow> ('s, int \<times> any) reply" where
    "cluster_serve be r (Op_describeCluster inp) = encoded wire_DescribeClusterOutput (describeCluster (be_svc be) r inp)"
  | "cluster_serve be r (Op_describeBrokerConfig inp) = encoded wire_DescribeBrokerConfigOutput (describeBrokerConfig (be_svc be) r inp)"
  | "cluster_serve be r (Op_clusterHealth inp) = encoded wire_ClusterHealthOutput (clusterHealth (be_svc be) r inp)"
  | "cluster_serve be r (Op_quorum inp) = encoded wire_QuorumOutput (quorum (be_svc be) r inp)"
  | "cluster_serve be r (Op_listReassignments inp) = encoded wire_ListReassignmentsOutput (listReassignments (be_svc be) r inp)"
  | "cluster_serve be r (Op_logDirs inp) = encoded wire_LogDirsOutput (logDirs (be_svc be) r inp)"
  | "cluster_serve be r (Op_throughput inp) = encoded wire_ThroughputOutput (throughput (be_sleep be) (be_svc be) r inp)"
  | "cluster_serve be r (Op_export inp) = encoded wire_ExportOutput (export (be_compileMatch be) (be_svc be) r inp)"
  | "cluster_serve be r (Op_alterBrokerConfig inp) = encoded wire_AlterBrokerConfigOutput (alterBrokerConfig (be_svc be) r inp)"
  | "cluster_serve be r (Op_reassign inp) = encoded wire_ReassignOutput (ClusterRoutes.reassign (be_svc be) r inp)"
  | "cluster_serve be r (Op_cancelReassignments inp) = encoded wire_ReassignOutput (cancelReassignments (be_svc be) r inp)"
  | "cluster_serve be r (Op_elections inp) = encoded wire_ElectionsOutput (elections (be_svc be) r inp)"
  | "cluster_serve be r (Op_applyTopics inp) = encoded wire_ApplyTopicsOutput (applyTopics (be_svc be) r inp)"

datatype health_op =
    Op_Live LiveInput
  | Op_Ready ReadyInput

primrec health_route :: "health_op \<Rightarrow> HumaOperation" where
    "health_route (Op_Live inp) = registerHealth ! 0"
  | "health_route (Op_Ready inp) = registerHealth ! 1"

primrec health_dryRun :: "health_op \<Rightarrow> bool" where
    "health_dryRun (Op_Live inp) = False"
  | "health_dryRun (Op_Ready inp) = False"

primrec health_serve :: "('s, 'c) Backend \<Rightarrow> Request \<Rightarrow> health_op \<Rightarrow> ('s, int \<times> any) reply" where
    "health_serve be r (Op_Live inp) = encoded wire_LiveOutput (Live r inp)"
  | "health_serve be r (Op_Ready inp) = encoded wire_ReadyOutput (Ready (be_timeNow be) (be_probe be) (be_auditStatus be) r inp)"

datatype message_op =
    Op_readMessages ReadMessagesInput
  | Op_getMessage GetMessageInput
  | Op_searchMessages SearchInput
  | Op_filterMessages FilterInput
  | Op_produceMessages ProduceInput
  | Op_produceBulk ProduceBulkInput
  | Op_sendTombstone TombstoneInput
  | Op_replay ReplayInput

primrec message_route :: "message_op \<Rightarrow> HumaOperation" where
    "message_route (Op_readMessages inp) = message_Register ! 0"
  | "message_route (Op_getMessage inp) = message_Register ! 1"
  | "message_route (Op_searchMessages inp) = message_Register ! 2"
  | "message_route (Op_filterMessages inp) = message_Register ! 3"
  | "message_route (Op_produceMessages inp) = message_Register ! 4"
  | "message_route (Op_produceBulk inp) = message_Register ! 5"
  | "message_route (Op_sendTombstone inp) = message_Register ! 6"
  | "message_route (Op_replay inp) = message_Register ! 7"

primrec message_dryRun :: "message_op \<Rightarrow> bool" where
    "message_dryRun (Op_readMessages inp) = False"
  | "message_dryRun (Op_getMessage inp) = False"
  | "message_dryRun (Op_searchMessages inp) = False"
  | "message_dryRun (Op_filterMessages inp) = False"
  | "message_dryRun (Op_produceMessages inp) = False"
  | "message_dryRun (Op_produceBulk inp) = False"
  | "message_dryRun (Op_sendTombstone inp) = False"
  | "message_dryRun (Op_replay inp) = ReplayInput_DryRun inp"

primrec message_serve :: "('s, 'c) Backend \<Rightarrow> Request \<Rightarrow> message_op \<Rightarrow> ('s, Envelope + int \<times> any) run" where
    "message_serve be r (Op_readMessages inp) = encoded_run wire_ReadMessagesOutput (readMessages (be_fuel be) (be_ms be) r inp)"
  | "message_serve be r (Op_getMessage inp) = ended (encoded wire_GetMessageOutput (getMessage (be_ms be) r inp))"
  | "message_serve be r (Op_searchMessages inp) = encoded_run wire_ReadMessagesOutput (searchMessages (be_compile be) (be_late be) (be_fuel be) (be_ms be) r inp)"
  | "message_serve be r (Op_filterMessages inp) = encoded_run wire_ReadMessagesOutput (filterMessages (be_jsonpath be) (be_compile be) (be_unmarshalValue be) (be_fuel be) (be_ms be) r inp)"
  | "message_serve be r (Op_produceMessages inp) = ended (encoded wire_ProduceOutput (produceMessages (be_ms be) r inp))"
  | "message_serve be r (Op_produceBulk inp) = ended (encoded wire_ProduceOutput (produceBulk (be_mediaType be) (be_unmarshalItem be) (be_unmarshalItems be) (be_ms be) r inp))"
  | "message_serve be r (Op_sendTombstone inp) = ended (encoded wire_TombstoneOutput (sendTombstone (be_ms be) r inp))"
  | "message_serve be r (Op_replay inp) = encoded_run wire_ReplayOutput (replay (be_fuel be) (be_ms be) r inp)"

section \<open>All operations\<close>

datatype operation =
    ClusterOp cluster_op
  | TopicOp topic_op
  | GroupOp group_op
  | MessageOp message_op
  | SecurityOp security_op
  | HealthOp health_op

primrec route_of :: "operation \<Rightarrow> HumaOperation" where
    "route_of (ClusterOp x) = cluster_route x"
  | "route_of (TopicOp x) = topic_route x"
  | "route_of (GroupOp x) = group_route x"
  | "route_of (MessageOp x) = message_route x"
  | "route_of (SecurityOp x) = security_route x"
  | "route_of (HealthOp x) = health_route x"

primrec dryRun_of :: "operation \<Rightarrow> bool" where
    "dryRun_of (ClusterOp x) = cluster_dryRun x"
  | "dryRun_of (TopicOp x) = topic_dryRun x"
  | "dryRun_of (GroupOp x) = group_dryRun x"
  | "dryRun_of (MessageOp x) = message_dryRun x"
  | "dryRun_of (SecurityOp x) = security_dryRun x"
  | "dryRun_of (HealthOp x) = health_dryRun x"

primrec serve :: "('s, 'c) Backend \<Rightarrow> Request \<Rightarrow> operation \<Rightarrow> ('s, Envelope + int \<times> any) run" where
    "serve be r (ClusterOp x) = ended (cluster_serve be r x)"
  | "serve be r (TopicOp x) = ended (topic_serve be r x)"
  | "serve be r (GroupOp x) = ended (group_serve be r x)"
  | "serve be r (MessageOp x) = message_serve be r x"
  | "serve be r (SecurityOp x) = ended (security_serve be r x)"
  | "serve be r (HealthOp x) = ended (health_serve be r x)"

text \<open>The command an operation is registered with: its \<open>x-command-id\<close>.\<close>

definition op_command :: "HumaOperation \<Rightarrow> string" where
  "op_command rt = (case as_str (mget (Op_Extensions rt) ANil commandIDExtension) of Some i \<Rightarrow> i | None \<Rightarrow> [])"

end
