(* ===== verification/Gateway.thy ===== *)
theory Gateway
  imports Operations
begin

text \<open>
  The HTTP composition root (\<^verbatim>\<open>internal/api/api.go\<close>, \<^verbatim>\<open>commandid.go\<close>, \<^verbatim>\<open>routelookup.go\<close>): the operations
  registered on the mux, which of them a request is routed to, the lookup that tells the API-key middleware
  the route's command, the error model installed into Huma, and the handler behind the middleware chain.

  Huma itself is a parameter: how it binds a request to an operation's input or rejects it, how it writes a
  reply, and the mux's answer to a request no operation is registered for (which includes Huma's own
  documentation routes, none of which is below \<^verbatim>\<open>/v1\<close>).
\<close>

section \<open>Registration (\<open>New\<close>, \<^verbatim>\<open>commandid.go\<close>)\<close>

definition registered :: "HumaOperation list" where
  "registered = registerHealth @ cluster_Register @ topic_Register @ group_Register @ message_Register @ security_Register"

definition implementedCommandIDs :: "(string \<times> bool) list" where
  "implementedCommandIDs = map (\<lambda>i. (i, True))
    [''C3'', ''C1'', ''C2'', ''C4'', ''T1'', ''T2'', ''T3'', ''T4'', ''M1'', ''M2'', ''M3'', ''M4'', ''M5'', ''M6'',
     ''M7'', ''G1'', ''G2'', ''G3'', ''T5'', ''T6'', ''T7'', ''T8'', ''T9'', ''T10'', ''T11'', ''T12'', ''G4'', ''G5'',
     ''G6'', ''G7'', ''M8'', ''C5'', ''C6'', ''C7'', ''C8'', ''C9'', ''C10'', ''C11'', ''C12'', ''S1'', ''S2'']"

definition Pending :: "string list" where
  "Pending = map Desc_ID (filter (\<lambda>d. \<not> mget implementedCommandIDs False (Desc_ID d)) Table)"

section \<open>Routing\<close>

text \<open>
  \<open>net/http\<close>'s patterns as the registered paths use them: a literal segment matches itself, \<^verbatim>\<open>{x}\<close> any
  non-empty segment. A pattern for GET also answers HEAD. \<open>req_Path\<close> is the path as the mux matches it,
  cleaned; a request whose path is not is redirected, which is one of the mux's own answers.
\<close>

definition is_wildcard :: "string \<Rightarrow> bool" where
  "is_wildcard seg \<longleftrightarrow> seg \<noteq> [] \<and> hd seg = CHR ''{''"

definition segment_matches :: "string \<Rightarrow> string \<Rightarrow> bool" where
  "segment_matches pat seg \<longleftrightarrow> (if is_wildcard pat then seg \<noteq> [] else pat = seg)"

definition path_matches :: "string \<Rightarrow> string \<Rightarrow> bool" where
  "path_matches pat path = list_all2 segment_matches (Split (CHR ''/'') pat) (Split (CHR ''/'') path)"

definition method_matches :: "string \<Rightarrow> string \<Rightarrow> bool" where
  "method_matches pat meth \<longleftrightarrow> pat = meth \<or> pat = ''GET'' \<and> meth = ''HEAD''"

definition route_matches :: "Request \<Rightarrow> HumaOperation \<Rightarrow> bool" where
  "route_matches r rt \<longleftrightarrow> method_matches (Op_Method rt) (req_Method r) \<and> path_matches (Op_Path rt) (req_Path r)"

definition mux_Handler :: "Request \<Rightarrow> HumaOperation option" where
  "mux_Handler r = find (route_matches r) registered"

definition pattern_of :: "HumaOperation \<Rightarrow> string" where
  "pattern_of rt = Op_Method rt @ '' '' @ Op_Path rt"

section \<open>The route's command (\<^verbatim>\<open>routelookup.go\<close>)\<close>

definition byPattern :: "HumaOperation list \<Rightarrow> (string \<times> RouteCommand) list" where
  "byPattern ops = fold (\<lambda>rt acc.
     (case Lookup (op_command rt) of
        (desc, found) \<Rightarrow> if \<not> found then acc else mput (pattern_of rt)
          \<lparr>route_CommandID = Desc_ID desc, route_CommandName = Desc_Name desc, route_IsWrite = (Desc_Access desc = W)\<rparr> acc)) ops []"

definition buildRouteLookup :: "HumaOperation list \<Rightarrow> (Request \<Rightarrow> HumaOperation option) \<Rightarrow> RouteLookup" where
  "buildRouteLookup ops mux r =
    (case mux r of None \<Rightarrow> None | Some rt \<Rightarrow> map_of (byPattern ops) (pattern_of rt))"

section \<open>The error model\<close>

text \<open>An error Huma reports: what it is as an error, and location and message where it is an \<open>ErrorDetailer\<close>.\<close>

record huma_error =
  he_error :: error
  he_detail :: "(string \<times> string) option"

text \<open>The errors of a list are interfaces, so each may be nil.\<close>

fun validationFields :: "huma_error option list \<Rightarrow> FieldError list" where
  "validationFields [] = []"
| "validationFields (None # es) = validationFields es"
| "validationFields (Some e # es) =
    (case he_detail e of
       Some (location, message) \<Rightarrow> \<lparr>fe_Field = location, fe_Message = message\<rparr>
     | None \<Rightarrow> \<lparr>fe_Field = [], fe_Message = err_Error (he_error e)\<rparr>) # validationFields es"

definition combineErrs :: "string \<Rightarrow> huma_error option list \<Rightarrow> Err" where
  "combineErrs msg errs = (case errs of [] \<Rightarrow> Some (PlainError msg) | e # _ \<Rightarrow> map_option he_error e)"

definition NewError :: "int \<Rightarrow> string \<Rightarrow> huma_error option list \<Rightarrow> Envelope" where
  "NewError status msg errs = FromInternal [] (combineErrs msg errs)"

definition NewErrorWithContext :: "Request \<Rightarrow> int \<Rightarrow> string \<Rightarrow> huma_error option list \<Rightarrow> Envelope" where
  "NewErrorWithContext r status msg errs =
    (if msg = ''validation failed'' then FromValidation (RequestIDFrom r) (validationFields errs)
     else FromInternal (RequestIDFrom r) (combineErrs msg errs))"

section \<open>The handler\<close>

record 's Huma =
  huma_Bind :: "HumaOperation \<Rightarrow> Request \<Rightarrow> (int \<times> string \<times> huma_error option list) + operation"
  huma_Write :: "Request \<Rightarrow> int \<Rightarrow> any \<Rightarrow> Writer \<Rightarrow> Writer"
  huma_Other :: "'s handler"

definition write_reply :: "'s Huma \<Rightarrow> Request \<Rightarrow> Envelope + int \<times> any \<Rightarrow> ('s \<times> Writer, unit) eff" where
  "write_reply h r x =
    (case x of
       Inl env \<Rightarrow> on_writer (huma_Write h r (GetStatus env) (Envelope_any env))
     | Inr (status, body) \<Rightarrow> on_writer (huma_Write h r status body))"

text \<open>
  The mux with the operations: a request without a route gets the mux's own answer, one that cannot be bound
  the error envelope, any other what its operation replies. The state carries whether an operation hangs.
\<close>

definition gateway_mux ::
  "('s \<times> bool) Huma \<Rightarrow> (Request \<Rightarrow> ('s, 'c) Backend) \<Rightarrow> ('s \<times> bool) handler" where
  "gateway_mux h backend r =
    (case mux_Handler r of
       None \<Rightarrow> huma_Other h r
     | Some rt \<Rightarrow>
       (case huma_Bind h rt r of
          Inl (status, msg, errs) \<Rightarrow> write_reply h r (Inl (NewErrorWithContext r status msg errs))
        | Inr x \<Rightarrow> onOk (on_state (hang (serve (backend r) r x))) (write_reply h r)))"

definition gateway ::
  "('s \<times> bool) HttpEnv \<Rightarrow> ('s \<times> bool) Deps \<Rightarrow> ('s \<times> bool) middleware \<Rightarrow> (string \<Rightarrow> (('s \<times> bool) \<times> Writer, unit) eff)
   \<Rightarrow> ('s \<times> bool) Huma \<Rightarrow> (Request \<Rightarrow> ('s, 'c) Backend) \<Rightarrow> ('s \<times> bool) handler" where
  "gateway env deps otel annotate h backend =
    api_New env deps (buildRouteLookup registered mux_Handler) otel annotate (gateway_mux h backend)"

end
