(* ===== verification/FranzClient.thy ===== *)
theory FranzClient
  imports KafkaPort "HOL-Library.Word"
begin

unbundle bit_operations_syntax

text \<open>
  The franz-go adapter apart from its admin calls (\<^verbatim>\<open>internal/kafka/franz\<close>): the classification of errors
  (\<^verbatim>\<open>errors.go\<close>), configuration sources (\<^verbatim>\<open>configsource.go\<close>), the options of a client
  (\<^verbatim>\<open>security.go\<close>, \<^verbatim>\<open>client.go\<close>), the consumer (\<^verbatim>\<open>consumer.go\<close>) and the producer with its partitioner
  (\<^verbatim>\<open>producer.go\<close>).

  The libraries are parameters. An error of theirs is what the adapter asks of it: whether it is a
  \<open>*kerr.Error\<close> with its code and name, a deadline or cancellation, a \<open>*net.OpError\<close>, and the error itself.
\<close>

section \<open>Errors (\<^verbatim>\<open>errors.go\<close>)\<close>

record lib_error =
  le_kerr :: "(int16 \<times> string) option" \<comment> \<open>\<open>errors.As\<close> a \<open>*kerr.Error\<close>: \<open>Code\<close>, \<open>Message\<close>\<close>
  le_deadline :: bool \<comment> \<open>\<open>errors.Is\<close> \<open>context.DeadlineExceeded\<close> or \<open>context.Canceled\<close>\<close>
  le_net :: bool \<comment> \<open>\<open>errors.As\<close> a \<open>*net.OpError\<close>\<close>
  le_error :: error

text \<open>The codes of the Kafka protocol that \<open>kerr\<close> names.\<close>

definition UnknownTopicOrPartition :: int16 where "UnknownTopicOrPartition = 3"
definition UnsupportedVersion :: int16 where "UnsupportedVersion = 35"
definition TopicAlreadyExists :: int16 where "TopicAlreadyExists = 36"
definition NonEmptyGroup :: int16 where "NonEmptyGroup = 68"
definition GroupIDNotFound :: int16 where "GroupIDNotFound = 69"
definition ResourceNotFound :: int16 where "ResourceNotFound = 91"

definition classify :: "int16 \<Rightarrow> kind \<times> string" where
  "classify code =
    (if code = UnknownTopicOrPartition then (KindNotFound, ''topic'')
     else if code = GroupIDNotFound then (KindNotFound, ''group'')
     else if code = TopicAlreadyExists then (KindAlreadyExists, ''topic'')
     else if code = NonEmptyGroup then (KindGroupActive, ''group'')
     else if code = UnsupportedVersion then (KindUnsupported, [])
     else if code = ResourceNotFound then (KindNotFound, [])
     else (KindBroker, []))"

definition adapter_error :: "kind \<Rightarrow> string \<Rightarrow> lib_error \<Rightarrow> error" where
  "adapter_error k resource err = KafkaError \<lparr>ke_Kind = k, ke_Resource = resource, ke_KafkaCode = 0, ke_KafkaName = []\<rparr>
     (Some (le_error err))"

definition wrap_error :: "string \<Rightarrow> lib_error \<Rightarrow> error" where
  "wrap_error resource err =
    (case le_kerr err of
       Some (code, name) \<Rightarrow>
         (case classify code of (k, res) \<Rightarrow>
           KafkaError \<lparr>ke_Kind = k, ke_Resource = (if resource \<noteq> [] then resource else res),
             ke_KafkaCode = code, ke_KafkaName = name\<rparr> (Some (le_error err)))
     | None \<Rightarrow>
         if le_deadline err then adapter_error KindTimeout resource err
         else if le_net err then adapter_error KindUnavailable resource err
         else adapter_error KindBroker resource err)"

text \<open>\<open>nil\<close> stays \<open>nil\<close>.\<close>

definition wrapErr :: "string \<Rightarrow> lib_error option \<Rightarrow> Err" where
  "wrapErr resource err = map_option (wrap_error resource) err"

text \<open>A call into a library, and the adapter's \<open>x, err := call(); if err != nil { return wrapErr(resource, err) }\<close>.\<close>

type_synonym ('s, 'a) libcall = "'s \<Rightarrow> (lib_error + 'a) \<times> 's"

definition calling :: "string \<Rightarrow> ('s, 'a) libcall \<Rightarrow> ('s, 'a) eff" where
  "calling resource call s =
    (case call s of (Inl err, s') \<Rightarrow> (Err (wrap_error resource err), s') | (Inr a, s') \<Rightarrow> (Ok a, s'))"

definition unwrap :: "string \<Rightarrow> lib_error + 'a \<Rightarrow> ('s, 'a) eff" where
  "unwrap resource r = (case r of Inl err \<Rightarrow> fail (wrap_error resource err) | Inr a \<Rightarrow> ret a)"

definition noError :: "string \<Rightarrow> lib_error option \<Rightarrow> ('s, unit) eff" where
  "noError resource err = (case err of Some e \<Rightarrow> fail (wrap_error resource e) | None \<Rightarrow> ret ())"

section \<open>Configuration sources (\<^verbatim>\<open>configsource.go\<close>)\<close>

datatype kmsg_ConfigSource = ConfigSourceUnknown | ConfigSourceDynamicTopicConfig | ConfigSourceDynamicBrokerConfig
  | ConfigSourceDynamicDefaultBrokerConfig | ConfigSourceStaticBrokerConfig | ConfigSourceDefaultConfig
  | ConfigSourceDynamicBrokerLoggerConfig | ConfigSourceClientMetricsConfig | ConfigSourceGroupConfig
  | ConfigSourceOther int

fun normalizeConfigSource :: "kmsg_ConfigSource \<Rightarrow> ConfigSource" where
  "normalizeConfigSource ConfigSourceStaticBrokerConfig = SourceStatic"
| "normalizeConfigSource ConfigSourceDynamicTopicConfig = SourceDynamic"
| "normalizeConfigSource ConfigSourceDynamicBrokerConfig = SourceDynamic"
| "normalizeConfigSource ConfigSourceDynamicDefaultBrokerConfig = SourceDynamic"
| "normalizeConfigSource ConfigSourceDynamicBrokerLoggerConfig = SourceDynamic"
| "normalizeConfigSource _ = SourceDefault"

section \<open>The options of a client (\<^verbatim>\<open>security.go\<close>, \<^verbatim>\<open>client.go\<close>)\<close>

record TLSSettings =
  tls_on :: bool
  tls_CA :: string
  tls_Cert :: string
  tls_Key :: string

record SASLSettings =
  sasl_mechanism :: string
  sasl_user :: string
  sasl_secret :: string

record FranzConfig =
  FC_Bootstrap :: "string list"
  FC_RequestTimeout :: int64
  FC_TLS :: TLSSettings
  FC_SASL :: SASLSettings

datatype tls_version = VersionTLS12

record ('pool, 'cert) tls_Config =
  tlsc_MinVersion :: tls_version
  tlsc_RootCAs :: "'pool option"
  tlsc_Certificates :: "'cert list"

datatype sasl_mech = PlainAuth string string | ScramSha256Auth string string | ScramSha512Auth string string | OAuthToken string

datatype isolation = ReadUncommitted | ReadCommitted

text \<open>The \<open>kgo.Opt\<close>s the adapter passes.\<close>

datatype ('pool, 'cert) kgo_Opt = SeedBrokers "string list" | WithKotelHooks | FetchIsolationLevel isolation
  | RequiredAcksAllISR | ExplicitOrDefaultPartitioner | RequestTimeoutOverhead int64
  | DialTLSConfig "('pool, 'cert) tls_Config" | SASLOpt sasl_mech

text \<open>The files: \<open>os.ReadFile\<close>, \<open>AppendCertsFromPEM\<close> on a new pool, \<open>tls.LoadX509KeyPair\<close>.\<close>

record ('pool, 'cert) Files =
  fs_ReadFile :: "string \<Rightarrow> error + bytes"
  fs_AppendCertsFromPEM :: "bytes \<Rightarrow> 'pool option"
  fs_LoadX509KeyPair :: "string \<Rightarrow> string \<Rightarrow> error + 'cert"

definition loadCAPool :: "('pool, 'cert) Files \<Rightarrow> string \<Rightarrow> error + 'pool" where
  "loadCAPool fs path =
    (case fs_ReadFile fs path of
       Inl err \<Rightarrow> Inl err
     | Inr pem \<Rightarrow> (case fs_AppendCertsFromPEM fs pem of
         None \<Rightarrow> Inl (PlainError (''no PEM certificates found in '' @ path))
       | Some pool \<Rightarrow> Inr pool))"

definition tlsOpt :: "('pool, 'cert) Files \<Rightarrow> TLSSettings \<Rightarrow> error + ('pool, 'cert) kgo_Opt option" where
  "tlsOpt fs c =
    (if \<not> tls_on c then Inr None
     else (case (if tls_CA c \<noteq> [] then map_sum (WrapError ''franz: TLS CA file: '') Some (loadCAPool fs (tls_CA c))
                 else Inr None) of
         Inl err \<Rightarrow> Inl err
       | Inr pool \<Rightarrow>
         (case (if tls_Cert c \<noteq> [] then map_sum (WrapError ''franz: TLS client certificate: '') (\<lambda>x. [x])
                     (fs_LoadX509KeyPair fs (tls_Cert c) (tls_Key c))
                else Inr []) of
            Inl err \<Rightarrow> Inl err
          | Inr certs \<Rightarrow> Inr (Some (DialTLSConfig
              \<lparr>tlsc_MinVersion = VersionTLS12, tlsc_RootCAs = pool, tlsc_Certificates = certs\<rparr>)))))"

definition saslOpt :: "SASLSettings \<Rightarrow> error + ('pool, 'cert) kgo_Opt option" where
  "saslOpt c =
    (let m = sasl_mechanism c in
     if m = [] then Inr None
     else if m = ''PLAIN'' then Inr (Some (SASLOpt (PlainAuth (sasl_user c) (sasl_secret c))))
     else if m = ''SCRAM-SHA-256'' then Inr (Some (SASLOpt (ScramSha256Auth (sasl_user c) (sasl_secret c))))
     else if m = ''SCRAM-SHA-512'' then Inr (Some (SASLOpt (ScramSha512Auth (sasl_user c) (sasl_secret c))))
     else if m = ''OAUTHBEARER'' then Inr (Some (SASLOpt (OAuthToken (sasl_secret c))))
     else Inl (PlainError (''franz: SASL mechanism: unknown '' @ quoted m)))"

text \<open>What \<open>New\<close> and \<open>NewConsumer\<close> have in common: the options after their own first ones.\<close>

definition with_connection ::
  "('pool, 'cert) Files \<Rightarrow> FranzConfig \<Rightarrow> ('pool, 'cert) kgo_Opt list \<Rightarrow> error + ('pool, 'cert) kgo_Opt list" where
  "with_connection fs c opts =
    (let opts = (if FC_RequestTimeout c > 0 then opts @ [RequestTimeoutOverhead (FC_RequestTimeout c)] else opts) in
     case tlsOpt fs (FC_TLS c) of
       Inl err \<Rightarrow> Inl err
     | Inr t \<Rightarrow> (case saslOpt (FC_SASL c) of
         Inl err \<Rightarrow> Inl err
       | Inr s \<Rightarrow> Inr (opts @ (case t of None \<Rightarrow> [] | Some x \<Rightarrow> [x]) @ (case s of None \<Rightarrow> [] | Some x \<Rightarrow> [x]))))"

text \<open>\<open>newClient\<close> is \<open>kgo.NewClient\<close>.\<close>

definition franz_New ::
  "('pool, 'cert) Files \<Rightarrow> (('pool, 'cert) kgo_Opt list \<Rightarrow> error + 'client) \<Rightarrow> FranzConfig \<Rightarrow> error + 'client" where
  "franz_New fs newClient c =
    (case with_connection fs c
        [SeedBrokers (FC_Bootstrap c), WithKotelHooks, RequiredAcksAllISR, ExplicitOrDefaultPartitioner] of
       Inl err \<Rightarrow> Inl err
     | Inr opts \<Rightarrow> newClient opts)"

definition isolationLevelOpt :: "string \<Rightarrow> isolation" where
  "isolationLevelOpt level = (if level = ''read_uncommitted'' then ReadUncommitted else ReadCommitted)"

definition franz_NewConsumer ::
  "('pool, 'cert) Files \<Rightarrow> (('pool, 'cert) kgo_Opt list \<Rightarrow> error + 'client) \<Rightarrow> FranzConfig \<Rightarrow> string \<Rightarrow> error + 'client" where
  "franz_NewConsumer fs newClient c isolationLevel =
    (case with_connection fs c
        [SeedBrokers (FC_Bootstrap c), WithKotelHooks, FetchIsolationLevel (isolationLevelOpt isolationLevel)] of
       Inl err \<Rightarrow> Inl err
     | Inr opts \<Rightarrow> newClient opts)"

section \<open>Records\<close>

record kgo_Record =
  kr_Topic :: string
  kr_Partition :: int32
  kr_Offset :: int64
  kr_Timestamp :: time
  kr_Key :: "bytes option"
  kr_Value :: "bytes option"
  kr_Headers :: "(string \<times> bytes) list"

section \<open>The consumer (\<^verbatim>\<open>consumer.go\<close>)\<close>

definition toDomainRecord :: "kgo_Record \<Rightarrow> Record" where
  "toDomainRecord r = \<lparr>Record_Topic = kr_Topic r, Record_Partition = kr_Partition r, Record_Offset = kr_Offset r,
     Record_Timestamp = kr_Timestamp r, Record_Key = kr_Key r, Record_Value = kr_Value r,
     Record_Headers = map (\<lambda>(k, v). \<lparr>Header_Key = k, Header_Value = v\<rparr>) (kr_Headers r)\<rparr>"

record 's KgoConsumer =
  kgo_AddConsumePartitions :: "(string \<times> (int32 \<times> int64) list) list \<Rightarrow> 's \<Rightarrow> 's"
  kgo_PollFetches :: "('s, kgo_Record list) libcall" \<comment> \<open>\<open>fetches.Err()\<close>, or \<open>fetches.Records()\<close>\<close>
  kgo_CloseConsumer :: "'s \<Rightarrow> 's"

definition franz_Assign :: "'s KgoConsumer \<Rightarrow> string \<Rightarrow> int32 list \<Rightarrow> (int32 \<times> int64) list \<Rightarrow> ('s, unit) eff" where
  "franz_Assign k topic partitions startOffsets =
    act (\<lambda>s. ((), kgo_AddConsumePartitions k
      [(topic, fold (\<lambda>p. mput p (mget startOffsets 0 p)) partitions [])] s))"

definition franz_Poll :: "'s KgoConsumer \<Rightarrow> ('s, Record list) eff" where
  "franz_Poll k = onOk (calling [] (kgo_PollFetches k)) (\<lambda>records. ret (map toDomainRecord records))"

definition franz_consumer :: "'s KgoConsumer \<Rightarrow> 's Consumer" where
  "franz_consumer k = \<lparr>Assign = franz_Assign k, Poll = franz_Poll k, Close = act (\<lambda>s. ((), kgo_CloseConsumer k s))\<rparr>"

section \<open>The producer (\<^verbatim>\<open>producer.go\<close>)\<close>

definition unsetPartition :: int32 where "unsetPartition = - 1"

text \<open>\<open>hash/fnv\<close>'s 32-bit FNV-1a.\<close>

definition fnv32a :: "bytes \<Rightarrow> 32 word" where
  "fnv32a key = fold (\<lambda>c h. (h XOR of_nat (of_char c)) * 16777619) key 2166136261"

definition go_rem :: "int \<Rightarrow> int \<Rightarrow> int" where
  "go_rem a b = a - b * go_div a b"

text \<open>
  One topic's partitioner; the state is its counter. \<open>% n\<close> panics on \<open>n = 0\<close>. \<open>int\<close> has 64 bits, so the
  unsigned hash stays what it is.
\<close>

definition franz_Partition :: "kgo_Record \<Rightarrow> int \<Rightarrow> (int64, int) eff" where
  "franz_Partition r n =
    (if kr_Partition r \<noteq> unsetPartition then ret (kr_Partition r)
     else if (case kr_Key r of None \<Rightarrow> True | Some k \<Rightarrow> k = []) then
       onOk (act (\<lambda>nxt. (wrap64 (nxt + 1), wrap64 (nxt + 1)))) (\<lambda>added.
         if n = 0 then panic else ret (go_rem (wrap64 (added - 1)) n))
     else if n = 0 then panic
     else ret (go_rem (uint (fnv32a (case kr_Key r of Some k \<Rightarrow> k | None \<Rightarrow> []))) n))"

record ProduceSyncResult =
  psr_Err :: "lib_error option"
  psr_Record :: kgo_Record

record 's KgoProducer =
  kgo_ProduceSync :: "kgo_Record list \<Rightarrow> 's \<Rightarrow> ProduceSyncResult list \<times> 's"
  kgo_timeNow :: "'s \<Rightarrow> time \<times> 's"

definition to_kgo_Record :: "string \<Rightarrow> ProduceRequest \<Rightarrow> kgo_Record" where
  "to_kgo_Record topic r = \<lparr>kr_Topic = topic,
     kr_Partition = (case ProduceRequest_Partition r of Some p \<Rightarrow> p | None \<Rightarrow> unsetPartition),
     kr_Offset = 0, kr_Timestamp = ProduceRequest_Timestamp r, kr_Key = ProduceRequest_Key r,
     kr_Value = ProduceRequest_Value r,
     kr_Headers = map (\<lambda>h. (Header_Key h, Header_Value h)) (ProduceRequest_Headers r)\<rparr>"

definition fromSyncResult :: "'s KgoProducer \<Rightarrow> ProduceSyncResult \<Rightarrow> ('s, ProduceResult) eff" where
  "fromSyncResult k res =
    (case psr_Err res of
       Some err \<Rightarrow> ret \<lparr>ProduceResult_Partition = 0, ProduceResult_Offset = 0, ProduceResult_Timestamp = zeroTime,
         ProduceResult_Err = Some (wrap_error ''partition'' err)\<rparr>
     | None \<Rightarrow>
         (let ts = kr_Timestamp (psr_Record res) in
          onOk (if ts = zeroTime then act (kgo_timeNow k) else ret ts) (\<lambda>t.
            ret \<lparr>ProduceResult_Partition = kr_Partition (psr_Record res), ProduceResult_Offset = kr_Offset (psr_Record res),
              ProduceResult_Timestamp = t, ProduceResult_Err = None\<rparr>)))"

text \<open>A loop that fills a slice of the same length.\<close>

definition collect :: "('a \<Rightarrow> ('s, 'b) eff) \<Rightarrow> 'a list \<Rightarrow> ('s, 'b list) eff" where
  "collect f xs = forEach xs (\<lambda>x out. onOk (f x) (\<lambda>y. ret (out @ [y]))) []"

definition franz_Produce :: "'s KgoProducer \<Rightarrow> string \<Rightarrow> ProduceRequest list \<Rightarrow> ('s, ProduceResult list) eff" where
  "franz_Produce k topic records =
    onOk (act (kgo_ProduceSync k (map (to_kgo_Record topic) records))) (\<lambda>results. collect (fromSyncResult k) results)"

definition franz_producer :: "'s KgoProducer \<Rightarrow> 's Producer" where
  "franz_producer k = \<lparr>Produce = franz_Produce k\<rparr>"

end
