(* ===== verification/AppRun.thy ===== *)
theory AppRun
  imports AppSetup ConfigLoad GoTime Gateway FranzClient
begin

text \<open>
  The composition root (\<^verbatim>\<open>internal/app/run.go\<close>, \<^verbatim>\<open>shutdown.go\<close>) and the two audit sinks it chooses from
  (\<^verbatim>\<open>internal/audit/sink_slog.go\<close>, \<^verbatim>\<open>sink_kafka.go\<close>): the gateway's dependencies from the configuration,
  the auditor with the start-up check of its topic, and the order of the shutdown.

  Parameters: the constructed Kafka client (\<open>FranzClient\<close> has its options), the logger, \<open>encoding/json\<close>'s text of a
  value, the HTTP server and the telemetry providers.
\<close>

section \<open>Audit sinks\<close>

text \<open>The event with its JSON tags. \<open>omitempty\<close> leaves out nil pointers, empty strings and empty slices.\<close>

definition json_Target :: "Target \<Rightarrow> any" where
  "json_Target t = AMap ([(''type'', AStr (Target_Type t)), (''name'', AStr (Target_Name t))]
     @ (if Target_Partitions t = [] then [] else [(''partitions'', AList (map AInt (Target_Partitions t)))]))"

definition json_AuditCaller :: "AuditCaller \<Rightarrow> any" where
  "json_AuditCaller c = AMap [(''keyId'', case AuditCaller_KeyID c of None \<Rightarrow> ANil | Some k \<Rightarrow> AStr k),
     (''tier'', AStr (AuditCaller_Tier c)), (''clientIp'', AStr (AuditCaller_ClientIP c))]"

fun Severity_string :: "Severity \<Rightarrow> string" where
  "Severity_string SeverityInfo = ''INFO''"
| "Severity_string SeverityWarn = ''WARN''"
| "Severity_string SeverityHigh = ''HIGH''"
| "Severity_string SeverityUnset = []"

definition json_Event :: "Event \<Rightarrow> any" where
  "json_Event ev = AMap (
     [(''eventId'', AStr (Event_EventID ev)), (''timestamp'', AStr (format_RFC3339Nano (Event_Timestamp ev))),
      (''requestId'', AStr (Event_RequestID ev)), (''phase'', AStr (Phase_string (Event_Phase ev))),
      (''severity'', AStr (Severity_string (Event_Severity ev))), (''commandId'', AStr (Event_CommandID ev)),
      (''commandName'', AStr (Event_CommandName ev)), (''target'', json_Target (Event_Target ev)),
      (''caller'', json_AuditCaller (Event_Caller ev)), (''dryRun'', ABool (Event_DryRun ev))]
     @ (case Event_BreakGlass ev of None \<Rightarrow> [] | Some reason \<Rightarrow> [(''breakGlass'', AMap [(''reason'', AStr reason)])])
     @ (if Event_Outcome ev = OutcomeUnset then [] else [(''outcome'', AStr (Outcome_string (Event_Outcome ev)))])
     @ (case Event_Error ev of None \<Rightarrow> [] | Some code \<Rightarrow> [(''error'', AMap [(''code'', AStr code)])])
     @ (case Event_DurationMs ev of None \<Rightarrow> [] | Some ms \<Rightarrow> [(''durationMs'', AInt ms)]))"

text \<open>\<open>json.Marshal(ev)\<close>: the one thing in an event that cannot be encoded is a year past four digits.\<close>

definition marshal_Event :: "(any \<Rightarrow> bytes) \<Rightarrow> Event \<Rightarrow> error + bytes" where
  "marshal_Event json_text ev =
    (case civil (Event_Timestamp ev div second_ns div 86400 + epoch_day) of (year, month, day) \<Rightarrow>
       if year < 0 \<or> year > 9999
       then Inl (PlainError ''json: error calling MarshalJSON for type time.Time: Time.MarshalJSON: year outside of range [0,9999]'')
       else Inr (json_text (json_Event ev)))"

definition value_request :: "bytes \<Rightarrow> ProduceRequest" where
  "value_request v = \<lparr>ProduceRequest_Key = None, ProduceRequest_Value = Some v, ProduceRequest_Headers = [],
     ProduceRequest_Partition = None, ProduceRequest_Timestamp = zeroTime\<rparr>"

text \<open>\<open>results, err := producer.Produce(...)\<close> of one record, and what both callers make of it.\<close>

definition produce_value :: "string \<Rightarrow> 's Producer \<Rightarrow> string \<Rightarrow> bytes \<Rightarrow> ('s, unit) eff" where
  "produce_value prefix producer topic v =
    attempt (Produce producer topic [value_request v]) (\<lambda>x. case x of
      Inl err \<Rightarrow> fail (WrapError prefix err)
    | Inr results \<Rightarrow> (case results of
        [] \<Rightarrow> ret ()
      | r # _ \<Rightarrow> (case ProduceResult_Err r of Some err \<Rightarrow> fail (WrapError prefix err) | None \<Rightarrow> ret ())))"

definition KafkaSink_Write :: "(any \<Rightarrow> bytes) \<Rightarrow> 's Producer \<Rightarrow> string \<Rightarrow> 's Sink" where
  "KafkaSink_Write json_text producer topic ev =
    (case marshal_Event json_text ev of
       Inl err \<Rightarrow> fail (WrapError ''audit: marshal event: '' err)
     | Inr v \<Rightarrow> produce_value ''audit: produce: '' producer topic v)"

text \<open>\<open>logger.LogAttrs\<close> returns nothing, so a line that cannot be written is no error.\<close>

definition SlogSink_Write :: "(any \<Rightarrow> bytes) \<Rightarrow> (bytes \<Rightarrow> ('s, unit) eff) \<Rightarrow> 's Sink" where
  "SlogSink_Write json_text logAttrs ev =
    (case marshal_Event json_text ev of
       Inl err \<Rightarrow> fail (WrapError ''audit: marshal event: '' err)
     | Inr v \<Rightarrow> logAttrs v)"

section \<open>The auditor and its start-up check\<close>

definition verifyAuditTopic :: "'s Admin \<Rightarrow> 's Producer \<Rightarrow> string \<Rightarrow> ('s, unit) eff" where
  "verifyAuditTopic adm producer topic =
    attempt (DescribeTopics adm topic) (\<lambda>x. case x of
      Inl err \<Rightarrow> fail (WrapError ''describe: '' err)
    | Inr _ \<Rightarrow> produce_value ''probe produce: '' producer topic ''{\"probe\":\"startup\"}'')"

definition auditHealthAfterVerify ::
  "(string \<Rightarrow> error \<Rightarrow> ('s, unit) eff) \<Rightarrow> 's Admin \<Rightarrow> 's Producer \<Rightarrow> string \<Rightarrow> ('s, bool) eff" where
  "auditHealthAfterVerify logError adm producer topic =
    attempt (verifyAuditTopic adm producer topic) (\<lambda>x. case x of
      Inl err \<Rightarrow> onOk (logError topic err) (\<lambda>_. ret False)
    | Inr _ \<Rightarrow> ret True)"

text \<open>A Kafka client: its admin and producer under a context, and \<open>Close\<close>.\<close>

record ('s, 'c) KafkaClient =
  kc_admin :: "'c \<Rightarrow> 's Admin"
  kc_producer :: "'c \<Rightarrow> 's Producer"
  kc_Close :: "('s, unit) eff"

text \<open>
  The auditor is a function of the request's context; \<open>timeout\<close> is \<open>context.WithTimeout\<close> on the start-up
  context.
\<close>

definition newAuditor ::
  "(any \<Rightarrow> bytes) \<Rightarrow> (bytes \<Rightarrow> ('s, unit) eff) \<Rightarrow> (string \<Rightarrow> error \<Rightarrow> ('s, unit) eff)
   \<Rightarrow> ('s, ('s, 'c) KafkaClient) eff \<Rightarrow> (int64 \<Rightarrow> 'c) \<Rightarrow> Config
   \<Rightarrow> ('s, ('c \<Rightarrow> 's Auditor) \<times> bool \<times> ('s, 'c) KafkaClient option) eff" where
  "newAuditor json_text logAttrs logError newClient timeout cfg =
    (let topic = audit_Topic (Config_Audit cfg); slogSink = SlogSink_Write json_text logAttrs in
     if audit_Sink (Config_Audit cfg) \<noteq> AuditSinkKafka then ret (\<lambda>_. [slogSink], True, None)
     else attempt newClient (\<lambda>x. case x of
         Inl err \<Rightarrow> fail (WrapError ''app: audit kafka client: '' err)
       | Inr client \<Rightarrow>
         (let verifyCtx = timeout (kafka_RequestTimeout (Config_Kafka cfg)) in
          onOk (auditHealthAfterVerify logError (kc_admin client verifyCtx) (kc_producer client verifyCtx) topic) (\<lambda>healthy.
            ret (\<lambda>ctx. [slogSink, KafkaSink_Write json_text (kc_producer client ctx) topic], healthy, Some client)))))"

definition auditStatus :: "AuditConfig \<Rightarrow> bool \<Rightarrow> ('s, string \<times> bool) eff" where
  "auditStatus a healthy = ret (audit_Sink a, healthy)"

section \<open>The handler's dependencies\<close>

text \<open>The fields of \<open>api.Deps\<close> that come from the configuration; the others are the client and the auditor.\<close>

record 's AppDeps =
  app_Deps :: "'s Deps"
  app_Policy :: Policy
  app_PageBounds :: PageBounds
  app_MessageBounds :: Bounds
  app_DocsEnabled :: bool

definition to_range :: "ConfigRange \<Rightarrow> Range" where
  "to_range r = \<lparr>Range_Default = range_Default r, Range_Ceiling = range_Ceiling r\<rparr>"

definition newHandler :: "Config \<Rightarrow> 's Auditor \<Rightarrow> message + 's AppDeps" where
  "newHandler cfg auditor =
    (case mapKeys (auth_Keys (Config_Auth cfg)) of
       Inl msg \<Rightarrow> Inl msg
     | Inr keys \<Rightarrow>
     (case parseCIDRs (http_TrustedProxies (Config_HTTP cfg)) of
       Inl msg \<Rightarrow> Inl msg
     | Inr trustedProxies \<Rightarrow>
       (let b = Config_Bounds cfg; scan = bounds_Scan b; page = page_Size (bounds_Page b) in
        Inr \<lparr>app_Deps = \<lparr>dep_Auditor = Some auditor, dep_Keys = keys, dep_AuthEnabled = auth_Enabled (Config_Auth cfg),
            dep_CORSOrigins = cors_Origins (http_CORS (Config_HTTP cfg)), dep_TrustedProxies = trustedProxies\<rparr>,
          app_Policy = mapPolicy (auth_Enabled (Config_Auth cfg)) (Config_Policy cfg),
          app_PageBounds = \<lparr>PageBounds_Default = range_Default page, PageBounds_Ceiling = range_Ceiling page\<rparr>,
          app_MessageBounds = \<lparr>Bounds_Limit = to_range (read_Limit (bounds_Read b)),
            Bounds_MaxScan = to_range (scan_MaxScan scan), Bounds_MaxMatches = to_range (scan_MaxMatches scan),
            Bounds_MaxBytes = to_range (scan_MaxBytes scan), Bounds_MaxTime = to_range (scan_MaxTime scan),
            Bounds_RegexTimeout = scan_RegexTimeout scan, Bounds_MaxBulkBodyBytes = bounds_BulkProduceBody b,
            Bounds_Replay = to_range (replay_Limit (bounds_Replay b))\<rparr>,
          app_DocsEnabled = docs_Enabled (http_Docs (Config_HTTP cfg))\<rparr>)))"

section \<open>The Kafka connections and the HTTP server\<close>

definition franzConfig :: "Config \<Rightarrow> FranzConfig" where
  "franzConfig cfg =
    (let k = Config_Kafka cfg in
     \<lparr>FC_Bootstrap = kafka_Bootstrap k, FC_RequestTimeout = kafka_RequestTimeout k,
      FC_TLS = \<lparr>tls_on = ktls_Enabled (kafka_TLS k), tls_CA = ktls_CAFile (kafka_TLS k),
        tls_Cert = ktls_CertFile (kafka_TLS k), tls_Key = ktls_KeyFile (kafka_TLS k)\<rparr>,
      FC_SASL = \<lparr>sasl_mechanism = sasl_Mechanism (kafka_SASL k), sasl_user = sasl_Username (kafka_SASL k),
        sasl_secret = sasl_Password (kafka_SASL k)\<rparr>\<rparr>)"

text \<open>\<open>NewConsumer\<close> is the adapter's constructor, given the connection and the isolation level.\<close>

definition newConsumerFactory :: "(FranzConfig \<Rightarrow> string \<Rightarrow> ('s, 'consumer) eff) \<Rightarrow> Config \<Rightarrow> ('s, 'consumer) eff" where
  "newConsumerFactory NewConsumer cfg =
    NewConsumer (franzConfig cfg) (cons_IsolationLevel (kafka_Consumer (Config_Kafka cfg)))"

record ('handler, 'cert) HttpServer =
  server_Addr :: string
  server_Handler :: 'handler
  server_ReadHeaderTimeout :: int64
  server_IdleTimeout :: int64
  server_WriteTimeout :: int64
  server_TLS :: "'cert option"

definition newServer ::
  "(string \<Rightarrow> string \<Rightarrow> ('s, 'cert) eff) \<Rightarrow> HTTPConfig \<Rightarrow> 'handler \<Rightarrow> ('s, ('handler, 'cert) HttpServer) eff" where
  "newServer loadKeyPair h handler =
    (let server = \<lparr>server_Addr = http_Addr h, server_Handler = handler,
        server_ReadHeaderTimeout = http_ReadHeaderTimeout h, server_IdleTimeout = http_IdleTimeout h,
        server_WriteTimeout = http_WriteTimeout h, server_TLS = None\<rparr> in
     if ltls_CertFile (http_TLS h) \<noteq> [] then
       attempt (loadKeyPair (ltls_CertFile (http_TLS h)) (ltls_KeyFile (http_TLS h))) (\<lambda>x. case x of
         Inl err \<Rightarrow> fail (WrapError ''app: HTTP TLS certificate: '' err)
       | Inr cert \<Rightarrow> ret (server\<lparr>server_TLS := Some cert\<rparr>))
     else ret server)"

section \<open>Shutdown\<close>

text \<open>
  \<open>stopped\<close> is what ends the wait: \<open>Some\<close> what \<open>Serve\<close> returned before the context was done (nil for
  \<open>ErrServerClosed\<close>), \<open>None\<close> when the context ended first.
\<close>

definition runServer ::
  "Err option \<Rightarrow> ('s, unit) eff \<Rightarrow> ('s, unit) eff \<Rightarrow> ('s, unit) eff list \<Rightarrow> ('s, unit) eff \<Rightarrow> ('s, unit) eff" where
  "runServer stopped shutdownHTTP shutdownTelemetry closers logComplete =
    (case stopped of
       Some None \<Rightarrow> ret ()
     | Some (Some err) \<Rightarrow> fail err
     | None \<Rightarrow>
       attempt shutdownHTTP (\<lambda>x. case x of
         Inl err \<Rightarrow> fail (WrapError ''app: HTTP shutdown: '' err)
       | Inr _ \<Rightarrow>
       attempt shutdownTelemetry (\<lambda>y. case y of
         Inl err \<Rightarrow> fail (WrapError ''app: telemetry shutdown: '' err)
       | Inr _ \<Rightarrow>
         onOk (forEach closers (\<lambda>c _. c) ()) (\<lambda>_. logComplete))))"

section \<open>Run\<close>

text \<open>
  What \<open>Run\<close> asks of its surroundings: the telemetry providers, a new Kafka client, \<open>api.New\<close> over the
  dependencies, the key pair of the server, the listener, the wait for the server or the signal, and the
  steps of the shutdown.
\<close>

record ('s, 'c, 'handler, 'cert, 'listener) Platform =
  pf_newProviders :: "Telemetry \<Rightarrow> ('s, ('s, unit) eff) eff" \<comment> \<open>the providers' \<open>Shutdown\<close>\<close>
  pf_newClient :: "FranzConfig \<Rightarrow> ('s, ('s, 'c) KafkaClient) eff"
  pf_apiNew :: "('s, 'c) KafkaClient \<Rightarrow> ('c \<Rightarrow> 's AppDeps) \<Rightarrow> ('s, string \<times> bool) eff \<Rightarrow> 'handler"
  pf_loadKeyPair :: "string \<Rightarrow> string \<Rightarrow> ('s, 'cert) eff"
  pf_listen :: "string \<Rightarrow> ('s, 'listener) eff"
  pf_serve :: "'listener \<Rightarrow> ('handler, 'cert) HttpServer \<Rightarrow> ('s, Err option) eff"
  pf_shutdownHTTP :: "int64 \<Rightarrow> ('s, unit) eff"
  pf_logAttrs :: "bytes \<Rightarrow> ('s, unit) eff"
  pf_logError :: "string \<Rightarrow> error \<Rightarrow> ('s, unit) eff"
  pf_logInfo :: "string \<Rightarrow> ('s, unit) eff"
  pf_timeout :: "int64 \<Rightarrow> 'c"
  pf_background :: 'c

text \<open>
  The dependencies under a request's context; the checks of \<open>newHandler\<close> that may fail do not depend on it.
\<close>

definition handler_of ::
  "('s, 'c, 'handler, 'cert, 'listener) Platform \<Rightarrow> Config \<Rightarrow> ('s, 'c) KafkaClient \<Rightarrow> ('c \<Rightarrow> 's Auditor) \<Rightarrow> bool
   \<Rightarrow> message + 'handler" where
  "handler_of pf cfg client auditor healthy =
    (case newHandler cfg (auditor (pf_background pf)) of
       Inl msg \<Rightarrow> Inl msg
     | Inr deps \<Rightarrow> Inr (pf_apiNew pf client
         (\<lambda>ctx. deps\<lparr>app_Deps := (app_Deps deps)\<lparr>dep_Auditor := Some (auditor ctx)\<rparr>\<rparr>)
         (auditStatus (Config_Audit cfg) healthy)))"

definition Run ::
  "(any \<Rightarrow> bytes) \<Rightarrow> (message \<Rightarrow> error) \<Rightarrow> ('s, 'c, 'handler, 'cert, 'listener) Platform \<Rightarrow> Config \<Rightarrow> ('s, unit) eff" where
  "Run json_text msg_error pf cfg =
    attempt (pf_newProviders pf (Config_Telemetry cfg)) (\<lambda>x. case x of
      Inl err \<Rightarrow> fail (WrapError ''app: telemetry: '' err)
    | Inr shutdownTelemetry \<Rightarrow>
    attempt (pf_newClient pf (franzConfig cfg)) (\<lambda>x. case x of
      Inl err \<Rightarrow> fail (WrapError ''app: kafka client: '' err)
    | Inr client \<Rightarrow>
    attempt (newAuditor json_text (pf_logAttrs pf) (pf_logError pf) (pf_newClient pf (franzConfig cfg))
        (pf_timeout pf) cfg) (\<lambda>x. case x of
      Inl err \<Rightarrow> fail (WrapError ''app: audit: '' err)
    | Inr (auditor, healthy, auditClient) \<Rightarrow>
      (let closers = kc_Close client # (case auditClient of Some c \<Rightarrow> [kc_Close c] | None \<Rightarrow> []) in
       case handler_of pf cfg client auditor healthy of
         Inl msg \<Rightarrow> fail (msg_error msg)
       | Inr handler \<Rightarrow>
    onOk (newServer (pf_loadKeyPair pf) (Config_HTTP cfg) handler) (\<lambda>server.
    attempt (pf_listen pf (http_Addr (Config_HTTP cfg))) (\<lambda>x. case x of
      Inl err \<Rightarrow> fail (WrapError (''app: listen on '' @ http_Addr (Config_HTTP cfg) @ '': '') err)
    | Inr listener \<Rightarrow>
    onOk (pf_logInfo pf (''listening on '' @ http_Addr (Config_HTTP cfg))) (\<lambda>_.
    onOk (pf_serve pf listener server) (\<lambda>stopped.
      runServer stopped (pf_shutdownHTTP pf (http_WriteTimeout (Config_HTTP cfg))) shutdownTelemetry closers
        (pf_logInfo pf ''shutdown complete'')))))))))"

section \<open>Command line (\<^verbatim>\<open>cmd/gateway/main.go\<close>, \<^verbatim>\<open>probe.go\<close>)\<close>

definition probePath :: "string list \<Rightarrow> string option" where
  "probePath args =
    (let live = ''--live'' \<in> set args; ready = ''--ready'' \<in> set args in
     if live \<and> \<not> ready then Some ''/health/live''
     else if ready \<and> \<not> live then Some ''/health/ready'' else None)"

fun envValue :: "string list \<Rightarrow> string \<Rightarrow> string" where
  "envValue [] name = []"
| "envValue (e # es) name = (case CutPrefix e (name @ ''='') of Some v \<Rightarrow> v | None \<Rightarrow> envValue es name)"

definition probeAddr :: string where "probeAddr = ''http://127.0.0.1:8080''"
definition probeAPIKeyEnv :: string where "probeAPIKeyEnv = ''KGW_PROBE_API_KEY''"

text \<open>\<open>get\<close> is the HTTP client: the status of a GET with these headers, or a transport error.\<close>

definition probeCheck ::
  "(string \<Rightarrow> (string \<times> string) list \<Rightarrow> ('s, int) eff) \<Rightarrow> string \<Rightarrow> string \<Rightarrow> string \<Rightarrow> ('s, int) eff" where
  "probeCheck get baseURL path apiKey =
    attempt (get (baseURL @ ''/v1'' @ path) (if apiKey \<noteq> [] then [(HeaderAPIKey, apiKey)] else [])) (\<lambda>x. case x of
      Inl err \<Rightarrow> ret 1
    | Inr status \<Rightarrow> if status \<noteq> 200 then ret 1 else ret 0)"

definition runProbe :: "(string \<Rightarrow> (string \<times> string) list \<Rightarrow> ('s, int) eff) \<Rightarrow> string list \<Rightarrow> string list \<Rightarrow> ('s, int) eff" where
  "runProbe get args environ =
    (case probePath args of
       None \<Rightarrow> ret 2
     | Some path \<Rightarrow> probeCheck get probeAddr path (envValue environ probeAPIKeyEnv))"

text \<open>The dispatch of \<open>run\<close>: which command, with which arguments.\<close>

datatype subcommand = SubVersion | SubProbe "string list" | SubKeygen "string list" | SubServe "string list"

definition dispatch :: "string list \<Rightarrow> subcommand" where
  "dispatch args =
    (case args of
       [] \<Rightarrow> SubServe []
     | a # rest \<Rightarrow>
         if a = ''--version'' then SubVersion
         else if a = ''probe'' then SubProbe rest
         else if a = ''keygen'' then SubKeygen rest
         else if a = ''serve'' then SubServe rest
         else SubServe args)"

text \<open>\<open>runServe\<close>: the exit code of serving with what the configuration file and the environment say.\<close>

definition runServe :: "Koanf \<Rightarrow> (Config \<Rightarrow> ('s, unit) eff) \<Rightarrow> string list \<Rightarrow> string list \<Rightarrow> ('s, int) eff" where
  "runServe k appRun args environ =
    (case Load k (PathFromArgs args environ) environ of
       Inl err \<Rightarrow> ret 1
     | Inr cfg \<Rightarrow> attempt (appRun cfg) (\<lambda>x. case x of Inl err \<Rightarrow> ret 1 | Inr _ \<Rightarrow> ret 0))"

end
