(* ===== verification/TopicProps.thy ===== *)
theory TopicProps
  imports TopicService LiveReads
begin

text \<open>
  The topic commands over the assembled gateway: what an executed deletion, truncation and purge do to
  the cluster and to the audit trail, and that no command panics on a result slice.
\<close>

section \<open>Deleting a topic\<close>

lemma PlanDelete_live:
  assumes "live w" "map_of (m_topics (model_of w)) t = Some ft"
  shows "\<exists>p w1. PlanDelete (world_service Background pol) t w = (Ok p, w1) \<and> DTP_Topic p = t
     \<and> live w1 \<and> model_of w1 = model_of w \<and> audit_trail w1 = audit_trail w"
  using assms
  by (simp add: PlanDelete_def topic_Describe_def onOk_def live_topic_reads ret_run Let_def toDomainTopic_def)

lemma ApplyDelete_live:
  assumes "live w" "map_of (m_topics (model_of w)) (DTP_Topic p) = Some ft"
  shows "ApplyDelete (world_service Background pol) p w = (Ok (DTP_Topic p),
     log_call ''DeleteTopics'' True None
       (set_model ((model_of w)\<lparr>m_topics := mdel (DTP_Topic p) (m_topics (model_of w))\<rparr>) w))"
proof -
  let ?g = "\<lambda>m. case delete_topics [DTP_Topic p] m of (out, m') \<Rightarrow> (Ok out, m')"
  have "?g (model_of w) = (Ok [\<lparr>TopicDeleteResult_Name = DTP_Topic p, TopicDeleteResult_Err = None\<rparr>],
      (model_of w)\<lparr>m_topics := mdel (DTP_Topic p) (m_topics (model_of w))\<rparr>)"
    using assms(2) by simp
  from live_alter [where g = ?g, OF assms(1) this] show ?thesis
    by (simp add: ApplyDelete_def fake_DeleteTopics_def onOk_def ret_run err_of_def)
qed

lemma topic_Delete_run:
  assumes "live w" "Check caller (desc_of ''T7'') pol = None"
    and "map_of (m_topics (model_of w)) t = Some ft"
  shows "\<exists>p ev ev2 w'. topic_Delete (world_service Background pol) caller t t False w
       = (Ok (\<lparr>Result_DryRun = False, Result_Plan = Some p, Result_Value = Some t\<rparr>, None), w')
     \<and> model_of w' = (model_of w)\<lparr>m_topics := mdel t (m_topics (model_of w))\<rparr>
     \<and> audit_trail w' = audit_trail w @ [ev, ev2] \<and> audited_pair ''T7'' caller ev ev2"
proof -
  have "live (draw_id w)" "map_of (m_topics (model_of (draw_id w))) t = Some ft" using assms by simp_all
  from PlanDelete_live [OF this, of pol] obtain p w1
    where plan: "PlanDelete (world_service Background pol) t (draw_id w) = (Ok p, w1)" "DTP_Topic p = t"
      "live w1" "model_of w1 = model_of w" "audit_trail w1 = audit_trail w"
    by auto
  let ?step = "\<lambda>ev. log_call ''DeleteTopics'' True None
       (set_model ((model_of w)\<lparr>m_topics := mdel t (m_topics (model_of w))\<rparr>) (add_event ev w1))"
  have app: "ApplyDelete (world_service Background pol) p (add_event ev w1) = (Ok t, ?step ev)" for ev
    using ApplyDelete_live [of "add_event ev w1" p ft pol] plan assms(3) by simp
  have "\<exists>ev ev2. topic_Delete (world_service Background pol) caller t t False w
       = (Ok (\<lparr>Result_DryRun = False, Result_Plan = Some p, Result_Value = Some t\<rparr>, None),
          add_event ev2 (?step ev)) \<and> audited_pair ''T7'' caller ev ev2"
    unfolding topic_Delete_def
    by (rule destructive_executes [where ?w1.0 = w1]) (simp_all add: assms(1,2) plan(1-3) app DeleteTopicPlan_ops_def)
  then obtain ev ev2 where "topic_Delete (world_service Background pol) caller t t False w
       = (Ok (\<lparr>Result_DryRun = False, Result_Plan = Some p, Result_Value = Some t\<rparr>, None),
          add_event ev2 (?step ev))" "audited_pair ''T7'' caller ev ev2"
    by blast
  then show ?thesis
    using plan by auto
qed

text \<open>
  T7 executed: an operator whose call passes the gate and who confirms with the topic's name
  deletes exactly that topic, and the audit trail grows by an \<open>ATTEMPT\<close> and a successful \<open>RESULT\<close> of
  high severity with the same event id, in this order.
\<close>

theorem topic_Delete_executes:
  assumes "live w" "Check caller (desc_of ''T7'') pol = None"
    and "map_of (m_topics (model_of w)) t = Some ft"
  shows "\<exists>p ev ev2 w'. topic_Delete (world_service Background pol) caller t t False w
       = (Ok (\<lparr>Result_DryRun = False, Result_Plan = Some p, Result_Value = Some t\<rparr>, None), w')
     \<and> model_of w' = (model_of w)\<lparr>m_topics := mdel t (m_topics (model_of w))\<rparr>
     \<and> audit_trail w' = audit_trail w @ [ev, ev2]
     \<and> Event_Phase ev = PhaseAttempt \<and> Event_Phase ev2 = PhaseResult
     \<and> Event_EventID ev2 = Event_EventID ev \<and> Event_CommandID ev2 = ''T7''
     \<and> Event_Outcome ev2 = OutcomeSucceeded \<and> Event_Severity ev2 = SeverityHigh"
  using topic_Delete_run [OF assms] by (auto simp: audited_pair_def SeverityFor_def highSeverity_iff)

theorem topic_Delete_executes_witness:
  "\<exists>p ev ev2 w'. topic_Delete (world_service Background demo_policy) demo_op ''orders'' ''orders'' False demo_world
       = (Ok (\<lparr>Result_DryRun = False, Result_Plan = Some p, Result_Value = Some ''orders''\<rparr>, None), w')
     \<and> model_of w' = (model_of demo_world)\<lparr>m_topics := mdel ''orders'' (m_topics (model_of demo_world))\<rparr>
     \<and> audit_trail w' = audit_trail demo_world @ [ev, ev2] \<and> Event_Severity ev2 = SeverityHigh"
  using topic_Delete_executes [of demo_world demo_op demo_policy "''orders''" demo_orders]
  by auto

section \<open>Purging a topic\<close>

lemma sorted_ints: "sorted (map int [0..<n])"
  by (simp add: sorted_map sorted_wrt_iff_nth_less)

definition end_offsets :: "fakePartition list \<Rightarrow> (int32 \<times> int64) list" where
  "end_offsets ps = map (\<lambda>i. (int i, fp_end (ps ! i))) [0..<length ps]"

lemma end_offsets_fst [simp]: "map fst (end_offsets ps) = map int [0..<length ps]"
  by (simp add: end_offsets_def)

lemma map_of_int_index:
  "map_of (map (\<lambda>i. (int i, h i)) [0..<n]) p = (if 0 \<le> p \<and> p < int n then Some (h (nat p)) else None)"
  by (induction n) (auto simp: nat_less_iff map_add_def)

lemma mget_end_offsets:
  "i < length ps \<Longrightarrow> mget (end_offsets ps) 0 (int i) = fp_end (ps ! i)"
  by (simp add: mget_def end_offsets_def map_of_int_index)

lemma check_truncate_ok:
  "(\<forall>pt \<in> set m. 0 \<le> fst pt \<and> fst pt < int (length ps) \<and> snd pt \<le> fp_end (ps ! nat (fst pt))) \<Longrightarrow>
     check_truncate ps m = None"
  by (induction ps m rule: check_truncate.induct) auto

lemma purge_model:
  assumes "map_of (m_topics m) t = Some ft"
  shows "delete_records t (end_offsets (ft_partitions ft)) m
    = (Ok (map (\<lambda>i. \<lparr>PartitionLowWatermark_Partition = int i,
          PartitionLowWatermark_LowWatermark = fp_end (ft_partitions ft ! i)\<rparr>) [0..<length (ft_partitions ft)]),
       m\<lparr>m_topics := mput t (ft\<lparr>ft_partitions := map (\<lambda>p. truncate_at (fp_end p) p) (ft_partitions ft)\<rparr>) (m_topics m)\<rparr>)"
proof -
  let ?ps = "ft_partitions ft"
  let ?n = "length ?ps"
  have chk: "check_truncate ?ps (end_offsets ?ps) = None"
    by (rule check_truncate_ok) (auto simp: end_offsets_def)
  have keys: "sort (mkeys (end_offsets ?ps)) = map int [0..<?n]"
    by (simp add: mkeys_def sort_key_id_if_sorted sorted_ints)
  have "fold (\<lambda>p ps. ps[nat p := truncate_at (mget (end_offsets ?ps) 0 p) (ps ! nat p)]) (map int [0..<k]) ?ps
      = map (\<lambda>p. truncate_at (fp_end p) p) (take k ?ps) @ drop k ?ps" if "k \<le> ?n" for k
    using that
  proof (induction k)
    case (Suc k)
    have "take (Suc k) ?ps = take k ?ps @ [?ps ! k]" using Suc.prems by (simp add: take_Suc_conv_app_nth)
    moreover have "drop k ?ps = ?ps ! k # drop (Suc k) ?ps" using Suc.prems by (simp add: Cons_nth_drop_Suc)
    ultimately show ?case using Suc by (simp add: nth_append list_update_append mget_end_offsets)
  qed simp
  from this [of ?n] show ?thesis
    using assms by (simp add: delete_records_def chk keys Let_def mget_end_offsets)
qed

lemma PlanPurge_live:
  assumes "live w" "map_of (m_topics (model_of w)) t = Some ft" "length (ft_partitions ft) < 2147483648"
  shows "\<exists>p w1. PlanPurge (world_service Background pol) t w = (Ok p, w1) \<and> DRP_Topic p = t
     \<and> map (\<lambda>d. (PDR_Partition d, PDR_TruncateTo d)) (DRP_Partitions p) = end_offsets (ft_partitions ft)
     \<and> live w1 \<and> model_of w1 = model_of w \<and> audit_trail w1 = audit_trail w"
proof -
  let ?ps = "ft_partitions ft" and ?parts = "Topic_Partitions (toDomainTopic t ft)"
  have ids: "map Partition_ID ?parts = map int [0..<length ?ps]" by (rule domain_partition_ids [OF assms(3)])
  have "fold (\<lambda>p. mput (Partition_ID p) (mget (per_partition fp_end ft) 0 (Partition_ID p))) ?parts []
      = map (\<lambda>i. (i, mget (per_partition fp_end ft) 0 i)) (map Partition_ID ?parts)"
  proof -
    have "distinct (map Partition_ID ?parts)" unfolding ids by (simp add: distinct_map)
    from fold_mput_distinct [OF this, of "[]"] show ?thesis by (simp add: o_def)
  qed
  also have "\<dots> = end_offsets ?ps"
    by (simp add: ids end_offsets_def mget_per_partition [OF assms(3)])
  finally have offs: "fold (\<lambda>p. mput (Partition_ID p) (mget (per_partition fp_end ft) 0 (Partition_ID p))) ?parts []
      = end_offsets ?ps" .
  have det: "truncate_details (set (map Partition_ID ?parts)) (per_partition fp_beginOffset ft)
      (per_partition fp_end ft) (end_offsets ?ps)
    = Inr (map (detail_for (per_partition fp_beginOffset ft)) (end_offsets ?ps))"
    by (rule truncate_details_valid) (auto simp: ids end_offsets_def mget_per_partition [OF assms(3)])
  have srt: "sort_key PDR_Partition (map (detail_for bs) (end_offsets ?ps)) = map (detail_for bs) (end_offsets ?ps)" for bs
    by (rule sort_key_id_if_sorted) (simp add: o_def detail_for_def end_offsets_def sorted_ints)
  show ?thesis
    using assms(1,2) det
    by (simp add: PlanPurge_def PlanDeleteRecords_def onOk_def live_topic_reads ret_run offs srt)
      (simp add: detail_for_def o_def)
qed

definition purge_marks :: "fakeTopic \<Rightarrow> PartitionWatermark list" where
  "purge_marks ft = sort_key PW_ID (map (\<lambda>i. \<lparr>PW_ID = int i, PW_LowWatermark = fp_end (ft_partitions ft ! i)\<rparr>)
     [0..<length (ft_partitions ft)])"

lemma ApplyPurge_live:
  assumes "live w" "map_of (m_topics (model_of w)) t = Some ft" "DRP_Topic p = t"
    "map (\<lambda>d. (PDR_Partition d, PDR_TruncateTo d)) (DRP_Partitions p) = end_offsets (ft_partitions ft)"
  shows "ApplyDeleteRecords (world_service Background pol) p w = (Ok (purge_marks ft),
     log_call ''DeleteRecords'' True None (set_model ((model_of w)\<lparr>m_topics := mput t
        (ft\<lparr>ft_partitions := map (\<lambda>p. truncate_at (fp_end p) p) (ft_partitions ft)\<rparr>) (m_topics (model_of w))\<rparr>) w))"
proof -
  have keys: "map PDR_Partition (DRP_Partitions p) = map int [0..<length (ft_partitions ft)]"
    using arg_cong [OF assms(4), of "map fst"] by (simp add: o_def)
  then have "distinct (map PDR_Partition (DRP_Partitions p))" by (simp add: distinct_map)
  then have trunc: "fold (\<lambda>d. mput (PDR_Partition d) (PDR_TruncateTo d)) (DRP_Partitions p) []
      = end_offsets (ft_partitions ft)"
    using fold_mput_distinct [of PDR_Partition "DRP_Partitions p" "[]" PDR_TruncateTo] assms(4) by simp
  show ?thesis
    unfolding ApplyDeleteRecords_def trunc Let_def onOk_def
    by (simp add: assms(3) fake_DeleteRecords_def purge_marks_def o_def
        live_alter [where g = "delete_records t (end_offsets (ft_partitions ft))",
          OF assms(1) purge_model [OF assms(2)]] ret_run err_of_def)
qed

text \<open>
  C19. T12 executed: an operator whose call passes the gate and who confirms with the topic's name
  leaves every partition of the topic empty and every end offset as it was, so that the next record
  continues the numbering; the topics' configuration and the other topics are untouched.
\<close>

theorem topic_Purge_empties:
  assumes "live w" "Check caller (desc_of ''T12'') pol = None"
    and "map_of (m_topics (model_of w)) t = Some ft" "length (ft_partitions ft) < 2147483648"
    and "wf_topic ft"
    and "list_all (\<lambda>p. in_int64 (fp_beginOffset p) \<and> in_int64 (fp_beginOffset p + int (length (fp_records p))))
       (ft_partitions ft)"
  shows "\<exists>res w' ft'. topic_Purge (world_service Background pol) caller t t False w = (Ok (res, None), w')
     \<and> model_of w' = (model_of w)\<lparr>m_topics := mput t ft' (m_topics (model_of w))\<rparr>
     \<and> ft' = ft\<lparr>ft_partitions := ft_partitions ft'\<rparr>
     \<and> list_all (\<lambda>p. fp_records p = []) (ft_partitions ft')
     \<and> map fp_end (ft_partitions ft') = map fp_end (ft_partitions ft)
     \<and> wf_topic ft'"
proof -
  let ?ft' = "ft\<lparr>ft_partitions := map (\<lambda>p. truncate_at (fp_end p) p) (ft_partitions ft)\<rparr>"
  have tr: "wf_log (truncate_at (fp_end p) p) \<and> fp_end (truncate_at (fp_end p) p) = fp_end p
      \<and> fp_records (truncate_at (fp_end p) p) = []" if "p \<in> set (ft_partitions ft)" for p
  proof -
    have "wf_log p" "in_int64 (fp_beginOffset p)" "in_int64 (fp_beginOffset p + int (length (fp_records p)))"
      using that assms(5,6) by (auto simp: wf_topic_def list_all_iff)
    moreover from this have e: "fp_end p = fp_beginOffset p + int (length (fp_records p))"
      by (simp add: fp_end_def)
    ultimately have "advances (fp_end p) p" by (simp add: advances_def)
    from wf_truncate [OF \<open>wf_log p\<close> this] show ?thesis by (simp add: e)
  qed
  have "live (draw_id w)" "map_of (m_topics (model_of (draw_id w))) t = Some ft" using assms by simp_all
  from PlanPurge_live [OF this assms(4), of pol] obtain p w1
    where plan: "PlanPurge (world_service Background pol) t (draw_id w) = (Ok p, w1)" "DRP_Topic p = t"
      "map (\<lambda>d. (PDR_Partition d, PDR_TruncateTo d)) (DRP_Partitions p) = end_offsets (ft_partitions ft)"
      "live w1" "model_of w1 = model_of w"
    by auto
  let ?step = "\<lambda>ev. log_call ''DeleteRecords'' True None
       (set_model ((model_of w)\<lparr>m_topics := mput t ?ft' (m_topics (model_of w))\<rparr>) (add_event ev w1))"
  let ?app = "ApplyDeleteRecords (world_service Background pol)"
  have app: "?app p (add_event ev w1) = (Ok (purge_marks ft), ?step ev)" for ev
    using ApplyPurge_live [of "add_event ev w1" t ft p pol] plan assms(3) by simp
  have "\<exists>ev ev2. topic_Purge (world_service Background pol) caller t t False w
       = (Ok (\<lparr>Result_DryRun = False, Result_Plan = Some p, Result_Value = Some (purge_marks ft)\<rparr>, None),
          add_event ev2 (?step ev)) \<and> audited_pair ''T12'' caller ev ev2"
    unfolding topic_Purge_def
    by (rule destructive_executes [where ?w1.0 = w1])
      (simp_all add: assms(1,2) plan(1,2,4) app DeleteRecordsPlan_ops_def)
  then show ?thesis
    using tr by (fastforce simp: list_all_iff wf_topic_def)
qed

theorem topic_Purge_empties_witness:
  "\<exists>res w' ft'. topic_Purge (world_service Background demo_policy) demo_op ''orders'' ''orders'' False demo_world
       = (Ok (res, None), w')
     \<and> model_of w' = (model_of demo_world)\<lparr>m_topics := mput ''orders'' ft' (m_topics (model_of demo_world))\<rparr>
     \<and> map fp_end (ft_partitions ft') = [2, 1]"
proof -
  have wf: "wf_topic demo_orders"
    by (simp add: demo_orders_def wf_topic_def wf_log_def zero_partition_def demo_record_def wrap64_def)
  have ends: "map fp_end (ft_partitions demo_orders) = [2, 1]"
    by (simp add: demo_orders_def fp_end_def zero_partition_def wrap64_def)
  have rng: "list_all (\<lambda>p. in_int64 (fp_beginOffset p) \<and> in_int64 (fp_beginOffset p + int (length (fp_records p))))
       (ft_partitions demo_orders)" and len: "length (ft_partitions demo_orders) < 2147483648"
    by (simp_all add: demo_orders_def zero_partition_def in_int64_def)
  from topic_Purge_empties [OF demo_live demo_passes(2) demo_model len wf rng, unfolded ends]
  show ?thesis by (elim exE conjE) (intro exI conjI, assumption+)
qed

section \<open>Truncation and the begin offset\<close>

text \<open>
  The plan of T11 bounds the truncation from above only. A truncation below the begin offset
  passes it with no record affected, and the in-memory cluster then moves the begin offset back, so
  that its offsets are no longer consecutive from it.
\<close>

theorem truncate_below_begin:
  assumes "wf_log p" "fp_records p \<noteq> []" "in_int64 (fp_beginOffset p)" "in_int64 off" "off < fp_beginOffset p"
    "in_int64 (off - fp_beginOffset p)" "in_int64 (fp_beginOffset p + int (length (fp_records p)))"
  shows "PDR_ApproxRecordsAffected (detail_for [(i, fp_beginOffset p)] (i, off)) = 0
    \<and> truncate_details {i} [(i, fp_beginOffset p)] [(i, fp_end p)] [(i, off)]
        = Inr [detail_for [(i, fp_beginOffset p)] (i, off)]
    \<and> fp_beginOffset (truncate_at off p) < fp_beginOffset p
    \<and> \<not> wf_log (truncate_at off p)"
proof -
  let ?n = "length (fp_records p)"
  have offs: "Record_Offset (fp_records p ! i) = fp_beginOffset p + int i" if "i < ?n" for i
    using wf_log_offsets [OF assms(1,3,7) that] .
  have "filter (\<lambda>r. Record_Offset r \<ge> off) (fp_records p) = drop 0 (fp_records p)"
    by (rule filter_drop_nth) (use offs assms(5) in auto)
  then have recs: "fp_records (truncate_at off p) = fp_records p" by (simp add: truncate_at_def)
  have "\<not> wf_log (truncate_at off p)"
  proof
    assume "wf_log (truncate_at off p)"
    then have "map Record_Offset (fp_records p) ! 0 = map (\<lambda>i. wrap64 (off + int i)) [0..<?n] ! 0"
      by (simp add: wf_log_def recs) (simp add: truncate_at_def)
    then show False using assms(2,4,5) offs [of 0] by simp
  qed
  moreover have "off \<le> fp_end p" using assms(5,7) by (simp add: fp_end_def)
  ultimately show ?thesis
    using assms(5,6) by (simp add: detail_for_def mget_def truncate_at_def)
qed

definition demo_truncated :: fakePartition where
  "demo_truncated = zero_partition\<lparr>fp_beginOffset := 5,
     fp_records := [(demo_record 0 1 ''a'')\<lparr>Record_Offset := 5\<rparr>]\<rparr>"

theorem truncate_below_begin_witness:
  "fp_beginOffset demo_truncated = 5 \<and> fp_beginOffset (truncate_at (- 1) demo_truncated) < 5
    \<and> \<not> wf_log (truncate_at (- 1) demo_truncated)"
  using truncate_below_begin [of demo_truncated "- 1" 0]
  by (simp add: demo_truncated_def wf_log_def demo_record_def in_int64_def zero_partition_def)

section \<open>Paging\<close>

text \<open>
  The pages of a listing partition the list: for a positive page size, the first \<open>m\<close> pages are all
  there and, put one after the other, are the first \<open>m * k\<close> entries in order - the whole list once
  \<open>m * k\<close> reaches its length.
\<close>

theorem pages_partition_list:
  assumes "0 < k" "int m * int k < 4611686018427387904" "int (length xs) < 4611686018427387904"
  shows "map (\<lambda>i. page_slice (int i + 1) (int k) xs) [0..<m]
      = map (\<lambda>i. Some (take k (drop (i * k) xs))) [0..<m]
    \<and> concat (map (\<lambda>i. take k (drop (i * k) xs)) [0..<m]) = take (m * k) xs"
proof -
  have "page_slice (int i + 1) (int k) xs = Some (take k (drop (i * k) xs))" if "i < m" for i
  proof -
    have "(int i + 1) * int k \<le> int m * int k" using that by (intro mult_right_mono) auto
    then have "(int i + 1) * int k < 4611686018427387904" using assms(2) by linarith
    then have "page_slice (int i + 1) (int k) xs
        = Some (take (nat (int k)) (drop (nat ((int i + 1 - 1) * int k)) xs))"
      using assms by (intro page_slice_in_range) auto
    then show ?thesis by (simp flip: of_nat_mult)
  qed
  then show ?thesis by (simp add: concat_pages)
qed

theorem pages_partition_list_witness:
  "map (\<lambda>i. page_slice (int i + 1) 2 ''abcde'') [0..<3] = [Some ''ab'', Some ''cd'', Some ''e'']"
proof -
  have "map (\<lambda>i. page_slice (int i + 1) (int 2) ''abcde'') [0..<3]
      = map (\<lambda>i. Some (take 2 (drop (i * 2) ''abcde''))) [0..<3]"
    using pages_partition_list [of 2 3 "''abcde''"] by simp
  also have "\<dots> = [Some ''ab'', Some ''cd'', Some ''e'']" by (simp add: numeral_3_eq_3)
  finally show ?thesis by simp
qed

section \<open>Counting messages in a window\<close>

lemma first_at_or_after_takeWhile:
  "first_at_or_after target off rs =
    (case dropWhile (\<lambda>r. Record_Timestamp r < target) rs of [] \<Rightarrow> off | r # _ \<Rightarrow> Record_Offset r)"
  by (induction rs) auto

text \<open>A partition whose log is well formed, in range, and in the order of its timestamps.\<close>

definition timely :: "fakePartition \<Rightarrow> bool" where
  "timely p \<longleftrightarrow> wf_log p \<and> sorted (map Record_Timestamp (fp_records p)) \<and> 0 \<le> fp_beginOffset p
     \<and> fp_beginOffset p + int (length (fp_records p)) < 9223372036854775808"

lemma sorted_takeWhile_filter:
  "sorted (map f xs) \<Longrightarrow> takeWhile (\<lambda>x. f x < c) xs = filter (\<lambda>x. f x < c) xs"
  for f :: "'a \<Rightarrow> int"
  by (induction xs) (auto intro!: filter_False [symmetric])

lemma first_at_or_after_count:
  assumes "timely p"
  shows "first_at_or_after target (fp_end p) (fp_records p)
    = fp_beginOffset p + int (length (filter (\<lambda>r. Record_Timestamp r < target) (fp_records p)))"
proof -
  let ?rs = "fp_records p" and ?P = "\<lambda>r. Record_Timestamp r < target"
  let ?k = "length (takeWhile ?P ?rs)"
  have rng: "in_int64 (fp_beginOffset p)" "in_int64 (fp_beginOffset p + int (length ?rs))" "wf_log p"
    using assms by (auto simp: timely_def in_int64_def)
  have tw: "takeWhile ?P ?rs = filter ?P ?rs"
    using assms by (intro sorted_takeWhile_filter) (simp add: timely_def)
  show ?thesis
  proof (cases "dropWhile ?P ?rs")
    case Nil
    then have "filter ?P ?rs = ?rs" by (metis append_Nil2 takeWhile_dropWhile_id tw)
    with Nil rng show ?thesis by (simp only: first_at_or_after_takeWhile list.case fp_end_def wrap64_id)
  next
    case (Cons r zs)
    have "?k < length ?rs" using Cons by (metis dropWhile_eq_Nil_conv length_takeWhile_le
        le_neq_implies_less list.distinct(1) takeWhile_dropWhile_id append_Nil2 append_eq_append_conv)
    moreover have "?rs ! ?k = r" using Cons by (metis nth_append_length takeWhile_dropWhile_id)
    ultimately show ?thesis
      using wf_log_offsets [OF rng(3,1,2), of ?k] Cons tw by (simp add: first_at_or_after_takeWhile)
  qed
qed

lemma filter_lt_mono:
  "a \<le> b \<Longrightarrow> length (filter (\<lambda>r. g r < a) xs) + length (filter (\<lambda>r. a \<le> g r \<and> g r < b) xs)
     = length (filter (\<lambda>r. g r < b) xs)" for g :: "'a \<Rightarrow> int"
  by (induction xs) auto

text \<open>
  T4 counts what it says: over a partition whose records are in the order of their timestamps, the
  count of a window is the number of records stamped at or after its start and before its end - none
  when the window is reversed.
\<close>

theorem window_counts_records:
  assumes "timely p"
  shows "PC_Count (window_count
      [(i, first_at_or_after (fromUnixMilli a) (fp_end p) (fp_records p))]
      [(i, first_at_or_after (fromUnixMilli b) (fp_end p) (fp_records p))] [(i, fp_end p)] i)
    = int (length (filter (\<lambda>r. fromUnixMilli a \<le> Record_Timestamp r \<and> Record_Timestamp r < fromUnixMilli b)
        (fp_records p)))"
proof -
  let ?rs = "fp_records p"
  let ?c = "\<lambda>t. int (length (filter (\<lambda>r. Record_Timestamp r < t) ?rs))"
  have le: "?c t \<le> int (length ?rs)" for t by (simp add: length_filter_le)
  have rng: "0 \<le> fp_beginOffset p" "fp_beginOffset p + int (length ?rs) < 9223372036854775808"
    using assms by (auto simp: timely_def)
  then have e: "fp_end p = fp_beginOffset p + int (length ?rs)"
    by (simp add: fp_end_def in_int64_def)
  note cnt = first_at_or_after_count [OF assms, unfolded e]
  show ?thesis
  proof (cases "a \<le> b")
    case True
    then have ab: "fromUnixMilli a \<le> fromUnixMilli b" by (simp add: fromUnixMilli_def)
    have sum: "?c (fromUnixMilli b) = ?c (fromUnixMilli a) + int (length (filter
        (\<lambda>r. fromUnixMilli a \<le> Record_Timestamp r \<and> Record_Timestamp r < fromUnixMilli b) ?rs))"
      using filter_lt_mono [OF ab, of Record_Timestamp ?rs] by (simp flip: of_nat_add)
    show ?thesis
      using le [of "fromUnixMilli b"] rng sum
      by (simp add: window_count_def mget_def Let_def e cnt in_int64_def)
  next
    case False
    then have ba: "fromUnixMilli b \<le> fromUnixMilli a" by (simp add: fromUnixMilli_def)
    have "?c (fromUnixMilli b) \<le> ?c (fromUnixMilli a)"
      using filter_lt_mono [OF ba, of Record_Timestamp ?rs] by simp
    moreover have "filter (\<lambda>r. fromUnixMilli a \<le> Record_Timestamp r \<and> Record_Timestamp r < fromUnixMilli b) ?rs = []"
      using ba by (auto simp: filter_empty_conv)
    ultimately show ?thesis
      using le [of "fromUnixMilli a"]
      by (simp add: window_count_def mget_def Let_def e cnt in_int64_def)
  qed
qed

theorem window_counts_records_witness:
  "PC_Count (window_count [(0, first_at_or_after (fromUnixMilli 1) 2 (fp_records (hd (ft_partitions demo_orders))))]
      [(0, first_at_or_after (fromUnixMilli 3) 2 (fp_records (hd (ft_partitions demo_orders))))] [(0, 2)] 0) = 1"
proof -
  let ?p = "hd (ft_partitions demo_orders)"
  have "timely ?p"
    by (simp add: timely_def demo_orders_def wf_log_def zero_partition_def demo_record_def wrap64_def)
  moreover have "fp_end ?p = 2" by (simp add: demo_orders_def fp_end_def zero_partition_def wrap64_def)
  ultimately show ?thesis
    using window_counts_records [of ?p 0 1 3]
    by (simp add: demo_orders_def demo_record_def fromUnixMilli_def)
qed

end
