(* ===== verification/ProduceProps.thy ===== *)
theory ProduceProps
  imports MessageProps
begin

text \<open>
  What the produce commands promise: M5 appends the items in order and reports where each went; the
  effects with local state behave as the effects they lift; an upload (M6) is its non-blank lines.
\<close>

section \<open>Lifted effects\<close>

lemma lift_eff_run: "lift_eff m (s, x) = (fst (m s), (snd (m s), x))"
  by (simp add: lift_eff_def split: prod.split)

lemma lift_write_all: "write_all (lift_auditor sinks) ev (s, x) = (fst (write_all sinks ev s), (snd (write_all sinks ev s), x))"
proof (induction sinks arbitrary: s)
  case (Cons sink sinks)
  then show ?case
    by (cases "sink ev s"; cases "fst (sink ev s)")
      (simp_all add: lift_auditor_def attempt_def lift_eff_run fail_run)
qed (simp add: lift_auditor_def ret_run)

lemma lift_write_each: "write_each (lift_auditor sinks) ev (s, x) = (fst (write_each sinks ev s), (snd (write_each sinks ev s), x))"
proof (induction sinks arbitrary: s)
  case (Cons sink sinks)
  then show ?case
    by (cases "sink ev s"; cases "fst (sink ev s)")
      (simp_all add: lift_auditor_def attempt_def lift_eff_run)
qed (simp add: lift_auditor_def ret_run)

lemma lift_Attempt: "Attempt (lift_auditor sinks) ev (s, x) = (fst (Attempt sinks ev s), (snd (Attempt sinks ev s), x))"
  by (simp add: Attempt_def lift_write_all)

lemma lift_Result: "Result (lift_auditor sinks) ev (s, x) = (fst (Result sinks ev s), (snd (Result sinks ev s), x))"
  by (simp add: Result_def lift_write_each)

section \<open>Appending to a log\<close>

definition request_partition :: "fakeTopic \<Rightarrow> ProduceRequest \<Rightarrow> int32" where
  "request_partition t r = resolveProducePartition t (ProduceRequest_Partition r) (ProduceRequest_Key r)"

text \<open>The requests that can be stored: their partition exists.\<close>

definition storable :: "fakeTopic \<Rightarrow> ProduceRequest \<Rightarrow> bool" where
  "storable t r \<longleftrightarrow> 0 \<le> request_partition t r \<and> request_partition t r < int (length (ft_partitions t))"

definition stored_payload :: "Record \<Rightarrow> bytes option \<times> bytes option \<times> Header list" where
  "stored_payload r = (Record_Key r, Record_Value r, Record_Headers r)"

definition request_payload :: "ProduceRequest \<Rightarrow> bytes option \<times> bytes option \<times> Header list" where
  "request_payload r = (ProduceRequest_Key r, ProduceRequest_Value r, ProduceRequest_Headers r)"

lemma request_partition_cong:
  assumes "length (ft_partitions t) = length (ft_partitions t')"
  shows "request_partition t = request_partition t'"
proof
  fix r
  have "ft_partitions t = [] \<longleftrightarrow> ft_partitions t' = []" using assms by (metis length_0_conv)
  then show "request_partition t r = request_partition t' r"
    unfolding request_partition_def resolveProducePartition_def assms by (rule ssubst) (rule refl)
qed

lemma storable_cong:
  assumes "length (ft_partitions t) = length (ft_partitions t')"
  shows "storable t = storable t'"
  using request_partition_cong [OF assms] by (simp add: storable_def fun_eq_iff assms)

lemma produce_one_eq:
  assumes "storable t r"
  shows "produce_one now topic r t = (let p = request_partition t r; part = ft_partitions t ! nat p;
      rc = produced_record now topic p r part in
    (\<lparr>ProduceResult_Partition = p, ProduceResult_Offset = fp_end part,
       ProduceResult_Timestamp = Record_Timestamp rc, ProduceResult_Err = None\<rparr>,
     t\<lparr>ft_partitions := (ft_partitions t)[nat p := part\<lparr>fp_records := fp_records part @ [rc]\<rparr>]\<rparr>))"
  using assms
  by (simp add: produce_one_def Let_def storable_def request_partition_def [symmetric] produced_record_def)

lemma produce_one_storable:
  assumes "storable t r" "produce_one now topic r t = (res, t1)"
  shows "ProduceResult_Err res = None" "ProduceResult_Partition res = request_partition t r"
    "ProduceResult_Offset res = fp_end (ft_partitions t ! nat (request_partition t r))"
    "length (ft_partitions t1) = length (ft_partitions t)"
    "\<exists>rc. stored_payload rc = request_payload r \<and> Record_Partition rc = request_partition t r \<and>
       ft_partitions t1 = (ft_partitions t)[nat (request_partition t r) :=
        (ft_partitions t ! nat (request_partition t r))\<lparr>fp_records :=
           fp_records (ft_partitions t ! nat (request_partition t r)) @ [rc]\<rparr>]"
proof -
  define part where "part = ft_partitions t ! nat (request_partition t r)"
  define rc where "rc = produced_record now topic (request_partition t r) r part"
  note eq = assms(2) [unfolded produce_one_eq [OF assms(1)] Let_def part_def [symmetric] rc_def [symmetric]]
  from eq show "ProduceResult_Err res = None" "ProduceResult_Partition res = request_partition t r"
    "ProduceResult_Offset res = fp_end (ft_partitions t ! nat (request_partition t r))"
    "length (ft_partitions t1) = length (ft_partitions t)"
    unfolding part_def by auto
  have "stored_payload rc = request_payload r" "Record_Partition rc = request_partition t r"
    by (simp_all add: rc_def produced_record_def stored_payload_def request_payload_def)
  with eq show "\<exists>rc. stored_payload rc = request_payload r \<and> Record_Partition rc = request_partition t r \<and>
       ft_partitions t1 = (ft_partitions t)[nat (request_partition t r) :=
        (ft_partitions t ! nat (request_partition t r))\<lparr>fp_records :=
           fp_records (ft_partitions t ! nat (request_partition t r)) @ [rc]\<rparr>]"
    unfolding part_def by (intro exI [of _ rc]) auto
qed

text \<open>
  A batch of storable requests: every result is a success with the partition of its request, and the
  log of each partition grows by the payloads sent to it, in order.
\<close>

lemma produce_all_storable:
  assumes "list_all (storable t) rs" "produce_all now topic rs t = (out, t')"
  shows "list_all2 (\<lambda>r res. ProduceResult_Err res = None \<and> ProduceResult_Partition res = request_partition t r) rs out
    \<and> length (ft_partitions t') = length (ft_partitions t)
    \<and> (\<forall>j < length (ft_partitions t). \<exists>new.
          fp_records (ft_partitions t' ! j) = fp_records (ft_partitions t ! j) @ new
        \<and> map stored_payload new = map request_payload (filter (\<lambda>r. request_partition t r = int j) rs))"
  using assms
proof (induction rs arbitrary: t out)
  case (Cons r rs)
  from Cons.prems(1) have r: "storable t r" "list_all (storable t) rs" by simp_all
  obtain res t1 where one: "produce_one now topic r t = (res, t1)" by fastforce
  obtain out' where all: "produce_all now topic rs t1 = (out', t')" "out = res # out'"
    using Cons.prems(2) one by (auto split: prod.splits)
  note facts = produce_one_storable [OF r(1) one]
  let ?k = "nat (request_partition t r)"
  from facts(5) obtain rc where rc: "stored_payload rc = request_payload r"
    "ft_partitions t1 = (ft_partitions t)[?k := (ft_partitions t ! ?k)\<lparr>fp_records := fp_records (ft_partitions t ! ?k) @ [rc]\<rparr>]"
    by blast
  have same: "storable t1 = storable t" "request_partition t1 = request_partition t"
    using facts(4) storable_cong request_partition_cong by blast+
  from Cons.IH [of t1 out'] r(2) all(1) have IH:
    "list_all2 (\<lambda>r res. ProduceResult_Err res = None \<and> ProduceResult_Partition res = request_partition t r) rs out'"
    "length (ft_partitions t') = length (ft_partitions t)"
    "\<forall>j < length (ft_partitions t). \<exists>new.
          fp_records (ft_partitions t' ! j) = fp_records (ft_partitions t1 ! j) @ new
        \<and> map stored_payload new = map request_payload (filter (\<lambda>r. request_partition t r = int j) rs)"
    by (simp_all add: same facts(4))
  have "\<exists>new. fp_records (ft_partitions t' ! j) = fp_records (ft_partitions t ! j) @ new
        \<and> map stored_payload new = map request_payload (filter (\<lambda>r. request_partition t r = int j) (r # rs))"
    if j: "j < length (ft_partitions t)" for j
  proof -
    from IH(3) j obtain new where new:
      "fp_records (ft_partitions t' ! j) = fp_records (ft_partitions t1 ! j) @ new"
      "map stored_payload new = map request_payload (filter (\<lambda>r. request_partition t r = int j) rs)" by blast
    have k: "request_partition t r = int j \<longleftrightarrow> ?k = j" using r(1) by (auto simp: storable_def)
    show ?thesis
    proof (cases "?k = j")
      case True
      then have "fp_records (ft_partitions t1 ! j) = fp_records (ft_partitions t ! j) @ [rc]" using j rc(2) by simp
      then show ?thesis using new k True rc(1) by (intro exI [of _ "rc # new"]) simp
    next
      case False
      then have "fp_records (ft_partitions t1 ! j) = fp_records (ft_partitions t ! j)" using rc(2) by simp
      then show ?thesis using new k False by (intro exI [of _ new]) simp
    qed
  qed
  then show ?case using facts(1,2) IH(1,2) all(2) by simp
qed simp

lemma produce_one_record:
  assumes "storable t r" "produce_one now topic r t = (res, t1)"
  obtains rc where "stored_payload rc = request_payload r" "Record_Offset rc = ProduceResult_Offset res"
    "ft_partitions t1 = (ft_partitions t)[nat (request_partition t r) :=
        (ft_partitions t ! nat (request_partition t r))\<lparr>fp_records :=
           fp_records (ft_partitions t ! nat (request_partition t r)) @ [rc]\<rparr>]"
proof (rule that)
  let ?p = "request_partition t r"
  let ?rc = "produced_record now topic ?p r (ft_partitions t ! nat ?p)"
  show "stored_payload ?rc = request_payload r"
    by (simp add: produced_record_def stored_payload_def request_payload_def)
  from assms(2) show "Record_Offset ?rc = ProduceResult_Offset res"
    "ft_partitions t1 = (ft_partitions t)[nat ?p := (ft_partitions t ! nat ?p)\<lparr>fp_records :=
       fp_records (ft_partitions t ! nat ?p) @ [?rc]\<rparr>]"
    by (auto simp: produce_one_eq [OF assms(1)] Let_def produced_record_def)
qed

lemma produce_all_extends:
  assumes "list_all (storable t) rs" "produce_all now topic rs t = (out, t')" "j < length (ft_partitions t)"
  shows "\<exists>new. ft_partitions t' ! j = (ft_partitions t ! j)\<lparr>fp_records := fp_records (ft_partitions t ! j) @ new\<rparr>"
  using assms
proof (induction rs arbitrary: t out)
  case (Cons r rs)
  then have r: "storable t r" by simp
  obtain res t1 where one: "produce_one now topic r t = (res, t1)" by fastforce
  obtain out' where all: "produce_all now topic rs t1 = (out', t')" using Cons.prems(2) one by (auto split: prod.splits)
  from produce_one_record [OF r one] obtain rc where
    t1: "ft_partitions t1 = (ft_partitions t)[nat (request_partition t r) :=
        (ft_partitions t ! nat (request_partition t r))\<lparr>fp_records :=
           fp_records (ft_partitions t ! nat (request_partition t r)) @ [rc]\<rparr>]" by metis
  have "storable t1 = storable t" by (rule storable_cong) (simp add: t1)
  with Cons.IH [OF _ all] Cons.prems(1,3) obtain new where
    "ft_partitions t' ! j = (ft_partitions t1 ! j)\<lparr>fp_records := fp_records (ft_partitions t1 ! j) @ new\<rparr>"
    by (auto simp: t1)
  with Cons.prems(3) show ?case by (cases "nat (request_partition t r) = j") (auto simp: t1)
qed (auto intro!: exI [of _ "[]"])

text \<open>The place in its partition's log at which the batch stores its \<open>i\<close>-th request.\<close>

definition stored_at :: "fakeTopic \<Rightarrow> ProduceRequest list \<Rightarrow> nat \<Rightarrow> nat" where
  "stored_at t rs i = length (fp_records (ft_partitions t ! nat (request_partition t (rs ! i))))
     + length (filter (\<lambda>r. request_partition t r = request_partition t (rs ! i)) (take i rs))"

text \<open>The offset reported for a request is the one of the record stored for it: the end of the log before it.\<close>

lemma produce_all_offsets:
  assumes "list_all (storable t) rs" "produce_all now topic rs t = (out, t')" "i < length rs"
  defines "part \<equiv> ft_partitions t' ! nat (request_partition t (rs ! i))" and "k \<equiv> stored_at t rs i"
  shows "k < length (fp_records part) \<and> stored_payload (fp_records part ! k) = request_payload (rs ! i)
    \<and> Record_Offset (fp_records part ! k) = ProduceResult_Offset (out ! i)
    \<and> ProduceResult_Offset (out ! i) = fp_end (part\<lparr>fp_records := take k (fp_records part)\<rparr>)"
  using assms(1-3) unfolding part_def k_def
proof (induction rs arbitrary: t out i)
  case (Cons r rs)
  from Cons.prems(1) have r: "storable t r" "list_all (storable t) rs" by simp_all
  obtain res t1 where one: "produce_one now topic r t = (res, t1)" by fastforce
  obtain out' where all: "produce_all now topic rs t1 = (out', t')" "out = res # out'"
    using Cons.prems(2) one by (auto split: prod.splits)
  let ?p = "nat (request_partition t r)"
  from produce_one_record [OF r(1) one] obtain rc where
    rc: "stored_payload rc = request_payload r" "Record_Offset rc = ProduceResult_Offset res" and
    t1: "ft_partitions t1 = (ft_partitions t)[?p := (ft_partitions t ! ?p)\<lparr>fp_records := fp_records (ft_partitions t ! ?p) @ [rc]\<rparr>]"
    by metis
  have p: "?p < length (ft_partitions t)" using r(1) by (simp add: storable_def nat_less_iff)
  have len: "length (ft_partitions t1) = length (ft_partitions t)" by (simp add: t1)
  note same = storable_cong [OF len] request_partition_cong [OF len]
  show ?case
  proof (cases i)
    case 0
    have "list_all (storable t1) rs" using r(2) by (simp add: same)
    from produce_all_extends [OF this all(1), of ?p] p len obtain new where
      "ft_partitions t' ! ?p = (ft_partitions t ! ?p)\<lparr>fp_records := fp_records (ft_partitions t ! ?p) @ rc # new\<rparr>"
      by (auto simp: t1)
    with 0 rc produce_one_storable(3) [OF r(1) one] show ?thesis
      by (simp add: stored_at_def all(2) nth_append fp_end_def)
  next
    case (Suc j)
    have j: "list_all (storable t1) rs" "j < length rs" using r(2) Cons.prems(3) Suc by (simp_all add: same)
    let ?q = "request_partition t (rs ! j)"
    have q: "storable t (rs ! j)" using r(2) j(2) by (simp add: list_all_length)
    have "length (fp_records (ft_partitions t1 ! nat ?q))
        = length (fp_records (ft_partitions t ! nat ?q)) + (if request_partition t r = ?q then 1 else 0)"
      using r(1) q p by (auto simp: t1 nth_list_update storable_def eq_nat_nat_iff)
    then have "stored_at t1 rs j = stored_at t (r # rs) i"
      unfolding stored_at_def same by (simp add: Suc)
    with Cons.IH [OF j(1) all(1) j(2)] show ?thesis by (simp add: Suc all(2) same)
  qed
qed simp

section \<open>M5: one request at a time\<close>

definition produce_step :: "string \<Rightarrow> fakeTopic \<Rightarrow> world \<Rightarrow> world" where
  "produce_step topic t w = log_call ''Produce'' True None
     (set_model ((model_of w)\<lparr>m_topics := mput topic t (m_topics (model_of w))\<rparr>) w)"

definition fake_clock :: "world \<Rightarrow> time" where
  "fake_clock w = fk_now (w_fake w)"

lemma fake_clock_steps [simp]:
  "fake_clock (add_event ev w) = fake_clock w" "fake_clock (draw_id w) = fake_clock w"
  "fake_clock (log_call me mu e w) = fake_clock w"
  "fake_clock (set_model m w) = fake_clock w"
  by (simp_all add: fake_clock_def set_model_def add_event_def draw_id_def log_call_def record_call_def)

lemma produce_step_facts [simp]:
  "live (produce_step topic t w) = live w" "audit_trail (produce_step topic t w) = audit_trail w"
  "model_of (produce_step topic t w) = (model_of w)\<lparr>m_topics := mput topic t (m_topics (model_of w))\<rparr>"
  "fake_clock (produce_step topic t w) = fake_clock w" "wall (produce_step topic t w) = wall w"
  by (simp_all add: produce_step_def)

lemma live_Produce:
  assumes "live w" "map_of (m_topics (model_of w)) topic = Some t"
  shows "Produce (world_producer Background) topic rs w
    = (Ok (fst (produce_all (fake_clock w) topic rs t)), produce_step topic (snd (produce_all (fake_clock w) topic rs t)) w)"
proof -
  have fc: "alter g (w_fake w) = (case g (model_of w) of (r, m) \<Rightarrow> (r, (w_fake w)\<lparr>fk_model := m\<rparr>))" for g :: "model \<Rightarrow> 'x res \<times> model"
    by (simp add: alter_def model_of_def)
  show ?thesis
    using assms
    by (simp add: world_producer_def on_fake_def fake_Produce_def invoke_live fc fake_clock_def
        produce_step_def log_call_def set_model_def err_of_def split: prod.split)
qed

lemma produce_execute_live:
  assumes "live w" "map_of (m_topics (model_of w)) topic = Some t" "storable t (toProduceRequest item)"
    and "produce_one (fake_clock w) topic (toProduceRequest item) t = (res, t1)" "nxt < length out"
  shows "produce_execute (world_producer Background) topic item (w, (out, nxt))
    = (Ok (), (produce_step topic t1 w, (out[nxt := res], Suc nxt)))"
  using assms(4,5) produce_one_storable(1) [OF assms(3,4)]
  by (simp add: produce_execute_def onOk_def act_run lift_eff_run live_Produce [OF assms(1,2)] ret_run put_produced_def)

definition bulk_ok :: "int64 \<Rightarrow> nat \<Rightarrow> BulkItemResult list \<times> BulkSummary \<Rightarrow> BulkItemResult list \<times> BulkSummary" where
  "bulk_ok i n acc = (fst acc @ map (\<lambda>k. succeeded_item (i + int k)) [0..<n], (count_succeeded ^^ n) (snd acc))"

lemma bulk_ok_Suc: "bulk_ok (i + 1) n (fst acc @ [succeeded_item i], count_succeeded (snd acc)) = bulk_ok i (Suc n) acc"
proof -
  have "map (\<lambda>k. succeeded_item (i + int k)) [0..<Suc n]
      = succeeded_item i # map (\<lambda>k. succeeded_item (i + 1 + int k)) [0..<n]"
    by (simp only: upt_conv_Cons [of 0 "Suc n"] zero_less_Suc map_Suc_upt [symmetric]) (simp add: o_def add.assoc)
  then show ?thesis by (simp add: bulk_ok_def funpow_swap1 del: upt_Suc)
qed

lemma execute_from_produces:
  assumes "live w" "map_of (m_topics (model_of w)) topic = Some t"
    and "list_all (\<lambda>item. storable t (toProduceRequest item)) items"
    and "produce_all (fake_clock w) topic (map toProduceRequest items) t = (res, t')"
    and "nxt + length items = length out"
  shows "\<exists>w'. execute_from i items (produce_execute (world_producer Background) topic) acc (w, (out, nxt))
      = (Ok (bulk_ok i (length items) acc), (w', (take nxt out @ res, nxt + length items)))
    \<and> live w' \<and> audit_trail w' = audit_trail w \<and> wall w' = wall w
    \<and> model_of w' = (model_of w)\<lparr>m_topics := mput topic t' (m_topics (model_of w))\<rparr>"
  using assms
proof (induction items arbitrary: i acc w t out nxt res)
  case Nil
  then have "mput topic t' (m_topics (model_of w)) = m_topics (model_of w)" by (simp add: update_triv)
  with Nil show ?case by (intro exI [of _ w]) (simp add: ret_run bulk_ok_def)
next
  case (Cons item items)
  obtain r1 t1 where one: "produce_one (fake_clock w) topic (toProduceRequest item) t = (r1, t1)" by fastforce
  obtain rs where all: "produce_all (fake_clock w) topic (map toProduceRequest items) t1 = (rs, t')" "res = r1 # rs"
    using Cons.prems(4) one by (auto split: prod.splits)
  have st: "storable t (toProduceRequest item)" using Cons.prems(3) by simp
  let ?w1 = "produce_step topic t1 w"
  have n: "nxt < length out" using Cons.prems(5) by simp
  note step = produce_execute_live [OF Cons.prems(1,2) st one n]
  have "storable t1 = storable t" by (rule storable_cong) (rule produce_one_storable(4) [OF st one])
  then have "list_all (\<lambda>item. storable t1 (toProduceRequest item)) items" using Cons.prems(3) by simp
  from Cons.IH [of ?w1 t1 rs "Suc nxt" "out[nxt := r1]" "i + 1" "(fst acc @ [succeeded_item i], count_succeeded (snd acc))"]
    this Cons.prems(1,5) all(1) obtain w' where
    IH: "execute_from (i + 1) items (produce_execute (world_producer Background) topic)
        (fst acc @ [succeeded_item i], count_succeeded (snd acc)) (?w1, (out[nxt := r1], Suc nxt))
      = (Ok (bulk_ok (i + 1) (length items) (fst acc @ [succeeded_item i], count_succeeded (snd acc))),
         (w', (take (Suc nxt) (out[nxt := r1]) @ rs, Suc nxt + length items)))"
      "live w'" "audit_trail w' = audit_trail w" "wall w' = wall w"
      "model_of w' = (model_of ?w1)\<lparr>m_topics := mput topic t' (m_topics (model_of ?w1))\<rparr>"
    by (auto simp: update_conv')
  have "take (Suc nxt) (out[nxt := r1]) @ rs = take nxt out @ res"
    using n by (simp add: take_Suc_conv_app_nth all(2))
  then have "execute_from i (item # items) (produce_execute (world_producer Background) topic) acc (w, (out, nxt))
      = (Ok (bulk_ok i (length (item # items)) acc), (w', (take nxt out @ res, nxt + length (item # items))))"
    by (simp add: attempt_def step IH(1) bulk_ok_Suc)
  with IH(2-5) show ?case by (intro exI [of _ w']) (simp add: update_last)
qed


lemma valid_item_storable:
  assumes "validateProduceItem item (wrap32 (int (length (ft_partitions t)))) = None"
    and "ft_partitions t \<noteq> []" "length (ft_partitions t) < 2147483648"
  shows "storable t (toProduceRequest item)"
proof -
  let ?n = "int (length (ft_partitions t))"
  have n: "wrap32 ?n = ?n" "0 < ?n" using assms(2,3) by (auto simp: in_int32_def)
  have part: "check_partition (PItem_Partition item) (wrap32 ?n) = None"
    using assms(1) by (auto simp: validateProduceItem_def split: option.splits)
  show ?thesis
  proof (cases "PItem_Partition item")
    case (Some p)
    with part n show ?thesis
      by (auto simp: check_partition_def storable_def request_partition_def resolveProducePartition_def
          toProduceRequest_def split: if_splits)
  next
    case None
    let ?h = "fnv1a (the (encoded (PItem_Key item) (PItem_KeyEncoding item))) mod ?n"
    have "0 \<le> ?h" "?h < ?n" using n(2) by simp_all
    moreover from this assms(3) have "wrap32 ?h = ?h" by (intro wrap32_id) (simp add: in_int32_def)
    ultimately show ?thesis
      using None n(2)
      by (simp add: storable_def request_partition_def resolveProducePartition_def toProduceRequest_def)
  qed
qed

lemma count_succeeded_funpow:
  "(count_succeeded ^^ n) \<lparr>BulkSummary_Total = m, BulkSummary_Succeeded = 0, BulkSummary_Failed = 0\<rparr>
    = \<lparr>BulkSummary_Total = m, BulkSummary_Succeeded = wrap64 (int n), BulkSummary_Failed = 0\<rparr>"
  by (induction n) (simp_all add: count_succeeded_def wrap64_def [of 0] add.commute)

lemma partitionCount_live:
  "live w \<Longrightarrow> map_of (m_topics (model_of w)) topic = Some t \<Longrightarrow>
    partitionCount ((world_service Background pol)\<lparr>svc_now := world_timeNow\<rparr>) topic w
      = (Ok (wrap32 (int (length (ft_partitions t)))), log_call ''DescribeTopics'' False None w)"
  by (simp add: partitionCount_def onOk_def live_DescribeTopics ret_run toDomainTopic_def indexed_def)

lemma message_result_event:
  "message_resultEventOutcome ((world_service Background pol)\<lparr>svc_now := world_timeNow\<rparr>) att oc code w
    = (Ok (resultEventAt (wall w) att oc code), w)"
  by (simp add: message_resultEventOutcome_def onOk_def act_run world_timeNow_def ret_run wall_def)

definition attempt_phase :: "Event \<Rightarrow> Event" where
  "attempt_phase ev = ev\<lparr>Event_Phase := PhaseAttempt\<rparr>"

definition result_phase :: "world \<Rightarrow> Event \<Rightarrow> Event" where
  "result_phase w ev = (resultEventAt (wall w) ev OutcomeSucceeded [])\<lparr>Event_Phase := PhaseResult\<rparr>"

lemma message_audited_pair:
  "audited_pair c caller (attempt_phase (message_event caller c topic w)) (result_phase w' (message_event caller c topic w))"
  by (simp add: audited_pair_def attempt_phase_def result_phase_def resultEventAt_def Let_def message_event_def event_at_def)

lemma produce_items_live:
  assumes "live w" "map_of (m_topics (model_of w)) topic = Some t" "ft_partitions t \<noteq> []"
    and "length (ft_partitions t) < 2147483648"
    and "\<forall>item \<in> set items. validateProduceItem item (wrap32 (int (length (ft_partitions t)))) = None"
    and "produce_all (fake_clock w) topic (map toProduceRequest items) t = (out, t')"
  shows "\<exists>w' w1. produce_items (world_message pol b) caller c topic items w
      = (Ok (toProduceResult out \<lparr>BulkResult_Items = map (\<lambda>k. succeeded_item (int k)) [0..<length items],
           BulkResult_Summary = \<lparr>BulkSummary_Total = int (length items),
             BulkSummary_Succeeded = wrap64 (int (length items)), BulkSummary_Failed = 0\<rparr>\<rparr>), w')
    \<and> live w' \<and> model_of w' = (model_of w)\<lparr>m_topics := mput topic t' (m_topics (model_of w))\<rparr>
    \<and> audit_trail w' = audit_trail w @ [attempt_phase (message_event caller c topic w1),
         result_phase w' (message_event caller c topic w1)]"
proof -
  let ?svc = "(world_service Background pol)\<lparr>svc_now := world_timeNow\<rparr>"
  let ?w1 = "log_call ''DescribeTopics'' False None w"
  let ?att = "message_event caller c topic ?w1"
  let ?w2 = "add_event (attempt_phase ?att) (draw_id ?w1)"
  let ?z = "([], \<lparr>BulkSummary_Total = int (length items), BulkSummary_Succeeded = 0, BulkSummary_Failed = 0\<rparr>)"
  let ?out0 = "replicate (length items) zero_produced"
  have st: "list_all (\<lambda>item. storable t (toProduceRequest item)) items"
    using valid_item_storable [OF _ assms(3,4)] assms(5) by (auto simp: list_all_iff)
  have "\<exists>w'. execute_from 0 items (produce_execute (world_producer Background) topic) ?z (?w2, (?out0, 0))
      = (Ok (bulk_ok 0 (length items) ?z), (w', (take 0 ?out0 @ out, 0 + length items)))
    \<and> live w' \<and> audit_trail w' = audit_trail ?w2 \<and> wall w' = wall ?w2
    \<and> model_of w' = (model_of ?w2)\<lparr>m_topics := mput topic t' (m_topics (model_of ?w2))\<rparr>"
    by (rule execute_from_produces [OF _ _ st]) (use assms in simp_all)
  then obtain w3 where exec:
    "execute_from 0 items (produce_execute (world_producer Background) topic) ?z (?w2, (?out0, 0))
      = (Ok (bulk_ok 0 (length items) ?z), (w3, (out, length items)))"
    and w3: "live w3" "audit_trail w3 = audit_trail ?w2" "wall w3 = wall ?w2"
      "model_of w3 = (model_of w)\<lparr>m_topics := mput topic t' (m_topics (model_of w))\<rparr>"
    by auto
  let ?br = "\<lparr>BulkResult_Items = map (\<lambda>k. succeeded_item (int k)) [0..<length items],
           BulkResult_Summary = \<lparr>BulkSummary_Total = int (length items),
             BulkSummary_Succeeded = wrap64 (int (length items)), BulkSummary_Failed = 0\<rparr>\<rparr>"
  have ok: "bulk_ok 0 (length items) ?z = (BulkResult_Items ?br, BulkResult_Summary ?br)"
    by (simp add: bulk_ok_def count_succeeded_funpow)
  have att: "Attempt (lift_auditor [world_sink]) ?att (draw_id ?w1, x) = (Ok (), (?w2, x))" for x :: produced
    using assms(1) by (simp add: lift_Attempt live_Attempt attempt_phase_def)
  have res: "Result (lift_auditor [world_sink]) (resultEventAt (wall w3) ?att OutcomeSucceeded []) (w3, x)
      = (Ok (), (add_event (result_phase w3 ?att) w3, x))" for x :: produced
    using w3(1) by (simp add: lift_Result live_Result result_phase_def)
  have run: "BulkRun (lift_auditor [world_sink]) ?att (\<lambda>sm. lift_eff (message_resultEvent ?svc ?att sm)) items
      (\<lambda>item. validateProduceItem item (wrap32 (int (length (ft_partitions t)))))
      (produce_execute (world_producer Background) topic) (draw_id ?w1, (?out0, 0))
    = (Ok ?br, (add_event (result_phase w3 ?att) w3, (out, length items)))"
    by (subst BulkRun_valid) (use assms(5) in \<open>simp_all add: attempt_def att BulkExecute_def onOk_def exec ok ret_run
        message_resultEvent_def lift_eff_run message_result_event res\<close>)
  have "produce_items (world_message pol b) caller c topic items w
      = (Ok (toProduceResult out ?br), add_event (result_phase w3 ?att) w3)"
    by (simp add: produce_items_def Let_def onOk_def partitionCount_live [OF assms(1,2)] message_newEvent_world
        with_local_def run ret_run)
  then show ?thesis
    using w3 by (intro exI [of _ "add_event (result_phase w3 ?att) w3"] exI [of _ ?w1])
      (simp add: result_phase_def)
qed

text \<open>
  C28. M5 over a live cluster, when every item is valid: each item is stored, in the order of the items
  within each partition, with the bytes that its encodings denote; the answer reports for every item
  its success, its partition and the offset of the record stored for it, which is the end of that partition's log
  before it; the summary counts them all, nothing else in the cluster changes, and the
  audit trail grows by the \<open>ATTEMPT\<close> and the \<open>RESULT\<close> of the command.
\<close>

theorem produce_appends_in_order:
  assumes "live w" "Check caller (desc_of ''M5'') pol = None"
    and "map_of (m_topics (model_of w)) topic = Some t" "ft_partitions t \<noteq> []" "length (ft_partitions t) < 2147483648"
    and "\<forall>item \<in> set items. validateProduceItem item (wrap32 (int (length (ft_partitions t)))) = None"
    and "in_int64 (int (length items))"
  shows "\<exists>r w' t' ev ev2. message_Produce (world_message pol b) caller topic items w = (Ok r, w')
    \<and> model_of w' = (model_of w)\<lparr>m_topics := mput topic t' (m_topics (model_of w))\<rparr>
    \<and> (\<forall>j < length (ft_partitions t). \<exists>new.
          fp_records (ft_partitions t' ! j) = fp_records (ft_partitions t ! j) @ new
        \<and> map stored_payload new = map (\<lambda>item. request_payload (toProduceRequest item))
            (filter (\<lambda>item. request_partition t (toProduceRequest item) = int j) items))
    \<and> map (\<lambda>it. (PIR_Index it, PIR_Outcome it, PIR_Partition it)) (MPR_Items r)
        = map (\<lambda>i. (int i, OutcomeSucceeded, request_partition t (toProduceRequest (items ! i)))) [0..<length items]
    \<and> (\<forall>i < length items. let reqs = map toProduceRequest items;
          part = ft_partitions t' ! nat (request_partition t (reqs ! i)); k = stored_at t reqs i
        in k < length (fp_records part) \<and> stored_payload (fp_records part ! k) = request_payload (reqs ! i)
         \<and> PIR_Offset (MPR_Items r ! i) = Record_Offset (fp_records part ! k)
         \<and> PIR_Offset (MPR_Items r ! i) = fp_end (part\<lparr>fp_records := take k (fp_records part)\<rparr>))
    \<and> MPR_Summary r = \<lparr>BulkSummary_Total = int (length items), BulkSummary_Succeeded = int (length items),
        BulkSummary_Failed = 0\<rparr>
    \<and> audit_trail w' = audit_trail w @ [ev, ev2] \<and> audited_pair ''M5'' caller ev ev2"
proof -
  let ?w0 = "draw_id w"
  obtain out t' where all: "produce_all (fake_clock ?w0) topic (map toProduceRequest items) t = (out, t')" by fastforce
  have w0: "live ?w0" "map_of (m_topics (model_of ?w0)) topic = Some t" using assms(1,3) by simp_all
  from produce_items_live [OF w0 assms(4-6) all, of pol b caller "''M5''"] obtain w' w1 where
    run: "produce_items (world_message pol b) caller ''M5'' topic items ?w0
      = (Ok (toProduceResult out \<lparr>BulkResult_Items = map (\<lambda>k. succeeded_item (int k)) [0..<length items],
           BulkResult_Summary = \<lparr>BulkSummary_Total = int (length items),
             BulkSummary_Succeeded = wrap64 (int (length items)), BulkSummary_Failed = 0\<rparr>\<rparr>), w')"
    and w': "model_of w' = (model_of ?w0)\<lparr>m_topics := mput topic t' (m_topics (model_of ?w0))\<rparr>"
      "audit_trail w' = audit_trail ?w0 @ [attempt_phase (message_event caller ''M5'' topic w1),
         result_phase w' (message_event caller ''M5'' topic w1)]" by blast
  have st: "list_all (storable t) (map toProduceRequest items)"
    using valid_item_storable [OF _ assms(4,5)] assms(6) by (auto simp: list_all_iff)
  note stored = produce_all_storable [OF st all]
  from stored have l2: "list_all2 (\<lambda>item res. ProduceResult_Err res = None
      \<and> ProduceResult_Partition res = request_partition t (toProduceRequest item)) items out"
    by (simp add: list_all2_map1)
  then have "ProduceResult_Partition (out ! i) = request_partition t (toProduceRequest (items ! i))"
    if "i < length items" for i using that by (simp add: list_all2_conv_all_nth)
  moreover let ?br = "\<lparr>BulkResult_Items = map (\<lambda>k. succeeded_item (int k)) [0..<length items],
      BulkResult_Summary = \<lparr>BulkSummary_Total = int (length items),
        BulkSummary_Succeeded = wrap64 (int (length items)), BulkSummary_Failed = 0\<rparr>\<rparr>"
  have "\<forall>i < length items. let reqs = map toProduceRequest items;
      part = ft_partitions t' ! nat (request_partition t (reqs ! i)); k = stored_at t reqs i
    in k < length (fp_records part) \<and> stored_payload (fp_records part ! k) = request_payload (reqs ! i)
     \<and> PIR_Offset (MPR_Items (toProduceResult out ?br) ! i) = Record_Offset (fp_records part ! k)
     \<and> PIR_Offset (MPR_Items (toProduceResult out ?br) ! i) = fp_end (part\<lparr>fp_records := take k (fp_records part)\<rparr>)"
    unfolding Let_def using produce_all_offsets [OF st all]
    by (simp add: toProduceResult_def Let_def succeeded_item_def)
  moreover have "message_Produce (world_message pol b) caller topic items w
      = (Ok (toProduceResult out \<lparr>BulkResult_Items = map (\<lambda>k. succeeded_item (int k)) [0..<length items],
           BulkResult_Summary = \<lparr>BulkSummary_Total = int (length items),
             BulkSummary_Succeeded = wrap64 (int (length items)), BulkSummary_Failed = 0\<rparr>\<rparr>), w')"
    by (simp add: message_Produce_def onOk_def message_gate_passes [OF assms(2)] run)
  ultimately show ?thesis
    using w' stored assms(7) message_audited_pair [of "''M5''" caller topic w1 w']
    by (intro exI conjI) (assumption | simp add: toProduceResult_def Let_def succeeded_item_def filter_map o_def)+
qed


definition demo_item :: ProduceItem where
  "demo_item = \<lparr>PItem_Key = ''k'', PItem_KeyEncoding = [], PItem_Value = ''v'', PItem_ValueEncoding = ''string'',
     PItem_Headers = [], PItem_Partition = Some 1, PItem_TimestampMs = None\<rparr>"

lemma demo_item_valid: "validateProduceItem demo_item 2 = None"
  by (simp add: validateProduceItem_def demo_item_def check_encoding_def EncodeValue_def EncodingString_def
      EncodingJSON_def EncodingBase64_def check_partition_def base64_DecodeString_def)

theorem produce_appends_in_order_witness:
  "\<exists>r w'. message_Produce (world_message demo_policy demo_bounds) demo_op ''orders'' [demo_item] demo_world = (Ok r, w')
     \<and> BulkSummary_Succeeded (MPR_Summary r) = 1"
proof -
  have n: "wrap32 (int (length (ft_partitions demo_orders))) = 2" by (simp add: demo_orders_partitions wrap32_def)
  have v: "\<forall>item \<in> set [demo_item]. validateProduceItem item (wrap32 (int (length (ft_partitions demo_orders)))) = None"
    unfolding n by (simp add: demo_item_valid)
  have i: "in_int64 (int (length [demo_item]))" "length (ft_partitions demo_orders) < 2147483648"
    by (simp_all add: in_int64_def demo_orders_partitions)
  from produce_appends_in_order [OF demo_live demo_message_passes(3) demo_model demo_orders_partitions(1) i(2) v i(1), of demo_bounds]
  show ?thesis by force
qed

section \<open>M6: uploads\<close>

text \<open>The lines of a body, each ended by a newline.\<close>

definition unlines :: "string list \<Rightarrow> bytes" where
  "unlines ls = concat (map (\<lambda>l. l @ [newline]) ls)"

lemma scan_lines_line:
  "newline \<notin> set l \<Longrightarrow> scan_lines cur (l @ newline # rest) = dropCR (cur @ l) # scan_lines [] rest"
  by (induction l arbitrary: cur) auto

lemma scan_lines_last: "newline \<notin> set l \<Longrightarrow> scan_lines cur l = (if cur @ l = [] then [] else [dropCR (cur @ l)])"
  by (induction l arbitrary: cur) auto

lemma scan_unlines:
  "\<forall>l \<in> set ls. newline \<notin> set l \<Longrightarrow> newline \<notin> set l0 \<Longrightarrow>
    scan_lines [] (unlines ls @ l0) = map dropCR (ls @ (if l0 = [] then [] else [l0]))"
  by (induction ls) (simp_all add: unlines_def scan_lines_line scan_lines_last)

text \<open>What the parser does with a line: skip it, take its item, or reject the upload.\<close>

definition line_text :: "string \<Rightarrow> string" where
  "line_text l = TrimSpace (dropCR l)"

definition bad_line :: "(string \<Rightarrow> string + ProduceItem) \<Rightarrow> string \<Rightarrow> bool" where
  "bad_line unmarshal l \<longleftrightarrow> line_text l \<noteq> [] \<and> isl (unmarshal (line_text l))"

definition line_items :: "(string \<Rightarrow> string + ProduceItem) \<Rightarrow> string list \<Rightarrow> ProduceItem list" where
  "line_items unmarshal ls = map (\<lambda>l. projr (unmarshal (line_text l))) (filter (\<lambda>l. line_text l \<noteq> []) ls)"

lemma parse_lines_good:
  "list_all (\<lambda>l. \<not> bad_line unmarshal l) ls \<Longrightarrow>
    parse_lines unmarshal n (map dropCR ls @ post) items
      = parse_lines unmarshal (n + length ls) post (items @ line_items unmarshal ls)"
proof (induction ls arbitrary: n items)
  case (Cons l ls)
  show ?case
  proof (cases "TrimSpace (dropCR l) = []")
    case True
    with Cons show ?thesis by (simp add: line_items_def line_text_def)
  next
    case False
    with Cons.prems obtain item where "unmarshal (TrimSpace (dropCR l)) = Inr item"
      by (cases "unmarshal (TrimSpace (dropCR l))") (auto simp: bad_line_def line_text_def)
    with False Cons show ?thesis by (simp add: line_items_def line_text_def)
  qed
qed (simp add: line_items_def)

lemma parse_lines_bad:
  "bad_line unmarshal l \<Longrightarrow> parse_lines unmarshal n (dropCR l # ls) items
    = fail (policyErr Validation (''line '' @ itoa (int n) @ '': invalid JSON: '' @ projl (unmarshal (line_text l))))"
  by (auto simp: bad_line_def line_text_def Let_def split: sum.split)

text \<open>
  C29. An NDJSON upload is parsed line by line: when every line that is not blank holds a valid item, the
  items are those of these lines in order, whether or not the last line ends in a newline; otherwise the
  upload is rejected as a whole with the number, counted from one over all lines, of the first bad line.
\<close>

theorem ndjson_upload_is_its_lines:
  assumes "\<forall>l \<in> set ls. newline \<notin> set l" "newline \<notin> set l0"
    and "lines = ls @ (if l0 = [] then [] else [l0])"
  shows "parseNDJSON unmarshal (unlines ls @ l0) =
    (case dropWhile (\<lambda>l. \<not> bad_line unmarshal l) lines of
       [] \<Rightarrow> ret (line_items unmarshal lines)
     | l # _ \<Rightarrow> fail (policyErr Validation (''line ''
         @ itoa (int (Suc (length (takeWhile (\<lambda>l. \<not> bad_line unmarshal l) lines))))
         @ '': invalid JSON: '' @ projl (unmarshal (line_text l)))))"
proof -
  let ?good = "\<lambda>l. \<not> bad_line unmarshal l"
  have p: "parseNDJSON unmarshal (unlines ls @ l0) = parse_lines unmarshal 1 (map dropCR lines) []"
    using scan_unlines [OF assms(1,2)] by (simp add: parseNDJSON_def assms(3))
  have split: "map dropCR lines = map dropCR (takeWhile ?good lines) @ map dropCR (dropWhile ?good lines)"
    by (metis map_append takeWhile_dropWhile_id)
  have good: "list_all ?good (takeWhile ?good lines)"
    by (auto simp: list_all_iff dest: set_takeWhileD)
  show ?thesis
  proof (cases "dropWhile ?good lines")
    case Nil
    then have "takeWhile ?good lines = lines" by (metis append_Nil2 takeWhile_dropWhile_id)
    with good have "parse_lines unmarshal 1 (map dropCR lines) [] = ret (line_items unmarshal lines)"
      by (simp add: parse_lines_good [where post = "[]", simplified])
    then show ?thesis unfolding p Nil by simp
  next
    case (Cons l rest)
    then have "bad_line unmarshal l" by (metis dropWhile_eq_Cons_conv)
    then show ?thesis
      unfolding p split Cons by (simp add: parse_lines_good [OF good] parse_lines_bad del: parse_lines.simps)
  qed
qed

lemma TrimSpace_letter:
  assumes "list_all (\<lambda>w. w \<noteq> [] \<longrightarrow> hd w \<noteq> c \<and> last w \<noteq> c) unicode_spaces"
  shows "TrimSpace [c] = [c]"
proof -
  have "take (length w) [c] \<noteq> w" if "w \<noteq> []" "hd w \<noteq> c" for w
    using that by (cases w) auto
  then have "trim_prefixes unicode_spaces [c] = [c]"
    using assms by (intro trim_prefixes_stop) (auto simp: list_all_iff)
  moreover have "take (length (rev w)) [c] \<noteq> rev w" if "w \<noteq> []" "last w \<noteq> c" for w
    using that by (cases w rule: rev_cases) auto
  then have "trim_prefixes (map rev unicode_spaces) [c] = [c]"
    using assms by (intro trim_prefixes_stop) (auto simp: list_all_iff)
  ultimately show ?thesis by (simp add: TrimSpace_def)
qed

theorem ndjson_upload_is_its_lines_witness:
  "parseNDJSON (\<lambda>_. Inr demo_item) (unlines [''a'', [], ''a''] @ ''a'') = ret [demo_item, demo_item, demo_item]"
proof -
  let ?u = "\<lambda>_ :: string. Inr demo_item :: string + ProduceItem"
  have "TrimSpace ''a'' = ''a''"
    by (rule TrimSpace_letter) (simp add: unicode_spaces_def byte_str_def char_of_def bit_Suc_0_iff)
  moreover have "dropCR ''a'' = ''a''" "dropCR [] = []" by code_simp+
  ultimately have t: "line_text ''a'' = ''a''" "line_text [] = []" by (simp_all add: line_text_def)
  have "\<forall>l \<in> set [''a'', [], ''a'']. newline \<notin> set l" "newline \<notin> set ''a''"
    by code_simp+
  from ndjson_upload_is_its_lines [OF this, of "[''a'', [], ''a''] @ (if ''a'' = [] then [] else [''a''])" ?u]
  show ?thesis by (simp add: bad_line_def line_items_def t)
qed

text \<open>
  The size limit of an upload is exact: one byte over it, whatever follows and whether or not
  the rest can be read, the command answers \<open>PAYLOAD_TOO_LARGE\<close> with nothing produced, no event written
  and the cluster as it was; a body of up to the limit is produced as M5 would.
\<close>

theorem upload_limit_exact:
  assumes "Check caller (desc_of ''M6'') pol = None" "0 \<le> limit" "limit < 9223372036854775807"
    and "Bounds_MaxBulkBodyBytes b = limit"
  shows "if int (length body) > limit
    then message_ProduceBulk unmarshal unmarshalAll (world_message pol b) caller topic (body, e) ndjson w
      = (Err (policyErr PayloadTooLarge (''request body exceeds the '' @ itoa limit @ '' byte limit'')), draw_id w)
    else message_ProduceBulk unmarshal unmarshalAll (world_message pol b) caller topic (body, None) ndjson w
      = onOk (if ndjson then parseNDJSON unmarshal body else parseJSONArray unmarshalAll body)
          (produce_items (world_message pol b) caller ''M6'' topic) (draw_id w)"
proof -
  have n: "wrap64 (limit + 1) = limit + 1" using assms(2,3) by (intro wrap64_id) (simp add: in_int64_def)
  have big: "ReadAll_limited (wrap64 (limit + 1)) (body, e) = Inr (take (nat (limit + 1)) body)"
    "length (take (nat (limit + 1)) body) = nat (limit + 1)" if "int (length body) > limit"
    using that assms(2) unfolding n by (auto simp: ReadAll_limited_def Let_def min_def)
  have small: "ReadAll_limited (wrap64 (limit + 1)) (body, None) = Inr body" if "\<not> int (length body) > limit"
    using that assms(2) unfolding n by (auto simp: ReadAll_limited_def Let_def)
  show ?thesis
  proof (cases "int (length body) > limit")
    case True
    with big assms(2) show ?thesis
      by (simp add: message_ProduceBulk_def onOk_def message_gate_passes [OF assms(1)] parseBulkBody_def assms(4)
          fail_run)
  next
    case False
    with small show ?thesis
      by (simp add: message_ProduceBulk_def onOk_def message_gate_passes [OF assms(1)] parseBulkBody_def assms(4))
  qed
qed


theorem upload_limit_exact_witness:
  "message_ProduceBulk (\<lambda>_. Inr demo_item) (\<lambda>_. Inr []) (world_message demo_policy demo_bounds) demo_op ''orders''
      (''abcd'', None) True demo_world
    = (Err (policyErr PayloadTooLarge (''request body exceeds the '' @ itoa 3 @ '' byte limit'')), draw_id demo_world)"
proof -
  have b: "Bounds_MaxBulkBodyBytes demo_bounds = 3" by (simp add: demo_bounds_def)
  have big: "int (length ''abcd'') > 3" and l: "(0::int) \<le> 3" "(3::int) < 9223372036854775807" by simp_all
  show ?thesis
    by (rule upload_limit_exact [OF demo_message_passes(4) l b, where body = "''abcd''", unfolded if_P [OF big]])
qed

end
