(* ===== verification/ReplayProps.thy ===== *)
theory ReplayProps
  imports ProduceProps
begin

text \<open>
  What M8 promises: the executed replay copies the records in its windows verbatim, up to the limit,
  and its cursor is where a later call continues; and what it loses (nil keys and tombstones). Which records a
  limit leaves out depends on the order in which the runtime visits the consumer's map of partitions: \<open>ord\<close> below.
\<close>

section \<open>Verbatim requests\<close>

definition verbatim :: "bool \<Rightarrow> Record \<Rightarrow> ProduceRequest" where
  "verbatim pres r = \<lparr>ProduceRequest_Key = Some (slice (Record_Key r)),
     ProduceRequest_Value = Some (slice (Record_Value r)), ProduceRequest_Headers = Record_Headers r,
     ProduceRequest_Partition = (if pres then Some (Record_Partition r) else None),
     ProduceRequest_Timestamp = Record_Timestamp r\<rparr>"

lemma encode_headers_decoded:
  "encode_headers (map (\<lambda>h. case decodeHeaderValue (Header_Value h) of (v, enc) \<Rightarrow>
      \<lparr>SH_Key = Header_Key h, SH_Value = v, SH_ValueEncoding = enc\<rparr>) hs) = Inr hs"
  by (induction hs) (simp_all add: split_beta EncodeValue_decodeHeader)

lemma replay_request_decoded: "replayProduceRequest (Decode r format) pres = Inr (verbatim pres r)"
  using EncodeValue_decodeBytes [of "slice (Record_Key r)" format]
    EncodeValue_decodeBytes [of "slice (Record_Value r)" format] encode_headers_decoded [of "Record_Headers r"]
  by (simp add: replayProduceRequest_def Decode_def split_beta verbatim_def)

lemma replay_requests_decoded:
  "replay_requests pres (map (\<lambda>r. Decode r format) rs) = Inr (map (verbatim pres) rs)"
  by (induction rs) (simp_all add: replay_request_decoded)

text \<open>
  The request that a replay builds from a decoded record carries the record's key, value, headers
  and timestamp byte for byte, whatever the encodings chosen for the wire; a record whose key or value
  is nil is the exception: it is copied with an empty one, so that a tombstone stops being a tombstone.
\<close>

theorem replay_is_verbatim_but_nil:
  "\<exists>req. replayProduceRequest (Decode r format) pres = Inr req
    \<and> slice (ProduceRequest_Key req) = slice (Record_Key r) \<and> slice (ProduceRequest_Value req) = slice (Record_Value r)
    \<and> ProduceRequest_Headers req = Record_Headers r \<and> ProduceRequest_Timestamp req = Record_Timestamp r
    \<and> (request_payload req = stored_payload r \<longleftrightarrow> Record_Key r \<noteq> None \<and> Record_Value r \<noteq> None)
    \<and> ProduceRequest_Value req \<noteq> None"
  unfolding replay_request_decoded
  by (intro exI [of _ "verbatim pres r"])
    (auto simp: verbatim_def request_payload_def stored_payload_def slice_def split: option.split)

lemma verbatim_payload:
  assumes "Record_Key r \<noteq> None" "Record_Value r \<noteq> None"
  shows "request_payload (verbatim pres r) = stored_payload r"
  using assms by (auto simp: verbatim_def request_payload_def stored_payload_def slice_def)

section \<open>The plan\<close>

lemma estimate_highest:
  "\<forall>(p, win) \<in> set ws. p < n \<Longrightarrow> snd acc < n \<Longrightarrow> snd (fold estimate_window ws acc) < n"
  by (induction ws arbitrary: acc) (auto simp: estimate_window_def split: prod.splits)

lemma PlanReplay_whole:
  assumes "live w" "map_of (m_topics (model_of w)) (RS_Topic source) = Some ft"
    and "length (ft_partitions ft) < 2147483648"
    and "RS_Partitions source = []" "From_Kind (RS_From source) = FromBeginning" "RS_To source = None"
    and "map_of (m_topics (model_of w)) (RT_Topic target) = Some tt" "length (ft_partitions tt) < 2147483648"
    and "RT_PreservePartition target \<longrightarrow> length (ft_partitions ft) \<le> length (ft_partitions tt)"
    and "within limit (Bounds_Replay b)"
  shows "\<exists>w' plan. PlanReplay (world_message pol b) source target limit w = (Ok plan, w')
    \<and> reads_only w w' \<and> wall w' = wall w
    \<and> RPlan_Source plan = source \<and> RPlan_Target plan = target \<and> RPlan_windows plan = log_windows ft
    \<and> RPlan_Limit plan = resolved limit (Bounds_Replay b)"
proof -
  let ?svc = "(world_service Background pol)\<lparr>svc_now := world_timeNow\<rparr>"
  let ?limit = "resolved limit (Bounds_Replay b)"
  from resolveWindows_whole [OF assms(1,2,3,5), of pol ?limit] obtain w1 where
    win: "resolveWindows ?svc \<lparr>wp_Topic = RS_Topic source, wp_Partitions = [], wp_From = RS_From source, wp_To = None\<rparr>
        ?limit w = (Ok (log_windows ft), w1)" "reads_only w w1" "wall w1 = wall w" by blast
  have d: "on_fake (fake_DescribeTopics Background (RT_Topic target)) w1
      = (Ok (toDomainTopic (RT_Topic target) tt), log_call ''DescribeTopics'' False None w1)"
    by (rule live_DescribeTopics) (use assms(1,7) win(2) in \<open>simp_all add: reads_only_def\<close>)
  have n: "length (Topic_Partitions (toDomainTopic (RT_Topic target) tt)) = length (ft_partitions tt)"
    by (simp add: toDomainTopic_def indexed_def)
  have wrap: "wrap32 (int (length (ft_partitions tt))) = int (length (ft_partitions tt))"
    using assms(8) by (intro wrap32_id) (simp add: in_int32_def)
  have "snd (fold estimate_window (log_windows ft) (0, - 1)) < int (length (ft_partitions tt))" if "RT_PreservePartition target"
    by (rule estimate_highest) (use assms(9) that in \<open>auto simp: log_windows_def\<close>)
  then have ok: "(RT_PreservePartition target
      \<and> wrap32 (int (length (ft_partitions tt))) \<le> snd (fold estimate_window (log_windows ft) (0, - 1))) = False"
    unfolding wrap by auto
  show ?thesis
    using win ok
    by (auto simp: PlanReplay_def resolve_within [OF assms(10)] onOk_def assms(4,6) d n Let_def ret_run)
qed

section \<open>Applying the plan\<close>

definition start_cursor :: "fakeTopic \<Rightarrow> (int32 \<times> int64) list" where
  "start_cursor ft = map (\<lambda>i. (int i, fp_beginOffset (ft_partitions ft ! i))) [0..<length (ft_partitions ft)]"

lemma replay_account_all:
  assumes "length results = length rs" "\<forall>res \<in> set results. ProduceResult_Err res = None"
  shows "replay_account results (map (\<lambda>r. Decode r format) rs) copied cursor
    = ret (copied + int (length rs), fold advance rs cursor)"
  using assms
proof (induction results rs arbitrary: copied cursor rule: list_induct2)
  case (Cons res results r rs)
  moreover have "SR_Partition (Decode r format) = Record_Partition r" "SR_Offset (Decode r format) = Record_Offset r"
    by (simp_all add: Decode_def split_beta)
  ultimately show ?case by (simp add: advance_def algebra_simps)
qed simp

lemma log_in_mem:
  assumes "mset ord = mset [0..<length (ft_partitions ft)]" "r \<in> set (log_in ord ft)"
  obtains i where "i < length (ft_partitions ft)" "r \<in> set (fp_records (ft_partitions ft ! i))"
proof -
  from assms(2) obtain i where i: "i \<in> set ord" "r \<in> set (fp_records (ft_partitions ft ! i))" by (auto simp: log_in_def)
  from assms(1) have "set ord = {0..<length (ft_partitions ft)}" by (metis set_mset_mset set_upt)
  with i show ?thesis by (intro that) auto
qed

lemma verbatim_storable:
  assumes "placed ft" "mset ord = mset [0..<length (ft_partitions ft)]" "r \<in> set (log_in ord ft)" "ft_partitions tt \<noteq> []" "length (ft_partitions tt) < 2147483648"
    and "pres \<longrightarrow> length (ft_partitions ft) \<le> length (ft_partitions tt)"
  shows "storable tt (verbatim pres r)"
proof (cases pres)
  case True
  from assms(2,3) obtain i where i: "i < length (ft_partitions ft)" "r \<in> set (fp_records (ft_partitions ft ! i))"
    by (rule log_in_mem)
  then have "Record_Partition r = int i" using assms(1) by (auto simp: placed_def Let_def)
  with i(1) True assms(6) show ?thesis
    by (simp add: storable_def request_partition_def resolveProducePartition_def verbatim_def)
next
  case False
  let ?h = "fnv1a (slice (Record_Key r)) mod int (length (ft_partitions tt))"
  have n: "0 < int (length (ft_partitions tt))" using assms(4) by simp
  then have "0 \<le> ?h" "?h < int (length (ft_partitions tt))" by simp_all
  moreover from this assms(5) have "wrap32 ?h = ?h" by (intro wrap32_id) (simp add: in_int32_def)
  ultimately show ?thesis
    using False n by (simp add: storable_def request_partition_def resolveProducePartition_def verbatim_def)
qed

text \<open>The records that a scan with no bound but the limit counts are the first of the log.\<close>

lemma limit_reached:
  assumes "0 < Spec_MaxMessages spec" "in_int64 (Spec_MaxMessages spec)" "Spec_MaxScanned spec = 0" "Spec_MaxBytes spec = 0"
    and "\<not> Spec_Latest spec" "int (length ts) \<le> Spec_MaxMessages spec" "log = ts @ rest"
    and "rest \<noteq> [] \<longrightarrow> hitBound (count_all ts spec MatchAll (scan_start spec)) spec \<noteq> []"
  shows "ts = take (nat (Spec_MaxMessages spec)) log"
proof (cases "rest = []")
  case True
  with assms(6,7) show ?thesis by (simp add: nat_le_iff)
next
  case False
  have "length (sc_collected (count_all ts spec MatchAll (scan_start spec))) = length ts"
    by (simp add: count_all_collected) (simp add: scan_start_def)
  then have "sc_matched (count_all ts spec MatchAll (scan_start spec)) = wrap64 (int (length ts))"
    by (simp add: count_all_counters)
  moreover have "in_int64 (int (length ts))" using assms(2,6) by (simp add: in_int64_def)
  ultimately have "sc_matched (count_all ts spec MatchAll (scan_start spec)) = int (length ts)" by simp
  with False assms(1,3-5,8) have "Spec_MaxMessages spec \<le> int (length ts)"
    by (auto simp: hitBound_def split: if_splits)
  with assms(6,7) show ?thesis by (simp add: nat_le_iff)
qed

definition replay_copies :: "int64 \<Rightarrow> nat list \<Rightarrow> fakeTopic \<Rightarrow> Record list" where
  "replay_copies limit ord ft = take (nat limit) (log_in ord ft)"

text \<open>What the executed replay leaves: the target's log grown by the copied records, the cursor past them.\<close>

lemma ApplyReplay_whole:
  assumes "live w" "map_of (m_topics (model_of w)) (RS_Topic (RPlan_Source plan)) = Some ft" "placed ft"
    and "ft_partitions ft \<noteq> []" "From_Kind (RS_From (RPlan_Source plan)) = FromBeginning"
    and "RPlan_windows plan = log_windows ft" "0 < RPlan_Limit plan" "in_int64 (RPlan_Limit plan)"
    and "map_of (m_topics (model_of w)) (RT_Topic (RPlan_Target plan)) = Some tt" "ft_partitions tt \<noteq> []"
    and "length (ft_partitions tt) < 2147483648"
    and "RT_PreservePartition (RPlan_Target plan) \<longrightarrow> length (ft_partitions ft) \<le> length (ft_partitions tt)"
  shows "\<exists>ord ts res w2 now out tt'. mset ord = mset [0..<length (ft_partitions ft)]
    \<and> ts = replay_copies (RPlan_Limit plan) ord ft
    \<and> ApplyReplay (Suc (Suc n)) (world_message pol b) plan w = Some (Ok res, w2)
    \<and> produce_all now (RT_Topic (RPlan_Target plan)) (map (verbatim (RT_PreservePartition (RPlan_Target plan))) ts) tt = (out, tt')
    \<and> live w2 \<and> audit_trail w2 = audit_trail w
    \<and> model_of w2 = (model_of w)\<lparr>m_topics := mput (RT_Topic (RPlan_Target plan)) tt' (m_topics (model_of w))\<rparr>
    \<and> RR_Copied res = int (length ts) \<and> RR_Cursor res = fold advance ts (start_cursor ft)"
proof -
  let ?spec = "replay_spec plan" and ?topic = "RT_Topic (RPlan_Target plan)"
  let ?pres = "RT_PreservePartition (RPlan_Target plan)"
  have sp: "Spec_Partitions ?spec = log_windows ft" "\<not> Spec_Latest ?spec" "Spec_MaxMessages ?spec = RPlan_Limit plan"
    "Spec_MaxScanned ?spec = 0" "Spec_MaxBytes ?spec = 0" "Spec_Format ?spec = []"
    using assms(5,6) by (simp_all add: replay_spec_def)
  have src: "map_of (m_topics (model_of w)) (Spec_Topic ?spec) = Some ft" using assms(2) by (simp add: replay_spec_def)
  from runScan_whole [OF assms(1) src assms(3,4) sp(1,2), of n] obtain items stats w1 ord ts rest where
    run: "Run (Suc (Suc n)) world_scan_env Background ?spec MatchAll w = Some (Ok (items, stats), w1)"
      "reads_only w w1" "log_in ord ft = ts @ rest" "items = map (\<lambda>r. Decode r (Spec_Format ?spec)) ts"
      "0 < Spec_MaxMessages ?spec \<and> in_int64 (Spec_MaxMessages ?spec) \<longrightarrow> int (length ts) \<le> Spec_MaxMessages ?spec"
      "rest \<noteq> [] \<longrightarrow> hitBound (count_all ts ?spec MatchAll (scan_start ?spec)) ?spec \<noteq> []"
      "mset ord = mset [0..<length (ft_partitions ft)]" by blast
  have "ts = take (nat (Spec_MaxMessages ?spec)) (log_in ord ft)"
    by (rule limit_reached [OF _ _ sp(4,5,2) _ run(3,6)]) (use assms(7,8) run(5) in \<open>simp_all add: sp(3)\<close>)
  then have ts: "ts = replay_copies (RPlan_Limit plan) ord ft" by (simp add: replay_copies_def sp(3))
  note items = run(4) [unfolded sp(6)]
  have w1: "live w1" "map_of (m_topics (model_of w1)) ?topic = Some tt" "model_of w1 = model_of w"
    "audit_trail w1 = audit_trail w"
    using run(2) assms(1,9) by (simp_all add: reads_only_def)
  obtain out tt' where all: "produce_all (fake_clock w1) ?topic (map (verbatim ?pres) ts) tt = (out, tt')" by fastforce
  have "set ts \<subseteq> set (log_in ord ft)" using run(3) by auto
  then have st: "list_all (storable tt) (map (verbatim ?pres) ts)"
    using verbatim_storable [OF assms(3) run(7) _ assms(10-12)] by (auto simp: list_all_iff)
  note stored = produce_all_storable [OF st all]
  have out: "length out = length ts" "\<forall>res \<in> set out. ProduceResult_Err res = None"
    using stored by (auto simp: list_all2_conv_all_nth in_set_conv_nth)
  have cur: "replay_cursor plan = start_cursor ft"
    by (simp add: replay_cursor_def assms(6) log_windows_def start_cursor_def)
  have copy: "\<exists>res w2. replay_copy (world_producer Background) plan items stats w1 = (Ok res, w2)
    \<and> live w2 \<and> audit_trail w2 = audit_trail w1
    \<and> model_of w2 = (model_of w1)\<lparr>m_topics := mput ?topic tt' (m_topics (model_of w1))\<rparr>
    \<and> RR_Copied res = int (length ts) \<and> RR_Cursor res = fold advance ts (start_cursor ft)"
  proof (cases "ts = []")
    case True
    then have "mput ?topic tt' (m_topics (model_of w1)) = m_topics (model_of w1)"
      using all w1(2) by (simp add: update_triv)
    with True items w1 show ?thesis by (simp add: replay_copy_def Let_def ret_run cur)
  next
    case False
    have acc: "replay_account out (map (\<lambda>r. Decode r []) ts) 0 (start_cursor ft)
        = ret (int (length ts), fold advance ts (start_cursor ft))"
      using replay_account_all [OF out, where copied = 0 and format = "[]"] by simp
    from False items w1(1) show ?thesis
      by (simp add: replay_copy_def Let_def cur replay_requests_decoded attempt_def live_Produce [OF w1(1,2)] all
          onOk_def ret_run acc)
  qed
  then obtain res w2 where copy: "replay_copy (world_producer Background) plan items stats w1 = (Ok res, w2)"
    "live w2" "audit_trail w2 = audit_trail w"
    "model_of w2 = (model_of w)\<lparr>m_topics := mput ?topic tt' (m_topics (model_of w))\<rparr>"
    "RR_Copied res = int (length ts)" "RR_Cursor res = fold advance ts (start_cursor ft)"
    unfolding w1(3,4) by blast
  have "ApplyReplay (Suc (Suc n)) (world_message pol b) plan w = Some (Ok res, w2)"
    by (simp add: ApplyReplay_def after_run_def run(1) onOk_def copy(1))
  with copy(2-6) all run(7) ts show ?thesis by (intro exI conjI)
qed

section \<open>The whole command\<close>

lemma unhang_ret: "unhang m s = (case m (s, False) of (r, (s', h)) \<Rightarrow> if h then None else Some (r, s'))"
  by (simp add: unhang_def)

text \<open>
  A destructive command whose apply step may hang: when it returns, the command is audited and returns,
  as without the flag.
\<close>

lemma hung_destructive_executes:
  assumes live: "live w" and gate: "Check caller (desc_of c) pol = None"
    and plan: "plan w = (Ok p, w1)" "live w1"
    and confirm: "confirm = ConfirmTarget ops p"
    and exec: "app p (add_event (attempt_phase (att\<lparr>Event_DryRun := False\<rparr>)) w1) = Some (Ok v, w2)" "live w2"
  shows "unhang (Destructive (lift_clock world_timeNow) ops (gates_runner pol) (lift_auditor [world_sink]) caller
      (desc_of c) att confirm False (lift_eff plan) (\<lambda>p. hang (app p))) w
    = Some (Ok (\<lparr>Result_DryRun = False, Result_Plan = Some p, Result_Value = Some v\<rparr>, None),
        add_event (result_phase w2 (att\<lparr>Event_DryRun := False\<rparr>)) w2)"
proof -
  have g: "gate (gates_runner pol) caller (desc_of c) = None" using gate by simp
  have a: "Attempt (lift_auditor [world_sink]) ev (w1, x)
      = (Ok (), (add_event (ev\<lparr>Event_Phase := PhaseAttempt\<rparr>) w1, x))" for ev and x :: bool
    using plan(2) by (simp add: lift_Attempt live_Attempt)
  have r: "Result (lift_auditor [world_sink]) ev (w2, x)
      = (Ok (), (add_event (ev\<lparr>Event_Phase := PhaseResult\<rparr>) w2, x))" for ev and x :: bool
    using exec(2) by (simp add: lift_Result live_Result)
  show ?thesis
    unfolding unhang_def Destructive_passed [OF g]
    by (simp add: attempt_def lift_eff_run plan(1) confirm Let_def a hang_def exec(1) [unfolded attempt_phase_def]
        audit_result_def resultEvent_def onOk_def act_run lift_clock_def world_timeNow_def ret_run r
        result_phase_def wall_def)
qed

text \<open>
  C30. M8 executed from the beginning of the whole source topic up to its limit, over a live cluster whose source
  records all have a key and a value: it returns; it copies the first \<open>limit\<close> records of the source log, in offset
  order, partition by partition in the order in which the runtime visits the consumer's map of partitions, and appends
  each to the partition of the target that its key, or its own partition number, selects, with the key, value and headers
  it is stored with; nothing else in the cluster changes; the cursor of every source partition is
  one past its last copied record; and the audit trail grows by the \<open>ATTEMPT\<close> and the \<open>RESULT\<close>. (A nil key or
  value is excluded: the code copies it as an empty one, see \<open>replay_is_verbatim_but_nil\<close>.)
\<close>

theorem replay_copies_the_log:
  assumes "live w" "Check caller (desc_of ''M8'') pol = None"
    and "map_of (m_topics (model_of w)) (RS_Topic source) = Some ft" "placed ft" "ft_partitions ft \<noteq> []"
    and "length (ft_partitions ft) < 2147483648"
    and "RS_Partitions source = []" "From_Kind (RS_From source) = FromBeginning" "RS_To source = None"
    and "map_of (m_topics (model_of w)) (RT_Topic target) = Some tt" "ft_partitions tt \<noteq> []"
    and "length (ft_partitions tt) < 2147483648"
    and "RT_PreservePartition target \<longrightarrow> length (ft_partitions ft) \<le> length (ft_partitions tt)"
    and "within limit (Bounds_Replay b)" "0 < resolved limit (Bounds_Replay b)"
    and "in_int64 (resolved limit (Bounds_Replay b))" "confirm = RT_Topic target"
    and "\<forall>part \<in> set (ft_partitions ft). \<forall>r \<in> set (fp_records part). Record_Key r \<noteq> None \<and> Record_Value r \<noteq> None"
  shows "\<exists>ord ts plan res w' tt' ev ev2.
      mset ord = mset [0..<length (ft_partitions ft)] \<and> ts = replay_copies (resolved limit (Bounds_Replay b)) ord ft
    \<and> message_Replay (Suc (Suc n)) (world_message pol b) caller source target limit confirm False w
        = Some (Ok (\<lparr>Result_DryRun = False, Result_Plan = Some plan, Result_Value = Some res\<rparr>, None), w')
    \<and> RR_Copied res = int (length ts) \<and> RR_Cursor res = fold advance ts (start_cursor ft)
    \<and> model_of w' = (model_of w)\<lparr>m_topics := mput (RT_Topic target) tt' (m_topics (model_of w))\<rparr>
    \<and> (\<forall>j < length (ft_partitions tt). \<exists>new.
          fp_records (ft_partitions tt' ! j) = fp_records (ft_partitions tt ! j) @ new
        \<and> map stored_payload new = map stored_payload
            (filter (\<lambda>r. request_partition tt (verbatim (RT_PreservePartition target) r) = int j) ts))
    \<and> audit_trail w' = audit_trail w @ [ev, ev2] \<and> audited_pair ''M8'' caller ev ev2"
proof -
  let ?w0 = "draw_id w" and ?pres = "RT_PreservePartition target"
  let ?att = "(message_event caller ''M8'' (RT_Topic target) w)\<lparr>Event_DryRun := False\<rparr>"
  have w0: "live ?w0" "map_of (m_topics (model_of ?w0)) (RS_Topic source) = Some ft"
    "map_of (m_topics (model_of ?w0)) (RT_Topic target) = Some tt" using assms(1,3,10) by simp_all
  from PlanReplay_whole [OF w0(1,2) assms(6-9) w0(3) assms(12,13,14), of pol] obtain w1 plan where
    plan: "PlanReplay (world_message pol b) source target limit ?w0 = (Ok plan, w1)" "reads_only ?w0 w1"
      "RPlan_Source plan = source" "RPlan_Target plan = target" "RPlan_windows plan = log_windows ft"
      "RPlan_Limit plan = resolved limit (Bounds_Replay b)" by blast
  let ?w2 = "add_event (attempt_phase ?att) w1"
  have w2: "live ?w2" "model_of ?w2 = model_of w" "audit_trail ?w2 = audit_trail w @ [attempt_phase ?att]" "live w1"
    using plan(2) assms(1) by (simp_all add: reads_only_def)
  have "\<exists>ord ts res w3 now out tt'. mset ord = mset [0..<length (ft_partitions ft)]
    \<and> ts = replay_copies (RPlan_Limit plan) ord ft
    \<and> ApplyReplay (Suc (Suc n)) (world_message pol b) plan ?w2 = Some (Ok res, w3)
    \<and> produce_all now (RT_Topic (RPlan_Target plan)) (map (verbatim (RT_PreservePartition (RPlan_Target plan))) ts) tt = (out, tt')
    \<and> live w3 \<and> audit_trail w3 = audit_trail ?w2
    \<and> model_of w3 = (model_of ?w2)\<lparr>m_topics := mput (RT_Topic (RPlan_Target plan)) tt' (m_topics (model_of ?w2))\<rparr>
    \<and> RR_Copied res = int (length ts) \<and> RR_Cursor res = fold advance ts (start_cursor ft)"
    by (rule ApplyReplay_whole) (use assms w2(1) plan in \<open>simp_all add: reads_only_def\<close>)
  then obtain ord ts res w3 now out tt' where
    ts: "mset ord = mset [0..<length (ft_partitions ft)]" "ts = replay_copies (resolved limit (Bounds_Replay b)) ord ft" and
    app: "ApplyReplay (Suc (Suc n)) (world_message pol b) plan ?w2 = Some (Ok res, w3)"
      "produce_all now (RT_Topic target) (map (verbatim ?pres) ts) tt = (out, tt')" "live w3"
      "audit_trail w3 = audit_trail ?w2"
      "model_of w3 = (model_of w)\<lparr>m_topics := mput (RT_Topic target) tt' (m_topics (model_of w))\<rparr>"
      "RR_Copied res = int (length ts)" "RR_Cursor res = fold advance ts (start_cursor ft)"
    unfolding plan(4,6) w2(2) by blast
  have conf: "confirm = ConfirmTarget ReplayPlan_ops plan" using assms(17) plan(4) by (simp add: ReplayPlan_ops_def)
  have whole: "message_Replay (Suc (Suc n)) (world_message pol b) caller source target limit confirm False w
      = Some (Ok (\<lparr>Result_DryRun = False, Result_Plan = Some plan, Result_Value = Some res\<rparr>, None),
          add_event (result_phase w3 ?att) w3)"
    using hung_destructive_executes [where ops = ReplayPlan_ops and app = "ApplyReplay (Suc (Suc n)) (world_message pol b)"
        and plan = "PlanReplay (world_message pol b) source target limit", OF w0(1) assms(2) plan(1) w2(4) conf app(1,3)]
    by (simp add: message_Replay_def Let_def before_run_def message_newEvent_world)
  have mem: "set ts \<subseteq> set (log_in ord ft)" by (auto simp: ts(2) replay_copies_def dest: in_set_takeD)
  then have "list_all (storable tt) (map (verbatim ?pres) ts)"
    using verbatim_storable [OF assms(4) ts(1) _ assms(11-13)] by (auto simp: list_all_iff)
  note stored = produce_all_storable [OF this app(2)]
  have same: "request_payload (verbatim ?pres r) = stored_payload r" if "r \<in> set ts" for r
  proof (rule log_in_mem [OF ts(1)])
    show "r \<in> set (log_in ord ft)" using mem that by blast
  next
    fix i assume "i < length (ft_partitions ft)" "r \<in> set (fp_records (ft_partitions ft ! i))"
    then show ?thesis using assms(18) by (intro verbatim_payload) auto
  qed
  have "map (\<lambda>r. request_payload (verbatim ?pres r)) (filter P ts) = map stored_payload (filter P ts)" for P
    by (intro map_cong refl same) simp
  note eq = this
  have logs: "\<forall>j < length (ft_partitions tt). \<exists>new.
      fp_records (ft_partitions tt' ! j) = fp_records (ft_partitions tt ! j) @ new
    \<and> map stored_payload new = map stored_payload (filter (\<lambda>r. request_partition tt (verbatim ?pres r) = int j) ts)"
    using stored unfolding filter_map map_map o_def eq by blast
  have "audited_pair ''M8'' caller (attempt_phase ?att) (result_phase w3 ?att)"
    by (simp add: audited_pair_def attempt_phase_def result_phase_def resultEventAt_def Let_def message_event_def
        event_at_def)
  moreover have "audit_trail (add_event (result_phase w3 ?att) w3) = audit_trail w @ [attempt_phase ?att, result_phase w3 ?att]"
    using app(4) w2(3) by simp
  ultimately show ?thesis
    using app(5-7) ts logs whole
    by (intro exI conjI) (assumption | simp)+
qed


definition keyed_orders :: fakeTopic where
  "keyed_orders = demo_orders\<lparr>ft_partitions := map (\<lambda>part.
     part\<lparr>fp_records := map (\<lambda>r. r\<lparr>Record_Key := Some ''k''\<rparr>) (fp_records part)\<rparr>) (ft_partitions demo_orders)\<rparr>"

definition keyed_world :: world where
  "keyed_world = set_model ((model_of demo_world)\<lparr>m_topics := [(''orders'', keyed_orders)]\<rparr>) demo_world"

lemma keyed_orders:
  "live keyed_world" "map_of (m_topics (model_of keyed_world)) ''orders'' = Some keyed_orders" "placed keyed_orders"
  "ft_partitions keyed_orders \<noteq> []" "length (ft_partitions keyed_orders) < 2147483648"
  "\<forall>part \<in> set (ft_partitions keyed_orders). \<forall>r \<in> set (fp_records part). Record_Key r \<noteq> None \<and> Record_Value r \<noteq> None"
  using demo_live by (auto simp: keyed_world_def keyed_orders_def demo_orders_def zero_partition_def placed_def Let_def
      demo_record_def less_Suc_eq numeral_2_eq_2 in_int64_def set_model_def live_def model_of_def wf_log_def wrap64_def
      upt_rec)

lemma keyed_log_length:
  assumes "mset ord = mset [0..<length (ft_partitions keyed_orders)]"
  shows "length (replay_copies 2 ord keyed_orders) = 2"
proof -
  have "length (log_in ord keyed_orders) = sum_mset (image_mset (\<lambda>i. length (fp_records (ft_partitions keyed_orders ! i))) (mset ord))"
    by (simp add: log_in_def length_concat o_def flip: sum_mset_sum_list)
  also have "\<dots> = 3"
    unfolding assms by (simp add: keyed_orders_def demo_orders_def zero_partition_def flip: mset_map)
  finally show ?thesis by (simp add: replay_copies_def)
qed

theorem replay_copies_the_log_witness:
  "\<exists>plan res w'. message_Replay 2 (world_message demo_policy demo_bounds) demo_op
      \<lparr>RS_Topic = ''orders'', RS_Partitions = [], RS_From = demo_from, RS_To = None\<rparr>
      \<lparr>RT_Topic = ''orders'', RT_PreservePartition = True\<rparr> 2 ''orders'' False keyed_world
    = Some (Ok (\<lparr>Result_DryRun = False, Result_Plan = Some plan, Result_Value = Some res\<rparr>, None), w')
    \<and> RR_Copied res = 2"
proof -
  let ?s = "\<lparr>RS_Topic = ''orders'', RS_Partitions = [], RS_From = demo_from, RS_To = None\<rparr>"
  let ?t = "\<lparr>RT_Topic = ''orders'', RT_PreservePartition = True\<rparr>"
  have b: "within 2 (Bounds_Replay demo_bounds)" "resolved 2 (Bounds_Replay demo_bounds) = 2" "in_int64 (2::int)"
    by (simp_all add: within_def resolved_def demo_bounds_def demo_range_def in_int64_def)
  have two: "Suc (Suc 0) = 2" by simp
  have "\<exists>ord plan res w'. mset ord = mset [0..<length (ft_partitions keyed_orders)]
    \<and> message_Replay (Suc (Suc 0)) (world_message demo_policy demo_bounds) demo_op ?s ?t 2 ''orders'' False keyed_world
        = Some (Ok (\<lparr>Result_DryRun = False, Result_Plan = Some plan, Result_Value = Some res\<rparr>, None), w')
    \<and> RR_Copied res = int (length (replay_copies 2 ord keyed_orders))"
    using replay_copies_the_log [where w = keyed_world and caller = demo_op and pol = demo_policy and source = ?s
        and target = ?t and ft = keyed_orders and tt = keyed_orders and limit = 2 and b = demo_bounds
        and confirm = "''orders''" and n = 0]
      keyed_orders b by (auto simp: demo_from_def)
  then show ?thesis unfolding two using keyed_log_length by auto
qed

end
