(* ===== verification/AppProps.thy ===== *)
theory AppProps
  imports AppRun TopicProps ReplayProps
begin

text \<open>
  What the composition root guarantees: an audit topic that does not exist is reported as unhealthy at start-up
  and destructive commands then fail closed; a shutdown whose drain fails stops there.
\<close>

section \<open>A missing audit topic\<close>

definition world_client :: "(world, Ctx) KafkaClient" where
  "world_client = \<lparr>kc_admin = world_admin, kc_producer = world_producer, kc_Close = ret ()\<rparr>"

lemma live_Produce_missing:
  assumes "live w" "map_of (m_topics (model_of w)) topic = None"
  shows "\<exists>w'. Produce (world_producer Background) topic reqs w = (Err (notFound ''topic''), w')
    \<and> live w' \<and> model_of w' = model_of w \<and> audit_trail w' = audit_trail w"
proof -
  let ?g = "\<lambda>f m. case map_of (m_topics m) topic of
         None \<Rightarrow> (Err (notFound ''topic''), m)
       | Some t \<Rightarrow> (case produce_all (fk_now f) topic reqs t of (out, t') \<Rightarrow>
           (Ok out, m\<lparr>m_topics := mput topic t' (m_topics m)\<rparr>))"
  show ?thesis
    using assms
    by (simp add: world_producer_def fake_Produce_def on_fake_def invoke_live alter_def model_of_def)
      (auto simp: live_def record_call_def audit_trail_def)
qed

lemma produce_value_missing:
  assumes "live w" "map_of (m_topics (model_of w)) topic = None"
  shows "\<exists>e w'. produce_value prefix (world_producer Background) topic v w = (Err (WrapError prefix e), w')
    \<and> live w' \<and> model_of w' = model_of w \<and> audit_trail w' = audit_trail w"
  using live_Produce_missing [OF assms, of "[value_request v]"]
  by (auto simp: produce_value_def attempt_def fail_run)

text \<open>\<open>newAuditor\<close> notices, and wires the sink in all the same.\<close>

definition no_log :: "'x \<Rightarrow> (world, unit) eff" where "no_log x = ret ()"

lemma verifyAuditTopic_missing:
  assumes "live w" "map_of (m_topics (model_of w)) topic = None"
  shows "\<exists>e w'. verifyAuditTopic (world_admin Background) (world_producer Background) topic w = (Err e, w')
    \<and> live w' \<and> model_of w' = model_of w \<and> audit_trail w' = audit_trail w"
proof -
  let ?d = "DescribeTopics (world_admin Background) topic w"
  have "live (snd ?d) \<and> model_of (snd ?d) = model_of w \<and> audit_trail (snd ?d) = audit_trail w \<and> fst ?d \<noteq> Panic"
    using assms by (simp add: fake_DescribeTopics_def with_topic_def live_peek)
  then show ?thesis
    using produce_value_missing [of "snd ?d" topic "''probe produce: ''" "''{\"probe\":\"startup\"}''"] assms(2)
    by (cases ?d; cases "fst ?d") (auto simp: verifyAuditTopic_def attempt_def fail_run)
qed

lemma newAuditor_missing:
  assumes "live w" "audit_Sink (Config_Audit cfg) = AuditSinkKafka"
    and "map_of (m_topics (model_of w)) (audit_Topic (Config_Audit cfg)) = None"
  shows "\<exists>w'. newAuditor json_text no_log (\<lambda>_. no_log) (ret world_client) (\<lambda>_. Background) cfg w
     = (Ok (\<lambda>ctx. [SlogSink_Write json_text no_log,
          KafkaSink_Write json_text (world_producer ctx) (audit_Topic (Config_Audit cfg))], False, Some world_client), w')
    \<and> live w' \<and> model_of w' = model_of w \<and> audit_trail w' = audit_trail w"
  using verifyAuditTopic_missing [OF assms(1,3)] assms(2)
  by (auto simp: newAuditor_def auditHealthAfterVerify_def attempt_def ret_run onOk_def Let_def world_client_def no_log_def)

lemma SlogSink_run:
  "SlogSink_Write json_text no_log ev w = (case marshal_Event json_text ev of
     Inl err \<Rightarrow> (Err (WrapError ''audit: marshal event: '' err), w) | Inr v \<Rightarrow> (Ok (), w))"
  by (simp add: SlogSink_Write_def no_log_def fail_run ret_run split: sum.split)

lemma Attempt_missing:
  assumes "live w" "map_of (m_topics (model_of w)) topic = None"
  shows "\<exists>e w'. Attempt [SlogSink_Write json_text no_log, KafkaSink_Write json_text (world_producer Background) topic] ev w
     = (Err e, w') \<and> model_of w' = model_of w"
proof (cases "marshal_Event json_text (ev\<lparr>Event_Phase := PhaseAttempt\<rparr>)")
  case (Inr v)
  then show ?thesis
    using produce_value_missing [OF assms, of "''audit: produce: ''" v]
    by (auto simp: Attempt_def attempt_def SlogSink_run KafkaSink_Write_def fail_run)
qed (simp add: Attempt_def attempt_def SlogSink_run fail_run)

lemma destructive_unaudited:
  assumes "Check caller (desc_of c) pol = None" "plan (draw_id w) = (Ok p, w1)" "confirm = ConfirmTarget ops p"
    and "\<And>ev. \<exists>e w2. Attempt sinks ev w1 = (Err e, w2) \<and> P w2"
  shows "\<exists>msg w2. destructive_cmd ((world_service ctx pol)\<lparr>svc_auditor := sinks\<rparr>) ttype c caller name ops confirm
      False plan app w = (Ok (zero_Result, Some (policyErr AuditUnavailable msg)), w2) \<and> P w2"
proof -
  have g: "gate (gates_runner pol) caller (desc_of c) = None" using assms(1) by simp
  have "new_event ((world_service ctx pol)\<lparr>svc_auditor := sinks\<rparr>) ttype caller c name
      = new_event (world_service ctx pol) ttype caller c name"
    by (simp add: new_event_def)
  moreover obtain att where "new_event (world_service ctx pol) ttype caller c name w = (Ok att, draw_id w)"
    by (simp add: world_new_event)
  moreover obtain e w2 where "Attempt sinks (att\<lparr>Event_DryRun := False\<rparr>) w1 = (Err e, w2)" "P w2"
    using assms(4) by blast
  ultimately show ?thesis
    using assms(2,3)
    by (auto simp: destructive_cmd_def onOk_def Destructive_passed [OF g] attempt_def Let_def ret_run)
qed

lemma replay_unaudited:
  assumes "live w" "Check caller (desc_of ''M8'') pol = None"
    and "PlanReplay ((world_message pol b)\<lparr>ms_svc := svc\<rparr>) source target limit (draw_id w) = (Ok p, w1)"
    and "svc = ((world_service Background pol)\<lparr>svc_now := world_timeNow\<rparr>)\<lparr>svc_auditor := sinks\<rparr>"
    and "confirm = ConfirmTarget ReplayPlan_ops p"
    and "\<And>ev. \<exists>e w2. Attempt sinks ev w1 = (Err e, w2) \<and> P w2"
  shows "\<exists>msg w2. message_Replay fuel ((world_message pol b)\<lparr>ms_svc := svc\<rparr>) caller source target limit confirm False w
      = Some (Ok (zero_Result, Some (policyErr AuditUnavailable msg)), w2) \<and> P w2"
proof -
  have g: "gate (gates_runner pol) caller (desc_of ''M8'') = None" using assms(2) by simp
  let ?att = "message_event caller ''M8'' (RT_Topic target) w"
  have new: "message_newEvent svc caller ''M8'' (RT_Topic target) w = (Ok ?att, draw_id w)"
    using message_newEvent_world [of pol caller "''M8''" "RT_Topic target" w]
    by (simp add: message_newEvent_def new_event_def assms(4))
  obtain e w2 where att: "Attempt sinks (?att\<lparr>Event_DryRun := False\<rparr>) w1 = (Err e, w2)" "P w2" using assms(6) by blast
  then have "Attempt (lift_auditor sinks) (?att\<lparr>Event_DryRun := False\<rparr>) (w1, x) = (Err e, (w2, x))" for x :: bool
    by (simp add: lift_Attempt)
  with att(2) show ?thesis
    using assms(3,5) [unfolded assms(4)] unfolding assms(4)
    by (simp add: message_Replay_def Let_def before_run_def new [unfolded assms(4)] unhang_def
        Destructive_passed [OF g] attempt_def lift_eff_run ret_run) blast
qed

text \<open>
  A plan that succeeds on a live cluster with the topics of \<open>w\<close>, names the confirmation given, and only reads.
\<close>

definition confirmed_plan :: "world \<Rightarrow> 'p PlanOps \<Rightarrow> string \<Rightarrow> (world, 'p) eff \<Rightarrow> bool" where
  "confirmed_plan w ops confirm plan \<longleftrightarrow> (\<forall>v. live v \<and> model_of v = model_of w \<longrightarrow>
     (\<exists>p v'. plan v = (Ok p, v') \<and> confirm = ConfirmTarget ops p \<and> live v' \<and> model_of v' = model_of w))"

lemma confirmed_PlanDelete:
  assumes "map_of (m_topics (model_of w)) t = Some ft"
  shows "confirmed_plan w DeleteTopicPlan_ops t (PlanDelete (world_service Background pol) t)"
  using PlanDelete_live [of _ t ft pol] assms by (fastforce simp: confirmed_plan_def DeleteTopicPlan_ops_def)

text \<open>
  C7. An audit topic that does not exist fails closed: start-up with the Kafka sink reports the audit trail as
  unhealthy, keeps the dedicated client and wires the sink in regardless; and then every destructive call that would
  otherwise be executed - its gate passes, its plan succeeds and the confirmation is the plan's - answers
  \<open>AUDIT_UNAVAILABLE\<close> and leaves the cluster as it is. This is stated of \<open>destructive_cmd\<close> with any command, plan and apply
  step, which is what T7-T12, G4-G7, C5, C9, C12, S1 (delete) and S2 are defined as, and of the replay M8.
\<close>

theorem missing_audit_topic_fails_closed:
  assumes "live w" "audit_Sink (Config_Audit cfg) = AuditSinkKafka"
    and "map_of (m_topics (model_of w)) (audit_Topic (Config_Audit cfg)) = None"
  shows "\<exists>auditor w1.
      newAuditor json_text no_log (\<lambda>_. no_log) (ret world_client) (\<lambda>_. Background) cfg w
        = (Ok (auditor, False, Some world_client), w1) \<and> model_of w1 = model_of w
    \<and> (Check caller (desc_of c) pol = None \<and> confirmed_plan w ops confirm plan \<longrightarrow>
        (\<exists>msg w2. destructive_cmd ((world_service Background pol)\<lparr>svc_auditor := auditor Background\<rparr>) ttype c caller name
            ops confirm False plan app w1 = (Ok (zero_Result, Some (policyErr AuditUnavailable msg)), w2)
          \<and> model_of w2 = model_of w))
    \<and> (let svc = ((world_service Background pol)\<lparr>svc_now := world_timeNow\<rparr>)\<lparr>svc_auditor := auditor Background\<rparr>;
           ms = (world_message pol b)\<lparr>ms_svc := svc\<rparr>
       in Check caller (desc_of ''M8'') pol = None
          \<and> confirmed_plan w ReplayPlan_ops confirm (PlanReplay ms source target limit) \<longrightarrow>
        (\<exists>msg w2. message_Replay fuel ms caller source target limit confirm False w1
            = Some (Ok (zero_Result, Some (policyErr AuditUnavailable msg)), w2)
          \<and> model_of w2 = model_of w))"
proof -
  let ?topic = "audit_Topic (Config_Audit cfg)"
  let ?sinks = "\<lambda>ctx. [SlogSink_Write json_text no_log, KafkaSink_Write json_text (world_producer ctx) ?topic]"
  obtain w1 where new: "newAuditor json_text no_log (\<lambda>_. no_log) (ret world_client) (\<lambda>_. Background) cfg w
      = (Ok (?sinks, False, Some world_client), w1)" "live w1" "model_of w1 = model_of w"
    using newAuditor_missing [OF assms] by blast
  have w1: "live (draw_id w1)" "model_of (draw_id w1) = model_of w" using new(2,3) by simp_all
  have att: "\<exists>e v'. Attempt (?sinks Background) ev v = (Err e, v') \<and> model_of v' = model_of w"
    if "live v" "model_of v = model_of w" for ev v
    using Attempt_missing [OF that(1), of ?topic] assms(3) that(2) by metis
  have "\<exists>msg w2. destructive_cmd ((world_service Background pol)\<lparr>svc_auditor := ?sinks Background\<rparr>) ttype c caller name
        ops confirm False plan app w1 = (Ok (zero_Result, Some (policyErr AuditUnavailable msg)), w2)
      \<and> model_of w2 = model_of w"
    if "Check caller (desc_of c) pol = None \<and> confirmed_plan w ops confirm plan"
  proof -
    from that w1 obtain p v where p: "plan (draw_id w1) = (Ok p, v)" "confirm = ConfirmTarget ops p" "live v"
      "model_of v = model_of w" unfolding confirmed_plan_def by blast
    from destructive_unaudited [where plan = plan, OF conjunct1 [OF that] p(1,2) att [OF p(3,4)]] show ?thesis .
  qed
  moreover have "\<exists>msg w2. message_Replay fuel ((world_message pol b)\<lparr>ms_svc := svc\<rparr>) caller source target limit confirm False w1
        = Some (Ok (zero_Result, Some (policyErr AuditUnavailable msg)), w2) \<and> model_of w2 = model_of w"
    if svc: "svc = ((world_service Background pol)\<lparr>svc_now := world_timeNow\<rparr>)\<lparr>svc_auditor := ?sinks Background\<rparr>"
      and "Check caller (desc_of ''M8'') pol = None"
      and "confirmed_plan w ReplayPlan_ops confirm (PlanReplay ((world_message pol b)\<lparr>ms_svc := svc\<rparr>) source target limit)" for svc
  proof -
    from that(3) w1 obtain p v where p: "PlanReplay ((world_message pol b)\<lparr>ms_svc := svc\<rparr>) source target limit (draw_id w1) = (Ok p, v)"
      "confirm = ConfirmTarget ReplayPlan_ops p" "live v" "model_of v = model_of w" unfolding confirmed_plan_def by blast
    from replay_unaudited [OF new(2) that(2) p(1) svc p(2) att [OF p(3,4)]] show ?thesis .
  qed
  ultimately show ?thesis
    using new(1,3) by (intro exI [of _ ?sinks] exI [of _ w1] conjI) (auto simp: Let_def)
qed

definition kafka_audit_config :: Config where
  "kafka_audit_config = Default\<lparr>Config_Audit := \<lparr>audit_Sink = AuditSinkKafka, audit_Topic = ''audit''\<rparr>\<rparr>"

lemma demo_no_audit: "map_of (m_topics (model_of demo_world)) ''audit'' = None"
  by (simp add: model_of_def demo_world_def demo_topics)

theorem missing_audit_topic_fails_closed_witness:
  "\<exists>auditor w1 msg w2.
      newAuditor (\<lambda>_. ''{}'') no_log (\<lambda>_. no_log) (ret world_client) (\<lambda>_. Background) kafka_audit_config demo_world
        = (Ok (auditor, False, Some world_client), w1)
      \<and> topic_Delete ((world_service Background demo_policy)\<lparr>svc_auditor := auditor Background\<rparr>) demo_op ''orders''
          ''orders'' False w1 = (Ok (zero_Result, Some (policyErr AuditUnavailable msg)), w2)
      \<and> model_of w1 = model_of demo_world \<and> model_of w2 = model_of demo_world"
proof -
  have cfg: "audit_Sink (Config_Audit kafka_audit_config) = AuditSinkKafka"
    "map_of (m_topics (model_of demo_world)) (audit_Topic (Config_Audit kafka_audit_config)) = None"
    by (simp_all add: kafka_audit_config_def demo_no_audit)
  have plan: "PlanDelete ((world_service Background demo_policy)\<lparr>svc_auditor := sinks\<rparr>) t
      = PlanDelete (world_service Background demo_policy) t"
    "ApplyDelete ((world_service Background demo_policy)\<lparr>svc_auditor := sinks\<rparr>) = ApplyDelete (world_service Background demo_policy)"
    for sinks t
    by (simp_all add: PlanDelete_def topic_Describe_def ApplyDelete_def fun_eq_iff)
  have "confirmed_plan demo_world DeleteTopicPlan_ops ''orders'' (PlanDelete (world_service Background demo_policy) ''orders'')"
    by (rule confirmed_PlanDelete) (rule demo_model)
  with missing_audit_topic_fails_closed [OF demo_live cfg, where json_text = "\<lambda>_. ''{}''" and caller = demo_op
      and c = "''T7''" and pol = demo_policy and ops = DeleteTopicPlan_ops and confirm = "''orders''"
      and plan = "PlanDelete (world_service Background demo_policy) ''orders''" and ttype = "''topic''"
      and name = "''orders''" and app = "ApplyDelete (world_service Background demo_policy)"]
  show ?thesis by (simp add: topic_Delete_def plan) blast
qed

section \<open>Shutdown\<close>

text \<open>
  Clients close only when the requests are drained and the telemetry is flushed. What fails before leaves them
  open: \<open>runServer\<close> returns on the first error.
\<close>

lemma runServer_drain_fails:
  "shutdownHTTP s = (Err err, s1) \<Longrightarrow> runServer None shutdownHTTP shutdownTelemetry closers logComplete s
     = (Err (WrapError ''app: HTTP shutdown: '' err), s1)"
  by (simp add: runServer_def attempt_def fail_run)

end
