(* ===== verification/FranzAdmin.thy ===== *)
theory FranzAdmin
  imports FranzClient
begin

text \<open>
  The admin port over franz-go (\<^verbatim>\<open>internal/kafka/franz/admin.go\<close>, \<^verbatim>\<open>quorum.go\<close>): every operation as calls of
  the libraries \<^verbatim>\<open>kadm\<close> and \<^verbatim>\<open>kmsg\<close> and the conversion of what they answer.

  The record \<open>Kadm\<close> is the library: its calls under the request's context, and the methods of its response
  types the adapter uses. A response the adapter only ever asks one method of is that method: what
  \<open>resp.On(name, nil)\<close> answers is a function of the name. Response types have the fields the adapter reads. A
  \<open>kadm.TopicsSet\<close>, \<open>kadm.Offsets\<close> or request that is built by repeated \<open>Add\<close> or \<open>Assign\<close> is the list of
  those calls.
\<close>

section \<open>The library\<close>

record BrokerDetail =
  bd_NodeID :: int32
  bd_Host :: string
  bd_Port :: int32
  bd_Rack :: "string option"

record KadmPartitionDetail =
  pd_Partition :: int32
  pd_Leader :: int32
  pd_Replicas :: "int32 list"
  pd_ISR :: "int32 list"

record TopicDetail =
  td_Topic :: string
  td_IsInternal :: bool
  td_Partitions :: "(int32 \<times> KadmPartitionDetail) list"
  td_Err :: "lib_error option"

type_synonym TopicDetails = "(string \<times> TopicDetail) list"

record KadmMetadata =
  km_Cluster :: string
  km_Controller :: int32
  km_Brokers :: "BrokerDetail list"
  km_Topics :: TopicDetails

record KadmConfig =
  kc_Key :: string
  kc_MaybeValue :: string
  kc_Sensitive :: bool
  kc_Source :: kmsg_ConfigSource

record ResourceConfig =
  rc_Configs :: "KadmConfig list"
  rc_Err :: "lib_error option"

record ListedOffset =
  lo_Offset :: int64
  lo_Err :: "lib_error option"

type_synonym ListedOffsets = "(string \<times> (int32 \<times> ListedOffset) list) list"

record DescribedLogDirPartition =
  dlp_Partition :: int32
  dlp_Size :: int64

record DescribedLogDir =
  dld_Broker :: int32
  dld_Dir :: string
  dld_Topics :: "(string \<times> (int32 \<times> DescribedLogDirPartition) list) list"
  dld_Err :: "lib_error option"

type_synonym DescribedAllLogDirs = "(int32 \<times> (string \<times> DescribedLogDir) list) list"

record ListedGroup =
  lg_Group :: string
  lg_State :: string
  lg_ProtocolType :: string

type_synonym ListedGroups = "(string \<times> ListedGroup) list"

record DescribedMember =
  dm_MemberID :: string
  dm_ClientID :: string
  dm_ClientHost :: string
  dm_AsConsumer :: "(string \<times> int32 list) list option" \<comment> \<open>\<open>Assigned.AsConsumer()\<close>: topic, partitions\<close>

record DescribedGroup =
  dg_Group :: string
  dg_State :: string
  dg_ProtocolType :: string
  dg_CoordinatorNodeID :: int32
  dg_Members :: "DescribedMember list"
  dg_Err :: "lib_error option"

type_synonym DescribedGroups = "(string \<times> DescribedGroup) list"

record OffsetResponse =
  or_At :: int64
  or_Err :: "lib_error option"

record CreateTopicResponse =
  ctr_Topic :: string
  ctr_NumPartitions :: int32
  ctr_ReplicationFactor :: int16
  ctr_Configs :: "(string \<times> KadmConfig) list"
  ctr_Err :: "lib_error option"

datatype kadm_AlterOp = SetConfig | DeleteConfig

record KadmAlterConfig =
  kac_Op :: kadm_AlterOp
  kac_Name :: string
  kac_Value :: "string option"

record DeleteRecordsResponse =
  drr_LowWatermark :: int64
  drr_Err :: "lib_error option"

record LeaveGroupResponse =
  lgr_ErrorCode :: int16
  lgr_Members :: "(string \<times> int16) list" \<comment> \<open>\<open>MemberID\<close>, \<open>ErrorCode\<close>\<close>

record ReplicaState =
  qrs_ReplicaID :: int32
  qrs_LogEndOffset :: int64
  qrs_LastCaughtUpTimestamp :: int64

record QuorumPartition =
  qp_ErrorCode :: int16
  qp_LeaderID :: int32
  qp_LeaderEpoch :: int32
  qp_CurrentVoters :: "ReplicaState list"
  qp_Observers :: "ReplicaState list"

record DescribeQuorumResponse =
  dqr_ErrorCode :: int16
  dqr_Topics :: "QuorumPartition list list" \<comment> \<open>the partitions of each topic\<close>

record ReassignmentPartition =
  rp_Partition :: int32
  rp_Replicas :: "int32 list"
  rp_AddingReplicas :: "int32 list"
  rp_RemovingReplicas :: "int32 list"

record ListReassignmentsResponse =
  lrr_ErrorCode :: int16
  lrr_Topics :: "(string \<times> ReassignmentPartition list) list"

datatype kadm_ElectHow = ElectPreferredReplica | ElectLiveReplica

datatype kadm_ScramMechanism = KadmScramSha256 | KadmScramSha512 | KadmScramOther int

record DescribedUserSCRAM =
  du_User :: string
  du_CredInfos :: "(kadm_ScramMechanism \<times> int32) list"
  du_Err :: "lib_error option"

record UpsertSCRAM =
  us_User :: string
  us_Mechanism :: kadm_ScramMechanism
  us_Iterations :: int32
  us_Password :: string

type_synonym ClientQuotaEntity = "(string \<times> string option) list"

record KadmDescribedQuota =
  kdq_Entity :: ClientQuotaEntity
  kdq_Values :: "(string \<times> float64) list"

record KadmQuotaOp =
  kqo_Key :: string
  kqo_Value :: float64
  kqo_Remove :: bool

datatype kmsg_QuotasMatchType = QuotasMatchTypeExact | QuotasMatchTypeDefault | QuotasMatchTypeAny

text \<open>The entries of a partition map without an entry read as the zero response, without an error.\<close>

type_synonym PartitionErrors = "(string \<times> (int32 \<times> lib_error option) list) list"

record 's Kadm =
  kadm_BrokerMetadata :: "('s, KadmMetadata) libcall"
  kadm_Metadata :: "('s, KadmMetadata) libcall"
  kadm_DescribeBrokerConfigs :: "int32 \<Rightarrow> ('s, string \<Rightarrow> lib_error + ResourceConfig) libcall"
  kadm_DescribeTopicConfigs :: "string \<Rightarrow> ('s, string \<Rightarrow> lib_error + ResourceConfig) libcall"
  kadm_ListTopicsWithInternal :: "string list \<Rightarrow> ('s, TopicDetails) libcall"
  kadm_ListStartOffsets :: "string \<Rightarrow> ('s, ListedOffsets) libcall"
  kadm_ListEndOffsets :: "string \<Rightarrow> ('s, ListedOffsets) libcall"
  kadm_ListOffsetsAfterMilli :: "int64 \<Rightarrow> string \<Rightarrow> ('s, ListedOffsets) libcall"
  kadm_DescribeAllLogDirs :: "string list option \<Rightarrow> ('s, DescribedAllLogDirs) libcall"
  kadm_ListGroups :: "string list \<Rightarrow> ('s, ListedGroups) libcall"
  kadm_DescribeGroups :: "string list \<Rightarrow> ('s, DescribedGroups) libcall"
  kadm_FetchOffsets :: "string \<Rightarrow> ('s, (string \<times> (int32 \<times> OffsetResponse) list) list) libcall"
  kadm_ValidateCreateTopics :: "int32 \<Rightarrow> int16 \<Rightarrow> (string \<times> string option) list option \<Rightarrow> string
    \<Rightarrow> ('s, string \<Rightarrow> lib_error + CreateTopicResponse) libcall"
  kadm_CreateTopic :: "int32 \<Rightarrow> int16 \<Rightarrow> (string \<times> string option) list option \<Rightarrow> string \<Rightarrow> ('s, CreateTopicResponse) libcall"
  kadm_AlterTopicConfigs :: "KadmAlterConfig list \<Rightarrow> string \<Rightarrow> ('s, string \<Rightarrow> lib_error + lib_error option) libcall"
  kadm_UpdatePartitions :: "int64 \<Rightarrow> string \<Rightarrow> ('s, string \<Rightarrow> lib_error + lib_error option) libcall"
  kadm_DeleteTopics :: "string list \<Rightarrow> ('s, string \<Rightarrow> lib_error + lib_error option) libcall"
  kadm_DeleteRecords :: "(string \<times> (int32 \<times> int64) list) list
    \<Rightarrow> ('s, string \<Rightarrow> int32 \<Rightarrow> DeleteRecordsResponse option) libcall"
  kadm_CommitOffsets :: "string \<Rightarrow> (TopicPartition \<times> int64) list \<Rightarrow> ('s, lib_error option) libcall"
  kadm_DeleteGroups :: "string list \<Rightarrow> ('s, (string \<times> lib_error option) list) libcall"
  kmsg_LeaveGroup :: "string \<Rightarrow> string list \<Rightarrow> ('s, LeaveGroupResponse) libcall"
  kmsg_DescribeQuorum :: "(string \<times> int32 list) list \<Rightarrow> ('s, DescribeQuorumResponse) libcall"
  kmsg_ListPartitionReassignments :: "('s, ListReassignmentsResponse) libcall"
  kadm_AlterPartitionAssignments :: "(TopicPartition \<times> int32 list option) list \<Rightarrow> ('s, PartitionErrors) libcall"
  kadm_ElectLeaders :: "kadm_ElectHow \<Rightarrow> TopicPartition list \<Rightarrow> ('s, PartitionErrors) libcall"
  kadm_AlterBrokerConfigs :: "KadmAlterConfig list \<Rightarrow> int32 \<Rightarrow> ('s, lib_error option list) libcall"
  kadm_DescribeUserSCRAMs :: "string list \<Rightarrow> ('s, DescribedUserSCRAM list) libcall" \<comment> \<open>\<open>Sorted()\<close>\<close>
  kadm_AlterUserSCRAMs :: "(string \<times> kadm_ScramMechanism) list \<Rightarrow> UpsertSCRAM list
    \<Rightarrow> ('s, (string \<times> lib_error option) list) libcall" \<comment> \<open>\<open>Sorted()\<close>\<close>
  kadm_DescribeClientQuotas :: "bool \<Rightarrow> (string \<times> kmsg_QuotasMatchType) list \<Rightarrow> ('s, KadmDescribedQuota list) libcall"
  kadm_AlterClientQuotas :: "(ClientQuotaEntity \<times> KadmQuotaOp list) list
    \<Rightarrow> ('s, (ClientQuotaEntity \<times> lib_error option) list) libcall"
  topics_Sorted :: "TopicDetails \<Rightarrow> TopicDetail list"
  partitions_Sorted :: "(int32 \<times> KadmPartitionDetail) list \<Rightarrow> KadmPartitionDetail list"
  partitions_NumReplicas :: "(int32 \<times> KadmPartitionDetail) list \<Rightarrow> int64"
  listed_Groups :: "ListedGroups \<Rightarrow> string list"
  listed_Sorted :: "ListedGroups \<Rightarrow> ListedGroup list"
  described_On :: "DescribedGroups \<Rightarrow> string \<Rightarrow> lib_error + DescribedGroup"
  described_Sorted :: "DescribedGroups \<Rightarrow> DescribedGroup list"
  logdirs_Sorted :: "DescribedAllLogDirs \<Rightarrow> DescribedLogDir list"
  logdir_Size :: "DescribedLogDir \<Rightarrow> int64"
  kerr_ErrorForCode :: "int16 \<Rightarrow> lib_error option"
  adm_timeNow :: "'s \<Rightarrow> time \<times> 's"

section \<open>Conversions\<close>

definition toDomainBroker :: "BrokerDetail \<Rightarrow> Broker" where
  "toDomainBroker b = \<lparr>Broker_ID = bd_NodeID b, Broker_Host = bd_Host b, Broker_Port = bd_Port b,
     Broker_Rack = (case bd_Rack b of Some r \<Rightarrow> r | None \<Rightarrow> [])\<rparr>"

definition toDomainTopicDetail :: "'s Kadm \<Rightarrow> TopicDetail \<Rightarrow> Topic" where
  "toDomainTopicDetail k td = \<lparr>Topic_Name = td_Topic td, Topic_Internal = td_IsInternal td,
     Topic_ReplicationFactor = partitions_NumReplicas k (td_Partitions td),
     Topic_Partitions = map (\<lambda>pd. \<lparr>Partition_ID = pd_Partition pd, Partition_Leader = pd_Leader pd,
       Partition_Replicas = pd_Replicas pd, Partition_ISR = pd_ISR pd, Partition_BeginOffset = 0,
       Partition_EndOffset = 0\<rparr>) (partitions_Sorted k (td_Partitions td))\<rparr>"

definition toConfigEntries :: "KadmConfig list \<Rightarrow> ConfigEntry list" where
  "toConfigEntries configs = map (\<lambda>c.
     \<lparr>ConfigEntry_Name = kc_Key c, ConfigEntry_Value = (if kc_Sensitive c then [] else kc_MaybeValue c),
      ConfigEntry_Source = Some (normalizeConfigSource (kc_Source c)), ConfigEntry_IsSensitive = kc_Sensitive c,
      ConfigEntry_IsReadOnly = False\<rparr>) configs"

fun offset_map :: "(int32 \<times> ListedOffset) list \<Rightarrow> (int32 \<times> int64) list \<Rightarrow> ('s, (int32 \<times> int64) list) eff" where
  "offset_map [] out = ret out"
| "offset_map ((p, x) # rest) out =
    (case lo_Err x of
       Some err \<Rightarrow> fail (wrap_error ''topic'' err)
     | None \<Rightarrow> if p < 0 then offset_map rest out else offset_map rest (mput p (lo_Offset x) out))"

definition toOffsetMap :: "string \<Rightarrow> ListedOffsets \<Rightarrow> ('s, (int32 \<times> int64) list) eff" where
  "toOffsetMap topic lo =
    (case map_of lo topic of
       None \<Rightarrow> fail (kafkaErr KindNotFound ''topic'')
     | Some partitions \<Rightarrow> offset_map partitions [])"

definition franz_toDomainGroup :: "DescribedGroup \<Rightarrow> Group" where
  "franz_toDomainGroup d = \<lparr>Group_ID = dg_Group d, Group_State = dg_State d, Group_ProtocolType = dg_ProtocolType d,
     Group_CoordinatorID = dg_CoordinatorNodeID d,
     Group_Members = map (\<lambda>m. \<lparr>GroupMember_MemberID = dm_MemberID m, GroupMember_ClientID = dm_ClientID m,
       GroupMember_Host = dm_ClientHost m,
       GroupMember_Assignments = (case dm_AsConsumer m of
          None \<Rightarrow> []
        | Some topics \<Rightarrow> concat (map (\<lambda>(t, ps). map (\<lambda>p. (t, p)) ps) topics))\<rparr>) (dg_Members d)\<rparr>"

definition create_failed :: "string \<Rightarrow> lib_error \<Rightarrow> TopicCreateResult" where
  "create_failed name err = \<lparr>TopicCreateResult_Name = name, TopicCreateResult_Partitions = 0,
     TopicCreateResult_ReplicationFactor = 0, TopicCreateResult_Configs = [],
     TopicCreateResult_Err = Some (wrap_error ''topic'' err)\<rparr>"

definition toTopicCreateResult :: "string \<Rightarrow> lib_error + CreateTopicResponse \<Rightarrow> TopicCreateResult" where
  "toTopicCreateResult name r =
    (case r of
       Inl err \<Rightarrow> create_failed name err
     | Inr x \<Rightarrow> (case ctr_Err x of
         Some err \<Rightarrow> create_failed name err
       | None \<Rightarrow> \<lparr>TopicCreateResult_Name = ctr_Topic x, TopicCreateResult_Partitions = ctr_NumPartitions x,
           TopicCreateResult_ReplicationFactor = ctr_ReplicationFactor x,
           TopicCreateResult_Configs = toConfigEntries (map snd (ctr_Configs x)), TopicCreateResult_Err = None\<rparr>))"

definition toKadmConfigPointers :: "(string \<times> string) list \<Rightarrow> (string \<times> string option) list option" where
  "toKadmConfigPointers configs = (if configs = [] then None else Some (map (\<lambda>(k, v). (k, Some v)) configs))"

definition toKadmAlterConfigs :: "ConfigChange list \<Rightarrow> KadmAlterConfig list" where
  "toKadmAlterConfigs changes = map (\<lambda>ch.
     case ConfigChange_Value ch of
       Some v \<Rightarrow> \<lparr>kac_Op = SetConfig, kac_Name = ConfigChange_Name ch, kac_Value = Some v\<rparr>
     | None \<Rightarrow> \<lparr>kac_Op = DeleteConfig, kac_Name = ConfigChange_Name ch, kac_Value = None\<rparr>) changes"

definition toQuorumReplicaStates :: "ReplicaState list \<Rightarrow> int32 \<Rightarrow> time \<Rightarrow> QuorumReplicaState list" where
  "toQuorumReplicaStates states leaderID now = map (\<lambda>s.
     \<lparr>QuorumReplicaState_ID = qrs_ReplicaID s, QuorumReplicaState_LogEndOffset = qrs_LogEndOffset s,
      QuorumReplicaState_LagMs =
        (if qrs_ReplicaID s \<noteq> leaderID \<and> qrs_LastCaughtUpTimestamp s \<ge> 0
         then (let lag = wrap64 (UnixMilli now - qrs_LastCaughtUpTimestamp s) in if lag < 0 then 0 else lag)
         else 0)\<rparr>) states"

definition toKadmScramMechanism :: "ScramMechanism \<Rightarrow> kadm_ScramMechanism" where
  "toKadmScramMechanism m = (if m = ScramSha512 then KadmScramSha512 else KadmScramSha256)"

fun toDomainScramMechanism :: "kadm_ScramMechanism \<Rightarrow> ScramMechanism" where
  "toDomainScramMechanism KadmScramSha512 = ScramSha512"
| "toDomainScramMechanism _ = ScramSha256"

definition toDomainQuotaEntity :: "ClientQuotaEntity \<Rightarrow> QuotaEntity" where
  "toDomainQuotaEntity e = map (\<lambda>(t, n). \<lparr>QuotaEntityComponent_Type = t, QuotaEntityComponent_Name = n\<rparr>) e"

definition toKadmQuotaEntity :: "QuotaEntity \<Rightarrow> ClientQuotaEntity" where
  "toKadmQuotaEntity e = map (\<lambda>c. (QuotaEntityComponent_Type c, QuotaEntityComponent_Name c)) e"

definition partition_error :: "PartitionErrors \<Rightarrow> TopicPartition \<Rightarrow> lib_error option" where
  "partition_error resp tp = mget (mget resp [] (fst tp)) None (snd tp)"

section \<open>Reads\<close>

definition franz_DescribeCluster :: "'s Kadm \<Rightarrow> ('s, ClusterInfo) eff" where
  "franz_DescribeCluster k =
    onOk (calling [] (kadm_BrokerMetadata k)) (\<lambda>md.
      ret \<lparr>ClusterInfo_ClusterID = km_Cluster md, ClusterInfo_ControllerID = km_Controller md,
        ClusterInfo_Brokers = map toDomainBroker (km_Brokers md)\<rparr>)"

definition config_entries :: "string \<Rightarrow> lib_error + ResourceConfig \<Rightarrow> ('s, ConfigEntry list) eff" where
  "config_entries resource r =
    onOk (unwrap resource r) (\<lambda>rc.
    onOk (noError resource (rc_Err rc)) (\<lambda>_. ret (toConfigEntries (rc_Configs rc))))"

definition franz_DescribeBrokerConfigs :: "'s Kadm \<Rightarrow> int32 \<Rightarrow> ('s, ConfigEntry list) eff" where
  "franz_DescribeBrokerConfigs k brokerID =
    onOk (calling ''broker'' (kadm_DescribeBrokerConfigs k brokerID)) (\<lambda>on.
      config_entries ''broker'' (on (itoa brokerID)))"

definition franz_Metadata :: "'s Kadm \<Rightarrow> ('s, ClusterMetadata) eff" where
  "franz_Metadata k =
    onOk (calling [] (kadm_Metadata k)) (\<lambda>md.
      ret \<lparr>ClusterMetadata_Brokers = map toDomainBroker (km_Brokers md),
        ClusterMetadata_Topics = map (toDomainTopicDetail k)
          (filter (\<lambda>td. td_Err td = None) (topics_Sorted k (km_Topics md)))\<rparr>)"

definition franz_ListTopics :: "'s Kadm \<Rightarrow> ('s, TopicSummary list) eff" where
  "franz_ListTopics k =
    onOk (calling [] (kadm_ListTopicsWithInternal k [])) (\<lambda>tds.
      ret (map (\<lambda>td. \<lparr>TopicSummary_Name = td_Topic td, TopicSummary_Internal = td_IsInternal td,
          TopicSummary_PartitionCount = int (length (td_Partitions td)),
          TopicSummary_ReplicationFactor = partitions_NumReplicas k (td_Partitions td)\<rparr>)
        (filter (\<lambda>td. td_Err td = None) (topics_Sorted k tds))))"

definition franz_DescribeTopics :: "'s Kadm \<Rightarrow> string \<Rightarrow> ('s, Topic) eff" where
  "franz_DescribeTopics k topic =
    onOk (calling ''topic'' (kadm_ListTopicsWithInternal k [topic])) (\<lambda>tds.
      case map_of tds topic of
        None \<Rightarrow> fail (kafkaErr KindNotFound ''topic'')
      | Some td \<Rightarrow> onOk (noError ''topic'' (td_Err td)) (\<lambda>_. ret (toDomainTopicDetail k td)))"

definition franz_DescribeTopicConfigs :: "'s Kadm \<Rightarrow> string \<Rightarrow> ('s, ConfigEntry list) eff" where
  "franz_DescribeTopicConfigs k topic =
    onOk (calling ''topic'' (kadm_DescribeTopicConfigs k topic)) (\<lambda>on. config_entries ''topic'' (on topic))"

definition franz_ListStartOffsets :: "'s Kadm \<Rightarrow> string \<Rightarrow> ('s, (int32 \<times> int64) list) eff" where
  "franz_ListStartOffsets k topic = onOk (calling ''topic'' (kadm_ListStartOffsets k topic)) (toOffsetMap topic)"

definition franz_ListEndOffsets :: "'s Kadm \<Rightarrow> string \<Rightarrow> ('s, (int32 \<times> int64) list) eff" where
  "franz_ListEndOffsets k topic = onOk (calling ''topic'' (kadm_ListEndOffsets k topic)) (toOffsetMap topic)"

definition franz_ListOffsetsAfterMilli :: "'s Kadm \<Rightarrow> string \<Rightarrow> int64 \<Rightarrow> ('s, (int32 \<times> int64) list) eff" where
  "franz_ListOffsetsAfterMilli k topic millisecond =
    onOk (calling ''topic'' (kadm_ListOffsetsAfterMilli k millisecond topic)) (toOffsetMap topic)"

definition log_dir_replicas :: "string \<Rightarrow> DescribedLogDir \<Rightarrow> LogDirReplica list" where
  "log_dir_replicas topic d =
    (if dld_Err d \<noteq> None then []
     else case map_of (dld_Topics d) topic of
         None \<Rightarrow> []
       | Some partitions \<Rightarrow> map (\<lambda>(_, p). \<lparr>LogDirReplica_Partition = dlp_Partition p,
           LogDirReplica_BrokerID = dld_Broker d, LogDirReplica_LogDir = dld_Dir d, LogDirReplica_Bytes = dlp_Size p\<rparr>) partitions)"

definition franz_DescribeLogDirs :: "'s Kadm \<Rightarrow> string \<Rightarrow> ('s, LogDirReplica list) eff" where
  "franz_DescribeLogDirs k topic =
    onOk (calling ''topic'' (kadm_DescribeAllLogDirs k (Some [topic]))) (\<lambda>dirs.
      ret (sort_key (\<lambda>x. (LogDirReplica_Partition x, LogDirReplica_BrokerID x))
        (concat (map (\<lambda>(_, byPath). concat (map (\<lambda>(_, d). log_dir_replicas topic d) byPath)) dirs))))"

definition franz_ListGroups :: "'s Kadm \<Rightarrow> string list \<Rightarrow> ('s, GroupSummary list) eff" where
  "franz_ListGroups k states =
    onOk (calling [] (kadm_ListGroups k states)) (\<lambda>listed.
      if listed = [] then ret []
      else onOk (calling [] (kadm_DescribeGroups k (listed_Groups k listed))) (\<lambda>described.
        ret (map (\<lambda>g. \<lparr>GroupSummary_ID = lg_Group g, GroupSummary_State = lg_State g,
          GroupSummary_ProtocolType = lg_ProtocolType g,
          GroupSummary_MemberCount = (case map_of described (lg_Group g) of
             Some d \<Rightarrow> if dg_Err d = None then int (length (dg_Members d)) else 0
           | None \<Rightarrow> 0)\<rparr>) (listed_Sorted k listed))))"

definition franz_DescribeGroups :: "'s Kadm \<Rightarrow> string list \<Rightarrow> ('s, Group list) eff" where
  "franz_DescribeGroups k groupIDs =
    onOk (calling [] (kadm_DescribeGroups k groupIDs)) (\<lambda>described.
      if groupIDs \<noteq> [] then
        collect (\<lambda>i. onOk (unwrap ''group'' (described_On k described i)) (\<lambda>d.
          onOk (noError ''group'' (dg_Err d)) (\<lambda>_. ret (franz_toDomainGroup d)))) groupIDs
      else ret (map franz_toDomainGroup (filter (\<lambda>d. dg_Err d = None) (described_Sorted k described))))"

definition committed_offsets :: "(string \<times> (int32 \<times> OffsetResponse) list) list \<Rightarrow> (TopicPartition \<times> int64) list" where
  "committed_offsets responses = fold (\<lambda>(topic, partitions). fold (\<lambda>(p, x) out.
     if or_Err x \<noteq> None then out else mput (topic, p) (or_At x) out) partitions) responses []"

definition franz_FetchGroupOffsets :: "'s Kadm \<Rightarrow> string \<Rightarrow> ('s, (TopicPartition \<times> int64) list) eff" where
  "franz_FetchGroupOffsets k groupID =
    onOk (calling ''group'' (kadm_DescribeGroups k [groupID])) (\<lambda>described.
    onOk (unwrap ''group'' (described_On k described groupID)) (\<lambda>_.
    onOk (calling ''group'' (kadm_FetchOffsets k groupID)) (\<lambda>responses. ret (committed_offsets responses))))"

text \<open>\<^verbatim>\<open>quorum.go\<close>\<close>

definition metadataQuorumTopic :: string where "metadataQuorumTopic = ''__cluster_metadata''"

definition buildDescribeQuorumRequest :: "(string \<times> int32 list) list" where
  "buildDescribeQuorumRequest = [(metadataQuorumTopic, [0])]"

definition franz_DescribeQuorum :: "'s Kadm \<Rightarrow> ('s, QuorumStatus) eff" where
  "franz_DescribeQuorum k =
    onOk (calling [] (kmsg_DescribeQuorum k buildDescribeQuorumRequest)) (\<lambda>resp.
    onOk (noError [] (kerr_ErrorForCode k (dqr_ErrorCode resp))) (\<lambda>_.
      case dqr_Topics resp of
        (p # _) # _ \<Rightarrow>
          onOk (noError [] (kerr_ErrorForCode k (qp_ErrorCode p))) (\<lambda>_.
          onOk (act (adm_timeNow k)) (\<lambda>now.
            ret \<lparr>QuorumStatus_LeaderID = qp_LeaderID p, QuorumStatus_Epoch = qp_LeaderEpoch p,
              QuorumStatus_Voters = toQuorumReplicaStates (qp_CurrentVoters p) (qp_LeaderID p) now,
              QuorumStatus_Observers = toQuorumReplicaStates (qp_Observers p) (qp_LeaderID p) now\<rparr>))
      | _ \<Rightarrow> fail (kafkaErr KindUnsupported [])))"

definition franz_ListReassignments :: "'s Kadm \<Rightarrow> ('s, PartitionReassignment list) eff" where
  "franz_ListReassignments k =
    onOk (calling [] (kmsg_ListPartitionReassignments k)) (\<lambda>resp.
    onOk (noError [] (kerr_ErrorForCode k (lrr_ErrorCode resp))) (\<lambda>_.
      ret (sort_key (\<lambda>x. (PartitionReassignment_Topic x, PartitionReassignment_Partition x))
        (concat (map (\<lambda>(t, ps). map (\<lambda>p. \<lparr>PartitionReassignment_Topic = t,
           PartitionReassignment_Partition = rp_Partition p, PartitionReassignment_Replicas = rp_Replicas p,
           PartitionReassignment_AddingReplicas = rp_AddingReplicas p,
           PartitionReassignment_RemovingReplicas = rp_RemovingReplicas p\<rparr>) ps) (lrr_Topics resp))))))"

definition franz_DescribeAllLogDirs :: "'s Kadm \<Rightarrow> ('s, BrokerLogDir list) eff" where
  "franz_DescribeAllLogDirs k =
    onOk (calling [] (kadm_DescribeAllLogDirs k None)) (\<lambda>described.
      collect (\<lambda>d. onOk (noError [] (dld_Err d)) (\<lambda>_.
        ret \<lparr>BrokerLogDir_BrokerID = dld_Broker d, BrokerLogDir_LogDir = dld_Dir d,
          BrokerLogDir_TotalBytes = logdir_Size k d,
          BrokerLogDir_PartitionCount = sum64 (map (\<lambda>(_, ps). int (length ps)) (dld_Topics d))\<rparr>))
        (logdirs_Sorted k described))"

definition franz_DescribeUserSCRAMs :: "'s Kadm \<Rightarrow> string list \<Rightarrow> ('s, ScramUser list) eff" where
  "franz_DescribeUserSCRAMs k users =
    onOk (calling ''user'' (kadm_DescribeUserSCRAMs k users)) (\<lambda>described.
      collect (\<lambda>u. onOk (noError ''user'' (du_Err u)) (\<lambda>_.
        ret \<lparr>ScramUser_Name = du_User u, ScramUser_Credentials = map (\<lambda>(m, i).
          \<lparr>ScramCredential_Mechanism = toDomainScramMechanism m, ScramCredential_Iterations = i\<rparr>) (du_CredInfos u)\<rparr>))
        described)"

definition franz_DescribeClientQuotas :: "'s Kadm \<Rightarrow> string \<Rightarrow> ('s, DescribedQuota list) eff" where
  "franz_DescribeClientQuotas k entityType =
    onOk (calling [] (kadm_DescribeClientQuotas k False
        (if entityType \<noteq> [] then [(entityType, QuotasMatchTypeAny)] else []))) (\<lambda>described.
      ret (map (\<lambda>d. \<lparr>DescribedQuota_Entity = toDomainQuotaEntity (kdq_Entity d),
        DescribedQuota_Values = map (\<lambda>(key, v). \<lparr>QuotaValue_Key = key, QuotaValue_Value = v\<rparr>) (kdq_Values d)\<rparr>) described))"

section \<open>Writes\<close>

definition franz_CreateTopics :: "'s Kadm \<Rightarrow> TopicSpec list \<Rightarrow> bool \<Rightarrow> ('s, TopicCreateResult list) eff" where
  "franz_CreateTopics k specs validateOnly =
    collect (\<lambda>spec.
      (let name = TopicSpec_Name spec; ps = TopicSpec_Partitions spec; rf = TopicSpec_ReplicationFactor spec;
           configs = toKadmConfigPointers (TopicSpec_Configs spec) in
       if validateOnly then
         onOk (calling ''topic'' (kadm_ValidateCreateTopics k ps rf configs name)) (\<lambda>on.
           ret (toTopicCreateResult name (on name)))
       else act (\<lambda>s. case kadm_CreateTopic k ps rf configs name s of (r, s') \<Rightarrow> (toTopicCreateResult name r, s')))) specs"

definition franz_IncrementalAlterTopicConfigs :: "'s Kadm \<Rightarrow> string \<Rightarrow> ConfigChange list \<Rightarrow> ('s, unit) eff" where
  "franz_IncrementalAlterTopicConfigs k topic changes =
    onOk (calling ''topic'' (kadm_AlterTopicConfigs k (toKadmAlterConfigs changes) topic)) (\<lambda>on.
    onOk (unwrap ''topic'' (on topic)) (noError ''topic''))"

definition franz_CreatePartitions :: "'s Kadm \<Rightarrow> string \<Rightarrow> int32 \<Rightarrow> ('s, unit) eff" where
  "franz_CreatePartitions k topic n =
    onOk (calling ''topic'' (kadm_UpdatePartitions k n topic)) (\<lambda>on.
    onOk (unwrap ''topic'' (on topic)) (noError ''topic''))"

definition franz_DeleteTopics :: "'s Kadm \<Rightarrow> string list \<Rightarrow> ('s, TopicDeleteResult list) eff" where
  "franz_DeleteTopics k topics =
    onOk (calling ''topic'' (kadm_DeleteTopics k topics)) (\<lambda>on.
      ret (map (\<lambda>name. \<lparr>TopicDeleteResult_Name = name, TopicDeleteResult_Err =
        (case on name of Inl err \<Rightarrow> Some (wrap_error ''topic'' err) | Inr err \<Rightarrow> wrapErr ''topic'' err)\<rparr>) topics))"

definition franz_DeleteRecords :: "'s Kadm \<Rightarrow> string \<Rightarrow> (int32 \<times> int64) list \<Rightarrow> ('s, PartitionLowWatermark list) eff" where
  "franz_DeleteRecords k topic truncateTo =
    onOk (calling ''topic'' (kadm_DeleteRecords k [(topic, truncateTo)])) (\<lambda>lookup.
    onOk (collect (\<lambda>p. case lookup topic p of
        None \<Rightarrow> fail (kafkaErr KindBroker ''topic'')
      | Some r \<Rightarrow> onOk (noError ''topic'' (drr_Err r)) (\<lambda>_.
          ret \<lparr>PartitionLowWatermark_Partition = p, PartitionLowWatermark_LowWatermark = drr_LowWatermark r\<rparr>))
        (mkeys truncateTo)) (\<lambda>out. ret (sort_key PartitionLowWatermark_Partition out)))"

definition franz_CommitGroupOffsets :: "'s Kadm \<Rightarrow> string \<Rightarrow> (TopicPartition \<times> int64) list \<Rightarrow> ('s, unit) eff" where
  "franz_CommitGroupOffsets k g offsets =
    onOk (calling ''group'' (kadm_DescribeGroups k [g])) (\<lambda>described.
      if (case described_On k described g of Inr d \<Rightarrow> dg_Members d \<noteq> [] | Inl _ \<Rightarrow> False)
      then fail (kafkaErr KindGroupActive ''group'')
      else onOk (calling ''group'' (kadm_CommitOffsets k g offsets)) (noError ''group''))"

definition franz_DeleteGroups :: "'s Kadm \<Rightarrow> string list \<Rightarrow> ('s, GroupDeleteResult list) eff" where
  "franz_DeleteGroups k ids =
    onOk (calling ''group'' (kadm_DeleteGroups k ids)) (\<lambda>resp.
      ret (map (\<lambda>i. \<lparr>GroupDeleteResult_ID = i, GroupDeleteResult_Err =
        (case map_of resp i of None \<Rightarrow> None | Some err \<Rightarrow> wrapErr ''group'' err)\<rparr>) ids))"

definition franz_LeaveGroup :: "'s Kadm \<Rightarrow> string \<Rightarrow> string list \<Rightarrow> ('s, LeaveGroupResult list) eff" where
  "franz_LeaveGroup k g members =
    onOk (calling ''group'' (kmsg_LeaveGroup k g members)) (\<lambda>resp.
    onOk (noError ''group'' (kerr_ErrorForCode k (lgr_ErrorCode resp))) (\<lambda>_.
      ret (map (\<lambda>(m, code). \<lparr>LeaveGroupResult_MemberID = m,
        LeaveGroupResult_Err = wrapErr ''group'' (kerr_ErrorForCode k code)\<rparr>) (lgr_Members resp))))"

definition franz_AlterPartitionAssignments ::
  "'s Kadm \<Rightarrow> (TopicPartition \<times> int32 list option) list \<Rightarrow> ('s, ReassignResult list) eff" where
  "franz_AlterPartitionAssignments k moves =
    onOk (calling [] (kadm_AlterPartitionAssignments k moves)) (\<lambda>resp.
      ret (sort_key (\<lambda>x. (ReassignResult_Topic x, ReassignResult_Partition x)) (map (\<lambda>tp.
        \<lparr>ReassignResult_Topic = fst tp, ReassignResult_Partition = snd tp,
         ReassignResult_Err = wrapErr ''topic'' (partition_error resp tp)\<rparr>) (mkeys moves))))"

definition franz_ElectLeaders :: "'s Kadm \<Rightarrow> bool \<Rightarrow> TopicPartition list \<Rightarrow> ('s, ElectLeaderResult list) eff" where
  "franz_ElectLeaders k preferred tps =
    onOk (calling [] (kadm_ElectLeaders k (if preferred then ElectPreferredReplica else ElectLiveReplica) tps)) (\<lambda>resp.
      ret (map (\<lambda>tp. \<lparr>ElectLeaderResult_Topic = fst tp, ElectLeaderResult_Partition = snd tp,
        ElectLeaderResult_Err = wrapErr ''topic'' (partition_error resp tp)\<rparr>) tps))"

definition franz_IncrementalAlterBrokerConfigs :: "'s Kadm \<Rightarrow> int32 \<Rightarrow> ConfigChange list \<Rightarrow> ('s, unit) eff" where
  "franz_IncrementalAlterBrokerConfigs k brokerID changes =
    onOk (calling ''broker'' (kadm_AlterBrokerConfigs k (toKadmAlterConfigs changes) brokerID)) (\<lambda>resp.
      forEach resp (\<lambda>err _. noError ''broker'' err) ())"

definition franz_AlterUserSCRAMs ::
  "'s Kadm \<Rightarrow> ScramUpsert list \<Rightarrow> ScramDelete list \<Rightarrow> ('s, ScramAlterResult list) eff" where
  "franz_AlterUserSCRAMs k upserts deletes =
    onOk (calling ''user'' (kadm_AlterUserSCRAMs k
        (map (\<lambda>d. (ScramDelete_User d, toKadmScramMechanism (ScramDelete_Mechanism d))) deletes)
        (map (\<lambda>u. \<lparr>us_User = ScramUpsert_User u, us_Mechanism = toKadmScramMechanism (ScramUpsert_Mechanism u),
           us_Iterations = ScramUpsert_Iterations u, us_Password = ScramUpsert_Password u\<rparr>) upserts))) (\<lambda>altered.
      ret (map (\<lambda>(u, err). \<lparr>ScramAlterResult_User = u, ScramAlterResult_Err = wrapErr ''user'' err\<rparr>) altered))"

definition franz_AlterClientQuotas :: "'s Kadm \<Rightarrow> QuotaAlterEntry list \<Rightarrow> ('s, QuotaAlterResult list) eff" where
  "franz_AlterClientQuotas k entries =
    onOk (calling [] (kadm_AlterClientQuotas k (map (\<lambda>e. (toKadmQuotaEntity (QuotaAlterEntry_Entity e),
        map (\<lambda>x. \<lparr>kqo_Key = QuotaOp_Key x, kqo_Value = QuotaOp_Value x, kqo_Remove = QuotaOp_Remove x\<rparr>)
          (QuotaAlterEntry_Ops e))) entries))) (\<lambda>altered.
      ret (map (\<lambda>(e, err). \<lparr>QuotaAlterResult_Entity = toDomainQuotaEntity e, QuotaAlterResult_Err = wrapErr [] err\<rparr>) altered))"

section \<open>The port\<close>

definition franz_admin :: "'s Kadm \<Rightarrow> 's Admin" where
  "franz_admin k = \<lparr>
     DescribeCluster = franz_DescribeCluster k, DescribeBrokerConfigs = franz_DescribeBrokerConfigs k,
     Metadata = franz_Metadata k, ListTopics = franz_ListTopics k, DescribeTopics = franz_DescribeTopics k,
     DescribeTopicConfigs = franz_DescribeTopicConfigs k, ListStartOffsets = franz_ListStartOffsets k,
     ListEndOffsets = franz_ListEndOffsets k, ListOffsetsAfterMilli = franz_ListOffsetsAfterMilli k,
     DescribeLogDirs = franz_DescribeLogDirs k, ListGroups = franz_ListGroups k,
     DescribeGroups = franz_DescribeGroups k, FetchGroupOffsets = franz_FetchGroupOffsets k,
     CreateTopics = franz_CreateTopics k, IncrementalAlterTopicConfigs = franz_IncrementalAlterTopicConfigs k,
     CreatePartitions = franz_CreatePartitions k, DeleteTopics = franz_DeleteTopics k,
     DeleteRecords = franz_DeleteRecords k, CommitGroupOffsets = franz_CommitGroupOffsets k,
     DeleteGroups = franz_DeleteGroups k, LeaveGroup = franz_LeaveGroup k, DescribeQuorum = franz_DescribeQuorum k,
     ListReassignments = franz_ListReassignments k, AlterPartitionAssignments = franz_AlterPartitionAssignments k,
     ElectLeaders = franz_ElectLeaders k, IncrementalAlterBrokerConfigs = franz_IncrementalAlterBrokerConfigs k,
     DescribeAllLogDirs = franz_DescribeAllLogDirs k, DescribeUserSCRAMs = franz_DescribeUserSCRAMs k,
     AlterUserSCRAMs = franz_AlterUserSCRAMs k, DescribeClientQuotas = franz_DescribeClientQuotas k,
     AlterClientQuotas = franz_AlterClientQuotas k\<rparr>"

end
