(* ===== verification/FranzKadm.thy ===== *)
theory FranzKadm
  imports FranzAdmin World
begin

text \<open>
  The adapter under the port's contracts. \<open>kadm_reads\<close> is what it relies on of the library: a call that only
  reads leaves an observation of the cluster alone. From it the adapter meets \<open>admin_reads\<close>, the contract the
  services are proved against.

  \<open>kadm_of\<close> is one function that meets this contract: it answers as a given implementation of the port does, the
  in-memory cluster for one. It is not a model of the library, which stays a parameter of the adapter; it serves
  only to show that the hypotheses of the theorems about the adapter can hold.
\<close>

section \<open>What the adapter relies on\<close>

definition quiet_call :: "('s \<Rightarrow> 'v) \<Rightarrow> ('s, 'a) libcall \<Rightarrow> bool" where
  "quiet_call view call \<longleftrightarrow> (\<forall>s. view (snd (call s)) = view s)"

lemma quiet_calling [quiet_intros]: "quiet_call view call \<Longrightarrow> quiet view (calling resource call)"
  by (simp add: quiet_def quiet_call_def calling_def split: prod.split sum.split) (metis snd_conv)

lemma quiet_unwrap [quiet_intros]: "quiet view (unwrap resource r)"
  by (cases r) (simp_all add: unwrap_def quiet_intros)

lemma quiet_noError [quiet_intros]: "quiet view (noError resource err)"
  by (cases err) (simp_all add: noError_def quiet_intros)

lemma quiet_collect [quiet_intros]: "(\<And>x. quiet view (f x)) \<Longrightarrow> quiet view (collect f xs)"
  unfolding collect_def by (intro quiet_intros)

locale kadm_reads =
  fixes k :: "'s Kadm" and view :: "'s \<Rightarrow> 'v"
  assumes call_BrokerMetadata: "quiet_call view (kadm_BrokerMetadata k)"
    and call_Metadata: "quiet_call view (kadm_Metadata k)"
    and call_DescribeBrokerConfigs: "quiet_call view (kadm_DescribeBrokerConfigs k b)"
    and call_DescribeTopicConfigs: "quiet_call view (kadm_DescribeTopicConfigs k t)"
    and call_ListTopicsWithInternal: "quiet_call view (kadm_ListTopicsWithInternal k ts)"
    and call_ListStartOffsets: "quiet_call view (kadm_ListStartOffsets k t)"
    and call_ListEndOffsets: "quiet_call view (kadm_ListEndOffsets k t)"
    and call_ListOffsetsAfterMilli: "quiet_call view (kadm_ListOffsetsAfterMilli k ms t)"
    and call_DescribeAllLogDirs: "quiet_call view (kadm_DescribeAllLogDirs k dirs)"
    and call_ListGroups: "quiet_call view (kadm_ListGroups k ts)"
    and call_DescribeGroups: "quiet_call view (kadm_DescribeGroups k ts)"
    and call_FetchOffsets: "quiet_call view (kadm_FetchOffsets k t)"
    and call_ValidateCreateTopics: "quiet_call view (kadm_ValidateCreateTopics k ps rf configs t)"
    and call_DescribeQuorum: "quiet_call view (kmsg_DescribeQuorum k q)"
    and call_ListPartitionReassignments: "quiet_call view (kmsg_ListPartitionReassignments k)"
    and call_DescribeUserSCRAMs: "quiet_call view (kadm_DescribeUserSCRAMs k ts)"
    and call_DescribeClientQuotas: "quiet_call view (kadm_DescribeClientQuotas k strict comps)"
    and clock_quiet: "view (snd (adm_timeNow k s)) = view s"
begin

lemmas calls =
  call_BrokerMetadata call_Metadata call_DescribeBrokerConfigs call_DescribeTopicConfigs
  call_ListTopicsWithInternal call_ListStartOffsets call_ListEndOffsets call_ListOffsetsAfterMilli
  call_DescribeAllLogDirs call_ListGroups call_DescribeGroups call_FetchOffsets call_ValidateCreateTopics
  call_DescribeQuorum call_ListPartitionReassignments call_DescribeUserSCRAMs call_DescribeClientQuotas

lemma quiet_offset_map: "quiet view (offset_map m out)"
  by (induction m out rule: offset_map.induct) (auto intro: quiet_intros split: option.split)

lemma quiet_toOffsetMap: "quiet view (toOffsetMap t lo)"
  unfolding toOffsetMap_def by (intro quiet_intros quiet_offset_map)

lemma quiet_config_entries: "quiet view (config_entries resource r)"
  unfolding config_entries_def by (intro quiet_intros)

lemma quiet_quorum: "quiet view (franz_DescribeQuorum k)"
  unfolding franz_DescribeQuorum_def
  by (intro quiet_intros call_DescribeQuorum) (auto intro!: quiet_intros clock_quiet split: list.split)

end

sublocale kadm_reads \<subseteq> adapter: admin_reads "franz_admin k" view
proof unfold_locales
  show "quiet view (DescribeQuorum (franz_admin k))" by (simp add: franz_admin_def quiet_quorum)
qed (unfold franz_admin_def Admin.simps franz_DescribeCluster_def franz_DescribeBrokerConfigs_def franz_Metadata_def
    franz_ListTopics_def franz_DescribeTopics_def franz_DescribeTopicConfigs_def franz_ListStartOffsets_def
    franz_ListEndOffsets_def franz_ListOffsetsAfterMilli_def franz_DescribeLogDirs_def franz_ListGroups_def
    franz_DescribeGroups_def franz_FetchGroupOffsets_def franz_CreateTopics_def franz_ListReassignments_def
    franz_DescribeAllLogDirs_def franz_DescribeUserSCRAMs_def franz_DescribeClientQuotas_def Let_def if_True,
    (intro quiet_intros calls quiet_toOffsetMap quiet_config_entries)+)

context kadm_reads
begin

lemma adapter_reads: "admin_reads (franz_admin k) view"
  by (rule adapter.admin_reads_axioms)

end

section \<open>A library client that answers as a port does\<close>

text \<open>An error of the port as the library would report it.\<close>

definition protocol_code :: "kafka_fields \<Rightarrow> (int16 \<times> string) option" where
  "protocol_code ke =
    (case ke_Kind ke of
       KindNotFound \<Rightarrow> Some (if ke_Resource ke = ''topic'' then UnknownTopicOrPartition
         else if ke_Resource ke = ''group'' then GroupIDNotFound else ResourceNotFound, ke_KafkaName ke)
     | KindAlreadyExists \<Rightarrow> Some (TopicAlreadyExists, ke_KafkaName ke)
     | KindGroupActive \<Rightarrow> Some (NonEmptyGroup, ke_KafkaName ke)
     | KindUnsupported \<Rightarrow> Some (UnsupportedVersion, ke_KafkaName ke)
     | _ \<Rightarrow> None)"

definition lib_of :: "error \<Rightarrow> lib_error" where
  "lib_of e =
    (case as_kafka e of
       None \<Rightarrow> \<lparr>le_kerr = None, le_deadline = False, le_net = False, le_error = e\<rparr>
     | Some ke \<Rightarrow> \<lparr>le_kerr = protocol_code ke, le_deadline = (ke_Kind ke = KindTimeout),
         le_net = (ke_Kind ke = KindUnavailable), le_error = e\<rparr>)"

definition libcall_of :: "('s, 'a) eff \<Rightarrow> ('s, 'a) libcall" where
  "libcall_of m s =
    (case m s of
       (Ok a, s') \<Rightarrow> (Inr a, s')
     | (Err e, s') \<Rightarrow> (Inl (lib_of e), s')
     | (Panic, s') \<Rightarrow> (Inl (lib_of (PlainError ''panic'')), s'))"

definition answering :: "('s, 'a) eff \<Rightarrow> ('a \<Rightarrow> 'b) \<Rightarrow> ('s, 'b) libcall" where
  "answering m f = libcall_of (onOk m (\<lambda>a. ret (f a)))"

definition code_of :: "Err \<Rightarrow> int16" where
  "code_of err = (case err of None \<Rightarrow> 0 | Some e \<Rightarrow>
     (case le_kerr (lib_of e) of Some (code, _) \<Rightarrow> code | None \<Rightarrow> - 1))"

definition to_broker_detail :: "Broker \<Rightarrow> BrokerDetail" where
  "to_broker_detail b = \<lparr>bd_NodeID = Broker_ID b, bd_Host = Broker_Host b, bd_Port = Broker_Port b,
     bd_Rack = (if Broker_Rack b = [] then None else Some (Broker_Rack b))\<rparr>"

definition to_topic_detail :: "Topic \<Rightarrow> string \<times> TopicDetail" where
  "to_topic_detail t = (Topic_Name t, \<lparr>td_Topic = Topic_Name t, td_IsInternal = Topic_Internal t,
     td_Partitions = map (\<lambda>p. (Partition_ID p, \<lparr>pd_Partition = Partition_ID p, pd_Leader = Partition_Leader p,
       pd_Replicas = Partition_Replicas p, pd_ISR = Partition_ISR p\<rparr>)) (Topic_Partitions t),
     td_Err = None\<rparr>)"

definition to_kadm_config :: "ConfigEntry \<Rightarrow> KadmConfig" where
  "to_kadm_config c = \<lparr>kc_Key = ConfigEntry_Name c, kc_MaybeValue = ConfigEntry_Value c,
     kc_Sensitive = ConfigEntry_IsSensitive c,
     kc_Source = (case ConfigEntry_Source c of
        Some SourceStatic \<Rightarrow> ConfigSourceStaticBrokerConfig | Some SourceDynamic \<Rightarrow> ConfigSourceDynamicTopicConfig
      | _ \<Rightarrow> ConfigSourceDefaultConfig)\<rparr>"

definition to_described_group :: "Group \<Rightarrow> string \<times> DescribedGroup" where
  "to_described_group g = (Group_ID g, \<lparr>dg_Group = Group_ID g, dg_State = Group_State g,
     dg_ProtocolType = Group_ProtocolType g, dg_CoordinatorNodeID = Group_CoordinatorID g,
     dg_Members = map (\<lambda>m. \<lparr>dm_MemberID = GroupMember_MemberID m, dm_ClientID = GroupMember_ClientID m,
       dm_ClientHost = GroupMember_Host m,
       dm_AsConsumer = Some (map (\<lambda>(t, p). (t, [p])) (GroupMember_Assignments m))\<rparr>) (Group_Members g),
     dg_Err = None\<rparr>)"

text \<open>The library reports an error of one group in its description.\<close>

definition describing :: "'s Admin \<Rightarrow> string \<Rightarrow> ('s, string \<times> DescribedGroup) eff" where
  "describing adm i = attempt (DescribeGroups adm [i]) (\<lambda>x. ret (i, case x of
     Inr (g # _) \<Rightarrow> snd (to_described_group g)
   | Inr [] \<Rightarrow> \<lparr>dg_Group = i, dg_State = ''Dead'', dg_ProtocolType = [], dg_CoordinatorNodeID = 0, dg_Members = [],
       dg_Err = Some (lib_of (kafkaErr KindNotFound ''group''))\<rparr>
   | Inl e \<Rightarrow> \<lparr>dg_Group = i, dg_State = ''Dead'', dg_ProtocolType = [], dg_CoordinatorNodeID = 0, dg_Members = [],
       dg_Err = Some (lib_of e)\<rparr>))"

definition to_create_response :: "TopicCreateResult list \<Rightarrow> lib_error + CreateTopicResponse" where
  "to_create_response rs =
    (case rs of
       [] \<Rightarrow> Inl (lib_of (PlainError ''no response''))
     | r # _ \<Rightarrow> (case TopicCreateResult_Err r of
         Some e \<Rightarrow> Inl (lib_of e)
       | None \<Rightarrow> Inr \<lparr>ctr_Topic = TopicCreateResult_Name r, ctr_NumPartitions = TopicCreateResult_Partitions r,
           ctr_ReplicationFactor = TopicCreateResult_ReplicationFactor r,
           ctr_Configs = map (\<lambda>c. (ConfigEntry_Name c, to_kadm_config c)) (TopicCreateResult_Configs r), ctr_Err = None\<rparr>))"

definition to_spec :: "int32 \<Rightarrow> int16 \<Rightarrow> (string \<times> string option) list option \<Rightarrow> string \<Rightarrow> TopicSpec" where
  "to_spec ps rf configs name = \<lparr>TopicSpec_Name = name, TopicSpec_Partitions = ps, TopicSpec_ReplicationFactor = rf,
     TopicSpec_Configs = (case configs of None \<Rightarrow> [] | Some m \<Rightarrow>
       concat (map (\<lambda>(k, v). case v of None \<Rightarrow> [] | Some x \<Rightarrow> [(k, x)]) m))\<rparr>"

definition to_changes :: "KadmAlterConfig list \<Rightarrow> ConfigChange list" where
  "to_changes = map (\<lambda>a. \<lparr>ConfigChange_Name = kac_Name a,
     ConfigChange_Value = (if kac_Op a = SetConfig then kac_Value a else None)\<rparr>)"

definition to_partition_errors :: "(string \<times> int32 \<times> Err) list \<Rightarrow> PartitionErrors" where
  "to_partition_errors rs = fold (\<lambda>(t, p, e) acc. mput t (mput p (map_option lib_of e) (mget acc [] t)) acc) rs []"

definition mechanism_of :: "kadm_ScramMechanism \<Rightarrow> ScramMechanism" where
  "mechanism_of = toDomainScramMechanism"

definition to_replica_state :: "time \<Rightarrow> QuorumReplicaState \<Rightarrow> ReplicaState" where
  "to_replica_state now s = \<lparr>qrs_ReplicaID = QuorumReplicaState_ID s, qrs_LogEndOffset = QuorumReplicaState_LogEndOffset s,
     qrs_LastCaughtUpTimestamp = UnixMilli now - QuorumReplicaState_LagMs s\<rparr>"

definition kadm_of :: "'s Admin \<Rightarrow> ('s \<Rightarrow> time \<times> 's) \<Rightarrow> 's Kadm" where
  "kadm_of adm timeNow = \<lparr>
    kadm_BrokerMetadata = answering (DescribeCluster adm) (\<lambda>i. \<lparr>km_Cluster = ClusterInfo_ClusterID i,
      km_Controller = ClusterInfo_ControllerID i, km_Brokers = map to_broker_detail (ClusterInfo_Brokers i), km_Topics = []\<rparr>),
    kadm_Metadata = answering (Metadata adm) (\<lambda>i. \<lparr>km_Cluster = [], km_Controller = 0,
      km_Brokers = map to_broker_detail (ClusterMetadata_Brokers i),
      km_Topics = map to_topic_detail (ClusterMetadata_Topics i)\<rparr>),
    kadm_DescribeBrokerConfigs = (\<lambda>b. answering (DescribeBrokerConfigs adm b) (\<lambda>cs _.
      Inr \<lparr>rc_Configs = map to_kadm_config cs, rc_Err = None\<rparr>)),
    kadm_DescribeTopicConfigs = (\<lambda>t. answering (DescribeTopicConfigs adm t) (\<lambda>cs _.
      Inr \<lparr>rc_Configs = map to_kadm_config cs, rc_Err = None\<rparr>)),
    kadm_ListTopicsWithInternal = (\<lambda>names.
      if names = [] then answering (Metadata adm) (\<lambda>i. map to_topic_detail (ClusterMetadata_Topics i))
      else answering (collect (DescribeTopics adm) names) (map to_topic_detail)),
    kadm_ListStartOffsets = (\<lambda>t. answering (ListStartOffsets adm t)
      (\<lambda>m. [(t, map (\<lambda>(p, v). (p, \<lparr>lo_Offset = v, lo_Err = None\<rparr>)) m)])),
    kadm_ListEndOffsets = (\<lambda>t. answering (ListEndOffsets adm t)
      (\<lambda>m. [(t, map (\<lambda>(p, v). (p, \<lparr>lo_Offset = v, lo_Err = None\<rparr>)) m)])),
    kadm_ListOffsetsAfterMilli = (\<lambda>ms t. answering (ListOffsetsAfterMilli adm t ms)
      (\<lambda>m. [(t, map (\<lambda>(p, v). (p, \<lparr>lo_Offset = v, lo_Err = None\<rparr>)) m)])),
    kadm_DescribeAllLogDirs = (\<lambda>ts. case ts of
      Some names \<Rightarrow> answering (collect (\<lambda>t. onOk (DescribeLogDirs adm t) (\<lambda>rs. ret (map (Pair t) rs))) names)
        (\<lambda>rss. map (\<lambda>(t, r). (LogDirReplica_BrokerID r, [(LogDirReplica_LogDir r,
          \<lparr>dld_Broker = LogDirReplica_BrokerID r, dld_Dir = LogDirReplica_LogDir r,
           dld_Topics = [(t, [(LogDirReplica_Partition r,
             \<lparr>dlp_Partition = LogDirReplica_Partition r, dlp_Size = LogDirReplica_Bytes r\<rparr>)])],
           dld_Err = None\<rparr>)])) (concat rss))
    | None \<Rightarrow> answering (DescribeAllLogDirs adm) (map (\<lambda>d. (BrokerLogDir_BrokerID d, [(BrokerLogDir_LogDir d,
        \<lparr>dld_Broker = BrokerLogDir_BrokerID d, dld_Dir = BrokerLogDir_LogDir d,
         dld_Topics = [([], map (\<lambda>i. (i, \<lparr>dlp_Partition = i, dlp_Size = (if i = 0 then BrokerLogDir_TotalBytes d else 0)\<rparr>))
           (map int [0..<nat (BrokerLogDir_PartitionCount d)]))], dld_Err = None\<rparr>)])))),
    kadm_ListGroups = (\<lambda>states. answering (ListGroups adm states) (map (\<lambda>g. (GroupSummary_ID g,
      \<lparr>lg_Group = GroupSummary_ID g, lg_State = GroupSummary_State g, lg_ProtocolType = GroupSummary_ProtocolType g\<rparr>)))),
    kadm_DescribeGroups = (\<lambda>ids. if ids = [] then answering (DescribeGroups adm []) (map to_described_group)
      else answering (collect (describing adm) ids) (\<lambda>ds. ds)),
    kadm_FetchOffsets = (\<lambda>g. answering (FetchGroupOffsets adm g)
      (map (\<lambda>((t, p), v). (t, [(p, \<lparr>or_At = v, or_Err = None\<rparr>)])))),
    kadm_ValidateCreateTopics = (\<lambda>ps rf configs name. answering (CreateTopics adm [to_spec ps rf configs name] True)
      (\<lambda>rs _. to_create_response rs)),
    kadm_CreateTopic = (\<lambda>ps rf configs name s.
      case libcall_of (CreateTopics adm [to_spec ps rf configs name] False) s of
        (Inl e, s') \<Rightarrow> (Inl e, s') | (Inr rs, s') \<Rightarrow> (to_create_response rs, s')),
    kadm_AlterTopicConfigs = (\<lambda>changes t. answering (IncrementalAlterTopicConfigs adm t (to_changes changes)) (\<lambda>_ _. Inr None)),
    kadm_UpdatePartitions = (\<lambda>n t. answering (CreatePartitions adm t n) (\<lambda>_ _. Inr None)),
    kadm_DeleteTopics = (\<lambda>names. answering (DeleteTopics adm names) (\<lambda>rs name.
      Inr (map_option lib_of (case find (\<lambda>r. TopicDeleteResult_Name r = name) rs of Some r \<Rightarrow> TopicDeleteResult_Err r | None \<Rightarrow> None)))),
    kadm_DeleteRecords = (\<lambda>offsets. answering
      (collect (\<lambda>(t, m). onOk (DeleteRecords adm t m) (\<lambda>ws. ret (map (Pair t) ws))) offsets)
      (\<lambda>wss t p. map_option (\<lambda>(_, w). \<lparr>drr_LowWatermark = PartitionLowWatermark_LowWatermark w, drr_Err = None\<rparr>)
        (find (\<lambda>(t', w). t' = t \<and> PartitionLowWatermark_Partition w = p) (concat wss)))),
    kadm_CommitOffsets = (\<lambda>g m. answering (CommitGroupOffsets adm g m) (\<lambda>_. None)),
    kadm_DeleteGroups = (\<lambda>ids. answering (DeleteGroups adm ids)
      (map (\<lambda>r. (GroupDeleteResult_ID r, map_option lib_of (GroupDeleteResult_Err r))))),
    kmsg_LeaveGroup = (\<lambda>g ms. answering (LeaveGroup adm g ms) (\<lambda>rs. \<lparr>lgr_ErrorCode = 0,
      lgr_Members = map (\<lambda>r. (LeaveGroupResult_MemberID r, code_of (LeaveGroupResult_Err r))) rs\<rparr>)),
    kmsg_DescribeQuorum = (\<lambda>_. libcall_of (onOk (DescribeQuorum adm) (\<lambda>q. onOk (act timeNow) (\<lambda>now.
      ret \<lparr>dqr_ErrorCode = 0, dqr_Topics = [[\<lparr>qp_ErrorCode = 0, qp_LeaderID = QuorumStatus_LeaderID q,
        qp_LeaderEpoch = QuorumStatus_Epoch q, qp_CurrentVoters = map (to_replica_state now) (QuorumStatus_Voters q),
        qp_Observers = map (to_replica_state now) (QuorumStatus_Observers q)\<rparr>]]\<rparr>)))),
    kmsg_ListPartitionReassignments = answering (ListReassignments adm) (\<lambda>rs. \<lparr>lrr_ErrorCode = 0,
      lrr_Topics = map (\<lambda>r. (PartitionReassignment_Topic r, [\<lparr>rp_Partition = PartitionReassignment_Partition r,
        rp_Replicas = PartitionReassignment_Replicas r, rp_AddingReplicas = PartitionReassignment_AddingReplicas r,
        rp_RemovingReplicas = PartitionReassignment_RemovingReplicas r\<rparr>])) rs\<rparr>),
    kadm_AlterPartitionAssignments = (\<lambda>moves. answering (AlterPartitionAssignments adm moves) (\<lambda>rs.
      to_partition_errors (map (\<lambda>r. (ReassignResult_Topic r, ReassignResult_Partition r, ReassignResult_Err r)) rs))),
    kadm_ElectLeaders = (\<lambda>how tps. answering (ElectLeaders adm (how = ElectPreferredReplica) tps) (\<lambda>rs.
      to_partition_errors (map (\<lambda>r. (ElectLeaderResult_Topic r, ElectLeaderResult_Partition r, ElectLeaderResult_Err r)) rs))),
    kadm_AlterBrokerConfigs = (\<lambda>changes b. answering (IncrementalAlterBrokerConfigs adm b (to_changes changes)) (\<lambda>_. [None])),
    kadm_DescribeUserSCRAMs = (\<lambda>users. answering (DescribeUserSCRAMs adm users) (map (\<lambda>u.
      \<lparr>du_User = ScramUser_Name u, du_CredInfos = map (\<lambda>c. (toKadmScramMechanism (ScramCredential_Mechanism c),
        ScramCredential_Iterations c)) (ScramUser_Credentials u), du_Err = None\<rparr>))),
    kadm_AlterUserSCRAMs = (\<lambda>deletes upserts. answering (AlterUserSCRAMs adm
      (map (\<lambda>u. \<lparr>ScramUpsert_User = us_User u, ScramUpsert_Mechanism = mechanism_of (us_Mechanism u),
        ScramUpsert_Iterations = us_Iterations u, ScramUpsert_Password = us_Password u\<rparr>) upserts)
      (map (\<lambda>(u, m). \<lparr>ScramDelete_User = u, ScramDelete_Mechanism = mechanism_of m\<rparr>) deletes))
      (map (\<lambda>r. (ScramAlterResult_User r, map_option lib_of (ScramAlterResult_Err r))))),
    kadm_DescribeClientQuotas = (\<lambda>_ comps. answering (DescribeClientQuotas adm (case comps of [] \<Rightarrow> [] | (t, _) # _ \<Rightarrow> t))
      (map (\<lambda>q. \<lparr>kdq_Entity = toKadmQuotaEntity (DescribedQuota_Entity q),
        kdq_Values = map (\<lambda>v. (QuotaValue_Key v, QuotaValue_Value v)) (DescribedQuota_Values q)\<rparr>))),
    kadm_AlterClientQuotas = (\<lambda>es. answering (AlterClientQuotas adm (map (\<lambda>(e, ops).
      \<lparr>QuotaAlterEntry_Entity = toDomainQuotaEntity e, QuotaAlterEntry_Ops = map (\<lambda>x.
        \<lparr>QuotaOp_Key = kqo_Key x, QuotaOp_Value = kqo_Value x, QuotaOp_Remove = kqo_Remove x\<rparr>) ops\<rparr>) es))
      (map (\<lambda>r. (toKadmQuotaEntity (QuotaAlterResult_Entity r), map_option lib_of (QuotaAlterResult_Err r))))),
    topics_Sorted = (\<lambda>m. sort_key td_Topic (map snd m)),
    partitions_Sorted = (\<lambda>m. sort_key pd_Partition (map snd m)),
    partitions_NumReplicas = (\<lambda>m. case m of [] \<Rightarrow> 0 | (_, p) # _ \<Rightarrow> int (length (pd_Replicas p))),
    listed_Groups = map fst,
    listed_Sorted = (\<lambda>m. sort_key lg_Group (map snd m)),
    described_On = (\<lambda>m i. case map_of m i of Some d \<Rightarrow> Inr d | None \<Rightarrow> Inl (lib_of (kafkaErr KindNotFound ''group''))),
    described_Sorted = (\<lambda>m. sort_key dg_Group (map snd m)),
    logdirs_Sorted = (\<lambda>m. sort_key (\<lambda>d. (dld_Broker d, dld_Dir d)) (concat (map (\<lambda>(_, byPath). map snd byPath) m))),
    logdir_Size = (\<lambda>d. sum64 (concat (map (\<lambda>(_, ps). map (\<lambda>(_, p). dlp_Size p) ps) (dld_Topics d)))),
    kerr_ErrorForCode = (\<lambda>code. if code = 0 then None
      else Some \<lparr>le_kerr = Some (code, []), le_deadline = False, le_net = False, le_error = PlainError (itoa code)\<rparr>),
    adm_timeNow = timeNow\<rparr>"

lemma quiet_libcall_of: "quiet view m \<Longrightarrow> quiet_call view (libcall_of m)"
  by (simp add: quiet_def quiet_call_def libcall_of_def split: prod.split res.split) (metis snd_conv)

lemma quiet_answering: "quiet view m \<Longrightarrow> quiet_call view (answering m f)"
  unfolding answering_def by (intro quiet_libcall_of quiet_intros)

lemma quiet_describing: "quiet view (DescribeGroups adm [i]) \<Longrightarrow> quiet view (describing adm i)"
  unfolding describing_def by (intro quiet_intros)

lemma kadm_reads_of:
  assumes "admin_reads adm view" "\<And>s. view (snd (timeNow s)) = view s"
  shows "kadm_reads (kadm_of adm timeNow) view"
  using admin_reads.reads [OF assms(1)]
  by (intro kadm_reads.intro)
    (auto simp: kadm_of_def assms(2) split: option.split intro!: quiet_answering quiet_libcall_of quiet_describing quiet_intros assms(2))

interpretation cluster_kadm: kadm_reads "kadm_of (world_admin ctx) world_timeNow" cluster
  by (rule kadm_reads_of) (simp_all add: world_reads.admin_reads_axioms)

end
