(* ===== verification/Telemetry.thy ===== *)
theory Telemetry
  imports KafkaPort
begin

text \<open>
  The gateway's telemetry (\<^verbatim>\<open>internal/telemetry\<close>, beside the HTTP middleware): the decorators around the port
  (\<^verbatim>\<open>kafkatrace.go\<close>), the logger that writes to two handlers (\<^verbatim>\<open>slog.go\<close>) and the providers with their
  exporters (\<^verbatim>\<open>otel.go\<close>). OpenTelemetry and \<open>log/slog\<close> are parameters: their constructors and the methods
  of the values they give.
\<close>

section \<open>Spans around the port (\<^verbatim>\<open>kafkatrace.go\<close>)\<close>

text \<open>The global tracer: \<open>startSpan\<close> gives the context of the span with it.\<close>

record ('s, 'c, 'span) Tracer =
  startSpan :: "'c \<Rightarrow> string \<Rightarrow> 's \<Rightarrow> ('c \<times> 'span) \<times> 's"
  span_RecordError :: "'span \<Rightarrow> error \<Rightarrow> 's \<Rightarrow> 's"
  span_SetStatusError :: "'span \<Rightarrow> string \<Rightarrow> 's \<Rightarrow> 's"
  span_End :: "'span \<Rightarrow> 's \<Rightarrow> 's"

definition recordResult :: "('s, 'c, 'span) Tracer \<Rightarrow> 'span \<Rightarrow> Err \<Rightarrow> 's \<Rightarrow> 's" where
  "recordResult tr span err s =
    (case err of None \<Rightarrow> s | Some e \<Rightarrow> span_SetStatusError tr span (err_Error e) (span_RecordError tr span e s))"

text \<open>\<open>defer span.End()\<close> runs on a panic too, \<open>recordResult\<close> does not.\<close>

definition traced :: "('s, 'c, 'span) Tracer \<Rightarrow> string \<Rightarrow> ('c \<Rightarrow> ('s, 'a) eff) \<Rightarrow> 'c \<Rightarrow> ('s, 'a) eff" where
  "traced tr name call ctx s =
    (case startSpan tr ctx name s of ((ctx', span), s1) \<Rightarrow>
     (case call ctx' s1 of
        (Ok a, s2) \<Rightarrow> (Ok a, span_End tr span (recordResult tr span None s2))
      | (Err e, s2) \<Rightarrow> (Err e, span_End tr span (recordResult tr span (Some e) s2))
      | (Panic, s2) \<Rightarrow> (Panic, span_End tr span s2)))"

text \<open>The port as a function of the context; the embedded interface supplies the other methods.\<close>

definition NewTracedAdmin :: "('s, 'c, 'span) Tracer \<Rightarrow> ('c \<Rightarrow> 's Admin) \<Rightarrow> 'c \<Rightarrow> 's Admin" where
  "NewTracedAdmin tr nxt ctx =
    (nxt ctx)\<lparr>DescribeCluster := traced tr ''Admin.DescribeCluster'' (\<lambda>c. DescribeCluster (nxt c)) ctx\<rparr>"

definition NewTracedConsumer :: "('c \<Rightarrow> 's Consumer) \<Rightarrow> 'c \<Rightarrow> 's Consumer" where
  "NewTracedConsumer nxt = nxt"

definition NewTracedProducer :: "('c \<Rightarrow> 's Producer) \<Rightarrow> 'c \<Rightarrow> 's Producer" where
  "NewTracedProducer nxt = nxt"

section \<open>The logger (\<^verbatim>\<open>slog.go\<close>)\<close>

text \<open>The methods of a \<open>slog.Handler\<close> of type \<open>'h\<close>; levels are integers, as in \<open>log/slog\<close>.\<close>

record ('s, 'h, 'rec, 'attr) SlogHandler =
  slog_Enabled :: "'h \<Rightarrow> int \<Rightarrow> bool"
  slog_Handle :: "'h \<Rightarrow> 'rec \<Rightarrow> ('s, unit) eff"
  slog_WithAttrs :: "'h \<Rightarrow> 'attr list \<Rightarrow> 'h"
  slog_WithGroup :: "'h \<Rightarrow> string \<Rightarrow> 'h"

definition fanoutHandler ::
  "('s, 'j, 'rec, 'attr) SlogHandler \<Rightarrow> ('s, 'b, 'rec, 'attr) SlogHandler \<Rightarrow> ('s, 'j \<times> 'b, 'rec, 'attr) SlogHandler" where
  "fanoutHandler js br = \<lparr>
     slog_Enabled = (\<lambda>(j, b) level. slog_Enabled js j level \<or> slog_Enabled br b level),
     slog_Handle = (\<lambda>(j, b) r. onOk (slog_Handle js j r) (\<lambda>_. slog_Handle br b r)),
     slog_WithAttrs = (\<lambda>(j, b) attrs. (slog_WithAttrs js j attrs, slog_WithAttrs br b attrs)),
     slog_WithGroup = (\<lambda>(j, b) name. (slog_WithGroup js j name, slog_WithGroup br b name))\<rparr>"

text \<open>\<open>Logger.log\<close>: a record is handed to the handler if it is enabled for its level; its error is dropped.\<close>

definition slog_log :: "('s, 'h, 'rec, 'attr) SlogHandler \<Rightarrow> 'h \<Rightarrow> int \<Rightarrow> 'rec \<Rightarrow> ('s, unit) eff" where
  "slog_log ops h level r =
    (if slog_Enabled ops h level then attempt (slog_Handle ops h r) (\<lambda>_. ret ()) else ret ())"

text \<open>\<open>opts\<close> are the levels of the \<open>WithLevel\<close> options, in order.\<close>

definition NewLogger :: "('w \<Rightarrow> int option \<Rightarrow> 'j) \<Rightarrow> (string \<Rightarrow> 'b) \<Rightarrow> 'w \<Rightarrow> string \<Rightarrow> int list \<Rightarrow> 'j \<times> 'b" where
  "NewLogger newJSONHandler newBridge w serviceName opts =
    (newJSONHandler w (fold (\<lambda>level _. Some level) opts None), newBridge serviceName)"

section \<open>Providers (\<^verbatim>\<open>otel.go\<close>)\<close>

record TelemetryConfig =
  TC_ServiceName :: string
  TC_OTLPEndpoint :: string
  TC_OTLPProtocol :: string

datatype ('res, 'exp) TracerProviderOption = WithResource 'res | WithBatcher 'exp
datatype ('res, 'exp) MeterProviderOption = WithMeterResource 'res | WithPeriodicReader 'exp

record ('tp, 'mp) Providers =
  TracerProvider :: 'tp
  MeterProvider :: 'mp

record ('s, 'res, 'exp, 'mexp, 'tp, 'mp) OtelSdk =
  otel_resource :: "string \<Rightarrow> ('s, 'res) eff"
  otlptracehttp_New :: "string \<Rightarrow> ('s, 'exp) eff"
  otlptracegrpc_New :: "string \<Rightarrow> ('s, 'exp) eff"
  otlpmetrichttp_New :: "string \<Rightarrow> ('s, 'mexp) eff"
  otlpmetricgrpc_New :: "string \<Rightarrow> ('s, 'mexp) eff"
  sdk_NewTracerProvider :: "('res, 'exp) TracerProviderOption list \<Rightarrow> 's \<Rightarrow> 'tp \<times> 's"
  sdk_NewMeterProvider :: "('res, 'mexp) MeterProviderOption list \<Rightarrow> 's \<Rightarrow> 'mp \<times> 's"
  otel_SetTracerProvider :: "'tp \<Rightarrow> 's \<Rightarrow> 's"
  otel_SetMeterProvider :: "'mp \<Rightarrow> 's \<Rightarrow> 's"
  tp_Shutdown :: "'tp \<Rightarrow> ('s, unit) eff"
  mp_Shutdown :: "'mp \<Rightarrow> ('s, unit) eff"

definition newSpanExporter :: "('s, 'res, 'exp, 'mexp, 'tp, 'mp) OtelSdk \<Rightarrow> TelemetryConfig \<Rightarrow> ('s, 'exp) eff" where
  "newSpanExporter sdk c =
    (if TC_OTLPProtocol c = ''http'' then otlptracehttp_New sdk (TC_OTLPEndpoint c)
     else otlptracegrpc_New sdk (TC_OTLPEndpoint c))"

definition newMetricExporter :: "('s, 'res, 'exp, 'mexp, 'tp, 'mp) OtelSdk \<Rightarrow> TelemetryConfig \<Rightarrow> ('s, 'mexp) eff" where
  "newMetricExporter sdk c =
    (if TC_OTLPProtocol c = ''http'' then otlpmetrichttp_New sdk (TC_OTLPEndpoint c)
     else otlpmetricgrpc_New sdk (TC_OTLPEndpoint c))"

definition newTracerProvider ::
  "('s, 'res, 'exp, 'mexp, 'tp, 'mp) OtelSdk \<Rightarrow> TelemetryConfig \<Rightarrow> 'res \<Rightarrow> 'exp option \<Rightarrow> ('s, 'tp) eff" where
  "newTracerProvider sdk c res testExporter =
    (let opts = [WithResource res] in
     case testExporter of
       Some exporter \<Rightarrow> act (sdk_NewTracerProvider sdk (opts @ [WithBatcher exporter]))
     | None \<Rightarrow>
         if TC_OTLPEndpoint c \<noteq> [] then
           attempt (newSpanExporter sdk c) (\<lambda>x. case x of
             Inl err \<Rightarrow> fail (WrapError ''telemetry: build span exporter: '' err)
           | Inr exporter \<Rightarrow> act (sdk_NewTracerProvider sdk (opts @ [WithBatcher exporter])))
         else act (sdk_NewTracerProvider sdk opts))"

definition newMeterProvider ::
  "('s, 'res, 'exp, 'mexp, 'tp, 'mp) OtelSdk \<Rightarrow> TelemetryConfig \<Rightarrow> 'res \<Rightarrow> ('s, 'mp) eff" where
  "newMeterProvider sdk c res =
    (let opts = [WithMeterResource res] in
     if TC_OTLPEndpoint c \<noteq> [] then
       attempt (newMetricExporter sdk c) (\<lambda>x. case x of
         Inl err \<Rightarrow> fail (WrapError ''telemetry: build metric exporter: '' err)
       | Inr exporter \<Rightarrow> act (sdk_NewMeterProvider sdk (opts @ [WithPeriodicReader exporter])))
     else act (sdk_NewMeterProvider sdk opts))"

text \<open>\<open>opts\<close> are the exporters of the \<open>WithSpanExporter\<close> options, in order.\<close>

definition NewProviders ::
  "('s, 'res, 'exp, 'mexp, 'tp, 'mp) OtelSdk \<Rightarrow> TelemetryConfig \<Rightarrow> 'exp list \<Rightarrow> ('s, ('tp, 'mp) Providers) eff" where
  "NewProviders sdk c opts =
    attempt (otel_resource sdk (TC_ServiceName c)) (\<lambda>x. case x of
      Inl err \<Rightarrow> fail (WrapError ''telemetry: build resource: '' err)
    | Inr res \<Rightarrow>
      onOk (newTracerProvider sdk c res (fold (\<lambda>exporter _. Some exporter) opts None)) (\<lambda>tp.
      onOk (newMeterProvider sdk c res) (\<lambda>mp.
      act (\<lambda>s. (\<lparr>TracerProvider = tp, MeterProvider = mp\<rparr>,
        otel_SetMeterProvider sdk mp (otel_SetTracerProvider sdk tp s))))))"

text \<open>\<open>errors.Join\<close>: nil for nil errors, else their texts on lines of their own; no caller looks into it.\<close>

definition errors_Join :: "Err list \<Rightarrow> Err" where
  "errors_Join errs =
    (case concat (map (\<lambda>e. case e of None \<Rightarrow> [] | Some x \<Rightarrow> [err_Error x]) errs) of
       [] \<Rightarrow> None
     | msg # msgs \<Rightarrow> Some (PlainError (msg @ concat (map ((@) ([CHR 0x0A])) msgs))))"

text \<open>Both are shut down, whatever the first answers.\<close>

definition Providers_Shutdown :: "('s, 'res, 'exp, 'mexp, 'tp, 'mp) OtelSdk \<Rightarrow> ('tp, 'mp) Providers \<Rightarrow> ('s, unit) eff" where
  "Providers_Shutdown sdk p =
    attempt (tp_Shutdown sdk (TracerProvider p)) (\<lambda>x.
    attempt (mp_Shutdown sdk (MeterProvider p)) (\<lambda>y.
      case errors_Join [case x of Inl e \<Rightarrow> Some e | Inr _ \<Rightarrow> None, case y of Inl e \<Rightarrow> Some e | Inr _ \<Rightarrow> None] of
        None \<Rightarrow> ret () | Some err \<Rightarrow> fail err))"

section \<open>Tracing is transparent\<close>

text \<open>What the decorators rely on: nothing a span does shows in the observation.\<close>

locale tracing =
  fixes tr :: "('s, 'c, 'span) Tracer" and view :: "'s \<Rightarrow> 'v"
  assumes start_quiet: "view (snd (startSpan tr ctx name s)) = view s"
    and record_quiet: "view (span_RecordError tr span e s) = view s"
    and status_quiet: "view (span_SetStatusError tr span msg s) = view s"
    and end_quiet: "view (span_End tr span s) = view s"
begin

lemma quiet_traced:
  assumes "\<And>c. quiet view (call c)"
  shows "quiet view (traced tr name call ctx)"
proof -
  have call: "view s' = view s" if "call c s = (r, s')" for c s r s'
    using that assms by (rule quietD [rotated])
  have start: "view s' = view s" if "startSpan tr c n s = (x, s')" for c n s x s'
    using start_quiet [of c n s] that by simp
  show ?thesis
    by (auto simp: quiet_def traced_def recordResult_def end_quiet record_quiet status_quiet
        split: prod.split res.split dest!: call start)
qed

lemma traced_reads:
  assumes "\<And>c. admin_reads (nxt c) view"
  shows "admin_reads (NewTracedAdmin tr nxt ctx) view"
  by (intro admin_reads.intro)
    (auto simp: NewTracedAdmin_def intro!: quiet_traced admin_reads.reads [OF assms])

end

text \<open>Whatever the spans do, a call answers what the decorated port answers under the span's context.\<close>

lemma traced_answer:
  "startSpan tr ctx name s = ((ctx', span), s1) \<Longrightarrow> fst (traced tr name call ctx s) = fst (call ctx' s1)"
  by (simp add: traced_def split: prod.split res.split)

text \<open>
  Both handlers get a record that either is enabled for: the JSON handler writes records below its own level
  when the bridge is enabled for them.
\<close>

lemma fanout_ignores_own_level:
  assumes "\<not> slog_Enabled js j level" "slog_Enabled br b level" "slog_Handle js j r s = (Ok (), s1)"
  shows "slog_log (fanoutHandler js br) (j, b) level r s = attempt (slog_Handle br b r) (\<lambda>_. ret ()) s1"
  using assms by (simp add: slog_log_def fanoutHandler_def attempt_def onOk_def)

text \<open>Every provider is shut down, and the shutdown succeeds exactly if both do.\<close>

lemma Providers_Shutdown_both:
  assumes "tp_Shutdown sdk (TracerProvider p) s = (x, s1)" "mp_Shutdown sdk (MeterProvider p) s1 = (y, s2)"
    and "x \<noteq> Panic" "y \<noteq> Panic"
  shows "snd (Providers_Shutdown sdk p s) = s2"
    and "fst (Providers_Shutdown sdk p s) = Ok () \<longleftrightarrow> x = Ok () \<and> y = Ok ()"
  using assms by (cases x; cases y; simp add: Providers_Shutdown_def attempt_def errors_Join_def ret_def fail_def)+

end
