(* ===== verification/GatewaySafety.thy ===== *)
theory GatewaySafety
  imports Operations
begin

text \<open>
  Which requests cannot change the cluster, handler by handler. \<open>backend\<close> is the contract of the services
  and functions the operations run on; in it, an operation that is registered under GET, that asks for a
  dry run, or whose command the gate rejects for the request's caller is quiet.
\<close>

section \<open>Registered routes\<close>

lemma op_fields [simp]:
  "Op_OperationID (operation i m p c) = i" "Op_Method (operation i m p c) = m" "Op_Path (operation i m p c) = p"
  "op_command (operation i m p c) = c"
  by (simp_all add: operation_def op_command_def commandExtension_def commandIDExtension_def mget_def as_str_def)

lemma quiet_encoded [quiet_intros]: "quiet view m \<Longrightarrow> quiet view (encoded wire m)"
  unfolding encoded_def by (intro quiet_intros)

lemma quiet_encoded_run [quiet_intros]: "quiet_run view m \<Longrightarrow> quiet_run view (encoded_run wire m)"
  unfolding encoded_run_def by (intro quiet_intros)

lemma quiet_replies [quiet_intros]:
  "quiet view (produce_reply result)" "quiet view (reassign_reply dres)"
  unfolding produce_reply_def reassign_reply_def
  by (auto split: prod.split intro: quiet_reply quiet_destructive_reply)

text \<open>
  A request is harmless for an operation registered under GET or for a command that reads, one that asks for
  a dry run, and one whose caller the gate rejects.
\<close>

definition harmless :: "Runner \<Rightarrow> Request \<Rightarrow> HumaOperation \<Rightarrow> bool \<Rightarrow> bool" where
  "harmless runner r rt dryRun \<longleftrightarrow> Op_Method rt = ''GET'' \<or> dryRun
     \<or> gate runner (caller_of r) (desc_of (op_command rt)) \<noteq> None
     \<or> Desc_Access (desc_of (op_command rt)) = R"

section \<open>The contract\<close>

locale backend = svc: service_env "be_svc be" view + msg: message_env "be_ms be" view
  for be :: "('s, 'c) Backend" and view :: "'s \<Rightarrow> 'v" +
  assumes sleep_quiet: "quiet view (be_sleep be d)"
    and time_quiet: "view (snd (be_timeNow be s)) = view s"
    and probe_quiet: "quiet view (be_probe be)"
    and status_quiet: "quiet view (be_auditStatus be)"
    and same_runner: "svc_runner (ms_svc (be_ms be)) = svc_runner (be_svc be)"
begin

lemma quiet_topic_serve:
  assumes "harmless (svc_runner (be_svc be)) r (topic_route x) (topic_dryRun x)"
  shows "quiet view (topic_serve be r x)"
proof -
  note reads = svc.quiet_topic_List svc.quiet_topic_Describe svc.quiet_topic_Size svc.quiet_topic_CountInWindow
    svc.quiet_ConsumersOfTopic
  note dest = quiet_orMapDestructive quiet_destructive_reply svc.quiet_refused svc.quiet_topic_plans
  show ?thesis
  proof (cases x)
    case (Op_listTopics inp)
    then show ?thesis by (auto simp: listTopics_def intro!: quiet_intros reads)
  next
    case (Op_describeTopic inp)
    then show ?thesis by (auto simp: describeTopic_def intro!: quiet_intros reads)
  next
    case (Op_topicSize inp)
    then show ?thesis by (auto simp: topicSize_def intro!: quiet_intros reads)
  next
    case (Op_topicCount inp)
    then show ?thesis by (auto simp: topicCount_def intro!: quiet_intros reads)
  next
    case (Op_topicConsumerGroups inp)
    then show ?thesis by (auto simp: topicConsumerGroups_def intro!: quiet_intros reads)
  next
    case (Op_createTopic inp)
    have "quiet view (topic_Create (be_svc be) (caller_of r) spec (CreateTopicInput_DryRun inp))" for spec
    proof (cases "CreateTopicInput_DryRun inp")
      case True
      then show ?thesis using svc.quiet_topic_Create_dry by simp
    next
      case False
      with assms Op_createTopic obtain err where "gate (svc_runner (be_svc be)) (caller_of r) (desc_of ''T5'') = Some err"
        by (auto simp: harmless_def topic_Register_def)
      then show ?thesis by (rule svc.quiet_topic_Create_rejected)
    qed
    with Op_createTopic show ?thesis by (auto simp: createTopic_def intro!: quiet_intros)
  next
    case (Op_createTopicsBulk inp)
    with assms obtain err where "gate (svc_runner (be_svc be)) (caller_of r) (desc_of ''T6'') = Some err"
      by (auto simp: harmless_def topic_Register_def)
    from svc.quiet_topic_CreateBulk_rejected [OF this] Op_createTopicsBulk
    show ?thesis by (auto simp: createTopicsBulk_def Let_def intro!: quiet_intros)
  next
    case (Op_alterConfig inp)
    with assms show ?thesis
      by (auto simp: alterConfig_def AlterConfig_def Let_def harmless_def topic_Register_def intro!: quiet_encoded dest)
  next
    case (Op_addPartitions inp)
    with assms show ?thesis
      by (auto simp: addPartitions_def AddPartitions_def Let_def harmless_def topic_Register_def intro!: quiet_encoded dest)
  next
    case (Op_deleteTopic inp)
    with assms show ?thesis
      by (auto simp: deleteTopic_def topic_Delete_def harmless_def topic_Register_def intro!: quiet_encoded dest)
  next
    case (Op_deleteTopicsBulk inp)
    with assms show ?thesis
      by (auto simp: deleteTopicsBulk_def BulkDelete_def Let_def harmless_def topic_Register_def intro!: quiet_encoded dest)
  next
    case (Op_deleteRecords inp)
    with assms show ?thesis
      by (auto simp: deleteRecords_def topic_DeleteRecords_def Let_def harmless_def topic_Register_def
          split: sum.split intro!: quiet_encoded quiet_replyErr dest)
  next
    case (Op_purgeTopic inp)
    with assms show ?thesis
      by (auto simp: purgeTopic_def topic_Purge_def harmless_def topic_Register_def intro!: quiet_encoded dest)
  qed
qed

lemma quiet_group_serve:
  assumes "harmless (svc_runner (be_svc be)) r (group_route x) (group_dryRun x)"
  shows "quiet view (group_serve be r x)"
proof -
  note reads = svc.quiet_group_List svc.quiet_group_Describe
  note dest = quiet_orMapDestructive quiet_destructive_reply quiet_replies svc.quiet_refused svc.quiet_group_plans
  show ?thesis
  proof (cases x)
    case (Op_listGroups inp)
    then show ?thesis by (auto simp: listGroups_def Let_def intro!: quiet_intros reads)
  next
    case (Op_describeGroup inp)
    then show ?thesis by (auto simp: describeGroup_def Let_def intro!: quiet_intros reads)
  next
    case (Op_resetOffsets inp)
    with assms show ?thesis
      by (auto simp: resetOffsets_def group_Reset_def Let_def harmless_def group_Register_def
          split: sum.split intro!: quiet_encoded quiet_replyErr dest)
  next
    case (Op_deleteGroup inp)
    with assms show ?thesis
      by (auto simp: deleteGroup_def group_Delete_def Let_def harmless_def group_Register_def
          split: sum.split intro!: quiet_encoded quiet_replyErr dest)
  next
    case (Op_removeMembers inp)
    with assms show ?thesis
      by (auto simp: removeMembers_def RemoveMembers_def Let_def harmless_def group_Register_def
          split: sum.split intro!: quiet_encoded quiet_replyErr dest)
  next
    case (Op_cloneOffsets inp)
    with assms show ?thesis
      by (auto simp: cloneOffsets_def CloneOffsets_def Let_def harmless_def group_Register_def
          split: sum.split intro!: quiet_encoded quiet_replyErr dest)
  qed
qed

lemma quiet_security_serve:
  assumes "harmless (svc_runner (be_svc be)) r (security_route x) (security_dryRun x)"
  shows "quiet view (security_serve be r x)"
proof -
  note reads = svc.quiet_security_reads
  note dest = quiet_orMapDestructive quiet_destructive_reply quiet_replies svc.quiet_refused svc.quiet_cluster_plans
  show ?thesis
  proof (cases x)
    case (Op_listUsers inp)
    then show ?thesis by (auto simp: listUsers_def Let_def intro!: quiet_intros reads)
  next
    case (Op_api_createUser inp)
    with assms obtain err where "gate (svc_runner (be_svc be)) (caller_of r) (desc_of ''S1'') = Some err"
      by (auto simp: harmless_def security_Register_def)
    from svc.quiet_security_Create_rejected [OF this] Op_api_createUser
    show ?thesis by (auto simp: api_createUser_def Let_def intro!: quiet_intros)
  next
    case (Op_deleteUser inp)
    with assms show ?thesis
      by (auto simp: deleteUser_def security_Delete_def Let_def harmless_def security_Register_def
          split: sum.split intro!: quiet_encoded quiet_replyErr dest)
  next
    case (Op_listQuotas inp)
    then show ?thesis by (auto simp: listQuotas_def Let_def intro!: quiet_intros reads)
  next
    case (Op_alterQuota inp)
    with assms show ?thesis
      by (auto simp: alterQuota_def AlterQuota_def Let_def harmless_def security_Register_def
          split: sum.split intro!: quiet_encoded quiet_replyErr dest)
  qed
qed

lemma quiet_cluster_serve:
  assumes "harmless (svc_runner (be_svc be)) r (cluster_route x) (cluster_dryRun x)"
  shows "quiet view (cluster_serve be r x)"
proof -
  note reads = svc.quiet_cluster_reads svc.quiet_cluster_Throughput sleep_quiet svc.quiet_cluster_Export
  note dest = quiet_orMapDestructive quiet_destructive_reply quiet_replies svc.quiet_refused svc.quiet_cluster_plans
  show ?thesis
  proof (cases x)
    case (Op_describeCluster inp)
    then show ?thesis by (auto simp: describeCluster_def Let_def intro!: quiet_intros reads)
  next
    case (Op_describeBrokerConfig inp)
    then show ?thesis by (auto simp: describeBrokerConfig_def Let_def intro!: quiet_intros reads)
  next
    case (Op_clusterHealth inp)
    then show ?thesis by (auto simp: clusterHealth_def Let_def intro!: quiet_intros reads)
  next
    case (Op_quorum inp)
    then show ?thesis by (auto simp: quorum_def Let_def intro!: quiet_intros reads)
  next
    case (Op_listReassignments inp)
    then show ?thesis by (auto simp: listReassignments_def Let_def intro!: quiet_intros reads)
  next
    case (Op_logDirs inp)
    then show ?thesis by (auto simp: logDirs_def Let_def intro!: quiet_intros reads)
  next
    case (Op_throughput inp)
    then show ?thesis by (auto simp: throughput_def Let_def intro!: quiet_intros reads)
  next
    case (Op_export inp)
    then show ?thesis by (auto simp: export_def Let_def intro!: quiet_intros reads)
  next
    case (Op_alterBrokerConfig inp)
    with assms show ?thesis
      by (auto simp: alterBrokerConfig_def AlterBrokerConfig_def cluster_destructive_def Let_def harmless_def cluster_Register_def
          split: sum.split intro!: quiet_encoded quiet_replyErr dest)
  next
    case (Op_reassign inp)
    with assms show ?thesis
      by (auto simp: ClusterRoutes.reassign_def Reassign_def cluster_destructive_def Let_def harmless_def cluster_Register_def
          split: sum.split intro!: quiet_encoded quiet_replyErr dest)
  next
    case (Op_cancelReassignments inp)
    with assms show ?thesis
      by (auto simp: cancelReassignments_def CancelReassignments_def cluster_destructive_def Let_def harmless_def cluster_Register_def
          split: sum.split intro!: quiet_encoded quiet_replyErr dest)
  next
    case (Op_elections inp)
    with assms show ?thesis
      by (auto simp: elections_def Elect_def cluster_destructive_def Let_def harmless_def cluster_Register_def
          split: sum.split intro!: quiet_encoded quiet_replyErr dest)
  next
    case (Op_applyTopics inp)
    with assms show ?thesis
      by (auto simp: applyTopics_def Import_def cluster_destructive_def Let_def harmless_def cluster_Register_def
          split: sum.split intro!: quiet_encoded quiet_replyErr dest)
  qed
qed

lemma quiet_health_serve: "quiet view (health_serve be r x)"
  by (cases x) (auto intro!: quiet_intros quiet_Ready time_quiet probe_quiet status_quiet)

lemma quiet_message_serve:
  assumes "harmless (svc_runner (be_svc be)) r (message_route x) (message_dryRun x)"
  shows "quiet_run view (message_serve be r x)"
proof -
  note reads = quiet_reply_orMap msg.quiet_message_Read msg.quiet_message_Search msg.quiet_message_Filter
    msg.quiet_message_Get
  have rejected: "\<exists>err. gate (svc_runner (ms_svc (be_ms be))) (caller_of r) (desc_of c) = Some err"
    if "gate (svc_runner (be_svc be)) (caller_of r) (desc_of c) \<noteq> None" for c
    using that same_runner by auto
  show ?thesis
  proof (cases x)
    case (Op_readMessages inp)
    then show ?thesis by (auto simp: readMessages_def intro!: quiet_intros reads)
  next
    case (Op_getMessage inp)
    then show ?thesis by (auto simp: getMessage_def intro!: quiet_intros reads)
  next
    case (Op_searchMessages inp)
    with assms show ?thesis by (auto simp: searchMessages_def Let_def intro!: quiet_intros reads)
  next
    case (Op_filterMessages inp)
    with assms show ?thesis by (auto simp: filterMessages_def Let_def intro!: quiet_intros reads)
  next
    case (Op_produceMessages inp)
    with assms obtain err where "gate (svc_runner (ms_svc (be_ms be))) (caller_of r) (desc_of ''M5'') = Some err"
      using rejected by (fastforce simp: harmless_def message_Register_def)
    from msg.quiet_message_writes_rejected(1) [OF this] Op_produceMessages
    show ?thesis by (auto simp: produceMessages_def intro!: quiet_intros)
  next
    case (Op_produceBulk inp)
    with assms obtain err where "gate (svc_runner (ms_svc (be_ms be))) (caller_of r) (desc_of ''M6'') = Some err"
      using rejected by (fastforce simp: harmless_def message_Register_def)
    from msg.quiet_message_writes_rejected(2) [OF this] Op_produceBulk
    show ?thesis by (auto simp: produceBulk_def intro!: quiet_intros)
  next
    case (Op_sendTombstone inp)
    with assms obtain err where "gate (svc_runner (ms_svc (be_ms be))) (caller_of r) (desc_of ''M7'') = Some err"
      using rejected by (fastforce simp: harmless_def message_Register_def)
    from msg.quiet_message_writes_rejected(3) [OF this] Op_sendTombstone
    show ?thesis by (auto simp: sendTombstone_def intro!: quiet_intros)
  next
    case (Op_replay inp)
    with assms have "ReplayInput_DryRun inp \<or> gate (svc_runner (ms_svc (be_ms be))) (caller_of r) (desc_of ''M8'') \<noteq> None"
      using same_runner by (auto simp: harmless_def message_Register_def)
    from msg.quiet_message_Replay_refused [OF this] Op_replay
    show ?thesis
      by (auto simp: replay_def Let_def split: sum.split
          intro!: quiet_encoded_run quiet_ended quiet_reply_orMapDestructive quiet_destructive_reply quiet_ret)
  qed
qed

theorem quiet_serve:
  assumes "harmless (svc_runner (be_svc be)) r (route_of x) (dryRun_of x)"
  shows "quiet_run view (serve be r x)"
  using assms
  by (cases x) (auto intro: quiet_ended quiet_topic_serve quiet_group_serve quiet_security_serve
      quiet_cluster_serve quiet_health_serve quiet_message_serve)

end

end
