(* ===== verification/MiddlewareProps.thy ===== *)
theory MiddlewareProps
  imports Middleware World
begin

text \<open>
  What the middleware chain guarantees: nothing behind it runs for an unauthenticated request or a
  preflight, a rejected write command leaves one audit event, an operation sees the caller of the matched
  key, the break-glass reason it sees is clean text, and the client address comes from the trusted side of
  the forwarding header.
\<close>

section \<open>The assembled process\<close>

definition world_randRead :: "nat \<Rightarrow> (world, bytes) eff" where
  "world_randRead n w = (Ok (map (w_entropy w) [w_drawn w..<w_drawn w + n]), w\<lparr>w_drawn := w_drawn w + n\<rparr>)"

definition world_env :: "world HttpEnv" where
  "world_env = \<lparr>env_NewEventID = NewEventID, env_timeNow = world_timeNow, env_randRead = world_randRead\<rparr>"

section \<open>The break-glass reason\<close>

definition clean_reason :: "bytes \<Rightarrow> bool" where
  "clean_reason s \<longleftrightarrow> utf8_Valid s \<and> no_control s \<and> int (length s) \<le> breakGlassMaxBytes"

lemma sanitize_loop_clean: "clean_reason buf \<Longrightarrow> clean_reason (sanitize_loop buf s)"
proof (induction buf s rule: sanitize_loop.induct)
  case (2 buf c cs)
  obtain r w where d: "DecodeRune (c # cs) = (r, w)" by fastforce
  have ir: "is_rune r" by (rule is_rune_DecodeRune [OF d])
  consider (control) "r < 32 \<or> r = 127" | (full) "\<not> (r < 32 \<or> r = 127)" "int (length buf) + RuneLen r > breakGlassMaxBytes"
    | (keep) "\<not> (r < 32 \<or> r = 127)" "\<not> int (length buf) + RuneLen r > breakGlassMaxBytes" by blast
  then show ?case
  proof cases
    case control
    with 2(1) [OF refl d [symmetric] control] 2(3) show ?thesis by (simp add: sanitize_loop.simps(2) d)
  next
    case full
    with 2(3) show ?thesis by (simp add: sanitize_loop.simps(2) d)
  next
    case keep
    have "clean_reason (buf @ AppendRune r)"
      using 2(3) keep utf8_Valid_snoc [OF ir] no_control_AppendRune [OF ir keep(1)] length_AppendRune [OF ir]
      by (auto simp: clean_reason_def no_control_def)
    with 2(2) [OF refl d [symmetric] keep] keep show ?thesis by (simp add: sanitize_loop.simps(2) d)
  qed
qed simp

lemma DecodeRune_control:
  assumes "DecodeRune (c # cs) = (r, w)" "no_control (c # cs)"
  shows "\<not> (r < 32 \<or> r = 127)"
  using assms(1)
proof (cases rule: DecodeRune_cases)
  case (two a c1 t)
  then show ?thesis using rune2(4) is_cont_cont [of c1] by fastforce
next
  case (three a c1 c2 t)
  then show ?thesis using rune3(2) [of a "cont c1" "cont c2"] is_cont_cont [of c1] is_cont_cont [of c2] by simp
next
  case (four a c1 c2 c3 t)
  then show ?thesis using rune4(2) [of a "cont c1" "cont c2" "cont c3"]
      is_cont_cont [of c1] is_cont_cont [of c2] is_cont_cont [of c3] by simp
qed (use assms(2) in \<open>auto simp: no_control_def RuneError_def\<close>)

lemma sanitize_loop_id: "clean_reason (buf @ s) \<Longrightarrow> utf8_Valid s \<Longrightarrow> sanitize_loop buf s = buf @ s"
proof (induction buf s rule: sanitize_loop.induct)
  case (2 buf c cs)
  obtain r w where d: "DecodeRune (c # cs) = (r, w)" by fastforce
  have ir: "is_rune r" by (rule is_rune_DecodeRune [OF d])
  note e = AppendRune_DecodeRune [OF 2(4) d]
  have nc: "\<not> (r < 32 \<or> r = 127)"
    by (rule DecodeRune_control [OF d]) (use 2(3) in \<open>auto simp: clean_reason_def no_control_def\<close>)
  have "length (AppendRune r) \<le> length (c # cs)" unfolding e(1) by simp
  then have fit: "\<not> int (length buf) + RuneLen r > breakGlassMaxBytes"
    using 2(3) length_AppendRune [OF ir] by (auto simp: clean_reason_def)
  have "(buf @ AppendRune r) @ drop w (c # cs) = buf @ c # cs" unfolding e(1) by simp
  with 2(2) [OF refl d [symmetric] nc fit] 2(3) e(2) nc fit show ?case
    by (simp add: sanitize_loop.simps(2) d)
qed simp

text \<open>
  Whatever bytes the header holds, the break-glass reason that reaches the gate and the audit trail is
  valid UTF-8 without control characters of at most 512 bytes; and the header's text is kept as it is
  exactly if it is such a text.
\<close>

theorem break_glass_reason_clean:
  "clean_reason (sanitizeBreakGlass raw) \<and> (sanitizeBreakGlass raw = raw \<longleftrightarrow> clean_reason raw)"
proof -
  have "clean_reason (sanitizeBreakGlass raw)"
    unfolding sanitizeBreakGlass_def
    by (auto intro!: sanitize_loop_clean) (simp_all add: clean_reason_def no_control_def breakGlassMaxBytes_def)
  moreover have "clean_reason raw \<Longrightarrow> sanitizeBreakGlass raw = raw"
    using sanitize_loop_id [of "[]" raw] by (auto simp: sanitizeBreakGlass_def clean_reason_def)
  ultimately show ?thesis by metis
qed

section \<open>What passes the API key\<close>

lemma match_digest_Some: "match_digest d ks = Some k \<Longrightarrow> k \<in> set ks \<and> Key_SHA256 k = d"
  by (induction ks) (auto split: if_splits)

lemma match_digest_None: "match_digest d ks = None \<longleftrightarrow> (\<forall>k \<in> set ks. Key_SHA256 k \<noteq> d)"
  by (induction ks) auto

lemma header_fields [simp]:
  "req_Header (withClientIP ip r) = req_Header r" "req_Header (SetRequestID i r) = req_Header r"
  "req_Header (withCaller c r) = req_Header r"
  "req_Method (withClientIP ip r) = req_Method r" "req_Method (SetRequestID i r) = req_Method r"
  "req_Method (withCaller c r) = req_Method r"
  "req_RemoteAddr (SetRequestID i r) = req_RemoteAddr r" "req_Path (withClientIP ip r) = req_Path r"
  "req_Path (SetRequestID i r) = req_Path r"
  by (simp_all add: withClientIP_def SetRequestID_def withCaller_def)

lemma context_fields [simp]:
  "RequestIDFrom (withClientIP ip r) = RequestIDFrom r" "RequestIDFrom (SetRequestID i r) = i"
  "clientIPFrom (withClientIP ip r) = ip"
  by (simp_all add: withClientIP_def SetRequestID_def RequestIDFrom_def clientIPFrom_def)

lemma resolveClientIP_SetRequestID [simp]: "resolveClientIP (SetRequestID i r) ps = resolveClientIP r ps"
  by (simp add: resolveClientIP_def Let_def cong: if_cong)

lemma CORS_preflight: "req_Method r = ''OPTIONS'' \<Longrightarrow> CORS origins auth next r = CORS origins auth next' r"
  by (simp add: CORS_def Let_def cong: if_cong)

lemma APIKey_preflight: "req_Method r = ''OPTIONS'' \<Longrightarrow> APIKey env keys auth look aud next r = next r"
  by (simp add: APIKey_def)

lemma APIKey_refused:
  assumes "req_Method r \<noteq> ''OPTIONS''" "matchKey (header_Get (req_Header r) HeaderAPIKey) keys = None"
  shows "APIKey env keys True look aud next r
    = onOk (on_state (auditUnauthenticatedRejection env r look aud
        (sanitizeBreakGlass (header_Get (req_Header r) HeaderBreakGlass)))) (\<lambda>_. on_writer (writeUnauthenticated r))"
  using assms by (simp add: APIKey_def Let_def)

text \<open>
  C34. While authentication is on, nothing behind the middleware runs for a request without a configured key
  or for a preflight: the outcome does not depend on the operations (nor on the telemetry around them),
  whatever they are.
\<close>

theorem only_authenticated_requests_are_served:
  assumes "dep_AuthEnabled deps"
    and "req_Method r = ''OPTIONS'' \<or> matchKey (header_Get (req_Header r) HeaderAPIKey) (dep_Keys deps) = None"
  shows "api_New env deps look otel annotate mux r = api_New env deps look otel' annotate' mux' r"
proof -
  let ?chain = "\<lambda>otel annotate mux. APIKey env (dep_Keys deps) True (Some look) (dep_Auditor deps)
    (CORS (dep_CORSOrigins deps) True (HTTPMiddleware otel annotate RequestIDFrom mux))"
  have "?chain otel annotate mux (withClientIP ip (SetRequestID i r))
      = ?chain otel' annotate' mux' (withClientIP ip (SetRequestID i r))" for i ip
  proof (cases "req_Method r = ''OPTIONS''")
    case True
    then show ?thesis by (simp add: APIKey_preflight) (rule CORS_preflight, simp)
  next
    case False
    with assms(2) show ?thesis by (simp add: APIKey_refused)
  qed
  then show ?thesis
    using assms(1) by (simp add: api_New_def RequestID_def ClientIP_def)
qed

text \<open>A demonstration set-up: one operator key, with the text ''demo'' behind its digest.\<close>

definition demo_key :: Key where
  "demo_key = \<lparr>Key_ID = ''ops'', Key_Tier = ''operator'', Key_SHA256 = Sum256 ''demo''\<rparr>"

definition demo_deps :: "world Deps" where
  "demo_deps = \<lparr>dep_Auditor = Some [world_sink], dep_Keys = [demo_key], dep_AuthEnabled = True,
     dep_CORSOrigins = [], dep_TrustedProxies = []\<rparr>"

definition demo_request :: "string \<Rightarrow> (string \<times> string list) list \<Rightarrow> Request" where
  "demo_request meth hdr = \<lparr>req_Method = meth, req_Path = ''/v1/topics/orders'', req_RemoteAddr = ''10.0.0.1:999'',
     req_Header = (''X-Request-Id'', [''r1'']) # hdr,
     req_Ctx = \<lparr>rc_RequestID = None, rc_ClientIP = None, rc_Caller = None\<rparr>\<rparr>"

definition demo_lookup :: RouteLookup where
  "demo_lookup r = Some \<lparr>route_CommandID = ''T7'', route_CommandName = ''Delete topic'', route_IsWrite = True\<rparr>"

theorem only_authenticated_requests_are_served_witness:
  "api_New world_env demo_deps demo_lookup id (\<lambda>i. ret ()) (\<lambda>r. ret ()) (demo_request ''DELETE'' [])
    = api_New world_env demo_deps demo_lookup id (\<lambda>i. ret ()) (\<lambda>r. panic) (demo_request ''DELETE'' [])"
  by (rule only_authenticated_requests_are_served)
    (simp_all add: demo_deps_def demo_request_def header_Get_def mget_def HeaderAPIKey_def matchKey_def)

lemma RequestID_supplied:
  assumes "requestIDPattern (header_Get (req_Header r) HeaderRequestID)"
  shows "RequestID rand next r (s, w) = next (SetRequestID (header_Get (req_Header r) HeaderRequestID) r)
    (s, set_header HeaderRequestID (header_Get (req_Header r) HeaderRequestID) w)"
  using assms by (simp add: RequestID_def Let_def onOk_def on_writer_def)

lemma live_rejection_audit:
  assumes "live w"
  shows "\<exists>i t w'. auditUnauthenticatedRejection world_env r (Some look) (Some [world_sink]) bg w = (Ok (), w')
    \<and> cluster w' = cluster w
    \<and> audit_trail w' = audit_trail w @ (case look r of None \<Rightarrow> [] | Some rc \<Rightarrow>
        if route_IsWrite rc then [(unauthenticated_event i t r rc bg)\<lparr>Event_Phase := PhaseResult\<rparr>] else [])"
proof (cases "\<exists>rc. look r = Some rc \<and> route_IsWrite rc")
  case False
  then show ?thesis
    by (auto simp: auditUnauthenticatedRejection_def ret_run split: option.split)
next
  case True
  then obtain rc where rc: "look r = Some rc" "route_IsWrite rc" by blast
  have id: "NewEventID w = (hex_encode (map (w_entropy w) [w_drawn w..<w_drawn w + 16]), draw_id w)"
    by (simp add: NewEventID_def draw_id_def)
  have cl: "cluster (add_event ev (draw_id w)) = cluster w" for ev
    by (simp add: cluster_def add_event_def draw_id_def)
  show ?thesis
    using rc assms
    by (auto simp: auditUnauthenticatedRejection_def world_env_def id act_run onOk_def world_timeNow_def
        live_Result cl)
qed

text \<open>
  C35. A request with no configured key is answered 401 with the envelope of its request id; the cluster
  stays as it is, and the audit trail grows by exactly one \<open>REJECTED\<close> result when the route is a write
  command, by nothing otherwise.
\<close>

theorem unauthenticated_request_rejected:
  assumes "live w" "dep_AuthEnabled deps" "dep_Auditor deps = Some [world_sink]"
    and "req_Method r \<noteq> ''OPTIONS''"
    and "matchKey (header_Get (req_Header r) HeaderAPIKey) (dep_Keys deps) = None"
    and "header_Get (req_Header r) HeaderRequestID = rid" "requestIDPattern rid"
    and "r' = withClientIP (resolveClientIP r (dep_TrustedProxies deps)) (SetRequestID rid r)"
  shows "\<exists>i t w' resp. api_New world_env deps look otel annotate mux r (w, fresh_writer) = (Ok (), w', resp)
    \<and> map_option fst (rw_Sent resp) = Some 401 \<and> rw_Body resp = [Envelope_any (Unauthenticated rid)]
    \<and> cluster w' = cluster w
    \<and> audit_trail w' = audit_trail w @ (case look r' of None \<Rightarrow> [] | Some rc \<Rightarrow>
        if route_IsWrite rc then [(unauthenticated_event i t r' rc
          (sanitizeBreakGlass (header_Get (req_Header r) HeaderBreakGlass)))\<lparr>Event_Phase := PhaseResult\<rparr>] else [])"
proof -
  let ?bg = "sanitizeBreakGlass (header_Get (req_Header r) HeaderBreakGlass)"
  from live_rejection_audit [OF assms(1), of r' look ?bg] obtain i t w'
    where a: "auditUnauthenticatedRejection world_env r' (Some look) (Some [world_sink]) ?bg w = (Ok (), w')"
      and b: "cluster w' = cluster w"
      and c: "audit_trail w' = audit_trail w @ (case look r' of None \<Rightarrow> [] | Some rc \<Rightarrow>
        if route_IsWrite rc then [(unauthenticated_event i t r' rc ?bg)\<lparr>Event_Phase := PhaseResult\<rparr>] else [])"
    by blast
  have rid: "RequestIDFrom r' = rid" "req_Method r' = req_Method r" "req_Header r' = req_Header r"
    by (simp_all add: assms(8))
  have "api_New world_env deps look otel annotate mux r (w, fresh_writer)
    = (Ok (), w', writeUnauthenticated r' (set_header HeaderRequestID rid fresh_writer))"
    using assms(2-7) a
    by (simp add: api_New_def RequestID_supplied ClientIP_def APIKey_refused rid assms(8) [symmetric]
        onOk_def on_state_def on_writer_def)
  then show ?thesis using b c
    by (auto simp: writeUnauthenticated_def Let_def rid write_body_def WriteHeader_def set_header_def
        fresh_writer_def Unauthenticated_def unauthenticatedMapping_def mapping_def envelope_def GetStatus_def)
qed

theorem unauthenticated_request_rejected_witness:
  "\<exists>i t w' resp. api_New world_env demo_deps demo_lookup id (\<lambda>i. ret ()) (\<lambda>r. ret ()) (demo_request ''DELETE'' [])
       (demo_world, fresh_writer) = (Ok (), w', resp)
    \<and> map_option fst (rw_Sent resp) = Some 401 \<and> rw_Body resp = [Envelope_any (Unauthenticated ''r1'')]
    \<and> cluster w' = cluster demo_world
    \<and> audit_trail w' = audit_trail demo_world @ (case demo_lookup (withClientIP (resolveClientIP (demo_request ''DELETE'' []) [])
          (SetRequestID ''r1'' (demo_request ''DELETE'' []))) of None \<Rightarrow> [] | Some rc \<Rightarrow>
        if route_IsWrite rc then [(unauthenticated_event i t (withClientIP (resolveClientIP (demo_request ''DELETE'' []) [])
          (SetRequestID ''r1'' (demo_request ''DELETE'' []))) rc
          (sanitizeBreakGlass (header_Get (req_Header (demo_request ''DELETE'' [])) HeaderBreakGlass)))\<lparr>Event_Phase := PhaseResult\<rparr>] else [])"
  by (rule unauthenticated_request_rejected)
    (simp_all add: demo_deps_def demo_request_def header_Get_def mget_def HeaderAPIKey_def HeaderRequestID_def
      matchKey_def requestIDPattern_def id_char_def)

text \<open>A request with a configured key and a request id of its own, on its way to the mux.\<close>

definition keyed :: "'s Deps \<Rightarrow> Key \<Rightarrow> string \<Rightarrow> Request \<Rightarrow> Request" where
  "keyed deps key rid r =
    (let ip = resolveClientIP r (dep_TrustedProxies deps) in
     withCaller \<lparr>Caller_KeyID = Some (Key_ID key), Caller_Tier = Key_Tier key,
        Caller_BreakGlassReason = sanitizeBreakGlass (header_Get (req_Header r) HeaderBreakGlass),
        Caller_RequestID = rid, Caller_ClientIP = ip, Caller_Client = ''http''\<rparr>
      (withClientIP ip (SetRequestID rid r)))"

lemma keyed_request:
  assumes "dep_AuthEnabled deps" "req_Method r \<noteq> ''OPTIONS''" "header_Get (req_Header r) ''Origin'' = []"
    and "header_Get (req_Header r) HeaderRequestID = rid" "requestIDPattern rid"
    and "matchKey (header_Get (req_Header r) HeaderAPIKey) (dep_Keys deps) = Some key"
  shows "api_New env deps look otel annotate mux r (s, wr)
      = HTTPMiddleware otel annotate RequestIDFrom mux (keyed deps key rid r) (s, set_header HeaderRequestID rid wr)"
  using assms
  by (simp add: api_New_def RequestID_supplied ClientIP_def APIKey_def CORS_def Let_def request_caller_def keyed_def)

text \<open>
  C36. With a configured key the operations run with exactly the caller of that key: its id and tier, the
  cleaned break-glass reason, the request id and the resolved address, whatever else the request says.
\<close>

theorem operations_see_the_key_holder:
  assumes "dep_AuthEnabled deps" "req_Method r \<noteq> ''OPTIONS''" "header_Get (req_Header r) ''Origin'' = []"
    and "header_Get (req_Header r) HeaderRequestID = rid" "requestIDPattern rid"
    and "matchKey (header_Get (req_Header r) HeaderAPIKey) (dep_Keys deps) = Some key"
    and "ip = resolveClientIP r (dep_TrustedProxies deps)"
  shows "key \<in> set (dep_Keys deps) \<and> Key_SHA256 key = Sum256 (header_Get (req_Header r) HeaderAPIKey)
    \<and> api_New env deps look otel annotate mux r (s, wr)
      = HTTPMiddleware otel annotate RequestIDFrom mux
          (withCaller \<lparr>Caller_KeyID = Some (Key_ID key), Caller_Tier = Key_Tier key,
             Caller_BreakGlassReason = sanitizeBreakGlass (header_Get (req_Header r) HeaderBreakGlass),
             Caller_RequestID = rid, Caller_ClientIP = ip, Caller_Client = ''http''\<rparr>
           (withClientIP ip (SetRequestID rid r)))
          (s, set_header HeaderRequestID rid wr)"
proof -
  have "key \<in> set (dep_Keys deps) \<and> Key_SHA256 key = Sum256 (header_Get (req_Header r) HeaderAPIKey)"
    using assms(6) by (auto simp: matchKey_def dest: match_digest_Some split: if_splits)
  with keyed_request [OF assms(1-6)] assms(7) show ?thesis by (simp add: keyed_def Let_def)
qed

theorem operations_see_the_key_holder_witness:
  "demo_key \<in> set (dep_Keys demo_deps)
    \<and> Key_SHA256 demo_key = Sum256 (header_Get (req_Header (demo_request ''GET'' [(''X-Api-Key'', [''demo''])])) HeaderAPIKey)
    \<and> api_New world_env demo_deps demo_lookup id (\<lambda>i. ret ()) (\<lambda>r. ret ())
        (demo_request ''GET'' [(''X-Api-Key'', [''demo''])]) (demo_world, fresh_writer)
      = HTTPMiddleware id (\<lambda>i. ret ()) RequestIDFrom (\<lambda>r. ret ())
          (withCaller \<lparr>Caller_KeyID = Some (Key_ID demo_key), Caller_Tier = Key_Tier demo_key,
             Caller_BreakGlassReason = sanitizeBreakGlass
               (header_Get (req_Header (demo_request ''GET'' [(''X-Api-Key'', [''demo''])])) HeaderBreakGlass),
             Caller_RequestID = ''r1'',
             Caller_ClientIP = resolveClientIP (demo_request ''GET'' [(''X-Api-Key'', [''demo''])]) [],
             Caller_Client = ''http''\<rparr>
           (withClientIP (resolveClientIP (demo_request ''GET'' [(''X-Api-Key'', [''demo''])]) [])
             (SetRequestID ''r1'' (demo_request ''GET'' [(''X-Api-Key'', [''demo''])]))))
          (demo_world, set_header HeaderRequestID ''r1'' fresh_writer)"
  by (rule operations_see_the_key_holder)
    (simp_all add: demo_deps_def demo_key_def demo_request_def header_Get_def mget_def HeaderAPIKey_def HeaderRequestID_def
      matchKey_def requestIDPattern_def id_char_def)

section \<open>The client address\<close>

lemma rightmost_untrusted_Some:
  "rightmost_untrusted ps es = Some ip \<Longrightarrow> \<exists>pre e post. es = pre @ e # post \<and> TrimSpace e = ip \<and> ip \<noteq> []
     \<and> \<not> isTrusted ip ps \<and> (\<forall>x \<in> set pre. TrimSpace x = [] \<or> isTrusted (TrimSpace x) ps)"
proof (induction ps es rule: rightmost_untrusted.induct)
  case (2 ps e es)
  show ?case
  proof (cases "TrimSpace e = [] \<or> isTrusted (TrimSpace e) ps")
    case True
    with 2 obtain pre e' post where "es = pre @ e' # post" "TrimSpace e' = ip" "ip \<noteq> []" "\<not> isTrusted ip ps"
      "\<forall>x \<in> set pre. TrimSpace x = [] \<or> isTrusted (TrimSpace x) ps"
      by (auto simp: Let_def split: if_splits)
    with True show ?thesis by (intro exI [of _ "e # pre"]) auto
  next
    case False
    with 2(3) show ?thesis by (intro exI [of _ "[]"] exI [of _ e] exI [of _ es]) (simp add: Let_def)
  qed
qed simp

lemma rightmost_untrusted_None:
  "rightmost_untrusted ps es = None \<longleftrightarrow> (\<forall>x \<in> set es. TrimSpace x = [] \<or> isTrusted (TrimSpace x) ps)"
  by (induction ps es rule: rightmost_untrusted.induct) (auto simp: Let_def)

text \<open>
  C37. The resolved address of a request with one \<open>X-Forwarded-For\<close> line: the peer's, unless the peer is a trusted
  proxy; then the untrusted entry of that line with only trusted proxies (and blanks) to its right, so that entries
  further left are never believed; and the peer's again when the line has no untrusted entry. (Of several lines only
  the first is read, see \<open>second_forwarded_line_ignored\<close>.)
\<close>

theorem client_address_is_nearest_untrusted:
  assumes "mget (req_Header r) [] ''X-Forwarded-For'' = [line]"
  shows "let peer = peerIP (req_RemoteAddr r); ip = resolveClientIP r ps; trusted = (\<lambda>x. TrimSpace x = [] \<or> isTrusted (TrimSpace x) ps)
    in if \<not> isTrusted peer ps then ip = peer
       else if list_all trusted (Split (CHR '','') line) then ip = peer
       else \<exists>pre e post. Split (CHR '','') line = pre @ e # post \<and> TrimSpace e = ip \<and> \<not> trusted e \<and> list_all trusted post"
proof -
  let ?es = "Split (CHR '','') line"
  have line: "header_Get (req_Header r) ''X-Forwarded-For'' = line" by (simp add: header_Get_def assms)
  show ?thesis
  proof (cases "rightmost_untrusted ps (rev ?es)")
    case None
    with rightmost_untrusted_None [of ps "rev ?es"] show ?thesis
      by (simp add: resolveClientIP_def line Let_def list_all_iff)
  next
    case (Some ip)
    from rightmost_untrusted_Some [OF this] obtain pre e post where e: "rev ?es = pre @ e # post"
      "TrimSpace e = ip" "ip \<noteq> []" "\<not> isTrusted ip ps" "\<forall>x \<in> set pre. TrimSpace x = [] \<or> isTrusted (TrimSpace x) ps" by blast
    then have es: "?es = rev post @ e # rev pre" by (simp add: rev_swap)
    with e have "\<not> list_all (\<lambda>x. TrimSpace x = [] \<or> isTrusted (TrimSpace x) ps) ?es" by simp
    moreover have "\<exists>pre e post. ?es = pre @ e # post \<and> TrimSpace e = ip \<and> \<not> (TrimSpace e = [] \<or> isTrusted (TrimSpace e) ps)
        \<and> list_all (\<lambda>x. TrimSpace x = [] \<or> isTrusted (TrimSpace x) ps) post"
      using e by (intro exI [of _ "rev post"] exI [of _ e] exI [of _ "rev pre"]) (simp add: es list_all_iff)
    ultimately show ?thesis using Some by (simp add: resolveClientIP_def line Let_def)
  qed
qed

definition demo_proxies :: "IPNet list" where
  "demo_proxies = [\<lparr>IPNet_IP = [10, 0, 0, 0], IPNet_Mask = [255, 0, 0, 0]\<rparr>]"

definition forwarded_request :: "string list \<Rightarrow> Request" where
  "forwarded_request lines = demo_request ''GET'' [(''X-Forwarded-For'', lines)]"

lemma demo_trusted: "isTrusted ''10.0.0.1'' demo_proxies" "\<not> isTrusted ''6.6.6.6'' demo_proxies"
  "\<not> isTrusted ''7.7.7.7'' demo_proxies"
  by code_simp+

lemma peer_forwarded [simp]: "peerIP (req_RemoteAddr (forwarded_request xs)) = ''10.0.0.1''"
proof -
  have "peerIP ''10.0.0.1:999'' = ''10.0.0.1''" by code_simp
  then show ?thesis by (simp add: forwarded_request_def demo_request_def)
qed

lemma forwarded_entries [simp]: "header_Get (req_Header (forwarded_request (x # xs))) ''X-Forwarded-For'' = x"
  by (simp add: forwarded_request_def demo_request_def header_Get_def mget_def)

theorem client_address_is_nearest_untrusted_witness:
  "\<exists>pre e post. Split (CHR '','') ''6.6.6.6,7.7.7.7'' = pre @ e # post
    \<and> TrimSpace e = resolveClientIP (forwarded_request [''6.6.6.6,7.7.7.7'']) demo_proxies
    \<and> list_all (\<lambda>x. TrimSpace x = [] \<or> isTrusted (TrimSpace x) demo_proxies) post"
proof -
  have line: "mget (req_Header (forwarded_request [''6.6.6.6,7.7.7.7''])) [] ''X-Forwarded-For'' = [''6.6.6.6,7.7.7.7'']"
    by (simp add: forwarded_request_def demo_request_def mget_def)
  have "\<not> list_all (\<lambda>x. TrimSpace x = [] \<or> isTrusted (TrimSpace x) demo_proxies) (Split (CHR '','') ''6.6.6.6,7.7.7.7'')"
    by (simp add: demo_trusted TrimSpace_plain plain_char_def)
  with client_address_is_nearest_untrusted [OF line, of demo_proxies] show ?thesis
    unfolding Let_def peer_forwarded by (simp only: demo_trusted simp_thms if_False if_True) blast
qed

text \<open>
  Only the first line of the forwarding header is read. A proxy that adds a line of its own, instead of
  extending the client's, has the client's text believed: the address is whatever the client wrote.
\<close>

theorem second_forwarded_line_ignored:
  assumes "isTrusted (peerIP (req_RemoteAddr r)) ps"
    and "mget (req_Header r) [] ''X-Forwarded-For'' = forged # added"
    and "CHR '','' \<notin> set forged" "TrimSpace forged = forged" "forged \<noteq> []" "\<not> isTrusted forged ps"
  shows "resolveClientIP r ps = forged"
  using assms by (simp add: resolveClientIP_def header_Get_def Split_plain)

theorem second_forwarded_line_ignored_witness:
  "resolveClientIP (forwarded_request [''6.6.6.6'', ''7.7.7.7'']) demo_proxies = ''6.6.6.6''"
proof (rule second_forwarded_line_ignored)
  show "TrimSpace ''6.6.6.6'' = ''6.6.6.6''" by (simp add: TrimSpace_plain plain_char_def)
  show "mget (req_Header (forwarded_request [''6.6.6.6'', ''7.7.7.7''])) [] ''X-Forwarded-For'' = ''6.6.6.6'' # [''7.7.7.7'']"
    by (simp add: forwarded_request_def demo_request_def mget_def)
qed (simp_all add: demo_trusted)

end
