(* ===== verification/GatewayProps.thy ===== *)
theory GatewayProps
  imports GatewaySafety Gateway MiddlewareProps
begin

text \<open>
  What the assembled gateway promises: every command of the table is served under its own route and under
  no other, a request reaches at most one operation, and read-only mode, a reader's key and the read
  methods each keep the cluster from changing, whatever the request holds.
\<close>

section \<open>Routes\<close>

lemma registered_commands:
  "map op_command registered =
    [''C3'', ''C3'', ''C1'', ''C2'', ''C4'', ''C6'', ''C7'', ''C8'', ''C10'', ''C11'', ''C5'', ''C9'', ''C9'', ''C9'', ''C12'',
     ''T1'', ''T2'', ''T3'', ''T4'', ''G3'', ''T5'', ''T6'', ''T9'', ''T10'', ''T7'', ''T8'', ''T11'', ''T12'',
     ''G1'', ''G2'', ''G4'', ''G5'', ''G6'', ''G7'', ''M1'', ''M2'', ''M3'', ''M4'', ''M5'', ''M6'', ''M7'', ''M8'',
     ''S1'', ''S1'', ''S1'', ''S2'', ''S2'']"
  by (simp add: registered_def registerHealth_def cluster_Register_def topic_Register_def group_Register_def
      message_Register_def security_Register_def)

text \<open>Two patterns that some request could both match.\<close>

definition segments_clash :: "string \<Rightarrow> string \<Rightarrow> bool" where
  "segments_clash a b \<longleftrightarrow> is_wildcard a \<or> is_wildcard b \<or> a = b"

definition routes_clash :: "HumaOperation \<Rightarrow> HumaOperation \<Rightarrow> bool" where
  "routes_clash a b \<longleftrightarrow> Op_Method a = Op_Method b
     \<and> list_all2 segments_clash (Split (CHR ''/'') (Op_Path a)) (Split (CHR ''/'') (Op_Path b))"

lemma path_matches_clash:
  assumes "path_matches p path" "path_matches q path"
  shows "list_all2 segments_clash (Split (CHR ''/'') p) (Split (CHR ''/'') q)"
proof -
  have "segments_clash a b" if "segment_matches a s" "segment_matches b s" for a b s
    using that by (auto simp: segment_matches_def segments_clash_def split: if_splits)
  then show ?thesis
    using assms unfolding path_matches_def list_all2_conv_all_nth by metis
qed

lemma methods_registered: "list_all (\<lambda>rt. Op_Method rt \<noteq> ''HEAD'') registered"
  by (simp add: registered_def registerHealth_def cluster_Register_def topic_Register_def group_Register_def
      message_Register_def security_Register_def)

lemma route_matches_clash:
  assumes "route_matches r a" "route_matches r b" "a \<in> set registered" "b \<in> set registered"
  shows "routes_clash a b"
  using assms methods_registered path_matches_clash
  by (auto simp: route_matches_def method_matches_def routes_clash_def list_all_iff)

definition split_routes :: "HumaOperation list \<Rightarrow> (string \<times> string list) list" where
  "split_routes ops = map (\<lambda>rt. (Op_Method rt, Split (CHR ''/'') (Op_Path rt))) ops"

fun apart :: "(string \<times> string list) list \<Rightarrow> bool" where
  "apart [] = True"
| "apart (x # xs) = (list_all (\<lambda>y. fst x = fst y \<longrightarrow> \<not> list_all2 segments_clash (snd x) (snd y)) xs \<and> apart xs)"

lemma registered_apart: "apart (split_routes registered)"
  by code_simp

lemma segments_clash_sym: "segments_clash a b \<longleftrightarrow> segments_clash b a"
  by (auto simp: segments_clash_def)

lemma routes_clash_sym: "routes_clash a b \<longleftrightarrow> routes_clash b a"
  by (auto simp: routes_clash_def list_all2_conv_all_nth segments_clash_sym)

lemma apart_unique: "apart (split_routes ops) \<Longrightarrow> a \<in> set ops \<Longrightarrow> b \<in> set ops \<Longrightarrow> routes_clash a b \<Longrightarrow> a = b"
proof (induction ops)
  case (Cons x xs)
  have "\<not> routes_clash x y" if "y \<in> set xs" for y
    using Cons.prems(1) that by (auto simp: split_routes_def routes_clash_def list_all_iff)
  with Cons show ?case using routes_clash_sym by (auto simp: split_routes_def)
qed simp

lemma unique_route:
  "route_matches r a \<Longrightarrow> route_matches r b \<Longrightarrow> a \<in> set registered \<Longrightarrow> b \<in> set registered \<Longrightarrow> a = b"
  by (rule apart_unique [OF registered_apart _ _ route_matches_clash])

lemma mux_Handler_Some: "mux_Handler r = Some rt \<longleftrightarrow> rt \<in> set registered \<and> route_matches r rt"
proof
  assume "mux_Handler r = Some rt"
  then show "rt \<in> set registered \<and> route_matches r rt"
    by (auto simp: mux_Handler_def find_Some_iff)
next
  assume a: "rt \<in> set registered \<and> route_matches r rt"
  then obtain rt' where "mux_Handler r = Some rt'"
    by (cases "mux_Handler r") (auto simp: mux_Handler_def find_None_iff)
  then have "rt' \<in> set registered" "route_matches r rt'" by (auto simp: mux_Handler_def find_Some_iff)
  with a have "rt' = rt" using unique_route by blast
  with \<open>mux_Handler r = Some rt'\<close> show "mux_Handler r = Some rt" by simp
qed

definition route_command :: "HumaOperation \<Rightarrow> RouteCommand" where
  "route_command rt = (let d = desc_of (op_command rt) in
     \<lparr>route_CommandID = Desc_ID d, route_CommandName = Desc_Name d, route_IsWrite = (Desc_Access d = W)\<rparr>)"

lemma patterns_distinct: "distinct (map pattern_of registered)"
  by code_simp

lemma commands_found: "rt \<in> set registered \<Longrightarrow> \<exists>d \<in> set Table. op_command rt = Desc_ID d"
proof -
  assume "rt \<in> set registered"
  then have "op_command rt \<in> set (map op_command registered)" by simp
  also have "\<dots> \<subseteq> set (map Desc_ID Table)" unfolding registered_commands Table_ids by simp
  finally show ?thesis by auto
qed

lemma map_of_byPattern_step:
  assumes "\<forall>rt \<in> set ops. \<exists>d \<in> set Table. op_command rt = Desc_ID d" "distinct (map pattern_of ops)"
    and "rt \<in> set ops"
  shows "map_of (fold (\<lambda>rt acc. (case Lookup (op_command rt) of
     (desc, found) \<Rightarrow> if \<not> found then acc else mput (pattern_of rt)
       \<lparr>route_CommandID = Desc_ID desc, route_CommandName = Desc_Name desc, route_IsWrite = (Desc_Access desc = W)\<rparr> acc)) ops acc)
      (pattern_of rt) = Some (route_command rt)"
  using assms
proof (induction ops rule: rev_induct)
  case (snoc x xs)
  from snoc.prems(1) obtain d where d: "d \<in> set Table" "op_command x = Desc_ID d" by auto
  have x: "Lookup (op_command x) = (d, True)" by (simp add: d Lookup_Table)
  show ?case
  proof (cases "rt = x")
    case True
    then show ?thesis using x by (simp add: route_command_def desc_of_def Let_def update_conv)
  next
    case False
    then have "rt \<in> set xs" "pattern_of rt \<noteq> pattern_of x"
      using snoc.prems by (auto simp: image_iff)
    then show ?thesis using snoc x by (simp add: update_conv)
  qed
qed simp

lemma patterns_resolve:
  "rt \<in> set registered \<Longrightarrow> map_of (byPattern registered) (pattern_of rt) = Some (route_command rt)"
  unfolding byPattern_def by (rule map_of_byPattern_step) (simp_all add: commands_found patterns_distinct)

text \<open>Each row of a \<open>Register\<close> has its handler.\<close>

lemma rows_have_handlers:
  "\<exists>xs. topic_Register = map topic_route xs"
  "\<exists>xs. group_Register = map group_route xs"
  "\<exists>xs. security_Register = map security_route xs"
  "\<exists>xs. cluster_Register = map cluster_route xs"
  "\<exists>xs. registerHealth = map health_route xs"
  "\<exists>xs. message_Register = map message_route xs"
proof -
  show "\<exists>xs. topic_Register = map topic_route xs"
    by (rule exI [of _ "[Op_listTopics undefined, Op_describeTopic undefined, Op_topicSize undefined, Op_topicCount undefined, Op_topicConsumerGroups undefined, Op_createTopic undefined, Op_createTopicsBulk undefined, Op_alterConfig undefined, Op_addPartitions undefined, Op_deleteTopic undefined, Op_deleteTopicsBulk undefined, Op_deleteRecords undefined, Op_purgeTopic undefined]"])
      (simp add: topic_Register_def)
  show "\<exists>xs. group_Register = map group_route xs"
    by (rule exI [of _ "[Op_listGroups undefined, Op_describeGroup undefined, Op_resetOffsets undefined, Op_deleteGroup undefined, Op_removeMembers undefined, Op_cloneOffsets undefined]"])
      (simp add: group_Register_def)
  show "\<exists>xs. security_Register = map security_route xs"
    by (rule exI [of _ "[Op_listUsers undefined, Op_api_createUser undefined, Op_deleteUser undefined, Op_listQuotas undefined, Op_alterQuota undefined]"])
      (simp add: security_Register_def)
  show "\<exists>xs. cluster_Register = map cluster_route xs"
    by (rule exI [of _ "[Op_describeCluster undefined, Op_describeBrokerConfig undefined, Op_clusterHealth undefined, Op_quorum undefined, Op_listReassignments undefined, Op_logDirs undefined, Op_throughput undefined, Op_export undefined, Op_alterBrokerConfig undefined, Op_reassign undefined, Op_cancelReassignments undefined, Op_elections undefined, Op_applyTopics undefined]"])
      (simp add: cluster_Register_def)
  show "\<exists>xs. registerHealth = map health_route xs"
    by (rule exI [of _ "[Op_Live undefined, Op_Ready undefined]"])
      (simp add: registerHealth_def)
  show "\<exists>xs. message_Register = map message_route xs"
    by (rule exI [of _ "[Op_readMessages undefined, Op_getMessage undefined, Op_searchMessages undefined, Op_filterMessages undefined, Op_produceMessages undefined, Op_produceBulk undefined, Op_sendTombstone undefined, Op_replay undefined]"])
      (simp add: message_Register_def)
qed

lemma rows_are_operations: "set registered \<subseteq> range route_of"
proof -
  have sub: "set ops \<subseteq> range route_of" if "\<exists>xs. ops = map f xs" "\<And>y. route_of (c y) = f y"
    for ops and f :: "'a \<Rightarrow> HumaOperation" and c
    using that by auto (metis range_eqI)
  note rows = rows_have_handlers [THEN sub]
  show ?thesis
    unfolding registered_def set_append
    by (intro Un_least rows(1) [of TopicOp] rows(2) [of GroupOp] rows(3) [of SecurityOp] rows(4) [of ClusterOp]
        rows(5) [of HealthOp] rows(6) [of MessageOp] route_of.simps)
qed

text \<open>
  Every command of the table is served and nothing else is: the routes' commands are exactly the table's
  ids, none is pending, and the ids of the operations and their patterns are pairwise distinct. Every route
  has an operation, and every operation a route.
\<close>

theorem every_command_is_routed:
  "set (map op_command registered) = set (map Desc_ID Table) \<and> Pending = []
   \<and> distinct (map Op_OperationID registered) \<and> distinct (map pattern_of registered)
   \<and> range route_of = set registered"
proof (intro conjI)
  show "set (map op_command registered) = set (map Desc_ID Table)"
    unfolding registered_commands Table_ids by auto
  show "Pending = []"
    by (simp add: Pending_def implementedCommandIDs_def Table_def mget_def)
  show "distinct (map Op_OperationID registered)"
    by (simp add: registered_def registerHealth_def cluster_Register_def topic_Register_def group_Register_def
        message_Register_def security_Register_def)
  show "range route_of = set registered"
  proof
    have "route_of x \<in> set registered" for x
    proof (cases x)
      case (ClusterOp y)
      then show ?thesis by (cases y) (simp_all add: registered_def cluster_Register_def)
    next
      case (TopicOp y)
      then show ?thesis by (cases y) (simp_all add: registered_def topic_Register_def)
    next
      case (GroupOp y)
      then show ?thesis by (cases y) (simp_all add: registered_def group_Register_def)
    next
      case (MessageOp y)
      then show ?thesis by (cases y) (simp_all add: registered_def message_Register_def)
    next
      case (SecurityOp y)
      then show ?thesis by (cases y) (simp_all add: registered_def security_Register_def)
    next
      case (HealthOp y)
      then show ?thesis by (cases y) (simp_all add: registered_def registerHealth_def)
    qed
    then show "range route_of \<subseteq> set registered" by auto
  qed (rule rows_are_operations)
qed (rule patterns_distinct)

text \<open>
  C6. Routing is unambiguous, so the mux's choice does not depend on the order of registration: a request is
  routed to an operation exactly if it matches its method and path. The lookup in front of the mux reports
  the command that operation is registered with, marked as a write exactly if the command is one.
\<close>

theorem lookup_names_the_served_command:
  "(mux_Handler r = Some rt \<longleftrightarrow> rt \<in> set registered \<and> route_matches r rt)
   \<and> buildRouteLookup registered mux_Handler r = map_option route_command (mux_Handler r)"
proof
  show "buildRouteLookup registered mux_Handler r = map_option route_command (mux_Handler r)"
  proof (cases "mux_Handler r")
    case (Some a)
    then have "a \<in> set registered" by (simp only: mux_Handler_Some)
    with Some show ?thesis by (simp add: buildRouteLookup_def patterns_resolve)
  qed (simp add: buildRouteLookup_def)
qed (rule mux_Handler_Some)

section \<open>The gateway in its surroundings\<close>

text \<open>The sample period of C10 passes on the wall clock.\<close>

definition world_sleep :: "int64 \<Rightarrow> (world, unit) eff" where
  "world_sleep d = act (\<lambda>w. ((), w\<lparr>w_fake := (w_fake w)\<lparr>fk_wall := fk_wall (w_fake w) + d\<rparr>\<rparr>))"

text \<open>The operations over the in-memory cluster; the functions of other packages are those of \<open>fs\<close>.\<close>

definition world_backend ::
  "Policy \<Rightarrow> Bounds \<Rightarrow> string \<times> bool \<Rightarrow> (world, Ctx) Backend \<Rightarrow> Request \<Rightarrow> (world, Ctx) Backend" where
  "world_backend pol b status fs r = fs\<lparr>be_svc := world_service Background pol, be_ms := world_message pol b,
     be_sleep := world_sleep, be_timeNow := world_timeNow, be_probe := DescribeCluster (world_admin Background),
     be_auditStatus := ret status\<rparr>"

interpretation world_backend: backend "world_backend pol b status fs r" cluster
proof (intro backend.intro message_env.intro backend_axioms.intro message_env_axioms.intro)
  let ?be = "world_backend pol b status fs r"
  show "service_env (be_svc ?be) cluster" by (simp add: world_backend_def world_env.service_env_axioms)
  show "service_env (ms_svc (be_ms ?be)) cluster"
    by (simp add: world_backend_def SafetyProps.message_env.service_env_axioms)
  show "quiet cluster (be_sleep ?be d)" for d
    by (simp add: world_backend_def world_sleep_def quiet_def act_run cluster_def cluster_view_def MutatingCalls_def)
  show "cluster (snd (be_timeNow ?be s)) = cluster s" for s by (simp add: world_backend_def)
  show "quiet cluster (be_probe ?be)" 
    using world_reads.read_DescribeCluster [of Background] by (simp add: world_backend_def)
  show "quiet cluster (be_auditStatus ?be)" by (simp add: world_backend_def quiet_ret)
  show "svc_runner (ms_svc (be_ms ?be)) = svc_runner (be_svc ?be)" by (simp add: world_backend_def)
  show "quiet cluster (ms_newConsumer (be_ms ?be))" by (simp add: world_backend_def quiet_ret)
  show "quiet cluster (Assign (env_consumer (ms_scan (be_ms ?be)) ctx) t ps offs)" for ctx t ps offs
    by (simp add: world_backend_def) (intro quiet_on_fake; auto simp: fake_Assign_def cluster_view_def MutatingCalls_def intro!: quiet_invoke_read)
  show "quiet cluster (Poll (env_consumer (ms_scan (be_ms ?be)) ctx))" for ctx
    by (simp add: world_backend_def) (intro quiet_on_fake; auto simp: fake_Poll_def cluster_view_def MutatingCalls_def Let_def
        intro!: quiet_invoke_read split: option.split)
  show "quiet cluster (Close (env_consumer (ms_scan (be_ms ?be)) ctx))" for ctx
    by (simp add: world_backend_def) (intro quiet_on_fake; auto simp: fake_Close_def cluster_view_def MutatingCalls_def quiet_def)
qed

text \<open>
  What the gateway relies on in the HTTP libraries: Huma binds a request to the input of the operation it was
  routed to; its own routes, the mux's own answers and the telemetry leave the cluster alone; and
  OpenTelemetry's handler serves the request with the handler it wraps.
\<close>

definition http_contract ::
  "(world \<times> bool) middleware \<Rightarrow> (string \<Rightarrow> ((world \<times> bool) \<times> Writer, unit) eff) \<Rightarrow> (world \<times> bool) Huma \<Rightarrow> bool" where
  "http_contract otel annotate h \<longleftrightarrow>
     (\<forall>rt r x. huma_Bind h rt r = Inr x \<longrightarrow> route_of x = rt)
     \<and> (\<forall>r. quiet (cluster \<circ> fst \<circ> fst) (huma_Other h r))
     \<and> (\<forall>i. quiet (cluster \<circ> fst \<circ> fst) (annotate i))
     \<and> (\<forall>next r. quiet (cluster \<circ> fst \<circ> fst) (next r) \<longrightarrow> quiet (cluster \<circ> fst \<circ> fst) (otel next r))"

text \<open>The middleware's surroundings beside the flag of a hanging operation.\<close>

definition lifted_env :: "(world \<times> bool) HttpEnv" where
  "lifted_env = \<lparr>env_NewEventID = lift_clock NewEventID, env_timeNow = lift_clock world_timeNow,
     env_randRead = (\<lambda>n. lift_eff (world_randRead n))\<rparr>"

abbreviation seen :: "(world \<times> bool) \<times> Writer \<Rightarrow> model \<times> CallRecord list" where
  "seen \<equiv> cluster \<circ> fst \<circ> fst"

lemma quiet_on_writer [quiet_intros]: "quiet (view \<circ> fst) (on_writer f)"
  by (simp add: quiet_def on_writer_def)

lemma quiet_on_state [quiet_intros]: "quiet view m \<Longrightarrow> quiet (view \<circ> fst) (on_state m)"
  by (simp add: quiet_def on_state_def split: prod.split) (metis snd_conv)

lemma quiet_hang: "quiet_run view m \<Longrightarrow> quiet (view \<circ> fst) (hang m)"
  by (auto simp: quiet_def quiet_run_def hang_def split: option.split)

lemma quiet_write_reply [quiet_intros]: "quiet (view \<circ> fst) (write_reply h r x)"
  unfolding write_reply_def by (auto split: sum.split intro: quiet_on_writer)

section \<open>A demonstration set-up\<close>

text \<open>
  A binding that knows one operation, the deletion of a topic, and rejects everything else; the functions of
  other packages refuse their input.
\<close>

definition demo_input :: DeleteTopicInput where
  "demo_input = \<lparr>DeleteTopicInput_Name = ''orders'', DeleteTopicInput_DryRun = False,
     DeleteTopicInput_Body = \<lparr>DeleteTopicRequestBody_Confirm = ''orders''\<rparr>\<rparr>"

definition demo_huma :: "(world \<times> bool) Huma" where
  "demo_huma = \<lparr>huma_Bind = (\<lambda>rt r. if rt = topic_Register ! 9 then Inr (TopicOp (Op_deleteTopic demo_input))
       else Inl (400, ''unsupported'', [])),
     huma_Write = (\<lambda>r status v w. write_body v (WriteHeader status w)),
     huma_Other = (\<lambda>r. on_writer (WriteHeader 404))\<rparr>"

definition demo_functions :: "(world, Ctx) Backend" where
  "demo_functions = \<lparr>be_svc = world_service Background demo_policy, be_ms = world_message demo_policy demo_bounds,
     be_pages = \<lparr>PageBounds_Default = 10, PageBounds_Ceiling = 100\<rparr>,
     be_groupPages = \<lparr>GroupPageBounds_Default = 10, GroupPageBounds_Ceiling = 100\<rparr>, be_fuel = 3,
     be_compile = (\<lambda>s. Inl s), be_compileMatch = (\<lambda>s. Inl s), be_late = (\<lambda>r n. False), be_jsonpath = (\<lambda>s. Inl s),
     be_unmarshalValue = (\<lambda>s. None), be_unmarshalItem = (\<lambda>s. Inl s), be_unmarshalItems = (\<lambda>s. Inl s),
     be_mediaType = (\<lambda>s. None), be_sleep = world_sleep, be_timeNow = world_timeNow,
     be_probe = DescribeCluster (world_admin Background), be_auditStatus = ret (''stdout'', True)\<rparr>"

definition front_deps :: "string \<Rightarrow> (world \<times> bool) Deps" where
  "front_deps tier = \<lparr>dep_Auditor = Some (lift_auditor [world_sink]), dep_Keys = [demo_key\<lparr>Key_Tier := tier\<rparr>],
     dep_AuthEnabled = True, dep_CORSOrigins = [], dep_TrustedProxies = []\<rparr>"

definition no_telemetry :: "string \<Rightarrow> ((world \<times> bool) \<times> Writer, unit) eff" where
  "no_telemetry i = ret ()"

lemma demo_http: "http_contract id no_telemetry demo_huma"
  by (auto simp: http_contract_def demo_huma_def no_telemetry_def quiet_ret intro!: quiet_on_writer split: if_splits)

abbreviation demo_gateway :: "string \<Rightarrow> Policy \<Rightarrow> (world \<times> bool) handler" where
  "demo_gateway tier pol \<equiv> gateway lifted_env (front_deps tier) id no_telemetry demo_huma
     (world_backend pol demo_bounds (''stdout'', True) demo_functions)"

section \<open>Requests that change nothing\<close>

text \<open>An operation is harmless for a request whose caller the gate rejects, or that only reads.\<close>

lemma quiet_gateway_mux:
  assumes http: "http_contract otel annotate h"
    and harmless: "\<And>x. mux_Handler r = Some (route_of x) \<Longrightarrow>
      Op_Method (route_of x) = ''GET'' \<or> Check (caller_of r) (desc_of (op_command (route_of x))) pol \<noteq> None
      \<or> Desc_Access (desc_of (op_command (route_of x))) = R"
  shows "quiet seen (gateway_mux h (world_backend pol b status fs) r)"
proof -
  have "quiet seen (huma_Other h r)" using http by (simp add: http_contract_def)
  moreover have "quiet (cluster \<circ> fst) (hang (serve (world_backend pol b status fs r) r x))"
    if "huma_Bind h rt r = Inr x" "mux_Handler r = Some rt" for rt x
  proof (rule quiet_hang, rule world_backend.quiet_serve)
    from http that have "route_of x = rt" by (simp add: http_contract_def)
    with that harmless [of x]
    show "harmless (svc_runner (be_svc (world_backend pol b status fs r))) r (route_of x) (dryRun_of x)"
      by (auto simp: harmless_def world_backend_def)
  qed
  ultimately show ?thesis
    unfolding gateway_mux_def by (auto split: option.split sum.split intro!: quiet_intros)
qed

text \<open>The middleware itself changes nothing; what it passes on carries the caller of the API key.\<close>

definition admitted :: "'s Deps \<Rightarrow> Request \<Rightarrow> Caller \<Rightarrow> bool" where
  "admitted deps r c \<longleftrightarrow> req_Method r \<noteq> ''OPTIONS''
     \<and> (if dep_AuthEnabled deps
        then \<exists>k. matchKey (header_Get (req_Header r) HeaderAPIKey) (dep_Keys deps) = Some k \<and> Caller_Tier c = Key_Tier k
        else Caller_Tier c = TierOperator)"

lemma lifted_env_quiet:
  "(cluster \<circ> fst) (snd (env_NewEventID lifted_env s)) = (cluster \<circ> fst) s"
  "(cluster \<circ> fst) (snd (env_timeNow lifted_env s)) = (cluster \<circ> fst) s"
  "quiet (cluster \<circ> fst) (env_randRead lifted_env n)"
proof -
  show "quiet (cluster \<circ> fst) (env_randRead lifted_env n)"
    by (simp add: lifted_env_def) (intro quiet_lift_eff, simp add: quiet_def world_randRead_def cluster_def)
qed (simp_all add: lifted_env_def lift_clock_def split: prod.split, (metis clocks_quiet snd_conv)+)

lemma quiet_lifted_Result: "quiet (cluster \<circ> fst) (Result (lift_auditor [world_sink]) ev)"
  by (rule audit_sinks.quiet_Result [OF audit_sinks_lifted [OF world_log.audit_sinks_axioms]])

lemma quiet_rejection_audit:
  "quiet (cluster \<circ> fst) (auditUnauthenticatedRejection lifted_env r look (Some (lift_auditor [world_sink])) bg)"
  unfolding auditUnauthenticatedRejection_def
  by (auto split: option.split intro!: quiet_intros lifted_env_quiet quiet_lifted_Result)

lemma quiet_CORS:
  "(req_Method r \<noteq> ''OPTIONS'' \<Longrightarrow> quiet seen (next r)) \<Longrightarrow> quiet seen (CORS origins auth next r)"
  unfolding CORS_def Let_def
  by (auto intro!: quiet_if quiet_onOk quiet_on_writer)

lemma quiet_chain:
  assumes http: "http_contract otel annotate h" and aud: "dep_Auditor deps = Some (lift_auditor [world_sink])"
    and mux: "\<And>i ip c. admitted deps r c \<Longrightarrow> quiet seen (mux (withCaller c (withClientIP ip (SetRequestID i r))))"
  shows "quiet seen (api_New lifted_env deps look otel annotate mux r)"
proof -
  let ?inner = "CORS (dep_CORSOrigins deps) (dep_AuthEnabled deps) (HTTPMiddleware otel annotate RequestIDFrom mux)"
  have telemetry: "quiet seen (HTTPMiddleware otel annotate RequestIDFrom mux r')" if "quiet seen (mux r')" for r'
  proof -
    have "quiet seen (onOk (if RequestIDFrom r' \<noteq> [] then annotate (RequestIDFrom r') else ret ()) (\<lambda>_. mux r'))"
      using that http by (auto simp: http_contract_def intro!: quiet_onOk quiet_if quiet_ret)
    with http show ?thesis by (simp add: HTTPMiddleware_def http_contract_def)
  qed
  have inner: "quiet seen (?inner (withCaller c (withClientIP ip (SetRequestID i r))))"
    if "req_Method r = ''OPTIONS'' \<or> admitted deps r c" for c ip i
    using that by (intro quiet_CORS telemetry mux) auto
  have preflight: "quiet seen (?inner (withClientIP ip (SetRequestID i r)))" if "req_Method r = ''OPTIONS''" for ip i
    using that by (intro quiet_CORS) simp
  have key: "quiet seen (APIKey lifted_env (dep_Keys deps) (dep_AuthEnabled deps) (Some look)
      (dep_Auditor deps) ?inner (withClientIP ip (SetRequestID i r)))" for ip i
  proof (cases "req_Method r = ''OPTIONS''")
    case True
    with preflight show ?thesis by (simp add: APIKey_def)
  next
    case False
    have keyed: "quiet seen (?inner (withCaller (request_caller kid tier bg q) q))"
      if "admitted deps r (request_caller kid tier bg q)" "q = withClientIP ip (SetRequestID i r)" for kid tier bg q
      using inner that by blast
    from False show ?thesis
      unfolding APIKey_def Let_def aud
      by (cases "matchKey (header_Get (req_Header r) HeaderAPIKey) (dep_Keys deps)")
        (simp_all only: header_fields if_False option.simps, (intro quiet_if quiet_onOk quiet_on_state
          quiet_rejection_audit quiet_on_writer keyed refl; simp add: admitted_def request_caller_def)+)
  qed
  have entropy: "quiet (cluster \<circ> fst) (randomRequestID (env_randRead lifted_env))"
    unfolding randomRequestID_def by (intro quiet_intros lifted_env_quiet)
  show ?thesis
    unfolding api_New_def RequestID_def ClientIP_def Let_def
    by (intro quiet_onOk quiet_on_writer key quiet_if quiet_on_state entropy quiet_ret)
qed

text \<open>
  C1. Read-only mode holds at the front door: with it on, no request whatever - any method, path, header, body
  or key, authenticated or not, with or without a break-glass reason - changes the cluster or makes it receive
  a mutating call.
\<close>

theorem read_only_gateway_changes_nothing:
  assumes "Policy_ReadOnly pol" "http_contract otel annotate h" "dep_Auditor deps = Some (lift_auditor [world_sink])"
    and "gateway lifted_env deps otel annotate h (world_backend pol b status fs) r ((w, hung), resp) = (out, ((w', hung'), resp'))"
  shows "cluster w' = cluster w"
proof -
  have "quiet seen (gateway lifted_env deps otel annotate h (world_backend pol b status fs) r)"
    unfolding gateway_def
    by (intro quiet_chain [OF assms(2,3)] quiet_gateway_mux [OF assms(2)])
      (use assms(1) Access.exhaust in \<open>auto simp: Check_def\<close>)
  from quietD [OF this assms(4)] show ?thesis by simp
qed

theorem read_only_gateway_changes_nothing_witness:
  "cluster (fst (fst (snd (demo_gateway TierOperator (demo_policy\<lparr>Policy_ReadOnly := True\<rparr>)
      (demo_request ''DELETE'' [(HeaderAPIKey, [''demo''])]) ((demo_world, False), fresh_writer))))) = cluster demo_world"
proof -
  obtain out w hung resp where run: "demo_gateway TierOperator (demo_policy\<lparr>Policy_ReadOnly := True\<rparr>)
      (demo_request ''DELETE'' [(HeaderAPIKey, [''demo''])]) ((demo_world, False), fresh_writer) = (out, ((w, hung), resp))"
    by (metis prod.collapse)
  from read_only_gateway_changes_nothing [OF _ demo_http _ run] have "cluster w = cluster demo_world"
    by (simp add: front_deps_def)
  with run show ?thesis by simp
qed

text \<open>
  C4. A reader stays a reader: with authentication on, a request with a key of any tier but operator never
  changes the cluster, whatever it asks for and whatever else it claims.
\<close>

theorem reader_requests_change_nothing:
  assumes "dep_AuthEnabled deps" "matchKey (header_Get (req_Header r) HeaderAPIKey) (dep_Keys deps) = Some k"
    and "Key_Tier k \<noteq> TierOperator" "http_contract otel annotate h"
    and "dep_Auditor deps = Some (lift_auditor [world_sink])"
    and "gateway lifted_env deps otel annotate h (world_backend pol b status fs) r ((w, hung), resp) = (out, ((w', hung'), resp'))"
  shows "cluster w' = cluster w"
proof -
  have "quiet seen (gateway lifted_env deps otel annotate h (world_backend pol b status fs) r)"
    unfolding gateway_def
  proof (intro quiet_chain [OF assms(4,5)] quiet_gateway_mux [OF assms(4)])
    fix i ip c x
    assume "admitted deps r c"
    with assms(1-3) have "Caller_Tier c \<noteq> TierOperator" by (auto simp: admitted_def)
    then show "Op_Method (route_of x) = ''GET''
        \<or> Check (caller_of (withCaller c (withClientIP ip (SetRequestID i r)))) (desc_of (op_command (route_of x))) pol \<noteq> None
        \<or> Desc_Access (desc_of (op_command (route_of x))) = R"
      by (cases "Desc_Access (desc_of (op_command (route_of x)))")
        (auto simp: Check_def caller_of_def CallerFrom_def withCaller_def)
  qed
  from quietD [OF this assms(6)] show ?thesis by simp
qed

theorem reader_requests_change_nothing_witness:
  "cluster (fst (fst (snd (demo_gateway TierReader demo_policy
      (demo_request ''DELETE'' [(HeaderAPIKey, [''demo''])]) ((demo_world, False), fresh_writer))))) = cluster demo_world"
proof -
  obtain out w hung resp where run: "demo_gateway TierReader demo_policy
      (demo_request ''DELETE'' [(HeaderAPIKey, [''demo''])]) ((demo_world, False), fresh_writer) = (out, ((w, hung), resp))"
    by (metis prod.collapse)
  have "header_Get (req_Header (demo_request ''DELETE'' [(HeaderAPIKey, [''demo''])])) HeaderAPIKey = ''demo''"
    by (simp add: demo_request_def header_Get_def mget_def HeaderAPIKey_def)
  then have key: "matchKey (header_Get (req_Header (demo_request ''DELETE'' [(HeaderAPIKey, [''demo''])])) HeaderAPIKey)
      (dep_Keys (front_deps TierReader)) = Some (demo_key\<lparr>Key_Tier := TierReader\<rparr>)"
    by (simp add: front_deps_def matchKey_def demo_key_def)
  have "cluster w = cluster demo_world"
    by (rule reader_requests_change_nothing [OF _ key _ demo_http _ run])
      (simp_all add: front_deps_def TierReader_def TierOperator_def)
  with run show ?thesis by simp
qed

text \<open>
  C5. The read methods are safe: a GET or HEAD request changes nothing in the cluster, by whatever caller and
  under whatever policy.
\<close>

theorem read_methods_change_nothing:
  assumes "req_Method r \<in> {''GET'', ''HEAD''}" "http_contract otel annotate h"
    and "dep_Auditor deps = Some (lift_auditor [world_sink])"
    and "gateway lifted_env deps otel annotate h (world_backend pol b status fs) r ((w, hung), resp) = (out, ((w', hung'), resp'))"
  shows "cluster w' = cluster w"
proof -
  have "quiet seen (gateway lifted_env deps otel annotate h (world_backend pol b status fs) r)"
    unfolding gateway_def
  proof (intro quiet_chain [OF assms(2,3)] quiet_gateway_mux [OF assms(2)])
    fix i ip c x
    let ?r = "withCaller c (withClientIP ip (SetRequestID i r))"
    assume "mux_Handler ?r = Some (route_of x)"
    then have "route_matches ?r (route_of x)" by (simp only: mux_Handler_Some)
    with assms(1) methods_registered show "Op_Method (route_of x) = ''GET''
        \<or> Check (caller_of ?r) (desc_of (op_command (route_of x))) pol \<noteq> None
        \<or> Desc_Access (desc_of (op_command (route_of x))) = R"
      using \<open>mux_Handler ?r = Some (route_of x)\<close> mux_Handler_Some [of ?r "route_of x"]
      by (auto simp: route_matches_def method_matches_def list_all_iff)
  qed
  from quietD [OF this assms(4)] show ?thesis by simp
qed

theorem read_methods_change_nothing_witness:
  "cluster (fst (fst (snd (demo_gateway TierOperator demo_policy
      (demo_request ''GET'' [(HeaderAPIKey, [''demo''])]) ((demo_world, False), fresh_writer))))) = cluster demo_world"
proof -
  obtain out w hung resp where run: "demo_gateway TierOperator demo_policy
      (demo_request ''GET'' [(HeaderAPIKey, [''demo''])]) ((demo_world, False), fresh_writer) = (out, ((w, hung), resp))"
    by (metis prod.collapse)
  have "cluster w = cluster demo_world"
    by (rule read_methods_change_nothing [OF _ demo_http _ run]) (simp_all add: front_deps_def demo_request_def)
  with run show ?thesis by simp
qed

end
