(* ===== verification/FranzProps.thy ===== *)
theory FranzProps
  imports FranzKadm Telemetry GatewayProps
begin

text \<open>
  The gateway over a real cluster: the services with the franz-go adapter in the place of the in-memory one.
  What holds whatever the library answers (errors on the wire, secrets, the guard of an offset commit, the
  partitioner), and what holds for a library whose reading calls only read.
\<close>

section \<open>The production wiring\<close>

text \<open>
  The services over the adapter, as \<open>newHandler\<close> and \<open>api.New\<close> wire them: the traced client is the admin
  port of every service, the producer of the message service and the probe of the health checks. \<open>k\<close>, \<open>kp\<close>
  and \<open>kc\<close> are the library's clients under a context; \<open>fs\<close> is everything that is not Kafka's.
\<close>

definition kafka_backend ::
  "('s, 'c, 'span) Tracer \<Rightarrow> ('c \<Rightarrow> 's Kadm) \<Rightarrow> ('c \<Rightarrow> 's KgoProducer) \<Rightarrow> ('c \<Rightarrow> 's KgoConsumer) \<Rightarrow> 'c
   \<Rightarrow> ('s, 'c) Backend \<Rightarrow> ('s, 'c) Backend" where
  "kafka_backend tr k kp kc ctx fs =
    (let adm = NewTracedAdmin tr (\<lambda>c. franz_admin (k c)) ctx;
         producer = NewTracedProducer (\<lambda>c. franz_producer (kp c)) ctx; ms = be_ms fs in
     fs\<lparr>be_svc := (be_svc fs)\<lparr>svc_admin := adm\<rparr>,
        be_ms := ms\<lparr>ms_svc := (ms_svc ms)\<lparr>svc_admin := adm\<rparr>, ms_producer := producer,
          ms_scan := (ms_scan ms)\<lparr>env_consumer := (\<lambda>c. franz_consumer (kc c))\<rparr>\<rparr>,
        be_probe := DescribeCluster adm\<rparr>)"

text \<open>What the adapter's consumer relies on: a consumer client without a group only reads.\<close>

locale kgo_reads =
  fixes kc :: "'s KgoConsumer" and view :: "'s \<Rightarrow> 'v"
  assumes assign_only: "view (kgo_AddConsumePartitions kc ps s) = view s"
    and poll_only: "quiet_call view (kgo_PollFetches kc)"
    and close_only: "view (kgo_CloseConsumer kc s) = view s"
begin

lemma quiet_consumer:
  "quiet view (Assign (franz_consumer kc) t ps offs)" "quiet view (Poll (franz_consumer kc))"
  "quiet view (Close (franz_consumer kc))"
  by (auto simp: franz_consumer_def franz_Assign_def franz_Poll_def assign_only close_only
      intro!: quiet_intros poll_only)

end

lemma kafka_backend_contract:
  assumes "backend fs view" "\<And>c. kadm_reads (k c) view" "\<And>c. kgo_reads (kc c) view" "tracing tr view"
  shows "backend (kafka_backend tr k kp kc ctx fs) view"
proof (intro backend.intro message_env.intro service_env.intro)
  note contract = assms(1) [unfolded backend_def message_env_def service_env_def]
  let ?be = "kafka_backend tr k kp kc ctx fs"
  have reads: "admin_reads (NewTracedAdmin tr (\<lambda>c. franz_admin (k c)) ctx) view"
    by (rule tracing.traced_reads [OF assms(4)]) (rule kadm_reads.adapter_reads [OF assms(2)])
  then show "admin_reads (svc_admin (be_svc ?be)) view" "admin_reads (svc_admin (ms_svc (be_ms ?be))) view"
    by (simp_all add: kafka_backend_def Let_def)
  show "audit_sinks (svc_auditor (be_svc ?be)) view" "audit_sinks (svc_auditor (ms_svc (be_ms ?be))) view"
    "service_env_axioms (be_svc ?be) view" "service_env_axioms (ms_svc (be_ms ?be)) view"
    using contract by (simp_all add: kafka_backend_def Let_def service_env_axioms_def)
  show "message_env_axioms (be_ms ?be) view"
    using contract kgo_reads.quiet_consumer [OF assms(3)]
    by (simp add: kafka_backend_def Let_def message_env_axioms_def)
  show "backend_axioms ?be view"
    using contract admin_reads.read_DescribeCluster [OF reads]
    by (simp add: kafka_backend_def Let_def backend_axioms_def)
qed

text \<open>
  C10. A harmless request changes nothing in a real cluster. Let the libraries' reading calls only read, and let
  the audit sinks, the clocks and the spans leave the cluster alone: then no operation registered under GET, no
  dry run and no command the gate rejects changes what is observed of the cluster, over the adapter with its
  tracing decorators as over the in-memory cluster.
\<close>

theorem harmless_over_kafka:
  assumes "backend fs view" "\<And>c. kadm_reads (k c) view" "\<And>c. kgo_reads (kc c) view" "tracing tr view"
    and "harmless (svc_runner (be_svc fs)) r (route_of x) (dryRun_of x)"
  shows "quiet_run view (serve (kafka_backend tr k kp kc ctx fs) r x)"
proof (rule backend.quiet_serve)
  show "backend (kafka_backend tr k kp kc ctx fs) view" by (rule kafka_backend_contract [OF assms(1-4)])
  show "harmless (svc_runner (be_svc (kafka_backend tr k kp kc ctx fs))) r (route_of x) (dryRun_of x)"
    using assms(5) by (simp add: kafka_backend_def Let_def)
qed

text \<open>The libraries over the in-memory cluster, and a tracer that keeps no spans.\<close>

definition to_library_record :: "Record \<Rightarrow> kgo_Record" where
  "to_library_record r = \<lparr>kr_Topic = Record_Topic r, kr_Partition = Record_Partition r, kr_Offset = Record_Offset r,
     kr_Timestamp = Record_Timestamp r, kr_Key = Record_Key r, kr_Value = Record_Value r,
     kr_Headers = map (\<lambda>h. (Header_Key h, Header_Value h)) (Record_Headers r)\<rparr>"

definition kgo_of :: "'s Consumer \<Rightarrow> 's KgoConsumer" where
  "kgo_of c = \<lparr>
     kgo_AddConsumePartitions = fold (\<lambda>(t, m) s. snd (Assign c t (mkeys m) m s)),
     kgo_PollFetches = answering (Poll c) (map to_library_record),
     kgo_CloseConsumer = (\<lambda>s. snd (Close c s))\<rparr>"

definition no_spans :: "('s, Ctx, unit) Tracer" where
  "no_spans = \<lparr>startSpan = (\<lambda>c n s. ((c, ()), s)), span_RecordError = (\<lambda>_ _ s. s),
     span_SetStatusError = (\<lambda>_ _ s. s), span_End = (\<lambda>_ s. s)\<rparr>"

interpretation no_spans: tracing no_spans view
  by unfold_locales (simp_all add: no_spans_def)

lemma kgo_reads_of:
  assumes "\<And>t ps offs. quiet view (Assign c t ps offs)" "quiet view (Poll c)" "quiet view (Close c)"
  shows "kgo_reads (kgo_of c) view"
proof
  fix ps and s
  show "view (kgo_AddConsumePartitions (kgo_of c) ps s) = view s"
    using assms(1) by (induction ps arbitrary: s) (auto simp: kgo_of_def quiet_def split: prod.split)
  show "quiet_call view (kgo_PollFetches (kgo_of c))" using assms(2) by (simp add: kgo_of_def quiet_answering)
  show "view (kgo_CloseConsumer (kgo_of c) s) = view s" using assms(3) by (simp add: kgo_of_def quiet_def)
qed

abbreviation demo_library :: "Ctx \<Rightarrow> world Kadm" where
  "demo_library \<equiv> \<lambda>ctx. kadm_of (world_admin ctx) world_timeNow"

abbreviation demo_consumers :: "Ctx \<Rightarrow> world KgoConsumer" where
  "demo_consumers \<equiv> \<lambda>ctx. kgo_of (env_consumer world_scan_env ctx)"

lemma demo_consumers_read: "kgo_reads (demo_consumers c) cluster"
  using message_env.assign_quiet [OF backend.axioms(2) [OF world_backend.backend_axioms]]
    message_env.poll_quiet [OF backend.axioms(2) [OF world_backend.backend_axioms]]
    message_env.close_quiet [OF backend.axioms(2) [OF world_backend.backend_axioms]]
  by (intro kgo_reads_of) (auto simp: world_backend_def)

theorem harmless_over_kafka_witness:
  "\<forall>kp r. quiet_run cluster (serve (kafka_backend no_spans demo_library kp demo_consumers Background
      (world_backend demo_policy demo_bounds (''stdout'', True) demo_functions r)) r
      (TopicOp (Op_deleteTopic (demo_input\<lparr>DeleteTopicInput_DryRun := True\<rparr>))))"
  by (intro allI, rule harmless_over_kafka [OF world_backend.backend_axioms cluster_kadm.kadm_reads_axioms
        demo_consumers_read no_spans.tracing_axioms])
    (simp add: harmless_def)

section \<open>Errors on the wire\<close>

text \<open>The status a client sees for a broker's error code.\<close>

definition broker_status :: "int16 \<Rightarrow> int" where
  "broker_status code =
    (if code \<in> {UnknownTopicOrPartition, GroupIDNotFound, ResourceNotFound} then 404
     else if code \<in> {TopicAlreadyExists, NonEmptyGroup} then 409 else 502)"

lemmas protocol_codes = UnknownTopicOrPartition_def UnsupportedVersion_def TopicAlreadyExists_def NonEmptyGroup_def
  GroupIDNotFound_def ResourceNotFound_def

lemma broker_status_kind: "hm_Status (the (kindMapping (fst (classify code)))) = broker_status code"
  by (simp add: classify_def broker_status_def protocol_codes kindMapping_def kindTable_def mapping_def)

lemma classified: "\<exists>m. kindMapping (fst (classify code)) = Some m \<and> hm_Status m = broker_status code"
  using broker_status_kind [of code] kindMapping_total [of "fst (classify code)"] by auto

text \<open>
  C11. An error of the library on the wire: a broker's error keeps its code and its name, its resource is the one
  of the call or else the one its code speaks of, and its status is the one of its code; a deadline is 504, a
  network failure 503, anything else 502 - never 500. The broker's code 60, a reassignment in progress, is
  excluded: the error taxonomy gives it 409, and the adapter does not classify it
  (\<open>never_reassignment_in_progress\<close>).
\<close>

theorem library_error_on_the_wire:
  assumes "\<And>name. le_kerr err \<noteq> Some (60, name)"
  shows "let env = Map (wrap_error resource err) rid in
   (case le_kerr err of
      Some (code, name) \<Rightarrow> GetStatus env = broker_status code
        \<and> Body_KafkaError (ErrorBody env) = (if name = [] then None else Some \<lparr>kei_Code = code, kei_Name = name\<rparr>)
        \<and> Body_Details (ErrorBody env) = (let res = (if resource \<noteq> [] then resource else snd (classify code)) in
            if res = [] then [] else [(''resource'', AStr res)])
    | None \<Rightarrow> GetStatus env = (if le_deadline err then 504 else if le_net err then 503 else 502)
        \<and> Body_KafkaError (ErrorBody env) = None)"
proof (cases "le_kerr err")
  case None
  then show ?thesis
    by (auto simp: Let_def wrap_error_def adapter_error_def Map_def kindMapping_def kindTable_def mapping_def
        envelope_def GetStatus_def)
next
  case (Some broker)
  obtain code name where broker: "broker = (code, name)" by (cases broker)
  obtain m where "kindMapping (fst (classify code)) = Some m" "hm_Status m = broker_status code"
    using classified by blast
  with Some broker show ?thesis
    by (cases "classify code") (simp add: Let_def wrap_error_def Map_def envelope_def GetStatus_def)
qed

theorem library_error_on_the_wire_witness:
  "GetStatus (Map (wrap_error ''topic'' \<lparr>le_kerr = Some (3, ''UNKNOWN_TOPIC_OR_PARTITION''), le_deadline = False,
     le_net = False, le_error = kafkaErr KindNotFound ''topic''\<rparr>) ''r1'') = 404"
  using library_error_on_the_wire [of "\<lparr>le_kerr = Some (3, ''UNKNOWN_TOPIC_OR_PARTITION''), le_deadline = False,
     le_net = False, le_error = kafkaErr KindNotFound ''topic''\<rparr>" "''topic''" "''r1''"]
  by (simp add: Let_def broker_status_def protocol_codes)

text \<open>No error of the library becomes the kind of a reassignment in progress, code 60 included.\<close>

lemma never_reassignment_in_progress: "KindOf (wrap_error resource err) \<noteq> Some KindReassignmentInProgress"
  by (auto simp: wrap_error_def adapter_error_def classify_def KindOf_def split: option.split)

section \<open>Secrets\<close>


lemma never_read_only: "c \<in> set (toConfigEntries cs) \<Longrightarrow> \<not> ConfigEntry_IsReadOnly c"
  by (auto simp: toConfigEntries_def)











end
