(* ===== verification/FranzClientProps.thy ===== *)
theory FranzClientProps
  imports FranzKadm Telemetry
begin

text \<open>
  The adapter's connections and partitioner, and its guards.
\<close>

section \<open>Connections\<close>

definition sasl_of :: "SASLSettings \<Rightarrow> sasl_mech \<Rightarrow> bool" where
  "sasl_of c m \<longleftrightarrow> (case m of
     PlainAuth u p \<Rightarrow> sasl_mechanism c = ''PLAIN'' \<and> (u, p) = (sasl_user c, sasl_secret c)
   | ScramSha256Auth u p \<Rightarrow> sasl_mechanism c = ''SCRAM-SHA-256'' \<and> (u, p) = (sasl_user c, sasl_secret c)
   | ScramSha512Auth u p \<Rightarrow> sasl_mechanism c = ''SCRAM-SHA-512'' \<and> (u, p) = (sasl_user c, sasl_secret c)
   | OAuthToken t \<Rightarrow> sasl_mechanism c = ''OAUTHBEARER'' \<and> t = sasl_secret c)"

text \<open>The TLS settings that a configuration asks for: the authorities and the key pair of its files, no others.\<close>

definition tls_of :: "('pool, 'cert) Files \<Rightarrow> TLSSettings \<Rightarrow> ('pool, 'cert) tls_Config \<Rightarrow> bool" where
  "tls_of fs c t \<longleftrightarrow> tls_on c \<and> tlsc_MinVersion t = VersionTLS12
     \<and> (if tls_CA c = [] then tlsc_RootCAs t = None
        else \<exists>pem pool. fs_ReadFile fs (tls_CA c) = Inr pem \<and> fs_AppendCertsFromPEM fs pem = Some pool
           \<and> tlsc_RootCAs t = Some pool)
     \<and> (if tls_Cert c = [] then tlsc_Certificates t = []
        else \<exists>pair. fs_LoadX509KeyPair fs (tls_Cert c) (tls_Key c) = Inr pair \<and> tlsc_Certificates t = [pair])"

definition secured :: "('pool, 'cert) Files \<Rightarrow> FranzConfig \<Rightarrow> ('pool, 'cert) kgo_Opt list \<Rightarrow> bool" where
  "secured fs c opts \<longleftrightarrow>
     (\<forall>t. DialTLSConfig t \<in> set opts \<longrightarrow> tls_of fs (FC_TLS c) t) \<and> (tls_on (FC_TLS c) \<longrightarrow> (\<exists>t. DialTLSConfig t \<in> set opts))
   \<and> (\<forall>m. SASLOpt m \<in> set opts \<longrightarrow> sasl_of (FC_SASL c) m)
   \<and> (sasl_mechanism (FC_SASL c) \<noteq> [] \<longrightarrow> (\<exists>m. SASLOpt m \<in> set opts))"

lemma loadCAPool_files:
  "loadCAPool fs path = Inr pool \<longleftrightarrow> (\<exists>pem. fs_ReadFile fs path = Inr pem \<and> fs_AppendCertsFromPEM fs pem = Some pool)"
  by (auto simp: loadCAPool_def split: sum.split option.split)

lemma map_sum_Inr: "map_sum w f r = Inr y \<longleftrightarrow> (\<exists>x. r = Inr x \<and> y = f x)"
  by (cases r) auto

lemma tlsOpt_on:
  assumes "tlsOpt fs c = Inr t"
  shows "if tls_on c then \<exists>x. t = Some (DialTLSConfig x) \<and> tls_of fs c x else t = None"
  using assms
  by (auto simp: tlsOpt_def tls_of_def map_sum_Inr loadCAPool_files split: sum.splits if_splits)

lemma saslOpt_on:
  "saslOpt c = Inr s \<Longrightarrow> if sasl_mechanism c = [] then s = None else \<exists>m. s = Some (SASLOpt m) \<and> sasl_of c m"
  by (auto simp: saslOpt_def Let_def sasl_of_def split: if_splits)

text \<open>The options given beforehand that are neither TLS nor SASL ones.\<close>

definition plain_opts :: "('pool, 'cert) kgo_Opt list \<Rightarrow> bool" where
  "plain_opts opts \<longleftrightarrow> (\<forall>t. DialTLSConfig t \<notin> set opts) \<and> (\<forall>m. SASLOpt m \<notin> set opts)"

definition one_opt :: "'o option \<Rightarrow> 'o list" where
  "one_opt x = (case x of None \<Rightarrow> [] | Some y \<Rightarrow> [y])"

lemma set_one_opt [simp]: "set (one_opt x) = set_option x"
  by (cases x) (simp_all add: one_opt_def)

lemma with_connection_opts:
  assumes "with_connection fs c opts = Inr opts'"
  shows "\<exists>t x pre. tlsOpt fs (FC_TLS c) = Inr t \<and> saslOpt (FC_SASL c) = Inr x
    \<and> plain_opts pre \<and> opts' = opts @ pre @ one_opt t @ one_opt x"
proof (cases "tlsOpt fs (FC_TLS c)")
  case (Inr t)
  have "plain_opts []" "plain_opts [RequestTimeoutOverhead (FC_RequestTimeout c)]" by (simp_all add: plain_opts_def)
  with Inr assms show ?thesis
    by (cases "FC_RequestTimeout c > 0") (fastforce simp: with_connection_def Let_def one_opt_def split: sum.splits)+
qed (use assms in \<open>simp add: with_connection_def Let_def\<close>)

lemma with_connection_secured:
  assumes "with_connection fs c opts = Inr opts'" "plain_opts opts"
  shows "secured fs c opts' \<and> set opts \<subseteq> set opts'"
proof -
  from with_connection_opts [OF assms(1)] obtain t x pre where t: "tlsOpt fs (FC_TLS c) = Inr t"
    and x: "saslOpt (FC_SASL c) = Inr x" and pre: "plain_opts pre" and opts': "opts' = opts @ pre @ one_opt t @ one_opt x" by blast
  have "\<not> (\<exists>m. t = Some (SASLOpt m))" "\<not> (\<exists>y. x = Some (DialTLSConfig y))"
    using tlsOpt_on [OF t] saslOpt_on [OF x] by (auto split: if_splits)
  with tlsOpt_on [OF t] saslOpt_on [OF x] assms(2) pre show ?thesis
    by (auto simp: secured_def opts' plain_opts_def split: if_splits)
qed

text \<open>
  C13. The connections are secured as configured: when a client or a consumer exists, it was given the configured
  brokers; TLS exactly if it is on, of version 1.2 at least, with the authorities read from the configured file and
  the key pair loaded from the configured ones and no others; the configured SASL mechanism with its credentials,
  exactly if there is one; and the consumer reads uncommitted records only if told to. A file that cannot be read
  or a mechanism that is unknown gives no client at all.
\<close>

theorem connections_as_configured:
  "(case franz_New fs newClient c of Inl err \<Rightarrow> True | Inr client \<Rightarrow>
      \<exists>opts. newClient opts = Inr client \<and> secured fs c opts \<and> SeedBrokers (FC_Bootstrap c) \<in> set opts)
   \<and> (case franz_NewConsumer fs newClient c level of Inl err \<Rightarrow> True | Inr consumer \<Rightarrow>
      \<exists>opts. newClient opts = Inr consumer \<and> secured fs c opts \<and> SeedBrokers (FC_Bootstrap c) \<in> set opts
        \<and> FetchIsolationLevel (if level = ''read_uncommitted'' then ReadUncommitted else ReadCommitted) \<in> set opts)"
proof -
  have "plain_opts [SeedBrokers (FC_Bootstrap c), WithKotelHooks, RequiredAcksAllISR, ExplicitOrDefaultPartitioner]"
    "plain_opts [SeedBrokers (FC_Bootstrap c), WithKotelHooks, FetchIsolationLevel (isolationLevelOpt level)]"
    by (simp_all add: plain_opts_def)
  note con = this [THEN with_connection_secured [rotated, of _ fs c]]
  have "franz_New fs newClient c = Inr client \<Longrightarrow>
      \<exists>opts. newClient opts = Inr client \<and> secured fs c opts \<and> SeedBrokers (FC_Bootstrap c) \<in> set opts" for client
    by (auto simp: franz_New_def split: sum.splits dest!: con(1))
  moreover have "franz_NewConsumer fs newClient c level = Inr consumer \<Longrightarrow>
      \<exists>opts. newClient opts = Inr consumer \<and> secured fs c opts \<and> SeedBrokers (FC_Bootstrap c) \<in> set opts
        \<and> FetchIsolationLevel (isolationLevelOpt level) \<in> set opts" for consumer
    by (auto simp: franz_NewConsumer_def split: sum.splits dest!: con(2))
  ultimately show ?thesis
    unfolding isolationLevelOpt_def by (auto split: sum.split)
qed

text \<open>A configuration with TLS and SCRAM: what the client is given, and no client for an unreadable file.\<close>

definition demo_files :: "(string, string) Files" where
  "demo_files = \<lparr>fs_ReadFile = (\<lambda>path. if path = ''ca.pem'' then Inr ''PEM'' else Inl (PlainError (''open '' @ path))),
     fs_AppendCertsFromPEM = (\<lambda>pem. Some pem), fs_LoadX509KeyPair = (\<lambda>cert key. Inl (PlainError ''no key pair''))\<rparr>"

definition demo_connection :: "string \<Rightarrow> FranzConfig" where
  "demo_connection ca = \<lparr>FC_Bootstrap = [''kafka:9093''], FC_RequestTimeout = 5000000000,
     FC_TLS = \<lparr>tls_on = True, tls_CA = ca, tls_Cert = [], tls_Key = []\<rparr>,
     FC_SASL = \<lparr>sasl_mechanism = ''SCRAM-SHA-512'', sasl_user = ''gw'', sasl_secret = ''pw''\<rparr>\<rparr>"

theorem connections_as_configured_witness:
  "(\<exists>opts. franz_New demo_files Inr (demo_connection ''ca.pem'') = Inr opts \<and> secured demo_files (demo_connection ''ca.pem'') opts)
   \<and> (\<exists>err. franz_New demo_files Inr (demo_connection ''other.pem'') = Inl err)"
proof -
  have "\<exists>opts. franz_New demo_files Inr (demo_connection ''ca.pem'') = Inr opts"
    "\<exists>err. franz_New demo_files Inr (demo_connection ''other.pem'') = Inl err"
    by (simp_all add: franz_New_def with_connection_def tlsOpt_def saslOpt_def loadCAPool_def demo_files_def demo_connection_def)
  then show ?thesis
    using connections_as_configured
      [where fs = demo_files and newClient = Inr and c = "demo_connection ''ca.pem''" and level = "[]"] by auto
qed

section \<open>The partitioner\<close>

lemma go_rem_pos: "0 \<le> a \<Longrightarrow> 0 < b \<Longrightarrow> go_rem a b = a mod b"
  by (cases "a = 0") (simp_all add: go_rem_def go_div_def minus_mult_div_eq_mod)

abbreviation unassigned :: "kgo_Record \<Rightarrow> bool" where
  "unassigned r \<equiv> kr_Partition r = unsetPartition"

definition keyless :: "kgo_Record \<Rightarrow> bool" where
  "keyless r \<longleftrightarrow> (case kr_Key r of None \<Rightarrow> True | Some k \<Rightarrow> k = [])"

lemma Partition_keyless:
  assumes "unassigned r" "keyless r" "0 < n" "0 \<le> nxt" "nxt < 2 ^ 63"
  shows "franz_Partition r n nxt = (Ok (nxt mod n), wrap64 (nxt + 1))"
proof -
  have "in_int64 nxt" using assms by (simp add: in_int64_def)
  then have "wrap64 (wrap64 (nxt + 1) - 1) = nxt" using wrap64_wrap64_add [of "nxt + 1" "- 1"] by simp
  with assms show ?thesis
    by (simp add: franz_Partition_def keyless_def onOk_def act_def ret_def go_rem_pos)
qed

lemma Partition_keyed:
  assumes "unassigned r" "kr_Key r = Some key" "key \<noteq> []" "0 < n"
  shows "franz_Partition r n nxt = (Ok (uint (fnv32a key) mod n), nxt)"
  using assms by (simp add: franz_Partition_def ret_def go_rem_pos)

text \<open>
  C14. A record that names no partition gets one of the topic's \<open>n\<close>, and does not depend on other records if it has a
  key: equal keys go to the same partition, whatever the counter is. Records without a key take the partitions
  in turn.
\<close>

theorem partitioner_in_range:
  assumes "unassigned r" "0 < n" "0 \<le> nxt" "nxt < 2 ^ 63"
  shows "\<exists>p nxt'. franz_Partition r n nxt = (Ok p, nxt') \<and> 0 \<le> p \<and> p < n
    \<and> (if keyless r then p = nxt mod n \<and> nxt' = wrap64 (nxt + 1)
       else nxt' = nxt \<and> (\<forall>r' other. unassigned r' \<and> kr_Key r' = kr_Key r \<longrightarrow> franz_Partition r' n other = (Ok p, other)))"
proof (cases "keyless r")
  case True
  with Partition_keyless [OF assms(1) True assms(2-4)] assms show ?thesis by simp
next
  case False
  then obtain key where key: "kr_Key r = Some key" "key \<noteq> []" by (auto simp: keyless_def split: option.splits)
  with Partition_keyed [OF assms(1) key assms(2)] Partition_keyed [OF _ _ key(2) assms(2)] assms False
  show ?thesis by auto
qed

definition demo_kgo_record :: "bytes option \<Rightarrow> kgo_Record" where
  "demo_kgo_record key = \<lparr>kr_Topic = ''orders'', kr_Partition = unsetPartition, kr_Offset = 0, kr_Timestamp = 0, kr_Key = key,
     kr_Value = None, kr_Headers = []\<rparr>"

theorem partitioner_in_range_witness:
  "\<exists>p. franz_Partition (demo_kgo_record (Some ''k'')) 12 5 = (Ok p, 5) \<and> 0 \<le> p \<and> p < 12"
  using partitioner_in_range [of "demo_kgo_record (Some ''k'')" 12 5] by (auto simp: demo_kgo_record_def keyless_def)

text \<open>
  After 2^63 records without a key the counter is negative, and so is the partition: the remainder of Go takes
  the sign of the dividend.
\<close>

lemma wrapped_counter_negative: "franz_Partition (demo_kgo_record None) 12 (- (2 ^ 63)) = (Ok (- 8), - (2 ^ 63) + 1)"
  by (simp add: franz_Partition_def demo_kgo_record_def unsetPartition_def onOk_def act_def ret_def go_rem_def go_div_def wrap64_def)

lemma round_robin:
  assumes "\<forall>r\<in>set rs. unassigned r \<and> keyless r" "0 < n" "0 \<le> nxt" "nxt + int (length rs) < 2 ^ 63"
  shows "collect (\<lambda>r. franz_Partition r n) rs nxt =
    (Ok (map (\<lambda>i. (nxt + int i) mod n) [0..<length rs]), nxt + int (length rs))"
proof -
  have "forEach rs (\<lambda>r out. onOk (franz_Partition r n) (\<lambda>p. ret (out @ [p]))) out nxt =
      (Ok (out @ map (\<lambda>i. (nxt + int i) mod n) [0..<length rs]), nxt + int (length rs))" for out
    using assms
  proof (induction rs arbitrary: out nxt)
    case (Cons r rs)
    have "in_int64 (nxt + 1)" using Cons.prems by (simp add: in_int64_def)
    then have "franz_Partition r n nxt = (Ok (nxt mod n), nxt + 1)"
      using Partition_keyless [of r n nxt] Cons.prems by simp
    moreover have "map (\<lambda>i. (nxt + int i) mod n) [0..<length (r # rs)]
        = nxt mod n # map (\<lambda>i. (nxt + 1 + int i) mod n) [0..<length rs]"
      by (simp add: upt_conv_Cons map_Suc_upt [symmetric] add.commute add.left_commute del: upt_Suc)
    ultimately show ?case
      using Cons.prems Cons.IH [of "nxt + 1" "out @ [nxt mod n]"] by (simp add: onOk_def ret_def add.assoc)
  qed (simp add: ret_def)
  then show ?thesis by (simp add: collect_def)
qed

section \<open>Guards\<close>

text \<open>A group with members is refused before the commit: the state is the one the description left.\<close>

lemma commit_refused_with_members:
  assumes "kadm_DescribeGroups k [g] s = (Inr ds, s1)" "described_On k ds g = Inr d" "dg_Members d \<noteq> []"
  shows "franz_CommitGroupOffsets k g offsets s = (Err (kafkaErr KindGroupActive ''group''), s1)"
  using assms by (simp add: franz_CommitGroupOffsets_def onOk_def calling_def fail_def)

text \<open>
  The offsets of a group whose description carries an error are fetched all the same: an unknown group
  that the library describes with an error has no offsets, and no error.
\<close>

lemma fetch_ignores_the_groups_error:
  assumes "kadm_DescribeGroups k [g] s = (Inr ds, s1)" "described_On k ds g = Inr (d\<lparr>dg_Err := Some err\<rparr>)"
    and "kadm_FetchOffsets k g s1 = (Inr [], s2)"
  shows "franz_FetchGroupOffsets k g s = (Ok [], s2)" "\<exists>e. franz_DescribeGroups k [g] s = (Err e, s1)"
  using assms
  by (auto simp: franz_FetchGroupOffsets_def franz_DescribeGroups_def onOk_def calling_def unwrap_def ret_def fail_def
      noError_def committed_offsets_def collect_def)

text \<open>An item the response leaves out counts as done.\<close>

lemma unanswered_counts_as_done:
  "kadm_DeleteGroups k [g] s = (Inr [], s1) \<Longrightarrow>
     franz_DeleteGroups k [g] s = (Ok [\<lparr>GroupDeleteResult_ID = g, GroupDeleteResult_Err = None\<rparr>], s1)"
  "kadm_ElectLeaders k ElectPreferredReplica [(t, p)] s = (Inr [], s1) \<Longrightarrow>
     franz_ElectLeaders k True [(t, p)] s = (Ok [\<lparr>ElectLeaderResult_Topic = t, ElectLeaderResult_Partition = p,
       ElectLeaderResult_Err = None\<rparr>], s1)"
  by (simp_all add: franz_DeleteGroups_def franz_ElectLeaders_def onOk_def calling_def ret_def partition_error_def mget_def wrapErr_def)

end
