(* ===== verification/PortSuite.thy ===== *)
theory PortSuite
  imports KafkaPort
begin

text \<open>
  The contract suite of the port (\<^verbatim>\<open>internal/kafka/porttest\<close>) as executable cases: each subtest is an effect
  over the state of the implementation under test that answers with its verdict. The capability interfaces an
  implementation may have (\<open>topicSeeder\<close> and the others) are options; a case that lacks one is skipped.

  \<open>t.Fatalf\<close> ends a case with \<open>Fail\<close>; \<open>t.Errorf\<close> marks it and goes on, so its conditions are collected up to
  the end.
\<close>

section \<open>Cases and verdicts\<close>

datatype verdict = Pass | Skip | Fail

type_synonym 's test = "('s, verdict) eff"

definition check :: "bool \<Rightarrow> 's test" where
  "check b = ret (if b then Pass else Fail)"

text \<open>\<open>x, err := m(); if err != nil { t.Fatalf(...) }\<close>\<close>

definition got :: "('s, 'a) eff \<Rightarrow> ('a \<Rightarrow> 's test) \<Rightarrow> 's test" where
  "got m k = attempt m (\<lambda>x. case x of Inl err \<Rightarrow> ret Fail | Inr a \<Rightarrow> k a)"

text \<open>\<open>if !b { t.Fatalf(...) }\<close>\<close>

definition require :: "bool \<Rightarrow> 's test \<Rightarrow> 's test" where
  "require b k = (if b then k else ret Fail)"

text \<open>\<open>!errors.As(err, &ke) || ke.Kind != kd\<close> is a failure.\<close>

definition is_kind :: "kind \<Rightarrow> Err \<Rightarrow> bool" where
  "is_kind kd err = (case err of Some e \<Rightarrow> KindOf e = Some kd | None \<Rightarrow> False)"

definition wants_kind :: "kind \<Rightarrow> ('s, 'a) eff \<Rightarrow> 's test" where
  "wants_kind kd m = attempt m (\<lambda>x. check (case x of Inl e \<Rightarrow> is_kind kd (Some e) | Inr _ \<Rightarrow> False))"

definition wants_error :: "('s, 'a) eff \<Rightarrow> 's test" where
  "wants_error m = attempt m (\<lambda>x. check (case x of Inl _ \<Rightarrow> True | Inr _ \<Rightarrow> False))"

definition needing :: "'x option \<Rightarrow> ('x \<Rightarrow> 's test) \<Rightarrow> 's test" where
  "needing capability k = (case capability of None \<Rightarrow> ret Skip | Some x \<Rightarrow> k x)"

definition doing :: "('s \<Rightarrow> 's) \<Rightarrow> 's test \<Rightarrow> 's test" where
  "doing f k s = k (f s)"

definition deferring :: "('s \<Rightarrow> 's) \<Rightarrow> 's test \<Rightarrow> 's test" where
  "deferring f m s = (case m s of (r, s') \<Rightarrow> (r, f s'))"

text \<open>A Go map filled by \<open>m[key(x)] = x\<close>.\<close>

definition by_key :: "('x \<Rightarrow> 'k) \<Rightarrow> 'x list \<Rightarrow> ('k \<times> 'x) list" where
  "by_key key xs = fold (\<lambda>x. mput (key x) x) xs []"

section \<open>The implementation under test\<close>

record 's Capabilities =
  adminSeeder :: "(int32 \<Rightarrow> string \<Rightarrow> int32 \<Rightarrow> string \<Rightarrow> 's \<Rightarrow> 's) option"
  unreachabler :: "(bool \<Rightarrow> 's \<Rightarrow> 's) option"
  topicSeeder :: "(string \<Rightarrow> int64 \<Rightarrow> Record list \<Rightarrow> ('s, unit) eff) option"
  topicMetaSeeder :: "(string \<Rightarrow> bool \<Rightarrow> int64 \<Rightarrow> 's \<Rightarrow> 's) option"
  brokerConfigSeeder :: "(int32 \<Rightarrow> ConfigEntry list \<Rightarrow> 's \<Rightarrow> 's) option"
  topicConfigSeeder :: "(string \<Rightarrow> ConfigEntry list \<Rightarrow> 's \<Rightarrow> 's) option"
  logDirSeeder :: "(string \<Rightarrow> int32 \<Rightarrow> int32 \<Rightarrow> string \<Rightarrow> int64 \<Rightarrow> 's \<Rightarrow> 's) option"
  groupSeeder :: "(string \<Rightarrow> (TopicPartition \<times> int64) list \<Rightarrow> 's \<Rightarrow> 's) option"
  groupMetaSeeder :: "(string \<Rightarrow> string \<Rightarrow> string \<Rightarrow> int32 \<Rightarrow> 's \<Rightarrow> 's) option"
  groupMemberSeeder :: "(string \<Rightarrow> GroupMember \<Rightarrow> 's \<Rightarrow> 's) option"
  quorumSeeder :: "(int32 \<Rightarrow> int32 \<Rightarrow> QuorumReplicaState list \<Rightarrow> QuorumReplicaState list \<Rightarrow> 's \<Rightarrow> 's) option"
  faultInjector :: "(string \<Rightarrow> kind \<Rightarrow> 's \<Rightarrow> 's) option"
  commitAsserter :: "(('s \<Rightarrow> bool) \<times> ('s \<Rightarrow> bool)) option" \<comment> \<open>\<open>AssertNoCommits\<close>, \<open>AssertNoGroupJoin\<close>\<close>

text \<open>
  The admin port under \<open>context.Background()\<close> and under a context whose timeout has passed, which takes the
  clock along; the consumer and producer are under \<open>context.Background()\<close>.
\<close>

record 's UnderTest =
  ut_admin :: "'s Admin"
  ut_expired :: "'s \<Rightarrow> 's Admin \<times> 's"
  ut_consumer :: "'s Consumer"
  ut_producer :: "'s Producer"
  ut_timeNow :: "'s \<Rightarrow> time \<times> 's"
  ut_caps :: "'s Capabilities"

section \<open>Values\<close>

definition value_record :: "int32 \<Rightarrow> string \<Rightarrow> time \<Rightarrow> Record" where
  "value_record p v t = \<lparr>Record_Topic = [], Record_Partition = p, Record_Offset = 0, Record_Timestamp = t,
     Record_Key = None, Record_Value = Some v, Record_Headers = []\<rparr>"

definition one_spec :: "string \<Rightarrow> int32 \<Rightarrow> TopicSpec" where
  "one_spec name n = \<lparr>TopicSpec_Name = name, TopicSpec_Partitions = n, TopicSpec_ReplicationFactor = 1, TopicSpec_Configs = []\<rparr>"

definition config_entry :: "string \<Rightarrow> string \<Rightarrow> ConfigSource \<Rightarrow> bool \<Rightarrow> ConfigEntry" where
  "config_entry name v src sensitive = \<lparr>ConfigEntry_Name = name, ConfigEntry_Value = v, ConfigEntry_Source = Some src,
     ConfigEntry_IsSensitive = sensitive, ConfigEntry_IsReadOnly = False\<rparr>"

definition config_change :: "string \<Rightarrow> string option \<Rightarrow> ConfigChange" where
  "config_change name v = \<lparr>ConfigChange_Name = name, ConfigChange_Value = v\<rparr>"

definition group_member :: "string \<Rightarrow> string \<Rightarrow> string \<Rightarrow> GroupMember" where
  "group_member m c h = \<lparr>GroupMember_MemberID = m, GroupMember_ClientID = c, GroupMember_Host = h, GroupMember_Assignments = []\<rparr>"

definition replica_state :: "int32 \<Rightarrow> int64 \<Rightarrow> int64 \<Rightarrow> QuorumReplicaState" where
  "replica_state i off lag = \<lparr>QuorumReplicaState_ID = i, QuorumReplicaState_LogEndOffset = off, QuorumReplicaState_LagMs = lag\<rparr>"

text \<open>\<open>time.Date(2026, 1, 1, 0, 0, 0, 0, time.UTC)\<close>\<close>

definition suite_base :: time where "suite_base = fromUnixMilli 1767225600000"

section \<open>Cluster and broker configuration\<close>

definition Admin_DescribeCluster_ReturnsSeededBrokers :: "'s UnderTest \<Rightarrow> 's test" where
  "Admin_DescribeCluster_ReturnsSeededBrokers u =
    needing (adminSeeder (ut_caps u)) (\<lambda>SeedBroker.
      doing (SeedBroker 1 ''broker-1'' 9092 ''rack-a'') (doing (SeedBroker 2 ''broker-2'' 9092 []) (
      got (DescribeCluster (ut_admin u)) (\<lambda>info.
        check (1 \<in> Broker_ID ` set (ClusterInfo_Brokers info) \<and> 2 \<in> Broker_ID ` set (ClusterInfo_Brokers info))))))"

definition Admin_Unreachable_KindUnavailable :: "'s UnderTest \<Rightarrow> 's test" where
  "Admin_Unreachable_KindUnavailable u =
    needing (unreachabler (ut_caps u)) (\<lambda>Unreachable.
      doing (Unreachable True) (deferring (Unreachable False) (
        wants_kind KindUnavailable (DescribeCluster (ut_admin u)))))"

definition Any_DeadlineExceeded_KindTimeout :: "'s UnderTest \<Rightarrow> 's test" where
  "Any_DeadlineExceeded_KindTimeout u s =
    (case ut_expired u s of (adm, s') \<Rightarrow> wants_kind KindTimeout (DescribeCluster adm) s')"

definition Admin_DescribeBrokerConfigs_SensitiveHasNilValue :: "'s UnderTest \<Rightarrow> 's test" where
  "Admin_DescribeBrokerConfigs_SensitiveHasNilValue u =
    needing (brokerConfigSeeder (ut_caps u)) (\<lambda>SeedBrokerConfigs.
    needing (adminSeeder (ut_caps u)) (\<lambda>SeedBroker.
      doing (SeedBroker 101 ''broker-101'' 9092 []) (
      doing (SeedBrokerConfigs 101 [config_entry ''log.retention.ms'' ''604800000'' SourceDefault False,
        config_entry ''sasl.jaas.config'' [] SourceStatic True]) (
      got (DescribeBrokerConfigs (ut_admin u) 101) (\<lambda>configs.
        let found = filter (\<lambda>c. ConfigEntry_Name c = ''sasl.jaas.config'') configs in
        check (found \<noteq> [] \<and> list_all (\<lambda>c. ConfigEntry_Value c = [] \<and> ConfigEntry_IsSensitive c) found))))))"

definition Admin_DescribeBrokerConfigs_MissingBrokerNotFound :: "'s UnderTest \<Rightarrow> 's test" where
  "Admin_DescribeBrokerConfigs_MissingBrokerNotFound u =
    needing (adminSeeder (ut_caps u)) (\<lambda>_. wants_kind KindNotFound (DescribeBrokerConfigs (ut_admin u) 999999))"

text \<open>Setting a key and resetting it, for topics and brokers: what is described after each.\<close>

definition set_then_reset ::
  "(ConfigChange list \<Rightarrow> ('s, unit) eff) \<Rightarrow> ('s, ConfigEntry list) eff \<Rightarrow> string \<Rightarrow> string \<Rightarrow> 's test" where
  "set_then_reset alter describe name v =
    got (alter [config_change name (Some v)]) (\<lambda>_.
    got describe (\<lambda>configs.
      let found = filter (\<lambda>c. ConfigEntry_Name c = name) configs;
          ok = list_all (\<lambda>c. ConfigEntry_Value c = v \<and> ConfigEntry_Source c = Some SourceDynamic) found in
      require (found \<noteq> []) (
      got (alter [config_change name None]) (\<lambda>_.
      got describe (\<lambda>configs'.
        check (ok \<and> list_all (\<lambda>c. ConfigEntry_Name c \<noteq> name \<or> ConfigEntry_Source c = Some SourceDefault) configs'))))))"

definition Admin_IncrementalAlterBrokerConfigs_SetAndReset :: "'s UnderTest \<Rightarrow> 's test" where
  "Admin_IncrementalAlterBrokerConfigs_SetAndReset u =
    needing (adminSeeder (ut_caps u)) (\<lambda>SeedBroker.
    needing (brokerConfigSeeder (ut_caps u)) (\<lambda>SeedBrokerConfigs.
      doing (SeedBroker 101 ''broker-101'' 9092 []) (
      doing (SeedBrokerConfigs 101 [config_entry ''log.retention.hours'' ''168'' SourceDefault False]) (
        set_then_reset (IncrementalAlterBrokerConfigs (ut_admin u) 101) (DescribeBrokerConfigs (ut_admin u) 101)
          ''log.retention.hours'' ''72''))))"

section \<open>Topics\<close>

definition Admin_ListTopics_IncludesInternalFlag :: "'s UnderTest \<Rightarrow> 's test" where
  "Admin_ListTopics_IncludesInternalFlag u =
    needing (topicSeeder (ut_caps u)) (\<lambda>SeedTopic.
    needing (topicMetaSeeder (ut_caps u)) (\<lambda>SeedTopicMeta.
      onOk (SeedTopic ''t-list-public'' 1 [value_record 0 ''v'' zeroTime]) (\<lambda>_.
      doing (SeedTopicMeta ''t-list-public'' False 1) (
      onOk (SeedTopic ''t-list-internal'' 1 [value_record 0 ''v'' zeroTime]) (\<lambda>_.
      doing (SeedTopicMeta ''t-list-internal'' True 1) (
      got (ListTopics (ut_admin u)) (\<lambda>topics.
        let byName = by_key TopicSummary_Name topics in
        check ((case map_of byName ''t-list-public'' of Some s \<Rightarrow> \<not> TopicSummary_Internal s | None \<Rightarrow> False)
          \<and> (case map_of byName ''t-list-internal'' of Some s \<Rightarrow> TopicSummary_Internal s | None \<Rightarrow> False)))))))))"

definition Admin_DescribeTopics_MissingNotFound :: "'s UnderTest \<Rightarrow> 's test" where
  "Admin_DescribeTopics_MissingNotFound u = wants_kind KindNotFound (DescribeTopics (ut_admin u) ''t-does-not-exist'')"

definition Admin_DescribeTopicConfigs_SourceNormalised :: "'s UnderTest \<Rightarrow> 's test" where
  "Admin_DescribeTopicConfigs_SourceNormalised u =
    needing (topicSeeder (ut_caps u)) (\<lambda>SeedTopic.
    needing (topicConfigSeeder (ut_caps u)) (\<lambda>SeedTopicConfigs.
      onOk (SeedTopic ''t-configs'' 1 []) (\<lambda>_.
      doing (SeedTopicConfigs ''t-configs'' [config_entry ''cleanup.policy'' ''delete'' SourceDefault False,
        config_entry ''retention.ms'' ''3600000'' SourceStatic False,
        config_entry ''compression.type'' ''producer'' SourceDynamic False]) (
      got (DescribeTopicConfigs (ut_admin u) ''t-configs'') (\<lambda>configs.
        let gotSource = by_key ConfigEntry_Name configs in
        check (list_all (\<lambda>(name, src). map_option ConfigEntry_Source (map_of gotSource name) = Some (Some src))
          [(''cleanup.policy'', SourceDefault), (''retention.ms'', SourceStatic), (''compression.type'', SourceDynamic)]))))))"

definition Admin_ListOffsets_StartEnd :: "'s UnderTest \<Rightarrow> 's test" where
  "Admin_ListOffsets_StartEnd u =
    needing (topicSeeder (ut_caps u)) (\<lambda>SeedTopic.
      onOk (SeedTopic ''t-offsets'' 2 [value_record 0 ''a'' zeroTime, value_record 0 ''b'' zeroTime,
        value_record 0 ''c'' zeroTime, value_record 1 ''d'' zeroTime]) (\<lambda>_.
      got (ListStartOffsets (ut_admin u) ''t-offsets'') (\<lambda>start.
      got (ListEndOffsets (ut_admin u) ''t-offsets'') (\<lambda>fin.
        check (mget start 0 0 = 0 \<and> mget start 0 1 = 0 \<and> mget fin 0 0 = 3 \<and> mget fin 0 1 = 1)))))"

definition Admin_ListOffsetsAfterMilli_FirstAtOrAfter :: "'s UnderTest \<Rightarrow> 's test" where
  "Admin_ListOffsetsAfterMilli_FirstAtOrAfter u =
    needing (topicSeeder (ut_caps u)) (\<lambda>SeedTopic.
      onOk (SeedTopic ''t-after-milli'' 1 [value_record 0 ''a'' suite_base, value_record 0 ''b'' (suite_base + 1000000000),
        value_record 0 ''c'' (suite_base + 2000000000)]) (\<lambda>_.
      got (ListOffsetsAfterMilli (ut_admin u) ''t-after-milli'' (UnixMilli (suite_base + 1000000000))) (\<lambda>offsets.
        check (mget offsets 0 0 = 1))))"

definition Admin_DescribeLogDirs_PerReplicaBytes :: "'s UnderTest \<Rightarrow> 's test" where
  "Admin_DescribeLogDirs_PerReplicaBytes u =
    needing (topicSeeder (ut_caps u)) (\<lambda>SeedTopic.
    needing (logDirSeeder (ut_caps u)) (\<lambda>SeedLogDir.
      onOk (SeedTopic ''t-logdirs'' 1 [value_record 0 ''v'' zeroTime]) (\<lambda>_.
      doing (SeedLogDir ''t-logdirs'' 0 1 ''/data/kafka-logs'' 4096) (
      doing (SeedLogDir ''t-logdirs'' 0 2 ''/data/kafka-logs'' 4096) (
      got (DescribeLogDirs (ut_admin u) ''t-logdirs'') (\<lambda>entries.
        require (length entries = 2) (
        check (list_all (\<lambda>e. LogDirReplica_Bytes e = 4096 \<and> LogDirReplica_LogDir e = ''/data/kafka-logs''
          \<and> LogDirReplica_Partition e = 0) entries))))))))"

definition creating :: "'s UnderTest \<Rightarrow> string \<Rightarrow> int32 \<Rightarrow> 's test \<Rightarrow> 's test" where
  "creating u name n k = got (CreateTopics (ut_admin u) [one_spec name n] False) (\<lambda>_. k)"

definition Admin_CreateTopics_ValidateOnlyCreatesNothing :: "string \<Rightarrow> 's UnderTest \<Rightarrow> 's test" where
  "Admin_CreateTopics_ValidateOnlyCreatesNothing px u =
    (let name = px @ ''porttest-validate-only'' in
     got (CreateTopics (ut_admin u) [one_spec name 1] True) (\<lambda>results.
     require (length results = 1 \<and> TopicCreateResult_Err (hd results) = None) (
       wants_kind KindNotFound (DescribeTopics (ut_admin u) name))))"

definition Admin_CreateTopics_ExistingIsAlreadyExists :: "string \<Rightarrow> 's UnderTest \<Rightarrow> 's test" where
  "Admin_CreateTopics_ExistingIsAlreadyExists px u =
    (let name = px @ ''porttest-already-exists'' in
     creating u name 1 (
     got (CreateTopics (ut_admin u) [one_spec name 1] False) (\<lambda>results.
       check (length results = 1 \<and> is_kind KindAlreadyExists (TopicCreateResult_Err (hd results))))))"

definition Admin_IncrementalAlterTopicConfigs_SetAndResetToDefault :: "string \<Rightarrow> 's UnderTest \<Rightarrow> 's test" where
  "Admin_IncrementalAlterTopicConfigs_SetAndResetToDefault px u =
    (let name = px @ ''porttest-alter-config'' in
     creating u name 1 (
       set_then_reset (IncrementalAlterTopicConfigs (ut_admin u) name) (DescribeTopicConfigs (ut_admin u) name)
         ''retention.ms'' ''60000''))"

definition Admin_CreatePartitions_IncreaseSucceeds :: "string \<Rightarrow> 's UnderTest \<Rightarrow> 's test" where
  "Admin_CreatePartitions_IncreaseSucceeds px u =
    (let name = px @ ''porttest-add-partitions'' in
     creating u name 1 (
     got (CreatePartitions (ut_admin u) name 4) (\<lambda>_.
     got (DescribeTopics (ut_admin u) name) (\<lambda>topic. check (length (Topic_Partitions topic) = 4)))))"

definition Admin_CreatePartitions_DecreaseIsError :: "string \<Rightarrow> 's UnderTest \<Rightarrow> 's test" where
  "Admin_CreatePartitions_DecreaseIsError px u =
    (let name = px @ ''porttest-decrease-partitions'' in
     creating u name 4 (wants_error (CreatePartitions (ut_admin u) name 1)))"

definition Admin_DeleteTopics_RemovesTopic :: "string \<Rightarrow> 's UnderTest \<Rightarrow> 's test" where
  "Admin_DeleteTopics_RemovesTopic px u =
    (let name = px @ ''porttest-delete-topic'' in
     creating u name 1 (
     got (DeleteTopics (ut_admin u) [name]) (\<lambda>results.
     require (length results = 1 \<and> TopicDeleteResult_Name (hd results) = name \<and> TopicDeleteResult_Err (hd results) = None) (
       wants_error (DescribeTopics (ut_admin u) name)))))"

definition Admin_DeleteTopics_MissingIsNotFound :: "string \<Rightarrow> 's UnderTest \<Rightarrow> 's test" where
  "Admin_DeleteTopics_MissingIsNotFound px u =
    got (DeleteTopics (ut_admin u) [px @ ''porttest-delete-missing'']) (\<lambda>results.
      check (length results = 1 \<and> is_kind KindNotFound (TopicDeleteResult_Err (hd results))))"

definition Admin_DeleteRecords_RaisesBeginOffset :: "string \<Rightarrow> 's UnderTest \<Rightarrow> 's test" where
  "Admin_DeleteRecords_RaisesBeginOffset px u =
    needing (topicSeeder (ut_caps u)) (\<lambda>SeedTopic.
     let name = px @ ''porttest-delete-records'' in
     onOk (SeedTopic name 1 [value_record 0 ''a'' zeroTime, value_record 0 ''b'' zeroTime, value_record 0 ''c'' zeroTime,
       value_record 0 ''d'' zeroTime]) (\<lambda>_.
     got (DeleteRecords (ut_admin u) name [(0, 2)]) (\<lambda>results.
     require (length results = 1 \<and> PartitionLowWatermark_Partition (hd results) = 0
       \<and> PartitionLowWatermark_LowWatermark (hd results) = 2) (
     got (ListStartOffsets (ut_admin u) name) (\<lambda>start. check (mget start 0 0 = 2))))))"

definition Admin_DeleteRecords_BeyondEndIsError :: "string \<Rightarrow> 's UnderTest \<Rightarrow> 's test" where
  "Admin_DeleteRecords_BeyondEndIsError px u =
    needing (topicSeeder (ut_caps u)) (\<lambda>SeedTopic.
     let name = px @ ''porttest-delete-records-beyond-end'' in
     onOk (SeedTopic name 1 [value_record 0 ''a'' zeroTime]) (\<lambda>_.
       wants_error (DeleteRecords (ut_admin u) name [(0, 999)])))"

section \<open>Groups\<close>

definition Admin_ListGroups_StateAndMemberCount :: "'s UnderTest \<Rightarrow> 's test" where
  "Admin_ListGroups_StateAndMemberCount u =
    needing (groupSeeder (ut_caps u)) (\<lambda>SeedGroup.
    needing (groupMetaSeeder (ut_caps u)) (\<lambda>SeedGroupMeta.
    needing (groupMemberSeeder (ut_caps u)) (\<lambda>SeedGroupMember.
      doing (SeedGroup ''g-list-stable'' []) (
      doing (SeedGroupMeta ''g-list-stable'' ''Stable'' ''consumer'' 1) (
      doing (SeedGroupMember ''g-list-stable'' (group_member ''m1'' ''c1'' ''h1'')) (
      doing (SeedGroupMember ''g-list-stable'' (group_member ''m2'' ''c2'' ''h2'')) (
      doing (SeedGroup ''g-list-empty'' []) (
      got (ListGroups (ut_admin u) []) (\<lambda>groups.
        let byID = by_key GroupSummary_ID groups;
            ok = (case map_of byID ''g-list-stable'' of
                Some g \<Rightarrow> GroupSummary_State g = ''Stable'' \<and> GroupSummary_ProtocolType g = ''consumer''
                  \<and> GroupSummary_MemberCount g = 2
              | None \<Rightarrow> False)
              \<and> (case map_of byID ''g-list-empty'' of Some g \<Rightarrow> GroupSummary_MemberCount g = 0 | None \<Rightarrow> False) in
      got (ListGroups (ut_admin u) [''Stable'']) (\<lambda>filtered.
      require (filtered \<noteq> []) (
        check (ok \<and> list_all (\<lambda>g. GroupSummary_State g = ''Stable'') filtered))))))))))))"

definition Admin_DescribeGroups_MissingIsNotFound :: "'s UnderTest \<Rightarrow> 's test" where
  "Admin_DescribeGroups_MissingIsNotFound u =
    needing (groupSeeder (ut_caps u)) (\<lambda>_. wants_kind KindNotFound (DescribeGroups (ut_admin u) [''g-does-not-exist'']))"

definition Admin_FetchGroupOffsets_PerPartition :: "'s UnderTest \<Rightarrow> 's test" where
  "Admin_FetchGroupOffsets_PerPartition u =
    needing (groupSeeder (ut_caps u)) (\<lambda>SeedGroup.
     let want = [((''t-a'', 0), 10), ((''t-a'', 1), 20), ((''t-b'', 0), 5)] in
     doing (SeedGroup ''g-offsets'' want) (
     got (FetchGroupOffsets (ut_admin u) ''g-offsets'') (\<lambda>offsets.
     require (length offsets = length want) (
       check (list_all (\<lambda>(tp, v). mget offsets 0 tp = v) want)))))"

definition Admin_FetchGroupOffsets_MissingGroupNotFound :: "'s UnderTest \<Rightarrow> 's test" where
  "Admin_FetchGroupOffsets_MissingGroupNotFound u =
    needing (groupSeeder (ut_caps u)) (\<lambda>_. wants_kind KindNotFound (FetchGroupOffsets (ut_admin u) ''g-does-not-exist''))"

definition Admin_CommitGroupOffsets_CreatesAbsentGroup :: "string \<Rightarrow> 's UnderTest \<Rightarrow> 's test" where
  "Admin_CommitGroupOffsets_CreatesAbsentGroup px u =
    (let name = px @ ''porttest-commit-absent'' in
     got (CommitGroupOffsets (ut_admin u) name [((''t'', 0), 5)]) (\<lambda>_.
     got (FetchGroupOffsets (ut_admin u) name) (\<lambda>offsets. check (mget offsets 0 (''t'', 0) = 5))))"

text \<open>A seeded group with the given members.\<close>

definition with_members :: "'s UnderTest \<Rightarrow> string \<Rightarrow> string list \<Rightarrow> 's test \<Rightarrow> 's test" where
  "with_members u name ms k =
    needing (groupSeeder (ut_caps u)) (\<lambda>SeedGroup.
    needing (groupMemberSeeder (ut_caps u)) (\<lambda>SeedGroupMember.
      doing (SeedGroup name []) (fold (\<lambda>m k'. doing (SeedGroupMember name (group_member m [] [])) k') (rev ms) k)))"

definition Admin_CommitGroupOffsets_ActiveGroupIsGroupActive :: "string \<Rightarrow> 's UnderTest \<Rightarrow> 's test" where
  "Admin_CommitGroupOffsets_ActiveGroupIsGroupActive px u =
    (let name = px @ ''porttest-commit-active'' in
     with_members u name [''m1''] (wants_kind KindGroupActive (CommitGroupOffsets (ut_admin u) name [((''t'', 0), 5)])))"

definition Admin_DeleteGroups_ActiveIsGroupActive :: "string \<Rightarrow> 's UnderTest \<Rightarrow> 's test" where
  "Admin_DeleteGroups_ActiveIsGroupActive px u =
    (let name = px @ ''porttest-delete-group-active'' in
     with_members u name [''m1''] (
     got (DeleteGroups (ut_admin u) [name]) (\<lambda>results.
       check (length results = 1 \<and> is_kind KindGroupActive (GroupDeleteResult_Err (hd results))))))"

definition Admin_DeleteGroups_InactiveRemoved :: "string \<Rightarrow> 's UnderTest \<Rightarrow> 's test" where
  "Admin_DeleteGroups_InactiveRemoved px u =
    needing (groupSeeder (ut_caps u)) (\<lambda>SeedGroup.
     let name = px @ ''porttest-delete-group-inactive'' in
     doing (SeedGroup name []) (
     got (DeleteGroups (ut_admin u) [name]) (\<lambda>results.
     require (length results = 1 \<and> GroupDeleteResult_ID (hd results) = name \<and> GroupDeleteResult_Err (hd results) = None) (
       wants_error (DescribeGroups (ut_admin u) [name])))))"

definition Admin_LeaveGroup_RemovesListedMembers :: "string \<Rightarrow> 's UnderTest \<Rightarrow> 's test" where
  "Admin_LeaveGroup_RemovesListedMembers px u =
    (let name = px @ ''porttest-leave-group'' in
     with_members u name [''m1'', ''m2''] (
     got (LeaveGroup (ut_admin u) name [''m1'']) (\<lambda>results.
     require (length results = 1 \<and> LeaveGroupResult_MemberID (hd results) = ''m1'' \<and> LeaveGroupResult_Err (hd results) = None) (
     got (DescribeGroups (ut_admin u) [name]) (\<lambda>groups.
     require (length groups = 1) (
       let found = map GroupMember_MemberID (Group_Members (hd groups)) in
       check (''m1'' \<notin> set found \<and> ''m2'' \<in> set found)))))))"

section \<open>Quorum, reassignments, elections and log directories\<close>

definition Admin_DescribeQuorum_LeaderAndVoters :: "'s UnderTest \<Rightarrow> 's test" where
  "Admin_DescribeQuorum_LeaderAndVoters u =
    needing (quorumSeeder (ut_caps u)) (\<lambda>SeedQuorum.
      doing (SeedQuorum 1 5 [replica_state 1 100 0, replica_state 2 98 50] [replica_state 3 90 200]) (
      got (DescribeQuorum (ut_admin u)) (\<lambda>status.
        check (QuorumStatus_LeaderID status = 1 \<and> QuorumStatus_Epoch status = 5
          \<and> length (QuorumStatus_Voters status) = 2 \<and> length (QuorumStatus_Observers status) = 1))))"

definition Admin_DescribeQuorum_UnsupportedIsKindUnsupported :: "'s UnderTest \<Rightarrow> 's test" where
  "Admin_DescribeQuorum_UnsupportedIsKindUnsupported u =
    needing (faultInjector (ut_caps u)) (\<lambda>FailNext.
      doing (FailNext ''DescribeQuorum'' KindUnsupported) (wants_kind KindUnsupported (DescribeQuorum (ut_admin u))))"

definition listed :: "string \<Rightarrow> PartitionReassignment list \<Rightarrow> bool" where
  "listed name rs = list_ex (\<lambda>r. PartitionReassignment_Topic r = name \<and> PartitionReassignment_Partition r = 0) rs"

definition Admin_Reassignments_ListAfterAlter :: "string \<Rightarrow> 's UnderTest \<Rightarrow> 's test" where
  "Admin_Reassignments_ListAfterAlter px u =
    needing (topicSeeder (ut_caps u)) (\<lambda>SeedTopic.
     let name = px @ ''porttest-reassign-list'' in
     onOk (SeedTopic name 1 []) (\<lambda>_.
     got (AlterPartitionAssignments (ut_admin u) [((name, 0), Some [1, 2, 3])]) (\<lambda>results.
     require (length results = 1 \<and> ReassignResult_Err (hd results) = None) (
     got (ListReassignments (ut_admin u)) (\<lambda>reassignments. check (listed name reassignments))))))"

definition Admin_Reassignments_Cancel :: "string \<Rightarrow> 's UnderTest \<Rightarrow> 's test" where
  "Admin_Reassignments_Cancel px u =
    needing (topicSeeder (ut_caps u)) (\<lambda>SeedTopic.
     let name = px @ ''porttest-reassign-cancel'' in
     onOk (SeedTopic name 1 []) (\<lambda>_.
     got (AlterPartitionAssignments (ut_admin u) [((name, 0), Some [1, 2, 3])]) (\<lambda>_.
     got (AlterPartitionAssignments (ut_admin u) [((name, 0), None)]) (\<lambda>_.
     got (ListReassignments (ut_admin u)) (\<lambda>reassignments. check (\<not> listed name reassignments))))))"

definition electing :: "'s UnderTest \<Rightarrow> string \<Rightarrow> bool \<Rightarrow> 's test \<Rightarrow> 's test" where
  "electing u name preferred k =
    got (ElectLeaders (ut_admin u) preferred [(name, 0)]) (\<lambda>results.
      require (length results = 1 \<and> ElectLeaderResult_Err (hd results) = None) k)"

definition Admin_ElectLeaders_PreferredAndUnclean :: "string \<Rightarrow> 's UnderTest \<Rightarrow> 's test" where
  "Admin_ElectLeaders_PreferredAndUnclean px u =
    needing (topicSeeder (ut_caps u)) (\<lambda>SeedTopic.
     let name = px @ ''porttest-elect'' in
     onOk (SeedTopic name 1 []) (\<lambda>_.
     got (AlterPartitionAssignments (ut_admin u) [((name, 0), Some [2, 1])]) (\<lambda>_.
       electing u name True (electing u name False (check True)))))"

definition Admin_DescribeLogDirs_AllBrokers :: "string \<Rightarrow> 's UnderTest \<Rightarrow> 's test" where
  "Admin_DescribeLogDirs_AllBrokers px u =
    needing (topicSeeder (ut_caps u)) (\<lambda>SeedTopic.
    needing (logDirSeeder (ut_caps u)) (\<lambda>SeedLogDir.
     let name = px @ ''porttest-alldirs'' in
     onOk (SeedTopic name 1 []) (\<lambda>_.
     doing (SeedLogDir name 0 1 ''/var/kafka/data'' 1024) (
     got (DescribeAllLogDirs (ut_admin u)) (\<lambda>dirs.
       check (list_ex (\<lambda>d. BrokerLogDir_BrokerID d = 1 \<and> BrokerLogDir_LogDir d = ''/var/kafka/data''
         \<and> BrokerLogDir_TotalBytes d \<ge> 1024) dirs))))))"

section \<open>Credentials and quotas\<close>

definition scram_upsert_of :: "string \<Rightarrow> ScramUpsert" where
  "scram_upsert_of user = \<lparr>ScramUpsert_User = user, ScramUpsert_Mechanism = ScramSha256, ScramUpsert_Iterations = 4096,
     ScramUpsert_Password = ''s3cret''\<rparr>"

definition Admin_SCRAM_UpsertThenDescribeNoSecret :: "string \<Rightarrow> 's UnderTest \<Rightarrow> 's test" where
  "Admin_SCRAM_UpsertThenDescribeNoSecret px u =
    (let user = px @ ''porttest-scram-upsert'' in
     got (AlterUserSCRAMs (ut_admin u) [scram_upsert_of user] []) (\<lambda>results.
     require (length results = 1 \<and> ScramAlterResult_Err (hd results) = None) (
     got (DescribeUserSCRAMs (ut_admin u) [user]) (\<lambda>users.
     require (length users = 1 \<and> ScramUser_Name (hd users) = user) (
       let credentials = ScramUser_Credentials (hd users) in
       check (length credentials = 1 \<and> ScramCredential_Mechanism (hd credentials) = ScramSha256
         \<and> ScramCredential_Iterations (hd credentials) = 4096))))))"

definition Admin_SCRAM_DeleteRemoves :: "string \<Rightarrow> 's UnderTest \<Rightarrow> 's test" where
  "Admin_SCRAM_DeleteRemoves px u =
    (let user = px @ ''porttest-scram-delete'' in
     got (AlterUserSCRAMs (ut_admin u) [scram_upsert_of user] []) (\<lambda>_.
     got (AlterUserSCRAMs (ut_admin u) [] [\<lparr>ScramDelete_User = user, ScramDelete_Mechanism = ScramSha256\<rparr>]) (\<lambda>results.
     require (length results = 1 \<and> ScramAlterResult_Err (hd results) = None) (
       wants_kind KindNotFound (DescribeUserSCRAMs (ut_admin u) [user])))))"

definition Admin_SCRAM_DescribeMissingIsNotFound :: "string \<Rightarrow> 's UnderTest \<Rightarrow> 's test" where
  "Admin_SCRAM_DescribeMissingIsNotFound px u =
    wants_kind KindNotFound (DescribeUserSCRAMs (ut_admin u) [px @ ''porttest-scram-missing''])"

definition user_entity :: "string \<Rightarrow> QuotaEntity" where
  "user_entity user = [\<lparr>QuotaEntityComponent_Type = ''user'', QuotaEntityComponent_Name = Some user\<rparr>]"

text \<open>The bit patterns of the floating-point numbers 1048576 and 2097152.\<close>

definition one_mebi :: float64 where "one_mebi = 4697254411347427328"
definition two_mebi :: float64 where "two_mebi = 4701758010974797824"

definition quota_entry :: "string \<Rightarrow> float64 \<Rightarrow> bool \<Rightarrow> QuotaAlterEntry" where
  "quota_entry user v rm = \<lparr>QuotaAlterEntry_Entity = user_entity user,
     QuotaAlterEntry_Ops = [\<lparr>QuotaOp_Key = ''producer_byte_rate'', QuotaOp_Value = v, QuotaOp_Remove = rm\<rparr>]\<rparr>"

definition of_user :: "string \<Rightarrow> QuotaEntityComponent \<Rightarrow> bool" where
  "of_user user c = (QuotaEntityComponent_Type c = ''user'' \<and> QuotaEntityComponent_Name c = Some user)"

definition Admin_Quotas_AlterThenDescribe :: "string \<Rightarrow> 's UnderTest \<Rightarrow> 's test" where
  "Admin_Quotas_AlterThenDescribe px u =
    (let user = px @ ''porttest-quota-user'' in
     got (AlterClientQuotas (ut_admin u) [quota_entry user one_mebi False]) (\<lambda>results.
     require (length results = 1 \<and> QuotaAlterResult_Err (hd results) = None) (
     got (DescribeClientQuotas (ut_admin u) ''user'') (\<lambda>quotas.
       check (list_ex (\<lambda>q. list_ex (of_user user) (DescribedQuota_Entity q)
         \<and> list_ex (\<lambda>v. QuotaValue_Key v = ''producer_byte_rate'' \<and> QuotaValue_Value v = one_mebi)
             (DescribedQuota_Values q)) quotas)))))"

definition Admin_Quotas_RemoveKey :: "string \<Rightarrow> 's UnderTest \<Rightarrow> 's test" where
  "Admin_Quotas_RemoveKey px u =
    (let user = px @ ''porttest-quota-removekey'' in
     got (AlterClientQuotas (ut_admin u) [quota_entry user two_mebi False]) (\<lambda>_.
     got (AlterClientQuotas (ut_admin u) [quota_entry user 0 True]) (\<lambda>results.
     require (length results = 1 \<and> QuotaAlterResult_Err (hd results) = None) (
     got (DescribeClientQuotas (ut_admin u) ''user'') (\<lambda>quotas.
       check (\<not> list_ex (\<lambda>q. list_ex (of_user user) (DescribedQuota_Entity q)) quotas))))))"

section \<open>The suite of the admin port\<close>

definition runAdmin :: "string \<Rightarrow> 's UnderTest \<Rightarrow> (string \<times> 's test) list" where
  "runAdmin px u =
    [(''Admin_DescribeCluster_ReturnsSeededBrokers'', Admin_DescribeCluster_ReturnsSeededBrokers u),
     (''Admin_Unreachable_KindUnavailable'', Admin_Unreachable_KindUnavailable u),
     (''Any_DeadlineExceeded_KindTimeout'', Any_DeadlineExceeded_KindTimeout u),
     (''Admin_DescribeBrokerConfigs_SensitiveHasNilValue'', Admin_DescribeBrokerConfigs_SensitiveHasNilValue u),
     (''Admin_DescribeBrokerConfigs_MissingBrokerNotFound'', Admin_DescribeBrokerConfigs_MissingBrokerNotFound u),
     (''Admin_ListTopics_IncludesInternalFlag'', Admin_ListTopics_IncludesInternalFlag u),
     (''Admin_DescribeTopics_MissingNotFound'', Admin_DescribeTopics_MissingNotFound u),
     (''Admin_DescribeTopicConfigs_SourceNormalised'', Admin_DescribeTopicConfigs_SourceNormalised u),
     (''Admin_ListOffsets_StartEnd'', Admin_ListOffsets_StartEnd u),
     (''Admin_ListOffsetsAfterMilli_FirstAtOrAfter'', Admin_ListOffsetsAfterMilli_FirstAtOrAfter u),
     (''Admin_DescribeLogDirs_PerReplicaBytes'', Admin_DescribeLogDirs_PerReplicaBytes u),
     (''Admin_ListGroups_StateAndMemberCount'', Admin_ListGroups_StateAndMemberCount u),
     (''Admin_DescribeGroups_MissingIsNotFound'', Admin_DescribeGroups_MissingIsNotFound u),
     (''Admin_FetchGroupOffsets_PerPartition'', Admin_FetchGroupOffsets_PerPartition u),
     (''Admin_FetchGroupOffsets_MissingGroupNotFound'', Admin_FetchGroupOffsets_MissingGroupNotFound u),
     (''Admin_CreateTopics_ValidateOnlyCreatesNothing'', Admin_CreateTopics_ValidateOnlyCreatesNothing px u),
     (''Admin_CreateTopics_ExistingIsAlreadyExists'', Admin_CreateTopics_ExistingIsAlreadyExists px u),
     (''Admin_IncrementalAlterTopicConfigs_SetAndResetToDefault'', Admin_IncrementalAlterTopicConfigs_SetAndResetToDefault px u),
     (''Admin_CreatePartitions_IncreaseSucceeds'', Admin_CreatePartitions_IncreaseSucceeds px u),
     (''Admin_CreatePartitions_DecreaseIsError'', Admin_CreatePartitions_DecreaseIsError px u),
     (''Admin_DeleteTopics_RemovesTopic'', Admin_DeleteTopics_RemovesTopic px u),
     (''Admin_DeleteTopics_MissingIsNotFound'', Admin_DeleteTopics_MissingIsNotFound px u),
     (''Admin_DeleteRecords_RaisesBeginOffset'', Admin_DeleteRecords_RaisesBeginOffset px u),
     (''Admin_DeleteRecords_BeyondEndIsError'', Admin_DeleteRecords_BeyondEndIsError px u),
     (''Admin_CommitGroupOffsets_CreatesAbsentGroup'', Admin_CommitGroupOffsets_CreatesAbsentGroup px u),
     (''Admin_CommitGroupOffsets_ActiveGroupIsGroupActive'', Admin_CommitGroupOffsets_ActiveGroupIsGroupActive px u),
     (''Admin_DeleteGroups_ActiveIsGroupActive'', Admin_DeleteGroups_ActiveIsGroupActive px u),
     (''Admin_DeleteGroups_InactiveRemoved'', Admin_DeleteGroups_InactiveRemoved px u),
     (''Admin_LeaveGroup_RemovesListedMembers'', Admin_LeaveGroup_RemovesListedMembers px u),
     (''Admin_DescribeQuorum_LeaderAndVoters'', Admin_DescribeQuorum_LeaderAndVoters u),
     (''Admin_DescribeQuorum_UnsupportedIsKindUnsupported'', Admin_DescribeQuorum_UnsupportedIsKindUnsupported u),
     (''Admin_Reassignments_ListAfterAlter'', Admin_Reassignments_ListAfterAlter px u),
     (''Admin_Reassignments_Cancel'', Admin_Reassignments_Cancel px u),
     (''Admin_ElectLeaders_PreferredAndUnclean'', Admin_ElectLeaders_PreferredAndUnclean px u),
     (''Admin_IncrementalAlterBrokerConfigs_SetAndReset'', Admin_IncrementalAlterBrokerConfigs_SetAndReset u),
     (''Admin_DescribeLogDirs_AllBrokers'', Admin_DescribeLogDirs_AllBrokers px u),
     (''Admin_SCRAM_UpsertThenDescribeNoSecret'', Admin_SCRAM_UpsertThenDescribeNoSecret px u),
     (''Admin_SCRAM_DeleteRemoves'', Admin_SCRAM_DeleteRemoves px u),
     (''Admin_SCRAM_DescribeMissingIsNotFound'', Admin_SCRAM_DescribeMissingIsNotFound px u),
     (''Admin_Quotas_AlterThenDescribe'', Admin_Quotas_AlterThenDescribe px u),
     (''Admin_Quotas_RemoveKey'', Admin_Quotas_RemoveKey px u)]"

text \<open>\<open>t.Run\<close> of each case in turn, over the state the one before left; a panic ends the run.\<close>

fun run_cases :: "(string \<times> 's test) list \<Rightarrow> ('s, (string \<times> verdict) list) eff" where
  "run_cases [] = ret []"
| "run_cases ((name, c) # cs) = onOk c (\<lambda>v. onOk (run_cases cs) (\<lambda>vs. ret ((name, v) # vs)))"

definition RunPrefixed :: "'s UnderTest \<Rightarrow> string \<Rightarrow> ('s, (string \<times> verdict) list) eff" where
  "RunPrefixed u px = run_cases (runAdmin px u)"

definition Suite_Run :: "'s UnderTest \<Rightarrow> ('s, (string \<times> verdict) list) eff" where
  "Suite_Run u = RunPrefixed u []"

section \<open>Consumer\<close>

definition assigned :: "'s UnderTest \<Rightarrow> string \<Rightarrow> (int32 \<times> int64) list \<Rightarrow> (Record list \<Rightarrow> 's test) \<Rightarrow> 's test" where
  "assigned u t offsets k =
    got (Assign (ut_consumer u) t [0] offsets) (\<lambda>_. got (Poll (ut_consumer u)) k)"

definition values_are :: "Record list \<Rightarrow> string list \<Rightarrow> bool" where
  "values_are records vs = (map (\<lambda>r. case Record_Value r of Some v \<Rightarrow> v | None \<Rightarrow> []) records = vs)"

definition Consumer_AssignAndPollFromOffset :: "'s UnderTest \<Rightarrow> 's test" where
  "Consumer_AssignAndPollFromOffset u =
    needing (topicSeeder (ut_caps u)) (\<lambda>SeedTopic.
      onOk (SeedTopic ''t-consumer-offset'' 1 [value_record 0 ''a'' zeroTime, value_record 0 ''b'' zeroTime,
        value_record 0 ''c'' zeroTime]) (\<lambda>_.
      assigned u ''t-consumer-offset'' [(0, 1)] (\<lambda>records. check (values_are records [''b'', ''c'']))))"

definition Consumer_PollFromTimestampResolvedOffset :: "'s UnderTest \<Rightarrow> 's test" where
  "Consumer_PollFromTimestampResolvedOffset u =
    needing (topicSeeder (ut_caps u)) (\<lambda>SeedTopic.
      onOk (SeedTopic ''t-consumer-timestamp'' 1 [value_record 0 ''a'' suite_base,
        value_record 0 ''b'' (suite_base + 1000000000), value_record 0 ''c'' (suite_base + 2000000000)]) (\<lambda>_.
      got (ListOffsetsAfterMilli (ut_admin u) ''t-consumer-timestamp'' (UnixMilli (suite_base + 1000000000))) (\<lambda>offsets.
      assigned u ''t-consumer-timestamp'' offsets (\<lambda>records. check (values_are records [''b'', ''c''])))))"

definition Consumer_BeyondEndReturnsNothing :: "'s UnderTest \<Rightarrow> 's test" where
  "Consumer_BeyondEndReturnsNothing u =
    needing (topicSeeder (ut_caps u)) (\<lambda>SeedTopic.
      onOk (SeedTopic ''t-consumer-beyond'' 1 [value_record 0 ''a'' zeroTime]) (\<lambda>_.
      assigned u ''t-consumer-beyond'' [(0, 999)] (\<lambda>records. check (records = []))))"

definition Consumer_NoCommitNoGroupJoin :: "'s UnderTest \<Rightarrow> 's test" where
  "Consumer_NoCommitNoGroupJoin u =
    needing (topicSeeder (ut_caps u)) (\<lambda>SeedTopic.
    needing (commitAsserter (ut_caps u)) (\<lambda>(noCommits, noGroupJoin).
      onOk (SeedTopic ''t-consumer-nocommit'' 1 [value_record 0 ''a'' zeroTime]) (\<lambda>_.
      assigned u ''t-consumer-nocommit'' [(0, 0)] (\<lambda>_ s. check (noCommits s \<and> noGroupJoin s) s))))"

definition Consumer_CloseReleases :: "'s UnderTest \<Rightarrow> 's test" where
  "Consumer_CloseReleases u =
    needing (topicSeeder (ut_caps u)) (\<lambda>SeedTopic.
      onOk (SeedTopic ''t-consumer-close'' 1 [value_record 0 ''a'' zeroTime]) (\<lambda>_.
      assigned u ''t-consumer-close'' [(0, 0)] (\<lambda>_. onOk (Close (ut_consumer u)) (\<lambda>_. check True))))"

definition RunConsumer :: "'s UnderTest \<Rightarrow> ('s, (string \<times> verdict) list) eff" where
  "RunConsumer u = run_cases
    [(''Consumer_AssignAndPollFromOffset'', Consumer_AssignAndPollFromOffset u),
     (''Consumer_PollFromTimestampResolvedOffset'', Consumer_PollFromTimestampResolvedOffset u),
     (''Consumer_BeyondEndReturnsNothing'', Consumer_BeyondEndReturnsNothing u),
     (''Consumer_NoCommitNoGroupJoin'', Consumer_NoCommitNoGroupJoin u),
     (''Consumer_CloseReleases'', Consumer_CloseReleases u)]"

section \<open>Producer\<close>

definition to_produce :: "string \<Rightarrow> int32 option \<Rightarrow> time \<Rightarrow> ProduceRequest" where
  "to_produce v p t = \<lparr>ProduceRequest_Key = None, ProduceRequest_Value = Some v, ProduceRequest_Headers = [],
     ProduceRequest_Partition = p, ProduceRequest_Timestamp = t\<rparr>"

definition Producer_ProduceThenReadBackByteEqual :: "'s UnderTest \<Rightarrow> 's test" where
  "Producer_ProduceThenReadBackByteEqual u =
    needing (topicSeeder (ut_caps u)) (\<lambda>SeedTopic.
      onOk (SeedTopic ''t-produce-readback'' 1 []) (\<lambda>_.
      got (Produce (ut_producer u) ''t-produce-readback'' [(to_produce ''v1'' None zeroTime)\<lparr>ProduceRequest_Key := Some ''k1'',
        ProduceRequest_Headers := [\<lparr>Header_Key = ''h'', Header_Value = ''hv''\<rparr>]\<rparr>]) (\<lambda>results.
      require (length results = 1 \<and> ProduceResult_Err (hd results) = None) (
      got (DescribeTopics (ut_admin u) ''t-produce-readback'') (\<lambda>t.
      require (Topic_Partitions t \<noteq> []) (
      got (ListEndOffsets (ut_admin u) ''t-produce-readback'') (\<lambda>endOffsets.
        check (mget endOffsets 0 (ProduceResult_Partition (hd results)) = wrap64 (ProduceResult_Offset (hd results) + 1)))))))))"

definition Producer_ExplicitPartitionHonoured :: "'s UnderTest \<Rightarrow> 's test" where
  "Producer_ExplicitPartitionHonoured u =
    needing (topicSeeder (ut_caps u)) (\<lambda>SeedTopic.
      onOk (SeedTopic ''t-produce-partition'' 3 []) (\<lambda>_.
      got (Produce (ut_producer u) ''t-produce-partition'' [to_produce ''v'' (Some 2) zeroTime]) (\<lambda>results.
      require (length results = 1 \<and> ProduceResult_Err (hd results) = None) (
        check (ProduceResult_Partition (hd results) = 2)))))"

definition Producer_PartitionOutOfRangeIsError :: "'s UnderTest \<Rightarrow> 's test" where
  "Producer_PartitionOutOfRangeIsError u =
    needing (topicSeeder (ut_caps u)) (\<lambda>SeedTopic.
      onOk (SeedTopic ''t-produce-outofrange'' 1 []) (\<lambda>_.
      got (Produce (ut_producer u) ''t-produce-outofrange'' [to_produce ''v'' (Some 999) zeroTime]) (\<lambda>results.
        check (length results = 1 \<and> (case ProduceResult_Err (hd results) of
          None \<Rightarrow> False | Some e \<Rightarrow> as_kafka e \<noteq> None)))))"

definition Producer_TimestampPreservedOrNow :: "'s UnderTest \<Rightarrow> 's test" where
  "Producer_TimestampPreservedOrNow u =
    needing (topicSeeder (ut_caps u)) (\<lambda>SeedTopic.
      onOk (SeedTopic ''t-produce-timestamp'' 1 []) (\<lambda>_.
      (let explicit = fromUnixMilli 1577836800000 in
       onOk (act (ut_timeNow u)) (\<lambda>t0.
       got (Produce (ut_producer u) ''t-produce-timestamp''
           [to_produce ''explicit'' None explicit, to_produce ''now'' None zeroTime]) (\<lambda>results.
       require (length results = 2 \<and> list_all (\<lambda>r. ProduceResult_Err r = None) results) (
         check (ProduceResult_Timestamp (results ! 0) = explicit \<and> t0 \<le> ProduceResult_Timestamp (results ! 1))))))))"

definition RunProducer :: "'s UnderTest \<Rightarrow> ('s, (string \<times> verdict) list) eff" where
  "RunProducer u = run_cases
    [(''Producer_ProduceThenReadBackByteEqual'', Producer_ProduceThenReadBackByteEqual u),
     (''Producer_ExplicitPartitionHonoured'', Producer_ExplicitPartitionHonoured u),
     (''Producer_PartitionOutOfRangeIsError'', Producer_PartitionOutOfRangeIsError u),
     (''Producer_TimestampPreservedOrNow'', Producer_TimestampPreservedOrNow u)]"

end
