(* ===== verification/PortSuiteProps.thy ===== *)
theory PortSuiteProps
  imports PortSuite FakeClient "HOL-Library.Code_Target_Nat"
begin

text \<open>
  The in-memory cluster under the contract suite of the port, as \<^verbatim>\<open>fake/fake_test.go\<close> runs it: it has every
  capability, so no case is skipped, and every case passes.
\<close>

section \<open>The in-memory cluster under test\<close>

text \<open>\<open>context.WithTimeout\<close> with a nanosecond, and the wait for its end.\<close>

definition expired_ctx :: "Fake \<Rightarrow> Ctx \<times> Fake" where
  "expired_ctx f = (let d = fk_wall f + 1 in
     (\<lparr>ctx_Done = Some d, ctx_Cause = PlainError ''context deadline exceeded''\<rparr>, f\<lparr>fk_wall := d\<rparr>))"

definition fake_caps :: "Fake Capabilities" where
  "fake_caps = \<lparr>adminSeeder = Some SeedBroker, unreachabler = Some Unreachable,
     topicSeeder = Some (\<lambda>name n rs f. case SeedTopic name n rs f of None \<Rightarrow> (Panic, f) | Some f' \<Rightarrow> (Ok (), f')),
     topicMetaSeeder = Some SeedTopicMeta, brokerConfigSeeder = Some SeedBrokerConfigs,
     topicConfigSeeder = Some SeedTopicConfigs, logDirSeeder = Some SeedLogDir, groupSeeder = Some SeedGroup,
     groupMetaSeeder = Some SeedGroupMeta, groupMemberSeeder = Some SeedGroupMember, quorumSeeder = Some SeedQuorum,
     faultInjector = Some FailNext, commitAsserter = Some (AssertNoCommits, AssertNoGroupJoin)\<rparr>"

definition fake_under_test :: "Fake UnderTest" where
  "fake_under_test = \<lparr>ut_admin = fake_admin Background,
     ut_expired = (\<lambda>f. case expired_ctx f of (ctx, f') \<Rightarrow> (fake_admin ctx, f')),
     ut_consumer = fake_consumer Background, ut_producer = fake_producer Background,
     ut_timeNow = (\<lambda>f. (fk_wall f, f)), ut_caps = fake_caps\<rparr>"

section \<open>Verdicts\<close>

text \<open>A case of the admin suite on a new cluster; the shorter suites in one run over one cluster.\<close>

definition passes :: "Fake test \<Rightarrow> bool" where
  "passes c = (case fst (c (Fake_New suite_base)) of Ok Pass \<Rightarrow> True | _ \<Rightarrow> False)"

definition all_pass :: "(string \<times> verdict) list res \<Rightarrow> bool" where
  "all_pass r = (case r of Ok vs \<Rightarrow> list_all (\<lambda>(_, v). v = Pass) vs | _ \<Rightarrow> False)"

lemma admin_cases_reads: "list_all (passes \<circ> snd) (take 15 (runAdmin [] fake_under_test))"
  by code_simp

lemma admin_cases_topics: "list_all (passes \<circ> snd) (take 14 (drop 15 (runAdmin [] fake_under_test)))"
  by code_simp

lemma admin_cases_cluster: "list_all (passes \<circ> snd) (drop 29 (runAdmin [] fake_under_test))"
  by code_simp

lemma consumer_cases: "all_pass (fst (RunConsumer fake_under_test (Fake_New suite_base)))"
  by code_simp

lemma producer_cases: "all_pass (fst (RunProducer fake_under_test (Fake_New suite_base)))"
  by code_simp

text \<open>
  The in-memory cluster keeps the contract of the port: every case of the admin suite passes on a new
  cluster, none is skipped, and so do the consumer and the producer suite, run case after case.
\<close>

lemma contract_suite_passes:
  "list_all (passes \<circ> snd) (runAdmin [] fake_under_test)
   \<and> all_pass (fst (RunConsumer fake_under_test (Fake_New suite_base)))
   \<and> all_pass (fst (RunProducer fake_under_test (Fake_New suite_base)))"
proof (intro conjI consumer_cases producer_cases)
  have split: "xs = take 15 xs @ take 14 (drop 15 xs) @ drop 29 xs" for xs :: "(string \<times> Fake test) list"
    using append_take_drop_id [of 15 xs] append_take_drop_id [of 14 "drop 15 xs"] by simp
  show "list_all (passes \<circ> snd) (runAdmin [] fake_under_test)"
    by (subst split, simp only: list_all_append admin_cases_reads admin_cases_topics admin_cases_cluster simp_thms)
qed

end
