(* ===== verification/AcceptanceReport.thy ===== *)
theory AcceptanceReport
  imports Command TextParse GoTime
begin

text \<open>
  The release gate (\<^verbatim>\<open>tools/acceptance-report/main.go\<close>): a program that reads the event stream of a test
  run, writes the report document with one row per catalog command, and exits with zero only for a run that
  is release evidence.

  \<open>json.Unmarshal\<close> of one line and the conversion of its \<open>float64\<close> seconds to a duration are the arguments
  \<open>unmarshal\<close> and \<open>nanos\<close>; the file system and the two output streams are the operations of a \<open>Host\<close>. Standard
  input is the bytes read up to its end or to the first read error.
\<close>

section \<open>Data\<close>

definition contractTest :: string where
  "contractTest = ''TestFranz_PortContract''"

datatype ReportResult = PASS | FAIL | SKIP | MISSING

fun ReportResult_string :: "ReportResult \<Rightarrow> string" where
  "ReportResult_string PASS = ''PASS''"
| "ReportResult_string FAIL = ''FAIL''"
| "ReportResult_string SKIP = ''SKIP''"
| "ReportResult_string MISSING = ''MISSING''"

record CatalogCommand =
  CatalogCommand_ID :: string
  CatalogCommand_Name :: string

record Row =
  Row_Command :: CatalogCommand
  Row_Result :: ReportResult
  Row_Duration :: int64

record Report =
  Report_GatewayVersion :: string
  Report_Date :: string
  Report_BrokerVersion :: string
  Report_RunID :: string
  Report_Rows :: "Row list"
  Report_Contract :: ReportResult
  Report_ContractCases :: int

record 'f testEvent =
  te_Action :: string
  te_Test :: string
  te_Elapsed :: 'f
  te_Output :: string

record outcome =
  oc_passed :: int
  oc_failed :: int
  oc_skipped :: int
  oc_elapsed :: int64

definition zero_outcome :: outcome where
  "zero_outcome = \<lparr>oc_passed = 0, oc_failed = 0, oc_skipped = 0, oc_elapsed = 0\<rparr>"

section \<open>The catalog\<close>

text \<open>The embedded file \<^verbatim>\<open>catalog.tsv\<close>.\<close>

definition tsv_line :: "string \<times> string \<Rightarrow> string" where
  "tsv_line = (\<lambda>(i, n). i @ CHR 0x09 # n @ [CHR 0x0A])"

definition catalog_rows :: "(string \<times> string) list" where
  "catalog_rows =
    [(''C1'', ''Describe cluster''), (''C2'', ''Describe broker configuration''),
     (''C3'', ''Gateway health & connectivity''), (''C4'', ''Cluster health summary''),
     (''T1'', ''List topics''), (''T2'', ''Describe topic''), (''T3'', ''Partition / topic on-disk size''),
     (''T4'', ''Message count in a time window''), (''M1'', ''Read messages''), (''M2'', ''Fetch single message''),
     (''M3'', ''Search messages by regex''), (''M4'', ''Search messages by JSONPath filter''),
     (''M5'', ''Produce message(s)''), (''M6'', ''Bulk produce from upload''),
     (''M7'', ''Send tombstone for a key''), (''G1'', ''List consumer groups''),
     (''G2'', ''Describe consumer group''), (''G3'', ''Groups consuming a topic''), (''T5'', ''Create topic''),
     (''T6'', ''Bulk create topics''), (''T7'', ''Delete topic''), (''T8'', ''Bulk delete topics''),
     (''T9'', ''Alter topic configuration''), (''T10'', ''Add partitions''), (''T11'', ''Delete records''),
     (''T12'', ''Purge topic''), (''G4'', ''Reset consumer group offsets''), (''G5'', ''Delete consumer group''),
     (''G6'', ''Remove members from consumer group''), (''G7'', ''Clone consumer group offsets''),
     (''M8'', ''Replay / copy message range''), (''C5'', ''Alter broker dynamic configuration''),
     (''C6'', ''KRaft quorum status''), (''C7'', ''In-progress partition reassignments''),
     (''C8'', ''Broker disk usage per log directory''), (''C9'', ''Partition reassignment & leader election''),
     (''C10'', ''Throughput sample''), (''C11'', ''Export topic / cluster definitions''),
     (''C12'', ''Import / apply topic definitions''), (''S1'', ''Manage SCRAM credentials''),
     (''S2'', ''Manage client quotas'')]"

definition catalogTSV :: string where
  "catalogTSV = concat (map tsv_line catalog_rows)"

text \<open>\<open>strings.Cut\<close> at a byte, and \<open>strings.TrimRight\<close> with a cutset of one byte.\<close>

fun Cut :: "char \<Rightarrow> string \<Rightarrow> (string \<times> string) option" where
  "Cut sep [] = None"
| "Cut sep (c # cs) = (if c = sep then Some ([], cs) else map_option (\<lambda>(a, b). (c # a, b)) (Cut sep cs))"

definition TrimRight :: "char \<Rightarrow> string \<Rightarrow> string" where
  "TrimRight c s = rev (dropWhile (\<lambda>x. x = c) (rev s))"

fun parseCatalog_lines :: "int \<Rightarrow> string list \<Rightarrow> error + CatalogCommand list" where
  "parseCatalog_lines i [] = Inr []"
| "parseCatalog_lines i (line # ls) =
    (let bad = Inl (PlainError (''catalog.tsv line '' @ itoa (i + 1) @ '': want <id>'' @ CHR 0x5C # ''t<name>''))
     in case Cut (CHR 0x09) (TrimRight (CHR 0x0D) line) of
       None \<Rightarrow> bad
     | Some (ident, name) \<Rightarrow>
         if ident = [] \<or> name = [] then bad
         else map_sum id (\<lambda>cs. \<lparr>CatalogCommand_ID = ident, CatalogCommand_Name = name\<rparr> # cs)
           (parseCatalog_lines (i + 1) ls))"

definition parseCatalog :: "string \<Rightarrow> error + CatalogCommand list" where
  "parseCatalog tsv = parseCatalog_lines 0 (Split (CHR 0x0A) (TrimSpace tsv))"

section \<open>The event stream\<close>

text \<open>
  \<open>bufio.Scanner\<close> with a buffer of at most \<open>limit\<close> bytes: the lines without their ends, and \<open>None\<close> where a line
  fills the buffer (\<open>bufio.ErrTooLong\<close>), which ends the scan.
\<close>

fun Scanner_lines :: "int \<Rightarrow> string \<Rightarrow> bytes \<Rightarrow> bytes option list" where
  "Scanner_lines limit cur [] =
    (if limit \<le> int (length cur) then [None] else if cur = [] then [] else [Some (TrimSuffix cur [CHR 0x0D])])"
| "Scanner_lines limit cur (c # cs) =
    (if limit \<le> int (length cur) then [None]
     else if c = CHR 0x0A then Some (TrimSuffix cur [CHR 0x0D]) # Scanner_lines limit [] cs
     else Scanner_lines limit (cur @ [c]) cs)"

definition scanner_limit :: int where
  "scanner_limit = 4 * 1024 * 1024"

text \<open>\<open>ACCEPTANCE-META run-id=(\S+) broker-version=(\S+)\<close>: the leftmost match and its two groups.\<close>

definition is_S :: "char \<Rightarrow> bool" where
  "is_S c \<longleftrightarrow> c \<notin> {CHR 0x09, CHR 0x0A, CHR 0x0C, CHR 0x0D, CHR '' ''}"

definition metaLine_at :: "string \<Rightarrow> (string \<times> string) option" where
  "metaLine_at s = (case CutPrefix s ''ACCEPTANCE-META run-id='' of
     None \<Rightarrow> None
   | Some r \<Rightarrow> (case CutPrefix (dropWhile is_S r) '' broker-version='' of
       None \<Rightarrow> None
     | Some b \<Rightarrow> if takeWhile is_S r = [] \<or> takeWhile is_S b = [] then None
                else Some (takeWhile is_S r, takeWhile is_S b)))"

fun metaLine :: "string \<Rightarrow> (string \<times> string) option" where
  "metaLine [] = metaLine_at []"
| "metaLine (c # cs) = (case metaLine_at (c # cs) of Some m \<Rightarrow> Some m | None \<Rightarrow> metaLine cs)"

text \<open>\<open>^TestAcceptance_([A-Z][0-9]+)_[A-Za-z0-9_]+$\<close>: its group.\<close>

definition is_upper :: "char \<Rightarrow> bool" where
  "is_upper c \<longleftrightarrow> 65 \<le> (of_char c :: nat) \<and> (of_char c :: nat) \<le> 90"

definition is_word :: "char \<Rightarrow> bool" where
  "is_word c \<longleftrightarrow> is_upper c \<or> is_digit c \<or> c = CHR ''_'' \<or> (97 \<le> (of_char c :: nat) \<and> (of_char c :: nat) \<le> 122)"

definition acceptanceTest :: "string \<Rightarrow> string option" where
  "acceptanceTest s = (case CutPrefix s ''TestAcceptance_'' of
     None \<Rightarrow> None
   | Some [] \<Rightarrow> None
   | Some (c # r) \<Rightarrow> (case dropWhile is_digit r of
       u # w \<Rightarrow> if is_upper c \<and> takeWhile is_digit r \<noteq> [] \<and> u = CHR ''_'' \<and> w \<noteq> [] \<and> list_all is_word w
               then Some (c # takeWhile is_digit r) else None
     | [] \<Rightarrow> None))"

record stream =
  st_outcomes :: "(string \<times> outcome) list"
  st_contract :: outcome
  st_contractCases :: int
  st_runID :: string
  st_broker :: string

definition zero_stream :: stream where
  "zero_stream = \<lparr>st_outcomes = [], st_contract = zero_outcome, st_contractCases = 0, st_runID = [], st_broker = []\<rparr>"

definition record_event :: "('f \<Rightarrow> int64) \<Rightarrow> outcome \<Rightarrow> 'f testEvent \<Rightarrow> outcome" where
  "record_event nanos oc ev =
    (let oc' = (if te_Action ev = ''pass'' then oc\<lparr>oc_passed := oc_passed oc + 1\<rparr>
                else if te_Action ev = ''fail'' then oc\<lparr>oc_failed := oc_failed oc + 1\<rparr>
                else if te_Action ev = ''skip'' then oc\<lparr>oc_skipped := oc_skipped oc + 1\<rparr> else oc)
     in oc'\<lparr>oc_elapsed := wrap64 (oc_elapsed oc + nanos (te_Elapsed ev))\<rparr>)"

text \<open>The body of the loop of \<open>scan\<close> for one decoded event.\<close>

definition scan_event :: "('f \<Rightarrow> int64) \<Rightarrow> 'f testEvent \<Rightarrow> stream \<Rightarrow> stream" where
  "scan_event nanos ev s =
    (let s = (case metaLine (te_Output ev) of
         Some (r, b) \<Rightarrow> s\<lparr>st_runID := r, st_broker := b\<rparr> | None \<Rightarrow> s)
     in if te_Action ev \<noteq> ''pass'' \<and> te_Action ev \<noteq> ''fail'' \<and> te_Action ev \<noteq> ''skip'' then s
        else if te_Test ev = contractTest then s\<lparr>st_contract := record_event nanos (st_contract s) ev\<rparr>
        else if HasPrefix (te_Test ev) (contractTest @ ''/'') then
          (if length (filter (\<lambda>c. c = CHR ''/'') (te_Test ev)) = 2
           then s\<lparr>st_contractCases := st_contractCases s + 1\<rparr> else s)
        else (case acceptanceTest (te_Test ev) of
            Some i \<Rightarrow> s\<lparr>st_outcomes := mput i (record_event nanos (mget (st_outcomes s) zero_outcome i) ev) (st_outcomes s)\<rparr>
          | None \<Rightarrow> s))"

fun scan_loop ::
  "(bytes \<Rightarrow> error + 'f testEvent) \<Rightarrow> ('f \<Rightarrow> int64) \<Rightarrow> error option \<Rightarrow> stream \<Rightarrow> bytes option list \<Rightarrow> error + stream"
where
  "scan_loop unmarshal nanos readErr s [] =
    (case readErr of Some e \<Rightarrow> Inl (WrapError ''read input: '' e) | None \<Rightarrow> Inr s)"
| "scan_loop unmarshal nanos readErr s (None # ls) =
    Inl (WrapError ''read input: '' (PlainError ''bufio.Scanner: token too long''))"
| "scan_loop unmarshal nanos readErr s (Some line # ls) =
    (if TrimSpace line = [] then scan_loop unmarshal nanos readErr s ls
     else (case unmarshal line of
         Inl e \<Rightarrow> Inl (WrapError ''not a go test -json stream: '' e)
       | Inr ev \<Rightarrow> scan_loop unmarshal nanos readErr (scan_event nanos ev s) ls))"

definition scan_stream ::
  "(bytes \<Rightarrow> error + 'f testEvent) \<Rightarrow> ('f \<Rightarrow> int64) \<Rightarrow> bytes \<times> error option \<Rightarrow> error + stream"
where
  "scan_stream unmarshal nanos events =
    scan_loop unmarshal nanos (snd events) zero_stream (Scanner_lines scanner_limit [] (fst events))"

definition outcome_result :: "outcome \<Rightarrow> ReportResult" where
  "outcome_result oc =
    (if 0 < oc_failed oc then FAIL else if 0 < oc_skipped oc then SKIP
     else if 0 < oc_passed oc then PASS else MISSING)"

section \<open>The report\<close>

definition report_row :: "stream \<Rightarrow> CatalogCommand \<Rightarrow> Row" where
  "report_row s c = (case map_of (st_outcomes s) (CatalogCommand_ID c) of
     Some oc \<Rightarrow> \<lparr>Row_Command = c, Row_Result = outcome_result oc, Row_Duration = oc_elapsed oc\<rparr>
   | None \<Rightarrow> \<lparr>Row_Command = c, Row_Result = MISSING, Row_Duration = 0\<rparr>)"

definition row_problem :: "Row \<Rightarrow> string" where
  "row_problem r = CatalogCommand_ID (Row_Command r) @ '' ('' @ CatalogCommand_Name (Row_Command r) @ ''): ''
     @ ReportResult_string (Row_Result r)"

definition count_passed :: "Row list \<Rightarrow> int" where
  "count_passed rows = int (length (filter (\<lambda>r. Row_Result r = PASS) rows))"

text \<open>\<open>build\<close> after the stream has been read.\<close>

definition assemble :: "CatalogCommand list \<Rightarrow> string \<Rightarrow> string \<Rightarrow> stream \<Rightarrow> Report \<times> string list" where
  "assemble catalog version date s =
    (let rows = map (report_row s) catalog;
         passed = count_passed rows;
         contract = (if st_contract s = zero_outcome then MISSING else outcome_result (st_contract s));
         noMeta = (st_runID s = []);
         problems = map row_problem (filter (\<lambda>r. Row_Result r \<noteq> PASS) rows)
           @ (if contract \<noteq> PASS
              then [''franz contract suite ('' @ contractTest @ ''): '' @ ReportResult_string contract] else [])
           @ (if noMeta then [''no ACCEPTANCE-META line: run id and broker version unknown''] else [])
     in (\<lparr>Report_GatewayVersion = version, Report_Date = date,
          Report_BrokerVersion = (if noMeta then ''unknown'' else st_broker s),
          Report_RunID = (if noMeta then ''unknown'' else st_runID s), Report_Rows = rows,
          Report_Contract = contract, Report_ContractCases = st_contractCases s\<rparr>,
         (if passed \<noteq> int (length catalog)
          then [itoa passed @ '' of '' @ itoa (int (length catalog)) @ '' commands passed''] else []) @ problems))"

definition build ::
  "(bytes \<Rightarrow> error + 'f testEvent) \<Rightarrow> ('f \<Rightarrow> int64) \<Rightarrow> CatalogCommand list \<Rightarrow> bytes \<times> error option \<Rightarrow>
   string \<Rightarrow> string \<Rightarrow> error + Report \<times> string list"
where
  "build unmarshal nanos catalog events version date =
    map_sum id (assemble catalog version date) (scan_stream unmarshal nanos events)"

subsection \<open>Durations\<close>

text \<open>\<open>Duration.Round\<close>: to the nearest multiple, halves away from zero, saturating.\<close>

definition Duration_Round :: "int64 \<Rightarrow> int64 \<Rightarrow> int64" where
  "Duration_Round d m =
    (let r = \<bar>d\<bar> mod m
     in if m \<le> 0 then d
        else if d < 0 then
          (if r + r < m then d + r else if in_int64 (d - m + r) then d - m + r else - 9223372036854775808)
        else (if r + r < m then d - r else if in_int64 (d + m - r) then d + m - r else 9223372036854775807))"

text \<open>\<open>fmtFrac\<close>: the last \<open>prec\<close> digits without trailing zeros, and no point if none is left.\<close>

definition fmtFrac :: "nat \<Rightarrow> int \<Rightarrow> string" where
  "fmtFrac prec v =
    (case rev (dropWhile (\<lambda>c. c = CHR ''0'') (rev (appendInt prec (v mod 10 ^ prec)))) of
       [] \<Rightarrow> [] | ds \<Rightarrow> CHR ''.'' # ds)"

definition Duration_String :: "int64 \<Rightarrow> string" where
  "Duration_String d =
    (let u = \<bar>d\<bar>; secs = u div 1000000000; body =
       (if u = 0 then ''0s''
        else if u < 1000 then itoa u @ ''ns''
        else if u < 1000000 then itoa (u div 1000) @ fmtFrac 3 u @ [CHR 0xC2, CHR 0xB5, CHR ''s'']
        else if u < 1000000000 then itoa (u div 1000000) @ fmtFrac 6 u @ ''ms''
        else (if 3600 \<le> secs then itoa (secs div 3600) @ ''h'' else [])
          @ (if 60 \<le> secs then itoa (secs div 60 mod 60) @ ''m'' else [])
          @ itoa (secs mod 60) @ fmtFrac 9 u @ ''s'')
     in (if d < 0 then ''-'' else []) @ body)"

subsection \<open>The document\<close>

definition overall :: "Report \<Rightarrow> ReportResult" where
  "overall r = (if count_passed (Report_Rows r) \<noteq> int (length (Report_Rows r)) \<or> Report_Contract r \<noteq> PASS
     then FAIL else PASS)"

definition text_line :: "string list \<Rightarrow> string" where
  "text_line parts = concat parts @ [CHR 0x0A]"

definition render_row :: "Report \<Rightarrow> Row \<Rightarrow> string" where
  "render_row r line = text_line [''| '', CatalogCommand_ID (Row_Command line), '' | '',
     CatalogCommand_Name (Row_Command line), '' | '', ReportResult_string (Row_Result line), '' | '',
     Duration_String (Duration_Round (Row_Duration line) 1000000), '' | '', Report_BrokerVersion r, '' | '',
     Report_RunID r, '' |'']"

definition render :: "Report \<Rightarrow> string" where
  "render r =
     text_line [''# Acceptance report: kafka3o-gateway '', Report_GatewayVersion r] @ text_line []
     @ text_line [''| | |''] @ text_line [''|---|---|'']
     @ text_line [''| Result | **'', ReportResult_string (overall r), ''**, '', itoa (count_passed (Report_Rows r)),
         '' of '', itoa (int (length (Report_Rows r))), '' commands passed |'']
     @ text_line [''| Date | '', Report_Date r, '' |'']
     @ text_line [''| Gateway version | '', Report_GatewayVersion r, '' |'']
     @ text_line [''| Broker version | '', Report_BrokerVersion r, '' |'']
     @ text_line [''| Run id | '', Report_RunID r, '' |'']
     @ text_line [''| franz contract suite | '', ReportResult_string (Report_Contract r), '' ('',
         itoa (Report_ContractCases r), '' cases) |''] @ text_line []
     @ text_line [''| ID | Command | Result | Duration | Broker version | Run id |'']
     @ text_line [''|---|---|---|---|---|---|'']
     @ concat (map (render_row r) (Report_Rows r))"

section \<open>The program\<close>

text \<open>\<open>filepath.Join\<close> on a system whose separator is a slash.\<close>

definition clean_step :: "bool \<Rightarrow> string \<Rightarrow> string list \<Rightarrow> string list" where
  "clean_step rooted seg stack =
    (if seg = [] \<or> seg = ''.'' then stack
     else if seg = ''..'' then
       (if stack \<noteq> [] \<and> hd stack \<noteq> ''..'' then tl stack else if rooted then stack else ''..'' # stack)
     else seg # stack)"

fun slash_join :: "string list \<Rightarrow> string" where
  "slash_join [] = []"
| "slash_join [x] = x"
| "slash_join (x # xs) = x @ CHR ''/'' # slash_join xs"

definition Clean :: "string \<Rightarrow> string" where
  "Clean p = (let rooted = HasPrefix p ''/'';
                  body = slash_join (rev (fold (clean_step rooted) (Split (CHR ''/'') p) []))
     in if rooted then CHR ''/'' # body else if body = [] then ''.'' else body)"

definition path_Join :: "string list \<Rightarrow> string" where
  "path_Join elems = (case dropWhile (\<lambda>e. e = []) elems of [] \<Rightarrow> [] | es \<Rightarrow> Clean (slash_join es))"

record Flags =
  fl_version :: string
  fl_date :: string
  fl_out :: string

text \<open>\<open>Time.Format("2006-01-02")\<close> of a time in UTC.\<close>

definition format_Date :: "time \<Rightarrow> string" where
  "format_Date t = (case civil (t div second_ns div 86400 + epoch_day) of
     (year, month, day) \<Rightarrow> appendInt 4 year @ ''-'' @ appendInt 2 month @ ''-'' @ appendInt 2 day)"

definition default_flags :: "time \<Rightarrow> Flags" where
  "default_flags now =
    \<lparr>fl_version = ''dev'', fl_date = format_Date now, fl_out = path_Join [''docs'', ''acceptance'']\<rparr>"

definition set_flag :: "string \<Rightarrow> string \<Rightarrow> Flags \<Rightarrow> Flags option" where
  "set_flag name v fl =
    (if name = ''version'' then Some (fl\<lparr>fl_version := v\<rparr>)
     else if name = ''date'' then Some (fl\<lparr>fl_date := v\<rparr>)
     else if name = ''out'' then Some (fl\<lparr>fl_out := v\<rparr>) else None)"

text \<open>\<open>FlagSet.Parse\<close> for string flags: \<open>Inl None\<close> is \<open>flag.ErrHelp\<close>.\<close>

fun parseFlags :: "string list \<Rightarrow> Flags \<Rightarrow> string option + Flags" where
  "parseFlags [] fl = Inr fl"
| "parseFlags (s # args) fl =
    (if length s < 2 \<or> s ! 0 \<noteq> CHR ''-'' \<or> s = ''--'' then Inr fl
     else let name = (if s ! 1 = CHR ''-'' then drop 2 s else drop 1 s) in
     if HasPrefix name ''-'' \<or> HasPrefix name ''='' then Inl (Some (''bad flag syntax: '' @ s))
     else case Cut (CHR ''='') name of
       Some (name, v) \<Rightarrow> (case set_flag name v fl of
           Some fl \<Rightarrow> parseFlags args fl
         | None \<Rightarrow> Inl (if name = ''help'' \<or> name = ''h'' then None else Some (''flag provided but not defined: -'' @ name)))
     | None \<Rightarrow> (if set_flag name [] fl = None
           then Inl (if name = ''help'' \<or> name = ''h'' then None else Some (''flag provided but not defined: -'' @ name))
           else case args of
             [] \<Rightarrow> Inl (Some (''flag needs an argument: -'' @ name))
           | v # rest \<Rightarrow> (case set_flag name v fl of Some fl \<Rightarrow> parseFlags rest fl | None \<Rightarrow> Inl None)))"

definition usage_line :: "string \<Rightarrow> string \<Rightarrow> string \<Rightarrow> string" where
  "usage_line name use def = text_line [''  -'', name, '' string'', [CHR 0x0A], ''    '', [CHR 0x09], use,
     '' (default '', quoted def, '')'']"

definition usage :: "Flags \<Rightarrow> string" where
  "usage fl = text_line [''Usage of acceptance-report:'']
     @ usage_line ''date'' ''report date, YYYY-MM-DD'' (fl_date fl)
     @ usage_line ''out'' ''output directory'' (fl_out fl)
     @ usage_line ''version'' ''gateway version (file name and header)'' (fl_version fl)"

record 's Host =
  Host_Now :: "'s \<Rightarrow> time \<times> 's"
  Host_MkdirAll :: "string \<Rightarrow> int \<Rightarrow> ('s, unit) eff"
  Host_WriteFile :: "string \<Rightarrow> bytes \<Rightarrow> int \<Rightarrow> ('s, unit) eff"
  Host_Stdout :: "string \<Rightarrow> 's \<Rightarrow> 's"
  Host_Stderr :: "string \<Rightarrow> 's \<Rightarrow> 's"

definition complain :: "'s Host \<Rightarrow> string \<Rightarrow> 's \<Rightarrow> 's" where
  "complain host msg = Host_Stderr host (text_line [''acceptance-report: '', msg])"

definition exiting :: "int \<Rightarrow> ('s \<Rightarrow> 's) \<Rightarrow> ('s, int) eff" where
  "exiting n f s = (Ok n, f s)"

text \<open>\<open>run\<close>; its result is the exit status.\<close>

definition run_report ::
  "'s Host \<Rightarrow> (bytes \<Rightarrow> error + 'f testEvent) \<Rightarrow> ('f \<Rightarrow> int64) \<Rightarrow> string list \<Rightarrow> bytes \<times> error option \<Rightarrow> ('s, int) eff"
where
  "run_report host unmarshal nanos args stdin =
    onOk (act (Host_Now host)) (\<lambda>now.
    let defaults = default_flags now in
    case parseFlags args defaults of
      Inl None \<Rightarrow> exiting 2 (Host_Stderr host (usage defaults))
    | Inl (Some msg) \<Rightarrow> exiting 2 (Host_Stderr host (usage defaults) \<circ> Host_Stderr host (text_line [msg]))
    | Inr fl \<Rightarrow>
    (case parseCatalog catalogTSV of
      Inl e \<Rightarrow> exiting 1 (complain host (err_Error e))
    | Inr catalog \<Rightarrow>
    (case build unmarshal nanos catalog stdin (fl_version fl) (fl_date fl) of
      Inl e \<Rightarrow> exiting 1 (complain host (err_Error e))
    | Inr (report, problems) \<Rightarrow>
    attempt (Host_MkdirAll host (fl_out fl) 488) (\<lambda>r. case r of
      Inl e \<Rightarrow> exiting 1 (complain host (err_Error e))
    | Inr _ \<Rightarrow>
    let path = path_Join [fl_out fl, fl_version fl @ ''-'' @ fl_date fl @ ''.md''] in
    attempt (Host_WriteFile host path (render report) 384) (\<lambda>r. case r of
      Inl e \<Rightarrow> exiting 1 (complain host (err_Error e))
    | Inr _ \<Rightarrow>
    exiting (if problems = [] then 0 else 1)
      (fold (complain host) problems \<circ> Host_Stdout host (text_line [''acceptance-report: wrote '', path])))))))"

section \<open>What release evidence is\<close>

text \<open>
  The specification, over the events of the stream: something is verified by a run in which a test of it passed
  and none failed or was skipped.
\<close>

fun decoded :: "(bytes \<Rightarrow> error + 'f testEvent) \<Rightarrow> bytes option list \<Rightarrow> 'f testEvent list option" where
  "decoded unmarshal [] = Some []"
| "decoded unmarshal (None # ls) = None"
| "decoded unmarshal (Some line # ls) =
    (if TrimSpace line = [] then decoded unmarshal ls
     else case unmarshal line of Inl e \<Rightarrow> None | Inr ev \<Rightarrow> map_option ((#) ev) (decoded unmarshal ls))"

definition verified :: "('f testEvent \<Rightarrow> bool) \<Rightarrow> 'f testEvent list \<Rightarrow> bool" where
  "verified tests evs \<longleftrightarrow> (\<exists>ev \<in> set evs. tests ev \<and> te_Action ev = ''pass'')
     \<and> (\<forall>ev \<in> set evs. tests ev \<longrightarrow> te_Action ev \<noteq> ''fail'' \<and> te_Action ev \<noteq> ''skip'')"

definition test_of :: "string \<Rightarrow> 'f testEvent \<Rightarrow> bool" where
  "test_of i ev \<longleftrightarrow> acceptanceTest (te_Test ev) = Some i"

definition contract_test :: "'f testEvent \<Rightarrow> bool" where
  "contract_test ev \<longleftrightarrow> te_Test ev = contractTest"

definition evidence :: "string list \<Rightarrow> 'f testEvent list \<Rightarrow> bool" where
  "evidence ids evs \<longleftrightarrow> list_all (\<lambda>i. verified (test_of i) evs) ids \<and> verified contract_test evs
     \<and> list_ex (\<lambda>ev. metaLine (te_Output ev) \<noteq> None) evs"

section \<open>The scan counts the events\<close>

lemma scan_loop_decoded:
  "decoded unmarshal ls = Some evs \<Longrightarrow> scan_loop unmarshal nanos None s ls = Inr (fold (scan_event nanos) evs s)"
  by (induction ls arbitrary: s evs rule: decoded.induct) (auto split: if_splits sum.splits)

lemma scan_loop_undecoded:
  "decoded unmarshal ls = None \<or> readErr \<noteq> None \<Longrightarrow> \<exists>e. scan_loop unmarshal nanos readErr s ls = Inl e"
  by (induction ls arbitrary: s rule: decoded.induct) (auto split: sum.splits)

definition event_tally :: "string \<Rightarrow> ('f testEvent \<Rightarrow> bool) \<Rightarrow> 'f testEvent list \<Rightarrow> int" where
  "event_tally action tests evs = int (length (filter (\<lambda>ev. tests ev \<and> te_Action ev = action) evs))"

lemma tally_simps [simp]:
  "event_tally action tests [] = 0"
  "event_tally action tests (ev # evs) = (if tests ev \<and> te_Action ev = action then 1 else 0) + event_tally action tests evs"
  by (simp_all add: event_tally_def)

lemma tally_pos: "0 < event_tally action tests evs \<longleftrightarrow> (\<exists>ev \<in> set evs. tests ev \<and> te_Action ev = action)"
  by (auto simp: event_tally_def filter_empty_conv)

lemma HasPrefix_prefix: "HasPrefix t (p @ q) \<Longrightarrow> HasPrefix t p"
  unfolding HasPrefix_def by (metis append_eq_conv_conj append_take_drop_id append.assoc)

lemma contract_is_no_command: "HasPrefix t contractTest \<Longrightarrow> acceptanceTest t = None"
proof -
  assume "HasPrefix t contractTest"
  then have "contractTest @ drop (length contractTest) t = t"
    unfolding HasPrefix_def by (metis append_take_drop_id)
  then obtain r where "t = ''TestFranz_PortContract'' @ r" by (metis contractTest_def)
  then show ?thesis by (simp add: acceptanceTest_def CutPrefix_def HasPrefix_def)
qed

definition tallied :: "('f testEvent \<Rightarrow> bool) \<Rightarrow> 'f testEvent list \<Rightarrow> outcome \<Rightarrow> outcome \<Rightarrow> bool" where
  "tallied tests evs oc oc' \<longleftrightarrow> oc_passed oc' = oc_passed oc + event_tally ''pass'' tests evs
     \<and> oc_failed oc' = oc_failed oc + event_tally ''fail'' tests evs
     \<and> oc_skipped oc' = oc_skipped oc + event_tally ''skip'' tests evs"

definition event_ended :: "'f testEvent \<Rightarrow> bool" where
  "event_ended ev \<longleftrightarrow> te_Action ev = ''pass'' \<or> te_Action ev = ''fail'' \<or> te_Action ev = ''skip''"

text \<open>A counter the scan keeps for the events of \<open>tests\<close>, given as a field of the stream.\<close>

lemma scan_tallies:
  assumes "\<And>ev s. field (scan_event nanos ev s)
             = (if tests ev \<and> event_ended ev then record_event nanos (field s) ev else field s)"
  shows "tallied tests evs (field s) (field (fold (scan_event nanos) evs s))"
proof (induction evs arbitrary: s)
  case (Cons ev evs)
  from Cons.IH [of "scan_event nanos ev s"] show ?case
    by (auto simp: tallied_def assms record_event_def event_ended_def Let_def)
qed (simp add: tallied_def)

lemma metaLine_some: "metaLine t = Some (r, b) \<Longrightarrow> r \<noteq> []"
  by (induction t rule: metaLine.induct) (auto simp: metaLine_at_def split: option.splits if_splits)

lemma scan_event_contract:
  "st_contract (scan_event nanos ev s)
     = (if contract_test ev \<and> event_ended ev then record_event nanos (st_contract s) ev else st_contract s)"
  by (auto simp: scan_event_def Let_def contract_test_def event_ended_def split: option.split)

lemma scan_event_outcome:
  "mget (st_outcomes (scan_event nanos ev s)) zero_outcome i
     = (if test_of i ev \<and> event_ended ev then record_event nanos (mget (st_outcomes s) zero_outcome i) ev
        else mget (st_outcomes s) zero_outcome i)"
proof -
  have "acceptanceTest (te_Test ev) = None"
    if "te_Test ev = contractTest \<or> HasPrefix (te_Test ev) (contractTest @ ''/'')"
    using that HasPrefix_prefix [of "te_Test ev" contractTest "''/''"]
    by (auto intro: contract_is_no_command simp: HasPrefix_def)
  then show ?thesis
    by (auto simp: scan_event_def Let_def test_of_def event_ended_def split: option.split)
qed

lemma scan_event_runID:
  "st_runID (scan_event nanos ev s) = [] \<longleftrightarrow> st_runID s = [] \<and> metaLine (te_Output ev) = None"
  by (auto simp: scan_event_def Let_def dest: metaLine_some split: option.split)

lemma scan_runID:
  "st_runID (fold (scan_event nanos) evs s) = [] \<longleftrightarrow>
     st_runID s = [] \<and> \<not> list_ex (\<lambda>ev. metaLine (te_Output ev) \<noteq> None) evs"
  by (induction evs arbitrary: s) (simp_all add: scan_event_runID del: not_None_eq)

lemma verified_tally:
  "verified tests evs \<longleftrightarrow> 0 < event_tally ''pass'' tests evs \<and> \<not> 0 < event_tally ''fail'' tests evs \<and> \<not> 0 < event_tally ''skip'' tests evs"
  unfolding tally_pos by (auto simp: verified_def)

lemma tallied_verified:
  assumes "tallied tests evs zero_outcome oc"
  shows "outcome_result oc = PASS \<longleftrightarrow> verified tests evs"
  using assms by (auto simp: tallied_def zero_outcome_def outcome_result_def verified_tally)

lemma scanned_verified:
  shows "outcome_result (mget (st_outcomes (fold (scan_event nanos) evs zero_stream)) zero_outcome i) = PASS
           \<longleftrightarrow> verified (test_of i) evs"
    and "outcome_result (st_contract (fold (scan_event nanos) evs zero_stream)) = PASS
           \<longleftrightarrow> verified contract_test evs"
proof -
  have zero: "mget (st_outcomes zero_stream) zero_outcome i = zero_outcome" "st_contract zero_stream = zero_outcome"
    by (simp_all add: zero_stream_def mget_def)
  show "outcome_result (mget (st_outcomes (fold (scan_event nanos) evs zero_stream)) zero_outcome i) = PASS
      \<longleftrightarrow> verified (test_of i) evs"
    using scan_tallies [where field = "\<lambda>s. mget (st_outcomes s) zero_outcome i", OF scan_event_outcome,
        of evs zero_stream] unfolding zero by (rule tallied_verified)
  show "outcome_result (st_contract (fold (scan_event nanos) evs zero_stream)) = PASS
      \<longleftrightarrow> verified contract_test evs"
    using scan_tallies [where field = st_contract, OF scan_event_contract, of evs zero_stream]
    unfolding zero by (rule tallied_verified)
qed

section \<open>The catalog is the command table\<close>

lemma plain_stops:
  assumes "t \<noteq> []" "plain_char (hd t)" "list_all (\<lambda>w. w \<noteq> [] \<and> \<not> plain_char (hd w)) ws"
  shows "trim_prefixes ws t = t"
proof (rule trim_prefixes_stop, intro ballI disjI2 notI)
  fix w assume w: "w \<in> set ws" "take (length w) t = w"
  with assms(3) have "w \<noteq> []" "\<not> plain_char (hd w)" by (auto simp: list_all_iff)
  with w(2) assms(2) show False by (metis hd_take length_greater_0_conv)
qed

lemma spaces_not_plain:
  "list_all (\<lambda>w. w \<noteq> [] \<and> \<not> plain_char (hd w)) unicode_spaces"
  "list_all (\<lambda>w. w \<noteq> [] \<and> \<not> plain_char (hd w)) (map rev unicode_spaces)"
  by (simp_all add: unicode_spaces_def byte_str_def plain_char_def upt_rec_numeral)

lemma TrimSpace_line:
  assumes "s \<noteq> []" "plain_char (hd s)" "plain_char (last s)"
  shows "TrimSpace (s @ [CHR 0x0A]) = s"
proof -
  have "take 2 (map rev unicode_spaces) = [[CHR 0x09], [CHR 0x0A]]" by code_simp
  then have first_spaces: "map rev unicode_spaces = [CHR 0x09] # [CHR 0x0A] # drop 2 (map rev unicode_spaces)"
    by (metis append_Cons append_Nil append_take_drop_id)
  have "find (\<lambda>w. w \<noteq> [] \<and> take (length w) (CHR 0x0A # rev s) = w) (map rev unicode_spaces) = Some [CHR 0x0A]"
    by (subst first_spaces) simp
  then have "trim_prefixes (map rev unicode_spaces) (CHR 0x0A # rev s) = trim_prefixes (map rev unicode_spaces) (rev s)"
    by (subst trim_prefixes.simps) simp
  also have "\<dots> = rev s" using assms by (intro plain_stops spaces_not_plain) (simp_all add: hd_rev)
  finally show ?thesis using assms spaces_not_plain(1) by (simp add: TrimSpace_def plain_stops)
qed

lemma Cut_at: "sep \<notin> set a \<Longrightarrow> Cut sep (a @ sep # b) = Some (a, b)"
  by (induction a) auto

definition tsv_field :: "string \<Rightarrow> bool" where
  "tsv_field s \<longleftrightarrow> s \<noteq> [] \<and> list_all (\<lambda>c. c \<notin> {CHR 0x09, CHR 0x0A, CHR 0x0D}) s"

lemma TrimRight_stop: "s \<noteq> [] \<Longrightarrow> last s \<noteq> c \<Longrightarrow> TrimRight c s = s"
  by (cases s rule: rev_cases) (simp_all add: TrimRight_def)

lemma parse_tsv_lines:
  "list_all (\<lambda>(i, n). tsv_field i \<and> tsv_field n) rows \<Longrightarrow>
   parseCatalog_lines k (map (\<lambda>(i, n). i @ CHR 0x09 # n) rows)
     = Inr (map (\<lambda>(i, n). \<lparr>CatalogCommand_ID = i, CatalogCommand_Name = n\<rparr>) rows)"
proof (induction rows arbitrary: k)
  case (Cons r rows)
  obtain i n where r: "r = (i, n)" by fastforce
  with Cons.prems have f: "tsv_field i" "tsv_field n" by simp_all
  then have "last n \<noteq> CHR 0x0D" "CHR 0x09 \<notin> set i" by (auto simp: tsv_field_def list_all_iff)
  then have "Cut (CHR 0x09) (TrimRight (CHR 0x0D) (i @ CHR 0x09 # n)) = Some (i, n)"
    using f by (simp add: TrimRight_stop Cut_at tsv_field_def)
  with f Cons show ?case by (simp add: r tsv_field_def)
qed simp

lemma Split_lines:
  "list_all (\<lambda>l. sep \<notin> set l) (l # ls) \<Longrightarrow> Split sep (butlast (concat (map (\<lambda>l. l @ [sep]) (l # ls)))) = l # ls"
proof (induction ls arbitrary: l)
  case Nil
  then show ?case by (simp add: butlast_append Split_plain)
next
  case (Cons l' ls)
  let ?t = "concat (map (\<lambda>l. l @ [sep]) (l' # ls))"
  have "butlast (concat (map (\<lambda>l. l @ [sep]) (l # l' # ls))) = l @ sep # butlast ?t"
    by (subst list.map, subst concat.simps) (simp only: append_assoc append_Cons append_Nil butlast_append
        butlast.simps list.distinct if_False list.map concat.simps append_is_Nil_conv simp_thms)
  moreover have "Split sep (l @ sep # butlast ?t) = l # Split sep (butlast ?t)"
    using Cons.prems by (intro Split_append) simp
  moreover have "Split sep (butlast ?t) = l' # ls"
    using Cons.prems by (intro Cons.IH) simp
  ultimately show ?case by (simp only:)
qed

lemma TrimSpace_lines:
  assumes "l \<noteq> []" "plain_char (hd l)" "last (l # ls) \<noteq> []" "plain_char (last (last (l # ls)))"
  shows "TrimSpace (concat (map (\<lambda>l. l @ [CHR 0x0A]) (l # ls)))
    = butlast (concat (map (\<lambda>l. l @ [CHR 0x0A]) (l # ls)))"
proof -
  define t where "t = concat (map (\<lambda>l. l @ [CHR 0x0A]) (l # ls))"
  have "t = concat (map (\<lambda>l. l @ [CHR 0x0A]) (butlast (l # ls) @ [last (l # ls)]))"
    unfolding t_def by (simp only: append_butlast_last_id list.distinct not_False_eq_True)
  then have t: "t = (concat (map (\<lambda>l. l @ [CHR 0x0A]) (butlast (l # ls))) @ last (l # ls)) @ [CHR 0x0A]"
    by (simp only: map_append concat_append list.map concat.simps append_assoc append_Nil2)
  define u where "u = concat (map (\<lambda>l. l @ [CHR 0x0A]) (butlast (l # ls))) @ last (l # ls)"
  have tu: "t = u @ [CHR 0x0A]" using t by (simp only: u_def)
  have u: "u \<noteq> []" "last u = last (last (l # ls))"
    using assms(3) unfolding u_def by (simp_all only: append_is_Nil_conv last_append if_False simp_thms)
  have "hd t = hd l" using assms(1) by (simp add: t_def)
  with tu u(1) have "hd u = hd l" by simp
  with assms(2) have "plain_char (hd u)" by (simp only:)
  moreover have "plain_char (last u)" using assms(4) u(2) by (simp only:)
  ultimately have "TrimSpace (u @ [CHR 0x0A]) = u" using u(1) by (rule TrimSpace_line [rotated])
  then show ?thesis unfolding t_def [symmetric] tu by simp
qed

lemma parseCatalog_tsv:
  assumes "list_all (\<lambda>(i, n). tsv_field i \<and> tsv_field n) (r # rows)"
    and "plain_char (hd (fst r))" "plain_char (last (snd (last (r # rows))))"
  shows "parseCatalog (concat (map tsv_line (r # rows)))
     = Inr (map (\<lambda>(i, n). \<lparr>CatalogCommand_ID = i, CatalogCommand_Name = n\<rparr>) (r # rows))"
proof -
  let ?row = "\<lambda>(i, n). i @ CHR 0x09 # n"
  have lines: "map tsv_line rs = map (\<lambda>l. l @ [CHR 0x0A]) (map ?row rs)" for rs
    by (simp add: tsv_line_def case_prod_beta)
  have fields: "tsv_field (fst x) \<and> tsv_field (snd x)" if "x \<in> set (r # rows)" for x
    using assms(1) that by (auto simp: list_all_iff)
  have "list_all (\<lambda>l. CHR 0x0A \<notin> set l) (map ?row (r # rows))"
    unfolding list.pred_map using assms(1) by (rule list.pred_mono_strong) (auto simp: tsv_field_def list_all_iff)
  then have split: "Split (CHR 0x0A) (butlast (concat (map tsv_line (r # rows)))) = map ?row (r # rows)"
    unfolding lines list.map(2) [of ?row] by (rule Split_lines)
  have last: "last (map ?row (r # rows)) = ?row (last (r # rows))" by (rule last_map) simp
  have "TrimSpace (concat (map tsv_line (r # rows))) = butlast (concat (map tsv_line (r # rows)))"
    unfolding lines list.map(2) [of ?row]
  proof (rule TrimSpace_lines)
    have f: "fst r \<noteq> []" "snd (last (r # rows)) \<noteq> []"
      using fields [of r] fields [of "last (r # rows)"] by (simp_all add: tsv_field_def)
    show "?row r \<noteq> []" "plain_char (hd (?row r))" using f assms(2) by (simp_all add: case_prod_beta)
    show "last (?row r # map ?row rows) \<noteq> []" "plain_char (last (last (?row r # map ?row rows)))"
      unfolding list.map(2) [of ?row, symmetric] last using f assms(3) by (simp_all add: case_prod_beta)
  qed
  with split show ?thesis unfolding parseCatalog_def by (simp only: parse_tsv_lines [OF assms(1)])
qed

lemma catalog_fields: "list_all (\<lambda>(i, n). tsv_field i \<and> tsv_field n) catalog_rows"
  by (simp add: catalog_rows_def tsv_field_def)

lemma catalog_ends: "plain_char (hd (fst (hd catalog_rows)))" "plain_char (last (snd (last catalog_rows)))"
  by (simp_all add: catalog_rows_def plain_char_def)

lemma catalog_is_Table:
  "parseCatalog catalogTSV
     = Inr (map (\<lambda>d. \<lparr>CatalogCommand_ID = Desc_ID d, CatalogCommand_Name = Desc_Name d\<rparr>) Table)"
proof -
  obtain r rows where rs: "catalog_rows = r # rows" by (simp add: catalog_rows_def)
  have "parseCatalog catalogTSV
      = Inr (map (\<lambda>(i, n). \<lparr>CatalogCommand_ID = i, CatalogCommand_Name = n\<rparr>) catalog_rows)"
    using catalog_fields catalog_ends unfolding catalogTSV_def rs list.sel(1) by (rule parseCatalog_tsv)
  also have "catalog_rows = map (\<lambda>d. (Desc_ID d, Desc_Name d)) Table"
    by (simp add: catalog_rows_def Table_def)
  finally show ?thesis by (simp add: comp_def)
qed

section \<open>The gate\<close>

lemma assemble_problems:
  "snd (assemble catalog version date s) = [] \<longleftrightarrow>
     list_all (\<lambda>c. outcome_result (mget (st_outcomes s) zero_outcome (CatalogCommand_ID c)) = PASS) catalog
     \<and> outcome_result (st_contract s) = PASS \<and> st_runID s \<noteq> []"
proof -
  have row: "Row_Result (report_row s c) = outcome_result (mget (st_outcomes s) zero_outcome (CatalogCommand_ID c))" for c
    by (simp add: report_row_def mget_def outcome_result_def zero_outcome_def split: option.split)
  have none: "(if oc = zero_outcome then MISSING else outcome_result oc) = outcome_result oc" for oc
    by (simp add: outcome_result_def zero_outcome_def)
  have "count_passed (map (report_row s) catalog) = int (length catalog)"
    if "list_all (\<lambda>c. Row_Result (report_row s c) = PASS) catalog"
    using that unfolding count_passed_def by (simp add: list_all_iff)
  then show ?thesis
    unfolding assemble_def Let_def none by (auto simp: row list_all_iff filter_empty_conv)
qed

lemma assemble_evidence:
  "snd (assemble catalog version date (fold (scan_event nanos) evs zero_stream)) = []
     \<longleftrightarrow> evidence (map CatalogCommand_ID catalog) evs"
  unfolding assemble_problems scanned_verified scan_runID evidence_def list.pred_map comp_def
  by (simp add: zero_stream_def)

definition stream_evidence :: "(bytes \<Rightarrow> error + 'f testEvent) \<Rightarrow> bytes \<times> error option \<Rightarrow> bool" where
  "stream_evidence unmarshal stdin \<longleftrightarrow> snd stdin = None
     \<and> (case decoded unmarshal (Scanner_lines scanner_limit [] (fst stdin)) of
         None \<Rightarrow> False | Some evs \<Rightarrow> evidence (map Desc_ID Table) evs)"

definition writable :: "'s Host \<Rightarrow> bool" where
  "writable host \<longleftrightarrow> (\<forall>p m s. fst (Host_MkdirAll host p m s) = Ok ()) \<and> (\<forall>p b m s. fst (Host_WriteFile host p b m s) = Ok ())"

lemma build_evidence:
  assumes "parseCatalog catalogTSV = Inr catalog"
  shows "(\<exists>report. build unmarshal nanos catalog stdin version date = Inr (report, []))
    \<longleftrightarrow> stream_evidence unmarshal stdin"
proof -
  let ?ls = "Scanner_lines scanner_limit [] (fst stdin)"
  have ids: "map CatalogCommand_ID catalog = map Desc_ID Table"
    using assms catalog_is_Table by (auto simp: comp_def)
  show ?thesis
  proof (cases "decoded unmarshal ?ls = None \<or> snd stdin \<noteq> None")
    case True
    from scan_loop_undecoded [OF this, of nanos zero_stream] True show ?thesis
      by (auto simp: build_def scan_stream_def stream_evidence_def split: option.split)
  next
    case False
    then obtain evs where d: "decoded unmarshal ?ls = Some evs" and n: "snd stdin = None" by auto
    show ?thesis
      using assemble_evidence [of catalog version date nanos evs]
      by (cases "assemble catalog version date (fold (scan_event nanos) evs zero_stream)")
        (simp add: build_def scan_stream_def stream_evidence_def n d scan_loop_decoded [OF d] ids)
  qed
qed

lemma attempt_run:
  "attempt m k s = (case fst (m s) of Ok a \<Rightarrow> k (Inr a) (snd (m s)) | Err e \<Rightarrow> k (Inl e) (snd (m s))
     | Panic \<Rightarrow> (Panic, snd (m s)))"
  by (simp add: attempt_def split: prod.split res.split)

text \<open>
  C40. The release gate. The program exits with zero only on release evidence: the input is a readable event
  stream in which every command of the gateway's command table, and the contract suite, has a passed test
  and none that failed or was skipped, and the line with the run id. With a valid command line and a file system that takes
  the document it exits with zero on all such input.
\<close>

theorem exit_zero_is_release_evidence:
  "(fst (run_report host unmarshal nanos args stdin s) = Ok 0 \<longrightarrow> stream_evidence unmarshal stdin)
   \<and> (writable host \<and> parseFlags args (default_flags (fst (Host_Now host s))) = Inr fl
      \<and> stream_evidence unmarshal stdin \<longrightarrow> fst (run_report host unmarshal nanos args stdin s) = Ok 0)"
proof -
  obtain catalog where cat: "parseCatalog catalogTSV = Inr catalog" using catalog_is_Table by blast
  note ev = build_evidence [OF cat, of unmarshal nanos stdin]
  have "stream_evidence unmarshal stdin" if "fst (run_report host unmarshal nanos args stdin s) = Ok 0"
    using that unfolding run_report_def Let_def onOk_Ok [of "act (Host_Now host)", OF act_run] cat
    by (auto simp: exiting_def attempt_run intro: ev [THEN iffD1]
        split: sum.splits option.splits prod.splits res.splits if_splits)
  moreover have "fst (run_report host unmarshal nanos args stdin s) = Ok 0"
    if h: "writable host" "parseFlags args (default_flags (fst (Host_Now host s))) = Inr fl"
      "stream_evidence unmarshal stdin"
  proof -
    from ev h(3) obtain report where "build unmarshal nanos catalog stdin (fl_version fl) (fl_date fl) = Inr (report, [])"
      by blast
    with h(1,2) show ?thesis
      unfolding run_report_def Let_def onOk_Ok [of "act (Host_Now host)", OF act_run] cat
      by (simp add: exiting_def attempt_run writable_def)
  qed
  ultimately show ?thesis by blast
qed

section \<open>A run that is evidence\<close>

definition disk :: "(string \<times> bytes) list Host" where
  "disk = \<lparr>Host_Now = (\<lambda>s. (1767225600 * second_ns, s)), Host_MkdirAll = (\<lambda>_ _. ret ()),
     Host_WriteFile = (\<lambda>p b _ s. (Ok (), mput p b s)), Host_Stdout = (\<lambda>_ s. s), Host_Stderr = (\<lambda>_ s. s)\<rparr>"

definition passed_test :: "string \<Rightarrow> unit testEvent" where
  "passed_test t = \<lparr>te_Action = ''pass'', te_Test = t, te_Elapsed = (), te_Output = []\<rparr>"

definition meta_event :: "unit testEvent" where
  "meta_event = \<lparr>te_Action = ''output'', te_Test = [], te_Elapsed = (),
     te_Output = ''ACCEPTANCE-META run-id=mfk3x9q2 broker-version=3.9.1''\<rparr>"

text \<open>A decoder of lines that are the id of a passed command, \<open>contract\<close> or \<open>meta\<close>.\<close>

definition line_event :: "bytes \<Rightarrow> unit testEvent" where
  "line_event l = (if l = ''meta'' then meta_event else if l = ''contract'' then passed_test contractTest
     else passed_test (''TestAcceptance_'' @ l @ ''_x''))"

definition good_lines :: "string list" where
  "good_lines = map Desc_ID Table @ [''contract'', ''meta'']"

definition good_input :: bytes where
  "good_input = concat (map (\<lambda>l. l @ [CHR 0x0A]) good_lines)"

lemma decoded_plain:
  "list_all (\<lambda>l. l \<noteq> [] \<and> plain_char (hd l) \<and> plain_char (last l)) ls \<Longrightarrow>
   decoded (\<lambda>l. Inr (f l)) (map Some ls) = Some (map f ls)"
  by (induction ls) (simp_all add: TrimSpace_plain)

lemma good_scanned: "Scanner_lines scanner_limit [] good_input = map Some good_lines"
  by code_simp

lemma good_decoded:
  "decoded (\<lambda>l. Inr (line_event l)) (Scanner_lines scanner_limit [] good_input) = Some (map line_event good_lines)"
  unfolding good_scanned by (rule decoded_plain) (simp add: good_lines_def Table_ids plain_char_def)

lemma good_tests: "map (\<lambda>l. acceptanceTest (te_Test (line_event l))) good_lines = map Some (map Desc_ID Table) @ [None, None]"
  by code_simp

lemma good_test_of: "l \<in> set good_lines \<Longrightarrow> acceptanceTest (te_Test (line_event l))
    = (if l \<in> set (map Desc_ID Table) then Some l else None)"
  using good_tests by (auto simp: good_lines_def Table_ids)

lemma good_evidence: "stream_evidence (\<lambda>l. Inr (line_event l)) (good_input, None)"
proof -
  have pass: "te_Action (line_event l) = (if l = ''meta'' then ''output'' else ''pass'')" for l
    by (simp add: line_event_def meta_event_def passed_test_def)
  have "verified (test_of i) (map line_event good_lines)" if "i \<in> set (map Desc_ID Table)" for i
    unfolding verified_def
  proof (intro conjI bexI ballI impI)
    from that show "line_event i \<in> set (map line_event good_lines)" by (auto simp: good_lines_def)
    from that have "i \<noteq> ''meta''" by (auto simp: Table_ids)
    with that show "test_of i (line_event i)" "te_Action (line_event i) = ''pass''"
      by (auto simp: test_of_def pass good_test_of good_lines_def)
  qed (auto simp: pass split: if_splits)
  moreover have "verified contract_test (map line_event good_lines)"
    by (auto simp: verified_def contract_test_def good_lines_def line_event_def pass passed_test_def meta_event_def split: if_splits)
  moreover have "list_ex (\<lambda>ev. metaLine (te_Output ev) \<noteq> None) (map line_event good_lines)"
  proof -
    have "metaLine (te_Output (line_event ''meta'')) \<noteq> None" by code_simp
    then show ?thesis by (auto simp: list_ex_iff good_lines_def)
  qed
  ultimately show ?thesis
    by (simp add: stream_evidence_def good_decoded evidence_def list_all_iff)
qed

theorem exit_zero_is_release_evidence_witness:
  "fst (run_report disk (\<lambda>l. Inr (line_event l)) (\<lambda>_. 0) [] (good_input, None) []) = Ok 0"
proof -
  have "writable disk" by (simp add: writable_def disk_def ret_def)
  then show ?thesis
    using exit_zero_is_release_evidence [of disk "\<lambda>l. Inr (line_event l)" "\<lambda>_. 0" "[]" "(good_input, None)" "[]"
        "default_flags (fst (Host_Now disk []))"] good_evidence by simp
qed

text \<open>
  The document alone does not show it: its overall result ignores a missing line with the run id, so a run
  without that line is shown as passed while the exit status is not zero.
\<close>

lemma document_ignores_meta:
  "overall (fst (assemble catalog version date (s\<lparr>st_runID := [], st_broker := b\<rparr>)))
     = overall (fst (assemble catalog version date s))
   \<and> snd (assemble catalog version date (s\<lparr>st_runID := [], st_broker := b\<rparr>)) \<noteq> []"
proof -
  have "report_row (s\<lparr>st_runID := [], st_broker := b\<rparr>) = report_row s" by (simp add: report_row_def fun_eq_iff)
  then show ?thesis by (simp add: assemble_problems) (simp add: assemble_def Let_def overall_def)
qed

end
