(* ===== verification/GatewayRun.thy ===== *)
theory GatewayRun
  imports GatewayProps TopicProps
begin

text \<open>
  Whole requests through the gateway: a confirmed deletion from the route to the cluster, the audit trail and
  the response.
\<close>

section \<open>The way in\<close>

lemma keyed_fields [simp]:
  "req_Method (keyed deps key rid r) = req_Method r" "req_Path (keyed deps key rid r) = req_Path r"
  "RequestIDFrom (keyed deps key rid r) = rid"
  "Caller_Tier (caller_of (keyed deps key rid r)) = Key_Tier key"
  "Caller_KeyID (caller_of (keyed deps key rid r)) = Some (Key_ID key)"
  by (simp_all add: keyed_def Let_def caller_of_def CallerFrom_def withCaller_def withClientIP_def SetRequestID_def
      RequestIDFrom_def)

lemma mux_Handler_keyed [simp]: "mux_Handler (keyed deps key rid r) = mux_Handler r"
proof -
  have "route_matches (keyed deps key rid r) = route_matches r" by (simp add: route_matches_def fun_eq_iff)
  then show ?thesis by (simp add: mux_Handler_def)
qed

text \<open>A path below \<^verbatim>\<open>/v1/topics\<close>.\<close>

lemma topic_path:
  assumes "CHR ''/'' \<notin> set t" "t \<noteq> []"
  shows "path_matches ''/v1/topics/{name}'' (''/v1/topics/'' @ t)"
  using assms by (simp add: path_matches_def Split_plain segment_matches_def is_wildcard_def)

lemma deletion_route:
  assumes "req_Method r = ''DELETE''" "req_Path r = ''/v1/topics/'' @ t" "CHR ''/'' \<notin> set t" "t \<noteq> []"
  shows "mux_Handler r = Some (topic_Register ! 9)"
proof -
  have "topic_Register ! 9 \<in> set registered" by (simp add: registered_def topic_Register_def)
  moreover have "route_matches r (topic_Register ! 9)"
    using assms topic_path by (simp add: route_matches_def method_matches_def topic_Register_def)
  ultimately show ?thesis by (simp only: mux_Handler_Some)
qed

section \<open>A confirmed deletion\<close>

text \<open>
  C3. From the request to the cluster and back: an operator's DELETE of an existing topic, confirmed with its
  name, removes exactly that topic, answers 200 with its name, and leaves an \<open>ATTEMPT\<close> and a successful
  \<open>RESULT\<close> that carry the key's id and the request's id.
\<close>

theorem confirmed_deletion_end_to_end:
  assumes "live w" "map_of (m_topics (model_of w)) t = Some ft" "CHR ''/'' \<notin> set t" "t \<noteq> []"
    and "req_Method r = ''DELETE''" "req_Path r = ''/v1/topics/'' @ t" "header_Get (req_Header r) ''Origin'' = []"
    and "header_Get (req_Header r) HeaderRequestID = rid" "requestIDPattern rid" "dep_AuthEnabled deps"
    and "matchKey (header_Get (req_Header r) HeaderAPIKey) (dep_Keys deps) = Some key" "Key_Tier key = TierOperator"
    and "\<not> Policy_ReadOnly pol" "\<not> mget (Policy_Disabled pol) False ''T7''"
    and "huma_Bind h (topic_Register ! 9) (keyed deps key rid r) = Inr (TopicOp (Op_deleteTopic
      \<lparr>DeleteTopicInput_Name = t, DeleteTopicInput_DryRun = False,
       DeleteTopicInput_Body = \<lparr>DeleteTopicRequestBody_Confirm = t\<rparr>\<rparr>))"
  shows "\<exists>w' ev ev2. gateway env deps id no_telemetry h (world_backend pol b status fs) r ((w, False), wr)
      = (Ok (), ((w', False), huma_Write h (keyed deps key rid r) 200 (AMap [(''deleted'', AStr t)])
          (set_header HeaderRequestID rid wr)))
    \<and> model_of w' = (model_of w)\<lparr>m_topics := mdel t (m_topics (model_of w))\<rparr>
    \<and> audit_trail w' = audit_trail w @ [ev, ev2]
    \<and> Event_Phase ev = PhaseAttempt \<and> Event_Phase ev2 = PhaseResult \<and> Event_Outcome ev2 = OutcomeSucceeded
    \<and> {Event_CommandID ev, Event_CommandID ev2} = {''T7''} \<and> {Event_RequestID ev, Event_RequestID ev2} = {rid}
    \<and> AuditCaller_KeyID (Event_Caller ev) = Some (Key_ID key) \<and> AuditCaller_KeyID (Event_Caller ev2) = Some (Key_ID key)"
proof -
  let ?r = "keyed deps key rid r"
  have id: "Desc_ID (desc_of ''T7'') = ''T7''" by (simp add: desc_of_def Lookup_def Table_def)
  have "Check (caller_of ?r) (desc_of ''T7'') pol = None"
    using assms(12-14) by (simp add: Check_pass_iff id) (simp add: desc_of_def Lookup_def Table_def)
  from topic_Delete_run [OF assms(1) this assms(2)] obtain p ev ev2 w' where
    del: "topic_Delete (world_service Background pol) (caller_of ?r) t t False w
       = (Ok (\<lparr>Result_DryRun = False, Result_Plan = Some p, Result_Value = Some t\<rparr>, None), w')"
    and post: "model_of w' = (model_of w)\<lparr>m_topics := mdel t (m_topics (model_of w))\<rparr>"
      "audit_trail w' = audit_trail w @ [ev, ev2]" and pair: "audited_pair ''T7'' (caller_of ?r) ev ev2"
    by blast
  have serve: "hang (serve (world_backend pol b status fs ?r) ?r (TopicOp (Op_deleteTopic
      \<lparr>DeleteTopicInput_Name = t, DeleteTopicInput_DryRun = False,
       DeleteTopicInput_Body = \<lparr>DeleteTopicRequestBody_Confirm = t\<rparr>\<rparr>))) (w, False)
    = (Ok (Inr (200, AMap [(''deleted'', AStr t)])), (w', False))"
    using assms(4) del
    by (simp add: hang_def ended_def encoded_def deleteTopic_def world_backend_def orMapDestructive_def attempt_def
        onOk_def destructive_reply_def reply_def ret_run wire_DeleteTopicOutput_def StatusOK_def
        json_DeleteTopicBody_def zero_DeleteTopicBody_def)
  have "rid \<noteq> []" using assms(9) by (auto simp: requestIDPattern_def)
  then have "gateway env deps id no_telemetry h (world_backend pol b status fs) r ((w, False), wr)
      = (Ok (), ((w', False), huma_Write h ?r 200 (AMap [(''deleted'', AStr t)]) (set_header HeaderRequestID rid wr)))"
    unfolding gateway_def
    using assms(5-11) deletion_route [OF assms(5,6,3,4)] serve
    by (simp del: serve.simps add: keyed_request HTTPMiddleware_def no_telemetry_def gateway_mux_def assms(15) on_state_def onOk_def
        ret_run write_reply_def on_writer_def)
  moreover have "Caller_RequestID (caller_of ?r) = rid"
    by (simp add: keyed_def Let_def caller_of_def CallerFrom_def withCaller_def)
  ultimately show ?thesis
    using post pair by (auto simp: audited_pair_def id)
qed

theorem confirmed_deletion_end_to_end_witness:
  "\<exists>w' ev ev2. demo_gateway TierOperator demo_policy
       (demo_request ''DELETE'' [(HeaderAPIKey, [''demo''])]) ((demo_world, False), fresh_writer)
      = (Ok (), ((w', False), huma_Write demo_huma (keyed (front_deps TierOperator) (demo_key\<lparr>Key_Tier := TierOperator\<rparr>)
            ''r1'' (demo_request ''DELETE'' [(HeaderAPIKey, [''demo''])])) 200 (AMap [(''deleted'', AStr ''orders'')])
          (set_header HeaderRequestID ''r1'' fresh_writer)))
    \<and> model_of w' = (model_of demo_world)\<lparr>m_topics := mdel ''orders'' (m_topics (model_of demo_world))\<rparr>
    \<and> audit_trail w' = audit_trail demo_world @ [ev, ev2]
    \<and> AuditCaller_KeyID (Event_Caller ev2) = Some ''ops''"
proof -
  let ?r = "demo_request ''DELETE'' [(HeaderAPIKey, [''demo''])]"
  have key: "matchKey (header_Get (req_Header ?r) HeaderAPIKey) (dep_Keys (front_deps TierOperator))
      = Some (demo_key\<lparr>Key_Tier := TierOperator\<rparr>)"
  proof -
    have "header_Get (req_Header ?r) HeaderAPIKey = ''demo''"
      by (simp add: demo_request_def header_Get_def mget_def HeaderAPIKey_def)
    then show ?thesis by (simp add: front_deps_def matchKey_def demo_key_def)
  qed
  have "Key_ID (demo_key\<lparr>Key_Tier := TierOperator\<rparr>) = ''ops''" by (simp add: demo_key_def)
  with confirmed_deletion_end_to_end [where w = demo_world and t = "''orders''" and ft = demo_orders and r = ?r
      and rid = "''r1''" and deps = "front_deps TierOperator" and key = "demo_key\<lparr>Key_Tier := TierOperator\<rparr>"
      and pol = demo_policy and h = demo_huma and env = lifted_env and b = demo_bounds and status = "(''stdout'', True)"
      and fs = demo_functions and wr = fresh_writer, OF _ _ _ _ _ _ _ _ _ _ key]
  show ?thesis
    by (simp add: demo_request_def header_Get_def mget_def HeaderRequestID_def HeaderAPIKey_def requestIDPattern_def
        id_char_def front_deps_def demo_policy_def demo_huma_def demo_input_def) blast
qed

end
