(* ===== verification/ClusterProps.thy ===== *)
theory ClusterProps
  imports ClusterService LiveReads
begin

text \<open>
  The cluster commands over the assembled gateway: the health summary in closed form, the round trip
  from C11 to C12, and what the confirmation tokens of C9 and C12 do and do not identify.
\<close>

section \<open>C4: the health summary in closed form\<close>

definition issues :: "Partition \<Rightarrow> string list" where
  "issues p = (if is_offline p then [IssueOffline] else [])
     @ (if is_under_replicated p then [IssueUnderReplicated] else [])
     @ (if is_non_preferred p then [IssueNonPreferredLeader] else [])"

definition affected :: "(string \<times> Partition) list \<Rightarrow> AffectedPartition list" where
  "affected ps = concat (map (\<lambda>(topic, p). map (\<lambda>i. \<lparr>AP_Topic = topic, AP_Partition = Partition_ID p, AP_Issue = i\<rparr>) (issues p)) ps)"

definition howmany :: "(Partition \<Rightarrow> bool) \<Rightarrow> (string \<times> Partition) list \<Rightarrow> int64" where
  "howmany P ps = wrap64 (int (length (filter (\<lambda>(topic, p). P p) ps)))"

lemma howmany_Nil [simp]: "howmany P [] = 0"
  by (simp add: howmany_def in_int64_def)

lemma howmany_snoc:
  "howmany P (ps @ [(topic, p)]) = (if P p then wrap64 (howmany P ps + 1) else howmany P ps)"
  by (simp add: howmany_def add.commute)

definition capped :: "AffectedPartition list \<Rightarrow> HealthSummary \<Rightarrow> HealthSummary" where
  "capped xs h = h\<lparr>HS_Affected := take (nat maxAffected) xs, HS_Truncated := int (length xs) > maxAffected\<rparr>"

lemma addAffected_capped:
  "addAffected topic part issue (capped xs h)
     = capped (xs @ [\<lparr>AP_Topic = topic, AP_Partition = part, AP_Issue = issue\<rparr>]) h"
  by (cases h) (auto simp: addAffected_def capped_def maxAffected_def)

lemma capped_simps:
  "capped xs (h\<lparr>HS_PartitionsTotal := n\<rparr>) = (capped xs h)\<lparr>HS_PartitionsTotal := n\<rparr>"
  "capped xs (h\<lparr>HS_PartitionsOffline := n\<rparr>) = (capped xs h)\<lparr>HS_PartitionsOffline := n\<rparr>"
  "capped xs (h\<lparr>HS_PartitionsUnderReplicated := n\<rparr>) = (capped xs h)\<lparr>HS_PartitionsUnderReplicated := n\<rparr>"
  "capped xs (h\<lparr>HS_PartitionsNonPreferredLeader := n\<rparr>) = (capped xs h)\<lparr>HS_PartitionsNonPreferredLeader := n\<rparr>"
  by (cases h, simp add: capped_def)+

definition health_after :: "ClusterMetadata \<Rightarrow> (string \<times> Partition) list \<Rightarrow> HealthSummary" where
  "health_after md ps = capped (affected ps)
    \<lparr>HS_BrokersOnline = int (length (ClusterMetadata_Brokers md)),
     HS_TopicsTotal = int (length (ClusterMetadata_Topics md)),
     HS_PartitionsTotal = howmany (\<lambda>p. True) ps,
     HS_PartitionsOffline = howmany is_offline ps,
     HS_PartitionsUnderReplicated = howmany is_under_replicated ps,
     HS_PartitionsNonPreferredLeader = howmany is_non_preferred ps,
     HS_Affected = [], HS_Truncated = False\<rparr>"

lemma health_count_step:
  "health_count topic p (health_after md ps) = health_after md (ps @ [(topic, p)])"
proof -
  have aff: "affected (ps @ [(topic, p)]) = affected ps
      @ map (\<lambda>i. \<lparr>AP_Topic = topic, AP_Partition = Partition_ID p, AP_Issue = i\<rparr>) (issues p)"
    by (simp add: affected_def)
  show ?thesis
    by (simp add: health_count_def health_after_def howmany_snoc aff issues_def Let_def
        capped_simps [symmetric] addAffected_capped)
       (simp add: capped_def)
qed

text \<open>
  C4: the health summary counts every partition exactly (as 64-bit integers), lists the issues of
  the partitions in the order of topic name and partition number, keeps the first thousand of them and
  is marked truncated exactly when there are more.
\<close>

theorem health_summary_exact:
  "health_of md =
    (let ps = sorted_partitions (ClusterMetadata_Topics md)
     in \<lparr>HS_BrokersOnline = int (length (ClusterMetadata_Brokers md)),
         HS_TopicsTotal = int (length (ClusterMetadata_Topics md)),
         HS_PartitionsTotal = howmany (\<lambda>p. True) ps,
         HS_PartitionsOffline = howmany is_offline ps,
         HS_PartitionsUnderReplicated = howmany is_under_replicated ps,
         HS_PartitionsNonPreferredLeader = howmany is_non_preferred ps,
         HS_Affected = take 1000 (affected ps), HS_Truncated = (length (affected ps) > 1000)\<rparr>)"
proof -
  have "fold (\<lambda>(topic, p). health_count topic p) qs (health_after md ps) = health_after md (ps @ qs)" for ps qs
    by (induction qs arbitrary: ps) (auto simp: health_count_step)
  from this [of "sorted_partitions (ClusterMetadata_Topics md)" "[]"]
  have "health_of md = health_after md (sorted_partitions (ClusterMetadata_Topics md))"
    by (simp add: health_of_def health_start_def health_after_def capped_def affected_def maxAffected_def)
  then show ?thesis
    by (simp add: health_after_def capped_def maxAffected_def Let_def)
qed

section \<open>C9 and C12: what a plan token identifies\<close>

text \<open>
  The plan token of C9 depends on the set of partitions alone: a reassignment, a cancellation and an
  election over the same partitions have the same token, whatever replicas the reassignment asks for,
  so the token of one confirms each of the others.
\<close>

theorem C9_tokens_interchangeable:
  assumes "set (map move_target moves) = set targets"
  shows "\<exists>rp cp ep. PlanReassign moves s = (Ok rp, s) \<and> PlanCancelReassignments targets s = (Ok cp, s)
     \<and> PlanElect preferred targets s = (Ok ep, s)
     \<and> RePlan_PlanToken rp = RePlan_PlanToken cp \<and> RePlan_PlanToken rp = EP_PlanToken ep"
proof -
  have "(\<lambda>m. reassignTarget (move_target m)) ` set moves = reassignTarget ` set targets"
    unfolding assms [symmetric] by (simp add: image_image)
  then have "Token ''C9'' (map (\<lambda>m. reassignTarget (move_target m)) (sort_key move_target moves))
      = Token ''C9'' (map reassignTarget (sort targets))"
    by (intro Token_set_eq) simp
  then show ?thesis
    by (simp add: PlanReassign_def PlanCancelReassignments_def PlanElect_def Let_def ret_run)
qed

theorem C9_tokens_interchangeable_witness:
  "\<exists>rp cp. PlanReassign [\<lparr>RM_Topic = ''orders'', RM_Partition = 0, RM_Replicas = Some [2, 3]\<rparr>] demo_world = (Ok rp, demo_world)
     \<and> PlanCancelReassignments [(''orders'', 0)] demo_world = (Ok cp, demo_world)
     \<and> RePlan_PlanToken rp = RePlan_PlanToken cp"
  using C9_tokens_interchangeable [of "[\<lparr>RM_Topic = ''orders'', RM_Partition = 0, RM_Replicas = Some [2, 3]\<rparr>]"
      "[(''orders'', 0)]" demo_world True]
  by (auto simp: move_target_def)

lemma PlanImport_allowDelete:
  "PlanImport svc desired True s =
     (case PlanImport svc desired False s of
        (Ok p, s') \<Rightarrow> (Ok (p\<lparr>IP_AllowDelete := True\<rparr>), s') | r \<Rightarrow> r)"
  by (auto simp: PlanImport_def onOk_def ret_run Let_def split: prod.splits res.splits)

text \<open>
  The plan token of C12 does not cover \<open>allowDelete\<close>: a dry run that would delete nothing hands out
  the token that confirms the same import with deletions.
\<close>

theorem import_token_ignores_allowDelete:
  assumes "PlanImport svc desired False s = (Ok p, s')"
  shows "\<exists>q. PlanImport svc desired True s = (Ok q, s') \<and> IP_PlanToken q = IP_PlanToken p
    \<and> IP_Delete q = IP_Delete p \<and> IP_AllowDelete q"
  using assms by (simp add: PlanImport_allowDelete)

lemma definition_text_pairs:
  "definition_text \<lparr>IT_Name = n, IT_Partitions = ps, IT_ReplicationFactor = rf, IT_Configs = [(k, v)]\<rparr>
     = itoa ps @ nl @ itoa rf @ nl @ k @ ''='' @ v @ nl"
  "k < k' \<Longrightarrow> definition_text \<lparr>IT_Name = n, IT_Partitions = ps, IT_ReplicationFactor = rf, IT_Configs = [(k, v), (k', v')]\<rparr>
     = itoa ps @ nl @ itoa rf @ nl @ (k @ ''='' @ v @ nl) @ (k' @ ''='' @ v' @ nl)"
  by (auto simp: definition_text_def mkeys_def mget_def)

text \<open>
  The definition hash of C12 is not injective: a value that contains a line break and an equals sign
  hashes as two keys, so the token of one import confirms the other.
\<close>

theorem import_hash_collision:
  assumes "k < k'"
  shows "import_target \<lparr>IT_Name = n, IT_Partitions = ps, IT_ReplicationFactor = rf,
      IT_Configs = [(k, v @ nl @ k' @ ''='' @ v')]\<rparr>
    = import_target \<lparr>IT_Name = n, IT_Partitions = ps, IT_ReplicationFactor = rf,
      IT_Configs = [(k, v), (k', v')]\<rparr>"
  using definition_text_pairs(1) [of n ps rf k "v @ nl @ k' @ ''='' @ v'"]
    definition_text_pairs(2) [where n = n and ps = ps and rf = rf and v = v and v' = v', OF assms]
  by (simp add: import_target_def hashDefinition_def)

theorem import_hash_collision_witness:
  "import_target \<lparr>IT_Name = ''t'', IT_Partitions = 1, IT_ReplicationFactor = 1,
      IT_Configs = [(''cleanup.policy'', ''compact'' @ nl @ ''retention.ms'' @ ''='' @ ''1'')]\<rparr>
    = import_target \<lparr>IT_Name = ''t'', IT_Partitions = 1, IT_ReplicationFactor = 1,
      IT_Configs = [(''cleanup.policy'', ''compact''), (''retention.ms'', ''1'')]\<rparr>"
  by (rule import_hash_collision) (simp add: less_list_code)

section \<open>C11 and C12: the round trip\<close>

text \<open>An exported definition as C12 reads it back: the two commands share the shape.\<close>

definition as_import :: "ExportTopic \<Rightarrow> ImportTopic" where
  "as_import t = \<lparr>IT_Name = ET_Name t, IT_Partitions = ET_Partitions t,
     IT_ReplicationFactor = ET_ReplicationFactor t, IT_Configs = ET_Configs t\<rparr>"

text \<open>A cluster whose topics have each configuration key once.\<close>

definition wf_topics :: "model \<Rightarrow> bool" where
  "wf_topics m \<longleftrightarrow> wf_map (m_topics m)
     \<and> (\<forall>(n, t) \<in> set (m_topics m). distinct (map ConfigEntry_Name (ft_configs t)))"

definition summaries :: "model \<Rightarrow> TopicSummary list" where
  "summaries m = sort_key TopicSummary_Name (map (\<lambda>(name, t). topicSummary name t) (m_topics m))"

lemma live_ListTopics:
  "live w \<Longrightarrow> on_fake (fake_ListTopics Background) w = (Ok (summaries (model_of w)), log_call ''ListTopics'' False None w)"
  by (simp add: fake_ListTopics_def live_peek err_of_def summaries_def)

lemma set_summaries:
  "set (summaries m) = (\<lambda>(name, t). topicSummary name t) ` set (m_topics m)"
  by (simp add: summaries_def)

lemma summary_known:
  assumes "wf_map (m_topics m)" "s \<in> set (summaries m)"
  obtains t where "map_of (m_topics m) (TopicSummary_Name s) = Some t" "(TopicSummary_Name s, t) \<in> set (m_topics m)"
proof -
  from assms(2) obtain n t where nt: "(n, t) \<in> set (m_topics m)" and s: "s = topicSummary n t"
    by (auto simp: set_summaries)
  have "TopicSummary_Name s = n" by (simp add: s topicSummary_def)
  with nt assms(1) that [of t] show ?thesis by (simp add: wf_map_def)
qed

text \<open>With one entry per key, each override is the current value of its key.\<close>

lemma current_value_distinct:
  assumes "distinct (map ConfigEntry_Name cs)" "c \<in> set cs"
  shows "current_value cs (ConfigEntry_Name c) = ConfigEntry_Value c"
proof -
  have "entries_by_name cs = map (\<lambda>c. (ConfigEntry_Name c, c)) cs"
    using fold_mput_distinct [of ConfigEntry_Name cs "[]" "\<lambda>c. c"] assms(1) by (simp add: entries_by_name_def)
  moreover have "map_of (map (\<lambda>c. (ConfigEntry_Name c, c)) cs) (ConfigEntry_Name c) = Some c"
    using assms by (intro map_of_is_SomeI) (auto simp: comp_def)
  ultimately show ?thesis by (simp add: current_value_def mget_def)
qed

lemma overrides_distinct:
  assumes "distinct (map ConfigEntry_Name cs)"
  shows "overrides cs = map (\<lambda>c. (ConfigEntry_Name c, ConfigEntry_Value c))
    (filter (\<lambda>c. ConfigEntry_Source c = Some SourceDynamic) cs)"
proof -
  have "distinct (map ConfigEntry_Name (filter (\<lambda>c. ConfigEntry_Source c = Some SourceDynamic) cs))"
    using assms by (rule distinct_map_filter)
  from fold_mput_distinct [OF this, of "[]" ConfigEntry_Value] show ?thesis
    by (simp add: overrides_def)
qed

lemma overrides_current:
  assumes "distinct (map ConfigEntry_Name cs)"
  shows "filter (\<lambda>(k, v). current_value cs k \<noteq> v) (overrides cs) = []"
  unfolding overrides_distinct [OF assms] filter_empty_conv
  using current_value_distinct [OF assms] by auto

definition exported :: "model \<Rightarrow> TopicSummary \<Rightarrow> ExportTopic" where
  "exported m s = \<lparr>ET_Name = TopicSummary_Name s, ET_Partitions = wrap32 (TopicSummary_PartitionCount s),
     ET_ReplicationFactor = wrap16 (TopicSummary_ReplicationFactor s),
     ET_Configs = overrides (ft_configs (the (map_of (m_topics m) (TopicSummary_Name s))))\<rparr>"

definition exportable :: "model \<Rightarrow> TopicSummary list" where
  "exportable m = filter (export_matches None) (summaries m)"

lemma fold_snoc: "fold (\<lambda>x acc. acc @ [g x]) xs acc = acc @ map g xs"
  by (induction xs arbitrary: acc) auto

lemma export_live:
  assumes "live w" "wf_topics (model_of w)"
  shows "\<exists>e w1. cluster_Export compile (world_service Background pol) [] w = (Ok e, w1)
    \<and> Export_Topics e = map (exported (model_of w)) (exportable (model_of w)) \<and> reads_only w w1"
proof -
  let ?m = "model_of w"
  let ?w0 = "log_call ''ListTopics'' False None w"
  have srt: "sort_key TopicSummary_Name (filter (export_matches None) (summaries ?m)) = exportable ?m"
    by (simp add: exportable_def summaries_def sort_key_id_if_sorted sorted_filter)
  have "\<exists>w2. export_topics (world_service Background pol) (exportable ?m) ?w0
      = (Ok (fold (\<lambda>s acc. acc @ [exported ?m s]) (exportable ?m) []), w2) \<and> reads_only w w2"
    unfolding export_topics_def
  proof (rule forEach_reads)
    fix s acc w1
    assume s: "s \<in> set (exportable ?m)" and r: "reads_only w w1"
    have "s \<in> set (summaries ?m)" using s by (simp add: exportable_def)
    moreover have "wf_map (m_topics ?m)" using assms(2) by (simp add: wf_topics_def)
    ultimately obtain t where t: "map_of (m_topics ?m) (TopicSummary_Name s) = Some t"
      using summary_known by metis
    then have "map_of (m_topics (model_of w1)) (TopicSummary_Name s) = Some t" "live w1"
      using reads_onlyD [OF r] assms(1) by simp_all
    then show "\<exists>w2. onOk (DescribeTopicConfigs (svc_admin (world_service Background pol)) (TopicSummary_Name s))
        (\<lambda>configs. ret (acc @ [\<lparr>ET_Name = TopicSummary_Name s, ET_Partitions = wrap32 (TopicSummary_PartitionCount s),
           ET_ReplicationFactor = wrap16 (TopicSummary_ReplicationFactor s), ET_Configs = overrides configs\<rparr>])) w1
        = (Ok (acc @ [exported ?m s]), w2) \<and> reads_only w w2"
      using t r by (simp add: onOk_def live_topic_reads ret_run exported_def)
  qed simp
  then show ?thesis
    using assms(1)
    by (auto simp: cluster_Export_def onOk_def live_ListTopics srt fold_snoc act_run world_now_def ret_run)
qed

lemma mget_name_set [simp]: "mget (name_set ns) False n \<longleftrightarrow> n \<in> set ns"
proof -
  have "mget (fold (\<lambda>n. mput n True) ns m) False n \<longleftrightarrow> n \<in> set ns \<or> mget m False n" for m
    by (induction ns arbitrary: m) auto
  then show ?thesis by (simp add: name_set_def)
qed

lemma mkeys_name_set [simp]: "set (mkeys (name_set ns)) = set ns"
proof -
  have "set (mkeys (fold (\<lambda>n. mput n True) ns m)) = set ns \<union> set (mkeys m)" for m
    by (induction ns arbitrary: m) (auto simp: mkeys_def dom_update)
  then show ?thesis by (simp add: name_set_def mkeys_def)
qed

lemma reconcile_exported:
  assumes "live w" "wf_topics (model_of w)" "s \<in> set (exportable (model_of w))"
    and "TopicSummary_Name s \<in> set existing"
  shows "\<exists>w1. reconcile (world_service Background pol) (name_set existing) (as_import (exported (model_of w) s))
      (create, alt, unchanged) w = (Ok (create, alt, unchanged @ [TopicSummary_Name s]), w1) \<and> reads_only w w1"
proof -
  let ?m = "model_of w"
  have "s \<in> set (summaries ?m)" "wf_map (m_topics ?m)"
    using assms(2,3) by (simp_all add: exportable_def wf_topics_def)
  then obtain t where t: "map_of (m_topics ?m) (TopicSummary_Name s) = Some t"
      "(TopicSummary_Name s, t) \<in> set (m_topics ?m)"
    using summary_known by metis
  then have "distinct (map ConfigEntry_Name (ft_configs t))"
    using assms(2) by (auto simp: wf_topics_def)
  from overrides_current [OF this] show ?thesis
    using assms(1,4) t
    by (simp add: reconcile_def as_import_def exported_def onOk_def live_topic_reads ret_run Let_def)
qed

lemma plan_import_of_export:
  assumes "live w" "wf_topics (model_of w)"
  shows "\<exists>p w1. PlanImport (world_service Background pol)
       (map (\<lambda>s. as_import (exported (model_of w) s)) (exportable (model_of w))) allowDelete w = (Ok p, w1)
    \<and> p = \<lparr>IP_Create = [], IP_Alter = [], IP_Delete = [],
          IP_Unchanged = map TopicSummary_Name (exportable (model_of w)), IP_AllowDelete = allowDelete,
          IP_PlanToken = Token ''C12'' (map (\<lambda>s. import_target (as_import (exported (model_of w) s))) (exportable (model_of w)))\<rparr>
    \<and> reads_only w w1"
proof -
  let ?m = "model_of w"
  let ?names = "map TopicSummary_Name (exportable ?m)"
  let ?desired = "map (\<lambda>s. as_import (exported ?m s)) (exportable ?m)"
  let ?w0 = "log_call ''ListTopics'' False None w"
  have ex: "filter (\<lambda>t. \<not> TopicSummary_Internal t) (summaries ?m) = exportable ?m"
    unfolding exportable_def by (rule filter_cong) (simp_all add: export_matches_def)
  have names: "map IT_Name ?desired = ?names" by (simp add: as_import_def exported_def)
  have "\<exists>w2. forEach ?desired (reconcile (world_service Background pol) (name_set ?names)) ([], [], []) ?w0
      = (Ok (fold (\<lambda>d (c, a, u). (c, a, u @ [IT_Name d])) ?desired ([], [], [])), w2) \<and> reads_only w w2"
  proof (rule forEach_reads)
    fix d and acc :: "ImportTopic list \<times> ImportAlterAction list \<times> string list" and w1
    assume d: "d \<in> set ?desired" and r: "reads_only w w1"
    obtain c a u where acc: "acc = (c, a, u)" by (cases acc)
    from d obtain s where s: "s \<in> set (exportable ?m)" "d = as_import (exported ?m s)" by auto
    note same = reads_onlyD [OF r]
    have "\<exists>w2. reconcile (world_service Background pol) (name_set ?names) (as_import (exported (model_of w1) s)) (c, a, u) w1
        = (Ok (c, a, u @ [TopicSummary_Name s]), w2) \<and> reads_only w1 w2"
      using assms s same by (intro reconcile_exported) auto
    then show "\<exists>w2. reconcile (world_service Background pol) (name_set ?names) d acc w1
        = (Ok (case acc of (c, a, u) \<Rightarrow> (c, a, u @ [IT_Name d])), w2) \<and> reads_only w w2"
      using s same reads_only_trans [OF r] by (auto simp: acc as_import_def exported_def)
  qed simp
  moreover have folded: "fold (\<lambda>d (c, a, u). (c, a, u @ [IT_Name d])) ds (c, a, u) = (c, a, u @ map IT_Name ds)"
    for ds :: "ImportTopic list" and c :: "ImportTopic list" and a :: "ImportAlterAction list" and u
    by (induction ds arbitrary: u) auto
  ultimately obtain w2 where loop: "forEach ?desired (reconcile (world_service Background pol) (name_set ?names)) ([], [], []) ?w0
      = (Ok ([], [], ?names), w2)" "reads_only w w2"
    unfolding folded names append_Nil by blast
  have del: "filter (\<lambda>n. n \<notin> TopicSummary_Name ` set (exportable ?m)) (mkeys (name_set ?names)) = []"
    using mkeys_name_set [of ?names] by (auto simp: filter_empty_conv simp del: mkeys_name_set)
  have nm: "IT_Name (as_import (exported ?m s)) = TopicSummary_Name s" for s
    by (simp add: as_import_def exported_def)
  have srt: "sort ?names = ?names"
    by (simp add: exportable_def summaries_def sort_key_id_if_sorted sorted_filter)
  show ?thesis
    using assms(1) loop
    by (simp add: PlanImport_def onOk_def live_ListTopics ret_run Let_def ex nm del srt comp_def)
qed

text \<open>
  C31. Importing what an unfiltered C11 exported (no name pattern, so every topic that is not internal) changes
  nothing: confirmed with its plan token, C12 over the exported definitions of an unchanged cluster plans no creation,
  no alteration and no deletion - even with \<open>allowDelete\<close> - reports every exported topic as unchanged, and leaves
  the cluster as it is. (After a filtered export, an import with \<open>allowDelete\<close> plans the deletion of the topics that
  the filter left out.)
\<close>

theorem import_of_export_changes_nothing:
  assumes "live w" "wf_topics (model_of w)" "Check caller (desc_of ''C12'') pol = None"
    and "cluster_Export compile (world_service Background pol) [] w = (Ok e, w1)"
    and "topics = map as_import (Export_Topics e)"
  shows "\<exists>p w2. Import (world_service Background pol) caller topics allowDelete
        (Token ''C12'' (map import_target topics)) False w1
      = (Ok (\<lparr>Result_DryRun = False, Result_Plan = Some p, Result_Value = Some zero_ImportResult\<rparr>, None), w2)
    \<and> IP_Create p = [] \<and> IP_Alter p = [] \<and> IP_Delete p = [] \<and> IP_Unchanged p = map IT_Name topics
    \<and> model_of w2 = model_of w"
proof -
  let ?svc = "world_service Background pol"
  let ?m = "model_of w"
  from export_live [OF assms(1,2), of compile pol] assms(4)
  have e: "Export_Topics e = map (exported ?m) (exportable ?m)" and r: "reads_only w w1" by auto
  have topics: "topics = map (\<lambda>s. as_import (exported ?m s)) (exportable ?m)"
    by (simp add: assms(5) e)
  let ?w = "draw_id w1"
  have m: "model_of ?w = ?m" and live: "live w1" "live ?w" using reads_onlyD [OF r] assms(1) by simp_all
  have "wf_topics (model_of ?w)" using m assms(2) by simp
  from plan_import_of_export [OF live(2) this, of pol allowDelete, unfolded m]
  obtain p w3 where plan: "PlanImport ?svc topics allowDelete ?w = (Ok p, w3)"
      and p: "p = \<lparr>IP_Create = [], IP_Alter = [], IP_Delete = [],
          IP_Unchanged = map TopicSummary_Name (exportable ?m), IP_AllowDelete = allowDelete,
          IP_PlanToken = Token ''C12'' (map import_target topics)\<rparr>"
      and r3: "reads_only ?w w3"
    by (auto simp: topics comp_def)
  have app: "ApplyImport ?svc p (add_event ev w3) = (Ok zero_ImportResult, add_event ev w3)" for ev
    by (simp add: ApplyImport_def onOk_def ret_run p)
  have conf: "ConfirmTarget ImportPlan_ops p = Token ''C12'' (map import_target topics)"
    by (simp add: ImportPlan_ops_def p)
  have "\<exists>ev ev2. Import ?svc caller topics allowDelete (Token ''C12'' (map import_target topics)) False w1
      = (Ok (\<lparr>Result_DryRun = False, Result_Plan = Some p, Result_Value = Some zero_ImportResult\<rparr>, None),
         add_event ev2 (add_event ev w3)) \<and> audited_pair ''C12'' caller ev ev2"
    unfolding Import_def cluster_destructive_def
    by (rule destructive_executes [where ?w1.0 = w3])
      (use live reads_onlyD [OF r3] assms(3) plan in \<open>simp_all add: app conf\<close>)
  moreover have "map IT_Name topics = IP_Unchanged p"
    by (simp add: topics p as_import_def exported_def)
  ultimately show ?thesis
    using reads_onlyD [OF r3] m p by fastforce
qed

lemma demo_cluster_passes [simp]:
  "Check demo_op (desc_of ''C12'') demo_policy = None" "Check demo_op (desc_of ''C9'') demo_policy = None"
  by (simp_all add: Check_pass_iff demo_policy_def mget_def)

lemma demo_wf_topics: "wf_topics (model_of demo_world)"
  by (simp add: wf_topics_def model_of_def demo_world_def demo_topics demo_orders_def wf_map_def)

theorem import_of_export_changes_nothing_witness:
  "\<exists>e w1 p w2. cluster_Export (\<lambda>_. Inl []) (world_service Background demo_policy) [] demo_world = (Ok e, w1)
     \<and> Import (world_service Background demo_policy) demo_op (map as_import (Export_Topics e)) True
         (Token ''C12'' (map import_target (map as_import (Export_Topics e)))) False w1
       = (Ok (\<lparr>Result_DryRun = False, Result_Plan = Some p, Result_Value = Some zero_ImportResult\<rparr>, None), w2)
     \<and> model_of w2 = model_of demo_world"
proof -
  obtain e w1 where e: "cluster_Export (\<lambda>_. Inl []) (world_service Background demo_policy) [] demo_world = (Ok e, w1)"
    using export_live [OF demo_live demo_wf_topics] by blast
  show ?thesis
    using import_of_export_changes_nothing [OF demo_live demo_wf_topics demo_cluster_passes(1) e refl, of True] e
    by blast
qed

theorem import_token_ignores_allowDelete_witness:
  "\<exists>p q s'. PlanImport (world_service Background demo_policy) [] False demo_world = (Ok p, s')
     \<and> PlanImport (world_service Background demo_policy) [] True demo_world = (Ok q, s')
     \<and> IP_PlanToken q = IP_PlanToken p \<and> IP_Delete q = [''orders''] \<and> IP_AllowDelete q"
proof -
  have "summaries (model_of demo_world) = [topicSummary ''orders'' demo_orders]"
    by (simp add: summaries_def model_of_def demo_world_def demo_topics)
  then have "\<exists>p s'. PlanImport (world_service Background demo_policy) [] False demo_world = (Ok p, s')
      \<and> IP_Delete p = [''orders'']"
    by (simp add: PlanImport_def onOk_def live_ListTopics ret_run Let_def topicSummary_def demo_orders_def
        name_set_def mkeys_def mget_def)
  then obtain p s' where "PlanImport (world_service Background demo_policy) [] False demo_world = (Ok p, s')"
      "IP_Delete p = [''orders'']"
    by blast
  from import_token_ignores_allowDelete [OF this(1)] this show ?thesis by force
qed

end
