(* ===== verification/WireProps.thy ===== *)
theory WireProps
  imports TopicRoutes MessageRoutes GroupRoutes SecurityRoutes ClusterRoutes MessageProps SafetyProps MiddlewareProps ClusterProps
begin

text \<open>
  What the wire format keeps and what it hides: a record's timestamp is accepted back as the start of a scan,
  and a refused confirmation shows the plan of the dry run with the token that confirms it.
\<close>

section \<open>Timestamps\<close>

lemma ParseInt_chars: "ParseInt s = Some v \<Longrightarrow> c \<in> set s \<Longrightarrow> TextParse.is_digit c \<or> c = CHR ''-'' \<or> c = CHR ''+''"
  by (auto simp: ParseInt_def Let_def list_all_iff split: list.splits if_splits)

lemma format_not_integer: "ParseInt (format_RFC3339Nano t) = None"
proof -
  have "CHR ''T'' \<in> set (format_RFC3339Nano t)"
    by (cases "civil (t div second_ns div 86400 + epoch_day)") (simp add: format_RFC3339Nano_def formatWith_def Let_def)
  then show ?thesis
    using ParseInt_chars [of "format_RFC3339Nano t" _ "CHR ''T''"]
    by (cases "ParseInt (format_RFC3339Nano t)") (auto simp: TextParse.is_digit_def)
qed

text \<open>
  C8. Continuing from a record: the timestamp a reply shows for a record, sent back as
  \<^verbatim>\<open>from=timestamp:...\<close>, parses to the record's own time in milliseconds, which is also the
  \<^verbatim>\<open>timestampMs\<close> the reply shows (for the years 0 to 9999, which the format can write).
\<close>

theorem shown_timestamp_resumes:
  assumes "civil (SR_Timestamp rec div second_ns div 86400 + epoch_day) = (year, month, day)" "0 \<le> year" "year < 10000"
    and "[dto] = toRecordDTOs [rec]"
  shows "ParseFrom (''timestamp:'' @ RecordDTO_Timestamp dto)
      = Inr \<lparr>From_Kind = FromTimestamp, From_Offset = 0, From_TimeMilli = UnixMilli (SR_Timestamp rec)\<rparr>
    \<and> RecordDTO_TimestampMs dto = UnixMilli (SR_Timestamp rec)"
  using assms(4)
  by (simp add: toRecordDTOs_def ParseFrom_def HasPrefix_def TrimPrefix_def parseTimestamp_def from_kind_def
      format_not_integer parse_format_nano [OF assms(1-3)])

definition demo_stored :: scan_Record where
  "demo_stored = Decode ((demo_record 0 1700000000123456789 ''a'')\<lparr>Record_Topic := ''orders''\<rparr>) []"

theorem shown_timestamp_resumes_witness:
  "ParseFrom (''timestamp:'' @ RecordDTO_Timestamp (toRecordDTOs [demo_stored] ! 0))
    = Inr \<lparr>From_Kind = FromTimestamp, From_Offset = 0, From_TimeMilli = 1700000000123\<rparr>"
proof -
  have t: "SR_Timestamp demo_stored = 1700000000123456789"
    by (simp add: demo_stored_def Decode_def demo_record_def Let_def split: prod.split)
  have "civil (1700000000123456789 div second_ns div 86400 + epoch_day) = (2023, 11, 14)"
    by code_simp
  with shown_timestamp_resumes [of demo_stored 2023 11 14 "toRecordDTOs [demo_stored] ! 0"] t
  show ?thesis by (simp add: toRecordDTOs_def UnixMilli_def wrap64_def)
qed

section \<open>Plans\<close>

text \<open>A refused confirmation: the plan is in the details of the error, and nothing but reading has happened.\<close>

lemma refused_confirmation:
  assumes gate: "Check caller (desc_of c) pol = None" and plan: "plan (draw_id w) = (Ok p, w1)"
    and confirm: "confirm \<noteq> ConfirmTarget ops p" and box: "unbox (plan_any ops p) = Some p"
  shows "\<exists>env. orMapDestructive r unbox toDTO
      (destructive_cmd (world_service Background pol) ttype c caller name ops confirm False plan app) k w
    = (Ok (Inl env), w1) \<and> GetStatus env = 400 \<and> Body_Code (ErrorBody env) = ''CONFIRMATION_MISMATCH''
      \<and> Body_RequestID (ErrorBody env) = RequestIDFrom r \<and> Body_Details (ErrorBody env) = [(''plan'', toDTO p)]"
proof -
  let ?err = "PolicyError \<lparr>pe_Code = ConfirmationMismatch, pe_Message = [], pe_Details = [(''plan'', plan_any ops p)]\<rparr>"
  have g: "gate (gates_runner pol) caller (desc_of c) = None" using gate by simp
  have "destructive_cmd (world_service Background pol) ttype c caller name ops confirm False plan app w
      = (Ok (zero_Result, Some ?err), w1)"
    using confirm by (simp add: destructive_cmd_def onOk_def world_new_event Destructive_passed [OF g] attempt_def plan
        Let_def ret_run)
  then show ?thesis
    using box
    by (simp add: orMapDestructive_def attempt_def ret_run MapDestructive_def mget_def Map_def envelope_def
        GetStatus_def codeMapping_def codeTable_def mapping_def)
qed

text \<open>A dry run: the plan is the reply, and a \<open>RESULT\<close> is audited.\<close>

lemma dry_run_reply:
  assumes live: "live w1" and gate: "Check caller (desc_of c) pol = None" and plan: "plan (draw_id w) = (Ok p, w1)"
  shows "\<exists>ev. orMapDestructive r unbox toDTO
      (destructive_cmd (world_service Background pol) ttype c caller name ops confirm True plan app)
      (destructive_reply dry executed) w
    = (Ok (Inr (dry p)), add_event ev w1)"
proof -
  have g: "gate (gates_runner pol) caller (desc_of c) = None" using gate by simp
  have "\<exists>ev. destructive_cmd (world_service Background pol) ttype c caller name ops confirm True plan app w
      = (Ok (dryrun_Result p, None), add_event ev w1)"
    using live_audit_result [OF live]
    by (auto simp: destructive_cmd_def onOk_def world_new_event Destructive_dry [OF g] attempt_def plan ret_run)
  then show ?thesis
    by (auto simp: orMapDestructive_def attempt_def destructive_reply_def dryrun_Result_def reply_def ret_run)
qed

text \<open>Planning an import leaves no audit event.\<close>

lemma quiet_trail_PlanImport: "quiet audit_trail (PlanImport (world_service Background pol) desired allowDelete)"
proof -
  have "quiet audit_trail (reconcile (world_service Background pol) existing dt acc)" for existing dt acc
    by (cases acc) (auto simp: reconcile_def Let_def intro!: quiet_intros on_fake_trail)
  then show ?thesis
    unfolding PlanImport_def Let_def case_prod_unfold by (simp, intro quiet_intros on_fake_trail)
qed

text \<open>
  C9. The two-step protocol of C12: the dry run answers with the plan and its token, and a call whose
  confirmation is not that token is refused with the very same plan, having written nothing, neither to the
  cluster nor to the audit trail. So a client learns the token that confirms the call either way.
\<close>

theorem refused_import_shows_the_dry_run:
  assumes "Check (caller_of r) (desc_of ''C12'') pol = None"
    and "PlanImport (world_service Background pol) (toImportTopics (ApplyTopicsRequestBody_Topics body))
        (ApplyTopicsRequestBody_AllowDelete body) (draw_id w) = (Ok p, w1)" "live w1"
    and "ApplyTopicsRequestBody_Confirm body \<noteq> IP_PlanToken p"
  shows "\<exists>out env ev. applyTopics (world_service Background pol) r
        \<lparr>ApplyTopicsInput_DryRun = True, ApplyTopicsInput_Body = body\<rparr> w = (Ok (Inr out), add_event ev w1)
    \<and> ApplyTopicsOutput_Status out = 200 \<and> ApplyTopicsBody_Plan (ApplyTopicsOutput_Body out) = Some (toImportPlanDTO p)
    \<and> applyTopics (world_service Background pol) r
        \<lparr>ApplyTopicsInput_DryRun = False, ApplyTopicsInput_Body = body\<rparr> w = (Ok (Inl env), w1)
    \<and> GetStatus env = 400 \<and> Body_Code (ErrorBody env) = ''CONFIRMATION_MISMATCH''
    \<and> Body_Details (ErrorBody env) = [(''plan'', json_ApplyTopicsPlanDTO (toImportPlanDTO p))]
    \<and> ApplyTopicsPlanDTO_PlanToken (toImportPlanDTO p) = ConfirmTarget ImportPlan_ops p
    \<and> cluster w1 = cluster w \<and> audit_trail w1 = audit_trail w"
proof -
  let ?plan = "PlanImport (world_service Background pol) (toImportTopics (ApplyTopicsRequestBody_Topics body))
    (ApplyTopicsRequestBody_AllowDelete body)"
  have confirm: "ApplyTopicsRequestBody_Confirm body \<noteq> ConfirmTarget ImportPlan_ops p"
    using assms(4) by (simp add: ImportPlan_ops_def)
  have "cluster w1 = cluster (draw_id w)"
    by (rule quietD [OF service_env.quiet_PlanImport [OF world_env.service_env_axioms] assms(2)])
  moreover have "audit_trail w1 = audit_trail (draw_id w)"
    by (rule quietD [OF quiet_trail_PlanImport assms(2)])
  moreover have "cluster (draw_id w) = cluster w" by (simp add: cluster_def draw_id_def)
  moreover have "ApplyTopicsPlanDTO_PlanToken (toImportPlanDTO p) = ConfirmTarget ImportPlan_ops p"
    by (simp add: toImportPlanDTO_def ImportPlan_ops_def)
  moreover have "\<exists>out ev. applyTopics (world_service Background pol) r
        \<lparr>ApplyTopicsInput_DryRun = True, ApplyTopicsInput_Body = body\<rparr> w = (Ok (Inr out), add_event ev w1)
    \<and> ApplyTopicsOutput_Status out = 200 \<and> ApplyTopicsBody_Plan (ApplyTopicsOutput_Body out) = Some (toImportPlanDTO p)"
  proof -
    let ?dry = "\<lambda>p. \<lparr>ApplyTopicsOutput_Status = StatusOK, ApplyTopicsOutput_Body = zero_ApplyTopicsBody\<lparr>
            ApplyTopicsBody_DryRun := True, ApplyTopicsBody_Plan := Some (toImportPlanDTO p)\<rparr>\<rparr>"
    have "\<exists>ev. applyTopics (world_service Background pol) r
        \<lparr>ApplyTopicsInput_DryRun = True, ApplyTopicsInput_Body = body\<rparr> w = (Ok (Inr (?dry p)), add_event ev w1)"
      unfolding applyTopics_def Import_def cluster_destructive_def Let_def ApplyTopicsInput.simps
      by (rule dry_run_reply [where plan = ?plan, OF assms(3,1,2)])
    then show ?thesis by (auto simp: StatusOK_def)
  qed
  moreover have "\<exists>env. applyTopics (world_service Background pol) r
        \<lparr>ApplyTopicsInput_DryRun = False, ApplyTopicsInput_Body = body\<rparr> w = (Ok (Inl env), w1)
    \<and> GetStatus env = 400 \<and> Body_Code (ErrorBody env) = ''CONFIRMATION_MISMATCH''
    \<and> Body_Details (ErrorBody env) = [(''plan'', json_ApplyTopicsPlanDTO (toImportPlanDTO p))]"
  proof -
    have "\<exists>env. applyTopics (world_service Background pol) r
        \<lparr>ApplyTopicsInput_DryRun = False, ApplyTopicsInput_Body = body\<rparr> w = (Ok (Inl env), w1)
      \<and> GetStatus env = 400 \<and> Body_Code (ErrorBody env) = ''CONFIRMATION_MISMATCH''
      \<and> Body_RequestID (ErrorBody env) = RequestIDFrom r
      \<and> Body_Details (ErrorBody env) = [(''plan'', json_ApplyTopicsPlanDTO (toImportPlanDTO p))]"
      unfolding applyTopics_def Import_def cluster_destructive_def Let_def ApplyTopicsInput.simps
      by (rule refused_confirmation [where plan = ?plan and unbox = unbox_ImportPlan,
            OF assms(1,2) confirm unbox_cluster_plans(4)])
    then show ?thesis by blast
  qed
  ultimately show ?thesis by auto
qed


definition demo_apply :: ApplyTopicsRequestBody where
  "demo_apply = \<lparr>ApplyTopicsRequestBody_Confirm = ''yes'', ApplyTopicsRequestBody_AllowDelete = True,
     ApplyTopicsRequestBody_Topics = []\<rparr>"

lemma demo_import_plan:
  "\<exists>p w1. PlanImport (world_service Background demo_policy) (toImportTopics (ApplyTopicsRequestBody_Topics demo_apply)) True
      (draw_id demo_world) = (Ok p, w1) \<and> IP_Delete p = [''orders''] \<and> IP_PlanToken p = Token ''C12'' [] \<and> live w1"
proof -
  have "summaries (model_of (draw_id demo_world)) = [topicSummary ''orders'' demo_orders]"
    by (simp add: summaries_def) (simp add: model_of_def demo_world_def demo_topics)
  moreover have "live (draw_id demo_world)" by simp
  ultimately show ?thesis
    by (simp add: PlanImport_def onOk_def live_ListTopics ret_run Let_def topicSummary_def demo_orders_def
        name_set_def mkeys_def mget_def demo_apply_def toImportTopics_def)
qed

theorem refused_import_shows_the_dry_run_witness:
  "\<exists>p w1 env. applyTopics (world_service Background demo_policy) (withCaller demo_op (demo_request ''POST'' []))
        \<lparr>ApplyTopicsInput_DryRun = False, ApplyTopicsInput_Body = demo_apply\<rparr> demo_world = (Ok (Inl env), w1)
    \<and> IP_Delete p = [''orders'']
    \<and> Body_Details (ErrorBody env) = [(''plan'', json_ApplyTopicsPlanDTO (toImportPlanDTO p))]
    \<and> cluster w1 = cluster demo_world"
proof -
  let ?r = "withCaller demo_op (demo_request ''POST'' [])"
  from demo_import_plan obtain p w1 where p: "PlanImport (world_service Background demo_policy)
      (toImportTopics (ApplyTopicsRequestBody_Topics demo_apply)) (ApplyTopicsRequestBody_AllowDelete demo_apply)
      (draw_id demo_world) = (Ok p, w1)" "IP_Delete p = [''orders'']" "IP_PlanToken p = Token ''C12'' []" "live w1"
    by (auto simp: demo_apply_def)
  have "Check (caller_of ?r) (desc_of ''C12'') demo_policy = None"
    by (simp add: caller_of_def CallerFrom_def withCaller_def Check_pass_iff demo_policy_def mget_def desc_of_def
        Lookup_def Table_def)
  moreover have "ApplyTopicsRequestBody_Confirm demo_apply \<noteq> IP_PlanToken p"
  proof -
    have "length (IP_PlanToken p) \<noteq> length (ApplyTopicsRequestBody_Confirm demo_apply)"
      by (simp add: p demo_apply_def)
    then show ?thesis by metis
  qed
  ultimately show ?thesis
    using refused_import_shows_the_dry_run [OF _ p(1,4)] p(2) by blast
qed

end
