(* ===== verification/FakeProps.thy ===== *)
theory FakeProps
  imports World
begin

text \<open>
  The state invariant of the in-memory cluster: keys are unique, entries carry their own names, every
  configuration key of a topic is set once, and no user or quota is kept without a credential or a value. Every
  port operation keeps it, so it holds in every state that the seeding and the operations reach. The logs are
  contiguous too as long as no truncation went below the begin offset of its partition: the cluster accepts
  such a truncation, and it breaks the log (\<open>TopicProps.truncate_below_begin\<close>).
\<close>

section \<open>Maps whose entries satisfy a condition\<close>

definition wf_entries :: "('k \<Rightarrow> 'v \<Rightarrow> bool) \<Rightarrow> ('k \<times> 'v) list \<Rightarrow> bool" where
  "wf_entries P l \<longleftrightarrow> wf_map l \<and> (\<forall>k v. map_of l k = Some v \<longrightarrow> P k v)"

lemma wf_entries_Nil [simp]: "wf_entries P []"
  by (simp add: wf_entries_def)




lemma wf_entries_map: "wf_entries P l \<Longrightarrow> wf_map l"
  by (simp add: wf_entries_def)

section \<open>The invariant\<close>

text \<open>\<open>lg\<close> says whether the logs are part of it: contiguous from the begin offset.\<close>

definition wf_stored_topic :: "bool \<Rightarrow> string \<Rightarrow> fakeTopic \<Rightarrow> bool" where
  "wf_stored_topic lg name t \<longleftrightarrow> ft_name t = name \<and> (lg \<longrightarrow> wf_topic t) \<and> distinct (map ConfigEntry_Name (ft_configs t))"

definition wf_stored_user :: "string \<Rightarrow> fakeScramUser \<Rightarrow> bool" where
  "wf_stored_user name u \<longleftrightarrow> fs_name u = name \<and> fs_credentials u \<noteq> [] \<and> wf_map (fs_credentials u)"

definition wf_stored_quota :: "string \<Rightarrow> fakeQuota \<Rightarrow> bool" where
  "wf_stored_quota key q \<longleftrightarrow> entityKey (fqt_entity q) = key \<and> fqt_values q \<noteq> [] \<and> wf_map (fqt_values q)"

definition wf_stored_group :: "string \<Rightarrow> fakeGroup \<Rightarrow> bool" where
  "wf_stored_group i g \<longleftrightarrow> fg_id g = i \<and> wf_map (fg_offsets g)"

definition wf_cluster :: "bool \<Rightarrow> model \<Rightarrow> bool" where
  "wf_cluster lg m \<longleftrightarrow> wf_entries (wf_stored_topic lg) (m_topics m) \<and> wf_entries wf_stored_group (m_groups m)
     \<and> wf_entries wf_stored_user (m_scramUsers m) \<and> wf_entries wf_stored_quota (m_quotas m)"

lemma wf_cluster_other [simp]:
  "wf_cluster lg (m\<lparr>m_brokers := bs\<rparr>) = wf_cluster lg m" "wf_cluster lg (m\<lparr>m_brokerConfigs := bc\<rparr>) = wf_cluster lg m"
  "wf_cluster lg (m\<lparr>m_quorum := q\<rparr>) = wf_cluster lg m" "wf_cluster lg (m\<lparr>m_controllerID := i\<rparr>) = wf_cluster lg m"
  "wf_cluster lg (m\<lparr>m_controllerSet := b\<rparr>) = wf_cluster lg m"
  by (simp_all add: wf_cluster_def)







section \<open>Topics\<close>














text \<open>
  A truncation that stays within the log of its partition. Outside it - below the begin offset - the
  operation is accepted as well, and breaks the log.
\<close>

definition truncates_within :: "string \<Rightarrow> (int32 \<times> int64) list \<Rightarrow> model \<Rightarrow> bool" where
  "truncates_within topic truncateTo m \<longleftrightarrow> (\<forall>t. map_of (m_topics m) topic = Some t \<longrightarrow>
     (\<forall>(p, off) \<in> set truncateTo. 0 \<le> p \<and> p < int (length (ft_partitions t)) \<longrightarrow> advances off (ft_partitions t ! nat p)))"





section \<open>Groups, users and quotas\<close>









section \<open>Every operation keeps the invariant\<close>





text \<open>
  \<open>fake_step lg f f'\<close>: one call of the port, whatever its context and its outcome, one seeding step, or
  anything that leaves the model alone - reads, polls, fault injection, the passing of time. Maps that
  arrive in a request are Go maps, so their keys are distinct. With \<open>lg\<close> only the truncations that stay within
  the log are steps, without it all of them are.
\<close>

inductive fake_step :: "bool \<Rightarrow> Fake \<Rightarrow> Fake \<Rightarrow> bool" for lg :: bool where
  other: "fk_model f' = fk_model f \<Longrightarrow> fake_step lg f f'"
| create_step: "fake_CreateTopics ctx specs v f = (r, f') \<Longrightarrow> \<forall>s \<in> set specs. wf_map (TopicSpec_Configs s) \<Longrightarrow> fake_step lg f f'"
| topic_configs_step: "fake_IncrementalAlterTopicConfigs ctx t changes f = (u, f') \<Longrightarrow> fake_step lg f f'"
| partitions_step: "fake_CreatePartitions ctx t n f = (u, f') \<Longrightarrow> fake_step lg f f'"
| delete_topics_step: "fake_DeleteTopics ctx ts f = (rd, f') \<Longrightarrow> fake_step lg f f'"
| delete_records_step: "fake_DeleteRecords ctx t to f = (lw, f') \<Longrightarrow> wf_map to \<Longrightarrow> lg \<longrightarrow> truncates_within t to (fk_model f) \<Longrightarrow> fake_step lg f f'"
| commit_step: "fake_CommitGroupOffsets ctx g offsets f = (u, f') \<Longrightarrow> fake_step lg f f'"
| delete_groups_step: "fake_DeleteGroups ctx gs f = (rg, f') \<Longrightarrow> fake_step lg f f'"
| leave_step: "fake_LeaveGroup ctx g ms f = (rl, f') \<Longrightarrow> fake_step lg f f'"
| assignments_step: "fake_AlterPartitionAssignments ctx moves f = (ra, f') \<Longrightarrow> fake_step lg f f'"
| elect_leaders_step: "fake_ElectLeaders ctx preferred tps f = (re, f') \<Longrightarrow> fake_step lg f f'"
| broker_configs_step: "fake_IncrementalAlterBrokerConfigs ctx b changes f = (u, f') \<Longrightarrow> fake_step lg f f'"
| users_step: "fake_AlterUserSCRAMs ctx ups ds f = (ru, f') \<Longrightarrow> fake_step lg f f'"
| quotas_step: "fake_AlterClientQuotas ctx es f = (rq, f') \<Longrightarrow> fake_step lg f f'"
| produce_step: "fake_Produce ctx t rs f = (rp, f') \<Longrightarrow> fake_step lg f f'"
| seed_broker: "fake_step lg f (SeedBroker i host port rack f)"
| seed_topic: "SeedTopic t n rs f = Some f' \<Longrightarrow> fake_step lg f f'"
| seed_broker_configs: "fake_step lg f (SeedBrokerConfigs b configs f)"
| seed_topic_meta: "fake_step lg f (SeedTopicMeta t internal rf f)"
| seed_topic_configs: "distinct (map ConfigEntry_Name configs) \<Longrightarrow> fake_step lg f (SeedTopicConfigs t configs f)"
| seed_partition_meta: "fake_step lg f (SeedPartitionMeta t p leader replicas isr f)"
| seed_log_dir: "fake_step lg f (SeedLogDir t p b dir bts f)"
| seed_group: "fake_step lg f (SeedGroup g offsets f)"
| seed_group_meta: "fake_step lg f (SeedGroupMeta g state pt coord f)"
| seed_group_member: "fake_step lg f (SeedGroupMember g member f)"
| seed_quorum: "fake_step lg f (SeedQuorum leader epoch voters observers f)"

inductive_cases fake_stepE: "fake_step lg f f'"


section \<open>Reachable clusters\<close>








end
