(* ===== verification/SecurityProps.thy ===== *)
theory SecurityProps
  imports SecurityService LiveReads
begin

text \<open>
  The credential and quota commands over the assembled gateway.
\<close>

section \<open>Reading users and quotas\<close>

lemma live_DescribeUser:
  "live w \<Longrightarrow> on_fake (fake_DescribeUserSCRAMs Background [u]) w
     = (case map_of (m_scramUsers (model_of w)) u of
          None \<Rightarrow> (Err (notFound ''user''), log_call ''DescribeUserSCRAMs'' False (Some (notFound ''user'')) w)
        | Some fu \<Rightarrow> (Ok [toDomainScramUser fu], log_call ''DescribeUserSCRAMs'' False None w))"
  by (simp add: fake_DescribeUserSCRAMs_def live_peek err_of_def split: option.split)

definition user_credentials :: "model \<Rightarrow> string \<Rightarrow> (ScramMechanism \<times> int32) list" where
  "user_credentials m u = (case map_of (m_scramUsers m) u of None \<Rightarrow> [] | Some fu \<Rightarrow> fs_credentials fu)"

lemma has_mechanism_domain:
  "has_mechanism mech (ScramUser_Credentials (toDomainScramUser fu)) \<longleftrightarrow> mhas (fs_credentials fu) mech"
  by (auto simp: has_mechanism_def toDomainScramUser_def mhas_in_keys)

lemma userHasMechanism_live:
  assumes "live w"
  shows "\<exists>w1. userHasMechanism (world_service Background pol) u mech w
    = (Ok (mhas (user_credentials (model_of w) u) mech), w1) \<and> reads_only w w1"
  using assms
  by (cases "map_of (m_scramUsers (model_of w)) u")
    (simp_all add: userHasMechanism_def attempt_def onOk_def live_DescribeUser user_credentials_def
      has_mechanism_domain ret_run mhas_def notFound_def)

section \<open>Creating a user\<close>

definition upsert_of :: "CreateUserParams \<Rightarrow> ScramUpsert" where
  "upsert_of params = \<lparr>ScramUpsert_User = CUP_Name params, ScramUpsert_Mechanism = CUP_Mechanism params,
     ScramUpsert_Iterations = user_iterations params, ScramUpsert_Password = CUP_Password params\<rparr>"

lemma live_upsert:
  assumes "live w"
  shows "on_fake (fake_AlterUserSCRAMs Background [u] []) w
    = (Ok [\<lparr>ScramAlterResult_User = ScramUpsert_User u, ScramAlterResult_Err = None\<rparr>],
       log_call ''AlterUserSCRAMs'' True None
         (set_model ((model_of w)\<lparr>m_scramUsers := scram_upsert u (m_scramUsers (model_of w))\<rparr>) w))"
proof -
  let ?g = "\<lambda>m::model. let order = fold mark (map ScramUpsert_User [u] @ map ScramDelete_User ([] :: ScramDelete list)) [];
         (users, errs) = fold scram_delete [] (fold scram_upsert [u] (m_scramUsers m), [] :: (string \<times> error) list)
     in (Ok (map (\<lambda>u. \<lparr>ScramAlterResult_User = u, ScramAlterResult_Err = map_of errs u\<rparr>) order),
         m\<lparr>m_scramUsers := users\<rparr>)"
  have "?g (model_of w) = (Ok [\<lparr>ScramAlterResult_User = ScramUpsert_User u, ScramAlterResult_Err = None\<rparr>],
      (model_of w)\<lparr>m_scramUsers := scram_upsert u (m_scramUsers (model_of w))\<rparr>)"
    by (simp add: mark_def)
  from live_alter [where g = ?g, OF assms this] show ?thesis
    by (simp add: fake_AlterUserSCRAMs_def err_of_def)
qed

definition can_create :: "world \<Rightarrow> CreateUserParams \<Rightarrow> bool" where
  "can_create w p \<longleftrightarrow> \<not> mhas (user_credentials (model_of w) (CUP_Name p)) (CUP_Mechanism p)"

lemma can_create_steps [simp]:
  "can_create (add_event ev w) p = can_create w p" "can_create (draw_id w) p = can_create w p"
  by (simp_all add: can_create_def)

lemma createUser_live:
  assumes "live w"
  shows "\<exists>w1. createUser (world_service Background pol) (CUP_Name p) (CUP_Mechanism p) (CUP_Password p)
        (user_iterations p) w
      = (if can_create w p then (Ok \<lparr>CUR_Name = CUP_Name p, CUR_Mechanism = CUP_Mechanism p\<rparr>, w1)
         else (Err (kafkaErr KindAlreadyExists ''user''), w1))
    \<and> live w1 \<and> audit_trail w1 = audit_trail w
    \<and> model_of w1 = (if can_create w p
        then (model_of w)\<lparr>m_scramUsers := scram_upsert (upsert_of p) (m_scramUsers (model_of w))\<rparr> else model_of w)"
proof -
  obtain w1 where "userHasMechanism (world_service Background pol) (CUP_Name p) (CUP_Mechanism p) w
      = (Ok (\<not> can_create w p), w1)" "reads_only w w1"
    using userHasMechanism_live [OF assms, of pol "CUP_Name p" "CUP_Mechanism p"] by (auto simp: can_create_def)
  then show ?thesis
    using assms reads_onlyD [of w w1]
    by (simp add: createUser_def onOk_def live_upsert ret_run fail_run upsert_of_def)
qed

lemma security_newEvent_world:
  "security_newEvent (world_service ctx pol) caller ''S1'' name w =
    (Ok (event_at ''user'' (desc_of ''S1'') caller name
       (hex_encode (map (w_entropy w) [w_drawn w..<w_drawn w + 16])) (fk_now (w_fake w))), draw_id w)"
  by (simp add: security_newEvent_def security_target_type_def world_new_event)

lemma security_gate_passes:
  "Check caller (desc_of ''S1'') pol = None \<Longrightarrow>
     security_checkGate (world_service ctx pol) caller ''S1'' name w = (Ok (), draw_id w)"
  by (simp add: security_checkGate_def onOk_def security_newEvent_world CheckAudited_pass ret_run)

lemma security_result_live:
  "live w \<Longrightarrow> security_result (world_service ctx pol) att oc code w
    = (Ok (), add_event ((resultEventAt (fk_now (w_fake w)) att oc code)\<lparr>Event_Phase := PhaseResult\<rparr>) w)"
  by (simp add: security_result_def security_resultEventOutcome_def onOk_def act_run world_now_def ret_run live_Result)

lemma Create_live:
  assumes "live w" "Check caller (desc_of ''S1'') pol = None"
  shows "\<exists>ev ev2 w1. security_Create (world_service Background pol) caller p w
      = (if can_create w p then (Ok \<lparr>CUR_Name = CUP_Name p, CUR_Mechanism = CUP_Mechanism p\<rparr>, w1)
         else (Err (kafkaErr KindAlreadyExists ''user''), w1))
    \<and> live w1 \<and> audit_trail w1 = audit_trail w @ [ev, ev2]
    \<and> model_of w1 = (if can_create w p
        then (model_of w)\<lparr>m_scramUsers := scram_upsert (upsert_of p) (m_scramUsers (model_of w))\<rparr> else model_of w)
    \<and> Event_Phase ev = PhaseAttempt \<and> Event_Phase ev2 = PhaseResult \<and> Event_EventID ev2 = Event_EventID ev
    \<and> Event_Target ev2 = \<lparr>Target_Type = ''user'', Target_Name = CUP_Name p, Target_Partitions = []\<rparr>
    \<and> Event_Outcome ev2 = (if can_create w p then OutcomeSucceeded else OutcomeFailed)"
proof -
  define att where "att = event_at ''user'' (desc_of ''S1'') caller (CUP_Name p)
     (hex_encode (map (w_entropy w) [w_drawn w + 16..<w_drawn w + 16 + 16])) (fk_now (w_fake w))"
  define ev where "ev = att\<lparr>Event_Phase := PhaseAttempt\<rparr>"
  define w0 where "w0 = add_event ev (draw_id (draw_id w))"
  have new: "security_newEvent (world_service Background pol) caller ''S1'' (CUP_Name p) (draw_id w)
      = (Ok att, draw_id (draw_id w))"
    by (subst security_newEvent_world) (simp add: draw_id_def att_def)
  have w0: "live w0" "can_create w0 p = can_create w p" "audit_trail w0 = audit_trail w @ [ev]" "model_of w0 = model_of w"
    using assms(1) by (simp_all add: w0_def)
  from createUser_live [OF w0(1), of pol p, unfolded w0(2-)] obtain w1
    where c: "createUser (world_service Background pol) (CUP_Name p) (CUP_Mechanism p) (CUP_Password p)
        (user_iterations p) w0
      = (if can_create w p then (Ok \<lparr>CUR_Name = CUP_Name p, CUR_Mechanism = CUP_Mechanism p\<rparr>, w1)
         else (Err (kafkaErr KindAlreadyExists ''user''), w1))"
      and w1: "live w1" "audit_trail w1 = audit_trail w @ [ev]"
        "model_of w1 = (if can_create w p
          then (model_of w)\<lparr>m_scramUsers := scram_upsert (upsert_of p) (m_scramUsers (model_of w))\<rparr> else model_of w)"
    by blast
  define ev2 where "ev2 = (resultEventAt (fk_now (w_fake w1)) att (if can_create w p then OutcomeSucceeded else OutcomeFailed)
      (if can_create w p then [] else security_errCodeOf (kafkaErr KindAlreadyExists ''user'')))\<lparr>Event_Phase := PhaseResult\<rparr>"
  have "Attempt [world_sink] att (draw_id (draw_id w)) = (Ok (), w0)"
    using assms(1) by (simp add: live_Attempt w0_def ev_def)
  then have "security_Create (world_service Background pol) caller p w
      = (if can_create w p then (Ok \<lparr>CUR_Name = CUP_Name p, CUR_Mechanism = CUP_Mechanism p\<rparr>, add_event ev2 w1)
         else (Err (kafkaErr KindAlreadyExists ''user''), add_event ev2 w1))"
    using w1(1)
    by (simp add: security_Create_def onOk_def attempt_def security_gate_passes [OF assms(2)] new
        c security_result_live ret_run fail_run ev2_def)
  moreover have "live (add_event ev2 w1)" "audit_trail (add_event ev2 w1) = audit_trail w @ [ev, ev2]"
    "model_of (add_event ev2 w1) = model_of w1"
    using w1 by simp_all
  moreover have "Event_Phase ev = PhaseAttempt" "Event_Phase ev2 = PhaseResult" "Event_EventID ev2 = Event_EventID ev"
    "Event_Target ev2 = \<lparr>Target_Type = ''user'', Target_Name = CUP_Name p, Target_Partitions = []\<rparr>"
    "Event_Outcome ev2 = (if can_create w p then OutcomeSucceeded else OutcomeFailed)"
    by (simp_all add: ev_def ev2_def att_def event_at_def resultEventAt_def Let_def)
  ultimately show ?thesis
    using w1(3) by (intro exI [of _ ev] exI [of _ ev2] exI [of _ "add_event ev2 w1"]) simp
qed

section \<open>Deleting what was created\<close>

lemma update_same: "map_of l k = Some v \<Longrightarrow> AList.update k v l = l"
  by (induction l) auto

lemma delete_update_new: "map_of l k = None \<Longrightarrow> AList.delete k (AList.update k v l) = l"
  by (induction l) (auto simp: AList.delete_eq filter_id_conv map_of_eq_None_iff image_iff split: if_splits)

lemma delete_undoes_upsert:
  assumes "\<not> mhas (user_credentials m (ScramUpsert_User u)) (ScramUpsert_Mechanism u)"
    and "\<And>fu. map_of (m_scramUsers m) (ScramUpsert_User u) = Some fu \<Longrightarrow> fs_credentials fu \<noteq> []"
  shows "scram_delete \<lparr>ScramDelete_User = ScramUpsert_User u, ScramDelete_Mechanism = ScramUpsert_Mechanism u\<rparr>
      (scram_upsert u (m_scramUsers m), errs) = (m_scramUsers m, errs)"
proof (cases "map_of (m_scramUsers m) (ScramUpsert_User u)")
  case None
  then show ?thesis
    by (simp add: scram_delete_def scram_upsert_def update_conv' delete_update_new mhas_def)
next
  case (Some fu)
  then have "map_of (fs_credentials fu) (ScramUpsert_Mechanism u) = None" "fs_credentials fu \<noteq> []"
    using assms by (simp_all add: user_credentials_def mhas_def)
  with Some show ?thesis
    by (simp add: scram_delete_def scram_upsert_def update_conv' delete_update_new update_same)
qed

lemma live_scram_delete:
  assumes "live w" "scram_delete d (m_scramUsers (model_of w), []) = (users, [])"
  shows "on_fake (fake_AlterUserSCRAMs Background [] [d]) w
    = (Ok [\<lparr>ScramAlterResult_User = ScramDelete_User d, ScramAlterResult_Err = None\<rparr>],
       log_call ''AlterUserSCRAMs'' True None (set_model ((model_of w)\<lparr>m_scramUsers := users\<rparr>) w))"
proof -
  let ?g = "\<lambda>m :: model. let order = fold mark (map ScramUpsert_User ([] :: ScramUpsert list) @ map ScramDelete_User [d]) [];
         (users, errs) = fold scram_delete [d] (fold scram_upsert [] (m_scramUsers m), [])
     in (Ok (map (\<lambda>u. \<lparr>ScramAlterResult_User = u, ScramAlterResult_Err = map_of errs u\<rparr>) order),
         m\<lparr>m_scramUsers := users\<rparr>)"
  have "?g (model_of w) = (Ok [\<lparr>ScramAlterResult_User = ScramDelete_User d, ScramAlterResult_Err = None\<rparr>],
      (model_of w)\<lparr>m_scramUsers := users\<rparr>)"
    by (simp add: mark_def assms(2))
  from live_alter [where g = ?g, OF assms(1) this] show ?thesis
    by (simp add: fake_AlterUserSCRAMs_def err_of_def)
qed

lemma map_of_upsert:
  "\<exists>fu. map_of (scram_upsert u users) (ScramUpsert_User u) = Some fu \<and> mhas (fs_credentials fu) (ScramUpsert_Mechanism u)"
  by (simp add: scram_upsert_def update_conv' mhas_def Let_def split: option.split)

text \<open>
  C32. Creating a SCRAM credential with S1 and deleting it again restores the cluster: for a user and a
  mechanism that is not configured, an operator's creation succeeds, the confirmed deletion of that
  mechanism succeeds, and afterwards the model of the cluster is the one before the creation.
\<close>

theorem user_create_then_delete:
  assumes "live w" "Check caller (desc_of ''S1'') pol = None" "can_create w p" "CUP_Mechanism p \<noteq> []"
    and "\<And>fu. map_of (m_scramUsers (model_of w)) (CUP_Name p) = Some fu \<Longrightarrow> fs_credentials fu \<noteq> []"
  shows "\<exists>w1 plan w2. security_Create (world_service Background pol) caller p w
       = (Ok \<lparr>CUR_Name = CUP_Name p, CUR_Mechanism = CUP_Mechanism p\<rparr>, w1)
     \<and> security_Delete (world_service Background pol) caller (CUP_Name p) (CUP_Mechanism p) (CUP_Name p) False w1
       = (Ok (\<lparr>Result_DryRun = False, Result_Plan = Some plan, Result_Value = Some (CUP_Name p)\<rparr>, None), w2)
     \<and> model_of w2 = model_of w"
proof -
  let ?svc = "world_service Background pol"
  let ?m = "(model_of w)\<lparr>m_scramUsers := scram_upsert (upsert_of p) (m_scramUsers (model_of w))\<rparr>"
  let ?plan = "\<lparr>DUP_User = CUP_Name p, DUP_Mechanisms = [CUP_Mechanism p]\<rparr>"
  let ?d = "\<lparr>ScramDelete_User = CUP_Name p, ScramDelete_Mechanism = CUP_Mechanism p\<rparr>"
  from Create_live [OF assms(1,2), of p] assms(3) obtain w1
    where create: "security_Create ?svc caller p w = (Ok \<lparr>CUR_Name = CUP_Name p, CUR_Mechanism = CUP_Mechanism p\<rparr>, w1)"
      and w1: "live w1" "model_of w1 = ?m"
    by auto
  obtain fu where fu: "map_of (m_scramUsers ?m) (CUP_Name p) = Some fu" "mhas (fs_credentials fu) (CUP_Mechanism p)"
    using map_of_upsert [of "upsert_of p" "m_scramUsers (model_of w)"] by (auto simp: upsert_of_def)
  let ?w2 = "log_call ''DescribeUserSCRAMs'' False None (draw_id w1)"
  have plan: "PlanDeleteUser ?svc (CUP_Name p) (CUP_Mechanism p) (draw_id w1) = (Ok ?plan, ?w2)"
    using w1 fu assms(4)
    by (simp add: PlanDeleteUser_def onOk_def live_DescribeUser has_mechanism_domain ret_run)
  have "scram_delete ?d (m_scramUsers (model_of w1), []) = (m_scramUsers (model_of w), [])"
    using delete_undoes_upsert [of "model_of w" "upsert_of p" "[]"] assms(3,5) w1(2)
    by (simp add: can_create_def upsert_of_def)
  then have app: "ApplyDeleteUser ?svc ?plan (add_event ev ?w2) = (Ok (CUP_Name p),
      log_call ''AlterUserSCRAMs'' True None (set_model (?m\<lparr>m_scramUsers := m_scramUsers (model_of w)\<rparr>) (add_event ev ?w2)))" for ev
    using live_scram_delete [of "add_event ev ?w2" ?d "m_scramUsers (model_of w)"] w1
    by (simp add: ApplyDeleteUser_def onOk_def ret_run)
  let ?step = "\<lambda>ev. log_call ''AlterUserSCRAMs'' True None
      (set_model (?m\<lparr>m_scramUsers := m_scramUsers (model_of w)\<rparr>) (add_event ev ?w2))"
  have "\<exists>ev ev2. security_Delete ?svc caller (CUP_Name p) (CUP_Mechanism p) (CUP_Name p) False w1
       = (Ok (\<lparr>Result_DryRun = False, Result_Plan = Some ?plan, Result_Value = Some (CUP_Name p)\<rparr>, None),
          add_event ev2 (?step ev)) \<and> audited_pair ''S1'' caller ev ev2"
    unfolding security_Delete_def
    by (rule destructive_executes [where ?w1.0 = ?w2])
      (simp_all add: w1(1) assms(2) plan app DeleteUserPlan_ops_def)
  then obtain ev ev2 where "security_Delete ?svc caller (CUP_Name p) (CUP_Mechanism p) (CUP_Name p) False w1
       = (Ok (\<lparr>Result_DryRun = False, Result_Plan = Some ?plan, Result_Value = Some (CUP_Name p)\<rparr>, None),
          add_event ev2 (?step ev))"
    by blast
  moreover have "model_of (add_event ev2 (?step ev)) = model_of w" by simp
  ultimately show ?thesis using create by blast
qed

definition demo_user :: CreateUserParams where
  "demo_user = \<lparr>CUP_Name = ''alice'', CUP_Mechanism = ScramSha256, CUP_Password = ''secret'', CUP_Iterations = 0\<rparr>"

lemma demo_user_facts [simp]:
  "Check demo_op (desc_of ''S1'') demo_policy = None" "Check demo_op (desc_of ''S2'') demo_policy = None"
  "m_scramUsers (model_of demo_world) = []" "m_quotas (model_of demo_world) = []"
  by (simp_all add: Check_pass_iff demo_policy_def mget_def model_of_def demo_world_def demo_fake_def SeedTopic_def
      SeedGroup_def SeedBroker_def Fake_New_def upd_model_def demo_record_def append_record_def fp_end_def
      zero_partition_def Let_def numeral_2_eq_2)

theorem user_create_then_delete_witness:
  "\<exists>w1 plan w2. security_Create (world_service Background demo_policy) demo_op demo_user demo_world
       = (Ok \<lparr>CUR_Name = ''alice'', CUR_Mechanism = ScramSha256\<rparr>, w1)
     \<and> security_Delete (world_service Background demo_policy) demo_op ''alice'' ScramSha256 ''alice'' False w1
       = (Ok (\<lparr>Result_DryRun = False, Result_Plan = Some plan, Result_Value = Some ''alice''\<rparr>, None), w2)
     \<and> model_of w2 = model_of demo_world"
  using user_create_then_delete [of demo_world demo_op demo_policy demo_user]
  by (simp add: demo_user_def can_create_def user_credentials_def mhas_def ScramSha256_def)

text \<open>
  S1 never overwrites a credential: when the user already has the mechanism, creation answers
  \<open>AlreadyExists\<close>, leaves the cluster unchanged, and audits an \<open>ATTEMPT\<close> and a failed \<open>RESULT\<close> whose target
  is the user's name.
\<close>

theorem existing_credential_kept:
  assumes "live w" "Check caller (desc_of ''S1'') pol = None" "\<not> can_create w p"
  shows "\<exists>ev ev2 w1. security_Create (world_service Background pol) caller p w
       = (Err (kafkaErr KindAlreadyExists ''user''), w1)
     \<and> model_of w1 = model_of w \<and> audit_trail w1 = audit_trail w @ [ev, ev2]
     \<and> Event_Outcome ev2 = OutcomeFailed \<and> Target_Name (Event_Target ev2) = CUP_Name p"
  using Create_live [OF assms(1,2), of p] assms(3) by auto

theorem existing_credential_kept_witness:
  "\<exists>w w1. security_Create (world_service Background demo_policy) demo_op demo_user w
       = (Err (kafkaErr KindAlreadyExists ''user''), w1) \<and> model_of w1 = model_of w"
proof -
  let ?w = "set_model ((model_of demo_world)\<lparr>m_scramUsers :=
      [(''alice'', \<lparr>fs_name = ''alice'', fs_credentials = [(ScramSha256, 4096)]\<rparr>)]\<rparr>) demo_world"
  have "\<not> can_create ?w demo_user"
    by (simp add: can_create_def demo_user_def user_credentials_def mhas_def)
  moreover have "live ?w" by simp
  ultimately show ?thesis
    using existing_credential_kept [OF _ demo_user_facts(1)] by blast
qed

end
