(* ===== verification/CoreProps.thy ===== *)
theory CoreProps
  imports World
begin

text \<open>
  What the shared pipeline guarantees of every command: the gate, the sequencing of destructive
  commands with its audit record, the bulk primitive and the plan token.
\<close>

section \<open>The gate\<close>

text \<open>
  The gate lets a call through exactly when a writing command comes from an operator while neither
  read-only mode nor the command's own switch is on, and a data-plane command under the lock comes
  from an operator with a break-glass reason.
\<close>

theorem gate_passes_iff:
  "Check caller d pol = None \<longleftrightarrow>
     (Desc_Access d = W \<longrightarrow> Caller_Tier caller = TierOperator \<and> \<not> Policy_ReadOnly pol
        \<and> \<not> mget (Policy_Disabled pol) False (Desc_ID d))
     \<and> (Desc_DataPlane d \<and> Policy_DataPlaneLock pol \<longrightarrow>
          Caller_Tier caller = TierOperator \<and> Caller_BreakGlassReason caller \<noteq> [])"
  by (rule Check_pass_iff)

theorem gate_passes_iff_witness:
  "Check demo_op (desc_of ''T7'') demo_policy = None \<and> Check demo_reader (desc_of ''T7'') demo_policy \<noteq> None"
  using gate_passes_iff [of demo_op "desc_of ''T7''" demo_policy]
    gate_passes_iff [of demo_reader "desc_of ''T7''" demo_policy] by simp

text \<open>
  Break-glass bypasses the data-plane lock only: for a writing command that the tier, read-only
  mode or the command's switch forbids, the gate rejects with the same error whatever reason the
  caller supplies.
\<close>

theorem break_glass_never_bypasses:
  assumes "Desc_Access d = W"
    and "Caller_Tier caller \<noteq> TierOperator \<or> Policy_ReadOnly pol \<or> mget (Policy_Disabled pol) False (Desc_ID d)"
  shows "\<exists>err. CodeOf err \<in> {Some TierForbidden, Some ReadOnlyMode, Some OperationDisabled}
    \<and> (\<forall>reason. Check (caller\<lparr>Caller_BreakGlassReason := reason\<rparr>) d pol = Some err)"
proof -
  let ?err = "if Caller_Tier caller \<noteq> TierOperator then policyErr TierForbidden []
    else if Policy_ReadOnly pol then policyErr ReadOnlyMode [] else policyErr OperationDisabled []"
  have "\<forall>reason. Check (caller\<lparr>Caller_BreakGlassReason := reason\<rparr>) d pol = Some ?err"
    using assms by (auto simp: Check_def)
  then show ?thesis by (intro exI [of _ ?err]) simp
qed

theorem break_glass_never_bypasses_witness:
  "\<exists>err. CodeOf err \<in> {Some TierForbidden, Some ReadOnlyMode, Some OperationDisabled}
    \<and> (\<forall>reason. Check (demo_reader\<lparr>Caller_BreakGlassReason := reason\<rparr>) (desc_of ''M5'') demo_policy = Some err)"
  by (rule break_glass_never_bypasses) simp_all

section \<open>Destructive commands\<close>

text \<open>
  C2. The apply step of a destructive command is unreachable unless every guard holds: without a passing
  gate, an executing (not dry-run) call, a successful plan, a confirmation equal to the plan's target
  and an \<open>ATTEMPT\<close> that every sink accepted, the whole call - its answer, its effects and its audit
  events - is the same for every apply step.
\<close>

theorem Destructive_apply_needs_guards:
  assumes "\<not> apply_guards ops r auditor caller d att confirm dryRun plan s"
  shows "Destructive timeNow ops r auditor caller d att confirm dryRun plan app s
    = Destructive timeNow ops r auditor caller d att confirm dryRun plan app' s"
  by (rule Destructive_ignores_apply [OF assms])

text \<open>The guards are not met by a wrong confirmation: a concrete instance of the property.\<close>

definition demo_ops :: "string PlanOps" where
  "demo_ops = \<lparr>ConfirmTarget = id, plan_any = AStr\<rparr>"

definition demo_event :: Event where
  "demo_event = event_at ''topic'' (desc_of ''T7'') demo_op ''orders'' ''e1'' 0"

theorem Destructive_apply_needs_guards_witness:
  "Destructive world_timeNow demo_ops (gates_runner demo_policy) [world_sink] demo_op (desc_of ''T7'')
      demo_event ''order'' False (ret ''orders'') (\<lambda>_. ret (1::int)) demo_world
   = Destructive world_timeNow demo_ops (gates_runner demo_policy) [world_sink] demo_op (desc_of ''T7'')
      demo_event ''order'' False (ret ''orders'') (\<lambda>_. panic) demo_world"
  by (rule Destructive_apply_needs_guards) (simp add: apply_guards_def demo_ops_def ret_run)

text \<open>
  C15. Auditing fails closed: when a sink rejects the \<open>ATTEMPT\<close> of a call whose other guards hold, the
  caller gets \<open>AUDIT_UNAVAILABLE\<close> with an empty result and the state is the one the sinks left; apply
  did not run.
\<close>

theorem Destructive_fails_closed:
  assumes "gate r caller d = None"
    and "plan s = (Ok p, s1)" and "confirm = ConfirmTarget ops p"
    and "Attempt auditor (att\<lparr>Event_DryRun := False\<rparr>) s1 = (Err e, s2)"
  shows "Destructive timeNow ops r auditor caller d att confirm False plan app s
    = (Ok (zero_Result, Some (policyErr AuditUnavailable (err_Error e))), s2)"
  using assms by (simp add: Destructive_passed attempt_def Let_def ret_run)

definition demo_deaf_world :: world where
  "demo_deaf_world = demo_world\<lparr>w_sink := RecordingSink_FailAlways PhaseAttempt RecordingSink_New\<rparr>"

lemma demo_deaf_attempt:
  "Attempt [world_sink] (demo_event\<lparr>Event_DryRun := False\<rparr>) demo_deaf_world
     = (Err (WrapError ''audit: attempt: '' (injected PhaseAttempt)), demo_deaf_world)"
  by (simp add: Attempt_def attempt_def world_sink_run RecordingSink_Write_def demo_deaf_world_def
      RecordingSink_FailAlways_def RecordingSink_New_def mget_def fail_run)

theorem Destructive_fails_closed_witness:
  "Destructive world_timeNow demo_ops (gates_runner demo_policy) [world_sink] demo_op (desc_of ''T7'')
      demo_event ''orders'' False (ret ''orders'') (\<lambda>_. panic :: (world, int) eff) demo_deaf_world
   = (Ok (zero_Result, Some (policyErr AuditUnavailable
        (err_Error (WrapError ''audit: attempt: '' (injected PhaseAttempt))))), demo_deaf_world)"
proof (rule Destructive_fails_closed [where p = "''orders''" and ?s1.0 = demo_deaf_world])
  show "Attempt [world_sink] (demo_event\<lparr>Event_DryRun := False\<rparr>) demo_deaf_world
     = (Err (WrapError ''audit: attempt: '' (injected PhaseAttempt)), demo_deaf_world)"
    by (rule demo_deaf_attempt)
qed (simp_all add: demo_ops_def ret_run)

text \<open>
  A destructive call the gate rejects returns the gate's error and changes nothing but the audit
  trail, which gains exactly one \<open>RESULT\<close> event: \<open>REJECTED\<close>, carrying the error's code, of severity
  \<open>HIGH\<close> when the caller tried break-glass and \<open>WARN\<close> otherwise.
\<close>

theorem destructive_rejection_audited:
  assumes "live w" "Check caller (desc_of c) pol = Some err"
  shows "\<exists>ev. destructive_cmd (world_service ctx pol) ttype c caller name ops confirm dryRun plan app w
       = (Ok (zero_Result, Some err), add_event ev (draw_id w))
     \<and> Event_Phase ev = PhaseResult \<and> Event_Outcome ev = OutcomeRejected
     \<and> Event_CommandID ev = Desc_ID (desc_of c) \<and> Event_Error ev = map_option code_String (CodeOf err)
     \<and> Event_Severity ev = (if Caller_BreakGlassReason caller \<noteq> [] then SeverityHigh else SeverityWarn)"
proof -
  have g: "gate (gates_runner pol) caller (desc_of c) = Some err" using assms(2) by simp
  from Check_codes [OF assms(2)] obtain cd where "CodeOf err = Some cd" by auto
  then show ?thesis
    using assms(1)
    by (auto simp: destructive_cmd_def onOk_def world_new_event Destructive_def CheckAudited_reject [OF g]
        attempt_def live_Result fail_run ret_run rejected_event_def code_or_zero_def event_at_def)
qed

theorem destructive_rejection_audited_witness:
  "\<exists>err ev. destructive_cmd (world_service Background demo_policy) ''topic'' ''T7'' demo_reader ''orders'' demo_ops
      ''orders'' False (ret ''orders'') (\<lambda>_. panic :: (world, int) eff) demo_world
       = (Ok (zero_Result, Some err), add_event ev (draw_id demo_world)) \<and> Event_Severity ev = SeverityWarn"
proof -
  have rej: "Check demo_reader (desc_of ''T7'') demo_policy = Some (policyErr TierForbidden [])"
    by (simp add: Check_def)
  show ?thesis
    using destructive_rejection_audited [OF demo_live rej] by fastforce
qed

text \<open>
  A dry run that passes the gate answers with the plan, runs nothing but the plan step, and writes
  exactly one \<open>RESULT\<close> event, marked as a dry run; its severity is that of an executed command, so it
  is \<open>HIGH\<close> for T7, T8, T11, T12 and G5.
\<close>

theorem dry_run_audited:
  assumes "Check caller (desc_of c) pol = None" "Caller_BreakGlassReason caller = []"
    and "plan (draw_id w) = (Ok p, w1)" "live w1"
  shows "\<exists>ev. destructive_cmd (world_service ctx pol) ttype c caller name ops confirm True plan app w
       = (Ok (dryrun_Result p, None), add_event ev w1)
     \<and> Event_Phase ev = PhaseResult \<and> Event_DryRun ev \<and> Event_Outcome ev = OutcomeSucceeded
     \<and> Event_Severity ev = (if Desc_ID (desc_of c) \<in> {''T7'', ''T8'', ''T11'', ''T12'', ''G5''}
          then SeverityHigh else SeverityInfo)"
proof -
  have g: "gate (gates_runner pol) caller (desc_of c) = None" using assms(1) by simp
  define att where "att = event_at ttype (desc_of c) caller name
       (hex_encode (map (w_entropy w) [w_drawn w..<w_drawn w + 16])) (fk_now (w_fake w))"
  define ev where "ev = (resultEventAt (fk_wall (w_fake w1)) (att\<lparr>Event_DryRun := True\<rparr>)
      OutcomeSucceeded [])\<lparr>Event_Phase := PhaseResult\<rparr>"
  have "destructive_cmd (world_service ctx pol) ttype c caller name ops confirm True plan app w
       = (Ok (dryrun_Result p, None), add_event ev w1)"
    using assms(3,4)
    by (simp add: destructive_cmd_def onOk_def world_new_event Destructive_dry [OF g] attempt_def
        live_audit_result ret_run att_def [symmetric] ev_def)
  moreover have "Event_CommandID att = Desc_ID (desc_of c)" "Event_BreakGlass att = None"
    using assms(2) by (simp_all add: att_def event_at_def)
  ultimately show ?thesis
    by (intro exI [of _ ev]) (simp add: ev_def resultEventAt_def Let_def SeverityFor_success)
qed

theorem dry_run_audited_witness:
  "\<exists>ev. destructive_cmd (world_service Background demo_policy) ''topic'' ''T7'' demo_op ''orders'' demo_ops
      [] True (ret ''orders'') (\<lambda>_. panic :: (world, int) eff) demo_world
       = (Ok (dryrun_Result ''orders'', None), add_event ev (draw_id demo_world))
     \<and> Event_DryRun ev \<and> Event_Severity ev = SeverityHigh"
  using dry_run_audited [where caller = demo_op and c = "''T7''" and pol = demo_policy and w = demo_world
      and plan = "ret ''orders''" and p = "''orders''" and ?w1.0 = "draw_id demo_world" and ctx = Background
      and ttype = "''topic''" and name = "''orders''" and ops = demo_ops and confirm = "[]"
      and app = "\<lambda>_. panic :: (world, int) eff"]
  by (auto simp: ret_run)

section \<open>Bulk operations\<close>

text \<open>
  One invalid item stops a bulk operation before anything happens: the call fails with
  \<open>BULK_VALIDATION_FAILED\<close> whose details list exactly the failing items, by index and in order, and
  neither an audit sink nor an item's execution has run.
\<close>

theorem BulkRun_validates_all_first:
  assumes "\<exists>x \<in> set items. validate x \<noteq> None"
  shows "\<exists>failed. BulkRun auditor att resultFrom items validate execute s = (Err (bulkValidationError failed), s)
    \<and> failed = map (\<lambda>n. failed_item (int n) (the (validate (items ! n))))
        (filter (\<lambda>n. validate (items ! n) \<noteq> None) [0..<length items])"
  using BulkRun_invalid [OF assms, of auditor att resultFrom execute] validate_from_index [of 0 items validate]
  by (simp add: fail_run)

definition demo_validate :: "int \<Rightarrow> Err" where
  "demo_validate x = (if x = 2 then Some (PlainError ''bad'') else None)"

theorem BulkRun_validates_all_first_witness:
  "\<exists>failed. BulkRun [world_sink] demo_event (\<lambda>_. ret demo_event) [1, 2, 3] demo_validate (\<lambda>_. panic) demo_world
     = (Err (bulkValidationError failed), demo_world)
     \<and> failed = [failed_item 1 (PlainError ''bad'')]"
proof -
  have "\<exists>x \<in> set [1, 2, 3::int]. demo_validate x \<noteq> None" by (simp add: demo_validate_def)
  from BulkRun_validates_all_first [OF this, of "[world_sink]" demo_event "\<lambda>_. ret demo_event" "\<lambda>_. panic" demo_world]
  show ?thesis by (simp add: demo_validate_def [abs_def])
qed

text \<open>
  A valid bulk operation over items whose execution does not panic runs every item, in order, whatever the outcome of
  the others; it answers with one outcome per item, numbered in order, and a summary that counts them.
\<close>

theorem BulkExecute_runs_all:
  assumes "\<And>x s. fst (execute x s) \<noteq> Panic" "int (length items) < 9223372036854775808"
  shows "\<exists>res. BulkExecute items execute s = (Ok res, run_all items execute s)
    \<and> tally (BulkResult_Items res) (BulkResult_Summary res)
    \<and> length (BulkResult_Items res) = length items
    \<and> BulkSummary_Total (BulkResult_Summary res) = int (length items)"
proof -
  from BulkExecute_run_all [where execute = execute and items = items and s = s, OF assms(1)]
  obtain res where "BulkExecute items execute s = (Ok res, run_all items execute s)" by blast
  with BulkExecute_tally [OF this assms(2)] show ?thesis by simp
qed

definition demo_exec :: "int \<Rightarrow> (int, unit) eff" where
  "demo_exec x n = (if x = 1 then (Err (PlainError ''bad''), n + 1) else (Ok (), n + 10))"

theorem BulkExecute_runs_all_witness:
  "\<exists>res. BulkExecute [1, 2] demo_exec 0 = (Ok res, run_all [1, 2] demo_exec 0)
    \<and> tally (BulkResult_Items res) (BulkResult_Summary res) \<and> run_all [1, 2] demo_exec 0 = 11"
proof -
  have "fst (demo_exec x s) \<noteq> Panic" for x s by (simp add: demo_exec_def)
  moreover have "run_all [1, 2] demo_exec 0 = 11" by (simp add: demo_exec_def)
  moreover have "int (length [1, 2::int]) < 9223372036854775808" by simp
  ultimately show ?thesis
    using BulkExecute_runs_all [of demo_exec "[1, 2]" 0] by blast
qed

section \<open>The plan token\<close>

text \<open>
  The plan token depends on the command and the set of targets alone: neither their order nor
  duplicates change it.
\<close>

theorem Token_order_independent:
  assumes "set xs = set ys"
  shows "Token c xs = Token c ys"
  by (rule Token_set_eq [OF assms])

theorem Token_order_independent_witness:
  "Token ''T8'' [''b'', ''a'', ''b''] = Token ''T8'' [''a'', ''b'']"
  by (rule Token_order_independent) auto

text \<open>
  C25. Two plan tokens are equal exactly if the commands are and the target sets are, whatever the
  order and the repetitions of the targets, or if two different canonical texts collide under SHA-256;
  no target may be empty or hold a line feed.
\<close>

theorem Token_determines_targets:
  assumes "char_of (10::nat) \<notin> set c" "char_of (10::nat) \<notin> set c'"
    and "list_all plain_target xs" "list_all plain_target ys"
  shows "Token c xs = Token c' ys \<longleftrightarrow> (c = c' \<and> set xs = set ys) \<or>
    (token_canonical c xs \<noteq> token_canonical c' ys
      \<and> hex_encode (Sum256 (token_canonical c xs)) = hex_encode (Sum256 (token_canonical c' ys)))"
  using assms token_canonical_inj [of c xs c' ys] by (auto simp: Token_def token_canonical_def token_targets_eq)

theorem Token_determines_targets_witness:
  "Token ''T8'' [''b'', ''a''] = Token ''T8'' [''a'', ''b'', ''a''] \<longleftrightarrow>
    (''T8'' = ''T8'' \<and> set [''b'', ''a''] = set [''a'', ''b'', ''a'']) \<or>
    (token_canonical ''T8'' [''b'', ''a''] \<noteq> token_canonical ''T8'' [''a'', ''b'', ''a'']
      \<and> hex_encode (Sum256 (token_canonical ''T8'' [''b'', ''a'']))
        = hex_encode (Sum256 (token_canonical ''T8'' [''a'', ''b'', ''a''])))"
  by (rule Token_determines_targets) (auto simp: plain_target_def newline_char)

end
