(* ===== verification/GroupProps.thy ===== *)
theory GroupProps
  imports GroupService LiveReads
begin

text \<open>
  The group commands over the assembled gateway: lag, the protection of groups with members, and what
  cloning and resetting do to the committed offsets.
\<close>

section \<open>Describing a group\<close>

text \<open>
  G2: a description lists every committed offset of the group exactly once, sorted by topic and
  partition, its lag is the distance to the end offset and never negative, and the total is their sum.
\<close>

theorem group_description_lags:
  assumes "group_Describe svc g s = (Ok d, s')"
  shows "\<exists>s1 committed s2. FetchGroupOffsets (svc_admin svc) g s1 = (Ok committed, s2)
     \<and> map (\<lambda>od. (OD_Topic od, OD_Partition od)) (GD_Offsets d) = sort (mkeys committed)
     \<and> (\<forall>od \<in> set (GD_Offsets d). OD_Committed od = mget committed 0 (OD_Topic od, OD_Partition od)
          \<and> 0 \<le> OD_Lag od \<and> (in_int64 (OD_End od - OD_Committed od) \<longrightarrow> OD_Lag od = max (OD_End od - OD_Committed od) 0))
     \<and> GD_TotalLag d = wrap64 (\<Sum>od \<leftarrow> GD_Offsets d. OD_Lag od)"
proof -
  from assms obtain s1 committed s2 offsets totalLag s3
    where fetch: "FetchGroupOffsets (svc_admin svc) g s1 = (Ok committed, s2)"
      and res: "resolveOffsetDetails svc committed s2 = (Ok (offsets, totalLag), s3)"
      and d: "GD_Offsets d = offsets" "GD_TotalLag d = totalLag"
    by (auto simp: group_Describe_def onOk_eq_Ok ret_run)
  show ?thesis
    using resolveOffsetDetails_Ok [OF res] fetch unfolding d
    by (intro exI [of _ s1] exI [of _ committed] exI [of _ s2]) (simp add: lag_exact)
qed

definition demo_group :: fakeGroup where
  "demo_group = \<lparr>fg_id = ''g'', fg_state = ''Empty'', fg_protocolType = ''consumer'', fg_coordinatorID = 0,
     fg_offsets = [((''orders'', 0), 1)], fg_members = []\<rparr>"

lemma demo_groups [simp]: "m_groups (model_of demo_world) = [(''g'', demo_group)]"
  by (simp add: model_of_def demo_world_def demo_fake_def demo_group_def SeedTopic_def SeedGroup_def
      SeedBroker_def Fake_New_def upd_model_def demo_record_def zero_partition_def append_record_def
      fp_end_def Let_def numeral_2_eq_2)

section \<open>Reading ends\<close>

definition ends_of :: "model \<Rightarrow> string \<Rightarrow> (int32 \<times> int64) list" where
  "ends_of m t = per_partition fp_end (the (map_of (m_topics m) t))"

lemma live_ends:
  "live w \<Longrightarrow> map_of (m_topics (model_of w)) t \<noteq> None \<Longrightarrow>
     on_fake (fake_ListEndOffsets Background t) w
       = (Ok (ends_of (model_of w) t), log_call ''ListEndOffsets'' False None w)"
  by (auto simp: ends_of_def live_ListEndOffsets)

lemma fetch_ends_live:
  assumes "live w" "\<forall>tp \<in> set tps. map_of (m_topics (model_of w)) (fst tp) \<noteq> None"
  shows "\<exists>m w'. fetch_ends (world_service Background pol) tps w = (Ok m, w') \<and> reads_only w w'
    \<and> (\<forall>tp \<in> set tps. map_of m (fst tp) = Some (ends_of (model_of w) (fst tp)))"
proof -
  let ?E = "ends_of (model_of w)"
  let ?f = "\<lambda>(tp :: TopicPartition) m. if mhas m (fst tp) then m else mput (fst tp) (?E (fst tp)) m"
  have "\<exists>w'. fetch_ends (world_service Background pol) tps w = (Ok (fold ?f tps []), w') \<and> reads_only w w'"
    unfolding fetch_ends_def
  proof (rule forEach_reads)
    fix tp acc w1 assume tp: "tp \<in> set tps" and w1: "reads_only w w1"
    then have "live w1" "map_of (m_topics (model_of w1)) (fst tp) \<noteq> None"
      using assms reads_onlyD [OF w1] by auto
    from live_ends [OF this] w1
    show "\<exists>w2. (if mhas acc (fst tp) then ret acc
        else onOk (ListEndOffsets (svc_admin (world_service Background pol)) (fst tp))
               (\<lambda>e. ret (mput (fst tp) e acc))) w1 = (Ok (?f tp acc), w2) \<and> reads_only w w2"
      by (auto simp: ret_run onOk_def reads_onlyD)
  qed simp
  moreover have "(\<forall>t \<in> dom (map_of m). map_of m t = Some (?E t)) \<Longrightarrow>
      \<forall>t \<in> dom (map_of m) \<union> fst ` set tps. map_of (fold ?f tps m) t = Some (?E t)" for m
  proof (induction tps arbitrary: m)
    case (Cons tp tps)
    have "\<forall>t \<in> dom (map_of (?f tp m)). map_of (?f tp m) t = Some (?E t)"
      using Cons.prems by (auto simp: update_conv')
    from Cons.IH [OF this]
    have IH: "t \<in> dom (map_of (?f tp m)) \<union> fst ` set tps \<Longrightarrow> map_of (fold ?f tps (?f tp m)) t = Some (?E t)" for t
      by blast
    have dm: "dom (map_of (?f tp m)) = insert (fst tp) (dom (map_of m))"
      by (auto simp: update_conv' mhas_def)
    show ?case
    proof
      fix t assume "t \<in> dom (map_of m) \<union> fst ` set (tp # tps)"
      then have "t \<in> dom (map_of (?f tp m)) \<union> fst ` set tps" unfolding dm by auto
      from IH [OF this] show "map_of (fold ?f (tp # tps) m) t = Some (?E t)" by simp
    qed
  qed simp
  from this [of "[]"] have "\<forall>tp \<in> set tps. map_of (fold ?f tps []) (fst tp) = Some (?E (fst tp))"
    by simp
  ultimately show ?thesis by blast
qed

definition live_detail :: "model \<Rightarrow> (TopicPartition \<times> int64) list \<Rightarrow> TopicPartition \<Rightarrow> OffsetDetail" where
  "live_detail m committed tp =
    (let e = mget (ends_of m (fst tp)) 0 (snd tp); c = mget committed 0 tp
     in \<lparr>OD_Topic = fst tp, OD_Partition = snd tp, OD_Committed = c, OD_End = e, OD_Lag = lag e c\<rparr>)"

lemma group_Describe_live:
  assumes "live w" "map_of (m_groups (model_of w)) g = Some gr"
    and "\<forall>tp \<in> set (mkeys (fg_offsets gr)). map_of (m_topics (model_of w)) (fst tp) \<noteq> None"
  shows "\<exists>d w'. group_Describe (world_service Background pol) g w = (Ok d, w') \<and> reads_only w w'
    \<and> GD_Offsets d = map (live_detail (model_of w) (fg_offsets gr)) (sort (mkeys (fg_offsets gr)))
    \<and> GD_TotalLag d = sum64 (map OD_Lag (GD_Offsets d))"
proof -
  let ?w1 = "log_call ''DescribeGroups'' False None w"
  let ?w2 = "log_call ''FetchGroupOffsets'' False None ?w1"
  have "live ?w2" "\<forall>tp \<in> set (mkeys (fg_offsets gr)). map_of (m_topics (model_of ?w2)) (fst tp) \<noteq> None"
    using assms by simp_all
  from fetch_ends_live [OF this, of pol] obtain m w'
    where f: "fetch_ends (world_service Background pol) (mkeys (fg_offsets gr)) ?w2 = (Ok m, w')"
      "reads_only ?w2 w'"
      "\<forall>tp \<in> set (mkeys (fg_offsets gr)). map_of m (fst tp) = Some (ends_of (model_of w) (fst tp))"
    by auto
  have d: "map (offset_detail m (fg_offsets gr)) (sort (mkeys (fg_offsets gr)))
      = map (live_detail (model_of w) (fg_offsets gr)) (sort (mkeys (fg_offsets gr)))"
    using f(3) by (simp add: offset_detail_def live_detail_def mget_def)
  have g: "DescribeGroups (svc_admin (world_service Background pol)) [g] w = (Ok [toDomainGroup gr], ?w1)"
    "FetchGroupOffsets (svc_admin (world_service Background pol)) g ?w1 = (Ok (fg_offsets gr), ?w2)"
    using assms(1,2) by (simp_all add: live_DescribeGroup live_FetchGroupOffsets)
  show ?thesis
    using f(2)
    by (simp add: group_Describe_def resolveOffsetDetails_def onOk_def g [simplified] f(1) ret_run Let_def d
        reads_only_def del: map_map)
qed

theorem group_description_lags_witness:
  "\<exists>d w'. group_Describe (world_service Background demo_policy) ''g'' demo_world = (Ok d, w')
     \<and> GD_TotalLag d = wrap64 (\<Sum>od \<leftarrow> GD_Offsets d. OD_Lag od)"
proof -
  have "\<forall>tp \<in> set (mkeys (fg_offsets demo_group)). map_of (m_topics (model_of demo_world)) (fst tp) \<noteq> None"
    by (simp add: demo_group_def mkeys_def)
  from group_Describe_live [OF demo_live _ this, of "''g''" demo_policy] obtain d w'
    where d: "group_Describe (world_service Background demo_policy) ''g'' demo_world = (Ok d, w')"
    by auto
  from group_description_lags [OF d] d show ?thesis by blast
qed

section \<open>Groups with members\<close>

lemma groupState_live:
  assumes "live w" "map_of (m_groups (model_of w)) g = Some gr"
  shows "groupState (world_service Background pol) g w
    = (Ok (True, int (length (fg_members gr))), log_call ''DescribeGroups'' False None w)"
  using assms by (simp add: groupState_def attempt_def live_DescribeGroup ret_run toDomainGroup_def)

lemma groupState_missing:
  assumes "live w" "map_of (m_groups (model_of w)) g = None"
  shows "groupState (world_service Background pol) g w
    = (Ok (False, 0), log_call ''DescribeGroups'' False (Some (notFound ''group'')) w)"
  using assms
  by (simp add: groupState_def attempt_def live_DescribeGroup_missing ret_run notFound_def)

text \<open>
  C18. A group with members is never reset, deleted or cloned onto: each of the three commands answers
  with the group-active error, in a dry run as well, and changes neither the cluster's state nor the
  log of its mutating calls.
\<close>

theorem active_group_protected:
  assumes "live w" "map_of (m_groups (model_of w)) g = Some gr" "fg_members gr \<noteq> []"
    and "\<forall>c \<in> {''G4'', ''G5'', ''G7''}. Check caller (desc_of c) pol = None"
  shows "(\<exists>w'. group_Reset (world_service Background pol) caller g tgt topics confirm dryRun w
        = (Ok (zero_Result, Some groupActive), w') \<and> cluster w' = cluster w)
    \<and> (\<exists>w'. group_Delete (world_service Background pol) caller g confirm dryRun w
        = (Ok (zero_Result, Some groupActive), w') \<and> cluster w' = cluster w)
    \<and> (\<exists>w'. CloneOffsets (world_service Background pol) caller g source topics confirm dryRun w
        = (Ok (zero_Result, Some groupActive), w') \<and> cluster w' = cluster w)"
proof -
  let ?svc = "world_service Background pol"
  let ?w = "log_call ''DescribeGroups'' False None (draw_id w)"
  have st: "groupState ?svc g (draw_id w) = (Ok (True, int (length (fg_members gr))), ?w)"
    by (rule groupState_live) (simp_all add: assms)
  have n: "int (length (fg_members gr)) > 0" using assms(3) by simp
  have c: "cluster ?w = cluster w"
    by (simp add: cluster_def log_call_def draw_id_def)
  have "PlanReset ?svc g tgt topics (draw_id w) = (Err groupActive, ?w)"
    "PlanDeleteGroup ?svc g (draw_id w) = (Err groupActive, ?w)"
    "PlanCloneOffsets ?svc g source topics (draw_id w) = (Err groupActive, ?w)"
    using n by (simp_all add: PlanReset_def PlanDeleteGroup_def PlanCloneOffsets_def onOk_def st fail_run)
  with c assms(4) show ?thesis
    unfolding group_Reset_def group_Delete_def CloneOffsets_def
    by (simp add: destructive_plan_fails)
qed

definition demo_member :: GroupMember where
  "demo_member = \<lparr>GroupMember_MemberID = ''m1'', GroupMember_ClientID = ''c'', GroupMember_Host = ''h'',
     GroupMember_Assignments = [(''orders'', 0)]\<rparr>"

definition demo_busy_world :: world where
  "demo_busy_world = demo_world\<lparr>w_fake := SeedGroupMember ''g'' demo_member (w_fake demo_world)\<rparr>"

lemma demo_busy [simp]:
  "live demo_busy_world"
  "map_of (m_groups (model_of demo_busy_world)) ''g'' = Some (demo_group\<lparr>fg_members := [demo_member]\<rparr>)"
  using demo_live demo_groups
  by (simp_all add: demo_busy_world_def SeedGroupMember_def upd_model_def upd_group_def live_def
      model_of_def demo_group_def split: option.split)

lemma demo_group_passes [simp]:
  "Check demo_op (desc_of ''G4'') demo_policy = None" "Check demo_op (desc_of ''G5'') demo_policy = None"
  "Check demo_op (desc_of ''G6'') demo_policy = None" "Check demo_op (desc_of ''G7'') demo_policy = None"
  by (simp_all add: Check_pass_iff demo_policy_def mget_def)

theorem active_group_protected_witness:
  "\<exists>w'. group_Delete (world_service Background demo_policy) demo_op ''g'' ''g'' False demo_busy_world
      = (Ok (zero_Result, Some groupActive), w') \<and> cluster w' = cluster demo_busy_world"
  using active_group_protected [of demo_busy_world "''g''" "demo_group\<lparr>fg_members := [demo_member]\<rparr>" demo_op
      demo_policy undefined "[]" "''g''" False "[]"]
  by simp

section \<open>Committing offsets\<close>

definition committed :: "model \<Rightarrow> string \<Rightarrow> TopicPartition \<Rightarrow> int64 option" where
  "committed m g tp = (case map_of (m_groups m) g of None \<Rightarrow> None | Some gr \<Rightarrow> map_of (fg_offsets gr) tp)"

definition inactive :: "model \<Rightarrow> string \<Rightarrow> bool" where
  "inactive m g \<longleftrightarrow> (case map_of (m_groups m) g of None \<Rightarrow> True | Some gr \<Rightarrow> fg_members gr = [])"

text \<open>A commit writes its bindings over the group's, creating the group when it is missing.\<close>

definition commit_step :: "string \<Rightarrow> (TopicPartition \<times> int64) list \<Rightarrow> world \<Rightarrow> world" where
  "commit_step g offs w =
    log_call ''CommitGroupOffsets'' True None (set_model (snd (commit_offsets g offs (model_of w))) w)"

lemma commit_step_simps [simp]:
  "live (commit_step g offs w) = live w" "audit_trail (commit_step g offs w) = audit_trail w"
  by (simp_all add: commit_step_def)

lemma commit_live:
  assumes "live w" "inactive (model_of w) g"
  shows "on_fake (fake_CommitGroupOffsets Background g offs) w = (Ok (), commit_step g offs w)"
proof -
  have "commit_offsets g offs (model_of w) = (Ok (), snd (commit_offsets g offs (model_of w)))"
    using assms(2) by (auto simp: commit_offsets_def inactive_def Let_def split: option.splits)
  from live_alter [where g = "commit_offsets g offs", OF assms(1) this] show ?thesis
    by (simp add: fake_CommitGroupOffsets_def err_of_def commit_step_def)
qed

lemma commit_step_facts:
  assumes "inactive (model_of w) g" "wf_map offs"
  shows "\<forall>tp. committed (model_of (commit_step g offs w)) g tp
        = (case map_of offs tp of Some v \<Rightarrow> Some v | None \<Rightarrow> committed (model_of w) g tp)"
    and "\<forall>h. h \<noteq> g \<longrightarrow> map_of (m_groups (model_of (commit_step g offs w))) h = map_of (m_groups (model_of w)) h"
    and "m_topics (model_of (commit_step g offs w)) = m_topics (model_of w)"
    and "map_of (m_groups (model_of (commit_step g offs w))) g \<noteq> None"
  using assms(1) map_of_rev_wf [OF assms(2)]
  by (auto simp: commit_step_def commit_offsets_def inactive_def committed_def Let_def map_of_fold_mput_pairs
      map_add_def update_conv' split: option.splits)

lemma groupState_inactive:
  assumes "live w" "inactive (model_of w) g"
  shows "\<exists>w1. groupState (world_service Background pol) g w
      = (Ok (map_of (m_groups (model_of w)) g \<noteq> None, 0), w1) \<and> reads_only w w1"
  using assms
  by (cases "map_of (m_groups (model_of w)) g")
    (simp_all add: groupState_missing groupState_live inactive_def)

lemma fetch_committed:
  assumes "live w"
  shows "\<exists>cs w1. (if map_of (m_groups (model_of w)) g \<noteq> None
        then FetchGroupOffsets (svc_admin (world_service Background pol)) g else ret []) w = (Ok cs, w1)
      \<and> reads_only w w1 \<and> (\<forall>tp. map_of cs tp = committed (model_of w) g tp)"
  using assms
  by (cases "map_of (m_groups (model_of w)) g") (auto simp: live_FetchGroupOffsets ret_run committed_def)

definition clone_bindings :: "CloneOffsetsPlan \<Rightarrow> (TopicPartition \<times> int64) list" where
  "clone_bindings p = fold (\<lambda>d. mput (COD_Topic d, COD_Partition d) (COD_NewValue d)) (COP_Offsets p) []"

lemma PlanCloneOffsets_live:
  assumes "live w" "inactive (model_of w) tgt" "map_of (m_groups (model_of w)) source = Some sg"
  shows "\<exists>p w'. PlanCloneOffsets (world_service Background pol) tgt source topics w = (Ok p, w')
    \<and> reads_only w w' \<and> COP_Target p = tgt \<and> (\<forall>tp. map_of (clone_bindings p) tp =
        (if in_topics topics tp then committed (model_of w) source tp else None))"
proof -
  let ?svc = "world_service Background pol"
  let ?known = "map_of (m_groups (model_of w)) tgt \<noteq> None"
  obtain w1 where st: "groupState ?svc tgt w = (Ok (?known, 0), w1)" "reads_only w w1"
    using groupState_inactive [of w tgt pol] assms by auto
  have w1: "live w1" "model_of w1 = model_of w" using st(2) assms(1) by (simp_all add: reads_only_def)
  obtain cs w2 where fc: "(if ?known then FetchGroupOffsets (svc_admin ?svc) tgt else ret []) w1 = (Ok cs, w2)"
    "reads_only w1 w2"
    using fetch_committed [of w1 tgt pol] w1 by auto
  have w2: "live w2" "model_of w2 = model_of w" using fc(2) w1 by (simp_all add: reads_only_def)
  define tps where "tps = sort (filter (in_topics topics) (mkeys (fg_offsets sg)))"
  define p where "p = \<lparr>COP_Target = tgt, COP_Offsets = map (clone_detail cs (fg_offsets sg)) tps\<rparr>"
  have plan: "PlanCloneOffsets ?svc tgt source topics w
      = (Ok p, log_call ''FetchGroupOffsets'' False None w2)"
    using fc(1) w2 assms(3)
    by (simp add: PlanCloneOffsets_def onOk_def st(1) live_FetchGroupOffsets ret_run p_def tps_def
        split: prod.split)
  have "map_of (clone_bindings p) tp = (if in_topics topics tp then committed (model_of w) source tp else None)" for tp
    unfolding clone_bindings_def
    by (subst map_of_fold_graph [where h = "mget (fg_offsets sg) 0"])
      (auto simp: p_def tps_def clone_detail_def image_image committed_def assms(3)
        map_of_mget [where z = 0 and m = "fg_offsets sg"])
  moreover have "reads_only w (log_call ''FetchGroupOffsets'' False None w2)"
    using st(2) fc(2) by (auto intro: reads_only_trans)
  ultimately show ?thesis using plan by (auto simp: p_def)
qed

lemma ApplyCloneOffsets_live:
  assumes "live w" "inactive (model_of w) (COP_Target p)"
  shows "ApplyCloneOffsets (world_service Background pol) p w
      = (Ok \<lparr>COR_Target = COP_Target p, COR_Offsets = COP_Offsets p\<rparr>,
         commit_step (COP_Target p) (clone_bindings p) w)"
  by (simp add: ApplyCloneOffsets_def Let_def onOk_def clone_bindings_def [symmetric] ret_run
      commit_live [OF assms])

text \<open>
  C17. G7 executed: the target group's committed offsets are the source's, on the chosen topics, over
  its own; every other group and every topic stays as it was; the call is audited by an \<open>ATTEMPT\<close> and
  a \<open>RESULT\<close>.
\<close>

theorem clone_copies_offsets:
  assumes "live w" "Check caller (desc_of ''G7'') pol = None"
    and "map_of (m_groups (model_of w)) source \<noteq> None" "inactive (model_of w) tgt"
  shows "\<exists>p v w' ev ev2. CloneOffsets (world_service Background pol) caller tgt source topics tgt False w
       = (Ok (\<lparr>Result_DryRun = False, Result_Plan = Some p, Result_Value = Some v\<rparr>, None), w')
     \<and> (\<forall>tp. committed (model_of w') tgt tp =
          (case (if in_topics topics tp then committed (model_of w) source tp else None) of
             Some x \<Rightarrow> Some x | None \<Rightarrow> committed (model_of w) tgt tp))
     \<and> (\<forall>h. h \<noteq> tgt \<longrightarrow> map_of (m_groups (model_of w')) h = map_of (m_groups (model_of w)) h)
     \<and> m_topics (model_of w') = m_topics (model_of w)
     \<and> audit_trail w' = audit_trail w @ [ev, ev2] \<and> audited_pair ''G7'' caller ev ev2"
proof -
  let ?svc = "world_service Background pol"
  obtain sg where "map_of (m_groups (model_of w)) source = Some sg" using assms(3) by auto
  with PlanCloneOffsets_live [of "draw_id w" tgt source sg pol topics] assms
  obtain p w1 where plan: "PlanCloneOffsets ?svc tgt source topics (draw_id w) = (Ok p, w1)"
    and w1: "live w1" "model_of w1 = model_of w" "audit_trail w1 = audit_trail w"
    and p: "COP_Target p = tgt" "\<forall>tp. map_of (clone_bindings p) tp =
        (if in_topics topics tp then committed (model_of w) source tp else None)"
    by (auto simp: reads_only_def)
  let ?step = "\<lambda>ev. commit_step tgt (clone_bindings p) (add_event ev w1)"
  have act: "inactive (model_of (add_event ev w1)) tgt" for ev using assms(4) w1 by simp
  have app: "ApplyCloneOffsets ?svc p (add_event ev w1)
      = (Ok \<lparr>COR_Target = tgt, COR_Offsets = COP_Offsets p\<rparr>, ?step ev)" for ev
    using ApplyCloneOffsets_live [of "add_event ev w1" p pol] w1(1) act p(1) by simp
  have "\<exists>ev ev2. CloneOffsets ?svc caller tgt source topics tgt False w
       = (Ok (\<lparr>Result_DryRun = False, Result_Plan = Some p,
            Result_Value = Some \<lparr>COR_Target = tgt, COR_Offsets = COP_Offsets p\<rparr>\<rparr>, None),
          add_event ev2 (?step ev)) \<and> audited_pair ''G7'' caller ev ev2"
    unfolding CloneOffsets_def
    by (rule destructive_executes [where ?w1.0 = w1])
      (simp_all add: assms(1,2) plan w1(1) p(1) app CloneOffsetsPlan_ops_def)
  then obtain ev ev2 where run: "CloneOffsets ?svc caller tgt source topics tgt False w
       = (Ok (\<lparr>Result_DryRun = False, Result_Plan = Some p,
            Result_Value = Some \<lparr>COR_Target = tgt, COR_Offsets = COP_Offsets p\<rparr>\<rparr>, None),
          add_event ev2 (?step ev))" "audited_pair ''G7'' caller ev ev2"
    by blast
  have wf: "wf_map (clone_bindings p)" unfolding clone_bindings_def by (rule wf_map_fold_mput) simp
  note facts = commit_step_facts [OF act [of ev] wf, unfolded model_of_steps w1(2)]
  show ?thesis
    using run facts p(2) w1(3) by (intro exI conjI) (assumption | simp)+
qed

theorem clone_copies_offsets_witness:
  "\<exists>w'. committed (model_of w') ''h'' (''orders'', 0) = Some 1
     \<and> snd (CloneOffsets (world_service Background demo_policy) demo_op ''h'' ''g'' [] ''h'' False demo_world) = w'"
  using clone_copies_offsets [of demo_world demo_op demo_policy "''g''" "''h''" "[]"]
  by (auto simp: inactive_def committed_def demo_group_def in_topics_def)

section \<open>Resetting offsets\<close>

definition end_at :: "model \<Rightarrow> TopicPartition \<Rightarrow> int64" where
  "end_at m tp = mget (ends_of m (fst tp)) 0 (snd tp)"

lemma byTopic_keys_set: "set (byTopic_keys tps) = fst ` set tps"
proof -
  have "set (mkeys (fold (\<lambda>tp m. mput (fst tp) (mget m [] (fst tp) @ [snd tp]) m) tps m))
      = set (mkeys m) \<union> fst ` set tps" for m :: "(string \<times> int32 list) list"
    by (induction tps arbitrary: m) (auto simp: mkeys_def dom_update)
  then show ?thesis by (simp add: byTopic_keys_def mkeys_def)
qed

lemma wf_ends_of:
  assumes "map_of (m_topics m) t = Some ft" "length (ft_partitions ft) < 2147483648"
  shows "wf_map (ends_of m t)"
proof -
  have "i < length (ft_partitions ft) \<Longrightarrow> wrap32 (int i) = int i" for i
    using assms(2) by (intro wrap32_id) (simp add: in_int32_def)
  then have "map fst (per_partition fp_end ft) = map int [0..<length (ft_partitions ft)]"
    by (intro nth_equalityI) (simp_all add: per_partition_def indexed_def)
  then show ?thesis
    by (simp add: ends_of_def wf_map_def assms(1) distinct_map)
qed

lemma map_of_tagged:
  "map_of (map (\<lambda>d. ((t, fst d), snd d)) ds) tp = (if fst tp = t then map_of ds (snd tp) else None)"
  by (induction ds) auto

text \<open>Resolving every topic of the scope to its end offsets.\<close>

lemma resolve_latest:
  assumes "live w" "RT_Offsets tgt = []" "RT_Mode tgt = ''latest''"
    and "\<forall>t \<in> set ts. map_of (m_topics (model_of w)) t \<noteq> None \<and> wf_map (ends_of (model_of w) t)"
  shows "\<exists>aft w'. resolve_after (world_service Background pol) tgt ts w = (Ok aft, w') \<and> reads_only w w'
    \<and> (\<forall>tp. fst tp \<in> set ts \<longrightarrow> mget aft 0 tp = end_at (model_of w) tp)"
proof -
  let ?E = "ends_of (model_of w)"
  let ?f = "\<lambda>t (aft :: (TopicPartition \<times> int64) list). fold (\<lambda>(p, v). mput (t, p) v) (?E t) aft"
  have "\<exists>w'. resolve_after (world_service Background pol) tgt ts w = (Ok (fold ?f ts []), w') \<and> reads_only w w'"
    unfolding resolve_after_def
  proof (rule forEach_reads)
    fix t acc w1 assume t: "t \<in> set ts" and w1: "reads_only w w1"
    then have "live w1" "map_of (m_topics (model_of w1)) t \<noteq> None"
      using assms reads_onlyD [OF w1] by auto
    from live_ends [OF this] w1
    show "\<exists>w2. onOk (resolveResetTargetsForTopic (world_service Background pol) t tgt)
        (\<lambda>resolved. ret (fold (\<lambda>(p, v). mput (t, p) v) resolved acc)) w1 = (Ok (?f t acc), w2) \<and> reads_only w w2"
      using assms(2,3) by (simp add: resolveResetTargetsForTopic_def onOk_def ret_run reads_onlyD)
  qed simp
  moreover have step: "map_of (?f t m) tp
      = (if fst tp = t \<and> map_of (?E t) (snd tp) \<noteq> None then map_of (?E t) (snd tp) else map_of m tp)"
    if "wf_map (?E t)" for t m tp
  proof -
    have "?f t m = fold (\<lambda>d. mput (t, fst d) (snd d)) (?E t) m" by (simp add: case_prod_beta')
    then show ?thesis
      by (simp add: map_of_fold_mput map_add_def rev_map map_of_tagged map_of_rev_wf [OF that] split: option.split)
  qed
  moreover have "wf_ts ts \<Longrightarrow> map_of (fold ?f ts m) tp
      = (if fst tp \<in> set ts \<and> map_of (?E (fst tp)) (snd tp) \<noteq> None then map_of (?E (fst tp)) (snd tp) else map_of m tp)"
    if wf: "wf_ts = (\<lambda>ts. \<forall>t \<in> set ts. wf_map (?E t))" for m tp wf_ts
    unfolding wf
  proof (induction ts arbitrary: m)
    case (Cons t ts)
    then show ?case by (auto simp: step)
  qed simp
  from this [OF refl, of "[]"] assms(4)
  have "fst tp \<in> set ts \<Longrightarrow> mget (fold ?f ts []) 0 tp = end_at (model_of w) tp" for tp
    by (simp add: end_at_def mget_def split: option.split)
  ultimately show ?thesis by blast
qed

definition reset_bindings :: "ResetPlan \<Rightarrow> (TopicPartition \<times> int64) list" where
  "reset_bindings p = fold (\<lambda>d. mput (ROD_Topic d, ROD_Partition d) (ROD_After d)) (RP_Offsets p) []"

lemma ApplyReset_live:
  assumes "live w" "inactive (model_of w) (RP_GroupID p)"
  shows "ApplyReset (world_service Background pol) p w
      = (Ok \<lparr>RR_GroupID = RP_GroupID p, RR_Offsets = RP_Offsets p\<rparr>,
         commit_step (RP_GroupID p) (reset_bindings p) w)"
  by (simp add: ApplyReset_def Let_def onOk_def reset_bindings_def [symmetric] ret_run commit_live [OF assms])

text \<open>A group whose committed topics exist, with partition numbers that fit \<open>int32\<close>.\<close>

definition topics_exist :: "model \<Rightarrow> fakeGroup \<Rightarrow> bool" where
  "topics_exist m gr \<longleftrightarrow> (\<forall>tp \<in> set (mkeys (fg_offsets gr)).
     case map_of (m_topics m) (fst tp) of None \<Rightarrow> False | Some ft \<Rightarrow> length (ft_partitions ft) < 2147483648)"

lemma PlanReset_latest:
  assumes "live w" "map_of (m_groups (model_of w)) g = Some gr" "fg_members gr = []" "fg_offsets gr \<noteq> []"
    and "topics_exist (model_of w) gr" "RT_Offsets tgt = []" "RT_Mode tgt = ''latest''"
  shows "\<exists>p w'. PlanReset (world_service Background pol) g tgt [] w = (Ok p, w') \<and> reads_only w w'
    \<and> RP_GroupID p = g \<and> (\<forall>tp. map_of (reset_bindings p) tp =
        (if tp \<in> set (mkeys (fg_offsets gr)) then Some (end_at (model_of w) tp) else None))"
proof -
  let ?svc = "world_service Background pol" and ?tps = "mkeys (fg_offsets gr)"
  have "inactive (model_of w) g" using assms by (simp add: inactive_def)
  from groupState_inactive [OF assms(1) this, of pol] assms(2) obtain w1
    where st: "groupState ?svc g w = (Ok (True, 0), w1)" "reads_only w w1" by auto
  define w2 where "w2 = log_call ''FetchGroupOffsets'' False None w1"
  have w2: "live w2" "model_of w2 = model_of w" using st(2) assms(1) by (simp_all add: reads_only_def w2_def)
  have fetch: "on_fake (fake_FetchGroupOffsets Background g) w1 = (Ok (fg_offsets gr), w2)"
    using live_FetchGroupOffsets [of w1 g gr] st(2) assms(1,2) by (simp add: reads_only_def w2_def)
  have "\<forall>t \<in> set (byTopic_keys ?tps). map_of (m_topics (model_of w2)) t \<noteq> None \<and> wf_map (ends_of (model_of w2) t)"
    using assms(5) by (auto simp: byTopic_keys_set topics_exist_def w2 wf_ends_of split: option.splits)
  from resolve_latest [OF w2(1) assms(6,7) this, of pol] obtain aft w3
    where aft: "resolve_after ?svc tgt (byTopic_keys ?tps) w2 = (Ok aft, w3)" "reads_only w2 w3"
      "\<And>tp. fst tp \<in> fst ` set ?tps \<Longrightarrow> mget aft 0 tp = end_at (model_of w) tp"
    by (auto simp: byTopic_keys_set w2)
  define p where "p = \<lparr>RP_GroupID = g, RP_Offsets = sort_key (\<lambda>d. (ROD_Topic d, ROD_Partition d))
      (map (reset_detail aft [] (fg_offsets gr)) ?tps)\<rparr>"
  have "PlanReset ?svc g tgt [] w = (Ok p, w3)"
    using assms(4,6)
    by (simp add: PlanReset_def onOk_def st(1) fetch resolveResetScope_def ret_run aft(1) p_def)
  moreover have "map_of (reset_bindings p) tp
      = (if tp \<in> set ?tps then Some (end_at (model_of w) tp) else None)" for tp
    unfolding reset_bindings_def
    by (subst map_of_fold_graph [where h = "end_at (model_of w)"])
      (auto simp: p_def reset_detail_def mget_def [symmetric] image_image aft(3))
  moreover have "reads_only w w3" using st(2) aft(2) by (auto simp: w2_def reads_only_def)
  ultimately show ?thesis by (auto simp: p_def)
qed

lemma map_of_graph_keys:
  assumes "\<And>k. map_of m k = (if k \<in> A then Some (h k) else None)"
  shows "set (mkeys m) = A"
proof -
  have "set (mkeys m) = dom (map_of m)" by (simp add: mkeys_def dom_map_of_conv_image_fst)
  also have "\<dots> = A" using assms by (auto split: if_splits)
  finally show ?thesis .
qed

text \<open>A group whose committed offsets are the end offsets has no lag.\<close>

lemma group_Describe_no_lag:
  assumes "live w" "map_of (m_groups (model_of w)) g = Some gr" "topics_exist (model_of w) gr"
    and "\<And>tp. map_of (fg_offsets gr) tp = (if tp \<in> A then Some (end_at (model_of w) tp) else None)"
  shows "\<exists>d w'. group_Describe (world_service Background pol) g w = (Ok d, w')
    \<and> GD_TotalLag d = 0 \<and> (\<forall>od \<in> set (GD_Offsets d). OD_Lag od = 0)"
proof -
  have "\<forall>tp \<in> set (mkeys (fg_offsets gr)). map_of (m_topics (model_of w)) (fst tp) \<noteq> None"
    using assms(3) by (auto simp: topics_exist_def split: option.splits)
  from group_Describe_live [OF assms(1,2) this, of pol] obtain d w'
    where d: "group_Describe (world_service Background pol) g w = (Ok d, w')"
      "GD_Offsets d = map (live_detail (model_of w) (fg_offsets gr)) (sort (mkeys (fg_offsets gr)))"
      "GD_TotalLag d = sum64 (map OD_Lag (GD_Offsets d))"
    by auto
  have zero: "\<forall>od \<in> set (GD_Offsets d). OD_Lag od = 0"
    using map_of_graph_keys [OF assms(4)]
    by (auto simp: d(2) live_detail_def Let_def assms(4) mget_def [of "fg_offsets gr"] end_at_def lag_def wrap64_def)
  then have "sum_list (map OD_Lag (GD_Offsets d)) = 0"
    by (metis (mono_tags, lifting) map_eq_conv sum_list_0)
  with d zero show ?thesis by (simp add: sum64_eq wrap64_def)
qed

text \<open>
  C16. G4 with mode \<open>latest\<close>, executed on a group without members: afterwards the description of the
  group reports no lag, on any partition and in total. A partition that no longer exists counts as
  having end offset 0 on both sides.
\<close>

theorem reset_latest_clears_lag:
  assumes "live w" "Check caller (desc_of ''G4'') pol = None"
    and "map_of (m_groups (model_of w)) g = Some gr" "fg_members gr = []" "fg_offsets gr \<noteq> []"
    and "topics_exist (model_of w) gr" "RT_Offsets tgt = []" "RT_Mode tgt = ''latest''"
  shows "\<exists>p v w' d w''. group_Reset (world_service Background pol) caller g tgt [] g False w
       = (Ok (\<lparr>Result_DryRun = False, Result_Plan = Some p, Result_Value = Some v\<rparr>, None), w')
     \<and> group_Describe (world_service Background pol) g w' = (Ok d, w'')
     \<and> GD_TotalLag d = 0 \<and> (\<forall>od \<in> set (GD_Offsets d). OD_Lag od = 0)"
proof -
  let ?svc = "world_service Background pol" and ?tps = "mkeys (fg_offsets gr)"
  from PlanReset_latest [of "draw_id w" g gr tgt pol] assms obtain p w1
    where plan: "PlanReset ?svc g tgt [] (draw_id w) = (Ok p, w1)"
      and w1: "live w1" "model_of w1 = model_of w"
      and p: "RP_GroupID p = g"
        "\<forall>tp. map_of (reset_bindings p) tp = (if tp \<in> set ?tps then Some (end_at (model_of w) tp) else None)"
    by (auto simp: reads_only_def)
  let ?step = "\<lambda>ev. commit_step g (reset_bindings p) (add_event ev w1)"
  have act: "inactive (model_of (add_event ev w1)) g" for ev using assms(3,4) w1 by (simp add: inactive_def)
  have app: "ApplyReset ?svc p (add_event ev w1)
      = (Ok \<lparr>RR_GroupID = g, RR_Offsets = RP_Offsets p\<rparr>, ?step ev)" for ev
    using ApplyReset_live [of "add_event ev w1" p pol] w1(1) act p(1) by simp
  have "\<exists>ev ev2. group_Reset ?svc caller g tgt [] g False w
       = (Ok (\<lparr>Result_DryRun = False, Result_Plan = Some p,
            Result_Value = Some \<lparr>RR_GroupID = g, RR_Offsets = RP_Offsets p\<rparr>\<rparr>, None), add_event ev2 (?step ev))
      \<and> audited_pair ''G4'' caller ev ev2"
    unfolding group_Reset_def
    by (rule destructive_executes [where ?w1.0 = w1])
      (simp_all add: assms(1,2) plan w1(1) p(1) app ResetPlan_ops_def)
  then obtain ev ev2 where run: "group_Reset ?svc caller g tgt [] g False w
       = (Ok (\<lparr>Result_DryRun = False, Result_Plan = Some p,
            Result_Value = Some \<lparr>RR_GroupID = g, RR_Offsets = RP_Offsets p\<rparr>\<rparr>, None), add_event ev2 (?step ev))"
    by blast
  let ?w' = "add_event ev2 (?step ev)"
  have wf: "wf_map (reset_bindings p)" unfolding reset_bindings_def by (rule wf_map_fold_mput) simp
  note facts = commit_step_facts [OF act [of ev] wf, unfolded model_of_steps w1(2)]
  from facts(4) obtain gr' where gr': "map_of (m_groups (model_of ?w')) g = Some gr'" by auto
  have "map_of (fg_offsets gr') tp = (if tp \<in> set ?tps then Some (end_at (model_of w) tp) else None)" for tp
  proof -
    have "committed (model_of w) g tp = (if tp \<in> set ?tps then committed (model_of w) g tp else None)"
      using assms(3) by (simp add: committed_def mkeys_def map_of_eq_None_iff)
    moreover have "committed (model_of (?step ev)) g tp = map_of (fg_offsets gr') tp"
      using gr' by (simp add: committed_def)
    ultimately show ?thesis using facts(1) p(2) by (simp split: if_splits)
  qed
  moreover have "end_at (model_of w) = end_at (model_of ?w')"
    using facts(3) by (simp add: end_at_def ends_of_def fun_eq_iff)
  ultimately have offs: "map_of (fg_offsets gr') tp = (if tp \<in> set ?tps then Some (end_at (model_of ?w') tp) else None)" for tp
    by simp
  have "topics_exist (model_of ?w') gr'"
    using assms(6) facts(3) map_of_graph_keys [OF offs] by (simp add: topics_exist_def)
  from group_Describe_no_lag [OF _ gr' this offs, of pol] w1(1) run show ?thesis by auto
qed

definition demo_latest :: ResetTarget where
  "demo_latest = \<lparr>RT_Mode = ''latest'', RT_Offset = 0, RT_TimestampMs = 0, RT_Offsets = []\<rparr>"

theorem reset_latest_clears_lag_witness:
  "\<exists>w' d w''. snd (group_Reset (world_service Background demo_policy) demo_op ''g'' demo_latest [] ''g'' False
       demo_world) = w'
     \<and> group_Describe (world_service Background demo_policy) ''g'' w' = (Ok d, w'') \<and> GD_TotalLag d = 0"
  using reset_latest_clears_lag [of demo_world demo_op demo_policy "''g''" demo_group demo_latest]
  by (auto simp: demo_group_def demo_latest_def topics_exist_def mkeys_def demo_orders_def)

end
