(* ===== verification/Spec2Isabelle.thy ===== *)
theory Spec2Isabelle
  imports ConfigEnv ConfigProps AppProps FranzProps FranzClientProps PortSuiteProps AcceptanceReport GatewayRun WireProps FakeProps SecurityProps ClusterProps CoreProps GroupProps ReplayProps
begin

text \<open>
  A verification library of the Kafka gateway: an HTTP service that lists, reads, produces and administers a
  Kafka cluster under API keys, a policy and an audit trail.

  \<^bold>\<open>How the program fits together.\<close> \<^verbatim>\<open>cmd/gateway\<close> loads a configuration (\<^verbatim>\<open>internal/config\<close>) and runs
  \<^verbatim>\<open>internal/app\<close>, which builds a Kafka client, an auditor and the HTTP handler of \<^verbatim>\<open>internal/api\<close>. A request
  passes the middleware (request id, client address, API key, CORS, telemetry), the mux picks an operation, its
  handler maps the input to a call of a service (\<^verbatim>\<open>internal/service/topic\<close>, \<^verbatim>\<open>message\<close>, \<^verbatim>\<open>group\<close>, \<^verbatim>\<open>cluster\<close>,
  \<^verbatim>\<open>security\<close>), and the result or error becomes a reply. The services share a pipeline
  (\<^verbatim>\<open>internal/service/core\<close>, \<^verbatim>\<open>gates\<close>): gate, plan, dry run, confirmation, \<open>ATTEMPT\<close>, apply, \<open>RESULT\<close>. They
  reach the cluster through the port of \<^verbatim>\<open>internal/kafka\<close>, which
  \<^verbatim>\<open>internal/kafka/franz\<close> implements over franz-go and \<^verbatim>\<open>internal/kafka/fake\<close> as an in-memory cluster, and read messages with the bounded scan of \<^verbatim>\<open>internal/scan\<close>.

  \<^bold>\<open>How code becomes definitions.\<close> A Go function that may fail or change state is an effect
  \<open>'s \<Rightarrow> 'a res \<times> 's\<close>, where a result is \<open>Ok\<close>, \<open>Err\<close> of an error value or \<open>Panic\<close>; \<open>onOk\<close> is the early return
  on an error and \<open>attempt\<close> the inspection of one. A struct is a record, a slice a list, a map an association
  list, a pointer or nil-able slice an option. An interface is a record of effects over any state, so that the
  same definition of a service runs over every provider. Integers are \<open>int\<close> with the wrap-around written out
  (\<open>wrap32\<close>, \<open>wrap64\<close>) where the code can reach it.

  \<^bold>\<open>Theories.\<close>

  \<^item> Ground: \<open>Prelude\<close> (effects, maps, integers, lemma collections), \<open>GoErrors\<close> (\<^verbatim>\<open>kafka/errors.go\<close>,
    \<^verbatim>\<open>service/core/errors.go\<close>), \<open>TextParse\<close>, \<open>Utf8\<close>, \<open>NetAddr\<close>, \<open>GoTime\<close> (the standard library the
    code calls), \<open>KafkaTypes\<close> and \<open>KafkaPort\<close> (\<^verbatim>\<open>kafka/types.go\<close>, \<^verbatim>\<open>port.go\<close>).
  \<^item> Pipeline: \<open>Command\<close> (\<^verbatim>\<open>command/table.go\<close>), \<open>Gates\<close>, \<open>AuditTrail\<close>, \<open>CoreRun\<close>, \<open>Bulk\<close>, \<open>PlanToken\<close> (with
    SHA-256), \<open>ServiceBase\<close>; properties in \<open>CoreProps\<close>.
  \<^item> The in-memory cluster: \<open>FakeModel\<close>, \<open>FakeAdmin\<close>, \<open>FakeClient\<close>; its invariant in \<open>FakeProps\<close>. \<open>World\<close>
    assembles it with the recording sink, the clock and the source of event ids; \<open>LiveReads\<close> and \<open>ScanWorld\<close>
    say what its reads answer without injected faults; the inputs of the witnesses are at the end of \<open>World\<close>.
  \<^item> The franz-go adapter: \<open>FranzClient\<close> (errors, connections, consumer, producer), \<open>FranzAdmin\<close> (the 31 admin
    operations over a record \<open>Kadm\<close> of library calls), \<open>FranzKadm\<close> (what it relies on, and an instance of the
    library's interface for the witnesses, which is not a model of the library); \<open>Telemetry\<close> has the tracing decorators around the port, the
    logger and the providers; properties in \<open>FranzClientProps\<close> and \<open>FranzProps\<close>.
  \<^item> The contract suite of the port (\<^verbatim>\<open>kafka/porttest\<close>): \<open>PortSuite\<close> has every case as an executable definition
    over any implementation, \<open>PortSuiteProps\<close> evaluates them on the in-memory cluster. Each admin case starts from
    a new cluster there (the evaluation of one run over a shared one is too slow in the kernel); the consumer and
    producer suites run case after case. \<open>AcceptanceReport\<close> is the release gate (\<^verbatim>\<open>tools/acceptance-report\<close>), with
    the proof that its embedded catalog is the command table.
  \<^item> Services: \<open>TopicService\<close>, \<open>GroupService\<close>, \<open>ClusterService\<close>, \<open>SecurityService\<close>, \<open>MessageReads\<close>,
    \<open>MessageWrites\<close>, with the scan engine in \<open>ScanCodec\<close>, \<open>ScanRun\<close>, \<open>ScanMatch\<close>; properties in \<open>TopicProps\<close>,
    \<open>GroupProps\<close>, \<open>ClusterProps\<close>, \<open>SecurityProps\<close>, \<open>ScanProps\<close>, \<open>MessageProps\<close>, \<open>ProduceProps\<close>,
    \<open>ReplayProps\<close>; \<open>SafetyProps\<close> and \<open>ReadSafety\<close> have the non-interference of all commands.
  \<^item> HTTP: \<open>ApiErrors\<close> (\<^verbatim>\<open>api/errors\<close>), \<open>Middleware\<close>, \<open>Handlers\<close>, one \<open>DTO\<close> and one \<open>Routes\<close> theory per package
    of \<^verbatim>\<open>api\<close>, \<open>HealthRoutes\<close>, \<open>Operations\<close> (the operations as data), \<open>Gateway\<close> (\<^verbatim>\<open>api.go\<close>, \<^verbatim>\<open>commandid.go\<close>,
    \<^verbatim>\<open>routelookup.go\<close>); properties in \<open>MiddlewareProps\<close>, \<open>WireProps\<close>, \<open>GatewaySafety\<close>, \<open>GatewayProps\<close>,
    \<open>GatewayRun\<close>.
  \<^item> Start-up: \<open>ConfigModel\<close>, \<open>ConfigLoad\<close>, \<open>AppSetup\<close> (\<^verbatim>\<open>app/mapping.go\<close>, \<^verbatim>\<open>keygen.go\<close>),
    \<open>AppRun\<close> (\<^verbatim>\<open>app/run.go\<close>, \<^verbatim>\<open>shutdown.go\<close>, the audit sinks, \<^verbatim>\<open>main.go\<close>, \<^verbatim>\<open>probe.go\<close>); properties in
    \<open>ConfigProps\<close>, \<open>ConfigEnv\<close>, \<open>AppProps\<close>.

  \<^bold>\<open>Contracts.\<close> Each interface is a locale with the laws its clients rely on, interpreted on the model's own
  providers: \<open>admin_reads\<close> and \<open>admin_results\<close> of the port (by the in-memory cluster and by the assembled
  world), \<open>audit_sinks\<close> and \<open>audit_log\<close> of a sink (by the recording sink), \<open>service_env\<close> and \<open>message_env\<close> of a
  service's surroundings, \<open>backend\<close> of the gateway's operations. \<open>kadm_reads\<close> and \<open>kgo_reads\<close> say that the
  reading calls of the Kafka library only read and \<open>tracing\<close> that spans do not show; under them the adapter meets
  \<open>admin_reads\<close> (a \<open>sublocale\<close>) and the production wiring meets \<open>backend\<close>. A client's lemmas are proved once in its locale.
  The contract \<open>audit_sinks\<close> says that writing an event leaves the cluster alone; the Kafka sink, which writes
  into a topic of the cluster itself, is outside it, and the theorems on whole requests are about other sinks.

  \<^bold>\<open>What is shown.\<close>

  \<^item> Safety of the whole gateway: read-only mode, a reader's key and the read methods each keep the cluster from
    changing, whatever the request; nothing behind the middleware runs for an unauthenticated request; no
    sequence of dry runs and refused calls changes the cluster; break-glass lifts the data-plane lock only.
  \<^item> The pipeline: what the apply step needs, that auditing fails closed, what a plan token identifies.
  \<^item> The same over a real cluster, for any library that keeps its contract; what a library's error is on the wire,
    that secrets stay in the adapter, that connections are secured as configured, and the partitioner.
  \<^item> Function: what the executed commands do to the cluster and the audit trail (deletion, purge, reset, clone,
    replay, production, import, users), end to end for a deletion.
  \<^item> Scans: which of the delivered records a scan returns and counts, its bounds, that a scan resumed from the
    continuation of another leaves no gap and no overlap, and when a scan returns and when it does not.
  \<^item> Invariants, round trips and equivalences: the reachable states of the in-memory cluster, a loaded
    configuration and its environment variables, the codec, byte sizes, timestamps, export and import, users,
    the NDJSON parser.

  \<^bold>\<open>Fuel and bounds.\<close> The poll loop of a scan has no bound of its own in the code, so \<open>Run\<close> takes fuel and
  answers \<open>None\<close> when it is used up. Over stored records two polls are enough whatever the fuel above that
  (\<open>scan_of_stored_records_returns\<close>); over purged ones no fuel is (\<open>scan_of_purged_records_never_returns\<close>). A
  message operation over such a scan is a \<open>run\<close>, which ends or hangs; the gateway's state carries whether one
  hangs. Every other loop of the code runs over a list and is structural recursion.

  \<^bold>\<open>The order of maps.\<close> Go visits a map in an order that the runtime picks. Where the result depends on it - the
  polling of the assigned partitions by the in-memory consumer, whose records a limit cuts off - the order is
  explicit: the state carries the orders to come (\<open>fk_ranges\<close>, any list of any numbers), \<open>fake_Poll\<close> uses up one per
  poll (\<open>range_order\<close>, which reaches every permutation: \<open>range_order_any\<close>), and the theorems on scans, reads and
  replays hold for all of them, with the order of the partitions existential. Elsewhere a loop over a map fills
  another map, sorts its keys or folds them with an operation that commutes; there the order is the one of the association list.

  \<^bold>\<open>Parameters.\<close> \<open>regexp.Compile\<close>, \<open>jsonpath.Parse\<close>, \<open>json.Unmarshal\<close> and the text of \<open>json.Marshal\<close>,
  \<open>mime.ParseMediaType\<close>, koanf and the YAML parser, Huma's binding and writing with the answers of the mux for
  unregistered paths, OpenTelemetry, \<open>log/slog\<close>, the calls and response types of \<open>kgo\<close>, \<open>kadm\<close>, \<open>kmsg\<close> and
  \<open>kerr\<close>, the HTTP server and client, random bytes and the clocks are arguments of the definitions that use
  them. Their documented behaviour is a named hypothesis where a theorem needs it (\<open>http_contract\<close>,
  \<open>kadm_reads\<close>, \<open>kgo_reads\<close>, \<open>tracing\<close>).

  \<^bold>\<open>Not modelled.\<close> The test suites and the helpers of \<^verbatim>\<open>testutil\<close> and \<^verbatim>\<open>test\<close>, which are no part of the gateway. Concurrency of requests: each theorem on the cluster is about one call or a sequence of calls. The
  order of elements \<open>sort.Slice\<close> leaves equal is the one of the list, and of several entries of a map that a check rejects
  the first in the list's order is the one reported; the text of error messages built by libraries is not modelled
  either.
\<close>

end
